(* ===== verification/Prelude.thy ===== *)
theory Prelude imports Main "HOL-Library.AList" "HOL-Library.Multiset" begin

text \<open>
  Shared vocabulary of the development.

  A Go map is an association list with distinct keys: \<open>map_of m k\<close> reads it,
  \<open>AList.update k v m\<close> stores into it and \<open>AList.delete k m\<close> is the built-in \<open>delete\<close>. The
  order of the list is the (unspecified) iteration order of the map, so a statement that holds for
  every association list holds for every iteration order.

  Fallible Go functions return \<open>'e + 'a\<close> with \<open>Inl\<close> for the error.  Times are integers: \<open>nsec\<close>
  counts nanoseconds since the Unix epoch (a Go \<open>time.Time\<close>), \<open>usec\<close> counts seconds (what
  \<open>Time.Unix()\<close> returns and what is stored in files and tables).
\<close>

named_theorems go_map \<open>facts about maps held as association lists\<close>
definition the_default :: "'a \<Rightarrow> 'a option \<Rightarrow> 'a" where
  "the_default d x = (case x of Some y \<Rightarrow> y | None \<Rightarrow> d)"

named_theorems inv_intro \<open>rules that rebuild a component invariant after a step\<close>

type_synonym nsec = int
type_synonym usec = int

abbreviation second :: nsec where "second \<equiv> 1000000000"
abbreviation minute :: nsec where "minute \<equiv> 60 * second"
abbreviation hour :: nsec where "hour \<equiv> 60 * minute"

text \<open>The zero value of \<open>time.Time\<close>.\<close>

definition zero_time :: nsec where "zero_time = - 62135596800 * second"

definition unix :: "nsec \<Rightarrow> usec" where
  "unix t = t div second"

definition of_unix :: "usec \<Rightarrow> nsec" where
  "of_unix s = s * second"

lemma unix_of_unix [simp]: "unix (of_unix s) = s"
  by (simp add: unix_def of_unix_def)

lemma of_unix_unix_le: "of_unix (unix t) \<le> t"
  by (simp add: unix_def of_unix_def minus_mod_eq_div_mult [symmetric])

lemma less_unix_imp: "s < unix t \<Longrightarrow> of_unix s < t"
  unfolding unix_def of_unix_def by linarith

lemma unix_mono: "s \<le> t \<Longrightarrow> unix s \<le> unix t"
  by (simp add: unix_def zdiv_mono1)

subsection \<open>Maps\<close>

type_synonym ('k, 'v) gomap = "('k \<times> 'v) list"

definition gomap :: "('k, 'v) gomap \<Rightarrow> bool" where
  "gomap m \<longleftrightarrow> distinct (map fst m)"

lemma gomap_Nil [simp, inv_intro]: "gomap []"
  by (simp add: gomap_def)

lemma gomap_update [simp, inv_intro]: "gomap m \<Longrightarrow> gomap (AList.update k v m)"
  by (simp add: gomap_def distinct_update)

lemma gomap_delete [simp, inv_intro]: "gomap m \<Longrightarrow> gomap (AList.delete k m)"
  by (simp add: gomap_def distinct_delete)

lemma gomap_filter [simp, inv_intro]: "gomap m \<Longrightarrow> gomap (filter P m)"
  by (simp add: gomap_def distinct_map inj_on_filter_key_eq inj_on_def)

lemma map_of_update [simp, go_map]:
  "map_of (AList.update k v m) k' = (if k' = k then Some v else map_of m k')"
  by (simp add: update_conv')

lemma map_of_delete [simp, go_map]:
  "map_of (AList.delete k m) k' = (if k' = k then None else map_of m k')"
  by (simp add: delete_conv')

lemma map_of_filter_gomap [go_map]:
  "gomap m \<Longrightarrow> map_of (filter (\<lambda>(k, v). P k v) m) k =
     (case map_of m k of Some v \<Rightarrow> if P k v then Some v else None | None \<Rightarrow> None)"
proof (induction m)
  case (Cons a m)
  obtain k' v' where a: "a = (k', v')" by (cases a)
  have "map_of (filter (\<lambda>(k, v). P k v) m) k' = None" if "gomap (a # m)"
    using that a by (force simp: gomap_def map_of_eq_None_iff)
  with Cons a show ?case
    by (auto simp: gomap_def split: option.splits)
qed simp

lemma length_update_le: "length (AList.update k v m) \<le> Suc (length m)"
  by (induction m) auto

lemma length_update_present [go_map]:
  "map_of m k \<noteq> None \<Longrightarrow> length (AList.update k v m) = length m"
  by (induction m) auto

lemma length_update_absent [go_map]:
  "map_of m k = None \<Longrightarrow> length (AList.update k v m) = Suc (length m)"
  by (induction m) auto

lemma length_delete_le': "length (AList.delete k m) \<le> length m"
  by (simp add: AList.delete_eq)

lemma map_of_SomeI_gomap: "gomap m \<Longrightarrow> (k, v) \<in> set m \<Longrightarrow> map_of m k = Some v"
  by (simp add: gomap_def)

subsection \<open>Results\<close>

fun is_ok :: "'e + 'a \<Rightarrow> bool" where
  "is_ok (Inl _) = False"
| "is_ok (Inr _) = True"

lemma is_ok_iff: "is_ok r \<longleftrightarrow> (\<exists>x. r = Inr x)"
  by (cases r) auto

subsection \<open>Lists\<close>

lemma find_SomeD: "find P xs = Some x \<Longrightarrow> x \<in> set xs \<and> P x"
  by (induction xs) (auto split: if_splits)

lemma find_None_iff': "find P xs = None \<longleftrightarrow> (\<forall>x \<in> set xs. \<not> P x)"
  by (induction xs) auto

end
