(* ===== verification/GoStrings.thy ===== *)
theory GoStrings imports Prelude begin

text \<open>
  The part of Go's \<open>strings\<close>, \<open>bytes\<close> and \<open>strconv\<close> packages that the program uses.  A Go string
  is a sequence of bytes, here a HOL \<open>string\<close>.  Case folding and white space are the ASCII part of
  Go's Unicode tables: bytes from 128 upward are left alone.
\<close>

definition byte :: "char \<Rightarrow> int" where
  "byte c = of_char c"

fun lower_char :: "char \<Rightarrow> char" where
  "lower_char (Char b0 b1 b2 b3 b4 b5 b6 b7) =
     (if 65 \<le> byte (Char b0 b1 b2 b3 b4 b5 b6 b7) \<and> byte (Char b0 b1 b2 b3 b4 b5 b6 b7) \<le> 90
      then Char b0 b1 b2 b3 b4 True b6 b7
      else Char b0 b1 b2 b3 b4 b5 b6 b7)"

definition to_lower :: "string \<Rightarrow> string" where
  "to_lower s = map lower_char s"

definition equal_fold :: "string \<Rightarrow> string \<Rightarrow> bool" where
  "equal_fold s t \<longleftrightarrow> to_lower s = to_lower t"

lemma lower_char_idem [simp]: "lower_char (lower_char c) = lower_char c"
proof (cases c)
  case (Char b0 b1 b2 b3 b4 b5 b6 b7)
  then show ?thesis by (cases b0; cases b1; cases b2; cases b3; cases b4; cases b5; cases b6; cases b7)
      (simp_all add: byte_def)
qed

lemma to_lower_idem [simp]: "to_lower (to_lower s) = to_lower s"
  by (simp add: to_lower_def)

lemma to_lower_Nil [simp]: "to_lower [] = []" and
  to_lower_eq_Nil [simp]: "to_lower s = [] \<longleftrightarrow> s = []"
  by (simp_all add: to_lower_def)

lemma equal_fold_refl [simp]: "equal_fold s s"
  and equal_fold_sym: "equal_fold s t \<Longrightarrow> equal_fold t s"
  and equal_fold_trans: "equal_fold s t \<Longrightarrow> equal_fold t u \<Longrightarrow> equal_fold s u"
  by (simp_all add: equal_fold_def)

lemma equal_fold_to_lower [simp]: "equal_fold (to_lower s) t = equal_fold s t"
  "equal_fold s (to_lower t) = equal_fold s t"
  by (simp_all add: equal_fold_def)

subsection \<open>White space\<close>

definition is_space :: "char \<Rightarrow> bool" where
  "is_space c \<longleftrightarrow> c = CHR '' '' \<or> (9 \<le> byte c \<and> byte c \<le> 13)"

definition trim_left_space :: "string \<Rightarrow> string" where
  "trim_left_space s = dropWhile is_space s"

definition trim_space :: "string \<Rightarrow> string" where
  "trim_space s = rev (dropWhile is_space (rev (dropWhile is_space s)))"

lemma trim_space_Nil [simp]: "trim_space [] = []"
  by (simp add: trim_space_def)

lemma trim_space_last: "trim_space s \<noteq> [] \<Longrightarrow> \<not> is_space (last (trim_space s))"
  by (simp add: trim_space_def last_rev hd_dropWhile)

lemma dropWhile_hd_id: "\<not> P (hd s) \<Longrightarrow> dropWhile P s = s"
  by (cases s) auto

lemma trim_space_id: "s \<noteq> [] \<Longrightarrow> \<not> is_space (hd s) \<Longrightarrow> \<not> is_space (last s) \<Longrightarrow> trim_space s = s"
  by (simp add: trim_space_def dropWhile_hd_id hd_rev)

subsection \<open>Prefixes, suffixes and cuts\<close>

fun has_prefix :: "string \<Rightarrow> string \<Rightarrow> bool" where
  "has_prefix [] s = True"
| "has_prefix (p # ps) [] = False"
| "has_prefix (p # ps) (c # cs) = (p = c \<and> has_prefix ps cs)"

text \<open>The pattern comes first in all the functions of this section.\<close>

definition has_suffix :: "string \<Rightarrow> string \<Rightarrow> bool" where
  "has_suffix p s \<longleftrightarrow> has_prefix (rev p) (rev s)"

definition trim_prefix :: "string \<Rightarrow> string \<Rightarrow> string" where
  "trim_prefix p s = (if has_prefix p s then drop (length p) s else s)"

definition trim_suffix :: "string \<Rightarrow> string \<Rightarrow> string" where
  "trim_suffix p s = (if has_suffix p s then take (length s - length p) s else s)"

definition cut_prefix :: "string \<Rightarrow> string \<Rightarrow> string option" where
  "cut_prefix p s = (if has_prefix p s then Some (drop (length p) s) else None)"

definition cut_suffix :: "string \<Rightarrow> string \<Rightarrow> string option" where
  "cut_suffix p s = (if has_suffix p s then Some (take (length s - length p) s) else None)"

fun index_sub :: "string \<Rightarrow> string \<Rightarrow> nat option" where
  "index_sub p [] = (if p = [] then Some 0 else None)"
| "index_sub p (c # cs) =
     (if has_prefix p (c # cs) then Some 0 else map_option Suc (index_sub p cs))"

definition contains_sub :: "string \<Rightarrow> string \<Rightarrow> bool" where
  "contains_sub p s \<longleftrightarrow> index_sub p s \<noteq> None"

definition cut_at :: "string \<Rightarrow> string \<Rightarrow> (string \<times> string) option" where
  "cut_at sep s = map_option (\<lambda>i. (take i s, drop (i + length sep) s)) (index_sub sep s)"

lemma has_prefix_iff: "has_prefix p s \<longleftrightarrow> (\<exists>t. s = p @ t)"
  by (induction p s rule: has_prefix.induct) auto

lemma has_prefix_append [simp]: "has_prefix p (p @ s)"
  by (simp add: has_prefix_iff)

lemma has_prefix_self [simp]: "has_prefix p p"
  by (simp add: has_prefix_iff)

lemma has_suffix_iff: "has_suffix p s \<longleftrightarrow> (\<exists>t. s = t @ p)"
proof
  assume "has_suffix p s"
  then obtain t where "rev s = rev p @ t" by (auto simp: has_suffix_def has_prefix_iff)
  then have "s = rev t @ p" by (metis rev_append rev_rev_ident)
  then show "\<exists>t. s = t @ p" ..
qed (auto simp: has_suffix_def has_prefix_iff)

lemma has_suffix_single: "has_suffix [c] s \<longleftrightarrow> s \<noteq> [] \<and> last s = c"
  by (cases s rule: rev_cases) (auto simp: has_suffix_iff)

lemma trim_suffix_single: "last s \<noteq> c \<Longrightarrow> trim_suffix [c] s = s"
  by (simp add: trim_suffix_def has_suffix_single)

lemma trim_prefix_append [simp]: "trim_prefix p (p @ s) = s"
  by (simp add: trim_prefix_def)

lemma trim_suffix_append [simp]: "trim_suffix p (s @ p) = s"
  by (simp add: trim_suffix_def has_suffix_iff)

lemma length_trim_prefix_le: "length (trim_prefix p s) \<le> length s"
  by (simp add: trim_prefix_def)

lemma length_trim_prefix_less:
  "has_prefix p s \<Longrightarrow> p \<noteq> [] \<Longrightarrow> length (trim_prefix p s) < length s"
  by (auto simp: trim_prefix_def has_prefix_iff)

lemma trim_prefix_id: "\<not> has_prefix p s \<Longrightarrow> trim_prefix p s = s"
  by (simp add: trim_prefix_def)

lemma trim_prefix_eq_self: "p \<noteq> [] \<Longrightarrow> trim_prefix p s = s \<longleftrightarrow> \<not> has_prefix p s"
  by (metis length_trim_prefix_less less_irrefl trim_prefix_id)

lemma index_sub_Some:
  "index_sub p s = Some i \<Longrightarrow> s = take i s @ p @ drop (i + length p) s"
proof (induction s arbitrary: i)
  case (Cons c cs)
  show ?case
  proof (cases "has_prefix p (c # cs)")
    case True
    with Cons.prems show ?thesis by (auto simp: has_prefix_iff)
  next
    case False
    with Cons.prems obtain j where "index_sub p cs = Some j" "i = Suc j" by auto
    with Cons.IH show ?thesis by fastforce
  qed
qed (auto split: if_splits)

lemma cut_at_Some: "cut_at sep s = Some (a, b) \<Longrightarrow> s = a @ sep @ b"
  by (auto simp: cut_at_def dest: index_sub_Some)

subsection \<open>Splitting and joining\<close>

fun split_on :: "char \<Rightarrow> string \<Rightarrow> string list" where
  "split_on sep [] = [[]]"
| "split_on sep (c # cs) =
     (if c = sep then [] # split_on sep cs
      else (case split_on sep cs of w # ws \<Rightarrow> (c # w) # ws | [] \<Rightarrow> [[c]]))"

fun join_with :: "string \<Rightarrow> string list \<Rightarrow> string" where
  "join_with sep [] = []"
| "join_with sep [w] = w"
| "join_with sep (w # ws) = w @ sep @ join_with sep ws"

definition count_char :: "char \<Rightarrow> string \<Rightarrow> nat" where
  "count_char c s = length (filter ((=) c) s)"

lemma split_on_not_Nil [simp]: "split_on sep s \<noteq> []"
  by (induction s) (auto split: list.splits)

lemma length_split_on: "length (split_on sep s) = Suc (count_char sep s)"
  by (induction s) (auto simp: count_char_def split: list.splits)

lemma join_split_on: "join_with [sep] (split_on sep s) = s"
proof (induction s)
  case (Cons c cs)
  obtain w ws where ws: "split_on sep cs = w # ws" by (cases "split_on sep cs") simp_all
  with Cons show ?case by (cases ws) auto
qed simp

fun upper_char :: "char \<Rightarrow> char" where
  "upper_char (Char b0 b1 b2 b3 b4 b5 b6 b7) =
     (if 97 \<le> byte (Char b0 b1 b2 b3 b4 b5 b6 b7) \<and> byte (Char b0 b1 b2 b3 b4 b5 b6 b7) \<le> 122
      then Char b0 b1 b2 b3 b4 False b6 b7
      else Char b0 b1 b2 b3 b4 b5 b6 b7)"

definition to_upper :: "string \<Rightarrow> string" where
  "to_upper s = map upper_char s"

text \<open>Byte-wise order, as Go's \<open><\<close> on strings.\<close>

fun str_less :: "string \<Rightarrow> string \<Rightarrow> bool" where
  "str_less s [] = False"
| "str_less [] (d # ds) = True"
| "str_less (c # cs) (d # ds) = (byte c < byte d \<or> (c = d \<and> str_less cs ds))"

lemma byte_inj: "byte c = byte d \<longleftrightarrow> c = d"
  by (simp add: byte_def)

lemma str_less_irrefl [simp]: "\<not> str_less s s"
  by (induction s) auto

lemma str_less_trans: "str_less s t \<Longrightarrow> str_less t u \<Longrightarrow> str_less s u"
proof (induction s t arbitrary: u rule: str_less.induct)
  case (2 d ds)
  then show ?case by (cases u) auto
next
  case (3 c cs d ds)
  then show ?case by (cases u) auto
qed simp

lemma str_less_total: "s \<noteq> t \<Longrightarrow> str_less s t \<or> str_less t s"
proof (induction s t rule: str_less.induct)
  case (1 s)
  then show ?case by (cases s) auto
next
  case (3 c cs d ds)
  then show ?case using byte_inj by (metis linorder_neqE str_less.simps(3))
qed simp

text \<open>A stable sort by a comparison, as \<open>sort.SliceStable\<close>; \<open>sort.Strings\<close> is its instance.\<close>

fun insert_by :: "('a \<Rightarrow> 'a \<Rightarrow> bool) \<Rightarrow> 'a \<Rightarrow> 'a list \<Rightarrow> 'a list" where
  "insert_by lt x [] = [x]"
| "insert_by lt x (y # ys) = (if lt y x then y # insert_by lt x ys else x # y # ys)"

definition sort_by :: "('a \<Rightarrow> 'a \<Rightarrow> bool) \<Rightarrow> 'a list \<Rightarrow> 'a list" where
  "sort_by lt xs = foldr (insert_by lt) xs []"

definition sort_strings :: "string list \<Rightarrow> string list" where
  "sort_strings = sort_by str_less"

lemma mset_insert_by [simp]: "mset (insert_by lt x xs) = add_mset x (mset xs)"
  by (induction xs) auto

lemma mset_sort_by [simp]: "mset (sort_by lt xs) = mset xs"
  by (induction xs) (simp_all add: sort_by_def)

lemma set_sort_by [simp]: "set (sort_by lt xs) = set xs"
  by (metis mset_sort_by set_mset_mset)

text \<open>What a comparison must satisfy for the sort to sort.\<close>

definition strict_weak :: "('a \<Rightarrow> 'a \<Rightarrow> bool) \<Rightarrow> bool" where
  "strict_weak lt \<longleftrightarrow> (\<forall>a b. lt a b \<longrightarrow> \<not> lt b a) \<and> (\<forall>a b c. \<not> lt a b \<longrightarrow> \<not> lt b c \<longrightarrow> \<not> lt a c)"

lemma sorted_insert_by:
  assumes lt: "strict_weak lt"
  shows "sorted_wrt (\<lambda>a b. \<not> lt b a) xs \<Longrightarrow> sorted_wrt (\<lambda>a b. \<not> lt b a) (insert_by lt x xs)"
proof (induction xs)
  case (Cons y ys)
  have asym: "lt a b \<Longrightarrow> \<not> lt b a" and neg: "\<not> lt a b \<Longrightarrow> \<not> lt b c \<Longrightarrow> \<not> lt a c" for a b c
    using lt unfolding strict_weak_def by blast+
  have set: "set (insert_by lt x ys) = insert x (set ys)"
    by (metis mset_insert_by set_mset_add_mset_insert set_mset_mset)
  show ?case
  proof (cases "lt y x")
    case True
    with Cons asym set show ?thesis by auto
  next
    case False
    with Cons.prems show ?thesis by (auto dest: neg)
  qed
qed simp

lemma sorted_sort_by: "strict_weak lt \<Longrightarrow> sorted_wrt (\<lambda>a b. \<not> lt b a) (sort_by lt xs)"
  unfolding sort_by_def by (induction xs) (simp_all add: sorted_insert_by)

subsection \<open>Integers in decimal\<close>

definition digit_val :: "char \<Rightarrow> int option" where
  "digit_val c = (if 48 \<le> byte c \<and> byte c \<le> 57 then Some (byte c - 48) else None)"

fun digits_val :: "int \<Rightarrow> string \<Rightarrow> int option" where
  "digits_val acc [] = Some acc"
| "digits_val acc (c # cs) =
     (case digit_val c of None \<Rightarrow> None | Some d \<Rightarrow> digits_val (10 * acc + d) cs)"

definition max_int64 :: int where "max_int64 = 9223372036854775807"
definition min_int64 :: int where "min_int64 = - 9223372036854775808"

text \<open>\<open>strconv.ParseInt(s, 10, 64)\<close>: an optional sign, at least one digit, in range.\<close>

definition parse_int :: "string \<Rightarrow> int option" where
  "parse_int s =
     (let (neg, ds) = (case s of
          CHR ''-'' # cs \<Rightarrow> (True, cs)
        | CHR ''+'' # cs \<Rightarrow> (False, cs)
        | _ \<Rightarrow> (False, s))
      in if ds = [] then None
         else (case digits_val 0 ds of
            None \<Rightarrow> None
          | Some n \<Rightarrow> (let v = (if neg then - n else n)
                       in if min_int64 \<le> v \<and> v \<le> max_int64 then Some v else None)))"

definition digit_char :: "int \<Rightarrow> char" where
  "digit_char d = ''0123456789'' ! nat d"

text \<open>The decimal digits of a nonnegative integer, without leading zeros.\<close>

function show_dec :: "int \<Rightarrow> string" where
  "show_dec n = (if n < 10 then [digit_char n] else show_dec (n div 10) @ [digit_char (n mod 10)])"
  by pat_completeness auto
termination
  by (relation "measure nat") auto

declare show_dec.simps [simp del]

definition show_int :: "int \<Rightarrow> string" where
  "show_int i = (if i < 0 then ''-'' @ show_dec (- i) else show_dec i)"

lemma digit_val_digit_char: "0 \<le> d \<Longrightarrow> d < 10 \<Longrightarrow> digit_val (digit_char d) = Some d"
proof -
  assume "0 \<le> d" "d < 10"
  then have "d = 0 \<or> d = 1 \<or> d = 2 \<or> d = 3 \<or> d = 4 \<or> d = 5 \<or> d = 6 \<or> d = 7 \<or> d = 8 \<or> d = 9" by presburger
  then show ?thesis by (auto simp: digit_char_def digit_val_def byte_def)
qed

lemma show_dec_not_Nil [simp]: "show_dec n \<noteq> []"
  by (subst show_dec.simps) simp

lemma digits_val_append:
  "digits_val a (xs @ ys) = (case digits_val a xs of None \<Rightarrow> None | Some v \<Rightarrow> digits_val v ys)"
  by (induction xs arbitrary: a) (auto split: option.splits)

lemma digits_val_show_dec: "0 \<le> n \<Longrightarrow> digits_val 0 (show_dec n) = Some n"
proof (induction n rule: show_dec.induct)
  case (1 n)
  show ?case
  proof (cases "n < 10")
    case True
    with 1 show ?thesis by (subst show_dec.simps) (simp add: digit_val_digit_char)
  next
    case False
    then have "digits_val 0 (show_dec (n div 10)) = Some (n div 10)" using 1 by simp
    with False show ?thesis
      by (subst show_dec.simps) (simp add: digits_val_append digit_val_digit_char)
  qed
qed

lemma digits_val_shift:
  "digits_val a s = Some v \<Longrightarrow> digits_val (a + b) s = Some (v + b * 10 ^ length s)"
proof (induction s arbitrary: a b)
  case (Cons c s)
  then obtain d where d: "digit_val c = Some d" "digits_val (10 * a + d) s = Some v" by (auto split: option.splits)
  have "10 * (a + b) + d = 10 * a + d + 10 * b" by simp
  with d Cons.IH [OF d(2), of "10 * b"] show ?case by (simp add: ac_simps)
qed simp

lemma digits_val_bounds:
  "digits_val 0 s = Some v \<Longrightarrow> 0 \<le> v \<and> v < 10 ^ length s"
proof (induction s arbitrary: v rule: rev_induct)
  case (snoc c s)
  then obtain u d where u: "digits_val 0 s = Some u" "digit_val c = Some d" "v = 10 * u + d"
    by (auto simp: digits_val_append split: option.splits)
  moreover have "0 \<le> d \<and> d < 10" using u(2) by (auto simp: digit_val_def split: if_splits)
  ultimately show ?case using snoc.IH [OF u(1)] by simp
qed simp

lemma length_show_dec: "0 \<le> n \<Longrightarrow> n < 10 ^ k \<Longrightarrow> 0 < k \<Longrightarrow> length (show_dec n) \<le> k"
proof (induction n arbitrary: k rule: show_dec.induct)
  case (1 n)
  show ?case
  proof (cases "n < 10")
    case True
    with 1 show ?thesis by (subst show_dec.simps) simp
  next
    case False
    then obtain j where k: "k = Suc j" "0 < j" using 1 by (cases k; cases "k - 1") auto
    have "n div 10 < 10 ^ j" using 1(3) k by (simp add: div_less_iff_less_mult mult.commute)
    with 1 False k have "length (show_dec (n div 10)) \<le> j" by simp
    with False k show ?thesis by (subst show_dec.simps) simp
  qed
qed

end
