(* ===== verification/GoJson.thy ===== *)
theory GoJson imports GoStrings begin

text \<open>
  The part of \<open>encoding/json\<close> and \<open>encoding/base64\<close> that the program uses: a parser from bytes to
  JSON values, the decoding of struct fields, and the decoding into \<open>any\<close>.

  \<^item> A number keeps its literal; decoding into \<open>any\<close> rounds it to a \<open>float64\<close>.
  \<^item> Field names of structs match keys up to letter case, later keys override earlier ones, \<open>null\<close>
    leaves a field alone, and a value of the wrong type leaves the field alone and makes
    \<open>Unmarshal\<close> return an error after the rest of the document is decoded, all as in Go.
  \<^item> Go's limit of 10000 nested levels and its replacement of invalid UTF-8 are not modelled.
\<close>

subsection \<open>JSON values and their parser\<close>

datatype json =
    JNull
  | JBool bool
  | JNum string
  | JStr string
  | JArr "json list"
  | JObj "(string \<times> json) list"

definition json_ws :: "char \<Rightarrow> bool" where
  "json_ws c \<longleftrightarrow> c = CHR '' '' \<or> byte c = 9 \<or> byte c = 10 \<or> byte c = 13"

definition skip_ws :: "string \<Rightarrow> string" where
  "skip_ws s = dropWhile json_ws s"

lemma length_skip_ws: "length (skip_ws s) \<le> length s"
  by (simp add: skip_ws_def length_dropWhile_le)

definition is_digit :: "char \<Rightarrow> bool" where
  "is_digit c \<longleftrightarrow> 48 \<le> byte c \<and> byte c \<le> 57"

definition scan_int_part :: "string \<Rightarrow> (string \<times> string) option" where
  "scan_int_part s = (case s of
     [] \<Rightarrow> None
   | c # cs \<Rightarrow>
       if c = CHR ''0'' then Some (''0'', cs)
       else if is_digit c then Some (takeWhile is_digit s, dropWhile is_digit s)
       else None)"

definition scan_frac :: "string \<Rightarrow> (string \<times> string) option" where
  "scan_frac s = (case s of
     CHR ''.'' # cs \<Rightarrow>
       (let ds = takeWhile is_digit cs
        in if ds = [] then None else Some (CHR ''.'' # ds, dropWhile is_digit cs))
   | _ \<Rightarrow> Some ([], s))"

definition scan_exp :: "string \<Rightarrow> (string \<times> string) option" where
  "scan_exp s = (case s of
     [] \<Rightarrow> Some ([], s)
   | e # cs \<Rightarrow>
       if e = CHR ''e'' \<or> e = CHR ''E'' then
         (let (sg, cs') = (case cs of
              c # r \<Rightarrow> if c = CHR ''-'' \<or> c = CHR ''+'' then ([c], r) else ([], cs)
            | [] \<Rightarrow> ([], cs));
              ds = takeWhile is_digit cs'
          in if ds = [] then None else Some (e # sg @ ds, dropWhile is_digit cs'))
       else Some ([], s))"

definition scan_number :: "string \<Rightarrow> (string \<times> string) option" where
  "scan_number s =
     (let (sg, s0) = (case s of c # r \<Rightarrow> if c = CHR ''-'' then ([c], r) else ([], s) | [] \<Rightarrow> ([], s))
      in case scan_int_part s0 of None \<Rightarrow> None
       | Some (ip, s1) \<Rightarrow> (case scan_frac s1 of None \<Rightarrow> None
           | Some (fp, s2) \<Rightarrow> (case scan_exp s2 of None \<Rightarrow> None
               | Some (ep, s3) \<Rightarrow> Some (sg @ ip @ fp @ ep, s3))))"

definition hex_val :: "char \<Rightarrow> int option" where
  "hex_val c = (let n = byte c in
     if 48 \<le> n \<and> n \<le> 57 then Some (n - 48)
     else if 97 \<le> n \<and> n \<le> 102 then Some (n - 87)
     else if 65 \<le> n \<and> n \<le> 70 then Some (n - 55)
     else None)"

definition hex4 :: "string \<Rightarrow> (int \<times> string) option" where
  "hex4 s = (case s of
     a # b # c # d # r \<Rightarrow>
       (case (hex_val a, hex_val b, hex_val c, hex_val d) of
          (Some w, Some x, Some y, Some z) \<Rightarrow> Some (((w * 16 + x) * 16 + y) * 16 + z, r)
        | _ \<Rightarrow> None)
   | _ \<Rightarrow> None)"

definition utf8_encode :: "int \<Rightarrow> string" where
  "utf8_encode n =
     (if n < 128 then [char_of n]
      else if n < 2048 then [char_of (192 + n div 64), char_of (128 + n mod 64)]
      else if n < 65536 then
        [char_of (224 + n div 4096), char_of (128 + n div 64 mod 64), char_of (128 + n mod 64)]
      else
        [char_of (240 + n div 262144), char_of (128 + n div 4096 mod 64),
         char_of (128 + n div 64 mod 64), char_of (128 + n mod 64)])"

text \<open>The escape \<open>\u\<close>: a surrogate pair is one code point, a lone surrogate is U+FFFD.\<close>

definition unescape_u :: "string \<Rightarrow> (string \<times> string) option" where
  "unescape_u s = (case hex4 s of None \<Rightarrow> None
     | Some (n, r) \<Rightarrow>
         if 55296 \<le> n \<and> n < 56320 then
           (case r of
              a # b # r' \<Rightarrow>
                (if byte a = 92 \<and> b = CHR ''u'' then
                   (case hex4 r' of
                      Some (m, r'') \<Rightarrow>
                        if 56320 \<le> m \<and> m < 57344
                        then Some (utf8_encode (65536 + (n - 55296) * 1024 + (m - 56320)), r'')
                        else Some (utf8_encode 65533, r)
                    | None \<Rightarrow> Some (utf8_encode 65533, r))
                 else Some (utf8_encode 65533, r))
            | _ \<Rightarrow> Some (utf8_encode 65533, r))
         else if 56320 \<le> n \<and> n < 57344 then Some (utf8_encode 65533, r)
         else Some (utf8_encode n, r))"

definition unescape_char :: "char \<Rightarrow> string option" where
  "unescape_char c =
     (if byte c = 34 \<or> byte c = 92 \<or> c = CHR ''/'' then Some [c]
      else if c = CHR ''b'' then Some [char_of (8::int)]
      else if c = CHR ''f'' then Some [char_of (12::int)]
      else if c = CHR ''n'' then Some [char_of (10::int)]
      else if c = CHR ''r'' then Some [char_of (13::int)]
      else if c = CHR ''t'' then Some [char_of (9::int)]
      else None)"

text \<open>The rest of a string literal after its opening quote.\<close>

lemma length_hex4: "hex4 s = Some (n, r) \<Longrightarrow> length r < length s"
  by (auto simp: hex4_def split: list.splits option.splits)

lemma length_unescape_u: "unescape_u s = Some (t, r) \<Longrightarrow> length r < length s"
  unfolding unescape_u_def
  by (auto dest!: length_hex4 split: option.splits list.splits if_splits prod.splits)

function scan_string :: "string \<Rightarrow> (string \<times> string) option" where
  "scan_string s = (case s of
     [] \<Rightarrow> None
   | c # cs \<Rightarrow>
       if byte c = 34 then Some ([], cs)
       else if byte c < 32 then None
       else if byte c = 92 then
         (case cs of
            [] \<Rightarrow> None
          | e # r \<Rightarrow>
              if e = CHR ''u'' then
                (case unescape_u r of None \<Rightarrow> None
                 | Some (u, r') \<Rightarrow>
                     if length r' < length s
                     then map_option (\<lambda>(t, rest). (u @ t, rest)) (scan_string r') else None)
              else
                (case unescape_char e of None \<Rightarrow> None
                 | Some u \<Rightarrow> map_option (\<lambda>(t, rest). (u @ t, rest)) (scan_string r)))
       else map_option (\<lambda>(t, rest). (c # t, rest)) (scan_string cs))"
  by pat_completeness auto
termination
  by (relation "measure length") auto

declare scan_string.simps [simp del]

definition expect_lit :: "string \<Rightarrow> json \<Rightarrow> string \<Rightarrow> (json \<times> string) option" where
  "expect_lit w v s = map_option (Pair v) (cut_prefix w s)"

text \<open>
  The length tests before the recursive calls always succeed (every scanner consumes input); they
  make the termination argument local.
\<close>

function jvalue :: "string \<Rightarrow> (json \<times> string) option"
  and jelems :: "string \<Rightarrow> (json list \<times> string) option"
  and jmembers :: "string \<Rightarrow> ((string \<times> json) list \<times> string) option" where
  "jvalue s = (case skip_ws s of
     [] \<Rightarrow> None
   | c # cs \<Rightarrow>
       if byte c = 34 then map_option (\<lambda>(t, r). (JStr t, r)) (scan_string cs)
       else if c = CHR ''['' then
         (case skip_ws cs of
            d # r \<Rightarrow> if d = CHR '']'' then Some (JArr [], r)
                     else if length cs < length s
                     then map_option (\<lambda>(vs, r'). (JArr vs, r')) (jelems cs) else None
          | [] \<Rightarrow> None)
       else if c = CHR ''{'' then
         (case skip_ws cs of
            d # r \<Rightarrow> if d = CHR ''}'' then Some (JObj [], r)
                     else if length cs < length s
                     then map_option (\<lambda>(vs, r'). (JObj vs, r')) (jmembers cs) else None
          | [] \<Rightarrow> None)
       else if c = CHR ''t'' then expect_lit ''true'' (JBool True) (c # cs)
       else if c = CHR ''f'' then expect_lit ''false'' (JBool False) (c # cs)
       else if c = CHR ''n'' then expect_lit ''null'' JNull (c # cs)
       else map_option (\<lambda>(n, r). (JNum n, r)) (scan_number (c # cs)))"
| "jelems s = (case jvalue s of None \<Rightarrow> None
     | Some (v, r) \<Rightarrow>
         (case skip_ws r of
            [] \<Rightarrow> None
          | c # cs \<Rightarrow>
              if c = CHR '']'' then Some ([v], cs)
              else if c = CHR '','' \<and> length cs < length s
              then map_option (\<lambda>(vs, r'). (v # vs, r')) (jelems cs)
              else None))"
| "jmembers s = (case skip_ws s of
     [] \<Rightarrow> None
   | q # qs \<Rightarrow>
       if byte q \<noteq> 34 then None
       else (case scan_string qs of None \<Rightarrow> None
         | Some (k, r) \<Rightarrow>
             (case skip_ws r of
                [] \<Rightarrow> None
              | c # cs \<Rightarrow>
                  if c = CHR '':'' \<and> length cs < length s then
                    (case jvalue cs of None \<Rightarrow> None
                     | Some (v, r') \<Rightarrow>
                         (case skip_ws r' of
                            [] \<Rightarrow> None
                          | d # ds \<Rightarrow>
                              if d = CHR ''}'' then Some ([(k, v)], ds)
                              else if d = CHR '','' \<and> length ds < length s
                              then map_option (\<lambda>(ms, r''). ((k, v) # ms, r'')) (jmembers ds)
                              else None))
                  else None)))"
  by pat_completeness auto
termination
  by (relation "measure (case_sum (\<lambda>s. 2 * length s) (case_sum (\<lambda>s. 2 * length s + 1) (\<lambda>s. 2 * length s + 1)))")
     auto

declare jvalue.simps [simp del] jelems.simps [simp del] jmembers.simps [simp del]

text \<open>\<open>json.Unmarshal\<close> checks the whole document before it decodes anything.\<close>

definition json_parse :: "string \<Rightarrow> json option" where
  "json_parse s = (case jvalue s of
     Some (v, r) \<Rightarrow> if skip_ws r = [] then Some v else None
   | None \<Rightarrow> None)"

subsection \<open>float64\<close>

text \<open>A finite \<open>float64\<close> \<open>(m, e)\<close> is \<open>m * 2 ^ e\<close>.\<close>

type_synonym float64 = "int \<times> int"

function bitlen :: "int \<Rightarrow> int" where
  "bitlen n = (if n \<le> 0 then 0 else 1 + bitlen (n div 2))"
  by pat_completeness auto
termination
  by (relation "measure nat") auto

declare bitlen.simps [simp del]

definition pow2 :: "int \<Rightarrow> int" where
  "pow2 e = 2 ^ nat e"

definition round_half_even :: "int \<Rightarrow> int \<Rightarrow> int" where
  "round_half_even n d =
     (let q = n div d; r = n mod d
      in if 2 * r < d then q else if 2 * r > d then q + 1 else if even q then q else q + 1)"

definition scaled :: "int \<Rightarrow> int \<Rightarrow> int \<Rightarrow> int" where
  "scaled n d e =
     (if e \<ge> 0 then round_half_even n (d * pow2 e) else round_half_even (n * pow2 (- e)) d)"

text \<open>The \<open>float64\<close> nearest to the ratio \<open>n / d\<close> of a nonnegative and a positive integer.\<close>

definition nearest_float :: "int \<Rightarrow> int \<Rightarrow> float64" where
  "nearest_float n d =
     (if n = 0 then (0, 0)
      else (let e0 = bitlen n - bitlen d - 53;
                big = (if e0 \<ge> 0 then n \<ge> d * pow2 e0 * pow2 53 else n * pow2 (- e0) \<ge> d * pow2 53);
                e = max (- 1074) (if big then e0 + 1 else e0)
            in (scaled n d e, e)))"

text \<open>\<open>strconv.ParseFloat\<close> on a JSON number literal; \<open>None\<close> is a range error.\<close>

definition float_of_literal :: "string \<Rightarrow> float64 option" where
  "float_of_literal s =
     (let neg = has_prefix ''-'' s;
          s0 = trim_prefix ''-'' s;
          ip = takeWhile is_digit s0; s1 = dropWhile is_digit s0;
          (fp, s2) = (case s1 of c # cs \<Rightarrow> if c = CHR ''.'' then (takeWhile is_digit cs, dropWhile is_digit cs) else ([], s1)
                              | [] \<Rightarrow> ([], []));
          ex = (case s2 of c # cs \<Rightarrow> the_default 0 (parse_int cs) | [] \<Rightarrow> 0);
          digs = the_default 0 (digits_val 0 (ip @ fp));
          p10 = ex - int (length fp);
          (m, e) = (if p10 \<ge> 0 then nearest_float (digs * 10 ^ nat p10) 1
                    else nearest_float digs (10 ^ nat (- p10)))
      in if e \<ge> 0 \<and> bitlen m + e > 1024 then None
         else Some (if neg then - m else m, e))"

text \<open>
  Conversion to \<open>int64\<close> truncates toward zero.  Go leaves a result out of range to the
  implementation; on amd64 it is the smallest \<open>int64\<close>.
\<close>

definition float_trunc :: "float64 \<Rightarrow> int" where
  "float_trunc f = (let (m, e) = f in
     if e \<ge> 0 then m * 2 ^ nat e else sgn m * (\<bar>m\<bar> div 2 ^ nat (- e)))"

definition float_to_int64 :: "float64 \<Rightarrow> int" where
  "float_to_int64 f = (let i = float_trunc f in
     if min_int64 \<le> i \<and> i \<le> max_int64 then i else min_int64)"

subsection \<open>Values of type \<open>any\<close>\<close>

datatype goany =
    GNil
  | GBool bool
  | GStr string
  | GFloat float64
  | GNumber string
  | GInt64 int
  | GInt int
  | GArr "goany list"
  | GMap "(string \<times> goany) list"

fun any_of_json :: "json \<Rightarrow> goany option"
  and anys_of_json :: "json list \<Rightarrow> goany list option"
  and map_of_json :: "(string \<times> json) list \<Rightarrow> (string, goany) gomap \<Rightarrow> (string, goany) gomap option" where
  "any_of_json JNull = Some GNil"
| "any_of_json (JBool b) = Some (GBool b)"
| "any_of_json (JNum n) = map_option GFloat (float_of_literal n)"
| "any_of_json (JStr s) = Some (GStr s)"
| "any_of_json (JArr vs) = map_option GArr (anys_of_json vs)"
| "any_of_json (JObj kvs) = map_option GMap (map_of_json kvs [])"
| "anys_of_json [] = Some []"
| "anys_of_json (v # vs) = (case any_of_json v of None \<Rightarrow> None
     | Some a \<Rightarrow> map_option ((#) a) (anys_of_json vs))"
| "map_of_json [] m = Some m"
| "map_of_json ((k, v) # kvs) m = (case any_of_json v of None \<Rightarrow> None
     | Some a \<Rightarrow> map_of_json kvs (AList.update k a m))"

text \<open>Type assertions \<open>v.(string)\<close> and \<open>v.(map[string]any)\<close>, on the value of a map key.\<close>

fun as_string :: "goany option \<Rightarrow> string option" where
  "as_string (Some (GStr s)) = Some s"
| "as_string _ = None"

fun as_map :: "goany option \<Rightarrow> (string, goany) gomap option" where
  "as_map (Some (GMap m)) = Some m"
| "as_map _ = None"

subsection \<open>Decoding struct fields\<close>

definition field_values :: "string \<Rightarrow> (string \<times> json) list \<Rightarrow> json list" where
  "field_values name kvs = map snd (filter (\<lambda>(k, v). equal_fold k name) kvs)"

text \<open>Each decoder returns the field and whether a type error was met.\<close>

fun dec_string :: "json list \<Rightarrow> string \<times> bool \<Rightarrow> string \<times> bool" where
  "dec_string [] acc = acc"
| "dec_string (JStr s # vs) (x, e) = dec_string vs (s, e)"
| "dec_string (JNull # vs) (x, e) = dec_string vs (x, e)"
| "dec_string (v # vs) (x, e) = dec_string vs (x, True)"

fun dec_bool :: "json list \<Rightarrow> bool \<times> bool \<Rightarrow> bool \<times> bool" where
  "dec_bool [] acc = acc"
| "dec_bool (JBool b # vs) (x, e) = dec_bool vs (b, e)"
| "dec_bool (JNull # vs) (x, e) = dec_bool vs (x, e)"
| "dec_bool (v # vs) (x, e) = dec_bool vs (x, True)"

fun dec_int :: "json list \<Rightarrow> int \<times> bool \<Rightarrow> int \<times> bool" where
  "dec_int [] acc = acc"
| "dec_int (JNum n # vs) (x, e) =
     (case parse_int n of Some i \<Rightarrow> dec_int vs (i, e) | None \<Rightarrow> dec_int vs (x, True))"
| "dec_int (JNull # vs) (x, e) = dec_int vs (x, e)"
| "dec_int (v # vs) (x, e) = dec_int vs (x, True)"

definition str_field :: "string \<Rightarrow> (string \<times> json) list \<Rightarrow> string \<times> bool" where
  "str_field name kvs = dec_string (field_values name kvs) ([], False)"

definition bool_field :: "string \<Rightarrow> (string \<times> json) list \<Rightarrow> bool \<times> bool" where
  "bool_field name kvs = dec_bool (field_values name kvs) (False, False)"

definition int_field :: "string \<Rightarrow> (string \<times> json) list \<Rightarrow> int \<times> bool" where
  "int_field name kvs = dec_int (field_values name kvs) (0, False)"

text \<open>A field of type \<open>map[string]any\<close>: repeated objects merge into the same map.\<close>

fun dec_anymap :: "json list \<Rightarrow> (string, goany) gomap option \<times> bool \<Rightarrow> (string, goany) gomap option \<times> bool" where
  "dec_anymap [] acc = acc"
| "dec_anymap (JObj kvs # vs) (m, e) =
     (case map_of_json kvs (case m of Some m' \<Rightarrow> m' | None \<Rightarrow> []) of
        Some m' \<Rightarrow> dec_anymap vs (Some m', e)
      | None \<Rightarrow> dec_anymap vs (m, True))"
| "dec_anymap (JNull # vs) (m, e) = dec_anymap vs (None, e)"
| "dec_anymap (v # vs) (m, e) = dec_anymap vs (m, True)"

definition anymap_field :: "string \<Rightarrow> (string \<times> json) list \<Rightarrow> (string, goany) gomap option \<times> bool" where
  "anymap_field name kvs = dec_anymap (field_values name kvs) (None, False)"

subsection \<open>Base64 (standard alphabet, padded)\<close>

definition b64_val :: "char \<Rightarrow> int option" where
  "b64_val c = (let n = byte c in
     if 65 \<le> n \<and> n \<le> 90 then Some (n - 65)
     else if 97 \<le> n \<and> n \<le> 122 then Some (n - 71)
     else if 48 \<le> n \<and> n \<le> 57 then Some (n + 4)
     else if c = CHR ''+'' then Some 62
     else if c = CHR ''/'' then Some 63
     else None)"

fun b64_quads :: "string \<Rightarrow> string option" where
  "b64_quads [] = Some []"
| "b64_quads (a # b # c # d # r) =
     (case (b64_val a, b64_val b) of
        (Some w, Some x) \<Rightarrow>
          if c = CHR ''='' \<and> d = CHR ''='' \<and> r = [] then Some [char_of (w * 4 + x div 16)]
          else (case b64_val c of
             None \<Rightarrow> None
           | Some y \<Rightarrow>
               if d = CHR ''='' \<and> r = []
               then Some [char_of (w * 4 + x div 16), char_of (x mod 16 * 16 + y div 4)]
               else (case b64_val d of
                  None \<Rightarrow> None
                | Some z \<Rightarrow> map_option (\<lambda>t. char_of (w * 4 + x div 16)
                     # char_of (x mod 16 * 16 + y div 4) # char_of (y mod 4 * 64 + z) # t)
                     (b64_quads r)))
      | _ \<Rightarrow> None)"
| "b64_quads _ = None"

text \<open>\<open>base64.StdEncoding.DecodeString\<close> ignores line breaks.\<close>

definition base64_decode :: "string \<Rightarrow> string option" where
  "base64_decode s = b64_quads (filter (\<lambda>c. byte c \<noteq> 10 \<and> byte c \<noteq> 13) s)"

definition b64_char :: "int \<Rightarrow> char" where
  "b64_char n =
     (if n < 26 then char_of (n + 65) else if n < 52 then char_of (n + 71)
      else if n < 62 then char_of (n - 4) else if n = 62 then CHR ''+'' else CHR ''/'')"

text \<open>\<open>base64.StdEncoding.EncodeToString\<close>.\<close>

fun base64_encode :: "string \<Rightarrow> string" where
  "base64_encode [] = []"
| "base64_encode [a] =
     [b64_char (byte a div 4), b64_char (byte a mod 4 * 16), CHR ''='', CHR ''='']"
| "base64_encode [a, b] =
     [b64_char (byte a div 4), b64_char (byte a mod 4 * 16 + byte b div 16),
      b64_char (byte b mod 16 * 4), CHR ''='']"
| "base64_encode (a # b # c # r) =
     b64_char (byte a div 4) # b64_char (byte a mod 4 * 16 + byte b div 16)
     # b64_char (byte b mod 16 * 4 + byte c div 64) # b64_char (byte c mod 64)
     # base64_encode r"

end
