(* ===== verification/X402Types.thy ===== *)
theory X402Types imports GoJson begin

text \<open>
  The wire types of the x402 protocol.  They are declared in the third-party module
  \<open>github.com/x402-foundation/x402/go\<close>; the records hold the fields that the program reads or writes.
  How that module prints and parses them is not part of the repository, so every operation that
  needs it takes the printer or the parser as an argument (\<open>marshal\<close>, \<open>unmarshal\<close>,
  \<open>to_payload\<close>).
\<close>

record payment_requirements =
  pr_scheme :: string
  pr_network :: string
  pr_asset :: string
  pr_amount :: string
  pr_payTo :: string
  pr_maxTimeoutSeconds :: int
  pr_extra :: "(string, goany) gomap option"

record resource_info =
  ri_url :: string
  ri_description :: string
  ri_mimeType :: string
  ri_serviceName :: string
  ri_iconUrl :: string

record payment_payload =
  pp_x402Version :: int
  pp_payload :: "(string, goany) gomap"
  pp_accepted :: payment_requirements
  pp_resource :: "resource_info option"
  pp_extensions :: "(string, goany) gomap"

definition empty_requirements :: payment_requirements where
  "empty_requirements =
     \<lparr>pr_scheme = [], pr_network = [], pr_asset = [], pr_amount = [], pr_payTo = [],
      pr_maxTimeoutSeconds = 0, pr_extra = None\<rparr>"

text \<open>\<open>m[k]\<close> on a map that may be nil.\<close>

definition extra_get :: "(string, goany) gomap option \<Rightarrow> string \<Rightarrow> goany option" where
  "extra_get m k = (case m of None \<Rightarrow> None | Some m' \<Rightarrow> map_of m' k)"

end
