(* ===== verification/BuyerConfig.thy ===== *)
theory BuyerConfig imports X402Types begin

text \<open>
  \<open>internal/x402/buyer/config.go\<close>: the sidecar's configuration, the pre-signed authorizations, the
  key under which an authorization is recorded as consumed, and the loaders.

  A file is its content, with \<open>None\<close> for a read error.  \<open>dec_payload\<close> is how the x402 module decodes
  a \<open>PaymentPayload\<close>.
\<close>

record upstream_config =
  uc_url :: string
  uc_remoteModel :: string
  uc_network :: string
  uc_payTo :: string
  uc_asset :: string
  uc_assetSymbol :: string
  uc_assetDecimals :: int
  uc_assetTransferMethod :: string
  uc_eip712Name :: string
  uc_eip712Version :: string
  uc_price :: string

record buyer_config =
  cfg_upstreams :: "(string, upstream_config) gomap"

record pre_signed_auth =
  pa_id :: string
  pa_payment :: "payment_payload option"
  pa_signature :: string
  pa_from :: string
  pa_to :: string
  pa_value :: string
  pa_validAfter :: string
  pa_validBefore :: string
  pa_nonce :: string

text \<open>A pool entry is a pointer; \<open>null\<close> in the file is a nil pointer.\<close>

type_synonym auths_file = "(string, pre_signed_auth option list) gomap"

subsection \<open>The consume key\<close>

definition paymentNonce :: "payment_payload option \<Rightarrow> string" where
  "paymentNonce payment =
     (case payment of None \<Rightarrow> []
      | Some p \<Rightarrow>
          (case as_map (map_of (pp_payload p) ''authorization'') of
             Some authz \<Rightarrow>
               (case as_string (map_of authz ''nonce'') of
                  Some nonce \<Rightarrow> nonce
                | None \<Rightarrow>
                    (case as_map (map_of (pp_payload p) ''permit2Authorization'') of
                       Some authz2 \<Rightarrow> the_default [] (as_string (map_of authz2 ''nonce''))
                     | None \<Rightarrow> []))
           | None \<Rightarrow>
               (case as_map (map_of (pp_payload p) ''permit2Authorization'') of
                  Some authz2 \<Rightarrow> the_default [] (as_string (map_of authz2 ''nonce''))
                | None \<Rightarrow> [])))"

definition ConsumeKey :: "pre_signed_auth option \<Rightarrow> string" where
  "ConsumeKey auth =
     (case auth of None \<Rightarrow> []
      | Some a \<Rightarrow>
          if pa_id a \<noteq> [] then pa_id a
          else if pa_nonce a \<noteq> [] then pa_nonce a
          else if pa_payment a \<noteq> None \<and> paymentNonce (pa_payment a) \<noteq> [] then paymentNonce (pa_payment a)
          else if pa_signature a \<noteq> [] then pa_signature a
          else [])"

subsection \<open>Decoding\<close>

text \<open>The JSON tags of \<open>UpstreamConfig\<close>; \<open>None\<close> is an error of \<open>Unmarshal\<close>.\<close>

definition decode_upstream_config :: "json \<Rightarrow> upstream_config option" where
  "decode_upstream_config v =
     (let dec = (\<lambda>kvs.
        (let fs = map (\<lambda>n. str_field n kvs)
               [''url'', ''remoteModel'', ''network'', ''payTo'', ''asset'', ''assetSymbol'',
                ''assetTransferMethod'', ''eip712Name'', ''eip712Version'', ''price''];
             (dcm, de) = int_field ''assetDecimals'' kvs
         in if de \<or> list_ex snd fs then None
            else Some \<lparr>uc_url = fst (fs ! 0), uc_remoteModel = fst (fs ! 1), uc_network = fst (fs ! 2),
                       uc_payTo = fst (fs ! 3), uc_asset = fst (fs ! 4), uc_assetSymbol = fst (fs ! 5),
                       uc_assetDecimals = dcm, uc_assetTransferMethod = fst (fs ! 6),
                       uc_eip712Name = fst (fs ! 7), uc_eip712Version = fst (fs ! 8),
                       uc_price = fst (fs ! 9)\<rparr>))
      in (case v of JObj kvs \<Rightarrow> dec kvs | JNull \<Rightarrow> dec [] | _ \<Rightarrow> None))"

fun decode_each :: "(json \<Rightarrow> 'a option) \<Rightarrow> json list \<Rightarrow> 'a list option" where
  "decode_each f [] = Some []"
| "decode_each f (v # vs) =
     (case f v of None \<Rightarrow> None | Some x \<Rightarrow> map_option ((#) x) (decode_each f vs))"

fun decode_map :: "(json \<Rightarrow> 'a option) \<Rightarrow> (string \<times> json) list \<Rightarrow> (string, 'a) gomap \<Rightarrow> (string, 'a) gomap option" where
  "decode_map f [] m = Some m"
| "decode_map f ((k, v) # kvs) m =
     (case f v of None \<Rightarrow> None | Some x \<Rightarrow> decode_map f kvs (AList.update k x m))"

text \<open>The last \<open>payment\<close> key decides the pointer; \<open>null\<close> makes it nil.\<close>

fun dec_payment_field ::
  "(json \<Rightarrow> payment_payload option) \<Rightarrow> json list \<Rightarrow> payment_payload option \<Rightarrow> payment_payload option option" where
  "dec_payment_field dp [] acc = Some acc"
| "dec_payment_field dp (JNull # vs) acc = dec_payment_field dp vs None"
| "dec_payment_field dp (v # vs) acc =
     (case dp v of None \<Rightarrow> None | Some p \<Rightarrow> dec_payment_field dp vs (Some p))"

definition decode_auth :: "(json \<Rightarrow> payment_payload option) \<Rightarrow> json \<Rightarrow> pre_signed_auth option option" where
  "decode_auth dp v =
     (case v of
        JNull \<Rightarrow> Some None
      | JObj kvs \<Rightarrow>
          (let fs = map (\<lambda>n. str_field n kvs)
                 [''id'', ''signature'', ''from'', ''to'', ''value'', ''validAfter'', ''validBefore'', ''nonce'']
           in if list_ex snd fs then None
              else map_option (\<lambda>pay. Some
                \<lparr>pa_id = fst (fs ! 0), pa_payment = pay, pa_signature = fst (fs ! 1), pa_from = fst (fs ! 2),
                 pa_to = fst (fs ! 3), pa_value = fst (fs ! 4), pa_validAfter = fst (fs ! 5),
                 pa_validBefore = fst (fs ! 6), pa_nonce = fst (fs ! 7)\<rparr>)
                (dec_payment_field dp (field_values ''payment'' kvs) None))
      | _ \<Rightarrow> None)"

definition decode_pool :: "(json \<Rightarrow> payment_payload option) \<Rightarrow> json \<Rightarrow> pre_signed_auth option list option" where
  "decode_pool dp v =
     (case v of JNull \<Rightarrow> Some [] | JArr vs \<Rightarrow> decode_each (decode_auth dp) vs | _ \<Rightarrow> None)"

subsection \<open>The loaders\<close>

datatype load_error = ReadError string | ParseError string

definition LoadConfig :: "string \<Rightarrow> string option \<Rightarrow> load_error + buyer_config" where
  "LoadConfig path file =
     (case file of None \<Rightarrow> Inl (ReadError path)
      | Some data \<Rightarrow>
          (case json_parse data of
             Some (JObj kvs) \<Rightarrow>
               (let step = (\<lambda>acc v. case acc of None \<Rightarrow> None
                     | Some m \<Rightarrow> (case v of JNull \<Rightarrow> Some [] | JObj ups \<Rightarrow> decode_map decode_upstream_config ups m
                                  | _ \<Rightarrow> None))
                in case foldl step (Some []) (field_values ''upstreams'' kvs) of
                     None \<Rightarrow> Inl (ParseError path)
                   | Some ups \<Rightarrow> Inr \<lparr>cfg_upstreams = ups\<rparr>)
           | Some JNull \<Rightarrow> Inr \<lparr>cfg_upstreams = []\<rparr>
           | _ \<Rightarrow> Inl (ParseError path)))"

definition LoadAuths ::
  "(json \<Rightarrow> payment_payload option) \<Rightarrow> string \<Rightarrow> string option \<Rightarrow> load_error + auths_file" where
  "LoadAuths dp path file =
     (case file of None \<Rightarrow> Inl (ReadError path)
      | Some data \<Rightarrow>
          (case json_parse data of
             Some (JObj kvs) \<Rightarrow>
               (case decode_map (decode_pool dp) kvs [] of
                  None \<Rightarrow> Inl (ParseError path) | Some m \<Rightarrow> Inr m)
           | Some JNull \<Rightarrow> Inr []
           | _ \<Rightarrow> Inl (ParseError path)))"

record dir_entry =
  de_name :: string
  de_isDir :: bool
  de_content :: "string option"

text \<open>
  The directory loaders skip an entry that is a directory, is not named \<open>*.json\<close>, cannot be read or
  does not parse; the key is the file name without its suffix.
\<close>

definition load_dir :: "(json \<Rightarrow> 'a option) \<Rightarrow> dir_entry list \<Rightarrow> (string, 'a) gomap" where
  "load_dir dec entries =
     foldl (\<lambda>m e.
        if de_isDir e \<or> \<not> has_suffix ''.json'' (de_name e) then m
        else (case de_content e of None \<Rightarrow> m
              | Some data \<Rightarrow>
                  (case json_parse data of None \<Rightarrow> m
                   | Some v \<Rightarrow>
                       (case dec v of None \<Rightarrow> m
                        | Some x \<Rightarrow> AList.update (trim_suffix ''.json'' (de_name e)) x m))))
      [] entries"

definition LoadConfigDir :: "string \<Rightarrow> dir_entry list option \<Rightarrow> load_error + buyer_config" where
  "LoadConfigDir dir listing =
     (case listing of None \<Rightarrow> Inl (ReadError dir)
      | Some entries \<Rightarrow> Inr \<lparr>cfg_upstreams = load_dir decode_upstream_config entries\<rparr>)"

definition LoadAuthsDir ::
  "(json \<Rightarrow> payment_payload option) \<Rightarrow> string \<Rightarrow> dir_entry list option \<Rightarrow> load_error + auths_file" where
  "LoadAuthsDir dp dir listing =
     (case listing of None \<Rightarrow> Inl (ReadError dir)
      | Some entries \<Rightarrow> Inr (load_dir (decode_pool dp) entries))"

lemma gomap_load_dir: "gomap (load_dir dec entries)"
proof -
  have "gomap m \<Longrightarrow> gomap (foldl (\<lambda>m e.
        if de_isDir e \<or> \<not> has_suffix ''.json'' (de_name e) then m
        else (case de_content e of None \<Rightarrow> m
              | Some data \<Rightarrow>
                  (case json_parse data of None \<Rightarrow> m
                   | Some v \<Rightarrow>
                       (case dec v of None \<Rightarrow> m
                        | Some x \<Rightarrow> AList.update (trim_suffix ''.json'' (de_name e)) x m)))) m entries)" for m
    by (induction entries arbitrary: m) (auto split: option.splits)
  then show ?thesis by (simp add: load_dir_def)
qed

lemma gomap_decode_map: "decode_map f kvs m = Some m' \<Longrightarrow> gomap m \<Longrightarrow> gomap m'"
  by (induction kvs arbitrary: m) (auto split: option.splits)

end
