(* ===== verification/BuyerState.thy ===== *)
theory BuyerState imports BuyerConfig begin

text \<open>
  \<open>internal/x402/buyer/state.go\<close>: the store of consumed authorization nonces, in memory and on
  disk, and the interface \<open>consumed_ledger\<close> that the proxy relies on.

  A file holds a JSON document; \<open>write_fault\<close> is the step at which a write to disk fails.
\<close>

record state_store =
  ss_path :: string
  ss_consumed :: "(string, string list) gomap"

datatype disk_file = NoFile | Unreadable | NotJson | Doc json

type_synonym files = "string \<Rightarrow> disk_file"

datatype write_fault = NoFault | MkdirFails | TempWriteFails disk_file | RenameFails

datatype state_error = ReadStateFailed | ParseStateFailed | MkdirFailed | WriteTempFailed | RenameFailed

subsection \<open>Loading\<close>

fun dec_strings :: "json list \<Rightarrow> string list option" where
  "dec_strings [] = Some []"
| "dec_strings (JStr s # vs) = map_option ((#) s) (dec_strings vs)"
| "dec_strings (JNull # vs) = map_option ((#) []) (dec_strings vs)"
| "dec_strings (v # vs) = None"

definition decode_nonces :: "json \<Rightarrow> string list option" where
  "decode_nonces v = (case v of JNull \<Rightarrow> Some [] | JArr vs \<Rightarrow> dec_strings vs | _ \<Rightarrow> None)"

fun dec_consumed_field :: "json list \<Rightarrow> (string, string list) gomap \<Rightarrow> (string, string list) gomap option" where
  "dec_consumed_field [] m = Some m"
| "dec_consumed_field (JNull # vs) m = dec_consumed_field vs []"
| "dec_consumed_field (JObj kvs # vs) m =
     (case decode_map decode_nonces kvs m of None \<Rightarrow> None | Some m' \<Rightarrow> dec_consumed_field vs m')"
| "dec_consumed_field (v # vs) m = None"

definition decode_stateFile :: "json \<Rightarrow> (string, string list) gomap option" where
  "decode_stateFile v =
     (case v of JObj kvs \<Rightarrow> dec_consumed_field (field_values ''consumed'' kvs) []
      | JNull \<Rightarrow> Some [] | _ \<Rightarrow> None)"

definition LoadStateStore :: "string \<Rightarrow> files \<Rightarrow> state_error + state_store" where
  "LoadStateStore path fs =
     (if path = [] then Inr \<lparr>ss_path = path, ss_consumed = []\<rparr>
      else (case fs path of
          NoFile \<Rightarrow> Inr \<lparr>ss_path = path, ss_consumed = []\<rparr>
        | Unreadable \<Rightarrow> Inl ReadStateFailed
        | NotJson \<Rightarrow> Inl ParseStateFailed
        | Doc v \<Rightarrow> (case decode_stateFile v of
              None \<Rightarrow> Inl ParseStateFailed
            | Some decoded \<Rightarrow>
                Inr \<lparr>ss_path = path,
                     ss_consumed = map (\<lambda>(upstream, nonces). (upstream, remdups nonces)) decoded\<rparr>)))"

subsection \<open>Reading\<close>

definition nonce_set :: "state_store \<Rightarrow> string \<Rightarrow> string list" where
  "nonce_set s upstream = the_default [] (map_of (ss_consumed s) upstream)"

definition IsConsumed :: "state_store \<Rightarrow> string \<Rightarrow> string \<Rightarrow> bool" where
  "IsConsumed s upstream nonce \<longleftrightarrow> List.member (nonce_set s upstream) nonce"

definition ConsumedCount :: "state_store \<Rightarrow> string \<Rightarrow> nat" where
  "ConsumedCount s upstream = length (nonce_set s upstream)"

subsection \<open>Writing\<close>

definition marshal_state :: "(string, string list) gomap \<Rightarrow> json" where
  "marshal_state m = JObj [(''consumed'', JObj (map (\<lambda>(u, ns). (u, JArr (map JStr ns))) m))]"

definition writeLocked :: "write_fault \<Rightarrow> state_store \<Rightarrow> files \<Rightarrow> files \<times> state_error option" where
  "writeLocked fault s fs =
     (if ss_path s = [] then (fs, None)
      else if fault = MkdirFails then (fs, Some MkdirFailed)
      else (let tmpPath = ss_path s @ ''.tmp'' in
        (case fault of
           TempWriteFails left \<Rightarrow> (fs(tmpPath := left), Some WriteTempFailed)
         | RenameFails \<Rightarrow> (fs(tmpPath := Doc (marshal_state (ss_consumed s))), Some RenameFailed)
         | _ \<Rightarrow> (fs(ss_path s := Doc (marshal_state (ss_consumed s)), tmpPath := NoFile), None))))"

definition MarkConsumed ::
  "write_fault \<Rightarrow> string \<Rightarrow> string \<Rightarrow> state_store \<times> files \<Rightarrow> (state_store \<times> files) \<times> state_error option" where
  "MarkConsumed fault upstream nonce sf =
     (let (s, fs) = sf in
      if IsConsumed s upstream nonce
      then ((s\<lparr>ss_consumed := AList.update upstream (nonce_set s upstream) (ss_consumed s)\<rparr>, fs), None)
      else (let s' = s\<lparr>ss_consumed :=
                        AList.update upstream (nonce_set s upstream @ [nonce]) (ss_consumed s)\<rparr>;
                (fs', err) = writeLocked fault s' fs
            in ((s', fs'), err)))"

subsection \<open>Effect of the operations\<close>

definition store_wf :: "state_store \<Rightarrow> bool" where
  "store_wf s \<longleftrightarrow> gomap (ss_consumed s) \<and> (\<forall>(u, ns) \<in> set (ss_consumed s). distinct ns)"

lemma nonce_set_upd [simp]:
  "nonce_set (s\<lparr>ss_consumed := AList.update u ns (ss_consumed s)\<rparr>) u' =
     (if u' = u then ns else nonce_set s u')"
  by (simp add: nonce_set_def the_default_def)

lemma MarkConsumed_memory:
  "nonce_set (fst (fst (MarkConsumed f u n (s, fs)))) u' =
     (if u' = u \<and> \<not> IsConsumed s u n then nonce_set s u @ [n] else nonce_set s u')"
  by (auto simp: MarkConsumed_def Let_def split: prod.splits)

lemma IsConsumed_MarkConsumed:
  "IsConsumed (fst (fst (MarkConsumed f u n (s, fs)))) u' n' \<longleftrightarrow>
     IsConsumed s u' n' \<or> (u' = u \<and> n' = n)"
  by (auto simp: IsConsumed_def MarkConsumed_memory)

lemma MarkConsumed_path [simp]: "ss_path (fst (fst (MarkConsumed f u n (s, fs)))) = ss_path s"
  by (auto simp: MarkConsumed_def Let_def split: prod.splits)

lemma set_update_gomap: "gomap m \<Longrightarrow> set (AList.update k v m) \<subseteq> insert (k, v) (set m)"
  by (induction m) (auto simp: gomap_def split: if_splits)

lemma store_wf_nonce_set: "store_wf s \<Longrightarrow> distinct (nonce_set s u)"
  by (auto simp: store_wf_def nonce_set_def the_default_def dest: map_of_SomeD split: option.splits)

lemma store_wf_upd:
  "store_wf s \<Longrightarrow> distinct ns \<Longrightarrow> store_wf (s\<lparr>ss_consumed := AList.update u ns (ss_consumed s)\<rparr>)"
  using set_update_gomap [of "ss_consumed s" u ns] by (auto simp: store_wf_def)

lemma MarkConsumed_wf [inv_intro]: "store_wf s \<Longrightarrow> store_wf (fst (fst (MarkConsumed f u n (s, fs))))"
  by (auto simp: MarkConsumed_def Let_def IsConsumed_def store_wf_nonce_set
           intro!: store_wf_upd split: prod.splits)

lemma ConsumedCount_MarkConsumed:
  "ConsumedCount (fst (fst (MarkConsumed f u n (s, fs)))) u' =
     ConsumedCount s u' + (if u' = u \<and> \<not> IsConsumed s u n then 1 else 0)"
  by (simp add: ConsumedCount_def MarkConsumed_memory)

subsection \<open>Loading what was written\<close>

lemma dec_strings_map [simp]: "dec_strings (map JStr ns) = Some ns"
  by (induction ns) auto

lemma update_append_absent: "k \<notin> fst ` set m \<Longrightarrow> AList.update k v m = m @ [(k, v)]"
  by (induction m) auto

lemma decode_map_marshalled:
  "gomap (m @ ms) \<Longrightarrow>
   decode_map decode_nonces (map (\<lambda>(u, ns). (u, JArr (map JStr ns))) ms) m = Some (m @ ms)"
proof (induction ms arbitrary: m)
  case (Cons p ms)
  obtain u ns where p: "p = (u, ns)" by (cases p)
  from Cons.prems p have "u \<notin> fst ` set m" by (auto simp: gomap_def)
  with Cons p show ?case by (simp add: decode_nonces_def update_append_absent)
qed simp

lemma decode_marshal_state: "gomap m \<Longrightarrow> decode_stateFile (marshal_state m) = Some m"
  using decode_map_marshalled [of "[]" m]
  by (simp add: decode_stateFile_def marshal_state_def field_values_def)

lemma remdups_store_wf: "store_wf s \<Longrightarrow> map (\<lambda>(u, ns). (u, remdups ns)) (ss_consumed s) = ss_consumed s"
  by (rule map_idI) (auto simp: store_wf_def)

lemma load_written:
  "store_wf s \<Longrightarrow> ss_path s \<noteq> [] \<Longrightarrow> fs (ss_path s) = Doc (marshal_state (ss_consumed s)) \<Longrightarrow>
   LoadStateStore (ss_path s) fs = Inr s"
  by (simp add: LoadStateStore_def decode_marshal_state remdups_store_wf store_wf_def [THEN iffD1])

subsection \<open>The interface of the ledger\<close>

text \<open>What the rest of the buyer relies on: marking is permanent and touches one nonce.\<close>

locale consumed_ledger =
  fixes consumed :: "'s \<Rightarrow> string \<Rightarrow> string \<Rightarrow> bool"
    and mark :: "'f \<Rightarrow> string \<Rightarrow> string \<Rightarrow> 's \<Rightarrow> 's"
  assumes mark_iff: "consumed (mark f u n s) u' n' \<longleftrightarrow> consumed s u' n' \<or> (u' = u \<and> n' = n)"
begin

lemma mark_self: "consumed (mark f u n s) u n"
  by (simp add: mark_iff)

lemma mark_keeps: "consumed s u' n' \<Longrightarrow> consumed (mark f u n s) u' n'"
  by (simp add: mark_iff)

lemma marks_iff:
  "consumed (fold (\<lambda>(f, u, n). mark f u n) ms s) u n \<longleftrightarrow>
     consumed s u n \<or> (u, n) \<in> snd ` set ms"
  by (induction ms arbitrary: s) (auto simp: mark_iff)

text \<open>A pool filtered against the ledger holds no entry that was marked before the filtering.\<close>

lemma filtered_pool_fresh:
  assumes "a \<in> set (filter (\<lambda>a. key a = [] \<or> \<not> consumed (fold (\<lambda>(f, u, n). mark f u n) ms s) u (key a)) pool)"
    and "key a \<noteq> []"
  shows "(u, key a) \<notin> snd ` set ms"
  using assms by (auto simp: marks_iff)

end

interpretation store: consumed_ledger
  "\<lambda>sf. IsConsumed (fst sf)" "\<lambda>f u n sf. fst (MarkConsumed f u n sf)"
  by unfold_locales (metis IsConsumed_MarkConsumed prod.collapse)

end
