(* ===== verification/BuyerSigner.thy ===== *)
theory BuyerSigner imports BuyerState begin

text \<open>
  \<open>internal/x402/buyer/signer.go\<close> and the selector of \<open>types.go\<close>: the pool of pre-signed
  authorizations behind one upstream, and the hold / confirm / release protocol on it.

  The mutex makes every method atomic, so a method is a function from the signer to its next state.
  \<open>sg_onConsume\<close> is the upstream name that the callback installed by \<open>Proxy.Reload\<close> is closed over,
  \<open>None\<close> for a nil callback.  Nil pool entries do not occur: \<open>Reload\<close> filters them out.
\<close>

record signer =
  sg_network :: string
  sg_payTo :: string
  sg_asset :: string
  sg_price :: string
  sg_symbol :: string
  sg_decimals :: int
  sg_onConsume :: "string option"
  sg_auths :: "pre_signed_auth list"
  sg_spent :: int

record codec =
  cd_marshal :: "payment_payload \<Rightarrow> string option"
  cd_unmarshal :: "string \<Rightarrow> payment_payload option"

datatype sign_error =
    NilRequirements
  | PoolExhausted int
  | MarshalPayloadFailed
  | UnmarshalPayloadFailed
  | NilPayload
  | ErrNoValidSigner
  | ConsumeFailed state_error

subsection \<open>Helpers\<close>

definition normalizeNetworkID :: "string \<Rightarrow> string" where
  "normalizeNetworkID network =
     (let n = to_lower (trim_space network) in
      if n \<in> {''base'', ''base-mainnet''} then ''eip155:8453''
      else if n = ''base-sepolia'' then ''eip155:84532''
      else if n \<in> {''ethereum'', ''ethereum-mainnet'', ''mainnet''} then ''eip155:1''
      else if n = ''sepolia'' then ''eip155:11155111''
      else if n \<in> {''polygon'', ''polygon-mainnet''} then ''eip155:137''
      else if n = ''polygon-amoy'' then ''eip155:80002''
      else if n \<in> {''avalanche'', ''avalanche-mainnet''} then ''eip155:43114''
      else if n = ''avalanche-fuji'' then ''eip155:43113''
      else if n \<in> {''arbitrum'', ''arbitrum-one''} then ''eip155:42161''
      else if n = ''arbitrum-sepolia'' then ''eip155:421614''
      else network)"

definition fallbackString :: "string \<Rightarrow> string \<Rightarrow> string" where
  "fallbackString value fallback = (if trim_space value = [] then fallback else value)"

definition fallbackInt :: "int \<Rightarrow> int \<Rightarrow> int" where
  "fallbackInt value fallback = (if value \<le> 0 then fallback else value)"

definition clonePaymentPayload :: "codec \<Rightarrow> payment_payload option \<Rightarrow> sign_error + payment_payload" where
  "clonePaymentPayload cd payment =
     (case payment of None \<Rightarrow> Inl NilPayload
      | Some p \<Rightarrow> (case cd_marshal cd p of None \<Rightarrow> Inl MarshalPayloadFailed
          | Some data \<Rightarrow> (case cd_unmarshal cd data of None \<Rightarrow> Inl UnmarshalPayloadFailed
              | Some cloned \<Rightarrow> Inr cloned)))"

subsection \<open>Deadlines\<close>

definition authExpirySafetyMarginSec :: int where
  "authExpirySafetyMarginSec = 10"

fun parseUnixValue :: "goany option \<Rightarrow> int option" where
  "parseUnixValue (Some (GStr t)) = (if t = [] then None else parse_int t)"
| "parseUnixValue (Some (GNumber t)) = parse_int t"
| "parseUnixValue (Some (GFloat f)) = Some (float_to_int64 f)"
| "parseUnixValue (Some (GInt64 i)) = Some i"
| "parseUnixValue (Some (GInt i)) = Some i"
| "parseUnixValue _ = None"

definition payloadDeadlineUnix :: "(string, goany) gomap \<Rightarrow> int option" where
  "payloadDeadlineUnix payload =
     (let d1 = (case as_map (map_of payload ''permit2Authorization'') of
                  Some p2 \<Rightarrow> parseUnixValue (map_of p2 ''deadline'') | None \<Rightarrow> None);
          d2 = (case as_map (map_of payload ''authorization'') of
                  Some authz \<Rightarrow> parseUnixValue (map_of authz ''validBefore'') | None \<Rightarrow> None)
      in (case d1 of Some d \<Rightarrow> Some d | None \<Rightarrow> d2))"

definition authDeadlineUnix :: "pre_signed_auth option \<Rightarrow> int option" where
  "authDeadlineUnix auth =
     (case auth of None \<Rightarrow> None
      | Some a \<Rightarrow>
          (case (case pa_payment a of Some p \<Rightarrow> payloadDeadlineUnix (pp_payload p) | None \<Rightarrow> None) of
             Some d \<Rightarrow> Some d
           | None \<Rightarrow> parseUnixValue (Some (GStr (pa_validBefore a)))))"

text \<open>The loop's test on the head of the pool, and the loop: drop from the head while it holds.\<close>

definition auth_expired :: "usec \<Rightarrow> pre_signed_auth \<Rightarrow> bool" where
  "auth_expired now a =
     (case authDeadlineUnix (Some a) of Some dl \<Rightarrow> dl \<le> now + authExpirySafetyMarginSec | None \<Rightarrow> False)"

fun drop_expired :: "usec \<Rightarrow> pre_signed_auth list \<Rightarrow> nat \<Rightarrow> pre_signed_auth list \<times> nat" where
  "drop_expired now [] dropped = ([], dropped)"
| "drop_expired now (a # as) dropped =
     (if auth_expired now a then drop_expired now as (Suc dropped) else (a # as, dropped))"

definition dropExpiredAuthsLocked :: "usec \<Rightarrow> signer \<Rightarrow> signer \<times> nat" where
  "dropExpiredAuthsLocked now s =
     (let (as, dropped) = drop_expired now (sg_auths s) 0 in (s\<lparr>sg_auths := as\<rparr>, dropped))"

subsection \<open>The signer\<close>

definition NewPreSignedSigner ::
  "string \<Rightarrow> string \<Rightarrow> string \<Rightarrow> string \<Rightarrow> string \<Rightarrow> int \<Rightarrow> pre_signed_auth list \<Rightarrow> int \<Rightarrow> string option \<Rightarrow> signer" where
  "NewPreSignedSigner network payTo asset price symbol decimals auths spent onConsume =
     \<lparr>sg_network = normalizeNetworkID network, sg_payTo = payTo, sg_asset = asset, sg_price = price,
      sg_symbol = symbol, sg_decimals = decimals, sg_onConsume = onConsume, sg_auths = auths,
      sg_spent = spent\<rparr>"

definition signer_Scheme :: "signer \<Rightarrow> string" where
  "signer_Scheme s = ''exact''"

definition CanSign :: "payment_requirements option \<Rightarrow> signer \<Rightarrow> bool" where
  "CanSign req s =
     (case req of None \<Rightarrow> False
      | Some r \<Rightarrow>
          if \<not> equal_fold (normalizeNetworkID (pr_network r)) (sg_network s) then False
          else if \<not> equal_fold (pr_payTo r) (sg_payTo s) then False
          else if \<not> equal_fold (pr_asset r) (sg_asset s) then False
          else (let amount = (if pr_amount r = []
                      then the_default [] (as_string (extra_get (pr_extra r) ''maxAmountRequired''))
                      else pr_amount r)
                in if amount \<noteq> [] \<and> amount \<noteq> sg_price s then False
                   else length (sg_auths s) > 0))"

text \<open>The \<open>accepted\<close> block that \<open>HoldSign\<close> completes from the requirement and the signer.\<close>

definition hold_accepted :: "payment_requirements \<Rightarrow> signer \<Rightarrow> payment_requirements" where
  "hold_accepted r s =
     (let a1 = (if pr_scheme r = [] then r\<lparr>pr_scheme := ''exact''\<rparr> else r);
          a2 = (if pr_network a1 = [] then a1\<lparr>pr_network := sg_network s\<rparr>
                else a1\<lparr>pr_network := normalizeNetworkID (pr_network a1)\<rparr>)
      in if pr_amount a2 = [] \<and> sg_price s \<noteq> [] then a2\<lparr>pr_amount := sg_price s\<rparr> else a2)"

definition fill_payment :: "payment_requirements \<Rightarrow> payment_payload \<Rightarrow> payment_payload" where
  "fill_payment accepted p =
     (let c = pp_accepted p;
          c1 = (if pr_scheme c = [] then c\<lparr>pr_scheme := pr_scheme accepted\<rparr> else c);
          c2 = (if pr_network c1 = [] then c1\<lparr>pr_network := pr_network accepted\<rparr>
                else c1\<lparr>pr_network := normalizeNetworkID (pr_network c1)\<rparr>);
          c3 = (if pr_amount c2 = [] then c2\<lparr>pr_amount := pr_amount accepted\<rparr> else c2);
          c4 = (if pr_asset c3 = [] then c3\<lparr>pr_asset := pr_asset accepted\<rparr> else c3);
          c5 = (if pr_payTo c4 = [] then c4\<lparr>pr_payTo := pr_payTo accepted\<rparr> else c4)
      in p\<lparr>pp_accepted := c5, pp_x402Version := (if pp_x402Version p = 0 then 2 else pp_x402Version p)\<rparr>)"

definition legacy_payload :: "payment_requirements \<Rightarrow> pre_signed_auth \<Rightarrow> payment_payload" where
  "legacy_payload accepted a =
     \<lparr>pp_x402Version = 2,
      pp_payload =
        [(''signature'', GStr (pa_signature a)),
         (''authorization'', GMap
            [(''from'', GStr (pa_from a)), (''to'', GStr (pa_to a)), (''value'', GStr (pa_value a)),
             (''validAfter'', GStr (pa_validAfter a)), (''validBefore'', GStr (pa_validBefore a)),
             (''nonce'', GStr (pa_nonce a))])],
      pp_accepted = accepted, pp_resource = None, pp_extensions = []\<rparr>"

definition HoldSign ::
  "codec \<Rightarrow> nsec \<Rightarrow> payment_requirements option \<Rightarrow> signer \<Rightarrow> signer \<times> (sign_error + payment_payload \<times> pre_signed_auth)" where
  "HoldSign cd now req s =
     (case req of None \<Rightarrow> (s, Inl NilRequirements)
      | Some r \<Rightarrow>
          (let (s1, dropped) = dropExpiredAuthsLocked (unix now) s in
           (case sg_auths s1 of
              [] \<Rightarrow> (s1, Inl (PoolExhausted (sg_spent s1)))
            | auth # rest \<Rightarrow>
                (let s2 = s1\<lparr>sg_auths := rest, sg_spent := sg_spent s1 + 1\<rparr>;
                     accepted = hold_accepted r s2
                 in (case pa_payment auth of
                       Some p \<Rightarrow>
                         (case clonePaymentPayload cd (Some p) of
                            Inl e \<Rightarrow> (s2, Inl e)
                          | Inr payment \<Rightarrow> (s2, Inr (fill_payment accepted payment, auth)))
                     | None \<Rightarrow> (s2, Inr (legacy_payload accepted auth, auth)))))))"

text \<open>
  The callback that \<open>Proxy.Reload\<close> installs: record the consume key, if there is one, in the state
  store under the upstream's name.
\<close>

definition on_consume ::
  "write_fault \<Rightarrow> string \<Rightarrow> pre_signed_auth \<Rightarrow> state_store \<times> files \<Rightarrow> (state_store \<times> files) \<times> state_error option" where
  "on_consume fault name auth sf =
     (let key = ConsumeKey (Some auth) in
      if key = [] then (sf, None) else MarkConsumed fault name key sf)"

definition ConfirmSpend ::
  "write_fault \<Rightarrow> signer \<Rightarrow> pre_signed_auth option \<Rightarrow> state_store \<times> files \<Rightarrow> (state_store \<times> files) \<times> state_error option" where
  "ConfirmSpend fault s auth sf =
     (case auth of None \<Rightarrow> (sf, None)
      | Some a \<Rightarrow> (case sg_onConsume s of None \<Rightarrow> (sf, None)
          | Some name \<Rightarrow> on_consume fault name a sf))"

definition ReleaseSpend :: "pre_signed_auth option \<Rightarrow> signer \<Rightarrow> signer" where
  "ReleaseSpend auth s =
     (case auth of None \<Rightarrow> s
      | Some a \<Rightarrow> s\<lparr>sg_auths := a # sg_auths s,
                    sg_spent := (if sg_spent s > 0 then sg_spent s - 1 else sg_spent s)\<rparr>)"

definition Sign ::
  "codec \<Rightarrow> nsec \<Rightarrow> write_fault \<Rightarrow> payment_requirements option \<Rightarrow> signer \<Rightarrow> state_store \<times> files \<Rightarrow>
     signer \<times> (state_store \<times> files) \<times> (sign_error + payment_payload)" where
  "Sign cd now fault req s sf =
     (case HoldSign cd now req s of
        (s1, Inl e) \<Rightarrow> (s1, sf, Inl e)
      | (s1, Inr (payload, auth)) \<Rightarrow>
          (case ConfirmSpend fault s1 (Some auth) sf of
             (sf', Some e) \<Rightarrow> (ReleaseSpend (Some auth) s1, sf', Inl (ConsumeFailed e))
           | (sf', None) \<Rightarrow> (s1, sf', Inr payload)))"

definition Remaining :: "signer \<Rightarrow> nat" where
  "Remaining s = length (sg_auths s)"

definition Spent :: "signer \<Rightarrow> int" where
  "Spent s = sg_spent s"

record token_config =
  tc_address :: string
  tc_symbol :: string
  tc_decimals :: int
  tc_priority :: int

definition GetTokens :: "signer \<Rightarrow> token_config list" where
  "GetTokens s = [\<lparr>tc_address = sg_asset s, tc_symbol = fallbackString (sg_symbol s) ''USDC'',
                   tc_decimals = fallbackInt (sg_decimals s) 6, tc_priority = 0\<rparr>]"

text \<open>
  \<open>DefaultPaymentSelector.SelectAndSign\<close>: the first requirement and signer that fit, in this order.
\<close>

fun sign_first ::
  "codec \<Rightarrow> nsec \<Rightarrow> write_fault \<Rightarrow> payment_requirements \<Rightarrow> signer list \<Rightarrow> state_store \<times> files \<Rightarrow>
     (signer list \<times> (state_store \<times> files) \<times> (sign_error + payment_payload)) option" where
  "sign_first cd now fault req [] sf = None"
| "sign_first cd now fault req (s # ss) sf =
     (if CanSign (Some req) s
      then (let (s', sf', r) = Sign cd now fault (Some req) s sf in Some (s' # ss, sf', r))
      else map_option (\<lambda>(ss', sf', r). (s # ss', sf', r)) (sign_first cd now fault req ss sf))"

fun SelectAndSign ::
  "codec \<Rightarrow> nsec \<Rightarrow> write_fault \<Rightarrow> payment_requirements list \<Rightarrow> signer list \<Rightarrow> state_store \<times> files \<Rightarrow>
     signer list \<times> (state_store \<times> files) \<times> (sign_error + payment_payload)" where
  "SelectAndSign cd now fault [] ss sf = (ss, sf, Inl ErrNoValidSigner)"
| "SelectAndSign cd now fault (req # reqs) ss sf =
     (case sign_first cd now fault req ss sf of
        Some out \<Rightarrow> out
      | None \<Rightarrow> SelectAndSign cd now fault reqs ss sf)"

subsection \<open>What the pool operations keep\<close>

lemma drop_expired_eq:
  "drop_expired now as n =
     (dropWhile (auth_expired now) as, n + length (takeWhile (auth_expired now) as))"
  by (induction as arbitrary: n) auto

lemma dropExpired_simps [simp]:
  "sg_auths (fst (dropExpiredAuthsLocked now s)) = dropWhile (auth_expired now) (sg_auths s)"
  "snd (dropExpiredAuthsLocked now s) = length (takeWhile (auth_expired now) (sg_auths s))"
  "sg_spent (fst (dropExpiredAuthsLocked now s)) = sg_spent s"
  "sg_price (fst (dropExpiredAuthsLocked now s)) = sg_price s"
  "sg_network (fst (dropExpiredAuthsLocked now s)) = sg_network s"
  "sg_onConsume (fst (dropExpiredAuthsLocked now s)) = sg_onConsume s"
  by (simp_all add: dropExpiredAuthsLocked_def drop_expired_eq)

lemma dropExpired_pair:
  "dropExpiredAuthsLocked now s = (s1, k) \<Longrightarrow>
   sg_auths s1 = dropWhile (auth_expired now) (sg_auths s) \<and> sg_spent s1 = sg_spent s \<and>
   sg_onConsume s1 = sg_onConsume s"
  by (metis dropExpired_simps(1,3,6) fst_conv)

text \<open>The authorizations that a call of \<open>HoldSign\<close> removes from the pool without handing them out.\<close>

definition hold_lost :: "codec \<Rightarrow> nsec \<Rightarrow> payment_requirements option \<Rightarrow> signer \<Rightarrow> pre_signed_auth list" where
  "hold_lost cd now req s =
     (if req = None then []
      else takeWhile (auth_expired (unix now)) (sg_auths s) @
        (case dropWhile (auth_expired (unix now)) (sg_auths s) of
           [] \<Rightarrow> []
         | a # _ \<Rightarrow> (if pa_payment a \<noteq> None \<and> \<not> is_ok (clonePaymentPayload cd (pa_payment a)) then [a] else [])))"

definition held_of :: "sign_error + payment_payload \<times> pre_signed_auth \<Rightarrow> pre_signed_auth option" where
  "held_of r = (case r of Inl _ \<Rightarrow> None | Inr (p, a) \<Rightarrow> Some a)"

lemma HoldSign_partition:
  assumes "HoldSign cd now req s = (s', r)"
  shows "sg_auths s = hold_lost cd now req s @ (case held_of r of None \<Rightarrow> [] | Some a \<Rightarrow> [a]) @ sg_auths s'"
proof (cases req)
  case None
  with assms show ?thesis by (auto simp: HoldSign_def hold_lost_def held_of_def)
next
  case (Some rq)
  let ?E = "auth_expired (unix now)"
  obtain s1 k where d: "dropExpiredAuthsLocked (unix now) s = (s1, k)" by fastforce
  have s1: "sg_auths s1 = dropWhile ?E (sg_auths s)" using dropExpired_pair [OF d] by simp
  have split: "sg_auths s = takeWhile ?E (sg_auths s) @ dropWhile ?E (sg_auths s)" by simp
  show ?thesis
  proof (cases "sg_auths s1")
    case Nil
    with assms Some d s1 split show ?thesis
      by (auto simp: HoldSign_def hold_lost_def held_of_def)
  next
    case (Cons a rest)
    with s1 have D: "dropWhile ?E (sg_auths s) = a # rest" by simp
    have "hold_lost cd now req s @ (case held_of r of None \<Rightarrow> [] | Some x \<Rightarrow> [x]) @ sg_auths s'
        = takeWhile ?E (sg_auths s) @ a # rest"
    proof (cases "pa_payment a")
      case None
      with assms Some d Cons D show ?thesis
        by (auto simp: HoldSign_def hold_lost_def held_of_def Let_def)
    next
      case (Some p)
      with assms \<open>req = Some rq\<close> d Cons D show ?thesis
        by (cases "clonePaymentPayload cd (Some p)")
           (auto simp: HoldSign_def hold_lost_def held_of_def Let_def)
    qed
    with s1 Cons show ?thesis by simp
  qed
qed

lemma HoldSign_held:
  assumes "HoldSign cd now req s = (s', Inr (p, a))"
  shows "dropWhile (auth_expired (unix now)) (sg_auths s) = a # sg_auths s'"
    and "sg_spent s' = sg_spent s + 1"
    and "sg_onConsume s' = sg_onConsume s"
proof -
  obtain rq where rq: "req = Some rq" using assms by (cases req) (auto simp: HoldSign_def)
  obtain s1 k where d: "dropExpiredAuthsLocked (unix now) s = (s1, k)" by fastforce
  note f = dropExpired_pair [OF d]
  have "sg_auths s1 = a # sg_auths s' \<and> sg_spent s' = sg_spent s1 + 1 \<and> sg_onConsume s' = sg_onConsume s1"
    using assms rq d by (auto simp: HoldSign_def Let_def split: list.splits option.splits sum.splits)
  with f show "dropWhile (auth_expired (unix now)) (sg_auths s) = a # sg_auths s'"
    and "sg_spent s' = sg_spent s + 1" and "sg_onConsume s' = sg_onConsume s" by auto
qed

lemma HoldSign_not_expired:
  "HoldSign cd now req s = (s', Inr (p, a)) \<Longrightarrow> \<not> auth_expired (unix now) a"
  by (drule HoldSign_held(1)) (simp add: dropWhile_eq_Cons_conv)

lemma ReleaseSpend_auths [simp]:
  "sg_auths (ReleaseSpend None s) = sg_auths s"
  "sg_auths (ReleaseSpend (Some a) s) = a # sg_auths s"
  by (simp_all add: ReleaseSpend_def)

subsection \<open>The interface of the pool\<close>

text \<open>
  What the proxy relies on: holding moves one authorization out of the pool and may discard others,
  releasing puts one back.  \<open>lost\<close> says which ones a hold discards.
\<close>

locale voucher_pool =
  fixes pool :: "'p \<Rightarrow> 'a list"
    and hold :: "'i \<Rightarrow> 'p \<Rightarrow> 'p \<times> 'a option"
    and lost :: "'i \<Rightarrow> 'p \<Rightarrow> 'a list"
    and release :: "'a \<Rightarrow> 'p \<Rightarrow> 'p"
  assumes hold_partition:
      "hold i p = (p', h) \<Longrightarrow> pool p = lost i p @ (case h of None \<Rightarrow> [] | Some a \<Rightarrow> [a]) @ pool p'"
    and release_pool: "pool (release a p) = a # pool p"
begin

lemma hold_total:
  "hold i p = (p', h) \<Longrightarrow>
   mset (pool p) + H + G = mset (pool p') + (mset (case h of None \<Rightarrow> [] | Some a \<Rightarrow> [a]) + H) + (mset (lost i p) + G)"
  by (drule hold_partition) (simp add: ac_simps)

lemma release_total:
  "mset (pool p) + add_mset a H + G = mset (pool (release a p)) + H + G"
  by (simp add: release_pool)

lemma hold_release_restores:
  "hold i p = (p', Some a) \<Longrightarrow> lost i p = [] \<Longrightarrow> pool (release a p') = pool p"
  by (drule hold_partition) (simp add: release_pool)

lemma hold_shrinks: "hold i p = (p', h) \<Longrightarrow> mset (pool p') \<subseteq># mset (pool p)"
  by (drule hold_partition) simp

end

interpretation spool: voucher_pool sg_auths
  "\<lambda>(cd, now, req) s. (fst (HoldSign cd now req s), held_of (snd (HoldSign cd now req s)))"
  "\<lambda>(cd, now, req) s. hold_lost cd now req s"
  "\<lambda>a s. ReleaseSpend (Some a) s"
proof unfold_locales
  fix i p p' h
  assume "(\<lambda>(cd, now, req) s. (fst (HoldSign cd now req s), held_of (snd (HoldSign cd now req s)))) i p = (p', h)"
  then show "sg_auths p = (\<lambda>(cd, now, req). hold_lost cd now req) i p @
      (case h of None \<Rightarrow> [] | Some a \<Rightarrow> [a]) @ sg_auths p'"
    by (cases i) (auto intro: HoldSign_partition [OF surjective_pairing])
qed simp

end
