(* ===== verification/Http.thy ===== *)
theory Http imports GoStrings begin

text \<open>
  The part of \<open>net/http\<close> that the program uses.  \<open>Header\<close> folds the letter case of its keys, so the
  map is keyed by the lower-case name.  A request body is nil, empty, a stream that can be read once
  (\<open>None\<close> when reading it fails), or bytes with \<open>GetBody\<close> set.
\<close>

type_synonym header = "(string, string list) gomap"

definition hget :: "header \<Rightarrow> string \<Rightarrow> string" where
  "hget h k = (case map_of h (to_lower k) of Some (v # vs) \<Rightarrow> v | _ \<Rightarrow> [])"

definition hset :: "string \<Rightarrow> string \<Rightarrow> header \<Rightarrow> header" where
  "hset k v h = AList.update (to_lower k) [v] h"

definition hdel :: "string \<Rightarrow> header \<Rightarrow> header" where
  "hdel k h = AList.delete (to_lower k) h"

lemma hget_hset [simp]: "hget (hset k v h) k' = (if equal_fold k' k then v else hget h k')"
  by (simp add: hget_def hset_def equal_fold_def)

lemma hget_hdel [simp]: "hget (hdel k h) k' = (if equal_fold k' k then [] else hget h k')"
  by (simp add: hget_def hdel_def equal_fold_def)

datatype http_body = NilBody | NoBody | Stream "string option" | Replayable string

record http_request =
  rq_method :: string
  rq_host :: string
  rq_path :: string
  rq_rawQuery :: string
  rq_header :: header
  rq_body :: http_body

record http_response =
  rs_status :: int
  rs_header :: header
  rs_body :: string

end
