(* ===== verification/BuyerTransport.thy ===== *)
theory BuyerTransport imports BuyerSigner Http begin

text \<open>
  \<open>replayableX402Transport.RoundTrip\<close> of \<open>internal/x402/buyer/proxy.go\<close> with the helpers it calls,
  and the settlement header of \<open>encoding.go\<close>.

  The outbound transport is the environment: \<open>base1\<close> answers the probe and \<open>base2\<close> the paid retry,
  each with a response or a transport error.  The function is cut where it talks to the network:
  \<open>rt_probe\<close> up to the 402, \<open>rt_hold\<close> and \<open>rt_send\<close> up to the retry, \<open>rt_finish\<close> from its
  answer on.  \<open>RoundTrip\<close> composes them, and the step relation \<open>buyer_step\<close> interleaves the pieces of
  concurrent requests on one upstream.  Log lines and time stamps are left out.
\<close>

subsection \<open>Settlement header\<close>

record settlement_response =
  se_success :: bool
  se_errorReason :: string
  se_transaction :: string
  se_network :: string
  se_payer :: string

definition no_settlement :: settlement_response where
  "no_settlement = \<lparr>se_success = False, se_errorReason = [], se_transaction = [], se_network = [], se_payer = []\<rparr>"

text \<open>The second component is the error; the callers ignore it and use what was decoded.\<close>

definition DecodeSettlement :: "string \<Rightarrow> settlement_response \<times> bool" where
  "DecodeSettlement encoded =
     (case base64_decode encoded of None \<Rightarrow> (no_settlement, True)
      | Some decoded \<Rightarrow>
          (case json_parse decoded of
             None \<Rightarrow> (no_settlement, True)
           | Some JNull \<Rightarrow> (no_settlement, False)
           | Some (JObj kvs) \<Rightarrow>
               (let (ok, e1) = bool_field ''success'' kvs; (reason, e2) = str_field ''errorReason'' kvs;
                    (tx, e3) = str_field ''transaction'' kvs; (net, e4) = str_field ''network'' kvs;
                    (payer, e5) = str_field ''payer'' kvs
                in (\<lparr>se_success = ok, se_errorReason = reason, se_transaction = tx, se_network = net,
                     se_payer = payer\<rparr>, e1 \<or> e2 \<or> e3 \<or> e4 \<or> e5))
           | Some _ \<Rightarrow> (no_settlement, True)))"

definition EncodePayment :: "codec \<Rightarrow> payment_payload \<Rightarrow> string option" where
  "EncodePayment cd payment = map_option base64_encode (cd_marshal cd payment)"

subsection \<open>Request bodies\<close>

datatype rt_error =
    ReadBodyFailed
  | BodyNotReplayable
  | TransportFailed string
  | InvalidRequirements
  | SigningFailed
  | NoPayment sign_error

definition ensureReplayableBody :: "http_request \<Rightarrow> rt_error + http_request" where
  "ensureReplayableBody req =
     (case rq_body req of
        NilBody \<Rightarrow> Inr req
      | NoBody \<Rightarrow> Inr req
      | Replayable b \<Rightarrow> Inr req
      | Stream None \<Rightarrow> Inl ReadBodyFailed
      | Stream (Some b) \<Rightarrow> Inr (req\<lparr>rq_body := Replayable b\<rparr>))"

definition cloneRequestWithFreshBody :: "http_request \<Rightarrow> rt_error + http_request" where
  "cloneRequestWithFreshBody req =
     (case rq_body req of
        NilBody \<Rightarrow> Inr req
      | NoBody \<Rightarrow> Inr req
      | Stream b \<Rightarrow> Inl BodyNotReplayable
      | Replayable b \<Rightarrow> Inr (req\<lparr>rq_body := Replayable b\<rparr>))"

definition bodyBufferMiddleware :: "http_request \<Rightarrow> int + http_request" where
  "bodyBufferMiddleware r =
     (case rq_body r of
        NilBody \<Rightarrow> Inr r
      | NoBody \<Rightarrow> Inr r
      | Stream None \<Rightarrow> Inl 400
      | Stream (Some b) \<Rightarrow> Inr (r\<lparr>rq_body := Replayable b\<rparr>)
      | Replayable b \<Rightarrow> Inr r)"

definition sanitizeLogString :: "string \<Rightarrow> string" where
  "sanitizeLogString s = map (\<lambda>c. if byte c < 32 \<or> byte c = 127 then CHR ''_'' else c) s"

definition default_user_agent :: string where
  "default_user_agent = ''obol-buy-x402/1.0 (+https://github.com/ObolNetwork/obol-stack)''"

subsection \<open>The 402 answer\<close>

text \<open>One entry of \<open>accepts\<close>; \<open>None\<close> is a type error.\<close>

definition decode_accept :: "json \<Rightarrow> payment_requirements option" where
  "decode_accept v =
     (let dec = (\<lambda>kvs.
        (let (scheme, e1) = str_field ''scheme'' kvs; (network, e2) = str_field ''network'' kvs;
             (maxAmt, e3) = str_field ''maxAmountRequired'' kvs; (amt, e4) = str_field ''amount'' kvs;
             (asset, e5) = str_field ''asset'' kvs; (payTo, e6) = str_field ''payTo'' kvs;
             (tmo, e7) = int_field ''maxTimeoutSeconds'' kvs; (extra, e8) = anymap_field ''extra'' kvs
         in if e1 \<or> e2 \<or> e3 \<or> e4 \<or> e5 \<or> e6 \<or> e7 \<or> e8 then None
            else Some \<lparr>pr_scheme = scheme, pr_network = normalizeNetworkID network, pr_asset = asset,
                       pr_amount = (if amt = [] then maxAmt else amt), pr_payTo = payTo,
                       pr_maxTimeoutSeconds = tmo, pr_extra = extra\<rparr>))
      in (case v of JObj kvs \<Rightarrow> dec kvs | JNull \<Rightarrow> dec [] | _ \<Rightarrow> None))"

definition parsePaymentRequirements :: "http_response \<Rightarrow> payment_requirements list option" where
  "parsePaymentRequirements resp =
     (case json_parse (rs_body resp) of
        Some (JObj kvs) \<Rightarrow>
          (if snd (int_field ''x402Version'' kvs) then None
           else (case rev (field_values ''accepts'' kvs) of
               [] \<Rightarrow> None
             | v # _ \<Rightarrow> (case v of
                   JArr vs \<Rightarrow> (case decode_each decode_accept vs of
                       None \<Rightarrow> None
                     | Some reqs \<Rightarrow> if reqs = [] then None else Some reqs)
                 | _ \<Rightarrow> None)))
      | _ \<Rightarrow> None)"

subsection \<open>Events\<close>

datatype callback =
    OnPaymentAttempt | OnPaymentSuccess | OnPaymentFailure | OnConfirmSpendFailure | OnPaymentUnsettled

datatype payment_event_type = EvAttempt | EvSuccess | EvFailure | EvUnsettled

record payment_event =
  ev_callback :: callback
  ev_type :: payment_event_type
  ev_network :: string
  ev_scheme :: string
  ev_amount :: string
  ev_asset :: string
  ev_recipient :: string
  ev_transaction :: string
  ev_payer :: string

definition plain_event :: "callback \<Rightarrow> payment_event_type \<Rightarrow> payment_event" where
  "plain_event cb ty = \<lparr>ev_callback = cb, ev_type = ty, ev_network = [], ev_scheme = [], ev_amount = [],
     ev_asset = [], ev_recipient = [], ev_transaction = [], ev_payer = []\<rparr>"

definition with_requirement :: "payment_requirements option \<Rightarrow> payment_event \<Rightarrow> payment_event" where
  "with_requirement sel e =
     (case sel of None \<Rightarrow> e
      | Some r \<Rightarrow> e\<lparr>ev_network := pr_network r, ev_scheme := pr_scheme r, ev_amount := pr_amount r,
                     ev_asset := pr_asset r, ev_recipient := pr_payTo r\<rparr>)"

text \<open>
  What a round trip changes: the signers, the consumed store with its disk, and the events handed
  to the callbacks that are installed (\<open>hooks\<close>).
\<close>

record rt_state =
  rt_signers :: "signer list"
  rt_sf :: "state_store \<times> files"
  rt_events :: "payment_event list"

definition emit :: "callback list \<Rightarrow> payment_event \<Rightarrow> rt_state \<Rightarrow> rt_state" where
  "emit hooks e st =
     (if ev_callback e \<in> set hooks then st\<lparr>rt_events := rt_events st @ [e]\<rparr> else st)"

subsection \<open>Round trip: the probe\<close>

datatype probe_outcome =
    ProbeFailed rt_error
  | PassThrough http_response
  | Challenge "payment_requirements list"

definition rt_probe ::
  "(http_request \<Rightarrow> string + http_response) \<Rightarrow> http_request \<Rightarrow> http_request \<times> probe_outcome" where
  "rt_probe base1 req =
     (case ensureReplayableBody req of Inl e \<Rightarrow> (req, ProbeFailed e)
      | Inr req1 \<Rightarrow>
          (case cloneRequestWithFreshBody req1 of Inl e \<Rightarrow> (req1, ProbeFailed e)
           | Inr first \<Rightarrow>
               (case base1 (first\<lparr>rq_header := hset ''User-Agent'' default_user_agent (rq_header first)\<rparr>) of
                  Inl err \<Rightarrow> (req1, ProbeFailed (TransportFailed err))
                | Inr resp \<Rightarrow>
                    if rs_status resp \<noteq> 402 then (req1, PassThrough resp)
                    else (case parsePaymentRequirements resp of
                       None \<Rightarrow> (req1, ProbeFailed InvalidRequirements)
                     | Some reqs \<Rightarrow> (req1, Challenge reqs)))))"

subsection \<open>Round trip: choosing and holding an authorization\<close>

fun selectAndHoldPayment ::
  "codec \<Rightarrow> nsec \<Rightarrow> payment_requirements list \<Rightarrow> signer \<Rightarrow> signer \<times> (sign_error + payment_payload \<times> pre_signed_auth)" where
  "selectAndHoldPayment cd now [] ps = (ps, Inl ErrNoValidSigner)"
| "selectAndHoldPayment cd now (r # rs) ps =
     (if CanSign (Some r) ps then HoldSign cd now (Some r) ps else selectAndHoldPayment cd now rs ps)"

definition releaseHeldPreSignedSpend :: "signer list \<Rightarrow> pre_signed_auth option \<Rightarrow> signer list" where
  "releaseHeldPreSignedSpend signers held =
     (if held = None \<or> length signers \<noteq> 1 then signers
      else map (ReleaseSpend held) signers)"

definition rt_hold ::
  "codec \<Rightarrow> nsec \<Rightarrow> write_fault \<Rightarrow> payment_requirements list \<Rightarrow> rt_state \<Rightarrow>
     rt_state \<times> (rt_error + payment_payload \<times> pre_signed_auth option)" where
  "rt_hold cd now fault reqs st =
     (case rt_signers st of
        [ps] \<Rightarrow>
          (case selectAndHoldPayment cd now reqs ps of
             (ps', Inl e) \<Rightarrow> (st\<lparr>rt_signers := [ps']\<rparr>, Inl (NoPayment e))
           | (ps', Inr (payment, auth)) \<Rightarrow> (st\<lparr>rt_signers := [ps']\<rparr>, Inr (payment, Some auth)))
      | _ \<Rightarrow>
          (case SelectAndSign cd now fault reqs (rt_signers st) (rt_sf st) of
             (ss', sf', Inl e) \<Rightarrow> (st\<lparr>rt_signers := ss', rt_sf := sf'\<rparr>, Inl (NoPayment e))
           | (ss', sf', Inr payment) \<Rightarrow> (st\<lparr>rt_signers := ss', rt_sf := sf'\<rparr>, Inr (payment, None))))"

definition selected_requirement :: "payment_payload \<Rightarrow> payment_requirements list \<Rightarrow> payment_requirements option" where
  "selected_requirement payment reqs =
     find (\<lambda>r. pr_network r = pr_network (pp_accepted payment) \<and>
               pr_scheme r = pr_scheme (pp_accepted payment) \<and>
               pr_amount r = pr_amount (pp_accepted payment) \<and>
               pr_asset r = pr_asset (pp_accepted payment) \<and>
               pr_payTo r = pr_payTo (pp_accepted payment)) reqs"

subsection \<open>Round trip: building the retry\<close>

definition attempt_event :: "payment_payload \<Rightarrow> payment_requirements \<Rightarrow> payment_event" where
  "attempt_event payment r =
     (plain_event OnPaymentAttempt EvAttempt)
       \<lparr>ev_network := pr_network (pp_accepted payment), ev_scheme := pr_scheme (pp_accepted payment),
        ev_amount := pr_amount r, ev_asset := pr_asset r, ev_recipient := pr_payTo r\<rparr>"

definition rt_send ::
  "callback list \<Rightarrow> codec \<Rightarrow> http_request \<Rightarrow> payment_payload \<Rightarrow> pre_signed_auth option \<Rightarrow>
     payment_requirements option \<Rightarrow> rt_state \<Rightarrow> rt_state \<times> (rt_error + http_request)" where
  "rt_send hooks cd req payment held sel st =
     (let st1 = (case sel of None \<Rightarrow> st | Some r \<Rightarrow> emit hooks (attempt_event payment r) st);
          released = st1\<lparr>rt_signers := releaseHeldPreSignedSpend (rt_signers st1) held\<rparr>
      in (case EncodePayment cd payment of
            None \<Rightarrow> (emit hooks (plain_event OnPaymentFailure EvFailure) released, Inl SigningFailed)
          | Some hdr \<Rightarrow>
              (case cloneRequestWithFreshBody req of
                 Inl e \<Rightarrow> (released, Inl e)
               | Inr retry \<Rightarrow>
                   (st1, Inr (retry\<lparr>rq_header := hset ''X-PAYMENT'' hdr
                                 (hset ''User-Agent'' default_user_agent (rq_header retry))\<rparr>)))))"

subsection \<open>Round trip: the answer to the retry\<close>

text \<open>Consuming the held authorization; a failure to persist it only fires a callback.\<close>

definition confirm_held ::
  "callback list \<Rightarrow> write_fault \<Rightarrow> payment_requirements option \<Rightarrow> pre_signed_auth option \<Rightarrow> rt_state \<Rightarrow> rt_state" where
  "confirm_held hooks fault sel held st =
     (case rt_signers st of
        [ps] \<Rightarrow>
          (if held = None then st
           else (case ConfirmSpend fault ps held (rt_sf st) of
              (sf', None) \<Rightarrow> st\<lparr>rt_sf := sf'\<rparr>
            | (sf', Some e) \<Rightarrow>
                emit hooks (with_requirement sel (plain_event OnConfirmSpendFailure EvFailure)) (st\<lparr>rt_sf := sf'\<rparr>)))
      | _ \<Rightarrow> st)"

definition rt_transport_error ::
  "callback list \<Rightarrow> pre_signed_auth option \<Rightarrow> string \<Rightarrow> rt_state \<Rightarrow> rt_state \<times> (rt_error + http_response)" where
  "rt_transport_error hooks held err st =
     (emit hooks (plain_event OnPaymentFailure EvFailure)
        (st\<lparr>rt_signers := releaseHeldPreSignedSpend (rt_signers st) held\<rparr>), Inl (TransportFailed err))"

definition rt_upstream_error ::
  "callback list \<Rightarrow> write_fault \<Rightarrow> payment_requirements option \<Rightarrow> pre_signed_auth option \<Rightarrow> http_response \<Rightarrow>
     rt_state \<Rightarrow> rt_state \<times> (rt_error + http_response)" where
  "rt_upstream_error hooks fault sel held resp st =
     (let errSettlement = fst (DecodeSettlement (hget (rs_header resp) ''X-PAYMENT-RESPONSE''))
      in if se_transaction errSettlement \<noteq> []
         then (emit hooks (with_requirement sel
                   ((plain_event OnPaymentUnsettled EvUnsettled)
                      \<lparr>ev_transaction := se_transaction errSettlement, ev_payer := se_payer errSettlement\<rparr>))
                 (confirm_held hooks fault sel held st), Inr resp)
         else (st\<lparr>rt_signers := releaseHeldPreSignedSpend (rt_signers st) held\<rparr>, Inr resp))"

definition rt_success ::
  "callback list \<Rightarrow> write_fault \<Rightarrow> payment_requirements option \<Rightarrow> pre_signed_auth option \<Rightarrow> http_response \<Rightarrow>
     rt_state \<Rightarrow> rt_state \<times> (rt_error + http_response)" where
  "rt_success hooks fault sel held resp st =
     (let st1 = confirm_held hooks fault sel held st;
          settlement = fst (DecodeSettlement (hget (rs_header resp) ''X-PAYMENT-RESPONSE''))
      in if se_success settlement
         then (emit hooks (with_requirement sel
                 ((plain_event OnPaymentSuccess EvSuccess)
                    \<lparr>ev_transaction := se_transaction settlement, ev_payer := se_payer settlement\<rparr>)) st1, Inr resp)
         else if held \<noteq> None
         then (emit hooks (with_requirement sel (plain_event OnPaymentUnsettled EvUnsettled)) st1, Inr resp)
         else (st1, Inr resp))"

definition rt_finish ::
  "callback list \<Rightarrow> write_fault \<Rightarrow> payment_requirements option \<Rightarrow> pre_signed_auth option \<Rightarrow>
     string + http_response \<Rightarrow> rt_state \<Rightarrow> rt_state \<times> (rt_error + http_response)" where
  "rt_finish hooks fault sel held answer st =
     (case answer of
        Inl err \<Rightarrow> rt_transport_error hooks held err st
      | Inr resp \<Rightarrow>
          if rs_status resp \<ge> 400 then rt_upstream_error hooks fault sel held resp st
          else rt_success hooks fault sel held resp st)"

definition RoundTrip ::
  "callback list \<Rightarrow> codec \<Rightarrow> nsec \<Rightarrow> write_fault \<Rightarrow> (http_request \<Rightarrow> string + http_response) \<Rightarrow>
     (http_request \<Rightarrow> string + http_response) \<Rightarrow> http_request \<Rightarrow> rt_state \<Rightarrow> rt_state \<times> (rt_error + http_response)" where
  "RoundTrip hooks cd now fault base1 base2 req st =
     (case rt_probe base1 req of
        (_, ProbeFailed e) \<Rightarrow> (st, Inl e)
      | (_, PassThrough resp) \<Rightarrow> (st, Inr resp)
      | (req1, Challenge reqs) \<Rightarrow>
          (case rt_hold cd now fault reqs st of
             (st1, Inl e) \<Rightarrow> (st1, Inl e)
           | (st1, Inr (payment, held)) \<Rightarrow>
               (let sel = selected_requirement payment reqs in
                (case rt_send hooks cd req1 payment held sel st1 of
                   (st2, Inl e) \<Rightarrow> (st2, Inl e)
                 | (st2, Inr retry) \<Rightarrow> rt_finish hooks fault sel held (base2 retry) st2))))"

end
