(* ===== verification/BuyerProxy.thy ===== *)
theory BuyerProxy imports BuyerTransport begin

text \<open>
  \<open>Proxy\<close> of \<open>internal/x402/buyer/proxy.go\<close>: reload from configuration and pools, routing by model
  and by upstream name, the reverse proxy in front of the payment transport, the admin endpoints and
  the metrics.

  \<open>parse_url\<close> is \<open>net/url.Parse\<close> and \<open>marshal_map\<close> is \<open>json.Marshal\<close> on a decoded object, which
  cannot fail.  \<open>ServeMux\<close> is reduced to the list of names with a compatibility route.  A callback of
  the transport becomes an update of the metrics after the round trip; the gauges it sets are those
  of the signer at the end of the round trip, which no later line of the round trip changes.
\<close>

record url_parts =
  u_scheme :: string
  u_host :: string
  u_path :: string

record upstream_entry =
  ue_name :: string
  ue_remoteModel :: string
  ue_config :: upstream_config
  ue_target :: url_parts

type_synonym labels = "string \<times> string \<times> string"

record buyer_metrics =
  bm_requestsTotal :: "(labels, int) gomap"
  bm_paymentAttempts :: "(labels, int) gomap"
  bm_paymentSuccessTotal :: "(labels, int) gomap"
  bm_paymentFailureTotal :: "(labels, int) gomap"
  bm_confirmSpendFailureTotal :: "(labels, int) gomap"
  bm_paymentUnsettled :: "(labels, int) gomap"
  bm_authRemaining :: "(labels, int) gomap"
  bm_authSpent :: "(labels, int) gomap"
  bm_activeModelMappings :: "(labels, int) gomap"

record proxy =
  px_signers :: "(string, signer) gomap"
  px_upstreams :: "(string, upstream_entry) gomap"
  px_modelRoutes :: "(string, string) gomap"
  px_compatRoutes :: "string list"
  px_metrics :: buyer_metrics
  px_state :: "state_store \<times> files"
  px_reloadPending :: bool

subsection \<open>Names and paths\<close>

definition strip_model_prefixes :: "string \<Rightarrow> string" where
  "strip_model_prefixes m = trim_prefix ''openai/'' (trim_prefix ''paid/'' m)"

lemma length_strip_model_prefixes: "length (strip_model_prefixes m) \<le> length m"
  unfolding strip_model_prefixes_def by (meson le_trans length_trim_prefix_le)

lemma strip_model_prefixes_shrinks: "strip_model_prefixes m \<noteq> m \<Longrightarrow> length (strip_model_prefixes m) < length m"
proof (cases "has_prefix ''paid/'' m")
  case True
  then have "length (trim_prefix ''paid/'' m) < length m" by (rule length_trim_prefix_less) simp
  then show ?thesis unfolding strip_model_prefixes_def by (meson le_less_trans length_trim_prefix_le)
next
  case False
  assume "strip_model_prefixes m \<noteq> m"
  with False have "has_prefix ''openai/'' m"
    by (metis strip_model_prefixes_def trim_prefix_id)
  with False show ?thesis by (simp add: strip_model_prefixes_def trim_prefix_id length_trim_prefix_less)
qed

function normalize_loop :: "string \<Rightarrow> string" where
  "normalize_loop m = (if strip_model_prefixes m = m then m else normalize_loop (strip_model_prefixes m))"
  by pat_completeness auto
termination
  by (relation "measure length") (auto intro: strip_model_prefixes_shrinks)

declare normalize_loop.simps [simp del]

definition normalizeRemoteModel :: "string \<Rightarrow> string" where
  "normalizeRemoteModel model = normalize_loop (trim_space model)"

definition singleJoiningSlash_buyer :: "string \<Rightarrow> string \<Rightarrow> string" where
  "singleJoiningSlash_buyer a b =
     (let aslash = has_suffix ''/'' a; bslash = has_prefix ''/'' b
      in if aslash \<and> bslash then a @ drop 1 b
         else if \<not> aslash \<and> \<not> bslash then a @ ''/'' @ b
         else a @ b)"

definition prometheusLabels :: "string \<Rightarrow> string \<Rightarrow> string \<Rightarrow> labels" where
  "prometheusLabels name remoteModel chain = (name, remoteModel, chain)"

subsection \<open>Metrics\<close>

definition inc :: "labels \<Rightarrow> (labels, int) gomap \<Rightarrow> (labels, int) gomap" where
  "inc l m = AList.update l (the_default 0 (map_of m l) + 1) m"

definition set_pool_gauges :: "labels \<Rightarrow> signer \<Rightarrow> buyer_metrics \<Rightarrow> buyer_metrics" where
  "set_pool_gauges l s m =
     m\<lparr>bm_authRemaining := AList.update l (int (Remaining s)) (bm_authRemaining m),
       bm_authSpent := AList.update l (Spent s) (bm_authSpent m)\<rparr>"

definition entry_labels :: "upstream_entry \<Rightarrow> labels" where
  "entry_labels e = prometheusLabels (ue_name e) (ue_remoteModel e) (uc_network (ue_config e))"

definition syncMetricsLocked :: "proxy \<Rightarrow> proxy" where
  "syncMetricsLocked p =
     (let step = (\<lambda>m (name, e).
            (let l = prometheusLabels name (ue_remoteModel e) (uc_network (ue_config e));
                 m1 = m\<lparr>bm_activeModelMappings := AList.update l 1 (bm_activeModelMappings m)\<rparr>
             in (case map_of (px_signers p) name of None \<Rightarrow> m1 | Some s \<Rightarrow> set_pool_gauges l s m1)))
      in p\<lparr>px_metrics := foldl step
              ((px_metrics p)\<lparr>bm_authRemaining := [], bm_authSpent := [], bm_activeModelMappings := []\<rparr>)
              (px_upstreams p)\<rparr>)"

definition syncCompatibilityRoutesLocked :: "proxy \<Rightarrow> proxy" where
  "syncCompatibilityRoutesLocked p = p\<lparr>px_compatRoutes := map fst (px_upstreams p)\<rparr>"

subsection \<open>Reload\<close>

definition reload_pool :: "state_store \<Rightarrow> string \<Rightarrow> pre_signed_auth option list \<Rightarrow> pre_signed_auth list" where
  "reload_pool st name pool =
     [a. Some a \<leftarrow> pool, \<not> (ConsumeKey (Some a) \<noteq> [] \<and> IsConsumed st name (ConsumeKey (Some a)))]"

definition reload_remoteModel :: "string \<Rightarrow> upstream_config \<Rightarrow> string" where
  "reload_remoteModel name upstream =
     (let m = normalizeRemoteModel (uc_remoteModel upstream)
      in if m = [] then normalizeRemoteModel name else m)"

definition reload_signer :: "state_store \<Rightarrow> auths_file \<Rightarrow> string \<Rightarrow> upstream_config \<Rightarrow> signer" where
  "reload_signer st auths name upstream =
     NewPreSignedSigner (uc_network upstream) (uc_payTo upstream) (uc_asset upstream) (uc_price upstream)
       (uc_assetSymbol upstream) (uc_assetDecimals upstream)
       (reload_pool st name (the_default [] (map_of auths name)))
       (int (ConsumedCount st name)) (Some name)"

fun reload_loop ::
  "(string \<Rightarrow> url_parts option) \<Rightarrow> state_store \<Rightarrow> auths_file \<Rightarrow> (string \<times> upstream_config) list \<Rightarrow>
     (string, signer) gomap \<times> (string, upstream_entry) gomap \<times> (string, string) gomap \<Rightarrow>
     string + (string, signer) gomap \<times> (string, upstream_entry) gomap \<times> (string, string) gomap" where
  "reload_loop parse_url st auths [] acc = Inr acc"
| "reload_loop parse_url st auths ((name, upstream) # rest) (ss, us, rs) =
     (case parse_url (uc_url upstream) of
        None \<Rightarrow> Inl name
      | Some target \<Rightarrow>
          (let m = reload_remoteModel name upstream in
           reload_loop parse_url st auths rest
             (AList.update name (reload_signer st auths name upstream) ss,
              AList.update name \<lparr>ue_name = name, ue_remoteModel = m, ue_config = upstream, ue_target = target\<rparr> us,
              AList.update m name rs)))"

definition Reload :: "(string \<Rightarrow> url_parts option) \<Rightarrow> buyer_config \<Rightarrow> auths_file \<Rightarrow> proxy \<Rightarrow> proxy \<times> string option" where
  "Reload parse_url cfg auths p =
     (case reload_loop parse_url (fst (px_state p)) auths (cfg_upstreams cfg) ([], [], []) of
        Inl name \<Rightarrow> (p, Some name)
      | Inr (ss, us, rs) \<Rightarrow>
          (syncMetricsLocked (syncCompatibilityRoutesLocked
             (p\<lparr>px_signers := ss, px_upstreams := us, px_modelRoutes := rs\<rparr>)), None))"

definition newMetrics :: buyer_metrics where
  "newMetrics = \<lparr>bm_requestsTotal = [], bm_paymentAttempts = [], bm_paymentSuccessTotal = [],
     bm_paymentFailureTotal = [], bm_confirmSpendFailureTotal = [], bm_paymentUnsettled = [],
     bm_authRemaining = [], bm_authSpent = [], bm_activeModelMappings = []\<rparr>"

definition NewProxy ::
  "(string \<Rightarrow> url_parts option) \<Rightarrow> buyer_config \<Rightarrow> auths_file \<Rightarrow> state_store option \<Rightarrow> files \<Rightarrow> string + proxy" where
  "NewProxy parse_url cfg auths state fs =
     (let st = (case state of Some s \<Rightarrow> s | None \<Rightarrow> \<lparr>ss_path = [], ss_consumed = []\<rparr>);
          p = \<lparr>px_signers = [], px_upstreams = [], px_modelRoutes = [], px_compatRoutes = [],
               px_metrics = newMetrics, px_state = (st, fs), px_reloadPending = False\<rparr>
      in (case Reload parse_url cfg auths p of
            (p', None) \<Rightarrow> Inr p'
          | (p', Some name) \<Rightarrow> Inl name))"

subsection \<open>Admin endpoints\<close>

definition removeUpstreamLocked :: "string \<Rightarrow> proxy \<Rightarrow> proxy" where
  "removeUpstreamLocked name p =
     p\<lparr>px_signers := AList.delete name (px_signers p),
       px_upstreams := AList.delete name (px_upstreams p),
       px_modelRoutes :=
         (case map_of (px_upstreams p) name of
            Some e \<Rightarrow> (if map_of (px_modelRoutes p) (ue_remoteModel e) = Some name
                       then AList.delete (ue_remoteModel e) (px_modelRoutes p) else px_modelRoutes p)
          | None \<Rightarrow> px_modelRoutes p)\<rparr>"

text \<open>The result is the HTTP status.\<close>

definition handleAdminRemove :: "string \<Rightarrow> proxy \<Rightarrow> proxy \<times> int" where
  "handleAdminRemove raw p =
     (let name = trim_space raw in
      if name = [] then (p, 400)
      else (syncMetricsLocked (syncCompatibilityRoutesLocked (removeUpstreamLocked name p)), 200))"

text \<open>The channel has room for one pending reload; the result says whether this call triggered it.\<close>

definition handleAdminReload :: "proxy \<Rightarrow> proxy \<times> bool" where
  "handleAdminReload p = (p\<lparr>px_reloadPending := True\<rparr>, \<not> px_reloadPending p)"

record upstream_status =
  us_url :: string
  us_remoteModel :: string
  us_publicModel :: string
  us_remaining :: nat
  us_spent :: int
  us_network :: string

text \<open>\<open>None\<close> is the nil dereference of an upstream that is missing.\<close>

fun status_loop :: "proxy \<Rightarrow> (string \<times> signer) list \<Rightarrow> (string, upstream_status) gomap option" where
  "status_loop p [] = Some []"
| "status_loop p ((name, s) # rest) =
     (case map_of (px_upstreams p) name of None \<Rightarrow> None
      | Some us \<Rightarrow> map_option (AList.update name
            \<lparr>us_url = uc_url (ue_config us), us_remoteModel = ue_remoteModel us,
             us_publicModel = ''paid/'' @ ue_remoteModel us, us_remaining = Remaining s,
             us_spent = Spent s, us_network = uc_network (ue_config us)\<rparr>) (status_loop p rest))"

definition handleStatus :: "proxy \<Rightarrow> (string, upstream_status) gomap option" where
  "handleStatus p = status_loop p (px_signers p)"

subsection \<open>Serving a paid request\<close>

definition resolveModelRequest ::
  "string \<Rightarrow> proxy \<Rightarrow> (string \<times> (string, goany) gomap \<times> upstream_entry) option" where
  "resolveModelRequest body p =
     (case json_parse body of
        Some (JObj kvs) \<Rightarrow>
          (case map_of_json kvs [] of None \<Rightarrow> None
           | Some payload \<Rightarrow>
               (let remoteModel = normalizeRemoteModel (the_default [] (as_string (map_of payload ''model'')))
                in if remoteModel = [] then None
                   else (case map_of (px_modelRoutes p) remoteModel of None \<Rightarrow> None
                     | Some name \<Rightarrow> (case map_of (px_upstreams p) name of None \<Rightarrow> None
                         | Some entry \<Rightarrow>
                             Some (remoteModel, AList.update ''model'' (GStr remoteModel) payload, entry)))))
      | _ \<Rightarrow> None)"

definition proxy_hooks :: "callback list" where
  "proxy_hooks = [OnPaymentAttempt, OnPaymentFailure, OnConfirmSpendFailure, OnPaymentUnsettled]"

definition metric_of_event :: "labels \<Rightarrow> signer \<Rightarrow> buyer_metrics \<Rightarrow> payment_event \<Rightarrow> buyer_metrics" where
  "metric_of_event l s m e =
     (case ev_callback e of
        OnPaymentAttempt \<Rightarrow> m\<lparr>bm_paymentAttempts := inc l (bm_paymentAttempts m)\<rparr>
      | OnPaymentFailure \<Rightarrow>
          set_pool_gauges l s (m\<lparr>bm_paymentFailureTotal := inc l (bm_paymentFailureTotal m)\<rparr>)
      | OnConfirmSpendFailure \<Rightarrow>
          set_pool_gauges l s (m\<lparr>bm_confirmSpendFailureTotal := inc l (bm_confirmSpendFailureTotal m)\<rparr>)
      | OnPaymentUnsettled \<Rightarrow> m\<lparr>bm_paymentUnsettled := inc l (bm_paymentUnsettled m)\<rparr>
      | OnPaymentSuccess \<Rightarrow> m)"

definition upstream_rewrite :: "url_parts \<Rightarrow> http_request \<Rightarrow> http_request" where
  "upstream_rewrite target r =
     r\<lparr>rq_host := u_host target, rq_path := singleJoiningSlash_buyer (u_path target) (rq_path r)\<rparr>"

definition modifyResponse :: "labels \<Rightarrow> signer \<Rightarrow> bool \<Rightarrow> int \<Rightarrow> buyer_metrics \<Rightarrow> buyer_metrics" where
  "modifyResponse l s paid status m =
     (if \<not> paid then m
      else set_pool_gauges l s
        (if status < 400 then m\<lparr>bm_paymentSuccessTotal := inc l (bm_paymentSuccessTotal m)\<rparr>
         else m\<lparr>bm_paymentFailureTotal := inc l (bm_paymentFailureTotal m)\<rparr>))"

text \<open>
  The handler of one upstream.  The request that got the final answer carried \<open>X-PAYMENT\<close> when the
  probe was answered with a 402, or when the client had set the header itself.  A failed round trip
  is answered with 502 by \<open>ReverseProxy\<close>.
\<close>

definition serve_upstream ::
  "codec \<Rightarrow> nsec \<Rightarrow> write_fault \<Rightarrow> (http_request \<Rightarrow> string + http_response) \<Rightarrow>
     (http_request \<Rightarrow> string + http_response) \<Rightarrow> upstream_entry \<Rightarrow> signer \<Rightarrow> http_request \<Rightarrow> proxy \<Rightarrow>
     proxy \<times> http_response" where
  "serve_upstream cd now fault base1 base2 entry s r p =
     (case bodyBufferMiddleware r of
        Inl status \<Rightarrow> (p, \<lparr>rs_status = status, rs_header = [], rs_body = ''failed to read request body''\<rparr>)
      | Inr r1 \<Rightarrow>
          (let out = upstream_rewrite (ue_target entry) r1;
               (st, res) = RoundTrip proxy_hooks cd now fault base1 base2 out
                  \<lparr>rt_signers = [s], rt_sf = px_state p, rt_events = []\<rparr>;
               s' = hd (rt_signers st);
               l = entry_labels entry;
               m = foldl (metric_of_event l s') (px_metrics p) (rt_events st);
               paid = (case rt_probe base1 out of (_, Challenge _) \<Rightarrow> True
                       | _ \<Rightarrow> hget (rq_header r) ''X-Payment'' \<noteq> []);
               p1 = p\<lparr>px_signers := AList.update (ue_name entry) s' (px_signers p), px_state := rt_sf st\<rparr>
           in (case res of
                 Inl e \<Rightarrow> (p1\<lparr>px_metrics := m\<rparr>, \<lparr>rs_status = 502, rs_header = [], rs_body = []\<rparr>)
               | Inr resp \<Rightarrow> (p1\<lparr>px_metrics := modifyResponse l s' paid (rs_status resp) m\<rparr>, resp))))"

definition handleModelRequest ::
  "((string, goany) gomap \<Rightarrow> string) \<Rightarrow> codec \<Rightarrow> nsec \<Rightarrow> write_fault \<Rightarrow> (http_request \<Rightarrow> string + http_response) \<Rightarrow>
     (http_request \<Rightarrow> string + http_response) \<Rightarrow> http_request \<Rightarrow> proxy \<Rightarrow> proxy \<times> http_response" where
  "handleModelRequest marshal_map cd now fault base1 base2 r p =
     (let body = (case rq_body r of Stream b \<Rightarrow> b | Replayable b \<Rightarrow> Some b | NilBody \<Rightarrow> Some [] | NoBody \<Rightarrow> Some [])
      in (case body of
            None \<Rightarrow> (p, \<lparr>rs_status = 400, rs_header = [], rs_body = ''failed to read request body''\<rparr>)
          | Some b \<Rightarrow>
              (case resolveModelRequest b p of
                 None \<Rightarrow> (p, \<lparr>rs_status = 404, rs_header = [],
                             rs_body = ''no purchased upstream mapped for requested model''\<rparr>)
               | Some (remoteModel, payload, entry) \<Rightarrow>
                   (let l = prometheusLabels (ue_name entry) remoteModel (uc_network (ue_config entry));
                        m = px_metrics p;
                        p1 = p\<lparr>px_metrics := m\<lparr>bm_requestsTotal := inc l (bm_requestsTotal m)\<rparr>\<rparr>;
                        r1 = r\<lparr>rq_body := Replayable (marshal_map payload)\<rparr>
                    in (case map_of (px_signers p) (ue_name entry) of
                          Some s \<Rightarrow> serve_upstream cd now fault base1 base2 entry s r1 p1
                        | None \<Rightarrow> (p1, \<lparr>rs_status = 502, rs_header = [], rs_body = []\<rparr>))))))"

subsection \<open>Invariant\<close>

text \<open>
  Signers and upstreams have the same names, an entry is stored under its own name, and every model
  route leads to an upstream that serves this model.
\<close>

definition proxy_inv :: "proxy \<Rightarrow> bool" where
  "proxy_inv p \<longleftrightarrow>
     (\<forall>name. map_of (px_signers p) name = None \<longleftrightarrow> map_of (px_upstreams p) name = None) \<and>
     (\<forall>name e. map_of (px_upstreams p) name = Some e \<longrightarrow> ue_name e = name) \<and>
     (\<forall>model name. map_of (px_modelRoutes p) model = Some name \<longrightarrow>
        (\<exists>e. map_of (px_upstreams p) name = Some e \<and> ue_remoteModel e = model))"

lemma sync_frame [simp]:
  "px_signers (syncMetricsLocked p) = px_signers p"
  "px_upstreams (syncMetricsLocked p) = px_upstreams p"
  "px_modelRoutes (syncMetricsLocked p) = px_modelRoutes p"
  "px_state (syncMetricsLocked p) = px_state p"
  "px_signers (syncCompatibilityRoutesLocked p) = px_signers p"
  "px_upstreams (syncCompatibilityRoutesLocked p) = px_upstreams p"
  "px_modelRoutes (syncCompatibilityRoutesLocked p) = px_modelRoutes p"
  "px_state (syncCompatibilityRoutesLocked p) = px_state p"
  by (simp_all add: syncMetricsLocked_def syncCompatibilityRoutesLocked_def Let_def)

lemma proxy_inv_sync [simp]:
  "proxy_inv (syncMetricsLocked p) = proxy_inv p"
  "proxy_inv (syncCompatibilityRoutesLocked p) = proxy_inv p"
  by (simp_all add: proxy_inv_def)

lemma removeUpstream_inv [inv_intro]:
  assumes inv: "proxy_inv p"
  shows "proxy_inv (removeUpstreamLocked name p)"
proof (cases "map_of (px_upstreams p) name")
  case None
  with inv show ?thesis
    by (simp add: proxy_inv_def removeUpstreamLocked_def) (metis option.distinct(1))
next
  case (Some e)
  let ?p = "removeUpstreamLocked name p"
  have routes: "map_of (px_modelRoutes ?p) model = Some n \<Longrightarrow>
      map_of (px_modelRoutes p) model = Some n \<and> n \<noteq> name" for model n
    using inv Some unfolding proxy_inv_def removeUpstreamLocked_def by (fastforce split: if_splits)
  have "\<exists>e'. map_of (px_upstreams ?p) n = Some e' \<and> ue_remoteModel e' = model"
    if "map_of (px_modelRoutes ?p) model = Some n" for model n
    using routes [OF that] inv by (simp add: proxy_inv_def removeUpstreamLocked_def)
  with inv Some show ?thesis
    by (simp add: proxy_inv_def removeUpstreamLocked_def)
qed

lemma handleAdminRemove_inv [inv_intro]: "proxy_inv p \<Longrightarrow> proxy_inv (fst (handleAdminRemove raw p))"
  by (simp add: handleAdminRemove_def Let_def removeUpstream_inv)

text \<open>The reload loop builds tables with the invariant, for upstream names that are distinct.\<close>

definition with_tables ::
  "(string, signer) gomap \<times> (string, upstream_entry) gomap \<times> (string, string) gomap \<Rightarrow> proxy \<Rightarrow> proxy" where
  "with_tables t p = p\<lparr>px_signers := fst t, px_upstreams := fst (snd t), px_modelRoutes := snd (snd t)\<rparr>"

lemma reload_entry_inv:
  assumes "proxy_inv (with_tables (ss, us, rs) p)" and "map_of us name = None" and "ue_name e = name"
    and "ue_remoteModel e = m"
  shows "proxy_inv (with_tables (AList.update name s ss, AList.update name e us, AList.update m name rs) p)"
proof -
  have "map_of rs model \<noteq> Some name" for model
    using assms(1,2) by (fastforce simp: proxy_inv_def with_tables_def)
  with assms show ?thesis by (auto simp: proxy_inv_def with_tables_def)
qed

lemma reload_loop_inv:
  assumes "reload_loop pu st auths ups (ss, us, rs) = Inr t" and "gomap ups"
    and "proxy_inv (with_tables (ss, us, rs) p)" and "\<forall>(name, c) \<in> set ups. map_of us name = None"
  shows "proxy_inv (with_tables t p)"
  using assms
proof (induction ups arbitrary: ss us rs)
  case (Cons u ups)
  obtain name c where u: "u = (name, c)" by (cases u)
  from Cons.prems(1) u obtain tgt where tgt: "pu (uc_url c) = Some tgt" by (auto split: option.splits)
  let ?m = "reload_remoteModel name c"
  let ?e = "\<lparr>ue_name = name, ue_remoteModel = ?m, ue_config = c, ue_target = tgt\<rparr>"
  have "proxy_inv (with_tables (AList.update name (reload_signer st auths name c) ss,
      AList.update name ?e us, AList.update ?m name rs) p)"
    by (rule reload_entry_inv) (use Cons.prems u in auto)
  moreover have "\<forall>(name', c') \<in> set ups. map_of (AList.update name ?e us) name' = None"
    using Cons.prems(2,4) u by (force simp: gomap_def)
  ultimately show ?case using Cons.IH Cons.prems(1,2) u tgt by (auto simp: Let_def gomap_def)
qed simp

lemma Reload_inv [inv_intro]:
  assumes "gomap (cfg_upstreams cfg)" and "proxy_inv p"
  shows "proxy_inv (fst (Reload pu cfg auths p))"
proof (cases "reload_loop pu (fst (px_state p)) auths (cfg_upstreams cfg) ([], [], [])")
  case (Inl name)
  with assms(2) show ?thesis by (simp add: Reload_def)
next
  case (Inr t)
  have "proxy_inv (with_tables t p)"
    by (rule reload_loop_inv [OF Inr assms(1)]) (auto simp: proxy_inv_def with_tables_def)
  with Inr show ?thesis by (cases t) (simp add: Reload_def with_tables_def)
qed

lemma serve_upstream_inv [inv_intro]:
  assumes "proxy_inv p" and "map_of (px_upstreams p) (ue_name e) \<noteq> None"
  shows "proxy_inv (fst (serve_upstream cd now fault base1 base2 e s r p))"
  using assms
  by (auto simp: serve_upstream_def Let_def proxy_inv_def split: sum.splits prod.splits)

lemma handleModelRequest_inv [inv_intro]:
  assumes inv: "proxy_inv p"
  shows "proxy_inv (fst (handleModelRequest mm cd now fault base1 base2 r p))"
proof -
  have entry: "map_of (px_upstreams p) (ue_name e) \<noteq> None" if "resolveModelRequest b p = Some (m, pl, e)" for b m pl e
    using that inv by (auto simp: resolveModelRequest_def Let_def proxy_inv_def split: option.splits json.splits if_splits)
  have keep: "proxy_inv (p\<lparr>px_metrics := x\<rparr>)" for x using inv by (simp add: proxy_inv_def)
  have served: "proxy_inv (fst (serve_upstream cd now fault base1 base2 e s q (p\<lparr>px_metrics := x\<rparr>)))"
    if "resolveModelRequest b p = Some (m, pl, e)" for b m pl e s q x
    by (rule serve_upstream_inv [OF keep]) (simp add: entry [OF that])
  show ?thesis
    using inv keep served by (auto simp: handleModelRequest_def Let_def split: option.splits)
qed

subsection \<open>Life of a proxy\<close>

text \<open>What happens to a proxy after \<open>NewProxy\<close>: reloads, admin requests, paid requests.\<close>

inductive proxy_run :: "(string \<Rightarrow> url_parts option) \<Rightarrow> ((string, goany) gomap \<Rightarrow> string) \<Rightarrow> codec \<Rightarrow> proxy \<Rightarrow> bool"
  for pu :: "string \<Rightarrow> url_parts option" and mm :: "(string, goany) gomap \<Rightarrow> string" and cd :: codec where
  new: "gomap (cfg_upstreams cfg) \<Longrightarrow> NewProxy pu cfg auths state fs = Inr p \<Longrightarrow> proxy_run pu mm cd p"
| reload: "proxy_run pu mm cd p \<Longrightarrow> gomap (cfg_upstreams cfg) \<Longrightarrow> proxy_run pu mm cd (fst (Reload pu cfg auths p))"
| remove: "proxy_run pu mm cd p \<Longrightarrow> proxy_run pu mm cd (fst (handleAdminRemove name p))"
| trigger: "proxy_run pu mm cd p \<Longrightarrow> proxy_run pu mm cd (fst (handleAdminReload p))"
| paid: "proxy_run pu mm cd p \<Longrightarrow> proxy_run pu mm cd (fst (handleModelRequest mm cd now fault base1 base2 r p))"

inductive_simps proxy_run_simps: "proxy_run pu mm cd p"

lemma proxy_run_inv: "proxy_run pu mm cd p \<Longrightarrow> proxy_inv p"
proof (induction rule: proxy_run.induct)
  case (new cfg auths state fs p)
  define p0 where "p0 = \<lparr>px_signers = [], px_upstreams = [], px_modelRoutes = [], px_compatRoutes = [],
     px_metrics = newMetrics,
     px_state = (case state of Some s \<Rightarrow> s | None \<Rightarrow> \<lparr>ss_path = [], ss_consumed = []\<rparr>, fs), px_reloadPending = False\<rparr>"
  have "proxy_inv p0" by (simp add: p0_def proxy_inv_def)
  then have "proxy_inv (fst (Reload pu cfg auths p0))" by (intro Reload_inv new(1))
  moreover have "p = fst (Reload pu cfg auths p0)"
    using new(2) by (auto simp: NewProxy_def Let_def p0_def split: prod.splits option.splits)
  ultimately show ?case by simp
next
  case (trigger p)
  then show ?case by (simp add: handleAdminReload_def proxy_inv_def)
qed (auto intro: inv_intro)

lemma status_loop_total:
  "\<forall>(name, s) \<in> set ss. map_of (px_upstreams p) name \<noteq> None \<Longrightarrow> status_loop p ss \<noteq> None"
  by (induction ss) auto

lemma normalize_loop_clean:
  "strip_model_prefixes (normalize_loop m) = normalize_loop m"
proof (induction m rule: normalize_loop.induct)
  case (1 m)
  then show ?case by (subst (1 2) normalize_loop.simps) simp
qed

lemma normalize_loop_suffix: "has_suffix (normalize_loop m) m"
proof (induction m rule: normalize_loop.induct)
  case (1 m)
  show ?case
  proof (cases "strip_model_prefixes m = m")
    case True
    then show ?thesis by (subst normalize_loop.simps) (simp add: has_suffix_iff)
  next
    case False
    have "has_suffix (trim_prefix q s) s" for q s :: string
      by (auto simp: has_suffix_iff trim_prefix_def has_prefix_iff) 
    then have "has_suffix (strip_model_prefixes m) m"
      unfolding strip_model_prefixes_def has_suffix_iff by (metis append.assoc)
    with 1 [OF False] False show ?thesis
      by (subst normalize_loop.simps) (auto simp: has_suffix_iff, metis append.assoc)
  qed
qed

end
