(* ===== verification/BuyerRuns.thy ===== *)
theory BuyerRuns imports BuyerProxy begin

text \<open>
  Runs of the buyer: the round trips of concurrent requests on one upstream, interleaved at the
  points where \<open>RoundTrip\<close> talks to the network, and what they keep of the voucher pool and of the
  consumed store.  Every step is one of the pieces of \<open>BuyerTransport\<close>; \<open>br_spent\<close> and \<open>br_lost\<close>
  record where authorizations went and are read by no step.
\<close>

record paid_request =
  pq_request :: http_request
  pq_payment :: payment_payload
  pq_auth :: pre_signed_auth
  pq_selected :: "payment_requirements option"

record buyer_run =
  br_state :: rt_state
  br_held :: "paid_request list"
  br_sent :: "paid_request list"
  br_spent :: "pre_signed_auth list"
  br_lost :: "pre_signed_auth list"

subsection \<open>The pieces of a round trip on one signer\<close>

text \<open>What the answer to the paid retry means for the authorization: spent, or back to the pool.\<close>

definition rt_spends :: "string + http_response \<Rightarrow> bool" where
  "rt_spends answer =
     (case answer of Inl err \<Rightarrow> False
      | Inr resp \<Rightarrow> rs_status resp < 400 \<or>
          se_transaction (fst (DecodeSettlement (hget (rs_header resp) ''X-PAYMENT-RESPONSE''))) \<noteq> [])"

definition answer_result :: "string + http_response \<Rightarrow> rt_error + http_response" where
  "answer_result answer = map_sum TransportFailed id answer"

lemma emit_frame [simp]:
  "rt_signers (emit hooks e st) = rt_signers st" "rt_sf (emit hooks e st) = rt_sf st"
  by (simp_all add: emit_def)

lemma confirm_held_frame [simp]:
  "rt_signers (confirm_held hooks fault sel held st) = rt_signers st"
  by (auto simp: confirm_held_def split: list.splits option.splits prod.splits)

lemma confirm_held_sf:
  "rt_signers st = [s] \<Longrightarrow>
   rt_sf (confirm_held hooks fault sel held st) = fst (ConfirmSpend fault s held (rt_sf st))"
  by (auto simp: confirm_held_def ConfirmSpend_def split: option.splits prod.splits)

lemma release_single [simp]:
  "releaseHeldPreSignedSpend [s] held = [ReleaseSpend held s]"
  by (cases held) (simp_all add: releaseHeldPreSignedSpend_def ReleaseSpend_def)

lemma rt_finish_state:
  assumes "rt_signers st = [s]"
  shows "rt_signers (fst (rt_finish hooks fault sel held answer st)) =
           (if rt_spends answer then [s] else [ReleaseSpend held s])"
    and "rt_sf (fst (rt_finish hooks fault sel held answer st)) =
           (if rt_spends answer then fst (ConfirmSpend fault s held (rt_sf st)) else rt_sf st)"
  using assms confirm_held_sf [OF assms]
  by (auto simp: rt_finish_def rt_spends_def rt_transport_error_def rt_upstream_error_def rt_success_def
        Let_def split: sum.splits)

lemma rt_finish_spends:
  "rt_spends answer \<Longrightarrow> rt_finish hooks fault sel held answer st = (st', r) \<Longrightarrow> r = answer_result answer"
  by (auto simp: rt_spends_def rt_finish_def rt_upstream_error_def rt_success_def answer_result_def Let_def
        split: sum.splits if_splits)

lemma rt_send_state:
  "rt_signers st = [s] \<Longrightarrow> rt_send hooks cd req payment held sel st = (st', r) \<Longrightarrow>
   rt_signers st' = [if is_ok r then s else ReleaseSpend held s] \<and> rt_sf st' = rt_sf st"
  by (auto simp: rt_send_def Let_def is_ok_iff split: option.splits sum.splits)

definition lost_by_hold :: "codec \<Rightarrow> nsec \<Rightarrow> payment_requirements list \<Rightarrow> signer \<Rightarrow> pre_signed_auth list" where
  "lost_by_hold cd now reqs s =
     (case find (\<lambda>r. CanSign (Some r) s) reqs of None \<Rightarrow> [] | Some r \<Rightarrow> hold_lost cd now (Some r) s)"

lemma selectAndHold_find:
  "selectAndHoldPayment cd now reqs s =
     (case find (\<lambda>r. CanSign (Some r) s) reqs of None \<Rightarrow> (s, Inl ErrNoValidSigner)
      | Some r \<Rightarrow> HoldSign cd now (Some r) s)"
  by (induction reqs) auto

lemma selectAndHold_partition:
  "selectAndHoldPayment cd now reqs s = (s', r) \<Longrightarrow>
   sg_auths s = lost_by_hold cd now reqs s @ (case held_of r of None \<Rightarrow> [] | Some a \<Rightarrow> [a]) @ sg_auths s'"
  by (cases "find (\<lambda>r. CanSign (Some r) s) reqs")
     (auto simp: selectAndHold_find lost_by_hold_def held_of_def dest: HoldSign_partition)

lemma HoldSign_onConsume:
  "HoldSign cd now req s = (s', r) \<Longrightarrow> sg_onConsume s' = sg_onConsume s"
  by (cases "dropExpiredAuthsLocked (unix now) s")
     (auto simp: HoldSign_def Let_def dest!: dropExpired_pair split: option.splits list.splits sum.splits prod.splits)

lemma selectAndHold_onConsume:
  "selectAndHoldPayment cd now reqs s = (s', r) \<Longrightarrow> sg_onConsume s' = sg_onConsume s"
  by (auto simp: selectAndHold_find dest: HoldSign_onConsume split: option.splits)

lemma rt_hold_single:
  assumes "rt_signers st = [s]" and "rt_hold cd now fault reqs st = (st', r)"
  obtains s' q where "selectAndHoldPayment cd now reqs s = (s', q)"
    and "rt_signers st' = [s']" and "rt_sf st' = rt_sf st"
    and "r = (case q of Inl e \<Rightarrow> Inl (NoPayment e) | Inr (p, a) \<Rightarrow> Inr (p, Some a))"
  using assms by (auto simp: rt_hold_def split: prod.splits sum.splits)

subsection \<open>The step relation\<close>

inductive buyer_step :: "callback list \<Rightarrow> codec \<Rightarrow> buyer_run \<Rightarrow> buyer_run \<Rightarrow> bool"
  for hooks :: "callback list" and cd :: codec where
  hold:
    "rt_hold cd now fault reqs (br_state R) = (st', Inr (payment, Some auth)) \<Longrightarrow>
     buyer_step hooks cd R
       (R\<lparr>br_state := st',
          br_held := \<lparr>pq_request = req, pq_payment = payment, pq_auth = auth,
                      pq_selected = selected_requirement payment reqs\<rparr> # br_held R,
          br_lost := lost_by_hold cd now reqs (hd (rt_signers (br_state R))) @ br_lost R\<rparr>)"
| hold_failed:
    "rt_hold cd now fault reqs (br_state R) = (st', Inl e) \<Longrightarrow>
     buyer_step hooks cd R
       (R\<lparr>br_state := st',
          br_lost := lost_by_hold cd now reqs (hd (rt_signers (br_state R))) @ br_lost R\<rparr>)"
| send:
    "q \<in> set (br_held R) \<Longrightarrow>
     rt_send hooks cd (pq_request q) (pq_payment q) (Some (pq_auth q)) (pq_selected q) (br_state R) = (st', Inr retry) \<Longrightarrow>
     buyer_step hooks cd R
       (R\<lparr>br_state := st', br_held := remove1 q (br_held R), br_sent := q # br_sent R\<rparr>)"
| send_failed:
    "q \<in> set (br_held R) \<Longrightarrow>
     rt_send hooks cd (pq_request q) (pq_payment q) (Some (pq_auth q)) (pq_selected q) (br_state R) = (st', Inl e) \<Longrightarrow>
     buyer_step hooks cd R (R\<lparr>br_state := st', br_held := remove1 q (br_held R)\<rparr>)"
| finish:
    "q \<in> set (br_sent R) \<Longrightarrow>
     rt_finish hooks fault (pq_selected q) (Some (pq_auth q)) answer (br_state R) = (st', r) \<Longrightarrow>
     buyer_step hooks cd R
       (R\<lparr>br_state := st', br_sent := remove1 q (br_sent R),
          br_spent := (if rt_spends answer then pq_auth q # br_spent R else br_spent R)\<rparr>)"

inductive_cases buyer_stepE: "buyer_step hooks cd R R'"

inductive buyer_reachable :: "callback list \<Rightarrow> codec \<Rightarrow> buyer_run \<Rightarrow> buyer_run \<Rightarrow> bool"
  for hooks :: "callback list" and cd :: codec and R0 :: buyer_run where
  start: "buyer_reachable hooks cd R0 R0"
| step: "buyer_reachable hooks cd R0 R \<Longrightarrow> buyer_step hooks cd R R' \<Longrightarrow> buyer_reachable hooks cd R0 R'"

definition buyer_start :: "signer \<Rightarrow> state_store \<times> files \<Rightarrow> buyer_run" where
  "buyer_start s sf = \<lparr>br_state = \<lparr>rt_signers = [s], rt_sf = sf, rt_events = []\<rparr>,
     br_held = [], br_sent = [], br_spent = [], br_lost = []\<rparr>"

definition in_flight :: "buyer_run \<Rightarrow> pre_signed_auth list" where
  "in_flight R = map pq_auth (br_held R) @ map pq_auth (br_sent R)"

definition run_pool :: "buyer_run \<Rightarrow> pre_signed_auth list" where
  "run_pool R = concat (map sg_auths (rt_signers (br_state R)))"

text \<open>Where the authorizations are, all together.\<close>

definition run_total :: "buyer_run \<Rightarrow> pre_signed_auth multiset" where
  "run_total R = mset (run_pool R) + mset (in_flight R) + mset (br_spent R) + mset (br_lost R)"

definition run_inv :: "string option \<Rightarrow> pre_signed_auth multiset \<Rightarrow> buyer_run \<Rightarrow> bool" where
  "run_inv name auths R \<longleftrightarrow>
     (\<exists>s. rt_signers (br_state R) = [s] \<and> sg_onConsume s = name) \<and> run_total R = auths \<and>
     (\<forall>a \<in> set (br_spent R). \<forall>n. name = Some n \<longrightarrow> ConsumeKey (Some a) \<noteq> [] \<longrightarrow>
        IsConsumed (fst (rt_sf (br_state R))) n (ConsumeKey (Some a)))"

subsection \<open>Every step keeps the invariant\<close>

lemma mset_remove1_auth:
  "q \<in> set qs \<Longrightarrow> add_mset (pq_auth q) (mset (map pq_auth (remove1 q qs))) = mset (map pq_auth qs)"
  by (metis image_mset_add_mset insert_DiffM mset_map mset_remove1 set_mset_mset)

lemma ConfirmSpend_marks:
  "sg_onConsume s = Some n \<Longrightarrow>
   IsConsumed (fst (fst (ConfirmSpend fault s (Some a) sf))) n' k \<longleftrightarrow>
     IsConsumed (fst sf) n' k \<or> (n' = n \<and> k = ConsumeKey (Some a) \<and> k \<noteq> [])"
  by (cases sf) (auto simp: ConfirmSpend_def on_consume_def Let_def store.mark_iff)

lemma ReleaseSpend_onConsume [simp]: "sg_onConsume (ReleaseSpend held s) = sg_onConsume s"
  by (cases held) (simp_all add: ReleaseSpend_def)

lemma hold_inv:
  assumes inv: "run_inv name auths R" and h: "rt_hold cd now fault reqs (br_state R) = (st', r)"
  shows "\<exists>s'. rt_signers st' = [s'] \<and> sg_onConsume s' = name"
    and "rt_sf st' = rt_sf (br_state R)"
    and "mset (run_pool R) = mset (lost_by_hold cd now reqs (hd (rt_signers (br_state R)))) +
           mset (case r of Inr (p, Some a) \<Rightarrow> [a] | _ \<Rightarrow> []) + mset (concat (map sg_auths (rt_signers st')))"
proof -
  obtain s where s: "rt_signers (br_state R) = [s]" "sg_onConsume s = name"
    using inv by (auto simp: run_inv_def)
  from rt_hold_single [OF s(1) h] obtain s' q where
    q: "selectAndHoldPayment cd now reqs s = (s', q)" "rt_signers st' = [s']" "rt_sf st' = rt_sf (br_state R)"
       "r = (case q of Inl e \<Rightarrow> Inl (NoPayment e) | Inr (p, a) \<Rightarrow> Inr (p, Some a))" .
  show "\<exists>s'. rt_signers st' = [s'] \<and> sg_onConsume s' = name"
    using q s selectAndHold_onConsume [OF q(1)] by simp
  show "rt_sf st' = rt_sf (br_state R)" by (rule q(3))
  show "mset (run_pool R) = mset (lost_by_hold cd now reqs (hd (rt_signers (br_state R)))) +
          mset (case r of Inr (p, Some a) \<Rightarrow> [a] | _ \<Rightarrow> []) + mset (concat (map sg_auths (rt_signers st')))"
    using s(1) q(2,4) selectAndHold_partition [OF q(1)]
    by (auto simp: run_pool_def held_of_def ac_simps split: sum.splits prod.splits)
qed

lemma buyer_step_inv [inv_intro]:
  assumes step: "buyer_step hooks cd R R'" and inv: "run_inv name auths R"
  shows "run_inv name auths R'"
  using step
proof cases
  case (hold now fault reqs st' payment auth req)
  show ?thesis using inv hold_inv [OF inv hold(2)] unfolding hold(1)
    by (auto simp: run_inv_def run_total_def in_flight_def run_pool_def)
next
  case (hold_failed now fault reqs st' e)
  show ?thesis using inv hold_inv [OF inv hold_failed(2)] unfolding hold_failed(1)
    by (auto simp: run_inv_def run_total_def in_flight_def run_pool_def)
next
  case (send q st' retry)
  obtain s where s: "rt_signers (br_state R) = [s]" using inv by (auto simp: run_inv_def)
  show ?thesis using inv rt_send_state [OF s send(3)] s mset_remove1_auth [OF send(2)] unfolding send(1)
    by (auto simp: run_inv_def run_total_def in_flight_def run_pool_def)
next
  case (send_failed q st' e)
  obtain s where s: "rt_signers (br_state R) = [s]" using inv by (auto simp: run_inv_def)
  show ?thesis using inv rt_send_state [OF s send_failed(3)] s mset_remove1_auth [OF send_failed(2)] unfolding send_failed(1)
    by (auto simp: run_inv_def run_total_def in_flight_def run_pool_def)
next
  case (finish q fault answer st' r)
  obtain s where s: "rt_signers (br_state R) = [s]" using inv by (auto simp: run_inv_def)
  note f = rt_finish_state [OF s, of hooks fault "pq_selected q" "Some (pq_auth q)" answer, unfolded finish(3)]
  show ?thesis using inv f s mset_remove1_auth [OF finish(2)] unfolding finish(1)
    by (auto simp: run_inv_def run_total_def in_flight_def run_pool_def ConfirmSpend_marks)
qed

lemma buyer_reachable_inv:
  assumes "buyer_reachable hooks cd (buyer_start s sf) R"
  shows "run_inv (sg_onConsume s) (mset (sg_auths s)) R"
  using assms
proof induction
  case start
  show ?case by (simp add: run_inv_def buyer_start_def run_total_def in_flight_def run_pool_def)
next
  case (step R R')
  then show ?case by (auto intro: inv_intro)
qed

end
