(* ===== verification/BuyerSafety.thy ===== *)
theory BuyerSafety imports BuyerRuns "HOL-Library.While_Combinator" begin

text \<open>
  The properties of the buyer: no voucher is paid out twice, what is spent is recorded, what is
  recorded survives a restart, and the routing tables stay consistent.
\<close>

subsection \<open>Instances the witnesses evaluate\<close>

definition wit_auth :: "string \<Rightarrow> pre_signed_auth" where
  "wit_auth n = \<lparr>pa_id = n, pa_payment = None, pa_signature = ''0xsig'', pa_from = ''0xa'', pa_to = ''0xb'',
     pa_value = ''1'', pa_validAfter = ''0'', pa_validBefore = [], pa_nonce = n\<rparr>"

definition wit_upstream :: upstream_config where
  "wit_upstream = \<lparr>uc_url = ''http://up'', uc_remoteModel = ''m'', uc_network = ''base-sepolia'', uc_payTo = ''0xb'',
     uc_asset = ''0xc'', uc_assetSymbol = [], uc_assetDecimals = 6, uc_assetTransferMethod = [],
     uc_eip712Name = [], uc_eip712Version = [], uc_price = ''1''\<rparr>"

definition wit_auths :: auths_file where
  "wit_auths = [(''up'', [Some (wit_auth ''0x1''), Some (wit_auth ''0x2'')])]"

definition wit_store :: "state_store \<times> files" where
  "wit_store = (\<lparr>ss_path = ''/state'', ss_consumed = []\<rparr>, (\<lambda>_. NoFile))"

definition wit_signer :: signer where
  "wit_signer = reload_signer (fst wit_store) wit_auths ''up'' wit_upstream"

definition wit_req :: payment_requirements where
  "wit_req = empty_requirements\<lparr>pr_scheme := ''exact'', pr_network := ''base-sepolia'', pr_payTo := ''0xB'', pr_asset := ''0xC''\<rparr>"

definition wit_codec :: codec where
  "wit_codec = \<lparr>cd_marshal = (\<lambda>p. Some ''{}''), cd_unmarshal = (\<lambda>s. None)\<rparr>"

definition wit_request :: http_request where
  "wit_request = \<lparr>rq_method = ''POST'', rq_host = ''up'', rq_path = ''/v1'', rq_rawQuery = [], rq_header = [], rq_body = NoBody\<rparr>"

text \<open>A run in which the first voucher is held, sent, and spent on a 200 answer.\<close>

definition wit_hold :: "rt_state \<times> (rt_error + payment_payload \<times> pre_signed_auth option)" where
  "wit_hold = rt_hold wit_codec 0 NoFault [wit_req] (br_state (buyer_start wit_signer wit_store))"

definition wit_flight :: paid_request where
  "wit_flight = \<lparr>pq_request = wit_request, pq_payment = fst (projr (snd wit_hold)), pq_auth = wit_auth ''0x1'',
     pq_selected = selected_requirement (fst (projr (snd wit_hold))) [wit_req]\<rparr>"

definition wit_held :: buyer_run where
  "wit_held = (buyer_start wit_signer wit_store)\<lparr>br_state := fst wit_hold, br_held := [wit_flight], br_lost := []\<rparr>"

definition wit_send :: "rt_state \<times> (rt_error + http_request)" where
  "wit_send = rt_send [] wit_codec (pq_request wit_flight) (pq_payment wit_flight) (Some (pq_auth wit_flight))
      (pq_selected wit_flight) (br_state wit_held)"

definition wit_sent :: buyer_run where
  "wit_sent = wit_held\<lparr>br_state := fst wit_send, br_held := [], br_sent := [wit_flight]\<rparr>"

definition wit_answer :: http_response where
  "wit_answer = \<lparr>rs_status = 200, rs_header = [], rs_body = []\<rparr>"

definition wit_finish :: "rt_state \<times> (rt_error + http_response)" where
  "wit_finish = rt_finish [] NoFault (pq_selected wit_flight) (Some (pq_auth wit_flight)) (Inr wit_answer) (br_state wit_sent)"

definition wit_spent :: buyer_run where
  "wit_spent = wit_sent\<lparr>br_state := fst wit_finish, br_sent := [], br_spent := [wit_auth ''0x1'']\<rparr>"

lemma wit_values:
  "snd wit_hold = Inr (fst (projr (snd wit_hold)), Some (wit_auth ''0x1''))"
  "lost_by_hold wit_codec 0 [wit_req] wit_signer = []"
  "is_ok (snd wit_send)"
  "rt_spends (Inr wit_answer)"
  by code_simp+

lemma wit_held_reachable: "buyer_reachable [] wit_codec (buyer_start wit_signer wit_store) wit_held"
proof (rule buyer_reachable.step [OF buyer_reachable.start])
  have "rt_hold wit_codec 0 NoFault [wit_req] (br_state (buyer_start wit_signer wit_store)) =
     (fst wit_hold, Inr (fst (projr (snd wit_hold)), Some (wit_auth ''0x1'')))"
    using wit_values(1) unfolding wit_hold_def by (metis prod.collapse)
  from buyer_step.hold [OF this, of "[]" wit_request]
  show "buyer_step [] wit_codec (buyer_start wit_signer wit_store) wit_held"
    by (simp add: wit_held_def wit_flight_def buyer_start_def wit_values(2))
qed

lemma wit_spent_reachable: "buyer_reachable [] wit_codec (buyer_start wit_signer wit_store) wit_spent"
proof (rule buyer_reachable.step [OF buyer_reachable.step [OF wit_held_reachable]])
  obtain retry where "wit_send = (fst wit_send, Inr retry)"
    using wit_values(3) by (metis is_ok_iff prod.collapse)
  from buyer_step.send [OF _ this [unfolded wit_send_def]]
  show "buyer_step [] wit_codec wit_held wit_sent"
    by (simp add: wit_sent_def wit_send_def wit_held_def buyer_start_def)
  show "buyer_step [] wit_codec wit_sent wit_spent"
    using buyer_step.finish [of wit_flight wit_sent "[]" NoFault "Inr wit_answer" "fst wit_finish" "snd wit_finish" wit_codec]
    by (simp add: wit_spent_def wit_finish_def wit_sent_def wit_values(4) wit_held_def buyer_start_def)
       (simp add: wit_flight_def)
qed

subsection \<open>Vouchers\<close>

text \<open>C37: Interleave any number of paid requests on one upstream, in any order of their holds, sends and
  answers, with any upstream answers and any disk faults.  At every moment each voucher of the
  initial pool is in exactly one place: still in the pool, held or sent by one request, spent, or
  discarded (expired or not clonable).  So a voucher never backs two payments, and the buyer can lose
  no more than the pool was signed for.\<close>

theorem buyer_conserves_vouchers:
  assumes "buyer_reachable hooks cd (buyer_start s sf) R"
  shows "\<exists>s'. rt_signers (br_state R) = [s'] \<and>
    mset (sg_auths s') + mset (in_flight R) + mset (br_spent R) + mset (br_lost R) = mset (sg_auths s) \<and>
    length (br_spent R) + length (in_flight R) \<le> length (sg_auths s)"
proof -
  obtain s' where s': "rt_signers (br_state R) = [s']"
    and total: "mset (sg_auths s') + mset (in_flight R) + mset (br_spent R) + mset (br_lost R) = mset (sg_auths s)"
    using buyer_reachable_inv [OF assms] by (auto simp: run_inv_def run_total_def run_pool_def)
  from arg_cong [OF total, of size] have "length (br_spent R) + length (in_flight R) \<le> length (sg_auths s)"
    by simp
  with s' total show ?thesis by blast
qed

theorem buyer_conserves_vouchers_witness:
  "\<exists>s'. rt_signers (br_state wit_spent) = [s'] \<and>
    mset (sg_auths s') + mset (in_flight wit_spent) + mset (br_spent wit_spent) + mset (br_lost wit_spent) =
      mset (sg_auths wit_signer) \<and>
    length (br_spent wit_spent) + length (in_flight wit_spent) \<le> length (sg_auths wit_signer)"
  by (rule buyer_conserves_vouchers [OF wit_spent_reachable])

text \<open>C38: A voucher spent by a run is recorded under its upstream even when writing the record to disk
  failed, so no later reload from any pool file puts it, or another voucher with its key, back into
  the pool.\<close>

theorem spent_never_reloaded:
  assumes "buyer_reachable hooks cd (buyer_start s sf) R"
    and "sg_onConsume s = Some name" and "a \<in> set (br_spent R)" and "ConsumeKey (Some a) \<noteq> []"
  shows "\<forall>b. ConsumeKey (Some b) = ConsumeKey (Some a) \<longrightarrow>
    b \<notin> set (sg_auths (reload_signer (fst (rt_sf (br_state R))) auths name up))"
  using buyer_reachable_inv [OF assms(1)] assms(2-4)
  by (auto simp: run_inv_def reload_signer_def reload_pool_def NewPreSignedSigner_def)

theorem spent_never_reloaded_witness:
  "wit_auth ''0x1'' \<notin> set (sg_auths (reload_signer (fst (rt_sf (br_state wit_spent))) wit_auths ''up'' wit_upstream))"
  by (rule spent_never_reloaded [OF wit_spent_reachable, of "''up''" "wit_auth ''0x1''", THEN spec, THEN mp])
     (simp_all add: wit_signer_def reload_signer_def NewPreSignedSigner_def wit_spent_def wit_auth_def ConsumeKey_def)

text \<open>A reload only looks at what was spent.  A voucher that a request holds or has already sent,
  but whose answer has not come yet, goes back into the reloaded pool, so another request can pay with
  it again.\<close>

theorem reload_readmits_in_flight:
  assumes "buyer_reachable hooks cd (buyer_start (reload_signer st auths name up) (st, fs)) R"
    and "a \<in> set (in_flight R)"
    and "\<not> IsConsumed (fst (rt_sf (br_state R))) name (ConsumeKey (Some a))"
  shows "a \<in> set (sg_auths (reload_signer (fst (rt_sf (br_state R))) auths name up))"
proof -
  have "run_total R = mset (sg_auths (reload_signer st auths name up))"
    using buyer_reachable_inv [OF assms(1)] by (simp add: run_inv_def)
  with assms(2) have "a \<in># mset (sg_auths (reload_signer st auths name up))"
    by (metis UnCI run_total_def set_mset_mset set_mset_union)
  with assms(3) show ?thesis by (auto simp: reload_signer_def reload_pool_def NewPreSignedSigner_def)
qed

theorem reload_readmits_in_flight_witness:
  "wit_auth ''0x1'' \<in> set (sg_auths (reload_signer (fst (rt_sf (br_state wit_held))) wit_auths ''up'' wit_upstream))"
proof (rule reload_readmits_in_flight)
  show "buyer_reachable [] wit_codec
      (buyer_start (reload_signer (fst wit_store) wit_auths ''up'' wit_upstream) (fst wit_store, snd wit_store)) wit_held"
    using wit_held_reachable by (simp add: wit_signer_def)
  show "wit_auth ''0x1'' \<in> set (in_flight wit_held)"
    by (simp add: in_flight_def wit_held_def wit_flight_def)
  show "\<not> IsConsumed (fst (rt_sf (br_state wit_held))) ''up'' (ConsumeKey (Some (wit_auth ''0x1'')))"
    by code_simp
qed

text \<open>One round trip on one pre-signed signer spends at most one voucher.  Either nothing is spent,
  the store is untouched, and the pool lost only vouchers that the hold discarded; or the first live
  voucher is spent, the upstream's answer shows that it was (a status below 400, or a settlement
  transaction), the caller gets that answer, and the voucher is recorded.\<close>

theorem roundtrip_spends_at_most_one:
  assumes st: "rt_signers st = [s]" and name: "sg_onConsume s = Some name"
    and rt: "RoundTrip hooks cd now fault base1 base2 req st = (st', r)"
  shows "\<exists>s' lost. rt_signers st' = [s'] \<and>
    (sg_auths s = lost @ sg_auths s' \<and> rt_sf st' = rt_sf st \<or>
     (\<exists>a resp. r = Inr resp \<and> rt_spends (Inr resp) \<and> \<not> auth_expired (unix now) a \<and>
        sg_auths s = lost @ a # sg_auths s' \<and> rt_sf st' = fst (on_consume fault name a (rt_sf st))))"
proof -
  obtain req1 outcome where probe: "rt_probe base1 req = (req1, outcome)" by fastforce
  show ?thesis
  proof (cases outcome)
    case (ProbeFailed e)
    with rt probe st show ?thesis by (auto simp: RoundTrip_def)
  next
    case (PassThrough resp)
    with rt probe st show ?thesis by (auto simp: RoundTrip_def)
  next
    case (Challenge reqs)
    obtain st1 h where hold: "rt_hold cd now fault reqs st = (st1, h)" by fastforce
    from rt_hold_single [OF st hold] obtain s1 q where
      q: "selectAndHoldPayment cd now reqs s = (s1, q)" "rt_signers st1 = [s1]" "rt_sf st1 = rt_sf st"
         "h = (case q of Inl e \<Rightarrow> Inl (NoPayment e) | Inr (p, a) \<Rightarrow> Inr (p, Some a))" .
    note part = selectAndHold_partition [OF q(1)]
    show ?thesis
    proof (cases q)
      case (Inl e)
      with rt probe Challenge hold q part show ?thesis by (auto simp: RoundTrip_def held_of_def)
    next
      case (Inr pa)
      obtain p a where pa: "pa = (p, a)" by (cases pa)
      let ?sel = "selected_requirement p reqs"
      have live: "\<not> auth_expired (unix now) a"
        using q(1) Inr pa by (auto simp: selectAndHold_find dest: HoldSign_not_expired split: option.splits)
      have name1: "sg_onConsume s1 = Some name" using selectAndHold_onConsume [OF q(1)] name by simp
      have pool: "sg_auths s = lost_by_hold cd now reqs s @ a # sg_auths s1"
        using part Inr pa by (simp add: held_of_def)
      obtain st2 w where send: "rt_send hooks cd req1 p (Some a) ?sel st1 = (st2, w)" by fastforce
      note st2 = rt_send_state [OF q(2) send]
      show ?thesis
      proof (cases w)
        case Inl
        then have "rt_signers st' = [ReleaseSpend (Some a) s1] \<and> rt_sf st' = rt_sf st"
          using rt probe Challenge hold q \<open>q = Inr pa\<close> pa send st2 by (simp add: RoundTrip_def)
        with pool show ?thesis by auto
      next
        case (Inr retry)
        then have signers2: "rt_signers st2 = [s1]" and sf2: "rt_sf st2 = rt_sf st" using st2 q by simp_all
        have fin: "rt_finish hooks fault ?sel (Some a) (base2 retry) st2 = (st', r)"
          using rt probe Challenge hold q \<open>q = Inr pa\<close> pa send Inr by (simp add: RoundTrip_def)
        note f = rt_finish_state [OF signers2, of hooks fault ?sel "Some a" "base2 retry", unfolded fin]
        have "\<exists>resp. r = Inr resp \<and> base2 retry = Inr resp" if "rt_spends (base2 retry)"
          using rt_finish_spends [OF that fin] that
          by (cases "base2 retry") (simp_all add: answer_result_def rt_spends_def)
        with f pool live name1 sf2 show ?thesis
          by (cases "rt_spends (base2 retry)") (fastforce simp: ConfirmSpend_def)+
      qed
    qed
  qed
qed

definition wit_base1 :: "http_request \<Rightarrow> string + http_response" where
  "wit_base1 r = Inr \<lparr>rs_status = 402, rs_header = [],
     rs_body = ''{'' @ [CHR 34] @ ''accepts'' @ [CHR 34] @ '':[{'' @ [CHR 34] @ ''payTo'' @ [CHR 34] @ '':'' @
       [CHR 34] @ ''0xB'' @ [CHR 34] @ '','' @ [CHR 34] @ ''asset'' @ [CHR 34] @ '':'' @ [CHR 34] @ ''0xc'' @ [CHR 34] @
       '','' @ [CHR 34] @ ''network'' @ [CHR 34] @ '':'' @ [CHR 34] @ ''base-sepolia'' @ [CHR 34] @ ''}]}''\<rparr>"

theorem roundtrip_spends_at_most_one_witness:
  "\<exists>s' lost. rt_signers (fst (RoundTrip [] wit_codec 0 RenameFails wit_base1 (\<lambda>_. Inr wit_answer) wit_request
        (br_state (buyer_start wit_signer wit_store)))) = [s'] \<and>
    (sg_auths wit_signer = lost @ sg_auths s' \<and> rt_sf (fst (RoundTrip [] wit_codec 0 RenameFails wit_base1
        (\<lambda>_. Inr wit_answer) wit_request (br_state (buyer_start wit_signer wit_store)))) = wit_store \<or>
     (\<exists>a resp. snd (RoundTrip [] wit_codec 0 RenameFails wit_base1 (\<lambda>_. Inr wit_answer) wit_request
          (br_state (buyer_start wit_signer wit_store))) = Inr resp \<and> rt_spends (Inr resp) \<and>
        \<not> auth_expired (unix 0) a \<and> sg_auths wit_signer = lost @ a # sg_auths s' \<and>
        rt_sf (fst (RoundTrip [] wit_codec 0 RenameFails wit_base1 (\<lambda>_. Inr wit_answer) wit_request
          (br_state (buyer_start wit_signer wit_store)))) = fst (on_consume RenameFails ''up'' a wit_store)))"
  using roundtrip_spends_at_most_one [of "br_state (buyer_start wit_signer wit_store)" wit_signer "''up''"
      "[]" wit_codec 0 RenameFails wit_base1 "\<lambda>_. Inr wit_answer" wit_request, OF _ _ surjective_pairing]
  by (simp add: buyer_start_def wit_signer_def reload_signer_def NewPreSignedSigner_def)

subsection \<open>Holding\<close>

text \<open>\<open>HoldSign\<close> on requirements succeeds exactly when some voucher of the pool is live and, if it
  carries a payload, that payload can be cloned.  It then hands out the first live voucher, counts it
  as spent, and leaves exactly the vouchers behind it.  If the payload cannot be cloned the call
  fails, but the voucher is gone from the pool and counted as spent all the same.\<close>

theorem HoldSign_first_live:
  "HoldSign cd now (Some r) s =
     (case dropWhile (auth_expired (unix now)) (sg_auths s) of
        [] \<Rightarrow> (s\<lparr>sg_auths := []\<rparr>, Inl (PoolExhausted (sg_spent s)))
      | a # rest \<Rightarrow>
          (s\<lparr>sg_auths := rest, sg_spent := sg_spent s + 1\<rparr>,
           map_sum id (\<lambda>p. (p, a))
             (case pa_payment a of
                None \<Rightarrow> Inr (legacy_payload (hold_accepted r s) a)
              | Some q \<Rightarrow> map_sum id (fill_payment (hold_accepted r s)) (clonePaymentPayload cd (Some q)))))"
proof -
  have acc: "hold_accepted r (s\<lparr>sg_auths := xs, sg_spent := n\<rparr>) = hold_accepted r s" for xs n
    by (simp add: hold_accepted_def Let_def)
  show ?thesis
    by (cases "dropWhile (auth_expired (unix now)) (sg_auths s)")
       (simp_all add: HoldSign_def dropExpiredAuthsLocked_def drop_expired_eq Let_def acc
         del: dropWhile_eq_Nil_conv split: option.split sum.split)
qed

subsection \<open>The consumed store\<close>

text \<open>When \<open>MarkConsumed\<close> records a new key and reports success, the state file holds the whole
  store: loading it in a fresh process gives back this store, with the key in it.  When it reports a
  failure, the key is in the store and the state file is unchanged.\<close>

theorem MarkConsumed_durable:
  assumes "store_wf s" and "ss_path s \<noteq> []" and "\<not> IsConsumed s name key"
    and "MarkConsumed fault name key (s, fs) = ((s', fs'), err)"
  shows "IsConsumed s' name key \<and>
    (if err = None then LoadStateStore (ss_path s) fs' = Inr s' else fs' (ss_path s) = fs (ss_path s))"
proof -
  have s': "s' = fst (fst (MarkConsumed fault name key (s, fs)))" using assms(4) by simp
  have marked: "IsConsumed s' name key" unfolding s' by (simp add: IsConsumed_MarkConsumed)
  have wf: "store_wf s'" unfolding s' using assms(1) by (rule MarkConsumed_wf)
  have path: "ss_path s' = ss_path s" unfolding s' by simp
  have w: "writeLocked fault s' fs = (fs', err)"
    using assms(3,4) by (auto simp: MarkConsumed_def Let_def split: prod.splits)
  have "fs' (ss_path s) = Doc (marshal_state (ss_consumed s'))" if "err = None"
    using w that assms(2) path by (auto simp: writeLocked_def Let_def split: if_splits write_fault.splits)
  then have "LoadStateStore (ss_path s) fs' = Inr s'" if "err = None"
    using load_written [OF wf] that assms(2) path by simp
  moreover have "fs' (ss_path s) = fs (ss_path s)" if "err \<noteq> None"
    using w that assms(2) path by (auto simp: writeLocked_def Let_def split: if_splits write_fault.splits)
  ultimately show ?thesis using marked by simp
qed

theorem MarkConsumed_durable_witness:
  "let r = MarkConsumed NoFault ''up'' ''0x1'' wit_store in
     IsConsumed (fst (fst r)) ''up'' ''0x1'' \<and>
     (if snd r = None then LoadStateStore ''/state'' (snd (fst r)) = Inr (fst (fst r))
      else snd (fst r) ''/state'' = NoFile)"
proof -
  let ?r = "MarkConsumed NoFault ''up'' ''0x1'' wit_store"
  have start: "store_wf (fst wit_store)" "ss_path (fst wit_store) = ''/state''" "\<not> IsConsumed (fst wit_store) ''up'' ''0x1''"
      "snd wit_store ''/state'' = NoFile"
    by (simp_all add: wit_store_def store_wf_def IsConsumed_def nonce_set_def the_default_def)
  have "MarkConsumed NoFault ''up'' ''0x1'' (fst wit_store, snd wit_store) = ((fst (fst ?r), snd (fst ?r)), snd ?r)"
    by simp
  from MarkConsumed_durable [OF start(1) _ start(3) this] show ?thesis unfolding start Let_def by simp
qed

text \<open>A write that failed is never made up for by marking the same key again: the second call finds
  the key in memory, reports success, and leaves the disk as it was.  A restart then loads a store
  without the key.\<close>

theorem MarkConsumed_retry_skips_disk:
  assumes "\<not> IsConsumed s name key"
    and "MarkConsumed fault name key (s, fs) = ((s', fs'), Some e)"
  shows "snd (MarkConsumed NoFault name key (s', fs')) = None \<and>
    snd (fst (MarkConsumed NoFault name key (s', fs'))) (ss_path s) = fs (ss_path s)"
proof -
  have "IsConsumed s' name key"
    using assms(2) IsConsumed_MarkConsumed [of fault name key s fs name key] by simp
  moreover have "fs' (ss_path s) = fs (ss_path s)"
    using assms by (auto simp: MarkConsumed_def writeLocked_def Let_def split: prod.splits if_splits write_fault.splits)
  ultimately show ?thesis by (simp add: MarkConsumed_def)
qed

theorem MarkConsumed_retry_skips_disk_witness:
  "let r = MarkConsumed RenameFails ''up'' ''0x1'' wit_store; r2 = MarkConsumed NoFault ''up'' ''0x1'' (fst r)
   in snd r \<noteq> None \<and> snd r2 = None \<and> snd (fst r2) ''/state'' = NoFile"
proof -
  let ?r = "MarkConsumed RenameFails ''up'' ''0x1'' wit_store"
  have r: "snd ?r = Some RenameFailed" and p: "ss_path (fst wit_store) = ''/state''" by code_simp+
  have start: "\<not> IsConsumed (fst wit_store) ''up'' ''0x1''" "snd wit_store ''/state'' = NoFile"
    by (simp_all add: wit_store_def IsConsumed_def nonce_set_def the_default_def)
  have "MarkConsumed RenameFails ''up'' ''0x1'' (fst wit_store, snd wit_store) = ((fst (fst ?r), snd (fst ?r)), Some RenameFailed)"
    by (simp add: r [symmetric])
  from MarkConsumed_retry_skips_disk [OF start(1) this] r p start(2) show ?thesis
    by (simp add: Let_def)
qed

subsection \<open>Routing\<close>

lemma trim_space_suffix_free:
  "trim_space s = t @ x \<Longrightarrow> x \<noteq> [] \<Longrightarrow> \<not> is_space (last x)"
  using trim_space_last [of s] by simp

text \<open>The public name \<open>paid/\<close>model that \<open>/status\<close> shows for an upstream is normalised back to the
  upstream's model, so a client that asks for it is routed there.  The model itself has neither
  prefix left.\<close>

theorem public_model_roundtrip:
  "normalizeRemoteModel (''paid/'' @ normalizeRemoteModel model) = normalizeRemoteModel model \<and>
   \<not> has_prefix ''paid/'' (normalizeRemoteModel model) \<and> \<not> has_prefix ''openai/'' (normalizeRemoteModel model)"
proof -
  let ?n = "normalizeRemoteModel model"
  have clean: "strip_model_prefixes ?n = ?n"
    by (simp add: normalizeRemoteModel_def normalize_loop_clean)
  have paid: "\<not> has_prefix ''paid/'' ?n"
  proof
    assume h: "has_prefix ''paid/'' ?n"
    then have "length (trim_prefix ''paid/'' ?n) < length ?n" by (rule length_trim_prefix_less) simp
    then have "length (strip_model_prefixes ?n) < length ?n"
      unfolding strip_model_prefixes_def by (rule le_less_trans [OF length_trim_prefix_le])
    with clean show False by simp
  qed
  with clean have openai: "\<not> has_prefix ''openai/'' ?n"
    by (simp add: strip_model_prefixes_def trim_prefix_id trim_prefix_eq_self)
  obtain t where t: "trim_space model = t @ ?n"
    using normalize_loop_suffix [of "trim_space model"] by (auto simp: normalizeRemoteModel_def has_suffix_iff)
  have "trim_space (''paid/'' @ ?n) = ''paid/'' @ ?n"
  proof (cases "?n = []")
    case False
    have "\<not> is_space (last ?n)" by (rule trim_space_suffix_free [OF t False])
    moreover have "\<not> is_space (CHR ''p'')" by code_simp
    ultimately show ?thesis using False by (intro trim_space_id) simp_all
  next
    case True
    have "trim_space ''paid/'' = ''paid/''" by code_simp
    with True show ?thesis by simp
  qed
  moreover have "strip_model_prefixes (''paid/'' @ ?n) = ?n"
    by (simp only: strip_model_prefixes_def trim_prefix_append trim_prefix_id [OF openai])
  moreover have "normalize_loop ?n = ?n" by (subst normalize_loop.simps) (simp add: clean)
  ultimately have "normalizeRemoteModel (''paid/'' @ ?n) = ?n"
    by (subst normalizeRemoteModel_def, subst normalize_loop.simps) simp
  with paid openai show ?thesis by blast
qed

lemma normalize_while:
  "while_option (\<lambda>m. strip_model_prefixes m \<noteq> m) strip_model_prefixes m = Some (normalize_loop m)"
proof (induction m rule: normalize_loop.induct)
  case (1 m)
  then show ?case by (subst while_option_unfold, subst normalize_loop.simps) simp
qed

text \<open>C39: The loop that strips the prefixes of a model name ends.  For every name, the loop of \<open>normalizeRemoteModel\<close> (strip
  \<open>paid/\<close>, strip \<open>openai/\<close>, until neither changes the name) returns, with a name that has neither prefix, and the name
  that \<open>/status\<close> shows for an upstream, \<open>paid/\<close> and its model, is normalised back to that model.\<close>

theorem model_name_loop_ends:
  "while_option (\<lambda>m. strip_model_prefixes m \<noteq> m) strip_model_prefixes (trim_space model) = Some (normalizeRemoteModel model) \<and>
   \<not> has_prefix ''paid/'' (normalizeRemoteModel model) \<and> \<not> has_prefix ''openai/'' (normalizeRemoteModel model) \<and>
   normalizeRemoteModel (''paid/'' @ normalizeRemoteModel model) = normalizeRemoteModel model"
  using public_model_roundtrip [of model] normalize_while [of "trim_space model"] by (simp add: normalizeRemoteModel_def)

lemma resolve_consistent:
  assumes "proxy_inv p" and "resolveModelRequest body p = Some (m, payload, e)"
  shows "ue_remoteModel e = m \<and> map_of (px_signers p) (ue_name e) \<noteq> None"
proof -
  obtain name where route: "map_of (px_modelRoutes p) m = Some name" and up: "map_of (px_upstreams p) name = Some e"
    using assms(2) by (auto simp: resolveModelRequest_def Let_def split: option.splits json.splits if_splits)
  moreover have "ue_name e = name" using assms(1) up unfolding proxy_inv_def by blast
  moreover have "ue_remoteModel e = m" using assms(1) route up unfolding proxy_inv_def by fastforce
  moreover have "(map_of (px_signers p) name = None) = (map_of (px_upstreams p) name = None)"
    using assms(1) unfolding proxy_inv_def by blast
  ultimately show ?thesis by simp
qed

text \<open>Whatever reloads, removals and paid requests a proxy goes through, its tables stay
  consistent: \<open>/status\<close> never dereferences a missing upstream, and a request that a model route
  accepts finds an upstream that serves exactly this model and has a signer behind it.\<close>

theorem proxy_tables_consistent:
  assumes "proxy_run pu mm cd p"
  shows "handleStatus p \<noteq> None \<and>
    (case resolveModelRequest body p of None \<Rightarrow> True
     | Some (m, payload, e) \<Rightarrow> ue_remoteModel e = m \<and> map_of (px_signers p) (ue_name e) \<noteq> None)"
proof -
  have inv: "proxy_inv p" by (rule proxy_run_inv [OF assms])
  have "map_of (px_upstreams p) name \<noteq> None" if "(name, s) \<in> set (px_signers p)" for name s
  proof -
    have "map_of (px_signers p) name \<noteq> None" using that weak_map_of_SomeI by fastforce
    moreover have "(map_of (px_signers p) name = None) = (map_of (px_upstreams p) name = None)"
      using inv unfolding proxy_inv_def by blast
    ultimately show ?thesis by simp
  qed
  then have "handleStatus p \<noteq> None" unfolding handleStatus_def by (intro status_loop_total) blast
  then show ?thesis
    using resolve_consistent [OF inv] by (auto split: option.splits)
qed

definition wit_proxy :: proxy where
  "wit_proxy = projr (NewProxy (\<lambda>u. Some \<lparr>u_scheme = ''http'', u_host = ''up'', u_path = []\<rparr>)
     \<lparr>cfg_upstreams = [(''up'', wit_upstream)]\<rparr> wit_auths None (\<lambda>_. NoFile))"

theorem proxy_tables_consistent_witness:
  "handleStatus (fst (handleAdminRemove ''gone'' wit_proxy)) \<noteq> None \<and>
    (case resolveModelRequest (''{'' @ [CHR 34] @ ''model'' @ [CHR 34] @ '':'' @ [CHR 34] @ ''paid/m'' @ [CHR 34] @ ''}'')
        (fst (handleAdminRemove ''gone'' wit_proxy)) of None \<Rightarrow> True
     | Some (m, payload, e) \<Rightarrow> ue_remoteModel e = m \<and>
         map_of (px_signers (fst (handleAdminRemove ''gone'' wit_proxy))) (ue_name e) \<noteq> None)"
proof (rule proxy_tables_consistent [OF proxy_run.remove [OF proxy_run.new]])
  show "gomap (cfg_upstreams \<lparr>cfg_upstreams = [(''up'', wit_upstream)]\<rparr>)" by (simp add: gomap_def)
  show "NewProxy (\<lambda>u. Some \<lparr>u_scheme = ''http'', u_host = ''up'', u_path = []\<rparr>)
     \<lparr>cfg_upstreams = [(''up'', wit_upstream)]\<rparr> wit_auths None (\<lambda>_. NoFile) = Inr wit_proxy"
    by (simp add: wit_proxy_def NewProxy_def Reload_def Let_def)
qed

end
