(* ===== verification/Routes.thy ===== *)
theory Routes imports GoStrings begin

text \<open>
  Route rules and payment options of \<open>internal/x402/config.go\<close>: the pricing table that the verifier
  matches requests against.  The branding of a rule is presentation and is left out.
\<close>

record route_payment =
  rp_Price :: string
  rp_PayTo :: string
  rp_Network :: string
  rp_AssetAddress :: string
  rp_AssetSymbol :: string
  rp_AssetDecimals :: int
  rp_AssetTransferMethod :: string
  rp_EIP712Name :: string
  rp_EIP712Version :: string
  rp_PriceModel :: string
  rp_PerMTok :: string
  rp_ApproxTokensPerRequest :: int
  rp_MaxTimeoutSeconds :: int

record route_rule =
  rr_Pattern :: string
  rr_Price :: string
  rr_Description :: string
  rr_PayTo :: string
  rr_Network :: string
  rr_AssetAddress :: string
  rr_AssetSymbol :: string
  rr_AssetDecimals :: int
  rr_AssetTransferMethod :: string
  rr_EIP712Name :: string
  rr_EIP712Version :: string
  rr_UpstreamAuth :: string
  rr_UpstreamPaths :: "string list"
  rr_BodyPolicy :: string
  rr_UpstreamURL :: string
  rr_StripPrefix :: string
  rr_PriceModel :: string
  rr_PerMTok :: string
  rr_ApproxTokensPerRequest :: int
  rr_OfferNamespace :: string
  rr_OfferName :: string
  rr_AgentModel :: string
  rr_AgentSkills :: "string list"
  rr_AgentRuntime :: string
  rr_OfferType :: string
  rr_Model :: string
  rr_MaxTimeoutSeconds :: int
  rr_Payments :: "route_payment list"
  rr_Hostname :: string
  rr_Async :: bool
  rr_BrokerURL :: string
  rr_AsyncTTL :: string
  rr_AsyncVisibility :: string
  rr_FreeQuota :: int
  rr_Gate :: string

definition empty_rule :: route_rule where
  "empty_rule = \<lparr>rr_Pattern = [], rr_Price = [], rr_Description = [], rr_PayTo = [], rr_Network = [],
     rr_AssetAddress = [], rr_AssetSymbol = [], rr_AssetDecimals = 0, rr_AssetTransferMethod = [],
     rr_EIP712Name = [], rr_EIP712Version = [], rr_UpstreamAuth = [], rr_UpstreamPaths = [], rr_BodyPolicy = [],
     rr_UpstreamURL = [], rr_StripPrefix = [], rr_PriceModel = [], rr_PerMTok = [], rr_ApproxTokensPerRequest = 0,
     rr_OfferNamespace = [], rr_OfferName = [], rr_AgentModel = [], rr_AgentSkills = [], rr_AgentRuntime = [],
     rr_OfferType = [], rr_Model = [], rr_MaxTimeoutSeconds = 0, rr_Payments = [], rr_Hostname = [],
     rr_Async = False, rr_BrokerURL = [], rr_AsyncTTL = [], rr_AsyncVisibility = [], rr_FreeQuota = 0, rr_Gate = []\<rparr>"

definition IsFree :: "route_rule \<Rightarrow> bool" where
  "IsFree r \<longleftrightarrow> rr_Gate r = ''free''"

definition IsAuth :: "route_rule \<Rightarrow> bool" where
  "IsAuth r \<longleftrightarrow> rr_Gate r = ''auth''"

definition PaymentOptions :: "route_rule \<Rightarrow> route_payment list" where
  "PaymentOptions r =
     (if rr_Payments r \<noteq> [] then rr_Payments r
      else [\<lparr>rp_Price = rr_Price r, rp_PayTo = rr_PayTo r, rp_Network = rr_Network r,
             rp_AssetAddress = rr_AssetAddress r, rp_AssetSymbol = rr_AssetSymbol r,
             rp_AssetDecimals = rr_AssetDecimals r, rp_AssetTransferMethod = rr_AssetTransferMethod r,
             rp_EIP712Name = rr_EIP712Name r, rp_EIP712Version = rr_EIP712Version r,
             rp_PriceModel = rr_PriceModel r, rp_PerMTok = rr_PerMTok r,
             rp_ApproxTokensPerRequest = rr_ApproxTokensPerRequest r,
             rp_MaxTimeoutSeconds = rr_MaxTimeoutSeconds r\<rparr>])"

lemma PaymentOptions_not_Nil [simp]: "PaymentOptions r \<noteq> []"
  by (simp add: PaymentOptions_def)

subsection \<open>The facilitator URL\<close>

text \<open>\<open>parse\<close> is \<open>url.Parse\<close>, reduced to the scheme and the host name without port.\<close>

definition ValidateFacilitatorURL :: "(string \<Rightarrow> (string \<times> string) option) \<Rightarrow> string \<Rightarrow> bool" where
  "ValidateFacilitatorURL parse u =
     (case parse u of None \<Rightarrow> False
      | Some (scheme, host) \<Rightarrow>
          if scheme = ''https'' then True
          else if scheme \<noteq> ''http'' then False
          else host \<in> {''localhost'', ''127.0.0.1'', ''::1'', ''host.k3d.internal'', ''host.docker.internal''})"

end
