(* ===== verification/Matcher.thy ===== *)
theory Matcher imports Routes begin

text \<open>
  Request routing of the verifier: \<open>matcher.go\<close> and \<open>upstream_paths.go\<close> of \<open>internal/x402\<close>, the path
  helpers of \<open>verifier.go\<close> they use, and \<open>quota.go\<close>.

  \<open>path.Match\<close> and \<open>path.Clean\<close> are the standard library's; a character is one byte, so on a name with
  multi-byte UTF-8 characters \<open>?\<close> and a character class look at single bytes.
\<close>

subsection \<open>path.Match\<close>

text \<open>A chunk is the pattern between stars; \<open>inrange\<close> is set inside a character class.\<close>

fun scan_chunk :: "bool \<Rightarrow> string \<Rightarrow> string \<times> string" where
  "scan_chunk inrange [] = ([], [])"
| "scan_chunk inrange (c # cs) =
     (if c = CHR 92 then
        (case cs of [] \<Rightarrow> ([c], [])
         | d # ds \<Rightarrow> (let (a, b) = scan_chunk inrange ds in (c # d # a, b)))
      else if c = CHR ''['' then (let (a, b) = scan_chunk True cs in (c # a, b))
      else if c = CHR '']'' then (let (a, b) = scan_chunk False cs in (c # a, b))
      else if c = CHR ''*'' \<and> \<not> inrange then ([], c # cs)
      else (let (a, b) = scan_chunk inrange cs in (c # a, b)))"

definition getEsc :: "string \<Rightarrow> (char \<times> string) option" where
  "getEsc chunk =
     (case chunk of [] \<Rightarrow> None
      | c # cs \<Rightarrow>
          if c = CHR ''-'' \<or> c = CHR '']'' then None
          else (let body = (if c = CHR 92 then cs else chunk) in
            (case body of [] \<Rightarrow> None
             | r # rest \<Rightarrow> if rest = [] then None else Some (r, rest))))"

lemma getEsc_shorter: "getEsc chunk = Some (r, rest) \<Longrightarrow> length rest < length chunk"
  by (auto simp: getEsc_def Let_def split: list.splits if_splits)

text \<open>The ranges of a class up to its closing bracket; \<open>None\<close> is a bad pattern.\<close>

function class_ranges :: "char option \<Rightarrow> string \<Rightarrow> bool \<Rightarrow> bool \<Rightarrow> (bool \<times> string) option" where
  "class_ranges r chunk seen matched =
     (if seen \<and> chunk \<noteq> [] \<and> hd chunk = CHR '']'' then Some (matched, tl chunk)
      else (case getEsc chunk of None \<Rightarrow> None
        | Some (lo, rest) \<Rightarrow>
            (case (if hd rest = CHR ''-'' then getEsc (tl rest) else Some (lo, rest)) of
               None \<Rightarrow> None
             | Some (hi, rest2) \<Rightarrow>
                 if length rest2 \<ge> length chunk then None
                 else class_ranges r rest2 True
                   (matched \<or> (case r of None \<Rightarrow> False | Some x \<Rightarrow> byte lo \<le> byte x \<and> byte x \<le> byte hi)))))"
  by pat_completeness auto
termination
  by (relation "measure (\<lambda>(r, chunk, seen, matched). length chunk)") auto

declare class_ranges.simps [simp del]

text \<open>
  \<open>None\<close> is a bad pattern, \<open>Some None\<close> no match, \<open>Some (Some t)\<close> a match that leaves \<open>t\<close> of the
  name.  After a failure the rest of the chunk is only checked for well-formedness.
\<close>

function matchChunk :: "string \<Rightarrow> string \<Rightarrow> bool \<Rightarrow> string option option" where
  "matchChunk chunk s failed =
     (case chunk of
        [] \<Rightarrow> Some (if failed then None else Some s)
      | c # cs \<Rightarrow>
          (let failed1 = (failed \<or> s = []) in
           if c = CHR ''['' then
             (let negated = (cs \<noteq> [] \<and> hd cs = CHR ''^''); body = (if negated then tl cs else cs)
              in (case class_ranges (if failed1 then None else Some (hd s)) body False False of
                    None \<Rightarrow> None
                  | Some (m, rest) \<Rightarrow>
                      if length rest \<ge> length chunk then None
                      else matchChunk rest (if failed1 then s else tl s) (failed1 \<or> m = negated)))
           else if c = CHR ''?'' then
             matchChunk cs (if failed1 then s else tl s) (failed1 \<or> hd s = CHR ''/'')
           else if c = CHR 92 then
             (case cs of [] \<Rightarrow> None
              | d # ds \<Rightarrow> matchChunk ds (if failed1 then s else tl s) (failed1 \<or> d \<noteq> hd s))
           else matchChunk cs (if failed1 then s else tl s) (failed1 \<or> c \<noteq> hd s)))"
  by pat_completeness auto
termination
  by (relation "measure (\<lambda>(chunk, s, failed). length chunk)") auto

declare matchChunk.simps [simp del]

text \<open>After a star: try the chunk after skipping one, two, ... characters other than a slash.\<close>

fun star_loop :: "string \<Rightarrow> bool \<Rightarrow> string \<Rightarrow> string option option" where
  "star_loop chunk isLast [] = Some None"
| "star_loop chunk isLast (c # cs) =
     (if c = CHR ''/'' then Some None
      else (case matchChunk chunk cs False of
              None \<Rightarrow> None
            | Some None \<Rightarrow> star_loop chunk isLast cs
            | Some (Some t) \<Rightarrow> if isLast \<and> t \<noteq> [] then star_loop chunk isLast cs else Some (Some t)))"

definition is_star :: "char \<Rightarrow> bool" where
  "is_star c \<longleftrightarrow> c = CHR ''*''"

lemma scan_chunk_le: "scan_chunk r p = (a, b) \<Longrightarrow> length a + length b = length p"
proof (induction r p arbitrary: a b rule: scan_chunk.induct)
  case (2 r c cs)
  then show ?case by (cases cs) (auto simp: Let_def split: if_splits prod.splits)
qed simp

text \<open>The remaining chunks of a pattern whose match has failed must still be well formed.\<close>

function chunks_ok :: "string \<Rightarrow> bool" where
  "chunks_ok p =
     (if p = [] then True
      else (let (chunk, rest) = scan_chunk False (dropWhile is_star p)
            in if length rest \<ge> length p then False
               else matchChunk chunk [] False \<noteq> None \<and> chunks_ok rest))"
  by pat_completeness auto
termination
  by (relation "measure length") auto

declare chunks_ok.simps [simp del]

text \<open>\<open>None\<close> is \<open>ErrBadPattern\<close>.\<close>

function path_Match :: "string \<Rightarrow> string \<Rightarrow> bool option" where
  "path_Match pattern name =
     (if pattern = [] then Some (name = [])
      else (let star = is_star (hd pattern);
                (chunk, rest) = scan_chunk False (dropWhile is_star pattern)
            in if length rest \<ge> length pattern then None
               else if star \<and> chunk = [] then Some (CHR ''/'' \<notin> set name)
               else (case matchChunk chunk name False of
                   Some (Some t) \<Rightarrow>
                     if t = [] \<or> rest \<noteq> [] then path_Match rest t
                     else if star then
                       (case star_loop chunk (rest = []) name of
                          None \<Rightarrow> None
                        | Some None \<Rightarrow> if chunks_ok rest then Some False else None
                        | Some (Some u) \<Rightarrow> path_Match rest u)
                     else if chunks_ok rest then Some False else None
                 | None \<Rightarrow> None
                 | Some None \<Rightarrow>
                     if star then
                       (case star_loop chunk (rest = []) name of
                          None \<Rightarrow> None
                        | Some None \<Rightarrow> if chunks_ok rest then Some False else None
                        | Some (Some u) \<Rightarrow> path_Match rest u)
                     else if chunks_ok rest then Some False else None)))"
  by pat_completeness auto
termination
  by (relation "measure (\<lambda>(pattern, name). length pattern)") auto

declare path_Match.simps [simp del]

subsection \<open>Patterns\<close>

text \<open>The loop over the pattern segments, and the final test that no segment of the path is left.\<close>

fun glob_segments :: "string list \<Rightarrow> string list \<Rightarrow> bool" where
  "glob_segments [] us = (us = [])"
| "glob_segments (pp # pps) us =
     (if pps = [] \<and> pp = ''*'' then True
      else (case us of [] \<Rightarrow> False
            | u # us' \<Rightarrow> path_Match pp u = Some True \<and> glob_segments pps us'))"

definition globMatch :: "string \<Rightarrow> string \<Rightarrow> bool" where
  "globMatch pattern uri =
     (let patParts = split_on (CHR ''/'') (trim_prefix ''/'' pattern);
          uriParts = split_on (CHR ''/'') (trim_prefix ''/'' uri)
      in if length uriParts < length patParts then False else glob_segments patParts uriParts)"

definition matchPattern :: "string \<Rightarrow> string \<Rightarrow> bool" where
  "matchPattern pattern uri =
     (if CHR ''*'' \<notin> set pattern then pattern = uri
      else (case cut_suffix ''/*'' pattern of
              Some prefix \<Rightarrow>
                if CHR ''*'' \<notin> set prefix then uri = prefix \<or> has_prefix (prefix @ ''/'') uri
                else globMatch pattern uri
            | None \<Rightarrow> globMatch pattern uri))"

definition matchRoute :: "route_rule list \<Rightarrow> string \<Rightarrow> route_rule option" where
  "matchRoute routes uri = find (\<lambda>r. matchPattern (rr_Pattern r) uri) routes"

definition stripQueryFragment :: "string \<Rightarrow> string" where
  "stripQueryFragment uri = takeWhile (\<lambda>c. c \<noteq> CHR ''?'' \<and> c \<noteq> CHR ''#'') uri"

definition patternSpecificity :: "string \<Rightarrow> bool \<times> nat" where
  "patternSpecificity pattern =
     (if CHR ''*'' \<notin> set pattern then (True, length pattern)
      else (False, length (takeWhile (\<lambda>c. c \<noteq> CHR ''*'') pattern)))"

definition route_less :: "route_rule \<Rightarrow> route_rule \<Rightarrow> bool" where
  "route_less a b =
     (let (ei, li) = patternSpecificity (rr_Pattern a); (ej, lj) = patternSpecificity (rr_Pattern b);
          si = count_char (CHR ''/'') (rr_Pattern a); sj = count_char (CHR ''/'') (rr_Pattern b)
      in if ei \<noteq> ej then ei
         else if li \<noteq> lj then li > lj
         else if si \<noteq> sj then si > sj
         else if rr_Pattern a \<noteq> rr_Pattern b then str_less (rr_Pattern a) (rr_Pattern b)
         else if rr_OfferNamespace a \<noteq> rr_OfferNamespace b
           then str_less (rr_OfferNamespace a) (rr_OfferNamespace b)
         else str_less (rr_OfferName a) (rr_OfferName b))"

definition sortRoutesBySpecificity :: "route_rule list \<Rightarrow> route_rule list" where
  "sortRoutesBySpecificity routes = sort_by route_less routes"

subsection \<open>Paths\<close>

text \<open>\<open>path.Clean\<close>: the segments are processed left to right on a stack (top first).\<close>

fun clean_segments :: "bool \<Rightarrow> string list \<Rightarrow> string list \<Rightarrow> string list" where
  "clean_segments rooted [] out = rev out"
| "clean_segments rooted (seg # segs) out =
     (if seg = [] \<or> seg = ''.'' then clean_segments rooted segs out
      else if seg = ''..'' then
        (case out of
           [] \<Rightarrow> clean_segments rooted segs (if rooted then [] else [''..''])
         | prev # rest \<Rightarrow> clean_segments rooted segs (if prev = ''..'' then ''..'' # out else rest))
      else clean_segments rooted segs (seg # out))"

definition path_Clean :: "string \<Rightarrow> string" where
  "path_Clean path =
     (if path = [] then ''.''
      else (let rooted = (hd path = CHR ''/'');
                out = join_with ''/'' (clean_segments rooted (split_on (CHR ''/'') path) [])
            in if rooted then ''/'' @ out else if out = [] then ''.'' else out))"

definition chatCompletionsPath :: string where
  "chatCompletionsPath = ''/v1/chat/completions''"

definition normalizeChatCompletionsPath :: "string \<Rightarrow> string \<Rightarrow> string \<Rightarrow> string" where
  "normalizeChatCompletionsPath offerType meth stripped =
     (if meth \<noteq> ''POST'' then stripped
      else if offerType \<noteq> ''inference'' \<and> offerType \<noteq> ''agent'' then stripped
      else if trim_suffix ''/'' stripped \<in> {[], ''/v1'', ''/chat/completions''} then chatCompletionsPath
      else stripped)"

definition stripRoutePrefix :: "string \<Rightarrow> string \<Rightarrow> string" where
  "stripRoutePrefix prefix0 requestPath =
     (let prefix = trim_suffix ''/'' prefix0 in
      if prefix = [] \<or> prefix = ''/'' then (if requestPath = [] then ''/'' else requestPath)
      else if requestPath = prefix then ''/''
      else if has_prefix (prefix @ ''/'') requestPath then trim_prefix prefix requestPath
      else requestPath)"

definition singleJoiningSlash :: "string \<Rightarrow> string \<Rightarrow> string" where
  "singleJoiningSlash a b =
     (let aslash = has_suffix ''/'' a; bslash = has_prefix ''/'' b
      in if aslash \<and> bslash then a @ drop 1 b
         else if \<not> aslash \<and> \<not> bslash then a @ ''/'' @ b
         else a @ b)"

subsection \<open>Paths a buyer may reach\<close>

definition liteLLMBuyerPaths :: "string list" where
  "liteLLMBuyerPaths =
     [''POST /v1/chat/completions'', ''POST /chat/completions'', ''POST /v1/completions'', ''POST /completions'',
      ''POST /v1/embeddings'', ''POST /embeddings'']"

definition hermesBuyerPaths :: "string list" where
  "hermesBuyerPaths = [''POST /v1/chat/completions'']"

definition upstreamSubPath :: "route_rule \<Rightarrow> string \<Rightarrow> string \<Rightarrow> string option" where
  "upstreamSubPath rule meth escapedPath =
     (if CHR ''%'' \<in> set escapedPath \<or> CHR 92 \<in> set escapedPath then None
      else (let sub = trim_suffix ''/'' (normalizeChatCompletionsPath (rr_OfferType rule) meth
                        (stripRoutePrefix (rr_StripPrefix rule) escapedPath))
            in if sub = [] then Some [] else if path_Clean sub \<noteq> sub then None else Some sub))"

definition path_entry_allows :: "string \<Rightarrow> string \<Rightarrow> string \<Rightarrow> bool" where
  "path_entry_allows meth sub entry =
     (let (wantMethod, wantPath) = the_default ([], entry) (cut_at '' '' entry)
      in wantPath = sub \<and> (wantMethod = [] \<or> wantMethod = meth))"

definition upstreamPathAllowed :: "route_rule \<Rightarrow> string \<Rightarrow> string \<Rightarrow> bool" where
  "upstreamPathAllowed rule meth escapedPath =
     (if rr_UpstreamPaths rule = [] then True
      else (case upstreamSubPath rule meth escapedPath of None \<Rightarrow> False
            | Some sub \<Rightarrow> list_ex (path_entry_allows meth sub) (rr_UpstreamPaths rule)))"

definition paywallPreview :: "route_rule \<Rightarrow> string \<Rightarrow> string \<Rightarrow> bool \<Rightarrow> bool" where
  "paywallPreview rule meth escapedPath hasPayment =
     (if rr_UpstreamPaths rule = [] \<or> hasPayment \<or> IsFree rule \<or> IsAuth rule then False
      else if meth \<noteq> ''GET'' \<and> meth \<noteq> ''HEAD'' then False
      else upstreamSubPath rule meth escapedPath = Some [])"

subsection \<open>Free quota\<close>

record quota_counter =
  qc_day :: string
  qc_counts :: "(string, int) gomap"

definition newFreeQuotaCounter :: quota_counter where
  "newFreeQuotaCounter = \<lparr>qc_day = [], qc_counts = []\<rparr>"

text \<open>\<open>day\<close> is \<open>now.UTC().Format("2006-01-02")\<close>.\<close>

definition consume_quota :: "string \<Rightarrow> string \<Rightarrow> int \<Rightarrow> string \<Rightarrow> quota_counter \<Rightarrow> quota_counter \<times> bool" where
  "consume_quota pattern wallet limit day q =
     (if limit \<le> 0 \<or> wallet = [] then (q, False)
      else (let q1 = (if qc_day q \<noteq> day then \<lparr>qc_day = day, qc_counts = []\<rparr> else q);
                key = pattern @ [CHR 0x00] @ wallet;
                used = the_default 0 (map_of (qc_counts q1) key)
            in if used \<ge> limit then (q1, False)
               else (q1\<lparr>qc_counts := AList.update key (used + 1) (qc_counts q1)\<rparr>, True)))"

subsection \<open>The order of the rules\<close>

text \<open>Comparing by a key first keeps a comparison sortable.\<close>

lemma strict_weak_lex:
  assumes lin: "\<And>x y. \<not> (lt x y \<and> lt y x)" "\<And>x y z. lt x y \<Longrightarrow> lt y z \<Longrightarrow> lt x z" "\<And>x y. x \<noteq> y \<Longrightarrow> lt x y \<or> lt y x"
    and rest: "strict_weak lt2"
  shows "strict_weak (\<lambda>a b. if f a \<noteq> f b then lt (f a) (f b) else lt2 a b)"
proof -
  let ?L = "\<lambda>a b. if f a \<noteq> f b then lt (f a) (f b) else lt2 a b"
  have rest_asym: "lt2 a b \<Longrightarrow> \<not> lt2 b a" for a b using rest unfolding strict_weak_def by blast
  have rest_neg: "\<not> lt2 a b \<Longrightarrow> \<not> lt2 b c \<Longrightarrow> \<not> lt2 a c" for a b c
    using rest unfolding strict_weak_def by blast
  have key_neg: "\<not> lt x y \<Longrightarrow> x \<noteq> y \<Longrightarrow> lt y x" for x y using lin(3) by blast
  have "\<not> ?L b a" if "?L a b" for a b
    using that lin(1) [of "f a" "f b"] rest_asym [of a b] by (auto split: if_splits)
  moreover have "\<not> ?L a c" if ab: "\<not> ?L a b" and bc: "\<not> ?L b c" for a b c
  proof (cases "f a = f b")
    case True
    with ab bc show ?thesis using rest_neg by (auto split: if_splits)
  next
    case False
    with ab have ba: "lt (f b) (f a)" using key_neg by auto
    show ?thesis
    proof (cases "f b = f c")
      case True
      with False ba lin(1) [of "f a" "f c"] show ?thesis by auto
    next
      case bc': False
      with bc have "lt (f c) (f b)" using key_neg by auto
      from lin(2) [OF this ba] have "lt (f c) (f a)" .
      with lin(1) [of "f a" "f c"] lin(1) [of "f a" "f a"] show ?thesis by auto
    qed
  qed
  ultimately show ?thesis unfolding strict_weak_def by blast
qed

lemma strict_weak_str_less: "strict_weak (\<lambda>a b. str_less (f a) (f b))"
  unfolding strict_weak_def by (metis str_less_irrefl str_less_total str_less_trans)

lemma route_less_lex:
  "route_less = (\<lambda>a b.
     if fst (patternSpecificity (rr_Pattern a)) \<noteq> fst (patternSpecificity (rr_Pattern b))
     then (\<lambda>x y. x \<and> \<not> y) (fst (patternSpecificity (rr_Pattern a))) (fst (patternSpecificity (rr_Pattern b)))
     else if snd (patternSpecificity (rr_Pattern a)) \<noteq> snd (patternSpecificity (rr_Pattern b))
     then (\<lambda>x y. x > y) (snd (patternSpecificity (rr_Pattern a))) (snd (patternSpecificity (rr_Pattern b)))
     else if count_char (CHR ''/'') (rr_Pattern a) \<noteq> count_char (CHR ''/'') (rr_Pattern b)
     then (\<lambda>x y. x > y) (count_char (CHR ''/'') (rr_Pattern a)) (count_char (CHR ''/'') (rr_Pattern b))
     else if rr_Pattern a \<noteq> rr_Pattern b then str_less (rr_Pattern a) (rr_Pattern b)
     else if rr_OfferNamespace a \<noteq> rr_OfferNamespace b then str_less (rr_OfferNamespace a) (rr_OfferNamespace b)
     else str_less (rr_OfferName a) (rr_OfferName b))"
  by (intro ext) (simp add: route_less_def Let_def split: prod.split)

lemma strict_weak_route_less: "strict_weak route_less"
proof -
  note str = str_less_irrefl str_less_trans str_less_total
  show ?thesis
    unfolding route_less_lex
    by (intro strict_weak_lex strict_weak_str_less) (auto dest: str_less_trans str_less_total)
qed

lemma find_sorted:
  "sorted_wrt (\<lambda>a b. \<not> lt b a) xs \<Longrightarrow> (\<And>a. \<not> lt a a) \<Longrightarrow> find P xs = Some x \<Longrightarrow> y \<in> set xs \<Longrightarrow> P y \<Longrightarrow> \<not> lt y x"
  by (induction xs) (auto split: if_splits)

text \<open>The rule that the sorted table applies to a path is one of the rules that match it, and no
  matching rule is more specific.  In particular a rule written for exactly this path wins over every
  wildcard rule.  A path is unmetered only if no rule matches it at all.\<close>

theorem matchRoute_most_specific:
  "case matchRoute (sortRoutesBySpecificity rs) uri of
     None \<Rightarrow> (\<forall>q \<in> set rs. \<not> matchPattern (rr_Pattern q) uri)
   | Some r \<Rightarrow> r \<in> set rs \<and> matchPattern (rr_Pattern r) uri \<and>
       (\<forall>q \<in> set rs. matchPattern (rr_Pattern q) uri \<longrightarrow> \<not> route_less q r) \<and>
       ((\<exists>q \<in> set rs. rr_Pattern q = uri \<and> CHR ''*'' \<notin> set uri) \<longrightarrow> rr_Pattern r = uri)"
proof (cases "matchRoute (sortRoutesBySpecificity rs) uri")
  case None
  then have "\<forall>q \<in> set rs. \<not> matchPattern (rr_Pattern q) uri"
    by (simp add: matchRoute_def sortRoutesBySpecificity_def find_None_iff')
  with None show ?thesis by simp
next
  case (Some r)
  then have r: "r \<in> set rs" "matchPattern (rr_Pattern r) uri"
    by (auto simp: matchRoute_def sortRoutesBySpecificity_def dest: find_SomeD)
  have irrefl: "\<not> route_less a a" for a
    using strict_weak_route_less unfolding strict_weak_def by blast
  have best: "\<not> route_less q r" if "q \<in> set rs" "matchPattern (rr_Pattern q) uri" for q
    by (rule find_sorted [OF sorted_sort_by [OF strict_weak_route_less], where P = "\<lambda>r. matchPattern (rr_Pattern r) uri"])
       (use Some that irrefl in \<open>simp_all add: matchRoute_def sortRoutesBySpecificity_def\<close>)
  have "rr_Pattern r = uri" if q: "q \<in> set rs" "rr_Pattern q = uri" "CHR ''*'' \<notin> set uri" for q
  proof -
    have "\<not> route_less q r" using q by (intro best) (simp_all add: matchPattern_def)
    then have "fst (patternSpecificity (rr_Pattern r))"
      using q by (simp add: route_less_lex patternSpecificity_def split: if_splits)
    with r(2) show ?thesis by (simp add: patternSpecificity_def matchPattern_def split: if_splits)
  qed
  with Some r best show ?thesis by auto
qed

definition wit_rules :: "route_rule list" where
  "wit_rules = [empty_rule\<lparr>rr_Pattern := ''/services/foo/*''\<rparr>, empty_rule\<lparr>rr_Pattern := ''/services/foo/healthz''\<rparr>]"

theorem matchRoute_most_specific_witness:
  "rr_Pattern (the (matchRoute (sortRoutesBySpecificity wit_rules) ''/services/foo/healthz'')) = ''/services/foo/healthz''"
proof -
  have "matchRoute (sortRoutesBySpecificity wit_rules) ''/services/foo/healthz'' \<noteq> None" by code_simp
  then show ?thesis
    using matchRoute_most_specific [of wit_rules "''/services/foo/healthz''"]
    by (auto simp: wit_rules_def split: option.splits)
qed

subsection \<open>What the allowlist admits\<close>

text \<open>The path that \<open>buildUpstreamProxy\<close> appends to the target's.\<close>

definition forwardedPath :: "route_rule \<Rightarrow> string \<Rightarrow> string \<Rightarrow> string" where
  "forwardedPath rule meth path = normalizeChatCompletionsPath (rr_OfferType rule) meth (stripRoutePrefix (rr_StripPrefix rule) path)"

lemma trim_slash_cases: "p = trim_suffix ''/'' p \<or> p = trim_suffix ''/'' p @ ''/''"
  by (auto simp: trim_suffix_def has_suffix_iff)

lemma upstreamPathAllowed_entry:
  assumes "upstreamPathAllowed rule meth path" and "rr_UpstreamPaths rule \<noteq> []"
  obtains sub entry where "entry \<in> set (rr_UpstreamPaths rule)" and "path_entry_allows meth sub entry"
    and "upstreamSubPath rule meth path = Some sub"
    and "forwardedPath rule meth path = sub \<or> forwardedPath rule meth path = sub @ ''/''"
proof -
  from assms obtain sub where sub: "upstreamSubPath rule meth path = Some sub"
      "list_ex (path_entry_allows meth sub) (rr_UpstreamPaths rule)"
    by (auto simp: upstreamPathAllowed_def split: option.splits)
  then obtain entry where "entry \<in> set (rr_UpstreamPaths rule)" "path_entry_allows meth sub entry"
    by (auto simp: list_ex_iff)
  moreover have "sub = trim_suffix ''/'' (forwardedPath rule meth path)"
    using sub(1) by (auto simp: upstreamSubPath_def forwardedPath_def Let_def split: if_splits)
  ultimately show thesis using that sub(1) trim_slash_cases by metis
qed

definition buyer_post_paths :: "string list" where
  "buyer_post_paths = [''/v1/chat/completions'', ''/chat/completions'', ''/v1/completions'', ''/completions'',
     ''/v1/embeddings'', ''/embeddings'']"

lemma buyer_post_paths_set:
  "set buyer_post_paths = {''/v1/chat/completions'', ''/chat/completions'', ''/v1/completions'', ''/completions'',
     ''/v1/embeddings'', ''/embeddings''}"
  unfolding buyer_post_paths_def by (simp only: list.set)

lemma buyer_paths_post:
  "entry \<in> set liteLLMBuyerPaths \<Longrightarrow> \<exists>p \<in> set buyer_post_paths. entry = ''POST '' @ p"
  "entry \<in> set hermesBuyerPaths \<Longrightarrow> entry = ''POST '' @ ''/v1/chat/completions''"
  "''/v1/chat/completions'' \<in> set buyer_post_paths"
  "liteLLMBuyerPaths \<noteq> hermesBuyerPaths"
proof -
  have h: "liteLLMBuyerPaths = map (\<lambda>p. ''POST '' @ p) buyer_post_paths"
    by (simp add: liteLLMBuyerPaths_def buyer_post_paths_def)
  have "set liteLLMBuyerPaths = (\<lambda>p. ''POST '' @ p) ` set buyer_post_paths" unfolding h by (rule set_map)
  then show "entry \<in> set liteLLMBuyerPaths \<Longrightarrow> \<exists>p \<in> set buyer_post_paths. entry = ''POST '' @ p" by blast
  show "entry \<in> set hermesBuyerPaths \<Longrightarrow> entry = ''POST '' @ ''/v1/chat/completions''"
    by (simp add: hermesBuyerPaths_def)
  show "''/v1/chat/completions'' \<in> set buyer_post_paths" by (simp add: buyer_post_paths_def)
  show "liteLLMBuyerPaths \<noteq> hermesBuyerPaths" by (simp add: liteLLMBuyerPaths_def hermesBuyerPaths_def)
qed

lemma path_entry_POST: "path_entry_allows meth sub (''POST '' @ p) \<longleftrightarrow> sub = p \<and> meth = ''POST''"
proof -
  have "cut_at '' '' (''POST '' @ p) = Some (''POST'', p)" by (simp add: cut_at_def)
  then show ?thesis by (auto simp: path_entry_allows_def the_default_def)
qed

text \<open>On an offer whose injected credential is privileged, a buyer reaches the upstream only with
  POST and only on a chat, completion or embedding endpoint: the path that is forwarded is one of the
  listed ones, up to a trailing slash, whatever prefix, encoding, dot segments or repeated slashes the
  request uses.  On an agent offer the chat endpoint is the only one.\<close>

theorem privileged_offer_paths:
  assumes allowed: "upstreamPathAllowed rule meth path"
    and paths: "rr_UpstreamPaths rule = liteLLMBuyerPaths \<or> rr_UpstreamPaths rule = hermesBuyerPaths"
  shows "meth = ''POST'' \<and>
    (\<exists>sub \<in> {''/v1/chat/completions'', ''/chat/completions'', ''/v1/completions'', ''/completions'',
              ''/v1/embeddings'', ''/embeddings''}.
       (forwardedPath rule meth path = sub \<or> forwardedPath rule meth path = sub @ ''/'') \<and>
       (rr_UpstreamPaths rule = hermesBuyerPaths \<longrightarrow> sub = ''/v1/chat/completions''))"
proof -
  have "rr_UpstreamPaths rule \<noteq> []" using paths by (auto simp: liteLLMBuyerPaths_def hermesBuyerPaths_def)
  from upstreamPathAllowed_entry [OF allowed this] obtain sub entry where
    e: "entry \<in> set (rr_UpstreamPaths rule)" "path_entry_allows meth sub entry"
       "forwardedPath rule meth path = sub \<or> forwardedPath rule meth path = sub @ ''/''" by metis
  have "\<exists>p \<in> set buyer_post_paths. entry = ''POST '' @ p \<and>
      (rr_UpstreamPaths rule = hermesBuyerPaths \<longrightarrow> p = ''/v1/chat/completions'')"
    using paths
  proof
    assume l: "rr_UpstreamPaths rule = liteLLMBuyerPaths"
    with e(1) have "\<exists>p \<in> set buyer_post_paths. entry = ''POST '' @ p" by (simp only: buyer_paths_post(1))
    with l buyer_paths_post(4) show ?thesis by metis
  next
    assume h: "rr_UpstreamPaths rule = hermesBuyerPaths"
    with e(1) have "entry = ''POST '' @ ''/v1/chat/completions''" by (simp only: buyer_paths_post(2))
    with buyer_paths_post(3) show ?thesis by blast
  qed
  then obtain p where p: "p \<in> set buyer_post_paths" "entry = ''POST '' @ p"
      "rr_UpstreamPaths rule = hermesBuyerPaths \<longrightarrow> p = ''/v1/chat/completions''" by blast
  have m: "sub = p \<and> meth = ''POST''" using e(2) path_entry_POST unfolding p(2) by blast
  show ?thesis
  proof (intro conjI bexI [of _ p])
    show "meth = ''POST''" using m by (rule conjunct2)
    show "forwardedPath rule meth path = p \<or> forwardedPath rule meth path = p @ ''/''" using e(3) m by metis
    show "rr_UpstreamPaths rule = hermesBuyerPaths \<longrightarrow> p = ''/v1/chat/completions''" by (rule p(3))
    show "p \<in> {''/v1/chat/completions'', ''/chat/completions'', ''/v1/completions'', ''/completions'',
        ''/v1/embeddings'', ''/embeddings''}"
      using p(1) unfolding buyer_post_paths_set .
  qed
qed

definition wit_llm_rule :: route_rule where
  "wit_llm_rule = empty_rule\<lparr>rr_UpstreamPaths := liteLLMBuyerPaths, rr_StripPrefix := ''/services/llm'', rr_OfferType := ''inference''\<rparr>"

theorem privileged_offer_paths_witness:
  "upstreamPathAllowed wit_llm_rule ''POST'' ''/services/llm/v1'' \<and> ''POST'' = ''POST'' \<and>
    (\<exists>sub \<in> {''/v1/chat/completions'', ''/chat/completions'', ''/v1/completions'', ''/completions'',
              ''/v1/embeddings'', ''/embeddings''}.
       (forwardedPath wit_llm_rule ''POST'' ''/services/llm/v1'' = sub \<or>
        forwardedPath wit_llm_rule ''POST'' ''/services/llm/v1'' = sub @ ''/'') \<and>
       (rr_UpstreamPaths wit_llm_rule = hermesBuyerPaths \<longrightarrow> sub = ''/v1/chat/completions''))"
proof (rule conjI)
  show a: "upstreamPathAllowed wit_llm_rule ''POST'' ''/services/llm/v1''" by code_simp
  show "''POST'' = ''POST'' \<and>
    (\<exists>sub \<in> {''/v1/chat/completions'', ''/chat/completions'', ''/v1/completions'', ''/completions'',
              ''/v1/embeddings'', ''/embeddings''}.
       (forwardedPath wit_llm_rule ''POST'' ''/services/llm/v1'' = sub \<or>
        forwardedPath wit_llm_rule ''POST'' ''/services/llm/v1'' = sub @ ''/'') \<and>
       (rr_UpstreamPaths wit_llm_rule = hermesBuyerPaths \<longrightarrow> sub = ''/v1/chat/completions''))"
    by (rule privileged_offer_paths [OF a]) (simp add: wit_llm_rule_def)
qed

subsection \<open>What the quota grants\<close>

text \<open>The calls of one day, in order: (route pattern, wallet, limit of the route).\<close>

fun quota_day :: "string \<Rightarrow> (string \<times> string \<times> int) list \<Rightarrow> quota_counter \<Rightarrow> quota_counter \<times> bool list" where
  "quota_day day [] q = (q, [])"
| "quota_day day ((pattern, wallet, limit) # calls) q =
     (let (q1, b) = consume_quota pattern wallet limit day q; (q2, bs) = quota_day day calls q1 in (q2, b # bs))"

definition granted :: "string \<Rightarrow> string \<Rightarrow> (string \<times> string \<times> int) list \<Rightarrow> bool list \<Rightarrow> nat" where
  "granted pattern wallet calls bs =
     length (filter (\<lambda>((p, w, l), b). p = pattern \<and> w = wallet \<and> b) (zip calls bs))"

definition used_today :: "string \<Rightarrow> string \<Rightarrow> quota_counter \<Rightarrow> int" where
  "used_today day key q = (if qc_day q = day then the_default 0 (map_of (qc_counts q) key) else 0)"

lemma consume_quota_used:
  "consume_quota p w l day q = (q', b) \<Longrightarrow>
   used_today day key q' = used_today day key q + (if b \<and> key = p @ [CHR 0x00] @ w then 1 else 0) \<and>
   (b \<longrightarrow> used_today day (p @ [CHR 0x00] @ w) q' \<le> l)"
  by (auto simp: consume_quota_def used_today_def the_default_def Let_def split: if_splits option.splits)

lemma quota_day_used:
  "quota_day day calls q = (q', bs) \<Longrightarrow> (\<forall>(p, w, l) \<in> set calls. p = pattern \<and> w = wallet \<longrightarrow> l = limit) \<Longrightarrow>
   int (granted pattern wallet calls bs) \<le> max 0 (limit - used_today day (pattern @ [CHR 0x00] @ wallet) q)"
proof (induction calls arbitrary: q q' bs)
  case Nil
  then show ?case by (simp add: granted_def)
next
  case (Cons c calls)
  obtain p w l where c: "c = (p, w, l)" by (cases c)
  obtain q1 b where q1: "consume_quota p w l day q = (q1, b)" by fastforce
  obtain q2 bs' where q2: "quota_day day calls q1 = (q2, bs')" by fastforce
  have bs: "bs = b # bs'" using Cons.prems(1) c q1 q2 by simp
  note u = consume_quota_used [OF q1, of "pattern @ [CHR 0x00] @ wallet"]
  have ih: "int (granted pattern wallet calls bs') \<le> max 0 (limit - used_today day (pattern @ [CHR 0x00] @ wallet) q1)"
    by (rule Cons.IH [OF q2]) (use Cons.prems(2) in auto)
  show ?case
  proof (cases "b \<and> p = pattern \<and> w = wallet")
    case True
    then have "l = limit" using Cons.prems(2) c by simp
    with True u ih show ?thesis by (simp add: bs c granted_def)
  next
    case False
    then have "granted pattern wallet (c # calls) bs = granted pattern wallet calls bs'"
      by (auto simp: bs c granted_def)
    with u ih show ?thesis by (auto split: if_splits)
  qed
qed

text \<open>Whatever calls arrive on one UTC day, and whatever the counter held before, a wallet rides free
  on a route at most as often as the route's daily limit.\<close>

theorem free_quota_bound:
  assumes "quota_day day calls q = (q', bs)" and "0 \<le> limit"
    and "\<forall>(p, w, l) \<in> set calls. p = pattern \<and> w = wallet \<longrightarrow> l = limit"
    and "\<forall>n \<in> snd ` set (qc_counts q). 0 \<le> n"
  shows "int (granted pattern wallet calls bs) \<le> limit"
proof -
  have "0 \<le> used_today day (pattern @ [CHR 0x00] @ wallet) q"
    using assms(4) by (force simp: used_today_def the_default_def dest: map_of_SomeD split: option.splits)
  with quota_day_used [OF assms(1,3)] assms(2) show ?thesis by linarith
qed

theorem free_quota_bound_witness:
  "int (granted ''/a'' ''0x1'' [(''/a'', ''0x1'', 1), (''/a'', ''0x1'', 1)]
     (snd (quota_day ''2025-01-01'' [(''/a'', ''0x1'', 1), (''/a'', ''0x1'', 1)] newFreeQuotaCounter))) \<le> 1"
  by (rule free_quota_bound [where day = "''2025-01-01''" and q = newFreeQuotaCounter, OF surjective_pairing])
     (simp_all add: newFreeQuotaCounter_def)

end
