(* ===== verification/Amount.thy ===== *)
theory Amount imports GoStrings begin

text \<open>
  \<open>internal/schemas/amount.go\<close>: exact decimal prices.  A \<open>big.Rat\<close> is a pair of integers, numerator
  and positive denominator, not necessarily reduced; \<open>big.Int\<close> is \<open>int\<close>.
\<close>

type_synonym big_rat = "int \<times> int"

datatype price_error =
    PriceEmpty
  | PriceTooLong
  | PriceInvalid
  | PriceTooPrecise nat
  | PriceTooLarge
  | PriceNotPositive
  | UnsupportedDecimals int
  | NotWholeAtomic

definition MaxPriceDecimals :: int where "MaxPriceDecimals = 18"
definition MaxPriceWholeTokens :: int where "MaxPriceWholeTokens = 1000000000000"
definition MaxPriceLength :: nat where "MaxPriceLength = 64"
definition maxTokenDecimals :: int where "maxTokenDecimals = 255"
definition ApproxTokensPerRequest :: int where "ApproxTokensPerRequest = 1000"

definition allDigits :: "string \<Rightarrow> bool" where
  "allDigits s = list_all (\<lambda>c. digit_val c \<noteq> None) s"

definition pow10 :: "int \<Rightarrow> int" where
  "pow10 n = 10 ^ nat n"

definition ParseDecimalAmount :: "string \<Rightarrow> int \<Rightarrow> price_error + big_rat" where
  "ParseDecimalAmount s maxDecimals =
     (if s = [] then Inl PriceEmpty
      else if length s > MaxPriceLength then Inl PriceTooLong
      else (let maxd = (if maxDecimals < 0 \<or> maxDecimals > MaxPriceDecimals then MaxPriceDecimals else maxDecimals);
                (intPart, fracPart) = the_default (s, []) (cut_at ''.'' s)
            in if \<not> allDigits intPart \<or> \<not> allDigits fracPart \<or> (intPart = [] \<and> fracPart = []) then Inl PriceInvalid
               else if int (length fracPart) > maxd then Inl (PriceTooPrecise (length fracPart))
               else (case digits_val 0 (intPart @ fracPart) of
                       None \<Rightarrow> Inl PriceInvalid
                     | Some num \<Rightarrow>
                         (let den = pow10 (int (length fracPart))
                          in if num > MaxPriceWholeTokens * den then Inl PriceTooLarge else Inr (num, den)))))"

definition ParsePositiveDecimalAmount :: "string \<Rightarrow> int \<Rightarrow> price_error + big_rat" where
  "ParsePositiveDecimalAmount s maxDecimals =
     (case ParseDecimalAmount s maxDecimals of
        Inl e \<Rightarrow> Inl e
      | Inr r \<Rightarrow> if fst r \<le> 0 then Inl PriceNotPositive else Inr r)"

definition ValidatePrice :: "string \<Rightarrow> price_error option" where
  "ValidatePrice s = (case ParsePositiveDecimalAmount s MaxPriceDecimals of Inl e \<Rightarrow> Some e | Inr r \<Rightarrow> None)"

definition ValidatePriceForToken :: "string \<Rightarrow> int \<Rightarrow> price_error option" where
  "ValidatePriceForToken s decimals = (case ParsePositiveDecimalAmount s decimals of Inl e \<Rightarrow> Some e | Inr r \<Rightarrow> None)"

definition DecimalToAtomic :: "string \<Rightarrow> int \<Rightarrow> price_error + int" where
  "DecimalToAtomic s decimals =
     (if decimals < 0 \<or> decimals > maxTokenDecimals then Inl (UnsupportedDecimals decimals)
      else (case ParsePositiveDecimalAmount s decimals of
              Inl e \<Rightarrow> Inl e
            | Inr (num, den) \<Rightarrow>
                if (num * pow10 decimals) mod den \<noteq> 0 then Inl NotWholeAtomic
                else Inr ((num * pow10 decimals) div den)))"

definition CeilAtomic :: "big_rat \<Rightarrow> int \<Rightarrow> int" where
  "CeilAtomic amount decimals =
     (let n = fst amount * pow10 decimals; q = n div snd amount; m = n mod snd amount
      in if m > 0 then q + 1 else q)"

definition PerMTokToAtomicPerRequest :: "string \<Rightarrow> int \<Rightarrow> int \<Rightarrow> price_error + int" where
  "PerMTokToAtomicPerRequest perMTok tokensPerRequest decimals =
     (if decimals < 0 \<or> decimals > maxTokenDecimals then Inl (UnsupportedDecimals decimals)
      else (let tokens = (if tokensPerRequest \<le> 0 then ApproxTokensPerRequest else tokensPerRequest)
            in (case ParsePositiveDecimalAmount perMTok decimals of
                  Inl e \<Rightarrow> Inl e
                | Inr (num, den) \<Rightarrow> Inr (CeilAtomic (num * tokens, den * 1000000) decimals))))"

definition trim_right_char :: "char \<Rightarrow> string \<Rightarrow> string" where
  "trim_right_char c s = rev (dropWhile (\<lambda>x. x = c) (rev s))"

definition AtomicToDecimal :: "int \<Rightarrow> int \<Rightarrow> string" where
  "AtomicToDecimal atomic decimals =
     (let s = show_int atomic in
      if decimals \<le> 0 then s
      else (let d = nat decimals;
                s1 = (if length s \<le> d then replicate (d - length s + 1) (CHR ''0'') @ s else s);
                intPart = take (length s1 - d) s1;
                frac = trim_right_char (CHR ''0'') (drop (length s1 - d) s1)
            in if frac = [] then intPart else intPart @ ''.'' @ frac))"

definition trimDecimalString :: "string \<Rightarrow> string" where
  "trimDecimalString s =
     (if contains_sub ''.'' s then trim_right_char (CHR ''.'') (trim_right_char (CHR ''0'') s) else s)"

definition PerRequestPriceFromPerMTok :: "string \<Rightarrow> int \<Rightarrow> price_error + string" where
  "PerRequestPriceFromPerMTok perMTok decimals =
     (case PerMTokToAtomicPerRequest perMTok ApproxTokensPerRequest decimals of
        Inl e \<Rightarrow> Inl e
      | Inr atomic \<Rightarrow> Inr (AtomicToDecimal atomic decimals))"

subsection \<open>Digits\<close>

lemma allDigits_val: "allDigits s \<Longrightarrow> \<exists>v. digits_val a s = Some v"
  by (induction s arbitrary: a) (auto simp: allDigits_def)

lemma digits_val_allDigits: "digits_val a s = Some v \<Longrightarrow> allDigits s"
  by (induction s arbitrary: a) (auto simp: allDigits_def split: option.splits)

lemma allDigits_append [simp]: "allDigits (s @ t) \<longleftrightarrow> allDigits s \<and> allDigits t"
  by (simp add: allDigits_def)

lemma allDigits_no_dot: "allDigits s \<Longrightarrow> CHR ''.'' \<notin> set s"
  by (auto simp: allDigits_def list_all_iff digit_val_def byte_def)

lemma cut_dot: "CHR ''.'' \<notin> set s \<Longrightarrow> cut_at ''.'' s = None"
  and cut_dot_append: "CHR ''.'' \<notin> set s \<Longrightarrow> cut_at ''.'' (s @ ''.'' @ t) = Some (s, t)"
proof -
  have none: "CHR ''.'' \<notin> set s \<Longrightarrow> index_sub ''.'' s = None" for s by (induction s) auto
  have some: "CHR ''.'' \<notin> set s \<Longrightarrow> index_sub ''.'' (s @ ''.'' @ t) = Some (length s)" for s t
    by (induction s) auto
  show "CHR ''.'' \<notin> set s \<Longrightarrow> cut_at ''.'' s = None" by (simp add: cut_at_def none)
  show "CHR ''.'' \<notin> set s \<Longrightarrow> cut_at ''.'' (s @ ''.'' @ t) = Some (s, t)"
    using some [of s t] by (simp add: cut_at_def)
qed

subsection \<open>Prices\<close>

lemma ParseDecimalAmount_ok:
  assumes "ParseDecimalAmount s d = Inr (num, den)"
  obtains ip fp where "s = ip \<and> fp = [] \<or> s = ip @ ''.'' @ fp" and "allDigits (ip @ fp)"
    and "digits_val 0 (ip @ fp) = Some num" and "den = pow10 (int (length fp))"
    and "int (length fp) \<le> (if d < 0 \<or> d > MaxPriceDecimals then MaxPriceDecimals else d)"
    and "num \<le> MaxPriceWholeTokens * den"
proof -
  obtain ip fp where cut: "the_default (s, []) (cut_at ''.'' s) = (ip, fp)" by fastforce
  then have "s = ip \<and> fp = [] \<or> s = ip @ ''.'' @ fp"
    by (cases "cut_at ''.'' s") (auto simp: the_default_def dest: cut_at_Some)
  with assms cut show thesis
    by (intro that [of ip fp])
       (auto simp: ParseDecimalAmount_def Let_def split: if_splits option.splits)
qed

lemma ParsePositive_ok:
  "ParsePositiveDecimalAmount s d = Inr (num, den) \<longleftrightarrow> ParseDecimalAmount s d = Inr (num, den) \<and> 0 < num"
  by (auto simp: ParsePositiveDecimalAmount_def split: sum.splits if_splits)

lemma pow10_add: "0 \<le> a \<Longrightarrow> 0 \<le> b \<Longrightarrow> pow10 (a + b) = pow10 a * pow10 b"
  by (simp add: pow10_def nat_add_distrib power_add)

lemma pow10_pos [simp]: "0 < pow10 a"
  by (simp add: pow10_def)

lemma pow10_nonzero [simp]: "pow10 a \<noteq> 0"
  by (simp add: pow10_def)

lemma DecimalToAtomic_digits:
  assumes "DecimalToAtomic s d = Inr n"
  shows "\<exists>ip fp v. (s = ip \<and> fp = [] \<or> s = ip @ ''.'' @ fp) \<and> digits_val 0 (ip @ fp) = Some v \<and>
    int (length fp) \<le> d \<and> n = v * pow10 (d - int (length fp)) \<and> 0 < n \<and> n \<le> MaxPriceWholeTokens * pow10 d"
proof -
  have d: "0 \<le> d" using assms by (simp add: DecimalToAtomic_def split: if_splits)
  obtain num den where r: "ParsePositiveDecimalAmount s d = Inr (num, den)" "n = num * pow10 d div den"
    using assms by (auto simp: DecimalToAtomic_def split: if_splits sum.splits)
  then have ok: "ParseDecimalAmount s d = Inr (num, den)" "0 < num" by (simp_all add: ParsePositive_ok)
  from ParseDecimalAmount_ok [OF ok(1)] obtain ip fp where
    f: "s = ip \<and> fp = [] \<or> s = ip @ ''.'' @ fp" "digits_val 0 (ip @ fp) = Some num" "den = pow10 (int (length fp))"
       "int (length fp) \<le> (if d < 0 \<or> d > MaxPriceDecimals then MaxPriceDecimals else d)"
       "num \<le> MaxPriceWholeTokens * den" by metis
  have le: "int (length fp) \<le> d" using f(4) d by (auto simp: MaxPriceDecimals_def split: if_splits)
  then have split: "pow10 d = pow10 (d - int (length fp)) * den"
    unfolding f(3) using pow10_add [of "d - int (length fp)" "int (length fp)"] by simp
  then have n: "n = num * pow10 (d - int (length fp))" using r(2) f(3) by (simp add: mult.assoc [symmetric])
  have "0 < n" using n ok(2) by simp
  moreover have "n \<le> MaxPriceWholeTokens * pow10 d"
  proof -
    have "num * pow10 (d - int (length fp)) \<le> (MaxPriceWholeTokens * den) * pow10 (d - int (length fp))"
      by (rule mult_right_mono [OF f(5)]) (simp add: less_imp_le)
    also have "\<dots> = MaxPriceWholeTokens * pow10 d" using split by simp
    finally show ?thesis using n by simp
  qed
  ultimately show ?thesis using f(1,2) le n by blast
qed

text \<open>A price that \<open>DecimalToAtomic\<close> accepts is a plain decimal with at most as many fractional
  digits as the token has, and the atomic amount is exactly that decimal, scaled: it is positive,
  bounded by \<open>10 ^ 12\<close> whole tokens, and nothing is rounded.\<close>

theorem DecimalToAtomic_exact:
  assumes "DecimalToAtomic s d = Inr n"
  shows "\<exists>ip fp v. (s = ip \<and> fp = [] \<or> s = ip @ ''.'' @ fp) \<and> digits_val 0 (ip @ fp) = Some v \<and>
    int (length fp) \<le> d \<and> n = v * pow10 (d - int (length fp)) \<and> 0 < n \<and> n \<le> MaxPriceWholeTokens * pow10 d"
  using assms by (rule DecimalToAtomic_digits)

theorem DecimalToAtomic_exact_witness:
  "\<exists>ip fp v. (''1.05'' = ip \<and> fp = [] \<or> ''1.05'' = ip @ ''.'' @ fp) \<and> digits_val 0 (ip @ fp) = Some v \<and>
    int (length fp) \<le> 6 \<and> (1050000::int) = v * pow10 (6 - int (length fp)) \<and> (0::int) < 1050000 \<and>
    1050000 \<le> MaxPriceWholeTokens * pow10 6"
  by (rule DecimalToAtomic_exact) code_simp

lemma ParseDecimalAmount_parts:
  assumes digits: "digits_val 0 (ip @ fp) = Some v" and ip: "ip \<noteq> []"
    and len: "length ip + length fp < MaxPriceLength" and fp: "int (length fp) \<le> d"
    and d: "0 \<le> d" "d \<le> MaxPriceDecimals" and v: "v \<le> MaxPriceWholeTokens * pow10 (int (length fp))"
  shows "ParseDecimalAmount (if fp = [] then ip else ip @ ''.'' @ fp) d = Inr (v, pow10 (int (length fp)))"
proof -
  have all: "allDigits ip" "allDigits fp" using digits_val_allDigits [OF digits] by simp_all
  then have "cut_at ''.'' (if fp = [] then ip else ip @ ''.'' @ fp) = (if fp = [] then None else Some (ip, fp))"
    using cut_dot cut_dot_append allDigits_no_dot by simp
  with all digits ip len fp d v show ?thesis
    by (auto simp: ParseDecimalAmount_def the_default_def)
qed

lemma digits_val_zeros: "digits_val 0 (replicate k (CHR ''0'') @ s) = digits_val 0 s"
proof (induction k)
  case (Suc k)
  have "digit_val (CHR ''0'') = Some 0" by code_simp
  with Suc show ?case by simp
qed simp

lemma digits_val_trailing_zeros:
  "digits_val 0 (s @ replicate k (CHR ''0'')) = map_option (\<lambda>v. v * 10 ^ k) (digits_val 0 s)"
proof -
  have zero: "digit_val (CHR ''0'') = Some 0" by code_simp
  have "digits_val v (replicate k (CHR ''0'')) = Some (v * 10 ^ k)" for v
    by (induction k arbitrary: v) (simp_all add: zero)
  then show ?thesis by (cases "digits_val 0 s") (simp_all add: digits_val_append)
qed

lemma trim_right_char_split: "\<exists>k. s = trim_right_char c s @ replicate k c"
proof -
  have "rev s = takeWhile (\<lambda>x. x = c) (rev s) @ dropWhile (\<lambda>x. x = c) (rev s)" by simp
  then have "s = trim_right_char c s @ rev (takeWhile (\<lambda>x. x = c) (rev s))"
    unfolding trim_right_char_def by (metis rev_append rev_rev_ident)
  moreover have "rev (takeWhile (\<lambda>x. x = c) (rev s)) = replicate (length (takeWhile (\<lambda>x. x = c) (rev s))) c"
    by (rule replicate_eqI) (auto dest: set_takeWhileD)
  ultimately show ?thesis by metis
qed

text \<open>The two parts that \<open>AtomicToDecimal\<close> prints.\<close>

lemma AtomicToDecimal_parts:
  assumes n: "0 < n" "n \<le> MaxPriceWholeTokens * pow10 d" and d: "0 < d" "d \<le> MaxPriceDecimals"
  obtains ip fp v where "AtomicToDecimal n d = (if fp = [] then ip else ip @ ''.'' @ fp)"
    and "digits_val 0 (ip @ fp) = Some v" and "ip \<noteq> []" and "length ip + length fp < MaxPriceLength"
    and "int (length fp) \<le> d" and "n = v * pow10 (d - int (length fp))"
proof -
  define s where "s = show_dec n"
  define s1 where "s1 = (if length s \<le> nat d then replicate (nat d - length s + 1) (CHR ''0'') @ s else s)"
  define ip where "ip = take (length s1 - nat d) s1"
  define full where "full = drop (length s1 - nat d) s1"
  define fp where "fp = trim_right_char (CHR ''0'') full"
  obtain k where k: "full = fp @ replicate k (CHR ''0'')" using trim_right_char_split fp_def by blast
  have "n < 10 ^ 31"
  proof -
    have "pow10 d \<le> 10 ^ 18"
      unfolding pow10_def by (rule power_increasing) (use d in \<open>simp_all add: MaxPriceDecimals_def\<close>)
    with n(2) show ?thesis by (simp add: MaxPriceWholeTokens_def)
  qed
  then have "length s \<le> 31" unfolding s_def using n(1) by (intro length_show_dec) simp_all
  then have len1: "length s1 \<le> 31" "nat d < length s1"
    using d by (auto simp: s1_def MaxPriceDecimals_def)
  have ipfull: "ip @ full = s1" by (simp add: ip_def full_def)
  have lenfull: "length full = nat d" using len1 by (simp add: full_def)
  then have lenfp: "length fp + k = nat d" using k by simp
  have ip: "ip \<noteq> []" using len1 by (auto simp: ip_def)
  have "digits_val 0 s1 = Some n"
  proof -
    have "digits_val 0 s1 = digits_val 0 s" by (simp only: s1_def digits_val_zeros split: if_split) blast
    then show ?thesis using n(1) by (simp add: s_def digits_val_show_dec)
  qed
  then have "digits_val 0 ((ip @ fp) @ replicate k (CHR ''0'')) = Some n" using ipfull k by simp
  then obtain v where v: "digits_val 0 (ip @ fp) = Some v" "n = v * 10 ^ k"
    unfolding digits_val_trailing_zeros by blast
  have "length ip \<le> 31" using len1 by (simp add: ip_def)
  show thesis
  proof (rule that)
    show "AtomicToDecimal n d = (if fp = [] then ip else ip @ ''.'' @ fp)"
      using n(1) d by (simp add: AtomicToDecimal_def Let_def show_int_def s_def s1_def ip_def full_def fp_def)
    show "length ip + length fp < MaxPriceLength"
      using \<open>length ip \<le> 31\<close> lenfp d by (simp add: MaxPriceLength_def MaxPriceDecimals_def)
    show "int (length fp) \<le> d" using lenfp d by simp
    have "nat (d - int (length fp)) = k" using lenfp d by simp
    then show "n = v * pow10 (d - int (length fp))" using v by (simp add: pow10_def)
  qed (use v ip in simp_all)
qed

lemma atomic_decimal_inverse:
  assumes "0 < n" and "n \<le> MaxPriceWholeTokens * pow10 d" and "0 < d" and "d \<le> MaxPriceDecimals"
  shows "DecimalToAtomic (AtomicToDecimal n d) d = Inr n"
proof -
  from AtomicToDecimal_parts [OF assms] obtain ip fp v where
    p: "AtomicToDecimal n d = (if fp = [] then ip else ip @ ''.'' @ fp)" "digits_val 0 (ip @ fp) = Some v" "ip \<noteq> []"
       "length ip + length fp < MaxPriceLength" "int (length fp) \<le> d" "n = v * pow10 (d - int (length fp))" .
  let ?den = "pow10 (int (length fp))"
  have split: "pow10 d = pow10 (d - int (length fp)) * ?den"
    using pow10_add [of "d - int (length fp)" "int (length fp)"] p(5) by simp
  have "v * pow10 (d - int (length fp)) \<le> (MaxPriceWholeTokens * ?den) * pow10 (d - int (length fp))"
    using assms(2) p(6) split by (simp add: ac_simps)
  then have bound: "v \<le> MaxPriceWholeTokens * ?den" by (rule mult_right_le_imp_le) simp
  have "0 < v" using assms(1) p(6) by (simp add: zero_less_mult_iff pow10_def)
  with ParseDecimalAmount_parts [OF p(2-5) _ assms(4) bound] assms(3)
  have "ParsePositiveDecimalAmount (AtomicToDecimal n d) d = Inr (v, ?den)"
    using p(1) by (simp add: ParsePositive_ok)
  moreover have "v * pow10 d = n * ?den" using split p(6) by (simp add: ac_simps)
  ultimately show ?thesis
    using assms(3,4) by (simp add: DecimalToAtomic_def maxTokenDecimals_def MaxPriceDecimals_def)
qed

text \<open>Printing an atomic amount as a decimal and parsing the price back gives the same atomic
  amount, for every positive amount within the price bound and every token with at most 18
  decimals.\<close>

theorem atomic_decimal_roundtrip:
  assumes "0 < n" and "n \<le> MaxPriceWholeTokens * pow10 d" and "0 < d" and "d \<le> MaxPriceDecimals"
  shows "DecimalToAtomic (AtomicToDecimal n d) d = Inr n"
  using assms by (rule atomic_decimal_inverse)

theorem atomic_decimal_roundtrip_witness:
  "DecimalToAtomic (AtomicToDecimal 1050000 6) 6 = Inr 1050000"
  by (rule atomic_decimal_roundtrip) (simp_all add: MaxPriceWholeTokens_def MaxPriceDecimals_def pow10_def)

lemma CeilAtomic_bounds:
  assumes "0 < den"
  shows "(CeilAtomic (num, den) d - 1) * den < num * pow10 d" and "num * pow10 d \<le> CeilAtomic (num, den) d * den"
proof -
  define x q m where "x = num * pow10 d" and "q = x div den" and "m = x mod den"
  have x: "x = q * den + m" and m: "0 \<le> m" "m < den" using assms by (simp_all add: q_def m_def)
  have c: "CeilAtomic (num, den) d = q + (if m > 0 then 1 else 0)"
    by (simp add: CeilAtomic_def Let_def q_def m_def x_def)
  show "(CeilAtomic (num, den) d - 1) * den < num * pow10 d"
    unfolding c x_def [symmetric] using x m assms by (simp add: algebra_simps)
  show "num * pow10 d \<le> CeilAtomic (num, den) d * den"
    unfolding c x_def [symmetric] using x m by (simp add: algebra_simps)
qed

lemma PerMTok_ceiling:
  assumes "PerMTokToAtomicPerRequest s tokens d = Inr n"
  shows "\<exists>num den. ParsePositiveDecimalAmount s d = Inr (num, den) \<and> 0 < den \<and>
    (let t = (if tokens \<le> 0 then ApproxTokensPerRequest else tokens)
     in (n - 1) * (den * 1000000) < num * t * pow10 d \<and> num * t * pow10 d \<le> n * (den * 1000000)) \<and> 1 \<le> n"
proof -
  let ?t = "if tokens \<le> 0 then ApproxTokensPerRequest else tokens"
  obtain num den where r: "ParsePositiveDecimalAmount s d = Inr (num, den)" "n = CeilAtomic (num * ?t, den * 1000000) d"
    using assms by (auto simp: PerMTokToAtomicPerRequest_def Let_def split: sum.splits if_splits)
  then have ok: "ParseDecimalAmount s d = Inr (num, den)" "0 < num" by (simp_all add: ParsePositive_ok)
  then have den: "0 < den" by (metis ParseDecimalAmount_ok pow10_pos)
  note b = CeilAtomic_bounds [of "den * 1000000" "num * ?t" d, folded r(2)]
  have "0 < num * ?t * pow10 d" using ok(2) by (simp add: ApproxTokensPerRequest_def)
  from less_le_trans [OF this b(2)] den have "0 < n * (den * 1000000)" by simp
  then have "1 \<le> n" using den by (simp add: zero_less_mult_iff)
  with r(1) den b show ?thesis by (auto simp: Let_def)
qed

text \<open>The charge of a per-million-token price is the exact price of the estimated request, rounded
  up to the next atomic unit: it covers the exact price, exceeds it by less than one unit, and is at
  least one unit however small the price is.\<close>

theorem PerMTok_charge_rounds_up:
  assumes "PerMTokToAtomicPerRequest s tokens d = Inr n"
  shows "\<exists>num den. ParsePositiveDecimalAmount s d = Inr (num, den) \<and> 0 < den \<and>
    (let t = (if tokens \<le> 0 then ApproxTokensPerRequest else tokens)
     in (n - 1) * (den * 1000000) < num * t * pow10 d \<and> num * t * pow10 d \<le> n * (den * 1000000)) \<and> 1 \<le> n"
  using assms by (rule PerMTok_ceiling)

theorem PerMTok_charge_rounds_up_witness:
  "\<exists>num den. ParsePositiveDecimalAmount ''0.000001'' 6 = Inr (num, den) \<and> 0 < den \<and>
    (let t = (if (0::int) \<le> 0 then ApproxTokensPerRequest else 0)
     in (1 - 1) * (den * 1000000) < num * t * pow10 6 \<and> num * t * pow10 6 \<le> 1 * (den * 1000000)) \<and> (1::int) \<le> 1"
  by (rule PerMTok_charge_rounds_up) code_simp

end
