(* ===== verification/Chains.thy ===== *)
theory Chains imports Amount Routes X402Types begin

text \<open>
  \<open>internal/x402/chains.go\<close> and \<open>tokens.go\<close>: the chain and token registries, name resolution, and the
  construction of the payment requirements that a 402 advertises.
\<close>

record chain_info =
  ci_Name :: string
  ci_NetworkID :: string
  ci_CAIP2Network :: string
  ci_USDCAddress :: string
  ci_Decimals :: int
  ci_EIP3009Name :: string
  ci_EIP3009Version :: string
  ci_Testnet :: bool

record asset_info =
  ai_Address :: string
  ai_Symbol :: string
  ai_Decimals :: int
  ai_TransferMethod :: string
  ai_EIP712Name :: string
  ai_EIP712Version :: string
  ai_EIP2612GasSponsoring :: bool

subsection \<open>Chains\<close>

definition ChainBaseMainnet :: chain_info where
  "ChainBaseMainnet = \<lparr>ci_Name = ''base'', ci_NetworkID = ''base'', ci_CAIP2Network = ''eip155:8453'',
     ci_USDCAddress = ''0x833589fCD6eDb6E08f4c7C32D4f71b54bdA02913'', ci_Decimals = 6, ci_EIP3009Name = ''USD Coin'',
     ci_EIP3009Version = ''2'', ci_Testnet = False\<rparr>"

definition ChainBaseSepolia :: chain_info where
  "ChainBaseSepolia = \<lparr>ci_Name = ''base-sepolia'', ci_NetworkID = ''base-sepolia'', ci_CAIP2Network = ''eip155:84532'',
     ci_USDCAddress = ''0x036CbD53842c5426634e7929541eC2318f3dCF7e'', ci_Decimals = 6, ci_EIP3009Name = ''USDC'',
     ci_EIP3009Version = ''2'', ci_Testnet = True\<rparr>"

definition ChainEthereumMainnet :: chain_info where
  "ChainEthereumMainnet = \<lparr>ci_Name = ''ethereum'', ci_NetworkID = ''ethereum'', ci_CAIP2Network = ''eip155:1'',
     ci_USDCAddress = ''0xA0b86991c6218b36c1d19D4a2e9Eb0cE3606eB48'', ci_Decimals = 6, ci_EIP3009Name = ''USD Coin'',
     ci_EIP3009Version = ''2'', ci_Testnet = False\<rparr>"

definition ChainPolygonMainnet :: chain_info where
  "ChainPolygonMainnet = \<lparr>ci_Name = ''polygon'', ci_NetworkID = ''polygon'', ci_CAIP2Network = ''eip155:137'',
     ci_USDCAddress = ''0x3c499c542cEF5E3811e1192ce70d8cC03d5c3359'', ci_Decimals = 6, ci_EIP3009Name = ''USD Coin'',
     ci_EIP3009Version = ''2'', ci_Testnet = False\<rparr>"

definition ChainPolygonAmoy :: chain_info where
  "ChainPolygonAmoy = \<lparr>ci_Name = ''polygon-amoy'', ci_NetworkID = ''polygon-amoy'', ci_CAIP2Network = ''eip155:80002'',
     ci_USDCAddress = ''0x41E94Eb019C0762f9Bfcf9Fb1E58725BfB0e7582'', ci_Decimals = 6, ci_EIP3009Name = ''USD Coin'',
     ci_EIP3009Version = ''2'', ci_Testnet = True\<rparr>"

definition ChainAvalancheMainnet :: chain_info where
  "ChainAvalancheMainnet = \<lparr>ci_Name = ''avalanche'', ci_NetworkID = ''avalanche'', ci_CAIP2Network = ''eip155:43114'',
     ci_USDCAddress = ''0xB97EF9Ef8734C71904D8002F8b6Bc66Dd9c48a6E'', ci_Decimals = 6, ci_EIP3009Name = ''USD Coin'',
     ci_EIP3009Version = ''2'', ci_Testnet = False\<rparr>"

definition ChainAvalancheFuji :: chain_info where
  "ChainAvalancheFuji = \<lparr>ci_Name = ''avalanche-fuji'', ci_NetworkID = ''avalanche-fuji'', ci_CAIP2Network = ''eip155:43113'',
     ci_USDCAddress = ''0x5425890298aed601595a70AB815c96711a31Bc65'', ci_Decimals = 6, ci_EIP3009Name = ''USD Coin'',
     ci_EIP3009Version = ''2'', ci_Testnet = True\<rparr>"

definition ChainArbitrumOne :: chain_info where
  "ChainArbitrumOne = \<lparr>ci_Name = ''arbitrum-one'', ci_NetworkID = ''arbitrum-one'', ci_CAIP2Network = ''eip155:42161'',
     ci_USDCAddress = ''0xaf88d065e77c8cC2239327C5EDb3A432268e5831'', ci_Decimals = 6, ci_EIP3009Name = ''USD Coin'',
     ci_EIP3009Version = ''2'', ci_Testnet = False\<rparr>"

definition ChainArbitrumSepolia :: chain_info where
  "ChainArbitrumSepolia = \<lparr>ci_Name = ''arbitrum-sepolia'', ci_NetworkID = ''arbitrum-sepolia'', ci_CAIP2Network = ''eip155:421614'',
     ci_USDCAddress = ''0x75faf114eafb1BDbe2F0316DF893fd58CE46AA4d'', ci_Decimals = 6, ci_EIP3009Name = ''USD Coin'',
     ci_EIP3009Version = ''2'', ci_Testnet = True\<rparr>"

definition allChains :: "chain_info list" where
  "allChains = [ChainBaseMainnet, ChainBaseSepolia, ChainEthereumMainnet, ChainPolygonMainnet, ChainPolygonAmoy,
     ChainAvalancheMainnet, ChainAvalancheFuji, ChainArbitrumOne, ChainArbitrumSepolia]"

definition IsTestnetCAIP2 :: "string \<Rightarrow> bool" where
  "IsTestnetCAIP2 caip2 =
     (case find (\<lambda>c. ci_CAIP2Network c = caip2) allChains of None \<Rightarrow> False | Some c \<Rightarrow> ci_Testnet c)"

definition NormalizeNetworkID :: "string \<Rightarrow> string" where
  "NormalizeNetworkID network =
     (let lower = to_lower (trim_space network) in
      if lower \<in> {''base'', ''base-mainnet''} then ci_CAIP2Network ChainBaseMainnet
      else if lower = ''base-sepolia'' then ci_CAIP2Network ChainBaseSepolia
      else if lower \<in> {''ethereum'', ''ethereum-mainnet'', ''mainnet''} then ci_CAIP2Network ChainEthereumMainnet
      else if lower = ''sepolia'' then ''eip155:11155111''
      else if lower \<in> {''polygon'', ''polygon-mainnet''} then ci_CAIP2Network ChainPolygonMainnet
      else if lower = ''polygon-amoy'' then ci_CAIP2Network ChainPolygonAmoy
      else if lower \<in> {''avalanche'', ''avalanche-mainnet''} then ci_CAIP2Network ChainAvalancheMainnet
      else if lower = ''avalanche-fuji'' then ci_CAIP2Network ChainAvalancheFuji
      else if lower \<in> {''arbitrum'', ''arbitrum-one''} then ci_CAIP2Network ChainArbitrumOne
      else if lower = ''arbitrum-sepolia'' then ci_CAIP2Network ChainArbitrumSepolia
      else network)"

text \<open>\<open>None\<close> is the error for an unsupported chain.\<close>

definition ResolveChainInfo :: "string \<Rightarrow> chain_info option" where
  "ResolveChainInfo name =
     (if name \<in> {''base'', ''base-mainnet'', ci_CAIP2Network ChainBaseMainnet} then Some ChainBaseMainnet
      else if name \<in> {''base-sepolia'', ci_CAIP2Network ChainBaseSepolia} then Some ChainBaseSepolia
      else if name \<in> {''ethereum'', ''ethereum-mainnet'', ''mainnet'', ci_CAIP2Network ChainEthereumMainnet}
        then Some ChainEthereumMainnet
      else if name \<in> {''polygon'', ''polygon-mainnet'', ci_CAIP2Network ChainPolygonMainnet} then Some ChainPolygonMainnet
      else if name \<in> {''polygon-amoy'', ci_CAIP2Network ChainPolygonAmoy} then Some ChainPolygonAmoy
      else if name \<in> {''avalanche'', ''avalanche-mainnet'', ci_CAIP2Network ChainAvalancheMainnet}
        then Some ChainAvalancheMainnet
      else if name \<in> {''avalanche-fuji'', ci_CAIP2Network ChainAvalancheFuji} then Some ChainAvalancheFuji
      else if name \<in> {''arbitrum-one'', ''arbitrum'', ci_CAIP2Network ChainArbitrumOne} then Some ChainArbitrumOne
      else if name \<in> {''arbitrum-sepolia'', ci_CAIP2Network ChainArbitrumSepolia} then Some ChainArbitrumSepolia
      else None)"

subsection \<open>Tokens\<close>

record token_entry =
  te_Address :: string
  te_Symbol :: string
  te_Decimals :: int
  te_TransferMethod :: string
  te_EIP712Name :: string
  te_EIP712Version :: string
  te_EIP2612GasSponsoring :: bool

definition usdc_entry :: "chain_info \<Rightarrow> string \<Rightarrow> token_entry" where
  "usdc_entry c name = \<lparr>te_Address = ci_USDCAddress c, te_Symbol = ''USDC'', te_Decimals = 6,
     te_TransferMethod = ''eip3009'', te_EIP712Name = name, te_EIP712Version = ''2'', te_EIP2612GasSponsoring = False\<rparr>"

definition obol_entry :: "string \<Rightarrow> token_entry" where
  "obol_entry addr = \<lparr>te_Address = addr, te_Symbol = ''OBOL'', te_Decimals = 18, te_TransferMethod = ''permit2'',
     te_EIP712Name = ''Obol Network'', te_EIP712Version = ''1'', te_EIP2612GasSponsoring = True\<rparr>"

definition tokenRegistry :: "(string, (string, token_entry) gomap) gomap" where
  "tokenRegistry =
     [(''USDC'',
        [(''base'', usdc_entry ChainBaseMainnet ''USD Coin''), (''base-sepolia'', usdc_entry ChainBaseSepolia ''USDC''),
         (''ethereum'', usdc_entry ChainEthereumMainnet ''USD Coin''), (''polygon'', usdc_entry ChainPolygonMainnet ''USD Coin''),
         (''polygon-amoy'', usdc_entry ChainPolygonAmoy ''USD Coin''),
         (''avalanche'', usdc_entry ChainAvalancheMainnet ''USD Coin''),
         (''avalanche-fuji'', usdc_entry ChainAvalancheFuji ''USD Coin''),
         (''arbitrum-one'', usdc_entry ChainArbitrumOne ''USD Coin''),
         (''arbitrum-sepolia'', usdc_entry ChainArbitrumSepolia ''USD Coin'')]),
      (''OBOL'',
        [(''ethereum'', obol_entry ''0x0B010000b7624eb9B3DfBC279673C76E9D29D5F7''),
         (''base-sepolia'', obol_entry ''0x0a09371a8b011d5110656ceBCc70603e53FD2c78'')])]"

definition normalizeChainAlias :: "string \<Rightarrow> string" where
  "normalizeChainAlias name =
     (let lower = to_lower (trim_space name) in
      if lower = ''base-mainnet'' then ''base''
      else if lower \<in> {''ethereum-mainnet'', ''mainnet''} then ''ethereum''
      else if lower = ''polygon-mainnet'' then ''polygon''
      else if lower = ''avalanche-mainnet'' then ''avalanche''
      else if lower = ''arbitrum'' then ''arbitrum-one''
      else lower)"

definition ResolveToken :: "string \<Rightarrow> string \<Rightarrow> token_entry option" where
  "ResolveToken tokenName chainName =
     (case map_of tokenRegistry (to_upper (trim_space tokenName)) of
        None \<Rightarrow> None
      | Some perChain \<Rightarrow> map_of perChain (normalizeChainAlias chainName))"

definition SupportedTokens :: "string list" where
  "SupportedTokens = sort_strings (map fst tokenRegistry)"

definition TokensOnChain :: "string \<Rightarrow> string list" where
  "TokensOnChain chainName =
     (let canonical = normalizeChainAlias chainName
      in sort_strings (map fst (filter (\<lambda>(name, perChain). map_of perChain canonical \<noteq> None) tokenRegistry)))"

definition ChainsForToken :: "string \<Rightarrow> string list" where
  "ChainsForToken tokenName =
     (case map_of tokenRegistry (to_upper (trim_space tokenName)) of
        None \<Rightarrow> []
      | Some perChain \<Rightarrow> sort_strings (map fst perChain))"

subsection \<open>Assets\<close>

definition DefaultAsset :: "chain_info \<Rightarrow> asset_info" where
  "DefaultAsset c = \<lparr>ai_Address = ci_USDCAddress c, ai_Symbol = ''USDC'', ai_Decimals = ci_Decimals c,
     ai_TransferMethod = ''eip3009'', ai_EIP712Name = ci_EIP3009Name c, ai_EIP712Version = ci_EIP3009Version c,
     ai_EIP2612GasSponsoring = False\<rparr>"

definition override_str :: "string \<Rightarrow> string \<Rightarrow> string" where
  "override_str v old = (if v \<noteq> [] then v else old)"

definition ResolveAssetInfoForPayment :: "chain_info \<Rightarrow> route_payment \<Rightarrow> asset_info" where
  "ResolveAssetInfoForPayment chain p =
     (let d = DefaultAsset chain;
          asset = d\<lparr>ai_Address := override_str (rp_AssetAddress p) (ai_Address d),
                    ai_Symbol := override_str (rp_AssetSymbol p) (ai_Symbol d),
                    ai_Decimals := (if rp_AssetDecimals p > 0 then rp_AssetDecimals p else ai_Decimals d),
                    ai_TransferMethod := override_str (rp_AssetTransferMethod p) (ai_TransferMethod d),
                    ai_EIP712Name := override_str (rp_EIP712Name p) (ai_EIP712Name d),
                    ai_EIP712Version := override_str (rp_EIP712Version p) (ai_EIP712Version d)\<rparr>
      in (case ResolveToken (ai_Symbol asset) (ci_Name chain) of
            None \<Rightarrow> asset
          | Some entry \<Rightarrow>
              if equal_fold (te_Address entry) (ai_Address asset)
              then asset\<lparr>ai_EIP2612GasSponsoring := te_EIP2612GasSponsoring entry\<rparr> else asset))"

subsection \<open>Requirements\<close>

definition DefaultMaxTimeoutSeconds :: int where "DefaultMaxTimeoutSeconds = 600"
definition MaxMaxTimeoutSeconds :: int where "MaxMaxTimeoutSeconds = 24 * 60 * 60"

definition ClampMaxTimeoutSeconds :: "int \<Rightarrow> int" where
  "ClampMaxTimeoutSeconds n =
     (if n \<le> 0 then DefaultMaxTimeoutSeconds
      else if n > MaxMaxTimeoutSeconds then MaxMaxTimeoutSeconds
      else n)"

definition decimalToAtomic :: "string \<Rightarrow> int \<Rightarrow> price_error + string" where
  "decimalToAtomic amount decimals = map_sum id show_int (DecimalToAtomic amount decimals)"

definition buildV2RequirementAtomic ::
  "chain_info \<Rightarrow> asset_info \<Rightarrow> string \<Rightarrow> string \<Rightarrow> int \<Rightarrow> payment_requirements" where
  "buildV2RequirementAtomic chain asset atomicAmount recipientAddress maxTimeoutSeconds =
     \<lparr>pr_scheme = ''exact'', pr_network = ci_CAIP2Network chain, pr_asset = ai_Address asset,
      pr_amount = atomicAmount, pr_payTo = recipientAddress,
      pr_maxTimeoutSeconds = ClampMaxTimeoutSeconds maxTimeoutSeconds,
      pr_extra = Some [(''name'', GStr (ai_EIP712Name asset)), (''version'', GStr (ai_EIP712Version asset)),
                       (''assetTransferMethod'', GStr (ai_TransferMethod asset))]\<rparr>"

definition BuildV2RequirementWithAsset ::
  "chain_info \<Rightarrow> asset_info \<Rightarrow> string \<Rightarrow> string \<Rightarrow> int \<Rightarrow> price_error + payment_requirements" where
  "BuildV2RequirementWithAsset chain asset amount recipientAddress maxTimeoutSeconds =
     (case decimalToAtomic amount (ai_Decimals asset) of
        Inl e \<Rightarrow> Inl e
      | Inr atomicAmount \<Rightarrow> Inr (buildV2RequirementAtomic chain asset atomicAmount recipientAddress maxTimeoutSeconds))"

definition BuildV2Requirement :: "chain_info \<Rightarrow> string \<Rightarrow> string \<Rightarrow> int \<Rightarrow> price_error + payment_requirements" where
  "BuildV2Requirement chain amount recipientAddress maxTimeoutSeconds =
     BuildV2RequirementWithAsset chain (DefaultAsset chain) amount recipientAddress maxTimeoutSeconds"

definition BuildV2RequirementForPayment ::
  "chain_info \<Rightarrow> asset_info \<Rightarrow> route_payment \<Rightarrow> string \<Rightarrow> price_error + payment_requirements" where
  "BuildV2RequirementForPayment chain asset opt recipientAddress =
     (if rp_PriceModel opt = ''perMTok'' \<and> rp_PerMTok opt \<noteq> [] then
        (case PerMTokToAtomicPerRequest (rp_PerMTok opt) (rp_ApproxTokensPerRequest opt) (ai_Decimals asset) of
           Inl e \<Rightarrow> Inl e
         | Inr atomic \<Rightarrow>
             Inr (buildV2RequirementAtomic chain asset (show_int atomic) recipientAddress (rp_MaxTimeoutSeconds opt)))
      else BuildV2RequirementWithAsset chain asset (rp_Price opt) recipientAddress (rp_MaxTimeoutSeconds opt))"

end
