(* ===== verification/Facilitator.thy ===== *)
theory Facilitator imports Chains Http begin

text \<open>
  The part of \<open>internal/x402/forwardauth.go\<close> that talks to the facilitator: the choice of the
  requirement a payment satisfies, the repair of its signature, the calls of \<open>/verify\<close> and \<open>/settle\<close>
  and the classification of their failures.

  A call of the facilitator is the pair of payload bytes and requirement in its body; what comes back
  is a \<open>fac_http\<close>.  The texts of wrapped errors only reach the log and are left out, so an error that
  is no \<open>facilitatorOpError\<close> keeps its message and whether it is a \<open>net.Error\<close>.  \<open>show_float\<close> is the
  text that \<open>json.Marshal\<close> gives a float64.
\<close>

record verify_response =
  vr_IsValid :: bool
  vr_InvalidReason :: string
  vr_InvalidMessage :: string
  vr_InvalidReasonDetails :: string
  vr_Payer :: string

record settle_response =
  sr_Success :: bool
  sr_ErrorReason :: string
  sr_ErrorMessage :: string
  sr_Transaction :: string
  sr_Network :: string
  sr_Payer :: string

record op_error =
  oe_Op :: string
  oe_Kind :: string
  oe_StatusCode :: int
  oe_Reason :: string

datatype fac_error = FacOp op_error | FacUntyped bool string

datatype fac_http =
    FacBadURL string
  | FacUnreachable
  | FacReadError int
  | FacAnswer int string

record error_body =
  eb_Error :: string
  eb_Reason :: string
  eb_Detail :: string
  eb_Hint :: string
  eb_Retriable :: bool

record payment_failure =
  pf_Reason :: string
  pf_Detail :: string
  pf_Hint :: string

text \<open>The long dash of the messages, in UTF-8.\<close>

definition em_dash :: string where
  "em_dash = [CHR '' '', CHR 0xE2, CHR 0x80, CHR 0x94, CHR '' '']"

definition sanitizeForLog :: "string \<Rightarrow> string" where
  "sanitizeForLog s = filter (\<lambda>c. c \<noteq> CHR 0x0D) (filter (\<lambda>c. c \<noteq> CHR 0x0A) s)"

subsection \<open>Which requirement a payment satisfies\<close>

definition samePaymentNetwork :: "string \<Rightarrow> string \<Rightarrow> bool" where
  "samePaymentNetwork a b =
     (if a = b then True
      else (case (ResolveChainInfo a, ResolveChainInfo b) of
              (Some chainA, Some chainB) \<Rightarrow> ci_CAIP2Network chainA = ci_CAIP2Network chainB
            | _ \<Rightarrow> False))"

definition findMatchingRequirementV1 ::
  "payment_payload \<Rightarrow> payment_requirements list \<Rightarrow> payment_requirements option" where
  "findMatchingRequirementV1 payment requirements =
     find (\<lambda>req. pr_scheme req = pr_scheme (pp_accepted payment) \<and>
                 samePaymentNetwork (pr_network req) (pr_network (pp_accepted payment)) \<and>
                 pr_amount req = pr_amount (pp_accepted payment) \<and>
                 pr_asset req = pr_asset (pp_accepted payment) \<and>
                 pr_payTo req = pr_payTo (pp_accepted payment)) requirements"

text \<open>
  The decoder of payloads.  \<open>to_payload\<close> is the SDK's \<open>ToPaymentPayload\<close>; \<open>to_accepted\<close> decodes the
  values under a key into its \<open>PaymentRequirements\<close>.  \<open>None\<close> is the SDK's error.
\<close>

definition parsePaymentPayloadCompat ::
  "(string \<Rightarrow> payment_payload option) \<Rightarrow> (json list \<Rightarrow> payment_requirements option) \<Rightarrow>
   string \<Rightarrow> payment_payload option" where
  "parsePaymentPayloadCompat to_payload to_accepted data =
     (case to_payload data of
        Some payload \<Rightarrow> Some payload
      | None \<Rightarrow> (case json_parse data of
            Some (JObj kvs) \<Rightarrow>
              (let (version, e1) = int_field ''x402Version'' kvs;
                   (inner, e2) = anymap_field ''payload'' kvs;
                   accepted = to_accepted (field_values ''accepted'' kvs);
                   resource = field_values ''resource'' kvs;
                   (extensions, e3) = anymap_field ''extensions'' kvs
               in if e1 \<or> e2 \<or> e3 \<or> accepted = None \<or> version \<noteq> 2 \<or> resource = [] then None
                  else (case last resource of
                          JStr url \<Rightarrow>
                            if url = [] then None
                            else Some \<lparr>pp_x402Version = version, pp_payload = the_default [] inner,
                                   pp_accepted = the accepted,
                                   pp_resource = Some \<lparr>ri_url = url, ri_description = [], ri_mimeType = [],
                                     ri_serviceName = [], ri_iconUrl = []\<rparr>,
                                   pp_extensions = the_default [] extensions\<rparr>
                        | _ \<Rightarrow> None))
          | _ \<Rightarrow> None))"

subsection \<open>Writing JSON\<close>

definition hex_digit :: "int \<Rightarrow> char" where
  "hex_digit n = (if n < 10 then char_of (n + 48) else char_of (n + 87))"

definition quote_char :: "char \<Rightarrow> string" where
  "quote_char c =
     (let n = byte c; bs = char_of (92::int) in
      if n = 34 \<or> n = 92 then [bs, c]
      else if n = 8 then [bs, CHR ''b''] else if n = 12 then [bs, CHR ''f'']
      else if n = 10 then [bs, CHR ''n''] else if n = 13 then [bs, CHR ''r'']
      else if n = 9 then [bs, CHR ''t'']
      else if n < 32 \<or> n = 60 \<or> n = 62 \<or> n = 38
      then [bs, CHR ''u'', CHR ''0'', CHR ''0'', hex_digit (n div 16), hex_digit (n mod 16)]
      else [c])"

definition json_quote :: "string \<Rightarrow> string" where
  "json_quote s = char_of (34::int) # concat (map quote_char s) @ [char_of (34::int)]"

fun json_print :: "json \<Rightarrow> string"
  and print_elems :: "json list \<Rightarrow> string"
  and print_members :: "(string \<times> json) list \<Rightarrow> string" where
  "json_print JNull = ''null''"
| "json_print (JBool b) = (if b then ''true'' else ''false'')"
| "json_print (JNum n) = n"
| "json_print (JStr s) = json_quote s"
| "json_print (JArr vs) = CHR ''['' # print_elems vs @ '']''"
| "json_print (JObj kvs) = CHR ''{'' # print_members kvs @ ''}''"
| "print_elems [] = []"
| "print_elems (v # vs) = (if vs = [] then json_print v else json_print v @ CHR '','' # print_elems vs)"
| "print_members [] = []"
| "print_members ((k, v) # kvs) =
     json_quote k @ CHR '':'' # json_print v @ (if kvs = [] then [] else CHR '','' # print_members kvs)"

text \<open>A map is written with its keys in order; a key of a decoded map holds the last value.\<close>

definition sorted_members :: "(string \<times> 'a) list \<Rightarrow> (string \<times> 'a) list" where
  "sorted_members kvs =
     sort_by (\<lambda>a b. str_less (fst a) (fst b)) (fold (\<lambda>(k, v) m. AList.update k v m) kvs [])"

function json_of_any :: "(float64 \<Rightarrow> string) \<Rightarrow> goany \<Rightarrow> json" where
  "json_of_any sf GNil = JNull"
| "json_of_any sf (GBool b) = JBool b"
| "json_of_any sf (GStr s) = JStr s"
| "json_of_any sf (GFloat f) = JNum (sf f)"
| "json_of_any sf (GNumber n) = JNum n"
| "json_of_any sf (GInt64 i) = JNum (show_int i)"
| "json_of_any sf (GInt i) = JNum (show_int i)"
| "json_of_any sf (GArr vs) = JArr (map (json_of_any sf) vs)"
| "json_of_any sf (GMap m) = JObj (sort_by (\<lambda>a b. str_less (fst a) (fst b)) (map (\<lambda>(k, v). (k, json_of_any sf v)) m))"
  by pat_completeness auto
termination
  by (relation "measure (\<lambda>(sf, v). size v)") (auto simp: less_Suc_eq_le dest!: size_list_estimation' [where f = size and y = x for x, OF _ order_refl] size_list_estimation' [where f = "size_prod (\<lambda>_. 0) size", OF _ order_refl])

subsection \<open>Repair of the recovery byte\<close>

text \<open>\<open>None\<close> is Go's nil: no even number of hexadecimal digits at the end.\<close>

definition signatureVByte :: "string \<Rightarrow> int option" where
  "signatureVByte sig =
     (let s = trim_prefix ''0x'' (trim_space sig)
      in if length s < 2 \<or> odd (length s) then None
         else (case (hex_val (s ! (length s - 2)), hex_val (s ! (length s - 1))) of
                 (Some h, Some l) \<Rightarrow> Some (h * 16 + l)
               | _ \<Rightarrow> None))"

definition rewrite_signature :: "string \<Rightarrow> int \<Rightarrow> string" where
  "rewrite_signature sig v =
     (let s = trim_prefix ''0x'' (trim_space sig);
          prefix = (if has_prefix ''0x'' (trim_space sig) then ''0x'' else [])
      in prefix @ take (length s - 2) s @ [hex_digit ((v + 27) div 16), hex_digit ((v + 27) mod 16)])"

definition normalizePaymentPayloadForVerify :: "(float64 \<Rightarrow> string) \<Rightarrow> string \<Rightarrow> string \<times> string" where
  "normalizePaymentPayloadForVerify sf paymentPayloadJSON =
     (case Option.bind (json_parse paymentPayloadJSON) (\<lambda>j. case j of JObj kvs \<Rightarrow> Some kvs | JNull \<Rightarrow> Some [] | _ \<Rightarrow> None) of
        None \<Rightarrow> (paymentPayloadJSON, [])
      | Some raw \<Rightarrow> (case map_of (rev raw) ''payload'' of
            None \<Rightarrow> (paymentPayloadJSON, [])
          | Some payloadRaw \<Rightarrow> (case (case payloadRaw of JObj kvs \<Rightarrow> map_of_json kvs [] | JNull \<Rightarrow> Some [] | _ \<Rightarrow> None) of
                None \<Rightarrow> (paymentPayloadJSON, [])
              | Some payload \<Rightarrow>
                  (let sig = the_default [] (as_string (map_of payload ''signature''))
                   in case signatureVByte sig of
                        None \<Rightarrow> (paymentPayloadJSON, [])
                      | Some v \<Rightarrow>
                          if v \<noteq> 0 \<and> v \<noteq> 1 then (paymentPayloadJSON, [])
                          else (let payload' = AList.update ''signature'' (GStr (rewrite_signature sig v)) payload
                                in (json_print (JObj (sorted_members (raw @ [(''payload'', json_of_any sf (GMap payload'))]))),
                                    ''signature_v_'' @ show_int v @ ''_to_'' @ show_int (v + 27)))))))"

subsection \<open>Calls of the facilitator\<close>

text \<open>\<open>Unmarshal\<close> of an answer: \<open>None\<close> for bytes that are no JSON or a field of the wrong type.\<close>

definition answer_members :: "string \<Rightarrow> (string \<times> json) list option" where
  "answer_members body =
     (case json_parse body of Some (JObj kvs) \<Rightarrow> Some kvs | Some JNull \<Rightarrow> Some [] | _ \<Rightarrow> None)"

definition decode_verify :: "string \<Rightarrow> verify_response option" where
  "decode_verify body =
     (case answer_members body of None \<Rightarrow> None
      | Some kvs \<Rightarrow>
          (let (valid, e1) = bool_field ''isValid'' kvs; (reason, e2) = str_field ''invalidReason'' kvs;
               (msg, e3) = str_field ''invalidMessage'' kvs; (details, e4) = str_field ''invalidReasonDetails'' kvs;
               (payer, e5) = str_field ''payer'' kvs
           in if e1 \<or> e2 \<or> e3 \<or> e4 \<or> e5 then None
              else Some \<lparr>vr_IsValid = valid, vr_InvalidReason = reason, vr_InvalidMessage = msg,
                          vr_InvalidReasonDetails = details, vr_Payer = payer\<rparr>))"

definition decode_settle :: "string \<Rightarrow> settle_response option" where
  "decode_settle body =
     (case answer_members body of None \<Rightarrow> None
      | Some kvs \<Rightarrow>
          (let (success, e1) = bool_field ''success'' kvs; (reason, e2) = str_field ''errorReason'' kvs;
               (msg, e3) = str_field ''errorMessage'' kvs; (transaction, e4) = str_field ''transaction'' kvs;
               (network, e5) = str_field ''network'' kvs; (payer, e6) = str_field ''payer'' kvs
           in if e1 \<or> e2 \<or> e3 \<or> e4 \<or> e5 \<or> e6 then None
              else Some \<lparr>sr_Success = success, sr_ErrorReason = reason, sr_ErrorMessage = msg,
                          sr_Transaction = transaction, sr_Network = network, sr_Payer = payer\<rparr>))"

definition facilitatorRejectDetail :: "verify_response option \<Rightarrow> string" where
  "facilitatorRejectDetail resp =
     (case resp of None \<Rightarrow> []
      | Some r \<Rightarrow> sanitizeForLog (join_with em_dash (filter (\<lambda>p. p \<noteq> [])
          (map trim_space [vr_InvalidReason r, vr_InvalidMessage r, vr_InvalidReasonDetails r]))))"

definition op_failed :: "string \<Rightarrow> string \<Rightarrow> int \<Rightarrow> string \<Rightarrow> fac_error" where
  "op_failed op kind status reason =
     FacOp \<lparr>oe_Op = op, oe_Kind = kind, oe_StatusCode = status, oe_Reason = reason\<rparr>"

text \<open>
  The body posted by a call, when there is one: a payload that is empty or no JSON is refused before
  any request is made.
\<close>

definition facilitator_request :: "string \<Rightarrow> payment_requirements \<Rightarrow> (string \<times> payment_requirements) option" where
  "facilitator_request paymentPayloadJSON requirement =
     (if paymentPayloadJSON = [] \<or> json_parse paymentPayloadJSON = None then None
      else Some (paymentPayloadJSON, requirement))"

definition facilitatorVerify :: "string \<Rightarrow> payment_requirements \<Rightarrow> fac_http \<Rightarrow> fac_error + verify_response" where
  "facilitatorVerify paymentPayloadJSON requirement http =
     (if facilitator_request paymentPayloadJSON requirement = None
      then Inl (op_failed ''verify'' ''bad_response'' 0 ''empty_or_invalid_payment_payload'')
      else (case http of
              FacBadURL msg \<Rightarrow> Inl (FacUntyped True msg)
            | FacUnreachable \<Rightarrow> Inl (op_failed ''verify'' ''unreachable'' 0 [])
            | FacReadError status \<Rightarrow> Inl (op_failed ''verify'' ''unreachable'' status [])
            | FacAnswer status body \<Rightarrow>
                (case decode_verify body of
                   None \<Rightarrow> Inl (op_failed ''verify'' ''bad_response'' status ''non_json_response'')
                 | Some r \<Rightarrow>
                     if status \<noteq> 200 then Inl (op_failed ''verify'' ''rejected'' status (facilitatorRejectDetail (Some r)))
                     else Inr r)))"

text \<open>\<open>/settle\<close> returns the decoded answer beside the error when the status is not 200.\<close>

definition facilitatorSettle ::
  "string \<Rightarrow> payment_requirements \<Rightarrow> fac_http \<Rightarrow> settle_response option \<times> fac_error option" where
  "facilitatorSettle paymentPayloadJSON requirement http =
     (if facilitator_request paymentPayloadJSON requirement = None
      then (None, Some (op_failed ''settle'' ''bad_response'' 0 ''empty_or_invalid_payment_payload''))
      else (case http of
              FacBadURL msg \<Rightarrow> (None, Some (FacUntyped True msg))
            | FacUnreachable \<Rightarrow> (None, Some (op_failed ''settle'' ''unreachable'' 0 []))
            | FacReadError status \<Rightarrow> (None, Some (op_failed ''settle'' ''unreachable'' status []))
            | FacAnswer status body \<Rightarrow>
                (case decode_settle body of
                   None \<Rightarrow> (None, Some (op_failed ''settle'' ''bad_response'' status ''non_json_response''))
                 | Some r \<Rightarrow>
                     (Some r, if status \<noteq> 200 then Some (op_failed ''settle'' ''rejected'' status (sr_ErrorReason r)) else None))))"

subsection \<open>What the buyer is told\<close>

definition isTransportFacilitatorErr :: "bool \<Rightarrow> string \<Rightarrow> bool" where
  "isTransportFacilitatorErr netError msg \<longleftrightarrow>
     netError \<or> list_ex (\<lambda>t. contains_sub t msg)
       [''connection refused'', ''no such host'', ''i/o timeout'', ''TLS handshake'', ''context deadline exceeded'', ''EOF'']"

definition hint_retry_verify :: string where
  "hint_retry_verify = ''transient facilitator error'' @ em_dash @
     ''retry the identical request in a few seconds; the payment authorization was not consumed''"
definition hint_rejected :: string where
  "hint_rejected = ''seller facilitator reachable but rejected verification'' @ em_dash @
     ''payment authorization was not consumed''"
definition hint_rebuild :: string where
  "hint_rebuild = ''seller facilitator rejected this payment voucher (auth not consumed)'' @ em_dash @
     ''do not spam identical retries; rebuild the voucher from the 402 accepts[] entry verbatim (network/amount/asset/payTo) and re-sign''"
definition hint_valid_after :: string where
  "hint_valid_after = ''authorization validAfter is too close to wall-clock now (auth not consumed)'' @ em_dash @
     ''sign with a past buffer (e.g. validAfter=0 or now-600s), as AgentCash does; Bankr auto-pay often sets validAfter=now''"
definition hint_recovery_id :: string where
  "hint_recovery_id = ''signature recovery id (v) rejected on-chain (auth not consumed)'' @ em_dash @
     ''v must be 27 or 28, not 0/1''"

definition unreachable_body :: error_body where
  "unreachable_body = \<lparr>eb_Error = ''Payment verification failed'', eb_Reason = ''facilitator_unreachable'',
     eb_Detail = [], eb_Hint = hint_retry_verify, eb_Retriable = True\<rparr>"

definition quoted_v :: "char \<Rightarrow> string" where
  "quoted_v q = ''invalid signature '' @ [q] @ ''v'' @ [q]"

definition voucher_hint :: "string \<Rightarrow> string" where
  "voucher_hint lower =
     (if contains_sub (quoted_v (char_of (34::int))) lower \<or> contains_sub (quoted_v (char_of (39::int))) lower
      then hint_recovery_id
      else if contains_sub ''not yet valid'' lower \<or> contains_sub ''validafter'' lower then hint_valid_after
      else hint_rebuild)"

definition paymentErrorFromVerifyErr :: "fac_error \<Rightarrow> error_body" where
  "paymentErrorFromVerifyErr err =
     (case err of
        FacUntyped netError msg \<Rightarrow>
          if isTransportFacilitatorErr netError msg then unreachable_body else unreachable_body\<lparr>eb_Detail := trim_space msg\<rparr>
      | FacOp fe \<Rightarrow>
          if oe_Kind fe = ''rejected'' \<or> oe_Kind fe = ''bad_response'' then
            (let reason = trim_space (oe_Reason fe);
                 detail = (if reason = [] \<and> oe_StatusCode fe \<noteq> 0 then ''HTTP '' @ show_int (oe_StatusCode fe) else reason);
                 voucher = contains_sub ''unexpected_error'' (oe_Reason fe) \<or> oe_StatusCode fe = 500
             in \<lparr>eb_Error = ''Payment verification failed'', eb_Reason = ''facilitator_error'', eb_Detail = detail,
                  eb_Hint = (if voucher then voucher_hint (to_lower detail) else hint_rejected),
                  eb_Retriable = (\<not> voucher \<and> oe_StatusCode fe \<in> {502, 503, 504})\<rparr>)
          else unreachable_body)"

definition goany_string :: "goany option \<Rightarrow> string" where
  "goany_string v = the_default [] (as_string v)"

text \<open>\<open>quote\<close> is \<open>strconv.Quote\<close>.\<close>

definition signatureFailureHint :: "(string \<Rightarrow> string) \<Rightarrow> string \<Rightarrow> payment_requirements \<Rightarrow> string" where
  "signatureFailureHint quote detail req =
     (if \<not> contains_sub ''signature'' (to_lower detail) then []
      else (let name = goany_string (extra_get (pr_extra req) ''name'');
                version = goany_string (extra_get (pr_extra req) ''version'')
            in if name = [] \<and> version = []
               then ''signature rejected'' @ em_dash @ ''re-sign using the EIP-712 domain advertised in accepts[].extra for this asset''
               else ''signature rejected'' @ em_dash @ ''sign the EIP-712 domain advertised in accepts[].extra (name='' @ quote name @
                    '' version='' @ quote version @ '') for asset '' @ pr_asset req @ '' on '' @ pr_network req))"

end
