(* ===== verification/Delivery.thy ===== *)
theory Delivery imports GoJson Http begin

text \<open>
  \<open>internal/x402/delivery.go\<close>: whether a response on a chat route delivered what the buyer pays for.

  A \<open>json.RawMessage\<close> is the parsed value, absent keys are \<open>None\<close>.  \<open>gunzip\<close> is reading a gzip stream to
  its end (\<open>None\<close> for an error).
\<close>

datatype delivery_verdict = DeliveryUnknown | DeliveryValue | DeliveryNoValue

definition deliveryBufferCap :: int where "deliveryBufferCap = 4194304"
definition sseEventCap :: int where "sseEventCap = 1048576"

subsection \<open>One chat object\<close>

text \<open>\<open>m[key]\<close> in a decoded object: the last value under the key.\<close>

definition raw_get :: "string \<Rightarrow> (string \<times> json) list \<Rightarrow> json option" where
  "raw_get k kvs = map_of (rev kvs) k"

definition nonEmptyJSONString :: "json option \<Rightarrow> bool" where
  "nonEmptyJSONString v = (case v of Some (JStr s) \<Rightarrow> trim_space s \<noteq> [] | _ \<Rightarrow> False)"

definition nonEmptyJSONArray :: "json option \<Rightarrow> bool" where
  "nonEmptyJSONArray v = (case v of Some (JArr vs) \<Rightarrow> vs \<noteq> [] | _ \<Rightarrow> False)"

definition isJSONObject :: "json option \<Rightarrow> bool" where
  "isJSONObject v = (case v of Some (JObj kvs) \<Rightarrow> True | _ \<Rightarrow> False)"

definition isJSONPresent :: "json option \<Rightarrow> bool" where
  "isJSONPresent v = (case v of None \<Rightarrow> False | Some JNull \<Rightarrow> False | Some _ \<Rightarrow> True)"

definition messageHasValue :: "(string \<times> json) list \<Rightarrow> bool" where
  "messageHasValue msg =
     (if nonEmptyJSONString (raw_get ''content'' msg) \<or> nonEmptyJSONArray (raw_get ''content'' msg) then True
      else if nonEmptyJSONString (raw_get ''reasoning_content'' msg) \<or> nonEmptyJSONString (raw_get ''reasoning'' msg) then True
      else if nonEmptyJSONArray (raw_get ''tool_calls'' msg) then True
      else if nonEmptyJSONString (raw_get ''refusal'' msg) then True
      else isJSONObject (raw_get ''function_call'' msg) \<or> isJSONObject (raw_get ''audio'' msg))"

text \<open>\<open>Unmarshal\<close> into \<open>map[string]json.RawMessage\<close> and into a slice of such maps.\<close>

definition raw_object :: "json \<Rightarrow> (string \<times> json) list option" where
  "raw_object v = (case v of JObj kvs \<Rightarrow> Some kvs | JNull \<Rightarrow> Some [] | _ \<Rightarrow> None)"

fun raw_objects :: "json list \<Rightarrow> (string \<times> json) list list option" where
  "raw_objects [] = Some []"
| "raw_objects (v # vs) =
     (case raw_object v of None \<Rightarrow> None | Some m \<Rightarrow> map_option ((#) m) (raw_objects vs))"

definition raw_object_array :: "json \<Rightarrow> (string \<times> json) list list option" where
  "raw_object_array v = (case v of JArr vs \<Rightarrow> raw_objects vs | JNull \<Rightarrow> Some [] | _ \<Rightarrow> None)"

definition choice_has_value :: "string \<Rightarrow> (string \<times> json) list \<Rightarrow> bool" where
  "choice_has_value choiceKey choice =
     (if nonEmptyJSONString (raw_get ''text'' choice) then True
      else (case raw_get choiceKey choice of None \<Rightarrow> False
            | Some v \<Rightarrow> (case raw_object v of None \<Rightarrow> False | Some msg \<Rightarrow> messageHasValue msg)))"

definition judgeChatJSON :: "string \<Rightarrow> string \<Rightarrow> delivery_verdict" where
  "judgeChatJSON raw choiceKey =
     (case json_parse raw of None \<Rightarrow> DeliveryUnknown
      | Some j \<Rightarrow> (case raw_object j of None \<Rightarrow> DeliveryUnknown
          | Some doc \<Rightarrow>
              (case raw_get ''choices'' doc of
                 None \<Rightarrow> if isJSONPresent (raw_get ''error'' doc) then DeliveryNoValue else DeliveryUnknown
               | Some rawChoices \<Rightarrow>
                   (case raw_object_array rawChoices of None \<Rightarrow> DeliveryUnknown
                    | Some choices \<Rightarrow>
                        if list_ex (choice_has_value choiceKey) choices then DeliveryValue else DeliveryNoValue))))"

subsection \<open>A buffered body\<close>

definition decodeForInspection :: "(string \<Rightarrow> string option) \<Rightarrow> string \<Rightarrow> string \<Rightarrow> string option" where
  "decodeForInspection gunzip body contentEncoding =
     (let enc = to_lower (trim_space contentEncoding) in
      if enc = [] \<or> enc = ''identity'' then Some body
      else if enc = ''gzip'' \<or> enc = ''x-gzip'' then
        (case gunzip body of None \<Rightarrow> None
         | Some out \<Rightarrow> if int (length out) > deliveryBufferCap then None else Some out)
      else None)"

definition judgeBufferedBody :: "(string \<Rightarrow> string option) \<Rightarrow> string \<Rightarrow> header \<Rightarrow> delivery_verdict" where
  "judgeBufferedBody gunzip body hdr =
     (if body = [] then DeliveryNoValue
      else (case decodeForInspection gunzip body (hget hdr ''Content-Encoding'') of
              None \<Rightarrow> DeliveryUnknown
            | Some decoded \<Rightarrow>
                if trim_space decoded = [] then DeliveryNoValue else judgeChatJSON decoded ''message''))"

subsection \<open>A stream of server-sent events\<close>

record sse_tap =
  st_line :: string
  st_data :: string
  st_hasData :: bool
  st_chatShape :: bool
  st_value :: bool

definition new_tap :: sse_tap where
  "new_tap = \<lparr>st_line = [], st_data = [], st_hasData = False, st_chatShape = False, st_value = False\<rparr>"

definition dispatch :: "sse_tap \<Rightarrow> sse_tap" where
  "dispatch t =
     (if \<not> st_hasData t then t
      else (let data = trim_space (st_data t); t1 = t\<lparr>st_data := [], st_hasData := False\<rparr>
            in if data = [] \<or> data = ''[DONE]'' then t1
               else (case judgeChatJSON data ''delta'' of
                       DeliveryValue \<Rightarrow> t1\<lparr>st_chatShape := True, st_value := True\<rparr>
                     | DeliveryNoValue \<Rightarrow> t1\<lparr>st_chatShape := True\<rparr>
                     | DeliveryUnknown \<Rightarrow> t1)))"

definition appendLine :: "string \<Rightarrow> sse_tap \<Rightarrow> sse_tap" where
  "appendLine b t =
     (if int (length (st_line t) + length b) > sseEventCap
      then t\<lparr>st_value := True, st_line := [], st_data := []\<rparr>
      else t\<lparr>st_line := st_line t @ b\<rparr>)"

definition processLine :: "sse_tap \<Rightarrow> sse_tap" where
  "processLine t =
     (let line = trim_suffix [CHR 0x0D] (st_line t); t1 = t\<lparr>st_line := []\<rparr>
      in if line = [] then dispatch t1
         else if \<not> has_prefix ''data:'' line then t1
         else (let payload = trim_prefix '' '' (drop 5 line)
               in if int (length (st_data t1) + length payload) + 1 > sseEventCap
                  then t1\<lparr>st_value := True, st_data := []\<rparr>
                  else t1\<lparr>st_data := (if st_hasData t1 then st_data t1 @ [CHR 0x0A] else st_data t1) @ payload,
                          st_hasData := True\<rparr>))"

function feed :: "string \<Rightarrow> sse_tap \<Rightarrow> sse_tap" where
  "feed b t =
     (if b = [] \<or> st_value t then t
      else if CHR 0x0A \<notin> set b then appendLine b t
      else feed (drop 1 (dropWhile (\<lambda>c. c \<noteq> CHR 0x0A) b))
             (processLine (appendLine (takeWhile (\<lambda>c. c \<noteq> CHR 0x0A) b) t)))"
  by pat_completeness auto
termination
proof (relation "measure (\<lambda>(b, t). length b)")
  fix b :: string and t :: sse_tap
  assume "\<not> (b = [] \<or> st_value t)" and nl: "\<not> CHR 0x0A \<notin> set b"
  then have "dropWhile (\<lambda>c. c \<noteq> CHR 0x0A) b \<noteq> []" by (auto simp: dropWhile_eq_Nil_conv)
  then have "length (drop 1 (dropWhile (\<lambda>c. c \<noteq> CHR 0x0A) b)) < length (dropWhile (\<lambda>c. c \<noteq> CHR 0x0A) b)"
    by (cases "dropWhile (\<lambda>c. c \<noteq> CHR 0x0A) b") simp_all
  also have "\<dots> \<le> length b" by (rule length_dropWhile_le)
  finally show "((drop 1 (dropWhile (\<lambda>c. c \<noteq> CHR 0x0A) b),
      processLine (appendLine (takeWhile (\<lambda>c. c \<noteq> CHR 0x0A) b) t)), b, t) \<in> measure (\<lambda>(b, t). length b)"
    by simp
qed simp

declare feed.simps [simp del]

definition close_tap :: "sse_tap \<Rightarrow> sse_tap" where
  "close_tap t =
     (if st_value t then t
      else dispatch (if st_line t \<noteq> [] then processLine t else t))"

definition delivered :: "sse_tap \<Rightarrow> bool" where
  "delivered t \<longleftrightarrow> st_value t \<or> \<not> st_chatShape t"

subsection \<open>Chunks do not matter\<close>

text \<open>Two taps that the caller cannot tell apart: equal, or both have seen value.\<close>

definition same_tap :: "sse_tap \<Rightarrow> sse_tap \<Rightarrow> bool" where
  "same_tap t u \<longleftrightarrow> t = u \<or> (st_value t \<and> st_value u)"

lemma feed_value [simp]: "st_value t \<Longrightarrow> feed b t = t"
  by (subst feed.simps) simp

lemma feed_Nil [simp]: "feed [] t = t"
  by (subst feed.simps) simp

lemma dispatch_value: "st_value t \<Longrightarrow> st_value (dispatch t)"
  by (auto simp: dispatch_def Let_def split: delivery_verdict.split)

lemma processLine_value: "st_value t \<Longrightarrow> st_value (processLine t)"
  by (auto simp: processLine_def Let_def intro: dispatch_value)

lemma newline_split:
  "CHR 0x0A \<notin> set l \<Longrightarrow> takeWhile (\<lambda>c. c \<noteq> CHR 0x0A) (l @ CHR 0x0A # r) = l"
  "CHR 0x0A \<notin> set l \<Longrightarrow> dropWhile (\<lambda>c. c \<noteq> CHR 0x0A) (l @ CHR 0x0A # r) = CHR 0x0A # r"
  by (induction l) auto

lemma feed_cons_line:
  "\<not> st_value t \<Longrightarrow> CHR 0x0A \<notin> set l \<Longrightarrow> feed (l @ CHR 0x0A # b) t = feed b (processLine (appendLine l t))"
  by (subst feed.simps) (simp add: newline_split)

lemma feed_no_newline: "\<not> st_value t \<Longrightarrow> b \<noteq> [] \<Longrightarrow> CHR 0x0A \<notin> set b \<Longrightarrow> feed b t = appendLine b t"
  by (subst feed.simps) simp

lemma split_newline:
  "CHR 0x0A \<in> set b \<Longrightarrow> \<exists>l r. b = l @ CHR 0x0A # r \<and> CHR 0x0A \<notin> set l"
  by (metis split_list_first)

lemma appendLine_append:
  "\<not> st_value (appendLine a t) \<Longrightarrow> appendLine b (appendLine a t) = appendLine (a @ b) t"
  by (auto simp: appendLine_def split: if_splits)

lemma appendLine_value_mono: "\<not> st_value t \<Longrightarrow> st_value (appendLine a t) \<Longrightarrow> st_value (appendLine (a @ b) t)"
  by (auto simp: appendLine_def split: if_splits)

text \<open>The last chunk piece \<open>a\<close> ends inside a line.\<close>

lemma feed_append_line:
  assumes t: "\<not> st_value t" and a: "a \<noteq> []" "CHR 0x0A \<notin> set a" and b: "b \<noteq> []"
  shows "same_tap (feed b (appendLine a t)) (feed (a @ b) t)"
proof (cases "CHR 0x0A \<in> set b")
  case True
  then obtain l r where l: "b = l @ CHR 0x0A # r" "CHR 0x0A \<notin> set l" using split_newline by blast
  have ab: "feed (a @ b) t = feed r (processLine (appendLine (a @ l) t))"
    using feed_cons_line [of t "a @ l" r] t a l by simp
  show ?thesis
  proof (cases "st_value (appendLine a t)")
    case True
    then have "st_value (processLine (appendLine (a @ l) t))"
      using t by (intro processLine_value appendLine_value_mono)
    with True ab show ?thesis by (simp add: same_tap_def)
  next
    case False
    then have "feed b (appendLine a t) = feed r (processLine (appendLine l (appendLine a t)))"
      using l by (simp add: feed_cons_line)
    with False ab show ?thesis by (simp add: appendLine_append same_tap_def)
  qed
next
  case False
  then have ab: "feed (a @ b) t = appendLine (a @ b) t" using t a by (intro feed_no_newline) auto
  show ?thesis
  proof (cases "st_value (appendLine a t)")
    case True
    with ab t show ?thesis by (simp add: same_tap_def appendLine_value_mono)
  next
    case nv: False
    then have "feed b (appendLine a t) = appendLine b (appendLine a t)"
      using b False by (intro feed_no_newline) auto
    with ab nv show ?thesis by (simp add: appendLine_append same_tap_def)
  qed
qed

lemma feed_append: "same_tap (feed b (feed a t)) (feed (a @ b) t)"
proof (induction a t rule: feed.induct)
  case (1 a t)
  show ?case
  proof (cases "a = [] \<or> st_value t \<or> b = []")
    case True
    then show ?thesis by (auto simp: same_tap_def)
  next
    case ne: False
    show ?thesis
    proof (cases "CHR 0x0A \<in> set a")
      case True
      then obtain l r where a: "a = l @ CHR 0x0A # r" "CHR 0x0A \<notin> set l" using split_newline by blast
      have "takeWhile (\<lambda>c. c \<noteq> CHR 0x0A) a = l" "drop 1 (dropWhile (\<lambda>c. c \<noteq> CHR 0x0A) a) = r"
        unfolding a(1) newline_split [OF a(2)] by simp_all
      then have "same_tap (feed b (feed r (processLine (appendLine l t)))) (feed (r @ b) (processLine (appendLine l t)))"
        using 1 ne True by auto
      then show ?thesis using a ne by (simp add: feed_cons_line)
    next
      case False
      then show ?thesis using ne feed_append_line [of t a b] by (simp add: feed_no_newline)
    qed
  qed
qed

lemma same_tap_trans: "same_tap t u \<Longrightarrow> same_tap u v \<Longrightarrow> same_tap t v"
  by (auto simp: same_tap_def)

lemma same_tap_feed: "same_tap t u \<Longrightarrow> same_tap (feed b t) (feed b u)"
  by (auto simp: same_tap_def)

lemma same_tap_delivered: "same_tap t u \<Longrightarrow> delivered (close_tap t) = delivered (close_tap u)"
  by (auto simp: same_tap_def close_tap_def delivered_def)

lemma feed_chunks: "same_tap (fold feed cs t) (feed (concat cs) t)"
proof (induction cs arbitrary: t)
  case Nil
  show ?case by (simp add: same_tap_def)
next
  case (Cons c cs)
  have "same_tap (fold feed cs (feed c t)) (feed (concat cs) (feed c t))" by (rule Cons.IH)
  from same_tap_trans [OF this feed_append] show ?case by simp
qed

subsection \<open>Streams of complete events\<close>

definition sse_event :: "string \<Rightarrow> string" where
  "sse_event e = ''data: '' @ e @ [CHR 0x0A, CHR 0x0A]"

text \<open>A payload on one line, without white space around it, and within the cap.\<close>

definition plain_payload :: "string \<Rightarrow> bool" where
  "plain_payload e \<longleftrightarrow> CHR 0x0A \<notin> set e \<and> trim_space e = e \<and> int (length e) + 6 \<le> sseEventCap"

definition clean_tap :: "sse_tap \<Rightarrow> bool" where
  "clean_tap t \<longleftrightarrow> st_line t = [] \<and> st_data t = [] \<and> \<not> st_hasData t"

definition judged :: "delivery_verdict \<Rightarrow> sse_tap \<Rightarrow> sse_tap" where
  "judged v t = (case v of DeliveryValue \<Rightarrow> t\<lparr>st_chatShape := True, st_value := True\<rparr>
     | DeliveryNoValue \<Rightarrow> t\<lparr>st_chatShape := True\<rparr> | DeliveryUnknown \<Rightarrow> t)"

lemma judge_not_json [simp]:
  "judgeChatJSON [] k = DeliveryUnknown" "judgeChatJSON ''[DONE]'' k = DeliveryUnknown"
proof -
  have "json_parse [] = None" "json_parse ''[DONE]'' = None" by code_simp+
  then show "judgeChatJSON [] k = DeliveryUnknown" "judgeChatJSON ''[DONE]'' k = DeliveryUnknown"
    by (simp_all add: judgeChatJSON_def)
qed

lemma feed_event:
  assumes e: "plain_payload e" and t: "clean_tap t" "\<not> st_value t"
  shows "feed (sse_event e @ rest) t = feed rest (judged (judgeChatJSON e ''delta'') t)"
proof -
  let ?l = "''data: '' @ e"
  have nl: "CHR 0x0A \<notin> set ?l" "trim_space e = e" "int (length e) + 6 \<le> sseEventCap"
    using e by (auto simp: plain_payload_def)
  have "last ?l \<noteq> CHR 0x0D"
  proof (cases "e = []")
    case False
    then have "\<not> is_space (last e)" using trim_space_last nl(2) by metis
    then have "last e \<noteq> CHR 0x0D" by (auto simp: is_space_def byte_def)
    with False show ?thesis by simp
  qed simp
  then have cr: "trim_suffix [CHR 0x0D] ?l = ?l"
    by (rule trim_suffix_single)
  define t1 where "t1 = t\<lparr>st_data := e, st_hasData := True\<rparr>"
  have al: "appendLine ?l t = t\<lparr>st_line := ?l\<rparr>" using t nl(3) by (simp add: appendLine_def clean_tap_def)
  have p: "trim_prefix '' '' (drop 5 ?l) = e" by (simp add: trim_prefix_def)
  have pl: "processLine (appendLine ?l t) = t1"
    unfolding al processLine_def Let_def
    using t nl(3) cr p by (simp add: t1_def clean_tap_def)
  have "processLine (appendLine [] t1) = judged (judgeChatJSON e ''delta'') t"
  proof -
    have "appendLine [] t1 = t1" using t nl(3) by (simp add: appendLine_def t1_def clean_tap_def)
    then have "processLine (appendLine [] t1) = dispatch t1"
      using t by (cases t) (simp add: processLine_def trim_suffix_def t1_def clean_tap_def has_suffix_def)
    also have "\<dots> = judged (judgeChatJSON e ''delta'') t"
      using t nl(2) by (auto simp: dispatch_def Let_def t1_def clean_tap_def judged_def split: delivery_verdict.split)
    finally show ?thesis .
  qed
  moreover have "feed (sse_event e @ rest) t = feed (CHR 0x0A # rest) t1"
    using feed_cons_line [OF t(2) nl(1), of "CHR 0x0A # rest"] pl by (simp add: sse_event_def)
  moreover have "feed (CHR 0x0A # rest) t1 = feed rest (processLine (appendLine [] t1))"
    using feed_cons_line [of t1 "[]" rest] t by (simp add: t1_def)
  ultimately show ?thesis by simp
qed

lemma judged_frame [simp]:
  "clean_tap (judged v t) = clean_tap t"
  "st_value (judged v t) = (st_value t \<or> v = DeliveryValue)"
  "st_chatShape (judged v t) = (st_chatShape t \<or> v \<noteq> DeliveryUnknown)"
  by (auto simp: judged_def clean_tap_def split: delivery_verdict.split)

lemma close_clean: "clean_tap t \<Longrightarrow> close_tap t = t"
  by (simp add: close_tap_def clean_tap_def dispatch_def)

lemma feed_events:
  "\<forall>e \<in> set es. plain_payload e \<Longrightarrow> clean_tap t \<Longrightarrow> \<not> st_value t \<Longrightarrow>
   delivered (close_tap (feed (concat (map sse_event es)) t)) \<longleftrightarrow>
     (\<exists>e \<in> set es. judgeChatJSON e ''delta'' = DeliveryValue) \<or>
     (\<not> st_chatShape t \<and> (\<forall>e \<in> set es. judgeChatJSON e ''delta'' = DeliveryUnknown))"
proof (induction es arbitrary: t)
  case Nil
  then show ?case by (simp add: close_clean delivered_def)
next
  case (Cons e es)
  let ?v = "judgeChatJSON e ''delta''"
  have f: "feed (concat (map sse_event (e # es))) t = feed (concat (map sse_event es)) (judged ?v t)"
    using Cons.prems by (simp add: feed_event)
  show ?case
  proof (cases "?v = DeliveryValue")
    case True
    then have "delivered (close_tap (feed (concat (map sse_event es)) (judged ?v t)))"
      by (simp add: close_tap_def delivered_def)
    with f True show ?thesis by simp
  next
    case False
    with Cons.prems Cons.IH [of "judged ?v t"] f show ?thesis by (cases ?v) auto
  qed
qed

text \<open>However the network cuts a stream of chat chunks into writes, the tap's verdict is the same:
  the stream counts as delivered exactly when some chunk carried content, or when no chunk was
  chat-shaped at all.\<close>

theorem sse_delivered_any_chunking:
  assumes "concat writes = concat (map sse_event es)" and "\<forall>e \<in> set es. plain_payload e"
  shows "delivered (close_tap (fold feed writes new_tap)) \<longleftrightarrow>
    (\<exists>e \<in> set es. judgeChatJSON e ''delta'' = DeliveryValue) \<or>
    (\<forall>e \<in> set es. judgeChatJSON e ''delta'' = DeliveryUnknown)"
proof -
  have "delivered (close_tap (fold feed writes new_tap)) = delivered (close_tap (feed (concat writes) new_tap))"
    by (rule same_tap_delivered [OF feed_chunks])
  also have "\<dots> = ((\<exists>e \<in> set es. judgeChatJSON e ''delta'' = DeliveryValue) \<or>
      (\<forall>e \<in> set es. judgeChatJSON e ''delta'' = DeliveryUnknown))"
    unfolding assms(1) using feed_events [OF assms(2), of new_tap] by (simp add: new_tap_def clean_tap_def)
  finally show ?thesis .
qed

theorem sse_delivered_any_chunking_witness:
  "delivered (close_tap (fold feed [''dat'', ''a: [DONE]'' @ [CHR 0x0A], [CHR 0x0A]] new_tap)) \<longleftrightarrow>
    (\<exists>e \<in> set [''[DONE]'']. judgeChatJSON e ''delta'' = DeliveryValue) \<or>
    (\<forall>e \<in> set [''[DONE]'']. judgeChatJSON e ''delta'' = DeliveryUnknown)"
proof (rule sse_delivered_any_chunking)
  show "concat [''dat'', ''a: [DONE]'' @ [CHR 0x0A], [CHR 0x0A]] = concat (map sse_event [''[DONE]''])"
    by (simp add: sse_event_def)
  show "\<forall>e \<in> set [''[DONE]'']. plain_payload e"
    by (simp add: plain_payload_def trim_space_def is_space_def byte_def sseEventCap_def)
qed

end
