(* ===== verification/Settlement.thy ===== *)
theory Settlement imports Facilitator Delivery begin

text \<open>
  The settlement interceptor of \<open>internal/x402/forwardauth.go\<close>: the response writer that stands between
  a paid handler and the client, and decides whether and when the payment is settled.

  The client's side is a \<open>resp_writer\<close>, the part of the writer of \<open>net/http\<close> that can be observed.
  \<open>cw_faults\<close> is the environment: for each coming write, \<open>None\<close> if it succeeds and \<open>Some n\<close> if it fails
  after \<open>n\<close> bytes.  The variables that the middleware shares with its closures (the settle calls, the
  reported failures, \<open>settleOnChain\<close>, whether the request's context is done) are fields of the
  interceptor.
\<close>

subsection \<open>The client's side\<close>

record resp_writer =
  cw_header :: header
  cw_status :: "int option"
  cw_sent :: header
  cw_body :: string
  cw_info :: "int list"
  cw_faults :: "nat option list"
  cw_raw :: "string option"

text \<open>A status 1xx other than 101 is sent as an informational response; the final one is still to come.\<close>

definition cw_WriteHeader :: "int \<Rightarrow> resp_writer \<Rightarrow> resp_writer" where
  "cw_WriteHeader code w =
     (if cw_raw w \<noteq> None \<or> cw_status w \<noteq> None then w
      else if 100 \<le> code \<and> code \<le> 199 \<and> code \<noteq> 101 then w\<lparr>cw_info := cw_info w @ [code]\<rparr>
      else w\<lparr>cw_status := Some code, cw_sent := cw_header w\<rparr>)"

definition cw_Write :: "string \<Rightarrow> resp_writer \<Rightarrow> (nat \<times> bool) \<times> resp_writer" where
  "cw_Write b w =
     (if cw_raw w \<noteq> None then ((0, True), w)
      else (let w1 = cw_WriteHeader 200 w
            in case cw_faults w1 of
                 Some n # fs \<Rightarrow> ((min n (length b), True), w1\<lparr>cw_body := cw_body w1 @ take n b, cw_faults := fs\<rparr>)
               | fs \<Rightarrow> ((length b, False), w1\<lparr>cw_body := cw_body w1 @ b, cw_faults := tl fs\<rparr>)))"

definition set_header :: "string \<Rightarrow> string \<Rightarrow> resp_writer \<Rightarrow> resp_writer" where
  "set_header k v w = w\<lparr>cw_header := hset k v (cw_header w)\<rparr>"

definition marshal_error :: "error_body \<Rightarrow> string" where
  "marshal_error b = json_print (JObj
     ([(''error'', JStr (eb_Error b)), (''reason'', JStr (eb_Reason b))] @
      (if eb_Detail b = [] then [] else [(''detail'', JStr (eb_Detail b))]) @
      (if eb_Hint b = [] then [] else [(''hint'', JStr (eb_Hint b))]) @
      [(''retriable'', JBool (eb_Retriable b))]))"

definition writePaymentError :: "int \<Rightarrow> error_body \<Rightarrow> resp_writer \<Rightarrow> resp_writer" where
  "writePaymentError status body w =
     snd (cw_Write [CHR 0x0A] (snd (cw_Write (marshal_error body)
       (cw_WriteHeader status (set_header ''Content-Type'' ''application/json'' w)))))"

definition dropUpstreamBodyHeaders :: "header \<Rightarrow> header" where
  "dropUpstreamBodyHeaders h =
     fold hdel [''Content-Length'', ''Content-Encoding'', ''Content-Range'', ''Trailer'', ''ETag'', ''Last-Modified''] h"

subsection \<open>State\<close>

record interceptor =
  it_w :: resp_writer
  it_deferSettle :: bool
  it_valueCheck :: bool
  it_streamDefer :: bool
  it_buffering :: bool
  it_buf :: string
  it_sseTap :: "sse_tap option"
  it_status :: int
  it_committed :: bool
  it_wroteStatus :: bool
  it_settled :: bool
  it_hijacked :: bool
  it_bytesWritten :: nat
  it_clientWriteErr :: bool
  it_ctxErr :: bool
  it_settleOnChain :: bool
  it_settleCalls :: "(string \<times> payment_requirements) list"
  it_reports :: "string list"

text \<open>
  What the closures of one request refer to: the bytes given to \<open>/verify\<close>, the matched requirement, the
  facilitator's answer to each settle call, and the renderer of 402 answers.
\<close>

record settle_env =
  sn_VerifyOnly :: bool
  sn_SettleOnDelivery :: bool
  sn_payload :: string
  sn_req :: payment_requirements
  sn_answer :: "nat \<Rightarrow> fac_http"
  sn_gunzip :: "string \<Rightarrow> string option"
  sn_quote :: "string \<Rightarrow> string"
  sn_send :: "payment_failure option \<Rightarrow> resp_writer \<Rightarrow> resp_writer"

definition new_interceptor :: "settle_env \<Rightarrow> resp_writer \<Rightarrow> string list \<Rightarrow> interceptor" where
  "new_interceptor env w reports =
     \<lparr>it_w = w, it_deferSettle = \<not> sn_VerifyOnly env,
      it_valueCheck = (\<not> sn_VerifyOnly env \<and> sn_SettleOnDelivery env),
      it_streamDefer = False, it_buffering = False, it_buf = [], it_sseTap = None, it_status = 0,
      it_committed = False, it_wroteStatus = False, it_settled = False, it_hijacked = False,
      it_bytesWritten = 0, it_clientWriteErr = False, it_ctxErr = False, it_settleOnChain = False,
      it_settleCalls = [], it_reports = reports\<rparr>"

definition report :: "string \<Rightarrow> interceptor \<Rightarrow> interceptor" where
  "report reason i = i\<lparr>it_reports := it_reports i @ [reason]\<rparr>"

definition on_w :: "(resp_writer \<Rightarrow> resp_writer) \<Rightarrow> interceptor \<Rightarrow> interceptor" where
  "on_w f i = i\<lparr>it_w := f (it_w i)\<rparr>"

subsection \<open>The settle closure\<close>

definition hint_retry_settle :: string where
  "hint_retry_settle = ''transient facilitator error'' @ em_dash @ ''retry the same request in a few seconds''"
definition hint_verify_chain :: string where
  "hint_verify_chain = ''the settle tx in X-PAYMENT-RESPONSE may have landed on-chain'' @ em_dash @
     ''verify against the chain before retrying, or you may pay twice''"

definition marshal_settle :: "settle_response \<Rightarrow> string" where
  "marshal_settle r = json_print (JObj
     ([(''success'', JBool (sr_Success r))] @
      (if sr_ErrorReason r = [] then [] else [(''errorReason'', JStr (sr_ErrorReason r))]) @
      (if sr_ErrorMessage r = [] then [] else [(''errorMessage'', JStr (sr_ErrorMessage r))]) @
      [(''transaction'', JStr (sr_Transaction r)), (''network'', JStr (sr_Network r))] @
      (if sr_Payer r = [] then [] else [(''payer'', JStr (sr_Payer r))])))"

definition set_receipt :: "settle_response \<Rightarrow> resp_writer \<Rightarrow> resp_writer" where
  "set_receipt r w =
     (let encodedSettle = base64_encode (marshal_settle r)
      in set_header ''PAYMENT-RESPONSE'' encodedSettle (set_header ''X-PAYMENT-RESPONSE'' encodedSettle w))"

definition settle_error_body :: "bool \<Rightarrow> error_body" where
  "settle_error_body settledOnChain =
     \<lparr>eb_Error = ''Payment settlement failed'', eb_Reason = ''settlement_failed'', eb_Detail = [],
      eb_Hint = (if settledOnChain then hint_verify_chain else hint_retry_settle),
      eb_Retriable = (\<not> settledOnChain)\<rparr>"

text \<open>The call failed: keep a transaction hash visible, then answer 503 if the status is still open.\<close>

definition settle_failed :: "settle_response option \<Rightarrow> interceptor \<Rightarrow> interceptor" where
  "settle_failed resp i =
     (let settledOnChain = (case resp of Some r \<Rightarrow> sr_Transaction r \<noteq> [] | None \<Rightarrow> False);
          i1 = (case resp of
                  Some r \<Rightarrow> if sr_Transaction r \<noteq> [] then (on_w (set_receipt r) i)\<lparr>it_settleOnChain := True\<rparr> else i
                | None \<Rightarrow> i);
          i2 = report ''settlement_failed'' i1
      in if it_wroteStatus i2 then i2
         else on_w (\<lambda>w. writePaymentError 503 (settle_error_body settledOnChain)
                (w\<lparr>cw_header := dropUpstreamBodyHeaders (cw_header w)\<rparr>)) i2)"

text \<open>The facilitator answered that it did not settle.\<close>

definition settle_rejected :: "settle_env \<Rightarrow> settle_response \<Rightarrow> interceptor \<Rightarrow> interceptor" where
  "settle_rejected env r i =
     (let i1 = report ''settlement_rejected'' i
      in if it_wroteStatus i1 then i1
         else (let detail = trim_space (trim_space (sr_ErrorReason r) @ '' '' @ trim_space (sr_ErrorMessage r))
               in on_w (\<lambda>w. sn_send env (Some \<lparr>pf_Reason = ''settlement_rejected'', pf_Detail = detail,
                      pf_Hint = signatureFailureHint (sn_quote env) detail (sn_req env)\<rparr>)
                    (w\<lparr>cw_header := dropUpstreamBodyHeaders (cw_header w)\<rparr>)) i1))"

definition settleFunc :: "settle_env \<Rightarrow> interceptor \<Rightarrow> bool \<times> interceptor" where
  "settleFunc env i =
     (if sn_VerifyOnly env then (True, i)
      else if it_ctxErr i then (False, report ''client_disconnected'' i)
      else (let (resp, err) = facilitatorSettle (sn_payload env) (sn_req env) (sn_answer env (length (it_settleCalls i)));
                i1 = i\<lparr>it_settleCalls := it_settleCalls i @
                  (case facilitator_request (sn_payload env) (sn_req env) of Some c \<Rightarrow> [c] | None \<Rightarrow> [])\<rparr>
            in case err of
                 Some e \<Rightarrow> (False, settle_failed resp i1)
               | None \<Rightarrow>
                   (if \<not> sr_Success (the resp) then (False, settle_rejected env (the resp) i1)
                    else (True, on_w (set_receipt (the resp)) i1))))"

subsection \<open>The methods of the interceptor\<close>

definition writeClient :: "string \<Rightarrow> interceptor \<Rightarrow> (nat \<times> bool) \<times> interceptor" where
  "writeClient b i =
     (case cw_Write b (it_w i) of
        ((n, err), w) \<Rightarrow>
          ((n, err), i\<lparr>it_w := w, it_bytesWritten := it_bytesWritten i + n, it_clientWriteErr := (it_clientWriteErr i \<or> err)\<rparr>))"

definition settleNow :: "settle_env \<Rightarrow> interceptor \<Rightarrow> bool \<times> interceptor" where
  "settleNow env i =
     (case settleFunc env i of
        (False, i1) \<Rightarrow> (False, i1\<lparr>it_hijacked := True\<rparr>)
      | (True, i1) \<Rightarrow> (True, on_w (cw_WriteHeader (it_status i1)) (i1\<lparr>it_settled := True, it_wroteStatus := True\<rparr>)))"

definition WriteHeader :: "settle_env \<Rightarrow> int \<Rightarrow> interceptor \<Rightarrow> interceptor" where
  "WriteHeader env statusCode i =
     (if it_committed i then i
      else (let i1 = i\<lparr>it_committed := True, it_status := statusCode\<rparr>;
                ct = hget (cw_header (it_w i1)) ''Content-Type'';
                cl = parse_int (hget (cw_header (it_w i1)) ''Content-Length'')
            in if statusCode \<ge> 400 then on_w (cw_WriteHeader statusCode) (i1\<lparr>it_wroteStatus := True\<rparr>)
               else if it_deferSettle i1 \<and> has_prefix ''text/event-stream'' (to_lower ct) then
                 (let i2 = i1\<lparr>it_streamDefer := True, it_sseTap := (if it_valueCheck i1 then Some new_tap else it_sseTap i1)\<rparr>
                  in on_w (\<lambda>w. cw_WriteHeader statusCode (set_header ''Trailer'' ''X-PAYMENT-RESPONSE, PAYMENT-RESPONSE'' w))
                       (i2\<lparr>it_wroteStatus := True\<rparr>))
               else if it_deferSettle i1 \<and> it_valueCheck i1 \<and>
                       (case cl of None \<Rightarrow> True | Some n \<Rightarrow> n \<le> deliveryBufferCap)
                    then i1\<lparr>it_buffering := True\<rparr>
               else snd (settleNow env i1)))"

text \<open>The last part of \<open>Write\<close>: bytes that go to the client and past the tap.\<close>

definition write_through :: "string \<Rightarrow> interceptor \<Rightarrow> (nat \<times> bool) \<times> interceptor" where
  "write_through b i =
     (case writeClient b i of
        ((n, err), i1) \<Rightarrow> ((n, err), i1\<lparr>it_sseTap := map_option (feed (take n b)) (it_sseTap i1)\<rparr>))"

definition Write :: "settle_env \<Rightarrow> string \<Rightarrow> interceptor \<Rightarrow> (nat \<times> bool) \<times> interceptor" where
  "Write env b i =
     (let i1 = (if \<not> it_committed i then WriteHeader env 200 i else i)
      in if it_hijacked i1 then ((length b, False), i1)
         else if it_buffering i1 then
           (if int (length (it_buf i1) + length b) \<le> deliveryBufferCap
            then ((length b, False), i1\<lparr>it_buf := it_buf i1 @ b\<rparr>)
            else (case settleNow env (i1\<lparr>it_buffering := False\<rparr>) of
                    (False, i2) \<Rightarrow> ((length b, False), i2)
                  | (True, i2) \<Rightarrow>
                      (case writeClient (it_buf i2) (i2\<lparr>it_buf := []\<rparr>) of
                         ((n, True), i3) \<Rightarrow> ((0, True), i3)
                       | ((n, False), i3) \<Rightarrow> write_through b i3)))
         else write_through b i1)"

definition skip :: "string \<Rightarrow> interceptor \<Rightarrow> interceptor" where
  "skip reason i = report reason i"

definition finalizeBuffered :: "settle_env \<Rightarrow> interceptor \<Rightarrow> interceptor" where
  "finalizeBuffered env i =
     (let i1 = i\<lparr>it_buffering := False\<rparr>; body = it_buf i1
      in if judgeBufferedBody (sn_gunzip env) body (cw_header (it_w i1)) = DeliveryNoValue then
           (let i2 = on_w (\<lambda>w. cw_WriteHeader (it_status i1) (set_header ''X-Payment-Settled'' ''false'' w))
                       ((skip ''upstream_no_value'' i1)\<lparr>it_wroteStatus := True\<rparr>)
            in snd (writeClient body i2))
         else (case settleNow env i1 of (False, i2) \<Rightarrow> i2 | (True, i2) \<Rightarrow> snd (writeClient body i2)))"

definition finalize_stream :: "settle_env \<Rightarrow> interceptor \<Rightarrow> interceptor" where
  "finalize_stream env i =
     (if it_status i = 0 \<or> it_status i \<ge> 400 then i
      else if it_ctxErr i then skip ''client_disconnected'' i
      else if it_clientWriteErr i then skip ''client_write_failed'' i
      else if it_bytesWritten i = 0 then skip ''upstream_no_value'' i
      else (let i1 = i\<lparr>it_sseTap := map_option close_tap (it_sseTap i)\<rparr>
            in case it_sseTap i1 of
                 Some tap \<Rightarrow>
                   if \<not> delivered tap then skip ''upstream_no_value'' i1
                   else (case settleFunc env i1 of (ok, i2) \<Rightarrow> if ok then i2\<lparr>it_settled := True\<rparr> else i2)
               | None \<Rightarrow> (case settleFunc env i1 of (ok, i2) \<Rightarrow> if ok then i2\<lparr>it_settled := True\<rparr> else i2)))"

definition finalize :: "settle_env \<Rightarrow> interceptor \<Rightarrow> interceptor" where
  "finalize env i =
     (if it_settled i \<or> it_hijacked i then i
      else if it_buffering i then finalizeBuffered env i
      else if \<not> it_streamDefer i then i
      else finalize_stream env i)"

end
