(* ===== verification/SettlementRuns.thy ===== *)
theory SettlementRuns imports Settlement begin

text \<open>
  What a paid handler can do to the interceptor, and what comes of it.

  The handler is the reverse proxy in front of the upstream; a run of it is a sequence of
  \<open>handler_op\<close>s in any order, with the client leaving at any point and possibly a panic at the end
  (the proxy aborts with one when a copy fails), in which case \<open>finalize\<close> is not reached.
\<close>

datatype handler_op =
    HHeaders header
  | HWriteHeader int
  | HWrite string
  | HFlush
  | HUpgrade string
  | HClientGone

text \<open>\<open>Flush\<close> of the interceptor and, below it, of \<open>net/http\<close>, which sends an open status as 200.\<close>

definition Flush :: "interceptor \<Rightarrow> interceptor" where
  "Flush i = (if \<not> it_committed i \<or> it_buffering i \<or> it_hijacked i then i else on_w (cw_WriteHeader 200) i)"

text \<open>\<open>Hijack\<close> hands the connection over; \<open>raw\<close> is what the handler then sends on it.\<close>

definition Hijack :: "string \<Rightarrow> interceptor \<Rightarrow> interceptor" where
  "Hijack raw i = on_w (\<lambda>w. if cw_raw w = None then w\<lparr>cw_raw := Some raw\<rparr> else w) i"

fun handler_step :: "settle_env \<Rightarrow> handler_op \<Rightarrow> interceptor \<Rightarrow> interceptor" where
  "handler_step env (HHeaders h) i = on_w (\<lambda>w. w\<lparr>cw_header := h\<rparr>) i"
| "handler_step env (HWriteHeader s) i = WriteHeader env s i"
| "handler_step env (HWrite b) i = snd (Write env b i)"
| "handler_step env HFlush i = Flush i"
| "handler_step env (HUpgrade raw) i = Hijack raw i"
| "handler_step env HClientGone i = i\<lparr>it_ctxErr := True\<rparr>"

definition serve_next :: "settle_env \<Rightarrow> handler_op list \<Rightarrow> bool \<Rightarrow> interceptor \<Rightarrow> interceptor" where
  "serve_next env ops panicked i =
     (let i1 = fold (handler_step env) ops i in if panicked then i1 else finalize env i1)"

subsection \<open>The invariant of the interceptor\<close>

text \<open>The facilitator reported a settlement.\<close>

definition settlement_ok :: "settle_env \<Rightarrow> fac_http \<Rightarrow> bool" where
  "settlement_ok env http \<longleftrightarrow>
     (\<exists>r. facilitatorSettle (sn_payload env) (sn_req env) http = (Some r, None) \<and> sr_Success r)"

definition calls_ok :: "settle_env \<Rightarrow> interceptor \<Rightarrow> bool" where
  "calls_ok env i \<longleftrightarrow>
     (it_settleCalls i = [] \<or> it_settleCalls i = [(sn_payload env, sn_req env)]) \<and>
     (sn_VerifyOnly env \<longrightarrow> it_settleCalls i = []) \<and>
     (it_settled i \<and> \<not> sn_VerifyOnly env \<longrightarrow>
        it_settleCalls i = [(sn_payload env, sn_req env)] \<and> settlement_ok env (sn_answer env 0)) \<and>
     (it_settleOnChain i \<longrightarrow> it_settleCalls i \<noteq> [])"

definition phase_ok :: "settle_env \<Rightarrow> interceptor \<Rightarrow> bool" where
  "phase_ok env i \<longleftrightarrow>
     calls_ok env i \<and>
     (it_settleCalls i \<noteq> [] \<longrightarrow> it_settled i \<or> it_hijacked i) \<and>
     (it_settled i \<or> it_hijacked i \<or> it_buffering i \<or> it_streamDefer i \<longrightarrow> it_committed i \<and> it_status i < 400) \<and>
     (it_settled i \<or> it_hijacked i \<longrightarrow> \<not> it_buffering i \<and> \<not> it_streamDefer i) \<and>
     \<not> (it_buffering i \<and> it_streamDefer i) \<and> \<not> (it_settled i \<and> it_hijacked i) \<and>
     it_deferSettle i = (\<not> sn_VerifyOnly env)"

lemma request_eq: "facilitator_request p r = Some c \<Longrightarrow> c = (p, r)"
  by (auto simp: facilitator_request_def split: if_splits)

lemma settle_no_request: "facilitator_request p r = None \<Longrightarrow> \<exists>e. facilitatorSettle p r http = (None, Some e)"
  by (simp add: facilitatorSettle_def)

lemma settle_no_error: "facilitatorSettle p r http = (resp, None) \<Longrightarrow> \<exists>s. resp = Some s"
  by (cases http; cases resp) (auto simp: facilitatorSettle_def split: if_splits option.splits)

lemmas closure_simps = report_def on_w_def settle_failed_def settle_rejected_def Let_def

lemma on_w_frame [simp]:
  "it_committed (on_w f i) = it_committed i" "it_hijacked (on_w f i) = it_hijacked i"
  "it_buffering (on_w f i) = it_buffering i" "it_settled (on_w f i) = it_settled i"
  "it_w (on_w f i) = f (it_w i)"
  by (simp_all add: on_w_def)

lemma settle_failed_frame [simp]:
  "it_settleCalls (settle_failed resp i) = it_settleCalls i" "it_settled (settle_failed resp i) = it_settled i"
  "it_hijacked (settle_failed resp i) = it_hijacked i" "it_committed (settle_failed resp i) = it_committed i"
  "it_status (settle_failed resp i) = it_status i" "it_buffering (settle_failed resp i) = it_buffering i"
  "it_streamDefer (settle_failed resp i) = it_streamDefer i" "it_deferSettle (settle_failed resp i) = it_deferSettle i"
  "it_buf (settle_failed resp i) = it_buf i" "it_sseTap (settle_failed resp i) = it_sseTap i"
  "it_bytesWritten (settle_failed resp i) = it_bytesWritten i" "it_ctxErr (settle_failed resp i) = it_ctxErr i"
  "it_clientWriteErr (settle_failed resp i) = it_clientWriteErr i" "it_wroteStatus (settle_failed resp i) = it_wroteStatus i"
  by (simp_all add: closure_simps split: option.split)

lemma settle_failed_onChain [simp]:
  "it_settleOnChain (settle_failed resp i) \<longleftrightarrow>
     it_settleOnChain i \<or> (case resp of Some r \<Rightarrow> sr_Transaction r \<noteq> [] | None \<Rightarrow> False)"
  by (simp add: closure_simps split: option.split)

lemma settle_rejected_frame [simp]:
  "it_settleCalls (settle_rejected env r i) = it_settleCalls i" "it_settled (settle_rejected env r i) = it_settled i"
  "it_hijacked (settle_rejected env r i) = it_hijacked i" "it_committed (settle_rejected env r i) = it_committed i"
  "it_status (settle_rejected env r i) = it_status i" "it_buffering (settle_rejected env r i) = it_buffering i"
  "it_streamDefer (settle_rejected env r i) = it_streamDefer i" "it_deferSettle (settle_rejected env r i) = it_deferSettle i"
  "it_buf (settle_rejected env r i) = it_buf i" "it_sseTap (settle_rejected env r i) = it_sseTap i"
  "it_bytesWritten (settle_rejected env r i) = it_bytesWritten i" "it_ctxErr (settle_rejected env r i) = it_ctxErr i"
  "it_clientWriteErr (settle_rejected env r i) = it_clientWriteErr i" "it_wroteStatus (settle_rejected env r i) = it_wroteStatus i"
  "it_settleOnChain (settle_rejected env r i) = it_settleOnChain i"
  by (simp_all add: closure_simps)

text \<open>What the closure does, by outcome.\<close>

lemma settleFunc_frame:
  assumes "settleFunc env i = (ok, i')"
  shows "it_settled i' = it_settled i \<and> it_hijacked i' = it_hijacked i \<and> it_committed i' = it_committed i \<and>
    it_status i' = it_status i \<and> it_buffering i' = it_buffering i \<and> it_streamDefer i' = it_streamDefer i \<and>
    it_deferSettle i' = it_deferSettle i \<and> it_buf i' = it_buf i \<and> it_sseTap i' = it_sseTap i \<and>
    it_bytesWritten i' = it_bytesWritten i \<and> it_ctxErr i' = it_ctxErr i \<and> it_clientWriteErr i' = it_clientWriteErr i \<and>
    it_wroteStatus i' = it_wroteStatus i"
  using assms by (auto simp: settleFunc_def Let_def report_def on_w_def split: if_splits prod.splits option.splits)

lemma settleFunc_calls:
  assumes f: "settleFunc env i = (ok, i')" and c: "calls_ok env i" and none: "it_settleCalls i = []" and ns: "\<not> it_settled i"
  shows "(it_settleCalls i' = [] \<or> it_settleCalls i' = [(sn_payload env, sn_req env)]) \<and>
    (sn_VerifyOnly env \<longrightarrow> it_settleCalls i' = []) \<and> (it_settleOnChain i' \<longrightarrow> it_settleCalls i' \<noteq> []) \<and>
    (ok \<longrightarrow> sn_VerifyOnly env \<or> (it_settleCalls i' = [(sn_payload env, sn_req env)] \<and> settlement_ok env (sn_answer env 0))) \<and>
    (it_ctxErr i \<longrightarrow> it_settleCalls i' = [])"
proof (cases "sn_VerifyOnly env \<or> it_ctxErr i")
  case True
  with f c none show ?thesis by (auto simp: settleFunc_def calls_ok_def report_def split: if_splits)
next
  case False
  have oc: "\<not> it_settleOnChain i" using c none by (auto simp: calls_ok_def)
  obtain resp err where r: "facilitatorSettle (sn_payload env) (sn_req env) (sn_answer env 0) = (resp, err)"
    by fastforce
  show ?thesis
  proof (cases "facilitator_request (sn_payload env) (sn_req env)")
    case None
    then obtain e where "resp = None" "err = Some e" using r settle_no_request [OF None, of "sn_answer env 0"] by auto
    with f False r None none oc show ?thesis
      by (auto simp: settleFunc_def)
  next
    case (Some q)
    then have q: "q = (sn_payload env, sn_req env)" by (rule request_eq)
    have "resp \<noteq> None" if "err = None" using r that by (auto dest: settle_no_error)
    with f False r Some none q oc show ?thesis
      by (cases err) (auto simp: settleFunc_def settlement_ok_def on_w_def Let_def split: if_splits)
  qed
qed

text \<open>What a state may differ in without touching the invariant.\<close>

lemma phase_ok_cong:
  "phase_ok env i \<Longrightarrow> it_settleCalls j = it_settleCalls i \<Longrightarrow> it_settled j = it_settled i \<Longrightarrow>
   it_hijacked j = it_hijacked i \<Longrightarrow> it_committed j = it_committed i \<Longrightarrow> it_status j = it_status i \<Longrightarrow>
   it_buffering j = it_buffering i \<Longrightarrow> it_streamDefer j = it_streamDefer i \<Longrightarrow>
   it_deferSettle j = it_deferSettle i \<Longrightarrow> it_settleOnChain j = it_settleOnChain i \<Longrightarrow> phase_ok env j"
  by (simp add: phase_ok_def calls_ok_def)

lemma phase_on_w [inv_intro]: "phase_ok env i \<Longrightarrow> phase_ok env (on_w f i)"
  by (erule phase_ok_cong) (simp_all add: on_w_def)

lemma phase_report [inv_intro]: "phase_ok env i \<Longrightarrow> phase_ok env (report r i)"
  by (erule phase_ok_cong) (simp_all add: report_def)

lemma phase_writeClient [inv_intro]: "phase_ok env i \<Longrightarrow> phase_ok env (snd (writeClient b i))"
  by (erule phase_ok_cong) (simp_all add: writeClient_def split: prod.split)

lemma phase_write_through [inv_intro]: "phase_ok env i \<Longrightarrow> phase_ok env (snd (write_through b i))"
  by (erule phase_ok_cong) (simp_all add: write_through_def writeClient_def split: prod.split)

text \<open>Settling from a state that has not settled, with the status decided and nothing held back.\<close>

definition ready :: "settle_env \<Rightarrow> interceptor \<Rightarrow> bool" where
  "ready env i \<longleftrightarrow> it_settleCalls i = [] \<and> \<not> it_settleOnChain i \<and> \<not> it_settled i \<and> \<not> it_hijacked i \<and>
     it_committed i \<and> it_status i < 400 \<and> \<not> it_buffering i \<and> it_deferSettle i = (\<not> sn_VerifyOnly env)"

lemma ready_calls: "ready env i \<Longrightarrow> calls_ok env i"
  by (simp add: ready_def calls_ok_def)

lemma settleNow_phase:
  assumes r: "ready env i" and sd: "\<not> it_streamDefer i"
  shows "phase_ok env (snd (settleNow env i))"
proof -
  obtain ok i1 where f: "settleFunc env i = (ok, i1)" by fastforce
  note fr = settleFunc_frame [OF f] and ca = settleFunc_calls [OF f ready_calls [OF r]]
  show ?thesis
    using f fr ca r sd by (cases ok) (auto simp: settleNow_def ready_def phase_ok_def calls_ok_def on_w_def)
qed

lemma phase_open:
  "phase_ok env i \<Longrightarrow> \<not> it_settled i \<Longrightarrow> \<not> it_hijacked i \<Longrightarrow> it_settleCalls i = [] \<and> \<not> it_settleOnChain i"
  by (auto simp: phase_ok_def calls_ok_def)

lemma phase_uncommitted:
  "phase_ok env i \<Longrightarrow> \<not> it_committed i \<Longrightarrow>
   it_settleCalls i = [] \<and> \<not> it_settleOnChain i \<and> \<not> it_settled i \<and> \<not> it_hijacked i \<and> \<not> it_buffering i \<and> \<not> it_streamDefer i"
  using phase_open by (auto simp: phase_ok_def)

lemma phase_WriteHeader [inv_intro]:
  assumes p: "phase_ok env i" shows "phase_ok env (WriteHeader env s i)"
proof (cases "it_committed i")
  case True
  with p show ?thesis by (simp add: WriteHeader_def)
next
  case False
  note u = phase_uncommitted [OF p False]
  have d: "it_deferSettle i = (\<not> sn_VerifyOnly env)" using p by (simp add: phase_ok_def)
  let ?i1 = "i\<lparr>it_committed := True, it_status := s\<rparr>"
  have now: "phase_ok env (snd (settleNow env ?i1))" if "s < 400"
    using that u d by (intro settleNow_phase) (simp_all add: ready_def)
  show ?thesis
    using False u d now by (auto simp: WriteHeader_def Let_def phase_ok_def calls_ok_def on_w_def split: option.split)
qed

lemma settleNow_cong_buffering:
  "phase_ok env i \<Longrightarrow> it_buffering i \<Longrightarrow> ready env (i\<lparr>it_buffering := False\<rparr>) \<and> \<not> it_streamDefer i"
  using phase_open [of env i] by (auto simp: ready_def phase_ok_def)

lemma phase_Write [inv_intro]:
  assumes p: "phase_ok env i" shows "phase_ok env (snd (Write env b i))"
proof -
  define i1 where "i1 = (if \<not> it_committed i then WriteHeader env 200 i else i)"
  have p1: "phase_ok env i1" using p by (simp add: i1_def phase_WriteHeader)
  have now: "phase_ok env (snd (settleNow env (i1\<lparr>it_buffering := False\<rparr>)))" if "it_buffering i1"
    using settleNow_cong_buffering [OF p1 that] by (intro settleNow_phase) simp_all
  have buf: "phase_ok env (i1\<lparr>it_buf := x\<rparr>)" for x using p1 by (rule phase_ok_cong) simp_all
  show ?thesis
  proof (cases "it_hijacked i1 \<or> \<not> it_buffering i1 \<or> int (length (it_buf i1) + length b) \<le> deliveryBufferCap")
    case True
    then show ?thesis
      using p1 buf by (auto simp: Write_def Let_def i1_def [symmetric] intro: inv_intro)
  next
    case False
    obtain ok i2 where s: "settleNow env (i1\<lparr>it_buffering := False\<rparr>) = (ok, i2)" by fastforce
    have p2: "phase_ok env i2" using now s False by simp
    have p3: "phase_ok env (snd (writeClient (it_buf i2) (i2\<lparr>it_buf := []\<rparr>)))"
      by (rule phase_writeClient, rule phase_ok_cong [OF p2]) simp_all
    show ?thesis
      using False s p2 p3 phase_write_through
      by (auto simp: Write_def Let_def i1_def [symmetric] split: bool.split prod.split)
  qed
qed

lemma phase_step [inv_intro]: "phase_ok env i \<Longrightarrow> phase_ok env (handler_step env op i)"
  by (cases op) (auto simp: Flush_def Hijack_def intro: inv_intro elim: phase_ok_cong)

lemma phase_run: "phase_ok env i \<Longrightarrow> phase_ok env (fold (handler_step env) ops i)"
  by (induction ops arbitrary: i) (auto intro: inv_intro)

lemma phase_new: "phase_ok env (new_interceptor env w reports)"
  by (simp add: new_interceptor_def phase_ok_def calls_ok_def)

subsection \<open>Finalising\<close>

definition charge_ok :: "settle_env \<Rightarrow> interceptor \<Rightarrow> bool" where
  "charge_ok env i \<longleftrightarrow> calls_ok env i \<and> (it_settleCalls i \<noteq> [] \<longrightarrow> it_committed i \<and> it_status i < 400)"

lemma phase_charge: "phase_ok env i \<Longrightarrow> charge_ok env i"
  by (auto simp: phase_ok_def charge_ok_def)

lemma charge_ok_cong:
  "charge_ok env i \<Longrightarrow> it_settleCalls j = it_settleCalls i \<Longrightarrow> it_settled j = it_settled i \<Longrightarrow>
   it_committed j = it_committed i \<Longrightarrow> it_status j = it_status i \<Longrightarrow>
   it_settleOnChain j = it_settleOnChain i \<Longrightarrow> charge_ok env j"
  by (simp add: charge_ok_def calls_ok_def)

lemma settle_stream_charge:
  assumes r: "ready env i" and f: "settleFunc env i = (ok, i1)"
  shows "charge_ok env (if ok then i1\<lparr>it_settled := True\<rparr> else i1)"
  using settleFunc_frame [OF f] settleFunc_calls [OF f ready_calls [OF r]] r
  by (cases ok) (auto simp: charge_ok_def calls_ok_def ready_def)

lemma ready_tap: "ready env i \<Longrightarrow> ready env (i\<lparr>it_sseTap := t\<rparr>)"
  by (simp add: ready_def)

lemma finalize_stream_charge:
  assumes "phase_ok env i" and "it_streamDefer i" and "\<not> it_settled i" "\<not> it_hijacked i"
  shows "charge_ok env (finalize_stream env i)"
proof -
  have r: "ready env i" using assms phase_open [OF assms(1,3,4)] by (auto simp: ready_def phase_ok_def)
  obtain ok i1 where f: "settleFunc env (i\<lparr>it_sseTap := map_option close_tap (it_sseTap i)\<rparr>) = (ok, i1)"
    by fastforce
  have g: "charge_ok env (if ok then i1\<lparr>it_settled := True\<rparr> else i1)"
    by (rule settle_stream_charge [OF ready_tap [OF r] f])
  have k: "charge_ok env i" "charge_ok env (skip reason i)" "charge_ok env (skip reason (i\<lparr>it_sseTap := t\<rparr>))" for reason t
    using phase_charge [OF assms(1)] by (auto elim!: charge_ok_cong simp: skip_def report_def)
  show ?thesis
    using f g k by (auto simp: finalize_stream_def Let_def split: option.split)
qed

lemma finalize_charge:
  assumes p: "phase_ok env i" shows "charge_ok env (finalize env i)"
proof (cases "it_settled i \<or> it_hijacked i")
  case True
  with p show ?thesis by (auto simp: finalize_def intro: phase_charge)
next
  case False
  let ?i = "i\<lparr>it_buffering := False\<rparr>"
  have b: "charge_ok env (finalizeBuffered env i)" if "it_buffering i"
  proof -
    obtain ok i2 where s: "settleNow env ?i = (ok, i2)" by fastforce
    have "phase_ok env i2"
      using settleNow_phase [of env ?i] settleNow_cong_buffering [OF p that] s by simp
    then have "charge_ok env i2" "charge_ok env (snd (writeClient x i2))" for x
      by (auto intro: phase_charge inv_intro)
    moreover have "phase_ok env ?i"
      using p that phase_open [OF p] False by (auto simp: phase_ok_def calls_ok_def)
    then have "phase_ok env (?i\<lparr>it_reports := r, it_wroteStatus := w\<rparr>)" for r w
      by (rule phase_ok_cong) simp_all
    then have "charge_ok env (snd (writeClient x (on_w g (?i\<lparr>it_reports := r, it_wroteStatus := w\<rparr>))))" for g x r w
      by (intro phase_charge phase_writeClient phase_on_w)
    ultimately show ?thesis
      using s by (auto simp: finalizeBuffered_def Let_def skip_def report_def split: bool.split)
  qed
  from False b p finalize_stream_charge [of env i] show ?thesis
    by (auto simp: finalize_def intro: phase_charge)
qed

lemma serve_next_charge: "charge_ok env (serve_next env ops panicked (new_interceptor env w reports))"
  using finalize_charge [OF phase_run [OF phase_new]] phase_charge [OF phase_run [OF phase_new]]
  by (simp add: serve_next_def Let_def)

subsection \<open>A plain answer\<close>

text \<open>The body of an answer: writes, and the flushes the reverse proxy puts between them.\<close>

fun chunks :: "handler_op list \<Rightarrow> string list" where
  "chunks (HWrite b # ops) = b # chunks ops"
| "chunks (_ # ops) = chunks ops"
| "chunks [] = []"

definition body_ops :: "handler_op list \<Rightarrow> bool" where
  "body_ops ops = list_all (\<lambda>op. case op of HWrite b \<Rightarrow> True | HFlush \<Rightarrow> True | _ \<Rightarrow> False) ops"

definition answer_ops :: "header \<Rightarrow> int \<Rightarrow> handler_op list \<Rightarrow> handler_op list" where
  "answer_ops h s ops = HHeaders h # HWriteHeader s # ops"

definition fresh_writer :: "resp_writer \<Rightarrow> bool" where
  "fresh_writer w \<longleftrightarrow> cw_status w = None \<and> cw_raw w = None \<and> cw_faults w = [] \<and> cw_body w = []"

definition is_event_stream :: "header \<Rightarrow> bool" where
  "is_event_stream h \<longleftrightarrow> has_prefix ''text/event-stream'' (to_lower (hget h ''Content-Type''))"

lemma buffered_ops:
  "body_ops ops \<Longrightarrow> it_buffering i \<Longrightarrow> it_committed i \<Longrightarrow> \<not> it_hijacked i \<Longrightarrow>
   int (length (it_buf i) + length (concat (chunks ops))) \<le> deliveryBufferCap \<Longrightarrow>
   fold (handler_step env) ops i = i\<lparr>it_buf := it_buf i @ concat (chunks ops)\<rparr>"
proof (induction ops arbitrary: i)
  case (Cons op ops)
  then show ?case
    by (cases op) (simp_all add: body_ops_def Write_def Flush_def)
qed simp

definition held_answer :: "settle_env \<Rightarrow> resp_writer \<Rightarrow> header \<Rightarrow> int \<Rightarrow> string \<Rightarrow> interceptor" where
  "held_answer env w h s body =
     (new_interceptor env (w\<lparr>cw_header := h\<rparr>) [])
       \<lparr>it_committed := True, it_status := s, it_buffering := True, it_buf := body\<rparr>"

lemma answer_held:
  assumes "\<not> sn_VerifyOnly env" "sn_SettleOnDelivery env" "s < 400" "\<not> is_event_stream h"
    and "parse_int (hget h ''Content-Length'') = None \<or> the (parse_int (hget h ''Content-Length'')) \<le> deliveryBufferCap"
    and "body_ops ops" "int (length (concat (chunks ops))) \<le> deliveryBufferCap"
  shows "fold (handler_step env) (answer_ops h s ops) (new_interceptor env w []) =
    held_answer env w h s (concat (chunks ops))"
proof -
  have "WriteHeader env s (on_w (\<lambda>w. w\<lparr>cw_header := h\<rparr>) (new_interceptor env w [])) = held_answer env w h s []"
    using assms(1-5)
    by (auto simp: WriteHeader_def Let_def new_interceptor_def on_w_def held_answer_def is_event_stream_def
        split: option.splits)
  then show ?thesis
    using buffered_ops [of ops "held_answer env w h s []" env] assms(6,7)
    by (simp add: answer_ops_def held_answer_def new_interceptor_def)
qed

text \<open>The closure on an interceptor that has committed nothing to the client.\<close>

definition settle_refused :: "settle_env \<Rightarrow> resp_writer \<Rightarrow> bool" where
  "settle_refused env w' \<longleftrightarrow>
     (\<exists>w. cw_body w = [] \<and> cw_status w = None \<and> hget (cw_header w) ''Content-Length'' = [] \<and>
       ((\<exists>b. w' = writePaymentError 503 (settle_error_body b) w) \<or> (\<exists>f. w' = sn_send env (Some f) w)))"

lemma drop_content_length: "hget (dropUpstreamBodyHeaders h) ''Content-Length'' = []"
  by (simp add: dropUpstreamBodyHeaders_def equal_fold_def to_lower_def)

lemma refused_503:
  "cw_body w = [] \<Longrightarrow> cw_status w = None \<Longrightarrow>
   settle_refused env (writePaymentError 503 (settle_error_body b) (w\<lparr>cw_header := dropUpstreamBodyHeaders h\<rparr>))"
  unfolding settle_refused_def
  by (rule exI [of _ "w\<lparr>cw_header := dropUpstreamBodyHeaders h\<rparr>"]) (auto simp: drop_content_length)

lemma refused_402:
  "cw_body w = [] \<Longrightarrow> cw_status w = None \<Longrightarrow>
   settle_refused env (sn_send env (Some f) (w\<lparr>cw_header := dropUpstreamBodyHeaders h\<rparr>))"
  unfolding settle_refused_def
  by (rule exI [of _ "w\<lparr>cw_header := dropUpstreamBodyHeaders h\<rparr>"]) (auto simp: drop_content_length)

lemma settle_failed_refused:
  "fresh_writer (it_w i) \<Longrightarrow> \<not> it_wroteStatus i \<Longrightarrow> settle_refused env (it_w (settle_failed resp i))"
  by (cases resp) (auto simp: settle_failed_def Let_def on_w_def report_def set_receipt_def set_header_def
      fresh_writer_def intro: refused_503)

lemma settle_rejected_refused:
  "fresh_writer (it_w i) \<Longrightarrow> \<not> it_wroteStatus i \<Longrightarrow> settle_refused env (it_w (settle_rejected env r i))"
  by (auto simp: settle_rejected_def Let_def on_w_def report_def fresh_writer_def intro: refused_402)

lemma settleNow_outcome:
  assumes env: "\<not> sn_VerifyOnly env" "json_parse (sn_payload env) \<noteq> None" "sn_payload env \<noteq> []"
    and i: "\<not> it_ctxErr i" "it_settleCalls i = []" "\<not> it_settled i" "\<not> it_wroteStatus i" "fresh_writer (it_w i)"
    and s: "settleNow env i = (ok, i')"
  shows "it_settleCalls i' = [(sn_payload env, sn_req env)] \<and> ok = settlement_ok env (sn_answer env 0) \<and>
    it_settled i' = ok \<and>
    (ok \<longrightarrow> (\<exists>r. it_w i' = cw_WriteHeader (it_status i) (set_receipt r (it_w i)) \<and>
        facilitatorSettle (sn_payload env) (sn_req env) (sn_answer env 0) = (Some r, None))) \<and>
    (\<not> ok \<longrightarrow> settle_refused env (it_w i'))"
proof -
  have req: "facilitator_request (sn_payload env) (sn_req env) = Some (sn_payload env, sn_req env)"
    using env by (simp add: facilitator_request_def)
  obtain resp err where r: "facilitatorSettle (sn_payload env) (sn_req env) (sn_answer env 0) = (resp, err)"
    by fastforce
  show ?thesis
  proof (cases err)
    case (Some e)
    then have "\<not> settlement_ok env (sn_answer env 0)" using r by (simp add: settlement_ok_def)
    with Some r env i s req show ?thesis
      by (auto simp: settleNow_def settleFunc_def intro!: settle_failed_refused)
  next
    case None
    then obtain a where a: "resp = Some a" using r settle_no_error by blast
    have ok: "settlement_ok env (sn_answer env 0) = sr_Success a" using r a None by (simp add: settlement_ok_def)
    show ?thesis
      using None a r env i s req ok
      by (cases "sr_Success a") (auto simp: settleNow_def settleFunc_def on_w_def intro!: settle_rejected_refused)
  qed
qed

lemma write_fresh:
  "fresh_writer w \<Longrightarrow> 200 \<le> s \<Longrightarrow>
   cw_Write b (cw_WriteHeader s (w\<lparr>cw_header := h\<rparr>)) =
     ((length b, False), w\<lparr>cw_header := h, cw_status := Some s, cw_sent := h, cw_body := b\<rparr>)"
  by (simp add: fresh_writer_def cw_WriteHeader_def cw_Write_def)

lemma finalize_held:
  assumes env: "\<not> sn_VerifyOnly env" "json_parse (sn_payload env) \<noteq> None" "sn_payload env \<noteq> []"
    and w: "fresh_writer w" and s: "200 \<le> s"
  shows "let i = finalize env (held_answer env w h s body) in
    if judgeBufferedBody (sn_gunzip env) body h = DeliveryNoValue
    then it_settleCalls i = [] \<and> \<not> it_settled i \<and> cw_status (it_w i) = Some s \<and> cw_body (it_w i) = body \<and>
         hget (cw_sent (it_w i)) ''X-Payment-Settled'' = ''false''
    else it_settleCalls i = [(sn_payload env, sn_req env)] \<and> it_settled i = settlement_ok env (sn_answer env 0) \<and>
      (if it_settled i
       then cw_status (it_w i) = Some s \<and> cw_body (it_w i) = body \<and>
         (\<exists>r. facilitatorSettle (sn_payload env) (sn_req env) (sn_answer env 0) = (Some r, None) \<and>
              hget (cw_sent (it_w i)) ''PAYMENT-RESPONSE'' = base64_encode (marshal_settle r))
       else settle_refused env (it_w i))"
proof -
  define j where "j = (held_answer env w h s body)\<lparr>it_buffering := False\<rparr>"
  have j: "it_w j = w\<lparr>cw_header := h\<rparr>" "\<not> it_ctxErr j" "it_settleCalls j = []" "\<not> it_settled j"
      "\<not> it_wroteStatus j" "it_status j = s" "it_buf j = body" "fresh_writer (it_w j)"
    using w by (simp_all add: j_def held_answer_def new_interceptor_def fresh_writer_def)
  have fin: "finalize env (held_answer env w h s body) = finalizeBuffered env (held_answer env w h s body)"
    by (simp add: finalize_def held_answer_def new_interceptor_def)
  show ?thesis
  proof (cases "judgeBufferedBody (sn_gunzip env) body h = DeliveryNoValue")
    case True
    then show ?thesis
      using j w s by (simp add: fin finalizeBuffered_def j_def [symmetric] writeClient_def on_w_def skip_def report_def
          set_header_def write_fresh)
  next
    case False
    obtain ok i' where n: "settleNow env j = (ok, i')" by fastforce
    note o = settleNow_outcome [OF env j(2-5,8) n]
    show ?thesis
    proof (cases ok)
      case True
      then obtain r where r: "it_w i' = cw_WriteHeader s (set_receipt r (w\<lparr>cw_header := h\<rparr>))"
          "facilitatorSettle (sn_payload env) (sn_req env) (sn_answer env 0) = (Some r, None)"
        using o j by auto
      have wr: "cw_Write body (it_w i') = ((length body, False),
          w\<lparr>cw_header := cw_header (set_receipt r (w\<lparr>cw_header := h\<rparr>)), cw_status := Some s,
            cw_sent := cw_header (set_receipt r (w\<lparr>cw_header := h\<rparr>)), cw_body := body\<rparr>)"
        using w s by (simp add: r(1) set_receipt_def set_header_def Let_def write_fresh)
      show ?thesis
        using False True o n wr r(2) j
        by (auto simp: fin finalizeBuffered_def j_def [symmetric] writeClient_def set_receipt_def set_header_def Let_def)
    next
      case ok: False
      show ?thesis
        using False ok o n j by (auto simp: fin finalizeBuffered_def j_def [symmetric])
    qed
  qed
qed

subsection \<open>A stream\<close>

definition streaming :: "settle_env \<Rightarrow> resp_writer \<Rightarrow> header \<Rightarrow> int \<Rightarrow> string list \<Rightarrow> interceptor" where
  "streaming env w h s bs =
     (let h' = hset ''Trailer'' ''X-PAYMENT-RESPONSE, PAYMENT-RESPONSE'' h in
      (new_interceptor env (w\<lparr>cw_header := h', cw_status := Some s, cw_sent := h', cw_body := concat bs\<rparr>) [])
       \<lparr>it_committed := True, it_status := s, it_wroteStatus := True, it_streamDefer := True,
        it_sseTap := Some (fold feed bs new_tap), it_bytesWritten := length (concat bs)\<rparr>)"

lemma stream_ops:
  "fresh_writer w \<Longrightarrow> body_ops ops \<Longrightarrow>
   fold (handler_step env) ops (streaming env w h s bs) = streaming env w h s (bs @ chunks ops)"
proof (induction ops arbitrary: bs)
  case (Cons op ops)
  have "handler_step env op (streaming env w h s bs) = streaming env w h s (bs @ chunks [op])"
    using Cons.prems
    by (cases op) (auto simp: body_ops_def Write_def Flush_def write_through_def writeClient_def cw_Write_def
        cw_WriteHeader_def streaming_def new_interceptor_def fresh_writer_def on_w_def Let_def)
  moreover have "chunks [op] @ chunks ops = chunks (op # ops)" by (cases op) simp_all
  ultimately show ?case using Cons by (simp add: body_ops_def)
qed simp

lemma answer_streams:
  assumes "\<not> sn_VerifyOnly env" "sn_SettleOnDelivery env" "200 \<le> s" "s < 400" "is_event_stream h" "fresh_writer w"
    and "body_ops ops"
  shows "fold (handler_step env) (answer_ops h s ops) (new_interceptor env w []) = streaming env w h s (chunks ops)"
proof -
  have "WriteHeader env s (on_w (\<lambda>w. w\<lparr>cw_header := h\<rparr>) (new_interceptor env w [])) = streaming env w h s []"
    using assms(1-6)
    by (auto simp: WriteHeader_def Let_def new_interceptor_def on_w_def streaming_def is_event_stream_def
        set_header_def cw_WriteHeader_def fresh_writer_def)
  then show ?thesis
    using stream_ops [of w ops env h s "[]"] assms(6,7) by (simp add: answer_ops_def)
qed

text \<open>The closure once the status is on the wire can only change headers.\<close>

lemma settle_failed_committed:
  "it_wroteStatus i \<Longrightarrow> cw_body (it_w (settle_failed resp i)) = cw_body (it_w i) \<and>
     cw_status (it_w (settle_failed resp i)) = cw_status (it_w i)"
  by (cases resp) (auto simp: settle_failed_def Let_def report_def on_w_def set_receipt_def set_header_def)

lemma settle_rejected_committed:
  "it_wroteStatus i \<Longrightarrow> cw_body (it_w (settle_rejected env r i)) = cw_body (it_w i) \<and>
     cw_status (it_w (settle_rejected env r i)) = cw_status (it_w i)"
  by (auto simp: settle_rejected_def Let_def report_def)

lemma settleFunc_committed:
  assumes "\<not> sn_VerifyOnly env" "json_parse (sn_payload env) \<noteq> None" "sn_payload env \<noteq> []"
    and "\<not> it_ctxErr i" "it_settleCalls i = []" "it_wroteStatus i" and f: "settleFunc env i = (ok, i')"
  shows "it_settleCalls i' = [(sn_payload env, sn_req env)] \<and> ok = settlement_ok env (sn_answer env 0) \<and>
    cw_body (it_w i') = cw_body (it_w i) \<and> cw_status (it_w i') = cw_status (it_w i) \<and> it_settled i' = it_settled i"
proof -
  have req: "facilitator_request (sn_payload env) (sn_req env) = Some (sn_payload env, sn_req env)"
    using assms by (simp add: facilitator_request_def)
  obtain resp err where r: "facilitatorSettle (sn_payload env) (sn_req env) (sn_answer env 0) = (resp, err)"
    by fastforce
  show ?thesis
  proof (cases err)
    case (Some e)
    then have "\<not> settlement_ok env (sn_answer env 0)" using r by (simp add: settlement_ok_def)
    with Some r assms req show ?thesis
      by (auto simp: settleFunc_def settle_failed_committed)
  next
    case None
    then obtain a where a: "resp = Some a" using r settle_no_error by blast
    have "settlement_ok env (sn_answer env 0) = sr_Success a" using r a None by (simp add: settlement_ok_def)
    with None a r assms req show ?thesis
      by (cases "sr_Success a")
         (auto simp: settleFunc_def settle_rejected_committed Let_def on_w_def set_receipt_def set_header_def)
  qed
qed

lemma finalize_streaming:
  assumes env: "\<not> sn_VerifyOnly env" "json_parse (sn_payload env) \<noteq> None" "sn_payload env \<noteq> []"
    and w: "fresh_writer w" and s: "200 \<le> s" "s < 400"
  shows "let i = finalize env (streaming env w h s bs);
             charge = (concat bs \<noteq> [] \<and> delivered (close_tap (fold feed bs new_tap))) in
    cw_status (it_w i) = Some s \<and> cw_body (it_w i) = concat bs \<and>
    it_settleCalls i = (if charge then [(sn_payload env, sn_req env)] else []) \<and>
    it_settled i = (charge \<and> settlement_ok env (sn_answer env 0))"
proof -
  define j where "j = (streaming env w h s bs)\<lparr>it_sseTap := Some (close_tap (fold feed bs new_tap))\<rparr>"
  have j: "\<not> it_ctxErr j" "it_settleCalls j = []" "it_wroteStatus j" "cw_body (it_w j) = concat bs"
      "cw_status (it_w j) = Some s" "\<not> it_settled j" "it_sseTap j = Some (close_tap (fold feed bs new_tap))"
    by (simp_all add: j_def streaming_def new_interceptor_def Let_def)
  obtain ok i' where f: "settleFunc env j = (ok, i')" by fastforce
  note o = settleFunc_committed [OF env j(1-3) f]
  have fin: "finalize env (streaming env w h s bs) =
    (if concat bs = [] then skip ''upstream_no_value'' (streaming env w h s bs)
     else if \<not> delivered (close_tap (fold feed bs new_tap)) then skip ''upstream_no_value'' j
     else if ok then i'\<lparr>it_settled := True\<rparr> else i')"
    using s f by (simp add: finalize_def finalize_stream_def j_def streaming_def new_interceptor_def Let_def)
  have str: "it_settleCalls (streaming env w h s bs) = []" "\<not> it_settled (streaming env w h s bs)"
      "cw_body (it_w (streaming env w h s bs)) = concat bs" "cw_status (it_w (streaming env w h s bs)) = Some s"
    by (simp_all add: streaming_def new_interceptor_def Let_def)
  show ?thesis
    unfolding fin Let_def using o j str by (simp add: skip_def report_def)
qed

subsection \<open>Sample data\<close>

definition ex_env :: "bool \<Rightarrow> string \<Rightarrow> settle_env" where
  "ex_env onDelivery tx =
     \<lparr>sn_VerifyOnly = False, sn_SettleOnDelivery = onDelivery, sn_payload = ''{}'', sn_req = empty_requirements,
      sn_answer = (\<lambda>_. FacAnswer 200 (json_print (JObj [(''success'', JBool True), (''transaction'', JStr tx)]))),
      sn_gunzip = (\<lambda>_. None), sn_quote = (\<lambda>s. s), sn_send = (\<lambda>_ w. w)\<rparr>"

definition ex_w :: resp_writer where
  "ex_w = \<lparr>cw_header = [], cw_status = None, cw_sent = [], cw_body = [], cw_info = [], cw_faults = [], cw_raw = None\<rparr>"

lemma ex_settles: "settlement_ok (ex_env d ''0x1'') (sn_answer (ex_env d ''0x1'') n)"
proof -
  have "facilitatorSettle ''{}'' empty_requirements
      (FacAnswer 200 (json_print (JObj [(''success'', JBool True), (''transaction'', JStr ''0x1'')]))) =
    (Some \<lparr>sr_Success = True, sr_ErrorReason = [], sr_ErrorMessage = [], sr_Transaction = ''0x1'',
        sr_Network = [], sr_Payer = []\<rparr>, None)"
    by code_simp
  then show ?thesis by (simp add: settlement_ok_def ex_env_def)
qed

lemma ex_env_simps [simp]:
  "\<not> sn_VerifyOnly (ex_env d tx)" "sn_SettleOnDelivery (ex_env d tx) = d" "sn_payload (ex_env d tx) = ''{}''"
  by (simp_all add: ex_env_def)

lemma ex_payload: "json_parse ''{}'' \<noteq> None"
  by code_simp

lemma ex_fresh: "fresh_writer ex_w"
  by (simp add: fresh_writer_def ex_w_def)

text \<open>C22: Whatever the paid handler does, in any order of headers, statuses, writes, flushes, upgrades
  and client disconnects, and whether it panics or not, \<open>/settle\<close> is called at most once, with the bytes
  that were verified and the seller's own requirement, never in verify-only mode and never when the
  handler's status was an error.  The request counts as settled only when that call reported success.\<close>

theorem settle_at_most_once:
  "let i = serve_next env ops panicked (new_interceptor env w []) in
    (if it_settleCalls i = [] then it_settled i \<longrightarrow> sn_VerifyOnly env
     else it_settleCalls i = [(sn_payload env, sn_req env)] \<and> \<not> sn_VerifyOnly env \<and>
          it_committed i \<and> it_status i < 400 \<and> (it_settled i \<longrightarrow> settlement_ok env (sn_answer env 0)))"
  using serve_next_charge [of env ops panicked w "[]"] by (auto simp: Let_def charge_ok_def calls_ok_def)

theorem settle_at_most_once_witness:
  "let i = serve_next (ex_env True ''0x1'') [HWriteHeader 500, HWrite ''no''] False
      (new_interceptor (ex_env True ''0x1'') ex_w []) in
    it_settleCalls i = [] \<and> \<not> it_settled i"
proof -
  have "it_settleCalls (serve_next (ex_env True ''0x1'') [HWriteHeader 500, HWrite ''no''] False
      (new_interceptor (ex_env True ''0x1'') ex_w [])) = []"
    by (simp add: serve_next_def WriteHeader_def Let_def new_interceptor_def on_w_def Write_def write_through_def
        writeClient_def finalize_def split: prod.split)
  then show ?thesis
    using settle_at_most_once [of "ex_env True ''0x1''" "[HWriteHeader 500, HWrite ''no'']" False ex_w]
    by (simp add: Let_def)
qed

text \<open>C25: On a route that settles on delivery, a complete JSON answer is held back until it is judged.  If
  it carries no value the client gets it unchanged and unpaid.  Otherwise \<open>/settle\<close> is called once: if it
  succeeds the client gets exactly the upstream's status and body with the receipt in the headers, and
  if it fails the client gets a payment error and not one byte of the upstream's body.\<close>

theorem held_answer_paid_or_withheld:
  assumes "\<not> sn_VerifyOnly env" "sn_SettleOnDelivery env" "sn_payload env \<noteq> []" "json_parse (sn_payload env) \<noteq> None"
    and "fresh_writer w" "200 \<le> s" "s < 400" "\<not> is_event_stream h"
    and "parse_int (hget h ''Content-Length'') = None \<or> the (parse_int (hget h ''Content-Length'')) \<le> deliveryBufferCap"
    and "body_ops ops" "concat (chunks ops) = body" "int (length body) \<le> deliveryBufferCap"
  shows "let i = serve_next env (answer_ops h s ops) False (new_interceptor env w []) in
    if judgeBufferedBody (sn_gunzip env) body h = DeliveryNoValue
    then it_settleCalls i = [] \<and> \<not> it_settled i \<and> cw_status (it_w i) = Some s \<and> cw_body (it_w i) = body \<and>
         hget (cw_sent (it_w i)) ''X-Payment-Settled'' = ''false''
    else it_settleCalls i = [(sn_payload env, sn_req env)] \<and> it_settled i = settlement_ok env (sn_answer env 0) \<and>
      (if it_settled i
       then cw_status (it_w i) = Some s \<and> cw_body (it_w i) = body \<and>
         (\<exists>r. facilitatorSettle (sn_payload env) (sn_req env) (sn_answer env 0) = (Some r, None) \<and>
              hget (cw_sent (it_w i)) ''PAYMENT-RESPONSE'' = base64_encode (marshal_settle r))
       else settle_refused env (it_w i))"
proof -
  have "serve_next env (answer_ops h s ops) False (new_interceptor env w []) = finalize env (held_answer env w h s body)"
    using answer_held [of env s h ops w] assms by (simp add: serve_next_def)
  then show ?thesis using finalize_held [of env w s h body] assms by simp
qed

theorem held_answer_paid_or_withheld_witness:
  "let i = serve_next (ex_env True ''0x1'') (answer_ops [] 200 [HWrite ''pl'', HFlush, HWrite ''ain'']) False
      (new_interceptor (ex_env True ''0x1'') ex_w []) in
    it_settled i \<and> cw_body (it_w i) = ''plain''"
proof -
  have v: "judgeBufferedBody (sn_gunzip (ex_env True ''0x1'')) ''plain'' [] \<noteq> DeliveryNoValue"
    by (simp add: ex_env_def) code_simp
  show ?thesis
    using held_answer_paid_or_withheld [of "ex_env True ''0x1''" ex_w 200 "[]" "[HWrite ''pl'', HFlush, HWrite ''ain'']" "''plain''"]
      v ex_settles [of True 0] ex_payload ex_fresh
    by (simp add: Let_def is_event_stream_def hget_def parse_int_def body_ops_def deliveryBufferCap_def)
qed

text \<open>A stream reaches the client unchanged as it comes, whatever happens to the payment.  When it ends,
  \<open>/settle\<close> is called exactly when bytes arrived and, if the stream is chat-shaped, some chunk carried
  content, however the upstream cut it into writes.\<close>

theorem stream_charged_iff_delivered:
  assumes "\<not> sn_VerifyOnly env" "sn_SettleOnDelivery env" "sn_payload env \<noteq> []" "json_parse (sn_payload env) \<noteq> None"
    and "fresh_writer w" "200 \<le> s" "s < 400" "is_event_stream h"
    and "body_ops ops" "concat (chunks ops) = body"
  shows "let i = serve_next env (answer_ops h s ops) False (new_interceptor env w []);
             charge = (body \<noteq> [] \<and> delivered (close_tap (feed body new_tap))) in
    cw_status (it_w i) = Some s \<and> cw_body (it_w i) = body \<and>
    it_settleCalls i = (if charge then [(sn_payload env, sn_req env)] else []) \<and>
    it_settled i = (charge \<and> settlement_ok env (sn_answer env 0))"
proof -
  have "delivered (close_tap (fold feed (chunks ops) new_tap)) = delivered (close_tap (feed body new_tap))"
    unfolding assms(10) [symmetric] by (rule same_tap_delivered [OF feed_chunks])
  then show ?thesis
    using answer_streams [of env s h w ops] finalize_streaming [of env w s h "chunks ops"] assms
    by (simp add: serve_next_def Let_def)
qed

theorem stream_charged_iff_delivered_witness:
  "let h = [(''content-type'', [''text/event-stream''])];
       i = serve_next (ex_env True ''0x1'') (answer_ops h 200 [HWrite ''data: x'']) False
         (new_interceptor (ex_env True ''0x1'') ex_w []) in
    it_settled i \<and> cw_body (it_w i) = ''data: x''"
proof -
  have h: "is_event_stream [(''content-type'', [''text/event-stream''])]" by code_simp
  have d: "delivered (close_tap (feed ''data: x'' new_tap))"
    by (simp add: delivered_def close_tap_def) code_simp
  show ?thesis
    using stream_charged_iff_delivered [of "ex_env True ''0x1''" ex_w 200 "[(''content-type'', [''text/event-stream''])]"
        "[HWrite ''data: x'']" "''data: x''"] h d ex_settles [of True 0] ex_payload ex_fresh
    by (simp add: Let_def body_ops_def)
qed

text \<open>An informational status settles the payment.  On a route that settles on the status, an upstream
  that sends 103 (or 100, 102 ...) and then fails with an error status still has the buyer charged: the
  informational status is taken for the final one, and the client is told 200.\<close>

theorem informational_status_settles:
  assumes "\<not> sn_VerifyOnly env" "\<not> sn_SettleOnDelivery env" "sn_payload env \<noteq> []" "json_parse (sn_payload env) \<noteq> None"
    and "settlement_ok env (sn_answer env 0)" "fresh_writer w" "\<not> is_event_stream (cw_header w)"
    and "100 \<le> info" "info < 200" "info \<noteq> 101"
  shows "let i = serve_next env (HWriteHeader info # answer_ops h 500 [HWrite b]) False (new_interceptor env w []) in
    it_settled i \<and> it_settleCalls i = [(sn_payload env, sn_req env)] \<and> cw_status (it_w i) = Some 200 \<and> cw_body (it_w i) = b"
proof -
  define i1 where "i1 = (new_interceptor env w [])\<lparr>it_committed := True, it_status := info\<rparr>"
  have i1: "\<not> it_ctxErr i1" "it_settleCalls i1 = []" "\<not> it_settled i1" "\<not> it_wroteStatus i1" "fresh_writer (it_w i1)"
    using assms by (simp_all add: i1_def new_interceptor_def)
  obtain ok i2 where n: "settleNow env i1 = (ok, i2)" by fastforce
  note o = settleNow_outcome [OF assms(1,4,3) i1 n]
  have ok: "ok" using o assms(5) by simp
  obtain r where r: "it_w i2 = cw_WriteHeader info (set_receipt r w)" using o ok by (auto simp: i1_def new_interceptor_def)
  have fr: "it_committed i2 \<and> \<not> it_hijacked i2 \<and> \<not> it_buffering i2 \<and> it_settled i2"
    using n ok settleFunc_frame [of env i1]
    by (auto simp: settleNow_def i1_def new_interceptor_def on_w_def split: prod.splits bool.splits)
  have "WriteHeader env info (new_interceptor env w []) = i2"
    using assms n i1_def by (simp add: WriteHeader_def Let_def is_event_stream_def new_interceptor_def)
  then have run: "serve_next env (HWriteHeader info # answer_ops h 500 [HWrite b]) False (new_interceptor env w []) =
      finalize env (snd (write_through b (on_w (\<lambda>w. w\<lparr>cw_header := h\<rparr>) i2)))"
    using fr by (simp add: serve_next_def answer_ops_def WriteHeader_def Write_def)
  have "cw_Write b (it_w i2\<lparr>cw_header := h\<rparr>) =
      ((length b, False), w\<lparr>cw_header := h, cw_info := cw_info w @ [info], cw_status := Some 200, cw_sent := h, cw_body := b\<rparr>)"
    using r assms(6,8-10) by (simp add: cw_Write_def cw_WriteHeader_def set_receipt_def set_header_def fresh_writer_def Let_def)
  then have wt: "snd (write_through b (on_w (\<lambda>w. w\<lparr>cw_header := h\<rparr>) i2)) =
      i2\<lparr>it_w := w\<lparr>cw_header := h, cw_info := cw_info w @ [info], cw_status := Some 200, cw_sent := h, cw_body := b\<rparr>,
         it_bytesWritten := it_bytesWritten i2 + length b, it_sseTap := map_option (feed b) (it_sseTap i2)\<rparr>"
    by (simp add: write_through_def writeClient_def on_w_def)
  show ?thesis
    using fr o by (simp add: run wt finalize_def)
qed

theorem informational_status_settles_witness:
  "let i = serve_next (ex_env False ''0x1'') (HWriteHeader 103 # answer_ops [] 500 [HWrite ''oops'']) False
      (new_interceptor (ex_env False ''0x1'') ex_w []) in
    it_settled i \<and> cw_status (it_w i) = Some 200"
proof -
  have h: "\<not> is_event_stream (cw_header ex_w)" by code_simp
  show ?thesis
    using informational_status_settles [of "ex_env False ''0x1''" ex_w 103 "[]" "''oops''"] h
      ex_settles [of False 0] ex_payload ex_fresh
    by (simp add: Let_def)
qed

text \<open>An upgraded connection is never paid for.  When the proxy takes the connection over for a protocol
  upgrade, before any status, the verified payment is not settled, whatever is served on the connection.\<close>

theorem upgrade_never_settles:
  "fresh_writer w \<Longrightarrow>
   (let i = serve_next env [HUpgrade raw] panicked (new_interceptor env w []) in
     it_settleCalls i = [] \<and> \<not> it_settled i \<and> \<not> it_settleOnChain i \<and> cw_raw (it_w i) = Some raw)"
  by (auto simp: serve_next_def Let_def Hijack_def new_interceptor_def on_w_def finalize_def fresh_writer_def)

theorem upgrade_never_settles_witness:
  "let i = serve_next (ex_env True ''0x1'') [HUpgrade ''frames''] False (new_interceptor (ex_env True ''0x1'') ex_w []) in
    it_settleCalls i = [] \<and> cw_raw (it_w i) = Some ''frames''"
  using upgrade_never_settles [OF ex_fresh, of "ex_env True ''0x1''" "''frames''" False] by (simp add: Let_def)

end
