(* ===== verification/PaymentInUse.thy ===== *)
theory PaymentInUse imports Chains begin

text \<open>
  \<open>internal/x402/payment_inuse.go\<close>: the registry of payments that are being served or were settled a
  short while ago, and the interface \<open>claim_registry\<close> that the payment middleware relies on.

  The mutex makes each method atomic; \<open>now\<close> is the value of the injected clock at the call.
  \<open>format_float\<close> is \<open>strconv.FormatFloat(t, 'g', -1, 64)\<close> and
  \<open>sha256_hex\<close> the hexadecimal SHA-256 of a string.
\<close>

record inuse_entry =
  ie_inFlight :: bool
  ie_expires :: nsec

record inuse_registry =
  ir_entries :: "(string, inuse_entry) gomap"
  ir_maxEntries :: int
  ir_settledCap :: nsec
  ir_lastSweep :: nsec

datatype claim_result = ClaimOK | ClaimInUse | ClaimFull

definition paymentInUseSettledCap :: nsec where "paymentInUseSettledCap = 10 * minute"
definition paymentInUseMaxEntries :: int where "paymentInUseMaxEntries = 100000"
definition paymentInUseSweepInterval :: nsec where "paymentInUseSweepInterval = 30 * second"

definition NewPaymentInUseRegistry :: inuse_registry where
  "NewPaymentInUseRegistry = \<lparr>ir_entries = [], ir_maxEntries = paymentInUseMaxEntries,
     ir_settledCap = paymentInUseSettledCap, ir_lastSweep = zero_time\<rparr>"

definition sweepLocked :: "nsec \<Rightarrow> inuse_registry \<Rightarrow> inuse_registry" where
  "sweepLocked now p =
     p\<lparr>ir_lastSweep := now,
       ir_entries := filter (\<lambda>(k, e). \<not> (\<not> ie_inFlight e \<and> \<not> now < ie_expires e)) (ir_entries p)\<rparr>"

text \<open>The end of \<open>claim\<close>, once the key is known not to be blocked.\<close>

definition claim_free :: "nsec \<Rightarrow> string \<Rightarrow> inuse_registry \<Rightarrow> inuse_registry \<times> claim_result" where
  "claim_free now key p =
     (let p1 = (if now - ir_lastSweep p \<ge> paymentInUseSweepInterval \<or>
                   int (length (ir_entries p)) \<ge> ir_maxEntries p then sweepLocked now p else p)
      in if int (length (ir_entries p1)) \<ge> ir_maxEntries p1 then (p1, ClaimFull)
         else (p1\<lparr>ir_entries := AList.update key \<lparr>ie_inFlight = True, ie_expires = zero_time\<rparr> (ir_entries p1)\<rparr>,
               ClaimOK))"

definition claim :: "nsec \<Rightarrow> string \<Rightarrow> inuse_registry \<Rightarrow> inuse_registry \<times> claim_result" where
  "claim now key p =
     (case map_of (ir_entries p) key of
        Some e \<Rightarrow>
          if ie_inFlight e \<or> now < ie_expires e then (p, ClaimInUse)
          else claim_free now key (p\<lparr>ir_entries := AList.delete key (ir_entries p)\<rparr>)
      | None \<Rightarrow> claim_free now key p)"

text \<open>\<open>None\<close> for the deadline is the zero time.\<close>

definition settled_until :: "nsec \<Rightarrow> nsec \<Rightarrow> nsec option \<Rightarrow> nsec" where
  "settled_until now cap deadline =
     (case deadline of None \<Rightarrow> now + cap | Some d \<Rightarrow> if d < now + cap then d else now + cap)"

definition release :: "nsec \<Rightarrow> string \<Rightarrow> bool \<Rightarrow> nsec option \<Rightarrow> inuse_registry \<Rightarrow> inuse_registry" where
  "release now key settled deadline p =
     (if \<not> settled then p\<lparr>ir_entries := AList.delete key (ir_entries p)\<rparr>
      else (let expires = settled_until now (ir_settledCap p) deadline
            in if \<not> now < expires then p\<lparr>ir_entries := AList.delete key (ir_entries p)\<rparr>
               else p\<lparr>ir_entries := AList.update key \<lparr>ie_inFlight = False, ie_expires = expires\<rparr> (ir_entries p)\<rparr>))"

subsection \<open>The key of a payment\<close>

definition normalizeAddressField :: "goany option \<Rightarrow> string" where
  "normalizeAddressField v = (case v of Some (GStr s) \<Rightarrow> to_lower (trim_space s) | _ \<Rightarrow> [])"

definition float_is_small_nat :: "float64 \<Rightarrow> bool" where
  "float_is_small_nat f =
     (let (m, e) = f; i = float_trunc f
      in 0 \<le> m \<and> (e \<ge> 0 \<or> m mod 2 ^ nat (- e) = 0) \<and> i < 1000000000000000000)"

definition normalizeNonceField :: "(float64 \<Rightarrow> string) \<Rightarrow> goany option \<Rightarrow> string" where
  "normalizeNonceField format_float v =
     (case v of
        Some (GStr t) \<Rightarrow> to_lower (trim_space t)
      | Some (GNumber t) \<Rightarrow> t
      | Some (GFloat f) \<Rightarrow> if float_is_small_nat f then show_int (float_to_int64 f) else format_float f
      | _ \<Rightarrow> [])"

definition unixSecondsField :: "goany option \<Rightarrow> int option" where
  "unixSecondsField v =
     (case v of
        Some (GStr t) \<Rightarrow> parse_int (trim_space t)
      | Some (GNumber t) \<Rightarrow> parse_int t
      | Some (GFloat f) \<Rightarrow>
          if float_trunc f > max_int64 + 1 \<or> float_trunc f < min_int64 then None else Some (float_to_int64 f)
      | _ \<Rightarrow> None)"

definition key_network :: "string \<Rightarrow> string" where
  "key_network network =
     (case ResolveChainInfo network of
        Some chain \<Rightarrow> if ci_CAIP2Network chain \<noteq> [] then to_lower (ci_CAIP2Network chain) else to_lower (trim_space network)
      | None \<Rightarrow> to_lower (trim_space network))"

definition paymentInUseKey ::
  "(float64 \<Rightarrow> string) \<Rightarrow> (string \<Rightarrow> string) \<Rightarrow> payment_payload \<Rightarrow> string \<Rightarrow> string" where
  "paymentInUseKey format_float sha256_hex payload rawHeader =
     (let network = key_network (pr_network (pp_accepted payload));
          scheme = to_lower (trim_space (pr_scheme (pp_accepted payload)));
          fields = (\<lambda>auth. (normalizeAddressField (map_of auth ''from''), normalizeNonceField format_float (map_of auth ''nonce'')));
          raw = ''raw|'' @ sha256_hex (trim_space rawHeader);
          permit2 = (case as_map (map_of (pp_payload payload) ''permit2Authorization'') of
              None \<Rightarrow> raw
            | Some auth \<Rightarrow> (case fields auth of (from, nonce) \<Rightarrow>
                if from \<noteq> [] \<and> nonce \<noteq> [] then join_with ''|'' [''permit2'', scheme, network, from, nonce] else raw))
      in (case as_map (map_of (pp_payload payload) ''authorization'') of
            None \<Rightarrow> permit2
          | Some auth \<Rightarrow> (case fields auth of (from, nonce) \<Rightarrow>
              if from \<noteq> [] \<and> nonce \<noteq> []
              then join_with ''|'' [''eip3009'', scheme, network, to_lower (trim_space (pr_asset (pp_accepted payload))), from, nonce]
              else permit2)))"

text \<open>\<open>time.Unix\<close> adds the offset of the year 1 in 64-bit arithmetic, which wraps for a far future.\<close>

definition wrap64 :: "int \<Rightarrow> int" where
  "wrap64 i = (i + 9223372036854775808) mod 18446744073709551616 - 9223372036854775808"

definition time_Unix :: "int \<Rightarrow> nsec" where
  "time_Unix secs = of_unix (wrap64 (secs + 62135596800) - 62135596800)"

definition paymentDeadline :: "payment_payload \<Rightarrow> nsec option" where
  "paymentDeadline payload =
     (let raw = (case as_map (map_of (pp_payload payload) ''authorization'') of
                   Some auth \<Rightarrow> map_of auth ''validBefore''
                 | None \<Rightarrow> (case as_map (map_of (pp_payload payload) ''permit2Authorization'') of
                       Some auth \<Rightarrow> map_of auth ''deadline''
                     | None \<Rightarrow> None))
      in (case unixSecondsField raw of
            None \<Rightarrow> None
          | Some secs \<Rightarrow> if secs \<le> 0 then None else Some (time_Unix secs)))"

subsection \<open>What the operations do to the entries\<close>

definition inflight_keys :: "inuse_registry \<Rightarrow> string set" where
  "inflight_keys p = {k. \<exists>e. map_of (ir_entries p) k = Some e \<and> ie_inFlight e}"

definition blocked :: "nsec \<Rightarrow> string \<Rightarrow> inuse_registry \<Rightarrow> bool" where
  "blocked now key p = (case map_of (ir_entries p) key of None \<Rightarrow> False | Some e \<Rightarrow> ie_inFlight e \<or> now < ie_expires e)"

definition registry_wf :: "inuse_registry \<Rightarrow> bool" where
  "registry_wf p \<longleftrightarrow> gomap (ir_entries p) \<and> int (length (ir_entries p)) \<le> ir_maxEntries p"

lemma sweep_lookup:
  "gomap (ir_entries p) \<Longrightarrow> map_of (ir_entries (sweepLocked now p)) k =
     (case map_of (ir_entries p) k of None \<Rightarrow> None
      | Some e \<Rightarrow> if ie_inFlight e \<or> now < ie_expires e then Some e else None)"
  by (auto simp: sweepLocked_def map_of_filter_gomap split: option.splits)

lemma sweep_wf [inv_intro]: "registry_wf p \<Longrightarrow> registry_wf (sweepLocked now p)"
  using length_filter_le [of "\<lambda>(k, e). \<not> (\<not> ie_inFlight e \<and> \<not> now < ie_expires e)" "ir_entries p"]
  unfolding registry_wf_def sweepLocked_def by (auto simp del: length_filter_le)

lemma delete_wf [inv_intro]: "registry_wf p \<Longrightarrow> registry_wf (p\<lparr>ir_entries := AList.delete key (ir_entries p)\<rparr>)"
  using length_delete_le' [of key "ir_entries p"] by (auto simp: registry_wf_def)

lemma sweep_frame [simp]:
  "ir_maxEntries (sweepLocked now p) = ir_maxEntries p" "ir_settledCap (sweepLocked now p) = ir_settledCap p"
  by (simp_all add: sweepLocked_def)

lemma blocked_sweep [simp]: "gomap (ir_entries p) \<Longrightarrow> blocked now k (sweepLocked now p) = blocked now k p"
  by (auto simp: blocked_def sweep_lookup split: option.splits)

lemma inflight_sweep [simp]: "gomap (ir_entries p) \<Longrightarrow> inflight_keys (sweepLocked now p) = inflight_keys p"
  by (auto simp: inflight_keys_def sweep_lookup split: option.splits if_splits)

lemma inflight_blocked: "k \<in> inflight_keys p \<Longrightarrow> blocked now k p"
  by (auto simp: inflight_keys_def blocked_def)

lemma inflight_update:
  "inflight_keys (p\<lparr>ir_entries := AList.update k e (ir_entries p)\<rparr>) =
     (if ie_inFlight e then insert k (inflight_keys p) else inflight_keys p - {k})"
  by (auto simp: inflight_keys_def)

lemma inflight_delete:
  "inflight_keys (p\<lparr>ir_entries := AList.delete k (ir_entries p)\<rparr>) = inflight_keys p - {k}"
  by (auto simp: inflight_keys_def)

lemma blocked_update:
  "blocked now k' (p\<lparr>ir_entries := AList.update k e (ir_entries p)\<rparr>) =
     (if k' = k then ie_inFlight e \<or> now < ie_expires e else blocked now k' p)"
  by (simp add: blocked_def)

lemma blocked_delete:
  "blocked now k' (p\<lparr>ir_entries := AList.delete k (ir_entries p)\<rparr>) = (k' \<noteq> k \<and> blocked now k' p)"
  by (simp add: blocked_def)

lemma claim_free_effect:
  assumes wf: "registry_wf p" and absent: "map_of (ir_entries p) key = None"
    and c: "claim_free now key p = (p', r)"
  shows "r \<noteq> ClaimInUse" and "registry_wf p'"
    and "inflight_keys p' = (if r = ClaimOK then insert key (inflight_keys p) else inflight_keys p)"
    and "blocked now k p' = (blocked now k p \<or> (r = ClaimOK \<and> k = key))"
    and "ir_maxEntries p' = ir_maxEntries p" and "ir_settledCap p' = ir_settledCap p"
proof -
  define q where "q = (if now - ir_lastSweep p \<ge> paymentInUseSweepInterval \<or>
     int (length (ir_entries p)) \<ge> ir_maxEntries p then sweepLocked now p else p)"
  have g: "gomap (ir_entries p)" using wf by (simp add: registry_wf_def)
  have q: "registry_wf q" "inflight_keys q = inflight_keys p" "\<And>k. blocked now k q = blocked now k p"
      "map_of (ir_entries q) key = None" "ir_maxEntries q = ir_maxEntries p" "ir_settledCap q = ir_settledCap p"
    using wf g absent by (auto simp: q_def sweep_lookup intro: inv_intro)
  have p': "(p', r) = (if int (length (ir_entries q)) \<ge> ir_maxEntries q then (q, ClaimFull)
      else (q\<lparr>ir_entries := AList.update key \<lparr>ie_inFlight = True, ie_expires = zero_time\<rparr> (ir_entries q)\<rparr>, ClaimOK))"
    using c [unfolded claim_free_def Let_def, folded q_def] by (rule sym)
  have len: "length (AList.update key e (ir_entries q)) = Suc (length (ir_entries q))" for e
    using q(4) by (rule length_update_absent)
  show "r \<noteq> ClaimInUse" using p' by (auto split: if_splits)
  show "registry_wf p'" using p' q(1) len by (auto simp: registry_wf_def split: if_splits)
  show "inflight_keys p' = (if r = ClaimOK then insert key (inflight_keys p) else inflight_keys p)"
    using p' q(2) by (auto simp: inflight_update split: if_splits)
  show "blocked now k p' = (blocked now k p \<or> (r = ClaimOK \<and> k = key))"
    using p' q(3) by (auto simp: blocked_update split: if_splits)
  show "ir_maxEntries p' = ir_maxEntries p" "ir_settledCap p' = ir_settledCap p"
    using p' q by (auto split: if_splits)
qed

lemma claim_effect:
  assumes wf: "registry_wf p" and c: "claim now key p = (p', r)"
  shows "(r = ClaimInUse \<longleftrightarrow> blocked now key p) \<and> (r = ClaimInUse \<longrightarrow> p' = p) \<and> registry_wf p' \<and>
    inflight_keys p' = (if r = ClaimOK then insert key (inflight_keys p) else inflight_keys p) \<and>
    (\<forall>k. blocked now k p' = (blocked now k p \<or> (r = ClaimOK \<and> k = key))) \<and>
    ir_maxEntries p' = ir_maxEntries p \<and> ir_settledCap p' = ir_settledCap p"
proof (cases "blocked now key p")
  case True
  with c have "p' = p \<and> r = ClaimInUse" by (auto simp: claim_def blocked_def split: option.splits)
  with True wf show ?thesis by simp
next
  case False
  then have nf: "key \<notin> inflight_keys p" using inflight_blocked by blast
  show ?thesis
  proof (cases "map_of (ir_entries p) key")
    case None
    then have free: "claim_free now key p = (p', r)" using c by (simp add: claim_def)
    note e = claim_free_effect [OF wf None free]
    show ?thesis using e(1) False by (simp add: e(2,3,5,6)) (simp add: e(4))
  next
    case (Some x)
    let ?d = "p\<lparr>ir_entries := AList.delete key (ir_entries p)\<rparr>"
    have wfd: "registry_wf ?d"
      using wf by (rule delete_wf)
    have free: "claim_free now key ?d = (p', r)" using c Some False by (simp add: claim_def blocked_def)
    have keep: "inflight_keys ?d = inflight_keys p" "\<And>k. blocked now k ?d = blocked now k p"
      using nf False by (auto simp: inflight_delete blocked_delete)
    note e = claim_free_effect [OF wfd _ free]
    show ?thesis using e(1) False by (simp add: e(2,3,5,6) keep) (simp add: e(4) keep)
  qed
qed

lemma claim_blocked: "blocked now key p \<Longrightarrow> claim now key p = (p, ClaimInUse)"
  by (auto simp: claim_def blocked_def split: option.splits)

lemma release_effect:
  assumes wf: "registry_wf p" and busy: "key \<in> inflight_keys p"
  shows "registry_wf (release now key settled deadline p)"
    and "inflight_keys (release now key settled deadline p) = inflight_keys p - {key}"
    and "blocked t k (release now key settled deadline p) =
      (if k = key then settled \<and> now < settled_until now (ir_settledCap p) deadline \<and>
          t < settled_until now (ir_settledCap p) deadline
       else blocked t k p)"
proof -
  have "length (AList.update key e (ir_entries p)) = length (ir_entries p)" for e
    using busy by (intro length_update_present) (auto simp: inflight_keys_def)
  then show "registry_wf (release now key settled deadline p)"
    using wf delete_wf [OF wf, of key] by (auto simp: registry_wf_def release_def Let_def)
  show "inflight_keys (release now key settled deadline p) = inflight_keys p - {key}"
    by (auto simp: release_def Let_def inflight_update inflight_delete)
  show "blocked t k (release now key settled deadline p) =
      (if k = key then settled \<and> now < settled_until now (ir_settledCap p) deadline \<and>
          t < settled_until now (ir_settledCap p) deadline
       else blocked t k p)"
    by (auto simp: release_def Let_def blocked_update blocked_delete)
qed

lemma claim_free_keeps:
  "registry_wf p \<Longrightarrow> map_of (ir_entries p) k = Some e \<Longrightarrow> k \<noteq> key \<Longrightarrow> now < ie_expires e \<Longrightarrow>
   claim_free now key p = (p', r) \<Longrightarrow> map_of (ir_entries p') k = Some e"
  by (auto simp: claim_free_def Let_def sweep_lookup registry_wf_def split: if_splits)

lemma claim_keeps_settled:
  assumes "registry_wf p" and "map_of (ir_entries p) k = Some e" and "now < ie_expires e"
    and "claim now key p = (p', r)"
  shows "map_of (ir_entries p') k = Some e"
proof (cases "key = k")
  case True
  with assms show ?thesis by (auto simp: claim_def)
next
  case False
  have "registry_wf (p\<lparr>ir_entries := AList.delete key (ir_entries p)\<rparr>)"
    using assms(1) by (rule delete_wf)
  with False assms show ?thesis
    by (auto simp: claim_def intro: claim_free_keeps split: option.splits if_splits)
qed

subsection \<open>The interface of the registry\<close>

text \<open>
  What a request that serves a payment relies on: a granted claim is exclusive until it is finished,
  a denied one changes nothing that others hold.
\<close>

locale claim_registry =
  fixes held :: "'s \<Rightarrow> 'k set" and valid :: "'s \<Rightarrow> bool"
    and try_claim :: "'i \<Rightarrow> 'k \<Rightarrow> 's \<Rightarrow> 's \<times> bool" and finish :: "'o \<Rightarrow> 'k \<Rightarrow> 's \<Rightarrow> 's"
  assumes claim_valid: "valid s \<Longrightarrow> try_claim i k s = (s', b) \<Longrightarrow> valid s'"
    and claim_granted: "valid s \<Longrightarrow> try_claim i k s = (s', True) \<Longrightarrow> k \<notin> held s \<and> held s' = insert k (held s)"
    and claim_denied: "valid s \<Longrightarrow> try_claim i k s = (s', False) \<Longrightarrow> held s' = held s"
    and finish_valid: "valid s \<Longrightarrow> k \<in> held s \<Longrightarrow> valid (finish x k s)"
    and finish_held: "valid s \<Longrightarrow> k \<in> held s \<Longrightarrow> held (finish x k s) = held s - {k}"
begin

text \<open>\<open>ks\<close> are the keys of the requests that hold a claim.\<close>

lemma serving_claim:
  "valid s \<Longrightarrow> distinct ks \<Longrightarrow> set ks = held s \<Longrightarrow> try_claim i k s = (s', True) \<Longrightarrow>
   distinct (k # ks) \<and> set (k # ks) = held s'"
  using claim_granted by fastforce

lemma serving_denied:
  "valid s \<Longrightarrow> set ks = held s \<Longrightarrow> try_claim i k s = (s', False) \<Longrightarrow> set ks = held s'"
  by (simp add: claim_denied)

lemma serving_finish:
  "valid s \<Longrightarrow> distinct ks \<Longrightarrow> set ks = held s \<Longrightarrow> k \<in> set ks \<Longrightarrow>
   distinct (remove1 k ks) \<and> set (remove1 k ks) = held (finish x k s)"
  by (simp add: finish_held set_remove1_eq)

lemma held_refused: "valid s \<Longrightarrow> k \<in> held s \<Longrightarrow> try_claim i k s = (s', b) \<Longrightarrow> \<not> b"
  by (cases b) (auto dest: claim_granted)

end

interpretation inuse: claim_registry inflight_keys registry_wf
  "\<lambda>now k p. (fst (claim now k p), snd (claim now k p) = ClaimOK)"
  "\<lambda>(now, settled, deadline) k p. release now k settled deadline p"
proof unfold_locales
  fix s s' :: inuse_registry and now k b
  assume wf: "registry_wf s"
  note e = claim_effect [OF wf surjective_pairing, of now k]
  show "(fst (claim now k s), snd (claim now k s) = ClaimOK) = (s', b) \<Longrightarrow> registry_wf s'" using e by auto
  show "k \<notin> inflight_keys s \<and> inflight_keys s' = insert k (inflight_keys s)"
    if "(fst (claim now k s), snd (claim now k s) = ClaimOK) = (s', True)"
    using that e inflight_blocked [of k s now] by auto
  show "inflight_keys s' = inflight_keys s"
    if "(fst (claim now k s), snd (claim now k s) = ClaimOK) = (s', False)"
    using that e by auto
next
  fix s :: inuse_registry and k and x :: "nsec \<times> bool \<times> nsec option"
  assume "registry_wf s" "k \<in> inflight_keys s"
  then show "registry_wf ((case x of (now, settled, deadline) \<Rightarrow> \<lambda>k. release now k settled deadline) k s)"
    and "inflight_keys ((case x of (now, settled, deadline) \<Rightarrow> \<lambda>k. release now k settled deadline) k s) = inflight_keys s - {k}"
    by (cases x; simp add: release_effect)+
qed

subsection \<open>Runs\<close>

text \<open>
  Concurrent requests on one registry: \<open>iu_serving\<close> are the keys being served, \<open>iu_settled\<close> the keys
  that were released as settled with the time until which they stay blocked.
\<close>

record inuse_run =
  iu_registry :: inuse_registry
  iu_now :: nsec
  iu_serving :: "string list"
  iu_settled :: "(string \<times> nsec) list"

inductive inuse_step :: "inuse_run \<Rightarrow> inuse_run \<Rightarrow> bool" where
  tick: "iu_now R \<le> t \<Longrightarrow> inuse_step R (R\<lparr>iu_now := t\<rparr>)"
| granted: "claim (iu_now R) key (iu_registry R) = (p, ClaimOK) \<Longrightarrow>
    inuse_step R (R\<lparr>iu_registry := p, iu_serving := key # iu_serving R\<rparr>)"
| refused: "claim (iu_now R) key (iu_registry R) = (p, r) \<Longrightarrow> r \<noteq> ClaimOK \<Longrightarrow>
    inuse_step R (R\<lparr>iu_registry := p\<rparr>)"
| finished: "key \<in> set (iu_serving R) \<Longrightarrow>
    inuse_step R (R\<lparr>iu_registry := release (iu_now R) key settled deadline (iu_registry R),
      iu_serving := remove1 key (iu_serving R),
      iu_settled := (if settled then (key, settled_until (iu_now R) (ir_settledCap (iu_registry R)) deadline) # iu_settled R
                     else iu_settled R)\<rparr>)"

inductive_cases inuse_stepE: "inuse_step R R'"

inductive inuse_reachable :: "inuse_run \<Rightarrow> bool" where
  start: "0 \<le> n \<Longrightarrow> inuse_reachable \<lparr>iu_registry = NewPaymentInUseRegistry\<lparr>ir_maxEntries := n, ir_settledCap := cap\<rparr>,
     iu_now = t, iu_serving = [], iu_settled = []\<rparr>"
| step: "inuse_reachable R \<Longrightarrow> inuse_step R R' \<Longrightarrow> inuse_reachable R'"

definition settled_blocked :: "nsec \<Rightarrow> inuse_registry \<Rightarrow> string \<times> nsec \<Rightarrow> bool" where
  "settled_blocked now p kt =
     (now < snd kt \<longrightarrow> (\<exists>e. map_of (ir_entries p) (fst kt) = Some e \<and> \<not> ie_inFlight e \<and> snd kt \<le> ie_expires e))"

definition inuse_inv :: "inuse_run \<Rightarrow> bool" where
  "inuse_inv R \<longleftrightarrow> registry_wf (iu_registry R) \<and> distinct (iu_serving R) \<and>
     set (iu_serving R) = inflight_keys (iu_registry R) \<and>
     (\<forall>kt \<in> set (iu_settled R). settled_blocked (iu_now R) (iu_registry R) kt)"

lemma settled_blocked_claim:
  "registry_wf p \<Longrightarrow> settled_blocked now p kt \<Longrightarrow> claim now key p = (p', r) \<Longrightarrow> settled_blocked now p' kt"
proof (unfold settled_blocked_def, rule impI)
  assume wf: "registry_wf p" and s: "now < snd kt \<longrightarrow> (\<exists>e. map_of (ir_entries p) (fst kt) = Some e \<and> \<not> ie_inFlight e \<and> snd kt \<le> ie_expires e)"
    and c: "claim now key p = (p', r)" and t: "now < snd kt"
  then obtain e where e: "map_of (ir_entries p) (fst kt) = Some e" "\<not> ie_inFlight e" "snd kt \<le> ie_expires e" by blast
  have "map_of (ir_entries p') (fst kt) = Some e"
    by (rule claim_keeps_settled [OF wf e(1) _ c]) (use t e(3) in linarith)
  with e show "\<exists>e. map_of (ir_entries p') (fst kt) = Some e \<and> \<not> ie_inFlight e \<and> snd kt \<le> ie_expires e" by blast
qed

lemma settled_blocked_release:
  "key \<in> inflight_keys p \<Longrightarrow> settled_blocked now p kt \<Longrightarrow> settled_blocked now (release now key settled deadline p) kt"
  by (auto simp: settled_blocked_def release_def Let_def inflight_keys_def)

lemma settled_blocked_new:
  "settled_blocked now (release now key True deadline p) (key, settled_until now (ir_settledCap p) deadline)"
  by (auto simp: settled_blocked_def release_def Let_def)

lemma inuse_step_inv [inv_intro]:
  assumes "inuse_step R R'" and inv: "inuse_inv R"
  shows "inuse_inv R'"
  using assms(1)
proof cases
  case (tick t)
  with inv show ?thesis by (fastforce simp: inuse_inv_def settled_blocked_def)
next
  case (granted key p)
  have wf: "registry_wf (iu_registry R)" using inv by (simp add: inuse_inv_def)
  have "distinct (key # iu_serving R) \<and> set (key # iu_serving R) = inflight_keys p"
  proof -
    have b: "(fst (claim (iu_now R) key (iu_registry R)), snd (claim (iu_now R) key (iu_registry R)) = ClaimOK) = (p, True)"
      using granted(2) by simp
    have "distinct (iu_serving R)" "set (iu_serving R) = inflight_keys (iu_registry R)"
      using inv by (simp_all add: inuse_inv_def)
    from inuse.serving_claim [OF wf this b] show ?thesis .
  qed
  moreover have "registry_wf p" using claim_effect [OF wf granted(2)] by blast
  moreover have "\<forall>kt \<in> set (iu_settled R). settled_blocked (iu_now R) p kt"
    using inv settled_blocked_claim [OF wf _ granted(2)] unfolding inuse_inv_def by blast
  ultimately show ?thesis unfolding granted(1) by (simp add: inuse_inv_def)
next
  case (refused key p r)
  have wf: "registry_wf (iu_registry R)" using inv by (simp add: inuse_inv_def)
  have "set (iu_serving R) = inflight_keys p"
  proof -
    have b: "(fst (claim (iu_now R) key (iu_registry R)), snd (claim (iu_now R) key (iu_registry R)) = ClaimOK) = (p, False)"
      using refused(2,3) by simp
    have "set (iu_serving R) = inflight_keys (iu_registry R)" using inv by (simp add: inuse_inv_def)
    from inuse.serving_denied [OF wf this b] show ?thesis .
  qed
  moreover have "registry_wf p" using claim_effect [OF wf refused(2)] by blast
  moreover have "\<forall>kt \<in> set (iu_settled R). settled_blocked (iu_now R) p kt"
    using inv settled_blocked_claim [OF wf _ refused(2)] unfolding inuse_inv_def by blast
  ultimately show ?thesis using inv unfolding refused(1) by (simp add: inuse_inv_def)
next
  case (finished key settled deadline)
  let ?p = "release (iu_now R) key settled deadline (iu_registry R)"
  have key: "key \<in> inflight_keys (iu_registry R)" and wf: "registry_wf (iu_registry R)"
    using inv finished by (auto simp: inuse_inv_def)
  have "distinct (remove1 key (iu_serving R)) \<and> set (remove1 key (iu_serving R)) = inflight_keys ?p"
    using inuse.serving_finish [OF wf, of "iu_serving R" key "(iu_now R, settled, deadline)"] inv finished(2)
    by (simp add: inuse_inv_def)
  then show ?thesis
    using inv finished release_effect(1) [OF wf key] settled_blocked_release [OF key] settled_blocked_new
    by (auto simp: inuse_inv_def)
qed

lemma inuse_reachable_inv: "inuse_reachable R \<Longrightarrow> inuse_inv R"
proof (induction rule: inuse_reachable.induct)
  case start
  then show ?case by (simp add: inuse_inv_def registry_wf_def NewPaymentInUseRegistry_def inflight_keys_def)
qed (rule inuse_step_inv)

subsection \<open>Properties\<close>

text \<open>However requests interleave their claims and releases and time advances, no two requests serve
  the same payment at the same time, the registry never exceeds its capacity, and a payment that is
  being served is refused to everybody else without changing the registry.\<close>

theorem payment_served_once:
  assumes "inuse_reachable R"
  shows "distinct (iu_serving R) \<and> int (length (iu_serving R)) \<le> ir_maxEntries (iu_registry R) \<and>
    int (length (ir_entries (iu_registry R))) \<le> ir_maxEntries (iu_registry R) \<and>
    (\<forall>key \<in> set (iu_serving R). claim (iu_now R) key (iu_registry R) = (iu_registry R, ClaimInUse))"
proof -
  have inv: "registry_wf (iu_registry R)" "distinct (iu_serving R)" "set (iu_serving R) = inflight_keys (iu_registry R)"
    using inuse_reachable_inv [OF assms] by (auto simp: inuse_inv_def)
  have refused: "claim (iu_now R) key (iu_registry R) = (iu_registry R, ClaimInUse)" if "key \<in> set (iu_serving R)" for key
    using that inv(3) by (intro claim_blocked inflight_blocked) simp
  have "set (iu_serving R) \<subseteq> fst ` set (ir_entries (iu_registry R))"
    unfolding inv(3) inflight_keys_def by (force dest: map_of_SomeD)
  then have "card (set (iu_serving R)) \<le> card (fst ` set (ir_entries (iu_registry R)))" by (intro card_mono) simp_all
  also have "\<dots> = card (set (map fst (ir_entries (iu_registry R))))" by simp
  also have "\<dots> \<le> length (ir_entries (iu_registry R))" by (metis card_length length_map)
  finally have "length (iu_serving R) \<le> length (ir_entries (iu_registry R))"
    using inv(2) by (simp add: distinct_card)
  with inv refused show ?thesis by (auto simp: registry_wf_def)
qed

definition wit_registry :: inuse_registry where
  "wit_registry = NewPaymentInUseRegistry\<lparr>ir_maxEntries := 2, ir_settledCap := minute\<rparr>"

definition wit_serving :: inuse_run where
  "wit_serving = \<lparr>iu_registry = fst (claim 0 ''k'' wit_registry), iu_now = 0, iu_serving = [''k''], iu_settled = []\<rparr>"

definition wit_settled :: inuse_run where
  "wit_settled = \<lparr>iu_registry = release 0 ''k'' True None (iu_registry wit_serving), iu_now = 0, iu_serving = [],
     iu_settled = [(''k'', minute)]\<rparr>"

lemma wit_serving_reachable: "inuse_reachable wit_serving"
proof (rule inuse_reachable.step)
  show "inuse_reachable \<lparr>iu_registry = wit_registry, iu_now = 0, iu_serving = [], iu_settled = []\<rparr>"
    unfolding wit_registry_def by (rule inuse_reachable.start) simp
  have "snd (claim 0 ''k'' wit_registry) = ClaimOK" by code_simp
  then have "claim 0 ''k'' wit_registry = (fst (claim 0 ''k'' wit_registry), ClaimOK)" by (metis prod.collapse)
  then show "inuse_step \<lparr>iu_registry = wit_registry, iu_now = 0, iu_serving = [], iu_settled = []\<rparr> wit_serving"
    using inuse_step.granted [of "\<lparr>iu_registry = wit_registry, iu_now = 0, iu_serving = [], iu_settled = []\<rparr>" "''k''"]
    by (simp add: wit_serving_def)
qed

lemma wit_settled_reachable: "inuse_reachable wit_settled"
proof (rule inuse_reachable.step [OF wit_serving_reachable])
  have "settled_until 0 (ir_settledCap (iu_registry wit_serving)) None = minute" by code_simp
  then show "inuse_step wit_serving wit_settled"
    using inuse_step.finished [of "''k''" wit_serving True None] by (simp add: wit_serving_def wit_settled_def)
qed

theorem payment_served_once_witness:
  "iu_serving wit_serving = [''k''] \<and> claim 0 ''k'' (iu_registry wit_serving) = (iu_registry wit_serving, ClaimInUse)"
  using payment_served_once [OF wit_serving_reachable] by (simp add: wit_serving_def)

text \<open>A payment that was released as settled cannot be claimed again before its deadline or the cap
  after settlement, whichever is sooner, whatever other requests do in between.\<close>

theorem settled_payment_stays_blocked:
  assumes "inuse_reachable R" and "(key, until) \<in> set (iu_settled R)" and "iu_now R < until"
  shows "claim (iu_now R) key (iu_registry R) = (iu_registry R, ClaimInUse)"
proof -
  have inv: "registry_wf (iu_registry R)" "settled_blocked (iu_now R) (iu_registry R) (key, until)"
    using inuse_reachable_inv [OF assms(1)] assms(2) by (auto simp: inuse_inv_def)
  then have "blocked (iu_now R) key (iu_registry R)"
    using assms(3) by (auto simp: settled_blocked_def blocked_def)
  then show ?thesis by (rule claim_blocked)
qed

theorem settled_payment_stays_blocked_witness:
  "claim 0 ''k'' (iu_registry wit_settled) = (iu_registry wit_settled, ClaimInUse)"
  using settled_payment_stays_blocked [OF wit_settled_reachable, of "''k''" minute] by (simp add: wit_settled_def)

text \<open>The key of a payment that carries a Permit2 authorization depends on the Permit2 nonce only as
  long as the payload has no field \<open>authorization\<close> beside it.  With one, the key is made of that
  field's nonce, so two payloads with the same Permit2 authorization get different keys, and the
  registry serves both.\<close>

theorem permit2_key_evasion:
  assumes "map_of a1 ''from'' = Some (GStr from)" and "map_of a2 ''from'' = Some (GStr from)"
    and "map_of a1 ''nonce'' = Some (GStr n1)" and "map_of a2 ''nonce'' = Some (GStr n2)"
    and "to_lower (trim_space from) \<noteq> []" and "to_lower (trim_space n1) \<noteq> []" and "to_lower (trim_space n2) \<noteq> []"
    and "to_lower (trim_space n1) \<noteq> to_lower (trim_space n2)"
    and "pp_payload p = [(''permit2Authorization'', GMap permit2)]"
  shows "paymentInUseKey ff sha (p\<lparr>pp_payload := (''authorization'', GMap a1) # pp_payload p\<rparr>) h1 \<noteq>
         paymentInUseKey ff sha (p\<lparr>pp_payload := (''authorization'', GMap a2) # pp_payload p\<rparr>) h2"
  using assms by (simp add: paymentInUseKey_def Let_def normalizeAddressField_def normalizeNonceField_def)

theorem permit2_key_evasion_witness:
  "paymentInUseKey (\<lambda>_. []) (\<lambda>_. []) \<lparr>pp_x402Version = 2,
       pp_payload = [(''authorization'', GMap [(''from'', GStr ''0xA''), (''nonce'', GStr ''1'')]),
                     (''permit2Authorization'', GMap [(''from'', GStr ''0xA''), (''nonce'', GStr ''7'')])],
       pp_accepted = empty_requirements, pp_resource = None, pp_extensions = []\<rparr> [] \<noteq>
   paymentInUseKey (\<lambda>_. []) (\<lambda>_. []) \<lparr>pp_x402Version = 2,
       pp_payload = [(''authorization'', GMap [(''from'', GStr ''0xA''), (''nonce'', GStr ''2'')]),
                     (''permit2Authorization'', GMap [(''from'', GStr ''0xA''), (''nonce'', GStr ''7'')])],
       pp_accepted = empty_requirements, pp_resource = None, pp_extensions = []\<rparr> []"
  using permit2_key_evasion [of "[(''from'', GStr ''0xA''), (''nonce'', GStr ''1'')]" "''0xA''"
      "[(''from'', GStr ''0xA''), (''nonce'', GStr ''2'')]" "''1''" "''2''"
      "\<lparr>pp_x402Version = 2, pp_payload = [(''permit2Authorization'', GMap [(''from'', GStr ''0xA''), (''nonce'', GStr ''7'')])],
        pp_accepted = empty_requirements, pp_resource = None, pp_extensions = []\<rparr>"
      "[(''from'', GStr ''0xA''), (''nonce'', GStr ''7'')]" "\<lambda>_. []" "\<lambda>_. []" "[]" "[]"]
  by (simp add: trim_space_def to_lower_def is_space_def byte_def)

end
