(* ===== verification/ForwardAuth.thy ===== *)
theory ForwardAuth imports SettlementRuns PaymentInUse begin

text \<open>
  The payment middleware of \<open>internal/x402/forwardauth.go\<close> (\<open>NewForwardAuthMiddleware\<close>): \<open>admit\<close> is the
  handler up to the call of the inner handler, \<open>serve_next\<close> (theory \<open>SettlementRuns\<close>) the inner handler
  and \<open>finalize\<close>, \<open>finish\<close> the deferred release of the claim.  Other requests run between the three, so
  the registry is an argument of \<open>admit\<close> and of \<open>finish\<close>.

  \<open>gate_funs\<close> collects what is not in the repository: the SDK's decoders, gunzip, SHA-256, the printing
  of floats, \<open>strconv.Quote\<close>, and the renderer of 402 answers given in the configuration.
\<close>

record gate_funs =
  gf_to_payload :: "string \<Rightarrow> payment_payload option"
  gf_to_accepted :: "json list \<Rightarrow> payment_requirements option"
  gf_show_float :: "float64 \<Rightarrow> string"
  gf_format_float :: "float64 \<Rightarrow> string"
  gf_sha256 :: "string \<Rightarrow> string"
  gf_gunzip :: "string \<Rightarrow> string option"
  gf_quote :: "string \<Rightarrow> string"
  gf_send :: "payment_failure option \<Rightarrow> resp_writer \<Rightarrow> resp_writer"

record forward_auth_config =
  fa_VerifyOnly :: bool
  fa_SettleOnDelivery :: bool

text \<open>A request that passed the gate.\<close>

record ticket =
  tk_payload :: payment_payload
  tk_verifyPayload :: string
  tk_req :: payment_requirements
  tk_payer :: string
  tk_inUseKey :: string
  tk_deadline :: "nsec option"

datatype gate_reply = Challenge "payment_failure option" | ErrorReply int error_body

record admission =
  ad_result :: "gate_reply + ticket"
  ad_matched :: "payment_requirements option"
  ad_verifyCall :: "(string \<times> payment_requirements) option"
  ad_registry :: "inuse_registry option"

definition payment_header :: "header \<Rightarrow> string" where
  "payment_header h =
     (if hget h ''X-PAYMENT'' = [] then hget h ''PAYMENT-SIGNATURE'' else hget h ''X-PAYMENT'')"

subsection \<open>The texts of refusals\<close>

definition hint_base64 :: string where
  "hint_base64 = ''X-PAYMENT / PAYMENT-SIGNATURE must be the base64-encoded x402 PaymentPayload JSON'' @ em_dash @
     ''re-encode and retry the identical request''"
definition hint_payload :: string where
  "hint_payload = ''payment header decoded but is not valid PaymentPayload JSON'' @ em_dash @
     ''re-fetch the 402 requirements and re-sign''"
definition hint_match :: string where
  "hint_match = ''sign against one accepts[] entry verbatim'' @ em_dash @ ''scheme and network must match exactly''"
definition hint_in_use :: string where
  "hint_in_use = ''this signed payment is already attached to another request'' @ em_dash @
     ''sign a fresh authorization (new nonce) for each request, or retry this one after the other request finishes unsettled''"
definition hint_full :: string where
  "hint_full = ''the seller is tracking too many in-flight payments'' @ em_dash @ ''retry the same request shortly''"

definition invalid_header :: "string \<Rightarrow> gate_reply" where
  "invalid_header hint = ErrorReply 400 \<lparr>eb_Error = ''Invalid payment header'', eb_Reason = ''invalid_payment_header'',
     eb_Detail = [], eb_Hint = hint, eb_Retriable = False\<rparr>"

definition no_match :: "gate_funs \<Rightarrow> payment_payload \<Rightarrow> gate_reply" where
  "no_match gf payload = Challenge (Some \<lparr>pf_Reason = ''no_matching_requirement'',
     pf_Detail = ''payment offered scheme='' @ gf_quote gf (pr_scheme (pp_accepted payload)) @ '' network='' @
       gf_quote gf (pr_network (pp_accepted payload)) @ '', which matches none of the accepts[] entries'',
     pf_Hint = hint_match\<rparr>)"

definition payment_invalid :: "gate_funs \<Rightarrow> verify_response \<Rightarrow> payment_requirements \<Rightarrow> gate_reply" where
  "payment_invalid gf resp req =
     (let detail = facilitatorRejectDetail (Some resp)
      in Challenge (Some \<lparr>pf_Reason = ''payment_invalid'', pf_Detail = detail,
           pf_Hint = signatureFailureHint (gf_quote gf) detail req\<rparr>))"

definition in_use_reply :: gate_reply where
  "in_use_reply = ErrorReply 409 \<lparr>eb_Error = ''Payment already in use'', eb_Reason = ''payment_in_use'',
     eb_Detail = [], eb_Hint = hint_in_use, eb_Retriable = False\<rparr>"

definition registry_full_reply :: gate_reply where
  "registry_full_reply = ErrorReply 503 \<lparr>eb_Error = ''Payment gateway busy'', eb_Reason = ''payment_registry_full'',
     eb_Detail = [], eb_Hint = hint_full, eb_Retriable = True\<rparr>"

text \<open>What \<open>reportFailure\<close> is told, and what the client gets.\<close>

definition reply_report :: "gate_reply \<Rightarrow> string list" where
  "reply_report r = (case r of Challenge None \<Rightarrow> [] | Challenge (Some f) \<Rightarrow> [pf_Reason f] | ErrorReply s b \<Rightarrow> [eb_Reason b])"

definition write_reply :: "gate_funs \<Rightarrow> gate_reply \<Rightarrow> resp_writer \<Rightarrow> resp_writer" where
  "write_reply gf r w = (case r of Challenge f \<Rightarrow> gf_send gf f w | ErrorReply s b \<Rightarrow> writePaymentError s b w)"

subsection \<open>Admission\<close>

definition refuse :: "gate_reply \<Rightarrow> inuse_registry option \<Rightarrow> admission" where
  "refuse r reg = \<lparr>ad_result = Inl r, ad_matched = None, ad_verifyCall = None, ad_registry = reg\<rparr>"

text \<open>The last guard: one signed authorization serves one request at a time.\<close>

definition claim_payment :: "nsec \<Rightarrow> ticket \<Rightarrow> inuse_registry option \<Rightarrow> (gate_reply + ticket) \<times> inuse_registry option" where
  "claim_payment now t reg =
     (case reg of
        None \<Rightarrow> (Inr t, None)
      | Some p \<Rightarrow> (case claim now (tk_inUseKey t) p of
            (p', ClaimInUse) \<Rightarrow> (Inl in_use_reply, Some p')
          | (p', ClaimFull) \<Rightarrow> (Inl registry_full_reply, Some p')
          | (p', ClaimOK) \<Rightarrow> (Inr t, Some p')))"

text \<open>From a matched requirement on: repair the signature, verify, claim.\<close>

definition verify_and_claim ::
  "gate_funs \<Rightarrow> nsec \<Rightarrow> fac_http \<Rightarrow> string \<Rightarrow> string \<Rightarrow> payment_payload \<Rightarrow> payment_requirements \<Rightarrow>
   inuse_registry option \<Rightarrow> admission" where
  "verify_and_claim gf now http paymentHeader payloadBytes payload matchedReq reg =
     (let verifyPayload = (case normalizePaymentPayloadForVerify (gf_show_float gf) payloadBytes of
                             (normalized, note) \<Rightarrow> if note \<noteq> [] then normalized else payloadBytes);
          a = \<lparr>ad_result = Inl (Challenge None), ad_matched = Some matchedReq,
               ad_verifyCall = facilitator_request verifyPayload matchedReq, ad_registry = reg\<rparr>
      in case facilitatorVerify verifyPayload matchedReq http of
           Inl err \<Rightarrow> a\<lparr>ad_result := Inl (ErrorReply 503 (paymentErrorFromVerifyErr err))\<rparr>
         | Inr resp \<Rightarrow>
             if \<not> vr_IsValid resp then a\<lparr>ad_result := Inl (payment_invalid gf resp matchedReq)\<rparr>
             else (case claim_payment now
                       \<lparr>tk_payload = payload, tk_verifyPayload = verifyPayload, tk_req = matchedReq, tk_payer = vr_Payer resp,
                        tk_inUseKey = paymentInUseKey (gf_format_float gf) (gf_sha256 gf) payload paymentHeader,
                        tk_deadline = paymentDeadline payload\<rparr> reg of
                     (r, reg') \<Rightarrow> a\<lparr>ad_result := r, ad_registry := reg'\<rparr>))"

definition admit ::
  "gate_funs \<Rightarrow> payment_requirements list \<Rightarrow> nsec \<Rightarrow> fac_http \<Rightarrow> header \<Rightarrow> inuse_registry option \<Rightarrow> admission" where
  "admit gf requirements now http h reg =
     (let paymentHeader = payment_header h
      in if paymentHeader = [] then refuse (Challenge None) reg
         else (case base64_decode paymentHeader of
                 None \<Rightarrow> refuse (invalid_header hint_base64) reg
               | Some payloadBytes \<Rightarrow>
                   (case parsePaymentPayloadCompat (gf_to_payload gf) (gf_to_accepted gf) payloadBytes of
                      None \<Rightarrow> refuse (invalid_header hint_payload) reg
                    | Some payload \<Rightarrow>
                        (case findMatchingRequirementV1 payload requirements of
                           None \<Rightarrow> refuse (no_match gf payload) reg
                         | Some matchedReq \<Rightarrow> verify_and_claim gf now http paymentHeader payloadBytes payload matchedReq reg))))"

subsection \<open>The request after admission\<close>

definition gate_env :: "gate_funs \<Rightarrow> forward_auth_config \<Rightarrow> (nat \<Rightarrow> fac_http) \<Rightarrow> ticket \<Rightarrow> settle_env" where
  "gate_env gf cfg answer t =
     \<lparr>sn_VerifyOnly = fa_VerifyOnly cfg, sn_SettleOnDelivery = fa_SettleOnDelivery cfg,
      sn_payload = tk_verifyPayload t, sn_req = tk_req t, sn_answer = answer,
      sn_gunzip = gf_gunzip gf, sn_quote = gf_quote gf, sn_send = gf_send gf\<rparr>"

definition serve :: "gate_funs \<Rightarrow> forward_auth_config \<Rightarrow> (nat \<Rightarrow> fac_http) \<Rightarrow> ticket \<Rightarrow> handler_op list \<Rightarrow> bool \<Rightarrow>
    resp_writer \<Rightarrow> interceptor" where
  "serve gf cfg answer t ops panicked w =
     (let env = gate_env gf cfg answer t in serve_next env ops panicked (new_interceptor env w []))"

text \<open>The deferred function.\<close>

definition finish :: "nsec \<Rightarrow> ticket \<Rightarrow> interceptor \<Rightarrow> inuse_registry option \<Rightarrow> inuse_registry option" where
  "finish now t i reg =
     (case reg of None \<Rightarrow> None
      | Some p \<Rightarrow> Some (release now (tk_inUseKey t) (it_settleOnChain i \<or> it_settled i) (tk_deadline t) p))"

subsection \<open>What admission guarantees\<close>

lemma claim_payment_ok:
  "claim_payment now t reg = (Inr t', reg') \<Longrightarrow>
   t' = t \<and> (case reg of None \<Rightarrow> reg' = None
              | Some p \<Rightarrow> (\<exists>p'. claim now (tk_inUseKey t) p = (p', ClaimOK) \<and> reg' = Some p'))"
  by (auto simp: claim_payment_def split: option.splits prod.splits claim_result.splits)

lemma claim_payment_refused:
  "claim_payment now t (Some p) = (Inl r, reg') \<Longrightarrow>
   \<exists>p' res. claim now (tk_inUseKey t) p = (p', res) \<and> res \<noteq> ClaimOK \<and> reg' = Some p'"
  by (auto simp: claim_payment_def split: prod.splits claim_result.splits)

text \<open>The facilitator accepted the payment that the ticket carries.\<close>

definition payment_verified :: "ticket \<Rightarrow> fac_http \<Rightarrow> bool" where
  "payment_verified t http \<longleftrightarrow>
     (\<exists>resp. facilitatorVerify (tk_verifyPayload t) (tk_req t) http = Inr resp \<and> vr_IsValid resp \<and> tk_payer t = vr_Payer resp)"

text \<open>
  The ticket is the payment of the request: the bytes of its payment header decode to the payload, and what goes to the
  facilitator is these bytes, or their repaired form when the byte \<open>v\<close> of the signature had to be repaired.
\<close>

definition verify_bytes :: "gate_funs \<Rightarrow> string \<Rightarrow> string" where
  "verify_bytes gf bytes =
     (case normalizePaymentPayloadForVerify (gf_show_float gf) bytes of (normalized, note) \<Rightarrow> if note \<noteq> [] then normalized else bytes)"

definition paid_by :: "gate_funs \<Rightarrow> header \<Rightarrow> ticket \<Rightarrow> bool" where
  "paid_by gf h t \<longleftrightarrow>
     (case base64_decode (payment_header h) of None \<Rightarrow> False
      | Some bytes \<Rightarrow>
          parsePaymentPayloadCompat (gf_to_payload gf) (gf_to_accepted gf) bytes = Some (tk_payload t) \<and>
          tk_verifyPayload t = verify_bytes gf bytes)"

definition same_terms :: "payment_requirements \<Rightarrow> payment_requirements \<Rightarrow> bool" where
  "same_terms req acc \<longleftrightarrow> pr_scheme req = pr_scheme acc \<and> samePaymentNetwork (pr_network req) (pr_network acc) \<and>
     pr_amount req = pr_amount acc \<and> pr_asset req = pr_asset acc \<and> pr_payTo req = pr_payTo acc"

lemma findMatching_Some:
  "findMatchingRequirementV1 payment reqs = Some req \<Longrightarrow> req \<in> set reqs \<and> same_terms req (pp_accepted payment)"
  by (auto simp: findMatchingRequirementV1_def same_terms_def dest: find_SomeD)

lemma verify_and_claim_ok:
  assumes "ad_result (verify_and_claim gf now http hdr bytes payload req reg) = Inr t"
  shows "tk_payload t = payload \<and> tk_req t = req \<and> tk_verifyPayload t = verify_bytes gf bytes \<and>
    tk_inUseKey t = paymentInUseKey (gf_format_float gf) (gf_sha256 gf) payload hdr \<and> payment_verified t http \<and>
    ad_verifyCall (verify_and_claim gf now http hdr bytes payload req reg) = facilitator_request (tk_verifyPayload t) req \<and>
    (case reg of None \<Rightarrow> ad_registry (verify_and_claim gf now http hdr bytes payload req reg) = None
     | Some p \<Rightarrow> (\<exists>p'. claim now (tk_inUseKey t) p = (p', ClaimOK) \<and>
         ad_registry (verify_and_claim gf now http hdr bytes payload req reg) = Some p'))"
proof -
  define vp where "vp = (case normalizePaymentPayloadForVerify (gf_show_float gf) bytes of
      (normalized, note) \<Rightarrow> if note \<noteq> [] then normalized else bytes)"
  note unf = verify_and_claim_def [of gf now http hdr bytes payload req reg, unfolded Let_def, folded vp_def]
  obtain resp where v: "facilitatorVerify vp req http = Inr resp" and ok: "vr_IsValid resp"
    using assms by (auto simp: unf split: sum.splits if_splits)
  define t0 where "t0 = \<lparr>tk_payload = payload, tk_verifyPayload = vp, tk_req = req, tk_payer = vr_Payer resp,
    tk_inUseKey = paymentInUseKey (gf_format_float gf) (gf_sha256 gf) payload hdr, tk_deadline = paymentDeadline payload\<rparr>"
  obtain r reg' where c: "claim_payment now t0 reg = (r, reg')" by fastforce
  have a: "verify_and_claim gf now http hdr bytes payload req reg =
    \<lparr>ad_result = r, ad_matched = Some req, ad_verifyCall = facilitator_request vp req, ad_registry = reg'\<rparr>"
    using v ok c by (simp add: unf t0_def)
  with assms have "r = Inr t" by simp
  with claim_payment_ok [of now t0 reg t reg'] c have "t = t0" and
    "case reg of None \<Rightarrow> reg' = None | Some p \<Rightarrow> (\<exists>p'. claim now (tk_inUseKey t0) p = (p', ClaimOK) \<and> reg' = Some p')"
    by auto
  moreover have "vp = verify_bytes gf bytes" by (simp add: vp_def verify_bytes_def)
  ultimately show ?thesis using a v ok by (auto simp: t0_def payment_verified_def split: option.splits)
qed

lemma verify_and_claim_refused:
  assumes "ad_result (verify_and_claim gf now http hdr bytes payload req (Some p)) = Inl r"
  shows "\<exists>p'. ad_registry (verify_and_claim gf now http hdr bytes payload req (Some p)) = Some p' \<and>
    (p' = p \<or> (\<exists>key res. claim now key p = (p', res) \<and> res \<noteq> ClaimOK))"
  using assms
  by (auto simp: verify_and_claim_def Let_def dest!: claim_payment_refused split: sum.splits if_splits prod.splits)

text \<open>Every way through \<open>admit\<close>.\<close>

lemma admit_ok:
  assumes "ad_result (admit gf reqs now http h reg) = Inr t"
  obtains bytes where "payment_header h \<noteq> []" "base64_decode (payment_header h) = Some bytes"
    "parsePaymentPayloadCompat (gf_to_payload gf) (gf_to_accepted gf) bytes = Some (tk_payload t)"
    "findMatchingRequirementV1 (tk_payload t) reqs = Some (tk_req t)"
    "admit gf reqs now http h reg =
       verify_and_claim gf now http (payment_header h) bytes (tk_payload t) (tk_req t) reg"
proof -
  have ne: "payment_header h \<noteq> []" using assms by (auto simp: admit_def refuse_def Let_def)
  obtain bytes where b: "base64_decode (payment_header h) = Some bytes"
    using assms ne by (auto simp: admit_def refuse_def Let_def split: option.splits)
  obtain payload where pl: "parsePaymentPayloadCompat (gf_to_payload gf) (gf_to_accepted gf) bytes = Some payload"
    using assms ne b by (auto simp: admit_def refuse_def Let_def split: option.splits)
  obtain req where m: "findMatchingRequirementV1 payload reqs = Some req"
    using assms ne b pl by (auto simp: admit_def refuse_def Let_def split: option.splits)
  have a: "admit gf reqs now http h reg = verify_and_claim gf now http (payment_header h) bytes payload req reg"
    using ne b pl m by (simp add: admit_def Let_def)
  have "tk_payload t = payload" "tk_req t = req"
    using verify_and_claim_ok assms unfolding a by blast+
  with that ne b pl m a show ?thesis by blast
qed

lemma admit_paid_by:
  assumes "ad_result (admit gf reqs now http h reg) = Inr t"
  shows "paid_by gf h t" "payment_verified t http" "findMatchingRequirementV1 (tk_payload t) reqs = Some (tk_req t)"
    "tk_inUseKey t = paymentInUseKey (gf_format_float gf) (gf_sha256 gf) (tk_payload t) (payment_header h)"
    "ad_verifyCall (admit gf reqs now http h reg) = Some (tk_verifyPayload t, tk_req t)"
proof -
  obtain bytes where e: "base64_decode (payment_header h) = Some bytes"
    "parsePaymentPayloadCompat (gf_to_payload gf) (gf_to_accepted gf) bytes = Some (tk_payload t)"
    "findMatchingRequirementV1 (tk_payload t) reqs = Some (tk_req t)"
    "admit gf reqs now http h reg = verify_and_claim gf now http (payment_header h) bytes (tk_payload t) (tk_req t) reg"
    using assms by (rule admit_ok)
  note v = verify_and_claim_ok [OF assms [unfolded e(4)]]
  show "paid_by gf h t" "payment_verified t http" "findMatchingRequirementV1 (tk_payload t) reqs = Some (tk_req t)"
    "tk_inUseKey t = paymentInUseKey (gf_format_float gf) (gf_sha256 gf) (tk_payload t) (payment_header h)"
    using v e by (simp_all add: paid_by_def)
  have "facilitator_request (tk_verifyPayload t) (tk_req t) = Some (tk_verifyPayload t, tk_req t)"
    using v by (auto simp: payment_verified_def facilitatorVerify_def facilitator_request_def split: if_splits)
  then show "ad_verifyCall (admit gf reqs now http h reg) = Some (tk_verifyPayload t, tk_req t)"
    using v unfolding e(4) by simp
qed

lemma admit_claims:
  assumes a: "ad_result (admit gf reqs now http h (Some p)) = Inr t"
  shows "\<exists>p'. claim now (tk_inUseKey t) p = (p', ClaimOK) \<and> ad_registry (admit gf reqs now http h (Some p)) = Some p'"
proof -
  obtain bytes where e: "admit gf reqs now http h (Some p) =
      verify_and_claim gf now http (payment_header h) bytes (tk_payload t) (tk_req t) (Some p)"
    using a by (rule admit_ok)
  show ?thesis using verify_and_claim_ok [OF a [unfolded e]] unfolding e option.case by blast
qed

lemma admit_refused:
  assumes "ad_result (admit gf reqs now http h (Some p)) = Inl r"
  shows "\<exists>p'. ad_registry (admit gf reqs now http h (Some p)) = Some p' \<and>
    (p' = p \<or> (\<exists>key res. claim now key p = (p', res) \<and> res \<noteq> ClaimOK))"
proof (cases "payment_header h = []")
  case True
  then show ?thesis by (simp add: admit_def refuse_def)
next
  case False
  with assms show ?thesis
    by (auto simp: admit_def refuse_def Let_def dest: verify_and_claim_refused split: option.split option.split_asm)
qed

subsection \<open>Concurrent requests behind the gate\<close>

text \<open>
  \<open>gr_tickets\<close> are the requests being served, \<open>gr_done\<close> the finished ones with what the interceptor did
  and the time of the release.  Configuration, requirements, answers of the facilitator and behaviour
  of the handler may differ from request to request.
\<close>

record gate_run =
  gr_registry :: inuse_registry
  gr_now :: nsec
  gr_tickets :: "ticket list"
  gr_done :: "(ticket \<times> interceptor \<times> nsec) list"

inductive gate_step :: "gate_run \<Rightarrow> gate_run \<Rightarrow> bool" where
  time_passes: "gr_now G \<le> t \<Longrightarrow> gate_step G (G\<lparr>gr_now := t\<rparr>)"
| admitted: "ad_result (admit gf reqs (gr_now G) http h (Some (gr_registry G))) = Inr t \<Longrightarrow>
    ad_registry (admit gf reqs (gr_now G) http h (Some (gr_registry G))) = Some p \<Longrightarrow>
    gate_step G (G\<lparr>gr_registry := p, gr_tickets := t # gr_tickets G\<rparr>)"
| turned_away: "ad_result (admit gf reqs (gr_now G) http h (Some (gr_registry G))) = Inl r \<Longrightarrow>
    ad_registry (admit gf reqs (gr_now G) http h (Some (gr_registry G))) = Some p \<Longrightarrow>
    gate_step G (G\<lparr>gr_registry := p\<rparr>)"
| served: "t \<in> set (gr_tickets G) \<Longrightarrow> i = serve gf cfg answer t ops panicked w \<Longrightarrow>
    finish (gr_now G) t i (Some (gr_registry G)) = Some p \<Longrightarrow>
    gate_step G (G\<lparr>gr_registry := p, gr_tickets := remove1 t (gr_tickets G), gr_done := (t, i, gr_now G) # gr_done G\<rparr>)"

inductive_cases gate_stepE: "gate_step G G'"

inductive gate_reachable :: "gate_run \<Rightarrow> bool" where
  idle: "0 \<le> n \<Longrightarrow> gate_reachable \<lparr>gr_registry = NewPaymentInUseRegistry\<lparr>ir_maxEntries := n, ir_settledCap := cap\<rparr>,
     gr_now = t, gr_tickets = [], gr_done = []\<rparr>"
| step: "gate_reachable G \<Longrightarrow> gate_step G G' \<Longrightarrow> gate_reachable G'"

definition charged :: "interceptor \<Rightarrow> bool" where
  "charged i \<longleftrightarrow> it_settleOnChain i \<or> it_settled i"

text \<open>The abstract view: a run of the registry alone.\<close>

definition blocked_until :: "nsec \<Rightarrow> ticket \<Rightarrow> nsec \<Rightarrow> nsec" where
  "blocked_until cap t n = settled_until n cap (tk_deadline t)"

fun settled_view :: "nsec \<Rightarrow> (ticket \<times> interceptor \<times> nsec) list \<Rightarrow> (string \<times> nsec) list" where
  "settled_view cap [] = []"
| "settled_view cap ((t, i, n) # fs) =
     (if charged i then (tk_inUseKey t, blocked_until cap t n) # settled_view cap fs else settled_view cap fs)"

definition registry_view :: "gate_run \<Rightarrow> inuse_run" where
  "registry_view G = \<lparr>iu_registry = gr_registry G, iu_now = gr_now G,
     iu_serving = map tk_inUseKey (gr_tickets G),
     iu_settled = settled_view (ir_settledCap (gr_registry G)) (gr_done G)\<rparr>"

lemma map_remove1_distinct: "distinct (map f xs) \<Longrightarrow> x \<in> set xs \<Longrightarrow> map f (remove1 x xs) = remove1 (f x) (map f xs)"
proof (induction xs)
  case (Cons a xs)
  then have "x \<noteq> a \<Longrightarrow> f x \<noteq> f a" by (metis distinct.simps(2) image_eqI list.set_map list.simps(9) set_ConsD)
  with Cons show ?case by auto
qed simp

lemma claim_cap: "registry_wf p \<Longrightarrow> claim now key p = (p', r) \<Longrightarrow> ir_settledCap p' = ir_settledCap p"
  using claim_effect by blast

lemma release_cap [simp]: "ir_settledCap (release now key s d p) = ir_settledCap p"
  by (simp add: release_def Let_def)

lemma gate_refines_registry:
  assumes "gate_step G G'" and wf: "registry_wf (gr_registry G)" and d: "distinct (map tk_inUseKey (gr_tickets G))"
  shows "inuse_step (registry_view G) (registry_view G') \<or> registry_view G' = registry_view G"
  using assms(1)
proof cases
  case (time_passes t)
  then show ?thesis using inuse_step.tick [of "registry_view G" t] by (simp add: registry_view_def)
next
  case (admitted gf reqs http h t p)
  then have c: "claim (gr_now G) (tk_inUseKey t) (gr_registry G) = (p, ClaimOK)"
    using admit_claims by (metis option.inject)
  show ?thesis
    using inuse_step.granted [of "registry_view G" "tk_inUseKey t" p] c claim_cap [OF wf c]
    by (simp add: admitted(1) registry_view_def)
next
  case (turned_away gf reqs http h r p)
  then consider "p = gr_registry G" | key res where "claim (gr_now G) key (gr_registry G) = (p, res)" "res \<noteq> ClaimOK"
    using admit_refused by (metis option.inject)
  then show ?thesis
  proof cases
    case 1
    then show ?thesis by (simp add: turned_away(1) registry_view_def)
  next
    case 2
    then show ?thesis
      using inuse_step.refused [of "registry_view G" key p res] claim_cap [OF wf 2(1)]
      by (simp add: turned_away(1) registry_view_def)
  qed
next
  case (served t i gf cfg answer ops panicked w p)
  then have p: "p = release (gr_now G) (tk_inUseKey t) (charged i) (tk_deadline t) (gr_registry G)"
    by (simp add: finish_def charged_def)
  show ?thesis
    using inuse_step.finished [of "tk_inUseKey t" "registry_view G" "charged i" "tk_deadline t"] served(2)
      map_remove1_distinct [OF d served(2)]
    by (cases "charged i") (simp_all add: served(1) p registry_view_def blocked_until_def)
qed

lemma gate_reachable_view: "gate_reachable G \<Longrightarrow> inuse_reachable (registry_view G)"
proof (induction rule: gate_reachable.induct)
  case (idle n cap t)
  then show ?case using inuse_reachable.start [of n cap t] by (simp add: registry_view_def)
next
  case (step G G')
  have "inuse_inv (registry_view G)" using step(3) by (rule inuse_reachable_inv)
  then have "registry_wf (gr_registry G)" "distinct (map tk_inUseKey (gr_tickets G))"
    by (simp_all add: inuse_inv_def registry_view_def)
  with gate_refines_registry [OF step(2)] step(3) show ?case by (auto intro: inuse_reachable.step)
qed

text \<open>What each finished request did to the facilitator.\<close>

definition charge_record :: "ticket \<times> interceptor \<times> nsec \<Rightarrow> bool" where
  "charge_record x = (case x of (t, i, n) \<Rightarrow>
     it_settleCalls i = [] \<or> it_settleCalls i = [(tk_verifyPayload t, tk_req t)])"

lemma serve_record: "charge_record (t, serve gf cfg answer t ops panicked w, n)"
  using serve_next_charge [of "gate_env gf cfg answer t" ops panicked w "[]"]
  by (auto simp: charge_record_def serve_def Let_def charge_ok_def calls_ok_def gate_env_def)

lemma gate_reachable_records: "gate_reachable G \<Longrightarrow> x \<in> set (gr_done G) \<Longrightarrow> charge_record x"
proof (induction arbitrary: x rule: gate_reachable.induct)
  case (step G G')
  obtain t i n where x: "x = (t, i, n)" by (cases x)
  with step show ?case by (auto elim!: gate_stepE simp: serve_record)
qed simp

lemma settled_view_blocked:
  assumes "\<forall>kt \<in> set (settled_view cap fs). settled_blocked now p kt" and "(t, i, n) \<in> set fs" "charged i"
    and "now < settled_until n cap (tk_deadline t)"
  shows "blocked now (tk_inUseKey t) p"
proof -
  have "(tk_inUseKey t, blocked_until cap t n) \<in> set (settled_view cap fs)"
    using assms(2,3) by (induction fs) auto
  then have "settled_blocked now p (tk_inUseKey t, blocked_until cap t n)" using assms(1) by blast
  with assms(4) show ?thesis by (auto simp: settled_blocked_def blocked_def blocked_until_def)
qed

text \<open>
  What identifies an EIP-3009 authorization: scheme, network (by its chain where it is known), token, signer and nonce,
  the last two as they are written up to case and blanks.
\<close>

definition written :: "goany option \<Rightarrow> string" where
  "written v = (case v of Some (GStr s) \<Rightarrow> to_lower (trim_space s) | other \<Rightarrow> [])"

definition authorization_id :: "payment_payload \<Rightarrow> (string \<times> string \<times> string \<times> string \<times> string) option" where
  "authorization_id payload =
     (case as_map (map_of (pp_payload payload) ''authorization'') of
        None \<Rightarrow> None
      | Some auth \<Rightarrow>
          if written (map_of auth ''from'') = [] \<or> written (map_of auth ''nonce'') = [] then None
          else Some (to_lower (trim_space (pr_scheme (pp_accepted payload))), key_network (pr_network (pp_accepted payload)),
                 to_lower (trim_space (pr_asset (pp_accepted payload))), written (map_of auth ''from''), written (map_of auth ''nonce'')))"

definition authorization_key :: "string \<times> string \<times> string \<times> string \<times> string \<Rightarrow> string" where
  "authorization_key a = (case a of (scheme, network, asset, from, nonce) \<Rightarrow> join_with ''|'' [''eip3009'', scheme, network, asset, from, nonce])"

definition same_authorization :: "ticket \<Rightarrow> ticket \<Rightarrow> bool" where
  "same_authorization t t' \<longleftrightarrow>
     authorization_id (tk_payload t) \<noteq> None \<and> authorization_id (tk_payload t) = authorization_id (tk_payload t')"

lemma written_fields:
  "written v \<noteq> [] \<Longrightarrow> normalizeAddressField v = written v \<and> normalizeNonceField ff v = written v"
  by (auto simp: written_def normalizeAddressField_def normalizeNonceField_def split: option.splits goany.splits)

lemma key_of_authorization: "authorization_id p = Some a \<Longrightarrow> paymentInUseKey ff sha p hdr = authorization_key a"
  using written_fields
  by (auto simp: authorization_id_def paymentInUseKey_def authorization_key_def Let_def split: option.splits if_splits)

lemma gate_reachable_keys:
  assumes "gate_reachable G" and "t \<in> set (gr_tickets G) \<union> fst ` set (gr_done G)" and "authorization_id (tk_payload t) = Some a"
  shows "tk_inUseKey t = authorization_key a"
  using assms
proof (induction rule: gate_reachable.induct)
  case (step G G')
  show ?case using step.hyps(2)
  proof cases
    case (admitted gf reqs http h t' p)
    show ?thesis
    proof (cases "t = t'")
      case True
      then show ?thesis using admit_paid_by(4) [OF admitted(2)] key_of_authorization [OF step.prems(2)] by simp
    next
      case False
      then show ?thesis using step.IH step.prems admitted(1) by auto
    qed
  next
    case (served t' i gf cfg answer ops panicked w p)
    then have "t \<in> set (gr_tickets G) \<union> fst ` set (gr_done G)"
      using step.prems(1) set_remove1_subset [of t' "gr_tickets G"] by auto
    then show ?thesis using step.IH step.prems(2) by blast
  qed (use step in auto)
qed simp

subsection \<open>Sample data\<close>

definition ex_req :: payment_requirements where
  "ex_req = \<lparr>pr_scheme = ''exact'', pr_network = ''eip155:8453'', pr_asset = ''0xA'', pr_amount = ''1000'', pr_payTo = ''0xB'',
     pr_maxTimeoutSeconds = 60, pr_extra = None\<rparr>"

definition ex_payload :: payment_payload where
  "ex_payload = \<lparr>pp_x402Version = 2,
     pp_payload = [(''authorization'', GMap [(''from'', GStr ''0xC''), (''nonce'', GStr ''0x01''), (''validBefore'', GStr ''5000'')])],
     pp_accepted = ex_req\<lparr>pr_network := ''base''\<rparr>, pp_resource = None, pp_extensions = []\<rparr>"

definition ex_gf :: gate_funs where
  "ex_gf = \<lparr>gf_to_payload = (\<lambda>_. Some ex_payload), gf_to_accepted = (\<lambda>_. None), gf_show_float = (\<lambda>_. []),
     gf_format_float = (\<lambda>_. []), gf_sha256 = (\<lambda>s. s), gf_gunzip = (\<lambda>_. None), gf_quote = (\<lambda>s. s), gf_send = (\<lambda>_ w. w)\<rparr>"

definition ex_header :: header where "ex_header = [(''x-payment'', [''e30=''])]"

definition ex_http :: fac_http where
  "ex_http = FacAnswer 200 (json_print (JObj [(''isValid'', JBool True), (''payer'', JStr ''0xC'')]))"

definition ex_ticket :: ticket where
  "ex_ticket = \<lparr>tk_payload = ex_payload, tk_verifyPayload = ''{}'', tk_req = ex_req, tk_payer = ''0xC'',
     tk_inUseKey = paymentInUseKey (\<lambda>_. []) (\<lambda>s. s) ex_payload ''e30='', tk_deadline = paymentDeadline ex_payload\<rparr>"

definition ex_gate :: gate_run where
  "ex_gate = \<lparr>gr_registry = wit_registry, gr_now = 0, gr_tickets = [], gr_done = []\<rparr>"

lemma ex_admitted: "ad_result (admit ex_gf [ex_req] 0 ex_http ex_header (Some wit_registry)) = Inr ex_ticket"
proof -
  have h: "payment_header ex_header = ''e30=''" by code_simp
  have b: "base64_decode ''e30='' = Some ''{}''" by code_simp
  have m: "findMatchingRequirementV1 ex_payload [ex_req] = Some ex_req" by code_simp
  have n: "normalizePaymentPayloadForVerify (\<lambda>_. []) ''{}'' = (''{}'', [])" by code_simp
  have v: "facilitatorVerify ''{}'' ex_req ex_http =
    Inr \<lparr>vr_IsValid = True, vr_InvalidReason = [], vr_InvalidMessage = [], vr_InvalidReasonDetails = [], vr_Payer = ''0xC''\<rparr>"
    by code_simp
  have "snd (claim 0 (tk_inUseKey ex_ticket) wit_registry) = ClaimOK" by code_simp
  then obtain p' where c: "claim 0 (tk_inUseKey ex_ticket) wit_registry = (p', ClaimOK)" by (metis prod.collapse)
  have gf: "gf_to_payload ex_gf = (\<lambda>_. Some ex_payload)" "gf_show_float ex_gf = (\<lambda>_. [])" "gf_format_float ex_gf = (\<lambda>_. [])"
      "gf_sha256 ex_gf = (\<lambda>s. s)" by (simp_all add: ex_gf_def)
  have "\<lparr>tk_payload = ex_payload, tk_verifyPayload = ''{}'', tk_req = ex_req, tk_payer = ''0xC'',
     tk_inUseKey = paymentInUseKey (\<lambda>_. []) (\<lambda>s. s) ex_payload ''e30='', tk_deadline = paymentDeadline ex_payload\<rparr> = ex_ticket"
    by (simp add: ex_ticket_def)
  then show ?thesis
    using h b m n v c by (simp add: admit_def parsePaymentPayloadCompat_def gf verify_and_claim_def claim_payment_def)
qed

lemma ex_gate_reachable: "gate_reachable ex_gate"
  using gate_reachable.idle [of 2 minute 0] by (simp add: ex_gate_def wit_registry_def)

definition ex_serving :: gate_run where
  "ex_serving = ex_gate\<lparr>gr_registry := the (ad_registry (admit ex_gf [ex_req] 0 ex_http ex_header (Some wit_registry))),
     gr_tickets := [ex_ticket]\<rparr>"

lemma ex_serving_reachable: "gate_reachable ex_serving"
proof (rule gate_reachable.step [OF ex_gate_reachable])
  have "gr_now ex_gate = 0" "gr_registry ex_gate = wit_registry" "gr_tickets ex_gate = []" by (simp_all add: ex_gate_def)
  with gate_step.admitted [of ex_gf "[ex_req]" ex_gate ex_http ex_header ex_ticket] ex_admitted admit_claims [OF ex_admitted]
  show "gate_step ex_gate ex_serving" by (auto simp: ex_serving_def)
qed

subsection \<open>Properties\<close>

text \<open>C3: The inner handler runs only for a request whose header decodes to a payment that names the terms
  of one of the seller's requirements (up to the spelling of the network), and only after the
  facilitator, asked about the bytes of that header (with at most the byte \<open>v\<close> of the signature repaired) and that
  requirement, answered that the payment is valid.  What is settled later, if anything, is these bytes for that
  requirement, whatever the handler does.\<close>

theorem upstream_only_after_verified_payment:
  assumes "ad_result (admit gf reqs now http h reg) = Inr t"
  shows "tk_req t \<in> set reqs \<and> same_terms (tk_req t) (pp_accepted (tk_payload t)) \<and> paid_by gf h t \<and>
    ad_verifyCall (admit gf reqs now http h reg) = Some (tk_verifyPayload t, tk_req t) \<and> payment_verified t http \<and>
    set (it_settleCalls (serve gf cfg answer t ops panicked w)) \<subseteq> {(tk_verifyPayload t, tk_req t)}"
  using admit_paid_by [OF assms] findMatching_Some [of "tk_payload t" reqs "tk_req t"]
    serve_record [of t gf cfg answer ops panicked w 0]
  by (auto simp: charge_record_def)

theorem upstream_only_after_verified_payment_witness:
  "same_terms ex_req (pp_accepted ex_payload) \<and> payment_verified ex_ticket ex_http"
  using upstream_only_after_verified_payment [OF ex_admitted] by (simp add: ex_ticket_def)

text \<open>C2: One signed EIP-3009 authorization serves one request at a time.  In every interleaving of requests behind the
  gate, no two requests that are being served carry the same authorization (scheme, network, token, signer and nonce as written, up to case and blanks), each
  finished request called \<open>/settle\<close> at most once, for its own verified payment, and no request is admitted with an
  authorization that is being served, or that was settled (or whose settlement left a transaction) until the authorization
  has expired or the registry's cap after the settlement is over, whichever is sooner.  Payments of another form
  exclude each other by the registry's key only.\<close>

theorem gate_serves_each_payment_once:
  assumes "gate_reachable G"
  shows "distinct (map tk_inUseKey (gr_tickets G)) \<and>
    (\<forall>t \<in> set (gr_tickets G). \<forall>t' \<in> set (gr_tickets G). same_authorization t t' \<longrightarrow> t = t') \<and>
    list_all charge_record (gr_done G) \<and>
    (ad_result (admit gf reqs (gr_now G) http h (Some (gr_registry G))) = Inr t' \<longrightarrow>
       (\<forall>t \<in> set (gr_tickets G). tk_inUseKey t \<noteq> tk_inUseKey t' \<and> \<not> same_authorization t t') \<and>
       (\<forall>(t, i, n) \<in> set (gr_done G). charged i \<longrightarrow>
          gr_now G < settled_until n (ir_settledCap (gr_registry G)) (tk_deadline t) \<longrightarrow>
          tk_inUseKey t \<noteq> tk_inUseKey t' \<and> \<not> same_authorization t t'))"
proof -
  have inv: "inuse_inv (registry_view G)"
    by (rule inuse_reachable_inv [OF gate_reachable_view [OF assms]])
  then have sv: "registry_wf (gr_registry G)" "distinct (map tk_inUseKey (gr_tickets G))"
      "tk_inUseKey ` set (gr_tickets G) = inflight_keys (gr_registry G)"
      "\<forall>kt \<in> set (settled_view (ir_settledCap (gr_registry G)) (gr_done G)). settled_blocked (gr_now G) (gr_registry G) kt"
    by (simp_all add: inuse_inv_def registry_view_def)
  note own = gate_reachable_keys [OF assms]
  have same: "t = u" if tu: "t \<in> set (gr_tickets G)" "u \<in> set (gr_tickets G)" "same_authorization t u" for t u
  proof -
    obtain a where "authorization_id (tk_payload t) = Some a" using tu(3) unfolding same_authorization_def by blast
    moreover from this have "authorization_id (tk_payload u) = Some a" using tu(3) unfolding same_authorization_def by simp
    ultimately have "tk_inUseKey t = tk_inUseKey u" using own [of t a] own [of u a] tu by simp
    then show ?thesis using tu sv(2) by (auto simp: distinct_map dest: inj_onD)
  qed
  have settled: "blocked (gr_now G) (tk_inUseKey t) (gr_registry G)"
    if "(t, i, n) \<in> set (gr_done G)" "charged i" "gr_now G < settled_until n (ir_settledCap (gr_registry G)) (tk_deadline t)" for t i n
    using settled_view_blocked [OF sv(4) that] .
  have new: "tk_inUseKey t \<noteq> tk_inUseKey t' \<and> \<not> same_authorization t t'"
    if a: "ad_result (admit gf reqs (gr_now G) http h (Some (gr_registry G))) = Inr t'"
      and t: "t \<in> set (gr_tickets G) \<union> fst ` set (gr_done G)" "blocked (gr_now G) (tk_inUseKey t) (gr_registry G)" for t
  proof -
    have "\<not> blocked (gr_now G) (tk_inUseKey t') (gr_registry G)" using admit_claims [OF a] claim_effect [OF sv(1)] by fastforce
    then have "tk_inUseKey t \<noteq> tk_inUseKey t'" using t(2) by auto
    moreover have "\<not> same_authorization t t'"
    proof
      assume same: "same_authorization t t'"
      then obtain x where "authorization_id (tk_payload t) = Some x" unfolding same_authorization_def by blast
      moreover from this have "authorization_id (tk_payload t') = Some x" using same unfolding same_authorization_def by simp
      ultimately have "tk_inUseKey t = tk_inUseKey t'" using own [OF t(1)] key_of_authorization admit_paid_by(4) [OF a] by metis
      then show False using \<open>tk_inUseKey t \<noteq> tk_inUseKey t'\<close> by simp
    qed
    ultimately show ?thesis ..
  qed
  have inflight: "blocked (gr_now G) (tk_inUseKey t) (gr_registry G)" if "t \<in> set (gr_tickets G)" for t
    using that sv(3) by (intro inflight_blocked) auto
  have held: "tk_inUseKey t \<noteq> tk_inUseKey t' \<and> \<not> same_authorization t t'"
    if "ad_result (admit gf reqs (gr_now G) http h (Some (gr_registry G))) = Inr t'" "t \<in> set (gr_tickets G)" for t
    using new [OF that(1) _ inflight [OF that(2)]] that(2) by blast
  have later: "tk_inUseKey t \<noteq> tk_inUseKey t' \<and> \<not> same_authorization t t'"
    if "ad_result (admit gf reqs (gr_now G) http h (Some (gr_registry G))) = Inr t'" "(t, i, n) \<in> set (gr_done G)" "charged i"
      "gr_now G < settled_until n (ir_settledCap (gr_registry G)) (tk_deadline t)" for t i n
    using new [OF that(1) _ settled [OF that(2,3,4)]] that(2) by force
  have "list_all charge_record (gr_done G)" using gate_reachable_records [OF assms] by (simp add: list_all_iff)
  then show ?thesis using sv(2) same held later by blast
qed

theorem gate_serves_each_payment_once_witness:
  "ad_result (admit ex_gf [ex_req] 0 ex_http ex_header (Some (gr_registry ex_serving))) \<noteq> Inr ex_ticket"
  using gate_serves_each_payment_once [OF ex_serving_reachable, of ex_gf "[ex_req]" ex_http ex_header ex_ticket]
  by (simp add: ex_serving_def ex_gate_def)

end
