(* ===== verification/Challenge.thy ===== *)
theory Challenge imports Settlement begin

text \<open>
  The 402 challenge of \<open>internal/x402/forwardauth.go\<close>: the requirements that are advertised, and the
  response that carries them.

  The buyer pays by naming one advertised option, so the options must be ones the gate accepts.
  \<open>resource_url\<close> is the URL built from the request, \<open>disclose\<close> is \<open>facilitatorURLSafeToDisclose\<close> and
  \<open>marshal\<close> the SDK's printing of the response body.
\<close>

subsection \<open>Advertised options\<close>

type_synonym requirement_key = "string \<times> string \<times> string \<times> string \<times> string"

definition requirementKey :: "payment_requirements \<Rightarrow> requirement_key" where
  "requirementKey req =
     (let network = (case ResolveChainInfo (pr_network req) of
                       Some chain \<Rightarrow> if ci_CAIP2Network chain \<noteq> [] then ci_CAIP2Network chain else pr_network req
                     | None \<Rightarrow> pr_network req)
      in (to_lower (trim_space (pr_scheme req)), to_lower (trim_space network), to_lower (trim_space (pr_asset req)),
          trim_space (pr_amount req), to_lower (trim_space (pr_payTo req))))"

text \<open>The entries that one requirement contributes: itself and its legacy alias.\<close>

definition compat_entries :: "payment_requirements \<Rightarrow> payment_requirements list" where
  "compat_entries req =
     (case ResolveChainInfo (pr_network req) of
        None \<Rightarrow> [req]
      | Some chain \<Rightarrow>
          if ci_Name chain = [] \<or> ci_Name chain = pr_network req then [req]
          else [req, req\<lparr>pr_network := ci_Name chain\<rparr>])"

fun compat_loop :: "requirement_key list \<Rightarrow> payment_requirements list \<Rightarrow> payment_requirements list" where
  "compat_loop seen [] = []"
| "compat_loop seen (req # reqs) =
     (if requirementKey req \<in> set seen then compat_loop seen reqs
      else compat_entries req @ compat_loop (requirementKey req # seen) reqs)"

definition legacyCompatRequirements :: "payment_requirements list \<Rightarrow> payment_requirements list" where
  "legacyCompatRequirements requirements = compat_loop [] requirements"

subsection \<open>The response\<close>

definition ResourceServiceName :: string where "ResourceServiceName = ''Obol Stack''"
definition ResourceIconURL :: string where "ResourceIconURL = ''https://obol.org/ObolIcon.png''"

record payment_required =
  pq_X402Version :: int
  pq_Error :: string
  pq_Resource :: resource_info
  pq_Accepts :: "payment_requirements list"
  pq_Extensions :: "(string, goany) gomap option"

definition failure_extension :: "payment_failure \<Rightarrow> goany" where
  "failure_extension f =
     (let e0 = [(''reason'', GStr (pf_Reason f))];
          e1 = (if pf_Detail f = [] then e0 else AList.update ''detail'' (GStr (pf_Detail f)) e0);
          e2 = (if pf_Hint f = [] then e1 else AList.update ''hint'' (GStr (pf_Hint f)) e1)
      in GMap e2)"

definition failure_error :: "payment_failure \<Rightarrow> string" where
  "failure_error f =
     ''Payment invalid'' @ (if pf_Detail f = [] then [] else '': '' @ pf_Detail f) @
     (if pf_Hint f = [] then [] else em_dash @ pf_Hint f)"

definition buildPaymentRequired ::
  "string \<Rightarrow> string \<Rightarrow> payment_failure option \<Rightarrow> payment_requirements list \<Rightarrow> (string, goany) gomap option \<Rightarrow>
   payment_required" where
  "buildPaymentRequired resource_url path failure requirements extensions =
     \<lparr>pq_X402Version = 2,
      pq_Error = (case failure of None \<Rightarrow> ''Payment required for this resource'' | Some f \<Rightarrow> failure_error f),
      pq_Resource = \<lparr>ri_url = resource_url, ri_description = ''Payment required for '' @ path,
        ri_mimeType = ''application/json'', ri_serviceName = ResourceServiceName, ri_iconUrl = ResourceIconURL\<rparr>,
      pq_Accepts = requirements,
      pq_Extensions = (case failure of None \<Rightarrow> extensions
        | Some f \<Rightarrow> Some (AList.update ''paymentFailure'' (failure_extension f) (the_default [] extensions)))\<rparr>"

text \<open>The body: the response and, for old readers, a facilitator URL that may be disclosed.\<close>

definition paymentRequiredBody ::
  "(string \<Rightarrow> bool) \<Rightarrow> string \<Rightarrow> string \<Rightarrow> string \<Rightarrow> payment_failure option \<Rightarrow> payment_requirements list \<Rightarrow>
   (string, goany) gomap option \<Rightarrow> payment_required \<times> string option" where
  "paymentRequiredBody disclose facilitator resource_url path failure requirements extensions =
     (buildPaymentRequired resource_url path failure (legacyCompatRequirements requirements) extensions,
      if facilitator \<noteq> [] \<and> disclose facilitator then Some facilitator else None)"

definition setCatalogLinkHeader :: "resp_writer \<Rightarrow> resp_writer" where
  "setCatalogLinkHeader w =
     set_header ''Link'' (''</api/services.json>; rel='' @ [CHR 0x22] @ ''catalog'' @ [CHR 0x22]) w"

definition setPaymentRequiredHeader :: "string \<Rightarrow> resp_writer \<Rightarrow> resp_writer" where
  "setPaymentRequiredHeader body w = set_header ''PAYMENT-REQUIRED'' (base64_encode body) w"

definition sendPaymentRequiredJSON ::
  "(payment_required \<times> string option \<Rightarrow> string) \<Rightarrow> payment_required \<times> string option \<Rightarrow> resp_writer \<Rightarrow> resp_writer" where
  "sendPaymentRequiredJSON marshal bodyMap w =
     (let body = marshal bodyMap
      in snd (cw_Write body (cw_WriteHeader 402 (setPaymentRequiredHeader body
           (set_header ''Content-Type'' ''application/json'' (setCatalogLinkHeader w))))))"

subsection \<open>Facts\<close>

lemma Resolve_in_allChains: "ResolveChainInfo n = Some c \<Longrightarrow> c \<in> set allChains"
  by (auto simp: ResolveChainInfo_def allChains_def split: if_splits)

lemma chains_resolve: "list_all (\<lambda>c. ResolveChainInfo (ci_Name c) = Some c \<and> ResolveChainInfo (ci_CAIP2Network c) = Some c \<and> ci_CAIP2Network c \<noteq> []) allChains"
  by code_simp

lemma Resolve_Name: "ResolveChainInfo n = Some c \<Longrightarrow> ResolveChainInfo (ci_Name c) = Some c"
  using Resolve_in_allChains chains_resolve by (auto simp: list_all_iff)

lemma Resolve_CAIP2: "ResolveChainInfo n = Some c \<Longrightarrow> ResolveChainInfo (ci_CAIP2Network c) = Some c"
  using Resolve_in_allChains chains_resolve by (auto simp: list_all_iff)

lemma samePaymentNetwork_refl [simp]: "samePaymentNetwork a a"
  by (simp add: samePaymentNetwork_def)

lemma samePaymentNetwork_Resolve:
  "ResolveChainInfo a = Some c \<Longrightarrow> ResolveChainInfo b = Some c \<Longrightarrow> samePaymentNetwork a b"
  by (simp add: samePaymentNetwork_def)

lemma compat_loop_mem: "e \<in> set (compat_loop seen reqs) \<Longrightarrow> \<exists>r \<in> set reqs. e \<in> set (compat_entries r)"
  by (induction reqs arbitrary: seen) (auto split: if_splits)

lemma compat_entry_terms:
  assumes "e \<in> set (compat_entries r)"
  shows "pr_scheme e = pr_scheme r \<and> pr_amount e = pr_amount r \<and> pr_asset e = pr_asset r \<and> pr_payTo e = pr_payTo r \<and>
    pr_extra e = pr_extra r \<and> samePaymentNetwork (pr_network r) (pr_network e) \<and> requirementKey e = requirementKey r"
proof (cases "e = r")
  case False
  then obtain c where c: "ResolveChainInfo (pr_network r) = Some c" "e = r\<lparr>pr_network := ci_Name c\<rparr>"
    using assms by (auto simp: compat_entries_def split: option.splits if_splits)
  have n: "ResolveChainInfo (ci_Name c) = Some c" using c(1) by (rule Resolve_Name)
  have caip: "ci_CAIP2Network c \<noteq> []"
    using Resolve_in_allChains [OF c(1)] chains_resolve by (auto simp: list_all_iff)
  show ?thesis
    using c n caip samePaymentNetwork_Resolve [OF c(1) n] by (simp add: requirementKey_def Let_def)
qed simp

lemma findMatching_ex:
  assumes "r \<in> set reqs" and "pr_scheme r = pr_scheme (pp_accepted p)" "samePaymentNetwork (pr_network r) (pr_network (pp_accepted p))"
    "pr_amount r = pr_amount (pp_accepted p)" "pr_asset r = pr_asset (pp_accepted p)" "pr_payTo r = pr_payTo (pp_accepted p)"
  shows "\<exists>r'. findMatchingRequirementV1 p reqs = Some r'"
proof (rule ccontr)
  assume "\<nexists>r'. findMatchingRequirementV1 p reqs = Some r'"
  then have "findMatchingRequirementV1 p reqs = None" by simp
  with assms show False by (auto simp: findMatchingRequirementV1_def find_None_iff')
qed

text \<open>No two advertised entries say the same thing: per key there is one canonical entry and its alias.\<close>

lemma compat_entries_distinct: "distinct (map (\<lambda>e. (requirementKey e, pr_network e)) (compat_entries r))"
  by (auto simp: compat_entries_def split: option.split)

lemma compat_loop_keys: "e \<in> set (compat_loop seen reqs) \<Longrightarrow> requirementKey e \<notin> set seen"
proof (induction reqs arbitrary: seen)
  case (Cons r reqs)
  then show ?case using compat_entry_terms by (fastforce split: if_splits)
qed simp

lemma compat_loop_distinct: "distinct (map (\<lambda>e. (requirementKey e, pr_network e)) (compat_loop seen reqs))"
proof (induction reqs arbitrary: seen)
  case (Cons r reqs)
  have "requirementKey e \<noteq> requirementKey e'"
    if "e \<in> set (compat_entries r)" "e' \<in> set (compat_loop (requirementKey r # seen) reqs)" for e e'
    using that compat_entry_terms [OF that(1)] compat_loop_keys [OF that(2)] by auto
  then show ?case using Cons compat_entries_distinct by (fastforce simp: disjoint_iff)
qed simp

lemma compat_loop_covers:
  "r \<in> set reqs \<Longrightarrow> requirementKey r \<notin> set seen \<Longrightarrow> \<exists>e \<in> set (compat_loop seen reqs). requirementKey e = requirementKey r"
proof (induction reqs arbitrary: seen)
  case (Cons r' reqs)
  have self: "r' \<in> set (compat_entries r')" by (auto simp: compat_entries_def split: option.split)
  show ?case
  proof (cases "requirementKey r' \<in> set seen \<or> requirementKey r = requirementKey r'")
    case True
    with Cons self show ?thesis by (auto split: if_splits)
  next
    case False
    with Cons have "r \<in> set reqs" "requirementKey r \<notin> set (requirementKey r' # seen)" by auto
    from Cons.IH [OF this] False show ?thesis by auto
  qed
qed simp

text \<open>What the 402 advertises is what the gate takes.  A payment that repeats the terms of any advertised
  entry, the legacy alias included, matches one of the seller's requirements with the same amount,
  asset and recipient; every requirement is advertised, and no option is advertised twice.\<close>

theorem advertised_options_are_payable:
  "(\<forall>e \<in> set (legacyCompatRequirements reqs). \<forall>p. pp_accepted p = e \<longrightarrow>
      (\<exists>r \<in> set reqs. findMatchingRequirementV1 p reqs = Some r \<and>
         pr_amount r = pr_amount e \<and> pr_asset r = pr_asset e \<and> pr_payTo r = pr_payTo e)) \<and>
   (\<forall>r \<in> set reqs. \<exists>e \<in> set (legacyCompatRequirements reqs). requirementKey e = requirementKey r) \<and>
   distinct (map (\<lambda>e. (requirementKey e, pr_network e)) (legacyCompatRequirements reqs))"
proof (intro conjI ballI allI impI)
  fix e and p :: payment_payload assume e: "e \<in> set (legacyCompatRequirements reqs)" and p: "pp_accepted p = e"
  obtain r where r: "r \<in> set reqs" "e \<in> set (compat_entries r)"
    using compat_loop_mem [of e "[]" reqs] e by (auto simp: legacyCompatRequirements_def)
  then obtain r' where m: "findMatchingRequirementV1 p reqs = Some r'"
    using findMatching_ex [of r reqs p] compat_entry_terms [OF r(2)] p by auto
  then have "r' \<in> set reqs \<and> pr_amount r' = pr_amount e \<and> pr_asset r' = pr_asset e \<and> pr_payTo r' = pr_payTo e"
    using p by (auto simp: findMatchingRequirementV1_def dest: find_SomeD)
  with m show "\<exists>r \<in> set reqs. findMatchingRequirementV1 p reqs = Some r \<and>
      pr_amount r = pr_amount e \<and> pr_asset r = pr_asset e \<and> pr_payTo r = pr_payTo e" by blast
next
  fix r assume "r \<in> set reqs"
  then show "\<exists>e \<in> set (legacyCompatRequirements reqs). requirementKey e = requirementKey r"
    by (auto simp: legacyCompatRequirements_def intro: compat_loop_covers)
qed (simp add: legacyCompatRequirements_def compat_loop_distinct)

definition ex_option :: payment_requirements where
  "ex_option = empty_requirements\<lparr>pr_scheme := ''exact'', pr_network := ''eip155:8453'', pr_amount := ''7''\<rparr>"

theorem advertised_options_are_payable_witness:
  "\<exists>r \<in> set [ex_option]. findMatchingRequirementV1
     \<lparr>pp_x402Version = 2, pp_payload = [], pp_accepted = ex_option\<lparr>pr_network := ''base''\<rparr>, pp_resource = None, pp_extensions = []\<rparr>
     [ex_option] = Some r \<and> pr_amount r = ''7''"
proof -
  have "ex_option\<lparr>pr_network := ''base''\<rparr> \<in> set (legacyCompatRequirements [ex_option])" by code_simp
  moreover have "pr_amount (ex_option\<lparr>pr_network := ''base''\<rparr>) = ''7''" by (simp add: ex_option_def)
  ultimately show ?thesis using advertised_options_are_payable [of "[ex_option]"] by fastforce
qed

end
