(* ===== verification/JsonRoundtrip.thy ===== *)
theory JsonRoundtrip imports Facilitator begin

text \<open>
  Printing and parsing are inverse: \<open>json_parse\<close> reads back what \<open>json_print\<close> wrote (for documents
  whose numbers are integers in decimal), and \<open>base64_decode\<close> what \<open>base64_encode\<close> wrote.
\<close>

subsection \<open>Bytes\<close>

lemma byte_bounds: "0 \<le> byte c" "byte c < 256"
proof -
  have "(of_char c :: nat) < 256" by (rule nat_of_char_less_256)
  moreover have "byte c = int (of_char c)" unfolding byte_def by (rule of_nat_of_char [symmetric])
  ultimately show "0 \<le> byte c" "byte c < 256" by linarith+
qed

lemma char_of_byte [simp]: "char_of (byte c) = c"
  by (simp add: byte_def)

lemma byte_char_of: "0 \<le> n \<Longrightarrow> n < 256 \<Longrightarrow> byte (char_of n) = n"
  by (simp add: byte_def)

lemma hex_digit_val: "0 \<le> n \<Longrightarrow> n < 16 \<Longrightarrow> hex_val (hex_digit n) = Some n"
  by (auto simp: hex_val_def hex_digit_def byte_char_of Let_def)

subsection \<open>String literals\<close>

lemma unescape_byte:
  assumes "0 \<le> n" "n < 128"
  shows "unescape_u (CHR ''0'' # CHR ''0'' # hex_digit (n div 16) # hex_digit (n mod 16) # r) = Some ([char_of n], r)"
proof -
  have "0 \<le> n div 16" "n div 16 < 16" "0 \<le> n mod 16" "n mod 16 < 16" using assms by auto
  moreover have "hex_val CHR ''0'' = Some 0" by code_simp
  ultimately have "hex4 (CHR ''0'' # CHR ''0'' # hex_digit (n div 16) # hex_digit (n mod 16) # r) = Some (n, r)"
    by (simp add: hex4_def hex_digit_val)
  with assms show ?thesis by (simp add: unescape_u_def utf8_encode_def)
qed

definition backslash :: char where "backslash = char_of (92::int)"

lemma byte_backslash [simp]: "byte backslash = 92"
  by (simp add: backslash_def byte_char_of)

lemma unescape_u_none: "unescape_char CHR ''u'' = None"
  by code_simp

lemma scan_escape:
  "unescape_char e = Some u \<Longrightarrow> scan_string (backslash # e # s) = map_option (\<lambda>(t, r). (u @ t, r)) (scan_string s)"
  using unescape_u_none by (subst scan_string.simps) auto

lemma scan_escape_u:
  "unescape_u x = Some (u, s) \<Longrightarrow>
   scan_string (backslash # CHR ''u'' # x) = map_option (\<lambda>(t, r). (u @ t, r)) (scan_string s)"
  using length_unescape_u [of x u s] by (subst scan_string.simps) simp

lemma scan_plain:
  "byte c \<noteq> 34 \<Longrightarrow> 32 \<le> byte c \<Longrightarrow> byte c \<noteq> 92 \<Longrightarrow>
   scan_string (c # s) = map_option (\<lambda>(t, r). (c # t, r)) (scan_string s)"
  by (subst scan_string.simps) simp

lemma unescape_chars:
  "unescape_char CHR ''b'' = Some [char_of (8::int)]" "unescape_char CHR ''f'' = Some [char_of (12::int)]"
  "unescape_char CHR ''n'' = Some [char_of (10::int)]" "unescape_char CHR ''r'' = Some [char_of (13::int)]"
  "unescape_char CHR ''t'' = Some [char_of (9::int)]"
  by code_simp+

lemma byte_eq_char: "byte c = n \<Longrightarrow> c = char_of n"
  by (metis char_of_byte)

lemma scan_quote_char: "scan_string (quote_char c @ s) = map_option (\<lambda>(t, r). (c # t, r)) (scan_string s)"
proof -
  note b = byte_bounds [of c]
  consider "byte c = 34 \<or> byte c = 92" | "byte c \<in> {8, 12, 10, 13, 9}"
    | "byte c \<notin> {34, 92, 8, 12, 10, 13, 9}" "byte c < 32 \<or> byte c = 60 \<or> byte c = 62 \<or> byte c = 38"
    | "byte c \<notin> {34, 92}" "32 \<le> byte c" "byte c \<noteq> 60" "byte c \<noteq> 62" "byte c \<noteq> 38"
    by fastforce
  then show ?thesis
  proof cases
    case 1
    then have "unescape_char c = Some [c]" by (auto simp: unescape_char_def)
    with 1 show ?thesis
      by (simp add: quote_char_def Let_def scan_escape backslash_def [symmetric])
  next
    case 2
    then have "c \<in> {char_of (8::int), char_of (12::int), char_of (10::int), char_of (13::int), char_of (9::int)}"
      using byte_eq_char [of c 8] byte_eq_char [of c 12] byte_eq_char [of c 10] byte_eq_char [of c 13] byte_eq_char [of c 9]
      by auto
    then show ?thesis
      by (elim insertE) (simp_all add: quote_char_def Let_def byte_char_of scan_escape unescape_chars backslash_def [symmetric])
  next
    case 3
    then have q: "quote_char c =
        [backslash, CHR ''u'', CHR ''0'', CHR ''0'', hex_digit (byte c div 16), hex_digit (byte c mod 16)]"
      by (simp add: quote_char_def Let_def backslash_def)
    have "byte c < 128" using 3 by auto
    then show ?thesis
      using scan_escape_u [OF unescape_byte [of "byte c" s]] b by (simp add: q)
  next
    case 4
    then show ?thesis by (simp add: quote_char_def Let_def scan_plain)
  qed
qed

lemma scan_quoted: "scan_string (concat (map quote_char t) @ char_of (34::int) # r) = Some (t, r)"
proof (induction t)
  case Nil
  then show ?case by (simp add: scan_string.simps byte_char_of)
next
  case (Cons c t)
  then show ?case by (simp add: scan_quote_char)
qed

subsection \<open>Documents\<close>

fun number_free :: "json \<Rightarrow> bool" where
  "number_free (JNum n) = False"
| "number_free (JArr vs) = list_all number_free vs"
| "number_free (JObj kvs) = list_all (\<lambda>kv. number_free (snd kv)) kvs"
| "number_free _ = True"

text \<open>Every number of the document is an integer, written as \<open>show_int\<close> writes it.\<close>

fun int_literals :: "json \<Rightarrow> bool" where
  "int_literals (JNum n) = (\<exists>i. n = show_int i)"
| "int_literals (JArr vs) = list_all int_literals vs"
| "int_literals (JObj kvs) = list_all (\<lambda>kv. int_literals (snd kv)) kvs"
| "int_literals _ = True"

lemma number_free_int_literals: "number_free j \<Longrightarrow> int_literals j"
  by (induction j) (auto simp: list_all_iff)

lemma skip_ws_cons: "\<not> json_ws c \<Longrightarrow> skip_ws (c # s) = c # s"
  by (simp add: skip_ws_def)

lemma not_ws: "\<not> json_ws (char_of (34::int))" "\<not> json_ws CHR ''[''" "\<not> json_ws CHR ''{''" "\<not> json_ws CHR ''}''"
  "\<not> json_ws CHR '']''" "\<not> json_ws CHR '',''" "\<not> json_ws CHR '':''" "\<not> json_ws CHR ''n''" "\<not> json_ws CHR ''t''"
  "\<not> json_ws CHR ''f''" "char_of (34::int) \<noteq> CHR '']''" "char_of (34::int) \<noteq> CHR ''}''"
  by (code_simp)+

text \<open>A number ends where a separator, a closing bracket or the end of the text follows.\<close>

definition ends_value :: "string \<Rightarrow> bool" where
  "ends_value r \<longleftrightarrow> r = [] \<or> hd r \<in> {CHR '','', CHR '']'', CHR ''}''}"

lemma ends_value_cons [simp]: "ends_value []" "ends_value (CHR '','' # r)" "ends_value (CHR '']'' # r)" "ends_value (CHR ''}'' # r)"
  by (simp_all add: ends_value_def)

lemma digit_chars: "list_all (\<lambda>n. is_digit (digit_char n) \<and> (digit_char n = CHR ''0'' \<longleftrightarrow> n = 0)) (map int [0..<10])"
  by code_simp

lemma digit_char_digit: "0 \<le> n \<Longrightarrow> n < 10 \<Longrightarrow> is_digit (digit_char n) \<and> (digit_char n = CHR ''0'' \<longleftrightarrow> n = 0)"
proof -
  assume "0 \<le> n" "n < 10"
  then have "n \<in> set (map int [0..<10])" by (auto intro!: image_eqI [where x = "nat n"])
  with digit_chars show ?thesis unfolding list_all_iff by blast
qed

lemma show_dec_digits: "0 \<le> n \<Longrightarrow> list_all is_digit (show_dec n) \<and> (0 < n \<longrightarrow> hd (show_dec n) \<noteq> CHR ''0'')"
proof (induction n rule: show_dec.induct)
  case (1 n)
  show ?case
  proof (cases "n < 10")
    case True
    with 1 show ?thesis by (subst (1 2) show_dec.simps) (simp add: digit_char_digit)
  next
    case False
    with 1 show ?thesis by (subst (1 2) show_dec.simps) (auto simp: digit_char_digit)
  qed
qed

lemma separators: "\<not> is_digit CHR '',''" "\<not> is_digit CHR '']''" "\<not> is_digit CHR ''}''"
  by code_simp+

lemma takeWhile_digits:
  "list_all is_digit ds \<Longrightarrow> ends_value r \<Longrightarrow> takeWhile is_digit (ds @ r) = ds \<and> dropWhile is_digit (ds @ r) = r"
  by (cases r) (auto simp: ends_value_def list_all_iff separators takeWhile_append2 dropWhile_append2)

lemma scan_show_dec:
  assumes "0 \<le> n" and r: "ends_value r"
  shows "scan_int_part (show_dec n @ r) = Some (show_dec n, r)"
proof (cases "n = 0")
  case True
  have "show_dec 0 = ''0''" by code_simp
  with True show ?thesis by (simp add: scan_int_part_def)
next
  case False
  obtain c cs where c: "show_dec n = c # cs" using show_dec_not_Nil by (cases "show_dec n") auto
  have d: "list_all is_digit (show_dec n)" "c \<noteq> CHR ''0''"
    using show_dec_digits [of n] assms(1) False c by auto
  then show ?thesis
    using takeWhile_digits [OF d(1) r] c by (simp add: scan_int_part_def)
qed

lemma scan_rest: "ends_value r \<Longrightarrow> scan_frac r = Some ([], r) \<and> scan_exp r = Some ([], r)"
  by (cases r) (auto simp: ends_value_def scan_frac_def scan_exp_def split: char.splits)

lemma show_dec_head: "0 \<le> n \<Longrightarrow> \<exists>c cs. show_dec n = c # cs \<and> is_digit c"
  using show_dec_digits [of n] by (cases "show_dec n") auto

lemma minus_not_digit: "\<not> is_digit CHR ''-''"
  by code_simp

lemma scan_show_int:
  assumes "ends_value r"
  shows "scan_number (show_int i @ r) = Some (show_int i, r)"
proof (cases "i < 0")
  case True
  then show ?thesis
    using scan_show_dec [of "- i" r] scan_rest [OF assms] assms by (simp add: scan_number_def show_int_def)
next
  case False
  then obtain c cs where c: "show_dec i = c # cs" "is_digit c" using show_dec_head [of i] by auto
  then have "c \<noteq> CHR ''-''" using minus_not_digit by metis
  then show ?thesis
    using scan_show_dec [of i r] scan_rest [OF assms] assms False c by (simp add: scan_number_def show_int_def)
qed

lemma parse_int_unsigned:
  assumes "c \<noteq> CHR ''-''" and "c \<noteq> CHR ''+''"
  shows "parse_int (c # cs) = (case digits_val 0 (c # cs) of None \<Rightarrow> None
    | Some n \<Rightarrow> if min_int64 \<le> n \<and> n \<le> max_int64 then Some n else None)"
proof -
  have "(case c # cs of CHR ''-'' # cs \<Rightarrow> (True, cs) | CHR ''+'' # cs \<Rightarrow> (False, cs) | _ \<Rightarrow> (False, c # cs)) = (False, c # cs)"
    using assms by (auto split: char.splits bool.splits)
  then show ?thesis unfolding parse_int_def by (simp only: Let_def split_beta) (simp split: option.splits)
qed

lemma parse_show_int: "min_int64 \<le> i \<Longrightarrow> i \<le> max_int64 \<Longrightarrow> parse_int (show_int i) = Some i"
proof (cases "i < 0")
  case True
  moreover assume "min_int64 \<le> i" "i \<le> max_int64"
  ultimately show ?thesis
    using digits_val_show_dec [of "- i"] by (simp add: parse_int_def show_int_def Let_def)
next
  case False
  assume b: "min_int64 \<le> i" "i \<le> max_int64"
  obtain c cs where c: "show_dec i = c # cs" "is_digit c" using show_dec_head [of i] False by auto
  have "\<not> is_digit CHR ''+''" by code_simp
  then have "c \<noteq> CHR ''-''" "c \<noteq> CHR ''+''" using c minus_not_digit by metis+
  then show ?thesis
    using b False c digits_val_show_dec [of i] by (simp add: parse_int_unsigned show_int_def del: digits_val.simps)
qed

definition value_start :: "char \<Rightarrow> bool" where
  "value_start c \<longleftrightarrow> \<not> json_ws c \<and> c \<noteq> CHR '']'' \<and> c \<noteq> CHR ''}''"

lemma number_start: "\<exists>c s. show_int i = c # s \<and> value_start c \<and> (c = CHR ''-'' \<or> is_digit c)"
proof (cases "i < 0")
  case True
  have "value_start CHR ''-''" by code_simp
  with True show ?thesis by (simp add: show_int_def)
next
  case False
  then obtain c cs where c: "show_dec i = c # cs" "is_digit c" using show_dec_head [of i] by auto
  then have "value_start c" using separators by (auto simp: value_start_def json_ws_def is_digit_def byte_def)
  with False c show ?thesis by (simp add: show_int_def)
qed

lemma print_start: "int_literals j \<Longrightarrow> \<exists>c s. json_print j = c # s \<and> value_start c"
proof (cases j)
  case (JNum n)
  moreover assume "int_literals j"
  ultimately obtain i where "json_print j = show_int i" by auto
  then show ?thesis using number_start [of i] by auto
qed (auto simp: json_quote_def value_start_def not_ws)

lemma jvalue_string: "jvalue (json_quote t @ r) = Some (JStr t, r)"
  by (subst jvalue.simps) (simp add: json_quote_def skip_ws_cons not_ws byte_char_of scan_quoted)

lemma jvalue_number:
  assumes "ends_value r"
  shows "jvalue (show_int i @ r) = Some (JNum (show_int i), r)"
proof -
  obtain c s where c: "show_int i = c # s" "value_start c" "c = CHR ''-'' \<or> is_digit c" using number_start by blast
  have "\<not> json_ws c" using c(2) by (simp add: value_start_def)
  moreover have "byte c \<noteq> 34" "c \<noteq> CHR ''{''" "c \<noteq> CHR ''[''" "c \<noteq> CHR ''t''" "c \<noteq> CHR ''f''" "c \<noteq> CHR ''n''"
    using c(3) by (auto simp: is_digit_def byte_def)
  ultimately show ?thesis
    using scan_show_int [OF assms, of i] c(1) by (subst jvalue.simps) (simp add: skip_ws_cons)
qed

lemma roundtrip_aux:
  "int_literals j \<Longrightarrow> ends_value r \<Longrightarrow> jvalue (json_print j @ r) = Some (j, r)"
  "vs \<noteq> [] \<Longrightarrow> list_all int_literals vs \<Longrightarrow> jelems (print_elems vs @ CHR '']'' # r) = Some (vs, r)"
  "kvs \<noteq> [] \<Longrightarrow> list_all (\<lambda>kv. int_literals (snd kv)) kvs \<Longrightarrow> jmembers (print_members kvs @ CHR ''}'' # r) = Some (kvs, r)"
proof (induction j and vs and kvs arbitrary: r and r and r rule: json_print_print_elems_print_members.induct)
  case 1
  show ?case by (subst jvalue.simps) (simp add: skip_ws_cons not_ws expect_lit_def cut_prefix_def byte_def)
next
  case (2 b)
  show ?case by (subst jvalue.simps) (cases b; simp add: skip_ws_cons not_ws expect_lit_def cut_prefix_def byte_def)
next
  case (3 n)
  then show ?case by (auto simp: jvalue_number)
next
  case (4 s)
  show ?case by (simp add: jvalue_string)
next
  case (5 vs)
  show ?case
  proof (cases vs)
    case Nil
    then show ?thesis by (subst jvalue.simps) (simp add: skip_ws_cons not_ws byte_def)
  next
    case (Cons v vs')
    then obtain c s where c: "print_elems vs = c # s" "value_start c"
      using 5(2) print_start [of v] by (cases vs') auto
    have "jelems (c # s @ CHR '']'' # r) = Some (vs, r)" using 5 Cons c by simp
    then show ?thesis
      using c by (subst jvalue.simps) (simp add: skip_ws_cons not_ws byte_def value_start_def)
  qed
next
  case (6 kvs)
  show ?case
  proof (cases kvs)
    case Nil
    then show ?thesis by (subst jvalue.simps) (simp add: skip_ws_cons not_ws byte_def)
  next
    case (Cons kv kvs')
    then obtain s where c: "print_members kvs = char_of (34::int) # s"
      by (cases kv) (auto simp: json_quote_def)
    have "jmembers (char_of (34::int) # s @ CHR ''}'' # r) = Some (kvs, r)" using 6 Cons c by simp
    then show ?thesis
      using c by (subst jvalue.simps) (simp add: skip_ws_cons not_ws byte_def)
  qed
next
  case 7
  then show ?case by simp
next
  case (8 v vs)
  show ?case
  proof (cases "vs = []")
    case True
    then show ?thesis using 8 by (subst jelems.simps) (simp add: skip_ws_cons not_ws)
  next
    case False
    then show ?thesis using 8 by (subst jelems.simps) (simp add: skip_ws_cons not_ws)
  qed
next
  case 9
  then show ?case by simp
next
  case (10 k v kvs)
  let ?rest = "json_print v @ (if kvs = [] then [] else CHR '','' # print_members kvs) @ CHR ''}'' # r"
  have k: "scan_string (concat (map quote_char k) @ char_of (34::int) # CHR '':'' # ?rest) = Some (k, CHR '':'' # ?rest)"
    by (rule scan_quoted)
  show ?case
  proof (cases "kvs = []")
    case True
    then show ?thesis using 10 k
      by (subst jmembers.simps) (simp add: skip_ws_cons not_ws json_quote_def byte_char_of)
  next
    case False
    then show ?thesis using 10 k
      by (subst jmembers.simps) (simp add: skip_ws_cons not_ws json_quote_def byte_char_of)
  qed
qed

lemma json_int_roundtrip: "int_literals j \<Longrightarrow> json_parse (json_print j) = Some j"
  using roundtrip_aux(1) [of j "[]"] by (simp add: json_parse_def skip_ws_def ends_value_def)

lemma json_roundtrip: "number_free j \<Longrightarrow> json_parse (json_print j) = Some j"
  by (rule json_int_roundtrip [OF number_free_int_literals])

subsection \<open>Base64\<close>

lemma b64_list: "list_all (\<lambda>n. b64_val (b64_char n) = Some n \<and> b64_char n \<noteq> CHR ''='' \<and> byte (b64_char n) \<noteq> 10 \<and> byte (b64_char n) \<noteq> 13)
    (map int [0..<64])"
  by code_simp

lemma b64_inverse:
  assumes "0 \<le> n" "n < 64"
  shows "b64_val (b64_char n) = Some n" "b64_char n \<noteq> CHR ''=''" "byte (b64_char n) \<noteq> 10" "byte (b64_char n) \<noteq> 13"
proof -
  have "n \<in> set (map int [0..<64])" using assms by (auto intro!: image_eqI [where x = "nat n"])
  then show "b64_val (b64_char n) = Some n" "b64_char n \<noteq> CHR ''=''" "byte (b64_char n) \<noteq> 10" "byte (b64_char n) \<noteq> 13"
    using b64_list unfolding list_all_iff by blast+
qed

lemma b64_eq_none: "b64_val CHR ''='' = None" "byte CHR ''='' \<noteq> 10" "byte CHR ''='' \<noteq> 13"
  by code_simp+

lemma six_bits:
  "0 \<le> byte a div 4" "byte a div 4 < 64" "0 \<le> byte a mod 64" "byte a mod 64 < 64"
  "0 \<le> byte a mod 4 * 16 + byte b div 16" "byte a mod 4 * 16 + byte b div 16 < 64"
  "0 \<le> byte b mod 16 * 4 + byte c div 64" "byte b mod 16 * 4 + byte c div 64 < 64"
  "0 \<le> byte a mod 4 * 16" "byte a mod 4 * 16 < 64" "0 \<le> byte b mod 16 * 4" "byte b mod 16 * 4 < 64"
  using byte_bounds [of a] byte_bounds [of b] byte_bounds [of c] by (auto simp: zdiv_mono1)

lemma b64_quads_encode: "b64_quads (base64_encode s) = Some s"
proof (induction s rule: base64_encode.induct)
  case 1
  show ?case by simp
next
  case (2 a)
  show ?case by (simp add: b64_inverse six_bits)
next
  case (3 a b)
  have "byte b div 16 div 16 = 0" "byte b div 16 mod 16 = byte b div 16" using byte_bounds [of b] by auto
  then show ?case by (simp add: b64_inverse six_bits b64_eq_none)
next
  case (4 a b c r)
  moreover have "byte b div 16 div 16 = 0" "byte b div 16 mod 16 = byte b div 16" using byte_bounds [of b] by auto
  moreover have "byte c div 64 div 4 = 0" "byte c div 64 mod 4 = byte c div 64" using byte_bounds [of c] by auto
  ultimately show ?case by (simp add: b64_inverse six_bits)
qed

lemma b64_no_newline: "filter (\<lambda>c. byte c \<noteq> 10 \<and> byte c \<noteq> 13) (base64_encode s) = base64_encode s"
  by (induction s rule: base64_encode.induct) (simp_all add: b64_inverse six_bits b64_eq_none)

lemma base64_roundtrip: "base64_decode (base64_encode s) = Some s"
  by (simp add: base64_decode_def b64_no_newline b64_quads_encode)

subsection \<open>Base64 (URL alphabet, unpadded)\<close>

definition url_char :: "char \<Rightarrow> char" where
  "url_char c = (if c = CHR ''+'' then CHR ''-'' else if c = CHR ''/'' then CHR ''_'' else c)"

definition unurl_char :: "char \<Rightarrow> char" where
  "unurl_char c = (if c = CHR ''-'' then CHR ''+'' else if c = CHR ''_'' then CHR ''/'' else c)"

text \<open>\<open>base64.RawURLEncoding\<close>.\<close>

definition rawurl_encode :: "string \<Rightarrow> string" where
  "rawurl_encode s = map url_char (filter (\<lambda>c. c \<noteq> CHR ''='') (base64_encode s))"

definition rawurl_decode :: "string \<Rightarrow> string option" where
  "rawurl_decode s =
     (let t = filter (\<lambda>c. byte c \<noteq> 10 \<and> byte c \<noteq> 13) s in
      if list_ex (\<lambda>c. c = CHR ''='' \<or> c = CHR ''+'' \<or> c = CHR ''/'') t \<or> length t mod 4 = 1 then None
      else b64_quads (map unurl_char t @ replicate ((4 - length t mod 4) mod 4) CHR ''=''))"

lemma b64_chars: "list_all (\<lambda>n. unurl_char (url_char (b64_char n)) = b64_char n \<and>
    url_char (b64_char n) \<notin> {CHR ''='', CHR ''+'', CHR ''/'', CHR ''.''} \<and>
    byte (url_char (b64_char n)) \<noteq> 10 \<and> byte (url_char (b64_char n)) \<noteq> 13) (map int [0..<64])"
  by code_simp

lemma url_b64_char:
  assumes "0 \<le> n" "n < 64"
  shows "unurl_char (url_char (b64_char n)) = b64_char n \<and>
    url_char (b64_char n) \<notin> {CHR ''='', CHR ''+'', CHR ''/'', CHR ''.''} \<and>
    byte (url_char (b64_char n)) \<noteq> 10 \<and> byte (url_char (b64_char n)) \<noteq> 13"
proof -
  have "n \<in> set (map int [0..<64])" using assms by (auto intro!: image_eqI [where x = "nat n"])
  then show ?thesis using b64_chars unfolding list_all_iff by blast
qed

definition b64_alphabet :: "char \<Rightarrow> bool" where
  "b64_alphabet c \<longleftrightarrow> (\<exists>n. 0 \<le> n \<and> n < 64 \<and> c = b64_char n)"

lemma b64_alphabetI: "0 \<le> n \<Longrightarrow> n < 64 \<Longrightarrow> b64_alphabet (b64_char n)"
  by (auto simp: b64_alphabet_def)

lemma b64_alphabetD:
  "b64_alphabet c \<Longrightarrow> unurl_char (url_char c) = c \<and> url_char c \<notin> {CHR ''='', CHR ''+'', CHR ''/'', CHR ''.''} \<and>
     byte (url_char c) \<noteq> 10 \<and> byte (url_char c) \<noteq> 13 \<and> c \<noteq> CHR ''=''"
  using url_b64_char b64_inverse(2) unfolding b64_alphabet_def by metis

text \<open>The padded encoding is made of alphabet characters and the padding that restores its length.\<close>

lemma base64_encode_shape:
  "\<exists>t k. base64_encode s = t @ replicate k CHR ''='' \<and> list_all b64_alphabet t \<and>
     length t mod 4 \<noteq> 1 \<and> k = (4 - length t mod 4) mod 4"
proof (induction s rule: base64_encode.induct)
  case 1
  show ?case by (intro exI [of _ "[]"] exI [of _ 0]) simp
next
  case (2 a)
  show ?case
    by (intro exI [of _ "[b64_char (byte a div 4), b64_char (byte a mod 4 * 16)]"] exI [of _ "2::nat"])
      (simp add: b64_alphabetI six_bits numeral_2_eq_2)
next
  case (3 a b)
  show ?case
    by (intro exI [of _ "[b64_char (byte a div 4), b64_char (byte a mod 4 * 16 + byte b div 16), b64_char (byte b mod 16 * 4)]"]
        exI [of _ "1::nat"])
      (simp add: b64_alphabetI six_bits)
next
  case (4 a b c r)
  then obtain t k where t: "base64_encode r = t @ replicate k CHR ''=''" "list_all b64_alphabet t"
      "length t mod 4 \<noteq> 1" "k = (4 - length t mod 4) mod 4" by blast
  have l: "Suc (Suc (Suc (Suc (length t)))) mod 4 = length t mod 4" by presburger
  show ?case
    by (intro exI [of _ "b64_char (byte a div 4) # b64_char (byte a mod 4 * 16 + byte b div 16) #
          b64_char (byte b mod 16 * 4 + byte c div 64) # b64_char (byte c mod 64) # t"] exI [of _ k])
      (simp add: t(1,2) t(3) [simplified] t(4) l b64_alphabetI six_bits)
qed

lemma rawurl_roundtrip: "rawurl_decode (rawurl_encode s) = Some s"
proof -
  obtain t k where t: "base64_encode s = t @ replicate k CHR ''=''" "list_all b64_alphabet t"
      "length t mod 4 \<noteq> 1" "k = (4 - length t mod 4) mod 4" using base64_encode_shape by blast
  have c: "unurl_char (url_char c) = c \<and> url_char c \<notin> {CHR ''='', CHR ''+'', CHR ''/'', CHR ''.''} \<and>
      byte (url_char c) \<noteq> 10 \<and> byte (url_char c) \<noteq> 13 \<and> c \<noteq> CHR ''=''" if "c \<in> set t" for c
    using t(2) that b64_alphabetD unfolding list_all_iff by blast
  have e: "rawurl_encode s = map url_char t"
    using c by (auto simp: rawurl_encode_def t(1) filter_id_conv)
  have "filter (\<lambda>c. byte c \<noteq> 10 \<and> byte c \<noteq> 13) (map url_char t) = map url_char t"
    using c by (auto simp: filter_id_conv)
  moreover have "map unurl_char (map url_char t) = t" using c by (simp add: map_idI)
  ultimately show ?thesis
    using c t(3,4) b64_quads_encode [of s] unfolding t(1) by (auto simp: rawurl_decode_def e list_ex_iff Let_def)
qed

lemma rawurl_no_dot: "CHR ''.'' \<notin> set (rawurl_encode s)"
proof -
  obtain t k where t: "base64_encode s = t @ replicate k CHR ''=''" "list_all b64_alphabet t"
    using base64_encode_shape by blast
  have "CHR ''.'' \<noteq> url_char c" if "c \<in> set t" for c
    using t(2) that b64_alphabetD [of c] unfolding list_all_iff by auto
  with t(1) show ?thesis by (auto simp: rawurl_encode_def)
qed

end
