(* ===== verification/GoTime.thy ===== *)
theory GoTime imports GoStrings begin

text \<open>
  The part of \<open>time\<close> that the program uses: \<open>ParseDuration\<close>, the UTC calendar, and the RFC 3339
  format, written and read.  \<open>ParseDuration\<close> computes the fraction of a unit in floating point; \<open>frac f k unit\<close> stands
  for that product (\<open>f\<close> digits after the point, of which there were \<open>k\<close>, of a unit of \<open>unit\<close>
  nanoseconds).
\<close>

subsection \<open>Durations\<close>

definition time_units :: "(string \<times> int) list" where
  "time_units = [(''ns'', 1), (''us'', 1000), ([CHR 0xC2, CHR 0xB5, CHR ''s''], 1000),
     ([CHR 0xCE, CHR 0xBC, CHR ''s''], 1000), (''ms'', 1000000), (''s'', 1000000000),
     (''m'', 60000000000), (''h'', 3600000000000)]"

definition max_duration :: int where "max_duration = 9223372036854775808"

definition decimal_digit :: "char \<Rightarrow> bool" where
  "decimal_digit c \<longleftrightarrow> 48 \<le> byte c \<and> byte c \<le> 57"

text \<open>\<open>leadingInt\<close>: the value of the leading digits, an error when it exceeds \<open>2^63\<close>.\<close>

fun leading_int :: "int \<Rightarrow> string \<Rightarrow> (int \<times> string) option" where
  "leading_int x [] = Some (x, [])"
| "leading_int x (c # cs) =
     (if \<not> decimal_digit c then Some (x, c # cs)
      else if x > max_duration div 10 then None
      else if 10 * x + (byte c - 48) > max_duration then None
      else leading_int (10 * x + (byte c - 48)) cs)"

text \<open>\<open>leadingFraction\<close>: digits that no longer fit are read and dropped.\<close>

fun leading_fraction :: "bool \<Rightarrow> int \<Rightarrow> nat \<Rightarrow> string \<Rightarrow> int \<times> nat \<times> string" where
  "leading_fraction ov x k [] = (x, k, [])"
| "leading_fraction ov x k (c # cs) =
     (if \<not> decimal_digit c then (x, k, c # cs)
      else if ov \<or> x > (max_duration - 1) div 10 \<or> 10 * x + (byte c - 48) > max_duration
      then leading_fraction True x k cs
      else leading_fraction False (10 * x + (byte c - 48)) (Suc k) cs)"

definition unit_char :: "char \<Rightarrow> bool" where
  "unit_char c \<longleftrightarrow> c \<noteq> CHR ''.'' \<and> \<not> decimal_digit c"

text \<open>One number with its unit, added to \<open>d\<close>.\<close>

definition add_unit :: "(int \<Rightarrow> nat \<Rightarrow> int \<Rightarrow> int) \<Rightarrow> int \<Rightarrow> int \<Rightarrow> int \<times> nat \<Rightarrow> string \<Rightarrow> (int \<times> string) option" where
  "add_unit frac d v fk s =
     (let u = takeWhile unit_char s in
      if u = [] then None
      else (case map_of time_units u of None \<Rightarrow> None
        | Some unit \<Rightarrow>
            if v > max_duration div unit then None
            else (let v1 = v * unit; v2 = (if fst fk > 0 then v1 + frac (fst fk) (snd fk) unit else v1)
                  in if v2 > max_duration \<or> d + v2 > max_duration then None
                     else Some (d + v2, dropWhile unit_char s))))"

definition duration_term :: "(int \<Rightarrow> nat \<Rightarrow> int \<Rightarrow> int) \<Rightarrow> int \<Rightarrow> string \<Rightarrow> (int \<times> string) option" where
  "duration_term frac d s =
     (if s = [] \<or> \<not> (hd s = CHR ''.'' \<or> decimal_digit (hd s)) then None
      else (case leading_int 0 s of None \<Rightarrow> None
        | Some (v, s1) \<Rightarrow>
            if s1 \<noteq> [] \<and> hd s1 = CHR ''.'' then
              (case leading_fraction False 0 0 (tl s1) of
                 (f, k, s2) \<Rightarrow>
                   if length s1 = length s \<and> length s2 = length (tl s1) then None
                   else add_unit frac d v (f, k) s2)
            else if length s1 = length s then None
            else add_unit frac d v (0, 0) s1))"

lemma length_leading_int: "leading_int x s = Some (v, r) \<Longrightarrow> length r \<le> length s"
  by (induction x s rule: leading_int.induct) (auto split: if_splits)

lemma length_leading_fraction: "leading_fraction ov x k s = (f, j, r) \<Longrightarrow> length r \<le> length s"
  by (induction ov x k s arbitrary: f j r rule: leading_fraction.induct) (auto split: if_splits simp: le_SucI)

lemma dropWhile_shorter: "takeWhile P s \<noteq> [] \<Longrightarrow> length (dropWhile P s) < length s"
  by (cases s) (auto simp: length_dropWhile_le le_imp_less_Suc split: if_splits)

lemma add_unit_shorter: "add_unit frac d v fk s = Some (d', r) \<Longrightarrow> length r < length s"
  by (auto simp: add_unit_def Let_def dropWhile_shorter split: if_splits option.splits)

lemma duration_term_shorter: "duration_term frac d s = Some (d', r) \<Longrightarrow> length r < length s"
  unfolding duration_term_def
  by (fastforce dest!: length_leading_int length_leading_fraction add_unit_shorter
      split: if_splits option.splits prod.splits)

function duration_terms :: "(int \<Rightarrow> nat \<Rightarrow> int \<Rightarrow> int) \<Rightarrow> int \<Rightarrow> string \<Rightarrow> int option" where
  "duration_terms frac d s =
     (if s = [] then Some d
      else case duration_term frac d s of None \<Rightarrow> None | Some (d', r) \<Rightarrow> duration_terms frac d' r)"
  by pat_completeness auto
termination
  by (relation "measure (\<lambda>(frac, d, s). length s)") (auto dest: duration_term_shorter)

declare duration_terms.simps [simp del]

definition ParseDuration :: "(int \<Rightarrow> nat \<Rightarrow> int \<Rightarrow> int) \<Rightarrow> string \<Rightarrow> int option" where
  "ParseDuration frac s =
     (let neg = (s \<noteq> [] \<and> hd s = CHR ''-'');
          t = (if s \<noteq> [] \<and> (hd s = CHR ''-'' \<or> hd s = CHR ''+'') then tl s else s)
      in if t = ''0'' then Some 0
         else if t = [] then None
         else (case duration_terms frac 0 t of None \<Rightarrow> None
           | Some d \<Rightarrow> if neg then Some (- d) else if d > max_int64 then None else Some d))"

subsection \<open>The calendar\<close>

text \<open>Year, month and day of a day counted from 1970-01-01.\<close>

definition civil_from_days :: "int \<Rightarrow> int \<times> int \<times> int" where
  "civil_from_days days =
     (let z = days + 719468; era = z div 146097; doe = z mod 146097;
          yoe = (doe - doe div 1460 + doe div 36524 - doe div 146096) div 365;
          doy = doe - (365 * yoe + yoe div 4 - yoe div 100);
          mp = (5 * doy + 2) div 153;
          d = doy - (153 * mp + 2) div 5 + 1;
          m = (if mp < 10 then mp + 3 else mp - 9)
      in (yoe + era * 400 + (if m \<le> 2 then 1 else 0), m, d))"

definition zero_pad :: "nat \<Rightarrow> int \<Rightarrow> string" where
  "zero_pad w n = (let ds = show_dec \<bar>n\<bar> in (if n < 0 then ''-'' else []) @ replicate (w - length ds) CHR ''0'' @ ds)"

text \<open>\<open>t.UTC().Format(time.RFC3339)\<close>.\<close>

definition rfc3339 :: "nsec \<Rightarrow> string" where
  "rfc3339 t =
     (let s = unix t; (y, m, d) = civil_from_days (s div 86400); r = s mod 86400
      in zero_pad 4 y @ ''-'' @ zero_pad 2 m @ ''-'' @ zero_pad 2 d @ ''T'' @
         zero_pad 2 (r div 3600) @ '':'' @ zero_pad 2 (r div 60 mod 60) @ '':'' @ zero_pad 2 (r mod 60) @ ''Z'')"

text \<open>The day of a date, counted from 1970-01-01.\<close>

definition days_from_civil :: "int \<Rightarrow> int \<Rightarrow> int \<Rightarrow> int" where
  "days_from_civil y m d =
     (let y' = (if m \<le> 2 then y - 1 else y); era = y' div 400; yoe = y' mod 400;
          mp = (if m > 2 then m - 3 else m + 9);
          doy = (153 * mp + 2) div 5 + d - 1;
          doe = yoe * 365 + yoe div 4 - yoe div 100 + doy
      in era * 146097 + doe - 719468)"

definition leap_year :: "int \<Rightarrow> bool" where
  "leap_year y \<longleftrightarrow> y mod 4 = 0 \<and> (y mod 100 \<noteq> 0 \<or> y mod 400 = 0)"

definition days_in_month :: "int \<Rightarrow> int \<Rightarrow> int" where
  "days_in_month m y =
     (if m = 2 then if leap_year y then 29 else 28
      else if m = 4 \<or> m = 6 \<or> m = 9 \<or> m = 11 then 30 else 31)"

definition digit_at :: "string \<Rightarrow> int option" where
  "digit_at s = (case s of c # _ \<Rightarrow> if decimal_digit c then Some (byte c - 48) else None | [] \<Rightarrow> None)"

text \<open>\<open>getnum\<close>: two digits, or with \<open>lenient\<close> one or two.\<close>

definition getnum :: "bool \<Rightarrow> string \<Rightarrow> (int \<times> string) option" where
  "getnum lenient s =
     (case digit_at s of None \<Rightarrow> None
      | Some a \<Rightarrow> (case digit_at (tl s) of
            Some b \<Rightarrow> Some (10 * a + b, tl (tl s))
          | None \<Rightarrow> if lenient then Some (a, tl s) else None))"

definition literal :: "char \<Rightarrow> string \<Rightarrow> string option" where
  "literal c s = (case s of d # r \<Rightarrow> if c = d then Some r else None | [] \<Rightarrow> None)"

text \<open>A number below a bound, then a literal.\<close>

definition num_lit :: "bool \<Rightarrow> int \<Rightarrow> int \<Rightarrow> char \<Rightarrow> string \<Rightarrow> (int \<times> string) option" where
  "num_lit lenient lo hi c s =
     (case getnum lenient s of None \<Rightarrow> None
      | Some (n, r) \<Rightarrow> if n < lo \<or> hi < n then None else map_option (\<lambda>r'. (n, r')) (literal c r))"

fun year_of :: "string \<Rightarrow> (int \<times> string) option" where
  "year_of (a # b # c # d # r) =
     (if list_all decimal_digit [a, b, c, d] then
        Some (byte a * 1000 + byte b * 100 + byte c * 10 + byte d - 53328, r)
      else None)"
| "year_of _ = None"

text \<open>The nanoseconds of a fraction; digits after the ninth are dropped.\<close>

definition fraction :: "string \<Rightarrow> int \<times> string" where
  "fraction s =
     (case s of
        c # d # r \<Rightarrow>
          if (c = CHR ''.'' \<or> c = CHR '','') \<and> decimal_digit d then
            (let ds = takeWhile decimal_digit (d # r); nine = take 9 (ds @ replicate 9 CHR ''0'')
             in (the_default 0 (digits_val 0 nine), dropWhile decimal_digit (d # r)))
          else (0, s)
      | _ \<Rightarrow> (0, s))"

text \<open>The offset in seconds; Go allows 24 hours and 60 minutes.\<close>

definition zone_offset :: "string \<Rightarrow> (int \<times> string) option" where
  "zone_offset s =
     (case s of
        [] \<Rightarrow> None
      | c # r \<Rightarrow>
          if c = CHR ''Z'' then Some (0, r)
          else if c = CHR ''+'' \<or> c = CHR ''-'' then
            (case num_lit False 0 24 CHR '':'' r of None \<Rightarrow> None
             | Some (h, r1) \<Rightarrow> (case getnum False r1 of None \<Rightarrow> None
                 | Some (m, r2) \<Rightarrow>
                     if m > 60 then None
                     else Some (if c = CHR ''+'' then h * 3600 + m * 60 else - (h * 3600 + m * 60), r2)))
          else None)"

text \<open>\<open>time.Parse(time.RFC3339, s)\<close>.\<close>

definition parse_rfc3339 :: "string \<Rightarrow> nsec option" where
  "parse_rfc3339 s =
     (case year_of s of None \<Rightarrow> None | Some (y, s1) \<Rightarrow>
      (case literal CHR ''-'' s1 of None \<Rightarrow> None | Some s2 \<Rightarrow>
      (case num_lit False 1 12 CHR ''-'' s2 of None \<Rightarrow> None | Some (mo, s3) \<Rightarrow>
      (case num_lit False 0 99 CHR ''T'' s3 of None \<Rightarrow> None | Some (d, s4) \<Rightarrow>
      (case num_lit True 0 23 CHR '':'' s4 of None \<Rightarrow> None | Some (h, s5) \<Rightarrow>
      (case num_lit False 0 59 CHR '':'' s5 of None \<Rightarrow> None | Some (mi, s6) \<Rightarrow>
      (case getnum False s6 of None \<Rightarrow> None | Some (se, s7) \<Rightarrow>
       (let (ns, s8) = fraction s7 in
        case zone_offset s8 of None \<Rightarrow> None | Some (off, s9) \<Rightarrow>
          if se > 59 \<or> s9 \<noteq> [] \<or> d < 1 \<or> days_in_month mo y < d then None
          else Some (of_unix (days_from_civil y mo d * 86400 + h * 3600 + mi * 60 + se - off) + ns)))))))))"

end
