(* ===== verification/JobStore.thy ===== *)
theory JobStore imports GoTime begin

text \<open>
  The job store of the asynchronous broker, \<open>internal/jobbroker/store.go\<close>.

  \<open>job\<close> is the Go struct, \<open>job_row\<close> a row of the SQL table \<open>jobs\<close>, whose times are Unix seconds.
  The table is the list of its rows in the order of insertion; \<open>id\<close> is its primary key.  Each method
  of the store is one SQL statement.  The SQL engine is a third-party package: \<open>fails\<close> says that it
  reports an error, which leaves the table as it was, and \<open>scan\<close> is the order in which it visits the
  rows of a query.
\<close>

subsection \<open>Data\<close>

definition StatePending :: string where "StatePending = ''pending''"
definition StateRunning :: string where "StateRunning = ''running''"
definition StateComplete :: string where "StateComplete = ''complete''"
definition StateFailed :: string where "StateFailed = ''failed''"

lemmas state_defs = StatePending_def StateRunning_def StateComplete_def StateFailed_def

record job =
  jb_ID :: string
  jb_Token :: string
  jb_Offer :: string
  jb_Payer :: string
  jb_PayTo :: string
  jb_State :: string
  jb_CreatedAt :: nsec
  jb_StartedAt :: nsec
  jb_DoneAt :: nsec
  jb_ExpiresAt :: nsec
  jb_Method :: string
  jb_Path :: string
  jb_ContentType :: string
  jb_Body :: string
  jb_UpstreamURL :: string
  jb_CallbackURL :: string
  jb_Visibility :: string
  jb_ResultStatus :: int
  jb_ResultContentType :: string
  jb_Result :: string
  jb_Error :: string

record job_row =
  row_id :: string
  row_token :: string
  row_offer :: string
  row_payer :: string
  row_pay_to :: string
  row_state :: string
  row_created_at :: usec
  row_started_at :: usec
  row_done_at :: usec
  row_expires_at :: usec
  row_method :: string
  row_path :: string
  row_content_type :: string
  row_body :: string
  row_upstream_url :: string
  row_callback_url :: string
  row_visibility :: string
  row_result_status :: int
  row_result_content_type :: string
  row_result :: string
  row_error :: string

type_synonym job_table = "job_row list"

text \<open>The row that \<open>INSERT\<close> makes of a job: the columns it does not name take their defaults.\<close>

definition row_of_job :: "job \<Rightarrow> job_row" where
  "row_of_job j =
     \<lparr>row_id = jb_ID j, row_token = jb_Token j, row_offer = jb_Offer j, row_payer = jb_Payer j,
      row_pay_to = jb_PayTo j, row_state = StatePending, row_created_at = unix (jb_CreatedAt j),
      row_started_at = 0, row_done_at = 0, row_expires_at = unix (jb_ExpiresAt j),
      row_method = jb_Method j, row_path = jb_Path j, row_content_type = jb_ContentType j,
      row_body = jb_Body j, row_upstream_url = jb_UpstreamURL j, row_callback_url = jb_CallbackURL j,
      row_visibility = jb_Visibility j, row_result_status = 0, row_result_content_type = [],
      row_result = [], row_error = []\<rparr>"

definition job_of_row :: "job_row \<Rightarrow> job" where
  "job_of_row r =
     \<lparr>jb_ID = row_id r, jb_Token = row_token r, jb_Offer = row_offer r, jb_Payer = row_payer r,
      jb_PayTo = row_pay_to r, jb_State = row_state r, jb_CreatedAt = of_unix (row_created_at r),
      jb_StartedAt = of_unix (row_started_at r), jb_DoneAt = of_unix (row_done_at r),
      jb_ExpiresAt = of_unix (row_expires_at r), jb_Method = row_method r, jb_Path = row_path r,
      jb_ContentType = row_content_type r, jb_Body = row_body r, jb_UpstreamURL = row_upstream_url r,
      jb_CallbackURL = row_callback_url r, jb_Visibility = row_visibility r,
      jb_ResultStatus = row_result_status r, jb_ResultContentType = row_result_content_type r,
      jb_Result = row_result r, jb_Error = row_error r\<rparr>"

subsection \<open>Statements\<close>

definition sql_select :: "string \<Rightarrow> job_table \<Rightarrow> job_row option" where
  "sql_select i t = find (\<lambda>r. row_id r = i) t"

definition sql_insert :: "job_row \<Rightarrow> job_table \<Rightarrow> job_table option" where
  "sql_insert r t = (if row_id r \<in> set (map row_id t) then None else Some (t @ [r]))"

definition sql_update :: "string \<Rightarrow> (job_row \<Rightarrow> job_row) \<Rightarrow> job_table \<Rightarrow> job_table" where
  "sql_update i f t = map (\<lambda>r. if row_id r = i then f r else r) t"

definition sql_delete_before :: "usec \<Rightarrow> job_table \<Rightarrow> job_table" where
  "sql_delete_before n t = filter (\<lambda>r. \<not> row_expires_at r < n) t"

subsection \<open>Operations\<close>

text \<open>The Boolean result says that the method returned no error.\<close>

definition Create :: "bool \<Rightarrow> job \<Rightarrow> job_table \<Rightarrow> bool \<times> job_table" where
  "Create fails j t =
     (if fails then (False, t)
      else case sql_insert (row_of_job j) t of Some t' \<Rightarrow> (True, t') | None \<Rightarrow> (False, t))"

definition Get :: "bool \<Rightarrow> string \<Rightarrow> job_table \<Rightarrow> job option" where
  "Get fails i t = (if fails then None else map_option job_of_row (sql_select i t))"

definition running_row :: "nsec \<Rightarrow> job_row \<Rightarrow> job_row" where
  "running_row at r = r\<lparr>row_state := StateRunning, row_started_at := unix at\<rparr>"

definition MarkRunning :: "bool \<Rightarrow> string \<Rightarrow> nsec \<Rightarrow> job_table \<Rightarrow> bool \<times> job_table" where
  "MarkRunning fails i at t = (if fails then (False, t) else (True, sql_update i (running_row at) t))"

definition finished_row :: "int \<Rightarrow> string \<Rightarrow> string \<Rightarrow> string \<Rightarrow> nsec \<Rightarrow> job_row \<Rightarrow> job_row" where
  "finished_row status contentType body errMsg at r =
     r\<lparr>row_state := (if errMsg \<noteq> [] \<or> status \<ge> 400 then StateFailed else StateComplete),
       row_done_at := unix at, row_result_status := status, row_result_content_type := contentType,
       row_result := body, row_error := errMsg\<rparr>"

definition Finish :: "bool \<Rightarrow> string \<Rightarrow> int \<Rightarrow> string \<Rightarrow> string \<Rightarrow> string \<Rightarrow> nsec \<Rightarrow> job_table \<Rightarrow> bool \<times> job_table" where
  "Finish fails i status contentType body errMsg at t =
     (if fails then (False, t)
      else (True, sql_update i (finished_row status contentType body errMsg at) t))"

record list_summary =
  ls_ID :: string
  ls_State :: string
  ls_Path :: string
  ls_CreatedAt :: nsec

definition summary_of_row :: "job_row \<Rightarrow> list_summary" where
  "summary_of_row r = \<lparr>ls_ID = row_id r, ls_State = row_state r, ls_Path = row_path r,
     ls_CreatedAt = of_unix (row_created_at r)\<rparr>"

definition listed :: "string \<Rightarrow> string \<Rightarrow> job_row \<Rightarrow> bool" where
  "listed offer wallet r \<longleftrightarrow> row_offer r = offer \<and>
     (to_lower (row_pay_to r) = to_lower wallet \<or> to_lower (row_payer r) = to_lower wallet)"

definition list_limit :: "int \<Rightarrow> nat" where
  "list_limit limit = nat (if limit \<le> 0 \<or> limit > 500 then 100 else limit)"

definition ListForWallet ::
  "(job_table \<Rightarrow> job_table) \<Rightarrow> bool \<Rightarrow> string \<Rightarrow> string \<Rightarrow> int \<Rightarrow> job_table \<Rightarrow> list_summary list option" where
  "ListForWallet scan fails offer wallet limit t =
     (if fails then None
      else Some (map summary_of_row (take (list_limit limit)
             (sort_by (\<lambda>a b. row_created_at b < row_created_at a) (filter (listed offer wallet) (scan t))))))"

definition SweepExpired :: "bool \<Rightarrow> nsec \<Rightarrow> job_table \<Rightarrow> int option \<times> job_table" where
  "SweepExpired fails now t =
     (if fails then (None, t)
      else (let t' = sql_delete_before (unix now) t in (Some (int (length t) - int (length t')), t')))"

subsection \<open>What a client of the store relies on\<close>

text \<open>A store of rows with a key: an insert adds a row that was not there, an update changes the one
  row and keeps its key, a sweep drops rows by their expiry.  Everything a client proves about its
  jobs follows from these laws.\<close>

locale row_store =
  fixes lookup :: "'t \<Rightarrow> string \<Rightarrow> 'r option"
    and insert_row :: "'r \<Rightarrow> 't \<Rightarrow> 't option"
    and update_row :: "string \<Rightarrow> ('r \<Rightarrow> 'r) \<Rightarrow> 't \<Rightarrow> 't"
    and sweep_rows :: "usec \<Rightarrow> 't \<Rightarrow> 't"
    and wf :: "'t \<Rightarrow> bool"
    and key :: "'r \<Rightarrow> string"
    and expiry :: "'r \<Rightarrow> usec"
  assumes wf_insert: "wf t \<Longrightarrow> insert_row r t = Some t' \<Longrightarrow> wf t'"
    and lookup_insert: "wf t \<Longrightarrow> insert_row r t = Some t' \<Longrightarrow>
        lookup t (key r) = None \<and> lookup t' i = (if i = key r then Some r else lookup t i)"
    and wf_update: "wf t \<Longrightarrow> (\<And>r. key (f r) = key r) \<Longrightarrow> wf (update_row i f t)"
    and lookup_update: "wf t \<Longrightarrow> (\<And>r. key (f r) = key r) \<Longrightarrow>
        lookup (update_row i f t) j = (if j = i then map_option f (lookup t j) else lookup t j)"
    and wf_sweep: "wf t \<Longrightarrow> wf (sweep_rows n t)"
    and lookup_sweep: "wf t \<Longrightarrow> lookup (sweep_rows n t) i =
        (case lookup t i of Some r \<Rightarrow> if expiry r < n then None else Some r | None \<Rightarrow> None)"
begin

text \<open>A predicate of rows that inserted rows have and updates keep holds of every row.\<close>

definition every_row :: "('r \<Rightarrow> bool) \<Rightarrow> 't \<Rightarrow> bool" where
  "every_row P t \<longleftrightarrow> (\<forall>i r. lookup t i = Some r \<longrightarrow> P r)"

lemma every_insert: "wf t \<Longrightarrow> every_row P t \<Longrightarrow> insert_row r t = Some t' \<Longrightarrow> P r \<Longrightarrow> every_row P t'"
  using lookup_insert unfolding every_row_def by (metis option.inject)

lemma every_update:
  "wf t \<Longrightarrow> every_row P t \<Longrightarrow> (\<And>r. key (f r) = key r) \<Longrightarrow> (\<And>r. lookup t i = Some r \<Longrightarrow> P r \<Longrightarrow> P (f r)) \<Longrightarrow>
   every_row P (update_row i f t)"
  by (auto simp: every_row_def lookup_update)

lemma every_sweep: "wf t \<Longrightarrow> every_row P t \<Longrightarrow> every_row P (sweep_rows n t)"
  by (auto simp: every_row_def lookup_sweep split: option.splits if_splits)

end

definition table_wf :: "job_table \<Rightarrow> bool" where
  "table_wf t \<longleftrightarrow> distinct (map row_id t)"

lemma table_wf_Nil [simp]: "table_wf []"
  by (simp add: table_wf_def)

lemma select_None: "sql_select i t = None \<longleftrightarrow> i \<notin> row_id ` set t"
  unfolding sql_select_def find_None_iff' by auto

lemma select_snoc: "sql_select i (t @ [r]) =
    (case sql_select i t of Some x \<Rightarrow> Some x | None \<Rightarrow> if row_id r = i then Some r else None)"
  by (induction t) (auto simp: sql_select_def)

lemma select_insert:
  "sql_insert r t = Some t' \<Longrightarrow>
   sql_select (row_id r) t = None \<and> sql_select i t' = (if i = row_id r then Some r else sql_select i t)"
  by (cases "sql_select i t")
    (auto simp: sql_insert_def select_snoc simp flip: select_None split: if_splits)

lemma select_id: "sql_select i t = Some r \<Longrightarrow> row_id r = i \<and> r \<in> set t"
  unfolding sql_select_def by (auto dest: find_SomeD)

lemma select_update:
  "(\<And>r. row_id (f r) = row_id r) \<Longrightarrow>
   sql_select j (sql_update i f t) = (if j = i then map_option f (sql_select j t) else sql_select j t)"
  by (induction t) (auto simp: sql_select_def sql_update_def)

lemma select_delete: "table_wf t \<Longrightarrow> sql_select i (sql_delete_before n t) =
    (case sql_select i t of Some r \<Rightarrow> if row_expires_at r < n then None else Some r | None \<Rightarrow> None)"
proof (induction t)
  case (Cons a t)
  have "sql_select (row_id a) (sql_delete_before n t) = None"
    using Cons.prems by (fastforce simp: select_None sql_delete_before_def table_wf_def)
  with Cons show ?case
    by (auto simp: sql_select_def sql_delete_before_def table_wf_def)
qed (simp add: sql_select_def sql_delete_before_def)

interpretation jobs: row_store "\<lambda>t i. sql_select i t" sql_insert sql_update sql_delete_before table_wf row_id row_expires_at
proof unfold_locales
  fix t t' :: job_table and r i
  assume "table_wf t" "sql_insert r t = Some t'"
  then show "table_wf t'" by (auto simp: table_wf_def sql_insert_def split: if_splits)
  show "sql_select (row_id r) t = None \<and> sql_select i t' = (if i = row_id r then Some r else sql_select i t)"
    using \<open>sql_insert r t = Some t'\<close> by (rule select_insert)
next
  fix t :: job_table and f :: "job_row \<Rightarrow> job_row" and i j
  assume "table_wf t" and f: "\<And>r. row_id (f r) = row_id r"
  have "map row_id (sql_update i f t) = map row_id t" using f by (simp add: sql_update_def)
  with \<open>table_wf t\<close> show "table_wf (sql_update i f t)" by (simp add: table_wf_def)
  show "sql_select j (sql_update i f t) = (if j = i then map_option f (sql_select j t) else sql_select j t)"
    using f by (rule select_update)
next
  fix t :: job_table and n i
  assume wf: "table_wf t"
  then show "table_wf (sql_delete_before n t)"
    by (simp add: table_wf_def sql_delete_before_def distinct_map_filter)
  show "sql_select i (sql_delete_before n t) =
      (case sql_select i t of Some r \<Rightarrow> if row_expires_at r < n then None else Some r | None \<Rightarrow> None)"
    using wf by (rule select_delete)
qed

lemma running_row_id [simp]: "row_id (running_row at r) = row_id r"
  by (simp add: running_row_def)

lemma finished_row_id [simp]: "row_id (finished_row s c b e at r) = row_id r"
  by (simp add: finished_row_def)

end
