(* ===== verification/Replies.thy ===== *)
theory Replies imports Settlement begin

text \<open>
  Replies that the handlers share: \<open>http.Error\<close> and JSON objects written to a \<open>ResponseWriter\<close>, and the
  reading of a request body.
\<close>

definition http_Error :: "string \<Rightarrow> int \<Rightarrow> resp_writer \<Rightarrow> resp_writer" where
  "http_Error msg code w =
     snd (cw_Write (msg @ [CHR 0x0A]) (cw_WriteHeader code
       (set_header ''X-Content-Type-Options'' ''nosniff''
         (set_header ''Content-Type'' ''text/plain; charset=utf-8''
           (w\<lparr>cw_header := hdel ''Content-Length'' (cw_header w)\<rparr>)))))"

definition http_NotFound :: "resp_writer \<Rightarrow> resp_writer" where
  "http_NotFound = http_Error ''404 page not found'' 404"

text \<open>\<open>json.NewEncoder(w).Encode(map[string]any{...})\<close>: the members in the order of their names.\<close>

definition encode_members :: "(string \<times> json) list \<Rightarrow> resp_writer \<Rightarrow> resp_writer" where
  "encode_members kvs w =
     snd (cw_Write (json_print (JObj (sort_by (\<lambda>a b. str_less (fst a) (fst b)) kvs)) @ [CHR 0x0A]) w)"

definition accepts_html :: "http_request \<Rightarrow> bool" where
  "accepts_html r \<longleftrightarrow> contains_sub ''text/html'' (hget (rq_header r) ''Accept'')"

text \<open>\<open>io.ReadAll(r.Body)\<close>: \<open>None\<close> when reading fails.\<close>

fun read_all :: "http_body \<Rightarrow> string option" where
  "read_all (Stream x) = x"
| "read_all (Replayable s) = Some s"
| "read_all _ = Some []"

end
