(* ===== verification/JobServer.thy ===== *)
theory JobServer imports JobStore Replies begin

text \<open>
  The HTTP surface of the asynchronous job broker, \<open>internal/jobbroker/server.go\<close>: submits, status,
  results, listings, the run of a job and its webhook.

  A run is a goroutine of its own; between its steps anything else may happen, so it is cut at the
  points where it waits: before its first statement, while the upstream works, and before the webhook.
  \<open>broker_funs\<close> holds what is not under src/ or not modelled: HMAC-SHA256 (hexadecimal, of a key and a
  message), \<open>http.NewRequest\<close> accepting a method and a URL, the floating-point product inside
  \<open>time.ParseDuration\<close>, and the text of the HTML page for the values its template reads.
\<close>

subsection \<open>State\<close>

record page_data =
  pg_Status :: string
  pg_Title :: string
  pg_Detail :: string
  pg_Job :: "(string \<times> string \<times> nsec) option"
  pg_Refresh :: bool

record broker_funs =
  bf_hmac :: "string \<Rightarrow> string \<Rightarrow> string"
  bf_newRequest :: "string \<Rightarrow> string \<Rightarrow> bool"
  bf_frac :: "int \<Rightarrow> nat \<Rightarrow> int \<Rightarrow> int"
  bf_page :: "page_data \<Rightarrow> string"

text \<open>A goroutine that runs a job: not started, waiting for the upstream, or about to post the webhook.\<close>

datatype job_run = Queued string string | Replaying job string | Notifying job

fun run_id :: "job_run \<Rightarrow> string" where
  "run_id (Queued i auth) = i"
| "run_id (Replaying j auth) = jb_ID j"
| "run_id (Notifying j) = jb_ID j"

text \<open>\<open>bk_posts\<close> are the webhook posts sent so far (URL and payload); \<open>bk_issued\<close> is the history of
  \<open>NewID\<close>, which the code does not keep.\<close>

record broker =
  bk_secret :: string
  bk_table :: job_table
  bk_runs :: "job_run list"
  bk_posts :: "(string \<times> string) list"
  bk_issued :: "string list"

subsection \<open>Replies\<close>

definition writeJobError :: "broker_funs \<Rightarrow> http_request \<Rightarrow> int \<Rightarrow> string \<Rightarrow> string \<Rightarrow> resp_writer \<Rightarrow> resp_writer" where
  "writeJobError bf r status title detail w =
     (if accepts_html r then
        snd (cw_Write (bf_page bf \<lparr>pg_Status = show_int status, pg_Title = title, pg_Detail = detail,
                pg_Job = None, pg_Refresh = False\<rparr>)
          (cw_WriteHeader status (set_header ''Content-Type'' ''text/html; charset=utf-8'' w)))
      else encode_members [(''error'', JStr title), (''detail'', JStr detail)]
        (cw_WriteHeader status (set_header ''Content-Type'' ''application/json'' w)))"

definition jobErrUpstreamRequest :: string where "jobErrUpstreamRequest = ''upstream request failed''"
definition jobErrUpstreamTimeout :: string where "jobErrUpstreamTimeout = ''upstream timed out''"

text \<open>The argument says that the error is a timeout.\<close>

definition upstreamErrorSummary :: "bool \<Rightarrow> string" where
  "upstreamErrorSummary timeout = (if timeout then jobErrUpstreamTimeout else jobErrUpstreamRequest)"

definition jobFailureSummary :: "job \<Rightarrow> string" where
  "jobFailureSummary j =
     (if jb_Error j = jobErrUpstreamRequest \<or> jb_Error j = jobErrUpstreamTimeout then jb_Error j
      else if jb_Error j = [] then ''upstream returned HTTP '' @ show_int (jb_ResultStatus j)
      else jobErrUpstreamRequest)"

subsection \<open>Submit\<close>

definition maxSubmitBody :: nat where "maxSubmitBody = 10485760"
definition maxResultBody :: nat where "maxResultBody = 67108864"
definition monetizeDefaultTTL :: nsec where "monetizeDefaultTTL = 72 * hour"

definition brokerSignature :: "broker_funs \<Rightarrow> string \<Rightarrow> string \<Rightarrow> string \<Rightarrow> string \<Rightarrow> string" where
  "brokerSignature bf secret upstreamURL offer upstreamAuth =
     bf_hmac bf secret (upstreamURL @ [CHR 0x0A] @ offer @ [CHR 0x0A] @ upstreamAuth)"

definition visibilityOrDefault :: "string \<Rightarrow> string" where
  "visibilityOrDefault v = (if v = ''public'' then ''public'' else ''payer'')"

definition submit_ttl :: "broker_funs \<Rightarrow> header \<Rightarrow> nsec" where
  "submit_ttl bf h =
     (let v = hget h ''X-Obol-Job-Ttl'' in
      if v = [] then monetizeDefaultTTL
      else (case ParseDuration (bf_frac bf) v of
              Some d \<Rightarrow> if d > 0 then d else monetizeDefaultTTL
            | None \<Rightarrow> monetizeDefaultTTL))"

definition submit_callback :: "header \<Rightarrow> string \<Rightarrow> string" where
  "submit_callback h body =
     (if contains_sub ''json'' (hget h ''Content-Type'') then
        (case json_parse body of
           Some (JObj kvs) \<Rightarrow> (case str_field ''callbackUrl'' kvs of (u, bad) \<Rightarrow> if bad then [] else u)
         | _ \<Rightarrow> [])
      else [])"

definition submitted_job :: "broker_funs \<Rightarrow> nsec \<Rightarrow> string \<Rightarrow> string \<Rightarrow> http_request \<Rightarrow> string \<Rightarrow> job" where
  "submitted_job bf now i token r body =
     (let h = rq_header r in
      \<lparr>jb_ID = i, jb_Token = token, jb_Offer = hget h ''X-Obol-Offer'',
       jb_Payer = to_lower (hget h ''X-Payment-Payer''), jb_PayTo = hget h ''X-Obol-Pay-To'',
       jb_State = [], jb_CreatedAt = now, jb_StartedAt = 0, jb_DoneAt = 0,
       jb_ExpiresAt = now + submit_ttl bf h, jb_Method = rq_method r, jb_Path = rq_path r,
       jb_ContentType = hget h ''Content-Type'', jb_Body = body,
       jb_UpstreamURL = hget h ''X-Obol-Upstream-Url'', jb_CallbackURL = submit_callback h body,
       jb_Visibility = visibilityOrDefault (hget h ''X-Obol-Result-Visibility''),
       jb_ResultStatus = 0, jb_ResultContentType = [], jb_Result = [], jb_Error = []\<rparr>)"

definition accepted_members :: "string \<Rightarrow> job \<Rightarrow> (string \<times> json) list" where
  "accepted_members statusPath j =
     [(''jobId'', JStr (jb_ID j)), (''statusUrl'', JStr statusPath), (''resultUrl'', JStr (statusPath @ ''/result'')),
      (''jobToken'', JStr (jb_Token j)), (''expiresAt'', JStr (rfc3339 (jb_ExpiresAt j))),
      (''message'', JStr ''Job accepted; payment settled. Poll statusUrl (free) until state=complete, then fetch resultUrl.'')]"

text \<open>\<open>gate_submit\<close> makes the checks before the job is built: \<open>Inl\<close> is the refusal, \<open>Inr\<close> the body.\<close>

definition gate_submit :: "broker_funs \<Rightarrow> string \<Rightarrow> http_request \<Rightarrow> (string \<times> int) + string" where
  "gate_submit bf secret r =
     (let h = rq_header r; upstream = hget h ''X-Obol-Upstream-Url''; offer = hget h ''X-Obol-Offer'' in
      if upstream = [] \<or> offer = [] then Inl (''not a gated async submit (missing broker contract headers)'', 400)
      else if secret \<noteq> [] \<and>
        hget h ''X-Obol-Broker-Sig'' \<noteq> brokerSignature bf secret upstream offer (hget h ''X-Obol-Upstream-Auth'')
      then Inl (''invalid or missing broker signature'', 403)
      else (case read_all (rq_body r) of
              None \<Rightarrow> Inl (''read request body'', 400)
            | Some b \<Rightarrow>
                if length (take (maxSubmitBody + 1) b) > maxSubmitBody
                then Inl (''request body exceeds the '' @ show_int (int maxSubmitBody) @ ''-byte async limit'', 413)
                else Inr b))"

definition handleSubmit ::
  "broker_funs \<Rightarrow> nsec \<Rightarrow> string \<Rightarrow> string \<Rightarrow> bool \<Rightarrow> http_request \<Rightarrow> broker \<Rightarrow> resp_writer \<Rightarrow> broker \<times> resp_writer" where
  "handleSubmit bf now i token fails r B w =
     (case gate_submit bf (bk_secret B) r of
        Inl (msg, code) \<Rightarrow> (B, http_Error msg code w)
      | Inr body \<Rightarrow>
          (let j = submitted_job bf now i token r body; (ok, t) = Create fails j (bk_table B) in
           if \<not> ok then (B, http_Error ''could not accept job'' 500 w)
           else
             (let statusPath = hget (rq_header r) ''X-Obol-Public-Prefix'' @ ''/jobs/'' @ i in
              (B\<lparr>bk_table := t, bk_runs := Queued i (hget (rq_header r) ''X-Obol-Upstream-Auth'') # bk_runs B\<rparr>,
               encode_members (accepted_members statusPath j)
                 (cw_WriteHeader 202 (set_header ''Location'' statusPath
                   (set_header ''Content-Type'' ''application/json'' w)))))))"

subsection \<open>Running a job\<close>

record replay_request =
  rp_method :: string
  rp_url :: string
  rp_header :: header
  rp_body :: string

definition replay_url :: "job \<Rightarrow> string" where
  "replay_url j = trim_suffix ''/'' (jb_UpstreamURL j) @ jb_Path j"

definition replay_of :: "job \<Rightarrow> string \<Rightarrow> replay_request" where
  "replay_of j upstreamAuth =
     (let h0 = (if jb_ContentType j \<noteq> [] then hset ''Content-Type'' (jb_ContentType j) [] else []);
          h1 = (if upstreamAuth \<noteq> [] then hset ''Authorization'' upstreamAuth h0 else h0)
      in \<lparr>rp_method = jb_Method j, rp_url = replay_url j,
          rp_header = hset ''X-Payment-Payer'' (jb_Payer j) h1, rp_body = jb_Body j\<rparr>)"

text \<open>The first part of \<open>run\<close>, up to the call of the upstream; the flags are the faults of its
  statements.  \<open>None\<close>: the goroutine has returned.\<close>

definition run_load ::
  "broker_funs \<Rightarrow> nsec \<Rightarrow> bool \<times> bool \<times> bool \<Rightarrow> string \<Rightarrow> string \<Rightarrow> job_table \<Rightarrow> job_run option \<times> job_table" where
  "run_load bf now faults i upstreamAuth t =
     (case faults of (f1, f2, f3) \<Rightarrow>
       (case Get f1 i t of
          None \<Rightarrow> (None, t)
        | Some j \<Rightarrow>
            (let t1 = snd (MarkRunning f2 i now t) in
             if bf_newRequest bf (jb_Method j) (replay_url j) then (Some (Replaying j upstreamAuth), t1)
             else (Some (Notifying j), snd (Finish f3 i 0 [] [] jobErrUpstreamRequest now t1)))))"

text \<open>What the upstream did: no answer, an answer whose body could not be read, an answer.  The flag
  says that the error is a timeout.\<close>

datatype upstream_outcome = NoAnswer bool | BrokenBody int bool | Answered int string string

fun run_record :: "nsec \<Rightarrow> bool \<Rightarrow> upstream_outcome \<Rightarrow> job \<Rightarrow> job_table \<Rightarrow> job_table" where
  "run_record now fails (NoAnswer timeout) j t =
     snd (Finish fails (jb_ID j) 0 [] [] (upstreamErrorSummary timeout) now t)"
| "run_record now fails (BrokenBody status timeout) j t =
     snd (Finish fails (jb_ID j) status [] [] (upstreamErrorSummary timeout) now t)"
| "run_record now fails (Answered status contentType body) j t =
     snd (Finish fails (jb_ID j) status contentType (take maxResultBody body) [] now t)"

definition webhook_payload :: "job \<Rightarrow> string" where
  "webhook_payload j = json_print (JObj
     [(''jobId'', JStr (jb_ID j)), (''resultUrl'', JStr (''/jobs/'' @ jb_ID j @ ''/result'')),
      (''state'', JStr (jb_State j)), (''statusUrl'', JStr (''/jobs/'' @ jb_ID j))])"

text \<open>The loop over the attempts; \<open>answers n\<close> is the status of attempt \<open>n\<close>, \<open>None\<close> for an error.\<close>

fun post_attempts :: "nat \<Rightarrow> nat \<Rightarrow> (nat \<Rightarrow> int option) \<Rightarrow> 'p \<Rightarrow> 'p list" where
  "post_attempts 0 n answers p = []"
| "post_attempts (Suc left) n answers p =
     p # (case answers n of
            Some status \<Rightarrow> if status < 400 then [] else post_attempts left (Suc n) answers p
          | None \<Rightarrow> post_attempts left (Suc n) answers p)"

definition fireWebhook :: "bool \<Rightarrow> (nat \<Rightarrow> int option) \<Rightarrow> job \<Rightarrow> job_table \<Rightarrow> (string \<times> string) list" where
  "fireWebhook fails answers j t =
     (if jb_CallbackURL j = [] then []
      else case Get fails (jb_ID j) t of
             None \<Rightarrow> []
           | Some fresh \<Rightarrow> post_attempts 3 0 answers (jb_CallbackURL j, webhook_payload fresh))"

text \<open>The whole run when nothing comes between its steps and no statement fails.\<close>

definition run :: "broker_funs \<Rightarrow> nsec \<Rightarrow> nsec \<Rightarrow> upstream_outcome \<Rightarrow> (nat \<Rightarrow> int option) \<Rightarrow> string \<Rightarrow> string \<Rightarrow>
    job_table \<Rightarrow> job_table \<times> (string \<times> string) list" where
  "run bf started ended outcome answers i upstreamAuth t =
     (case run_load bf started (False, False, False) i upstreamAuth t of
        (Some (Replaying j _), t1) \<Rightarrow>
          (let t2 = run_record ended False outcome j t1 in (t2, fireWebhook False answers j t2))
      | (Some (Notifying j), t1) \<Rightarrow> (t1, fireWebhook False answers j t1)
      | (_, t1) \<Rightarrow> (t1, []))"

subsection \<open>Status, result and listing\<close>

definition job_gone :: "nsec \<Rightarrow> job \<Rightarrow> bool" where
  "job_gone now j \<longleftrightarrow> now > jb_ExpiresAt j"

definition callerMayRead :: "http_request \<Rightarrow> job \<Rightarrow> bool" where
  "callerMayRead r j =
     (let wallet = to_lower (hget (rq_header r) ''X-Verified-Wallet''); auth = hget (rq_header r) ''Authorization'' in
      if wallet \<noteq> [] \<and> wallet = jb_Payer j then True
      else (case cut_prefix ''Bearer '' auth of
              Some token \<Rightarrow> auth \<noteq> [] \<and> trim_space token = jb_Token j
            | None \<Rightarrow> False))"

definition status_members :: "job \<Rightarrow> (string \<times> json) list" where
  "status_members j =
     [(''jobId'', JStr (jb_ID j)), (''state'', JStr (jb_State j)),
      (''createdAt'', JStr (rfc3339 (jb_CreatedAt j))), (''expiresAt'', JStr (rfc3339 (jb_ExpiresAt j)))] @
     (if jb_State j = StateComplete then
        [(''completedAt'', JStr (rfc3339 (jb_DoneAt j))), (''resultUrl'', JStr (''/jobs/'' @ jb_ID j @ ''/result''))]
      else if jb_State j = StateFailed then
        [(''completedAt'', JStr (rfc3339 (jb_DoneAt j))), (''error'', JStr (jobFailureSummary j))]
      else [])"

definition renderStatusHTML :: "broker_funs \<Rightarrow> job \<Rightarrow> resp_writer \<Rightarrow> resp_writer" where
  "renderStatusHTML bf j w =
     snd (cw_Write (bf_page bf \<lparr>pg_Status = [], pg_Title = [], pg_Detail = jobFailureSummary j,
            pg_Job = Some (jb_ID j, jb_State j, jb_ExpiresAt j),
            pg_Refresh = (jb_State j = StatePending \<or> jb_State j = StateRunning)\<rparr>)
       (set_header ''Content-Type'' ''text/html; charset=utf-8'' w))"

text \<open>\<open>http.Redirect\<close> to an absolute path that needs no cleaning.\<close>

definition see_other :: "http_request \<Rightarrow> string \<Rightarrow> resp_writer \<Rightarrow> resp_writer" where
  "see_other r url w =
     (let hadCT = map_of (cw_header w) ''content-type'' \<noteq> None;
          w1 = set_header ''Location'' url w;
          get = (rq_method r = ''GET''); head = (rq_method r = ''HEAD'');
          w2 = (if \<not> hadCT \<and> (get \<or> head) then set_header ''Content-Type'' ''text/html; charset=utf-8'' w1 else w1);
          w3 = cw_WriteHeader 303 w2
      in if \<not> hadCT \<and> get
         then snd (cw_Write (''<a href='' @ [CHR 0x22] @ url @ [CHR 0x22] @ ''>See Other</a>.'' @ [CHR 0x0A, CHR 0x0A]) w3)
         else w3)"

definition handleStatus_broker :: "broker_funs \<Rightarrow> nsec \<Rightarrow> bool \<Rightarrow> http_request \<Rightarrow> string \<Rightarrow> job_table \<Rightarrow> resp_writer \<Rightarrow> resp_writer" where
  "handleStatus_broker bf now fails r i t w =
     (case Get fails i t of
        None \<Rightarrow> writeJobError bf r 404 ''No such job''
          (''This job does not exist '' @ em_dash @ '' or its retention window elapsed and it was deleted.'') w
      | Some j \<Rightarrow>
          if job_gone now j then writeJobError bf r 410 ''Job expired''
            (''This job'' @ [CHR 0x27] @ ''s retention window elapsed; the record and result were deleted.'') w
          else if accepts_html r then renderStatusHTML bf j w
          else if jb_State j = StateComplete \<and> contains_sub ''redirect'' (hget (rq_header r) ''Prefer'')
          then see_other r (''/jobs/'' @ jb_ID j @ ''/result'') w
          else encode_members (status_members j) (set_header ''Content-Type'' ''application/json'' w))"

definition failed_detail :: "job \<Rightarrow> string" where
  "failed_detail j = jobFailureSummary j @
     '' Payment settles at acceptance, so this run was paid for '' @ em_dash @
     '' report it to the operator contact in /openapi.json (info.contact).''"

definition handleResult :: "broker_funs \<Rightarrow> nsec \<Rightarrow> bool \<Rightarrow> http_request \<Rightarrow> string \<Rightarrow> job_table \<Rightarrow> resp_writer \<Rightarrow> resp_writer" where
  "handleResult bf now fails r i t w =
     (case Get fails i t of
        None \<Rightarrow> writeJobError bf r 404 ''No such job''
          (''This job does not exist '' @ em_dash @ '' or its retention window elapsed.'') w
      | Some j \<Rightarrow>
          if job_gone now j then writeJobError bf r 410 ''Job expired''
            (''This job'' @ [CHR 0x27] @ ''s retention window elapsed; the result was deleted.'') w
          else if jb_Visibility j \<noteq> ''public'' \<and> \<not> callerMayRead r j then
            writeJobError bf r 401 ''Not your job''
              ''Results are visible to the wallet that paid (sign in with it) or to the bearer of the jobToken from the 202 response.''
              (set_header ''WWW-Authenticate'' (''Bearer realm='' @ [CHR 0x22] @ ''job-result'' @ [CHR 0x22]) w)
          else if jb_State j = StatePending \<or> jb_State j = StateRunning then
            writeJobError bf r 409 ''Not finished yet''
              ''The job is still running. Poll the status URL; the result appears here when state=complete.''
              (set_header ''Retry-After'' ''5'' w)
          else if jb_State j = StateFailed then writeJobError bf r 502 ''Job failed'' (failed_detail j) w
          else
            (let ct = (if jb_ResultContentType j = [] then ''application/octet-stream'' else jb_ResultContentType j)
             in snd (cw_Write (jb_Result j) (cw_WriteHeader 200 (set_header ''Content-Type'' ct w)))))"

text \<open>The creation time is written in the zone of the process, here UTC.\<close>

definition summary_json :: "list_summary \<Rightarrow> json" where
  "summary_json s = JObj [(''jobId'', JStr (ls_ID s)), (''state'', JStr (ls_State s)), (''path'', JStr (ls_Path s)),
     (''createdAt'', JStr (rfc3339 (ls_CreatedAt s)))]"

definition handleList :: "broker_funs \<Rightarrow> (job_table \<Rightarrow> job_table) \<Rightarrow> bool \<Rightarrow> http_request \<Rightarrow> job_table \<Rightarrow> resp_writer \<Rightarrow> resp_writer" where
  "handleList bf scan fails r t w =
     (let wallet = to_lower (hget (rq_header r) ''X-Verified-Wallet''); offer = hget (rq_header r) ''X-Obol-Offer'' in
      if wallet = [] then
        writeJobError bf r 401 ''Sign in to list jobs''
          (''Job listings are wallet-scoped: buyers see the jobs they paid for; the offer'' @ [CHR 0x27] @
           ''s payTo wallet sees all of them. Authenticate via SIWX.'')
          (set_header ''WWW-Authenticate'' (''SIWX realm='' @ [CHR 0x22] @ ''jobs'' @ [CHR 0x22]) w)
      else (case ListForWallet scan fails offer wallet 100 t of
              None \<Rightarrow> http_Error ''list jobs'' 500 w
            | Some items \<Rightarrow> encode_members [(''wallet'', JStr wallet), (''jobs'', JArr (map summary_json items))]
                (set_header ''Content-Type'' ''application/json'' w)))"

text \<open>The routes of the mux.  \<open>ServeMux\<close> has already redirected paths that are not clean.\<close>

definition Handler ::
  "broker_funs \<Rightarrow> nsec \<Rightarrow> (job_table \<Rightarrow> job_table) \<Rightarrow> string \<Rightarrow> string \<Rightarrow> bool \<Rightarrow> http_request \<Rightarrow> broker \<Rightarrow> resp_writer \<Rightarrow>
     broker \<times> resp_writer" where
  "Handler bf now scan newID newToken fails r B w =
     (if rq_path r = ''/healthz'' then
        (B, snd (cw_Write (json_print (JObj [(''status'', JStr ''ok'')]) @ [CHR 0x0A]) w))
      else if rq_path r = ''/jobs'' then (B, handleList bf scan fails r (bk_table B) w)
      else if has_prefix ''/jobs/'' (rq_path r) then
        (let rest = trim_prefix ''/jobs/'' (rq_path r);
             (i, tail) = (case cut_at ''/'' rest of Some x \<Rightarrow> x | None \<Rightarrow> (rest, []))
         in if tail = [] then (B, handleStatus_broker bf now fails r i (bk_table B) w)
            else if tail = ''result'' then (B, handleResult bf now fails r i (bk_table B) w)
            else (B, http_NotFound w))
      else handleSubmit bf now newID newToken fails r B w)"

end
