(* ===== verification/JobRuns.thy ===== *)
theory JobRuns imports JobServer begin

text \<open>
  The job broker over time: submits, the steps of the runs, sweeps and restarts in any order.  The
  theory proves the invariants of the broker, that only its own run changes a job, and that the
  broker refines the abstract life cycle of a job.
\<close>

subsection \<open>Steps\<close>

inductive broker_step :: "broker_funs \<Rightarrow> broker \<Rightarrow> broker \<Rightarrow> bool" for bf where
  submitted: "i \<notin> set (bk_issued B) \<Longrightarrow>
    broker_step bf B ((fst (handleSubmit bf now i token fails r B w))\<lparr>bk_issued := i # token # bk_issued B\<rparr>)"
| loaded: "Queued i auth \<in> set (bk_runs B) \<Longrightarrow> run_load bf now faults i auth (bk_table B) = (g, t) \<Longrightarrow>
    broker_step bf B (B\<lparr>bk_table := t, bk_runs := (case g of Some x \<Rightarrow> [x] | None \<Rightarrow> []) @ remove1 (Queued i auth) (bk_runs B)\<rparr>)"
| recorded: "Replaying j auth \<in> set (bk_runs B) \<Longrightarrow>
    broker_step bf B (B\<lparr>bk_table := run_record now fails outcome j (bk_table B),
      bk_runs := Notifying j # remove1 (Replaying j auth) (bk_runs B)\<rparr>)"
| notified: "Notifying j \<in> set (bk_runs B) \<Longrightarrow>
    broker_step bf B (B\<lparr>bk_posts := bk_posts B @ fireWebhook fails answers j (bk_table B),
      bk_runs := remove1 (Notifying j) (bk_runs B)\<rparr>)"
| swept: "broker_step bf B (B\<lparr>bk_table := snd (SweepExpired fails now (bk_table B))\<rparr>)"
| restarted: "broker_step bf B (B\<lparr>bk_runs := []\<rparr>)"

inductive_cases broker_stepE: "broker_step bf B B'"

inductive broker_reachable :: "broker_funs \<Rightarrow> broker \<Rightarrow> bool" for bf where
  empty_store: "broker_reachable bf \<lparr>bk_secret = secret, bk_table = [], bk_runs = [], bk_posts = [], bk_issued = []\<rparr>"
| step: "broker_reachable bf B \<Longrightarrow> broker_step bf B B' \<Longrightarrow> broker_reachable bf B'"

subsection \<open>Rows\<close>

text \<open>A row is well typed when its state and visibility are constants of the program, its error is empty
  or one of the fixed public reasons, its payer is in lower case, and only a failed or complete row
  carries an outcome.\<close>

definition row_finished :: "job_row \<Rightarrow> bool" where
  "row_finished r \<longleftrightarrow> row_state r = StateComplete \<or> row_state r = StateFailed"

definition row_typed :: "job_row \<Rightarrow> bool" where
  "row_typed r \<longleftrightarrow>
     row_state r \<in> {StatePending, StateRunning, StateComplete, StateFailed} \<and>
     row_visibility r \<in> {''public'', ''payer''} \<and>
     row_error r \<in> {[], jobErrUpstreamRequest, jobErrUpstreamTimeout} \<and>
     to_lower (row_payer r) = row_payer r \<and>
     (row_state r = StateComplete \<longrightarrow> row_error r = [] \<and> row_result_status r < 400) \<and>
     (row_state r = StateFailed \<longrightarrow> row_error r \<noteq> [] \<or> row_result_status r \<ge> 400) \<and>
     length (row_result r) \<le> maxResultBody \<and>
     (\<not> row_finished r \<longrightarrow> row_result r = [] \<and> row_error r = [] \<and> row_done_at r = 0)"

lemma state_neq [simp]:
  "StatePending \<noteq> StateRunning" "StatePending \<noteq> StateComplete" "StatePending \<noteq> StateFailed"
  "StateRunning \<noteq> StatePending" "StateComplete \<noteq> StatePending" "StateFailed \<noteq> StatePending"
  "StateRunning \<noteq> StateComplete" "StateRunning \<noteq> StateFailed" "StateComplete \<noteq> StateRunning"
  "StateFailed \<noteq> StateRunning" "StateComplete \<noteq> StateFailed" "StateFailed \<noteq> StateComplete"
  by (simp_all add: state_defs)

lemma reasons_not_Nil [simp]: "jobErrUpstreamRequest \<noteq> []" "jobErrUpstreamTimeout \<noteq> []" "upstreamErrorSummary b \<noteq> []"
  by (simp_all add: jobErrUpstreamRequest_def jobErrUpstreamTimeout_def upstreamErrorSummary_def)

lemma upstreamErrorSummary_reason: "upstreamErrorSummary b \<in> {jobErrUpstreamRequest, jobErrUpstreamTimeout}"
  by (simp add: upstreamErrorSummary_def)

lemma submitted_row_typed: "row_typed (row_of_job (submitted_job bf now i token r body))"
  by (simp add: row_typed_def row_of_job_def submitted_job_def Let_def visibilityOrDefault_def row_finished_def)

lemma running_row_typed: "row_typed r \<Longrightarrow> \<not> row_finished r \<Longrightarrow> row_typed (running_row at r)"
  by (simp add: row_typed_def running_row_def row_finished_def)

lemma finished_row_typed:
  "row_typed r \<Longrightarrow> e \<in> {[], jobErrUpstreamRequest, jobErrUpstreamTimeout} \<Longrightarrow> length b \<le> maxResultBody \<Longrightarrow>
   row_typed (finished_row s c b e at r)"
  by (auto simp: row_typed_def finished_row_def row_finished_def)

lemma row_finished_finished [simp]: "row_finished (finished_row s c b e at r)"
  by (simp add: row_finished_def finished_row_def)

subsection \<open>The record of a run\<close>

text \<open>Whatever the outcome, \<open>run\<close> records it with one update of the job's own row.\<close>

fun outcome_row :: "nsec \<Rightarrow> upstream_outcome \<Rightarrow> job_row \<Rightarrow> job_row" where
  "outcome_row now (NoAnswer timeout) = finished_row 0 [] [] (upstreamErrorSummary timeout) now"
| "outcome_row now (BrokenBody status timeout) = finished_row status [] [] (upstreamErrorSummary timeout) now"
| "outcome_row now (Answered status contentType body) = finished_row status contentType (take maxResultBody body) [] now"

lemma run_record_update:
  "run_record now fails outcome j t = (if fails then t else sql_update (jb_ID j) (outcome_row now outcome) t)"
  by (cases outcome) (simp_all add: Finish_def)

lemma outcome_row_id [simp]: "row_id (outcome_row now outcome r) = row_id r"
  by (cases outcome) simp_all

lemma outcome_row_finished [simp]: "row_finished (outcome_row now outcome r)"
  by (cases outcome) simp_all

lemma outcome_row_typed: "row_typed r \<Longrightarrow> row_typed (outcome_row now outcome r)"
  using upstreamErrorSummary_reason by (cases outcome) (auto intro!: finished_row_typed)

lemma sql_update_id [simp]: "sql_update i (\<lambda>r. r) t = t"
  by (simp add: sql_update_def)

lemma sql_update_twice: "(\<And>r. row_id (g r) = row_id r) \<Longrightarrow> sql_update i f (sql_update i g t) = sql_update i (\<lambda>r. f (g r)) t"
  by (auto simp: sql_update_def)

lemma Get_Some: "Get f i t = Some j \<Longrightarrow> jb_ID j = i \<and> (\<exists>r. sql_select i t = Some r \<and> j = job_of_row r)"
  by (auto simp: Get_def job_of_row_def dest: select_id split: if_splits)

text \<open>The start of a run changes at most its own row: to running when the upstream is called, to
  failed when no request can be built.\<close>

definition mark_row :: "bool \<Rightarrow> nsec \<Rightarrow> job_row \<Rightarrow> job_row" where
  "mark_row fails at r = (if fails then r else running_row at r)"

definition refuse_row :: "bool \<Rightarrow> nsec \<Rightarrow> job_row \<Rightarrow> job_row" where
  "refuse_row fails at r = (if fails then r else finished_row 0 [] [] jobErrUpstreamRequest at r)"

lemma mark_row_id [simp]: "row_id (mark_row fails at r) = row_id r"
  by (simp add: mark_row_def)

lemma refuse_row_id [simp]: "row_id (refuse_row fails at r) = row_id r"
  by (simp add: refuse_row_def)

lemma run_load_cases:
  assumes "run_load bf now (f1, f2, f3) i auth t = (g, t')"
  obtains (stopped) "g = None" "t' = t"
  | (sent) j where "g = Some (Replaying j auth)" "jb_ID j = i" "t' = sql_update i (mark_row f2 now) t"
  | (unsendable) j where "g = Some (Notifying j)" "jb_ID j = i"
      "t' = sql_update i (\<lambda>r. refuse_row f3 now (mark_row f2 now r)) t"
proof (cases "Get f1 i t")
  case None
  with assms stopped show ?thesis by (simp add: run_load_def)
next
  case (Some j)
  have "snd (MarkRunning f2 i now t) = sql_update i (mark_row f2 now) t"
    by (auto simp: MarkRunning_def mark_row_def sql_update_def cong: if_cong intro!: map_idI [symmetric])
  moreover have "snd (Finish f3 i 0 [] [] jobErrUpstreamRequest now u) = sql_update i (refuse_row f3 now) u" for u
    by (auto simp: Finish_def refuse_row_def sql_update_def intro!: map_idI [symmetric])
  ultimately show ?thesis
    using assms Some Get_Some [OF Some] sent unsendable
    by (auto simp: run_load_def Let_def sql_update_twice split: if_splits)
qed

subsection \<open>Invariant\<close>

fun runs_ok :: "job_run \<Rightarrow> job_table \<Rightarrow> bool" where
  "runs_ok (Queued i auth) t = (\<forall>r. sql_select i t = Some r \<longrightarrow> row_state r = StatePending)"
| "runs_ok (Replaying j auth) t = (\<forall>r. sql_select (jb_ID j) t = Some r \<longrightarrow> \<not> row_finished r)"
| "runs_ok (Notifying j) t = True"

definition broker_inv :: "broker \<Rightarrow> bool" where
  "broker_inv B \<longleftrightarrow> table_wf (bk_table B) \<and> jobs.every_row row_typed (bk_table B) \<and>
     (\<forall>i r. sql_select i (bk_table B) = Some r \<longrightarrow> i \<in> set (bk_issued B)) \<and>
     distinct (map run_id (bk_runs B)) \<and> (\<forall>x \<in> set (bk_runs B). run_id x \<in> set (bk_issued B)) \<and>
     (\<forall>x \<in> set (bk_runs B). runs_ok x (bk_table B))"

text \<open>A run of another job does not notice an insert, an update or a sweep.\<close>

lemma runs_ok_same: "sql_select (run_id x) t' = sql_select (run_id x) t \<Longrightarrow> runs_ok x t \<Longrightarrow> runs_ok x t'"
  by (cases x) simp_all

lemma runs_ok_sub: "runs_ok x t \<Longrightarrow> (\<And>r. sql_select (run_id x) t' = Some r \<Longrightarrow> sql_select (run_id x) t = Some r) \<Longrightarrow> runs_ok x t'"
  by (cases x) simp_all

lemma broker_inv_update:
  assumes inv: "broker_inv B" and f: "\<And>r. row_id (f r) = row_id r"
    and typed: "\<And>r. sql_select i (bk_table B) = Some r \<Longrightarrow> row_typed r \<Longrightarrow> row_typed (f r)"
    and x: "x \<in> set (bk_runs B)" "run_id x = i"
    and g: "\<And>y. y \<in> set g \<Longrightarrow> run_id y = i \<and> runs_ok y (sql_update i f (bk_table B))" "length g \<le> 1"
  shows "broker_inv (B\<lparr>bk_table := sql_update i f (bk_table B), bk_runs := g @ remove1 x (bk_runs B)\<rparr>)"
proof -
  have d: "distinct (map run_id (bk_runs B))" and wf: "table_wf (bk_table B)" using inv by (auto simp: broker_inv_def)
  have rest: "y \<in> set (remove1 x (bk_runs B)) \<Longrightarrow> y \<in> set (bk_runs B) \<and> run_id y \<noteq> i" for y
    using d x by (metis distinct_map inj_onD notin_set_remove1 set_remove1_eq DiffE singletonI)
  have dr: "distinct (map run_id (remove1 x (bk_runs B)))"
    using d by (auto simp: distinct_map intro: inj_on_subset)
  have sel: "sql_select k (sql_update i f (bk_table B)) =
      (if k = i then map_option f (sql_select k (bk_table B)) else sql_select k (bk_table B))" for k
    using f by (rule select_update)
  have ok: "runs_ok y (sql_update i f (bk_table B))" if "y \<in> set (remove1 x (bk_runs B))" for y
    using rest [OF that] inv by (auto simp: broker_inv_def sel intro: runs_ok_same)
  have "distinct (map run_id (g @ remove1 x (bk_runs B)))"
    using dr g rest by (cases g) force+
  moreover have "jobs.every_row row_typed (sql_update i f (bk_table B))"
    using jobs.every_update [OF wf, of row_typed f i] inv f typed by (simp add: broker_inv_def)
  ultimately show ?thesis
    using inv g rest ok x jobs.wf_update [OF wf f] sel by (auto simp: broker_inv_def)
qed

text \<open>Ending a run, with nothing written.\<close>

lemma broker_inv_runs:
  "broker_inv B \<Longrightarrow> x \<in> set (bk_runs B) \<Longrightarrow> run_id x = i \<Longrightarrow>
   (\<And>y. y \<in> set g \<Longrightarrow> run_id y = i \<and> runs_ok y (bk_table B)) \<Longrightarrow> length g \<le> 1 \<Longrightarrow>
   broker_inv (B\<lparr>bk_runs := g @ remove1 x (bk_runs B)\<rparr>)"
  using broker_inv_update [of B "\<lambda>r. r" i x g] by simp

lemma mark_pending_typed: "row_typed r \<Longrightarrow> row_state r = StatePending \<Longrightarrow> row_typed (mark_row f at r)"
  by (simp add: mark_row_def running_row_typed row_finished_def)

lemma mark_pending_open: "row_state r = StatePending \<Longrightarrow> \<not> row_finished (mark_row f at r)"
  by (simp add: mark_row_def running_row_def row_finished_def)

lemma refuse_typed: "row_typed r \<Longrightarrow> row_typed (refuse_row f at r)"
  by (simp add: refuse_row_def finished_row_typed)

lemma row_of_submitted: "row_id (row_of_job (submitted_job bf now i token r body)) = i"
    "row_state (row_of_job (submitted_job bf now i token r body)) = StatePending"
  by (simp_all add: row_of_job_def submitted_job_def Let_def)

text \<open>A submit either leaves the broker alone or inserts the row of its job and starts its run.\<close>

lemma handleSubmit_cases:
  obtains (refused) "fst (handleSubmit bf now i token fails r B w) = B"
  | (accepted) body t auth where "gate_submit bf (bk_secret B) r = Inr body"
      "sql_insert (row_of_job (submitted_job bf now i token r body)) (bk_table B) = Some t"
      "fst (handleSubmit bf now i token fails r B w) = B\<lparr>bk_table := t, bk_runs := Queued i auth # bk_runs B\<rparr>"
proof (cases "gate_submit bf (bk_secret B) r")
  case (Inl x)
  then show ?thesis using refused by (cases x) (simp add: handleSubmit_def)
next
  case (Inr body)
  then show ?thesis
    using refused accepted
    by (cases "sql_insert (row_of_job (submitted_job bf now i token r body)) (bk_table B)"; cases fails)
      (simp_all add: handleSubmit_def Create_def Let_def)
qed

lemma broker_step_inv [inv_intro]:
  assumes "broker_step bf B B'" and inv: "broker_inv B"
  shows "broker_inv B'"
  using assms(1)
proof cases
  case (submitted i token now fails r w)
  show ?thesis
  proof (cases rule: handleSubmit_cases [where bf = bf and now = now and i = i and token = token
        and fails = fails and r = r and B = B and w = w])
    case refused
    with submitted inv show ?thesis by (fastforce simp: broker_inv_def)
  next
    case (accepted body t auth)
    have wf: "table_wf (bk_table B)" using inv by (simp add: broker_inv_def)
    have sel: "sql_select k t = (if k = i then Some (row_of_job (submitted_job bf now i token r body)) else sql_select k (bk_table B))" for k
      using select_insert [OF accepted(2)] by (simp add: row_of_submitted)
    have "jobs.every_row row_typed t"
      using jobs.every_insert [where P = row_typed, OF wf _ accepted(2)] submitted_row_typed inv by (simp add: broker_inv_def)
    moreover have "runs_ok x t" if "x \<in> set (bk_runs B)" for x
      using that inv submitted(2) by (intro runs_ok_same [of x t "bk_table B"]) (auto simp: broker_inv_def sel)
    ultimately show ?thesis
      using submitted inv accepted sel jobs.wf_insert [OF wf accepted(2)]
      by (fastforce simp: broker_inv_def row_of_submitted)
  qed
next
  case (loaded i auth now faults g t)
  obtain f1 f2 f3 where fs: "faults = (f1, f2, f3)" by (cases faults)
  have pend: "row_state r = StatePending" if "sql_select i (bk_table B) = Some r" for r
    using inv loaded(2) that by (fastforce simp: broker_inv_def)
  from loaded(3)[unfolded fs] show ?thesis
  proof (cases rule: run_load_cases)
    case stopped
    with loaded broker_inv_runs [OF inv loaded(2), of i "[]"] show ?thesis by simp
  next
    case (sent j)
    have "broker_inv (B\<lparr>bk_table := t, bk_runs := [Replaying j auth] @ remove1 (Queued i auth) (bk_runs B)\<rparr>)"
      unfolding sent(3) using sent(2) pend
      by (intro broker_inv_update [OF inv _ _ loaded(2)])
        (auto simp: select_update mark_pending_open intro: mark_pending_typed)
    with loaded sent show ?thesis by simp
  next
    case (unsendable j)
    have "broker_inv (B\<lparr>bk_table := t, bk_runs := [Notifying j] @ remove1 (Queued i auth) (bk_runs B)\<rparr>)"
      unfolding unsendable(3) using unsendable(2) pend
      by (intro broker_inv_update [OF inv _ _ loaded(2)]) (auto intro: mark_pending_typed refuse_typed)
    with loaded unsendable show ?thesis by simp
  qed
next
  case (recorded j auth now fails outcome)
  show ?thesis
  proof (cases fails)
    case True
    with recorded broker_inv_runs [OF inv recorded(2), of "jb_ID j" "[Notifying j]"] show ?thesis
      by (simp add: run_record_update)
  next
    case False
    with recorded broker_inv_update [OF inv, of "outcome_row now outcome" "jb_ID j" _ "[Notifying j]"] show ?thesis
      by (auto simp: run_record_update outcome_row_typed)
  qed
next
  case (notified j fails answers)
  with broker_inv_runs [OF inv notified(2), of "jb_ID j" "[]"] show ?thesis by (simp add: broker_inv_def)
next
  case (swept fails now)
  let ?t = "sql_delete_before (unix now) (bk_table B)"
  have wf: "table_wf (bk_table B)" using inv by (simp add: broker_inv_def)
  have sub: "sql_select i ?t = Some r \<Longrightarrow> sql_select i (bk_table B) = Some r" for i r
    using select_delete [OF wf, of i "unix now"] by (auto split: option.splits if_splits)
  have "runs_ok x ?t" if "x \<in> set (bk_runs B)" for x
    by (rule runs_ok_sub [OF _ sub]) (use that inv in \<open>simp add: broker_inv_def\<close>)
  moreover have iss: "i \<in> set (bk_issued B)" if "sql_select i ?t = Some r" for i r
    using sub [OF that] inv by (auto simp: broker_inv_def)
  moreover have "jobs.every_row row_typed ?t" "table_wf ?t"
    using inv by (simp_all add: broker_inv_def jobs.every_sweep jobs.wf_sweep)
  ultimately have "broker_inv (B\<lparr>bk_table := ?t\<rparr>)"
    using inv iss by (auto simp: broker_inv_def)
  with inv show ?thesis by (simp add: swept SweepExpired_def Let_def)
next
  case restarted
  with inv show ?thesis by (simp add: broker_inv_def)
qed

lemma select_Nil [simp]: "sql_select i [] = None"
  by (simp add: sql_select_def)

lemma broker_reachable_inv: "broker_reachable bf B \<Longrightarrow> broker_inv B"
proof (induction rule: broker_reachable.induct)
  case (empty_store secret)
  then show ?case by (simp add: broker_inv_def jobs.every_row_def select_Nil)
qed (rule broker_step_inv)

subsection \<open>Only its own run changes a job\<close>

text \<open>\<open>writes i x\<close>: the goroutine \<open>x\<close> may still write the row of job \<open>i\<close>.\<close>

fun writes :: "string \<Rightarrow> job_run \<Rightarrow> bool" where
  "writes i (Queued k auth) \<longleftrightarrow> k = i"
| "writes i (Replaying j auth) \<longleftrightarrow> jb_ID j = i"
| "writes i (Notifying j) \<longleftrightarrow> False"

definition frozen :: "string \<Rightarrow> job_row \<Rightarrow> broker \<Rightarrow> bool" where
  "frozen i r B \<longleftrightarrow> i \<in> set (bk_issued B) \<and> list_all (\<lambda>x. \<not> writes i x) (bk_runs B) \<and>
     sql_select i (bk_table B) \<in> {Some r, None}"

lemma frozen_runs: "list_all P xs \<Longrightarrow> list_all P (remove1 x xs)"
  by (auto simp: list_all_iff dest: notin_set_remove1)

lemma writes_run_id: "writes i x \<Longrightarrow> run_id x = i"
  by (cases x) simp_all

lemma select_update_other: "i \<noteq> k \<Longrightarrow> sql_select i (sql_update k f t) = sql_select i t" if "\<And>r. row_id (f r) = row_id r"
  using that by (simp add: select_update)

lemma frozen_step:
  assumes "broker_step bf B B'" and inv: "broker_inv B" and fz: "frozen i r B"
  shows "frozen i r B'"
  using assms(1)
proof cases
  case (submitted k token now fails q w)
  then have "k \<noteq> i" using fz by (auto simp: frozen_def)
  then show ?thesis
    by (cases rule: handleSubmit_cases [where bf = bf and now = now and i = k and token = token
        and fails = fails and r = q and B = B and w = w])
      (use submitted fz in \<open>auto simp: frozen_def row_of_submitted dest!: select_insert [where i = i]\<close>)
next
  case (loaded k auth now faults g t)
  obtain f1 f2 f3 where fs: "faults = (f1, f2, f3)" by (cases faults)
  have k: "k \<noteq> i" using loaded(2) fz by (auto simp: frozen_def list_all_iff)
  have "list_all (\<lambda>x. \<not> writes i x) (case g of Some x \<Rightarrow> [x] | None \<Rightarrow> []) \<and>
      sql_select i t = sql_select i (bk_table B)"
    using loaded(3)[unfolded fs] by (cases rule: run_load_cases) (use k in \<open>auto simp: select_update\<close>)
  then show ?thesis using loaded(1) fz by (auto simp: frozen_def frozen_runs)
next
  case (recorded j auth now fails outcome)
  then have "jb_ID j \<noteq> i" using fz by (auto simp: frozen_def list_all_iff)
  then show ?thesis using recorded(1) fz by (auto simp: frozen_def frozen_runs run_record_update select_update)
next
  case (notified j fails answers)
  with fz show ?thesis by (auto simp: frozen_def frozen_runs)
next
  case (swept fails now)
  have "table_wf (bk_table B)" using inv by (simp add: broker_inv_def)
  with fz show ?thesis
    by (auto simp: swept frozen_def SweepExpired_def Let_def select_delete split: option.splits)
next
  case restarted
  with fz show ?thesis by (simp add: frozen_def)
qed

lemma frozen_steps:
  "(broker_step bf)\<^sup>*\<^sup>* B B' \<Longrightarrow> broker_inv B \<Longrightarrow> frozen i r B \<Longrightarrow> broker_inv B' \<and> frozen i r B'"
  by (induction rule: rtranclp_induct) (auto intro: broker_step_inv frozen_step)

lemma finished_frozen:
  assumes "broker_inv B" and "sql_select i (bk_table B) = Some r" and "row_finished r"
  shows "frozen i r B"
proof -
  have "\<not> writes i x" if x: "x \<in> set (bk_runs B)" for x
  proof
    assume "writes i x"
    moreover have "runs_ok x (bk_table B)" using assms(1) x by (simp add: broker_inv_def)
    ultimately show False using assms by (cases x) (auto simp: row_finished_def)
  qed
  with assms show ?thesis by (auto simp: frozen_def list_all_iff broker_inv_def)
qed

lemma restarted_frozen:
  "broker_inv B \<Longrightarrow> sql_select i (bk_table B) = Some r \<Longrightarrow> frozen i r (B\<lparr>bk_runs := []\<rparr>)"
  by (auto simp: frozen_def broker_inv_def)

subsection \<open>The life cycle of a job\<close>

datatype job_phase = Accepted | Working | Succeeded int string string | Failure int string

inductive job_step :: "(string \<rightharpoonup> job_phase) \<Rightarrow> (string \<rightharpoonup> job_phase) \<Rightarrow> bool" where
  accept: "V i = None \<Longrightarrow> job_step V (V(i \<mapsto> Accepted))"
| start: "V i = Some Accepted \<Longrightarrow> job_step V (V(i \<mapsto> Working))"
| succeed: "V i \<in> {Some Accepted, Some Working} \<Longrightarrow> status < 400 \<Longrightarrow> job_step V (V(i \<mapsto> Succeeded status ct body))"
| fail: "V i \<in> {Some Accepted, Some Working} \<Longrightarrow> job_step V (V(i \<mapsto> Failure status reason))"
| expire: "job_step V (V |` S)"

definition phase_of :: "job_row \<Rightarrow> job_phase" where
  "phase_of r =
     (if row_state r = StatePending then Accepted
      else if row_state r = StateRunning then Working
      else if row_state r = StateComplete then Succeeded (row_result_status r) (row_result_content_type r) (row_result r)
      else Failure (row_result_status r) (row_error r))"

definition job_view :: "job_table \<Rightarrow> (string \<rightharpoonup> job_phase)" where
  "job_view t i = map_option phase_of (sql_select i t)"

lemma view_update:
  "(\<And>r. row_id (f r) = row_id r) \<Longrightarrow>
   job_view (sql_update i f t) = (case sql_select i t of None \<Rightarrow> job_view t | Some r \<Rightarrow> (job_view t)(i \<mapsto> phase_of (f r)))"
  by (rule ext) (auto simp: job_view_def select_update split: option.splits)

lemma view_insert: "sql_insert r t = Some t' \<Longrightarrow> job_view t (row_id r) = None \<and> job_view t' = (job_view t)(row_id r \<mapsto> phase_of r)"
  using select_insert by (fastforce simp: job_view_def fun_eq_iff)

lemma view_sweep: "table_wf t \<Longrightarrow>
    job_view (sql_delete_before n t) = job_view t |` {i. \<forall>r. sql_select i t = Some r \<longrightarrow> \<not> row_expires_at r < n}"
  by (rule ext) (auto simp: job_view_def select_delete restrict_map_def split: option.splits)

lemma job_phase_open: "row_typed r \<Longrightarrow> \<not> row_finished r \<Longrightarrow> phase_of r \<in> {Accepted, Working}"
  by (auto simp: row_typed_def row_finished_def phase_of_def)

lemma phase_finished_row: "phase_of (finished_row s c b e at r) = (if e \<noteq> [] \<or> s \<ge> 400 then Failure s e else Succeeded s c b)"
  by (simp add: phase_of_def finished_row_def)

lemma job_step_finish:
  assumes "V i = Some p" and "p \<in> {Accepted, Working}"
  shows "job_step V (V(i \<mapsto> phase_of (finished_row s c b e at r)))"
  using assms job_step.succeed [of V i s c b] job_step.fail [of V i s e]
  by (auto simp: phase_finished_row not_le)

lemma job_step_outcome:
  assumes "V i = Some p" and "p \<in> {Accepted, Working}"
  shows "job_step V (V(i \<mapsto> phase_of (outcome_row at outcome r)))"
  using assms by (cases outcome) (simp_all add: job_step_finish)

lemma phase_running: "row_state r = StatePending \<Longrightarrow> phase_of (running_row at r) = Working"
  by (simp add: phase_of_def running_row_def)

lemma phase_pending: "row_state r = StatePending \<Longrightarrow> phase_of r = Accepted"
  by (simp add: phase_of_def)

lemma load_phase:
  assumes inv: "broker_inv B" and x: "Queued i auth \<in> set (bk_runs B)"
    and l: "run_load bf now (f1, f2, f3) i auth (bk_table B) = (g, t)"
  shows "job_step (job_view (bk_table B)) (job_view t) \<or> job_view t = job_view (bk_table B)"
  using l
proof (cases rule: run_load_cases)
  case (sent j)
  show ?thesis
  proof (cases "sql_select i (bk_table B)")
    case (Some r)
    have p: "row_state r = StatePending" using inv x Some by (fastforce simp: broker_inv_def)
    then have v: "job_view (bk_table B) i = Some Accepted" by (simp add: job_view_def Some phase_pending)
    then show ?thesis
      using job_step.start [where V = "job_view (bk_table B)" and i = i, OF v] map_upd_triv [where t = "job_view (bk_table B)" and k = i, OF v] p
      by (cases f2) (simp_all add: sent(3) view_update Some mark_row_def phase_pending phase_running)
  qed (simp add: sent(3) view_update)
next
  case (unsendable j)
  show ?thesis
  proof (cases "sql_select i (bk_table B)")
    case (Some r)
    have p: "row_state r = StatePending" using inv x Some by (fastforce simp: broker_inv_def)
    then have v: "job_view (bk_table B) i = Some Accepted" by (simp add: job_view_def Some phase_pending)
    then show ?thesis
      using job_step.start [where V = "job_view (bk_table B)" and i = i, OF v] job_step_finish [where V = "job_view (bk_table B)" and i = i, OF v] map_upd_triv [where t = "job_view (bk_table B)" and k = i, OF v] p
      by (cases f2; cases f3)
        (simp_all add: unsendable(3) view_update Some mark_row_def refuse_row_def phase_pending phase_running)
  qed (simp add: unsendable(3) view_update)
qed simp

lemma record_phase:
  assumes inv: "broker_inv B" and x: "Replaying j auth \<in> set (bk_runs B)"
  shows "job_step (job_view (bk_table B)) (job_view (run_record now fails outcome j (bk_table B))) \<or>
    job_view (run_record now fails outcome j (bk_table B)) = job_view (bk_table B)"
proof (cases "sql_select (jb_ID j) (bk_table B)")
  case (Some r)
  have "runs_ok (Replaying j auth) (bk_table B)" "row_typed r"
    using inv x Some by (auto simp: broker_inv_def jobs.every_row_def)
  then have "phase_of r \<in> {Accepted, Working}" using Some by (intro job_phase_open) simp_all
  then show ?thesis
    using job_step_outcome [of "job_view (bk_table B)" "jb_ID j" "phase_of r"] Some
    by (simp add: run_record_update view_update job_view_def)
qed (simp add: run_record_update view_update)

end
