(* ===== verification/JobProperties.thy ===== *)
theory JobProperties imports JobRuns begin

text \<open>
  Properties of the asynchronous job broker: its rows are well typed, it refines the life cycle of a
  job, only the run of a job changes it, a run ends with a finished job, results are confidential, and
  a paid request comes back to the holder of its token.
\<close>

subsection \<open>Sample data\<close>

definition ex_bf :: broker_funs where
  "ex_bf = \<lparr>bf_hmac = (\<lambda>k m. ''mac''), bf_newRequest = (\<lambda>m u. True), bf_frac = (\<lambda>f k u. 0), bf_page = (\<lambda>p. [])\<rparr>"

definition ex_submit :: http_request where
  "ex_submit = \<lparr>rq_method = ''POST'', rq_host = ''h'', rq_path = ''/submit'', rq_rawQuery = [],
     rq_header = [(''x-obol-upstream-url'', [''http://up/'']), (''x-obol-offer'', [''ns/o'']),
       (''x-payment-payer'', [''0xAB'']), (''x-obol-upstream-auth'', [''key''])],
     rq_body = Replayable ''hello''\<rparr>"

definition ex_broker :: broker where
  "ex_broker = \<lparr>bk_secret = [], bk_table = [], bk_runs = [], bk_posts = [], bk_issued = []\<rparr>"

definition ex_writer :: resp_writer where
  "ex_writer = \<lparr>cw_header = [], cw_status = None, cw_sent = [], cw_body = [], cw_info = [], cw_faults = [], cw_raw = None\<rparr>"

lemma ex_writer_simps [simp]: "cw_status ex_writer = None" "cw_raw ex_writer = None" "cw_faults ex_writer = []" "cw_body ex_writer = []"
  by (simp_all add: ex_writer_def)

definition ex_row :: job_row where
  "ex_row = row_of_job (submitted_job ex_bf 0 ''j1'' ''t1'' ex_submit ''hello'')"

definition ex_accepted :: broker where
  "ex_accepted = \<lparr>bk_secret = [], bk_table = [ex_row], bk_runs = [Queued ''j1'' ''key''], bk_posts = [],
     bk_issued = [''j1'', ''t1'']\<rparr>"

definition ex_done :: broker where
  "ex_done = \<lparr>bk_secret = [], bk_table = [outcome_row 0 (Answered 200 [] ''ok'') (running_row 0 ex_row)],
     bk_runs = [Notifying (job_of_row ex_row)], bk_posts = [], bk_issued = [''j1'', ''t1'']\<rparr>"

lemma ex_submit_gate: "gate_submit ex_bf [] ex_submit = Inr ''hello''"
  by (simp add: gate_submit_def ex_submit_def hget_def to_lower_def byte_def maxSubmitBody_def Let_def)

lemma ex_row_id: "row_id ex_row = ''j1''"
  by (simp add: ex_row_def row_of_submitted)

lemma ex_accepts: "fst (handleSubmit ex_bf 0 ''j1'' ''t1'' False ex_submit ex_broker ex_writer) =
    ex_accepted\<lparr>bk_issued := []\<rparr>"
  by (simp add: handleSubmit_def ex_submit_gate ex_broker_def ex_accepted_def Create_def sql_insert_def Let_def
      ex_row_def [symmetric])
    (code_simp)

lemma ex_reachable: "broker_reachable ex_bf ex_broker" "broker_reachable ex_bf ex_accepted"
proof -
  show r: "broker_reachable ex_bf ex_broker" unfolding ex_broker_def by (rule broker_reachable.empty_store)
  have "broker_step ex_bf ex_broker ex_accepted"
    using broker_step.submitted [where bf = ex_bf and B = ex_broker and i = "''j1''" and token = "''t1''" and now = 0
        and fails = False and r = ex_submit and w = ex_writer]
    by (simp add: ex_accepts) (simp add: ex_broker_def ex_accepted_def)
  with r show "broker_reachable ex_bf ex_accepted" by (rule broker_reachable.step)
qed

lemma ex_running: "run_load ex_bf 0 (False, False, False) ''j1'' ''key'' [ex_row] =
    (Some (Replaying (job_of_row ex_row) ''key''), [running_row 0 ex_row])"
  by (simp add: run_load_def Get_def sql_select_def ex_row_id MarkRunning_def sql_update_def ex_bf_def)

lemma job_of_row_id [simp]: "jb_ID (job_of_row r) = row_id r"
  by (simp add: job_of_row_def)

lemma ex_done_reachable: "broker_reachable ex_bf ex_done"
proof -
  let ?B = "ex_accepted\<lparr>bk_table := [running_row 0 ex_row], bk_runs := [Replaying (job_of_row ex_row) ''key'']\<rparr>"
  have "broker_step ex_bf ex_accepted ?B"
    using broker_step.loaded [of "''j1''" "''key''" ex_accepted ex_bf 0 "(False, False, False)"] ex_running
    by (simp add: ex_accepted_def)
  moreover have "broker_step ex_bf ?B ex_done"
    using broker_step.recorded [of "job_of_row ex_row" "''key''" ?B ex_bf 0 False "Answered 200 [] ''ok''"]
    by (simp add: ex_accepted_def ex_done_def run_record_update sql_update_def)
  ultimately show ?thesis using ex_reachable(2) by (blast intro: broker_reachable.step)
qed

subsection \<open>Types and life cycle\<close>

text \<open>C31: Every row of a reachable job table is well typed: its state and visibility are constants of the
  program, its payer is in lower case, a stored error is one of the two fixed public reasons, a complete
  job has no error and a status below 400, a failed one has an error or a status from 400, results are
  within the limit, and an unfinished job has no result.\<close>

theorem broker_rows_typed:
  assumes "broker_reachable bf B" and "sql_select i (bk_table B) = Some r"
  shows "row_typed r"
  using broker_reachable_inv [OF assms(1)] assms(2) by (auto simp: broker_inv_def jobs.every_row_def)

theorem broker_rows_typed_witness: "row_typed ex_row"
  using broker_rows_typed [OF ex_reachable(2), of "''j1''"] by (simp add: ex_accepted_def sql_select_def ex_row_id)

text \<open>C32: Every step of the broker (a submit, a step of a run with any fault of the database and any
  outcome of the upstream, a sweep, a restart) is a step of the life cycle accepted - working -
  succeeded or failed - expired of a job, or leaves the jobs as they were.\<close>

theorem broker_refines_job_lifecycle:
  assumes "broker_reachable bf B" and "broker_step bf B B'"
  shows "job_step (job_view (bk_table B)) (job_view (bk_table B')) \<or> job_view (bk_table B') = job_view (bk_table B)"
proof -
  have inv: "broker_inv B" using assms(1) by (rule broker_reachable_inv)
  from assms(2) show ?thesis
  proof cases
    case (submitted i token now fails r w)
    then show ?thesis
      by (cases rule: handleSubmit_cases [where bf = bf and now = now and i = i and token = token
          and fails = fails and r = r and B = B and w = w])
        (use job_step.accept in \<open>auto simp: phase_of_def row_of_submitted dest!: view_insert\<close>)
  next
    case (loaded i auth now faults g t)
    then show ?thesis using load_phase [OF inv] by (cases faults) simp
  next
    case (recorded j auth now fails outcome)
    then show ?thesis using record_phase [OF inv recorded(2)] by simp
  next
    case (swept fails now)
    then show ?thesis
      using inv job_step.expire by (auto simp: SweepExpired_def Let_def view_sweep broker_inv_def)
  qed simp_all
qed

theorem broker_refines_job_lifecycle_witness:
  "job_step (job_view [ex_row]) (job_view (bk_table (ex_accepted\<lparr>bk_runs := []\<rparr>))) \<or>
   job_view (bk_table (ex_accepted\<lparr>bk_runs := []\<rparr>)) = job_view [ex_row]"
  using broker_refines_job_lifecycle [OF ex_reachable(2) broker_step.restarted] by (simp add: ex_accepted_def)

subsection \<open>Jobs over time\<close>

lemma one_broker_step: "broker_step bf B B' \<Longrightarrow> (broker_step bf)\<^sup>*\<^sup>* B B'"
  by (rule r_into_rtranclp)

text \<open>Once a job has finished, no sequence of submits, runs, sweeps and restarts changes its record:
  later it is found unchanged, or not at all.\<close>

theorem finished_job_is_final:
  assumes "broker_reachable bf B" and "sql_select i (bk_table B) = Some r" and "row_finished r"
    and "(broker_step bf)\<^sup>*\<^sup>* B B'"
  shows "sql_select i (bk_table B') \<in> {Some r, None}"
  using frozen_steps [OF assms(4) broker_reachable_inv [OF assms(1)]
      finished_frozen [OF broker_reachable_inv [OF assms(1)] assms(2,3)]]
  by (simp add: frozen_def)

theorem finished_job_is_final_witness:
  "sql_select ''j1'' (bk_table (ex_done\<lparr>bk_runs := []\<rparr>)) \<in>
    {Some (outcome_row 0 (Answered 200 [] ''ok'') (running_row 0 ex_row)), None}"
  by (rule finished_job_is_final [OF ex_done_reachable _ _ one_broker_step [OF broker_step.restarted]])
    (simp_all add: ex_done_def sql_select_def ex_row_id)

text \<open>A restart of the broker strands every job that has not finished: whatever happens afterwards,
  the job is found in the state it had (accepted or running, never complete or failed) until a sweep
  deletes it.\<close>

theorem restart_strands_jobs:
  assumes "broker_reachable bf B" and "sql_select i (bk_table B) = Some r"
    and "(broker_step bf)\<^sup>*\<^sup>* (B\<lparr>bk_runs := []\<rparr>) B'"
  shows "sql_select i (bk_table B') \<in> {Some r, None}"
proof -
  have inv: "broker_inv B" using assms(1) by (rule broker_reachable_inv)
  have "broker_inv (B\<lparr>bk_runs := []\<rparr>)" using broker_step_inv [OF broker_step.restarted inv] .
  from frozen_steps [OF assms(3) this restarted_frozen [OF inv assms(2)]] show ?thesis
    by (simp add: frozen_def)
qed

theorem restart_strands_jobs_witness:
  "sql_select ''j1'' (bk_table (ex_accepted\<lparr>bk_runs := [], bk_table := snd (SweepExpired False 0 [ex_row])\<rparr>)) \<in> {Some ex_row, None}"
proof -
  have "(broker_step ex_bf)\<^sup>*\<^sup>* (ex_accepted\<lparr>bk_runs := []\<rparr>)
      (ex_accepted\<lparr>bk_runs := [], bk_table := snd (SweepExpired False 0 [ex_row])\<rparr>)"
    using one_broker_step [OF broker_step.swept [where bf = ex_bf and B = "ex_accepted\<lparr>bk_runs := []\<rparr>" and fails = False and now = 0]]
    by (simp add: ex_accepted_def)
  from restart_strands_jobs [OF ex_reachable(2) _ this] show ?thesis
    by (simp add: ex_accepted_def sql_select_def ex_row_id)
qed

subsection \<open>A run ends\<close>



text \<open>What a whole run leaves in the table.\<close>

definition run_row :: "broker_funs \<Rightarrow> nsec \<Rightarrow> nsec \<Rightarrow> upstream_outcome \<Rightarrow> job_row \<Rightarrow> job_row" where
  "run_row bf started ended outcome r =
     (if bf_newRequest bf (row_method r) (replay_url (job_of_row r)) then outcome_row ended outcome (running_row started r)
      else finished_row 0 [] [] jobErrUpstreamRequest started (running_row started r))"

lemma run_table:
  assumes "sql_select i t = Some r"
  shows "sql_select k (fst (run bf started ended outcome answers i auth t)) =
    (if k = i then Some (run_row bf started ended outcome r) else sql_select k t)"
proof -
  have i: "row_id r = i" using assms select_id by blast
  show ?thesis
    using assms i
    by (simp add: run_def run_load_def Get_def MarkRunning_def Finish_def Let_def run_record_update
        select_update run_row_def job_of_row_def)
qed




subsection \<open>Results\<close>

lemma status_Write: "cw_status (snd (cw_Write b w)) = (if cw_raw w = None \<and> cw_status w = None then Some 200 else cw_status w)"
  by (simp add: cw_Write_def cw_WriteHeader_def Let_def split: list.splits option.splits)

lemma status_set_header [simp]: "cw_status (set_header k v w) = cw_status w" "cw_raw (set_header k v w) = cw_raw w"
  by (simp_all add: set_header_def)

lemma status_writeJobError:
  assumes "cw_status w = None" and "cw_raw w = None" and "400 \<le> code"
  shows "cw_status (writeJobError bf r code title detail w) = Some code"
  using assms by (simp add: writeJobError_def encode_members_def status_Write cw_WriteHeader_def)

definition no_credentials :: "http_request \<Rightarrow> job_row \<Rightarrow> bool" where
  "no_credentials q r \<longleftrightarrow>
     (let wallet = to_lower (hget (rq_header q) ''X-Verified-Wallet'') in
      (wallet = [] \<or> wallet \<noteq> row_payer r) \<and>
      (case cut_prefix ''Bearer '' (hget (rq_header q) ''Authorization'') of
         Some tok \<Rightarrow> trim_space tok \<noteq> row_token r | None \<Rightarrow> True))"

lemma no_credentials_refused: "no_credentials q r \<Longrightarrow> \<not> callerMayRead q (job_of_row r)"
  by (auto simp: no_credentials_def callerMayRead_def Let_def job_of_row_def split: option.splits)

lemma outcome_row_keeps:
  "row_visibility (outcome_row at outcome r) = row_visibility r" "row_token (outcome_row at outcome r) = row_token r"
  "row_payer (outcome_row at outcome r) = row_payer r" "row_expires_at (outcome_row at outcome r) = row_expires_at r"
  by (cases outcome; simp add: finished_row_def)+

text \<open>The reply of the result endpoint when there is no row to ask, or none that may be read.\<close>

definition result_refusal :: "broker_funs \<Rightarrow> http_request \<Rightarrow> bool \<Rightarrow> resp_writer \<Rightarrow> resp_writer" where
  "result_refusal bf q gone w =
     (if gone then writeJobError bf q 410 ''Job expired''
        (''This job'' @ [CHR 0x27] @ ''s retention window elapsed; the result was deleted.'') w
      else writeJobError bf q 401 ''Not your job''
        ''Results are visible to the wallet that paid (sign in with it) or to the bearer of the jobToken from the 202 response.''
        (set_header ''WWW-Authenticate'' (''Bearer realm='' @ [CHR 0x22] @ ''job-result'' @ [CHR 0x22]) w))"

lemma handleResult_refused:
  assumes "sql_select i t = Some r" and "row_visibility r \<noteq> ''public''" and "\<not> callerMayRead q (job_of_row r)"
  shows "handleResult bf now False q i t w = result_refusal bf q (now > of_unix (row_expires_at r)) w"
proof -
  have "Get False i t = Some (job_of_row r)" "jb_Visibility (job_of_row r) = row_visibility r"
      "job_gone now (job_of_row r) \<longleftrightarrow> now > of_unix (row_expires_at r)"
    using assms(1) by (simp_all add: Get_def job_of_row_def job_gone_def)
  with assms(2,3) show ?thesis
    unfolding handleResult_def result_refusal_def by (simp only: option.case if_True simp_thms)
qed

lemma status_result_refusal:
  "cw_status w = None \<Longrightarrow> cw_raw w = None \<Longrightarrow> cw_status (result_refusal bf q gone w) \<in> {Some 401, Some 410}"
  by (cases gone) (simp_all add: result_refusal_def status_writeJobError)

text \<open>C29: A caller who is neither the verified wallet of the payer nor holds the job's token learns
  nothing of a job whose results are not public: the result endpoint answers 401 (410 after expiry), and
  the answer is the same whether the job has an outcome and whichever it is.\<close>

theorem job_result_confidential:
  assumes "sql_select i t = Some r" and "row_visibility r \<noteq> ''public''" and "no_credentials q r"
    and "cw_status w = None" and "cw_raw w = None"
  shows "handleResult bf now False q i (sql_update i (outcome_row at outcome) t) w = handleResult bf now False q i t w \<and>
    cw_status (handleResult bf now False q i t w) \<in> {Some 401, Some 410}"
proof -
  let ?r' = "outcome_row at outcome r"
  have "no_credentials q ?r'"
    using assms(3) by (simp add: no_credentials_def outcome_row_keeps split: option.splits)
  then have "handleResult bf now False q i (sql_update i (outcome_row at outcome) t) w =
      result_refusal bf q (now > of_unix (row_expires_at ?r')) w"
    using assms(1,2) by (intro handleResult_refused no_credentials_refused) (simp_all add: select_update outcome_row_keeps)
  moreover have "handleResult bf now False q i t w = result_refusal bf q (now > of_unix (row_expires_at r)) w"
    using assms(1-3) by (intro handleResult_refused no_credentials_refused)
  ultimately show ?thesis
    using status_result_refusal [OF assms(4,5)] by (simp add: outcome_row_keeps)
qed

theorem job_result_confidential_witness:
  "handleResult ex_bf 0 False ex_submit ''j1'' (sql_update ''j1'' (outcome_row 0 (Answered 200 [] ''ok'')) [ex_row]) ex_writer =
   handleResult ex_bf 0 False ex_submit ''j1'' [ex_row] ex_writer"
proof -
  have "no_credentials ex_submit ex_row" "row_visibility ex_row \<noteq> ''public''" by code_simp+
  then show ?thesis
    using job_result_confidential [of "''j1''" "[ex_row]" ex_row ex_submit ex_writer ex_bf 0 0 "Answered 200 [] ''ok''"]
    by (simp add: sql_select_def ex_row_id del: outcome_row.simps)
qed

subsection \<open>From the submission to the result\<close>

text \<open>The steps of the broker in which rows go only by sweeps, and these not after the time \<open>lim\<close>.\<close>

inductive steps_by :: "broker_funs \<Rightarrow> nsec \<Rightarrow> broker \<Rightarrow> broker \<Rightarrow> bool" for bf lim B where
  here: "steps_by bf lim B B"
| keeping: "steps_by bf lim B B1 \<Longrightarrow> broker_step bf B1 B2 \<Longrightarrow> row_id ` set (bk_table B1) \<subseteq> row_id ` set (bk_table B2) \<Longrightarrow>
    steps_by bf lim B B2"
| sweeping: "steps_by bf lim B B1 \<Longrightarrow> now \<le> lim \<Longrightarrow>
    steps_by bf lim B (B1\<lparr>bk_table := snd (SweepExpired fails now (bk_table B1))\<rparr>)"

text \<open>No other step removes a row, so that only the late sweeps are left out.\<close>

lemma update_ids: "(\<And>r. row_id (f r) = row_id r) \<Longrightarrow> map row_id (sql_update i f t) = map row_id t"
  by (simp add: sql_update_def)

lemma only_sweeps_remove:
  assumes "broker_step bf B B'"
  shows "row_id ` set (bk_table B) \<subseteq> row_id ` set (bk_table B') \<or> (\<exists>fails now. B' = B\<lparr>bk_table := snd (SweepExpired fails now (bk_table B))\<rparr>)"
  using assms
proof cases
  case (submitted i token now fails r w)
  then show ?thesis
    by (cases rule: handleSubmit_cases [where bf = bf and now = now and i = i and token = token and fails = fails and r = r and B = B and w = w])
      (auto simp: sql_insert_def split: if_splits)
next
  case (loaded i auth now faults g t)
  obtain f1 f2 f3 where "faults = (f1, f2, f3)" by (cases faults)
  then have "map row_id t = map row_id (bk_table B)"
    using loaded(3) by (auto simp: run_load_def Let_def MarkRunning_def Finish_def update_ids split: option.splits if_splits)
  then have "row_id ` set t = row_id ` set (bk_table B)" by (metis set_map)
  then show ?thesis using loaded(1) by simp
next
  case (recorded j auth now fails outcome)
  have "map row_id (run_record now fails outcome j (bk_table B)) = map row_id (bk_table B)"
    by (cases outcome) (simp_all add: Finish_def Let_def update_ids)
  then have "row_id ` set (run_record now fails outcome j (bk_table B)) = row_id ` set (bk_table B)" by (metis set_map)
  then show ?thesis using recorded(1) by simp
qed auto

lemma kept_row:
  assumes "steps_by bf lim B B'" and "broker_inv B" and "sql_select i (bk_table B) = Some r" and "row_finished r"
    and "lim \<le> of_unix (row_expires_at r)"
  shows "broker_inv B' \<and> sql_select i (bk_table B') = Some r"
  using assms
proof (induction rule: steps_by.induct)
  case (keeping B1 B2)
  then have "broker_inv B1" "sql_select i (bk_table B1) = Some r" by simp_all
  then have "frozen i r B2" "broker_inv B2"
    using finished_frozen keeping.prems(3) frozen_step [OF keeping.hyps(2)] broker_step_inv [OF keeping.hyps(2)] by blast+
  moreover have "sql_select i (bk_table B2) \<noteq> None"
    using keeping.hyps(3) \<open>sql_select i (bk_table B1) = Some r\<close> select_None [of i "bk_table B1"] select_None [of i "bk_table B2"] by auto
  ultimately show ?case by (auto simp: frozen_def)
next
  case (sweeping B1 now fails)
  have b: "broker_inv B1" "sql_select i (bk_table B1) = Some r" using sweeping by simp_all
  have "broker_inv (B1\<lparr>bk_table := snd (SweepExpired fails now (bk_table B1))\<rparr>)"
    using broker_step_inv [OF broker_step.swept b(1)] .
  moreover have "\<not> row_expires_at r < unix now"
    using sweeping.hyps(2) sweeping.prems(4) unfolding unix_def of_unix_def by arith
  ultimately show ?case using b select_delete [of "bk_table B1" i "unix now"] by (simp add: SweepExpired_def broker_inv_def Let_def)
qed simp

text \<open>A job is accepted; its goroutine runs to its end.\<close>

definition accept_job :: "broker_funs \<Rightarrow> nsec \<Rightarrow> string \<Rightarrow> string \<Rightarrow> http_request \<Rightarrow> broker \<Rightarrow> resp_writer \<Rightarrow> broker" where
  "accept_job bf now i token q B w = (fst (handleSubmit bf now i token False q B w))\<lparr>bk_issued := i # token # bk_issued B\<rparr>"

definition run_job :: "broker_funs \<Rightarrow> nsec \<Rightarrow> nsec \<Rightarrow> upstream_outcome \<Rightarrow> (nat \<Rightarrow> int option) \<Rightarrow> string \<Rightarrow> string \<Rightarrow> broker \<Rightarrow> broker" where
  "run_job bf started ended outcome hooks i auth B =
     (case run bf started ended outcome hooks i auth (bk_table B) of
        (t, posts) \<Rightarrow> B\<lparr>bk_table := t, bk_posts := bk_posts B @ posts, bk_runs := remove1 (Queued i auth) (bk_runs B)\<rparr>)"

lemma accept_inv: "broker_inv B \<Longrightarrow> i \<notin> set (bk_issued B) \<Longrightarrow> broker_inv (accept_job bf now i token q B w)"
  unfolding accept_job_def by (rule broker_step_inv [OF broker_step.submitted])

lemma run_job_inv:
  assumes inv: "broker_inv B" and q: "Queued i auth \<in> set (bk_runs B)"
  shows "broker_inv (run_job bf started ended outcome hooks i auth B)"
proof -
  obtain g t1 where l: "run_load bf started (False, False, False) i auth (bk_table B) = (g, t1)" by (rule prod.exhaust)
  define B1 where "B1 = B\<lparr>bk_table := t1, bk_runs := (case g of Some x \<Rightarrow> [x] | None \<Rightarrow> []) @ remove1 (Queued i auth) (bk_runs B)\<rparr>"
  have b1: "broker_inv B1" unfolding B1_def by (rule broker_step_inv [OF broker_step.loaded [OF q l] inv])
  have posted: "broker_inv (b\<lparr>bk_posts := ps\<rparr>) = broker_inv b" for b ps by (simp add: broker_inv_def)
  consider "g = None" | j where "g = Some (Notifying j)" | j where "g = Some (Replaying j auth)"
    using l by (auto simp: run_load_def Let_def split: option.splits if_splits)
  then show ?thesis
  proof cases
    case 1
    then have "run_job bf started ended outcome hooks i auth B = B1\<lparr>bk_posts := bk_posts B @ []\<rparr>"
      by (simp add: run_job_def run_def l B1_def)
    then show ?thesis using b1 posted by simp
  next
    case (2 j)
    then have "broker_inv (B1\<lparr>bk_posts := bk_posts B1 @ fireWebhook False hooks j (bk_table B1), bk_runs := remove1 (Notifying j) (bk_runs B1)\<rparr>)"
      by (intro broker_step_inv [OF broker_step.notified b1]) (simp add: B1_def)
    with 2 show ?thesis by (simp add: run_job_def run_def l B1_def)
  next
    case (3 j)
    define B2 where "B2 = B1\<lparr>bk_table := run_record ended False outcome j (bk_table B1), bk_runs := Notifying j # remove1 (Replaying j auth) (bk_runs B1)\<rparr>"
    have b2: "broker_inv B2" unfolding B2_def by (rule broker_step_inv [OF broker_step.recorded b1]) (simp add: B1_def 3)
    have "broker_inv (B2\<lparr>bk_posts := bk_posts B2 @ fireWebhook False hooks j (bk_table B2), bk_runs := remove1 (Notifying j) (bk_runs B2)\<rparr>)"
      by (rule broker_step_inv [OF broker_step.notified b2]) (simp add: B2_def)
    with 3 show ?thesis by (simp add: run_job_def run_def l B1_def B2_def Let_def)
  qed
qed

text \<open>C28: A paid job comes back.  A request that passes the gate is replayed to the upstream with its own method, path and
  body.  When its run goes through and the upstream answers below 400 within the size limit, then after any further
  steps of the broker (other jobs, restarts, sweeps up to the time of the fetch) the holder of the job's token gets from the
  result endpoint, until the job expires, the body of that answer with its content type (octet-stream if it had none),
  under status 200 whatever status below 400 the upstream gave.\<close>

theorem paid_job_roundtrip:
  assumes "broker_reachable bf B" and "i \<notin> set (bk_issued B)" and "gate_submit bf (bk_secret B) q = Inr body"
    and "B1 = accept_job bf now i token q B w" and "auth = hget (rq_header q) ''X-Obol-Upstream-Auth''"
    and "bf_newRequest bf (rq_method q) (trim_suffix ''/'' (hget (rq_header q) ''X-Obol-Upstream-Url'') @ rq_path q)"
    and "steps_by bf fetched (run_job bf started ended (Answered status ct answer) hooks i auth B1) B2"
    and "status < 400" and "length answer \<le> maxResultBody"
    and "hget (rq_header f) ''Authorization'' = ''Bearer '' @ token" and "trim_space token = token"
    and "fetched \<le> of_unix (unix (now + submit_ttl bf (rq_header q)))"
    and "cw_status v = None" and "cw_raw v = None" and "cw_faults v = []"
  shows "(\<exists>j. fst (run_load bf started (False, False, False) i auth (bk_table B1)) = Some (Replaying j auth) \<and>
      rp_method (replay_of j auth) = rq_method q \<and> rp_body (replay_of j auth) = body \<and>
      rp_url (replay_of j auth) = trim_suffix ''/'' (hget (rq_header q) ''X-Obol-Upstream-Url'') @ rq_path q) \<and>
    cw_status (handleResult bf fetched False f i (bk_table B2) v) = Some 200 \<and>
    hget (cw_sent (handleResult bf fetched False f i (bk_table B2) v)) ''Content-Type'' =
      (if ct = [] then ''application/octet-stream'' else ct) \<and>
    cw_body (handleResult bf fetched False f i (bk_table B2) v) = cw_body v @ answer"
proof -
  let ?r = "row_of_job (submitted_job bf now i token q body)"
  have inv: "broker_inv B" by (rule broker_reachable_inv [OF assms(1)])
  have new: "i \<notin> row_id ` set (bk_table B)"
    using inv assms(2) select_None [of i "bk_table B"] by (cases "sql_select i (bk_table B)") (auto simp: broker_inv_def)
  then have "sql_insert ?r (bk_table B) = Some (bk_table B @ [?r])" by (auto simp: sql_insert_def row_of_submitted)
  then have B1: "bk_table B1 = bk_table B @ [?r]" "bk_runs B1 = Queued i auth # bk_runs B"
    by (simp_all add: assms(3,4,5) accept_job_def handleSubmit_def Create_def Let_def)
  then have sel: "sql_select i (bk_table B1) = Some ?r" using new by (simp add: select_snoc row_of_submitted flip: select_None)
  have job: "row_method ?r = rq_method q" "row_body ?r = body" "row_token ?r = token"
      "row_expires_at ?r = unix (now + submit_ttl bf (rq_header q))"
      "replay_url (job_of_row ?r) = trim_suffix ''/'' (hget (rq_header q) ''X-Obol-Upstream-Url'') @ rq_path q"
    by (simp_all add: row_of_job_def submitted_job_def Let_def replay_url_def job_of_row_def)
  let ?d = "outcome_row ended (Answered status ct answer) (running_row started ?r)"
  let ?R = "run_job bf started ended (Answered status ct answer) hooks i auth B1"
  have ran: "sql_select i (bk_table ?R) = Some ?d"
    using run_table [OF sel] assms(6) job by (simp add: run_job_def case_prod_beta run_row_def)
  have d: "row_token ?d = token" "row_expires_at ?d = unix (now + submit_ttl bf (rq_header q))"
      "row_result ?d = answer" "row_result_content_type ?d = ct" "row_state ?d = StateComplete"
    using job assms(8,9) by (simp_all add: finished_row_def running_row_def)
  have "broker_inv ?R" using run_job_inv accept_inv [OF inv assms(2)] B1(2) unfolding assms(4) by simp
  from kept_row [OF assms(7) this ran] have t: "sql_select i (bk_table B2) = Some ?d"
    using d assms(12) by (simp add: row_finished_def del: outcome_row.simps)
  have "callerMayRead f (job_of_row ?d)"
    using d(1) assms(10,11) by (simp add: callerMayRead_def cut_prefix_def job_of_row_def Let_def del: outcome_row.simps)
  then have "handleResult bf fetched False f i (bk_table B2) v = snd (cw_Write answer (cw_WriteHeader 200 (set_header ''Content-Type''
      (if ct = [] then ''application/octet-stream'' else ct) v)))"
    using d assms(12) by (simp add: handleResult_def Get_def t job_gone_def job_of_row_def Let_def del: outcome_row.simps)
  moreover have "cw_body (snd (cw_Write answer (cw_WriteHeader 200 (set_header k c v)))) = cw_body v @ answer \<and>
      cw_status (snd (cw_Write answer (cw_WriteHeader 200 (set_header k c v)))) = Some 200 \<and>
      hget (cw_sent (snd (cw_Write answer (cw_WriteHeader 200 (set_header k c v))))) k = c" for k c
    using assms(13-15) by (simp add: cw_Write_def cw_WriteHeader_def set_header_def Let_def)
  moreover have "\<exists>j. fst (run_load bf started (False, False, False) i auth (bk_table B1)) = Some (Replaying j auth) \<and>
      rp_method (replay_of j auth) = rq_method q \<and> rp_body (replay_of j auth) = body \<and>
      rp_url (replay_of j auth) = trim_suffix ''/'' (hget (rq_header q) ''X-Obol-Upstream-Url'') @ rq_path q"
    using assms(6) job sel
    by (simp add: run_load_def Get_def replay_of_def Let_def) (simp add: job_of_row_def)
  ultimately show ?thesis by simp
qed

definition ex_fetch :: http_request where
  "ex_fetch = \<lparr>rq_method = ''GET'', rq_host = ''h'', rq_path = ''/jobs/j1/result'', rq_rawQuery = [],
     rq_header = [(''authorization'', [''Bearer t1''])], rq_body = NoBody\<rparr>"

theorem paid_job_roundtrip_witness:
  "cw_body (handleResult ex_bf hour False ex_fetch ''j1''
      (bk_table (run_job ex_bf 0 0 (Answered 200 [] ''ok'') (\<lambda>n. None) ''j1'' ''key'' (accept_job ex_bf 0 ''j1'' ''t1'' ex_submit ex_broker ex_writer)))
      ex_writer) = ''ok''"
proof -
  have ttl: "submit_ttl ex_bf (rq_header ex_submit) = 72 * hour" by code_simp
  have auth: "hget (rq_header ex_fetch) ''Authorization'' = ''Bearer '' @ ''t1''" "trim_space ''t1'' = ''t1''" by code_simp+
  have key: "''key'' = hget (rq_header ex_submit) ''X-Obol-Upstream-Auth''" by code_simp
  show ?thesis
    using paid_job_roundtrip [OF ex_reachable(1) _ _ refl key _ steps_by.here _ _ auth, where body = "''hello''" and i = "''j1''" and status = 200 and answer = "''ok''" and fetched = hour and now = 0
        and w = ex_writer and v = ex_writer and started = 0 and ended = 0 and ct = "[]" and hooks = "\<lambda>n. None"] ttl ex_submit_gate
    by (simp add: ex_broker_def ex_bf_def ex_writer_def maxResultBody_def unix_def of_unix_def)
qed

end
