(* ===== verification/SignIn.thy ===== *)
theory SignIn imports GoTime JsonRoundtrip begin

text \<open>
  Sign-in with a wallet, \<open>internal/x402/siwx.go\<close>: EIP-4361 messages with their freshness window and the
  cache of used nonces, session tokens, and the choice of the credential of a request.

  \<open>siwx_funs\<close> holds what is not under src/: recovering the signer of an EIP-191 text from a 65-byte
  signature (go-ethereum), HMAC-SHA256 of a secret and a text, and the header codec of the x402 SDK.
  Errors are values of \<open>siwx_error\<close>, one per return; their wording is left out.  The mutex makes
  \<open>consumeNonce\<close> atomic.
\<close>

subsection \<open>State\<close>

record spec_payload =
  sx_ChainID :: string
  sx_Signature :: string
  sx_Fields :: "(string \<times> string) list"

record siwx_funs =
  sf_recover :: "string \<Rightarrow> string \<Rightarrow> string option"
  sf_hmac :: "string \<Rightarrow> string \<Rightarrow> string"
  sf_ParseHeader :: "string \<Rightarrow> spec_payload option"
  sf_CreateMessage :: "spec_payload \<Rightarrow> string option"

record siwx_authenticator =
  au_window :: nsec
  au_sessionTTL :: nsec
  au_secret :: string
  au_nonces :: "(string, nsec) gomap"

datatype siwx_error =
    TooShort | NotHeader | EmptyDomain | NotAddress | InvalidIssuedAt | InvalidExpiration
  | UnsupportedVersion string | MissingURI | MissingNonce | MissingIssuedAt
  | DomainMismatch string string | IssuedTooLongAgo | IssuedInFuture | MessageExpired nsec
  | SignatureNotHex | SignatureLength nat | InvalidRecoveryID int | NoSigner | WrongSigner string string
  | NonceUsed | MalformedToken | SessionMismatch | MalformedClaims | SessionExpired
  | CredentialForm | MessageNotBase64 | SignatureNotBase64 | SpecHeaderInvalid | UnsupportedChain string
  | SpecMessageInvalid | NoCredential

definition SIWXSessionCookie :: string where "SIWXSessionCookie = ''obol_siwx''"
definition DefaultSIWXWindow :: nsec where "DefaultSIWXWindow = 10 * minute"
definition DefaultSIWXSessionTTL :: nsec where "DefaultSIWXSessionTTL = 24 * hour"
definition siwxNonceCacheMax :: nat where "siwxNonceCacheMax = 100000"

definition NewSIWXAuthenticator :: "nsec \<Rightarrow> nsec \<Rightarrow> string \<Rightarrow> siwx_authenticator" where
  "NewSIWXAuthenticator window sessionTTL secret =
     \<lparr>au_window = (if window \<le> 0 then DefaultSIWXWindow else window),
      au_sessionTTL = (if sessionTTL \<le> 0 then DefaultSIWXSessionTTL else sessionTTL),
      au_secret = secret, au_nonces = []\<rparr>"

subsection \<open>Messages\<close>

record siwx_message =
  sm_Domain :: string
  sm_Address :: string
  sm_URI :: string
  sm_Version :: string
  sm_Nonce :: string
  sm_IssuedAt :: nsec
  sm_ExpirationTime :: "nsec option"

fun hex_decode :: "string \<Rightarrow> string option" where
  "hex_decode [] = Some []"
| "hex_decode [a] = None"
| "hex_decode (a # b # r) =
     (case (hex_val a, hex_val b) of
        (Some x, Some y) \<Rightarrow> map_option (\<lambda>t. char_of (16 * x + y) # t) (hex_decode r)
      | _ \<Rightarrow> None)"

definition isHexAddress :: "string \<Rightarrow> bool" where
  "isHexAddress s \<longleftrightarrow> length s = 42 \<and> has_prefix ''0x'' s \<and> hex_decode (drop 2 s) \<noteq> None"

fun crlf_to_lf :: "string \<Rightarrow> string" where
  "crlf_to_lf (a # b # r) =
     (if a = CHR 0x0D \<and> b = CHR 0x0A then CHR 0x0A # crlf_to_lf r else a # crlf_to_lf (b # r))"
| "crlf_to_lf s = s"

definition siwx_header_suffix :: string where
  "siwx_header_suffix = '' wants you to sign in with your Ethereum account:''"

text \<open>One line of the list of fields.\<close>

definition siwx_field :: "string \<Rightarrow> siwx_message \<Rightarrow> siwx_error + siwx_message" where
  "siwx_field line m =
     (case cut_at '': '' line of
        None \<Rightarrow> Inr m
      | Some (key, v) \<Rightarrow>
          (let val = trim_space v in
           if key = ''URI'' then Inr (m\<lparr>sm_URI := val\<rparr>)
           else if key = ''Version'' then Inr (m\<lparr>sm_Version := val\<rparr>)
           else if key = ''Nonce'' then Inr (m\<lparr>sm_Nonce := val\<rparr>)
           else if key = ''Issued At'' then
             (case parse_rfc3339 val of None \<Rightarrow> Inl InvalidIssuedAt | Some t \<Rightarrow> Inr (m\<lparr>sm_IssuedAt := t\<rparr>))
           else if key = ''Expiration Time'' then
             (case parse_rfc3339 val of None \<Rightarrow> Inl InvalidExpiration
              | Some t \<Rightarrow> Inr (m\<lparr>sm_ExpirationTime := Some t\<rparr>))
           else Inr m))"

fun siwx_fields :: "string list \<Rightarrow> siwx_message \<Rightarrow> siwx_error + siwx_message" where
  "siwx_fields [] m = Inr m"
| "siwx_fields (l # ls) m = (case siwx_field l m of Inl e \<Rightarrow> Inl e | Inr m' \<Rightarrow> siwx_fields ls m')"

definition siwx_complete :: "siwx_message \<Rightarrow> siwx_error + siwx_message" where
  "siwx_complete m =
     (if sm_Version m \<noteq> ''1'' then Inl (UnsupportedVersion (sm_Version m))
      else if sm_URI m = [] then Inl MissingURI
      else if sm_Nonce m = [] then Inl MissingNonce
      else if sm_IssuedAt m = zero_time then Inl MissingIssuedAt
      else Inr m)"

definition ParseSIWXMessage :: "string \<Rightarrow> siwx_error + siwx_message" where
  "ParseSIWXMessage text =
     (case split_on CHR 0x0A (crlf_to_lf text) of
        l0 # l1 # ls \<Rightarrow>
          if \<not> has_suffix siwx_header_suffix l0 then Inl NotHeader
          else
            (let domain = trim_suffix siwx_header_suffix l0; address = trim_space l1 in
             if domain = [] then Inl EmptyDomain
             else if \<not> isHexAddress address then Inl NotAddress
             else
               (case siwx_fields ls \<lparr>sm_Domain = domain, sm_Address = address, sm_URI = [], sm_Version = [],
                   sm_Nonce = [], sm_IssuedAt = zero_time, sm_ExpirationTime = None\<rparr> of
                  Inl e \<Rightarrow> Inl e
                | Inr m \<Rightarrow> siwx_complete m))
      | _ \<Rightarrow> Inl TooShort)"

subsection \<open>Verification\<close>

definition recoverPersonalSign :: "siwx_funs \<Rightarrow> string \<Rightarrow> string \<Rightarrow> siwx_error + string" where
  "recoverPersonalSign sf message signature =
     (case hex_decode (trim_prefix ''0x'' signature) of
        None \<Rightarrow> Inl SignatureNotHex
      | Some sig \<Rightarrow>
          if length sig \<noteq> 65 then Inl (SignatureLength (length sig))
          else
            (let v = byte (sig ! 64); v' = (if v \<ge> 27 then v - 27 else v) in
             if v' \<noteq> 0 \<and> v' \<noteq> 1 then Inl (InvalidRecoveryID v)
             else
               (case sf_recover sf
                   (CHR 0x19 # ''Ethereum Signed Message:'' @ [CHR 0x0A] @ show_int (int (length message)) @ message)
                   (take 64 sig @ [char_of v']) of
                  None \<Rightarrow> Inl NoSigner
                | Some address \<Rightarrow> Inr address)))"

definition clock_skew :: nsec where "clock_skew = 2 * minute"

definition prune_nonces :: "nsec \<Rightarrow> siwx_authenticator \<Rightarrow> (string, nsec) gomap" where
  "prune_nonces now A = filter (\<lambda>(n, seen). \<not> seen < now - au_window A - clock_skew) (au_nonces A)"

text \<open>The loop that looks for the oldest nonce; the empty nonce stands for none found yet.\<close>

fun oldest_nonce :: "string \<Rightarrow> nsec \<Rightarrow> (string, nsec) gomap \<Rightarrow> string" where
  "oldest_nonce oldest oldestAt [] = oldest"
| "oldest_nonce oldest oldestAt ((n, seen) # m) =
     (if oldest = [] \<or> seen < oldestAt then oldest_nonce n seen m else oldest_nonce oldest oldestAt m)"

definition consumeNonce :: "string \<Rightarrow> nsec \<Rightarrow> siwx_authenticator \<Rightarrow> bool \<times> siwx_authenticator" where
  "consumeNonce nonce now A =
     (let m = prune_nonces now A in
      if map_of m nonce \<noteq> None then (False, A\<lparr>au_nonces := m\<rparr>)
      else
        (let m1 = (if length m \<ge> siwxNonceCacheMax then AList.delete (oldest_nonce [] zero_time m) m else m)
         in (True, A\<lparr>au_nonces := AList.update nonce now m1\<rparr>)))"

definition message_fresh :: "nsec \<Rightarrow> nsec \<Rightarrow> siwx_message \<Rightarrow> siwx_error option" where
  "message_fresh window now m =
     (if sm_IssuedAt m < now - window then Some IssuedTooLongAgo
      else if sm_IssuedAt m > now + clock_skew then Some IssuedInFuture
      else case sm_ExpirationTime m of
             Some t \<Rightarrow> if now > t then Some (MessageExpired t) else None
           | None \<Rightarrow> None)"

definition VerifyMessage ::
  "siwx_funs \<Rightarrow> string \<Rightarrow> string \<Rightarrow> string \<Rightarrow> nsec \<Rightarrow> siwx_authenticator \<Rightarrow> (siwx_error + string) \<times> siwx_authenticator" where
  "VerifyMessage sf messageText signature expectedDomain now A =
     (case ParseSIWXMessage messageText of
        Inl e \<Rightarrow> (Inl e, A)
      | Inr m \<Rightarrow>
          if \<not> equal_fold (sm_Domain m) expectedDomain then (Inl (DomainMismatch (sm_Domain m) expectedDomain), A)
          else
            (case message_fresh (au_window A) now m of
               Some e \<Rightarrow> (Inl e, A)
             | None \<Rightarrow>
                 (case recoverPersonalSign sf messageText signature of
                    Inl e \<Rightarrow> (Inl e, A)
                  | Inr recovered \<Rightarrow>
                      if \<not> equal_fold recovered (sm_Address m) then (Inl (WrongSigner recovered (sm_Address m)), A)
                      else
                        (case consumeNonce (sm_Nonce m) now A of
                           (False, A') \<Rightarrow> (Inl NonceUsed, A')
                         | (True, A') \<Rightarrow> (Inr (to_lower recovered), A')))))"

subsection \<open>Sessions\<close>

definition signSession :: "siwx_funs \<Rightarrow> string \<Rightarrow> siwx_authenticator \<Rightarrow> string" where
  "signSession sf body A = rawurl_encode (sf_hmac sf (au_secret A) body)"

definition MintSession :: "siwx_funs \<Rightarrow> string \<Rightarrow> nsec \<Rightarrow> siwx_authenticator \<Rightarrow> string" where
  "MintSession sf wallet now A =
     (let claims = json_print (JObj [(''wallet'', JStr (to_lower wallet)),
             (''exp'', JNum (show_int (unix (now + au_sessionTTL A))))]);
          body = rawurl_encode claims
      in body @ ''.'' @ signSession sf body A)"

text \<open>The claims: \<open>None\<close> when decoding reports an error.\<close>

definition decode_claims :: "string \<Rightarrow> (string \<times> int) option" where
  "decode_claims raw =
     (case json_parse raw of
        Some (JObj kvs) \<Rightarrow>
          (case (str_field ''wallet'' kvs, int_field ''exp'' kvs) of
             ((w, e1), (x, e2)) \<Rightarrow> if e1 \<or> e2 then None else Some (w, x))
      | Some JNull \<Rightarrow> Some ([], 0)
      | _ \<Rightarrow> None)"

definition VerifySession :: "siwx_funs \<Rightarrow> string \<Rightarrow> nsec \<Rightarrow> siwx_authenticator \<Rightarrow> siwx_error + string" where
  "VerifySession sf token now A =
     (case cut_at ''.'' token of
        None \<Rightarrow> Inl MalformedToken
      | Some (body, mac) \<Rightarrow>
          if signSession sf body A \<noteq> mac then Inl SessionMismatch
          else
            (case rawurl_decode body of
               None \<Rightarrow> Inl MalformedClaims
             | Some raw \<Rightarrow>
                 (case decode_claims raw of
                    None \<Rightarrow> Inl MalformedClaims
                  | Some (wallet, exp) \<Rightarrow>
                      if wallet = [] then Inl MalformedClaims
                      else if unix now \<ge> exp then Inl SessionExpired
                      else Inr wallet)))"

subsection \<open>The credential of a request\<close>

definition cookie_byte :: "char \<Rightarrow> bool" where
  "cookie_byte c \<longleftrightarrow> 32 \<le> byte c \<and> byte c < 127 \<and> c \<noteq> CHR 0x22 \<and> c \<noteq> CHR '';'' \<and> c \<noteq> CHR 0x5C"

definition cookie_value :: "string \<Rightarrow> string option" where
  "cookie_value v =
     (let u = (if length v > 1 \<and> hd v = CHR 0x22 \<and> last v = CHR 0x22 then butlast (tl v) else v)
      in if list_all cookie_byte u then Some u else None)"

definition cookie_part :: "string \<Rightarrow> string \<Rightarrow> string option" where
  "cookie_part name part =
     (let (n, v) = (case cut_at ''='' (trim_space part) of Some x \<Rightarrow> x | None \<Rightarrow> (trim_space part, []))
      in if trim_space n = name then cookie_value v else None)"

text \<open>\<open>r.Cookie(name)\<close>: the first well-formed cookie of that name.\<close>

definition request_cookie :: "string \<Rightarrow> header \<Rightarrow> string option" where
  "request_cookie name h =
     (case List.map_filter (cookie_part name)
        (concat (map (split_on CHR '';'') (the_default [] (map_of h ''cookie'')))) of
        v # _ \<Rightarrow> Some v | [] \<Rightarrow> None)"

definition verifySpecHeader ::
  "siwx_funs \<Rightarrow> string \<Rightarrow> string \<Rightarrow> nsec \<Rightarrow> siwx_authenticator \<Rightarrow> (siwx_error + string) \<times> siwx_authenticator" where
  "verifySpecHeader sf hdr expectedDomain now A =
     (case sf_ParseHeader sf hdr of
        None \<Rightarrow> (Inl SpecHeaderInvalid, A)
      | Some payload \<Rightarrow>
          if \<not> has_prefix ''eip155:'' (sx_ChainID payload) then (Inl (UnsupportedChain (sx_ChainID payload)), A)
          else
            (case sf_CreateMessage sf payload of
               None \<Rightarrow> (Inl SpecMessageInvalid, A)
             | Some message \<Rightarrow> VerifyMessage sf message (sx_Signature payload) expectedDomain now A))"

definition verify_siwx_credential ::
  "siwx_funs \<Rightarrow> string \<Rightarrow> string \<Rightarrow> nsec \<Rightarrow> siwx_authenticator \<Rightarrow> (siwx_error + string) \<times> siwx_authenticator" where
  "verify_siwx_credential sf cred expectedDomain now A =
     (case cut_at ''.'' (trim_space cred) of
        None \<Rightarrow> (Inl CredentialForm, A)
      | Some (msgB64, sigB64) \<Rightarrow>
          (case base64_decode msgB64 of
             None \<Rightarrow> (Inl MessageNotBase64, A)
           | Some msg \<Rightarrow>
               (case base64_decode sigB64 of
                  None \<Rightarrow> (Inl SignatureNotBase64, A)
                | Some sig \<Rightarrow> VerifyMessage sf msg (trim_space sig) expectedDomain now A)))"

definition cookie_session :: "siwx_funs \<Rightarrow> header \<Rightarrow> nsec \<Rightarrow> siwx_authenticator \<Rightarrow> siwx_error + string" where
  "cookie_session sf h now A =
     (case request_cookie SIWXSessionCookie h of
        Some v \<Rightarrow> if v \<noteq> [] then VerifySession sf v now A else Inl NoCredential
      | None \<Rightarrow> Inl NoCredential)"

definition Authenticate ::
  "siwx_funs \<Rightarrow> header \<Rightarrow> string \<Rightarrow> nsec \<Rightarrow> siwx_authenticator \<Rightarrow> (siwx_error + string) \<times> siwx_authenticator" where
  "Authenticate sf h expectedDomain now A =
     (let spec = hget h ''SIGN-IN-WITH-X''; auth = hget h ''Authorization'' in
      if spec \<noteq> [] then verifySpecHeader sf spec expectedDomain now A
      else case cut_prefix ''SIWX '' auth of
             Some cred \<Rightarrow> verify_siwx_credential sf cred expectedDomain now A
           | None \<Rightarrow>
               (case cut_prefix ''Bearer '' auth of
                  Some token \<Rightarrow> (VerifySession sf (trim_space token) now A, A)
                | None \<Rightarrow> (cookie_session sf h now A, A)))"

end
