(* ===== verification/SignInSafety.thy ===== *)
theory SignInSafety imports SignIn begin

text \<open>
  Properties of sign-in: a signed message signs in at most once, and a session token stands for its
  wallet until it expires.
\<close>

subsection \<open>Accepted messages\<close>

lemma VerifyMessage_ok:
  assumes "VerifyMessage sf msg sig host now A = (Inr w, A')"
  obtains m recovered where "ParseSIWXMessage msg = Inr m" "message_fresh (au_window A) now m = None"
    "recoverPersonalSign sf msg sig = Inr recovered" "equal_fold recovered (sm_Address m)" "w = to_lower recovered"
    "equal_fold (sm_Domain m) host" "consumeNonce (sm_Nonce m) now A = (True, A')"
  using assms unfolding VerifyMessage_def
  by (auto split: sum.splits option.splits if_splits prod.splits bool.splits)

lemma consumeNonce_ok:
  assumes "consumeNonce nonce now A = (True, A')" and "length (prune_nonces now A) < siwxNonceCacheMax"
  shows "map_of (prune_nonces now A) nonce = None \<and> A' = A\<lparr>au_nonces := AList.update nonce now (prune_nonces now A)\<rparr>"
  using assms by (auto simp: consumeNonce_def Let_def split: if_splits)

lemma map_of_prune: "gomap (au_nonces A) \<Longrightarrow> map_of (prune_nonces now A) n =
    (case map_of (au_nonces A) n of None \<Rightarrow> None | Some seen \<Rightarrow> if seen < now - au_window A - clock_skew then None else Some seen)"
  unfolding prune_nonces_def by (subst map_of_filter_gomap) (auto split: option.splits)

lemma length_prune: "length (prune_nonces now A) \<le> length (au_nonces A)"
  by (simp add: prune_nonces_def)

subsection \<open>The authenticator over time\<close>

text \<open>A run of the authenticator: verifications at times that do not go back, none of them with a full
  cache.  \<open>sr_accepted\<close> records the messages that were accepted.\<close>

record siwx_run =
  sr_auth :: siwx_authenticator
  sr_now :: nsec
  sr_accepted :: "string list"

inductive siwx_step :: "siwx_run \<Rightarrow> siwx_run \<Rightarrow> bool" where
  accepted: "sr_now R \<le> now \<Longrightarrow> length (au_nonces (sr_auth R)) < siwxNonceCacheMax \<Longrightarrow>
    VerifyMessage sf msg sig host now (sr_auth R) = (Inr w, A) \<Longrightarrow>
    siwx_step R (R\<lparr>sr_auth := A, sr_now := now, sr_accepted := msg # sr_accepted R\<rparr>)"
| refused: "sr_now R \<le> now \<Longrightarrow> VerifyMessage sf msg sig host now (sr_auth R) = (Inl e, A) \<Longrightarrow>
    siwx_step R (R\<lparr>sr_auth := A, sr_now := now\<rparr>)"

inductive_cases siwx_stepE: "siwx_step R R'"

inductive siwx_reachable :: "siwx_run \<Rightarrow> bool" where
  fresh: "siwx_reachable \<lparr>sr_auth = NewSIWXAuthenticator window ttl secret, sr_now = t, sr_accepted = []\<rparr>"
| step: "siwx_reachable R \<Longrightarrow> siwx_step R R' \<Longrightarrow> siwx_reachable R'"

text \<open>The nonce of an accepted message is in the cache, recorded not long before the message was issued,
  or the message has left its window.\<close>

definition remembered :: "nsec \<Rightarrow> siwx_authenticator \<Rightarrow> string \<Rightarrow> bool" where
  "remembered now A msg \<longleftrightarrow>
     (case ParseSIWXMessage msg of
        Inl e \<Rightarrow> False
      | Inr m \<Rightarrow> sm_IssuedAt m < now - au_window A \<or>
          (case map_of (au_nonces A) (sm_Nonce m) of Some seen \<Rightarrow> sm_IssuedAt m \<le> seen + clock_skew | None \<Rightarrow> False))"

definition siwx_inv :: "siwx_run \<Rightarrow> bool" where
  "siwx_inv R \<longleftrightarrow> gomap (au_nonces (sr_auth R)) \<and> list_all (remembered (sr_now R) (sr_auth R)) (sr_accepted R)"

text \<open>Pruning keeps what is remembered: a nonce that leaves the cache belongs to a message out of its window.\<close>

lemma remembered_prune:
  assumes "gomap (au_nonces A)" and "remembered now A msg" and "now \<le> now'"
  shows "remembered now' (A\<lparr>au_nonces := prune_nonces now' A\<rparr>) msg"
  using assms map_of_prune [OF assms(1)] unfolding remembered_def
  by (fastforce split: sum.splits option.splits if_splits)

lemma remembered_later: "remembered now A msg \<Longrightarrow> now \<le> now' \<Longrightarrow> remembered now' A msg"
  by (auto simp: remembered_def split: sum.splits option.splits)

lemma remembered_consume:
  assumes "gomap (au_nonces A)" and "remembered now A msg" and "now \<le> now'"
    and "map_of (prune_nonces now' A) n = None"
  shows "remembered now' (A\<lparr>au_nonces := AList.update n now' (prune_nonces now' A)\<rparr>) msg"
  using remembered_prune [OF assms(1-3)] assms(4) unfolding remembered_def
  by (auto split: sum.splits option.splits if_splits)

lemma remembered_new:
  assumes "ParseSIWXMessage msg = Inr m" and "message_fresh (au_window A) now m = None"
  shows "remembered now (A\<lparr>au_nonces := AList.update (sm_Nonce m) now ns\<rparr>) msg"
  using assms by (auto simp: remembered_def message_fresh_def split: if_splits)

text \<open>A refused message leaves the cache as it was, or pruned.\<close>

lemma VerifyMessage_refused:
  assumes "VerifyMessage sf msg sig host now A = (Inl e, A')"
  shows "A' = A \<or> A' = A\<lparr>au_nonces := prune_nonces now A\<rparr>"
  using assms unfolding VerifyMessage_def
  by (auto simp: consumeNonce_def Let_def split: sum.splits option.splits if_splits)

lemma gomap_prune: "gomap (au_nonces A) \<Longrightarrow> gomap (prune_nonces now A)"
  by (simp add: prune_nonces_def)

lemma siwx_step_inv [inv_intro]:
  assumes "siwx_step R R'" and inv: "siwx_inv R"
  shows "siwx_inv R'"
  using assms(1)
proof cases
  case (accepted now sf msg sig host w A)
  obtain m where m: "ParseSIWXMessage msg = Inr m" "message_fresh (au_window (sr_auth R)) now m = None"
      "consumeNonce (sm_Nonce m) now (sr_auth R) = (True, A)"
    using accepted(4) by (rule VerifyMessage_ok)
  have room: "length (prune_nonces now (sr_auth R)) < siwxNonceCacheMax"
    using accepted(3) length_prune le_less_trans by blast
  note A = consumeNonce_ok [OF m(3) room]
  have g: "gomap (au_nonces (sr_auth R))" using inv by (simp add: siwx_inv_def)
  have "remembered now A t" if "t \<in> set (sr_accepted R)" for t
    using remembered_consume [OF g _ accepted(2)] A inv that by (auto simp: siwx_inv_def list_all_iff)
  moreover have "remembered now A msg" using remembered_new [OF m(1,2)] A by simp
  ultimately show ?thesis
    using A g by (simp add: accepted(1) siwx_inv_def list_all_iff gomap_prune)
next
  case (refused now sf msg sig host e A)
  have g: "gomap (au_nonces (sr_auth R))" using inv by (simp add: siwx_inv_def)
  then show ?thesis
    using VerifyMessage_refused [OF refused(3)] inv refused(2)
    by (auto simp: refused(1) siwx_inv_def list_all_iff gomap_prune intro: remembered_later remembered_prune)
qed

lemma siwx_reachable_inv: "siwx_reachable R \<Longrightarrow> siwx_inv R"
proof (induction rule: siwx_reachable.induct)
  case (fresh window ttl secret t)
  then show ?case by (simp add: siwx_inv_def NewSIWXAuthenticator_def)
qed (rule siwx_step_inv)

text \<open>C34: A signed message signs in at most once: after it was accepted, it is refused at every later time,
  with any signature and for any host, as long as the nonce cache was never full.  A nonce leaves the
  cache only after every message accepted with it has left its freshness window.\<close>

theorem siwx_message_used_once:
  assumes "siwx_reachable R" and "msg \<in> set (sr_accepted R)" and "sr_now R \<le> now"
  shows "\<exists>e. fst (VerifyMessage sf msg sig host now (sr_auth R)) = Inl e"
proof (cases "fst (VerifyMessage sf msg sig host now (sr_auth R))")
  case (Inr w)
  then have "VerifyMessage sf msg sig host now (sr_auth R) = (Inr w, snd (VerifyMessage sf msg sig host now (sr_auth R)))"
    by (metis prod.collapse)
  then obtain m where m: "ParseSIWXMessage msg = Inr m" "message_fresh (au_window (sr_auth R)) now m = None"
      "consumeNonce (sm_Nonce m) now (sr_auth R) = (True, snd (VerifyMessage sf msg sig host now (sr_auth R)))"
    by (rule VerifyMessage_ok)
  have inv: "gomap (au_nonces (sr_auth R))" "remembered (sr_now R) (sr_auth R) msg"
    using siwx_reachable_inv [OF assms(1)] assms(2) by (auto simp: siwx_inv_def list_all_iff)
  from remembered_prune [OF this assms(3)] have "map_of (prune_nonces now (sr_auth R)) (sm_Nonce m) \<noteq> None"
    using m(1,2) by (auto simp: remembered_def message_fresh_def split: option.splits if_splits)
  with m(3) show ?thesis by (simp add: consumeNonce_def Let_def)
qed simp

definition ex_now :: nsec where "ex_now = 100 * second"

definition ex_address :: string where "ex_address = ''0x'' @ replicate 40 CHR ''a''"

definition ex_message :: string where
  "ex_message = ''h wants you to sign in with your Ethereum account:'' @ [CHR 0x0A] @ ex_address @ [CHR 0x0A] @
     ''URI: http://h/'' @ [CHR 0x0A] @ ''Version: 1'' @ [CHR 0x0A] @ ''Nonce: n1'' @ [CHR 0x0A] @
     ''Issued At: 1970-01-01T00:01:40Z''"

definition ex_signature :: string where "ex_signature = ''0x'' @ replicate 130 CHR ''0''"

definition ex_sf :: siwx_funs where
  "ex_sf = \<lparr>sf_recover = (\<lambda>m s. Some ex_address), sf_hmac = (\<lambda>k m. k), sf_ParseHeader = (\<lambda>h. None),
     sf_CreateMessage = (\<lambda>p. None)\<rparr>"

definition ex_parsed :: siwx_message where
  "ex_parsed = \<lparr>sm_Domain = ''h'', sm_Address = ex_address, sm_URI = ''http://h/'', sm_Version = ''1'', sm_Nonce = ''n1'',
     sm_IssuedAt = ex_now, sm_ExpirationTime = None\<rparr>"

definition ex_auth :: siwx_authenticator where "ex_auth = NewSIWXAuthenticator 0 0 ''k''"

lemma ex_parses: "ParseSIWXMessage ex_message = Inr ex_parsed"
  by code_simp

lemma ex_recovers: "recoverPersonalSign ex_sf ex_message ex_signature = Inr ex_address"
  by code_simp

lemma ex_message_fresh: "message_fresh (au_window ex_auth) (ex_now) ex_parsed = None"
  by code_simp

lemma ex_verifies: "VerifyMessage ex_sf ex_message ex_signature ''h'' (ex_now) ex_auth =
    (Inr (to_lower ex_address), ex_auth\<lparr>au_nonces := [(''n1'', ex_now)]\<rparr>)"
proof -
  have "sm_Domain ex_parsed = ''h''" "sm_Address ex_parsed = ex_address" "sm_Nonce ex_parsed = ''n1''" "au_nonces ex_auth = []"
    by (simp_all add: ex_parsed_def ex_auth_def NewSIWXAuthenticator_def)
  then show ?thesis
    by (simp add: VerifyMessage_def ex_parses ex_recovers ex_message_fresh consumeNonce_def prune_nonces_def Let_def
        equal_fold_refl siwxNonceCacheMax_def)
qed

theorem siwx_message_used_once_witness:
  "\<exists>e. fst (VerifyMessage ex_sf ex_message ex_signature ''h'' (ex_now + second)
      (ex_auth\<lparr>au_nonces := [(''n1'', ex_now)]\<rparr>)) = Inl e"
proof -
  let ?R = "\<lparr>sr_auth = ex_auth, sr_now = 0, sr_accepted = []\<rparr>"
  have r: "siwx_reachable ?R" unfolding ex_auth_def by (rule siwx_reachable.fresh)
  have "length (au_nonces ex_auth) < siwxNonceCacheMax"
    by (simp add: ex_auth_def NewSIWXAuthenticator_def siwxNonceCacheMax_def)
  then have "siwx_step ?R \<lparr>sr_auth = ex_auth\<lparr>au_nonces := [(''n1'', ex_now)]\<rparr>, sr_now = ex_now, sr_accepted = [ex_message]\<rparr>"
    using siwx_step.accepted [where R = ?R and now = ex_now and msg = ex_message and sf = ex_sf and sig = ex_signature and host = "''h''"]
      ex_verifies by (simp add: ex_now_def)
  with r have "siwx_reachable \<lparr>sr_auth = ex_auth\<lparr>au_nonces := [(''n1'', ex_now)]\<rparr>, sr_now = ex_now, sr_accepted = [ex_message]\<rparr>"
    by (rule siwx_reachable.step)
  from siwx_message_used_once [OF this, of ex_message] show ?thesis by simp
qed

subsection \<open>Session tokens\<close>

lemma cut_dot_free: "CHR ''.'' \<notin> set s \<Longrightarrow> cut_at ''.'' (s @ CHR ''.'' # t) = Some (s, t)"
proof -
  have "CHR ''.'' \<notin> set s \<Longrightarrow> index_sub ''.'' (s @ CHR ''.'' # t) = Some (length s)"
    by (induction s) auto
  then show "CHR ''.'' \<notin> set s \<Longrightarrow> cut_at ''.'' (s @ CHR ''.'' # t) = Some (s, t)" by (simp add: cut_at_def)
qed

lemma decode_minted:
  assumes "min_int64 \<le> x" and "x \<le> max_int64"
  shows "decode_claims (json_print (JObj [(''wallet'', JStr w), (''exp'', JNum (show_int x))])) = Some (w, x)"
proof -
  have "int_literals (JObj [(''wallet'', JStr w), (''exp'', JNum (show_int x))])" by auto
  then have p: "json_parse (json_print (JObj [(''wallet'', JStr w), (''exp'', JNum (show_int x))])) =
      Some (JObj [(''wallet'', JStr w), (''exp'', JNum (show_int x))])" by (rule json_int_roundtrip)
  have "equal_fold ''exp'' ''wallet'' = False" "equal_fold ''wallet'' ''exp'' = False" by code_simp+
  then show ?thesis
    using parse_show_int [OF assms]
    unfolding decode_claims_def p
    by (simp add: str_field_def int_field_def field_values_def equal_fold_refl)
qed

definition session_body :: "string \<Rightarrow> string" where
  "session_body token = fst (the (cut_at ''.'' token))"

text \<open>A session token that was minted for a wallet is accepted for exactly that wallet until it
  expires and refused from then on; an authenticator whose secret gives the token another code (after a
  restart, or of another seller) refuses it.\<close>

theorem session_roundtrip:
  assumes "min_int64 \<le> unix (now + au_sessionTTL A)" and "unix (now + au_sessionTTL A) \<le> max_int64" and "wallet \<noteq> []"
  shows "VerifySession sf (MintSession sf wallet now A) later A =
      (if unix later < unix (now + au_sessionTTL A) then Inr (to_lower wallet) else Inl SessionExpired) \<and>
    (sf_hmac sf (au_secret B) (session_body (MintSession sf wallet now A)) \<noteq>
       sf_hmac sf (au_secret A) (session_body (MintSession sf wallet now A)) \<longrightarrow>
     VerifySession sf (MintSession sf wallet now A) later B = Inl SessionMismatch)"
proof -
  define claims where "claims = json_print (JObj [(''wallet'', JStr (to_lower wallet)), (''exp'', JNum (show_int (unix (now + au_sessionTTL A))))])"
  have cut: "cut_at ''.'' (MintSession sf wallet now A) = Some (rawurl_encode claims, signSession sf (rawurl_encode claims) A)"
    using cut_dot_free [OF rawurl_no_dot] by (simp add: MintSession_def Let_def claims_def del: json_print.simps)
  have d: "decode_claims claims = Some (to_lower wallet, unix (now + au_sessionTTL A))"
    unfolding claims_def by (rule decode_minted [OF assms(1,2)])
  have "to_lower wallet \<noteq> []" using assms(3) by (simp add: to_lower_def)
  then have "VerifySession sf (MintSession sf wallet now A) later A =
      (if unix later < unix (now + au_sessionTTL A) then Inr (to_lower wallet) else Inl SessionExpired)"
    by (simp add: VerifySession_def cut rawurl_roundtrip d)
  moreover have "signSession sf b B = signSession sf b A \<Longrightarrow> sf_hmac sf (au_secret B) b = sf_hmac sf (au_secret A) b" for b
    unfolding signSession_def by (metis option.inject rawurl_roundtrip)
  ultimately show ?thesis by (auto simp: VerifySession_def cut session_body_def)
qed

theorem session_roundtrip_witness:
  "VerifySession ex_sf (MintSession ex_sf ''0xAB'' 0 ex_auth) hour ex_auth = Inr ''0xab''"
proof -
  have ttl: "unix (0 + au_sessionTTL ex_auth) = 86400" by code_simp
  have w: "to_lower ''0xAB'' = ''0xab''" by code_simp
  show ?thesis
    using session_roundtrip [of 0 ex_auth "''0xAB''" ex_sf hour] unfolding ttl w
    by (simp add: min_int64_def max_int64_def unix_def)
qed

end
