(* ===== verification/RawJson.thy ===== *)
theory RawJson imports JsonRoundtrip begin

text \<open>
  \<open>json.RawMessage\<close>: values that are carried as the text they had in a request body.  A document is a
  map from keys to raw texts; writing it drops the white space outside of string literals, and
  \<open>json.Marshal\<close> also escapes the characters that HTML would interpret.  As in \<open>json_quote\<close>, the escapes of
  U+2028 and U+2029 are left out.

  \<open>RawText\<close> shows that a raw text keeps its value.
\<close>

subsection \<open>Reading\<close>

text \<open>The raw text of the value at the head of \<open>s\<close> (after white space), and what follows it.\<close>

definition raw_value :: "string \<Rightarrow> (string \<times> string) option" where
  "raw_value s = (case jvalue s of None \<Rightarrow> None
     | Some (v, r) \<Rightarrow> (let t = skip_ws s in Some (take (length t - length r) t, r)))"

function raw_elems :: "string \<Rightarrow> string list" where
  "raw_elems s = (case raw_value s of None \<Rightarrow> []
     | Some (v, r) \<Rightarrow>
         (case skip_ws r of [] \<Rightarrow> [v]
          | c # cs \<Rightarrow> if c = CHR '','' \<and> length cs < length s then v # raw_elems cs else [v]))"
  by pat_completeness auto
termination
  by (relation "measure length") auto

function raw_members :: "string \<Rightarrow> (string \<times> string) list" where
  "raw_members s = (case skip_ws s of [] \<Rightarrow> []
   | q # qs \<Rightarrow>
       (case scan_string qs of None \<Rightarrow> []
        | Some (k, r) \<Rightarrow>
            (case raw_value (drop 1 (skip_ws r)) of None \<Rightarrow> []
             | Some (v, r') \<Rightarrow>
                 (case skip_ws r' of [] \<Rightarrow> [(k, v)]
                  | d # ds \<Rightarrow> if d = CHR '','' \<and> length ds < length s then (k, v) # raw_members ds else [(k, v)]))))"
  by pat_completeness auto
termination
  by (relation "measure length") auto

declare raw_elems.simps [simp del] raw_members.simps [simp del]

type_synonym raw_doc = "(string, string) gomap"

text \<open>\<open>json.Unmarshal\<close> into \<open>map[string]json.RawMessage\<close>: \<open>None\<close> for an error or a nil map (the document
  \<open>null\<close>); a later duplicate of a key replaces an earlier one.\<close>

definition raw_document :: "string \<Rightarrow> raw_doc option" where
  "raw_document s = (case json_parse s of
     Some (JObj kvs) \<Rightarrow>
       Some (if kvs = [] then [] else fold (\<lambda>(k, v) m. AList.update k v m) (raw_members (drop 1 (skip_ws s))) [])
   | _ \<Rightarrow> None)"

text \<open>\<open>json.Unmarshal\<close> into \<open>[]json.RawMessage\<close>; \<open>null\<close> gives the nil slice.\<close>

definition raw_array :: "string \<Rightarrow> string list option" where
  "raw_array s = (case json_parse s of
     Some (JArr vs) \<Rightarrow> Some (if vs = [] then [] else raw_elems (drop 1 (skip_ws s)))
   | Some JNull \<Rightarrow> Some []
   | _ \<Rightarrow> None)"

subsection \<open>Writing\<close>

text \<open>\<open>html\<close> says that \<open><\<close>, \<open>>\<close> and \<open>&\<close> are escaped, \<open>q\<close> that the text is inside a string literal.\<close>

fun compact :: "bool \<Rightarrow> bool \<Rightarrow> string \<Rightarrow> string" where
  "compact html q [] = []"
| "compact html False (c # s) = (if json_ws c then compact html False s else c # compact html (byte c = 34) s)"
| "compact html True (c # s) =
     (if byte c = 34 then c # compact html False s
      else if byte c = 92 then c # (case s of [] \<Rightarrow> [] | d # s' \<Rightarrow> d # compact html True s')
      else if html \<and> (byte c = 60 \<or> byte c = 62 \<or> byte c = 38) then quote_char c @ compact html True s
      else c # compact html True s)"

definition quote_char_plain :: "char \<Rightarrow> string" where
  "quote_char_plain c = (if byte c = 60 \<or> byte c = 62 \<or> byte c = 38 then [c] else quote_char c)"

definition quote_key :: "bool \<Rightarrow> string \<Rightarrow> string" where
  "quote_key html s =
     char_of (34::int) # concat (map (if html then quote_char else quote_char_plain) s) @ [char_of (34::int)]"

fun write_elems :: "bool \<Rightarrow> string list \<Rightarrow> string" where
  "write_elems html [] = []"
| "write_elems html (v # vs) = compact html False v @ (if vs = [] then [] else CHR '','' # write_elems html vs)"

fun write_members :: "bool \<Rightarrow> (string \<times> string) list \<Rightarrow> string" where
  "write_members html [] = []"
| "write_members html ((k, v) # kvs) =
     quote_key html k @ CHR '':'' # compact html False v @ (if kvs = [] then [] else CHR '','' # write_members html kvs)"

definition write_array :: "string list \<Rightarrow> string" where
  "write_array vs = CHR ''['' # write_elems True vs @ '']''"

definition write_object :: "bool \<Rightarrow> raw_doc \<Rightarrow> string" where
  "write_object html m = CHR ''{'' # write_members html (sort_by (\<lambda>a b. str_less (fst a) (fst b)) m) @ ''}''"

end
