(* ===== verification/RawText.thy ===== *)
theory RawText imports RawJson begin

text \<open>
  A raw JSON text keeps its value: parsing what \<open>RawJson\<close> writes gives what parsing the original text
  gave.  \<open>text_of\<close> describes the text that a parser consumes; the rules of the parser are followed one by
  one (literals, numbers, arrays, objects) and put together by induction on the length.
\<close>

subsection \<open>String literals keep their value\<close>

definition low_surrogate :: "string \<Rightarrow> bool" where
  "low_surrogate s = (case s of a # b # r \<Rightarrow> byte a = 92 \<and> b = CHR ''u'' \<and>
     (case hex4 r of Some (m, _) \<Rightarrow> 56320 \<le> m \<and> m < 57344 | None \<Rightarrow> False) | _ \<Rightarrow> False)"

lemma unescape_u_cases:
  assumes "unescape_u s = Some (u, r)"
  obtains n r0 where "hex4 s = Some (n, r0)" "55296 \<le> n" "n < 56320" "low_surrogate r0"
      "\<exists>a b r1 m. r0 = a # b # r1 \<and> hex4 r1 = Some (m, r) \<and> u = utf8_encode (65536 + (n - 55296) * 1024 + (m - 56320))"
  | n where "hex4 s = Some (n, r)" "55296 \<le> n" "n < 56320" "\<not> low_surrogate r" "u = utf8_encode 65533"
  | n where "hex4 s = Some (n, r)" "\<not> (55296 \<le> n \<and> n < 56320)"
      "u = (if 56320 \<le> n \<and> n < 57344 then utf8_encode 65533 else utf8_encode n)"
  using assms unfolding unescape_u_def low_surrogate_def
  by (auto split: option.splits list.splits if_splits)

lemma hex4_Some: "hex4 s = Some (n, r) \<longleftrightarrow> (\<exists>a b c d w x y z. s = a # b # c # d # r \<and> hex_val a = Some w \<and> hex_val b = Some x \<and>
    hex_val c = Some y \<and> hex_val d = Some z \<and> n = ((w * 16 + x) * 16 + y) * 16 + z)"
  by (auto simp: hex4_def split: list.splits option.splits)

lemma hex_val_plain: "hex_val a = Some w \<Longrightarrow> byte a \<noteq> 34 \<and> byte a \<noteq> 92 \<and> byte a \<noteq> 60 \<and> byte a \<noteq> 62 \<and> byte a \<noteq> 38 \<and> \<not> json_ws a"
  by (auto simp: hex_val_def Let_def json_ws_def byte_def split: if_splits)

definition literal_text :: "string \<Rightarrow> string \<Rightarrow> string \<Rightarrow> string \<Rightarrow> bool" where
  "literal_text s u t r \<longleftrightarrow> s = u @ r \<and> compact False True u = u \<and>
     (\<forall>h x. compact h True (u @ x) = compact h True u @ compact h False x) \<and>
     (\<forall>h x. scan_string (compact h True u @ x) = Some (t, x)) \<and>
     (\<forall>h x. low_surrogate (compact h True u @ x) = low_surrogate s)"

lemma low_surrogate_plain [simp]: "byte c \<noteq> 92 \<Longrightarrow> \<not> low_surrogate (c # s)"
  by (auto simp: low_surrogate_def split: list.splits)

lemma compact_escape: "byte c = 92 \<Longrightarrow> compact h True (c # d # s) = c # d # compact h True s"
  by simp

lemma html_quote:
  assumes "byte c = 60 \<or> byte c = 62 \<or> byte c = 38"
  shows "quote_char c = [backslash, CHR ''u'', CHR ''0'', CHR ''0'', hex_digit (byte c div 16), hex_digit (byte c mod 16)]"
  using assms by (auto simp: quote_char_def Let_def backslash_def)

lemma html_not_low:
  assumes "byte c = 60 \<or> byte c = 62 \<or> byte c = 38"
  shows "\<not> low_surrogate (quote_char c @ s)"
proof -
  have "hex_val CHR ''0'' = Some 0" by code_simp
  moreover have "hex_val (hex_digit (byte c div 16)) = Some (byte c div 16)" "hex_val (hex_digit (byte c mod 16)) = Some (byte c mod 16)"
    using assms by (auto intro!: hex_digit_val)
  ultimately show ?thesis using assms by (auto simp: html_quote low_surrogate_def hex4_def)
qed

lemma literal_end: "byte c = 34 \<Longrightarrow> literal_text (c # r) [c] [] r"
  by (auto simp: literal_text_def scan_string.simps [of "c # x" for x])

lemma literal_plain:
  assumes "literal_text s u t r" and "byte c \<noteq> 34" and "32 \<le> byte c" and "byte c \<noteq> 92"
  shows "literal_text (c # s) (c # u) (c # t) r"
  using assms scan_plain [OF assms(2,3,4)] scan_quote_char [of c] html_not_low [of c]
  by (auto simp: literal_text_def)

lemma literal_escape:
  assumes "literal_text s u t r" and "byte c = 92" and "unescape_char e = Some v"
  shows "literal_text (c # e # s) (c # e # u) (v @ t) r"
proof -
  have c: "c = backslash" using assms(2) by (metis backslash_def byte_eq_char)
  have e: "e \<noteq> CHR ''u''" using assms(3) unescape_u_none by auto
  show ?thesis using assms(1) e scan_escape [OF assms(3)] unfolding c
    by (auto simp: literal_text_def low_surrogate_def)
qed

lemma unescape_u_lone: "hex4 y = Some (n, r) \<Longrightarrow> 55296 \<le> n \<Longrightarrow> n < 56320 \<Longrightarrow> \<not> low_surrogate r \<Longrightarrow>
    unescape_u y = Some (utf8_encode 65533, r)"
  by (auto simp: unescape_u_def low_surrogate_def split: list.splits option.splits)

lemma unescape_u_plain: "hex4 y = Some (n, r) \<Longrightarrow> \<not> (55296 \<le> n \<and> n < 56320) \<Longrightarrow>
    unescape_u y = Some (if 56320 \<le> n \<and> n < 57344 then utf8_encode 65533 else utf8_encode n, r)"
  by (auto simp: unescape_u_def)

lemma unescape_u_pair: "hex4 y = Some (n, a # b # r1) \<Longrightarrow> 55296 \<le> n \<Longrightarrow> n < 56320 \<Longrightarrow> low_surrogate (a # b # r1) \<Longrightarrow>
    hex4 r1 = Some (m, r) \<Longrightarrow> unescape_u y = Some (utf8_encode (65536 + (n - 55296) * 1024 + (m - 56320)), r)"
  by (auto simp: unescape_u_def low_surrogate_def)

lemma hex4_text:
  assumes "hex4 s = Some (n, r)"
  obtains e where "s = e @ r" and "\<And>x. hex4 (e @ x) = Some (n, x)" and "\<And>h x. compact h True (e @ x) = e @ compact h True x"
proof -
  obtain a b c d w x y z where h: "s = a # b # c # d # r" "hex_val a = Some w" "hex_val b = Some x"
      "hex_val c = Some y" "hex_val d = Some z" "n = ((w * 16 + x) * 16 + y) * 16 + z"
    using assms unfolding hex4_Some by blast
  show thesis
    by (rule that [of "[a, b, c, d]"]) (use h hex_val_plain in \<open>simp_all add: hex4_def\<close>)
qed

lemma literal_u:
  assumes t: "literal_text s u t r" and c: "c = backslash"
    and comp: "\<And>h x. compact h True (c # CHR ''u'' # e @ x) = c # CHR ''u'' # e @ compact h True x"
    and uu: "\<And>h x. unescape_u (e @ compact h True u @ x) = Some (v, compact h True u @ x)"
    and low: "\<And>h x. low_surrogate (c # CHR ''u'' # e @ compact h True u @ x) = low_surrogate (c # CHR ''u'' # e @ s)"
  shows "literal_text (c # CHR ''u'' # e @ s) (c # CHR ''u'' # e @ u) (v @ t) r"
  unfolding literal_text_def
proof (intro conjI allI)
  fix h x
  note comp' = comp [of h u] comp [of h "u @ x"] comp [of False u]
  show "c # CHR ''u'' # e @ s = (c # CHR ''u'' # e @ u) @ r" using t by (simp add: literal_text_def)
  show "compact False True (c # CHR ''u'' # e @ u) = c # CHR ''u'' # e @ u" using t comp' by (simp add: literal_text_def)
  show "compact h True ((c # CHR ''u'' # e @ u) @ x) = compact h True (c # CHR ''u'' # e @ u) @ compact h False x"
    using t comp' by (simp add: literal_text_def del: compact.simps)
  show "scan_string (compact h True (c # CHR ''u'' # e @ u) @ x) = Some (v @ t, x)"
    unfolding comp'(1) using t scan_escape_u [OF uu [of h x]] c by (simp add: literal_text_def del: compact.simps)
  show "low_surrogate (compact h True (c # CHR ''u'' # e @ u) @ x) = low_surrogate (c # CHR ''u'' # e @ s)"
    using low [of h x] unfolding comp' by simp
qed

lemma low_surrogate_u: "hex4 y = Some (n, r) \<Longrightarrow> low_surrogate (backslash # CHR ''u'' # y) \<longleftrightarrow> 56320 \<le> n \<and> n < 57344"
  by (simp add: low_surrogate_def)

lemma literal_unescape_u:
  assumes t: "literal_text s u t r" and h: "unescape_u s0 = Some (v, s)" and "byte c = 92"
  shows "\<exists>u0. literal_text (c # CHR ''u'' # s0) u0 (v @ t) r"
proof -
  have c: "c = backslash" using assms(3) by (metis backslash_def byte_eq_char)
  have low: "low_surrogate (compact h True u @ x) = low_surrogate s" for h x using t by (simp add: literal_text_def)
  from h show ?thesis
  proof (cases rule: unescape_u_cases)
    case (1 n r0)
    then obtain a b r1 m where r: "r0 = a # b # r1" "hex4 r1 = Some (m, s)" "v = utf8_encode (65536 + (n - 55296) * 1024 + (m - 56320))"
      by blast
    obtain e where e: "s0 = e @ r0" "\<And>x. hex4 (e @ x) = Some (n, x)" "\<And>h x. compact h True (e @ x) = e @ compact h True x"
      using hex4_text [OF 1(1)] by metis
    obtain f where f: "r1 = f @ s" "\<And>x. hex4 (f @ x) = Some (m, x)" "\<And>h x. compact h True (f @ x) = f @ compact h True x"
      using hex4_text [OF r(2)] by metis
    have ab: "byte a = 92" "b = CHR ''u''" "56320 \<le> m" "m < 57344" using 1(4) r by (auto simp: low_surrogate_def)
    have l: "low_surrogate (a # b # f @ x)" for x using ab f(2) by (simp add: low_surrogate_def)
    have "literal_text (c # CHR ''u'' # (e @ a # b # f) @ s) (c # CHR ''u'' # (e @ a # b # f) @ u) (v @ t) r"
    proof (rule literal_u [OF t c])
      show "unescape_u ((e @ a # b # f) @ compact h True u @ x) = Some (v, compact h True u @ x)" for h x
        unfolding r(3) using 1(2,3) l f(2) e(2) by (intro unescape_u_pair [of _ n a b "f @ compact h True u @ x"]) simp_all
      show "compact h True (c # CHR ''u'' # (e @ a # b # f) @ x) = c # CHR ''u'' # (e @ a # b # f) @ compact h True x" for h x
        using e(3) f(3) ab c by simp
      show "low_surrogate (c # CHR ''u'' # (e @ a # b # f) @ compact h True u @ x) = low_surrogate (c # CHR ''u'' # (e @ a # b # f) @ s)" for h x
        using e(2) c by (simp add: low_surrogate_u)
    qed
    then show ?thesis using e f r by auto
  next
    case (2 n)
    obtain e where e: "s0 = e @ s" "\<And>x. hex4 (e @ x) = Some (n, x)" "\<And>h x. compact h True (e @ x) = e @ compact h True x"
      using hex4_text [OF 2(1)] by metis
    have "literal_text (c # CHR ''u'' # e @ s) (c # CHR ''u'' # e @ u) (v @ t) r"
      by (rule literal_u [OF t c]) (use e c 2 low in \<open>auto simp: low_surrogate_u intro!: unescape_u_lone\<close>)
    then show ?thesis using e by auto
  next
    case (3 n)
    obtain e where e: "s0 = e @ s" "\<And>x. hex4 (e @ x) = Some (n, x)" "\<And>h x. compact h True (e @ x) = e @ compact h True x"
      using hex4_text [OF 3(1)] by metis
    have "literal_text (c # CHR ''u'' # e @ s) (c # CHR ''u'' # e @ u) (v @ t) r"
      unfolding 3(3)
      by (rule literal_u [OF t c]) (use e c 3 in \<open>auto simp: low_surrogate_u intro!: unescape_u_plain [THEN trans]\<close>)
    then show ?thesis using e by auto
  qed
qed

lemma scan_string_text: "scan_string s = Some (t, r) \<Longrightarrow> \<exists>u. literal_text s u t r"
proof (induction s arbitrary: t r rule: scan_string.induct)
  case (1 s)
  show ?case
  proof (cases s)
    case Nil
    then show ?thesis using 1 by (simp add: scan_string.simps)
  next
    case (Cons c cs)
    consider "byte c = 34" | "byte c \<noteq> 34" "byte c < 32" | "byte c \<noteq> 34" "32 \<le> byte c" "byte c \<noteq> 92"
      | "byte c = 92" by fastforce
    then show ?thesis
    proof cases
      case 1
      then show ?thesis using literal_end \<open>scan_string s = Some (t, r)\<close> Cons by (auto simp: scan_string.simps)
    next
      case 2
      then show ?thesis using \<open>scan_string s = Some (t, r)\<close> Cons by (simp add: scan_string.simps)
    next
      case 3
      then obtain t' where "scan_string cs = Some (t', r)" "t = c # t'"
        using \<open>scan_string s = Some (t, r)\<close> Cons by (auto simp: scan_plain)
      then show ?thesis using "1.IH"(3) [OF Cons] 3 Cons literal_plain by (metis not_less)
    next
      case 4
      then obtain e es where cs: "cs = e # es"
        using \<open>scan_string s = Some (t, r)\<close> Cons by (cases cs) (auto simp: scan_string.simps)
      show ?thesis
      proof (cases "e = CHR ''u''")
        case True
        then obtain v r' t' where v: "unescape_u es = Some (v, r')" "scan_string r' = Some (t', r)" "t = v @ t'"
          using \<open>scan_string s = Some (t, r)\<close> Cons 4 cs
          by (subst (asm) scan_string.simps) (auto split: option.splits if_splits)
        have "\<exists>u. literal_text r' u t' r"
          using "1.IH"(1) [OF Cons _ _ 4 cs True v(1)] length_unescape_u [OF v(1)] v(2) Cons cs 4 by auto
        then show ?thesis using literal_unescape_u [OF _ v(1) 4] Cons cs True v by blast
      next
        case False
        then obtain v t' where v: "unescape_char e = Some v" "scan_string es = Some (t', r)" "t = v @ t'"
          using \<open>scan_string s = Some (t, r)\<close> Cons 4 cs
          by (subst (asm) scan_string.simps) (auto split: option.splits if_splits)
        then obtain u where "literal_text es u t' r" using "1.IH"(2) [OF Cons _ _ 4 cs False v(1)] Cons cs 4 by auto
        then show ?thesis using literal_escape [OF _ 4 v(1)] Cons cs v(3) by blast
      qed
    qed
  qed
qed

subsection \<open>Numbers\<close>

lemma takeWhile_split: "takeWhile P (takeWhile P s @ x) = takeWhile P s" if "x = [] \<or> \<not> P (hd x)"
  using that by (cases x) (auto simp: takeWhile_append)

lemma digits_take:
  assumes "x = [] \<or> \<not> is_digit (hd x)"
  shows "takeWhile is_digit (takeWhile is_digit s @ x) = takeWhile is_digit s" "dropWhile is_digit (takeWhile is_digit s @ x) = x"
proof -
  have d: "\<forall>c \<in> set (takeWhile is_digit s). is_digit c" by (meson set_takeWhileD)
  show "takeWhile is_digit (takeWhile is_digit s @ x) = takeWhile is_digit s"
    using assms d by (subst takeWhile_append2) (auto, cases x, auto)
  show "dropWhile is_digit (takeWhile is_digit s @ x) = x"
    using assms d by (subst dropWhile_append2) (auto, cases x, auto)
qed

text \<open>What may follow each part of a number.\<close>

definition ends_digits :: "string \<Rightarrow> bool" where
  "ends_digits x \<longleftrightarrow> x = [] \<or> \<not> is_digit (hd x)"

definition number_char :: "char \<Rightarrow> bool" where
  "number_char c \<longleftrightarrow> is_digit c \<or> c \<in> {CHR ''-'', CHR ''+'', CHR ''.'', CHR ''e'', CHR ''E''}"

definition stops :: "string \<Rightarrow> bool" where
  "stops x \<longleftrightarrow> ends_digits x \<and> (x = [] \<or> hd x \<notin> {CHR ''.'', CHR ''e'', CHR ''E''})"

lemma ends_value_stops: "ends_value x \<Longrightarrow> stops x"
  by (auto simp: stops_def ends_value_def ends_digits_def is_digit_def byte_def)

lemma ws_stops: "json_ws c \<Longrightarrow> stops (c # x)"
  by (auto simp: stops_def ends_digits_def is_digit_def json_ws_def byte_def)

lemma scan_int_part_text:
  assumes "scan_int_part s = Some (n, r)"
  shows "s = n @ r \<and> list_all number_char n \<and> n \<noteq> [] \<and> is_digit (hd n) \<and> (ends_digits x \<longrightarrow> scan_int_part (n @ x) = Some (n, x))"
proof (cases s)
  case Nil
  then show ?thesis using assms by (simp add: scan_int_part_def)
next
  case (Cons c cs)
  have z: "is_digit CHR ''0''" by code_simp
  show ?thesis
  proof (cases "c = CHR ''0''")
    case True
    then show ?thesis using assms Cons z by (auto simp: scan_int_part_def number_char_def)
  next
    case False
    then have d: "is_digit c" "n = takeWhile is_digit s" "r = dropWhile is_digit s"
      using assms Cons by (auto simp: scan_int_part_def split: if_splits)
    then have "list_all number_char n" by (auto simp: list_all_iff number_char_def dest: set_takeWhileD)
    moreover have "ends_digits x \<Longrightarrow> scan_int_part (n @ x) = Some (n, x)"
      using d False Cons digits_take [of x cs] by (auto simp: scan_int_part_def ends_digits_def)
    ultimately show ?thesis using d Cons by auto
  qed
qed

lemma scan_frac_text:
  assumes "scan_frac s = Some (n, r)"
  shows "s = n @ r \<and> list_all number_char n \<and> (n = [] \<or> hd n = CHR ''.'') \<and>
    (ends_digits x \<and> (x = [] \<or> hd x \<noteq> CHR ''.'') \<longrightarrow> scan_frac (n @ x) = Some (n, x))"
proof (cases "\<exists>cs. s = CHR ''.'' # cs")
  case True
  then obtain cs where s: "s = CHR ''.'' # cs" by blast
  then have n: "n = CHR ''.'' # takeWhile is_digit cs" "r = dropWhile is_digit cs" "takeWhile is_digit cs \<noteq> []"
    using assms by (auto simp: scan_frac_def Let_def split: if_splits)
  then have "list_all number_char n" by (auto simp: list_all_iff number_char_def dest: set_takeWhileD)
  moreover have "ends_digits x \<Longrightarrow> scan_frac (n @ x) = Some (n, x)"
    using n digits_take [of x cs] by (auto simp: scan_frac_def Let_def ends_digits_def)
  ultimately show ?thesis using s n by auto
next
  case False
  have f: "scan_frac y = Some ([], y)" if "y = [] \<or> hd y \<noteq> CHR ''.''" for y
    using that by (auto simp: scan_frac_def split: list.splits char.splits bool.splits)
  have "s = [] \<or> hd s \<noteq> CHR ''.''" using False by (cases s) auto
  then have "n = []" "r = s" using assms f [of s] by auto
  then show ?thesis using f [of x] by simp
qed

lemma sign_split:
  "(case cs of c # r \<Rightarrow> if P c then ([c], r) else ([], cs) | [] \<Rightarrow> ([], cs)) = (sg, cs') \<Longrightarrow>
    cs = sg @ cs' \<and> (sg = [] \<or> (\<exists>c. sg = [c] \<and> P c))"
  by (cases cs) (auto split: if_splits)

lemma sign_join:
  assumes "sg = [] \<or> (\<exists>c. sg = [c] \<and> P c)" and "y \<noteq> []" and "\<not> P (hd y)"
  shows "(case sg @ y of c # r \<Rightarrow> if P c then ([c], r) else ([], sg @ y) | [] \<Rightarrow> ([], sg @ y)) = (sg, y)"
  using assms by (cases y) auto

lemma scan_exp_text:
  assumes "scan_exp s = Some (n, r)"
  shows "s = n @ r \<and> list_all number_char n \<and> (n = [] \<or> hd n \<in> {CHR ''e'', CHR ''E''}) \<and>
    (stops x \<longrightarrow> scan_exp (n @ x) = Some (n, x))"
proof (cases s)
  case Nil
  then show ?thesis using assms by (auto simp: scan_exp_def stops_def split: list.splits)
next
  case (Cons e cs)
  show ?thesis
  proof (cases "e = CHR ''e'' \<or> e = CHR ''E''")
    case False
    then have "n = []" "r = s" using assms Cons by (auto simp: scan_exp_def)
    then show ?thesis by (auto simp: scan_exp_def stops_def split: list.splits)
  next
    case True
    obtain sg cs' where sg: "(case cs of c # r \<Rightarrow> if c = CHR ''-'' \<or> c = CHR ''+'' then ([c], r) else ([], cs) | [] \<Rightarrow> ([], cs)) = (sg, cs')"
      by (rule prod.exhaust)
    have n: "n = e # sg @ takeWhile is_digit cs'" "r = dropWhile is_digit cs'" "takeWhile is_digit cs' \<noteq> []"
      using assms Cons True by (auto simp: scan_exp_def Let_def sg split: if_splits)
    note sg0 = sign_split [OF sg]
    then have cs: "cs = sg @ cs'" "list_all number_char sg" by (auto simp: number_char_def)
    obtain d ds where d: "takeWhile is_digit cs' = d # ds" "is_digit d"
      using n(3) by (metis list.exhaust list.set_intros(1) set_takeWhileD)
    have nd: "takeWhile is_digit cs' @ x \<noteq> []" "\<not> (hd (takeWhile is_digit cs' @ x) = CHR ''-'' \<or> hd (takeWhile is_digit cs' @ x) = CHR ''+'')"
      using d by (auto simp: is_digit_def byte_def)
    have sg': "(case sg @ takeWhile is_digit cs' @ x of c # r \<Rightarrow> if c = CHR ''-'' \<or> c = CHR ''+'' then ([c], r) else ([], sg @ takeWhile is_digit cs' @ x)
        | [] \<Rightarrow> ([], sg @ takeWhile is_digit cs' @ x)) = (sg, takeWhile is_digit cs' @ x)"
      by (rule sign_join [OF sg0 [THEN conjunct2] nd])
    have "list_all number_char n" using True n cs by (auto simp: list_all_iff number_char_def dest: set_takeWhileD)
    moreover have "stops x \<Longrightarrow> scan_exp (n @ x) = Some (n, x)"
      using True n(1,3) sg' digits_take [of x cs'] by (auto simp: scan_exp_def Let_def ends_digits_def stops_def)
    ultimately show ?thesis using Cons True n cs by auto
  qed
qed

lemma scan_number_text:
  assumes "scan_number s = Some (n, r)"
  shows "s = n @ r \<and> list_all number_char n \<and> n \<noteq> [] \<and> (hd n = CHR ''-'' \<or> is_digit (hd n)) \<and>
    (stops x \<longrightarrow> scan_number (n @ x) = Some (n, x))"
proof -
  obtain sg s0 where sg: "(case s of c # r \<Rightarrow> if c = CHR ''-'' then ([c], r) else ([], s) | [] \<Rightarrow> ([], s)) = (sg, s0)"
    by (rule prod.exhaust)
  obtain a s1 b s2 c where p: "scan_int_part s0 = Some (a, s1)" "scan_frac s1 = Some (b, s2)" "scan_exp s2 = Some (c, r)"
      "n = sg @ a @ b @ c"
    using assms unfolding scan_number_def sg by (auto simp: Let_def split: option.splits)
  note t = scan_int_part_text [OF p(1)] scan_frac_text [OF p(2)] scan_exp_text [OF p(3)]
  have s: "s = sg @ s0" "list_all number_char sg" "sg = [] \<or> sg = ''-''" using sign_split [OF sg] by (auto simp: number_char_def)
  have a: "a \<noteq> []" "is_digit (hd a)" "hd a \<noteq> CHR ''-''" using t(1) [of "[]"] by (auto simp: is_digit_def byte_def)
  have "scan_number (n @ x) = Some (n, x)" if x: "stops x"
  proof -
    note x' = x [unfolded stops_def]
    have nd: "\<not> is_digit CHR ''.''" "\<not> is_digit CHR ''e''" "\<not> is_digit CHR ''E''" by code_simp+
    have c: "ends_digits (c @ x) \<and> (c @ x = [] \<or> hd (c @ x) \<noteq> CHR ''.'')"
      using t(3) [of x] x' nd by (cases c) (auto simp: ends_digits_def)
    then have b: "ends_digits (b @ c @ x)" using t(2) [of x] nd by (cases b) (auto simp: ends_digits_def)
    have sg': "(case n @ x of c # r \<Rightarrow> if c = CHR ''-'' then ([c], r) else ([], n @ x) | [] \<Rightarrow> ([], n @ x)) = (sg, a @ b @ c @ x)"
    proof -
      have n: "n @ x = sg @ a @ b @ c @ x" using p(4) by simp
      have h: "a @ b @ c @ x \<noteq> []" "\<not> hd (a @ b @ c @ x) = CHR ''-''" using a by auto
      show ?thesis unfolding n by (rule sign_join [OF sign_split [OF sg, THEN conjunct2] h])
    qed
    have "scan_int_part (a @ b @ c @ x) = Some (a, b @ c @ x)" using t(1) [of "b @ c @ x"] b by simp
    moreover have "scan_frac (b @ c @ x) = Some (b, c @ x)" using t(2) [of "c @ x"] c by blast
    moreover have "scan_exp (c @ x) = Some (c, x)" using t(3) [of x] x by simp
    ultimately show ?thesis unfolding scan_number_def sg' Let_def prod.case using p(4) by simp
  qed
  then show ?thesis using t(1) [of "[]"] t(2) [of "[]"] t(3) [of "[]"] s a p(4) by auto
qed

subsection \<open>Values\<close>

text \<open>A text that ends outside of string literals.\<close>

definition closed :: "string \<Rightarrow> bool" where
  "closed u \<longleftrightarrow> (\<forall>h x. compact h False (u @ x) = compact h False u @ compact h False x)"

lemma closed_Nil [intro, simp]: "closed []"
  by (simp add: closed_def)

lemma closed_Cons [intro, simp]: "byte c \<noteq> 34 \<Longrightarrow> closed u \<Longrightarrow> closed (c # u)"
  by (simp add: closed_def)

lemma closed_append [intro, simp]: "closed u \<Longrightarrow> closed v \<Longrightarrow> closed (u @ v)"
  by (simp add: closed_def)

lemma closed_list: "list_all (\<lambda>c. byte c \<noteq> 34) u \<Longrightarrow> closed u"
  by (induction u) auto

lemma compact_closed: "closed u \<Longrightarrow> compact h False (u @ x) = compact h False u @ compact h False x"
  by (simp add: closed_def)

lemma quote_not_ws: "byte c = 34 \<Longrightarrow> \<not> json_ws c"
  by (auto simp: json_ws_def byte_def)

lemma closed_literal: "literal_text s u t r \<Longrightarrow> byte c = 34 \<Longrightarrow> closed (c # u)"
  by (simp add: closed_def literal_text_def quote_not_ws)

lemma compact_ws: "list_all json_ws w \<Longrightarrow> compact h False (w @ x) = compact h False x"
  by (induction w) auto

lemma ws_not_quote: "json_ws c \<Longrightarrow> byte c \<noteq> 34"
  by (auto simp: json_ws_def byte_def)

lemma closed_ws: "list_all json_ws w \<Longrightarrow> closed w"
  using ws_not_quote by (intro closed_list) (auto simp: list_all_iff)

lemma skip_ws_split: "\<exists>w. s = w @ skip_ws s \<and> list_all json_ws w"
  by (rule exI [of _ "takeWhile json_ws s"]) (auto simp: skip_ws_def list_all_iff dest: set_takeWhileD)

lemma skip_ws_head: "skip_ws s = c # cs \<Longrightarrow> \<not> json_ws c"
  unfolding skip_ws_def by (metis dropWhile_eq_Cons_conv)

lemma ws_text: "skip_ws s = y \<Longrightarrow> \<exists>w. s = w @ y \<and> closed w \<and> (\<forall>h. compact h False w = []) \<and> (\<forall>h x. compact h False (w @ x) = compact h False x)"
  using skip_ws_split [of s] compact_ws [of _ _ "[]"] compact_ws closed_ws by fastforce

text \<open>\<open>u\<close> is the text that \<open>parse\<close> consumes of \<open>s\<close>; written compactly before any \<open>x\<close> with \<open>P\<close> it parses to
  the same result.\<close>

definition text_of :: "(string \<Rightarrow> ('a \<times> string) option) \<Rightarrow> (string \<Rightarrow> bool) \<Rightarrow> string \<Rightarrow> string \<Rightarrow> 'a \<Rightarrow> string \<Rightarrow> bool" where
  "text_of parse P s u v r \<longleftrightarrow> s = u @ r \<and> closed u \<and> (\<forall>h x. P x \<longrightarrow> parse (compact h False u @ x) = Some (v, x))"

lemma text_head:
  assumes "closed u" and "cs = u @ r" and "skip_ws cs = d # r0" and "compact h False u \<noteq> []"
  shows "\<exists>y. compact h False u = d # y"
  using assms(2-4)
proof (induction u arbitrary: cs)
  case (Cons a u)
  then show ?case by (cases "json_ws a") (auto simp: skip_ws_def)
qed simp

lemma lit_text:
  assumes "expect_lit w v s = Some (v', r)" and "list_all (\<lambda>c. byte c \<noteq> 34 \<and> \<not> json_ws c) w"
  shows "v' = v \<and> s = w @ r \<and> closed w \<and> compact h False w = w \<and> expect_lit w v (w @ x) = Some (v, x)"
proof -
  have "compact h False w = w" using assms(2) by (induction w) auto
  moreover have "closed w" using assms(2) by (intro closed_list) (auto simp: list_all_iff)
  ultimately show ?thesis using assms(1)
    by (auto simp: expect_lit_def cut_prefix_def has_prefix_iff split: if_splits)
qed

lemma text_ofD:
  assumes "text_of parse P s u v r"
  shows "s = u @ r" "closed u" "P x \<Longrightarrow> parse (compact h False u @ x) = Some (v, x)"
  using assms by (auto simp: text_of_def)

lemma value_leaf:
  assumes "skip_ws s = u @ r" and "closed u" and "\<And>h x. ends_value x \<Longrightarrow> jvalue (compact h False u @ x) = Some (v, x)"
  shows "\<exists>u. text_of jvalue ends_value s u v r"
proof -
  obtain w where w: "s = w @ u @ r" "closed w" "\<And>h x. compact h False (w @ x) = compact h False x"
    using ws_text [OF assms(1)] by blast
  have "text_of jvalue ends_value s (w @ u) v r" using w assms by (simp add: text_of_def)
  then show ?thesis ..
qed

lemma value_string:
  assumes "skip_ws s = c # cs" and "byte c = 34" and "scan_string cs = Some (t, r)"
  shows "\<exists>u. text_of jvalue ends_value s u (JStr t) r"
proof -
  obtain u where u: "literal_text cs u t r" using scan_string_text [OF assms(3)] by blast
  show ?thesis
  proof (rule value_leaf [of s "c # u" r])
    show "skip_ws s = (c # u) @ r" using u assms by (simp add: literal_text_def)
    show "closed (c # u)" using u assms(2) by (rule closed_literal)
    fix h x
    have "scan_string (compact h True u @ x) = Some (t, x)" using u by (simp add: literal_text_def)
    then show "jvalue (compact h False (c # u) @ x) = Some (JStr t, x)"
      using assms(2) quote_not_ws by (subst jvalue.simps) (simp add: skip_ws_cons)
  qed
qed

lemma value_number:
  assumes "skip_ws s = c # cs" and "scan_number (c # cs) = Some (n, r)"
  shows "\<exists>u. text_of jvalue ends_value s u (JNum n) r"
proof -
  have n: "c # cs = n @ r" "list_all number_char n" "n \<noteq> []" "hd n = CHR ''-'' \<or> is_digit (hd n)"
    using scan_number_text [OF assms(2)] by auto
  have nc: "number_char a \<Longrightarrow> byte a \<noteq> 34 \<and> \<not> json_ws a" for a
    by (auto simp: number_char_def is_digit_def json_ws_def byte_def)
  then have comp: "compact h False n = n" for h using n(2) by (induction n) auto
  obtain ns where cn: "n = c # ns" using n by (cases n) auto
  have c: "byte c \<noteq> 34" "c \<noteq> CHR ''{''" "c \<noteq> CHR ''[''" "c \<noteq> CHR ''t''" "c \<noteq> CHR ''f''" "c \<noteq> CHR ''n''"
    using n(4) cn by (auto simp: is_digit_def byte_def)
  show ?thesis
  proof (rule value_leaf [of s n r])
    show "skip_ws s = n @ r" using assms n by simp
    show "closed n" using n(2) nc by (intro closed_list) (auto simp: list_all_iff)
    fix h x assume x: "ends_value x"
    have "scan_number (n @ x) = Some (n, x)" using scan_number_text [OF assms(2), of x] ends_value_stops [OF x] by blast
    then show "jvalue (compact h False n @ x) = Some (JNum n, x)"
      unfolding comp using c nc [of c] n(2) cn by (subst jvalue.simps) (simp add: skip_ws_cons)
  qed
qed

lemma value_bracket:
  assumes s: "skip_ws s = c # cs" "byte c \<noteq> 34" and cs: "skip_ws cs = d # r0"
    and u: "text_of parse (\<lambda>_. True) cs u vs r" "parse [] = None"
    and p: "\<And>ds. jvalue (c # d # ds) = (case parse (d # ds) of None \<Rightarrow> None | Some (vs, r') \<Rightarrow> Some (f vs, r'))"
  shows "\<exists>u. text_of jvalue ends_value s u (f vs) r"
proof (rule value_leaf [of s "c # u" r])
  show "skip_ws s = (c # u) @ r" using s u by (simp add: text_of_def)
  show "closed (c # u)" using s u by (simp add: text_of_def)
  fix h x
  have e: "parse (compact h False u @ x) = Some (vs, x)" for x using text_ofD(3) [OF u(1)] by simp
  have "compact h False u \<noteq> []" using e [of "[]"] u(2) by auto
  then obtain y where y: "compact h False u = d # y" using text_head [OF text_ofD(2,1) [OF u(1)] cs] by blast
  show "jvalue (compact h False (c # u) @ x) = Some (f vs, x)"
    using e [of x] p [of "y @ x"] s skip_ws_head [OF s(1)] y by simp
qed

lemma value_array:
  assumes "skip_ws s = CHR ''['' # cs" and "skip_ws cs = d # r0" and "d \<noteq> CHR '']''" and "text_of jelems (\<lambda>_. True) cs u vs r"
  shows "\<exists>u. text_of jvalue ends_value s u (JArr vs) r"
proof (rule value_bracket [OF assms(1) _ assms(2,4)])
  show "byte CHR ''['' \<noteq> 34" by code_simp
  show "jelems [] = None" by (simp add: jelems.simps jvalue.simps skip_ws_def)
  show "jvalue (CHR ''['' # d # ds) = (case jelems (d # ds) of None \<Rightarrow> None | Some (vs, r') \<Rightarrow> Some (JArr vs, r'))" for ds
    using assms(3) skip_ws_head [OF assms(2)]
    by (subst jvalue.simps) (simp add: skip_ws_cons not_ws byte_def map_option_case split: option.splits prod.splits)
qed

lemma value_object:
  assumes "skip_ws s = CHR ''{'' # cs" and "skip_ws cs = d # r0" and "d \<noteq> CHR ''}''" and "text_of jmembers (\<lambda>_. True) cs u kvs r"
  shows "\<exists>u. text_of jvalue ends_value s u (JObj kvs) r"
proof (rule value_bracket [OF assms(1) _ assms(2,4)])
  show "byte CHR ''{'' \<noteq> 34" by code_simp
  show "jmembers [] = None" by (simp add: jmembers.simps skip_ws_def)
  show "jvalue (CHR ''{'' # d # ds) = (case jmembers (d # ds) of None \<Rightarrow> None | Some (vs, r') \<Rightarrow> Some (JObj vs, r'))" for ds
    using assms(3) skip_ws_head [OF assms(2)]
    by (subst jvalue.simps) (simp add: skip_ws_cons not_ws byte_def map_option_case split: option.splits prod.splits)
qed

lemma value_empty:
  assumes "skip_ws s = c # cs" and "skip_ws cs = d # r" and "byte c \<noteq> 34" "byte d \<noteq> 34"
    and "\<And>x. jvalue (c # d # x) = Some (v, x)"
  shows "\<exists>u. text_of jvalue ends_value s u v r"
proof -
  obtain w where w: "cs = w @ d # r" "closed w" "\<And>h x. compact h False (w @ x) = compact h False x"
    using ws_text [OF assms(2)] by blast
  show ?thesis
    by (rule value_leaf [of s "c # w @ [d]" r])
      (use assms w skip_ws_head [OF assms(1)] skip_ws_head [OF assms(2)] in simp_all)
qed

lemma value_lit:
  assumes "skip_ws s = c # cs" and "expect_lit w v (c # cs) = Some (v', r)"
    and "list_all (\<lambda>c. byte c \<noteq> 34 \<and> \<not> json_ws c) w"
    and j: "\<And>x. jvalue (w @ x) = expect_lit w v (w @ x)"
  shows "\<exists>u. text_of jvalue ends_value s u v' r"
  by (rule value_leaf [of s w r]) (use assms lit_text [OF assms(2,3)] in simp_all)

lemma char_facts:
  "byte CHR '','' \<noteq> 34" "byte CHR '']'' \<noteq> 34" "byte CHR ''}'' \<noteq> 34" "byte CHR '':'' \<noteq> 34" "byte CHR ''['' \<noteq> 34" "byte CHR ''{'' \<noteq> 34"
  by code_simp+

lemma elems_last:
  assumes v: "text_of jvalue ends_value s u v r" and "skip_ws r = CHR '']'' # cs"
  shows "\<exists>u. text_of jelems (\<lambda>_. True) s u [v] cs"
proof -
  obtain w where w: "r = w @ CHR '']'' # cs" "closed w" "\<And>h x. compact h False (w @ x) = compact h False x"
    using ws_text [OF assms(2)] by blast
  have "jelems (compact h False (u @ w @ CHR '']'' # x)) = Some ([v], compact h False x)" for h x
    using text_ofD(3) [OF v] compact_closed [OF text_ofD(2) [OF v]] w(3) not_ws char_facts
    by (subst jelems.simps) (simp add: skip_ws_cons)
  then have "jelems (compact h False (u @ w @ '']'') @ x) = Some ([v], x)" for h x
    using text_ofD(3) [OF v] compact_closed [OF text_ofD(2) [OF v]] w(3) not_ws char_facts
    by (subst jelems.simps) (simp add: skip_ws_cons)
  then have "text_of jelems (\<lambda>_. True) s (u @ w @ '']'') [v] cs"
    using text_ofD(1,2) [OF v] w char_facts by (simp add: text_of_def)
  then show ?thesis ..
qed

lemma elems_more:
  assumes v: "text_of jvalue ends_value s u v r" and "skip_ws r = CHR '','' # cs" and t: "text_of jelems (\<lambda>_. True) cs u' vs r'"
  shows "\<exists>u. text_of jelems (\<lambda>_. True) s u (v # vs) r'"
proof -
  obtain w where w: "r = w @ CHR '','' # cs" "closed w" "\<And>h x. compact h False (w @ x) = compact h False x"
    using ws_text [OF assms(2)] by blast
  have "jelems (compact h False (u @ w @ CHR '','' # u') @ x) = Some (v # vs, x)" for h x
    using text_ofD(3) [OF v] text_ofD(3) [OF t] compact_closed [OF text_ofD(2) [OF v]] w(3) not_ws char_facts
    by (subst jelems.simps) (simp add: skip_ws_cons)
  then have "text_of jelems (\<lambda>_. True) s (u @ w @ CHR '','' # u') (v # vs) r'"
    using text_ofD(1,2) [OF v] text_ofD(1,2) [OF t] w char_facts by (simp add: text_of_def)
  then show ?thesis ..
qed

text \<open>A key with its colon and its value.\<close>

lemma member_text:
  assumes "skip_ws s = q # qs" "byte q = 34" "scan_string qs = Some (k, r)" "skip_ws r = CHR '':'' # cs"
    and v: "text_of jvalue ends_value cs u v r'" and j: "skip_ws r' = d # ds" "d = CHR ''}'' \<or> d = CHR '',''"
  obtains w where "s = w @ d # ds" "closed w"
    "\<And>h x. compact h False (w @ d # x) = compact h False w @ d # compact h False x"
    "\<And>h x. jmembers (compact h False w @ d # x) =
      (if d = CHR ''}'' then Some ([(k, v)], x) else case jmembers x of None \<Rightarrow> None | Some (ms, r'') \<Rightarrow> Some ((k, v) # ms, r''))"
proof -
  obtain w1 where w1: "s = w1 @ q # qs" "closed w1" "\<And>h x. compact h False (w1 @ x) = compact h False x"
    using ws_text [OF assms(1)] by blast
  obtain w2 where w2: "r = w2 @ CHR '':'' # cs" "closed w2" "\<And>h x. compact h False (w2 @ x) = compact h False x"
    using ws_text [OF assms(4)] by blast
  obtain w3 where w3: "r' = w3 @ d # ds" "closed w3" "\<And>h x. compact h False (w3 @ x) = compact h False x"
    using ws_text [OF j(1)] by blast
  obtain uk where k: "literal_text qs uk k r" using scan_string_text [OF assms(3)] by blast
  have ck: "closed (q # uk)" using k assms(2) by (rule closed_literal)
  have d: "byte d \<noteq> 34" "\<not> json_ws d" "ends_value (d # x)" for x using j(2) char_facts not_ws by auto
  let ?w = "w1 @ (q # uk) @ w2 @ CHR '':'' # u @ w3"
  have cu: "closed u" using v by (simp add: text_of_def)
  have closed: "closed ?w" 
    by (rule closed_append [OF w1(2) closed_append [OF ck closed_append [OF w2(2) closed_Cons [OF char_facts(4) closed_append [OF cu w3(2)]]]]])
  have comp: "compact h False ?w = q # compact h True uk @ CHR '':'' # compact h False u" for h
  proof -
    have "compact h False ?w = compact h False (q # uk) @ compact h False (w2 @ CHR '':'' # u @ w3)"
      unfolding w1(3) using compact_closed [OF ck] by simp
    also have "compact h False (w2 @ CHR '':'' # u @ w3) = CHR '':'' # compact h False u"
      using compact_closed [OF cu, of h w3] w2(3) w3(3) [of h "[]"] not_ws char_facts by simp
    finally show ?thesis using assms(2) quote_not_ws by simp
  qed
  show thesis
  proof (rule that [of ?w])
    show "s = ?w @ d # ds" using w1 w2 w3 k v by (simp add: literal_text_def text_of_def)
    show "closed ?w" by (rule closed)
    show "compact h False (?w @ d # x) = compact h False ?w @ d # compact h False x" for h x
      using compact_closed [OF closed, of h "d # x"] d by simp
    show "jmembers (compact h False ?w @ d # x) =
      (if d = CHR ''}'' then Some ([(k, v)], x) else case jmembers x of None \<Rightarrow> None | Some (ms, r'') \<Rightarrow> Some ((k, v) # ms, r''))" for h x
    proof -
      have s: "scan_string (compact h True uk @ y) = Some (k, y)" for y using k by (simp add: literal_text_def)
      have v: "jvalue (compact h False u @ d # x) = Some (v, d # x)" using text_ofD(3) [OF v] d by blast
      show ?thesis
        unfolding comp using s v d assms(2) quote_not_ws not_ws j(2)
        by (subst jmembers.simps) (auto simp: skip_ws_cons map_option_case split: option.splits)
    qed
  qed
qed

lemma members_last:
  assumes "skip_ws s = q # qs" "byte q = 34" "scan_string qs = Some (k, r)" "skip_ws r = CHR '':'' # cs"
    and v: "text_of jvalue ends_value cs u v r'" and j: "skip_ws r' = CHR ''}'' # ds"
  shows "\<exists>u. text_of jmembers (\<lambda>_. True) s u [(k, v)] ds"
proof -
  obtain w where w: "s = w @ CHR ''}'' # ds" "closed w" "\<And>h x. compact h False (w @ CHR ''}'' # x) = compact h False w @ CHR ''}'' # compact h False x"
    "\<And>h x. jmembers (compact h False w @ CHR ''}'' # x) = Some ([(k, v)], x)"
    by (rule member_text [OF assms]) simp_all
  have "text_of jmembers (\<lambda>_. True) s (w @ ''}'') [(k, v)] ds"
    using w char_facts by (simp add: text_of_def)
  then show ?thesis ..
qed

lemma members_more:
  assumes "skip_ws s = q # qs" "byte q = 34" "scan_string qs = Some (k, r)" "skip_ws r = CHR '':'' # cs"
    and v: "text_of jvalue ends_value cs u v r'" and j: "skip_ws r' = CHR '','' # ds"
    and t: "text_of jmembers (\<lambda>_. True) ds u' ms r''"
  shows "\<exists>u. text_of jmembers (\<lambda>_. True) s u ((k, v) # ms) r''"
proof -
  obtain w where w: "s = w @ CHR '','' # ds" "closed w" "\<And>h x. compact h False (w @ CHR '','' # x) = compact h False w @ CHR '','' # compact h False x"
    "\<And>h x. jmembers (compact h False w @ CHR '','' # x) = (case jmembers x of None \<Rightarrow> None | Some (ms, r'') \<Rightarrow> Some ((k, v) # ms, r''))"
    by (rule member_text [OF assms(1-6)]) simp_all
  have "text_of jmembers (\<lambda>_. True) s (w @ CHR '','' # u') ((k, v) # ms) r''"
    using w t char_facts by (simp add: text_of_def)
  then show ?thesis ..
qed

lemma jelems_cases:
  assumes "jelems s = Some (vs, r)"
  obtains v r1 where "jvalue s = Some (v, r1)" "skip_ws r1 = CHR '']'' # r" "vs = [v]"
  | v r1 cs vs' where "jvalue s = Some (v, r1)" "skip_ws r1 = CHR '','' # cs" "jelems cs = Some (vs', r)" "vs = v # vs'" "length cs < length s"
  using assms by (subst (asm) jelems.simps) (auto split: option.splits prod.splits list.splits if_splits)

lemma jmembers_cases:
  assumes "jmembers s = Some (ms, r)"
  obtains q qs k r0 cs v r1 where "skip_ws s = q # qs" "byte q = 34" "scan_string qs = Some (k, r0)" "skip_ws r0 = CHR '':'' # cs"
      "length cs < length s" "jvalue cs = Some (v, r1)" "skip_ws r1 = CHR ''}'' # r" "ms = [(k, v)]"
  | q qs k r0 cs v r1 ds ms' where "skip_ws s = q # qs" "byte q = 34" "scan_string qs = Some (k, r0)" "skip_ws r0 = CHR '':'' # cs"
      "length cs < length s" "jvalue cs = Some (v, r1)" "skip_ws r1 = CHR '','' # ds" "jmembers ds = Some (ms', r)" "ms = (k, v) # ms'"
      "length ds < length s"
  using assms by (subst (asm) jmembers.simps) (auto split: option.splits prod.splits list.splits if_splits)

lemma jvalue_cases:
  assumes "jvalue s = Some (v, r)"
  obtains c cs t where "skip_ws s = c # cs" "byte c = 34" "scan_string cs = Some (t, r)" "v = JStr t"
  | cs where "skip_ws s = CHR ''['' # cs" "skip_ws cs = CHR '']'' # r" "v = JArr []"
  | cs d r0 vs where "skip_ws s = CHR ''['' # cs" "skip_ws cs = d # r0" "d \<noteq> CHR '']''" "length cs < length s"
      "jelems cs = Some (vs, r)" "v = JArr vs"
  | cs where "skip_ws s = CHR ''{'' # cs" "skip_ws cs = CHR ''}'' # r" "v = JObj []"
  | cs d r0 kvs where "skip_ws s = CHR ''{'' # cs" "skip_ws cs = d # r0" "d \<noteq> CHR ''}''" "length cs < length s"
      "jmembers cs = Some (kvs, r)" "v = JObj kvs"
  | cs where "skip_ws s = CHR ''t'' # cs" "expect_lit ''true'' (JBool True) (CHR ''t'' # cs) = Some (v, r)"
  | cs where "skip_ws s = CHR ''f'' # cs" "expect_lit ''false'' (JBool False) (CHR ''f'' # cs) = Some (v, r)"
  | cs where "skip_ws s = CHR ''n'' # cs" "expect_lit ''null'' JNull (CHR ''n'' # cs) = Some (v, r)"
  | c cs n where "skip_ws s = c # cs" "scan_number (c # cs) = Some (n, r)" "v = JNum n"
  using assms by (subst (asm) jvalue.simps) (auto split: option.splits prod.splits list.splits if_splits)

lemma jvalue_short:
  "jvalue (CHR ''['' # CHR '']'' # x) = Some (JArr [], x)" "jvalue (CHR ''{'' # CHR ''}'' # x) = Some (JObj [], x)"
  "jvalue (''true'' @ x) = expect_lit ''true'' (JBool True) (''true'' @ x)"
  "jvalue (''false'' @ x) = expect_lit ''false'' (JBool False) (''false'' @ x)"
  "jvalue (''null'' @ x) = expect_lit ''null'' JNull (''null'' @ x)"
  by (subst jvalue.simps; simp add: skip_ws_cons not_ws byte_def)+

lemma lit_chars:
  "list_all (\<lambda>c. byte c \<noteq> 34 \<and> \<not> json_ws c) ''true''" "list_all (\<lambda>c. byte c \<noteq> 34 \<and> \<not> json_ws c) ''false''"
  "list_all (\<lambda>c. byte c \<noteq> 34 \<and> \<not> json_ws c) ''null''"
  by code_simp+

lemma value_text_aux:
  "(\<forall>v r. jvalue s = Some (v, r) \<longrightarrow> (\<exists>u. text_of jvalue ends_value s u v r)) \<and>
   (\<forall>vs r. jelems s = Some (vs, r) \<longrightarrow> (\<exists>u. text_of jelems (\<lambda>_. True) s u vs r)) \<and>
   (\<forall>ms r. jmembers s = Some (ms, r) \<longrightarrow> (\<exists>u. text_of jmembers (\<lambda>_. True) s u ms r))"
proof (induction s rule: measure_induct_rule [of length])
  case (less s)
  have jv: "\<exists>u. text_of jvalue ends_value s u v r" if "jvalue s = Some (v, r)" for v r
    using that
  proof (cases rule: jvalue_cases)
    case (1 c cs t)
    then show ?thesis using value_string by blast
  next
    case (2 cs)
    then show ?thesis using value_empty [OF 2(1,2) char_facts(5,2) jvalue_short(1)] by simp
  next
    case (3 cs d r0 vs)
    then show ?thesis using less.IH [of cs] value_array [OF 3(1-3)] by blast
  next
    case (4 cs)
    then show ?thesis using value_empty [OF 4(1,2) char_facts(6,3) jvalue_short(2)] by simp
  next
    case (5 cs d r0 kvs)
    then show ?thesis using less.IH [of cs] value_object [OF 5(1-3)] by blast
  next
    case (6 cs)
    show ?thesis by (rule value_lit [OF 6 lit_chars(1) jvalue_short(3)])
  next
    case (7 cs)
    show ?thesis by (rule value_lit [OF 7 lit_chars(2) jvalue_short(4)])
  next
    case (8 cs)
    show ?thesis by (rule value_lit [OF 8 lit_chars(3) jvalue_short(5)])
  next
    case (9 c cs n)
    then show ?thesis using value_number by blast
  qed
  have je: "\<exists>u. text_of jelems (\<lambda>_. True) s u vs r" if "jelems s = Some (vs, r)" for vs r
    using that
  proof (cases rule: jelems_cases)
    case (1 v r1)
    then show ?thesis using jv elems_last by blast
  next
    case (2 v r1 cs vs')
    then show ?thesis using jv elems_more less.IH [of cs] by blast
  qed
  have jm: "\<exists>u. text_of jmembers (\<lambda>_. True) s u ms r" if "jmembers s = Some (ms, r)" for ms r
    using that
  proof (cases rule: jmembers_cases)
    case (1 q qs k r0 cs v r1)
    then show ?thesis using members_last [OF 1(1-4)] less.IH [of cs] by blast
  next
    case (2 q qs k r0 cs v r1 ds ms')
    then show ?thesis using members_more [OF 2(1-4)] less.IH [of cs] less.IH [of ds] by blast
  qed
  show ?case using jv je jm by blast
qed

lemma value_text: "jvalue s = Some (v, r) \<Longrightarrow> \<exists>u. text_of jvalue ends_value s u v r"
  using value_text_aux by blast

text \<open>The same for the original text: what a parser consumed it consumes again before any \<open>x\<close> with \<open>P\<close>.\<close>

definition reads :: "(string \<Rightarrow> ('a \<times> string) option) \<Rightarrow> (string \<Rightarrow> bool) \<Rightarrow> string \<Rightarrow> string \<Rightarrow> 'a \<Rightarrow> string \<Rightarrow> bool" where
  "reads parse P s u v r \<longleftrightarrow> s = u @ r \<and> (\<forall>x. P x \<longrightarrow> parse (u @ x) = Some (v, x))"

lemma skip_ws_again:
  assumes "skip_ws s = c # y"
  obtains w where "s = w @ c # y" and "\<And>x. skip_ws (w @ c # x) = c # x" and "list_all json_ws w"
proof -
  have c: "\<not> json_ws c" using assms by (rule skip_ws_head)
  let ?w = "takeWhile json_ws s"
  have ws: "list_all json_ws ?w" by (auto simp: list_all_iff dest: set_takeWhileD)
  have "s = ?w @ c # y" using assms unfolding skip_ws_def by (metis takeWhile_dropWhile_id)
  moreover have "skip_ws (?w @ c # x) = c # x" for x
    using c ws unfolding skip_ws_def by (subst dropWhile_append2) (auto simp: list_all_iff)
  ultimately show thesis using that ws by blast
qed

lemma stops_ws: "list_all json_ws w \<Longrightarrow> stops x \<Longrightarrow> stops (w @ x)"
  using ws_stops by (cases w) auto

lemma reads_leaf:
  assumes "skip_ws s = c # y" and "c # y = (c # u) @ r" and "\<And>x x'. stops x \<Longrightarrow> skip_ws x' = c # u @ x \<Longrightarrow> jvalue x' = Some (v, x)"
  shows "\<exists>u. reads jvalue stops s u v r"
proof -
  obtain w where w: "s = w @ c # y" "\<And>x. skip_ws (w @ c # x) = c # x" "list_all json_ws w" by (rule skip_ws_again [OF assms(1)]) (rule that)
  have "reads jvalue stops s (w @ c # u) v r" using w assms(2,3) by (simp add: reads_def)
  then show ?thesis ..
qed

lemma skip_ws_length: "skip_ws x = c # y \<Longrightarrow> length y < length x"
  using length_skip_ws [of x] by simp

lemma reads_head:
  assumes "skip_ws (u @ r) = d # r0" and "parse u = Some z" and "\<And>w. list_all json_ws w \<Longrightarrow> parse w = None"
  shows "\<exists>y. \<forall>x. skip_ws (u @ x) = d # y @ x"
proof -
  have "\<not> list_all json_ws u" using assms(2,3) by fastforce
  then obtain e y where e: "dropWhile json_ws u = e # y" "\<not> json_ws e"
    by (metis dropWhile_eq_Nil_conv hd_dropWhile list.exhaust list.pred_set list.sel(1))
  have "skip_ws (u @ x) = e # y @ x" for x
    using e by (metis append_Cons dropWhile_append1 dropWhile_eq_Nil_conv list.distinct(1) skip_ws_def)
  then show ?thesis using assms(1) by auto
qed

lemma all_ws: "list_all json_ws w \<Longrightarrow> skip_ws w = []"
  by (simp add: skip_ws_def list_all_iff)

lemma reads_bracket:
  assumes s: "skip_ws s = c # cs" and cs: "skip_ws cs = d # r0"
    and u: "reads parse (\<lambda>_. True) cs u vs r" and n: "\<And>w. list_all json_ws w \<Longrightarrow> parse w = None"
    and p: "\<And>x' ds ds'. skip_ws x' = c # ds \<Longrightarrow> skip_ws ds = d # ds' \<Longrightarrow> jvalue x' = (case parse ds of None \<Rightarrow> None | Some (vs, r') \<Rightarrow> Some (f vs, r'))"
  shows "\<exists>u. reads jvalue stops s u (f vs) r"
proof -
  have "parse (u @ []) = Some (vs, [])" using u by (simp only: reads_def)
  then obtain y where y: "\<And>x. skip_ws (u @ x) = d # y @ x"
    using reads_head [of u r d r0 parse, OF _ _ n] cs u by (auto simp: reads_def)
  show ?thesis
    by (rule reads_leaf [OF s, of u]) (use u y p in \<open>auto simp: reads_def\<close>)
qed

lemma reads_string:
  assumes "skip_ws s = c # cs" and "byte c = 34" and "scan_string cs = Some (t, r)"
  shows "\<exists>u. reads jvalue stops s u (JStr t) r"
proof -
  obtain u where u: "literal_text cs u t r" using scan_string_text [OF assms(3)] by blast
  then have "scan_string (u @ x) = Some (t, x)" for x unfolding literal_text_def by metis
  with u show ?thesis
    by (intro reads_leaf [OF assms(1), of u]) (use assms(2) in \<open>auto simp: literal_text_def jvalue.simps\<close>)
qed

lemma reads_number:
  assumes "skip_ws s = c # cs" and "scan_number (c # cs) = Some (n, r)"
  shows "\<exists>u. reads jvalue stops s u (JNum n) r"
proof -
  have n: "c # cs = n @ r" "n \<noteq> []" "hd n = CHR ''-'' \<or> is_digit (hd n)"
    using scan_number_text [OF assms(2)] by auto
  then obtain ns where cn: "n = c # ns" by (cases n) auto
  have c: "byte c \<noteq> 34" "c \<noteq> CHR ''{''" "c \<noteq> CHR ''[''" "c \<noteq> CHR ''t''" "c \<noteq> CHR ''f''" "c \<noteq> CHR ''n''"
    using n(3) cn by (auto simp: is_digit_def byte_def)
  have "scan_number (n @ x) = Some (n, x)" if "stops x" for x using scan_number_text [OF assms(2), of x] that by blast
  then show ?thesis
    by (intro reads_leaf [OF assms(1), of ns]) (use n cn c in \<open>auto simp: jvalue.simps\<close>)
qed

lemma reads_lit:
  assumes "skip_ws s = c # cs" and "expect_lit (c # w) v (c # cs) = Some (v', r)"
    and j: "\<And>x x'. skip_ws x' = c # w @ x \<Longrightarrow> jvalue x' = expect_lit (c # w) v (c # w @ x)"
  shows "\<exists>u. reads jvalue stops s u v' r"
  by (rule reads_leaf [OF assms(1), of w]) (use assms j in \<open>auto simp: expect_lit_def cut_prefix_def has_prefix_iff split: if_splits\<close>)

lemma reads_empty:
  assumes "skip_ws s = c # cs" and "skip_ws cs = d # r" and p: "\<And>x x' ds. skip_ws x' = c # ds \<Longrightarrow> skip_ws ds = d # x \<Longrightarrow> jvalue x' = Some (v, x)"
  shows "\<exists>u. reads jvalue stops s u v r"
proof -
  obtain w where w: "cs = w @ d # r" "\<And>x. skip_ws (w @ d # x) = d # x" "list_all json_ws w" by (rule skip_ws_again [OF assms(2)]) (rule that)
  show ?thesis by (rule reads_leaf [OF assms(1), of "w @ [d]"]) (use w p in auto)
qed

lemma stop_chars: "stops (CHR '']'' # x)" "stops (CHR '','' # x)" "stops (CHR ''}'' # x)"
  by (auto intro: ends_value_stops)

lemma reads_elems_last:
  assumes v: "reads jvalue stops s u v r" and "skip_ws r = CHR '']'' # cs"
  shows "\<exists>u. reads jelems (\<lambda>_. True) s u [v] cs"
proof -
  obtain w where w: "r = w @ CHR '']'' # cs" "\<And>x. skip_ws (w @ CHR '']'' # x) = CHR '']'' # x" "list_all json_ws w"
    by (rule skip_ws_again [OF assms(2)]) (rule that)
  have "jvalue (u @ w @ CHR '']'' # x) = Some (v, w @ CHR '']'' # x)" for x
    using v stops_ws [OF w(3) stop_chars(1)] by (simp add: reads_def)
  then have "jelems (u @ w @ CHR '']'' # x) = Some ([v], x)" for x using w(2) by (subst jelems.simps) simp
  then have "reads jelems (\<lambda>_. True) s (u @ w @ '']'') [v] cs" using v w(1) by (simp add: reads_def)
  then show ?thesis ..
qed

lemma reads_elems_more:
  assumes v: "reads jvalue stops s u v r" and "skip_ws r = CHR '','' # cs" and t: "reads jelems (\<lambda>_. True) cs u' vs r'"
  shows "\<exists>u. reads jelems (\<lambda>_. True) s u (v # vs) r'"
proof -
  obtain w where w: "r = w @ CHR '','' # cs" "\<And>x. skip_ws (w @ CHR '','' # x) = CHR '','' # x" "list_all json_ws w"
    by (rule skip_ws_again [OF assms(2)]) (rule that)
  have "jvalue (u @ w @ CHR '','' # x) = Some (v, w @ CHR '','' # x)" for x
    using v stops_ws [OF w(3) stop_chars(2)] by (simp add: reads_def)
  then have "jelems (u @ w @ CHR '','' # u' @ x) = Some (v # vs, x)" for x
    using w(2) t by (subst jelems.simps) (simp add: reads_def)
  then have "reads jelems (\<lambda>_. True) s (u @ w @ CHR '','' # u') (v # vs) r'" using v t w(1) by (simp add: reads_def)
  then show ?thesis ..
qed

lemma reads_member:
  assumes "skip_ws s = q # qs" "byte q = 34" "scan_string qs = Some (k, r)" "skip_ws r = CHR '':'' # cs"
    and v: "reads jvalue stops cs u v r'" and j: "skip_ws r' = d # ds" "d = CHR ''}'' \<or> d = CHR '',''"
  obtains w where "s = w @ d # ds"
    "\<And>x. jmembers (w @ d # x) =
      (if d = CHR ''}'' then Some ([(k, v)], x) else case jmembers x of None \<Rightarrow> None | Some (ms, r'') \<Rightarrow> Some ((k, v) # ms, r''))"
proof -
  obtain w1 where w1: "s = w1 @ q # qs" "\<And>x. skip_ws (w1 @ q # x) = q # x" "list_all json_ws w1" by (rule skip_ws_again [OF assms(1)]) (rule that)
  obtain w2 where w2: "r = w2 @ CHR '':'' # cs" "\<And>x. skip_ws (w2 @ CHR '':'' # x) = CHR '':'' # x" "list_all json_ws w2" by (rule skip_ws_again [OF assms(4)]) (rule that)
  obtain w3 where w3: "r' = w3 @ d # ds" "\<And>x. skip_ws (w3 @ d # x) = d # x" "list_all json_ws w3" by (rule skip_ws_again [OF j(1)]) (rule that)
  obtain uk where k: "literal_text qs uk k r" using scan_string_text [OF assms(3)] by blast
  then have sk: "scan_string (uk @ x) = Some (k, x)" for x unfolding literal_text_def by metis
  have v': "jvalue (u @ w3 @ d # x) = Some (v, w3 @ d # x)" for x
    using v stops_ws [OF w3(3), of "d # x"] stop_chars j(2) by (auto simp: reads_def)
  show thesis
  proof (rule that [of "w1 @ q # uk @ w2 @ CHR '':'' # u @ w3"])
    show "s = (w1 @ q # uk @ w2 @ CHR '':'' # u @ w3) @ d # ds"
      using w1 w2 w3 k v by (simp add: literal_text_def reads_def)
    show "jmembers ((w1 @ q # uk @ w2 @ CHR '':'' # u @ w3) @ d # x) =
      (if d = CHR ''}'' then Some ([(k, v)], x) else case jmembers x of None \<Rightarrow> None | Some (ms, r'') \<Rightarrow> Some ((k, v) # ms, r''))" for x
      using assms(2) j(2) by (subst jmembers.simps) (auto simp: w1(2) w2(2) w3(2) sk v' map_option_case split: option.splits)
  qed
qed

lemma reads_members_last:
  assumes "skip_ws s = q # qs" "byte q = 34" "scan_string qs = Some (k, r)" "skip_ws r = CHR '':'' # cs"
    and v: "reads jvalue stops cs u v r'" and j: "skip_ws r' = CHR ''}'' # ds"
  shows "\<exists>u. reads jmembers (\<lambda>_. True) s u [(k, v)] ds"
proof -
  obtain w where w: "s = w @ CHR ''}'' # ds" "\<And>x. jmembers (w @ CHR ''}'' # x) = Some ([(k, v)], x)"
    by (rule reads_member [OF assms]) simp_all
  then have "reads jmembers (\<lambda>_. True) s (w @ ''}'') [(k, v)] ds" by (simp add: reads_def)
  then show ?thesis ..
qed

lemma reads_members_more:
  assumes "skip_ws s = q # qs" "byte q = 34" "scan_string qs = Some (k, r)" "skip_ws r = CHR '':'' # cs"
    and v: "reads jvalue stops cs u v r'" and j: "skip_ws r' = CHR '','' # ds"
    and t: "reads jmembers (\<lambda>_. True) ds u' ms r''"
  shows "\<exists>u. reads jmembers (\<lambda>_. True) s u ((k, v) # ms) r''"
proof -
  obtain w where w: "s = w @ CHR '','' # ds"
    "\<And>x. jmembers (w @ CHR '','' # x) = (case jmembers x of None \<Rightarrow> None | Some (ms, r'') \<Rightarrow> Some ((k, v) # ms, r''))"
    by (rule reads_member [OF assms(1-6)]) simp_all
  then have "reads jmembers (\<lambda>_. True) s (w @ CHR '','' # u') ((k, v) # ms) r''" using t by (simp add: reads_def)
  then show ?thesis ..
qed

lemma ws_no_value: "list_all json_ws w \<Longrightarrow> jelems w = None" "list_all json_ws w \<Longrightarrow> jmembers w = None"
  by (simp_all add: jelems.simps jvalue.simps jmembers.simps all_ws)

lemma value_reads_aux:
  "(\<forall>v r. jvalue s = Some (v, r) \<longrightarrow> (\<exists>u. reads jvalue stops s u v r)) \<and>
   (\<forall>vs r. jelems s = Some (vs, r) \<longrightarrow> (\<exists>u. reads jelems (\<lambda>_. True) s u vs r)) \<and>
   (\<forall>ms r. jmembers s = Some (ms, r) \<longrightarrow> (\<exists>u. reads jmembers (\<lambda>_. True) s u ms r))"
proof (induction s rule: measure_induct_rule [of length])
  case (less s)
  have jv: "\<exists>u. reads jvalue stops s u v r" if "jvalue s = Some (v, r)" for v r
    using that
  proof (cases rule: jvalue_cases)
    case (1 c cs t)
    then show ?thesis using reads_string by blast
  next
    case (2 cs)
    show ?thesis unfolding 2(3)
      by (rule reads_empty [OF 2(1,2)]) (simp add: jvalue.simps not_ws byte_def)
  next
    case (3 cs d r0 vs)
    then obtain u where u: "reads jelems (\<lambda>_. True) cs u vs r" using less.IH [of cs] 3 by blast
    show ?thesis unfolding 3(6)
      by (rule reads_bracket [OF 3(1,2) u ws_no_value(1)])
        (use 3(3) in \<open>auto simp: jvalue.simps byte_def map_option_case skip_ws_length split: option.splits\<close>)
  next
    case (4 cs)
    show ?thesis unfolding 4(3)
      by (rule reads_empty [OF 4(1,2)]) (simp add: jvalue.simps not_ws byte_def)
  next
    case (5 cs d r0 kvs)
    then obtain u where u: "reads jmembers (\<lambda>_. True) cs u kvs r" using less.IH [of cs] 5 by blast
    show ?thesis unfolding 5(6)
      by (rule reads_bracket [OF 5(1,2) u ws_no_value(2)])
        (use 5(3) in \<open>auto simp: jvalue.simps byte_def map_option_case skip_ws_length split: option.splits\<close>)
  next
    case (6 cs)
    show ?thesis by (rule reads_lit [OF 6]) (simp add: jvalue.simps byte_def)
  next
    case (7 cs)
    show ?thesis by (rule reads_lit [OF 7]) (simp add: jvalue.simps byte_def)
  next
    case (8 cs)
    show ?thesis by (rule reads_lit [OF 8]) (simp add: jvalue.simps byte_def)
  next
    case (9 c cs n)
    then show ?thesis using reads_number by blast
  qed
  have je: "\<exists>u. reads jelems (\<lambda>_. True) s u vs r" if "jelems s = Some (vs, r)" for vs r
    using that
  proof (cases rule: jelems_cases)
    case (1 v r1)
    then show ?thesis using jv reads_elems_last by blast
  next
    case (2 v r1 cs vs')
    then show ?thesis using jv reads_elems_more less.IH [of cs] by blast
  qed
  have jm: "\<exists>u. reads jmembers (\<lambda>_. True) s u ms r" if "jmembers s = Some (ms, r)" for ms r
    using that
  proof (cases rule: jmembers_cases)
    case (1 q qs k r0 cs v r1)
    then show ?thesis using reads_members_last [OF 1(1-4)] less.IH [of cs] by blast
  next
    case (2 q qs k r0 cs v r1 ds ms')
    then show ?thesis using reads_members_more [OF 2(1-4)] less.IH [of cs] less.IH [of ds] by blast
  qed
  show ?case using jv je jm by blast
qed

lemma value_reads: "jvalue s = Some (v, r) \<Longrightarrow> \<exists>u. reads jvalue stops s u v r"
  using value_reads_aux by blast

lemma skip_ws_append: "list_all json_ws w \<Longrightarrow> skip_ws (w @ y) = skip_ws y"
  by (induction w) (auto simp: skip_ws_def)

lemma jvalue_cong: "skip_ws s = skip_ws s' \<Longrightarrow> jvalue s = jvalue s'"
  by (cases "skip_ws s'") (simp_all add: jvalue.simps skip_ws_length)

subsection \<open>Raw texts\<close>

text \<open>A raw text stands for a value: as it is, and compacted.\<close>

definition raw_of :: "string \<Rightarrow> json \<Rightarrow> bool" where
  "raw_of t v \<longleftrightarrow> closed t \<and> (\<forall>h x. ends_value x \<longrightarrow> jvalue (compact h False t @ x) = Some (v, x)) \<and>
     (\<forall>x. ends_value x \<longrightarrow> jvalue (t @ x) = Some (v, x))"

lemma raw_value_of: "jvalue s = Some (v, r) \<Longrightarrow> \<exists>t. raw_value s = Some (t, r) \<and> raw_of t v"
proof -
  assume j: "jvalue s = Some (v, r)"
  then obtain u where u: "text_of jvalue ends_value s u v r" using value_text by blast
  obtain w where w: "s = w @ skip_ws s" "list_all json_ws w" using skip_ws_split by blast
  have sk: "skip_ws s = dropWhile json_ws (u @ r)" using u by (simp add: skip_ws_def text_of_def)
  have "jvalue (compact True False u) = Some (v, [])" using text_ofD(3) [OF u, of "[]" True] by simp
  then have "compact True False u \<noteq> []" by (auto simp: jvalue.simps skip_ws_def)
  then have "\<not> list_all json_ws u" using compact_ws [of u True "[]"] by auto
  then obtain a where "a \<in> set u" "\<not> json_ws a" by (auto simp: list_all_iff)
  then have d: "dropWhile json_ws (u @ r) = dropWhile json_ws u @ r" by (rule dropWhile_append1)
  let ?t = "dropWhile json_ws u"
  have u': "u = takeWhile json_ws u @ ?t" by simp
  have ws: "list_all json_ws (takeWhile json_ws u)" by (auto simp: list_all_iff dest: set_takeWhileD)
  have c: "compact h False (u @ x) = compact h False (?t @ x)" for h x
    using compact_ws [OF ws, of h "?t @ x"] by (metis append.assoc u')
  obtain u2 where u2: "reads jvalue stops s u2 v r" using value_reads [OF j] by blast
  then have "u2 = u" using text_ofD(1) [OF u] by (simp add: reads_def)
  then have "jvalue (u @ x) = Some (v, x)" if "ends_value x" for x
    using u2 ends_value_stops [OF that] by (simp add: reads_def)
  moreover have "jvalue (?t @ x) = jvalue (u @ x)" for x
  proof -
    have "skip_ws (u @ x) = skip_ws (?t @ x)"
      using skip_ws_append [OF ws, of "?t @ x"] unfolding append.assoc [symmetric] takeWhile_dropWhile_id .
    then show ?thesis by (rule jvalue_cong [symmetric])
  qed
  ultimately have "raw_of ?t v"
    using text_ofD(2) [OF u] text_ofD(3) [OF u] c c [of _ "[]"] by (simp add: raw_of_def closed_def)
  moreover have "raw_value s = Some (?t, r)" using j sk d by (simp add: raw_value_def)
  ultimately show ?thesis by blast
qed

lemma compact_head: "compact h False t = d # y \<Longrightarrow> \<not> json_ws d"
  by (induction t) (auto split: if_splits)

lemma raw_compact: "raw_of t v \<Longrightarrow> raw_of (compact h False t) v"
proof -
  assume t: "raw_of t v"
  then have "jvalue (compact h False t @ []) = Some (v, [])" by (simp add: raw_of_def ends_value_def)
  then obtain u where "text_of jvalue ends_value (compact h False t @ []) u v []" using value_text by metis
  moreover from this have "u = compact h False t" by (simp add: text_of_def)
  ultimately show ?thesis using t by (simp add: text_of_def raw_of_def)
qed

lemma raw_print: "int_literals v \<Longrightarrow> raw_of (json_print v) v"
proof -
  assume v: "int_literals v"
  then have "jvalue (json_print v @ []) = Some (v, [])" by (rule roundtrip_aux(1)) (simp add: ends_value_def)
  then obtain u where "text_of jvalue ends_value (json_print v @ []) u v []" using value_text by metis
  then show ?thesis using roundtrip_aux(1) [OF v] by (simp add: text_of_def raw_of_def)
qed

abbreviation raw_member_of :: "string \<times> string \<Rightarrow> string \<times> json \<Rightarrow> bool" where
  "raw_member_of \<equiv> rel_prod (=) raw_of"

lemma raw_elems_of: "jelems s = Some (vs, r) \<Longrightarrow> list_all2 raw_of (raw_elems s) vs"
proof (induction s arbitrary: vs r rule: measure_induct_rule [of length])
  case (less s)
  from less.prems show ?case
  proof (cases rule: jelems_cases)
    case (1 v r1)
    then obtain t where "raw_value s = Some (t, r1)" "raw_of t v" using raw_value_of by blast
    then show ?thesis using 1 by (subst raw_elems.simps) simp
  next
    case (2 v r1 cs vs')
    then obtain t where "raw_value s = Some (t, r1)" "raw_of t v" using raw_value_of by blast
    then show ?thesis using 2 less.IH [of cs] by (subst raw_elems.simps) simp
  qed
qed

lemma raw_members_of: "jmembers s = Some (ms, r) \<Longrightarrow> list_all2 raw_member_of (raw_members s) ms"
proof (induction s arbitrary: ms r rule: measure_induct_rule [of length])
  case (less s)
  from less.prems show ?case
  proof (cases rule: jmembers_cases)
    case (1 q qs k r0 cs v r1)
    then obtain t where "raw_value cs = Some (t, r1)" "raw_of t v" using raw_value_of by blast
    then show ?thesis using 1 by (subst raw_members.simps) simp
  next
    case (2 q qs k r0 cs v r1 ds ms')
    then obtain t where "raw_value cs = Some (t, r1)" "raw_of t v" using raw_value_of by blast
    then show ?thesis using 2 less.IH [of ds] by (subst raw_members.simps) simp
  qed
qed

lemma map_of_fold_update:
  "map_of (fold (\<lambda>(k, v) m. AList.update k v m) ms m) k = (case map_of (rev ms) k of Some v \<Rightarrow> Some v | None \<Rightarrow> map_of m k)"
  by (induction ms arbitrary: m) (auto simp: map_of_append split: option.splits)

lemma gomap_fold_update: "gomap m \<Longrightarrow> gomap (fold (\<lambda>(k, v) m. AList.update k v m) ms m)"
  by (induction ms arbitrary: m) auto

lemma map_of_rel: "list_all2 raw_member_of ms vs \<Longrightarrow> rel_option raw_of (map_of ms k) (map_of vs k)"
  by (induction rule: list_all2_induct) auto

lemma json_parse_obj:
  assumes "json_parse s = Some (JObj kvs)"
  obtains cs d r0 r where "skip_ws s = CHR ''{'' # cs" "skip_ws cs = d # r0" "kvs = [] \<or> jmembers cs = Some (kvs, r)"
proof -
  obtain r where "jvalue s = Some (JObj kvs, r)" using assms by (auto simp: json_parse_def split: option.splits if_splits)
  then show thesis by (cases rule: jvalue_cases) (auto intro: that simp: expect_lit_def)
qed

lemma json_parse_arr:
  assumes "json_parse s = Some (JArr vs)"
  obtains cs d r0 r where "skip_ws s = CHR ''['' # cs" "skip_ws cs = d # r0" "vs = [] \<or> jelems cs = Some (vs, r)"
proof -
  obtain r where "jvalue s = Some (JArr vs, r)" using assms by (auto simp: json_parse_def split: option.splits if_splits)
  then show thesis by (cases rule: jvalue_cases) (auto intro: that simp: expect_lit_def)
qed

lemma raw_document_of:
  assumes "json_parse s = Some (JObj kvs)"
  obtains m where "raw_document s = Some m" and "gomap m" and "\<And>k. rel_option raw_of (map_of m k) (map_of (rev kvs) k)"
proof (cases "kvs = []")
  case True
  then show thesis using assms by (intro that [of "[]"]) (simp_all add: raw_document_def)
next
  case False
  then obtain cs r where cs: "skip_ws s = CHR ''{'' # cs" "jmembers cs = Some (kvs, r)" using json_parse_obj [OF assms] by metis
  let ?m = "fold (\<lambda>(k, v) m. AList.update k v m) (raw_members cs) []"
  have l: "list_all2 raw_member_of (rev (raw_members cs)) (rev kvs)"
    using raw_members_of [OF cs(2)] by (simp add: list_all2_rev)
  show thesis
  proof (rule that [of ?m])
    show "raw_document s = Some ?m" using assms False cs by (simp add: raw_document_def)
    show "gomap ?m" by (simp add: gomap_fold_update)
    show "rel_option raw_of (map_of ?m k) (map_of (rev kvs) k)" for k
      using map_of_rel [OF l, of k] by (auto simp: map_of_fold_update split: option.splits)
  qed
qed

lemma raw_array_of:
  assumes "json_parse s = Some (JArr vs)"
  obtains ts where "raw_array s = Some ts" and "list_all2 raw_of ts vs"
proof (cases "vs = []")
  case True
  then show thesis using assms by (intro that [of "[]"]) (simp_all add: raw_array_def)
next
  case False
  then obtain cs r where cs: "skip_ws s = CHR ''['' # cs" "jelems cs = Some (vs, r)" using json_parse_arr [OF assms] by metis
  then show thesis using assms False raw_elems_of [OF cs(2)] by (intro that) (simp_all add: raw_array_def)
qed

lemma scan_quote_plain: "scan_string (quote_char_plain c @ s) = map_option (\<lambda>(t, r). (c # t, r)) (scan_string s)"
  by (auto simp: quote_char_plain_def scan_quote_char scan_plain)

lemma scan_quote_key: "scan_string (drop 1 (quote_key html k) @ r) = Some (k, r)"
proof -
  have "scan_string (concat (map quote_char_plain t) @ char_of (34::int) # r) = Some (t, r)" for t
  proof (induction t)
    case Nil
    then show ?case by (simp add: scan_string.simps byte_char_of)
  qed (simp add: scan_quote_plain)
  then show ?thesis using scan_quoted by (simp add: quote_key_def)
qed

lemma quote_key_head: "quote_key html k = char_of (34::int) # drop 1 (quote_key html k)"
  by (simp add: quote_key_def)

lemma write_members_parse:
  "list_all2 raw_member_of ms vs \<Longrightarrow> ms \<noteq> [] \<Longrightarrow> jmembers (write_members html ms @ CHR ''}'' # x) = Some (vs, x)"
proof (induction arbitrary: x rule: list_all2_induct)
  case (Cons m ms v vs)
  obtain k t w where m: "m = (k, t)" "v = (k, w)" "raw_of t w" using Cons.hyps by (cases m; cases v) auto
  have j: "jvalue (compact html False t @ y) = Some (w, y)" if "ends_value y" for y
    using m(3) that by (simp add: raw_of_def)
  define rest where "rest = (if ms = [] then CHR ''}'' # x else CHR '','' # write_members html ms @ CHR ''}'' # x)"
  have w: "write_members html (m # ms) @ CHR ''}'' # x = char_of (34::int) # drop 1 (quote_key html k) @ CHR '':'' # compact html False t @ rest"
    unfolding m rest_def write_members.simps by (subst quote_key_head) simp
  have "jvalue (compact html False t @ rest) = Some (w, rest)" by (rule j) (simp add: rest_def)
  moreover have "skip_ws rest = rest" "ms = [] \<Longrightarrow> vs = []" using Cons.hyps by (simp_all add: rest_def skip_ws_cons not_ws)
  moreover have "ms \<noteq> [] \<Longrightarrow> jmembers (write_members html ms @ CHR ''}'' # x) = Some (vs, x)" by (rule Cons.IH)
  ultimately show ?case
    unfolding w m(2) using scan_quote_key [of html k]
    by (subst jmembers.simps) (cases "ms = []"; simp add: skip_ws_cons not_ws byte_char_of rest_def)
qed simp

lemma write_elems_parse:
  "list_all2 raw_of ts vs \<Longrightarrow> ts \<noteq> [] \<Longrightarrow> jelems (write_elems html ts @ CHR '']'' # x) = Some (vs, x)"
proof (induction arbitrary: x rule: list_all2_induct)
  case (Cons t ts v vs)
  have j: "jvalue (compact html False t @ y) = Some (v, y)" if "ends_value y" for y
    using Cons.hyps(1) that by (simp add: raw_of_def)
  define rest where "rest = (if ts = [] then CHR '']'' # x else CHR '','' # write_elems html ts @ CHR '']'' # x)"
  have w: "write_elems html (t # ts) @ CHR '']'' # x = compact html False t @ rest" by (simp add: rest_def)
  have "jvalue (compact html False t @ rest) = Some (v, rest)" by (rule j) (simp add: rest_def)
  moreover have "skip_ws rest = rest" "ts = [] \<Longrightarrow> vs = []" using Cons.hyps by (simp_all add: rest_def skip_ws_cons not_ws)
  moreover have "ts \<noteq> [] \<Longrightarrow> jelems (write_elems html ts @ CHR '']'' # x) = Some (vs, x)" by (rule Cons.IH)
  ultimately show ?case
    unfolding w by (subst jelems.simps) (cases "ts = []"; simp add: rest_def)
qed simp

text \<open>What is written parses to the members in the order of their keys.\<close>

lemma write_object_parse:
  assumes "list_all2 raw_member_of (sort_by (\<lambda>a b. str_less (fst a) (fst b)) m) kvs"
  shows "json_parse (write_object html m) = Some (JObj kvs)"
proof (cases "sort_by (\<lambda>a b. str_less (fst a) (fst b)) m = []")
  case True
  then have "kvs = []" using assms by simp
  then show ?thesis using True jvalue_short(2) [of "[]"] by (simp add: write_object_def json_parse_def skip_ws_def)
next
  case False
  then obtain kv ms where m: "sort_by (\<lambda>a b. str_less (fst a) (fst b)) m = kv # ms" by (cases "sort_by (\<lambda>a b. str_less (fst a) (fst b)) m") auto
  let ?t = "write_members html (kv # ms) @ ''}''"
  have j: "jmembers ?t = Some (kvs, [])" using write_members_parse [of "kv # ms" kvs html "[]"] assms m by simp
  obtain y where y: "?t = char_of (34::int) # y" by (cases kv) (simp add: quote_key_def)
  have "jvalue (CHR ''{'' # ?t) = Some (JObj kvs, [])"
    using j unfolding y by (subst jvalue.simps) (simp add: skip_ws_cons not_ws byte_def)
  then show ?thesis unfolding write_object_def m by (simp add: json_parse_def skip_ws_def del: write_members.simps)
qed

lemma write_array_parse:
  assumes "list_all2 raw_of ts vs"
  shows "raw_of (write_array ts) (JArr vs)"
proof -
  have j: "jvalue (CHR ''['' # write_elems True ts @ CHR '']'' # x) = Some (JArr vs, x)" for x
  proof (cases "ts = []")
    case True
    then show ?thesis using assms jvalue_short(1) by simp
  next
    case False
    then obtain t ts' v vs' where t: "ts = t # ts'" "vs = v # vs'" "raw_of t v" using assms by (cases ts; cases vs) auto
    then have j1: "jvalue (compact True False t @ []) = Some (v, [])" by (simp only: raw_of_def) (simp add: ends_value_def)
    then have ne: "compact True False t \<noteq> []" by (auto simp: jvalue.simps skip_ws_def)
    then obtain d y where d: "compact True False t = d # y" by (cases "compact True False t") auto
    have j: "jelems (write_elems True ts @ CHR '']'' # x) = Some (vs, x)" by (rule write_elems_parse [OF assms False])
    have "\<not> json_ws d" by (rule compact_head [OF d])
    moreover have "jvalue (CHR '']'' # y) = None"
      using separators char_facts not_ws
      by (subst jvalue.simps) (simp add: skip_ws_cons scan_number_def scan_int_part_def)
    then have "d \<noteq> CHR '']''" using j1 d by auto
    ultimately show ?thesis
      using j t d by (subst jvalue.simps) (simp add: skip_ws_cons not_ws byte_def)
  qed
  then obtain u where "text_of jvalue ends_value (write_array ts @ []) u (JArr vs) []"
    using value_text by (metis append_Nil2 write_array_def)
  moreover from this have "u = write_array ts" by (simp add: text_of_def)
  ultimately show ?thesis using j by (simp add: text_of_def raw_of_def write_array_def)
qed

lemma raw_of_parse: "raw_of t v \<Longrightarrow> json_parse t = Some v"
proof -
  assume "raw_of t v"
  then have "jvalue (t @ []) = Some (v, [])" unfolding raw_of_def using ends_value_cons(1) by blast
  then show ?thesis by (simp add: json_parse_def skip_ws_def)
qed

lemma raw_of_unique: "raw_of t v \<Longrightarrow> raw_of t w \<Longrightarrow> v = w"
  by (metis option.inject raw_of_parse)

text \<open>A document of raw texts is written as the object of their values.\<close>

lemma map_of_sort_by: "gomap m \<Longrightarrow> map_of (sort_by lt m) = map_of m"
proof -
  assume m: "gomap m"
  have "mset (map fst (sort_by lt m)) = mset (map fst m)" by (metis mset_map mset_sort_by)
  then have "distinct (map fst (sort_by lt m))" using m unfolding gomap_def by (metis mset_eq_imp_distinct_iff)
  then show ?thesis using m by (simp add: gomap_def map_of_inject_set)
qed

definition raw_map :: "raw_doc \<Rightarrow> bool" where
  "raw_map m \<longleftrightarrow> gomap m \<and> (\<forall>k t. map_of m k = Some t \<longrightarrow> (\<exists>v. raw_of t v))"

lemma raw_mapI: "gomap m \<Longrightarrow> (\<And>k. rel_option raw_of (map_of m k) (want k)) \<Longrightarrow> raw_map m"
  unfolding raw_map_def by (metis option.rel_distinct(2) option_rel_Some1)

lemma write_object_values:
  assumes "raw_map m"
  shows "\<exists>kvs. json_parse (write_object html m) = Some (JObj kvs) \<and> distinct (map fst kvs) \<and>
    (\<forall>k. rel_option raw_of (map_of m k) (map_of kvs k))"
proof -
  let ?ms = "sort_by (\<lambda>a b. str_less (fst a) (fst b)) m"
  define value_of where "value_of t = (SOME v. raw_of t v)" for t
  let ?kvs = "map (\<lambda>(k, t). (k, value_of t)) ?ms"
  have m: "map_of ?ms = map_of m" using assms by (intro map_of_sort_by) (simp add: raw_map_def)
  have d: "distinct (map fst ?ms)" using assms unfolding raw_map_def gomap_def by (metis mset_eq_imp_distinct_iff mset_map mset_sort_by)
  have v: "raw_of t (value_of t)" if "(k, t) \<in> set ?ms" for k t
  proof -
    have "map_of m k = Some t" using that assms by (intro map_of_SomeI_gomap) (simp_all add: raw_map_def)
    then show ?thesis unfolding value_of_def using assms unfolding raw_map_def by (metis someI)
  qed
  then have "list_all2 raw_member_of ?ms ?kvs"
    unfolding list_all2_map2 list_all2_same by (auto simp del: set_sort_by)
  then have "json_parse (write_object html m) = Some (JObj ?kvs)" by (rule write_object_parse)
  moreover have f: "map fst ?kvs = map fst ?ms" by (simp add: comp_def case_prod_beta)
  moreover have "rel_option raw_of (map_of m k) (map_of ?kvs k)" for k
    using map_of_rel [OF \<open>list_all2 raw_member_of ?ms ?kvs\<close>, of k] m by simp
  ultimately show ?thesis using d by metis
qed

end
