(* ===== verification/PublicUrls.thy ===== *)
theory PublicUrls imports Replies Matcher begin

text \<open>
  The public side of a request: its host, scheme and path as the client sees them.  From
  \<open>internal/x402\<close>: \<open>paymentrequired.go\<close> (\<open>resolveScheme\<close>, \<open>isLocalHost\<close>, \<open>resolveSiteURL\<close>, \<open>prefersHTML\<close>),
  \<open>forwardauth.go\<close> (\<open>buildResourceURL\<close>) and \<open>authgate.go\<close> (\<open>requestHost\<close>, \<open>publicPrefix\<close>,
  \<open>writeErrorResponse\<close>).  \<open>tls\<close> says that the connection itself is encrypted.
\<close>

subsection \<open>Hosts\<close>

text \<open>\<open>net.SplitHostPort\<close>: the host, or \<open>None\<close> for an error.\<close>

definition SplitHost :: "string \<Rightarrow> string option" where
  "SplitHost s =
     (if CHR '':'' \<notin> set s then None
      else
        (let i = length s - length (takeWhile (\<lambda>c. c \<noteq> CHR '':'') (rev s)) - 1 in
         if hd s = CHR ''['' then
           (let e = length (takeWhile (\<lambda>c. c \<noteq> CHR '']'') s) in
            if e = length s \<or> e + 1 \<noteq> i then None
            else if CHR ''['' \<in> set (drop 1 s) \<or> CHR '']'' \<in> set (drop (e + 1) s) then None
            else Some (drop 1 (take e s)))
         else if CHR '':'' \<in> set (take i s) \<or> CHR ''['' \<in> set s \<or> CHR '']'' \<in> set s then None
         else Some (take i s)))"

definition stripHostPort :: "string \<Rightarrow> string" where
  "stripHostPort host = the_default host (SplitHost host)"

definition trim_brackets :: "string \<Rightarrow> string" where
  "trim_brackets s =
     (let b = (\<lambda>c. c = CHR ''['' \<or> c = CHR '']'') in rev (dropWhile b (rev (dropWhile b s))))"

definition isLocalHost :: "string \<Rightarrow> bool" where
  "isLocalHost host =
     (let h = to_lower (trim_brackets (trim_suffix ''.'' (the_default host (SplitHost host))))
      in h \<in> {''obol.stack'', ''localhost'', ''127.0.0.1'', ''::1'', ''0.0.0.0''} \<or>
         has_suffix ''.localhost'' h \<or> has_suffix ''.local'' h)"

definition resolveScheme :: "bool \<Rightarrow> header \<Rightarrow> string \<Rightarrow> string" where
  "resolveScheme tls h host =
     (if \<not> tls \<and> hget h ''X-Forwarded-Proto'' \<noteq> ''https'' \<and> isLocalHost host then ''http'' else ''https'')"

definition requestHost :: "http_request \<Rightarrow> string" where
  "requestHost r = (let h = hget (rq_header r) ''X-Forwarded-Host'' in if h \<noteq> [] then h else rq_host r)"

definition resolveSiteURL :: "bool \<Rightarrow> http_request \<Rightarrow> string" where
  "resolveSiteURL tls r =
     (let forwarded = hget (rq_header r) ''X-Forwarded-Host'';
          host = (if forwarded \<noteq> [] then forwarded else rq_host r)
      in resolveScheme tls (rq_header r) host @ ''://'' @ host)"

subsection \<open>Paths\<close>

definition publicPrefix :: "route_rule option \<Rightarrow> string \<Rightarrow> string" where
  "publicPrefix rule host =
     (case rule of None \<Rightarrow> []
      | Some rl \<Rightarrow>
          (let h = the_default host (SplitHost host); rh = the_default (rr_Hostname rl) (SplitHost (rr_Hostname rl)) in
           if rr_Hostname rl \<noteq> [] \<and> equal_fold h rh then [] else trim_suffix ''/'' (rr_StripPrefix rl)))"

definition parsePathOnly :: "string \<Rightarrow> string" where
  "parsePathOnly uri =
     (if has_prefix ''/'' uri then uri
      else (case cut_at ''://'' uri of
              Some (_, rest) \<Rightarrow> (case index_sub ''/'' rest of Some j \<Rightarrow> drop j rest | None \<Rightarrow> uri)
            | None \<Rightarrow> uri))"

text \<open>The rule is the one that \<open>withRouteRule\<close> put into the context of the request, if any.\<close>

definition buildResourceURL :: "bool \<Rightarrow> route_rule option \<Rightarrow> http_request \<Rightarrow> string" where
  "buildResourceURL tls rule r =
     (let forwardedHost = hget (rq_header r) ''X-Forwarded-Host'';
          host = (if forwardedHost \<noteq> [] then forwardedHost else rq_host r);
          forwardedURI = hget (rq_header r) ''X-Forwarded-Uri'';
          path0 = (if rq_rawQuery r \<noteq> [] then rq_path r @ ''?'' @ rq_rawQuery r else rq_path r);
          path1 = (if forwardedURI \<noteq> [] then forwardedURI else path0);
          path = (case rule of None \<Rightarrow> path1
            | Some rl \<Rightarrow>
                if rr_Hostname rl \<noteq> [] \<and> equal_fold (stripHostPort host) (stripHostPort (rr_Hostname rl)) then
                  (let rawPath = (if forwardedURI \<noteq> [] then parsePathOnly forwardedURI else rq_path r);
                       pub = publicPrefix rule host @ stripRoutePrefix (rr_StripPrefix rl) rawPath
                   in if rq_rawQuery r \<noteq> [] \<and> \<not> contains_sub ''?'' pub then pub @ ''?'' @ rq_rawQuery r else pub)
                else path1)
      in resolveScheme tls (rq_header r) host @ ''://'' @ host @ path)"

subsection \<open>Content negotiation\<close>

definition prefersHTML :: "string \<Rightarrow> bool" where
  "prefersHTML accept \<longleftrightarrow> accept \<noteq> [] \<and>
     list_ex (\<lambda>part. let mt = trim_space (hd (split_on CHR '';'' part)) in
        equal_fold mt ''text/html'' \<or> equal_fold mt ''application/xhtml+xml'')
       (split_on CHR '','' accept)"

text \<open>
  An error page for browsers, plain text otherwise.  \<open>page\<close> is the text of \<open>error_page.html\<close> for the
  status, title and detail, with the branding of the site at the URL.
\<close>

type_synonym error_page = "string \<Rightarrow> int \<Rightarrow> string \<Rightarrow> string \<Rightarrow> string"

definition writeErrorResponse ::
  "error_page \<Rightarrow> bool \<Rightarrow> http_request \<Rightarrow> int \<Rightarrow> string \<Rightarrow> string \<Rightarrow> resp_writer \<Rightarrow> resp_writer" where
  "writeErrorResponse page tls r status title detail w =
     (if \<not> accepts_html r then http_Error detail status w
      else snd (cw_Write (page (resolveSiteURL tls r) status title detail)
        (cw_WriteHeader status (set_header ''Content-Type'' ''text/html; charset=utf-8'' w))))"

subsection \<open>Query strings, redirects and cookies\<close>

text \<open>\<open>url.QueryUnescape\<close>; \<open>None\<close> is an error.\<close>

fun query_unescape :: "string \<Rightarrow> string option" where
  "query_unescape [] = Some []"
| "query_unescape (c # s) =
     (if c = CHR ''%'' then
        (case s of
           a # b # r \<Rightarrow>
             (case (hex_val a, hex_val b) of
                (Some x, Some y) \<Rightarrow> map_option (\<lambda>t. char_of (16 * x + y) # t) (query_unescape r)
              | _ \<Rightarrow> None)
         | _ \<Rightarrow> None)
      else map_option (\<lambda>t. (if c = CHR ''+'' then CHR '' '' else c) # t) (query_unescape s))"

definition query_pair :: "string \<Rightarrow> (string \<times> string) option" where
  "query_pair part =
     (if part = [] \<or> CHR '';'' \<in> set part then None
      else (let (k, v) = the_default (part, []) (cut_at ''='' part)
            in case (query_unescape k, query_unescape v) of (Some a, Some b) \<Rightarrow> Some (a, b) | _ \<Rightarrow> None))"

text \<open>\<open>r.URL.Query().Get(k)\<close>.\<close>

definition query_get :: "string \<Rightarrow> string \<Rightarrow> string" where
  "query_get k rawQuery = the_default [] (map_of (List.map_filter query_pair (split_on CHR ''&'' rawQuery)) k)"

text \<open>\<open>http.Redirect\<close> to a URL without scheme and host, with an absolute path.\<close>

definition redirect_target :: "string \<Rightarrow> string" where
  "redirect_target url =
     (let (p, q) = (case index_sub ''?'' url of Some i \<Rightarrow> (take i url, drop i url) | None \<Rightarrow> (url, []));
          c = path_Clean p;
          c' = (if has_suffix ''/'' p \<and> \<not> has_suffix ''/'' c then c @ ''/'' else c)
      in c' @ q)"

definition hexEscapeNonASCII :: "string \<Rightarrow> string" where
  "hexEscapeNonASCII s =
     concat (map (\<lambda>c. if byte c \<ge> 128 then [CHR ''%'', hex_digit (byte c div 16), hex_digit (byte c mod 16)] else [c]) s)"

definition add_header :: "string \<Rightarrow> string \<Rightarrow> resp_writer \<Rightarrow> resp_writer" where
  "add_header k v w = w\<lparr>cw_header := AList.update (to_lower k) (the_default [] (map_of (cw_header w) (to_lower k)) @ [v]) (cw_header w)\<rparr>"

end
