(* ===== verification/BodyPolicy.thy ===== *)
theory BodyPolicy imports RawText PublicUrls begin

text \<open>
  Body policies of the verifier, \<open>internal/x402/body_policy.go\<close>: what a request may carry to an upstream
  that runs on the seller's credentials.

  A body is decoded to its raw members (\<open>RawJson\<close>) and written again, so every key occurs once.
  \<open>entropy\<close> are the 16 bytes that \<open>crypto/rand\<close> returns (\<open>None\<close> when it fails).  Fields of the request that
  only steer \<open>net/http\<close> (\<open>ContentLength\<close>, \<open>TransferEncoding\<close>, \<open>ForceQuery\<close>) are left out.
\<close>

subsection \<open>Tables\<close>

definition BodyPolicyLiteLLM :: string where "BodyPolicyLiteLLM = ''litellm''"
definition BodyPolicyAgent :: string where "BodyPolicyAgent = ''agent''"

definition agentModelSelectionFields :: "string list" where
  "agentModelSelectionFields = [''model'', ''provider'', ''model_options'']"

definition multiCompletionFields :: "string list" where
  "multiCompletionFields = [''n'', ''best_of'']"

definition upstreamBodyLimit :: nat where "upstreamBodyLimit = 16777216"

definition liteLLMCommonFields :: "string list" where
  "liteLLMCommonFields = [''model'', ''user'']"

definition liteLLMSamplingFields :: "string list" where
  "liteLLMSamplingFields =
     [''frequency_penalty'', ''presence_penalty'', ''repetition_penalty'', ''logit_bias'', ''logprobs'', ''top_logprobs'',
      ''max_tokens'', ''max_completion_tokens'', ''seed'', ''stop'', ''stream'', ''stream_options'', ''temperature'',
      ''top_p'', ''top_k'', ''min_p'']"

definition liteLLMChatFields :: "string list" where
  "liteLLMChatFields =
     [''messages'', ''response_format'', ''tools'', ''tool_choice'', ''parallel_tool_calls'', ''functions'',
      ''function_call'', ''reasoning_effort'', ''modalities'', ''audio'', ''prediction'', ''web_search_options'', ''verbosity'']"

definition liteLLMCompletionFields :: "string list" where
  "liteLLMCompletionFields = [''prompt'', ''echo'', ''suffix'']"

definition liteLLMEmbeddingFields :: "string list" where
  "liteLLMEmbeddingFields = [''input'', ''encoding_format'', ''dimensions'']"

definition liteLLMAllowedFields :: "(string, string list) gomap" where
  "liteLLMAllowedFields =
     (let chat = liteLLMCommonFields @ liteLLMSamplingFields @ liteLLMChatFields;
          completions = liteLLMCommonFields @ liteLLMSamplingFields @ liteLLMCompletionFields;
          embeddings = liteLLMCommonFields @ liteLLMEmbeddingFields
      in [(''/v1/chat/completions'', chat), (''/chat/completions'', chat),
          (''/v1/completions'', completions), (''/completions'', completions),
          (''/v1/embeddings'', embeddings), (''/embeddings'', embeddings)])"

record policy_error =
  be_status :: int
  be_title :: string
  be_detail :: string

subsection \<open>Reading and writing the body\<close>

definition not_an_object :: policy_error where
  "not_an_object = \<lparr>be_status = 400, be_title = ''Invalid request body'', be_detail = ''Request body must be a JSON object.''\<rparr>"

definition readJSONObjectBody :: "http_request \<Rightarrow> policy_error + raw_doc" where
  "readJSONObjectBody r =
     (let ce = hget (rq_header r) ''Content-Encoding'' in
      if ce \<noteq> [] \<and> \<not> equal_fold ce ''identity'' then
        Inl \<lparr>be_status = 400, be_title = ''Unsupported request body'',
          be_detail = ''Compressed request bodies are not accepted; send plain JSON.''\<rparr>
      else if rq_body r = NilBody \<or> rq_body r = NoBody then Inl not_an_object
      else (case read_all (rq_body r) of
              None \<Rightarrow> Inl \<lparr>be_status = 400, be_title = ''Invalid request body'', be_detail = ''Could not read the request body.''\<rparr>
            | Some b \<Rightarrow>
                let body = take (upstreamBodyLimit + 1) b in
                if length body > upstreamBodyLimit then
                  Inl \<lparr>be_status = 413, be_title = ''Request too large'',
                    be_detail = ''Request body exceeds '' @ show_int (int upstreamBodyLimit) @ '' bytes.''\<rparr>
                else (case raw_document body of None \<Rightarrow> Inl not_an_object | Some doc \<Rightarrow> Inr doc)))"

definition setJSONBody :: "http_request \<Rightarrow> raw_doc \<Rightarrow> http_request" where
  "setJSONBody r doc =
     (let body = write_object False doc in
      r\<lparr>rq_body := Replayable body,
        rq_header := hset ''Content-Type'' ''application/json'' (hdel ''Content-Encoding''
          (hset ''Content-Length'' (show_int (int (length body))) (rq_header r)))\<rparr>)"

text \<open>\<open>for name := range r.Header\<close>: the names with the prefix are deleted.\<close>

definition drop_headers :: "string \<Rightarrow> header \<Rightarrow> header" where
  "drop_headers prefix h = filter (\<lambda>(name, vs). \<not> has_prefix prefix (to_lower name)) h"

subsection \<open>Agents\<close>

definition hex_encode :: "string \<Rightarrow> string" where
  "hex_encode s = concat (map (\<lambda>c. [hex_digit (byte c div 16), hex_digit (byte c mod 16)]) s)"

definition gateway_note :: "string \<Rightarrow> json" where
  "gateway_note nonce = JObj
     [(''content'', JStr (''Request id '' @ hex_encode nonce @
         '' (set by the payment gateway; not part of the conversation).'')),
      (''role'', JStr ''system'')]"

definition isolateAgentSession :: "string option \<Rightarrow> raw_doc \<Rightarrow> policy_error + raw_doc" where
  "isolateAgentSession entropy doc =
     (case map_of doc ''messages'' of
        None \<Rightarrow> Inr doc
      | Some raw \<Rightarrow>
          (case raw_array raw of
             None \<Rightarrow> Inr doc
           | Some messages \<Rightarrow>
               (case entropy of
                  None \<Rightarrow> Inl \<lparr>be_status = 500, be_title = ''Internal error'', be_detail = ''Could not isolate the request.''\<rparr>
                | Some nonce \<Rightarrow> Inr (AList.update ''messages'' (write_array (json_print (gateway_note nonce) # messages)) doc))))"

definition applyAgentBodyPolicy :: "string option \<Rightarrow> http_request \<Rightarrow> policy_error + http_request" where
  "applyAgentBodyPolicy entropy r0 =
     (let r = r0\<lparr>rq_header := hdel ''Idempotency-Key'' (drop_headers ''x-hermes-'' (rq_header r0))\<rparr> in
      if rq_method r \<noteq> ''POST'' then Inr r
      else (case readJSONObjectBody r of
              Inl e \<Rightarrow> Inl e
            | Inr doc \<Rightarrow>
                (case isolateAgentSession entropy
                    (fold AList.delete multiCompletionFields (fold AList.delete agentModelSelectionFields doc)) of
                   Inl e \<Rightarrow> Inl e
                 | Inr doc' \<Rightarrow> Inr (setJSONBody (r\<lparr>rq_rawQuery := []\<rparr>) doc'))))"

subsection \<open>LiteLLM\<close>

definition applyLiteLLMBodyPolicy :: "route_rule \<Rightarrow> http_request \<Rightarrow> policy_error + http_request" where
  "applyLiteLLMBodyPolicy rule r =
     (if rq_method r \<noteq> ''POST'' then
        Inl \<lparr>be_status = 405, be_title = ''Method not allowed'', be_detail = ''This endpoint only accepts POST with a JSON body.''\<rparr>
      else
        (let sub = trim_suffix ''/'' (normalizeChatCompletionsPath (rr_OfferType rule) (rq_method r)
                     (stripRoutePrefix (rr_StripPrefix rule) (rq_path r)))
         in case map_of liteLLMAllowedFields sub of
              None \<Rightarrow> Inl \<lparr>be_status = 404, be_title = ''No service here'',
                be_detail = ''This path is not part of any published service.''\<rparr>
            | Some allowed \<Rightarrow>
                (case readJSONObjectBody r of
                   Inl e \<Rightarrow> Inl e
                 | Inr doc \<Rightarrow>
                     (let doc' = AList.update ''model'' (json_quote (rr_Model rule)) (filter (\<lambda>(k, v). k \<in> set allowed) doc);
                          r' = setJSONBody r doc'
                      in Inr (r'\<lparr>rq_rawQuery := [], rq_header := drop_headers ''x-litellm-'' (rq_header r')\<rparr>)))))"

definition checkBodyPolicyConfig :: "route_rule \<Rightarrow> policy_error option" where
  "checkBodyPolicyConfig rule =
     (if rr_BodyPolicy rule = BodyPolicyLiteLLM \<and> trim_space (rr_Model rule) = [] then
        Some \<lparr>be_status = 503, be_title = ''Offer misconfigured'',
          be_detail = ''This LiteLLM-backed offer has no model configured, so it is not serving requests. '' @
            ''The seller must pin one: obol sell update '' @ rr_OfferName rule @ '' -n '' @ rr_OfferNamespace rule @
            '' --model <litellm-model>''\<rparr>
      else None)"

definition applyBodyPolicy :: "string option \<Rightarrow> route_rule \<Rightarrow> http_request \<Rightarrow> policy_error + http_request" where
  "applyBodyPolicy entropy rule r =
     (case checkBodyPolicyConfig rule of
        Some e \<Rightarrow> Inl e
      | None \<Rightarrow>
          if rr_BodyPolicy rule = BodyPolicyLiteLLM then applyLiteLLMBodyPolicy rule r
          else if rr_BodyPolicy rule = BodyPolicyAgent then applyAgentBodyPolicy entropy r
          else Inr r)"

definition writeBodyPolicyError :: "error_page \<Rightarrow> bool \<Rightarrow> http_request \<Rightarrow> policy_error \<Rightarrow> resp_writer \<Rightarrow> resp_writer" where
  "writeBodyPolicyError page tls r e w =
     (let w1 = (if be_status e = 405 then set_header ''Allow'' ''POST'' w else w)
      in writeErrorResponse page tls r (be_status e) (be_title e) (be_detail e) w1)"

end
