(* ===== verification/PinnedModel.thy ===== *)
theory PinnedModel imports BodyPolicy begin

text \<open>
  What a body policy guarantees about the request that reaches the upstream, in terms of the JSON values
  that the upstream parses.
\<close>

lemma readJSONObjectBody_ok:
  assumes "readJSONObjectBody r = Inr doc"
  obtains b where "read_all (rq_body r) = Some b" and "length b \<le> upstreamBodyLimit" and "raw_document b = Some doc"
proof -
  obtain b where b: "read_all (rq_body r) = Some b" "length (take (upstreamBodyLimit + 1) b) \<le> upstreamBodyLimit"
      "raw_document (take (upstreamBodyLimit + 1) b) = Some doc"
    using assms by (auto simp: readJSONObjectBody_def Let_def split: if_splits option.splits)
  then have "length b \<le> upstreamBodyLimit" by simp
  with b show thesis by (intro that [of b]) simp_all
qed

text \<open>The value that a member of a JSON object has for Go: its last one.\<close>

definition last_member :: "string \<Rightarrow> (string \<times> json) list \<Rightarrow> json option" where
  "last_member k kvs = map_of (rev kvs) k"

lemma raw_document_obj: "raw_document b = Some doc \<Longrightarrow> \<exists>kvs. json_parse b = Some (JObj kvs)"
  by (auto simp: raw_document_def split: option.splits json.splits)

lemma readJSONObjectBody_values:
  assumes "readJSONObjectBody r = Inr doc"
  obtains b kvs where "read_all (rq_body r) = Some b" and "json_parse b = Some (JObj kvs)" and "gomap doc"
    and "\<And>k. rel_option raw_of (map_of doc k) (last_member k kvs)"
proof -
  obtain b where b: "read_all (rq_body r) = Some b" "raw_document b = Some doc"
    using assms by (rule readJSONObjectBody_ok)
  obtain kvs where k: "json_parse b = Some (JObj kvs)" using raw_document_obj [OF b(2)] by blast
  obtain m where "raw_document b = Some m" "gomap m" "\<And>k. rel_option raw_of (map_of m k) (map_of (rev kvs) k)"
    using k by (rule raw_document_of) (rule that)
  then show thesis using that [OF b(1) k] b(2) by (simp add: last_member_def)
qed

lemma rel_raw_unique: "rel_option raw_of x y \<Longrightarrow> rel_option raw_of x z \<Longrightarrow> y = z"
  by (auto simp: option_rel_Some1 option_rel_Some2 dest: raw_of_unique elim!: option.rel_cases)

lemma raw_model: "raw_of (json_quote s) (JStr s)"
  using raw_print [of "JStr s"] by simp

lemma map_of_filter_keys: "map_of (filter (\<lambda>(k, v). k \<in> K) m) k = (if k \<in> K then map_of m k else None)"
  by (induction m) auto

text \<open>What an upstream gets after \<open>setJSONBody\<close>.\<close>

lemma setJSONBody_values:
  assumes "gomap doc" and "\<And>k. rel_option raw_of (map_of doc k) (want k)"
  shows "\<exists>b kvs. rq_body (setJSONBody r doc) = Replayable b \<and> json_parse b = Some (JObj kvs) \<and> distinct (map fst kvs) \<and>
    (\<forall>k. map_of kvs k = want k)"
proof -
  obtain kvs where "json_parse (write_object False doc) = Some (JObj kvs)" "distinct (map fst kvs)"
    "\<And>k. rel_option raw_of (map_of doc k) (map_of kvs k)"
    using write_object_values [OF raw_mapI [OF assms], of False] by blast
  then show ?thesis using rel_raw_unique [OF _ assms(2)] by (auto simp: setJSONBody_def Let_def)
qed

definition no_header_with :: "string \<Rightarrow> header \<Rightarrow> bool" where
  "no_header_with prefix h \<longleftrightarrow> list_all (\<lambda>(name, vs). \<not> has_prefix prefix (to_lower name)) h"

lemma no_header_drop [simp]: "no_header_with p (drop_headers p h)"
  by (auto simp: no_header_with_def drop_headers_def list_all_iff)

lemma no_header_hset: "no_header_with p h \<Longrightarrow> \<not> has_prefix p (to_lower (to_lower k)) \<Longrightarrow> no_header_with p (hset k v h)"
  unfolding no_header_with_def hset_def by (induction h) auto

lemma no_header_hdel: "no_header_with p h \<Longrightarrow> no_header_with p (hdel k h)"
  by (auto simp: no_header_with_def hdel_def list_all_iff AList.delete_eq)

lemma setJSONBody_header:
  "rq_header (setJSONBody r doc) = hset ''Content-Type'' ''application/json'' (hdel ''Content-Encoding''
     (hset ''Content-Length'' (show_int (int (length (write_object False doc)))) (rq_header r)))"
  by (simp add: setJSONBody_def Let_def)

text \<open>The keys that a LiteLLM path allows.\<close>

definition litellm_allowed :: "route_rule \<Rightarrow> http_request \<Rightarrow> string list" where
  "litellm_allowed rule r = the_default [] (map_of liteLLMAllowedFields
     (trim_suffix ''/'' (forwardedPath rule (rq_method r) (rq_path r))))"

lemma litellm_ok:
  assumes "applyBodyPolicy entropy rule r = Inr r'" and "rr_BodyPolicy rule = BodyPolicyLiteLLM"
  obtains doc where "readJSONObjectBody r = Inr doc" and "rq_method r = ''POST''" and "trim_space (rr_Model rule) \<noteq> []"
    and "r' = (setJSONBody r (AList.update ''model'' (json_quote (rr_Model rule)) (filter (\<lambda>(k, v). k \<in> set (litellm_allowed rule r)) doc)))
        \<lparr>rq_rawQuery := [], rq_header := drop_headers ''x-litellm-'' (rq_header (setJSONBody r
          (AList.update ''model'' (json_quote (rr_Model rule)) (filter (\<lambda>(k, v). k \<in> set (litellm_allowed rule r)) doc))))\<rparr>"
  using assms unfolding applyBodyPolicy_def applyLiteLLMBodyPolicy_def litellm_allowed_def forwardedPath_def checkBodyPolicyConfig_def
  by (auto simp: Let_def the_default_def split: if_splits option.splits sum.splits)

text \<open>C35: A request that passes the policy of a LiteLLM offer reaches the upstream as a POST whose body parses
  to an object with each key once: the model is the seller's, every other member is allowed on that path
  and has the value the buyer sent (the last one of a repeated key), and neither a query nor a LiteLLM
  header is left.\<close>

theorem litellm_model_pinned:
  assumes "applyBodyPolicy entropy rule r = Inr r'" and "rr_BodyPolicy rule = BodyPolicyLiteLLM"
  shows "\<exists>b0 kvs0 b kvs. read_all (rq_body r) = Some b0 \<and> json_parse b0 = Some (JObj kvs0) \<and>
    rq_body r' = Replayable b \<and> json_parse b = Some (JObj kvs) \<and> distinct (map fst kvs) \<and>
    (\<forall>k. map_of kvs k = (if k = ''model'' then Some (JStr (rr_Model rule))
       else if k \<in> set (litellm_allowed rule r) then last_member k kvs0 else None)) \<and>
    rq_rawQuery r' = [] \<and> no_header_with ''x-litellm-'' (rq_header r') \<and> rq_method r' = ''POST'' \<and> rq_path r' = rq_path r"
proof -
  let ?A = "set (litellm_allowed rule r)"
  obtain doc where doc: "readJSONObjectBody r = Inr doc" and post: "rq_method r = ''POST''" and r': "r' =
      (setJSONBody r (AList.update ''model'' (json_quote (rr_Model rule)) (filter (\<lambda>(k, v). k \<in> ?A) doc)))
        \<lparr>rq_rawQuery := [], rq_header := drop_headers ''x-litellm-'' (rq_header (setJSONBody r
          (AList.update ''model'' (json_quote (rr_Model rule)) (filter (\<lambda>(k, v). k \<in> ?A) doc))))\<rparr>"
    using assms by (rule litellm_ok)
  obtain b0 kvs0 where b0: "read_all (rq_body r) = Some b0" "json_parse b0 = Some (JObj kvs0)" "gomap doc"
    and v0: "\<And>k. rel_option raw_of (map_of doc k) (last_member k kvs0)"
    using doc by (rule readJSONObjectBody_values) (rule that)
  define m where "m = AList.update ''model'' (json_quote (rr_Model rule)) (filter (\<lambda>(k, v). k \<in> ?A) doc)"
  have mk: "map_of m k = (if k = ''model'' then Some (json_quote (rr_Model rule)) else if k \<in> ?A then map_of doc k else None)" for k
    by (simp add: m_def map_of_filter_keys)
  define want where "want k = (if k = ''model'' then Some (JStr (rr_Model rule))
       else if k \<in> ?A then last_member k kvs0 else None)" for k
  have rel: "rel_option raw_of (map_of m k) (want k)" for k
    using v0 [of k] raw_model by (simp add: mk want_def)
  have "gomap m" using b0(3) by (simp add: m_def)
  from setJSONBody_values [OF this rel, of r] obtain b kvs where b: "rq_body (setJSONBody r m) = Replayable b"
    "json_parse b = Some (JObj kvs)" "distinct (map fst kvs)" and k: "\<And>k. map_of kvs k = want k" by blast
  have "rq_body r' = Replayable b" using b(1) unfolding r' m_def by simp
  moreover have "rq_rawQuery r' = []" "no_header_with ''x-litellm-'' (rq_header r')" "rq_method r' = ''POST''" "rq_path r' = rq_path r"
    using post unfolding r' by (simp_all add: setJSONBody_def Let_def)
  ultimately show ?thesis using b0 b(2,3) k unfolding want_def by blast
qed

definition ex_llm_rule :: route_rule where
  "ex_llm_rule = empty_rule\<lparr>rr_BodyPolicy := ''litellm'', rr_Model := ''m'', rr_OfferType := ''inference''\<rparr>"

definition ex_quoted :: "string \<Rightarrow> string" where "ex_quoted s = CHR 0x22 # s @ [CHR 0x22]"

definition ex_llm_request :: http_request where
  "ex_llm_request = \<lparr>rq_method = ''POST'', rq_host = ''h'', rq_path = ''/v1/chat/completions'', rq_rawQuery = ''model=x'',
     rq_header = [], rq_body = Stream (Some (''{'' @ ex_quoted ''model'' @ '': '' @ ex_quoted ''x'' @ '', '' @ ex_quoted ''n'' @ '':2, '' @
       ex_quoted ''stop'' @ '': 1}''))\<rparr>"

lemma read_small:
  assumes "hget (rq_header r) ''Content-Encoding'' = []" and "rq_body r = Stream (Some b)" and "length b \<le> upstreamBodyLimit"
    and "raw_document b = Some doc"
  shows "readJSONObjectBody r = Inr doc"
  using assms by (simp add: readJSONObjectBody_def Let_def)

lemma ex_llm_read: "readJSONObjectBody ex_llm_request =
    Inr [(''model'', ex_quoted ''x''), (''n'', ''2''), (''stop'', ''1'')]"
proof (rule read_small)
  show "hget (rq_header ex_llm_request) ''Content-Encoding'' = []" by code_simp
  show "rq_body ex_llm_request = Stream (Some (''{'' @ ex_quoted ''model'' @ '': '' @ ex_quoted ''x'' @ '', '' @ ex_quoted ''n'' @ '':2, '' @
       ex_quoted ''stop'' @ '': 1}''))" by (simp add: ex_llm_request_def)
  show "length (''{'' @ ex_quoted ''model'' @ '': '' @ ex_quoted ''x'' @ '', '' @ ex_quoted ''n'' @ '':2, '' @ ex_quoted ''stop'' @ '': 1}'')
      \<le> upstreamBodyLimit" by (simp add: ex_quoted_def upstreamBodyLimit_def)
  show "raw_document (''{'' @ ex_quoted ''model'' @ '': '' @ ex_quoted ''x'' @ '', '' @ ex_quoted ''n'' @ '':2, '' @ ex_quoted ''stop'' @ '': 1}'') =
      Some [(''model'', ex_quoted ''x''), (''n'', ''2''), (''stop'', ''1'')]" by code_simp
qed

lemma ex_llm_path: "trim_suffix ''/'' (normalizeChatCompletionsPath ''inference'' ''POST'' (stripRoutePrefix [] ''/v1/chat/completions'')) = ''/v1/chat/completions''"
  by code_simp

lemma ex_llm_allowed: "map_of liteLLMAllowedFields ''/v1/chat/completions'' \<noteq> None"
  by code_simp

lemma ex_llm_passes: "\<exists>r'. applyBodyPolicy None ex_llm_rule ex_llm_request = Inr r'"
proof -
  have c: "checkBodyPolicyConfig ex_llm_rule = None" by code_simp
  have f: "rr_BodyPolicy ex_llm_rule = BodyPolicyLiteLLM" "rr_OfferType ex_llm_rule = ''inference''" "rr_StripPrefix ex_llm_rule = []"
    "rq_method ex_llm_request = ''POST''" "rq_path ex_llm_request = ''/v1/chat/completions''"
    by (simp_all add: ex_llm_rule_def ex_llm_request_def empty_rule_def BodyPolicyLiteLLM_def)
  show ?thesis
    unfolding applyBodyPolicy_def applyLiteLLMBodyPolicy_def c f ex_llm_path Let_def ex_llm_read
    using ex_llm_allowed by (auto split: option.splits)
qed

theorem litellm_model_pinned_witness:
  "\<exists>(r' :: http_request) b kvs. rq_body r' = Replayable b \<and> json_parse b = Some (JObj kvs) \<and> map_of kvs ''model'' = Some (JStr ''m'') \<and>
    map_of kvs ''n'' = None \<and> rq_rawQuery r' = []"
proof -
  obtain r' where r: "applyBodyPolicy None ex_llm_rule ex_llm_request = Inr r'"
    using ex_llm_passes by blast
  have p: "rr_BodyPolicy ex_llm_rule = BodyPolicyLiteLLM" by code_simp
  have n: "''n'' \<notin> set (litellm_allowed ex_llm_rule ex_llm_request)" by code_simp
  have m: "rr_Model ex_llm_rule = ''m''" by code_simp
  obtain b kvs kvs0 where b: "rq_body r' = Replayable b" "json_parse b = Some (JObj kvs)" "rq_rawQuery r' = []"
    and k: "\<And>k. map_of kvs k = (if k = ''model'' then Some (JStr (rr_Model ex_llm_rule))
       else if k \<in> set (litellm_allowed ex_llm_rule ex_llm_request) then last_member k kvs0 else None)"
    using litellm_model_pinned [OF r p] by blast
  have v: "map_of kvs ''model'' = Some (JStr ''m'')" "map_of kvs ''n'' = None" using k [of "''model''"] k [of "''n''"] n m by simp_all
  show ?thesis
    by (rule exI [of _ r'], rule exI [of _ b], rule exI [of _ kvs]) (simp only: b v simp_thms)
qed

subsection \<open>Agents\<close>

text \<open>The messages of an agent request: the gateway's note in front.\<close>

definition isolated_messages :: "string option \<Rightarrow> json option \<Rightarrow> json option" where
  "isolated_messages entropy m =
     (case m of Some (JArr ms) \<Rightarrow> Some (JArr (gateway_note (the_default [] entropy) # ms))
      | Some JNull \<Rightarrow> Some (JArr [gateway_note (the_default [] entropy)])
      | _ \<Rightarrow> m)"

lemma raw_array_none: "json_parse raw = Some v \<Longrightarrow> raw_array raw = None \<Longrightarrow> isolated_messages entropy (Some v) = Some v"
  by (cases v) (auto simp: raw_array_def isolated_messages_def)

lemma note_raw: "raw_of (json_print (gateway_note nonce)) (gateway_note nonce)"
  by (rule raw_print) (simp add: gateway_note_def)

lemma isolated_values:
  assumes "isolateAgentSession entropy doc = Inr doc'" and "gomap doc" and v: "\<And>k. rel_option raw_of (map_of doc k) (want k)"
  shows "gomap doc' \<and> (\<forall>k. rel_option raw_of (map_of doc' k)
    (if k = ''messages'' then isolated_messages entropy (want k) else want k))"
proof (cases "map_of doc ''messages''")
  case None
  then have "want ''messages'' = None" using v [of "''messages''"] by simp
  then show ?thesis using assms None by (auto simp: isolateAgentSession_def isolated_messages_def)
next
  case (Some raw)
  then obtain w where w: "want ''messages'' = Some w" "raw_of raw w" using v [of "''messages''"] by (auto simp: option_rel_Some1)
  show ?thesis
  proof (cases "raw_array raw")
    case None
    have "isolated_messages entropy (want ''messages'') = want ''messages''"
      using raw_array_none [OF raw_of_parse [OF w(2)] None] w(1) by simp
    moreover have "doc' = doc" using assms(1) Some None by (simp add: isolateAgentSession_def)
    ultimately show ?thesis using assms(2) v by simp
  next
    case (Some ts)
    obtain nonce where n: "entropy = Some nonce" and d: "doc' = AList.update ''messages'' (write_array (json_print (gateway_note nonce) # ts)) doc"
      using assms(1) Some \<open>map_of doc ''messages'' = Some raw\<close> by (auto simp: isolateAgentSession_def split: option.splits)
    have p: "json_parse raw = Some w" using w(2) by (rule raw_of_parse)
    obtain ms where ms: "list_all2 raw_of ts ms" "isolated_messages entropy (Some w) = Some (JArr (gateway_note nonce # ms))"
    proof (cases w)
      case JNull
      then show thesis using that [of "[]"] Some p n by (simp add: raw_array_def isolated_messages_def the_default_def)
    next
      case (JArr ms)
      then obtain ts' where "raw_array raw = Some ts'" "list_all2 raw_of ts' ms" using raw_array_of p by blast
      then show thesis using that [of ms] Some n JArr by (simp add: isolated_messages_def the_default_def)
    qed (use Some p in \<open>auto simp: raw_array_def\<close>)
    have "raw_of (write_array (json_print (gateway_note nonce) # ts)) (JArr (gateway_note nonce # ms))"
      by (rule write_array_parse) (use ms note_raw in simp)
    then show ?thesis using assms(2) v w ms unfolding d by simp
  qed
qed

lemma map_of_deletes: "map_of (fold AList.delete ks m) k = (if k \<in> set ks then None else map_of m k)"
  by (induction ks arbitrary: m) auto

lemma gomap_deletes: "gomap m \<Longrightarrow> gomap (fold AList.delete ks m)"
  by (induction ks arbitrary: m) auto

text \<open>C36: A POST that passes the policy of an agent offer reaches the agent without the members that select
  a model or multiply completions, without a query and without session headers, with the gateway's note
  (carrying 16 fresh random bytes) in front of the messages; every other member has the value the buyer sent.\<close>

theorem agent_request_isolated:
  assumes "applyBodyPolicy entropy rule r = Inr r'" and "rr_BodyPolicy rule = BodyPolicyAgent" and "rq_method r = ''POST''"
  shows "\<exists>b0 kvs0 b kvs. read_all (rq_body r) = Some b0 \<and> json_parse b0 = Some (JObj kvs0) \<and>
    rq_body r' = Replayable b \<and> json_parse b = Some (JObj kvs) \<and> distinct (map fst kvs) \<and>
    (\<forall>k. map_of kvs k = (if k \<in> set (agentModelSelectionFields @ multiCompletionFields) then None
       else if k = ''messages'' then isolated_messages entropy (last_member k kvs0) else last_member k kvs0)) \<and>
    rq_rawQuery r' = [] \<and> no_header_with ''x-hermes-'' (rq_header r') \<and> hget (rq_header r') ''Idempotency-Key'' = []"
proof -
  let ?r = "r\<lparr>rq_header := hdel ''Idempotency-Key'' (drop_headers ''x-hermes-'' (rq_header r))\<rparr>"
  let ?cut = "\<lambda>doc. fold AList.delete multiCompletionFields (fold AList.delete agentModelSelectionFields doc)"
  have ne: "BodyPolicyAgent \<noteq> BodyPolicyLiteLLM" by code_simp
  obtain doc doc' where doc: "readJSONObjectBody ?r = Inr doc" "isolateAgentSession entropy (?cut doc) = Inr doc'"
    and r': "r' = setJSONBody (?r\<lparr>rq_rawQuery := []\<rparr>) doc'"
    using assms ne by (auto simp: applyBodyPolicy_def checkBodyPolicyConfig_def applyAgentBodyPolicy_def Let_def split: sum.splits option.splits)
  obtain b0 kvs0 where b0: "read_all (rq_body ?r) = Some b0" "json_parse b0 = Some (JObj kvs0)" "gomap doc"
    and v0: "\<And>k. rel_option raw_of (map_of doc k) (last_member k kvs0)"
    using doc(1) by (rule readJSONObjectBody_values) (rule that)
  let ?B = "set (agentModelSelectionFields @ multiCompletionFields)"
  define want where "want k = (if k \<in> ?B then None else last_member k kvs0)" for k
  have "rel_option raw_of (map_of (?cut doc) k) (want k)" for k
    using v0 [of k] by (simp add: map_of_deletes want_def)
  then have d: "gomap doc'" "\<And>k. rel_option raw_of (map_of doc' k) (if k = ''messages'' then isolated_messages entropy (want k) else want k)"
    using isolated_values [OF doc(2)] b0(3) gomap_deletes by blast+
  from setJSONBody_values [OF d, of "?r\<lparr>rq_rawQuery := []\<rparr>"] obtain b kvs
    where b: "rq_body (setJSONBody (?r\<lparr>rq_rawQuery := []\<rparr>) doc') = Replayable b" "json_parse b = Some (JObj kvs)"
      "distinct (map fst kvs)" and kv: "\<And>k. map_of kvs k = (if k = ''messages'' then isolated_messages entropy (want k) else want k)" by blast
  have m: "''messages'' \<notin> ?B" by code_simp
  have k: "map_of kvs k = (if k \<in> ?B then None else if k = ''messages'' then isolated_messages entropy (last_member k kvs0) else last_member k kvs0)" for k
    using kv [of k] m by (auto simp: want_def)
  have f: "\<not> equal_fold ''Idempotency-Key'' ''Content-Type''" "\<not> equal_fold ''Idempotency-Key'' ''Content-Encoding''"
      "\<not> equal_fold ''Idempotency-Key'' ''Content-Length''" by code_simp+
  have x: "\<not> has_prefix ''x-hermes-'' (to_lower (to_lower ''Content-Type''))"
      "\<not> has_prefix ''x-hermes-'' (to_lower (to_lower ''Content-Length''))" by code_simp+
  have "no_header_with ''x-hermes-'' (rq_header r')"
    unfolding r' setJSONBody_header
    by (intro no_header_hset no_header_hdel x) (simp add: no_header_hdel)
  then have h: "no_header_with ''x-hermes-'' (rq_header r') \<and> hget (rq_header r') ''Idempotency-Key'' = []"
    unfolding r' setJSONBody_header using f equal_fold_refl [of "''Idempotency-Key''"] by simp
  have "rq_body r' = Replayable b" "rq_rawQuery r' = []" using b(1) unfolding r' by (simp_all add: setJSONBody_def Let_def)
  then show ?thesis using b0 b(2,3) k h by auto
qed

definition ex_agent_rule :: route_rule where
  "ex_agent_rule = empty_rule\<lparr>rr_BodyPolicy := ''agent'', rr_OfferType := ''agent''\<rparr>"

definition ex_agent_request :: http_request where
  "ex_agent_request = ex_llm_request\<lparr>rq_body := Stream (Some (''{'' @ ex_quoted ''model'' @ '':1,'' @ ex_quoted ''messages'' @ '':[2]}''))\<rparr>"

lemma ex_agent_parse: "json_parse (''{'' @ ex_quoted ''model'' @ '':1,'' @ ex_quoted ''messages'' @ '':[2]}'') =
    Some (JObj [(''model'', JNum ''1''), (''messages'', JArr [JNum ''2''])])"
  by code_simp

lemma ex_agent_passes: "\<exists>r'. applyBodyPolicy (Some ''k'') ex_agent_rule ex_agent_request = Inr r'"
proof -
  let ?r = "ex_agent_request\<lparr>rq_header := hdel ''Idempotency-Key'' (drop_headers ''x-hermes-'' (rq_header ex_agent_request))\<rparr>"
  let ?b = "''{'' @ ex_quoted ''model'' @ '':1,'' @ ex_quoted ''messages'' @ '':[2]}''"
  have read: "readJSONObjectBody ?r = Inr [(''model'', ''1''), (''messages'', ''[2]'')]"
  proof (rule read_small)
    show "hget (rq_header ?r) ''Content-Encoding'' = []" by code_simp
    show "rq_body ?r = Stream (Some ?b)" by (simp add: ex_agent_request_def)
    show "length ?b \<le> upstreamBodyLimit" by (simp add: ex_quoted_def upstreamBodyLimit_def)
    show "raw_document ?b = Some [(''model'', ''1''), (''messages'', ''[2]'')]" by code_simp
  qed
  have c: "checkBodyPolicyConfig ex_agent_rule = None" "rr_BodyPolicy ex_agent_rule = BodyPolicyAgent" "BodyPolicyAgent \<noteq> BodyPolicyLiteLLM"
    "rq_method ex_agent_request = ''POST''" by code_simp+
  have i: "isolateAgentSession (Some ''k'') (fold AList.delete multiCompletionFields (fold AList.delete agentModelSelectionFields
      [(''model'', ''1''), (''messages'', ''[2]'')])) \<noteq> Inl e" for e
    by (simp add: isolateAgentSession_def split: option.splits)
  show ?thesis
    using c i unfolding applyBodyPolicy_def applyAgentBodyPolicy_def
    by (auto simp: Let_def read split: sum.splits)
qed

theorem agent_request_isolated_witness:
  "\<exists>(r' :: http_request) b kvs. rq_body r' = Replayable b \<and> json_parse b = Some (JObj kvs) \<and> map_of kvs ''model'' = None \<and>
    map_of kvs ''messages'' = Some (JArr [gateway_note ''k'', JNum ''2'']) \<and> rq_rawQuery r' = []"
proof -
  obtain r' where r: "applyBodyPolicy (Some ''k'') ex_agent_rule ex_agent_request = Inr r'" using ex_agent_passes by blast
  have p: "rr_BodyPolicy ex_agent_rule = BodyPolicyAgent" "rq_method ex_agent_request = ''POST''" by code_simp+
  obtain b0 kvs0 b kvs where b0: "read_all (rq_body ex_agent_request) = Some b0" "json_parse b0 = Some (JObj kvs0)"
    and b: "rq_body r' = Replayable b" "json_parse b = Some (JObj kvs)" "rq_rawQuery r' = []"
    and k: "\<And>k. map_of kvs k = (if k \<in> set (agentModelSelectionFields @ multiCompletionFields) then None
       else if k = ''messages'' then isolated_messages (Some ''k'') (last_member k kvs0) else last_member k kvs0)"
    using agent_request_isolated [OF r p] by blast
  have "kvs0 = [(''model'', JNum ''1''), (''messages'', JArr [JNum ''2''])]"
    using b0 ex_agent_parse by (simp add: ex_agent_request_def)
  then have m: "isolated_messages (Some ''k'') (last_member ''messages'' kvs0) = Some (JArr [gateway_note ''k'', JNum ''2''])"
    by (simp add: isolated_messages_def last_member_def the_default_def)
  have f: "''model'' \<in> set (agentModelSelectionFields @ multiCompletionFields)"
      "''messages'' \<notin> set (agentModelSelectionFields @ multiCompletionFields)" by code_simp+
  have v: "map_of kvs ''model'' = None" "map_of kvs ''messages'' = Some (JArr [gateway_note ''k'', JNum ''2''])"
    using k [of "''model''"] k [of "''messages''"] f m by simp_all
  show ?thesis
    by (rule exI [of _ r'], rule exI [of _ b], rule exI [of _ kvs]) (simp only: b v simp_thms)
qed

end
