(* ===== verification/Bazaar.thy ===== *)
theory Bazaar imports Challenge begin

text \<open>
  The extensions that a 402 advertises: the discovery extension of \<open>internal/x402/bazaar.go\<close> and the gasless
  approval of \<open>chains.go\<close>.  A value is an \<open>info\<close> and a JSON schema for it.

  Indexers validate the info against the schema before they list an offer.  \<open>conforms\<close> is that
  validation for the keywords the schemas use, after the JSON Schema specification (draft 2020-12).
\<close>

subsection \<open>Values\<close>

definition gtype :: "string \<Rightarrow> (string \<times> goany) list \<Rightarrow> goany" where
  "gtype t kvs = GMap ((''type'', GStr t) # kvs)"

definition chatCompletionsBodySchema :: goany where
  "chatCompletionsBodySchema = gtype ''object''
     [(''required'', GArr [GStr ''model'', GStr ''messages'']), (''additionalProperties'', GBool True),
      (''properties'', GMap
        [(''model'', gtype ''string''
            [(''description'', GStr ''Model identifier advertised in the 402 accepts[].extra or /api/services.json.'')]),
         (''messages'', gtype ''array'' [(''items'', gtype ''object''
            [(''required'', GArr [GStr ''role'', GStr ''content'']),
             (''properties'', GMap
               [(''role'', gtype ''string''
                   [(''enum'', GArr [GStr ''system'', GStr ''user'', GStr ''assistant'', GStr ''tool''])]),
                (''content'', GMap [(''oneOf'', GArr [gtype ''string'' [], gtype ''array'' [], gtype ''null'' []])])]),
             (''additionalProperties'', GBool True)])]),
         (''stream'', gtype ''boolean'' []),
         (''max_tokens'', gtype ''integer'' [(''minimum'', GInt 1)]),
         (''temperature'', gtype ''number'' [(''minimum'', GInt 0), (''maximum'', GInt 2)])])]"

definition bazaarBodySchema :: "goany \<Rightarrow> goany" where
  "bazaarBodySchema body = GMap
     [(''$schema'', GStr ''https://json-schema.org/draft/2020-12/schema''), (''type'', GStr ''object''),
      (''properties'', GMap
        [(''input'', gtype ''object''
            [(''properties'', GMap
               [(''type'', gtype ''string'' [(''const'', GStr ''http'')]),
                (''method'', gtype ''string'' [(''enum'', GArr [GStr ''POST'', GStr ''PUT'', GStr ''PATCH''])]),
                (''bodyType'', gtype ''string'' [(''enum'', GArr [GStr ''json'', GStr ''form-data'', GStr ''text''])]),
                (''body'', body),
                (''queryParams'', gtype ''object'' [(''additionalProperties'', gtype ''string'' [])]),
                (''headers'', gtype ''object'' [(''additionalProperties'', gtype ''string'' [])])]),
             (''required'', GArr [GStr ''type'', GStr ''method'', GStr ''bodyType'', GStr ''body'']),
             (''additionalProperties'', GBool False)]),
         (''output'', gtype ''object''
            [(''properties'', GMap [(''type'', gtype ''string'' []), (''example'', gtype ''object'' [])]),
             (''required'', GArr [GStr ''type''])])]),
      (''required'', GArr [GStr ''input''])]"

definition bazaar_info :: "goany \<Rightarrow> goany \<Rightarrow> goany" where
  "bazaar_info body example = GMap
     [(''input'', GMap [(''type'', GStr ''http''), (''method'', GStr ''POST''), (''bodyType'', GStr ''json''), (''body'', body)]),
      (''output'', GMap [(''type'', GStr ''json''), (''example'', example)])]"

definition bazaarChatCompletions :: "string \<Rightarrow> goany" where
  "bazaarChatCompletions model0 =
     (let model = (if model0 = [] then ''your-model-id'' else model0) in GMap
       [(''info'', bazaar_info
           (GMap [(''model'', GStr model),
                  (''messages'', GArr [GMap [(''role'', GStr ''user''), (''content'', GStr ''Hello'')]])])
           (GMap [(''id'', GStr ''chatcmpl-example''), (''object'', GStr ''chat.completion''), (''model'', GStr model),
                  (''choices'', GArr [GMap
                     [(''index'', GInt 0),
                      (''message'', GMap [(''role'', GStr ''assistant''), (''content'', GStr ''Hello! How can I help you today?'')]),
                      (''finish_reason'', GStr ''stop'')]])])),
        (''schema'', bazaarBodySchema chatCompletionsBodySchema)])"

definition bazaarGenericJSON :: goany where
  "bazaarGenericJSON = GMap
     [(''info'', bazaar_info (GMap []) (GMap [])),
      (''schema'', bazaarBodySchema (gtype ''object''
         [(''additionalProperties'', GBool True),
          (''description'', GStr (''Operator-defined JSON payload. Probe the upstream '' @
             ''or consult the operator'' @ [CHR 0x27] @ ''s /openapi.json for the concrete shape.''))]))]"

definition normalizeOfferType :: "string \<Rightarrow> string" where
  "normalizeOfferType t = (if t = ''inference'' then ''inference'' else if t = ''agent'' then ''agent'' else ''http'')"

definition BuildBazaarExtension :: "string \<Rightarrow> string \<Rightarrow> goany" where
  "BuildBazaarExtension offerType model =
     (let t = normalizeOfferType offerType in
      if t = ''inference'' then bazaarChatCompletions model
      else if t = ''agent'' then bazaarChatCompletions []
      else bazaarGenericJSON)"

definition WithBazaar :: "(string, goany) gomap option \<Rightarrow> string \<Rightarrow> string \<Rightarrow> (string, goany) gomap" where
  "WithBazaar extensions offerType model =
     AList.update ''bazaar'' (BuildBazaarExtension offerType model) (the_default [] extensions)"

definition hexAddress :: "string \<Rightarrow> goany" where
  "hexAddress desc = gtype ''string'' [(''pattern'', GStr ''^0x[a-fA-F0-9]{40}$''), (''description'', GStr desc)]"

definition uintString :: "string \<Rightarrow> goany" where
  "uintString desc = gtype ''string'' [(''pattern'', GStr ''^[0-9]+$''), (''description'', GStr desc)]"

definition eip2612GasSponsoringAdvertisement :: goany where
  "eip2612GasSponsoringAdvertisement = GMap
     [(''info'', GMap
        [(''description'', GStr (''The facilitator accepts an EIP-2612 gasless Permit to the canonical Permit2 contract '' @
            ''and submits it on-chain on the payer'' @ [CHR 0x27] @ ''s behalf.'')),
         (''version'', GStr ''1'')]),
      (''schema'', GMap
        [(''$schema'', GStr ''https://json-schema.org/draft/2020-12/schema''), (''type'', GStr ''object''),
         (''properties'', GMap
           [(''from'', hexAddress ''The address of the sender.''),
            (''asset'', hexAddress ''The address of the ERC-20 token contract.''),
            (''spender'', hexAddress ''The address of the spender (canonical Permit2).''),
            (''amount'', uintString ''The amount to approve (uint256). Typically MaxUint.''),
            (''nonce'', uintString ''The current EIP-2612 nonce of the sender.''),
            (''deadline'', uintString ''The timestamp at which the signature expires.''),
            (''signature'', gtype ''string''
               [(''pattern'', GStr ''^0x[a-fA-F0-9]+$''),
                (''description'', GStr ''The 65-byte concatenated signature (r, s, v) as a hex string.'')]),
            (''version'', gtype ''string''
               [(''pattern'', GStr (''^[0-9]+('' @ [CHR 0x5C] @ ''.[0-9]+)*$'')), (''description'', GStr ''Schema version identifier.'')])]),
         (''required'', GArr [GStr ''from'', GStr ''asset'', GStr ''spender'', GStr ''amount'', GStr ''nonce'',
            GStr ''deadline'', GStr ''signature'', GStr ''version''])])]"

definition BuildExtensionsForAsset :: "asset_info \<Rightarrow> (string, goany) gomap option" where
  "BuildExtensionsForAsset asset =
     (if \<not> ai_EIP2612GasSponsoring asset then None
      else Some [(''eip2612GasSponsoring'', eip2612GasSponsoringAdvertisement)])"

subsection \<open>Validation\<close>

fun has_type :: "string \<Rightarrow> goany \<Rightarrow> bool" where
  "has_type t (GMap _) \<longleftrightarrow> t = ''object''"
| "has_type t (GArr _) \<longleftrightarrow> t = ''array''"
| "has_type t (GStr _) \<longleftrightarrow> t = ''string''"
| "has_type t (GBool _) \<longleftrightarrow> t = ''boolean''"
| "has_type t (GInt _) \<longleftrightarrow> t = ''integer'' \<or> t = ''number''"
| "has_type t GNil \<longleftrightarrow> t = ''null''"
| "has_type t _ \<longleftrightarrow> t = ''number''"

fun required_in :: "goany list \<Rightarrow> goany \<Rightarrow> bool" where
  "required_in names (GMap kvs) = list_all (\<lambda>n. case n of GStr k \<Rightarrow> map_of kvs k \<noteq> None | _ \<Rightarrow> False) names"
| "required_in names _ = True"

text \<open>One keyword of a schema; \<open>props\<close> and \<open>extra\<close> belong to the same schema, \<open>n\<close> bounds the depth.\<close>

fun conforms :: "nat \<Rightarrow> goany \<Rightarrow> goany \<Rightarrow> bool" where
  "conforms 0 schema v = False"
| "conforms (Suc n) (GBool b) v = b"
| "conforms (Suc n) (GMap s) v \<longleftrightarrow>
     (case map_of s ''type'' of Some (GStr t) \<Rightarrow> has_type t v | _ \<Rightarrow> True) \<and>
     (case map_of s ''const'' of Some c \<Rightarrow> v = c | None \<Rightarrow> True) \<and>
     (case map_of s ''enum'' of Some (GArr vs) \<Rightarrow> v \<in> set vs | _ \<Rightarrow> True) \<and>
     (case map_of s ''required'' of Some (GArr names) \<Rightarrow> required_in names v | _ \<Rightarrow> True) \<and>
     (case map_of s ''minimum'' of Some (GInt m) \<Rightarrow> (case v of GInt i \<Rightarrow> m \<le> i | _ \<Rightarrow> True) | _ \<Rightarrow> True) \<and>
     (case map_of s ''maximum'' of Some (GInt m) \<Rightarrow> (case v of GInt i \<Rightarrow> i \<le> m | _ \<Rightarrow> True) | _ \<Rightarrow> True) \<and>
     (case map_of s ''oneOf'' of Some (GArr alts) \<Rightarrow> length (filter (\<lambda>a. conforms n a v) alts) = 1 | _ \<Rightarrow> True) \<and>
     (case v of
        GArr vs \<Rightarrow> (case map_of s ''items'' of Some i \<Rightarrow> list_all (conforms n i) vs | None \<Rightarrow> True)
      | GMap kvs \<Rightarrow>
          (let props = (case map_of s ''properties'' of Some (GMap ps) \<Rightarrow> ps | _ \<Rightarrow> [])
           in list_all (\<lambda>(k, x). case map_of props k of
                Some p \<Rightarrow> conforms n p x
              | None \<Rightarrow> (case map_of s ''additionalProperties'' of Some a \<Rightarrow> conforms n a x | None \<Rightarrow> True)) kvs)
      | _ \<Rightarrow> True)"
| "conforms (Suc n) _ v = False"

definition self_describing :: "goany \<Rightarrow> bool" where
  "self_describing ext =
     (case ext of
        GMap kvs \<Rightarrow> (case (map_of kvs ''info'', map_of kvs ''schema'') of
            (Some info, Some schema) \<Rightarrow> conforms 8 schema info | _ \<Rightarrow> False)
      | _ \<Rightarrow> False)"

lemma eight: "(8::nat) = Suc (Suc (Suc (Suc (Suc (Suc (Suc (Suc 0)))))))"
  by simp

lemmas conforms_eval =
  eight bazaarBodySchema_def bazaar_info_def gtype_def chatCompletionsBodySchema_def

lemma chat_self_describing: "self_describing (bazaarChatCompletions model)"
  by (simp add: self_describing_def bazaarChatCompletions_def Let_def conforms_eval)

lemma generic_self_describing: "self_describing bazaarGenericJSON"
  by (simp add: self_describing_def bazaarGenericJSON_def conforms_eval)

text \<open>Whatever the type and the model of an offer, the discovery extension that its 402 advertises is one
  that an indexer accepts: its example invocation validates against its own schema.\<close>

theorem bazaar_self_describing:
  "\<exists>ext. map_of (WithBazaar extensions offerType model) ''bazaar'' = Some ext \<and> self_describing ext"
  by (simp add: WithBazaar_def BuildBazaarExtension_def Let_def chat_self_describing generic_self_describing)

end
