(* ===== verification/PaymentPage.thy ===== *)
theory PaymentPage imports Bazaar PublicUrls SignIn begin

text \<open>
  The answer that asks for payment, \<open>internal/x402/paymentrequired.go\<close>, with the amounts, links and names it
  shows (\<open>buildPaymentDisplay\<close> and its helpers in \<open>verifier.go\<close>, \<open>facilitatorURLSafeToDisclose\<close> in
  \<open>forwardauth.go\<close>).

  \<open>page_funs\<close> holds the HTML text for the values that the template reads (\<open>None\<close> when the template fails),
  the JSON text of the body, the host name of a URL (\<open>url.Parse\<close>), and whether a host is an IP address and,
  if so, a special one (loopback, private, link local, unspecified).
\<close>

subsection \<open>Amounts\<close>

text \<open>\<open>SetString(s, 10)\<close> of \<open>big.Int\<close>.\<close>

definition big_of_string :: "string \<Rightarrow> int option" where
  "big_of_string s =
     (case s of
        [] \<Rightarrow> None
      | c # cs \<Rightarrow>
          if c = CHR ''-'' then (if cs = [] then None else map_option uminus (digits_val 0 cs))
          else if c = CHR ''+'' then (if cs = [] then None else digits_val 0 cs)
          else digits_val 0 s)"

definition formatAmount :: "string \<Rightarrow> int \<Rightarrow> string \<Rightarrow> string" where
  "formatAmount atomic decimals symbol =
     (if atomic = [] then []
      else (case big_of_string atomic of
              None \<Rightarrow> if symbol \<noteq> [] then atomic @ '' '' @ symbol @ '' (atomic)'' else atomic @ '' (atomic)''
            | Some amount \<Rightarrow>
                if decimals \<le> 0 then (if symbol \<noteq> [] then show_int amount @ '' '' @ symbol else show_int amount)
                else
                  (let p = 10 ^ nat decimals;
                       whole = (if amount < 0 then - ((- amount) div p) else amount div p);
                       frac = amount mod p;
                       fracStr = trim_right_char CHR ''0'' (zero_pad (nat decimals) frac);
                       num = (if fracStr \<noteq> [] then show_int whole @ ''.'' @ fracStr else show_int whole)
                   in if symbol \<noteq> [] then num @ '' '' @ symbol else num)))"

definition FormatPriceDisplay :: "string \<Rightarrow> int \<Rightarrow> string \<Rightarrow> string" where
  "FormatPriceDisplay atomic decimals symbol =
     (let formatted = formatAmount atomic decimals symbol in if formatted = [] then [] else formatted @ '' per request'')"

subsection \<open>Names and links\<close>

definition explorerAddressURL :: "string \<Rightarrow> string \<Rightarrow> string" where
  "explorerAddressURL network addr =
     (if \<not> has_prefix ''0x'' addr \<or> length addr < 10 then []
      else (case map_of
          [(''base'', ''https://basescan.org''), (''base-sepolia'', ''https://sepolia.basescan.org''),
           (''ethereum'', ''https://etherscan.io''), (''mainnet'', ''https://etherscan.io''),
           (''polygon'', ''https://polygonscan.com''), (''polygon-amoy'', ''https://amoy.polygonscan.com''),
           (''avalanche'', ''https://snowtrace.io''), (''avalanche-fuji'', ''https://testnet.snowtrace.io''),
           (''arbitrum'', ''https://arbiscan.io''), (''arbitrum-sepolia'', ''https://sepolia.arbiscan.io'')] network of
         None \<Rightarrow> []
       | Some base \<Rightarrow> base @ ''/address/'' @ addr))"

definition title_word :: "string \<Rightarrow> string" where
  "title_word p = (if p = [] then p else to_upper (take 1 p) @ drop 1 p)"

definition humanizeNetwork :: "string \<Rightarrow> string" where
  "humanizeNetwork name =
     (case map_of
        [(''base'', ''Base''), (''base-sepolia'', ''Base Sepolia''), (''ethereum'', ''Ethereum''), (''mainnet'', ''Ethereum''),
         (''polygon'', ''Polygon''), (''polygon-amoy'', ''Polygon Amoy''), (''avalanche'', ''Avalanche''),
         (''avalanche-fuji'', ''Avalanche Fuji''), (''arbitrum'', ''Arbitrum One''), (''arbitrum-sepolia'', ''Arbitrum Sepolia'')] name of
        Some label \<Rightarrow> label
      | None \<Rightarrow> join_with '' '' (map title_word (split_on CHR ''-'' name)))"

definition truncateAddress :: "string \<Rightarrow> string" where
  "truncateAddress addr =
     (if \<not> has_prefix ''0x'' addr \<or> length addr < 10 then addr
      else take 6 addr @ [CHR 0xE2, CHR 0x80, CHR 0xA6] @ drop (length addr - 4) addr)"

definition display_token_char :: "char \<Rightarrow> bool" where
  "display_token_char c \<longleftrightarrow> is_digit c \<or> (65 \<le> byte c \<and> byte c \<le> 90) \<or> (97 \<le> byte c \<and> byte c \<le> 122) \<or>
     c \<in> {CHR ''.'', CHR ''_'', CHR '':'', CHR ''/'', CHR ''-''}"

definition sanitizeDisplayToken :: "string \<Rightarrow> string \<Rightarrow> string" where
  "sanitizeDisplayToken s placeholder =
     (let t = trim_space s in if t = [] \<or> \<not> list_all display_token_char t then placeholder else t)"

subsection \<open>What the page shows\<close>

record payment_display =
  pd_Endpoint :: string
  pd_Network :: string
  pd_NetworkLabel :: string
  pd_AssetSymbol :: string
  pd_AssetAddress :: string
  pd_PriceDisplay :: string
  pd_PriceUnits :: string
  pd_PriceAtomic :: string
  pd_PayToFull :: string
  pd_ExplorerURL :: string
  pd_OfferType :: string
  pd_OfferName :: string
  pd_OfferDescription :: string
  pd_AgentModel :: string
  pd_Model :: string
  pd_AgentSkills :: "string list"

definition buildPaymentDisplay :: "route_rule \<Rightarrow> chain_info \<Rightarrow> asset_info \<Rightarrow> string \<Rightarrow> string \<Rightarrow> payment_display" where
  "buildPaymentDisplay rule chain asset payTo atomicAmount =
     \<lparr>pd_Endpoint = rr_Pattern rule, pd_Network = ci_Name chain, pd_NetworkLabel = humanizeNetwork (ci_Name chain),
      pd_AssetSymbol = ai_Symbol asset, pd_AssetAddress = ai_Address asset,
      pd_PriceDisplay = FormatPriceDisplay atomicAmount (ai_Decimals asset) (ai_Symbol asset),
      pd_PriceUnits = formatAmount atomicAmount (ai_Decimals asset) [], pd_PriceAtomic = atomicAmount,
      pd_PayToFull = payTo, pd_ExplorerURL = explorerAddressURL (ci_Name chain) payTo,
      pd_OfferType = rr_OfferType rule, pd_OfferName = rr_OfferName rule, pd_OfferDescription = rr_Description rule,
      pd_AgentModel = rr_AgentModel rule, pd_Model = rr_Model rule, pd_AgentSkills = rr_AgentSkills rule\<rparr>"

definition buildMetaDescription :: "payment_display \<Rightarrow> string" where
  "buildMetaDescription d =
     (if pd_OfferDescription d \<noteq> [] then pd_OfferDescription d
      else if pd_PriceDisplay d \<noteq> [] \<and> pd_NetworkLabel d \<noteq> [] then
        ''Unlock this Obol Agent service. Pay '' @ pd_PriceDisplay d @ '' on '' @ pd_NetworkLabel d @ '', settled via x402.''
      else ''Unlock this Obol Agent service. Pay per call in USDC or OBOL, settled via x402.'')"

text \<open>The values of the template; the copy for the type of the offer is a function of the display.\<close>

record page_values =
  pv_Description :: string
  pv_PageURL :: string
  pv_StorefrontURL :: string
  pv_Endpoint :: string
  pv_NetworkLabel :: string
  pv_PriceDisplay :: string
  pv_PayToDisplay :: string
  pv_PayToFull :: string
  pv_Display :: payment_display
  pv_Body :: "payment_required \<times> string option"

record page_funs =
  pf_page :: "page_values \<Rightarrow> string option"
  pf_marshal :: "payment_required \<times> string option \<Rightarrow> string"
  pf_hostname :: "string \<Rightarrow> string option"
  pf_special_ip :: "string \<Rightarrow> bool option"

definition facilitatorURLSafeToDisclose :: "page_funs \<Rightarrow> string \<Rightarrow> bool" where
  "facilitatorURLSafeToDisclose pf rawURL =
     (case pf_hostname pf rawURL of None \<Rightarrow> False
      | Some host \<Rightarrow>
          host \<noteq> [] \<and> \<not> (host = ''localhost'' \<or> has_suffix ''.local'' host \<or> has_suffix ''.internal'' host) \<and>
          pf_special_ip pf host \<noteq> Some True)"

definition body402 ::
  "page_funs \<Rightarrow> bool \<Rightarrow> route_rule option \<Rightarrow> http_request \<Rightarrow> string \<Rightarrow> payment_requirements list \<Rightarrow>
   (string, goany) gomap option \<Rightarrow> payment_failure option \<Rightarrow> payment_required \<times> string option" where
  "body402 pf tls rule r facilitator requirements extensions failure =
     paymentRequiredBody (facilitatorURLSafeToDisclose pf) facilitator (buildResourceURL tls rule r) (rq_path r)
       failure requirements extensions"

definition page_values_of ::
  "bool \<Rightarrow> route_rule option \<Rightarrow> http_request \<Rightarrow> payment_display \<Rightarrow> payment_requirements list \<Rightarrow>
   payment_required \<times> string option \<Rightarrow> page_values" where
  "page_values_of tls rule r d requirements body =
     (let payToFull = (if pd_PayToFull d = [] \<and> requirements \<noteq> [] then pr_payTo (hd requirements) else pd_PayToFull d)
      in \<lparr>pv_Description = buildMetaDescription d, pv_PageURL = buildResourceURL tls rule r,
          pv_StorefrontURL = resolveSiteURL tls r,
          pv_Endpoint = (if pd_Endpoint d = [] then rq_path r else pd_Endpoint d),
          pv_NetworkLabel = (if pd_NetworkLabel d = [] then pd_Network d else pd_NetworkLabel d),
          pv_PriceDisplay = (if pd_PriceDisplay d = [] \<and> requirements \<noteq> []
             then formatAmount (pr_amount (hd requirements)) 0 [] @ '' (atomic units)'' else pd_PriceDisplay d),
          pv_PayToDisplay = truncateAddress payToFull, pv_PayToFull = payToFull, pv_Display = d, pv_Body = body\<rparr>)"

definition sendPaymentRequiredHTML ::
  "page_funs \<Rightarrow> bool \<Rightarrow> route_rule option \<Rightarrow> http_request \<Rightarrow> payment_display \<Rightarrow> payment_requirements list \<Rightarrow>
   payment_required \<times> string option \<Rightarrow> resp_writer \<Rightarrow> resp_writer" where
  "sendPaymentRequiredHTML pf tls rule r d requirements body w =
     (let w1 = setPaymentRequiredHeader (pf_marshal pf body) (setCatalogLinkHeader w)
      in case pf_page pf (page_values_of tls rule r d requirements body) of
           None \<Rightarrow> sendPaymentRequiredJSON (pf_marshal pf) body w1
         | Some html \<Rightarrow>
             snd (cw_Write html (cw_WriteHeader 402
               (set_header ''Cache-Control'' ''no-store'' (set_header ''Content-Type'' ''text/html; charset=utf-8'' w1)))))"

definition NewHTMLAwarePaymentRequired ::
  "page_funs \<Rightarrow> bool \<Rightarrow> route_rule option \<Rightarrow> http_request \<Rightarrow> payment_display \<Rightarrow> payment_requirements list \<Rightarrow>
   payment_required \<times> string option \<Rightarrow> resp_writer \<Rightarrow> resp_writer" where
  "NewHTMLAwarePaymentRequired pf tls rule r d requirements body w =
     (if \<not> prefersHTML (hget (rq_header r) ''Accept'') then sendPaymentRequiredJSON (pf_marshal pf) body w
      else sendPaymentRequiredHTML pf tls rule r d requirements body w)"

subsection \<open>The price on the page\<close>

lemma digit_char_0: "digit_char 0 = CHR ''0''"
  by (simp add: digit_char_def)

lemma zero_pad_Suc:
  assumes "0 \<le> m" and "0 < k"
  shows "zero_pad (Suc k) m = zero_pad k (m div 10) @ [digit_char (m mod 10)]"
proof (cases "m < 10")
  case True
  have "replicate (k - Suc 0) CHR ''0'' @ [CHR ''0''] = replicate k CHR ''0''"
    using assms(2) by (cases k) (simp_all add: replicate_append_same)
  with True assms show ?thesis
    by (simp add: zero_pad_def Let_def show_dec.simps [of m] show_dec.simps [of 0] digit_char_0 flip: append_assoc)
next
  case False
  with assms show ?thesis by (simp add: zero_pad_def Let_def show_dec.simps [of m])
qed

lemma show_dec_split:
  "10 ^ Suc k \<le> n \<Longrightarrow> show_dec n = show_dec (n div 10 ^ Suc k) @ zero_pad (Suc k) (n mod 10 ^ Suc k)"
proof (induction k arbitrary: n)
  case 0
  then show ?case by (simp add: show_dec.simps [of n] zero_pad_def show_dec.simps [of "n mod 10"])
next
  case (Suc k)
  have n: "10 \<le> n" "10 ^ Suc k \<le> n div 10"
    using Suc.prems self_le_power [of "10::int" "Suc (Suc k)"] by (simp_all add: less_eq_div_iff_mult_less_eq)
  have gen: "n div 10 div p = n div (10 * p) \<and> n mod (10 * p) mod 10 = n mod 10 \<and> n div 10 mod p = n mod (10 * p) div 10"
    if "0 < p" for p :: int
    using that by (simp add: zdiv_zmult2_eq zmod_zmult2_eq)
  have e: "n div 10 div 10 ^ Suc k = n div 10 ^ Suc (Suc k)" "(n mod 10 ^ Suc (Suc k)) mod 10 = n mod 10"
      "n div 10 mod 10 ^ Suc k = (n mod 10 ^ Suc (Suc k)) div 10"
    using gen [of "10 ^ Suc k"] by simp_all
  have "show_dec n = show_dec (n div 10) @ [digit_char (n mod 10)]" using n by (simp add: show_dec.simps [of n])
  also have "show_dec (n div 10) = show_dec (n div 10 ^ Suc (Suc k)) @ zero_pad (Suc k) ((n mod 10 ^ Suc (Suc k)) div 10)"
    using Suc.IH [OF n(2)] e by simp
  finally show ?case using n e by (simp add: zero_pad_Suc del: power_Suc)
qed

lemma formatAmount_AtomicToDecimal:
  assumes "0 \<le> n" and "0 < d"
  shows "formatAmount (show_int n) d [] = AtomicToDecimal n d"
proof -
  obtain k where k: "nat d = Suc k" using assms(2) by (cases "nat d") auto
  have si: "show_int n = show_dec n" using assms by (simp add: show_int_def)
  have hd: "hd (show_dec n) \<noteq> CHR ''-''" "hd (show_dec n) \<noteq> CHR ''+''"
    using digits_val_allDigits [OF digits_val_show_dec [OF assms(1)]]
    by (cases "show_dec n"; auto simp: allDigits_def digit_val_def byte_def)+
  have big: "big_of_string (show_dec n) = Some n"
    using hd digits_val_show_dec [OF assms(1)] by (cases "show_dec n") (auto simp: big_of_string_def)
  define s1 where "s1 = (if length (show_dec n) \<le> Suc k then replicate (Suc k - length (show_dec n) + 1) (CHR ''0'') @ show_dec n
    else show_dec n)"
  have parts: "s1 = show_dec (n div 10 ^ Suc k) @ zero_pad (Suc k) (n mod 10 ^ Suc k) \<and> length (zero_pad (Suc k) (n mod 10 ^ Suc k)) = Suc k"
  proof (cases "n < 10 ^ Suc k")
    case True
    have l: "length (show_dec n) \<le> Suc k" using length_show_dec [OF assms(1) True] by simp
    have "n div 10 ^ Suc k = 0" "n mod 10 ^ Suc k = n" using True assms(1) by simp_all
    with l assms(1) show ?thesis
      by (simp add: s1_def zero_pad_def Let_def show_dec.simps [of 0] digit_char_0 del: power_Suc)
  next
    case False
    have l: "length (zero_pad (Suc k) (n mod 10 ^ Suc k)) = Suc k"
      using length_show_dec [of "n mod 10 ^ Suc k" "Suc k"] pos_mod_bound [of "10 ^ Suc k" n] pos_mod_sign [of "10 ^ Suc k" n]
      by (simp add: zero_pad_def Let_def not_less del: power_Suc)
    have s: "show_dec n = show_dec (n div 10 ^ Suc k) @ zero_pad (Suc k) (n mod 10 ^ Suc k)"
      using False by (intro show_dec_split) simp
    have "Suc k < length (show_dec n)" using arg_cong [OF s, of length] l by simp
    then have "s1 = show_dec n" by (simp add: s1_def)
    with s l show ?thesis by simp
  qed
  have "0 \<le> n div 10 ^ Suc k" using assms(1) by (simp add: pos_imp_zdiv_nonneg_iff)
  then have "show_int (n div 10 ^ Suc k) = show_dec (n div 10 ^ Suc k)" by (simp add: show_int_def)
  with parts assms k big si show ?thesis
    by (simp add: formatAmount_def AtomicToDecimal_def Let_def flip: s1_def del: power_Suc)
qed

lemma requirement_amount:
  assumes "BuildV2RequirementForPayment chain asset opt payTo = Inr req" and "rp_ApproxTokensPerRequest opt \<le> 1000000"
  shows "\<exists>n. pr_amount req = show_int n \<and> 0 < n \<and> n \<le> MaxPriceWholeTokens * pow10 (ai_Decimals asset)"
proof (cases "rp_PriceModel opt = ''perMTok'' \<and> rp_PerMTok opt \<noteq> []")
  case True
  let ?d = "ai_Decimals asset" and ?t = "if rp_ApproxTokensPerRequest opt \<le> 0 then ApproxTokensPerRequest else rp_ApproxTokensPerRequest opt"
  obtain n where n: "PerMTokToAtomicPerRequest (rp_PerMTok opt) (rp_ApproxTokensPerRequest opt) ?d = Inr n" "pr_amount req = show_int n"
    using True assms(1) by (auto simp: BuildV2RequirementForPayment_def buildV2RequirementAtomic_def split: sum.splits)
  obtain num den where p: "ParsePositiveDecimalAmount (rp_PerMTok opt) ?d = Inr (num, den)" "0 < den"
      "(n - 1) * (den * 1000000) < num * ?t * pow10 ?d" "1 \<le> n"
    using PerMTok_ceiling [OF n(1)] by (auto simp: Let_def)
  have "ParseDecimalAmount (rp_PerMTok opt) ?d = Inr (num, den)" "0 < num" using p(1) by (simp_all add: ParsePositive_ok)
  moreover from this(1) have "num \<le> MaxPriceWholeTokens * den" by (rule ParseDecimalAmount_ok)
  moreover have "0 < ?t" "?t \<le> 1000000" using assms(2) by (simp_all add: ApproxTokensPerRequest_def)
  ultimately have "num * ?t \<le> MaxPriceWholeTokens * den * 1000000" by (intro mult_mono) (simp_all add: MaxPriceWholeTokens_def)
  then have "num * ?t * pow10 ?d \<le> MaxPriceWholeTokens * den * 1000000 * pow10 ?d" by (intro mult_right_mono) (simp_all add: pow10_def)
  from less_le_trans [OF p(3) this] have "(n - 1) * (den * 1000000) < (MaxPriceWholeTokens * pow10 ?d) * (den * 1000000)"
    by (simp only: ac_simps)
  then have "n - 1 < MaxPriceWholeTokens * pow10 ?d" using p(2) by (simp add: mult_less_cancel_right)
  with n p(4) show ?thesis by auto
next
  case False
  then have "BuildV2RequirementWithAsset chain asset (rp_Price opt) payTo (rp_MaxTimeoutSeconds opt) = Inr req"
    using assms(1) unfolding BuildV2RequirementForPayment_def by (simp only: if_False)
  then obtain n where n: "DecimalToAtomic (rp_Price opt) (ai_Decimals asset) = Inr n" "pr_amount req = show_int n"
    by (cases "DecimalToAtomic (rp_Price opt) (ai_Decimals asset)")
      (auto simp: BuildV2RequirementWithAsset_def decimalToAtomic_def buildV2RequirementAtomic_def)
  then show ?thesis using DecimalToAtomic_digits by blast
qed

end
