(* ===== verification/AuthGate.thy ===== *)
theory AuthGate imports SignIn PublicUrls BodyPolicy begin

text \<open>
  Identity at the verifier, \<open>internal/x402/authgate.go\<close>: the headers that only the verifier may set, the
  challenge of a sign-in route, and the sign-in endpoints that mint session cookies.

  \<open>site_funs\<close> holds what is not under src/: the texts of the HTML pages for the values their templates
  read, \<open>strconv.Quote\<close>, \<open>url.Parse\<close> reduced to scheme and host, the printing of a duration, the schema of
  the SDK, and the texts of the library errors that a sign-in error wraps.
\<close>

record site_funs =
  st_errorPage :: error_page
  st_siwxPage :: "string \<Rightarrow> route_rule \<Rightarrow> string \<Rightarrow> string \<Rightarrow> string \<Rightarrow> string \<Rightarrow> string"
  st_quote :: "string \<Rightarrow> string"
  st_parseURL :: "string \<Rightarrow> (string \<times> string) option"
  st_duration :: "nsec \<Rightarrow> string"
  st_siwxSchema :: json
  st_wrapped :: "siwx_error \<Rightarrow> string"
  st_siwx :: siwx_funs

subsection \<open>Identity headers\<close>

definition HeaderVerifiedWallet :: string where "HeaderVerifiedWallet = ''X-Verified-Wallet''"
definition HeaderPaymentPayer :: string where "HeaderPaymentPayer = ''X-Payment-Payer''"
definition headerBrokerUpstreamURL :: string where "headerBrokerUpstreamURL = ''X-Obol-Upstream-Url''"
definition headerBrokerOffer :: string where "headerBrokerOffer = ''X-Obol-Offer''"
definition headerBrokerPayTo :: string where "headerBrokerPayTo = ''X-Obol-Pay-To''"
definition headerBrokerJobTTL :: string where "headerBrokerJobTTL = ''X-Obol-Job-Ttl''"
definition headerBrokerVisibility :: string where "headerBrokerVisibility = ''X-Obol-Result-Visibility''"
definition headerBrokerPublicPrefix :: string where "headerBrokerPublicPrefix = ''X-Obol-Public-Prefix''"
definition headerBrokerUpstreamAuth :: string where "headerBrokerUpstreamAuth = ''X-Obol-Upstream-Auth''"
definition headerBrokerSig :: string where "headerBrokerSig = ''X-Obol-Broker-Sig''"

definition identity_headers :: "string list" where
  "identity_headers =
     [HeaderVerifiedWallet, HeaderPaymentPayer, headerBrokerUpstreamURL, headerBrokerOffer, headerBrokerPayTo,
      headerBrokerJobTTL, headerBrokerVisibility, headerBrokerPublicPrefix, headerBrokerUpstreamAuth, headerBrokerSig]"

definition stripIdentityHeaders :: "header \<Rightarrow> header" where
  "stripIdentityHeaders h = fold hdel identity_headers h"

definition verifier_brokerSignature :: "(string \<Rightarrow> string \<Rightarrow> string) \<Rightarrow> string \<Rightarrow> string \<Rightarrow> string \<Rightarrow> string \<Rightarrow> string" where
  "verifier_brokerSignature hmac secret upstreamURL offer upstreamAuth =
     hmac secret (upstreamURL @ [CHR 0x0A] @ offer @ [CHR 0x0A] @ upstreamAuth)"

subsection \<open>Errors of sign-in\<close>

definition siwx_error_text :: "site_funs \<Rightarrow> siwx_authenticator \<Rightarrow> siwx_error \<Rightarrow> string" where
  "siwx_error_text st A e = ''siwx: '' @
     (case e of
        TooShort \<Rightarrow> ''message too short''
      | NotHeader \<Rightarrow> ''first line is not an EIP-4361 header''
      | EmptyDomain \<Rightarrow> ''empty domain''
      | NotAddress \<Rightarrow> ''line 2 is not an 0x address''
      | InvalidIssuedAt \<Rightarrow> ''invalid Issued At: '' @ st_wrapped st e
      | InvalidExpiration \<Rightarrow> ''invalid Expiration Time: '' @ st_wrapped st e
      | UnsupportedVersion v \<Rightarrow> ''unsupported Version '' @ st_quote st v @ '' (want 1)''
      | MissingURI \<Rightarrow> ''missing URI''
      | MissingNonce \<Rightarrow> ''missing Nonce''
      | MissingIssuedAt \<Rightarrow> ''missing Issued At''
      | DomainMismatch d h \<Rightarrow> ''message domain '' @ st_quote st d @ '' does not match request host '' @ st_quote st h
      | IssuedTooLongAgo \<Rightarrow> ''message issued more than '' @ st_duration st (au_window A) @ '' ago'' @ em_dash @ ''re-sign with a fresh Issued At''
      | IssuedInFuture \<Rightarrow> ''message Issued At is in the future'' @ em_dash @ ''check client clock''
      | MessageExpired t \<Rightarrow> ''message expired at '' @ st_wrapped st e
      | SignatureNotHex \<Rightarrow> ''signature is not hex: '' @ st_wrapped st e
      | SignatureLength n \<Rightarrow> ''signature must be 65 bytes, got '' @ show_int (int n)
      | InvalidRecoveryID v \<Rightarrow> ''invalid recovery id '' @ show_int v @
          '' (EIP-1271 contract-wallet signatures are not supported yet'' @ em_dash @ ''use an EOA)''
      | NoSigner \<Rightarrow> ''recover signer: '' @ st_wrapped st e
      | WrongSigner a b \<Rightarrow> ''signature recovers '' @ a @ '', message claims '' @ b
      | NonceUsed \<Rightarrow> ''nonce already used'' @ em_dash @ ''sign a fresh message''
      | MalformedToken \<Rightarrow> ''malformed session token''
      | SessionMismatch \<Rightarrow> ''session signature mismatch (sessions do not survive verifier restarts'' @ em_dash @ ''re-authenticate)''
      | MalformedClaims \<Rightarrow> ''malformed session claims''
      | SessionExpired \<Rightarrow> ''session expired'' @ em_dash @ ''re-authenticate''
      | CredentialForm \<Rightarrow> ''Authorization SIWX credential must be <base64 message>.<base64 signature>''
      | MessageNotBase64 \<Rightarrow> ''message part is not base64: '' @ st_wrapped st e
      | SignatureNotBase64 \<Rightarrow> ''signature part is not base64: '' @ st_wrapped st e
      | SpecHeaderInvalid \<Rightarrow> st_wrapped st e
      | UnsupportedChain c \<Rightarrow> ''unsupported chain '' @ st_quote st c @ em_dash @ ''this server verifies EVM (eip155) EOA signatures only''
      | SpecMessageInvalid \<Rightarrow> st_wrapped st e
      | NoCredential \<Rightarrow> ''no credential'' @ em_dash @
          ''sign in at the offer'' @ [CHR 0x27] @ ''s /auth page, send the SIGN-IN-WITH-X header, or Authorization: SIWX <b64 message>.<b64 signature>'')"

subsection \<open>Redirects after sign-in\<close>

text \<open>\<open>unicode.IsControl\<close> on UTF-8: the C0 and C1 ranges and DEL.\<close>

fun has_control :: "string \<Rightarrow> bool" where
  "has_control [] = False"
| "has_control (c # s) \<longleftrightarrow> byte c < 32 \<or> byte c = 127 \<or>
     (byte c = 194 \<and> s \<noteq> [] \<and> 128 \<le> byte (hd s) \<and> byte (hd s) \<le> 159) \<or> has_control s"

definition sanitizeNextPath :: "(string \<Rightarrow> (string \<times> string) option) \<Rightarrow> string \<Rightarrow> string" where
  "sanitizeNextPath parse next =
     (if next = [] \<or> hd next \<noteq> CHR ''/'' \<or>
         (length next > 1 \<and> (next ! 1 = CHR ''/'' \<or> next ! 1 = CHR 0x5C)) then []
      else if CHR 0x5C \<in> set next \<or> has_control next then []
      else (case parse next of
              None \<Rightarrow> []
            | Some (scheme, host) \<Rightarrow> if host \<noteq> [] \<or> scheme \<noteq> [] then [] else next))"

fun firstNonEmptyStr :: "string list \<Rightarrow> string" where
  "firstNonEmptyStr [] = []"
| "firstNonEmptyStr (v # vs) = (if v \<noteq> [] then v else firstNonEmptyStr vs)"

subsection \<open>The challenge of a sign-in route\<close>

definition authPageSuffix :: string where "authPageSuffix = ''/auth''"
definition authVerifySuffix :: string where "authVerifySuffix = ''/auth/verify''"
definition obolSIWXChains :: "string list" where "obolSIWXChains = [''eip155:8453'', ''eip155:84532'']"

fun hex_digits :: "nat \<Rightarrow> int \<Rightarrow> string" where
  "hex_digits 0 n = []"
| "hex_digits (Suc k) n = hex_digits k (n div 16) @ [hex_digit (n mod 16)]"

text \<open>\<open>entropy\<close> are 8 random bytes; without them the nonce is the time (16 hexadecimal digits).\<close>

definition siwxNonce :: "string option \<Rightarrow> nsec \<Rightarrow> string" where
  "siwxNonce entropy now = (case entropy of Some b \<Rightarrow> hex_encode b | None \<Rightarrow> hex_digits 16 now)"

definition json_obj :: "(string \<times> json) list \<Rightarrow> json" where
  "json_obj kvs = JObj (sort_by (\<lambda>a b. str_less (fst a) (fst b)) kvs)"

definition siwxChallengeExtension ::
  "site_funs \<Rightarrow> string option \<Rightarrow> nsec \<Rightarrow> string \<Rightarrow> string \<Rightarrow> string \<Rightarrow> nsec \<Rightarrow> json" where
  "siwxChallengeExtension st entropy now domain resourceURI statement window =
     json_obj [(''sign-in-with-x'', json_obj
       [(''info'', json_obj
          [(''domain'', JStr domain), (''uri'', JStr resourceURI), (''version'', JStr ''1''),
           (''nonce'', JStr (siwxNonce entropy now)), (''issuedAt'', JStr (rfc3339 now)),
           (''expirationTime'', JStr (rfc3339 (now + window))), (''statement'', JStr statement),
           (''resources'', JArr [JStr resourceURI])]),
        (''supportedChains'', JArr (map (\<lambda>c. json_obj [(''chainId'', JStr c), (''type'', JStr ''eip191'')]) obolSIWXChains)),
        (''schema'', st_siwxSchema st)])]"

definition windowSecs :: "siwx_authenticator \<Rightarrow> int" where
  "windowSecs A = au_window A div second"

definition challenge_hint :: string where
  "challenge_hint =
     ''Sign an EIP-4361 message (domain must equal the host above, Version 1, fresh Nonce, '' @
     ''Issued At within the window) with EIP-191 personal_sign, then send '' @
     ''`Authorization: SIWX <base64 message>.<base64 signature>`. Or POST {message, signature} '' @
     ''to verifyUrl to mint a reusable session token (also set as the obol_siwx cookie).''"

definition www_authenticate :: "site_funs \<Rightarrow> siwx_authenticator \<Rightarrow> route_rule \<Rightarrow> string \<Rightarrow> string" where
  "www_authenticate st A rule host =
     ''SIWX realm='' @ st_quote st (rr_OfferName rule) @ '', domain='' @ st_quote st host @ '', window='' @
     [CHR 0x22] @ show_int (windowSecs A) @ [CHR 0x22]"

definition renderSIWXPage ::
  "site_funs \<Rightarrow> bool \<Rightarrow> http_request \<Rightarrow> route_rule \<Rightarrow> string \<Rightarrow> string \<Rightarrow> resp_writer \<Rightarrow> resp_writer" where
  "renderSIWXPage st tls r rule next reason w =
     (let host = requestHost r
      in snd (cw_Write (st_siwxPage st (resolveSiteURL tls r) rule host (publicPrefix (Some rule) host @ authVerifySuffix)
           (sanitizeNextPath (st_parseURL st) next) reason) w))"

definition writeSIWXChallenge ::
  "site_funs \<Rightarrow> bool \<Rightarrow> string option \<Rightarrow> nsec \<Rightarrow> siwx_authenticator \<Rightarrow> http_request \<Rightarrow> route_rule \<Rightarrow> siwx_error \<Rightarrow>
   resp_writer \<Rightarrow> resp_writer" where
  "writeSIWXChallenge st tls entropy now A r rule reason w =
     (let host = requestHost r; pub = publicPrefix (Some rule) host;
          path = pub @ stripRoutePrefix (rr_StripPrefix rule) (rq_path r);
          w1 = set_header ''WWW-Authenticate'' (www_authenticate st A rule host) w;
          text = siwx_error_text st A reason
      in if accepts_html r then
           (let next = (if rq_rawQuery r \<noteq> [] then path @ ''?'' @ rq_rawQuery r else path)
            in renderSIWXPage st tls r rule next text
                 (cw_WriteHeader 401 (set_header ''Content-Type'' ''text/html; charset=utf-8'' w1)))
         else
           (let scheme = resolveScheme tls (rq_header r) host; origin = scheme @ ''://'' @ host
            in encode_members
                 [(''error'', JStr ''authentication_required''), (''detail'', JStr text),
                  (''auth'', json_obj
                     [(''scheme'', JStr ''siwx''), (''version'', JStr ''eip4361''), (''domain'', JStr host),
                      (''windowSeconds'', JNum (show_int (windowSecs A))),
                      (''signInUrl'', JStr (origin @ pub @ authPageSuffix)),
                      (''verifyUrl'', JStr (origin @ pub @ authPageSuffix @ ''/verify'')),
                      (''hint'', JStr challenge_hint)]),
                  (''extensions'', siwxChallengeExtension st entropy now host (origin @ path)
                     (''Sign in to '' @ rr_OfferName rule) (au_window A))]
                 (cw_WriteHeader 401 (set_header ''Content-Type'' ''application/json'' w1))))"

end
