(* ===== verification/VerifierState.thy ===== *)
theory VerifierState imports Matcher Chains SignIn PaymentInUse Replies begin

text \<open>
  The state of the verifier and where its configuration comes from: \<open>config.go\<close> (\<open>LoadConfig\<close>),
  \<open>authcapture.go\<close> (the configuration type), \<open>source.go\<close> (the accumulator that merges the pricing file with
  the routes of the service offers), \<open>watcher.go\<close> (polling of the file), and of \<open>verifier.go\<close> the state, \<open>load\<close>,
  the paid prefixes and readiness.  All under \<open>internal/x402\<close>; metrics are left out.
\<close>

subsection \<open>Configuration\<close>

record unlock_config =
  uc_Enabled :: bool
  uc_OfferPrefix :: string
  uc_Price :: string
  uc_Network :: string
  uc_PayTo :: string
  uc_Asset :: string
  uc_FeeRecipient :: string
  uc_MinFeeBps :: int
  uc_MaxFeeBps :: int
  uc_CaptureAuthorizer :: string
  uc_CaptureDeadlineSecs :: int
  uc_RefundDeadlineSecs :: int

record pricing_config =
  pc_Wallet :: string
  pc_Chain :: string
  pc_FacilitatorURL :: string
  pc_VerifyOnly :: bool
  pc_Routes :: "route_rule list"
  pc_AuthCaptureUnlock :: "unlock_config option"

definition DefaultFacilitatorURL :: string where "DefaultFacilitatorURL = ''https://x402.gcp.obol.tech''"

definition empty_config :: pricing_config where
  "empty_config = \<lparr>pc_Wallet = [], pc_Chain = [], pc_FacilitatorURL = [], pc_VerifyOnly = False, pc_Routes = [],
     pc_AuthCaptureUnlock = None\<rparr>"

definition defaultPricingConfig :: pricing_config where
  "defaultPricingConfig = empty_config\<lparr>pc_Chain := ''base'', pc_FacilitatorURL := DefaultFacilitatorURL\<rparr>"

text \<open>\<open>os.ReadFile\<close>, \<open>yaml.Unmarshal\<close> and \<open>url.Parse\<close> are arguments.\<close>

datatype file_read = NotExist | ReadFailed | Contents string
datatype config_error = ReadConfig | ParseConfig | BadFacilitatorURL string

definition LoadConfig_verifier ::
  "(string \<Rightarrow> pricing_config option) \<Rightarrow> (string \<Rightarrow> (string \<times> string) option) \<Rightarrow> file_read \<Rightarrow> config_error + pricing_config" where
  "LoadConfig_verifier unmarshal parse f =
     (case f of
        NotExist \<Rightarrow> Inr defaultPricingConfig
      | ReadFailed \<Rightarrow> Inl ReadConfig
      | Contents data \<Rightarrow>
          (case unmarshal data of
             None \<Rightarrow> Inl ParseConfig
           | Some cfg0 \<Rightarrow>
               (let cfg1 = (if pc_FacilitatorURL cfg0 = [] then cfg0\<lparr>pc_FacilitatorURL := DefaultFacilitatorURL\<rparr> else cfg0);
                    cfg = (if pc_Chain cfg1 = [] then cfg1\<lparr>pc_Chain := ''base''\<rparr> else cfg1)
                in if ValidateFacilitatorURL parse (pc_FacilitatorURL cfg) then Inr cfg
                   else Inl (BadFacilitatorURL (pc_FacilitatorURL cfg)))))"

subsection \<open>The verifier\<close>

record verifier =
  v_config :: "pricing_config option"
  v_chains :: "(string, chain_info) gomap option"
  v_routesLoaded :: bool
  v_paidPrefixes :: "string list option"
  v_siwx :: siwx_authenticator
  v_quota :: quota_counter
  v_inUse :: inuse_registry

datatype reload_error = ResolveChain string | ResolveRouteChain string

text \<open>The networks of the options of one rule, added to the map; \<open>None\<close> when one is unknown.\<close>

fun resolve_options :: "route_payment list \<Rightarrow> (string, chain_info) gomap \<Rightarrow> (string, chain_info) gomap option" where
  "resolve_options [] cs = Some cs"
| "resolve_options (opt # opts) cs =
     (if rp_Network opt = [] \<or> map_of cs (rp_Network opt) \<noteq> None then resolve_options opts cs
      else (case ResolveChainInfo (rp_Network opt) of
              None \<Rightarrow> None
            | Some c \<Rightarrow> resolve_options opts (AList.update (rp_Network opt) c cs)))"

fun resolve_routes :: "route_rule list \<Rightarrow> (string, chain_info) gomap \<Rightarrow> reload_error + (string, chain_info) gomap" where
  "resolve_routes [] cs = Inr cs"
| "resolve_routes (r # rs) cs =
     (case resolve_options (PaymentOptions r) cs of
        None \<Rightarrow> Inl (ResolveRouteChain (rr_Pattern r))
      | Some cs2 \<Rightarrow> resolve_routes rs cs2)"

definition patternToPrefix :: "string \<Rightarrow> string" where
  "patternToPrefix pattern = (if has_suffix ''/*'' pattern then trim_suffix ''*'' pattern else [])"

definition addPrefix :: "string \<Rightarrow> string list \<Rightarrow> string list" where
  "addPrefix p prefixes = (if p = [] \<or> p \<in> set prefixes then prefixes else prefixes @ [p])"

definition route_prefixes :: "route_rule \<Rightarrow> string list \<Rightarrow> string list" where
  "route_prefixes r prefixes =
     (if IsFree r then prefixes
      else (let prefixes1 = addPrefix (patternToPrefix (rr_Pattern r)) prefixes; base = trim_suffix ''/'' (rr_StripPrefix r)
            in if base \<noteq> [] then addPrefix (base @ ''/'') prefixes1 else prefixes1))"

definition paid_prefixes :: "route_rule list \<Rightarrow> string list" where
  "paid_prefixes rs = sort_by (\<lambda>a b. length a > length b) (fold route_prefixes rs [])"

definition load :: "pricing_config \<Rightarrow> verifier \<Rightarrow> reload_error + verifier" where
  "load cfg v =
     (case ResolveChainInfo (pc_Chain cfg) of
        None \<Rightarrow> Inl (ResolveChain (pc_Chain cfg))
      | Some chain \<Rightarrow>
          (case resolve_routes (pc_Routes cfg) [(pc_Chain cfg, chain)] of
             Inl e \<Rightarrow> Inl e
           | Inr cs \<Rightarrow> Inr (v\<lparr>v_chains := Some cs, v_config := Some cfg,
                                   v_paidPrefixes := Some (paid_prefixes (pc_Routes cfg))\<rparr>)))"

text \<open>A reload that fails leaves the verifier as it was.\<close>

definition Reload_verifier :: "pricing_config \<Rightarrow> verifier \<Rightarrow> reload_error option \<times> verifier" where
  "Reload_verifier cfg v = (case load cfg v of Inl e \<Rightarrow> (Some e, v) | Inr v' \<Rightarrow> (None, v'))"

definition NewVerifier :: "pricing_config \<Rightarrow> siwx_authenticator \<Rightarrow> reload_error + verifier" where
  "NewVerifier cfg siwx =
     load cfg \<lparr>v_config = None, v_chains = None, v_routesLoaded = False, v_paidPrefixes = None,
       v_siwx = siwx, v_quota = newFreeQuotaCounter, v_inUse = NewPaymentInUseRegistry\<rparr>"

definition MarkRoutesLoaded :: "verifier \<Rightarrow> verifier" where
  "MarkRoutesLoaded v = v\<lparr>v_routesLoaded := True\<rparr>"

definition isUnderPaidPrefix :: "verifier \<Rightarrow> string \<Rightarrow> bool" where
  "isUnderPaidPrefix v uri =
     (case v_paidPrefixes v of None \<Rightarrow> False | Some prefixes \<Rightarrow> list_ex (\<lambda>p. has_prefix p uri) prefixes)"

definition HandleHealthz :: "resp_writer \<Rightarrow> resp_writer" where
  "HandleHealthz w = snd (cw_Write (json_print (JObj [(''status'', JStr ''ok'')]) @ [CHR 0x0A]) (cw_WriteHeader 200 w))"

definition HandleReadyz :: "verifier \<Rightarrow> resp_writer \<Rightarrow> resp_writer" where
  "HandleReadyz v w =
     (if v_config v = None then http_Error ''not ready: config not loaded'' 503 w
      else if \<not> v_routesLoaded v then http_Error ''not ready: routes not loaded'' 503 w
      else snd (cw_Write (json_print (JObj [(''status'', JStr ''ready'')]) @ [CHR 0x0A]) (cw_WriteHeader 200 w)))"

subsection \<open>Merging the file and the offers\<close>

text \<open>
  A slice of routes is \<open>None\<close> when it is nil: \<open>reflect.DeepEqual\<close> tells nil from empty.  Inside a rule
  nil and empty slices are one value.
\<close>

record accumulator =
  ca_base :: pricing_config
  ca_routes :: "route_rule list option"

definition nil_if_empty :: "'a list \<Rightarrow> 'a list option" where
  "nil_if_empty xs = (if xs = [] then None else Some xs)"

definition NewConfigAccumulator :: "pricing_config option \<Rightarrow> accumulator" where
  "NewConfigAccumulator base = \<lparr>ca_base = the_default empty_config base, ca_routes = None\<rparr>"

definition applyLocked :: "accumulator \<Rightarrow> verifier \<Rightarrow> reload_error option \<times> verifier" where
  "applyLocked a v =
     Reload_verifier ((ca_base a)\<lparr>pc_Routes := the_default [] (ca_routes a) @ pc_Routes (ca_base a)\<rparr>) v"

definition SetBase :: "pricing_config option \<Rightarrow> accumulator \<Rightarrow> verifier \<Rightarrow> reload_error option \<times> accumulator \<times> verifier" where
  "SetBase base a v =
     (let a' = a\<lparr>ca_base := the_default empty_config base\<rparr>
      in if ca_base a = ca_base a' then (None, a', v)
         else (case applyLocked a' v of (e, v') \<Rightarrow> (e, a', v')))"

definition SetRoutes :: "route_rule list option \<Rightarrow> accumulator \<Rightarrow> verifier \<Rightarrow> reload_error option \<times> accumulator \<times> verifier" where
  "SetRoutes routes a v =
     (if ca_routes a = routes then (None, a, v)
      else (let a' = a\<lparr>ca_routes := nil_if_empty (the_default [] routes)\<rparr>
            in case applyLocked a' v of (e, v') \<Rightarrow> (e, a', v')))"

text \<open>\<open>refresh\<close> of \<open>WatchServiceOffers\<close>, for the routes rendered from the informers (\<open>None\<close> when rendering
  fails), and the refresh after the caches have synced.\<close>

definition refresh :: "route_rule list option \<Rightarrow> accumulator \<Rightarrow> verifier \<Rightarrow> bool \<times> accumulator \<times> verifier" where
  "refresh rendered a v =
     (case rendered of None \<Rightarrow> (False, a, v)
      | Some routes \<Rightarrow> (case SetRoutes (Some routes) a v of (e, a', v') \<Rightarrow> (e = None, a', v')))"

definition first_refresh :: "route_rule list option \<Rightarrow> accumulator \<Rightarrow> verifier \<Rightarrow> accumulator \<times> verifier" where
  "first_refresh rendered a v =
     (case refresh rendered a v of (ok, a', v') \<Rightarrow> (a', if ok then MarkRoutesLoaded v' else v'))"

subsection \<open>Watching the file\<close>

datatype watch_event = watchStatError | watchUnchanged | watchLoadError | watchApplyError | watchApplied

text \<open>
  One poll.  \<open>modTime\<close> is the modification time that \<open>os.Stat\<close> reports (\<open>None\<close> for an error), \<open>loaded\<close> the result
  of \<open>LoadConfig\<close>; \<open>apply\<close> works on whatever state its callback changes.
\<close>

definition watch_poll ::
  "('s \<Rightarrow> pricing_config \<Rightarrow> reload_error option \<times> 's) \<Rightarrow> nsec option \<Rightarrow> config_error + pricing_config \<Rightarrow>
   nsec \<times> 's \<Rightarrow> watch_event \<times> nsec \<times> 's" where
  "watch_poll apply modTime loaded st =
     (let (lastMod, s) = st in
      case modTime of
        None \<Rightarrow> (watchStatError, lastMod, s)
      | Some m \<Rightarrow>
          if m = lastMod then (watchUnchanged, lastMod, s)
          else (case loaded of
                  Inl e \<Rightarrow> (watchLoadError, m, s)
                | Inr cfg \<Rightarrow>
                    (case apply s cfg of
                       (Some e, s') \<Rightarrow> (watchApplyError, m, s')
                     | (None, s') \<Rightarrow> (watchApplied, m, s'))))"

end
