(* ===== verification/AuthPages.thy ===== *)
theory AuthPages imports AuthGate VerifierState begin

text \<open>
  The sign-in endpoints that the verifier serves itself, \<open>handleAuthEndpoints\<close> and its helpers in
  \<open>internal/x402/authgate.go\<close>.  \<open>tls\<close> says that the connection is encrypted.
\<close>

definition maxVerifyBody :: nat where "maxVerifyBody = 16384"

definition authRuleForPrefix :: "verifier \<Rightarrow> string \<Rightarrow> route_rule option" where
  "authRuleForPrefix v prefix =
     (case v_config v of None \<Rightarrow> None
      | Some cfg \<Rightarrow> find (\<lambda>r. IsAuth r \<and> trim_suffix ''/'' (rr_StripPrefix r) = trim_suffix ''/'' prefix) (pc_Routes cfg))"

definition logSafe :: "string \<Rightarrow> string" where
  "logSafe s = map (\<lambda>c. if c = CHR 0x0A \<or> c = CHR 0x0D then CHR '' '' else c) s"

text \<open>The unlock offer whose free sign-in is suppressed.\<close>

definition unlock_prefix :: "verifier \<Rightarrow> string \<Rightarrow> bool" where
  "unlock_prefix v prefix =
     (case v_config v of None \<Rightarrow> False
      | Some cfg \<Rightarrow> (case pc_AuthCaptureUnlock cfg of None \<Rightarrow> False
          | Some uc \<Rightarrow> uc_Enabled uc \<and> trim_suffix ''/'' prefix = trim_suffix ''/'' (uc_OfferPrefix uc)))"

text \<open>The cookie of a session: \<open>http.SetCookie\<close> with the attributes of the code.\<close>

definition session_cookie :: "string \<Rightarrow> string" where
  "session_cookie token =
     SIWXSessionCookie @ ''='' @ token @ ''; Path=/; Max-Age='' @ show_int (DefaultSIWXSessionTTL div second) @
     ''; HttpOnly; Secure; SameSite=Strict''"

text \<open>
  The decoder reads the first JSON value of at most \<open>maxVerifyBody\<close> bytes: \<open>None\<close> for a body that cannot be
  read, is no JSON value within the limit, or has a field of the wrong type.
\<close>

definition decode_verify_body :: "http_body \<Rightarrow> (string \<times> string \<times> string) option" where
  "decode_verify_body b =
     (case read_all b of None \<Rightarrow> None
      | Some s \<Rightarrow>
          (case jvalue (take maxVerifyBody s) of
             Some (JObj kvs, rest) \<Rightarrow>
               (case (str_field ''message'' kvs, str_field ''signature'' kvs, str_field ''next'' kvs) of
                  ((m, e1), (sig, e2), (n, e3)) \<Rightarrow> if e1 \<or> e2 \<or> e3 then None else Some (m, sig, n))
           | Some (JNull, rest) \<Rightarrow> Some ([], [], [])
           | _ \<Rightarrow> None))"

definition redirect_to :: "string \<Rightarrow> resp_writer \<Rightarrow> resp_writer" where
  "redirect_to next w = cw_WriteHeader 303 (set_header ''Location'' (hexEscapeNonASCII (redirect_target next)) w)"

definition handleAuthVerify ::
  "site_funs \<Rightarrow> nsec \<Rightarrow> http_request \<Rightarrow> siwx_authenticator \<Rightarrow> resp_writer \<Rightarrow> siwx_authenticator \<times> resp_writer" where
  "handleAuthVerify st now r A w =
     (if rq_method r \<noteq> ''POST'' then (A, http_Error ''POST {message, signature}'' 405 w)
      else if \<not> has_prefix ''application/json'' (hget (rq_header r) ''Content-Type'')
        then (A, http_Error ''Content-Type must be application/json'' 415 w)
      else if hget (rq_header r) ''Sec-Fetch-Site'' = ''cross-site''
        then (A, http_Error ''cross-site sign-in is not allowed'' 403 w)
      else (case decode_verify_body (rq_body r) of
              None \<Rightarrow> (A, http_Error ''invalid JSON body: POST {message, signature}'' 400 w)
            | Some (message, signature, nxt) \<Rightarrow>
                (case VerifyMessage (st_siwx st) message signature (requestHost r) now A of
                   (Inl e, A') \<Rightarrow>
                     (A', encode_members [(''error'', JStr ''siwx_verification_failed''), (''detail'', JStr (siwx_error_text st A e))]
                        (cw_WriteHeader 401 (set_header ''Content-Type'' ''application/json'' w)))
                 | (Inr wallet, A') \<Rightarrow>
                     (let token = MintSession (st_siwx st) wallet now A';
                          w1 = add_header ''Set-Cookie'' (session_cookie token) w;
                          target = sanitizeNextPath (st_parseURL st) (firstNonEmptyStr [nxt, query_get ''next'' (rq_rawQuery r)])
                      in (A', if target \<noteq> [] then redirect_to target w1
                              else encode_members [(''wallet'', JStr wallet), (''sessionToken'', JStr token)]
                                (set_header ''Content-Type'' ''application/json'' w1))))))"

text \<open>The sign-in page, or its parameters as JSON.\<close>

definition auth_page :: "site_funs \<Rightarrow> bool \<Rightarrow> siwx_authenticator \<Rightarrow> http_request \<Rightarrow> route_rule \<Rightarrow> resp_writer \<Rightarrow> resp_writer" where
  "auth_page st tls A r rule w =
     (if query_get ''format'' (rq_rawQuery r) = ''json'' \<or> contains_sub ''json'' (hget (rq_header r) ''Accept'') then
        (let host = requestHost r in
         encode_members
           [(''scheme'', JStr ''siwx''), (''version'', JStr ''eip4361''), (''domain'', JStr host),
            (''windowSeconds'', JNum (show_int (windowSecs A))),
            (''verifyUrl'', JStr (resolveScheme tls (rq_header r) host @ ''://'' @ host @ publicPrefix (Some rule) host @ authVerifySuffix))]
           (set_header ''Content-Type'' ''application/json'' w))
      else renderSIWXPage st tls r rule (query_get ''next'' (rq_rawQuery r)) []
             (set_header ''Content-Type'' ''text/html; charset=utf-8'' w))"

text \<open>\<open>None\<close> when the request is not for a sign-in endpoint.\<close>

definition handleAuthEndpoints ::
  "site_funs \<Rightarrow> bool \<Rightarrow> nsec \<Rightarrow> http_request \<Rightarrow> verifier \<Rightarrow> resp_writer \<Rightarrow> (verifier \<times> resp_writer) option" where
  "handleAuthEndpoints st tls now r v w =
     (let path = rq_path r; verify = has_suffix authVerifySuffix path;
          prefix = (if verify then trim_suffix authVerifySuffix path else trim_suffix authPageSuffix path)
      in if \<not> verify \<and> \<not> has_suffix authPageSuffix path then None
         else if unlock_prefix v prefix then None
         else (case authRuleForPrefix v prefix of None \<Rightarrow> None
               | Some rule \<Rightarrow>
                   if verify then
                     (case handleAuthVerify st now r (v_siwx v) w of (A', w') \<Rightarrow> Some (v\<lparr>v_siwx := A'\<rparr>, w'))
                   else Some (v, auth_page st tls (v_siwx v) r rule w)))"

end
