(* ===== verification/UpstreamProxy.thy ===== *)
theory UpstreamProxy imports AuthGate begin

text \<open>
  The request that the verifier sends on, \<open>buildUpstreamProxy\<close> and its helpers in \<open>internal/x402/verifier.go\<close>.

  \<open>proxy_out_header\<close> is what \<open>httputil.ReverseProxy\<close> with a \<open>Rewrite\<close> function does to the header before it
  calls that function: hop-by-hop headers, those that \<open>Connection\<close> names, and forwarding headers are
  dropped.  \<open>proxy_funs\<close> holds \<open>url.Parse\<close> and HMAC-SHA256 (hexadecimal).  \<open>secret\<close> is the environment variable
  \<open>JOB_BROKER_HMAC_SECRET\<close>.
\<close>

record upstream_url =
  uu_Scheme :: string
  uu_Host :: string
  uu_Hostname :: string
  uu_Path :: string

record proxy_funs =
  px_parse :: "string \<Rightarrow> upstream_url option"
  px_hmac :: "string \<Rightarrow> string \<Rightarrow> string"

subsection \<open>The reverse proxy of the library\<close>

definition header_values :: "header \<Rightarrow> string \<Rightarrow> string list" where
  "header_values h k = the_default [] (map_of h (to_lower k))"

definition header_tokens :: "header \<Rightarrow> string \<Rightarrow> string list" where
  "header_tokens h k = filter (\<lambda>t. t \<noteq> []) (map trim_space (concat (map (split_on CHR '','') (header_values h k))))"

definition has_token :: "header \<Rightarrow> string \<Rightarrow> string \<Rightarrow> bool" where
  "has_token h k t = list_ex (\<lambda>x. equal_fold x t) (header_tokens h k)"

definition hop_headers :: "string list" where
  "hop_headers = [''Connection'', ''Proxy-Connection'', ''Keep-Alive'', ''Proxy-Authenticate'', ''Proxy-Authorization'',
     ''Te'', ''Trailer'', ''Transfer-Encoding'', ''Upgrade'']"

definition proxy_out_header :: "header \<Rightarrow> header" where
  "proxy_out_header h =
     (let upgrade = (if has_token h ''Connection'' ''Upgrade'' then hget h ''Upgrade'' else []);
          h1 = fold hdel hop_headers (fold hdel (header_tokens h ''Connection'') h);
          h2 = (if has_token h ''Te'' ''trailers'' then hset ''Te'' ''trailers'' h1 else h1);
          h3 = (if upgrade \<noteq> [] then hset ''Upgrade'' upgrade (hset ''Connection'' ''Upgrade'' h2) else h2)
      in fold hdel [''Forwarded'', ''X-Forwarded-For'', ''X-Forwarded-Host'', ''X-Forwarded-Proto''] h3)"

subsection \<open>The payer in the conversation\<close>

definition payerContextBodyLimit :: nat where "payerContextBodyLimit = 4194304"

definition payer_note :: "string \<Rightarrow> json" where
  "payer_note payer = JObj
     [(''content'', JStr (''x402 payment context: this request was paid by wallet '' @ payer @
         '' (payer identity verified on-chain by the payment gateway; buyers cannot spoof it). '' @
         ''When the buyer refers to their own wallet or address without spelling it out, use this address.'')),
      (''role'', JStr ''system'')]"

text \<open>\<open>None\<close> when the body has not the expected shape.\<close>

definition splicePayerSystemMessage :: "string \<Rightarrow> string \<Rightarrow> string option" where
  "splicePayerSystemMessage body payer =
     (case raw_document body of None \<Rightarrow> None
      | Some doc \<Rightarrow>
          (case map_of doc ''messages'' of None \<Rightarrow> None
           | Some rawMsgs \<Rightarrow>
               (case raw_array rawMsgs of None \<Rightarrow> None
                | Some messages \<Rightarrow>
                    Some (write_object True (AList.update ''messages'' (write_array (json_print (payer_note payer) # messages)) doc)))))"

text \<open>\<open>inn\<close> is the request that came in, \<open>out\<close> the one that goes out.\<close>

definition injectAgentPayerContext :: "route_rule \<Rightarrow> http_request \<Rightarrow> http_request \<Rightarrow> http_request" where
  "injectAgentPayerContext rule inn out =
     (let ce = hget (rq_header inn) ''Content-Encoding''; ct = hget (rq_header inn) ''Content-Type'';
          payer0 = hget (rq_header inn) HeaderPaymentPayer;
          payer = (if payer0 = [] then hget (rq_header inn) HeaderVerifiedWallet else payer0)
      in if rr_OfferType rule \<noteq> ''agent'' \<or> rq_method out \<noteq> ''POST'' \<or> rq_path out \<noteq> chatCompletionsPath \<or>
            rq_body out = NilBody \<or> rq_body out = NoBody then out
         else if ce \<noteq> [] \<and> \<not> equal_fold ce ''identity'' then out
         else if ct \<noteq> [] \<and> \<not> contains_sub ''json'' (to_lower ct) then out
         else if payer = [] then out
         else (case read_all (rq_body out) of None \<Rightarrow> out
               | Some b \<Rightarrow>
                   if length (take (payerContextBodyLimit + 1) b) > payerContextBodyLimit then out
                   else (let newBody = the_default b (splicePayerSystemMessage b payer)
                         in out\<lparr>rq_body := Stream (Some newBody),
                                rq_header := hset ''Content-Length'' (show_int (int (length newBody))) (rq_header out)\<rparr>)))"

subsection \<open>The upstream of a rule\<close>

definition to_broker :: "route_rule \<Rightarrow> bool" where
  "to_broker rule \<longleftrightarrow> rr_Async rule \<and> rr_BrokerURL rule \<noteq> []"

definition upstream_target :: "route_rule \<Rightarrow> string" where
  "upstream_target rule = (if to_broker rule then rr_BrokerURL rule else rr_UpstreamURL rule)"

definition offer_id :: "route_rule \<Rightarrow> string" where
  "offer_id rule = rr_OfferNamespace rule @ ''/'' @ rr_OfferName rule"

definition fetch_headers :: "string list" where
  "fetch_headers = [''Origin'', ''Sec-Fetch-Site'', ''Sec-Fetch-Mode'', ''Sec-Fetch-Dest'', ''Sec-Fetch-User'']"

definition broker_headers :: "proxy_funs \<Rightarrow> string \<Rightarrow> route_rule \<Rightarrow> http_request \<Rightarrow> header \<Rightarrow> header" where
  "broker_headers px secret rule inn h =
     (let h1 = hset headerBrokerUpstreamAuth (rr_UpstreamAuth rule)
            (hset headerBrokerPublicPrefix (publicPrefix (Some rule) (requestHost inn))
            (hset headerBrokerVisibility (rr_AsyncVisibility rule)
            (hset headerBrokerJobTTL (rr_AsyncTTL rule)
            (hset headerBrokerPayTo (rr_PayTo rule)
            (hset headerBrokerOffer (offer_id rule)
            (hset headerBrokerUpstreamURL (rr_UpstreamURL rule) h))))))
      in if secret \<noteq> [] then
           hset headerBrokerSig (verifier_brokerSignature (px_hmac px) secret (rr_UpstreamURL rule) (offer_id rule) (rr_UpstreamAuth rule)) h1
         else h1)"

definition rewrite_header :: "proxy_funs \<Rightarrow> string \<Rightarrow> route_rule \<Rightarrow> http_request \<Rightarrow> header" where
  "rewrite_header px secret rule inn =
     (let h0 = proxy_out_header (rq_header inn);
          h1 = (if \<not> IsFree rule then fold hdel fetch_headers h0 else h0)
      in if to_broker rule then broker_headers px secret rule inn h1
         else if rr_UpstreamAuth rule \<noteq> [] then hset ''Authorization'' (rr_UpstreamAuth rule) h1
         else h1)"

definition rewrite_request :: "proxy_funs \<Rightarrow> string \<Rightarrow> route_rule \<Rightarrow> upstream_url \<Rightarrow> http_request \<Rightarrow> http_request" where
  "rewrite_request px secret rule target inn =
     injectAgentPayerContext rule inn
       (inn\<lparr>rq_host := uu_Host target,
            rq_path := singleJoiningSlash (uu_Path target) (forwardedPath rule (rq_method inn) (rq_path inn)),
            rq_header := rewrite_header px secret rule inn\<rparr>)"

text \<open>\<open>None\<close> is the error for a URL that does not parse.\<close>

definition buildUpstreamProxy :: "proxy_funs \<Rightarrow> string \<Rightarrow> route_rule \<Rightarrow> (http_request \<Rightarrow> http_request) option" where
  "buildUpstreamProxy px secret rule =
     (case px_parse px (upstream_target rule) of None \<Rightarrow> None
      | Some target \<Rightarrow> Some (rewrite_request px secret rule target))"

subsection \<open>Settling on delivery\<close>

definition upstreamIsLiteLLM :: "proxy_funs \<Rightarrow> string \<Rightarrow> bool" where
  "upstreamIsLiteLLM px upstreamURL =
     (case px_parse px upstreamURL of None \<Rightarrow> False
      | Some u \<Rightarrow> (let host = to_lower (uu_Hostname u) in host = ''litellm'' \<or> has_prefix ''litellm.'' host))"

definition settlesOnDelivery :: "proxy_funs \<Rightarrow> route_rule option \<Rightarrow> http_request \<Rightarrow> bool" where
  "settlesOnDelivery px rule r =
     (case rule of None \<Rightarrow> False
      | Some rl \<Rightarrow>
          if rr_Async rl \<or> rq_method r \<noteq> ''POST'' then False
          else if rr_OfferType rl = ''inference'' \<or> rr_OfferType rl = ''agent'' then True
          else if rr_OfferType rl = ''http'' then upstreamIsLiteLLM px (rr_UpstreamURL rl)
          else False)"

text \<open>The error handler of the proxy; the argument says that the error is a cancelled or expired context.\<close>

definition proxy_hint :: "bool \<Rightarrow> string" where
  "proxy_hint gone =
     (if gone then ''the client disconnected or timed out before the agent finished; seller skips settlement when the client write fails or the context cancels'' @
        em_dash @ ''still confirm on BaseScan before retrying. Raise client timeout to '' @ [CHR 0xE2, CHR 0x89, CHR 0xA5] @
        ''180s, keep stream:true, do not auto-retry''
      else ''the upstream service failed before producing a response; payment was verified and seller-side settlement was skipped'' @
        em_dash @ ''confirm on BaseScan before retrying'')"

definition writeUpstreamProxyError :: "bool \<Rightarrow> resp_writer \<Rightarrow> resp_writer" where
  "writeUpstreamProxyError gone w =
     (let status = (if gone then 504 else 502);
          w1 = cw_WriteHeader status (set_header ''X-Payment-Verified'' ''true'' (set_header ''X-Payment-Settled'' ''false''
                 (set_header ''Content-Type'' ''application/json'' w)))
      in encode_members
           [(''error'', JStr (if gone then ''Gateway Timeout'' else ''Bad Gateway'')),
            (''reason'', JStr (if gone then ''client_timeout_or_disconnect'' else ''upstream_unavailable'')),
            (''paymentVerified'', JBool True), (''paymentSettled'', JBool False), (''retriable'', JBool False),
            (''hint'', JStr (proxy_hint gone))] w1)"

end
