(* ===== verification/VerifierEndpoints.thy ===== *)
theory VerifierEndpoints imports PaymentPage AuthPages UpstreamProxy ForwardAuth begin

text \<open>
  The two entry points of the verifier in \<open>internal/x402/verifier.go\<close>: \<open>HandleVerify\<close> (the ForwardAuth check
  that a proxy asks before it forwards a request itself) and \<open>HandleProxy\<close> (the gateway that forwards).

  Each is cut in two.  \<open>route_verify\<close> and \<open>route_proxy\<close> run up to the point where the payment middleware takes
  over (theory \<open>ForwardAuth\<close>: other requests run between its admission and its end) or the request is handed
  to the reverse proxy; they return what happens next.  \<open>HandleVerify\<close> is the whole handler when nothing
  interleaves.  A nil configuration, on which the code panics, is \<open>Panics\<close>; \<open>NewVerifier\<close> never leaves one.
  Metrics are left out, except for the labels, which are values of the route.
\<close>

record verifier_env =
  ve_site :: site_funs
  ve_gate :: gate_funs
  ve_page :: page_funs
  ve_proxy :: proxy_funs
  ve_secret :: string
  ve_entropy :: "string option"
  ve_tls :: bool
  ve_now :: nsec

subsection \<open>The payment options of a route\<close>

type_synonym metric_labels = "(string, string) gomap"

definition labelsForPaymentOption :: "route_rule \<Rightarrow> route_payment \<Rightarrow> metric_labels" where
  "labelsForPaymentOption rule opt =
     [(''offer_namespace'', rr_OfferNamespace rule), (''offer_name'', rr_OfferName rule), (''chain'', rp_Network opt),
      (''asset_symbol'', if rp_AssetSymbol opt = [] then ''unknown'' else rp_AssetSymbol opt)]"

definition withReason :: "metric_labels \<Rightarrow> string \<Rightarrow> metric_labels" where
  "withReason labels reason = AList.update ''reason'' reason labels"

record matched_route =
  mr_rule :: route_rule
  mr_requirements :: "payment_requirements list"
  mr_optionLabels :: "metric_labels list"
  mr_extensions :: "(string, goany) gomap"
  mr_chain :: chain_info
  mr_asset :: asset_info
  mr_labels :: metric_labels

definition labelsForMatched :: "matched_route \<Rightarrow> payment_requirements \<Rightarrow> metric_labels" where
  "labelsForMatched m req =
     (case find (\<lambda>(r, l). pr_network r = pr_network req \<and> pr_asset r = pr_asset req \<and> pr_payTo r = pr_payTo req \<and>
                          pr_amount r = pr_amount req) (zip (mr_requirements m) (mr_optionLabels m)) of
        Some (r, l) \<Rightarrow> l | None \<Rightarrow> mr_labels m)"

definition set_extra :: "string \<Rightarrow> goany \<Rightarrow> payment_requirements \<Rightarrow> payment_requirements" where
  "set_extra k v req = req\<lparr>pr_extra := Some (AList.update k v (the_default [] (pr_extra req)))\<rparr>"

definition mergeAgentExtras :: "route_rule \<Rightarrow> payment_requirements \<Rightarrow> payment_requirements" where
  "mergeAgentExtras rule req =
     (let req1 = (if rr_AgentSkills rule \<noteq> [] then set_extra ''agentSkills'' (GArr (map GStr (rr_AgentSkills rule))) req else req)
      in if rr_AgentRuntime rule \<noteq> [] then set_extra ''agentRuntime'' (GStr (rr_AgentRuntime rule)) req1 else req1)"

definition mergeModelExtra :: "route_rule \<Rightarrow> payment_requirements \<Rightarrow> payment_requirements" where
  "mergeModelExtra rule req =
     (if rr_BodyPolicy rule \<noteq> BodyPolicyLiteLLM \<or> rr_Model rule = [] then req else set_extra ''model'' (GStr (rr_Model rule)) req)"

text \<open>The requirement that one option yields, if its chain is known and its price is sound.\<close>

definition option_requirement ::
  "(string, chain_info) gomap \<Rightarrow> pricing_config \<Rightarrow> route_payment \<Rightarrow> (chain_info \<times> asset_info \<times> payment_requirements) option" where
  "option_requirement cs cfg opt =
     (case map_of cs (if rp_Network opt \<noteq> [] then rp_Network opt else pc_Chain cfg) of
        None \<Rightarrow> None
      | Some chain \<Rightarrow>
          (let asset = ResolveAssetInfoForPayment chain opt
           in case BuildV2RequirementForPayment chain asset opt (if rp_PayTo opt \<noteq> [] then rp_PayTo opt else pc_Wallet cfg) of
                Inl e \<Rightarrow> None
              | Inr req \<Rightarrow> Some (chain, asset, req)))"

text \<open>The requirements collected so far: key, chain, asset, requirement and labels of each.\<close>

fun resolve_loop ::
  "(string, chain_info) gomap \<Rightarrow> pricing_config \<Rightarrow> route_rule \<Rightarrow> requirement_key list \<Rightarrow> route_payment list \<Rightarrow>
   (chain_info \<times> asset_info \<times> payment_requirements \<times> metric_labels) list" where
  "resolve_loop cs cfg rule seen [] = []"
| "resolve_loop cs cfg rule seen (opt # opts) =
     (case option_requirement cs cfg opt of
        None \<Rightarrow> resolve_loop cs cfg rule seen opts
      | Some (chain, asset, req) \<Rightarrow>
          if requirementKey req \<in> set seen then resolve_loop cs cfg rule seen opts
          else (chain, asset, mergeModelExtra rule (mergeAgentExtras rule req), labelsForPaymentOption rule opt) #
               resolve_loop cs cfg rule (requirementKey req # seen) opts)"

fun first_extensions :: "asset_info list \<Rightarrow> (string, goany) gomap option" where
  "first_extensions [] = None"
| "first_extensions (a # as) =
     (case BuildExtensionsForAsset a of Some e \<Rightarrow> Some e | None \<Rightarrow> first_extensions as)"

definition resolvePaidRoute :: "verifier \<Rightarrow> pricing_config \<Rightarrow> route_rule \<Rightarrow> matched_route option" where
  "resolvePaidRoute v cfg rule =
     (case resolve_loop (the_default [] (v_chains v)) cfg rule [] (PaymentOptions rule) of
        [] \<Rightarrow> None
      | (chain, asset, req, labels) # rest \<Rightarrow>
          (let xs = (chain, asset, req, labels) # rest;
               bazaarType = (if rr_BodyPolicy rule = BodyPolicyLiteLLM then ''inference'' else rr_OfferType rule)
           in Some \<lparr>mr_rule = rule, mr_requirements = map (\<lambda>(c, a, q, l). q) xs, mr_optionLabels = map (\<lambda>(c, a, q, l). l) xs,
                mr_extensions = WithBazaar (first_extensions (map (\<lambda>(c, a, q, l). a) xs)) bazaarType (rr_Model rule),
                mr_chain = chain, mr_asset = asset, mr_labels = labels\<rparr>))"

text \<open>What the payment page of a route shows: the terms of its first requirement.\<close>

definition page_display :: "matched_route \<Rightarrow> payment_display" where
  "page_display mr =
     (let primary = hd (mr_requirements mr)
      in buildPaymentDisplay (mr_rule mr) (mr_chain mr) (mr_asset mr) (pr_payTo primary) (pr_amount primary))"

text \<open>The functions of the middleware, with the renderer of this route.\<close>

definition gate_for :: "verifier_env \<Rightarrow> pricing_config \<Rightarrow> route_rule option \<Rightarrow> matched_route \<Rightarrow> http_request \<Rightarrow> gate_funs" where
  "gate_for env cfg ctx mr r =
     (ve_gate env)\<lparr>gf_send := (\<lambda>failure w.
        NewHTMLAwarePaymentRequired (ve_page env) (ve_tls env) ctx r (page_display mr) (mr_requirements mr)
          (body402 (ve_page env) (ve_tls env) ctx r (pc_FacilitatorURL cfg) (mr_requirements mr) (Some (mr_extensions mr)) failure) w)\<rparr>"

subsection \<open>HandleVerify\<close>

datatype verify_next = VReplied resp_writer | VGate matched_route http_request | VPanics

text \<open>What an allowed request is given: \<open>Authorization\<close> for the upstream and the identity headers.\<close>

definition allow_header :: "route_rule \<Rightarrow> string \<Rightarrow> string \<Rightarrow> header \<Rightarrow> header" where
  "allow_header rule wallet payer h =
     (let h1 = (if rr_UpstreamAuth rule \<noteq> [] then hset ''Authorization'' (rr_UpstreamAuth rule) h else h)
      in hset HeaderPaymentPayer payer (hset HeaderVerifiedWallet wallet h1))"

definition allow :: "route_rule \<Rightarrow> string \<Rightarrow> resp_writer \<Rightarrow> resp_writer" where
  "allow rule wallet w = cw_WriteHeader 200 (w\<lparr>cw_header := allow_header rule wallet [] (cw_header w)\<rparr>)"

definition route_verify :: "verifier_env \<Rightarrow> http_request \<Rightarrow> verifier \<Rightarrow> resp_writer \<Rightarrow> verify_next \<times> verifier" where
  "route_verify env r v w =
     (let h = rq_header r; uri0 = hget h ''X-Forwarded-Uri''; uri = stripQueryFragment uri0 in
      if uri0 = [] then (VReplied (http_Error ''forbidden: missing forwarded URI'' 403 w), v)
      else (case v_config v of None \<Rightarrow> (VPanics, v)
       | Some cfg \<Rightarrow>
        (case matchRoute (pc_Routes cfg) uri of
           None \<Rightarrow>
             if isUnderPaidPrefix v uri then
               (VReplied (http_Error ''no rule matches; route appears to be a paid prefix with stale or missing rule'' 403 w), v)
             else (VReplied (cw_WriteHeader 200 w), v)
         | Some rule \<Rightarrow>
             if \<not> upstreamPathAllowed rule (hget h ''X-Forwarded-Method'') uri then (VReplied (http_Error ''not found'' 404 w), v)
             else if rr_BodyPolicy rule \<noteq> [] then
               (VReplied (http_Error ''this offer is served by the seller gateway only'' 403 w), v)
             else if IsFree rule then (VReplied (allow rule [] w), v)
             else if IsAuth rule then
               (case Authenticate (st_siwx (ve_site env)) h (requestHost r) (ve_now env) (v_siwx v) of
                  (Inl e, A) \<Rightarrow>
                    (VReplied (writeSIWXChallenge (ve_site env) (ve_tls env) (ve_entropy env) (ve_now env) A r rule e w), v\<lparr>v_siwx := A\<rparr>)
                | (Inr wallet, A) \<Rightarrow> (VReplied (allow rule wallet w), v\<lparr>v_siwx := A\<rparr>))
             else
               (case resolvePaidRoute v cfg rule of
                  None \<Rightarrow> (VReplied (http_Error ''route is payment-gated but has no resolvable payment option'' 403 w), v)
                | Some mr \<Rightarrow>
                    (VGate mr (r\<lparr>rq_host := (if hget h ''X-Forwarded-Host'' \<noteq> [] then hget h ''X-Forwarded-Host'' else rq_host r),
                       rq_path := uri,
                       rq_method := (if hget h ''X-Forwarded-Method'' \<noteq> [] then hget h ''X-Forwarded-Method'' else rq_method r)\<rparr>), v)))))"

text \<open>The inner handler of the middleware.\<close>

definition verify_ops :: "route_rule \<Rightarrow> header \<Rightarrow> handler_op list" where
  "verify_ops rule h =
     [HHeaders (let h1 = (if rr_UpstreamAuth rule \<noteq> [] then hset ''Authorization'' (rr_UpstreamAuth rule) h else h);
                    h2 = (if hget h1 HeaderPaymentPayer = [] then hset HeaderPaymentPayer [] h1 else h1)
                in hset HeaderVerifiedWallet [] h2),
      HWriteHeader 200]"

definition verify_config :: "pricing_config \<Rightarrow> forward_auth_config" where
  "verify_config cfg = \<lparr>fa_VerifyOnly = pc_VerifyOnly cfg, fa_SettleOnDelivery = False\<rparr>"

definition HandleVerify ::
  "verifier_env \<Rightarrow> fac_http \<Rightarrow> (nat \<Rightarrow> fac_http) \<Rightarrow> http_request \<Rightarrow> verifier \<Rightarrow> resp_writer \<Rightarrow> resp_writer \<times> verifier" where
  "HandleVerify env http answer r v w =
     (case route_verify env r v w of
        (VReplied w', v') \<Rightarrow> (w', v')
      | (VPanics, v') \<Rightarrow> (w, v')
      | (VGate mr r', v') \<Rightarrow>
          (let cfg = the (v_config v'); gf = gate_for env cfg None mr r';
               ad = admit gf (mr_requirements mr) (ve_now env) http (rq_header r') (Some (v_inUse v'))
           in case ad_result ad of
                Inl reply \<Rightarrow> (write_reply gf reply w, v'\<lparr>v_inUse := the (ad_registry ad)\<rparr>)
              | Inr t \<Rightarrow>
                  (let w1 = set_header HeaderPaymentPayer (tk_payer t) w;
                       i = serve gf (verify_config cfg) answer t (verify_ops (mr_rule mr) (cw_header w1)) False w1
                   in (it_w i, v'\<lparr>v_inUse := the (finish (ve_now env) t i (ad_registry ad))\<rparr>))))"

subsection \<open>HandleProxy\<close>

datatype proxy_next =
    PReplied resp_writer
  | PForward route_rule http_request http_request
  | PGate matched_route http_request bool
  | PUnlock route_rule http_request
  | PPanics

definition no_service :: "verifier_env \<Rightarrow> http_request \<Rightarrow> resp_writer \<Rightarrow> resp_writer" where
  "no_service env r = writeErrorResponse (st_errorPage (ve_site env)) (ve_tls env) r 404 ''No service here''
     ''This path is not part of any published service. The operator's catalog lists every live endpoint.''"

definition upstream_unavailable :: "verifier_env \<Rightarrow> http_request \<Rightarrow> resp_writer \<Rightarrow> resp_writer" where
  "upstream_unavailable env r = writeErrorResponse (st_errorPage (ve_site env)) (ve_tls env) r 500 ''Upstream unavailable''
     ''The service behind this route is not reachable right now. Retry shortly.''"

definition isUnlockOffer :: "pricing_config \<Rightarrow> route_rule \<Rightarrow> bool" where
  "isUnlockOffer cfg rule =
     (case pc_AuthCaptureUnlock cfg of None \<Rightarrow> False
      | Some uc \<Rightarrow> uc_Enabled uc \<and> trim_suffix ''/'' (rr_StripPrefix rule) = trim_suffix ''/'' (uc_OfferPrefix uc))"

definition with_wallet :: "string \<Rightarrow> http_request \<Rightarrow> http_request" where
  "with_wallet wallet r = r\<lparr>rq_header := hset HeaderVerifiedWallet wallet (rq_header r)\<rparr>"

definition with_payer :: "string \<Rightarrow> http_request \<Rightarrow> http_request" where
  "with_payer payer r = r\<lparr>rq_header := hset HeaderPaymentPayer payer (rq_header r)\<rparr>"

definition authenticate :: "verifier_env \<Rightarrow> http_request \<Rightarrow> verifier \<Rightarrow> (siwx_error + string) \<times> verifier" where
  "authenticate env r v =
     (case Authenticate (st_siwx (ve_site env)) (rq_header r) (requestHost r) (ve_now env) (v_siwx v) of
        (res, A) \<Rightarrow> (res, v\<lparr>v_siwx := A\<rparr>))"

text \<open>A free route: a valid credential is passed on, anything else is anonymous.\<close>

definition proxy_free :: "verifier_env \<Rightarrow> route_rule \<Rightarrow> http_request \<Rightarrow> verifier \<Rightarrow> resp_writer \<Rightarrow> proxy_next \<times> verifier" where
  "proxy_free env rule r v w =
     (case buildUpstreamProxy (ve_proxy env) (ve_secret env) rule of
        None \<Rightarrow> (PReplied (upstream_unavailable env r w), v)
      | Some send \<Rightarrow>
          (case authenticate env r v of
             (Inr wallet, v') \<Rightarrow> (PForward rule (with_wallet wallet r) (send (with_wallet wallet r)), v')
           | (Inl e, v') \<Rightarrow> (PForward rule r (send r), v')))"

definition proxy_auth ::
  "verifier_env \<Rightarrow> pricing_config \<Rightarrow> route_rule \<Rightarrow> http_request \<Rightarrow> verifier \<Rightarrow> resp_writer \<Rightarrow> proxy_next \<times> verifier" where
  "proxy_auth env cfg rule r v w =
     (case authenticate env r v of
        (Inl e, v') \<Rightarrow>
          if isUnlockOffer cfg rule then (PUnlock rule r, v')
          else (PReplied (writeSIWXChallenge (ve_site env) (ve_tls env) (ve_entropy env) (ve_now env) (v_siwx v') r rule e w), v')
      | (Inr wallet, v') \<Rightarrow>
          (case buildUpstreamProxy (ve_proxy env) (ve_secret env) rule of
             None \<Rightarrow> (PReplied (upstream_unavailable env r w), v')
           | Some send \<Rightarrow> (PForward rule (with_wallet wallet r) (send (with_wallet wallet r)), v')))"

text \<open>A paid route: the free quota first, then the payment middleware.\<close>

definition proxy_paid ::
  "verifier_env \<Rightarrow> pricing_config \<Rightarrow> route_rule \<Rightarrow> bool \<Rightarrow> http_request \<Rightarrow> verifier \<Rightarrow> resp_writer \<Rightarrow> proxy_next \<times> verifier" where
  "proxy_paid env cfg rule previewOnly r v w =
     (case resolvePaidRoute v cfg rule of
        None \<Rightarrow> (PReplied (writeErrorResponse (st_errorPage (ve_site env)) (ve_tls env) r 403 ''Route misconfigured''
                   ''route is payment-gated but has no resolvable payment option'' w), v)
      | Some mr \<Rightarrow>
          (case buildUpstreamProxy (ve_proxy env) (ve_secret env) (mr_rule mr) of
             None \<Rightarrow> (PReplied (http_Error ''upstream unavailable'' 500 w), v)
           | Some send \<Rightarrow>
               if rr_FreeQuota rule > 0 \<and> \<not> previewOnly then
                 (case authenticate env r v of
                    (Inl e, v') \<Rightarrow> (PGate mr r previewOnly, v')
                  | (Inr wallet, v') \<Rightarrow>
                      (case consume_quota (rr_Pattern rule) wallet (rr_FreeQuota rule) (take 10 (rfc3339 (ve_now env))) (v_quota v') of
                         (q, ok) \<Rightarrow>
                           if ok then
                             (PForward rule (with_payer wallet (with_wallet wallet r)) (send (with_payer wallet (with_wallet wallet r))),
                              v'\<lparr>v_quota := q\<rparr>)
                           else (PGate mr r previewOnly, v'\<lparr>v_quota := q\<rparr>)))
               else (PGate mr r previewOnly, v)))"

text \<open>Dispatch on the gate of a rule whose path and body were admitted.\<close>

definition proxy_gate ::
  "verifier_env \<Rightarrow> pricing_config \<Rightarrow> route_rule \<Rightarrow> bool \<Rightarrow> http_request \<Rightarrow> verifier \<Rightarrow> resp_writer \<Rightarrow> proxy_next \<times> verifier" where
  "proxy_gate env cfg rule previewOnly r v w =
     (if IsFree rule then proxy_free env rule r v w
      else if IsAuth rule then proxy_auth env cfg rule r v w
      else proxy_paid env cfg rule previewOnly r v w)"

text \<open>\<open>escaped\<close> is \<open>r.URL.EscapedPath()\<close>; \<open>body_entropy\<close> the random bytes of the body policy.\<close>

definition route_proxy ::
  "verifier_env \<Rightarrow> string option \<Rightarrow> string \<Rightarrow> http_request \<Rightarrow> verifier \<Rightarrow> resp_writer \<Rightarrow> proxy_next \<times> verifier" where
  "route_proxy env body_entropy escaped r0 v w =
     (let r = r0\<lparr>rq_header := stripIdentityHeaders (rq_header r0)\<rparr> in
      case handleAuthEndpoints (ve_site env) (ve_tls env) (ve_now env) r v w of
        Some (v', w') \<Rightarrow> (PReplied w', v')
      | None \<Rightarrow>
       (case v_config v of None \<Rightarrow> (PPanics, v)
        | Some cfg \<Rightarrow>
         (case matchRoute (pc_Routes cfg) (rq_path r) of
            None \<Rightarrow> (PReplied (no_service env r w), v)
          | Some rule \<Rightarrow>
              (let hadPayment = payment_header (rq_header r) \<noteq> [];
                   allowed = upstreamPathAllowed rule (rq_method r) escaped
               in if \<not> allowed \<and> \<not> paywallPreview rule (rq_method r) escaped hadPayment
                  then (PReplied (no_service env r w), v)
                  else if \<not> allowed then
                    (case checkBodyPolicyConfig rule of
                       Some e \<Rightarrow> (PReplied (writeBodyPolicyError (st_errorPage (ve_site env)) (ve_tls env) r e w), v)
                     | None \<Rightarrow> proxy_gate env cfg rule True r v w)
                  else
                    (case applyBodyPolicy body_entropy rule r of
                       Inl e \<Rightarrow> (PReplied (writeBodyPolicyError (st_errorPage (ve_site env)) (ve_tls env) r e w), v)
                     | Inr r' \<Rightarrow> proxy_gate env cfg rule False r' v w)))))"

text \<open>The request that goes upstream for a payment that the middleware admitted; a preview is never sent.\<close>

definition paid_forward :: "verifier_env \<Rightarrow> matched_route \<Rightarrow> http_request \<Rightarrow> bool \<Rightarrow> ticket \<Rightarrow> http_request option" where
  "paid_forward env mr r previewOnly t =
     (if previewOnly then None
      else map_option (\<lambda>send. send (if tk_payer t \<noteq> [] then with_payer (tk_payer t) r else r))
             (buildUpstreamProxy (ve_proxy env) (ve_secret env) (mr_rule mr)))"

definition proxy_config :: "verifier_env \<Rightarrow> route_rule \<Rightarrow> http_request \<Rightarrow> forward_auth_config" where
  "proxy_config env rule r = \<lparr>fa_VerifyOnly = False, fa_SettleOnDelivery = settlesOnDelivery (ve_proxy env) (Some rule) r\<rparr>"

end
