(* ===== verification/VerifierSafety.thy ===== *)
theory VerifierSafety imports VerifierEndpoints begin

text \<open>
  What the verifier lets through: the requests that reach an upstream, the identity they carry, and the
  answers of the ForwardAuth check.
\<close>

subsection \<open>Headers\<close>

lemma hget_fold_hdel: "hget (fold hdel ks h) k = (if list_ex (equal_fold k) ks then [] else hget h k)"
  by (induction ks arbitrary: h) auto

lemma hget_set_header [simp]: "hget (cw_header (set_header k v w)) k' = (if equal_fold k' k then v else hget (cw_header w) k')"
  by (simp add: set_header_def)

text \<open>The identity that a header claims: the verified wallet and the payer.\<close>

definition identity :: "header \<Rightarrow> string \<times> string" where
  "identity h = (hget h HeaderVerifiedWallet, hget h HeaderPaymentPayer)"

lemma identity_names:
  "equal_fold HeaderVerifiedWallet HeaderVerifiedWallet" "equal_fold HeaderPaymentPayer HeaderPaymentPayer"
  "\<not> equal_fold HeaderPaymentPayer HeaderVerifiedWallet" "\<not> equal_fold HeaderVerifiedWallet HeaderPaymentPayer"
  by (simp_all add: equal_fold_def) code_simp+

lemma identity_wallet [simp]: "identity (rq_header (with_wallet a r)) = (a, snd (identity (rq_header r)))"
  by (simp add: identity_def with_wallet_def identity_names)

lemma identity_payer [simp]: "identity (rq_header (with_payer a r)) = (fst (identity (rq_header r)), a)"
  by (simp add: identity_def with_payer_def identity_names)

lemma identity_stripped [simp]: "identity (stripIdentityHeaders h) = ([], [])"
  by (simp add: identity_def stripIdentityHeaders_def hget_fold_hdel identity_headers_def identity_names)

lemma hget_drop_headers: "\<not> has_prefix p (to_lower k) \<Longrightarrow> hget (drop_headers p h) k = hget h k"
  by (induction h) (auto simp: drop_headers_def hget_def)

text \<open>No body policy touches the identity.\<close>

lemma identity_setJSONBody: "identity (rq_header (setJSONBody r doc)) = identity (rq_header r)"
proof -
  have "\<not> equal_fold k n" if "k \<in> {HeaderVerifiedWallet, HeaderPaymentPayer}" "n \<in> {''Content-Type'', ''Content-Encoding'', ''Content-Length''}"
    for k n
    using that by (auto simp: equal_fold_def HeaderVerifiedWallet_def HeaderPaymentPayer_def to_lower_def)
  then show ?thesis by (simp add: identity_def setJSONBody_def Let_def)
qed

lemma identity_drop_headers:
  "p \<in> {''x-litellm-'', ''x-hermes-''} \<Longrightarrow> identity (drop_headers p h) = identity h"
proof -
  assume "p \<in> {''x-litellm-'', ''x-hermes-''}"
  then have "\<not> has_prefix p (to_lower HeaderVerifiedWallet)" "\<not> has_prefix p (to_lower HeaderPaymentPayer)"
    by (auto simp: HeaderVerifiedWallet_def HeaderPaymentPayer_def to_lower_def)
  then show ?thesis by (simp add: identity_def hget_drop_headers)
qed

lemma identity_hdel_key: "identity (hdel ''Idempotency-Key'' h) = identity h"
  by (simp add: identity_def equal_fold_def HeaderVerifiedWallet_def HeaderPaymentPayer_def to_lower_def)

lemma identity_policy: "applyBodyPolicy e rule r = Inr r' \<Longrightarrow> identity (rq_header r') = identity (rq_header r)"
  by (auto simp: applyBodyPolicy_def applyLiteLLMBodyPolicy_def applyAgentBodyPolicy_def Let_def
      identity_setJSONBody identity_drop_headers identity_hdel_key split: option.splits sum.splits if_splits)

subsection \<open>Requests that are forwarded without a payment\<close>

text \<open>The credential that opens a rule without payment: \<open>inn\<close> is the request as it is handed to the proxy.\<close>

definition opened :: "verifier_env \<Rightarrow> route_rule \<Rightarrow> http_request \<Rightarrow> verifier \<Rightarrow> http_request \<Rightarrow> bool" where
  "opened env rule r v inn =
     (case fst (authenticate env r v) of
        Inl e \<Rightarrow> IsFree rule \<and> inn = r
      | Inr wallet \<Rightarrow>
          if IsFree rule \<or> IsAuth rule then inn = with_wallet wallet r
          else rr_FreeQuota rule > 0 \<and> inn = with_payer wallet (with_wallet wallet r) \<and>
               snd (consume_quota (rr_Pattern rule) wallet (rr_FreeQuota rule) (take 10 (rfc3339 (ve_now env)))
                 (v_quota (snd (authenticate env r v)))))"

lemma proxy_gate_forward:
  assumes "proxy_gate env cfg rule0 preview r v w = (PForward rule inn out, v')"
    and "preview \<longrightarrow> \<not> IsFree rule0 \<and> \<not> IsAuth rule0"
  shows "rule = rule0 \<and> \<not> preview \<and> opened env rule r v inn \<and>
    (\<exists>send. buildUpstreamProxy (ve_proxy env) (ve_secret env) rule = Some send \<and> out = send inn)"
proof -
  obtain res v1 where a: "authenticate env r v = (res, v1)" by (rule prod.exhaust)
  have mr: "mr_rule mr = rule0" if "resolvePaidRoute v cfg rule0 = Some mr" for mr
    using that by (auto simp: resolvePaidRoute_def Let_def split: list.splits)
  show ?thesis
    using assms
    by (auto simp: proxy_gate_def proxy_free_def proxy_auth_def proxy_paid_def opened_def a mr
        split: option.splits sum.splits prod.splits if_splits)
qed

lemma paywallPreview_gate: "paywallPreview rule m e h \<Longrightarrow> \<not> IsFree rule \<and> \<not> IsAuth rule"
  by (auto simp: paywallPreview_def split: if_splits)

definition stripped :: "http_request \<Rightarrow> http_request" where
  "stripped r = r\<lparr>rq_header := stripIdentityHeaders (rq_header r)\<rparr>"

lemma route_proxy_forward:
  assumes "route_proxy env be escaped r v w = (PForward rule inn out, v')"
  shows "\<exists>cfg r1. v_config v = Some cfg \<and> matchRoute (pc_Routes cfg) (rq_path r) = Some rule \<and>
    upstreamPathAllowed rule (rq_method r) escaped \<and> applyBodyPolicy be rule (stripped r) = Inr r1 \<and>
    opened env rule r1 v inn \<and> (\<exists>send. buildUpstreamProxy (ve_proxy env) (ve_secret env) rule = Some send \<and> out = send inn)"
proof -
  from assms have h: "handleAuthEndpoints (ve_site env) (ve_tls env) (ve_now env) (stripped r) v w = None"
    by (auto simp: route_proxy_def Let_def stripped_def split: option.splits)
  obtain cfg where c: "v_config v = Some cfg"
    using assms h by (auto simp: route_proxy_def Let_def stripped_def split: option.splits)
  obtain rl where m: "matchRoute (pc_Routes cfg) (rq_path r) = Some rl"
    using assms h c by (auto simp: route_proxy_def Let_def stripped_def split: option.splits)
  show ?thesis
  proof (cases "upstreamPathAllowed rl (rq_method r) escaped")
    case True
    then obtain r1 where p: "applyBodyPolicy be rl (stripped r) = Inr r1" "proxy_gate env cfg rl False r1 v w = (PForward rule inn out, v')"
      using assms h c m by (auto simp: route_proxy_def Let_def stripped_def split: option.splits sum.splits if_splits)
    show ?thesis using proxy_gate_forward [OF p(2)] True p(1) c m by auto
  next
    case False
    then have "paywallPreview rl (rq_method r) escaped (payment_header (rq_header (stripped r)) \<noteq> [])"
        "proxy_gate env cfg rl True (stripped r) v w = (PForward rule inn out, v')"
      using assms h c m by (auto simp: route_proxy_def Let_def stripped_def split: option.splits sum.splits if_splits)
    then show ?thesis using proxy_gate_forward paywallPreview_gate by blast
  qed
qed

text \<open>What the reverse proxy sends on of a header is absent or unchanged.\<close>

lemma hget_proxy_out:
  assumes "\<not> equal_fold k ''Te''" "\<not> equal_fold k ''Upgrade''" "\<not> equal_fold k ''Connection''"
  shows "hget (proxy_out_header h) k \<in> {[], hget h k}"
  using assms by (simp add: proxy_out_header_def Let_def hget_fold_hdel)

lemma identity_out:
  "hget (rq_header (rewrite_request px secret rule target inn)) HeaderVerifiedWallet \<in> {[], fst (identity (rq_header inn))}"
  "hget (rq_header (rewrite_request px secret rule target inn)) HeaderPaymentPayer \<in> {[], snd (identity (rq_header inn))}"
proof -
  have names: "\<not> equal_fold k n"
    if "k \<in> {HeaderVerifiedWallet, HeaderPaymentPayer}"
      and "n \<in> {''Te'', ''Upgrade'', ''Connection'', ''Content-Length'', ''Authorization'', headerBrokerUpstreamURL, headerBrokerOffer,
        headerBrokerPayTo, headerBrokerJobTTL, headerBrokerVisibility, headerBrokerPublicPrefix, headerBrokerUpstreamAuth, headerBrokerSig}"
    for k n
    using that by (auto simp: equal_fold_def HeaderVerifiedWallet_def HeaderPaymentPayer_def to_lower_def headerBrokerUpstreamURL_def
      headerBrokerOffer_def headerBrokerPayTo_def headerBrokerJobTTL_def headerBrokerVisibility_def headerBrokerPublicPrefix_def
      headerBrokerUpstreamAuth_def headerBrokerSig_def)
  have "hget (rq_header (injectAgentPayerContext rule inn o1)) k = hget (rq_header o1) k"
    if "k \<in> {HeaderVerifiedWallet, HeaderPaymentPayer}" for k o1
    using names [OF that, of "''Content-Length''"] by (auto simp: injectAgentPayerContext_def Let_def split: option.splits)
  moreover have "hget (rewrite_header px secret rule inn) k \<in> {[], hget (rq_header inn) k}"
    if k: "k \<in> {HeaderVerifiedWallet, HeaderPaymentPayer}" for k
  proof -
    have "hget (proxy_out_header (rq_header inn)) k \<in> {[], hget (rq_header inn) k}"
      by (rule hget_proxy_out) (use names [OF k] in simp_all)
    then show ?thesis
      using names [OF k] by (auto simp: rewrite_header_def broker_headers_def Let_def hget_fold_hdel)
  qed
  ultimately show "hget (rq_header (rewrite_request px secret rule target inn)) HeaderVerifiedWallet \<in> {[], fst (identity (rq_header inn))}"
    and "hget (rq_header (rewrite_request px secret rule target inn)) HeaderPaymentPayer \<in> {[], snd (identity (rq_header inn))}"
    by (simp_all add: rewrite_request_def identity_def)
qed

subsection \<open>Sample data\<close>

definition sample_site :: site_funs where
  "sample_site = \<lparr>st_errorPage = (\<lambda>u s t d. d), st_siwxPage = (\<lambda>u r h v n x. []), st_quote = (\<lambda>s. s),
     st_parseURL = (\<lambda>s. Some ([], [])), st_duration = (\<lambda>d. []), st_siwxSchema = JNull, st_wrapped = (\<lambda>e. []),
     st_siwx = \<lparr>sf_recover = (\<lambda>m s. None), sf_hmac = (\<lambda>k m. k @ m), sf_ParseHeader = (\<lambda>h. None), sf_CreateMessage = (\<lambda>p. None)\<rparr>\<rparr>"

definition sample_page :: page_funs where
  "sample_page = \<lparr>pf_page = (\<lambda>v. Some []), pf_marshal = (\<lambda>b. ''{}''), pf_hostname = (\<lambda>u. None), pf_special_ip = (\<lambda>h. None)\<rparr>"

definition sample_proxy :: proxy_funs where
  "sample_proxy = \<lparr>px_parse = (\<lambda>u. Some \<lparr>uu_Scheme = ''http'', uu_Host = u, uu_Hostname = u, uu_Path = []\<rparr>), px_hmac = (\<lambda>k m. k @ m)\<rparr>"

definition sample_paid :: route_rule where
  "sample_paid = empty_rule\<lparr>rr_Pattern := ''/services/p/*'', rr_StripPrefix := ''/services/p'', rr_UpstreamURL := ''u'',
     rr_Price := ''0.001'', rr_PayTo := ''0xB'', rr_Network := ''base'', rr_OfferName := ''p''\<rparr>"

definition sample_free :: route_rule where
  "sample_free = sample_paid\<lparr>rr_Pattern := ''/services/p/health'', rr_Gate := ''free''\<rparr>"

definition sample_config :: pricing_config where
  "sample_config = defaultPricingConfig\<lparr>pc_Routes := [sample_free, sample_paid], pc_VerifyOnly := True\<rparr>"

definition sample_verifier :: verifier where
  "sample_verifier = \<lparr>v_config = Some sample_config, v_chains = Some [(''base'', ChainBaseMainnet)], v_routesLoaded = True,
     v_paidPrefixes = Some [''/services/p/''], v_siwx = \<lparr>au_window = minute, au_sessionTTL = hour, au_secret = ''s'', au_nonces = []\<rparr>,
     v_quota = newFreeQuotaCounter, v_inUse = NewPaymentInUseRegistry\<lparr>ir_maxEntries := 2, ir_settledCap := minute\<rparr>\<rparr>"

definition sample_payload :: payment_payload where
  "sample_payload = \<lparr>pp_x402Version = 2,
     pp_payload = [(''authorization'', GMap [(''from'', GStr ''0xC''), (''nonce'', GStr ''0x01''), (''validBefore'', GStr ''5000'')])],
     pp_accepted = buildV2RequirementAtomic ChainBaseMainnet (DefaultAsset ChainBaseMainnet) ''1000'' ''0xB'' 0,
     pp_resource = None, pp_extensions = []\<rparr>"

definition sample_gate :: gate_funs where
  "sample_gate = \<lparr>gf_to_payload = (\<lambda>_. Some sample_payload), gf_to_accepted = (\<lambda>_. None), gf_show_float = (\<lambda>_. []),
     gf_format_float = (\<lambda>_. []), gf_sha256 = (\<lambda>s. s), gf_gunzip = (\<lambda>_. None), gf_quote = (\<lambda>s. s), gf_send = (\<lambda>_ w. w)\<rparr>"

definition sample_env :: verifier_env where
  "sample_env = \<lparr>ve_site = sample_site, ve_gate = sample_gate, ve_page = sample_page, ve_proxy = sample_proxy, ve_secret = ''k'',
     ve_entropy = None, ve_tls = False, ve_now = 0\<rparr>"

definition sample_writer :: resp_writer where
  "sample_writer = \<lparr>cw_header = [], cw_status = None, cw_sent = [], cw_body = [], cw_info = [], cw_faults = [], cw_raw = None\<rparr>"

text \<open>A buyer's request; it claims an identity of its own, and pays if \<open>pay\<close>.\<close>

definition sample_request :: "string \<Rightarrow> bool \<Rightarrow> http_request" where
  "sample_request path pay = \<lparr>rq_method = ''GET'', rq_host = ''h'', rq_path = path, rq_rawQuery = [],
     rq_header = (if pay then [(''x-payment'', [''e30=''])] else []) @ [(''x-verified-wallet'', [''0xEE'']), (''x-payment-payer'', [''0xEE''])],
     rq_body = NoBody\<rparr>"

definition sample_answer :: fac_http where
  "sample_answer = FacAnswer 200 (json_print (JObj [(''isValid'', JBool True), (''payer'', JStr ''0xC'')]))"

fun is_forward :: "proxy_next \<Rightarrow> bool" where
  "is_forward (PForward _ _ _) = True"
| "is_forward _ = False"

lemma is_forward_ex: "is_forward n \<Longrightarrow> \<exists>rule inn out. n = PForward rule inn out"
  by (cases n) auto

lemma sample_forward:
  "is_forward (fst (route_proxy sample_env None ''/services/p/health'' (sample_request ''/services/p/health'' False) sample_verifier sample_writer))"
  by code_simp

fun is_gate :: "proxy_next \<Rightarrow> bool" where
  "is_gate (PGate _ _ b) = (\<not> b)"
| "is_gate _ = False"

lemma sample_gated:
  "is_gate (fst (route_proxy sample_env None ''/services/p/x'' (sample_request ''/services/p/x'' True) sample_verifier sample_writer))"
  by code_simp

definition sample_route :: matched_route where
  "sample_route = the (resolvePaidRoute sample_verifier sample_config sample_paid)"

lemma sample_admitted:
  "is_ok (ad_result (admit sample_gate (mr_requirements sample_route) 0 sample_answer (rq_header (sample_request ''/services/p/x'' True))
     (Some (v_inUse sample_verifier))))"
  by code_simp

subsection \<open>Properties\<close>

text \<open>C4: No upstream is reached for free except through a gate.  A request that the gateway forwards without a
  payment matched a rule that is free, or one whose wallet check it passed, or a paid one whose free quota
  the proven wallet had left; its path was allowed and its body went through the policy of the rule.  The
  identity that it carries is the proven wallet or nothing, whatever the client claimed.\<close>

theorem forwarded_only_if_opened:
  assumes "route_proxy env be escaped r v w = (PForward rule inn out, v')"
  shows "\<exists>cfg r1. v_config v = Some cfg \<and> matchRoute (pc_Routes cfg) (rq_path r) = Some rule \<and>
    upstreamPathAllowed rule (rq_method r) escaped \<and> applyBodyPolicy be rule (stripped r) = Inr r1 \<and>
    (case fst (authenticate env r1 v) of
       Inl e \<Rightarrow> IsFree rule \<and> identity (rq_header inn) = ([], [])
     | Inr wallet \<Rightarrow>
         if IsFree rule \<or> IsAuth rule then identity (rq_header inn) = (wallet, [])
         else identity (rq_header inn) = (wallet, wallet) \<and> 0 < rr_FreeQuota rule \<and>
           snd (consume_quota (rr_Pattern rule) wallet (rr_FreeQuota rule) (take 10 (rfc3339 (ve_now env)))
             (v_quota (snd (authenticate env r1 v))))) \<and>
    hget (rq_header out) HeaderVerifiedWallet \<in> {[], fst (identity (rq_header inn))} \<and>
    hget (rq_header out) HeaderPaymentPayer \<in> {[], snd (identity (rq_header inn))}"
proof -
  obtain cfg r1 send where f: "v_config v = Some cfg" "matchRoute (pc_Routes cfg) (rq_path r) = Some rule"
      "upstreamPathAllowed rule (rq_method r) escaped" "applyBodyPolicy be rule (stripped r) = Inr r1" "opened env rule r1 v inn"
      "buildUpstreamProxy (ve_proxy env) (ve_secret env) rule = Some send" "out = send inn"
    using route_proxy_forward [OF assms] by blast
  have r1: "identity (rq_header r1) = ([], [])" using identity_policy [OF f(4)] by (simp add: stripped_def)
  obtain target where "send = rewrite_request (ve_proxy env) (ve_secret env) rule target"
    using f(6) by (auto simp: buildUpstreamProxy_def split: option.splits)
  with f r1 identity_out [of "ve_proxy env" "ve_secret env" rule target inn] show ?thesis
    by (intro exI [of _ cfg] exI [of _ r1]) (auto simp: opened_def split: sum.splits if_splits)
qed

theorem forwarded_only_if_opened_witness:
  "\<exists>rule inn out v' cfg.
    route_proxy sample_env None ''/services/p/health'' (sample_request ''/services/p/health'' False) sample_verifier sample_writer =
      (PForward rule inn out, v') \<and>
    v_config sample_verifier = Some cfg \<and> matchRoute (pc_Routes cfg) ''/services/p/health'' = Some rule \<and>
    identity (rq_header inn) = (fst (identity (rq_header inn)), []) \<and> hget (rq_header out) HeaderPaymentPayer = []"
proof -
  obtain n v' where e: "route_proxy sample_env None ''/services/p/health'' (sample_request ''/services/p/health'' False)
      sample_verifier sample_writer = (n, v')"
    by (rule prod.exhaust)
  then have "is_forward n" using sample_forward by simp
  then obtain rule inn out where n: "n = PForward rule inn out" using is_forward_ex by blast
  have m: "matchRoute (pc_Routes sample_config) ''/services/p/health'' = Some sample_free" by code_simp
  have fr: "IsFree sample_free" by code_simp
  have path: "rq_path (sample_request ''/services/p/health'' False) = ''/services/p/health''" by (simp add: sample_request_def)
  have c: "v_config sample_verifier = Some sample_config" by (simp add: sample_verifier_def)
  obtain cfg r1 where f: "v_config sample_verifier = Some cfg"
      "matchRoute (pc_Routes cfg) (rq_path (sample_request ''/services/p/health'' False)) = Some rule"
      "case fst (authenticate sample_env r1 sample_verifier) of
         Inl e \<Rightarrow> IsFree rule \<and> identity (rq_header inn) = ([], [])
       | Inr wallet \<Rightarrow>
           if IsFree rule \<or> IsAuth rule then identity (rq_header inn) = (wallet, [])
           else identity (rq_header inn) = (wallet, wallet) \<and> 0 < rr_FreeQuota rule \<and>
             snd (consume_quota (rr_Pattern rule) wallet (rr_FreeQuota rule) (take 10 (rfc3339 (ve_now sample_env)))
               (v_quota (snd (authenticate sample_env r1 sample_verifier))))"
      "hget (rq_header out) HeaderPaymentPayer \<in> {[], snd (identity (rq_header inn))}"
    using forwarded_only_if_opened [OF e [unfolded n]] by blast
  have r: "rule = sample_free" "cfg = sample_config" using f(1,2) c m path by simp_all
  then have "snd (identity (rq_header inn)) = []" using f(3) fr by (auto split: sum.splits)
  moreover from this f(4) have "hget (rq_header out) HeaderPaymentPayer = []" by simp
  ultimately show ?thesis
    using e n c m r by (intro exI [of _ rule] exI [of _ inn] exI [of _ out] exI [of _ v'] exI [of _ sample_config]) (auto simp: prod_eq_iff)
qed

text \<open>The rule, the request and the options with which the payment middleware starts.\<close>

lemma route_proxy_gate:
  assumes "route_proxy env be escaped r v w = (PGate mr inn preview, v')"
  shows "\<exists>cfg rule. v_config v = Some cfg \<and> matchRoute (pc_Routes cfg) (rq_path r) = Some rule \<and> \<not> IsFree rule \<and> \<not> IsAuth rule \<and>
    resolvePaidRoute v cfg rule = Some mr \<and> mr_rule mr = rule \<and> identity (rq_header inn) = ([], []) \<and>
    (\<not> preview \<longrightarrow> upstreamPathAllowed rule (rq_method r) escaped \<and> applyBodyPolicy be rule (stripped r) = Inr inn)"
proof -
  from assms have h: "handleAuthEndpoints (ve_site env) (ve_tls env) (ve_now env) (stripped r) v w = None"
    by (auto simp: route_proxy_def Let_def stripped_def split: option.splits)
  obtain cfg where c: "v_config v = Some cfg"
    using assms h by (auto simp: route_proxy_def Let_def stripped_def split: option.splits)
  obtain rule where m: "matchRoute (pc_Routes cfg) (rq_path r) = Some rule"
    using assms h c by (auto simp: route_proxy_def Let_def stripped_def split: option.splits)
  obtain p r1 where g: "proxy_gate env cfg rule p r1 v w = (PGate mr inn preview, v')"
      and r1: "if p then r1 = stripped r else upstreamPathAllowed rule (rq_method r) escaped \<and> applyBodyPolicy be rule (stripped r) = Inr r1"
    using assms h c m by (auto simp: route_proxy_def Let_def stripped_def split: option.splits sum.splits if_splits)
  have i: "identity (rq_header r1) = ([], [])"
    using r1 identity_policy by (cases p) (auto simp: stripped_def)
  obtain res v1 where a: "authenticate env r1 v = (res, v1)" by (rule prod.exhaust)
  have mr: "resolvePaidRoute v cfg rule = Some m' \<Longrightarrow> mr_rule m' = rule" for m'
    by (auto simp: resolvePaidRoute_def Let_def split: list.splits)
  have "\<not> IsFree rule \<and> \<not> IsAuth rule \<and> resolvePaidRoute v cfg rule = Some mr \<and> inn = r1 \<and> preview = p"
    using g by (auto simp: proxy_gate_def proxy_free_def proxy_auth_def proxy_paid_def a split: option.splits sum.splits prod.splits if_splits)
  with c m mr i r1 show ?thesis by auto
qed

text \<open>The middleware's renderer has no part in the admission, and the way to the gate keeps the payment header.\<close>

lemma admit_gate_for: "admit (gate_for env cfg ctx mr r) = admit (ve_gate env)"
  by (intro ext) (simp add: admit_def refuse_def invalid_header_def no_match_def verify_and_claim_def payment_invalid_def
    gate_for_def Let_def split: option.split sum.split)

lemma payment_names:
  "list_all (\<lambda>k. list_all (\<lambda>n. \<not> equal_fold k n) ([''Content-Type'', ''Content-Encoding'', ''Content-Length'', ''Idempotency-Key''] @ identity_headers) \<and>
    \<not> has_prefix ''x-litellm-'' (to_lower k) \<and> \<not> has_prefix ''x-hermes-'' (to_lower k)) [''X-PAYMENT'', ''PAYMENT-SIGNATURE'']"
  by code_simp

lemma payment_setJSONBody: "payment_header (rq_header (setJSONBody r doc)) = payment_header (rq_header r)"
  using payment_names by (simp add: payment_header_def setJSONBody_def Let_def)

lemma payment_drop_headers: "p \<in> {''x-litellm-'', ''x-hermes-''} \<Longrightarrow> payment_header (drop_headers p h) = payment_header h"
  using payment_names by (auto simp: payment_header_def hget_drop_headers)

lemma payment_hdel_key: "payment_header (hdel ''Idempotency-Key'' h) = payment_header h"
  using payment_names by (simp add: payment_header_def)

lemma payment_stripped: "payment_header (stripIdentityHeaders h) = payment_header h"
  using payment_names by (simp add: payment_header_def stripIdentityHeaders_def hget_fold_hdel list_all_iff list_ex_iff)

lemma payment_header_kept: "applyBodyPolicy e rule (stripped r) = Inr r' \<Longrightarrow> payment_header (rq_header r') = payment_header (rq_header r)"
  by (auto simp: applyBodyPolicy_def applyLiteLLMBodyPolicy_def applyAgentBodyPolicy_def Let_def stripped_def
      payment_setJSONBody payment_drop_headers payment_hdel_key payment_stripped split: option.splits sum.splits if_splits)

text \<open>C14: A request that reaches an upstream through the payment middleware was paid for and says who paid.  The
  requirements are those that the configuration gives for the rule that its path matches; that rule asks for
  payment and admitted the path and the body.  The payment is the one of the request's own payment header,
  it names one of these requirements, the facilitator was sent exactly its bytes (after the repair of the
  signature's recovery byte, where it needs one) with that requirement and accepted, and the only identity that can reach the upstream is the
  payer that the facilitator reported.\<close>

theorem paid_request_identity:
  assumes "route_proxy env be escaped r v w = (PGate mr inn preview, v')"
    and "ad_result (admit (gate_for env cfg ctx mr inn) (mr_requirements mr) now http (rq_header inn) reg) = Inr t"
    and "paid_forward env mr inn preview t = Some out"
  shows "(\<exists>conf. v_config v = Some conf \<and> matchRoute (pc_Routes conf) (rq_path r) = Some (mr_rule mr) \<and>
      resolvePaidRoute v conf (mr_rule mr) = Some mr) \<and>
    upstreamPathAllowed (mr_rule mr) (rq_method r) escaped \<and> applyBodyPolicy be (mr_rule mr) (stripped r) = Inr inn \<and>
    \<not> IsFree (mr_rule mr) \<and> \<not> IsAuth (mr_rule mr) \<and>
    paid_by (ve_gate env) (rq_header r) t \<and>
    findMatchingRequirementV1 (tk_payload t) (mr_requirements mr) = Some (tk_req t) \<and>
    ad_verifyCall (admit (gate_for env cfg ctx mr inn) (mr_requirements mr) now http (rq_header inn) reg) =
      Some (tk_verifyPayload t, tk_req t) \<and> payment_verified t http \<and>
    hget (rq_header out) HeaderPaymentPayer \<in> {[], tk_payer t} \<and> hget (rq_header out) HeaderVerifiedWallet = []"
proof -
  obtain conf rule where g: "v_config v = Some conf" "matchRoute (pc_Routes conf) (rq_path r) = Some rule"
      "\<not> IsFree rule" "\<not> IsAuth rule" "resolvePaidRoute v conf rule = Some mr" "mr_rule mr = rule" "identity (rq_header inn) = ([], [])"
      "\<not> preview \<longrightarrow> upstreamPathAllowed rule (rq_method r) escaped \<and> applyBodyPolicy be rule (stripped r) = Inr inn"
    using route_proxy_gate [OF assms(1)] by auto
  note a = admit_paid_by [OF assms(2) [unfolded admit_gate_for]]
  define sent where "sent = (if tk_payer t \<noteq> [] then with_payer (tk_payer t) inn else inn)"
  obtain target where o: "\<not> preview" "out = rewrite_request (ve_proxy env) (ve_secret env) rule target sent"
    using assms(3) g(6) by (auto simp: paid_forward_def buildUpstreamProxy_def sent_def split: if_splits option.splits)
  have body: "applyBodyPolicy be rule (stripped r) = Inr inn" using g(8) o(1) by blast
  have "paid_by (ve_gate env) (rq_header r) t" using a(1) payment_header_kept [OF body] by (simp add: paid_by_def)
  moreover have "identity (rq_header sent) = ([], tk_payer t)" using g(7) by (simp add: sent_def)
  ultimately show ?thesis
    using identity_out [of "ve_proxy env" "ve_secret env" rule target sent] g a o by (auto simp: admit_gate_for)
qed

definition sample_paid_run :: bool where
  "sample_paid_run =
     (case fst (route_proxy sample_env None ''/services/p/x'' (sample_request ''/services/p/x'' True) sample_verifier sample_writer) of
        PGate mr inn preview \<Rightarrow>
          (case ad_result (admit (gate_for sample_env sample_config None mr inn) (mr_requirements mr) 0 sample_answer (rq_header inn) None) of
             Inr t \<Rightarrow> paid_forward sample_env mr inn preview t \<noteq> None | Inl _ \<Rightarrow> False)
      | _ \<Rightarrow> False)"

lemma sample_paid_run: sample_paid_run
  by code_simp

theorem paid_request_identity_witness:
  "\<exists>mr inn v' t out.
    route_proxy sample_env None ''/services/p/x'' (sample_request ''/services/p/x'' True) sample_verifier sample_writer = (PGate mr inn False, v') \<and>
    resolvePaidRoute sample_verifier sample_config sample_paid = Some mr \<and>
    paid_forward sample_env mr inn False t = Some out \<and>
    paid_by sample_gate (rq_header (sample_request ''/services/p/x'' True)) t \<and> payment_verified t sample_answer \<and>
    hget (rq_header out) HeaderPaymentPayer \<in> {[], tk_payer t} \<and> hget (rq_header out) HeaderVerifiedWallet = []"
proof -
  obtain n v' where e: "route_proxy sample_env None ''/services/p/x'' (sample_request ''/services/p/x'' True) sample_verifier sample_writer = (n, v')"
    by (rule prod.exhaust)
  obtain mr inn preview t out where p: "n = PGate mr inn preview"
      "ad_result (admit (gate_for sample_env sample_config None mr inn) (mr_requirements mr) 0 sample_answer (rq_header inn) None) = Inr t"
      "paid_forward sample_env mr inn preview t = Some out"
    using sample_paid_run e by (auto simp: sample_paid_run_def split: proxy_next.splits sum.splits)
  have pr: "preview = False" using p(3) by (auto simp: paid_forward_def split: if_splits)
  note c = paid_request_identity [OF e [unfolded p(1)] p(2,3)]
  have m: "matchRoute (pc_Routes sample_config) ''/services/p/x'' = Some sample_paid" by code_simp
  have r: "resolvePaidRoute sample_verifier sample_config sample_paid = Some mr"
    using c m by (auto simp: sample_verifier_def sample_request_def)
  have "paid_by sample_gate (rq_header (sample_request ''/services/p/x'' True)) t" using c by (simp add: sample_env_def)
  then show ?thesis
    by (intro exI [of _ mr] exI [of _ inn] exI [of _ v'] exI [of _ t] exI [of _ out]) (use c e p pr r in simp)
qed

subsection \<open>The payment page\<close>

lemma merge_extras_terms [simp]:
  "pr_amount (mergeModelExtra rule (mergeAgentExtras rule req)) = pr_amount req"
  "pr_asset (mergeModelExtra rule (mergeAgentExtras rule req)) = pr_asset req"
  "pr_network (mergeModelExtra rule (mergeAgentExtras rule req)) = pr_network req"
  by (simp_all add: mergeModelExtra_def mergeAgentExtras_def set_extra_def Let_def)







end
