(* ===== verification/VerifyCheck.thy ===== *)
theory VerifyCheck imports VerifierSafety begin

text \<open>
  The answers of the ForwardAuth check \<open>HandleVerify\<close>: when it lets a request through, and what it does with
  paths that no rule covers.
\<close>

subsection \<open>The ForwardAuth check\<close>

definition open_writer :: "resp_writer \<Rightarrow> bool" where
  "open_writer w \<longleftrightarrow> cw_status w = None \<and> cw_raw w = None"

definition answered :: "int \<Rightarrow> resp_writer \<Rightarrow> bool" where
  "answered code w \<longleftrightarrow> cw_status w = Some code \<and> cw_raw w = None"

named_theorems writer_intro \<open>the status of replies\<close>

lemma open_set_header [writer_intro]: "open_writer w \<Longrightarrow> open_writer (set_header k v w)"
  by (simp add: open_writer_def set_header_def)

lemma open_header [writer_intro]: "open_writer w \<Longrightarrow> open_writer (w\<lparr>cw_header := h\<rparr>)"
  by (simp add: open_writer_def)

lemma answered_WriteHeader [writer_intro]: "open_writer w \<Longrightarrow> 200 \<le> code \<Longrightarrow> answered code (cw_WriteHeader code w)"
  by (simp add: open_writer_def answered_def cw_WriteHeader_def)

lemma answered_Write [writer_intro]: "answered code w \<Longrightarrow> answered code (snd (cw_Write b w))"
  by (auto simp: answered_def cw_Write_def cw_WriteHeader_def Let_def split: list.splits option.splits)

lemma answered_http_Error [writer_intro]: "open_writer w \<Longrightarrow> 200 \<le> code \<Longrightarrow> answered code (http_Error msg code w)"
  unfolding http_Error_def by (intro writer_intro)

lemma answered_encode [writer_intro]: "answered code w \<Longrightarrow> answered code (encode_members kvs w)"
  unfolding encode_members_def by (intro writer_intro)

lemma answered_challenge [writer_intro]: "open_writer w \<Longrightarrow> answered 401 (writeSIWXChallenge st tls e now A r rule err w)"
  unfolding writeSIWXChallenge_def renderSIWXPage_def Let_def by (auto intro!: writer_intro)

lemma answered_payment_error [writer_intro]: "open_writer w \<Longrightarrow> 200 \<le> s \<Longrightarrow> answered s (writePaymentError s b w)"
  unfolding writePaymentError_def by (intro writer_intro)

lemma answered_402 [writer_intro]: "open_writer w \<Longrightarrow> answered 402 (NewHTMLAwarePaymentRequired pf tls ctx r d reqs body w)"
  unfolding NewHTMLAwarePaymentRequired_def sendPaymentRequiredHTML_def sendPaymentRequiredJSON_def setCatalogLinkHeader_def
    setPaymentRequiredHeader_def Let_def
  by (auto intro!: writer_intro split: option.split)

lemma admit_reply: "ad_result (admit gf reqs now http h reg) = Inl reply \<Longrightarrow>
    (\<exists>f. reply = Challenge f) \<or> (\<exists>s b. reply = ErrorReply s b \<and> s \<in> {400, 409, 503})"
  by (auto simp: admit_def refuse_def invalid_header_def no_match_def verify_and_claim_def payment_invalid_def claim_payment_def
      in_use_reply_def registry_full_reply_def Let_def split: option.splits sum.splits prod.splits claim_result.splits if_splits)

lemma refused_status:
  assumes "open_writer w" and "ad_result (admit gf reqs now http h reg) = Inl reply" and "gf = gate_for env cfg ctx mr r"
  shows "cw_status (write_reply gf reply w) \<noteq> Some 200"
proof -
  consider f where "reply = Challenge f" | s b where "reply = ErrorReply s b" "s \<in> {400, 409, 503}"
    using admit_reply [OF assms(2)] by blast
  then show ?thesis
  proof cases
    case 1
    then have "answered 402 (write_reply gf reply w)"
      unfolding assms(3) by (simp add: write_reply_def gate_for_def Let_def answered_402 [OF assms(1)])
    then show ?thesis by (simp add: answered_def)
  next
    case 2
    then have "answered s (write_reply gf reply w)"
      by (simp add: write_reply_def) (rule answered_payment_error [OF assms(1)], auto)
    with 2 show ?thesis by (auto simp: answered_def)
  qed
qed

text \<open>The inner handler under the interceptor: a 200 carries the payer, and no wallet.\<close>

lemma identity_hset_other:
  "\<not> equal_fold HeaderVerifiedWallet k \<Longrightarrow> \<not> equal_fold HeaderPaymentPayer k \<Longrightarrow> identity (hset k v h) = identity h"
  by (simp add: identity_def)

lemma identity_receipt: "identity (cw_header (set_receipt r w)) = identity (cw_header w)"
  by (simp add: set_receipt_def set_header_def Let_def identity_hset_other equal_fold_def HeaderVerifiedWallet_def
      HeaderPaymentPayer_def to_lower_def)

lemma identity_trailer: "identity (cw_header (set_header ''Trailer'' x w)) = identity (cw_header w)"
  by (simp add: set_header_def identity_hset_other equal_fold_def HeaderVerifiedWallet_def HeaderPaymentPayer_def to_lower_def)

text \<open>A writer that, if it answers 200, sends the header it has now.\<close>

definition sends_if_ok :: "string \<times> string \<Rightarrow> resp_writer \<Rightarrow> bool" where
  "sends_if_ok ident w \<longleftrightarrow> cw_status w = Some 200 \<longrightarrow> identity (cw_sent w) = ident"

lemma sends_WriteHeader:
  "open_writer w \<Longrightarrow> identity (cw_header w) = ident \<Longrightarrow> 200 \<le> s \<Longrightarrow> sends_if_ok ident (cw_WriteHeader s w)"
  by (simp add: open_writer_def sends_if_ok_def cw_WriteHeader_def)

lemma sends_answered: "answered s w \<Longrightarrow> s \<noteq> 200 \<Longrightarrow> sends_if_ok ident w"
  by (simp add: answered_def sends_if_ok_def)

lemma open_receipt [writer_intro]: "open_writer w \<Longrightarrow> open_writer (set_receipt r w)"
  by (simp add: set_receipt_def Let_def writer_intro)

definition renders_402 :: "settle_env \<Rightarrow> bool" where
  "renders_402 env \<longleftrightarrow> (\<forall>f w. open_writer w \<longrightarrow> answered 402 (sn_send env f w))"

lemma settle_failed_writer:
  "open_writer (it_w i) \<Longrightarrow> \<not> it_wroteStatus i \<Longrightarrow> answered 503 (it_w (settle_failed resp i))"
  by (cases resp) (simp_all add: settle_failed_def Let_def report_def on_w_def answered_payment_error open_header open_receipt)

lemma settle_rejected_writer:
  "renders_402 env \<Longrightarrow> open_writer (it_w i) \<Longrightarrow> \<not> it_wroteStatus i \<Longrightarrow> answered 402 (it_w (settle_rejected env r i))"
  by (simp add: settle_rejected_def Let_def report_def on_w_def renders_402_def open_header)

lemma settleFunc_writer:
  assumes "settleFunc env i = (ok, i')" "renders_402 env" "open_writer (it_w i)" "\<not> it_wroteStatus i" "\<not> it_ctxErr i"
  shows "if ok then it_w i' = it_w i \<or> (\<exists>r. it_w i' = set_receipt r (it_w i)) else \<exists>s \<in> {402, 503}. answered s (it_w i')"
proof (cases "sn_VerifyOnly env")
  case True
  with assms show ?thesis by (auto simp: settleFunc_def)
next
  case False
  obtain resp err where f: "facilitatorSettle (sn_payload env) (sn_req env) (sn_answer env (length (it_settleCalls i))) = (resp, err)"
    by (rule prod.exhaust)
  define i1 where "i1 = i\<lparr>it_settleCalls := it_settleCalls i @
    (case facilitator_request (sn_payload env) (sn_req env) of Some c \<Rightarrow> [c] | None \<Rightarrow> [])\<rparr>"
  have i1: "it_w i1 = it_w i" "it_wroteStatus i1 = it_wroteStatus i" by (simp_all add: i1_def)
  have e: "settleFunc env i = (case err of Some e \<Rightarrow> (False, settle_failed resp i1)
      | None \<Rightarrow> if \<not> sr_Success (the resp) then (False, settle_rejected env (the resp) i1)
                else (True, on_w (set_receipt (the resp)) i1))"
    using False assms(5) by (simp add: settleFunc_def f i1_def Let_def split: option.split)
  show ?thesis
  proof (cases err)
    case (Some x)
    then have "ok = False" "i' = settle_failed resp i1" using e assms(1) by simp_all
    with settle_failed_writer [of i1 resp] assms i1 show ?thesis by auto
  next
    case None
    show ?thesis
    proof (cases "sr_Success (the resp)")
      case True
      with None e assms(1) i1 show ?thesis by (auto simp: on_w_def)
    next
      case False
      then have "ok = False" "i' = settle_rejected env (the resp) i1" using e assms(1) None by simp_all
      with settle_rejected_writer [of env i1 "the resp"] assms i1 show ?thesis by auto
    qed
  qed
qed

lemma settleFunc_fields:
  "settleFunc env i = (ok, i') \<Longrightarrow>
     it_status i' = it_status i \<and> it_streamDefer i' = it_streamDefer i \<and> it_buffering i' = it_buffering i"
  by (auto simp: settleFunc_def settle_failed_def settle_rejected_def report_def on_w_def Let_def
      split: if_splits prod.splits option.splits)

lemma settleNow_sends:
  assumes "renders_402 env" "open_writer (it_w i)" "\<not> it_wroteStatus i" "\<not> it_ctxErr i" "200 \<le> it_status i"
    "identity (cw_header (it_w i)) = ident"
  shows "sends_if_ok ident (it_w (snd (settleNow env i))) \<and>
    (it_settled (snd (settleNow env i)) \<or> it_hijacked (snd (settleNow env i)))"
proof -
  obtain ok i' where s: "settleFunc env i = (ok, i')" by (rule prod.exhaust)
  note w = settleFunc_writer [OF s assms(1-4)] and f = settleFunc_fields [OF s]
  show ?thesis
  proof (cases ok)
    case True
    have "open_writer (it_w i')" "identity (cw_header (it_w i')) = ident"
      using w True assms(2,6) open_receipt identity_receipt by auto
    then show ?thesis using s True f assms(5) by (simp add: settleNow_def on_w_def sends_WriteHeader)
  next
    case False
    then obtain c where "answered c (it_w i')" "c \<noteq> 200" using w by auto
    then show ?thesis using s False by (simp add: settleNow_def sends_answered)
  qed
qed

lemma finalize_done: "it_settled i \<or> it_hijacked i \<Longrightarrow> finalize env i = i"
  by (simp add: finalize_def)

text \<open>The whole inner handler.\<close>

lemma verify_serve_sends:
  assumes "renders_402 env" "open_writer w" "\<not> sn_SettleOnDelivery env" "identity h = ident"
  shows "sends_if_ok ident (it_w (serve_next env [HHeaders h, HWriteHeader 200] False (new_interceptor env w [])))"
proof -
  define i0 where "i0 = (new_interceptor env w [])\<lparr>it_w := w\<lparr>cw_header := h\<rparr>, it_committed := True, it_status := 200\<rparr>"
  have i0: "open_writer (it_w i0)" "\<not> it_wroteStatus i0" "\<not> it_ctxErr i0" "it_status i0 = 200" "identity (cw_header (it_w i0)) = ident"
    "it_valueCheck i0 = False" "\<not> it_clientWriteErr i0" "\<not> it_buffering i0" "\<not> it_settled i0" "\<not> it_hijacked i0" "it_bytesWritten i0 = 0"
    using assms by (simp_all add: i0_def new_interceptor_def open_writer_def)
  define stream where "stream = (it_deferSettle i0 \<and> has_prefix ''text/event-stream'' (to_lower (hget h ''Content-Type'')))"
  have run: "serve_next env [HHeaders h, HWriteHeader 200] False (new_interceptor env w []) =
      finalize env (if stream then (on_w (\<lambda>w. cw_WriteHeader 200 (set_header ''Trailer'' ''X-PAYMENT-RESPONSE, PAYMENT-RESPONSE'' w))
          (i0\<lparr>it_streamDefer := True, it_wroteStatus := True\<rparr>))
        else snd (settleNow env i0))"
    using assms(3) by (simp add: serve_next_def Let_def WriteHeader_def new_interceptor_def i0_def on_w_def stream_def)
  show ?thesis
  proof (cases stream)
    case True
    define i1 where "i1 = on_w (\<lambda>w. cw_WriteHeader 200 (set_header ''Trailer'' ''X-PAYMENT-RESPONSE, PAYMENT-RESPONSE'' w))
          (i0\<lparr>it_streamDefer := True, it_wroteStatus := True\<rparr>)"
    have "finalize env i1 = skip ''upstream_no_value'' i1"
      using i0 by (simp add: finalize_def finalize_stream_def i1_def on_w_def)
    moreover have "sends_if_ok ident (it_w i1)"
      using i0 identity_trailer by (simp add: i1_def on_w_def sends_WriteHeader open_set_header)
    ultimately show ?thesis using run True by (simp add: i1_def skip_def report_def)
  next
    case False
    with run settleNow_sends [OF assms(1) i0(1,2,3) _ i0(5)] i0(4) show ?thesis by (simp add: finalize_done)
  qed
qed

subsection \<open>What the check lets through\<close>

text \<open>The credential that the check accepts, and the identity it then reports: nothing for a free rule, the wallet
  that signed in, or the payer of the verified payment in the request's payment header.\<close>

definition grants :: "verifier_env \<Rightarrow> fac_http \<Rightarrow> http_request \<Rightarrow> verifier \<Rightarrow> pricing_config \<Rightarrow> route_rule \<Rightarrow> string \<times> string \<Rightarrow> bool" where
  "grants env http r v cfg rule ident \<longleftrightarrow>
     (if IsFree rule then ident = ([], [])
      else if IsAuth rule then (case fst (authenticate env r v) of Inl e \<Rightarrow> False | Inr wallet \<Rightarrow> ident = (wallet, []))
      else (case resolvePaidRoute v cfg rule of None \<Rightarrow> False
            | Some mr \<Rightarrow> (\<exists>t. paid_by (ve_gate env) (rq_header r) t \<and>
                             findMatchingRequirementV1 (tk_payload t) (mr_requirements mr) = Some (tk_req t) \<and>
                             ad_verifyCall (admit (ve_gate env) (mr_requirements mr) (ve_now env) http (rq_header r) (Some (v_inUse v))) =
                               Some (tk_verifyPayload t, tk_req t) \<and>
                             payment_verified t http \<and> ident = ([], tk_payer t))))"

lemma identity_allow: "identity (allow_header rule wallet payer h) = (wallet, payer)"
  by (simp add: allow_header_def Let_def identity_def identity_names)

lemma allow_sends: "open_writer w \<Longrightarrow> identity (cw_sent (allow rule wallet w)) = (wallet, [])"
  by (simp add: allow_def open_writer_def cw_WriteHeader_def identity_allow)

lemma verify_ops_identity:
  "\<exists>h'. verify_ops rule (cw_header (set_header HeaderPaymentPayer payer w)) = [HHeaders h', HWriteHeader 200] \<and> identity h' = ([], payer)"
proof -
  have "\<not> equal_fold HeaderPaymentPayer ''Authorization''" "\<not> equal_fold HeaderVerifiedWallet ''Authorization''"
    by (simp_all add: equal_fold_def HeaderVerifiedWallet_def HeaderPaymentPayer_def to_lower_def)
  then show ?thesis by (auto simp: verify_ops_def Let_def identity_def identity_names)
qed

lemma gate_renders: "renders_402 (gate_env (gate_for env cfg ctx mr r) fa answer t)"
  by (auto simp: renders_402_def gate_env_def gate_for_def Let_def intro: answered_402)

lemma verify_gate_allows:
  assumes "open_writer w"
    and "cw_status (it_w (serve (gate_for env cfg ctx mr r) (verify_config cfg) answer t
           (verify_ops rule (cw_header (set_header HeaderPaymentPayer payer w))) False (set_header HeaderPaymentPayer payer w))) = Some 200"
  shows "identity (cw_sent (it_w (serve (gate_for env cfg ctx mr r) (verify_config cfg) answer t
           (verify_ops rule (cw_header (set_header HeaderPaymentPayer payer w))) False (set_header HeaderPaymentPayer payer w)))) = ([], payer)"
proof -
  obtain h' where h: "verify_ops rule (cw_header (set_header HeaderPaymentPayer payer w)) = [HHeaders h', HWriteHeader 200]"
      "identity h' = ([], payer)"
    using verify_ops_identity by blast
  have "sends_if_ok ([], payer) (it_w (serve_next (gate_env (gate_for env cfg ctx mr r) (verify_config cfg) answer t)
      [HHeaders h', HWriteHeader 200] False
      (new_interceptor (gate_env (gate_for env cfg ctx mr r) (verify_config cfg) answer t) (set_header HeaderPaymentPayer payer w) [])))"
    by (rule verify_serve_sends [OF gate_renders open_set_header [OF assms(1)] _ h(2)]) (simp add: gate_env_def verify_config_def)
  then show ?thesis using assms(2) by (simp add: serve_def Let_def h(1) sends_if_ok_def)
qed

lemma not_200: "answered s w \<Longrightarrow> s \<noteq> 200 \<Longrightarrow> cw_status w \<noteq> Some 200"
  by (simp add: answered_def)

lemma route_verify_replied:
  assumes "route_verify env r v w = (VReplied w', v')" and w: "open_writer w" and s: "cw_status w' = Some 200"
  shows "\<exists>cfg. v_config v = Some cfg \<and> hget (rq_header r) ''X-Forwarded-Uri'' \<noteq> [] \<and>
    (case matchRoute (pc_Routes cfg) (stripQueryFragment (hget (rq_header r) ''X-Forwarded-Uri'')) of
       None \<Rightarrow> \<not> isUnderPaidPrefix v (stripQueryFragment (hget (rq_header r) ''X-Forwarded-Uri'')) \<and>
         identity (cw_sent w') = identity (cw_header w)
     | Some rule \<Rightarrow>
         upstreamPathAllowed rule (hget (rq_header r) ''X-Forwarded-Method'') (stripQueryFragment (hget (rq_header r) ''X-Forwarded-Uri'')) \<and>
         rr_BodyPolicy rule = [] \<and> grants env http r v cfg rule (identity (cw_sent w')))"
proof -
  have err: "cw_status (http_Error m c w) \<noteq> Some 200" if "200 < c" for m c
    using not_200 [OF answered_http_Error [OF w, of c]] that by auto
  have chal: "cw_status (writeSIWXChallenge st tls e now A rq rule err w) \<noteq> Some 200" for st tls e now A rq rule err
    using not_200 [OF answered_challenge [OF w]] by auto
  have plain: "cw_sent (cw_WriteHeader 200 w) = cw_header w" using w by (simp add: open_writer_def cw_WriteHeader_def)
  show ?thesis using assms(1) s err chal
    by (auto simp: plain route_verify_def Let_def grants_def authenticate_def allow_sends [OF w] dest: sym
        split: option.splits if_splits sum.splits prod.splits)
qed

definition sample_check :: "string \<Rightarrow> bool \<Rightarrow> http_request" where
  "sample_check uri pay = (sample_request ''/verify'' pay)\<lparr>rq_header :=
     [(''x-forwarded-uri'', [uri]), (''x-forwarded-method'', [''GET''])] @ rq_header (sample_request ''/verify'' pay)\<rparr>"

lemma sample_check_ok:
  "cw_status (fst (HandleVerify sample_env sample_answer (\<lambda>_. sample_answer) (sample_check ''/services/p/x?q=1'' True) sample_verifier
     sample_writer)) = Some 200"
  by code_simp

lemma sample_check_rule:
  "hget (rq_header (sample_check ''/services/p/x?q=1'' True)) ''X-Forwarded-Uri'' = ''/services/p/x?q=1''"
  "matchRoute (pc_Routes sample_config) (stripQueryFragment ''/services/p/x?q=1'') = Some sample_paid"
  by code_simp+
lemma route_verify_gate:
  assumes "route_verify env r v w = (VGate mr r', v')"
  shows "v' = v \<and> rq_header r' = rq_header r \<and>
    (\<exists>cfg. v_config v = Some cfg \<and> hget (rq_header r) ''X-Forwarded-Uri'' \<noteq> [] \<and>
      matchRoute (pc_Routes cfg) (stripQueryFragment (hget (rq_header r) ''X-Forwarded-Uri'')) = Some (mr_rule mr) \<and>
      upstreamPathAllowed (mr_rule mr) (hget (rq_header r) ''X-Forwarded-Method'') (stripQueryFragment (hget (rq_header r) ''X-Forwarded-Uri'')) \<and>
      rr_BodyPolicy (mr_rule mr) = [] \<and> \<not> IsFree (mr_rule mr) \<and> \<not> IsAuth (mr_rule mr) \<and> resolvePaidRoute v cfg (mr_rule mr) = Some mr)"
proof -
  have mr: "resolvePaidRoute v cfg rule = Some m' \<Longrightarrow> mr_rule m' = rule" for cfg rule m'
    by (auto simp: resolvePaidRoute_def Let_def split: list.splits)
  obtain cfg rule where "v' = v \<and> rq_header r' = rq_header r" "v_config v = Some cfg" "hget (rq_header r) ''X-Forwarded-Uri'' \<noteq> []"
      "matchRoute (pc_Routes cfg) (stripQueryFragment (hget (rq_header r) ''X-Forwarded-Uri'')) = Some rule"
      "upstreamPathAllowed rule (hget (rq_header r) ''X-Forwarded-Method'') (stripQueryFragment (hget (rq_header r) ''X-Forwarded-Uri''))"
      "rr_BodyPolicy rule = []" "\<not> IsFree rule" "\<not> IsAuth rule" "resolvePaidRoute v cfg rule = Some mr"
    using assms by (auto simp: route_verify_def Let_def split: option.splits if_splits sum.splits prod.splits)
  with mr show ?thesis by simp
qed

text \<open>C15: The ForwardAuth check lets a request through only for a reason.  When it answers 200, the proxy told it the
  URI; if no rule matches, the path is not under any prefix of a gated offer; if one does, the path is allowed, the rule
  has no body policy (the check never sees the body), and the request holds the credential that the rule asks
  for: none for a free rule, a wallet that signed in, or, in its payment header, a payment for one of the rule's
  requirements whose bytes the facilitator was sent and accepted.  When a rule matches, the identity headers that
  the proxy copies name that wallet or payer and nothing else; when none does, the check adds no identity.\<close>

theorem verify_allows_only:
  assumes "HandleVerify env http answer r v w = (w', v')" and "open_writer w" and "cw_status w' = Some 200"
  shows "\<exists>cfg. v_config v = Some cfg \<and> hget (rq_header r) ''X-Forwarded-Uri'' \<noteq> [] \<and>
    (case matchRoute (pc_Routes cfg) (stripQueryFragment (hget (rq_header r) ''X-Forwarded-Uri'')) of
       None \<Rightarrow> \<not> isUnderPaidPrefix v (stripQueryFragment (hget (rq_header r) ''X-Forwarded-Uri'')) \<and>
         identity (cw_sent w') = identity (cw_header w)
     | Some rule \<Rightarrow>
         upstreamPathAllowed rule (hget (rq_header r) ''X-Forwarded-Method'') (stripQueryFragment (hget (rq_header r) ''X-Forwarded-Uri'')) \<and>
         rr_BodyPolicy rule = [] \<and> grants env http r v cfg rule (identity (cw_sent w')))"
proof -
  obtain n v1 where n: "route_verify env r v w = (n, v1)" by (rule prod.exhaust)
  show ?thesis
  proof (cases n)
    case (VReplied w1)
    with n assms(1) have "route_verify env r v w = (VReplied w', v')" by (simp add: HandleVerify_def)
    from route_verify_replied [OF this assms(2,3)] show ?thesis .
  next
    case VPanics
    with n assms show ?thesis by (auto simp: HandleVerify_def open_writer_def)
  next
    case (VGate mr r')
    note g = route_verify_gate [OF n [unfolded VGate]]
    obtain cfg where c: "v_config v = Some cfg" using g by blast
    define gf where "gf = gate_for env cfg None mr r'"
    define ad where "ad = admit gf (mr_requirements mr) (ve_now env) http (rq_header r') (Some (v_inUse v))"
    show ?thesis
    proof (cases "ad_result ad")
      case (Inl reply)
      then have "w' = write_reply gf reply w"
        using assms(1) n VGate g c by (simp add: HandleVerify_def gf_def ad_def Let_def)
      with refused_status [OF assms(2) Inl [unfolded ad_def] gf_def] assms(3) show ?thesis by simp
    next
      case (Inr t)
      then have "w' = it_w (serve gf (verify_config cfg) answer t
          (verify_ops (mr_rule mr) (cw_header (set_header HeaderPaymentPayer (tk_payer t) w))) False (set_header HeaderPaymentPayer (tk_payer t) w))"
        using assms(1) n VGate g c by (simp add: HandleVerify_def gf_def ad_def Let_def)
      then have i: "identity (cw_sent w') = ([], tk_payer t)"
        using verify_gate_allows [OF assms(2)] assms(3) by (simp add: gf_def)
      note a = admit_paid_by [OF Inr [unfolded ad_def gf_def admit_gate_for]]
      with i g c show ?thesis by (auto simp: grants_def)
    qed
  qed
qed
theorem verify_allows_only_witness:
  "open_writer sample_writer \<and> (\<exists>w' v'.
    HandleVerify sample_env sample_answer (\<lambda>_. sample_answer) (sample_check ''/services/p/x?q=1'' True) sample_verifier sample_writer = (w', v') \<and>
    cw_status w' = Some 200 \<and>
    grants sample_env sample_answer (sample_check ''/services/p/x?q=1'' True) sample_verifier sample_config sample_paid (identity (cw_sent w')))"
proof -
  have o: "open_writer sample_writer" by (simp add: open_writer_def sample_writer_def)
  obtain w' v' where e: "HandleVerify sample_env sample_answer (\<lambda>_. sample_answer) (sample_check ''/services/p/x?q=1'' True)
      sample_verifier sample_writer = (w', v')"
    by (rule prod.exhaust)
  have s: "cw_status w' = Some 200" using sample_check_ok e by simp
  have c: "v_config sample_verifier = Some sample_config" by (simp add: sample_verifier_def)
  from verify_allows_only [OF e o s] c sample_check_rule o e s show ?thesis by (intro conjI exI [of _ w'] exI [of _ v']) simp_all
qed


end
