(* ===== verification/VerifierReload.thy ===== *)
theory VerifierReload imports VerifyCheck begin

text \<open>
  Reloading the verifier: the prefixes that it guards after a load, and what a failed load of the offers' routes
  leaves behind.
\<close>

subsection \<open>Paths under a paid offer that no rule covers\<close>

lemma addPrefix_mono: "set prefixes \<subseteq> set (addPrefix p prefixes)"
  by (auto simp: addPrefix_def)

lemma addPrefix_in: "p \<noteq> [] \<Longrightarrow> p \<in> set (addPrefix p prefixes)"
  by (auto simp: addPrefix_def)

lemma route_prefixes_mono: "set prefixes \<subseteq> set (route_prefixes r prefixes)"
  using addPrefix_mono by (auto simp: route_prefixes_def Let_def) (metis addPrefix_mono subset_iff)+

lemma fold_prefixes_mono: "set prefixes \<subseteq> set (fold route_prefixes rs prefixes)"
  using route_prefixes_mono by (induction rs arbitrary: prefixes) (auto, blast)

lemma paid_prefixes_base:
  assumes "r \<in> set rs" "\<not> IsFree r" "trim_suffix ''/'' (rr_StripPrefix r) \<noteq> []"
  shows "trim_suffix ''/'' (rr_StripPrefix r) @ ''/'' \<in> set (paid_prefixes rs)"
proof -
  obtain xs ys where rs: "rs = xs @ r # ys" using assms(1) split_list by metis
  have "trim_suffix ''/'' (rr_StripPrefix r) @ ''/'' \<in> set (route_prefixes r (fold route_prefixes xs []))"
    using assms(2,3) by (simp add: route_prefixes_def Let_def addPrefix_in)
  then show ?thesis
    using fold_prefixes_mono [of "route_prefixes r (fold route_prefixes xs [])" ys] by (auto simp: paid_prefixes_def rs)
qed

lemma load_ok:
  "load cfg v0 = Inr v \<Longrightarrow> v_config v = Some cfg \<and> v_paidPrefixes v = Some (paid_prefixes (pc_Routes cfg)) \<and>
     v_routesLoaded v = v_routesLoaded v0 \<and> v_inUse v = v_inUse v0 \<and> v_siwx v = v_siwx v0 \<and> v_quota v = v_quota v0"
  by (auto simp: load_def split: option.splits sum.splits)

text \<open>C16: A path under a gated offer that no rule covers is refused.  After any successful load, for every rule that is
  not free and has a prefix to strip, the check answers 403 for each path below that prefix that no rule matches,
  and changes nothing; so a stale or partial table of an offer never passes a request unpaid.\<close>

theorem undeclared_paths_refused:
  assumes "load cfg v0 = Inr v" and "rule \<in> set (pc_Routes cfg)" and "\<not> IsFree rule"
    and "trim_suffix ''/'' (rr_StripPrefix rule) \<noteq> []"
    and "has_prefix (trim_suffix ''/'' (rr_StripPrefix rule) @ ''/'') (stripQueryFragment (hget (rq_header r) ''X-Forwarded-Uri''))"
    and "matchRoute (pc_Routes cfg) (stripQueryFragment (hget (rq_header r) ''X-Forwarded-Uri'')) = None"
  shows "HandleVerify env http answer r v w =
    (http_Error ''no rule matches; route appears to be a paid prefix with stale or missing rule'' 403 w, v)"
proof -
  have "isUnderPaidPrefix v (stripQueryFragment (hget (rq_header r) ''X-Forwarded-Uri''))"
    using load_ok [OF assms(1)] paid_prefixes_base [OF assms(2-4)] assms(5) by (auto simp: isUnderPaidPrefix_def list_ex_iff)
  moreover have "hget (rq_header r) ''X-Forwarded-Uri'' \<noteq> []"
    using assms(5) by (cases "trim_suffix ''/'' (rr_StripPrefix rule)") (auto simp: stripQueryFragment_def)
  ultimately show ?thesis using load_ok [OF assms(1)] assms(6) by (simp add: HandleVerify_def route_verify_def Let_def)
qed

definition exact_rule :: route_rule where
  "exact_rule = sample_paid\<lparr>rr_Pattern := ''/services/p/run''\<rparr>"

lemma exact_loads: "is_ok (load (sample_config\<lparr>pc_Routes := [exact_rule]\<rparr>) sample_verifier)"
  by code_simp

lemma exact_undeclared:
  "\<not> IsFree exact_rule" "trim_suffix ''/'' (rr_StripPrefix exact_rule) = ''/services/p''"
  "stripQueryFragment (hget (rq_header (sample_check ''/services/p/other?x=1'' False)) ''X-Forwarded-Uri'') = ''/services/p/other''"
  "matchRoute [exact_rule] ''/services/p/other'' = None"
  by code_simp+

theorem undeclared_paths_refused_witness:
  "\<exists>v. load (sample_config\<lparr>pc_Routes := [exact_rule]\<rparr>) sample_verifier = Inr v \<and>
     HandleVerify sample_env sample_answer (\<lambda>_. sample_answer) (sample_check ''/services/p/other?x=1'' False) v sample_writer =
       (http_Error ''no rule matches; route appears to be a paid prefix with stale or missing rule'' 403 sample_writer, v)"
proof -
  obtain v where v: "load (sample_config\<lparr>pc_Routes := [exact_rule]\<rparr>) sample_verifier = Inr v"
    using exact_loads by (cases "load (sample_config\<lparr>pc_Routes := [exact_rule]\<rparr>) sample_verifier") auto
  have "HandleVerify sample_env sample_answer (\<lambda>_. sample_answer) (sample_check ''/services/p/other?x=1'' False) v sample_writer =
       (http_Error ''no rule matches; route appears to be a paid prefix with stale or missing rule'' 403 sample_writer, v)"
    by (rule undeclared_paths_refused [OF v, of exact_rule]) (simp_all add: exact_undeclared)
  with v show ?thesis by blast
qed

subsection \<open>A failed load of the offers' routes\<close>

lemma Reload_failed: "Reload_verifier cfg v = (Some e, v') \<Longrightarrow> v' = v"
  by (auto simp: Reload_verifier_def split: sum.splits)

lemma SetRoutes_failed:
  assumes "SetRoutes (Some rs) a v = (Some e, a', v')" and "rs \<noteq> []"
  shows "v' = v \<and> ca_routes a' = Some rs \<and> SetRoutes (Some rs) a' v' = (None, a', v)"
  using assms
  by (auto simp: SetRoutes_def Let_def nil_if_empty_def applyLocked_def the_default_def dest: Reload_failed split: if_splits prod.splits)

lemma readyz_ready:
  "open_writer w \<Longrightarrow> v_config v \<noteq> None \<Longrightarrow> v_routesLoaded v \<Longrightarrow> answered 200 (HandleReadyz v w)"
  unfolding HandleReadyz_def by (simp only: if_False if_True not_True_eq_False) (intro answered_Write answered_WriteHeader, simp_all)

lemma no_rules_pass:
  assumes "v_config v = Some cfg" "pc_Routes cfg = []" "v_paidPrefixes v = Some []" "hget (rq_header r) ''X-Forwarded-Uri'' \<noteq> []"
  shows "HandleVerify env http answer r v w = (cw_WriteHeader 200 w, v)"
  using assms by (simp add: HandleVerify_def route_verify_def Let_def isUnderPaidPrefix_def matchRoute_def)

text \<open>A snapshot of routes that failed to load is reported as loaded on the next attempt.  \<open>SetRoutes\<close> stores the
  routes before it applies them, so that the same routes given again compare equal and count as a success although
  nothing was applied: the refresh after the cache sync then marks the routes as loaded, the readiness probe answers
  200, and the check lets every request pass unpaid, for the verifier still has no rule at all.\<close>

theorem ready_without_routes:
  assumes "NewVerifier base siwx = Inr v" and "pc_Routes base = []"
    and "SetRoutes (Some rs) (NewConfigAccumulator (Some base)) v = (Some e, a', v1)" and "rs \<noteq> []"
    and "open_writer w" and "hget (rq_header r) ''X-Forwarded-Uri'' \<noteq> []"
  shows "v1 = v \<and> first_refresh (Some rs) a' v1 = (a', MarkRoutesLoaded v) \<and>
    v_config (MarkRoutesLoaded v) = Some base \<and> cw_status (HandleReadyz (MarkRoutesLoaded v) w) = Some 200 \<and>
    HandleVerify env http answer r (MarkRoutesLoaded v) w = (cw_WriteHeader 200 w, MarkRoutesLoaded v)"
proof -
  note s = SetRoutes_failed [OF assms(3,4)]
  have c: "v_config v = Some base" "v_paidPrefixes v = Some []"
    using assms(1,2) by (auto simp: NewVerifier_def paid_prefixes_def sort_by_def dest!: load_ok)
  have "first_refresh (Some rs) a' v1 = (a', MarkRoutesLoaded v)"
    using conjunct1 [OF s] conjunct2 [OF conjunct2 [OF s]] by (simp add: first_refresh_def refresh_def)
  moreover have "answered 200 (HandleReadyz (MarkRoutesLoaded v) w)"
    using readyz_ready [OF assms(5)] c by (simp add: MarkRoutesLoaded_def)
  moreover have "HandleVerify env http answer r (MarkRoutesLoaded v) w = (cw_WriteHeader 200 w, MarkRoutesLoaded v)"
    by (rule no_rules_pass) (use c assms(2,6) in \<open>simp_all add: MarkRoutesLoaded_def\<close>)
  ultimately show ?thesis using s c by (simp add: answered_def MarkRoutesLoaded_def)
qed

definition bad_rule :: route_rule where
  "bad_rule = sample_paid\<lparr>rr_Network := ''eip155:11155111''\<rparr>"

definition failed_load :: "verifier \<Rightarrow> bool" where
  "failed_load v = (case SetRoutes (Some [sample_paid, bad_rule]) (NewConfigAccumulator (Some defaultPricingConfig)) v of
     (Some _, _, _) \<Rightarrow> True | _ \<Rightarrow> False)"

lemma sample_failed_load:
  "case NewVerifier defaultPricingConfig (v_siwx sample_verifier) of Inr v \<Rightarrow> failed_load v | Inl _ \<Rightarrow> False"
  by code_simp

theorem ready_without_routes_witness:
  "\<exists>v a' e. NewVerifier defaultPricingConfig (v_siwx sample_verifier) = Inr v \<and>
     SetRoutes (Some [sample_paid, bad_rule]) (NewConfigAccumulator (Some defaultPricingConfig)) v = (Some e, a', v) \<and>
     first_refresh (Some [sample_paid, bad_rule]) a' v = (a', MarkRoutesLoaded v) \<and>
     cw_status (HandleReadyz (MarkRoutesLoaded v) sample_writer) = Some 200 \<and>
     HandleVerify sample_env sample_answer (\<lambda>_. sample_answer) (sample_check ''/services/p/x'' False) (MarkRoutesLoaded v) sample_writer =
       (cw_WriteHeader 200 sample_writer, MarkRoutesLoaded v)"
proof -
  obtain v where v: "NewVerifier defaultPricingConfig (v_siwx sample_verifier) = Inr v" "failed_load v"
    using sample_failed_load by (auto split: sum.splits)
  obtain e a' v1 where s: "SetRoutes (Some [sample_paid, bad_rule]) (NewConfigAccumulator (Some defaultPricingConfig)) v = (Some e, a', v1)"
    using v(2) by (auto simp: failed_load_def split: prod.splits option.splits)
  have o: "open_writer sample_writer" by (simp add: open_writer_def sample_writer_def)
  have b: "pc_Routes defaultPricingConfig = []" by (simp add: defaultPricingConfig_def empty_config_def)
  have u: "hget (rq_header (sample_check ''/services/p/x'' False)) ''X-Forwarded-Uri'' \<noteq> []" by code_simp
  have rs: "[sample_paid, bad_rule] \<noteq> []" by simp
  note c = ready_without_routes [OF v(1) b s rs o u, of sample_env sample_answer "\<lambda>_. sample_answer"]
  then have "v1 = v" by blast
  with c v(1) s show ?thesis by (intro exI [of _ v] exI [of _ a'] exI [of _ e]) blast
qed

end
