(* ===== verification/MonetizeTypes.thy ===== *)
theory MonetizeTypes imports GoStrings begin

text \<open>
  The Kubernetes objects of \<open>internal/monetizeapi/types.go\<close>: service offers, purchase requests, agent
  identities and registration requests, with the defaulting methods that every consumer reads them through.

  Of the metadata that Kubernetes keeps for an object (\<open>object_meta\<close>, a library type) the fields are those that
  the program reads.  A pointer is an option, a time is in nanoseconds, an \<open>int64\<close> field of a stored object is an
  integer.  The branding of an offer is presentation and is left out, as are the deep copies.
\<close>

subsection \<open>Metadata and conditions\<close>

record object_meta =
  om_Name :: string
  om_Namespace :: string
  om_UID :: string
  om_Generation :: int
  om_CreationTimestamp :: nsec
  om_DeletionTimestamp :: "nsec option"
  om_Annotations :: "(string, string) gomap"
  om_Finalizers :: "string list"

record condition =
  cd_Type :: string
  cd_Status :: string
  cd_Reason :: string
  cd_Message :: string
  cd_LastTransitionTime :: nsec

subsection \<open>Service offers\<close>

record price_table =
  pt_PerRequest :: string
  pt_PerMTok :: string
  pt_PerHour :: string
  pt_PerEpoch :: string

definition no_price :: price_table where
  "no_price = \<lparr>pt_PerRequest = [], pt_PerMTok = [], pt_PerHour = [], pt_PerEpoch = []\<rparr>"

record offer_asset =
  oa_Address :: string
  oa_Symbol :: string
  oa_Decimals :: int
  oa_TransferMethod :: string
  oa_EIP712Name :: string
  oa_EIP712Version :: string

record offer_payment =
  op_Scheme :: string
  op_Network :: string
  op_PayTo :: string
  op_MaxTimeoutSeconds :: int
  op_Asset :: offer_asset
  op_Price :: price_table

definition ResultVisibilityPayer :: string where "ResultVisibilityPayer = ''payer''"
definition ResultVisibilityPublic :: string where "ResultVisibilityPublic = ''public''"
definition DefaultJobTTL :: nsec where "DefaultJobTTL = 72 * hour"
definition DefaultDrainGracePeriod :: nsec where "DefaultDrainGracePeriod = hour"

record offer_async =
  as_Enabled :: bool
  as_ResultVisibility :: string
  as_TTL :: "nsec option"

definition EffectiveResultVisibility :: "offer_async \<Rightarrow> string" where
  "EffectiveResultVisibility a =
     (if as_ResultVisibility a = ResultVisibilityPublic then ResultVisibilityPublic else ResultVisibilityPayer)"

definition EffectiveTTL :: "offer_async \<Rightarrow> nsec" where
  "EffectiveTTL a = (case as_TTL a of Some d \<Rightarrow> if d > 0 then d else DefaultJobTTL | None \<Rightarrow> DefaultJobTTL)"

record offer_limits =
  lm_MaxInFlight :: int
  lm_RPS :: int

definition GatePaid :: string where "GatePaid = ''paid''"
definition GateFree :: string where "GateFree = ''free''"
definition GateAuth :: string where "GateAuth = ''auth''"

record offer_route =
  rt_Path :: string
  rt_Methods :: "string list"
  rt_Gate :: string
  rt_Price :: price_table
  rt_Summary :: string
  rt_FreeQuota :: int

definition EffectiveGate :: "offer_route \<Rightarrow> string" where
  "EffectiveGate r = (if rt_Gate r = [] then GatePaid else rt_Gate r)"

definition HasPriceOverride :: "offer_route \<Rightarrow> bool" where
  "HasPriceOverride r \<longleftrightarrow> rt_Price r \<noteq> no_price"

record offer_listing =
  ls_Weight :: int
  ls_Category :: string

record agent_ref =
  gr_Name :: string
  gr_Namespace :: string

record offer_model =
  ml_Name :: string
  ml_Runtime :: string

record offer_upstream =
  ou_Service :: string
  ou_Namespace :: string
  ou_Port :: int
  ou_HealthPath :: string

record offer_service =
  sv_Name :: string
  sv_Endpoint :: string
  sv_Version :: string

record offer_registration =
  rg_Enabled :: bool
  rg_Name :: string
  rg_Description :: string
  rg_Image :: string
  rg_Services :: "offer_service list"
  rg_SupportedTrust :: "string list"
  rg_Skills :: "string list"
  rg_Domains :: "string list"
  rg_Metadata :: "(string, string) gomap"

record offer_spec =
  os_Type :: string
  os_Agent :: agent_ref
  os_Model :: offer_model
  os_Upstream :: offer_upstream
  os_Payment :: offer_payment
  os_Payments :: "offer_payment list"
  os_Listing :: offer_listing
  os_Routes :: "offer_route list"
  os_Path :: string
  os_Hostname :: string
  os_Provenance :: "(string, string) gomap"
  os_Registration :: offer_registration
  os_Async :: offer_async
  os_Limits :: offer_limits
  os_DrainAt :: "nsec option"
  os_DrainGracePeriod :: "nsec option"

record agent_resolution =
  ag_Model :: string
  ag_Skills :: "string list"
  ag_Runtime :: string
  ag_Endpoint :: string

record offer_status =
  st_Conditions :: "condition list"
  st_Endpoint :: string
  st_AgentID :: string
  st_RegistrationTxHash :: string
  st_ObservedGeneration :: int
  st_AgentResolution :: "agent_resolution option"

record service_offer =
  so_meta :: object_meta
  so_spec :: offer_spec
  so_status :: offer_status

abbreviation "so_Name o' \<equiv> om_Name (so_meta o')"
abbreviation "so_Namespace o' \<equiv> om_Namespace (so_meta o')"

definition EffectiveNamespace :: "service_offer \<Rightarrow> string" where
  "EffectiveNamespace o' =
     (if ou_Namespace (os_Upstream (so_spec o')) \<noteq> [] then ou_Namespace (os_Upstream (so_spec o')) else so_Namespace o')"

definition EffectivePort :: "service_offer \<Rightarrow> int" where
  "EffectivePort o' = (if ou_Port (os_Upstream (so_spec o')) > 0 then ou_Port (os_Upstream (so_spec o')) else 11434)"

definition EffectiveHealthPath :: "service_offer \<Rightarrow> string" where
  "EffectiveHealthPath o' =
     (if ou_HealthPath (os_Upstream (so_spec o')) \<noteq> [] then ou_HealthPath (os_Upstream (so_spec o')) else ''/'')"

definition EffectivePath :: "service_offer \<Rightarrow> string" where
  "EffectivePath o' = (if os_Path (so_spec o') \<noteq> [] then os_Path (so_spec o') else ''/services/'' @ so_Name o')"

definition reservedPathRoots :: "string list" where
  "reservedPathRoots = [''/api'', ''/openapi.json'', ''/skill.md'', ''/rpc'', ''/.well-known'']"

text \<open>The first root of a list that a path names or nests under.\<close>

fun first_root :: "string list \<Rightarrow> string \<Rightarrow> string" where
  "first_root [] p = []"
| "first_root (root # roots) p = (if p = root \<or> has_prefix (root @ ''/'') p then root else first_root roots p)"

definition ReservedPathConflict :: "string \<Rightarrow> string" where
  "ReservedPathConflict path =
     (let p = trim_suffix ''/'' path
      in if p = [] \<or> p = ''/services'' then ''/'' else first_root reservedPathRoots p)"

definition routeReservedPathRoots :: "string list" where
  "routeReservedPathRoots = reservedPathRoots @ [''/auth'']"

definition ReservedRoutePathConflict :: "string \<Rightarrow> string" where
  "ReservedRoutePathConflict path = first_root routeReservedPathRoots (trim_suffix ''/'' path)"

definition EffectiveOrigin :: "service_offer \<Rightarrow> string" where
  "EffectiveOrigin o' = (if os_Hostname (so_spec o') = [] then [] else ''https://'' @ os_Hostname (so_spec o'))"

definition EffectiveRoutes :: "service_offer \<Rightarrow> offer_route list" where
  "EffectiveRoutes o' =
     (if os_Routes (so_spec o') \<noteq> [] then os_Routes (so_spec o')
      else [\<lparr>rt_Path = ''/*'', rt_Methods = [], rt_Gate = GatePaid, rt_Price = no_price, rt_Summary = [], rt_FreeQuota = 0\<rparr>])"

definition EffectivePayments :: "service_offer \<Rightarrow> offer_payment list" where
  "EffectivePayments o' = (if os_Payments (so_spec o') \<noteq> [] then os_Payments (so_spec o') else [os_Payment (so_spec o')])"

definition IsInference :: "service_offer \<Rightarrow> bool" where
  "IsInference o' \<longleftrightarrow> os_Type (so_spec o') = [] \<or> os_Type (so_spec o') = ''inference''"

definition IsAgent :: "service_offer \<Rightarrow> bool" where
  "IsAgent o' \<longleftrightarrow> os_Type (so_spec o') = ''agent''"

definition IsDraining :: "service_offer \<Rightarrow> bool" where
  "IsDraining o' \<longleftrightarrow> os_DrainAt (so_spec o') \<noteq> None"

definition DrainEndsAt :: "service_offer \<Rightarrow> nsec" where
  "DrainEndsAt o' =
     (case os_DrainAt (so_spec o') of None \<Rightarrow> zero_time
      | Some t \<Rightarrow> t + the_default DefaultDrainGracePeriod (os_DrainGracePeriod (so_spec o')))"

definition DrainExpired :: "service_offer \<Rightarrow> nsec \<Rightarrow> bool" where
  "DrainExpired o' now \<longleftrightarrow> IsDraining o' \<and> \<not> now < DrainEndsAt o'"

subsection \<open>Purchase requests\<close>

record ('p) signed_auth =
  sa_ID :: string
  sa_Payment :: "(string, 'p) gomap"
  sa_Signature :: string
  sa_From :: string
  sa_To :: string
  sa_Value :: string
  sa_ValidAfter :: string
  sa_ValidBefore :: string
  sa_Nonce :: string

record purchase_payment =
  pu_Network :: string
  pu_PayTo :: string
  pu_Price :: string
  pu_Asset :: string
  pu_AssetSymbol :: string
  pu_AssetDecimals :: int
  pu_AssetTransferMethod :: string
  pu_EIP712Name :: string
  pu_EIP712Version :: string

record auto_refill =
  af_Enabled :: bool
  af_Threshold :: int
  af_Count :: int
  af_MaxTotal :: int
  af_MaxSpendPerDay :: string

record ('p) purchase_spec =
  ps_Endpoint :: string
  ps_Model :: string
  ps_Count :: int
  ps_PreSignedAuths :: "'p signed_auth list"
  ps_AutoRefill :: auto_refill
  ps_Payment :: purchase_payment

record purchase_status =
  pst_ObservedGeneration :: int
  pst_Conditions :: "condition list"
  pst_PublicModel :: string
  pst_Remaining :: int
  pst_Spent :: int
  pst_TotalSigned :: int
  pst_TotalSpent :: string
  pst_ProbedAt :: string
  pst_ProbedPrice :: string
  pst_WalletBalance :: string
  pst_SignerAddress :: string

record ('p) purchase_request =
  pr_meta :: object_meta
  pr_spec :: "'p purchase_spec"
  pr_status :: purchase_status

abbreviation "pr_Name p \<equiv> om_Name (pr_meta p)"
abbreviation "pr_Namespace p \<equiv> om_Namespace (pr_meta p)"

definition EffectiveBuyerNamespace :: "'p purchase_request \<Rightarrow> string" where
  "EffectiveBuyerNamespace p = ''llm''"

subsection \<open>Identities and their registrations\<close>

record registration_request_spec =
  rq_ServiceOfferName :: string
  rq_ServiceOfferNamespace :: string
  rq_DesiredState :: string
  rq_Chain :: string

record registration_request_status =
  rs_Phase :: string
  rs_Message :: string
  rs_PublishedURL :: string
  rs_AgentID :: string
  rs_RegistrationTxHash :: string
  rs_RegistrationOwner :: string
  rs_RegistrationURI :: string
  rs_RegistrationSearchFromBlock :: int
  rs_MetadataSynced :: bool

record identity_registration =
  ir_Chain :: string
  ir_AgentID :: string

text \<open>An \<open>AgentIdentityStatus\<close> is its list of registrations.\<close>

type_synonym identity_status = "identity_registration list"

definition same_chain :: "string \<Rightarrow> identity_registration \<Rightarrow> bool" where
  "same_chain chain r \<longleftrightarrow> equal_fold (trim_space (ir_Chain r)) chain"

definition AgentIdentityAgentIDForChain :: "identity_status \<Rightarrow> string \<Rightarrow> string" where
  "AgentIdentityAgentIDForChain status chain =
     (case find (\<lambda>r. same_chain (trim_space chain) r \<and> trim_space (ir_AgentID r) \<noteq> []) status of
        Some r \<Rightarrow> ir_AgentID r | None \<Rightarrow> [])"

text \<open>The loop of \<open>UpsertAgentIdentityRegistration\<close>: the first registration of the chain is replaced, later ones are dropped.\<close>

fun upsert_loop :: "string \<Rightarrow> string \<Rightarrow> bool \<Rightarrow> identity_status \<Rightarrow> identity_status \<times> bool" where
  "upsert_loop chain agentID updated [] = ([], updated)"
| "upsert_loop chain agentID updated (r # rs) =
     (if same_chain chain r then
        if updated then upsert_loop chain agentID updated rs
        else (case upsert_loop chain agentID True rs of (out, u) \<Rightarrow> (r\<lparr>ir_Chain := chain, ir_AgentID := agentID\<rparr> # out, u))
      else (case upsert_loop chain agentID updated rs of (out, u) \<Rightarrow> (r # out, u)))"

definition UpsertAgentIdentityRegistration :: "identity_status \<Rightarrow> string \<Rightarrow> string \<Rightarrow> identity_status" where
  "UpsertAgentIdentityRegistration status chain0 agentID0 =
     (let chain = trim_space chain0; agentID = trim_space agentID0
      in if chain = [] \<or> agentID = [] then status
         else (case upsert_loop chain agentID False status of
                 (out, updated) \<Rightarrow> if updated then out else out @ [\<lparr>ir_Chain = chain, ir_AgentID = agentID\<rparr>]))"

definition RemoveAgentIdentityRegistration :: "identity_status \<Rightarrow> string \<Rightarrow> identity_status" where
  "RemoveAgentIdentityRegistration status chain0 =
     (let chain = trim_space chain0
      in if chain = [] then status else filter (\<lambda>r. \<not> same_chain chain r) status)"

definition HasAgentIdentityRegistrations :: "identity_status \<Rightarrow> bool" where
  "HasAgentIdentityRegistrations status \<longleftrightarrow>
     list_ex (\<lambda>r. trim_space (ir_Chain r) \<noteq> [] \<and> trim_space (ir_AgentID r) \<noteq> []) status"

end
