(* ===== verification/OfferSource.thy ===== *)
theory OfferSource imports MonetizeTypes BodyPolicy VerifierState GoTime begin

text \<open>
  From service offers to route rules: \<open>internal/x402/serviceoffer_source.go\<close>, with \<open>upstreamPathsForOffer\<close>
  (\<open>upstream_paths.go\<close>), \<open>bodyPolicyForOffer\<close> (\<open>body_policy.go\<close>) and the price approximations of
  \<open>internal/schemas/payment.go\<close>.

  The stores of the informers are lists, in the order in which they iterate.  The conversion of an unstructured
  object to an offer is a library function, the argument \<open>decode\<close>; a secret is given by its name, its namespace and
  its \<open>data\<close>, in which \<open>None\<close> is a value that is not a string.  The environment variable \<open>JOB_BROKER_URL\<close> is the
  argument \<open>env\<close>.  Branding is left out.
\<close>

subsection \<open>Printing of durations and rationals\<close>

definition frac_text :: "nat \<Rightarrow> int \<Rightarrow> string" where
  "frac_text prec v =
     (let ds = trim_right_char (CHR ''0'') (zero_pad prec v) in if ds = [] then [] else ''.'' @ ds)"

definition whole_duration :: "int \<Rightarrow> string \<Rightarrow> string" where
  "whole_duration secs frac =
     (let s = show_int (secs mod 60) @ frac @ ''s''; mins = secs div 60
      in if mins = 0 then s
         else (let m = show_int (mins mod 60) @ ''m'' @ s; hrs = mins div 60
               in if hrs = 0 then m else show_int hrs @ ''h'' @ m))"

definition abs_duration :: "nsec \<Rightarrow> string" where
  "abs_duration d =
     (if d = 0 then ''0s''
      else if d < 1000 then show_int d @ ''ns''
      else if d < 1000000 then show_int (d div 1000) @ frac_text 3 (d mod 1000) @ [CHR 0xC2, CHR 0xB5, CHR ''s'']
      else if d < second then show_int (d div 1000000) @ frac_text 6 (d mod 1000000) @ ''ms''
      else whole_duration (d div second) (frac_text 9 (d mod second)))"

text \<open>\<open>time.Duration.String\<close>.\<close>

definition duration_String :: "nsec \<Rightarrow> string" where
  "duration_String d = (if d < 0 then ''-'' @ abs_duration (- d) else abs_duration d)"

text \<open>\<open>big.Rat.FloatString\<close> of a value that is not negative: rounded half up to \<open>prec\<close> digits.\<close>

definition FloatString :: "nat \<Rightarrow> big_rat \<Rightarrow> string" where
  "FloatString prec r =
     (let (num, den) = r; q = (2 * num * 10 ^ prec + den) div (2 * den)
      in show_int (q div 10 ^ prec) @ (if prec = 0 then [] else ''.'' @ zero_pad prec (q mod 10 ^ prec)))"

subsection \<open>Prices\<close>

definition ApproximateRequestPriceFromPerMTok :: "string \<Rightarrow> price_error + string" where
  "ApproximateRequestPriceFromPerMTok perMTok =
     (case ParsePositiveDecimalAmount perMTok MaxPriceDecimals of
        Inl e \<Rightarrow> Inl e
      | Inr (num, den) \<Rightarrow>
          Inr (trimDecimalString (FloatString (nat MaxPriceDecimals + 3) (num * ApproxTokensPerRequest, den * 1000000))))"

text \<open>Price, price model, price per million tokens and tokens per request of an option.\<close>

definition effectivePriceForOption :: "offer_payment \<Rightarrow> price_error + (string \<times> string \<times> string \<times> int)" where
  "effectivePriceForOption p =
     (let t = op_Price p in
      if pt_PerRequest t \<noteq> [] then Inr (pt_PerRequest t, ''perRequest'', [], 0)
      else if pt_PerMTok t \<noteq> [] then
        (case ApproximateRequestPriceFromPerMTok (pt_PerMTok t) of
           Inl e \<Rightarrow> Inl e
         | Inr price \<Rightarrow> Inr (price, ''perMTok'', pt_PerMTok t, ApproxTokensPerRequest))
      else if pt_PerHour t \<noteq> [] then Inr (pt_PerHour t, ''perHour'', [], 0)
      else Inr (''0'', [], [], 0))"

definition routePaymentFromSpec :: "offer_payment \<Rightarrow> price_error + route_payment" where
  "routePaymentFromSpec p =
     (case effectivePriceForOption p of
        Inl e \<Rightarrow> Inl e
      | Inr (price, model, perMTok, approx) \<Rightarrow>
          (let a = op_Asset p in Inr
            \<lparr>rp_Price = price, rp_PayTo = op_PayTo p, rp_Network = NormalizeNetworkID (op_Network p),
             rp_AssetAddress = oa_Address a, rp_AssetSymbol = oa_Symbol a, rp_AssetDecimals = oa_Decimals a,
             rp_AssetTransferMethod = oa_TransferMethod a, rp_EIP712Name = oa_EIP712Name a,
             rp_EIP712Version = oa_EIP712Version a, rp_PriceModel = model, rp_PerMTok = perMTok,
             rp_ApproxTokensPerRequest = approx, rp_MaxTimeoutSeconds = op_MaxTimeoutSeconds p\<rparr>))"

text \<open>All options of an offer, or the error of the first one that fails.\<close>

fun route_payments :: "offer_payment list \<Rightarrow> price_error + route_payment list" where
  "route_payments [] = Inr []"
| "route_payments (p # ps) =
     (case routePaymentFromSpec p of
        Inl e \<Rightarrow> Inl e
      | Inr rp \<Rightarrow> (case route_payments ps of Inl e \<Rightarrow> Inl e | Inr rps \<Rightarrow> Inr (rp # rps)))"

subsection \<open>One rule\<close>

definition isLiteLLMUpstream :: "service_offer \<Rightarrow> bool" where
  "isLiteLLMUpstream o' \<longleftrightarrow> \<not> IsAgent o' \<and> equal_fold (ou_Service (os_Upstream (so_spec o'))) ''litellm''"

definition bodyPolicyForOffer :: "service_offer \<Rightarrow> string" where
  "bodyPolicyForOffer o' =
     (if IsAgent o' then BodyPolicyAgent else if isLiteLLMUpstream o' then BodyPolicyLiteLLM else [])"

definition upstreamPathsForOffer :: "service_offer \<Rightarrow> string list" where
  "upstreamPathsForOffer o' =
     (if IsAgent o' then hermesBuyerPaths else if isLiteLLMUpstream o' then liteLLMBuyerPaths else [])"

definition effectiveUpstreamAuth :: "service_offer \<Rightarrow> string \<Rightarrow> string" where
  "effectiveUpstreamAuth o' upstreamAuth =
     (if IsAgent o' then upstreamAuth
      else if \<not> equal_fold (ou_Service (os_Upstream (so_spec o'))) ''litellm'' then [] else upstreamAuth)"

definition resolved_endpoint :: "service_offer \<Rightarrow> string option" where
  "resolved_endpoint o' =
     (if IsAgent o' then (case st_AgentResolution (so_status o') of None \<Rightarrow> None
        | Some res \<Rightarrow> if ag_Endpoint res \<noteq> [] then Some (ag_Endpoint res) else None)
      else None)"

definition upstreamURL_for :: "service_offer \<Rightarrow> string" where
  "upstreamURL_for o' =
     (case resolved_endpoint o' of Some e \<Rightarrow> e
      | None \<Rightarrow> ''http://'' @ ou_Service (os_Upstream (so_spec o')) @ ''.'' @ EffectiveNamespace o' @ ''.svc.cluster.local:'' @
                show_int (EffectivePort o'))"

definition with_agent :: "service_offer \<Rightarrow> route_rule \<Rightarrow> route_rule" where
  "with_agent o' rule =
     (case (if IsAgent o' then st_AgentResolution (so_status o') else None) of
        Some res \<Rightarrow> rule\<lparr>rr_AgentModel := ag_Model res, rr_AgentSkills := ag_Skills res, rr_AgentRuntime := ag_Runtime res,
          rr_Model := ag_Model res\<rparr>
      | None \<Rightarrow> rule\<lparr>rr_Model := trim_space (ml_Name (os_Model (so_spec o')))\<rparr>)"

text \<open>The rule of an offer whose payment options are \<open>rps\<close>.\<close>

definition offer_rule :: "service_offer \<Rightarrow> string \<Rightarrow> route_payment list \<Rightarrow> route_rule" where
  "offer_rule o' upstreamAuth rps =
     (let primary = hd rps in with_agent o' (empty_rule
       \<lparr>rr_Pattern := trim_suffix ''/'' (EffectivePath o') @ ''/*'', rr_Hostname := os_Hostname (so_spec o'),
        rr_Price := rp_Price primary, rr_Description := rg_Description (os_Registration (so_spec o')),
        rr_OfferType := os_Type (so_spec o'), rr_PayTo := rp_PayTo primary, rr_Network := rp_Network primary,
        rr_AssetAddress := rp_AssetAddress primary, rr_AssetSymbol := rp_AssetSymbol primary,
        rr_AssetDecimals := rp_AssetDecimals primary, rr_AssetTransferMethod := rp_AssetTransferMethod primary,
        rr_EIP712Name := rp_EIP712Name primary, rr_EIP712Version := rp_EIP712Version primary,
        rr_UpstreamAuth := effectiveUpstreamAuth o' upstreamAuth, rr_UpstreamPaths := upstreamPathsForOffer o',
        rr_BodyPolicy := bodyPolicyForOffer o', rr_UpstreamURL := upstreamURL_for o', rr_StripPrefix := EffectivePath o',
        rr_PriceModel := rp_PriceModel primary, rr_PerMTok := rp_PerMTok primary,
        rr_ApproxTokensPerRequest := rp_ApproxTokensPerRequest primary, rr_OfferNamespace := so_Namespace o',
        rr_OfferName := so_Name o', rr_MaxTimeoutSeconds := rp_MaxTimeoutSeconds primary, rr_Payments := rps\<rparr>))"

definition routeRuleFromOffer :: "service_offer \<Rightarrow> string \<Rightarrow> price_error + route_rule" where
  "routeRuleFromOffer o' upstreamAuth = map_sum id (offer_rule o' upstreamAuth) (route_payments (EffectivePayments o'))"

subsection \<open>The rules of an offer\<close>

definition brokerBaseURL :: "string \<Rightarrow> string" where
  "brokerBaseURL env = (if env \<noteq> [] then env else ''http://job-broker.x402.svc.cluster.local:8090'')"

definition joinRoutePattern :: "string \<Rightarrow> string \<Rightarrow> string" where
  "joinRoutePattern offerPath routePath =
     (let base = trim_suffix ''/'' offerPath in if routePath = [] \<or> routePath = ''/'' then base else base @ routePath)"

definition declared_rule :: "string \<Rightarrow> service_offer \<Rightarrow> route_rule \<Rightarrow> offer_route \<Rightarrow> route_rule" where
  "declared_rule env o' base rt =
     (let r1 = base\<lparr>rr_Pattern := joinRoutePattern (EffectivePath o') (rt_Path rt), rr_Gate := EffectiveGate rt,
            rr_FreeQuota := rt_FreeQuota rt, rr_Description := (if rt_Summary rt \<noteq> [] then rt_Summary rt else rr_Description base)\<rparr>
      in if as_Enabled (os_Async (so_spec o')) \<and> EffectiveGate rt = GatePaid then
           r1\<lparr>rr_Async := True, rr_BrokerURL := brokerBaseURL env, rr_AsyncTTL := duration_String (EffectiveTTL (os_Async (so_spec o'))),
             rr_AsyncVisibility := EffectiveResultVisibility (os_Async (so_spec o'))\<rparr>
         else r1)"

definition priced_rule :: "service_offer \<Rightarrow> offer_route \<Rightarrow> route_rule \<Rightarrow> price_error + route_rule" where
  "priced_rule o' rt rule =
     (if IsFree rule \<or> IsAuth rule then Inr (rule\<lparr>rr_Price := ''0'', rr_Payments := []\<rparr>)
      else if HasPriceOverride rt then
        (case routePaymentFromSpec ((hd (EffectivePayments o'))\<lparr>op_Price := rt_Price rt\<rparr>) of
           Inl e \<Rightarrow> Inl e
         | Inr rp \<Rightarrow> Inr (rule\<lparr>rr_Price := rp_Price rp, rr_PriceModel := rp_PriceModel rp, rr_PerMTok := rp_PerMTok rp,
             rr_ApproxTokensPerRequest := rp_ApproxTokensPerRequest rp, rr_Payments := [rp]\<rparr>))
      else Inr rule)"

fun declared_rules :: "string \<Rightarrow> service_offer \<Rightarrow> route_rule \<Rightarrow> offer_route list \<Rightarrow> price_error + route_rule list" where
  "declared_rules env o' base [] = Inr []"
| "declared_rules env o' base (rt # rts) =
     (case priced_rule o' rt (declared_rule env o' base rt) of
        Inl e \<Rightarrow> Inl e
      | Inr rule \<Rightarrow> (case declared_rules env o' base rts of Inl e \<Rightarrow> Inl e | Inr rules \<Rightarrow> Inr (rule # rules)))"

definition jobs_rule :: "string \<Rightarrow> service_offer \<Rightarrow> route_rule \<Rightarrow> route_rule" where
  "jobs_rule env o' base =
     base\<lparr>rr_Pattern := joinRoutePattern (EffectivePath o') ''/jobs/*'', rr_Gate := ''free'', rr_Price := ''0'', rr_Payments := [],
       rr_UpstreamPaths := [], rr_BodyPolicy := [], rr_Async := True, rr_BrokerURL := brokerBaseURL env,
       rr_Description := ''Async job status, results, and wallet-scoped listing''\<rparr>"

definition routeRulesFromOffer :: "string \<Rightarrow> service_offer \<Rightarrow> string \<Rightarrow> price_error + route_rule list" where
  "routeRulesFromOffer env o' upstreamAuth =
     (case routeRuleFromOffer o' upstreamAuth of
        Inl e \<Rightarrow> Inl e
      | Inr base \<Rightarrow>
          (case declared_rules env o' base (EffectiveRoutes o') of
             Inl e \<Rightarrow> Inl e
           | Inr rules \<Rightarrow> Inr (rules @ (if as_Enabled (os_Async (so_spec o')) then [jobs_rule env o' base] else []))))"

subsection \<open>Secrets and the whole store\<close>

record secret_item =
  se_Name :: string
  se_Namespace :: string
  se_Data :: "(string, string option) gomap option"

datatype source_error = SecretNotString | SecretNotBase64 | OfferNotDecoded | BadPrice price_error

definition secret_data_key :: "string \<Rightarrow> string option" where
  "secret_data_key name =
     (if name = ''litellm-secrets'' then Some ''LITELLM_MASTER_KEY''
      else if name = ''hermes-api-server'' then Some ''API_SERVER_KEY'' else None)"

definition secret_value :: "secret_item \<Rightarrow> string \<Rightarrow> source_error + string option" where
  "secret_value s key =
     (case se_Data s of None \<Rightarrow> Inl SecretNotString
      | Some data \<Rightarrow> (case map_of data key of None \<Rightarrow> Inr None | Some None \<Rightarrow> Inl SecretNotString | Some (Some v) \<Rightarrow> Inr (Some v)))"

type_synonym auth_maps = "(string, string) gomap \<times> (string, string) gomap"

fun upstreamAuth_loop :: "secret_item list \<Rightarrow> auth_maps \<Rightarrow> source_error + auth_maps" where
  "upstreamAuth_loop [] m = Inr m"
| "upstreamAuth_loop (s # ss) (litellm, hermes) =
     (case secret_data_key (se_Name s) of
        None \<Rightarrow> upstreamAuth_loop ss (litellm, hermes)
      | Some key \<Rightarrow>
          (case secret_value s key of
             Inl e \<Rightarrow> Inl e
           | Inr v \<Rightarrow>
               if v = None \<or> v = Some [] then upstreamAuth_loop ss (litellm, hermes)
               else (case base64_decode (the v) of
                       None \<Rightarrow> Inl SecretNotBase64
                     | Some decoded \<Rightarrow>
                         (let token = trim_space decoded; bearer = ''Bearer '' @ token
                          in if token = [] then upstreamAuth_loop ss (litellm, hermes)
                             else if se_Name s = ''litellm-secrets''
                             then upstreamAuth_loop ss (AList.update (se_Namespace s) bearer litellm, hermes)
                             else upstreamAuth_loop ss (litellm, AList.update (se_Namespace s) bearer hermes)))))"

definition upstreamAuthByNamespace :: "secret_item list \<Rightarrow> source_error + auth_maps" where
  "upstreamAuthByNamespace items = upstreamAuth_loop items ([], [])"

definition offerConditionTrue :: "offer_status \<Rightarrow> string \<Rightarrow> bool" where
  "offerConditionTrue status conditionType =
     (case find (\<lambda>c. cd_Type c = conditionType) (st_Conditions status) of Some c \<Rightarrow> cd_Status c = ''True'' | None \<Rightarrow> False)"

text \<open>The upstream namespace defaults to the namespace of the offer.\<close>

definition with_namespace :: "service_offer \<Rightarrow> service_offer" where
  "with_namespace o' =
     (let spec = so_spec o'; up = os_Upstream spec in
      if ou_Namespace up = [] then o'\<lparr>so_spec := spec\<lparr>os_Upstream := up\<lparr>ou_Namespace := so_Namespace o'\<rparr>\<rparr>\<rparr> else o')"

definition offer_live :: "nsec \<Rightarrow> service_offer \<Rightarrow> bool" where
  "offer_live now o' \<longleftrightarrow> \<not> DrainExpired o' now \<and> offerConditionTrue (so_status o') ''RoutePublished''"

definition offer_auth :: "auth_maps \<Rightarrow> service_offer \<Rightarrow> string" where
  "offer_auth m o' =
     (if IsAgent o' then the_default [] (map_of (snd m) (gr_Namespace (os_Agent (so_spec o'))))
      else the_default [] (map_of (fst m) (EffectiveNamespace o')))"

fun offers_loop ::
  "('u \<Rightarrow> service_offer option) \<Rightarrow> string \<Rightarrow> nsec \<Rightarrow> auth_maps \<Rightarrow> 'u list \<Rightarrow> source_error + route_rule list" where
  "offers_loop decode env now m [] = Inr []"
| "offers_loop decode env now m (item # items) =
     (case decode item of
        None \<Rightarrow> Inl OfferNotDecoded
      | Some o0 \<Rightarrow>
          (let o' = with_namespace o0 in
           if \<not> offer_live now o' then offers_loop decode env now m items
           else (case routeRulesFromOffer env o' (offer_auth m o') of
                   Inl e \<Rightarrow> Inl (BadPrice e)
                 | Inr rules \<Rightarrow> (case offers_loop decode env now m items of Inl e \<Rightarrow> Inl e | Inr rest \<Rightarrow> Inr (rules @ rest)))))"

definition routesFromStore ::
  "('u \<Rightarrow> service_offer option) \<Rightarrow> string \<Rightarrow> nsec \<Rightarrow> 'u list \<Rightarrow> secret_item list \<Rightarrow> source_error + route_rule list" where
  "routesFromStore decode env now offerItems secretItems =
     (case upstreamAuthByNamespace secretItems of
        Inl e \<Rightarrow> Inl e
      | Inr m \<Rightarrow>
          (case offers_loop decode env now m offerItems of
             Inl e \<Rightarrow> Inl e
           | Inr routes \<Rightarrow> Inr (sortRoutesBySpecificity routes)))"

end
