(* ===== verification/OfferRules.thy ===== *)
theory OfferRules imports OfferSource UpstreamProxy JobServer begin

text \<open>
  What the verifier makes of a service offer: every route of the offer is one rule with the gate and the prices that the
  offer declares, rules with a privileged credential are restricted, and the job broker gets the terms of an
  asynchronous offer.
\<close>

subsection \<open>Durations are read back\<close>

lemma digits_val_ge: "digits_val a s = Some v \<Longrightarrow> 0 \<le> a \<Longrightarrow> a \<le> v"
proof (induction s arbitrary: a)
  case (Cons c s)
  then obtain d where d: "digit_val c = Some d" "digits_val (10 * a + d) s = Some v" by (auto split: option.splits)
  have "0 \<le> d" using d(1) by (auto simp: digit_val_def split: if_splits)
  with Cons.IH [OF d(2)] Cons.prems(2) show ?case by simp
qed simp

lemma leading_int_digits:
  "digits_val a s = Some v \<Longrightarrow> 0 \<le> a \<Longrightarrow> v \<le> max_duration \<Longrightarrow> r = [] \<or> \<not> decimal_digit (hd r) \<Longrightarrow>
   leading_int a (s @ r) = Some (v, r)"
proof (induction s arbitrary: a)
  case Nil
  then show ?case by (cases r) auto
next
  case (Cons c s)
  then obtain d where d: "digit_val c = Some d" "digits_val (10 * a + d) s = Some v" by (auto split: option.splits)
  have c: "decimal_digit c" "d = byte c - 48" "0 \<le> d"
    using d(1) by (auto simp: digit_val_def decimal_digit_def split: if_splits)
  have le: "10 * a + d \<le> max_duration" using digits_val_ge [OF d(2)] Cons.prems(2,3) c(3) by simp
  then have "a \<le> max_duration div 10" using c(3) by (simp add: max_duration_def)
  with Cons.IH [OF d(2)] Cons.prems c le show ?case by simp
qed

lemma show_int_digit: "0 \<le> n \<Longrightarrow> decimal_digit (hd (show_int n)) \<and> show_int n \<noteq> []"
proof -
  assume n: "0 \<le> n"
  then have "show_int n = show_dec n" by (simp add: show_int_def)
  moreover obtain c cs where "show_dec n = c # cs" by (cases "show_dec n") (use show_dec_not_Nil in auto)
  moreover have "digits_val 0 (show_dec n) = Some n" by (rule digits_val_show_dec [OF n])
  ultimately show ?thesis by (auto simp: digit_val_def decimal_digit_def split: option.splits if_splits)
qed

text \<open>One number with a unit of one letter.\<close>

lemma duration_term_unit:
  assumes n: "0 \<le> n" and u: "map_of time_units [c] = Some unit" "unit_char c" "0 < unit"
    and rest: "rest = [] \<or> decimal_digit (hd rest)" and d: "0 \<le> d" "d + n * unit \<le> max_duration"
  shows "duration_term frac d (show_int n @ c # rest) = Some (d + n * unit, rest)"
proof -
  have "n * 1 \<le> n * unit" using n u(3) by (intro mult_left_mono) simp_all
  then have le: "n \<le> max_duration" using d by simp
  have l: "leading_int 0 (show_int n @ c # rest) = Some (n, c # rest)"
  proof (rule leading_int_digits)
    show "digits_val 0 (show_int n) = Some n" using n by (simp add: show_int_def digits_val_show_dec)
    show "c # rest = [] \<or> \<not> decimal_digit (hd (c # rest))" using u(2) by (simp add: unit_char_def)
  qed (use le in simp_all)
  have v: "\<not> n > max_duration div unit"
    using d u(3) zdiv_mono1 [of "n * unit" max_duration unit] by simp
  have "takeWhile unit_char rest = [] \<and> dropWhile unit_char rest = rest"
    using rest by (cases rest) (auto simp: unit_char_def)
  then have a: "add_unit frac d n (0, 0) (c # rest) = Some (d + n * unit, rest)"
    using u v d n by (simp add: add_unit_def)
  have c: "c \<noteq> CHR ''.''" using u(2) by (simp add: unit_char_def)
  have s: "show_int n \<noteq> []" "decimal_digit (hd (show_int n))" using show_int_digit [OF n] by simp_all
  then have "length (c # rest) \<noteq> length (show_int n @ c # rest)" by simp
  with l a c s show ?thesis by (simp add: duration_term_def)
qed

lemma duration_terms_step:
  "duration_term frac d s = Some (d', r) \<Longrightarrow> s \<noteq> [] \<Longrightarrow> duration_terms frac d s = duration_terms frac d' r"
  by (subst duration_terms.simps) simp

lemma duration_terms_Nil [simp]: "duration_terms frac d [] = Some d"
  by (subst duration_terms.simps) simp

lemma unit_letters:
  "map_of time_units ''s'' = Some second" "map_of time_units ''m'' = Some minute" "map_of time_units ''h'' = Some hour"
  "unit_char CHR ''s''" "unit_char CHR ''m''" "unit_char CHR ''h''"
  by (simp_all add: time_units_def unit_char_def decimal_digit_def byte_def)

lemma digit_head: "0 \<le> n \<Longrightarrow> decimal_digit (hd (show_int n @ t)) \<and> show_int n @ t \<noteq> []"
  using show_int_digit [of n] by (cases "show_int n") auto

lemma whole_duration_parsed:
  assumes "0 \<le> secs" and "secs * second \<le> max_duration"
  shows "duration_terms frac 0 (whole_duration secs []) = Some (secs * second)"
proof -
  define s mi m h where "s = secs mod 60" and "mi = secs div 60" and "m = mi mod 60" and "h = mi div 60"
  have n: "0 \<le> s" "0 \<le> mi" "0 \<le> m" "0 \<le> h" using assms(1) by (simp_all add: s_def mi_def m_def h_def)
  have e: "secs = 60 * mi + s" "mi = 60 * h + m" by (simp_all add: s_def mi_def m_def h_def)
  have S: "duration_terms frac d (show_int s @ ''s'') = Some (d + s * second)" if "0 \<le> d" "d + s * second \<le> max_duration" for d
    using duration_term_unit [OF n(1), of "CHR ''s''" second "[]" d frac] that digit_head [OF n(1)] unit_letters
    by (simp add: duration_terms_step)
  have M: "duration_terms frac d (show_int m @ ''m'' @ show_int s @ ''s'') = Some (d + m * minute + s * second)"
    if "0 \<le> d" "d + m * minute + s * second \<le> max_duration" for d
  proof -
    have "duration_term frac d (show_int m @ CHR ''m'' # show_int s @ ''s'') = Some (d + m * minute, show_int s @ ''s'')"
      by (rule duration_term_unit) (use n that digit_head [OF n(1)] unit_letters in simp_all)
    with S [of "d + m * minute"] n that digit_head [OF n(3)] show ?thesis by (simp add: duration_terms_step)
  qed
  have H: "duration_terms frac 0 (show_int h @ ''h'' @ show_int m @ ''m'' @ show_int s @ ''s'') = Some (h * hour + m * minute + s * second)"
    if "h * hour + m * minute + s * second \<le> max_duration"
  proof -
    have "duration_term frac 0 (show_int h @ CHR ''h'' # show_int m @ ''m'' @ show_int s @ ''s'') =
        Some (0 + h * hour, show_int m @ ''m'' @ show_int s @ ''s'')"
      by (rule duration_term_unit) (use n that digit_head [OF n(3)] unit_letters in simp_all)
    with M [of "h * hour"] n that digit_head [OF n(4)] show ?thesis by (simp add: duration_terms_step)
  qed
  have w: "whole_duration secs [] = (if mi = 0 then show_int s @ ''s''
      else if h = 0 then show_int m @ ''m'' @ show_int s @ ''s'' else show_int h @ ''h'' @ show_int m @ ''m'' @ show_int s @ ''s'')"
    by (simp add: whole_duration_def Let_def s_def mi_def m_def h_def)
  show ?thesis
  proof (cases "mi = 0")
    case True
    then have "secs = s" using e by simp
    with True S [of 0] assms(2) w show ?thesis by simp
  next
    case mi: False
    show ?thesis
    proof (cases "h = 0")
      case True
      then have "secs * second = m * minute + s * second" using e by (simp add: algebra_simps)
      with mi True M [of 0] assms(2) w show ?thesis by simp
    next
      case False
      have "secs * second = h * hour + m * minute + s * second" using e by (simp add: algebra_simps)
      with mi False H assms(2) w show ?thesis by simp
    qed
  qed
qed

lemma frac_text_0: "frac_text 9 0 = []"
  by code_simp

lemma whole_duration_ends:
  assumes "0 \<le> secs"
  shows "decimal_digit (hd (whole_duration secs [])) \<and> whole_duration secs [] \<noteq> [] \<and> last (whole_duration secs []) = CHR ''s''"
proof -
  define x y z where "x = secs mod 60" and "y = secs div 60 mod 60" and "z = secs div 60 div 60"
  have n: "0 \<le> x" "0 \<le> y" "0 \<le> z" using assms by (simp_all add: x_def y_def z_def)
  have E: "decimal_digit (hd (show_int n @ t @ ''s'')) \<and> show_int n @ t @ ''s'' \<noteq> [] \<and> last (show_int n @ t @ ''s'') = CHR ''s''"
    if "0 \<le> n" for n t
    using digit_head [OF that] by simp
  have "whole_duration secs [] \<in> {show_int x @ [] @ ''s'', show_int y @ (''m'' @ show_int x) @ ''s'',
      show_int z @ (''h'' @ show_int y @ ''m'' @ show_int x) @ ''s''}"
    unfolding whole_duration_def Let_def x_def [symmetric] y_def [symmetric] z_def [symmetric] by simp
  then show ?thesis using E [OF n(1)] E [OF n(2)] E [OF n(3)] by (elim insertE emptyE) (simp_all only: simp_thms)
qed

lemma duration_parsed:
  assumes "0 < d" "d mod second = 0" "d \<le> max_int64"
  shows "ParseDuration frac (duration_String d) = Some d"
proof -
  have e: "d = d div second * second" using assms(2) by (simp add: dvd_div_mult_self mod_eq_0_iff_dvd)
  have b: "second \<le> d" using assms(1,2) by (metis mod_pos_pos_trivial not_less order_less_imp_le less_le)
  then have s: "duration_String d = whole_duration (d div second) []"
    using assms by (simp add: duration_String_def abs_duration_def frac_text_0)
  have p: "duration_terms frac 0 (duration_String d) = Some d"
    using whole_duration_parsed [of "d div second" frac] e assms(1,3) s by (simp add: max_int64_def max_duration_def)
  have h: "decimal_digit (hd (duration_String d))" "duration_String d \<noteq> []" "last (duration_String d) = CHR ''s''"
    using whole_duration_ends [of "d div second"] assms(1) s by simp_all
  then have "hd (duration_String d) \<noteq> CHR ''-''" "hd (duration_String d) \<noteq> CHR ''+''" by (auto simp: decimal_digit_def byte_def)
  moreover have "duration_String d \<noteq> ''0''" using h(3) by auto
  ultimately show ?thesis using h p assms(1,3) by (simp add: ParseDuration_def Let_def)
qed

subsection \<open>The rules of an offer\<close>

text \<open>The options that a route of the offer accepts.\<close>

definition route_options :: "service_offer \<Rightarrow> offer_route \<Rightarrow> offer_payment list" where
  "route_options o' rt =
     (if HasPriceOverride rt then [(hd (EffectivePayments o'))\<lparr>op_Price := rt_Price rt\<rparr>] else EffectivePayments o')"

text \<open>What a rule owes to the route that it was rendered from.\<close>

definition rule_of_route :: "service_offer \<Rightarrow> string \<Rightarrow> offer_route \<Rightarrow> route_rule \<Rightarrow> bool" where
  "rule_of_route o' auth rt rule \<longleftrightarrow>
     rr_Pattern rule = joinRoutePattern (EffectivePath o') (rt_Path rt) \<and> rr_Gate rule = EffectiveGate rt \<and>
     rr_FreeQuota rule = rt_FreeQuota rt \<and> rr_StripPrefix rule = EffectivePath o' \<and> rr_UpstreamURL rule = upstreamURL_for o' \<and>
     rr_UpstreamAuth rule = effectiveUpstreamAuth o' auth \<and> rr_UpstreamPaths rule = upstreamPathsForOffer o' \<and>
     rr_BodyPolicy rule = bodyPolicyForOffer o' \<and> rr_OfferNamespace rule = so_Namespace o' \<and> rr_OfferName rule = so_Name o' \<and>
     (if IsFree rule \<or> IsAuth rule then rr_Price rule = ''0'' \<and> rr_Payments rule = []
      else map Inr (PaymentOptions rule) = map routePaymentFromSpec (route_options o' rt))"

lemma EffectivePayments_nonempty: "EffectivePayments o' \<noteq> []"
  by (simp add: EffectivePayments_def)

lemma route_payments_map: "route_payments ps = Inr rps \<Longrightarrow> map Inr rps = map routePaymentFromSpec ps"
  by (induction ps arbitrary: rps) (auto split: sum.splits)

lemmas rule_shape = with_agent_def declared_rule_def Let_def

lemma with_agent_same [simp]:
  "rr_StripPrefix (with_agent o' r) = rr_StripPrefix r"
  "rr_UpstreamURL (with_agent o' r) = rr_UpstreamURL r"
  "rr_UpstreamAuth (with_agent o' r) = rr_UpstreamAuth r"
  "rr_UpstreamPaths (with_agent o' r) = rr_UpstreamPaths r"
  "rr_BodyPolicy (with_agent o' r) = rr_BodyPolicy r"
  "rr_OfferNamespace (with_agent o' r) = rr_OfferNamespace r"
  "rr_OfferName (with_agent o' r) = rr_OfferName r"
  "rr_Async (with_agent o' r) = rr_Async r"
  "rr_OfferType (with_agent o' r) = rr_OfferType r"
  "rr_Hostname (with_agent o' r) = rr_Hostname r"
  "rr_Payments (with_agent o' r) = rr_Payments r"
  "rr_PayTo (with_agent o' r) = rr_PayTo r"
  by (simp_all add: with_agent_def split: option.split)

text \<open>The rule that all routes start from.\<close>

lemma base_rule:
  assumes "routeRuleFromOffer o' auth = Inr base"
  shows "rr_StripPrefix base = EffectivePath o' \<and> rr_UpstreamURL base = upstreamURL_for o' \<and>
    rr_UpstreamAuth base = effectiveUpstreamAuth o' auth \<and> rr_UpstreamPaths base = upstreamPathsForOffer o' \<and>
    rr_BodyPolicy base = bodyPolicyForOffer o' \<and> rr_OfferNamespace base = so_Namespace o' \<and> rr_OfferName base = so_Name o' \<and>
    \<not> rr_Async base \<and> rr_OfferType base = os_Type (so_spec o') \<and> rr_Hostname base = os_Hostname (so_spec o') \<and>
    map Inr (rr_Payments base) = map routePaymentFromSpec (EffectivePayments o') \<and> rr_Payments base \<noteq> [] \<and>
    rr_PayTo base = op_PayTo (hd (EffectivePayments o'))"
proof -
  obtain rps where r: "route_payments (EffectivePayments o') = Inr rps"
    using assms by (cases "route_payments (EffectivePayments o')") (auto simp: routeRuleFromOffer_def)
  note m = route_payments_map [OF r]
  then have "length rps = length (EffectivePayments o')" using map_eq_imp_length_eq by blast
  then obtain rp rest where rps: "rps = rp # rest" using EffectivePayments_nonempty by (cases rps) auto
  obtain p ps where ps: "EffectivePayments o' = p # ps" using EffectivePayments_nonempty by (cases "EffectivePayments o'") auto
  have "routePaymentFromSpec p = Inr rp" using m rps ps by simp
  then have "rp_PayTo rp = op_PayTo p" by (auto simp: routePaymentFromSpec_def Let_def split: sum.splits)
  moreover have "base = offer_rule o' auth rps" using assms r by (simp add: routeRuleFromOffer_def)
  ultimately show ?thesis using m rps ps by (simp add: offer_rule_def Let_def empty_rule_def)
qed

lemma declared_rule_fields:
  assumes "routeRuleFromOffer o' auth = Inr base" and "priced_rule o' rt (declared_rule env o' base rt) = Inr rule"
  shows "rule_of_route o' auth rt rule \<and> rr_OfferType rule = os_Type (so_spec o') \<and> rr_Hostname rule = os_Hostname (so_spec o') \<and>
    rr_PayTo rule = op_PayTo (hd (EffectivePayments o')) \<and>
    (if as_Enabled (os_Async (so_spec o')) \<and> EffectiveGate rt = GatePaid
     then rr_Async rule \<and> rr_BrokerURL rule = brokerBaseURL env \<and>
       rr_AsyncTTL rule = duration_String (EffectiveTTL (os_Async (so_spec o'))) \<and>
       rr_AsyncVisibility rule = EffectiveResultVisibility (os_Async (so_spec o'))
     else \<not> rr_Async rule)"
proof -
  note b = base_rule [OF assms(1)]
  define d where "d = declared_rule env o' base rt"
  have f: "IsFree d \<or> IsAuth d \<longleftrightarrow> EffectiveGate rt = ''free'' \<or> EffectiveGate rt = ''auth''"
    by (simp add: d_def rule_shape IsFree_def IsAuth_def)
  show ?thesis
  proof (cases "EffectiveGate rt = ''free'' \<or> EffectiveGate rt = ''auth''")
    case True
    then have "rule = d\<lparr>rr_Price := ''0'', rr_Payments := []\<rparr>" using assms(2) f by (simp add: priced_rule_def d_def)
    with True b show ?thesis
      by (auto simp: rule_of_route_def d_def rule_shape IsFree_def IsAuth_def GatePaid_def)
  next
    case gated: False
    show ?thesis
    proof (cases "HasPriceOverride rt")
      case True
      then obtain rp where rp: "routePaymentFromSpec ((hd (EffectivePayments o'))\<lparr>op_Price := rt_Price rt\<rparr>) = Inr rp"
        "rule = d\<lparr>rr_Price := rp_Price rp, rr_PriceModel := rp_PriceModel rp, rr_PerMTok := rp_PerMTok rp,
           rr_ApproxTokensPerRequest := rp_ApproxTokensPerRequest rp, rr_Payments := [rp]\<rparr>"
        using assms(2) f gated by (auto simp: priced_rule_def d_def split: sum.splits)
      with True gated b show ?thesis
        by (auto simp: rule_of_route_def d_def rule_shape IsFree_def IsAuth_def PaymentOptions_def route_options_def)
    next
      case False
      then have "rule = d" using assms(2) f gated by (simp add: priced_rule_def d_def)
      with False gated b show ?thesis
        by (auto simp: rule_of_route_def d_def rule_shape IsFree_def IsAuth_def PaymentOptions_def route_options_def)
    qed
  qed
qed

lemma declared_rules_all:
  assumes "routeRuleFromOffer o' auth = Inr base" and "declared_rules env o' base rts = Inr rules"
  shows "list_all2 (\<lambda>rt rule. priced_rule o' rt (declared_rule env o' base rt) = Inr rule) rts rules"
  using assms(2) by (induction rts arbitrary: rules) (auto split: sum.splits)

lemma offer_rules_cases:
  assumes "routeRulesFromOffer env o' auth = Inr rules"
  obtains base declared where "routeRuleFromOffer o' auth = Inr base"
    "list_all2 (\<lambda>rt rule. priced_rule o' rt (declared_rule env o' base rt) = Inr rule) (EffectiveRoutes o') declared"
    "rules = declared @ (if as_Enabled (os_Async (so_spec o')) then [jobs_rule env o' base] else [])"
proof -
  obtain base declared where b: "routeRuleFromOffer o' auth = Inr base" "declared_rules env o' base (EffectiveRoutes o') = Inr declared"
    "rules = declared @ (if as_Enabled (os_Async (so_spec o')) then [jobs_rule env o' base] else [])"
    using assms by (auto simp: routeRulesFromOffer_def split: sum.splits)
  from that [OF b(1) declared_rules_all [OF b(1,2)] b(3)] show thesis .
qed

text \<open>An option as the verifier charges it: the payee, chain, token and deadline of the offer's option, and its price.  A price
  per million tokens is charged by the estimate of 1000 tokens per request; a price per hour is charged as it is written.\<close>

definition option_charge :: "offer_payment \<Rightarrow> route_payment \<Rightarrow> bool" where
  "option_charge p rp \<longleftrightarrow> rp_PayTo rp = op_PayTo p \<and> rp_Network rp = NormalizeNetworkID (op_Network p) \<and>
     rp_AssetAddress rp = oa_Address (op_Asset p) \<and> rp_AssetSymbol rp = oa_Symbol (op_Asset p) \<and>
     rp_AssetDecimals rp = oa_Decimals (op_Asset p) \<and> rp_AssetTransferMethod rp = oa_TransferMethod (op_Asset p) \<and>
     rp_EIP712Name rp = oa_EIP712Name (op_Asset p) \<and> rp_EIP712Version rp = oa_EIP712Version (op_Asset p) \<and>
     rp_MaxTimeoutSeconds rp = op_MaxTimeoutSeconds p \<and>
     (let t = op_Price p in
      if pt_PerRequest t \<noteq> [] then rp_Price rp = pt_PerRequest t \<and> rp_PriceModel rp = ''perRequest''
      else if pt_PerMTok t \<noteq> [] then rp_PerMTok rp = pt_PerMTok t \<and> rp_PriceModel rp = ''perMTok'' \<and> rp_ApproxTokensPerRequest rp = 1000
      else rp_Price rp = (if pt_PerHour t \<noteq> [] then pt_PerHour t else ''0'') \<and> rp_PriceModel rp = (if pt_PerHour t \<noteq> [] then ''perHour'' else []))"

definition serves_route :: "service_offer \<Rightarrow> string \<Rightarrow> offer_route \<Rightarrow> route_rule \<Rightarrow> bool" where
  "serves_route o' auth rt rule \<longleftrightarrow> rule_of_route o' auth rt rule \<and>
     rr_Description rule = (if rt_Summary rt \<noteq> [] then rt_Summary rt else rg_Description (os_Registration (so_spec o'))) \<and>
     (IsFree rule \<or> IsAuth rule \<or> list_all2 option_charge (route_options o' rt) (PaymentOptions rule))"

text \<open>The rule for the pages of the jobs.\<close>

definition serves_jobs :: "string \<Rightarrow> service_offer \<Rightarrow> route_rule \<Rightarrow> bool" where
  "serves_jobs env o' rule \<longleftrightarrow> rr_Pattern rule = trim_suffix ''/'' (EffectivePath o') @ ''/jobs/*'' \<and> IsFree rule \<and> rr_Price rule = ''0'' \<and>
     rr_Payments rule = [] \<and> rr_StripPrefix rule = EffectivePath o' \<and> rr_UpstreamPaths rule = [] \<and> rr_BodyPolicy rule = [] \<and>
     rr_Async rule \<and> rr_BrokerURL rule = brokerBaseURL env \<and> rr_OfferNamespace rule = so_Namespace o' \<and> rr_OfferName rule = so_Name o'"

lemma spec_charged: "routePaymentFromSpec p = Inr rp \<Longrightarrow> option_charge p rp"
  by (auto simp: routePaymentFromSpec_def effectivePriceForOption_def option_charge_def ApproxTokensPerRequest_def Let_def split: sum.splits if_splits)

lemma specs_charged: "map Inr rps = map routePaymentFromSpec ps \<Longrightarrow> list_all2 option_charge ps rps"
proof (induction ps arbitrary: rps)
  case (Cons p ps)
  then obtain rp rest where "rps = rp # rest" "routePaymentFromSpec p = Inr rp" "map Inr rest = map routePaymentFromSpec ps"
    by (cases rps) auto
  then show ?case using Cons.IH spec_charged by simp
qed simp

lemma declared_serves:
  assumes "routeRuleFromOffer o' auth = Inr base" and "priced_rule o' rt (declared_rule env o' base rt) = Inr rule"
  shows "serves_route o' auth rt rule"
proof -
  have f: "rule_of_route o' auth rt rule" using declared_rule_fields [OF assms] by blast
  have "rr_Description base = rg_Description (os_Registration (so_spec o'))"
    using assms(1) by (cases "route_payments (EffectivePayments o')") (auto simp: routeRuleFromOffer_def offer_rule_def with_agent_def Let_def split: option.split)
  then have "rr_Description rule = (if rt_Summary rt \<noteq> [] then rt_Summary rt else rg_Description (os_Registration (so_spec o')))"
    using assms(2) by (auto simp: priced_rule_def declared_rule_def Let_def split: if_splits sum.splits)
  with f show ?thesis by (auto simp: serves_route_def rule_of_route_def intro: specs_charged split: if_splits)
qed

text \<open>C19: The rules that the verifier enforces are the routes that the offer declares.  One rule per route, in their
  order, with the path below the path of the offer, the gate of the route (paid unless the offer says otherwise), its
  summary or else the description of the offer, and the upstream, credential and restrictions of the offer.  A free or
  sign-in route has no price; every other one accepts exactly the options of the offer, or the primary option at the price
  of the route where it sets one, each with the payee, chain and token of the option.  Its price is the one per request, or
  the one per million tokens by an estimate of 1000 tokens, or the one per hour, charged whole for each request (not converted
  to a request's share as \<open>schemas.EffectiveRequestPriceE\<close> does), or 0 if the option states none.
  An asynchronous offer has one more rule, last: free, without price, at \<open>/jobs/*\<close> below the offer, answered by the broker.\<close>

theorem offer_rules_faithful:
  assumes "routeRulesFromOffer env o' auth = Inr rules"
  shows "\<exists>declared jobs. rules = declared @ jobs \<and> list_all2 (serves_route o' auth) (EffectiveRoutes o') declared \<and>
    length jobs = (if as_Enabled (os_Async (so_spec o')) then 1 else 0) \<and> list_all (serves_jobs env o') jobs"
proof -
  obtain base declared where r: "routeRuleFromOffer o' auth = Inr base"
    "list_all2 (\<lambda>rt rule. priced_rule o' rt (declared_rule env o' base rt) = Inr rule) (EffectiveRoutes o') declared"
    "rules = declared @ (if as_Enabled (os_Async (so_spec o')) then [jobs_rule env o' base] else [])"
    using offer_rules_cases [OF assms] .
  have "list_all2 (serves_route o' auth) (EffectiveRoutes o') declared"
    by (rule list_all2_mono [OF r(2)]) (rule declared_serves [OF r(1)])
  moreover have "serves_jobs env o' (jobs_rule env o' base)"
    using base_rule [OF r(1)] by (simp add: serves_jobs_def jobs_rule_def joinRoutePattern_def IsFree_def Let_def)
  ultimately show ?thesis using r(3)
    by (intro exI [of _ declared] exI [of _ "if as_Enabled (os_Async (so_spec o')) then [jobs_rule env o' base] else []"]) simp
qed

subsection \<open>Asynchronous offers\<close>

lemma jobs_rule_fields:
  "rr_Pattern (jobs_rule env o' base) = trim_suffix ''/'' (EffectivePath o') @ ''/jobs/*''"
  "rr_Gate (jobs_rule env o' base) = ''free''" "rr_StripPrefix (jobs_rule env o' base) = rr_StripPrefix base"
  by (simp_all add: jobs_rule_def joinRoutePattern_def Let_def)

lemma list_all2_member: "list_all2 P xs ys \<Longrightarrow> list_all (\<lambda>y. \<exists>x \<in> set xs. P x y) ys"
proof (induction xs ys rule: list_all2_induct)
  case (Cons x xs y ys)
  then show ?case by (auto simp: list_all_iff)
qed simp

lemma rules_member:
  assumes "routeRulesFromOffer env o' auth = Inr rules" and "rule \<in> set rules"
  obtains base where "routeRuleFromOffer o' auth = Inr base"
    "(\<exists>rt \<in> set (EffectiveRoutes o'). priced_rule o' rt (declared_rule env o' base rt) = Inr rule) \<or>
     (as_Enabled (os_Async (so_spec o')) \<and> rule = jobs_rule env o' base)"
proof -
  obtain base declared where r: "routeRuleFromOffer o' auth = Inr base"
    "list_all2 (\<lambda>rt rule. priced_rule o' rt (declared_rule env o' base rt) = Inr rule) (EffectiveRoutes o') declared"
    "rules = declared @ (if as_Enabled (os_Async (so_spec o')) then [jobs_rule env o' base] else [])"
    using offer_rules_cases [OF assms(1)] .
  have "list_all (\<lambda>rule. \<exists>rt \<in> set (EffectiveRoutes o'). priced_rule o' rt (declared_rule env o' base rt) = Inr rule) declared"
    using list_all2_member [OF r(2)] .
  then have "\<exists>rt \<in> set (EffectiveRoutes o'). priced_rule o' rt (declared_rule env o' base rt) = Inr rule" if "rule \<in> set declared"
    using that by (simp only: list_all_iff)
  with that [OF r(1)] r(3) assms(2) show thesis by (auto split: if_splits)
qed

lemma free_async_is_jobs:
  assumes "routeRulesFromOffer env o' auth = Inr rules" "rule \<in> set rules" "IsFree rule" "rr_Async rule"
  obtains base where "routeRuleFromOffer o' auth = Inr base" "rule = jobs_rule env o' base"
proof -
  obtain base where b: "routeRuleFromOffer o' auth = Inr base"
    "(\<exists>rt \<in> set (EffectiveRoutes o'). priced_rule o' rt (declared_rule env o' base rt) = Inr rule) \<or>
     (as_Enabled (os_Async (so_spec o')) \<and> rule = jobs_rule env o' base)"
    using rules_member [OF assms(1,2)] .
  have "\<not> (\<exists>rt \<in> set (EffectiveRoutes o'). priced_rule o' rt (declared_rule env o' base rt) = Inr rule)"
  proof
    assume "\<exists>rt \<in> set (EffectiveRoutes o'). priced_rule o' rt (declared_rule env o' base rt) = Inr rule"
    then obtain rt where "priced_rule o' rt (declared_rule env o' base rt) = Inr rule" by blast
    note f = declared_rule_fields [OF b(1) this]
    then have "EffectiveGate rt = ''free''" using assms(3) by (auto simp: IsFree_def rule_of_route_def)
    with f assms(4) show False by (auto simp: GatePaid_def)
  qed
  with b that show thesis by blast
qed

lemma jobs_path_forwarded:
  assumes "matchPattern (trim_suffix ''/'' p @ ''/jobs/*'') path" "CHR ''*'' \<notin> set p" "trim_suffix ''/'' p \<noteq> []" "trim_suffix ''/'' p \<noteq> ''/''"
    and "rr_StripPrefix rule = p"
  shows "forwardedPath rule m path = ''/jobs'' \<or> has_prefix ''/jobs/'' (forwardedPath rule m path)"
proof -
  define base where "base = trim_suffix ''/'' p"
  have star: "CHR ''*'' \<notin> set base"
    using assms(2) set_take_subset [of "length p - 1" p] by (auto simp: base_def trim_suffix_def)
  have c: "cut_suffix ''/*'' (base @ ''/jobs/*'') = Some (base @ ''/jobs'')"
    by (simp add: cut_suffix_def has_suffix_iff)
  have "path = base @ ''/jobs'' \<or> has_prefix ((base @ ''/jobs'') @ ''/'') path"
    using assms(1) c star by (simp add: matchPattern_def base_def [symmetric])
  then obtain t where t: "path = base @ ''/jobs'' @ t" "t = [] \<or> has_prefix ''/'' t"
    by (auto simp: has_prefix_iff)
  have "stripRoutePrefix p path = ''/jobs'' @ t"
    using assms(3,4) t(1) by (simp add: stripRoutePrefix_def Let_def base_def [symmetric] trim_prefix_def has_prefix_iff)
  moreover have "normalizeChatCompletionsPath ty m (''/jobs'' @ t) = ''/jobs'' @ t" for ty
    by (auto simp: normalizeChatCompletionsPath_def trim_suffix_def)
  ultimately show ?thesis using t(2) assms(5) by (auto simp: forwardedPath_def has_prefix_iff)
qed

lemma Handler_lookup:
  "rq_path r = ''/jobs'' \<or> has_prefix ''/jobs/'' (rq_path r) \<Longrightarrow> fst (Handler bf now scan i token fails r B w) = B"
  by (auto simp: Handler_def Let_def split: prod.split)

lemma rewrite_path: "rq_path (rewrite_request px secret rule target inn) =
    singleJoiningSlash (uu_Path target) (forwardedPath rule (rq_method inn) (rq_path inn))"
  by (auto simp: rewrite_request_def injectAgentPayerContext_def Let_def split: option.split)

text \<open>The job pages of an asynchronous offer, which anyone may request for free, never submit a job.  Whatever request
  matches the free rule that the verifier adds for them, the broker that receives it answers with the job list, a
  status, a result or not found, and its table and its runs stay as they are; only a paid rule leads to a submit.\<close>

theorem free_job_pages_never_submit:
  assumes "routeRulesFromOffer env o' auth = Inr rules" and "rule \<in> set rules" and "IsFree rule" and "rr_Async rule"
    and "matchPattern (rr_Pattern rule) (rq_path inn)"
    and "CHR ''*'' \<notin> set (EffectivePath o')" and "ReservedPathConflict (EffectivePath o') = []"
    and "trim_suffix ''/'' (EffectivePath o') \<noteq> ''/''" and "uu_Path target = []"
  shows "fst (Handler bf now scan i token fails (rewrite_request px secret rule target inn) B w) = B"
proof (rule Handler_lookup)
  obtain base where b: "routeRuleFromOffer o' auth = Inr base" "rule = jobs_rule env o' base"
    using free_async_is_jobs [OF assms(1-4)] .
  have p: "rr_StripPrefix rule = EffectivePath o'" using base_rule [OF b(1)] b(2) by (simp add: jobs_rule_fields)
  have "trim_suffix ''/'' (EffectivePath o') \<noteq> []"
    using assms(7) by (auto simp: ReservedPathConflict_def Let_def)
  then have f: "forwardedPath rule m (rq_path inn) = ''/jobs'' \<or> has_prefix ''/jobs/'' (forwardedPath rule m (rq_path inn))" for m
    using jobs_path_forwarded [of "EffectivePath o'" "rq_path inn" rule m] assms(5,6,8) b(2) p by (simp add: jobs_rule_fields)
  then have "singleJoiningSlash [] (forwardedPath rule m (rq_path inn)) = forwardedPath rule m (rq_path inn)" for m
    using f [of m] by (auto simp: singleJoiningSlash_def has_prefix_iff has_suffix_iff)
  with f show "rq_path (rewrite_request px secret rule target inn) = ''/jobs'' \<or>
      has_prefix ''/jobs/'' (rq_path (rewrite_request px secret rule target inn))"
    by (simp add: rewrite_path assms(9))
qed

subsection \<open>The terms of a job\<close>

lemma broker_names:
  "headerBrokerUpstreamURL = ''X-Obol-Upstream-Url''" "headerBrokerOffer = ''X-Obol-Offer''" "headerBrokerPayTo = ''X-Obol-Pay-To''"
  "headerBrokerJobTTL = ''X-Obol-Job-Ttl''" "headerBrokerVisibility = ''X-Obol-Result-Visibility''"
  "headerBrokerUpstreamAuth = ''X-Obol-Upstream-Auth''" "headerBrokerSig = ''X-Obol-Broker-Sig''"
  "headerBrokerPublicPrefix = ''X-Obol-Public-Prefix''"
  by (simp_all add: headerBrokerUpstreamURL_def headerBrokerOffer_def headerBrokerPayTo_def headerBrokerJobTTL_def
      headerBrokerVisibility_def headerBrokerUpstreamAuth_def headerBrokerSig_def headerBrokerPublicPrefix_def)

lemma inject_header:
  "\<not> equal_fold k ''Content-Length'' \<Longrightarrow> hget (rq_header (injectAgentPayerContext rule inn out)) k = hget (rq_header out) k"
  by (auto simp: injectAgentPayerContext_def Let_def split: option.split)

lemma broker_header:
  assumes "to_broker rule"
  shows "hget (rq_header (rewrite_request px secret rule target inn)) ''X-Obol-Upstream-Url'' = rr_UpstreamURL rule"
    "hget (rq_header (rewrite_request px secret rule target inn)) ''X-Obol-Offer'' = offer_id rule"
    "hget (rq_header (rewrite_request px secret rule target inn)) ''X-Obol-Pay-To'' = rr_PayTo rule"
    "hget (rq_header (rewrite_request px secret rule target inn)) ''X-Obol-Job-Ttl'' = rr_AsyncTTL rule"
    "hget (rq_header (rewrite_request px secret rule target inn)) ''X-Obol-Result-Visibility'' = rr_AsyncVisibility rule"
    "hget (rq_header (rewrite_request px secret rule target inn)) ''X-Obol-Upstream-Auth'' = rr_UpstreamAuth rule"
    "secret \<noteq> [] \<Longrightarrow> hget (rq_header (rewrite_request px secret rule target inn)) ''X-Obol-Broker-Sig'' =
       verifier_brokerSignature (px_hmac px) secret (rr_UpstreamURL rule) (offer_id rule) (rr_UpstreamAuth rule)"
  using assms
  by (simp_all add: rewrite_request_def inject_header rewrite_header_def broker_headers_def Let_def broker_names equal_fold_def to_lower_def)

text \<open>The broker takes a paid submit on the terms of the offer.  What the verifier sends for a paid rule of an
  asynchronous offer passes the broker's checks, with or without a shared secret, and the job that it creates names
  the offer, pays the wallet of its primary option, is replayed to its upstream, is visible as the offer says, and
  lives exactly as long as the offer retains jobs; no header of the client can change any of these.\<close>

theorem job_on_the_terms_of_the_offer:
  assumes "routeRulesFromOffer env o' auth = Inr rules" and "rule \<in> set rules" and "rr_Async rule" and "\<not> IsFree rule"
    and "out = rewrite_request px secret rule target inn"
    and "bf_hmac bf = px_hmac px" and "read_all (rq_body out) = Some body" and "length body \<le> maxSubmitBody"
    and "EffectiveTTL (os_Async (so_spec o')) mod second = 0" and "EffectiveTTL (os_Async (so_spec o')) \<le> max_int64"
  shows "gate_submit bf secret out = Inr body \<and> jb_Offer (submitted_job bf now i token out body) = so_Namespace o' @ ''/'' @ so_Name o' \<and>
    jb_PayTo (submitted_job bf now i token out body) = op_PayTo (hd (EffectivePayments o')) \<and>
    jb_UpstreamURL (submitted_job bf now i token out body) = upstreamURL_for o' \<and>
    jb_Visibility (submitted_job bf now i token out body) = EffectiveResultVisibility (os_Async (so_spec o')) \<and>
    jb_ExpiresAt (submitted_job bf now i token out body) = now + EffectiveTTL (os_Async (so_spec o'))"
proof -
  obtain base where b: "routeRuleFromOffer o' auth = Inr base"
    "(\<exists>rt \<in> set (EffectiveRoutes o'). priced_rule o' rt (declared_rule env o' base rt) = Inr rule) \<or>
     (as_Enabled (os_Async (so_spec o')) \<and> rule = jobs_rule env o' base)"
    using rules_member [OF assms(1,2)] .
  then obtain rt where rt: "priced_rule o' rt (declared_rule env o' base rt) = Inr rule"
    using assms(4) by (auto simp: IsFree_def jobs_rule_fields)
  note f = declared_rule_fields [OF b(1) rt]
  have a: "rr_BrokerURL rule = brokerBaseURL env" "rr_AsyncTTL rule = duration_String (EffectiveTTL (os_Async (so_spec o')))"
    "rr_AsyncVisibility rule = EffectiveResultVisibility (os_Async (so_spec o'))"
    using f assms(3) by (auto split: if_splits)
  have tb: "to_broker rule" using a(1) assms(3) by (auto simp: to_broker_def brokerBaseURL_def)
  have u: "rr_UpstreamURL rule \<noteq> []"
    using f by (auto simp: rule_of_route_def upstreamURL_for_def resolved_endpoint_def split: option.split if_splits)
  note h = broker_header [OF tb, where px = px and secret = secret and target = target and inn = inn, folded assms(5)]
  have ttl: "0 < EffectiveTTL (os_Async (so_spec o'))"
    by (auto simp: EffectiveTTL_def DefaultJobTTL_def split: option.split)
  have p: "submit_ttl bf (rq_header out) = EffectiveTTL (os_Async (so_spec o'))"
  proof -
    have "duration_String (EffectiveTTL (os_Async (so_spec o'))) \<noteq> []"
      using duration_parsed [OF ttl assms(9,10), of frac] by (auto simp: ParseDuration_def)
    then show ?thesis
      using duration_parsed [OF ttl assms(9,10)] h(4) a(2) ttl by (simp add: submit_ttl_def Let_def)
  qed
  have "gate_submit bf secret out = Inr body"
    using h u assms(6,7,8) by (cases "secret = []") (simp_all add: gate_submit_def Let_def offer_id_def verifier_brokerSignature_def brokerSignature_def)
  moreover have "visibilityOrDefault (EffectiveResultVisibility x) = EffectiveResultVisibility x" for x
    by (simp add: visibilityOrDefault_def EffectiveResultVisibility_def ResultVisibilityPublic_def ResultVisibilityPayer_def)
  ultimately show ?thesis
    using h f a p by (simp add: submitted_job_def Let_def offer_id_def rule_of_route_def)
qed

subsection \<open>A sample offer\<close>

definition sample_price :: price_table where "sample_price = no_price\<lparr>pt_PerMTok := ''1.5''\<rparr>"

definition sample_payment :: offer_payment where
  "sample_payment = \<lparr>op_Scheme = ''exact'', op_Network = ''base'', op_PayTo = ''0xB'', op_MaxTimeoutSeconds = 300,
     op_Asset = \<lparr>oa_Address = [], oa_Symbol = [], oa_Decimals = 0, oa_TransferMethod = [], oa_EIP712Name = [], oa_EIP712Version = []\<rparr>,
     op_Price = sample_price\<rparr>"

definition sample_routes :: "offer_route list" where
  "sample_routes =
     [\<lparr>rt_Path = ''/run'', rt_Methods = [], rt_Gate = [], rt_Price = no_price, rt_Summary = [], rt_FreeQuota = 0\<rparr>,
      \<lparr>rt_Path = ''/health'', rt_Methods = [], rt_Gate = GateFree, rt_Price = no_price, rt_Summary = [], rt_FreeQuota = 0\<rparr>,
      \<lparr>rt_Path = ''/big'', rt_Methods = [], rt_Gate = GatePaid, rt_Price = no_price\<lparr>pt_PerRequest := ''0.5''\<rparr>, rt_Summary = [], rt_FreeQuota = 0\<rparr>]"

definition sample_offer :: service_offer where
  "sample_offer =
     \<lparr>so_meta = \<lparr>om_Name = ''p'', om_Namespace = ''n'', om_UID = ''u'', om_Generation = 1, om_CreationTimestamp = 0,
        om_DeletionTimestamp = None, om_Annotations = [], om_Finalizers = []\<rparr>,
      so_spec = \<lparr>os_Type = ''http'', os_Agent = \<lparr>gr_Name = [], gr_Namespace = []\<rparr>, os_Model = \<lparr>ml_Name = [], ml_Runtime = []\<rparr>,
        os_Upstream = \<lparr>ou_Service = ''s'', ou_Namespace = [], ou_Port = 80, ou_HealthPath = []\<rparr>, os_Payment = sample_payment,
        os_Payments = [], os_Listing = \<lparr>ls_Weight = 0, ls_Category = []\<rparr>, os_Routes = sample_routes, os_Path = [], os_Hostname = [],
        os_Provenance = [], os_Registration = \<lparr>rg_Enabled = False, rg_Name = [], rg_Description = [], rg_Image = [], rg_Services = [],
          rg_SupportedTrust = [], rg_Skills = [], rg_Domains = [], rg_Metadata = []\<rparr>,
        os_Async = \<lparr>as_Enabled = True, as_ResultVisibility = [], as_TTL = None\<rparr>, os_Limits = \<lparr>lm_MaxInFlight = 0, lm_RPS = 0\<rparr>,
        os_DrainAt = None, os_DrainGracePeriod = None\<rparr>,
      so_status = \<lparr>st_Conditions = [\<lparr>cd_Type = ''RoutePublished'', cd_Status = ''True'', cd_Reason = [], cd_Message = [], cd_LastTransitionTime = 0\<rparr>],
        st_Endpoint = [], st_AgentID = [], st_RegistrationTxHash = [], st_ObservedGeneration = 1, st_AgentResolution = None\<rparr>\<rparr>"

definition sample_rules :: "route_rule list" where
  "sample_rules = (case routeRulesFromOffer [] sample_offer [] of Inr rs \<Rightarrow> rs | Inl e \<Rightarrow> [])"

lemma sample_rules: "routeRulesFromOffer [] sample_offer [] = Inr sample_rules" and sample_rules_4: "length sample_rules = 4"
proof -
  have "length sample_rules = 4" by code_simp
  then show "routeRulesFromOffer [] sample_offer [] = Inr sample_rules" and "length sample_rules = 4"
    by (auto simp: sample_rules_def split: sum.splits)
qed

theorem offer_rules_faithful_witness:
  "\<exists>declared jobs. sample_rules = declared @ [jobs] \<and> list_all2 (serves_route sample_offer []) sample_routes declared \<and>
     serves_jobs [] sample_offer jobs"
proof -
  have r: "EffectiveRoutes sample_offer = sample_routes" "as_Enabled (os_Async (so_spec sample_offer))"
    by (simp_all add: EffectiveRoutes_def sample_offer_def sample_routes_def)
  obtain declared jobs where d: "sample_rules = declared @ jobs" "list_all2 (serves_route sample_offer []) sample_routes declared"
      "length jobs = 1" "list_all (serves_jobs [] sample_offer) jobs"
    using offer_rules_faithful [OF sample_rules] r by auto
  then obtain j where "jobs = [j]" by (auto simp: length_Suc_conv)
  with d show ?thesis by (intro exI [of _ declared] exI [of _ j]) simp
qed

lemma sample_jobs_rule:
  "sample_rules ! 3 \<in> set sample_rules" "IsFree (sample_rules ! 3)" "rr_Async (sample_rules ! 3)"
  "matchPattern (rr_Pattern (sample_rules ! 3)) ''/services/p/jobs/7''"
  "CHR ''*'' \<notin> set (EffectivePath sample_offer)" "ReservedPathConflict (EffectivePath sample_offer) = []"
  "trim_suffix ''/'' (EffectivePath sample_offer) \<noteq> ''/''"
proof -
  show "sample_rules ! 3 \<in> set sample_rules" using sample_rules_4 by simp
qed code_simp+

definition sample_broker_url :: upstream_url where
  "sample_broker_url = \<lparr>uu_Scheme = ''http'', uu_Host = ''b'', uu_Hostname = ''b'', uu_Path = []\<rparr>"

definition sample_px :: proxy_funs where
  "sample_px = \<lparr>px_parse = (\<lambda>u. Some sample_broker_url), px_hmac = (\<lambda>k m. k @ m)\<rparr>"

definition sample_bf :: broker_funs where
  "sample_bf = \<lparr>bf_hmac = (\<lambda>k m. k @ m), bf_newRequest = (\<lambda>m u. True), bf_frac = (\<lambda>f k u. 0), bf_page = (\<lambda>d. [])\<rparr>"

definition sample_in :: "string \<Rightarrow> http_request" where
  "sample_in path = \<lparr>rq_method = ''POST'', rq_host = ''h'', rq_path = path, rq_rawQuery = [],
     rq_header = [(''x-obol-job-ttl'', [''9999h''])], rq_body = Stream (Some ''{}'')\<rparr>"

definition sample_client :: resp_writer where
  "sample_client = \<lparr>cw_header = [], cw_status = None, cw_sent = [], cw_body = [], cw_info = [], cw_faults = [], cw_raw = None\<rparr>"

definition sample_B :: broker where
  "sample_B = \<lparr>bk_secret = [], bk_table = [], bk_runs = [], bk_posts = [], bk_issued = []\<rparr>"

theorem free_job_pages_never_submit_witness:
  "fst (Handler sample_bf 0 (\<lambda>t. t) ''7'' ''8'' False
     (rewrite_request sample_px ''k'' (sample_rules ! 3) sample_broker_url (sample_in ''/services/p/jobs/7'')) sample_B sample_client) = sample_B"
  by (rule free_job_pages_never_submit [OF sample_rules sample_jobs_rule(1-3)])
    (use sample_jobs_rule in \<open>simp_all add: sample_in_def sample_broker_url_def\<close>)

theorem job_on_the_terms_of_the_offer_witness:
  "gate_submit sample_bf ''k'' (rewrite_request sample_px ''k'' (sample_rules ! 0) sample_broker_url (sample_in ''/services/p/run'')) = Inr ''{}'' \<and>
   jb_ExpiresAt (submitted_job sample_bf 0 ''7'' ''8'' (rewrite_request sample_px ''k'' (sample_rules ! 0) sample_broker_url
     (sample_in ''/services/p/run'')) ''{}'') = 0 + EffectiveTTL (os_Async (so_spec sample_offer))"
proof -
  have r: "sample_rules ! 0 \<in> set sample_rules" using sample_rules_4 by simp
  have f: "rr_Async (sample_rules ! 0)" "\<not> IsFree (sample_rules ! 0)"
    "read_all (rq_body (rewrite_request sample_px ''k'' (sample_rules ! 0) sample_broker_url (sample_in ''/services/p/run''))) = Some ''{}''"
    "EffectiveTTL (os_Async (so_spec sample_offer)) mod second = 0" "EffectiveTTL (os_Async (so_spec sample_offer)) \<le> max_int64"
    by code_simp+
  have h: "bf_hmac sample_bf = px_hmac sample_px" "length ''{}'' \<le> maxSubmitBody"
    by (simp_all add: sample_bf_def sample_px_def maxSubmitBody_def)
  from job_on_the_terms_of_the_offer [OF sample_rules r f(1,2) refl h(1) f(3) h(2) f(4,5),
      where now = 0 and i = "''7''" and token = "''8''"]
  show ?thesis by blast
qed

subsection \<open>The whole store\<close>

lemma offers_loop_member:
  assumes "offers_loop decode env now m items = Inr routes" and "rule \<in> set routes"
  shows "\<exists>item o0 rules. item \<in> set items \<and> decode item = Some o0 \<and> offer_live now (with_namespace o0) \<and>
    routeRulesFromOffer env (with_namespace o0) (offer_auth m (with_namespace o0)) = Inr rules \<and> rule \<in> set rules"
  using assms
proof (induction items arbitrary: routes)
  case (Cons item items)
  then obtain o0 where d: "decode item = Some o0" by (auto split: option.splits)
  show ?case
  proof (cases "offer_live now (with_namespace o0)")
    case True
    then obtain rules rest where r: "routeRulesFromOffer env (with_namespace o0) (offer_auth m (with_namespace o0)) = Inr rules"
      "offers_loop decode env now m items = Inr rest" "routes = rules @ rest"
      using Cons.prems(1) d by (auto simp: Let_def split: sum.splits)
    show ?thesis
    proof (cases "rule \<in> set rules")
      case True
      with d r(1) \<open>offer_live now (with_namespace o0)\<close> show ?thesis by (intro exI [of _ item] exI [of _ o0] exI [of _ rules]) simp
    next
      case False
      with Cons.prems(2) r(3) Cons.IH [OF r(2)] show ?thesis by auto
    qed
  next
    case False
    with Cons d show ?thesis by (auto simp: Let_def)
  qed
qed simp

lemma credential_restricted:
  assumes "routeRulesFromOffer env o' auth = Inr rules" and "rule \<in> set rules" and "rr_UpstreamAuth rule \<noteq> []"
  shows "(rr_UpstreamPaths rule = hermesBuyerPaths \<and> rr_BodyPolicy rule = BodyPolicyAgent) \<or>
    (rr_UpstreamPaths rule = liteLLMBuyerPaths \<and> rr_BodyPolicy rule = BodyPolicyLiteLLM) \<or>
    (IsFree rule \<and> to_broker rule)"
proof -
  obtain base where b: "routeRuleFromOffer o' auth = Inr base"
    "(\<exists>rt \<in> set (EffectiveRoutes o'). priced_rule o' rt (declared_rule env o' base rt) = Inr rule) \<or>
     (as_Enabled (os_Async (so_spec o')) \<and> rule = jobs_rule env o' base)"
    using rules_member [OF assms(1,2)] .
  from b(2) show ?thesis
  proof
    assume "\<exists>rt \<in> set (EffectiveRoutes o'). priced_rule o' rt (declared_rule env o' base rt) = Inr rule"
    then obtain rt where "priced_rule o' rt (declared_rule env o' base rt) = Inr rule" by blast
    from declared_rule_fields [OF b(1) this] assms(3) show ?thesis
      by (auto simp: rule_of_route_def effectiveUpstreamAuth_def upstreamPathsForOffer_def bodyPolicyForOffer_def isLiteLLMUpstream_def
          split: if_splits)
  next
    assume "as_Enabled (os_Async (so_spec o')) \<and> rule = jobs_rule env o' base"
    then show ?thesis by (simp add: jobs_rule_def IsFree_def to_broker_def brokerBaseURL_def)
  qed
qed

text \<open>The table of the verifier holds rules of live offers only, and none of them exposes a privileged credential.  Every
  rule comes from an offer whose route is published and whose drain window has not passed, and it belongs to that offer;
  a rule that sends the key of the model gateway or of an agent upstream admits only the listed paths and rewrites the
  body, unless it is the free rule of the job pages, which is served by the broker.\<close>

theorem routes_only_from_live_offers:
  assumes "routesFromStore decode env now items secrets = Inr routes" and "rule \<in> set routes"
  shows "(\<exists>item o0. item \<in> set items \<and> decode item = Some o0 \<and> offerConditionTrue (so_status o0) ''RoutePublished'' \<and>
      \<not> DrainExpired o0 now \<and> rr_OfferName rule = so_Name o0 \<and> rr_OfferNamespace rule = so_Namespace o0 \<and>
      rr_StripPrefix rule = EffectivePath o0) \<and>
    (rr_UpstreamAuth rule = [] \<or> (rr_UpstreamPaths rule = hermesBuyerPaths \<and> rr_BodyPolicy rule = BodyPolicyAgent) \<or>
      (rr_UpstreamPaths rule = liteLLMBuyerPaths \<and> rr_BodyPolicy rule = BodyPolicyLiteLLM) \<or> (IsFree rule \<and> to_broker rule))"
proof -
  obtain m rs where l: "offers_loop decode env now m items = Inr rs" "routes = sortRoutesBySpecificity rs"
    using assms(1) by (auto simp: routesFromStore_def split: sum.splits)
  have "rule \<in> set rs" using assms(2) l(2) by (simp add: sortRoutesBySpecificity_def)
  from offers_loop_member [OF l(1) this] obtain item o0 rules where o: "item \<in> set items" "decode item = Some o0"
    "offer_live now (with_namespace o0)"
    "routeRulesFromOffer env (with_namespace o0) (offer_auth m (with_namespace o0)) = Inr rules" "rule \<in> set rules"
    by blast
  have n: "so_meta (with_namespace o0) = so_meta o0" "so_status (with_namespace o0) = so_status o0"
    "os_Path (so_spec (with_namespace o0)) = os_Path (so_spec o0)" "os_DrainAt (so_spec (with_namespace o0)) = os_DrainAt (so_spec o0)"
    "os_DrainGracePeriod (so_spec (with_namespace o0)) = os_DrainGracePeriod (so_spec o0)"
    by (simp_all add: with_namespace_def Let_def)
  have live: "offerConditionTrue (so_status o0) ''RoutePublished''" "\<not> DrainExpired o0 now"
    using o(3) n by (auto simp: offer_live_def DrainExpired_def IsDraining_def DrainEndsAt_def split: option.splits)
  obtain base where b: "routeRuleFromOffer (with_namespace o0) (offer_auth m (with_namespace o0)) = Inr base"
    "(\<exists>rt \<in> set (EffectiveRoutes (with_namespace o0)). priced_rule (with_namespace o0) rt (declared_rule env (with_namespace o0) base rt) = Inr rule) \<or>
     (as_Enabled (os_Async (so_spec (with_namespace o0))) \<and> rule = jobs_rule env (with_namespace o0) base)"
    using rules_member [OF o(4,5)] .
  have "rr_OfferName rule = so_Name o0 \<and> rr_OfferNamespace rule = so_Namespace o0 \<and> rr_StripPrefix rule = EffectivePath o0"
    using b(2) base_rule [OF b(1)] declared_rule_fields [OF b(1)] n
    by (auto simp: rule_of_route_def EffectivePath_def jobs_rule_def)
  with o(1,2) live credential_restricted [OF o(4,5)] show ?thesis by blast
qed

theorem routes_only_from_live_offers_witness:
  "\<exists>routes. routesFromStore Some [] 0 [sample_offer] [] = Inr routes \<and> length routes = 4 \<and>
     (\<exists>item o0. item \<in> set [sample_offer] \<and> Some item = Some o0 \<and> \<not> DrainExpired o0 0 \<and> rr_OfferName (hd routes) = so_Name o0)"
proof -
  have "case routesFromStore Some [] 0 [sample_offer] [] of Inr routes \<Rightarrow> length routes = 4 | Inl e \<Rightarrow> False" by code_simp
  then obtain routes where r: "routesFromStore Some [] 0 [sample_offer] [] = Inr routes" "length routes = 4"
    by (auto split: sum.splits)
  then have "hd routes \<in> set routes" by (cases routes) auto
  from routes_only_from_live_offers [OF r(1) this] r show ?thesis by (intro exI [of _ routes]) blast
qed

end
