(* ===== verification/OfferManifests.thy ===== *)
theory OfferManifests imports MonetizeTypes GoJson begin

text \<open>
  The Kubernetes objects that the controller applies for offers, identities and the discovery site
  (\<open>internal/serviceoffercontroller/render.go\<close>).  An \<open>unstructured\<close> object is its map of type \<open>goany\<close>.  MD5 is a
  parameter: \<open>md5hex\<close> gives the digest of a string in hexadecimal.  The security contexts and resource requests of
  pods are data of the deployments.
\<close>

subsection \<open>Constants\<close>

definition staticSiteNamespace :: string where "staticSiteNamespace = ''x402''"
definition staticSiteConfigMapName :: string where "staticSiteConfigMapName = ''obol-skill-md''"
definition staticSiteRouteName :: string where "staticSiteRouteName = ''obol-skill-md-route''"
definition servicesJSONRouteName :: string where "servicesJSONRouteName = ''obol-services-json-route''"
definition openAPIRouteName :: string where "openAPIRouteName = ''obol-openapi-route''"
definition apiDocsRouteName :: string where "apiDocsRouteName = ''obol-api-docs-route''"
definition wellKnownX402RouteName :: string where "wellKnownX402RouteName = ''obol-wellknown-x402-route''"
definition catalogHeadersMiddlewareName :: string where "catalogHeadersMiddlewareName = ''obol-catalog-headers''"
definition maxK8sNameLen :: nat where "maxK8sNameLen = 253"

subsection \<open>Names\<close>

definition safeName :: "(string \<Rightarrow> string) \<Rightarrow> string \<Rightarrow> string \<Rightarrow> string \<Rightarrow> string" where
  "safeName md5hex prefix name suffix =
     (let full = prefix @ name @ suffix
      in if length full \<le> maxK8sNameLen then full
         else
           (let hash = take 8 (md5hex name);
                maxName = int maxK8sNameLen - int (length prefix) - int (length suffix) - 1 - int (length hash)
            in prefix @ take (nat (if maxName < 1 then 1 else maxName)) name @ ''-'' @ hash @ suffix))"

definition childName :: "(string \<Rightarrow> string) \<Rightarrow> string \<Rightarrow> string" where
  "childName md5hex name = safeName md5hex ''so-'' name []"

definition hostChildName :: "(string \<Rightarrow> string) \<Rightarrow> string \<Rightarrow> string" where
  "hostChildName md5hex name = safeName md5hex ''so-'' name ''-host''"

definition limitsInFlightMiddlewareName :: "(string \<Rightarrow> string) \<Rightarrow> string \<Rightarrow> string" where
  "limitsInFlightMiddlewareName md5hex name = safeName md5hex ''so-'' name ''-inflight''"

definition limitsRPSMiddlewareName :: "(string \<Rightarrow> string) \<Rightarrow> string \<Rightarrow> string" where
  "limitsRPSMiddlewareName md5hex name = safeName md5hex ''so-'' name ''-ratelimit''"

definition legacyLimitsMiddlewareName :: "(string \<Rightarrow> string) \<Rightarrow> string \<Rightarrow> string" where
  "legacyLimitsMiddlewareName md5hex name = safeName md5hex ''so-'' name ''-limits''"

definition backendReferenceGrantName :: "(string \<Rightarrow> string) \<Rightarrow> string \<Rightarrow> string \<Rightarrow> string" where
  "backendReferenceGrantName md5hex ns name =
     safeName md5hex ''so-'' (ns @ ''-'' @ name) (''-'' @ take 8 (md5hex (ns @ ''/'' @ name)) @ ''-backend-grant'')"

definition legacyBackendReferenceGrantName :: "(string \<Rightarrow> string) \<Rightarrow> string \<Rightarrow> string" where
  "legacyBackendReferenceGrantName md5hex name = safeName md5hex ''so-'' name ''-backend-grant''"

definition intermediateBackendReferenceGrantName :: "(string \<Rightarrow> string) \<Rightarrow> string \<Rightarrow> string \<Rightarrow> string" where
  "intermediateBackendReferenceGrantName md5hex ns name = safeName md5hex ''so-'' (ns @ ''-'' @ name) ''-backend-grant''"

definition registrationRequestName :: "(string \<Rightarrow> string) \<Rightarrow> string \<Rightarrow> string" where
  "registrationRequestName md5hex name = safeName md5hex ''so-'' name ''-registration''"

definition registrationWorkloadName :: "string \<Rightarrow> string" where
  "registrationWorkloadName requestName = requestName"

definition registrationRouteName :: "(string \<Rightarrow> string) \<Rightarrow> string \<Rightarrow> string" where
  "registrationRouteName md5hex name = safeName md5hex ''so-'' name ''-wellknown''"

definition offerBundleDir :: "service_offer \<Rightarrow> string" where
  "offerBundleDir o' = ''offers/'' @ so_Namespace o' @ ''/'' @ so_Name o'"

subsection \<open>Parts of objects\<close>

definition ownerRefMapFor :: "string \<Rightarrow> string \<Rightarrow> string \<Rightarrow> string \<Rightarrow> goany" where
  "ownerRefMapFor apiVersion kind name uid =
     GMap [(''apiVersion'', GStr apiVersion), (''kind'', GStr kind), (''name'', GStr name), (''uid'', GStr uid),
           (''controller'', GBool True), (''blockOwnerDeletion'', GBool True)]"

definition ownerRefMap :: "service_offer \<Rightarrow> goany" where
  "ownerRefMap o' = ownerRefMapFor ''obol.org/v1alpha1'' ''ServiceOffer'' (so_Name o') (om_UID (so_meta o'))"

definition k8s_object :: "string \<Rightarrow> string \<Rightarrow> (string \<times> goany) list \<Rightarrow> (string \<times> goany) list \<Rightarrow> goany" where
  "k8s_object apiVersion kind metadata rest =
     GMap ([(''apiVersion'', GStr apiVersion), (''kind'', GStr kind), (''metadata'', GMap metadata)] @ rest)"

definition gateway_parents :: goany where
  "gateway_parents = GArr [GMap [(''name'', GStr ''traefik-gateway''), (''namespace'', GStr ''traefik''), (''sectionName'', GStr ''web'')]]"

definition backend_ref :: "string \<Rightarrow> string \<Rightarrow> goany" where
  "backend_ref name ns = GArr [GMap [(''name'', GStr name), (''namespace'', GStr ns), (''port'', GInt64 8080)]]"

definition path_match :: "string \<Rightarrow> string \<Rightarrow> goany" where
  "path_match kind path = GMap [(''type'', GStr kind), (''value'', GStr path)]"

definition extension_filter :: "string \<Rightarrow> goany" where
  "extension_filter name =
     GMap [(''type'', GStr ''ExtensionRef''),
           (''extensionRef'', GMap [(''group'', GStr ''traefik.io''), (''kind'', GStr ''Middleware''), (''name'', GStr name)])]"

definition rewrite_filter :: "string \<Rightarrow> string \<Rightarrow> string \<Rightarrow> goany" where
  "rewrite_filter kind field path =
     GMap [(''type'', GStr ''URLRewrite''),
           (''urlRewrite'', GMap [(''path'', GMap [(''type'', GStr kind), (field, GStr path)])])]"

definition header_entry :: "string \<Rightarrow> string \<Rightarrow> goany" where
  "header_entry name val = GMap [(''name'', GStr name), (''value'', GStr val)]"

subsection \<open>Limits\<close>

abbreviation "so_limits o' \<equiv> os_Limits (so_spec o')"

definition hasLimits :: "service_offer \<Rightarrow> bool" where
  "hasLimits o' \<longleftrightarrow> lm_MaxInFlight (so_limits o') > 0 \<or> lm_RPS (so_limits o') > 0"

definition limits_middleware :: "service_offer \<Rightarrow> string \<Rightarrow> (string \<times> goany) list \<Rightarrow> goany" where
  "limits_middleware o' name spec =
     k8s_object ''traefik.io/v1alpha1'' ''Middleware''
       [(''name'', GStr name), (''namespace'', GStr (so_Namespace o')), (''ownerReferences'', GArr [ownerRefMap o'])]
       [(''spec'', GMap spec)]"

definition buildLimitsMiddlewares :: "(string \<Rightarrow> string) \<Rightarrow> service_offer \<Rightarrow> goany list" where
  "buildLimitsMiddlewares md5hex o' =
     (if lm_MaxInFlight (so_limits o') > 0 then
        [limits_middleware o' (limitsInFlightMiddlewareName md5hex (so_Name o'))
           [(''inFlightReq'', GMap [(''amount'', GInt64 (lm_MaxInFlight (so_limits o')))])]] else []) @
     (if lm_RPS (so_limits o') > 0 then
        [limits_middleware o' (limitsRPSMiddlewareName md5hex (so_Name o'))
           [(''rateLimit'', GMap [(''average'', GInt64 (lm_RPS (so_limits o'))), (''burst'', GInt64 (lm_RPS (so_limits o') * 2))])]] else [])"

definition limitsFilters :: "(string \<Rightarrow> string) \<Rightarrow> service_offer \<Rightarrow> goany list" where
  "limitsFilters md5hex o' =
     (if lm_MaxInFlight (so_limits o') > 0 then [extension_filter (limitsInFlightMiddlewareName md5hex (so_Name o'))] else []) @
     (if lm_RPS (so_limits o') > 0 then [extension_filter (limitsRPSMiddlewareName md5hex (so_Name o'))] else [])"

subsection \<open>Routes of an offer\<close>

definition offer_metadata :: "service_offer \<Rightarrow> string \<Rightarrow> (string \<times> goany) list" where
  "offer_metadata o' name =
     [(''name'', GStr name), (''namespace'', GStr (so_Namespace o')), (''ownerReferences'', GArr [ownerRefMap o'])]"

definition sharedOriginRule :: "(string \<Rightarrow> string) \<Rightarrow> service_offer \<Rightarrow> goany" where
  "sharedOriginRule md5hex o' =
     GMap ([(''matches'', GArr [GMap [(''path'', path_match ''PathPrefix'' (EffectivePath o'))]]),
            (''backendRefs'', backend_ref ''x402-verifier'' ''x402'')] @
           (if hasLimits o' then [(''filters'', GArr (limitsFilters md5hex o'))] else []))"

definition buildHTTPRoute :: "(string \<Rightarrow> string) \<Rightarrow> service_offer \<Rightarrow> goany" where
  "buildHTTPRoute md5hex o' =
     k8s_object ''gateway.networking.k8s.io/v1'' ''HTTPRoute'' (offer_metadata o' (childName md5hex (so_Name o')))
       [(''spec'', GMap [(''parentRefs'', gateway_parents), (''rules'', GArr [sharedOriginRule md5hex o'])])]"

definition cacheFilter :: "goany list \<Rightarrow> string \<Rightarrow> goany" where
  "cacheFilter extra val =
     GMap [(''type'', GStr ''ResponseHeaderModifier''),
           (''responseHeaderModifier'', GMap [(''set'', GArr (header_entry ''Cache-Control'' val # extra))])]"

text \<open>\<open>exactTo\<close> and \<open>exactToShared\<close>; \<open>extra\<close> are the headers that \<open>addResponseHeader\<close> appends to the filter of the rule.\<close>

definition exact_get_rule :: "string \<Rightarrow> string \<Rightarrow> goany list \<Rightarrow> string \<Rightarrow> goany" where
  "exact_get_rule publicPath target extra cache =
     GMap [(''matches'', GArr [GMap [(''path'', path_match ''Exact'' publicPath), (''method'', GStr ''GET'')]]),
           (''filters'', GArr [rewrite_filter ''ReplaceFullPath'' ''replaceFullPath'' target, cacheFilter extra cache]),
           (''backendRefs'', backend_ref staticSiteConfigMapName staticSiteNamespace)]"

definition exactTo :: "service_offer \<Rightarrow> goany list \<Rightarrow> string \<Rightarrow> string \<Rightarrow> goany" where
  "exactTo o' extra publicPath file = exact_get_rule publicPath (''/'' @ offerBundleDir o' @ ''/'' @ file) extra ''no-cache''"

definition exactToShared :: "string \<Rightarrow> string \<Rightarrow> goany" where
  "exactToShared publicPath file =
     exact_get_rule publicPath (''/'' @ file) []
       (if has_suffix ''.js'' file then ''public, max-age=31536000, immutable'' else ''no-cache'')"

definition catchallFilters :: "(string \<Rightarrow> string) \<Rightarrow> service_offer \<Rightarrow> goany list" where
  "catchallFilters md5hex o' =
     [rewrite_filter ''ReplacePrefixMatch'' ''replacePrefixMatch'' (trim_suffix ''/'' (EffectivePath o')),
      GMap [(''type'', GStr ''RequestHeaderModifier''),
            (''requestHeaderModifier'', GMap [(''set'', GArr
               [header_entry ''X-Forwarded-Host'' (os_Hostname (so_spec o')), header_entry ''X-Forwarded-Proto'' ''https''])])]] @
     (if hasLimits o' then limitsFilters md5hex o' else [])"

definition hostRouteRules :: "(string \<Rightarrow> string) \<Rightarrow> service_offer \<Rightarrow> goany list" where
  "hostRouteRules md5hex o' =
     [exactTo o' [] ''/'' ''index.html'', exactTo o' [] ''/openapi.json'' ''openapi.json'', exactTo o' [] ''/.well-known/x402'' ''x402.json'',
      exactTo o' [] ''/.well-known/agent-registration.json'' ''agent-registration.json''] @
     (if IsAgent o' then
        [exactTo o' [header_entry ''Content-Security-Policy'' (''frame-ancestors '' @ [CHR 0x27] @ ''self'' @ [CHR 0x27])] ''/chat'' ''chat.html'',
         exactToShared ''/chat-vendor.js'' ''chat-vendor.js''] else []) @
     [GMap [(''matches'', GArr [GMap [(''path'', path_match ''PathPrefix'' ''/'')]]),
            (''filters'', GArr (catchallFilters md5hex o')),
            (''backendRefs'', backend_ref ''x402-verifier'' ''x402'')]]"

definition buildHostHTTPRoute :: "(string \<Rightarrow> string) \<Rightarrow> service_offer \<Rightarrow> goany" where
  "buildHostHTTPRoute md5hex o' =
     k8s_object ''gateway.networking.k8s.io/v1'' ''HTTPRoute'' (offer_metadata o' (hostChildName md5hex (so_Name o')))
       [(''spec'', GMap [(''hostnames'', GArr [GStr (os_Hostname (so_spec o'))]), (''parentRefs'', gateway_parents),
                         (''rules'', GArr (hostRouteRules md5hex o'))])]"

definition buildReferenceGrant :: "(string \<Rightarrow> string) \<Rightarrow> service_offer \<Rightarrow> goany" where
  "buildReferenceGrant md5hex o' =
     k8s_object ''gateway.networking.k8s.io/v1beta1'' ''ReferenceGrant''
       [(''name'', GStr (backendReferenceGrantName md5hex (so_Namespace o') (so_Name o'))), (''namespace'', GStr ''x402''),
        (''labels'', GMap [(''obol.org/serviceoffer-namespace'', GStr (so_Namespace o')), (''obol.org/serviceoffer-name'', GStr (so_Name o')),
                           (''obol.org/managed-by'', GStr ''serviceoffer-controller'')])]
       [(''spec'', GMap
          [(''from'', GArr [GMap [(''group'', GStr ''gateway.networking.k8s.io''), (''kind'', GStr ''HTTPRoute''), (''namespace'', GStr (so_Namespace o'))]]),
           (''to'', GArr [GMap [(''group'', GStr []), (''kind'', GStr ''Service''), (''name'', GStr ''x402-verifier'')],
                          GMap [(''group'', GStr []), (''kind'', GStr ''Service''), (''name'', GStr staticSiteConfigMapName)]])])]"

definition buildRegistrationRequest :: "(string \<Rightarrow> string) \<Rightarrow> service_offer \<Rightarrow> string \<Rightarrow> goany" where
  "buildRegistrationRequest md5hex o' desiredState =
     k8s_object ''obol.org/v1alpha1'' ''RegistrationRequest'' (offer_metadata o' (registrationRequestName md5hex (so_Name o')))
       [(''spec'', GMap [(''serviceOfferName'', GStr (so_Name o')), (''serviceOfferNamespace'', GStr (so_Namespace o')),
                         (''desiredState'', GStr desiredState), (''chain'', GStr (op_Network (os_Payment (so_spec o'))))])]"

subsection \<open>The agent's identity\<close>

record identity_meta =
  im_Name :: string
  im_Namespace :: string
  im_UID :: string

definition AgentIdentityDefaultNamespace :: string where "AgentIdentityDefaultNamespace = ''x402''"
definition AgentIdentityDefaultName :: string where "AgentIdentityDefaultName = ''default''"

definition agentIdentityRegistrationName :: "(string \<Rightarrow> string) \<Rightarrow> identity_meta \<Rightarrow> string" where
  "agentIdentityRegistrationName md5hex i =
     safeName md5hex ''agentidentity-'' (if im_Name i = [] then AgentIdentityDefaultName else im_Name i) ''-registration''"

definition agentIdentityRouteName :: "(string \<Rightarrow> string) \<Rightarrow> identity_meta \<Rightarrow> string" where
  "agentIdentityRouteName md5hex i =
     safeName md5hex ''agentidentity-'' (if im_Name i = [] then AgentIdentityDefaultName else im_Name i) ''-wellknown''"

definition agentIdentityOwnerRefMap :: "identity_meta \<Rightarrow> goany" where
  "agentIdentityOwnerRefMap i = ownerRefMapFor ''obol.org/v1alpha1'' ''AgentIdentity'' (im_Name i) (im_UID i)"

definition agentIdentityLabels :: "identity_meta \<Rightarrow> string \<Rightarrow> goany" where
  "agentIdentityLabels i appName =
     GMap [(''app'', GStr appName), (''obol.org/agentidentity'', GStr (im_Name i)), (''obol.org/managed-by'', GStr ''serviceoffer-controller'')]"

definition identity_metadata :: "(string \<Rightarrow> string) \<Rightarrow> identity_meta \<Rightarrow> string \<Rightarrow> (string \<times> goany) list" where
  "identity_metadata md5hex i name =
     [(''name'', GStr name), (''namespace'', GStr (im_Namespace i)), (''ownerReferences'', GArr [agentIdentityOwnerRefMap i]),
      (''labels'', agentIdentityLabels i (agentIdentityRegistrationName md5hex i))]"

definition buildAgentIdentityRegistrationConfigMap :: "(string \<Rightarrow> string) \<Rightarrow> identity_meta \<Rightarrow> string \<Rightarrow> goany" where
  "buildAgentIdentityRegistrationConfigMap md5hex i documentJSON =
     k8s_object ''v1'' ''ConfigMap'' (identity_metadata md5hex i (agentIdentityRegistrationName md5hex i))
       [(''data'', GMap [(''agent-registration.json'', GStr documentJSON),
                         (''httpd.conf'', GStr (''.json:application/json'' @ [CHR 0x0A]))])]"

definition restrictedPodSecurityContext :: goany where
  "restrictedPodSecurityContext =
     GMap [(''runAsNonRoot'', GBool True), (''runAsUser'', GInt64 1000), (''runAsGroup'', GInt64 1000), (''fsGroup'', GInt64 1000),
           (''seccompProfile'', GMap [(''type'', GStr ''RuntimeDefault'')])]"

definition restrictedContainerSecurityContext :: goany where
  "restrictedContainerSecurityContext =
     GMap [(''allowPrivilegeEscalation'', GBool False), (''capabilities'', GMap [(''drop'', GArr [GStr ''ALL''])])]"

definition config_volume :: "string \<Rightarrow> string \<Rightarrow> string \<Rightarrow> string \<Rightarrow> goany" where
  "config_volume volume name key path =
     GMap [(''name'', GStr volume), (''configMap'', GMap [(''name'', GStr name),
       (''items'', GArr [GMap [(''key'', GStr key), (''path'', GStr path)]])])]"

definition httpd_container :: goany where
  "httpd_container =
     GMap [(''name'', GStr ''httpd''), (''image'', GStr ''busybox:1.36''),
           (''command'', GArr [GStr ''httpd'', GStr ''-f'', GStr ''-p'', GStr ''8080'', GStr ''-h'', GStr ''/www'']),
           (''securityContext'', restrictedContainerSecurityContext),
           (''ports'', GArr [GMap [(''containerPort'', GInt64 8080), (''protocol'', GStr ''TCP'')]]),
           (''volumeMounts'', GArr
              [GMap [(''name'', GStr ''content''), (''mountPath'', GStr ''/www''), (''readOnly'', GBool True)],
               GMap [(''name'', GStr ''httpdconf''), (''mountPath'', GStr ''/etc/httpd.conf''), (''subPath'', GStr ''httpd.conf''), (''readOnly'', GBool True)]]),
           (''resources'', GMap [(''requests'', GMap [(''cpu'', GStr ''5m''), (''memory'', GStr ''8Mi'')]),
                                 (''limits'', GMap [(''cpu'', GStr ''50m''), (''memory'', GStr ''32Mi'')])])]"

definition buildAgentIdentityRegistrationDeployment :: "(string \<Rightarrow> string) \<Rightarrow> identity_meta \<Rightarrow> string \<Rightarrow> goany" where
  "buildAgentIdentityRegistrationDeployment md5hex i contentHash =
     (let name = agentIdentityRegistrationName md5hex i; labels = agentIdentityLabels i name in
      k8s_object ''apps/v1'' ''Deployment'' (identity_metadata md5hex i name)
        [(''spec'', GMap
           [(''replicas'', GInt64 1), (''selector'', GMap [(''matchLabels'', labels)]),
            (''template'', GMap
               [(''metadata'', GMap [(''labels'', labels), (''annotations'', GMap [(''obol.org/content-hash'', GStr contentHash)])]),
                (''spec'', GMap
                   [(''securityContext'', restrictedPodSecurityContext), (''containers'', GArr [httpd_container]),
                    (''volumes'', GArr [config_volume ''content'' name ''agent-registration.json'' ''.well-known/agent-registration.json'',
                                        config_volume ''httpdconf'' name ''httpd.conf'' ''httpd.conf''])])])])])"

definition buildAgentIdentityRegistrationService :: "(string \<Rightarrow> string) \<Rightarrow> identity_meta \<Rightarrow> goany" where
  "buildAgentIdentityRegistrationService md5hex i =
     (let name = agentIdentityRegistrationName md5hex i in
      k8s_object ''v1'' ''Service'' (identity_metadata md5hex i name)
        [(''spec'', GMap [(''type'', GStr ''ClusterIP''), (''selector'', agentIdentityLabels i name),
           (''ports'', GArr [GMap [(''port'', GInt64 8080), (''targetPort'', GInt64 8080), (''protocol'', GStr ''TCP'')]])])])"

definition buildAgentIdentityRegistrationHTTPRoute :: "(string \<Rightarrow> string) \<Rightarrow> identity_meta \<Rightarrow> goany" where
  "buildAgentIdentityRegistrationHTTPRoute md5hex i =
     k8s_object ''gateway.networking.k8s.io/v1'' ''HTTPRoute'' (identity_metadata md5hex i (agentIdentityRouteName md5hex i))
       [(''spec'', GMap [(''parentRefs'', gateway_parents),
          (''rules'', GArr [GMap [(''matches'', GArr [GMap [(''path'', path_match ''Exact'' ''/.well-known/agent-registration.json'')]]),
                                  (''backendRefs'', backend_ref (agentIdentityRegistrationName md5hex i) (im_Namespace i))]])])]"

end
