(* ===== verification/OfferConflicts.thy ===== *)
theory OfferConflicts imports MonetizeTypes begin

text \<open>
  Who owns a public path or a hostname: \<open>internal/serviceoffercontroller/pathconflict.go\<close>.  The informer's store is the
  list of the offers that decode; an entry that does not decode is skipped there and is not in the list.
\<close>

subsection \<open>Claims\<close>

definition normalizeOfferPath :: "string \<Rightarrow> string" where
  "normalizeOfferPath p = trim_suffix ''/'' p"

definition offer_key :: "service_offer \<Rightarrow> string" where
  "offer_key o' = so_Namespace o' @ ''/'' @ so_Name o'"

abbreviation "so_Created o' \<equiv> om_CreationTimestamp (so_meta o')"
abbreviation "so_Deleting o' \<equiv> om_DeletionTimestamp (so_meta o') \<noteq> None"

definition claimPrecedes :: "service_offer \<Rightarrow> service_offer \<Rightarrow> bool" where
  "claimPrecedes a b =
     (if so_Created a \<noteq> so_Created b then so_Created a < so_Created b else str_less (offer_key a) (offer_key b))"

definition same_offer :: "service_offer \<Rightarrow> service_offer \<Rightarrow> bool" where
  "same_offer a b \<longleftrightarrow> so_Namespace a = so_Namespace b \<and> so_Name a = so_Name b"

text \<open>The first offer of a list that shares the resource and precedes; the empty string when there is none.\<close>

fun first_precedent :: "(service_offer \<Rightarrow> bool) \<Rightarrow> service_offer \<Rightarrow> service_offer list \<Rightarrow> string" where
  "first_precedent shares o' [] = []"
| "first_precedent shares o' (other # others) =
     (if \<not> same_offer other o' \<and> \<not> so_Deleting other \<and> shares other \<and> claimPrecedes other o' then offer_key other
      else first_precedent shares o' others)"

definition pickPathConflict :: "service_offer \<Rightarrow> service_offer list \<Rightarrow> string" where
  "pickPathConflict o' others =
     (let path = normalizeOfferPath (EffectivePath o')
      in first_precedent (\<lambda>other. normalizeOfferPath (EffectivePath other) = path) o' others)"

definition pickHostnameConflict :: "service_offer \<Rightarrow> service_offer list \<Rightarrow> string" where
  "pickHostnameConflict o' others =
     (let host = to_lower (os_Hostname (so_spec o'))
      in if host = [] then []
         else first_precedent (\<lambda>other. os_Hostname (so_spec other) \<noteq> [] \<and> equal_fold (os_Hostname (so_spec other)) host) o' others)"

definition findHostnameConflict :: "service_offer \<Rightarrow> service_offer list \<Rightarrow> string" where
  "findHostnameConflict o' stored = (if os_Hostname (so_spec o') = [] then [] else pickHostnameConflict o' stored)"

fun first_reserved :: "offer_route list \<Rightarrow> string \<times> string" where
  "first_reserved [] = ([], [])"
| "first_reserved (route # routes) =
     (let r = ReservedRoutePathConflict (rt_Path route) in if r \<noteq> [] then (rt_Path route, r) else first_reserved routes)"

definition reservedRouteConflict :: "service_offer \<Rightarrow> string \<times> string" where
  "reservedRouteConflict o' = first_reserved (EffectiveRoutes o')"

subsection \<open>The order of claims\<close>

lemma offer_key_not_Nil [simp]: "offer_key o' \<noteq> []"
  by (simp add: offer_key_def)

lemma first_precedent_none:
  "first_precedent shares o' others = [] \<longleftrightarrow>
   (\<forall>other \<in> set others. same_offer other o' \<or> so_Deleting other \<or> \<not> shares other \<or> \<not> claimPrecedes other o')"
  by (induction others) auto

text \<open>A namespace has no slash, so the key determines the offer.\<close>

lemma offer_key_inject:
  assumes "CHR ''/'' \<notin> set (so_Namespace a)" "CHR ''/'' \<notin> set (so_Namespace b)" "offer_key a = offer_key b"
  shows "same_offer a b"
proof -
  have "takeWhile (\<lambda>c. c \<noteq> CHR ''/'') (offer_key x) = so_Namespace x" if "CHR ''/'' \<notin> set (so_Namespace x)" for x
    using that by (auto simp: offer_key_def takeWhile_append)
  with assms have "so_Namespace a = so_Namespace b" by metis
  with assms(3) show ?thesis by (simp add: offer_key_def same_offer_def)
qed

text \<open>A store as the API server keeps it: one object per namespace and name, and namespaces without slashes.\<close>

definition offer_store :: "service_offer list \<Rightarrow> bool" where
  "offer_store offers \<longleftrightarrow> (\<forall>a \<in> set offers. \<forall>b \<in> set offers. same_offer a b \<longrightarrow> a = b) \<and>
     (\<forall>a \<in> set offers. CHR ''/'' \<notin> set (so_Namespace a))"

lemma claim_irrefl: "\<not> claimPrecedes a a"
  by (simp add: claimPrecedes_def)

lemma claim_trans: "claimPrecedes a b \<Longrightarrow> claimPrecedes b c \<Longrightarrow> claimPrecedes a c"
  by (auto simp: claimPrecedes_def split: if_splits intro: str_less_trans)

lemma claim_total:
  assumes "offer_store offers" "a \<in> set offers" "b \<in> set offers" "a \<noteq> b"
  shows "claimPrecedes a b \<or> claimPrecedes b a"
proof (cases "so_Created a = so_Created b")
  case True
  have "offer_key a \<noteq> offer_key b" using assms offer_key_inject unfolding offer_store_def by blast
  with True str_less_total show ?thesis by (auto simp: claimPrecedes_def)
qed (auto simp: claimPrecedes_def)

lemma finite_least:
  assumes "finite S" "S \<noteq> {}" and irrefl: "\<And>a. \<not> lt a a" and trans: "\<And>a b c. lt a b \<Longrightarrow> lt b c \<Longrightarrow> lt a c"
  shows "\<exists>m \<in> S. \<forall>x \<in> S. \<not> lt x m"
  using assms(1,2)
proof (induction S rule: finite_ne_induct)
  case (singleton x)
  then show ?case using irrefl by simp
next
  case (insert x S)
  then obtain m where m: "m \<in> S" "\<forall>y \<in> S. \<not> lt y m" by blast
  show ?case
  proof (cases "lt x m")
    case True
    with m irrefl trans show ?thesis by blast
  next
    case False
    with m show ?thesis by blast
  qed
qed

subsection \<open>One owner for each resource\<close>

text \<open>
  A resource that offers claim (\<open>None\<close>: the offer claims none) and the check that finds an earlier claimant: the
  contract that the path and the hostname of an offer share.
\<close>

locale claimed_resource =
  fixes resource :: "service_offer \<Rightarrow> string option"
    and conflict :: "service_offer \<Rightarrow> service_offer list \<Rightarrow> string"
  assumes conflict_free: "resource o' = Some x \<Longrightarrow> conflict o' offers = [] \<longleftrightarrow>
    (\<forall>other \<in> set offers. same_offer other o' \<or> so_Deleting other \<or> resource other \<noteq> Some x \<or> \<not> claimPrecedes other o')"
begin

lemma one_owner:
  assumes st: "offer_store offers" and a: "a \<in> set offers" "\<not> so_Deleting a" "resource a = Some x"
  shows "\<exists>!b. b \<in> set offers \<and> \<not> so_Deleting b \<and> resource b = Some x \<and> conflict b offers = []"
proof -
  define S where "S = {b \<in> set offers. \<not> so_Deleting b \<and> resource b = Some x}"
  have S: "finite S" "S \<noteq> {}" using a by (auto simp: S_def)
  have "\<exists>m \<in> S. \<forall>y \<in> S. \<not> claimPrecedes y m"
    by (rule finite_least [OF S]) (rule claim_irrefl, erule claim_trans)
  then obtain m where m: "m \<in> S" "\<forall>y \<in> S. \<not> claimPrecedes y m" by blast
  have free: "conflict b offers = [] \<longleftrightarrow> (\<forall>y \<in> S. same_offer y b \<or> \<not> claimPrecedes y b)" if "b \<in> S" for b
    using conflict_free [of b x offers] that by (auto simp: S_def)
  show ?thesis
  proof (rule ex1I [of _ m])
    show "m \<in> set offers \<and> \<not> so_Deleting m \<and> resource m = Some x \<and> conflict m offers = []"
      using m free by (auto simp: S_def)
  next
    fix b assume b: "b \<in> set offers \<and> \<not> so_Deleting b \<and> resource b = Some x \<and> conflict b offers = []"
    then have bS: "b \<in> S" by (simp add: S_def)
    show "b = m"
    proof (rule ccontr)
      assume ne: "b \<noteq> m"
      have in_store: "m \<in> set offers" "b \<in> set offers" using m(1) b by (auto simp: S_def)
      then have "claimPrecedes m b" using claim_total [OF st] ne m(2) bS by blast
      then have "same_offer m b" using free [OF bS] b m(1) by blast
      then show False using st in_store ne unfolding offer_store_def by blast
    qed
  qed
qed

end

definition offer_path :: "service_offer \<Rightarrow> string option" where
  "offer_path o' = Some (normalizeOfferPath (EffectivePath o'))"

definition offer_host :: "service_offer \<Rightarrow> string option" where
  "offer_host o' = (if os_Hostname (so_spec o') = [] then None else Some (to_lower (os_Hostname (so_spec o'))))"

interpretation paths: claimed_resource offer_path pickPathConflict
  by unfold_locales (auto simp: offer_path_def pickPathConflict_def Let_def first_precedent_none)

interpretation hosts: claimed_resource offer_host findHostnameConflict
  by unfold_locales
    (auto simp: offer_host_def findHostnameConflict_def pickHostnameConflict_def Let_def first_precedent_none equal_fold_def split: if_splits)

text \<open>C20: Every public path and every hostname has exactly one owner.  Among the offers in the store that are not being
  deleted and share a path (up to a trailing slash), or a hostname (in any case), the conflict check passes for one and
  for one only, however many claim it and in whatever order they are listed: two offers are never both routed, and a
  contested path is never left without a route.\<close>

theorem one_owner_per_path:
  assumes "offer_store offers" and "a \<in> set offers" and "\<not> so_Deleting a"
  shows "(\<exists>!b. b \<in> set offers \<and> \<not> so_Deleting b \<and> normalizeOfferPath (EffectivePath b) = normalizeOfferPath (EffectivePath a) \<and>
      pickPathConflict b offers = []) \<and>
    (os_Hostname (so_spec a) = [] \<or>
     (\<exists>!b. b \<in> set offers \<and> \<not> so_Deleting b \<and> offer_host b = offer_host a \<and> findHostnameConflict b offers = []))"
  using paths.one_owner [OF assms, of "normalizeOfferPath (EffectivePath a)"] hosts.one_owner [OF assms]
  by (auto simp: offer_path_def offer_host_def split: if_splits)

definition claim_offer :: "string \<Rightarrow> nsec \<Rightarrow> string \<Rightarrow> string \<Rightarrow> service_offer" where
  "claim_offer name created path host =
     \<lparr>so_meta = \<lparr>om_Name = name, om_Namespace = ''n'', om_UID = [], om_Generation = 1, om_CreationTimestamp = created,
        om_DeletionTimestamp = None, om_Annotations = [], om_Finalizers = []\<rparr>,
      so_spec = \<lparr>os_Type = ''http'', os_Agent = \<lparr>gr_Name = [], gr_Namespace = []\<rparr>, os_Model = \<lparr>ml_Name = [], ml_Runtime = []\<rparr>,
        os_Upstream = \<lparr>ou_Service = ''s'', ou_Namespace = [], ou_Port = 80, ou_HealthPath = []\<rparr>,
        os_Payment = \<lparr>op_Scheme = [], op_Network = ''base'', op_PayTo = [], op_MaxTimeoutSeconds = 0,
          op_Asset = \<lparr>oa_Address = [], oa_Symbol = [], oa_Decimals = 0, oa_TransferMethod = [], oa_EIP712Name = [], oa_EIP712Version = []\<rparr>,
          op_Price = no_price\<rparr>,
        os_Payments = [], os_Listing = \<lparr>ls_Weight = 0, ls_Category = []\<rparr>, os_Routes = [], os_Path = path, os_Hostname = host,
        os_Provenance = [], os_Registration = \<lparr>rg_Enabled = False, rg_Name = [], rg_Description = [], rg_Image = [], rg_Services = [],
          rg_SupportedTrust = [], rg_Skills = [], rg_Domains = [], rg_Metadata = []\<rparr>,
        os_Async = \<lparr>as_Enabled = False, as_ResultVisibility = [], as_TTL = None\<rparr>, os_Limits = \<lparr>lm_MaxInFlight = 0, lm_RPS = 0\<rparr>,
        os_DrainAt = None, os_DrainGracePeriod = None\<rparr>,
      so_status = \<lparr>st_Conditions = [], st_Endpoint = [], st_AgentID = [], st_RegistrationTxHash = [], st_ObservedGeneration = 1,
        st_AgentResolution = None\<rparr>\<rparr>"

definition rivals :: "service_offer list" where
  "rivals = [claim_offer ''new'' 9 ''/x/'' ''Shop.example'', claim_offer ''old'' 3 ''/x'' ''shop.example'']"

theorem one_owner_per_path_witness:
  "(\<exists>!b. b \<in> set rivals \<and> \<not> so_Deleting b \<and> normalizeOfferPath (EffectivePath b) = ''/x'' \<and> pickPathConflict b rivals = []) \<and>
   pickPathConflict (hd rivals) rivals = ''n/old'' \<and> findHostnameConflict (hd rivals) rivals = ''n/old''"
proof -
  have s: "offer_store rivals" "last rivals \<in> set rivals" "\<not> so_Deleting (last rivals)"
    by (simp_all add: rivals_def offer_store_def same_offer_def claim_offer_def)
  have p: "normalizeOfferPath (EffectivePath (last rivals)) = ''/x''"
    "pickPathConflict (hd rivals) rivals = ''n/old''" "findHostnameConflict (hd rivals) rivals = ''n/old''"
    by code_simp+
  show ?thesis using one_owner_per_path [OF s] unfolding p by simp
qed

end
