(* ===== verification/OfferReconcile.thy ===== *)
theory OfferReconcile imports OfferManifests OfferConflicts GoTime begin

text \<open>
  The reconciler of service offers: \<open>reconcileOffer\<close> and what it calls in \<open>internal/serviceoffercontroller/controller.go\<close>,
  \<open>agent_resolver.go\<close> and \<open>identity_controller.go\<close>.

  A step gets the environment and the world and gives an error or a result, and a new world.  The world is the API
  server's objects that the controller touches, the queues it adds to (with the delay), and the rebuilds of the discovery
  site that it asks for (with the override).  The environment says which calls of the API server fail, how the server
  merges an applied object, what health checks answer, the informer's view of the offers, the time, MD5, quoting (\<open>%q\<close>)
  and the text of a type error of the \<open>unstructured\<close> accessors.  Objects decode; times keep their nanoseconds.  Rendering of
  the discovery site and the cache of upstream documents are left out; log lines too.
\<close>

subsection \<open>The world\<close>

datatype obj_kind = Grant | Route | Middleware | Service | Deployment | ConfigMap

type_synonym obj_key = "obj_kind \<times> string \<times> string"

record agent =
  an_Runtime :: string
  an_Model :: string
  an_Skills :: "string list"
  an_Phase :: string
  an_PinnedModel :: string
  an_Endpoint :: string

definition EffectiveRuntime :: "agent \<Rightarrow> string" where
  "EffectiveRuntime a = (if an_Runtime a \<noteq> [] then an_Runtime a else ''hermes'')"

definition EffectiveModel :: "agent \<Rightarrow> string" where
  "EffectiveModel a = (if an_Model a \<noteq> [] then an_Model a else an_PinnedModel a)"

definition IsReady :: "agent \<Rightarrow> bool" where
  "IsReady a \<longleftrightarrow> an_Phase a = ''Ready''"

record registration_request =
  rr_meta :: object_meta
  rr_spec :: registration_request_spec
  rr_status :: registration_request_status

record offer_world =
  ow_offers :: "(string \<times> string, service_offer) gomap"
  ow_objects :: "(obj_key, goany) gomap"
  ow_requests :: "(string \<times> string, registration_request) gomap"
  ow_agents :: "(string \<times> string, agent) gomap"
  ow_identity :: "identity_status option"
  ow_offerQueue :: "(string \<times> nsec) list"
  ow_registrationQueue :: "string list"
  ow_identityQueue :: "string list"
  ow_sites :: "service_offer option list"

datatype kube_call =
    GetObj obj_kind string string | CreateObj obj_kind string string | ApplyObj obj_kind string string | DeleteObj obj_kind string string
  | GetOffer string string | UpdateOffer string string | UpdateStatus string string
  | GetRequest string string | UpdateRequestStatus string string | ApplyRequest string string | DeleteRequest string string
  | GetAgent string string | GetIdentity | CreateIdentity | UpdateIdentity | RebuildSite

record offer_env =
  oe_now :: nsec
  oe_fail :: "kube_call \<Rightarrow> string option"
  oe_merge :: "goany option \<Rightarrow> goany \<Rightarrow> goany"
  oe_bad_url :: "string \<Rightarrow> string option"
  oe_health :: "string \<Rightarrow> string + int"
  oe_type_error :: "goany \<Rightarrow> string"
  oe_quote :: "string \<Rightarrow> string"
  oe_store :: "service_offer list"
  oe_md5 :: "string \<Rightarrow> string"
  oe_requests :: "registration_request list"

type_synonym 'a step = "offer_env \<Rightarrow> offer_world \<Rightarrow> (string + 'a) \<times> offer_world"

definition done_with :: "'a \<Rightarrow> 'a step" where
  "done_with x env w = (Inr x, w)"

definition fail_with :: "string \<Rightarrow> 'a step" where
  "fail_with e env w = (Inl e, w)"

definition and_then :: "'a step \<Rightarrow> ('a \<Rightarrow> 'b step) \<Rightarrow> 'b step" where
  "and_then m f env w = (case m env w of (Inl e, w') \<Rightarrow> (Inl e, w') | (Inr x, w') \<Rightarrow> f x env w')"

definition ask :: "(offer_env \<Rightarrow> 'a step) \<Rightarrow> 'a step" where
  "ask f env = f env env"

definition attempt :: "'a step \<Rightarrow> (string + 'a) step" where
  "attempt m env w = (case m env w of (r, w') \<Rightarrow> (Inr r, w'))"

text \<open>A call that may fail, and otherwise changes the world.\<close>

definition api :: "kube_call \<Rightarrow> (offer_env \<Rightarrow> offer_world \<Rightarrow> 'a \<times> offer_world) \<Rightarrow> 'a step" where
  "api c f env w = (case oe_fail env c of Some e \<Rightarrow> (Inl e, w) | None \<Rightarrow> (case f env w of (x, w') \<Rightarrow> (Inr x, w')))"

definition get_object :: "obj_kind \<Rightarrow> string \<Rightarrow> string \<Rightarrow> goany option step" where
  "get_object k ns n = api (GetObj k ns n) (\<lambda>env w. (map_of (ow_objects w) (k, ns, n), w))"

definition applyObject :: "obj_kind \<Rightarrow> string \<Rightarrow> string \<Rightarrow> goany \<Rightarrow> unit step" where
  "applyObject k ns n obj = api (ApplyObj k ns n)
     (\<lambda>env w. ((), w\<lparr>ow_objects := AList.update (k, ns, n) (oe_merge env (map_of (ow_objects w) (k, ns, n)) obj) (ow_objects w)\<rparr>))"

definition delete_object :: "obj_kind \<Rightarrow> string \<Rightarrow> string \<Rightarrow> unit step" where
  "delete_object k ns n = api (DeleteObj k ns n) (\<lambda>env w. ((), w\<lparr>ow_objects := AList.delete (k, ns, n) (ow_objects w)\<rparr>))"

fun delete_all :: "obj_key list \<Rightarrow> unit step" where
  "delete_all [] = done_with ()"
| "delete_all ((k, ns, n) # rest) = and_then (delete_object k ns n) (\<lambda>_. delete_all rest)"

definition add_offer_after :: "string \<Rightarrow> nsec \<Rightarrow> offer_world \<Rightarrow> offer_world" where
  "add_offer_after key delay w = w\<lparr>ow_offerQueue := ow_offerQueue w @ [(key, delay)]\<rparr>"

definition world_step :: "(offer_world \<Rightarrow> offer_world) \<Rightarrow> unit step" where
  "world_step f env w = (Inr (), f w)"

abbreviation "offer_queue_key o' \<equiv> so_Namespace o' @ ''/'' @ so_Name o'"

definition defaultIdentityKey :: string where "defaultIdentityKey = ''x402/default''"

definition enqueueAgentIdentityKey :: "offer_world \<Rightarrow> offer_world" where
  "enqueueAgentIdentityKey w = w\<lparr>ow_identityQueue := ow_identityQueue w @ [defaultIdentityKey]\<rparr>"

subsection \<open>Conditions\<close>

fun set_condition :: "nsec \<Rightarrow> string \<Rightarrow> string \<Rightarrow> string \<Rightarrow> string \<Rightarrow> condition list \<Rightarrow> condition list" where
  "set_condition now t st reason msg [] =
     [\<lparr>cd_Type = t, cd_Status = st, cd_Reason = reason, cd_Message = msg, cd_LastTransitionTime = now\<rparr>]"
| "set_condition now t st reason msg (c # cs) =
     (if cd_Type c \<noteq> t then c # set_condition now t st reason msg cs
      else
        (let lt = (if cd_Status c \<noteq> st then now else cd_LastTransitionTime c)
         in c\<lparr>cd_Status := st, cd_Reason := reason, cd_Message := msg,
              cd_LastTransitionTime := if lt = zero_time then now else lt\<rparr> # cs))"

definition setCondition :: "nsec \<Rightarrow> string \<Rightarrow> string \<Rightarrow> string \<Rightarrow> string \<Rightarrow> offer_status \<Rightarrow> offer_status" where
  "setCondition now t st reason msg s = s\<lparr>st_Conditions := set_condition now t st reason msg (st_Conditions s)\<rparr>"

fun condition_true :: "condition list \<Rightarrow> string \<Rightarrow> bool" where
  "condition_true [] t = False"
| "condition_true (c # cs) t = (if cd_Type c = t then cd_Status c = ''True'' else condition_true cs t)"

definition isConditionTrue :: "offer_status \<Rightarrow> string \<Rightarrow> bool" where
  "isConditionTrue s t = condition_true (st_Conditions s) t"

subsection \<open>Acceptance of a route\<close>

definition nested :: "goany \<Rightarrow> string \<Rightarrow> goany option" where
  "nested v k = (case v of GMap m \<Rightarrow> map_of m k | _ \<Rightarrow> None)"

fun int_value :: "goany option \<Rightarrow> int" where
  "int_value (Some (GInt64 i)) = i"
| "int_value _ = 0"

fun list_value :: "goany option \<Rightarrow> goany list option" where
  "list_value (Some (GArr vs)) = Some vs"
| "list_value _ = None"

fun accepted_loop :: "int \<Rightarrow> goany list \<Rightarrow> bool \<Rightarrow> bool \<Rightarrow> bool" where
  "accepted_loop gen [] accepted resolved = (accepted \<and> resolved)"
| "accepted_loop gen (c # cs) accepted resolved =
     (case c of
        GMap m \<Rightarrow>
          (if int_value (map_of m ''observedGeneration'') \<noteq> gen then accepted_loop gen cs accepted resolved
           else
             (let t = the_default [] (as_string (map_of m ''type'')); ok = (as_string (map_of m ''status'') = Some ''True'')
              in if t = ''Accepted'' then accepted_loop gen cs ok resolved
                 else if t = ''ResolvedRefs'' then accepted_loop gen cs accepted ok
                 else accepted_loop gen cs accepted resolved))
      | _ \<Rightarrow> accepted_loop gen cs accepted resolved)"

definition httpRouteAccepted :: "goany \<Rightarrow> bool" where
  "httpRouteAccepted route =
     (case list_value (Option.bind (nested route ''status'') (\<lambda>s. nested s ''parents'')) of
        None \<Rightarrow> False
      | Some parents \<Rightarrow>
          (let gen = int_value (Option.bind (nested route ''metadata'') (\<lambda>m. nested m ''generation''))
           in list_ex (\<lambda>p. case list_value (nested p ''conditions'') of None \<Rightarrow> False | Some cs \<Rightarrow> accepted_loop gen cs False False)
                parents))"

subsection \<open>The shared identity\<close>

definition offer_older :: "service_offer \<Rightarrow> service_offer \<Rightarrow> bool" where
  "offer_older a b =
     (if so_Created a = so_Created b then
        (if so_Namespace a = so_Namespace b then str_less (so_Name a) (so_Name b) else str_less (so_Namespace a) (so_Namespace b))
      else if so_Created a = zero_time then False
      else if so_Created b = zero_time then True
      else so_Created a < so_Created b)"

definition selectRegistrationOwner :: "service_offer list \<Rightarrow> service_offer option" where
  "selectRegistrationOwner offers = (case sort_by offer_older offers of [] \<Rightarrow> None | o' # os \<Rightarrow> Some o')"

definition registrationOffersForIdentity :: "service_offer list \<Rightarrow> service_offer list" where
  "registrationOffersForIdentity offers = filter (\<lambda>o'. \<not> so_Deleting o' \<and> rg_Enabled (os_Registration (so_spec o'))) offers"

definition registrationOwnerForIdentity :: "offer_env \<Rightarrow> service_offer option" where
  "registrationOwnerForIdentity env = selectRegistrationOwner (registrationOffersForIdentity (oe_store env))"

definition seed_older :: "service_offer \<Rightarrow> service_offer \<Rightarrow> bool" where
  "seed_older a b =
     (if so_Created a = so_Created b then
        (if so_Namespace a = so_Namespace b then str_less (so_Name a) (so_Name b) else str_less (so_Namespace a) (so_Namespace b))
      else so_Created a < so_Created b)"

definition SeedIdentityFromOffers :: "service_offer list \<Rightarrow> identity_status option" where
  "SeedIdentityFromOffers offers =
     (let status = foldl (\<lambda>s o'. if trim_space (st_AgentID (so_status o')) = [] then s
            else UpsertAgentIdentityRegistration s (op_Network (os_Payment (so_spec o'))) (st_AgentID (so_status o'))) []
          (sort_by seed_older offers)
      in if HasAgentIdentityRegistrations status then Some status else None)"

definition request_older :: "registration_request \<Rightarrow> registration_request \<Rightarrow> bool" where
  "request_older a b =
     (let ta = om_CreationTimestamp (rr_meta a); tb = om_CreationTimestamp (rr_meta b);
          key = (\<lambda>r. om_Namespace (rr_meta r) @ ''/'' @ om_Name (rr_meta r))
      in if ta = tb then str_less (key a) (key b) else ta < tb)"

definition seed_absent :: "identity_status \<Rightarrow> string \<times> string \<Rightarrow> identity_status" where
  "seed_absent s r = (if AgentIdentityAgentIDForChain s (fst r) = [] then UpsertAgentIdentityRegistration s (fst r) (snd r) else s)"

definition seedDefaultAgentIdentity :: "offer_env \<Rightarrow> identity_status option" where
  "seedDefaultAgentIdentity env =
     (case SeedIdentityFromOffers (registrationOffersForIdentity (oe_store env)) of
        Some seed \<Rightarrow> Some seed
      | None \<Rightarrow>
          (let entries = sort_by request_older (filter (\<lambda>r. trim_space (rq_Chain (rr_spec r)) \<noteq> [] \<and>
                 trim_space (rs_AgentID (rr_status r)) \<noteq> []) (oe_requests env));
               status = foldl seed_absent [] (map (\<lambda>r. (rq_Chain (rr_spec r), rs_AgentID (rr_status r))) entries)
           in if HasAgentIdentityRegistrations status then Some status else None))"

definition mergeIdentitySeed :: "identity_status \<Rightarrow> identity_status option \<Rightarrow> identity_status" where
  "mergeIdentitySeed status seed =
     (case seed of None \<Rightarrow> status | Some s \<Rightarrow> foldl seed_absent status (map (\<lambda>r. (ir_Chain r, ir_AgentID r)) s))"

definition set_identity :: "identity_status \<Rightarrow> offer_world \<Rightarrow> offer_world" where
  "set_identity s w = w\<lparr>ow_identity := Some s\<rparr>"

definition ensureAgentIdentity :: "identity_status step" where
  "ensureAgentIdentity = and_then (api GetIdentity (\<lambda>env w. (ow_identity w, w)))
     (\<lambda>found. case found of
        Some identity \<Rightarrow> done_with identity
      | None \<Rightarrow> ask (\<lambda>env.
          (let status = mergeIdentitySeed [] (seedDefaultAgentIdentity env)
           in and_then (api CreateIdentity (\<lambda>env w. ((), set_identity [] w)))
                (\<lambda>_. if HasAgentIdentityRegistrations status
                     then and_then (api UpdateIdentity (\<lambda>env w. ((), set_identity status w))) (\<lambda>_. done_with status)
                     else done_with []))))"

subsection \<open>The children of an offer\<close>

definition route_children :: "(string \<Rightarrow> string) \<Rightarrow> service_offer \<Rightarrow> obj_key list" where
  "route_children h o' =
     (let ns = so_Namespace o'; n = so_Name o' in
      [(Grant, ''x402'', backendReferenceGrantName h ns n), (Grant, ''x402'', legacyBackendReferenceGrantName h n),
       (Grant, ''x402'', intermediateBackendReferenceGrantName h ns n),
       (Route, ns, childName h n), (Route, ns, hostChildName h n),
       (Middleware, ns, limitsInFlightMiddlewareName h n), (Middleware, ns, limitsRPSMiddlewareName h n),
       (Middleware, ns, legacyLimitsMiddlewareName h n)])"

definition deleteRouteChildren :: "service_offer \<Rightarrow> unit step" where
  "deleteRouteChildren o' = ask (\<lambda>env. delete_all (route_children (oe_md5 env) o'))"

definition deleteRegistrationRequest :: "string \<Rightarrow> string \<Rightarrow> unit step" where
  "deleteRegistrationRequest ns offerName = ask (\<lambda>env.
     let n = registrationRequestName (oe_md5 env) offerName
      in api (DeleteRequest ns n) (\<lambda>env w. ((), w\<lparr>ow_requests := AList.delete (ns, n) (ow_requests w)\<rparr>)))"

definition no_request_status :: registration_request_status where
  "no_request_status = \<lparr>rs_Phase = [], rs_Message = [], rs_PublishedURL = [], rs_AgentID = [], rs_RegistrationTxHash = [],
     rs_RegistrationOwner = [], rs_RegistrationURI = [], rs_RegistrationSearchFromBlock = 0, rs_MetadataSynced = False\<rparr>"

text \<open>\<open>buildRegistrationRequest\<close> and its apply: the server keeps the status of an object that exists.\<close>

definition request_spec :: "service_offer \<Rightarrow> string \<Rightarrow> registration_request_spec" where
  "request_spec o' desired =
     \<lparr>rq_ServiceOfferName = so_Name o', rq_ServiceOfferNamespace = so_Namespace o', rq_DesiredState = desired,
      rq_Chain = op_Network (os_Payment (so_spec o'))\<rparr>"

definition apply_request :: "service_offer \<Rightarrow> string \<Rightarrow> unit step" where
  "apply_request o' desired = ask (\<lambda>env.
     let ns = so_Namespace o'; n = registrationRequestName (oe_md5 env) (so_Name o')
      in api (ApplyRequest ns n)
           (\<lambda>env w. ((), w\<lparr>ow_requests := AList.update (ns, n)
              (case map_of (ow_requests w) (ns, n) of
                 Some r \<Rightarrow> r\<lparr>rr_spec := request_spec o' desired\<rparr>
               | None \<Rightarrow> \<lparr>rr_meta = \<lparr>om_Name = n, om_Namespace = ns, om_UID = [], om_Generation = 1, om_CreationTimestamp = oe_now env,
                           om_DeletionTimestamp = None, om_Annotations = [], om_Finalizers = []\<rparr>,
                         rr_spec = request_spec o' desired, rr_status = no_request_status\<rparr>) (ow_requests w)\<rparr>)))"

definition get_request :: "string \<Rightarrow> string \<Rightarrow> registration_request option step" where
  "get_request ns n = api (GetRequest ns n) (\<lambda>env w. (map_of (ow_requests w) (ns, n), w))"

definition requestCleanupComplete :: "string \<Rightarrow> bool" where
  "requestCleanupComplete phase \<longleftrightarrow> phase = ''Tombstoned'' \<or> phase = ''OffChainOnly''"

definition requestPhaseReady :: "string \<Rightarrow> bool" where
  "requestPhaseReady phase \<longleftrightarrow> phase = ''Registered''"

definition ensureRegistrationCleanup :: "service_offer \<Rightarrow> bool step" where
  "ensureRegistrationCleanup o' = ask (\<lambda>env.
     and_then (apply_request o' ''Tombstoned'')
       (\<lambda>_. and_then (get_request (so_Namespace o') (registrationRequestName (oe_md5 env) (so_Name o')))
          (\<lambda>found. done_with (case found of None \<Rightarrow> trim_space (st_AgentID (so_status o')) = []
                                          | Some r \<Rightarrow> requestCleanupComplete (rs_Phase (rr_status r))))))"

subsection \<open>Deleting an offer\<close>

definition reconcileDeletingOffer :: "service_offer \<Rightarrow> unit step" where
  "reconcileDeletingOffer o' = ask (\<lambda>env.
     (let registered = rg_Enabled (os_Registration (so_spec o'));
          clean_up = (if \<not> registered \<and> trim_space (st_AgentID (so_status o')) = []
                      then deleteRegistrationRequest (so_Namespace o') (so_Name o')
                      else and_then (ensureRegistrationCleanup o')
                             (\<lambda>ready. if ready then deleteRegistrationRequest (so_Namespace o') (so_Name o')
                                      else fail_with (''registration cleanup pending for '' @ so_Namespace o' @ ''/'' @ so_Name o')))
      in and_then (deleteRouteChildren o')
           (\<lambda>_. if \<not> registered then clean_up
                else and_then (world_step enqueueAgentIdentityKey)
                  (\<lambda>_. case registrationOwnerForIdentity env of
                         None \<Rightarrow> clean_up
                       | Some owner \<Rightarrow>
                           and_then (deleteRegistrationRequest (so_Namespace o') (so_Name o'))
                             (\<lambda>_. world_step (\<lambda>w. add_offer_after (offer_queue_key owner) 0
                                (w\<lparr>ow_registrationQueue := ow_registrationQueue w @
                                   [so_Namespace owner @ ''/'' @ registrationRequestName (oe_md5 env) (so_Name owner)]\<rparr>)))))))"

subsection \<open>Model, upstream and gate\<close>

abbreviation "put_cond env t st r m s \<equiv> setCondition (oe_now env) t st r m s"

definition reconcileModel :: "offer_env \<Rightarrow> service_offer \<Rightarrow> offer_status \<Rightarrow> offer_status" where
  "reconcileModel env o' s =
     (let name = trim_space (ml_Name (os_Model (so_spec o'))) in
      if \<not> IsInference o' \<and> \<not> IsAgent o' \<and> equal_fold (ou_Service (os_Upstream (so_spec o'))) ''litellm'' then
        (if name \<noteq> [] then put_cond env ''ModelReady'' ''True'' ''Pinned'' (''Seller-pinned LiteLLM model '' @ name) s
         else put_cond env ''ModelReady'' ''False'' ''MissingModel''
           (''LiteLLM-backed offers must pin a model; run: obol sell update '' @ so_Name o' @ '' -n '' @ so_Namespace o' @
            '' --model <litellm-model>'') s)
      else if \<not> IsInference o' then
        put_cond env ''ModelReady'' ''True'' ''Skipped'' ''HTTP offer does not require model preparation'' s
      else if ml_Name (os_Model (so_spec o')) = [] then
        put_cond env ''ModelReady'' ''False'' ''MissingModel'' ''Inference offer is missing spec.model.name'' s
      else put_cond env ''ModelReady'' ''True'' ''Declared'' (''Model '' @ ml_Name (os_Model (so_spec o')) @ '' declared'') s)"

definition health_url :: "service_offer \<Rightarrow> string" where
  "health_url o' = ''http://'' @ ou_Service (os_Upstream (so_spec o')) @ ''.'' @ EffectiveNamespace o' @ ''.svc.cluster.local:'' @
     show_int (EffectivePort o') @ EffectiveHealthPath o'"

definition upstreamHealthStatusOK :: "int \<Rightarrow> bool" where
  "upstreamHealthStatusOK code \<longleftrightarrow> code \<ge> 200 \<and> code < 300"

definition health_verdict :: "offer_env \<Rightarrow> service_offer \<Rightarrow> offer_status \<Rightarrow> bool \<times> offer_status" where
  "health_verdict env o' s =
     (case oe_health env (health_url o') of
        Inl e \<Rightarrow> (False, put_cond env ''UpstreamHealthy'' ''False'' ''Unhealthy'' e s)
      | Inr code \<Rightarrow>
          if \<not> upstreamHealthStatusOK code then
            (False, put_cond env ''UpstreamHealthy'' ''False'' ''Unhealthy''
               (''HTTP '' @ show_int code @ '' from upstream health path '' @ EffectiveHealthPath o') s)
          else (True, put_cond env ''UpstreamHealthy'' ''True'' ''Healthy'' (''Upstream responded with HTTP '' @ show_int code) s))"

definition reconcileUpstream :: "service_offer \<Rightarrow> offer_status \<Rightarrow> (bool \<times> offer_status) step" where
  "reconcileUpstream o' s = ask (\<lambda>env.
     and_then (get_object Service (EffectiveNamespace o') (ou_Service (os_Upstream (so_spec o'))))
       (\<lambda>found. case found of
          None \<Rightarrow> done_with (False, put_cond env ''UpstreamHealthy'' ''False'' ''MissingService'' ''Upstream Service does not exist'' s)
        | Some svc \<Rightarrow> (case oe_bad_url env (health_url o') of
            Some e \<Rightarrow> fail_with e | None \<Rightarrow> done_with (health_verdict env o' s))))"

text \<open>\<open>unstructured.NestedInt64(deployment, "status", "availableReplicas")\<close>; \<open>None\<close> when a value has the wrong type.\<close>

fun nested_map :: "goany option \<Rightarrow> (string \<times> goany) list option" where
  "nested_map None = Some []"
| "nested_map (Some (GMap m)) = Some m"
| "nested_map (Some v) = None"

fun nested_int64 :: "goany option \<Rightarrow> int option" where
  "nested_int64 None = Some 0"
| "nested_int64 (Some (GInt64 i)) = Some i"
| "nested_int64 (Some v) = None"

definition available_replicas :: "goany \<Rightarrow> int option" where
  "available_replicas d = Option.bind (nested_map (nested d ''status'')) (\<lambda>m. nested_int64 (map_of m ''availableReplicas''))"

definition reconcilePaymentGate :: "service_offer \<Rightarrow> offer_status \<Rightarrow> offer_status step" where
  "reconcilePaymentGate o' s = ask (\<lambda>env.
     (let waiting = (\<lambda>msg. put_cond env ''PaymentGateReady'' ''False'' ''WaitingForGateway'' msg s)
      in and_then (applyObject Grant ''x402'' (backendReferenceGrantName (oe_md5 env) (so_Namespace o') (so_Name o'))
                     (buildReferenceGrant (oe_md5 env) o'))
           (\<lambda>_. and_then (get_object Service ''x402'' ''x402-verifier'')
              (\<lambda>svc. if svc = None then done_with (waiting ''Shared x402 gateway Service does not exist'')
                else and_then (get_object Deployment ''x402'' ''x402-verifier'')
                  (\<lambda>dep. case dep of
                     None \<Rightarrow> done_with (waiting ''Shared x402 gateway Deployment does not exist'')
                   | Some d \<Rightarrow> (case available_replicas d of
                       None \<Rightarrow> fail_with (oe_type_error env d)
                     | Some n \<Rightarrow> done_with
                         (if n < 1 then waiting ''Shared x402 gateway Deployment is not yet available''
                          else put_cond env ''PaymentGateReady'' ''True'' ''Reconciled'' ''Shared x402 gateway is available'' s)))))))"

subsection \<open>Routes\<close>

definition middleware_name :: "goany \<Rightarrow> string" where
  "middleware_name m = the_default [] (as_string (Option.bind (nested m ''metadata'') (\<lambda>md. nested md ''name'')))"

fun apply_middlewares :: "string \<Rightarrow> goany list \<Rightarrow> unit step" where
  "apply_middlewares ns [] = done_with ()"
| "apply_middlewares ns (m # ms) = and_then (applyObject Middleware ns (middleware_name m) m) (\<lambda>_. apply_middlewares ns ms)"

definition stale_children :: "(string \<Rightarrow> string) \<Rightarrow> service_offer \<Rightarrow> obj_key list" where
  "stale_children h o' =
     (let ns = so_Namespace o'; n = so_Name o';
          wanted = map middleware_name (buildLimitsMiddlewares h o')
      in map (\<lambda>m. (Middleware, ns, m)) (filter (\<lambda>m. m \<notin> set wanted)
           [limitsInFlightMiddlewareName h n, limitsRPSMiddlewareName h n, legacyLimitsMiddlewareName h n]) @
         [(Grant, ''x402'', legacyBackendReferenceGrantName h n), (Grant, ''x402'', intermediateBackendReferenceGrantName h ns n)])"

text \<open>Applying a route and asking whether the gateway accepted it.  A route that is missing after its apply is an error.\<close>

definition apply_route :: "string \<Rightarrow> string \<Rightarrow> goany \<Rightarrow> bool step" where
  "apply_route ns n obj =
     and_then (applyObject Route ns n obj)
       (\<lambda>_. and_then (get_object Route ns n)
          (\<lambda>r. case r of None \<Rightarrow> fail_with (''httproutes '' @ n @ '' not found'') | Some route \<Rightarrow> done_with (httpRouteAccepted route)))"

definition published_at :: "service_offer \<Rightarrow> string" where
  "published_at o' =
     (if EffectiveOrigin o' \<noteq> [] then EffectiveOrigin o' @ '' (+ shared-origin alias '' @ EffectivePath o' @ '')'' else EffectivePath o')"

definition reconcileRoute :: "service_offer \<Rightarrow> offer_status \<Rightarrow> offer_status step" where
  "reconcileRoute o' s = ask (\<lambda>env.
     (let h = oe_md5 env; ns = so_Namespace o'; n = so_Name o';
          published = put_cond env ''RoutePublished'' ''True'' ''Reconciled'' (''HTTPRoute published at '' @ published_at o') s;
          waiting = (\<lambda>msg. put_cond env ''RoutePublished'' ''False'' ''WaitingForTraefikAcceptance'' msg s)
      in and_then (apply_middlewares ns (buildLimitsMiddlewares h o'))
           (\<lambda>_. and_then (delete_all (stale_children h o'))
              (\<lambda>_. and_then (apply_route ns (childName h n) (buildHTTPRoute h o'))
                 (\<lambda>ok. if \<not> ok then done_with (waiting ''HTTPRoute applied but not yet accepted by Traefik'')
                   else if os_Hostname (so_spec o') \<noteq> [] then
                     and_then (apply_route ns (hostChildName h n) (buildHostHTTPRoute h o'))
                       (\<lambda>ok'. done_with (if ok' then published else waiting ''Host HTTPRoute applied but not yet accepted by Traefik''))
                   else and_then (delete_object Route ns (hostChildName h n)) (\<lambda>_. done_with published))))))"

subsection \<open>Registration\<close>

definition default_string :: "string \<Rightarrow> string \<Rightarrow> string" where
  "default_string v fallback = (if trim_space v \<noteq> [] then v else fallback)"

definition same_owner :: "service_offer \<Rightarrow> service_offer \<Rightarrow> bool" where
  "same_owner owner o' \<longleftrightarrow> so_Namespace owner = so_Namespace o' \<and> so_Name owner = so_Name o'"

definition applySharedRegistrationStatus ::
  "offer_env \<Rightarrow> service_offer \<Rightarrow> service_offer \<Rightarrow> identity_status \<Rightarrow> registration_request \<Rightarrow> offer_status \<Rightarrow> offer_status" where
  "applySharedRegistrationStatus env o' owner identity r s0 =
     (let agentID = AgentIdentityAgentIDForChain identity (op_Network (os_Payment (so_spec o')));
          s = s0\<lparr>st_AgentID := agentID, st_RegistrationTxHash := if agentID \<noteq> [] then rs_RegistrationTxHash (rr_status r) else []\<rparr>;
          owner_name = so_Namespace owner @ ''/'' @ so_Name owner
      in if \<not> isConditionTrue s ''RoutePublished'' then
           put_cond env ''Registered'' ''False'' ''WaitingForRoute'' ''Waiting for route publication before shared registration'' s
         else if agentID \<noteq> [] then
           (let msg = (if \<not> same_owner owner o' then ''Shared registration via '' @ owner_name @ '' recorded agent '' @ agentID
                       else default_string (rs_Message (rr_status r)) (''Recorded agent '' @ agentID));
                reason = (if requestPhaseReady (rs_Phase (rr_status r)) then default_string (rs_Phase (rr_status r)) ''Active'' else ''Active'')
            in put_cond env ''Registered'' ''True'' reason msg s)
         else
           (let msg0 = default_string (rs_Message (rr_status r)) ''Waiting for RegistrationRequest to finish'';
                msg = (if \<not> same_owner owner o' then ''Waiting for shared registration owned by '' @ owner_name @ '': '' @ msg0 else msg0)
            in put_cond env ''Registered'' ''False'' (default_string (rs_Phase (rr_status r)) ''Pending'') msg s))"

definition shared_status :: "service_offer \<Rightarrow> service_offer \<Rightarrow> identity_status \<Rightarrow> offer_status \<Rightarrow> offer_status step" where
  "shared_status o' owner identity s = ask (\<lambda>env.
     let owner_name = so_Namespace owner @ ''/'' @ so_Name owner in
      and_then (deleteRegistrationRequest (so_Namespace o') (so_Name o'))
        (\<lambda>_. and_then (get_request (so_Namespace owner) (registrationRequestName (oe_md5 env) (so_Name owner)))
           (\<lambda>found. done_with (case found of
              None \<Rightarrow> put_cond env ''Registered'' ''False'' ''Pending'' (''Waiting for shared registration owned by '' @ owner_name) s
            | Some r \<Rightarrow> applySharedRegistrationStatus env o' owner identity r s))))"

definition own_status :: "service_offer \<Rightarrow> service_offer \<Rightarrow> identity_status \<Rightarrow> offer_status \<Rightarrow> offer_status step" where
  "own_status o' owner identity s = ask (\<lambda>env.
     let n = registrationRequestName (oe_md5 env) (so_Name o') in
      and_then (apply_request o' ''Active'')
        (\<lambda>_. and_then (attempt (get_request (so_Namespace o') n))
           (\<lambda>found. done_with (case found of
              Inr (Some r) \<Rightarrow> applySharedRegistrationStatus env o' owner identity r s
            | _ \<Rightarrow> put_cond env ''Registered'' ''False'' ''Pending'' ''Waiting for RegistrationRequest'' s))))"

definition reconcileRegistrationStatus :: "service_offer \<Rightarrow> offer_status \<Rightarrow> offer_status step" where
  "reconcileRegistrationStatus o' s = ask (\<lambda>env.
     (if \<not> rg_Enabled (os_Registration (so_spec o')) then
        and_then (deleteRegistrationRequest (so_Namespace o') (so_Name o'))
          (\<lambda>_. done_with (put_cond env ''Registered'' ''True'' ''Disabled'' ''Registration disabled'' (s\<lparr>st_AgentID := [], st_RegistrationTxHash := []\<rparr>)))
      else
        and_then ensureAgentIdentity
          (\<lambda>identity.
             (let s1 = s\<lparr>st_AgentID := AgentIdentityAgentIDForChain identity (op_Network (os_Payment (so_spec o')))\<rparr>
              in case registrationOwnerForIdentity env of
                   None \<Rightarrow> done_with (put_cond env ''Registered'' ''False'' ''Pending'' ''Waiting for shared registration owner'' s1)
                 | Some owner \<Rightarrow> if same_owner owner o' then own_status o' owner identity s1 else shared_status o' owner identity s1))))"

subsection \<open>Agents behind offers\<close>

text \<open>
  \<open>resolveAgentOffer\<close> gives whether the agent is ready, the offer as the rest of the pass sees it (its upstream and model
  are those of the agent, in memory only) and the status.
\<close>

definition resolved_by :: "agent \<Rightarrow> service_offer \<Rightarrow> service_offer" where
  "resolved_by a o' = o'\<lparr>so_spec := so_spec o'
     \<lparr>os_Upstream := \<lparr>ou_Service = ''hermes'', ou_Namespace = gr_Namespace (os_Agent (so_spec o')), ou_Port = 8642, ou_HealthPath = ''/health''\<rparr>,
      os_Model := \<lparr>ml_Name = EffectiveModel a, ml_Runtime = EffectiveRuntime a\<rparr>\<rparr>\<rparr>"

definition resolution_of :: "agent \<Rightarrow> agent_resolution" where
  "resolution_of a = \<lparr>ag_Model = EffectiveModel a, ag_Skills = an_Skills a, ag_Runtime = EffectiveRuntime a, ag_Endpoint = an_Endpoint a\<rparr>"

definition resolveAgentOffer :: "service_offer \<Rightarrow> offer_status \<Rightarrow> (bool \<times> service_offer \<times> offer_status) step" where
  "resolveAgentOffer o' s = ask (\<lambda>env.
     (let ref = os_Agent (so_spec o'); who = so_Namespace o' @ ''/'' @ so_Name o';
          unready = (False, o', s\<lparr>st_AgentResolution := None\<rparr>)
      in if gr_Name ref = [] \<or> gr_Namespace ref = [] then fail_with (''type=agent offer '' @ who @ '' missing spec.agent.ref'')
         else if gr_Namespace ref \<noteq> so_Namespace o' then
           fail_with (''type=agent offer '' @ who @ '': spec.agent.ref.namespace '' @ oe_quote env (gr_Namespace ref) @ '' must equal offer namespace'')
         else and_then (api (GetAgent (gr_Namespace ref) (gr_Name ref)) (\<lambda>env w. (map_of (ow_agents w) (gr_Namespace ref, gr_Name ref), w)))
           (\<lambda>found. done_with (case found of
              None \<Rightarrow> unready
            | Some a \<Rightarrow> if \<not> IsReady a \<or> an_Endpoint a = [] then unready
                        else (True, resolved_by a o', s\<lparr>st_AgentResolution := Some (resolution_of a)\<rparr>)))))"

definition clearNonAgentResolution :: "service_offer \<Rightarrow> offer_status \<Rightarrow> offer_status" where
  "clearNonAgentResolution o' s = (if IsAgent o' then s else s\<lparr>st_AgentResolution := None\<rparr>)"

subsection \<open>Writes to the offer\<close>

definition serviceOfferFinalizer :: string where "serviceOfferFinalizer = ''monetize.obol.org/finalizer''"

definition write_offer :: "service_offer \<Rightarrow> (service_offer \<Rightarrow> service_offer) \<Rightarrow> offer_world \<Rightarrow> offer_world" where
  "write_offer o' f w =
     (case map_of (ow_offers w) (so_Namespace o', so_Name o') of None \<Rightarrow> w
      | Some cur \<Rightarrow> w\<lparr>ow_offers := AList.update (so_Namespace o', so_Name o') (f cur) (ow_offers w)\<rparr>)"

definition updateOfferStatus :: "service_offer \<Rightarrow> offer_status \<Rightarrow> unit step" where
  "updateOfferStatus o' s =
     (if so_status o' = s then done_with ()
      else api (UpdateStatus (so_Namespace o') (so_Name o')) (\<lambda>env w. ((), write_offer o' (\<lambda>cur. cur\<lparr>so_status := s\<rparr>) w)))"

text \<open>The server removes an object that is being deleted when its last finalizer goes.\<close>

definition put_finalizers :: "service_offer \<Rightarrow> string list \<Rightarrow> offer_world \<Rightarrow> offer_world" where
  "put_finalizers o' fs w =
     (if so_Deleting o' \<and> fs = [] then w\<lparr>ow_offers := AList.delete (so_Namespace o', so_Name o') (ow_offers w)\<rparr>
      else write_offer o' (\<lambda>cur. cur\<lparr>so_meta := so_meta cur\<lparr>om_Finalizers := fs\<rparr>\<rparr>) w)"

definition update_finalizers :: "service_offer \<Rightarrow> (string list \<Rightarrow> string list) \<Rightarrow> unit step" where
  "update_finalizers o' f = api (UpdateOffer (so_Namespace o') (so_Name o'))
     (\<lambda>env w. ((), put_finalizers o' (f (om_Finalizers (so_meta o'))) w))"

definition addFinalizer :: "service_offer \<Rightarrow> string \<Rightarrow> unit step" where
  "addFinalizer o' fin = update_finalizers o' (\<lambda>fs. fs @ [fin])"

definition removeFinalizer :: "service_offer \<Rightarrow> string \<Rightarrow> unit step" where
  "removeFinalizer o' fin = update_finalizers o' (filter (\<lambda>x. x \<noteq> fin))"

definition reconcileStaticSite :: "service_offer option \<Rightarrow> unit step" where
  "reconcileStaticSite override = api RebuildSite (\<lambda>env w. ((), w\<lparr>ow_sites := ow_sites w @ [override]\<rparr>))"

subsection \<open>Publication\<close>

abbreviation "reconcile_after o' delay \<equiv> world_step (add_offer_after (offer_queue_key o') delay)"

text \<open>No route: the children are deleted and the two conditions carry the reason.\<close>

definition withheld :: "service_offer \<Rightarrow> string \<Rightarrow> string \<Rightarrow> offer_status \<Rightarrow> offer_status step" where
  "withheld o' reason msg s = ask (\<lambda>env.
     and_then (deleteRouteChildren o')
       (\<lambda>_. done_with (put_cond env ''RoutePublished'' ''False'' reason msg (put_cond env ''PaymentGateReady'' ''False'' reason msg
               (put_cond env ''Draining'' ''False'' ''Active'' ''Offer is active'' s)))))"

definition drain_ended :: "offer_env \<Rightarrow> service_offer \<Rightarrow> offer_status \<Rightarrow> offer_status" where
  "drain_ended env o' s =
     put_cond env ''RoutePublished'' ''False'' ''Drained'' ''Offer drained; route removed''
       (put_cond env ''PaymentGateReady'' ''False'' ''Drained'' ''Offer drained; payment gate removed''
         (put_cond env ''Draining'' ''False'' ''Drained'' (''Drain ended at '' @ rfc3339 (DrainEndsAt o') @ ''; route torn down'') s))"

definition drained :: "service_offer \<Rightarrow> offer_status \<Rightarrow> offer_status step" where
  "drained o' s = ask (\<lambda>env. and_then (deleteRouteChildren o') (\<lambda>_. done_with (drain_ended env o' s)))"

definition waiting_for_upstream :: "offer_env \<Rightarrow> offer_status \<Rightarrow> offer_status" where
  "waiting_for_upstream env s =
     put_cond env ''RoutePublished'' ''False'' ''WaitingForPaymentGate'' ''Waiting for payment gate before publishing route''
       (put_cond env ''PaymentGateReady'' ''False'' ''WaitingForUpstream'' ''Waiting for upstream health before publishing payment gate'' s)"

definition gate_and_route :: "service_offer \<Rightarrow> offer_status \<Rightarrow> offer_status step" where
  "gate_and_route o' s = and_then (reconcilePaymentGate o' s)
     (\<lambda>s'. if isConditionTrue s' ''PaymentGateReady'' then reconcileRoute o' s' else done_with s')"

definition published_if_healthy :: "service_offer \<Rightarrow> bool \<Rightarrow> offer_status \<Rightarrow> offer_status step" where
  "published_if_healthy o' healthy s = ask (\<lambda>env.
     if healthy \<and> isConditionTrue s ''ModelReady'' then gate_and_route o' s else done_with (waiting_for_upstream env s))"

definition draining :: "service_offer \<Rightarrow> bool \<Rightarrow> offer_status \<Rightarrow> offer_status step" where
  "draining o' healthy s = ask (\<lambda>env.
     and_then (published_if_healthy o' healthy s)
       (\<lambda>s'. and_then (reconcile_after o' (let delay = DrainEndsAt o' - oe_now env + second in if delay > 0 then delay else 0))
          (\<lambda>_. done_with (put_cond env ''Draining'' ''True'' ''Draining'' (''Drain ends at '' @ rfc3339 (DrainEndsAt o')) s'))))"

definition retried :: "service_offer \<Rightarrow> offer_status step \<Rightarrow> offer_status step" where
  "retried o' m = and_then m (\<lambda>s. and_then (reconcile_after o' (30 * second)) (\<lambda>_. done_with s))"

definition set_a_different :: "string \<Rightarrow> string" where
  "set_a_different field = '' '' @ [CHR 0xE2, CHR 0x80, CHR 0x94] @ '' set a different '' @ field"

definition route_stage :: "service_offer \<Rightarrow> bool \<Rightarrow> offer_status \<Rightarrow> offer_status step" where
  "route_stage o' healthy s = ask (\<lambda>env.
     (let root = ReservedPathConflict (EffectivePath o'); rr = reservedRouteConflict o';
          by_host = findHostnameConflict o' (oe_store env); by_path = pickPathConflict o' (oe_store env)
      in if root \<noteq> [] then
           withheld o' ''ReservedPath'' (''path '' @ EffectivePath o' @ '' collides with the reserved platform path '' @ root @
             set_a_different ''spec.path'') s
         else if snd rr \<noteq> [] then
           withheld o' ''ReservedPath'' (''route path '' @ fst rr @ '' collides with the reserved platform path '' @ snd rr @
             set_a_different ''spec.routes[].path'') s
         else if by_host \<noteq> [] then
           retried o' (withheld o' ''HostnameConflict'' (''hostname '' @ os_Hostname (so_spec o') @ '' is already claimed by older offer '' @
             by_host @ set_a_different ''spec.hostname'') s)
         else if by_path \<noteq> [] then
           retried o' (withheld o' ''PathConflict'' (''path '' @ EffectivePath o' @ '' is already claimed by older offer '' @
             by_path @ set_a_different ''spec.path'') s)
         else if IsDraining o' then (if DrainExpired o' (oe_now env) then drained o' s else draining o' healthy s)
         else published_if_healthy o' healthy (put_cond env ''Draining'' ''False'' ''Active'' ''Offer is active'' s)))"

subsection \<open>The reconciliation of an offer\<close>

definition offer_ready :: "offer_status \<Rightarrow> bool" where
  "offer_ready s \<longleftrightarrow> isConditionTrue s ''ModelReady'' \<and> isConditionTrue s ''UpstreamHealthy'' \<and> isConditionTrue s ''PaymentGateReady'' \<and>
     isConditionTrue s ''RoutePublished'' \<and> isConditionTrue s ''Registered''"

definition with_ready :: "offer_env \<Rightarrow> offer_status \<Rightarrow> offer_status" where
  "with_ready env s =
     (if offer_ready s then put_cond env ''Ready'' ''True'' ''Reconciled'' ''Offer reconciled successfully'' s
      else put_cond env ''Ready'' ''False'' ''Reconciling'' ''Offer is not fully reconciled yet'' s)"

definition registration_keys :: "offer_env \<Rightarrow> service_offer \<Rightarrow> offer_world \<Rightarrow> offer_world" where
  "registration_keys env o' w =
     (if \<not> rg_Enabled (os_Registration (so_spec o')) then w
      else
        (let w' = enqueueAgentIdentityKey w
         in case registrationOwnerForIdentity env of
              None \<Rightarrow> w'
            | Some owner \<Rightarrow> w'\<lparr>ow_registrationQueue := ow_registrationQueue w' @
                [so_Namespace owner @ ''/'' @ registrationRequestName (oe_md5 env) (so_Name owner)]\<rparr>))"

text \<open>The conditions of a pass over an offer whose agent, if any, is resolved; \<open>raw\<close> is the offer as it was read.\<close>

definition live_status :: "service_offer \<Rightarrow> offer_status \<Rightarrow> offer_status step" where
  "live_status o' s = ask (\<lambda>env.
     and_then (reconcileUpstream o' (reconcileModel env o' s))
       (\<lambda>(healthy, s1). and_then (route_stage o' healthy s1)
          (\<lambda>s2. and_then (reconcileRegistrationStatus o' s2) (\<lambda>s3. done_with (with_ready env s3)))))"

definition live_pass :: "service_offer \<Rightarrow> service_offer \<Rightarrow> offer_status \<Rightarrow> unit step" where
  "live_pass raw o' s = ask (\<lambda>env.
     and_then (live_status o' s)
       (\<lambda>s'. and_then (updateOfferStatus raw s')
          (\<lambda>_. and_then (world_step (registration_keys env o'))
             (\<lambda>_. and_then (if offer_ready s' then done_with () else reconcile_after o' (5 * second))
                (\<lambda>_. reconcileStaticSite None)))))"

definition waiting_for_agent :: "offer_env \<Rightarrow> string \<Rightarrow> offer_status \<Rightarrow> offer_status" where
  "waiting_for_agent env t s = put_cond env t ''False'' ''WaitingForAgent'' ''Referenced Agent is not yet Ready'' s"

definition agent_pass :: "service_offer \<Rightarrow> service_offer \<Rightarrow> offer_status \<Rightarrow> unit step" where
  "agent_pass raw o' s = ask (\<lambda>env.
     (let s1 = waiting_for_agent env ''UpstreamHealthy'' (waiting_for_agent env ''ModelReady'' s)
      in and_then (if DrainExpired o' (oe_now env) then drained o' s1
                   else done_with (waiting_for_agent env ''RoutePublished'' (waiting_for_agent env ''PaymentGateReady'' s1)))
           (\<lambda>s2. updateOfferStatus raw (waiting_for_agent env ''Ready'' s2))))"

definition observed_status :: "service_offer \<Rightarrow> offer_status" where
  "observed_status o' = (so_status o')\<lparr>st_ObservedGeneration := om_Generation (so_meta o'), st_Endpoint := EffectivePath o'\<rparr>"

definition reconcile_live :: "service_offer \<Rightarrow> unit step" where
  "reconcile_live o' =
     (if IsAgent o' then
        and_then (resolveAgentOffer o' (observed_status o'))
          (\<lambda>(ready, o1, s). if ready then live_pass o' o1 s else agent_pass o' o1 s)
      else live_pass o' o' (clearNonAgentResolution o' (observed_status o')))"

definition reconcile_deleted :: "service_offer \<Rightarrow> unit step" where
  "reconcile_deleted o' =
     (if serviceOfferFinalizer \<notin> set (om_Finalizers (so_meta o')) then done_with ()
      else and_then (reconcileDeletingOffer o')
        (\<lambda>_. and_then (reconcileStaticSite (Some o')) (\<lambda>_. removeFinalizer o' serviceOfferFinalizer)))"

definition reconcile_read :: "service_offer \<Rightarrow> unit step" where
  "reconcile_read o' =
     (if so_Deleting o' then reconcile_deleted o'
      else if serviceOfferFinalizer \<notin> set (om_Finalizers (so_meta o')) then addFinalizer o' serviceOfferFinalizer
      else reconcile_live o')"

text \<open>\<open>cache.SplitMetaNamespaceKey\<close>\<close>

definition split_key :: "(string \<Rightarrow> string) \<Rightarrow> string \<Rightarrow> string + string \<times> string" where
  "split_key quote key =
     (case split_on CHR ''/'' key of
        [name] \<Rightarrow> Inr ([], name)
      | [ns, name] \<Rightarrow> Inr (ns, name)
      | _ \<Rightarrow> Inl (''unexpected key format: '' @ quote key))"

definition reconcileOffer :: "string \<Rightarrow> unit step" where
  "reconcileOffer key = ask (\<lambda>env.
     (case split_key (oe_quote env) key of
        Inl e \<Rightarrow> fail_with e
      | Inr (ns, name) \<Rightarrow>
          and_then (api (GetOffer ns name) (\<lambda>env w. (map_of (ow_offers w) (ns, name), w)))
            (\<lambda>found. case found of None \<Rightarrow> done_with () | Some o' \<Rightarrow> reconcile_read o')))"

end
