(* ===== verification/Erc8004.thy ===== *)
theory Erc8004 imports GoStrings begin

text \<open>
  The on-chain registry of agents: \<open>internal/erc8004\<close>.  Networks, the registration document and the recovery of a
  registration from the registry's events.  The chain behind go-ethereum's client is a parameter (\<open>chain_client\<close>): its
  answers to event filters, receipts, the block height and \<open>ownerOf\<close>, and the decoding of ABI values, hashes and addresses.
\<close>

subsection \<open>Networks\<close>

record network_config =
  nc_Name :: string
  nc_ChainID :: int
  nc_RegistryAddress :: string
  nc_ERPCNetwork :: string

definition CAIP10Registry :: "network_config \<Rightarrow> string" where
  "CAIP10Registry n = ''eip155:'' @ show_int (nc_ChainID n) @ '':'' @ nc_RegistryAddress n"

definition IdentityRegistryBaseSepolia :: string where
  "IdentityRegistryBaseSepolia = ''0x8004A818BFB912233c491871b3d84c89A494BD9e''"

definition IdentityRegistryMainnet :: string where
  "IdentityRegistryMainnet = ''0x8004A169FB4a3325136EB29fA0ceB6D2e539a432''"

definition BaseSepolia :: network_config where
  "BaseSepolia = \<lparr>nc_Name = ''base-sepolia'', nc_ChainID = 84532, nc_RegistryAddress = IdentityRegistryBaseSepolia, nc_ERPCNetwork = ''base-sepolia''\<rparr>"

definition Base :: network_config where
  "Base = \<lparr>nc_Name = ''base'', nc_ChainID = 8453, nc_RegistryAddress = IdentityRegistryMainnet, nc_ERPCNetwork = ''base''\<rparr>"

definition Ethereum :: network_config where
  "Ethereum = \<lparr>nc_Name = ''ethereum'', nc_ChainID = 1, nc_RegistryAddress = IdentityRegistryMainnet, nc_ERPCNetwork = ''mainnet''\<rparr>"

definition allNetworks :: "network_config list" where
  "allNetworks = [BaseSepolia, Base, Ethereum]"

definition ResolveNetwork :: "(string \<Rightarrow> string) \<Rightarrow> string \<Rightarrow> string + network_config" where
  "ResolveNetwork quote name =
     (let n = to_lower (trim_space name)
      in if n = ''base-sepolia'' then Inr BaseSepolia
         else if n = ''base'' \<or> n = ''base-mainnet'' then Inr Base
         else if n = ''ethereum'' \<or> n = ''ethereum-mainnet'' \<or> n = ''mainnet'' then Inr Ethereum
         else Inl (''unsupported registration network: '' @ quote name @ '' (supported: base-sepolia, base, ethereum)''))"

text \<open>The loop of \<open>ResolveNetworks\<close> over the parts of the list, with the names seen.\<close>

fun resolve_parts :: "(string \<Rightarrow> string) \<Rightarrow> string list \<Rightarrow> string list \<Rightarrow> string + network_config list" where
  "resolve_parts quote seen [] = Inr []"
| "resolve_parts quote seen (part # parts) =
     (let name = trim_space part
      in if name = [] then resolve_parts quote seen parts
         else (case ResolveNetwork quote name of
                 Inl e \<Rightarrow> Inl e
               | Inr net \<Rightarrow>
                   if nc_Name net \<in> set seen then resolve_parts quote seen parts
                   else (case resolve_parts quote (nc_Name net # seen) parts of Inl e \<Rightarrow> Inl e | Inr nets \<Rightarrow> Inr (net # nets))))"

definition ResolveNetworks :: "(string \<Rightarrow> string) \<Rightarrow> string \<Rightarrow> string + network_config list" where
  "ResolveNetworks quote csv =
     (case resolve_parts quote [] (split_on CHR '','' csv) of
        Inl e \<Rightarrow> Inl e
      | Inr nets \<Rightarrow> if nets = [] then Inl ''no valid networks specified'' else Inr nets)"

definition SupportedNetworks :: "network_config list" where
  "SupportedNetworks = allNetworks"

subsection \<open>The registration document\<close>

definition RegistrationType :: string where
  "RegistrationType = ''https://eips.ethereum.org/EIPS/eip-8004#registration-v1''"

record service_def =
  sd_Name :: string
  sd_Endpoint :: string
  sd_Version :: string
  sd_Skills :: "string list"
  sd_Domains :: "string list"
  sd_Available :: "bool option"
  sd_DrainEndsAt :: string

record on_chain_reg =
  oc_AgentID :: int
  oc_AgentRegistry :: string

record agent_registration =
  ar_Type :: string
  ar_Name :: string
  ar_Description :: string
  ar_Image :: string
  ar_Services :: "service_def list"
  ar_X402Support :: bool
  ar_Active :: bool
  ar_Registrations :: "on_chain_reg list"
  ar_SupportedTrust :: "string list"
  ar_Metadata :: "(string, string) gomap"
  ar_Provenance :: "(string, string) gomap"

subsection \<open>The registry's events\<close>

record eth_log =
  el_Topics :: "string list"
  el_Data :: string
  el_TxHash :: string

record eth_receipt =
  rc_Status :: int
  rc_Logs :: "eth_log list"

datatype receipt_answer = ReceiptMissing | ReceiptFailed string | ReceiptFound eth_receipt

record chain_client =
  cc_eventID :: string
  cc_unpack :: "string \<Rightarrow> string + string"
  cc_bigint :: "string \<Rightarrow> int"
  cc_bytesToAddress :: "string \<Rightarrow> string"
  cc_hexToAddress :: "string \<Rightarrow> string"
  cc_addressHex :: "string \<Rightarrow> string"
  cc_hexToHash :: "string \<Rightarrow> string"
  cc_hashHex :: "string \<Rightarrow> string"
  cc_filterLogs :: "string \<Rightarrow> int \<Rightarrow> string + eth_log list"
  cc_receipt :: "string \<Rightarrow> receipt_answer"
  cc_ownerOf :: "int \<Rightarrow> string + string"
  cc_blockNumber :: "string + int"

definition zero_hash :: string where
  "zero_hash = replicate 32 CHR 0x00"

record registered =
  rd_AgentID :: int
  rd_URI :: string
  rd_Owner :: string

definition parseRegisteredLog :: "chain_client \<Rightarrow> eth_log \<Rightarrow> string + registered" where
  "parseRegisteredLog c l =
     (case el_Topics l of
        t0 # t1 # t2 # ts \<Rightarrow>
          if t0 \<noteq> cc_eventID c then Inl ''erc8004: not a Registered log''
          else (case cc_unpack c (el_Data l) of
                  Inl e \<Rightarrow> Inl e
                | Inr uri \<Rightarrow> Inr \<lparr>rd_AgentID = cc_bigint c t1, rd_URI = uri, rd_Owner = cc_bytesToAddress c t2\<rparr>)
      | _ \<Rightarrow> Inl ''erc8004: not a Registered log'')"

fun first_registered :: "chain_client \<Rightarrow> eth_log list \<Rightarrow> registered option" where
  "first_registered c [] = None"
| "first_registered c (l # ls) = (case parseRegisteredLog c l of Inr r \<Rightarrow> Some r | Inl e \<Rightarrow> first_registered c ls)"

definition parseRegisteredEvent :: "chain_client \<Rightarrow> eth_receipt \<Rightarrow> string \<Rightarrow> string + int \<times> string" where
  "parseRegisteredEvent c r hash =
     (case first_registered c (rc_Logs r) of
        Some reg \<Rightarrow> Inr (rd_AgentID reg, hash)
      | None \<Rightarrow> Inl (''erc8004: Registered event not found in receipt (tx: '' @ hash @ '')''))"

definition checkReceiptStatus :: "string \<Rightarrow> eth_receipt \<Rightarrow> string \<Rightarrow> string option" where
  "checkReceiptStatus method r hash =
     (if rc_Status r \<noteq> 1
      then Some (''erc8004: '' @ method @ '' tx '' @ hash @ '' reverted on-chain (receipt status '' @ show_int (rc_Status r) @ '')'')
      else None)"

datatype find_error =
    ChainError string
  | OwnerMismatch string "(int \<times> string \<times> string) list"

definition mismatch_text :: "(string \<Rightarrow> string) \<Rightarrow> string \<Rightarrow> (int \<times> string \<times> string) list \<Rightarrow> string" where
  "mismatch_text hex owner cands =
     ''erc8004: matching Registered event(s) found but no longer owned by '' @ hex owner @ '' ('' @
     join_with '', '' (map (\<lambda>(i, tx, cur). ''agent '' @ show_int i @ '' owned by '' @ hex cur) cands) @ '')''"

text \<open>An answer: an error, nothing, or the agent's id and the hash of its transaction.\<close>

type_synonym found_agent = "find_error + (int \<times> string) option"

definition FindRegistrationByTxHash :: "chain_client \<Rightarrow> string \<Rightarrow> found_agent" where
  "FindRegistrationByTxHash c txHash =
     (let hash = cc_hexToHash c (trim_space txHash)
      in if hash = zero_hash then Inr None
         else (case cc_receipt c hash of
                 ReceiptMissing \<Rightarrow> Inr None
               | ReceiptFailed e \<Rightarrow> Inl (ChainError (''erc8004: transaction receipt '' @ txHash @ '': '' @ e))
               | ReceiptFound r \<Rightarrow>
                   (case checkReceiptStatus ''register'' r (cc_hashHex c hash) of
                      Some e \<Rightarrow> Inl (ChainError e)
                    | None \<Rightarrow> (case parseRegisteredEvent c r (cc_hashHex c hash) of Inl e \<Rightarrow> Inl (ChainError e) | Inr x \<Rightarrow> Inr (Some x)))))"

text \<open>The loop over the logs, newest first, with the candidates that others own now.\<close>

fun scan_logs :: "chain_client \<Rightarrow> string \<Rightarrow> string \<Rightarrow> eth_log list \<Rightarrow> (int \<times> string \<times> string) list \<Rightarrow> found_agent" where
  "scan_logs c owner want [] cands = (if cands = [] then Inr None else Inl (OwnerMismatch owner cands))"
| "scan_logs c owner want (l # ls) cands =
     (case parseRegisteredLog c l of
        Inl e \<Rightarrow> scan_logs c owner want ls cands
      | Inr r \<Rightarrow>
          if rd_Owner r \<noteq> owner \<or> trim_space (rd_URI r) \<noteq> want then scan_logs c owner want ls cands
          else (case cc_ownerOf c (rd_AgentID r) of
                  Inl e \<Rightarrow> Inl (ChainError e)
                | Inr cur \<Rightarrow>
                    if cur \<noteq> owner then scan_logs c owner want ls (cands @ [(rd_AgentID r, el_TxHash l, cur)])
                    else Inr (Some (rd_AgentID r, el_TxHash l))))"

definition FindRegistrationByOwnerAndURI :: "chain_client \<Rightarrow> string \<Rightarrow> string \<Rightarrow> int \<Rightarrow> found_agent" where
  "FindRegistrationByOwnerAndURI c owner agentURI fromBlock =
     (case cc_filterLogs c owner fromBlock of
        Inl e \<Rightarrow> Inl (ChainError (''erc8004: filter logs: '' @ e))
      | Inr logs \<Rightarrow> scan_logs c owner (trim_space agentURI) (rev logs) [])"

subsection \<open>What a recovery found\<close>

text \<open>An event by which \<open>owner\<close> registered the document \<open>want\<close> under an agent id that it still holds.\<close>

definition live_event :: "chain_client \<Rightarrow> string \<Rightarrow> string \<Rightarrow> eth_log \<Rightarrow> bool" where
  "live_event c owner want l =
     (case parseRegisteredLog c l of Inl e \<Rightarrow> False
      | Inr r \<Rightarrow> rd_Owner r = owner \<and> trim_space (rd_URI r) = want \<and> cc_ownerOf c (rd_AgentID r) = Inr owner)"

lemma scan_first:
  assumes "scan_logs c owner want ls cands = Inr (Some (i, tx))"
  shows "\<exists>l r. find (live_event c owner want) ls = Some l \<and> parseRegisteredLog c l = Inr r \<and> i = rd_AgentID r \<and> tx = el_TxHash l"
  using assms
proof (induction ls arbitrary: cands)
  case (Cons l ls)
  show ?case
  proof (cases "live_event c owner want l")
    case True
    with Cons.prems show ?thesis by (auto simp: live_event_def split: sum.splits)
  next
    case False
    with Cons.prems obtain cands' where "scan_logs c owner want ls cands' = Inr (Some (i, tx))"
      by (auto simp: live_event_def split: sum.splits if_splits)
    with False show ?thesis using Cons.IH by simp
  qed
qed (auto split: if_splits)

end
