(* ===== verification/Registrations.thy ===== *)
theory Registrations imports OfferReconcile Erc8004 begin

text \<open>
  The agent's registration document and the reconcilers of registration requests and of the identity:
  \<open>identity_render.go\<close>, \<open>identity_controller.go\<close> and the registration half of \<open>controller.go\<close> in
  \<open>internal/serviceoffercontroller\<close>.  The steps are those of \<open>OfferReconcile\<close>; \<open>reg_env\<close> adds the configured URLs, the
  connection to a chain, \<open>json.MarshalIndent\<close> of the document and the identity's metadata.
\<close>

subsection \<open>Words\<close>

definition trim_right_slashes :: "string \<Rightarrow> string" where
  "trim_right_slashes s = rev (dropWhile (\<lambda>c. c = CHR ''/'') (rev s))"

fun firstNonEmpty :: "string list \<Rightarrow> string" where
  "firstNonEmpty [] = []"
| "firstNonEmpty (v # vs) = (if trim_space v \<noteq> [] then trim_space v else firstNonEmpty vs)"

definition truncateMessage :: "string \<Rightarrow> string" where
  "truncateMessage m = take 200 (trim_space m)"

definition awaitingExternalRegistrationMessage :: "string \<Rightarrow> string" where
  "awaitingExternalRegistrationMessage chain0 =
     (let chain = trim_space chain0;
          cmd = ''obol sell register'' @ (if chain \<noteq> [] then '' --network '' @ chain else [])
      in truncateMessage (''Awaiting external ERC-8004 registration tx '' @ [CHR 0xE2, CHR 0x80, CHR 0x94] @ '' submit with '' @ [CHR 0x60] @ cmd @
           [CHR 0x60] @ ''; offer already serves paid traffic''))"

text \<open>\<open>strconv.ParseInt(strings.TrimSpace(v), 10, 64)\<close> without its error: the nearest number when out of range.\<close>

definition digits_or_zero :: "int \<Rightarrow> string \<Rightarrow> int" where
  "digits_or_zero s ds = (if ds = [] then 0 else case digits_val 0 ds of None \<Rightarrow> 0
     | Some n \<Rightarrow> if s * n > max_int64 then max_int64 else if s * n < min_int64 then min_int64 else s * n)"

definition parseInt64 :: "string \<Rightarrow> int" where
  "parseInt64 value =
     (case trim_space value of
        [] \<Rightarrow> 0
      | c # cs \<Rightarrow> if c = CHR ''-'' then digits_or_zero (- 1) cs else if c = CHR ''+'' then digits_or_zero 1 cs else digits_or_zero 1 (c # cs))"

definition nonEmptyStringMap :: "(string, string) gomap \<Rightarrow> (string, string) gomap" where
  "nonEmptyStringMap values =
     foldl (\<lambda>m (k, v). if trim_space k = [] \<or> trim_space v = [] then m else AList.update (trim_space k) (trim_space v) m) [] values"

subsection \<open>The registration document\<close>

definition offerPublishedForRegistration :: "nsec \<Rightarrow> service_offer \<Rightarrow> bool" where
  "offerPublishedForRegistration now o' \<longleftrightarrow> \<not> so_Deleting o' \<and> rg_Enabled (os_Registration (so_spec o')) \<and> \<not> DrainExpired o' now \<and>
     isConditionTrue (so_status o') ''ModelReady'' \<and> isConditionTrue (so_status o') ''UpstreamHealthy'' \<and>
     isConditionTrue (so_status o') ''PaymentGateReady'' \<and> isConditionTrue (so_status o') ''RoutePublished''"

definition by_key :: "service_offer \<Rightarrow> service_offer \<Rightarrow> bool" where
  "by_key a b = (if so_Namespace a = so_Namespace b then str_less (so_Name a) (so_Name b) else str_less (so_Namespace a) (so_Namespace b))"

definition filterPublishedOffers :: "nsec \<Rightarrow> service_offer list \<Rightarrow> service_offer list" where
  "filterPublishedOffers now offers = sort_by by_key (filter (offerPublishedForRegistration now) offers)"

definition serviceDefWithDrain :: "nsec \<Rightarrow> service_offer \<Rightarrow> service_def \<Rightarrow> service_def" where
  "serviceDefWithDrain now o' svc =
     (if \<not> IsDraining o' \<or> DrainExpired o' now then svc else svc\<lparr>sd_DrainEndsAt := rfc3339 (DrainEndsAt o')\<rparr>)"

definition service_entry :: "string \<Rightarrow> string \<Rightarrow> string \<Rightarrow> service_def" where
  "service_entry name endpoint version =
     \<lparr>sd_Name = name, sd_Endpoint = endpoint, sd_Version = version, sd_Skills = [], sd_Domains = [], sd_Available = None, sd_DrainEndsAt = []\<rparr>"

definition offer_services :: "nsec \<Rightarrow> string \<Rightarrow> service_offer \<Rightarrow> service_def list" where
  "offer_services now baseURL o' =
     (let reg = os_Registration (so_spec o') in
      [serviceDefWithDrain now o' (service_entry ''web'' (baseURL @ EffectivePath o') [])] @
      (if rg_Skills reg \<noteq> [] \<or> rg_Domains reg \<noteq> []
       then [(service_entry ''OASF'' [] ''0.8'')\<lparr>sd_Skills := rg_Skills reg, sd_Domains := rg_Domains reg\<rparr>] else []) @
      map (\<lambda>svc. serviceDefWithDrain now o' (service_entry (sv_Name svc) (sv_Endpoint svc) (sv_Version svc))) (rg_Services reg))"

definition buildIdentityRegistrationServices :: "nsec \<Rightarrow> service_offer list \<Rightarrow> string \<Rightarrow> service_def list" where
  "buildIdentityRegistrationServices now offers baseURL = concat (map (offer_services now (trim_right_slashes baseURL)) offers)"

fun resolved_regs :: "identity_status \<Rightarrow> on_chain_reg list" where
  "resolved_regs [] = []"
| "resolved_regs (r # rs) =
     (case ResolveNetwork (\<lambda>s. s) (ir_Chain r) of
        Inl e \<Rightarrow> resolved_regs rs
      | Inr net \<Rightarrow> \<lparr>oc_AgentID = parseInt64 (ir_AgentID r), oc_AgentRegistry = CAIP10Registry net\<rparr> # resolved_regs rs)"

definition buildIdentityOnChainRegistrations :: "identity_status \<Rightarrow> on_chain_reg list" where
  "buildIdentityOnChainRegistrations status =
     resolved_regs (sort_by (\<lambda>a b. str_less (ir_Chain a) (ir_Chain b))
       (filter (\<lambda>r. trim_space (ir_Chain r) \<noteq> [] \<and> trim_space (ir_AgentID r) \<noteq> []) status))"

definition fallbackOfferType :: "service_offer \<Rightarrow> string" where
  "fallbackOfferType o' = (if os_Type (so_spec o') \<noteq> [] then os_Type (so_spec o') else ''http'')"

definition default_description :: "service_offer \<Rightarrow> string" where
  "default_description o' =
     (if IsInference o' \<and> ml_Name (os_Model (so_spec o')) \<noteq> [] then ml_Name (os_Model (so_spec o')) @ '' inference via x402 micropayments''
      else ''x402 payment-gated '' @ fallbackOfferType o' @ '' service: '' @ so_Name o')"

definition identityDocumentMetadata :: "identity_meta \<Rightarrow> service_offer list \<Rightarrow> string \<Rightarrow> string \<times> string \<times> string" where
  "identityDocumentMetadata im offers baseURL =
     (case selectRegistrationOwner offers of
        None \<Rightarrow>
          (let name = (if trim_space (im_Name im) = [] then AgentIdentityDefaultName else im_Name im)
           in (name, ''ERC-8004 agent identity '' @ im_Namespace im @ ''/'' @ name, baseURL @ ''/agent-icon.png''))
      | Some owner \<Rightarrow>
          (let reg = os_Registration (so_spec owner)
           in (default_string (rg_Name reg) (so_Name owner),
               if rg_Description reg = [] then default_description owner else rg_Description reg,
               if rg_Image reg = [] then baseURL @ ''/agent-icon.png'' else rg_Image reg)))"

definition BuildIdentityRegistrationDocument ::
  "nsec \<Rightarrow> identity_meta \<Rightarrow> identity_status \<Rightarrow> service_offer list \<Rightarrow> string \<Rightarrow> agent_registration" where
  "BuildIdentityRegistrationDocument now im status offers baseURL0 =
     (let baseURL = trim_right_slashes baseURL0; publishable = filterPublishedOffers now offers; active = (publishable \<noteq> []);
          (name, description, image) = identityDocumentMetadata im publishable baseURL;
          doc = \<lparr>ar_Type = RegistrationType, ar_Name = name, ar_Description = description, ar_Image = image,
                 ar_Services = buildIdentityRegistrationServices now publishable baseURL, ar_X402Support = active, ar_Active = active,
                 ar_Registrations = buildIdentityOnChainRegistrations status, ar_SupportedTrust = [], ar_Metadata = [], ar_Provenance = []\<rparr>
      in (case selectRegistrationOwner publishable of
            None \<Rightarrow> doc\<lparr>ar_Description := ''Agent '' @ name @ '' (deactivated)'', ar_Services := []\<rparr>
          | Some owner \<Rightarrow>
              doc\<lparr>ar_SupportedTrust := rg_SupportedTrust (os_Registration (so_spec owner)),
                  ar_Metadata := nonEmptyStringMap (rg_Metadata (os_Registration (so_spec owner))),
                  ar_Provenance := nonEmptyStringMap (os_Provenance (so_spec owner))\<rparr>))"

subsection \<open>The environment of registrations\<close>

record reg_env =
  re_baseURLOverride :: string
  re_defaultBaseURL :: string
  re_marshal :: "agent_registration \<Rightarrow> string"
  re_connect :: "network_config \<Rightarrow> string + chain_client"
  re_identity :: identity_meta

definition read_url :: "goany \<Rightarrow> string \<Rightarrow> string" where
  "read_url cm key = (case as_string (Option.bind (nested cm ''data'') (\<lambda>d. nested d key)) of None \<Rightarrow> []
     | Some v \<Rightarrow> trim_right_slashes (trim_space v))"

definition stackConfigURLs :: "(string \<times> string) step" where
  "stackConfigURLs = and_then (get_object ConfigMap ''obol-frontend'' ''obol-stack-config'')
     (\<lambda>found. done_with (case found of None \<Rightarrow> ([], []) | Some cm \<Rightarrow> (read_url cm ''tunnelURL'', read_url cm ''localURL'')))"

definition registrationBaseURL :: "reg_env \<Rightarrow> string step" where
  "registrationBaseURL re =
     (if re_baseURLOverride re \<noteq> [] then done_with (re_baseURLOverride re)
      else and_then stackConfigURLs
        (\<lambda>(tunnel, local). done_with (if tunnel \<noteq> [] then tunnel else if local \<noteq> [] then local else re_defaultBaseURL re)))"

definition contentHash_of :: "(string \<Rightarrow> string) \<Rightarrow> string \<Rightarrow> string" where
  "contentHash_of md5hex data = take 16 (md5hex data)"

definition applyIdentityChildObject :: "obj_kind \<Rightarrow> string \<Rightarrow> string \<Rightarrow> goany \<Rightarrow> unit step" where
  "applyIdentityChildObject k ns n obj = and_then (get_object k ns n)
     (\<lambda>found. case found of
        None \<Rightarrow> api (CreateObj k ns n) (\<lambda>env w. ((), w\<lparr>ow_objects := AList.update (k, ns, n) (oe_merge env None obj) (ow_objects w)\<rparr>))
      | Some cur \<Rightarrow> applyObject k ns n obj)"

definition publishAgentIdentityRegistrationResources :: "reg_env \<Rightarrow> string \<Rightarrow> unit step" where
  "publishAgentIdentityRegistrationResources re documentJSON = ask (\<lambda>env.
     let im = re_identity re; h = oe_md5 env; ns = im_Namespace im; name = agentIdentityRegistrationName h im
     in and_then (applyIdentityChildObject ConfigMap ns name (buildAgentIdentityRegistrationConfigMap h im documentJSON))
          (\<lambda>_. and_then (applyIdentityChildObject Deployment ns name
                 (buildAgentIdentityRegistrationDeployment h im (contentHash_of h documentJSON)))
             (\<lambda>_. and_then (applyIdentityChildObject Service ns name (buildAgentIdentityRegistrationService h im))
                (\<lambda>_. applyIdentityChildObject Route ns (agentIdentityRouteName h im) (buildAgentIdentityRegistrationHTTPRoute h im)))))"

text \<open>The document of an identity with some offers, published at a base URL.\<close>

definition publish_document :: "reg_env \<Rightarrow> identity_status \<Rightarrow> service_offer list \<Rightarrow> string \<Rightarrow> unit step" where
  "publish_document re status offers baseURL = ask (\<lambda>env.
     publishAgentIdentityRegistrationResources re
       (re_marshal re (BuildIdentityRegistrationDocument (oe_now env) (re_identity re) status offers baseURL)))"

subsection \<open>Published resources\<close>

text \<open>The checks of \<open>identityRegistrationResourcesReady\<close> in their order; \<open>None\<close> when all pass.\<close>

definition present_or :: "obj_kind \<Rightarrow> string \<Rightarrow> string \<Rightarrow> string \<Rightarrow> (goany \<Rightarrow> string option step) \<Rightarrow> string option step" where
  "present_or k ns n msg rest = and_then (get_object k ns n) (\<lambda>found. case found of None \<Rightarrow> done_with (Some msg) | Some obj \<Rightarrow> rest obj)"

definition identityRegistrationResourcesReady :: "reg_env \<Rightarrow> string option step" where
  "identityRegistrationResourcesReady re = ask (\<lambda>env.
     let im = re_identity re; h = oe_md5 env; ns = im_Namespace im; name = agentIdentityRegistrationName h im
     in present_or ConfigMap ns name ''Waiting for AgentIdentity registration ConfigMap''
          (\<lambda>_. present_or Deployment ns name ''Waiting for AgentIdentity registration Deployment''
             (\<lambda>d. case available_replicas d of
                None \<Rightarrow> fail_with (oe_type_error env d)
              | Some n \<Rightarrow>
                  if n < 1 then done_with (Some ''Waiting for AgentIdentity registration Deployment availability'')
                  else present_or Service ns name ''Waiting for AgentIdentity registration Service''
                    (\<lambda>_. present_or Route ns (agentIdentityRouteName h im) ''Waiting for AgentIdentity registration HTTPRoute''
                       (\<lambda>r. done_with (if httpRouteAccepted r then None
                                        else Some ''Waiting for AgentIdentity registration HTTPRoute acceptance''))))))"

definition deleteRegistrationResources :: "registration_request \<Rightarrow> unit step" where
  "deleteRegistrationResources r = ask (\<lambda>env.
     let ns = om_Namespace (rr_meta r); name = registrationWorkloadName (om_Name (rr_meta r))
     in delete_all [(Route, ns, registrationRouteName (oe_md5 env) (rq_ServiceOfferName (rr_spec r))), (Service, ns, name),
                    (Deployment, ns, name), (ConfigMap, ns, name)])"

definition updateRegistrationStatus :: "registration_request \<Rightarrow> registration_request_status \<Rightarrow> unit step" where
  "updateRegistrationStatus r s =
     (if rr_status r = s then done_with ()
      else (let k = (om_Namespace (rr_meta r), om_Name (rr_meta r)) in
        api (UpdateRequestStatus (fst k) (snd k))
          (\<lambda>env w. ((), case map_of (ow_requests w) k of None \<Rightarrow> w
             | Some cur \<Rightarrow> w\<lparr>ow_requests := AList.update k (cur\<lparr>rr_status := s\<rparr>) (ow_requests w)\<rparr>))))"

text \<open>The write compares with the identity that was read (\<open>cur\<close>).\<close>

definition updateAgentIdentityStatus :: "identity_status \<Rightarrow> identity_status \<Rightarrow> unit step" where
  "updateAgentIdentityStatus cur s = (if cur = s then done_with () else api UpdateIdentity (\<lambda>env w. ((), set_identity s w)))"

definition agentIdentityStatusFromRegistration :: "identity_status \<Rightarrow> string \<Rightarrow> string \<Rightarrow> identity_status" where
  "agentIdentityStatusFromRegistration status chain agentID =
     (if trim_space agentID \<noteq> [] then UpsertAgentIdentityRegistration status chain agentID else status)"

text \<open>\<open>mergeOfferOverride\<close>\<close>

definition mergeOfferOverride :: "service_offer list \<Rightarrow> service_offer option \<Rightarrow> service_offer list" where
  "mergeOfferOverride offers override =
     (case override of None \<Rightarrow> offers
      | Some o' \<Rightarrow> map (\<lambda>x. if same_owner x o' then o' else x) offers @ (if list_ex (\<lambda>x. same_owner x o') offers then [] else [o']))"

subsection \<open>Recovery of a registration\<close>

definition found_text :: "int \<times> string \<Rightarrow> string \<times> string" where
  "found_text f = (show_int (fst f), snd f)"

definition recoverRegistration :: "chain_client \<Rightarrow> registration_request_status \<Rightarrow> string + (string \<times> string) option" where
  "recoverRegistration c s =
     (if trim_space (rs_RegistrationTxHash s) \<noteq> [] then
        (case FindRegistrationByTxHash c (trim_space (rs_RegistrationTxHash s)) of
           Inl (ChainError e) \<Rightarrow> Inl e
         | Inl (OwnerMismatch owner cands) \<Rightarrow> Inl (mismatch_text (cc_addressHex c) owner cands)
         | Inr f \<Rightarrow> Inr (map_option found_text f))
      else if trim_space (rs_RegistrationOwner s) = [] \<or> trim_space (rs_RegistrationURI s) = [] \<or> rs_RegistrationSearchFromBlock s < 0
      then Inr None
      else (case FindRegistrationByOwnerAndURI c (cc_hexToAddress c (rs_RegistrationOwner s)) (rs_RegistrationURI s)
                   (rs_RegistrationSearchFromBlock s) of
              Inl (ChainError e) \<Rightarrow> Inl e
            | Inl (OwnerMismatch owner cands) \<Rightarrow> Inr None
            | Inr f \<Rightarrow> Inr (map_option found_text f)))"

definition published_url :: "string \<Rightarrow> string" where
  "published_url baseURL = trim_right_slashes baseURL @ ''/.well-known/agent-registration.json''"

definition awaiting :: "string \<Rightarrow> registration_request_status \<Rightarrow> registration_request_status" where
  "awaiting msg s = s\<lparr>rs_Phase := ''AwaitingExternalRegistration'', rs_Message := msg\<rparr>"

definition search_current :: "service_offer \<Rightarrow> registration_request_status \<Rightarrow> bool" where
  "search_current o' s \<longleftrightarrow> rs_RegistrationURI s = rs_PublishedURL s \<and>
     equal_fold (rs_RegistrationOwner s) (op_PayTo (os_Payment (so_spec o'))) \<and> rs_RegistrationSearchFromBlock s \<noteq> 0"

text \<open>A fresh search: the owner and document to look for, from 1024 blocks before the tip.\<close>

definition new_search :: "service_offer \<Rightarrow> string \<Rightarrow> int \<Rightarrow> registration_request_status \<Rightarrow> registration_request_status" where
  "new_search o' chain height s =
     (awaiting (awaitingExternalRegistrationMessage chain) s)
       \<lparr>rs_RegistrationOwner := op_PayTo (os_Payment (so_spec o')), rs_RegistrationURI := rs_PublishedURL s,
        rs_RegistrationSearchFromBlock := (if height - 1024 < 0 then 0 else height - 1024), rs_RegistrationTxHash := []\<rparr>"

text \<open>What the chain says about a request without a recorded agent: a status to store, an error to store and return, or the agent.\<close>

datatype chain_verdict =
    StoreStatus registration_request_status
  | StoreAndFail registration_request_status string
  | Recovered string string

definition recovered_or :: "chain_client \<Rightarrow> string \<Rightarrow> registration_request_status \<Rightarrow> chain_verdict" where
  "recovered_or c chain s =
     (case recoverRegistration c s of
        Inl e \<Rightarrow> StoreAndFail (awaiting (truncateMessage (''Recovering external registration state: '' @ e)) s) e
      | Inr None \<Rightarrow> StoreStatus (awaiting (awaitingExternalRegistrationMessage chain) s)
      | Inr (Some (agent, tx)) \<Rightarrow> Recovered agent tx)"

definition ask_chain :: "reg_env \<Rightarrow> offer_env \<Rightarrow> service_offer \<Rightarrow> string \<Rightarrow> registration_request_status \<Rightarrow> chain_verdict" where
  "ask_chain re env o' chain s =
     (case ResolveNetwork (oe_quote env) chain of
        Inl e \<Rightarrow> StoreStatus (awaiting (truncateMessage (''Unsupported registration chain '' @ oe_quote env chain @ '': '' @ e)) s)
      | Inr net \<Rightarrow>
          (case re_connect re net of
             Inl e \<Rightarrow> StoreStatus (awaiting (truncateMessage (''Waiting for ERC-8004 RPC connectivity on '' @ nc_Name net @ '': '' @ e)) s)
           | Inr c \<Rightarrow>
               if \<not> search_current o' s then
                 (case cc_blockNumber c of
                    Inl e \<Rightarrow> StoreStatus (awaiting (truncateMessage (''Preparing external registration recovery: '' @ e)) s)
                  | Inr height \<Rightarrow> StoreStatus (new_search o' chain height s))
               else recovered_or c chain s))"

subsection \<open>Reconciling a registration request\<close>

definition recorded :: "string \<Rightarrow> string \<Rightarrow> registration_request_status \<Rightarrow> registration_request_status" where
  "recorded agent tx s =
     (let s' = s\<lparr>rs_AgentID := agent, rs_RegistrationTxHash := tx, rs_RegistrationURI := firstNonEmpty [rs_RegistrationURI s, rs_PublishedURL s]\<rparr>
      in if agent = [] then s'
         else s'\<lparr>rs_Phase := ''Registered'', rs_Message := ''Published registration document and recorded agent '' @ agent\<rparr>)"

definition record_agent :: "registration_request \<Rightarrow> identity_status \<Rightarrow> identity_status \<Rightarrow> string \<Rightarrow> string \<Rightarrow> string \<Rightarrow>
    registration_request_status \<Rightarrow> unit step" where
  "record_agent r stored identity chain agent tx s =
     (if agent = [] then updateRegistrationStatus r (recorded agent tx s)
      else and_then (updateAgentIdentityStatus stored (agentIdentityStatusFromRegistration identity chain agent))
        (\<lambda>_. and_then (world_step enqueueAgentIdentityKey) (\<lambda>_. updateRegistrationStatus r (recorded agent tx s))))"

definition watch_chain :: "reg_env \<Rightarrow> registration_request \<Rightarrow> service_offer \<Rightarrow> identity_status \<Rightarrow> identity_status \<Rightarrow> string \<Rightarrow>
    registration_request_status \<Rightarrow> unit step" where
  "watch_chain re r o' stored identity chain s = ask (\<lambda>env.
     case ask_chain re env o' chain s of
       StoreStatus s' \<Rightarrow> updateRegistrationStatus r s'
     | StoreAndFail s' e \<Rightarrow> and_then (updateRegistrationStatus r s') (\<lambda>_. fail_with e)
     | Recovered agent tx \<Rightarrow> record_agent r stored identity chain agent tx s)"

definition reconcileRegistrationActive :: "reg_env \<Rightarrow> registration_request \<Rightarrow> service_offer \<Rightarrow> string \<Rightarrow> unit step" where
  "reconcileRegistrationActive re r o' baseURL = ask (\<lambda>env.
     and_then (attempt ensureAgentIdentity)
       (\<lambda>got. case got of
          Inl e \<Rightarrow> updateRegistrationStatus r (awaiting (truncateMessage (''Waiting for AgentIdentity: '' @ e)) (rr_status r))
        | Inr stored \<Rightarrow>
            (let chain = firstNonEmpty [rq_Chain (rr_spec r), op_Network (os_Payment (so_spec o'))];
                 agent = AgentIdentityAgentIDForChain stored chain;
                 tx = firstNonEmpty [rs_RegistrationTxHash (rr_status r), st_RegistrationTxHash (so_status o')];
                 identity = agentIdentityStatusFromRegistration stored chain agent;
                 s = (rr_status r)\<lparr>rs_PublishedURL := published_url baseURL\<rparr>
             in and_then (publish_document re identity (mergeOfferOverride (registrationOffersForIdentity (oe_store env)) (Some o')) baseURL)
                  (\<lambda>_. and_then (deleteRegistrationResources r)
                     (\<lambda>_. and_then (identityRegistrationResourcesReady re)
                        (\<lambda>waiting. case waiting of
                           Some msg \<Rightarrow> updateRegistrationStatus r (s\<lparr>rs_Phase := ''Publishing'', rs_Message := msg\<rparr>)
                         | None \<Rightarrow> if agent = [] then watch_chain re r o' stored identity chain s
                                   else record_agent r stored identity chain agent tx s))))))"

definition url_or :: "string \<Rightarrow> registration_request_status \<Rightarrow> registration_request_status" where
  "url_or baseURL s = (if rs_PublishedURL s = [] then s\<lparr>rs_PublishedURL := published_url baseURL\<rparr> else s)"

definition off_chain_only :: "string \<Rightarrow> string \<Rightarrow> string \<Rightarrow> registration_request_status \<Rightarrow> registration_request_status" where
  "off_chain_only baseURL msg agent s = url_or baseURL (s\<lparr>rs_Phase := ''OffChainOnly'', rs_Message := msg, rs_AgentID := agent\<rparr>)"

definition reconcileRegistrationTombstone :: "reg_env \<Rightarrow> registration_request \<Rightarrow> service_offer \<Rightarrow> string \<Rightarrow> unit step" where
  "reconcileRegistrationTombstone re r o' baseURL =
     and_then (attempt ensureAgentIdentity)
       (\<lambda>got. case got of
          Inl e \<Rightarrow> updateRegistrationStatus r (awaiting (truncateMessage (''Waiting for AgentIdentity tombstone: '' @ e)) (rr_status r))
        | Inr stored \<Rightarrow>
            (let chain = firstNonEmpty [rq_Chain (rr_spec r), op_Network (os_Payment (so_spec o'))]
             in and_then (publish_document re stored [] baseURL)
                  (\<lambda>_. and_then (deleteRegistrationResources r)
                     (\<lambda>_. updateRegistrationStatus r
                        (off_chain_only baseURL ''Published tombstone registration document; on-chain NFT preserved''
                           (AgentIdentityAgentIDForChain stored chain) (rr_status r))))))"

definition hand_over :: "registration_request \<Rightarrow> service_offer \<Rightarrow> unit step" where
  "hand_over r owner = ask (\<lambda>env.
     and_then (deleteRegistrationRequest (om_Namespace (rr_meta r)) (rq_ServiceOfferName (rr_spec r)))
       (\<lambda>_. world_step (\<lambda>w. add_offer_after (offer_queue_key owner) 0
          ((enqueueAgentIdentityKey w)\<lparr>ow_registrationQueue := ow_registrationQueue w @
             [so_Namespace owner @ ''/'' @ registrationRequestName (oe_md5 env) (so_Name owner)]\<rparr>))))"

text \<open>A request whose offer is gone and that no other offer takes over.\<close>

definition last_offer_gone :: "reg_env \<Rightarrow> registration_request \<Rightarrow> identity_status \<Rightarrow> unit step" where
  "last_offer_gone re r stored =
     (let chain = rq_Chain (rr_spec r); known = AgentIdentityAgentIDForChain stored chain;
          agent = firstNonEmpty [known, rs_AgentID (rr_status r)];
          adopt = (if agent \<noteq> [] \<and> known = []
            then and_then (updateAgentIdentityStatus stored (agentIdentityStatusFromRegistration stored chain agent))
                   (\<lambda>_. and_then (api GetIdentity (\<lambda>env w. (ow_identity w, w)))
                      (\<lambda>found. case found of None \<Rightarrow> fail_with ''agentidentities default not found'' | Some i \<Rightarrow> done_with i))
            else done_with stored)
      in and_then adopt
           (\<lambda>identity. and_then (registrationBaseURL re)
              (\<lambda>baseURL. and_then (publish_document re identity [] baseURL)
                 (\<lambda>_. and_then (deleteRegistrationResources r)
                    (\<lambda>_. updateRegistrationStatus r
                       (off_chain_only baseURL ''Last ServiceOffer deleted; published tombstone registration document'' agent (rr_status r)))))))"

definition orphan_request :: "reg_env \<Rightarrow> registration_request \<Rightarrow> unit step" where
  "orphan_request re r = ask (\<lambda>env.
     and_then ensureAgentIdentity
       (\<lambda>stored. case registrationOwnerForIdentity env of
          Some owner \<Rightarrow> hand_over r owner
        | None \<Rightarrow> last_offer_gone re r stored))"

definition reconcile_request :: "reg_env \<Rightarrow> registration_request \<Rightarrow> unit step" where
  "reconcile_request re r =
     (let ns = rq_ServiceOfferNamespace (rr_spec r); n = rq_ServiceOfferName (rr_spec r)
      in and_then (api (GetOffer ns n) (\<lambda>env w. (map_of (ow_offers w) (ns, n), w)))
           (\<lambda>found. case found of
              None \<Rightarrow> orphan_request re r
            | Some o' \<Rightarrow> and_then (registrationBaseURL re)
                (\<lambda>baseURL. if rq_DesiredState (rr_spec r) = ''Tombstoned'' then reconcileRegistrationTombstone re r o' baseURL
                           else reconcileRegistrationActive re r o' baseURL)))"

definition reconcileRegistrationRequest :: "reg_env \<Rightarrow> string \<Rightarrow> unit step" where
  "reconcileRegistrationRequest re key = ask (\<lambda>env.
     case split_key (oe_quote env) key of
       Inl e \<Rightarrow> fail_with e
     | Inr (ns, name) \<Rightarrow> and_then (get_request ns name)
         (\<lambda>found. case found of None \<Rightarrow> done_with () | Some r \<Rightarrow> reconcile_request re r))"

subsection \<open>Reconciling the identity\<close>

definition reconcileAgentIdentityPublication :: "reg_env \<Rightarrow> identity_status \<Rightarrow> service_offer option \<Rightarrow> unit step" where
  "reconcileAgentIdentityPublication re status override = ask (\<lambda>env.
     and_then (registrationBaseURL re)
       (\<lambda>baseURL. and_then (publish_document re status (mergeOfferOverride (registrationOffersForIdentity (oe_store env)) override) baseURL)
          (\<lambda>_. and_then (identityRegistrationResourcesReady re) (\<lambda>_. done_with ()))))"

text \<open>Only the default identity is reconciled; the one in the world is not being deleted.\<close>

definition reconcileAgentIdentity :: "reg_env \<Rightarrow> string \<Rightarrow> unit step" where
  "reconcileAgentIdentity re key = ask (\<lambda>env.
     case split_key (oe_quote env) key of
       Inl e \<Rightarrow> fail_with e
     | Inr (ns, name) \<Rightarrow>
         if ns \<noteq> AgentIdentityDefaultNamespace \<or> name \<noteq> AgentIdentityDefaultName then done_with ()
         else and_then (api GetIdentity (\<lambda>env w. (ow_identity w, w)))
           (\<lambda>found. case found of None \<Rightarrow> done_with () | Some status \<Rightarrow> reconcileAgentIdentityPublication re status None))"

end
