(* ===== verification/OfferReconcileRules.thy ===== *)
theory OfferReconcileRules imports OfferReconcile begin

text \<open>
  Rules for the steps of the offer reconciler.  \<open>gives m env w Q\<close> says that when step \<open>m\<close> succeeds, its result and the
  world after it satisfy \<open>Q\<close>; \<open>keeps f m env\<close> says that the part \<open>f\<close> of the world is the same after \<open>m\<close>, whether it
  succeeds or fails.  On top of them: who may have a public route, what a refused, drained or deleted offer leaves
  behind, and where the routes of an offer lead.
\<close>

subsection \<open>Partial correctness of a step\<close>

definition gives :: "'a step \<Rightarrow> offer_env \<Rightarrow> offer_world \<Rightarrow> ('a \<Rightarrow> offer_world \<Rightarrow> bool) \<Rightarrow> bool" where
  "gives m env w Q \<longleftrightarrow> (case m env w of (Inl e, w') \<Rightarrow> True | (Inr x, w') \<Rightarrow> Q x w')"

named_theorems gives_intro \<open>rules that compute the postcondition of a step\<close>

lemma givesD: "gives m env w Q \<Longrightarrow> m env w = (Inr x, w') \<Longrightarrow> Q x w'"
  by (simp add: gives_def)

lemma gives_weaken: "gives m env w P \<Longrightarrow> (\<And>x w'. P x w' \<Longrightarrow> Q x w') \<Longrightarrow> gives m env w Q"
  by (auto simp: gives_def split: prod.splits sum.splits)

lemma gives_conj: "gives m env w P \<Longrightarrow> gives m env w Q \<Longrightarrow> gives m env w (\<lambda>x w'. P x w' \<and> Q x w')"
  by (auto simp: gives_def split: prod.splits sum.splits)

lemma gives_done [gives_intro]: "Q x w \<Longrightarrow> gives (done_with x) env w Q"
  by (simp add: gives_def done_with_def)

lemma gives_fail [gives_intro]: "gives (fail_with e) env w Q"
  by (simp add: gives_def fail_with_def)

lemma gives_then [gives_intro]: "gives m env w (\<lambda>x w1. gives (f x) env w1 Q) \<Longrightarrow> gives (and_then m f) env w Q"
  by (auto simp: gives_def and_then_def split: prod.splits sum.splits)

lemma gives_seq: "gives m env w P \<Longrightarrow> (\<And>x w1. P x w1 \<Longrightarrow> gives (f x) env w1 Q) \<Longrightarrow> gives (and_then m f) env w Q"
  by (rule gives_then) (erule gives_weaken, simp)

lemma gives_if: "(b \<Longrightarrow> gives m env w Q) \<Longrightarrow> (\<not> b \<Longrightarrow> gives m' env w Q) \<Longrightarrow> gives (if b then m else m') env w Q"
  by simp

lemma gives_option:
  "(v = None \<Longrightarrow> gives m env w Q) \<Longrightarrow> (\<And>y. v = Some y \<Longrightarrow> gives (g y) env w Q) \<Longrightarrow>
   gives (case v of None \<Rightarrow> m | Some y \<Rightarrow> g y) env w Q"
  by (cases v) auto

lemma gives_world [gives_intro]: "Q () (f w) \<Longrightarrow> gives (world_step f) env w Q"
  by (simp add: gives_def world_step_def)

lemma gives_api [gives_intro]: "Q (fst (f env w)) (snd (f env w)) \<Longrightarrow> gives (api c f) env w Q"
  by (auto simp: gives_def api_def split: option.splits prod.splits)

lemma gives_ask [gives_intro]: "gives (g env) env w Q \<Longrightarrow> gives (ask g) env w Q"
  by (simp add: gives_def ask_def)

lemma gives_attempt [gives_intro]:
  "(\<And>e w'. m env w = (Inl e, w') \<Longrightarrow> Q (Inl e) w') \<Longrightarrow> gives m env w (\<lambda>x w'. Q (Inr x) w') \<Longrightarrow> gives (attempt m) env w Q"
  by (auto simp: gives_def attempt_def split: prod.splits sum.splits)

lemma gives_True [simp]: "gives m env w (\<lambda>x w'. True)"
  by (auto simp: gives_def split: prod.splits sum.splits)

lemma gives_skip: "(\<And>x w1. gives (f x) env w1 Q) \<Longrightarrow> gives (and_then m f) env w Q"
  by (rule gives_seq [OF gives_True])

text \<open>What a result says of the status alone: the calls are passed over.\<close>

lemmas gives_status = gives_ask gives_if gives_option gives_done gives_fail gives_skip

subsection \<open>Frames\<close>

definition keeps :: "(offer_world \<Rightarrow> 'c) \<Rightarrow> 'a step \<Rightarrow> offer_env \<Rightarrow> bool" where
  "keeps f m env \<longleftrightarrow> (\<forall>w. f (snd (m env w)) = f w)"

named_theorems keeps_intro \<open>rules that show what a step leaves alone\<close>

lemma keepsD: "keeps f m env \<Longrightarrow> m env w = (x, w') \<Longrightarrow> f w' = f w"
  by (metis keeps_def snd_conv)

lemma keeps_gives: "keeps f m env \<Longrightarrow> gives m env w (\<lambda>x w'. f w' = f w)"
  by (auto simp: gives_def keeps_def split: prod.splits sum.splits) (metis snd_conv)

lemma keeps_done [keeps_intro]: "keeps f (done_with x) env"
  by (simp add: keeps_def done_with_def)

lemma keeps_fail [keeps_intro]: "keeps f (fail_with e) env"
  by (simp add: keeps_def fail_with_def)

lemma keeps_then [keeps_intro]: "keeps f m env \<Longrightarrow> (\<And>x. keeps f (g x) env) \<Longrightarrow> keeps f (and_then m g) env"
  unfolding keeps_def and_then_def by (auto split: prod.splits sum.splits) (metis snd_conv)+

lemma keeps_world [keeps_intro]: "(\<And>w. f (g w) = f w) \<Longrightarrow> keeps f (world_step g) env"
  by (simp add: keeps_def world_step_def)

lemma keeps_api [keeps_intro]: "(\<And>w. f (snd (g env w)) = f w) \<Longrightarrow> keeps f (api c g) env"
  by (auto simp: keeps_def api_def split: option.splits prod.splits) (metis snd_conv)

lemma keeps_if [keeps_intro]: "(b \<Longrightarrow> keeps f m env) \<Longrightarrow> (\<not> b \<Longrightarrow> keeps f m' env) \<Longrightarrow> keeps f (if b then m else m') env"
  by simp

lemma keeps_option [keeps_intro]:
  "(v = None \<Longrightarrow> keeps f m env) \<Longrightarrow> (\<And>y. v = Some y \<Longrightarrow> keeps f (g y) env) \<Longrightarrow>
   keeps f (case v of None \<Rightarrow> m | Some y \<Rightarrow> g y) env"
  by (cases v) auto

lemma keeps_ask [keeps_intro]: "keeps f (g env) env \<Longrightarrow> keeps f (ask g) env"
  by (simp add: keeps_def ask_def)

lemma keeps_attempt [keeps_intro]: "keeps f m env \<Longrightarrow> keeps f (attempt m) env"
  by (auto simp: keeps_def attempt_def split: prod.splits) (metis snd_conv)

lemma keeps_pair [keeps_intro]: "(\<And>x y. keeps f (g x y) env) \<Longrightarrow> keeps f (case p of (x, y) \<Rightarrow> g x y) env"
  by (cases p) simp

lemmas keeps_basic = keeps_done keeps_fail keeps_then keeps_ask keeps_if keeps_option keeps_pair

subsection \<open>Conditions\<close>

lemma condition_true_set [simp]:
  "condition_true (set_condition now t st r m cs) t' = (if t = t' then st = ''True'' else condition_true cs t')"
  by (induction cs) (auto simp: Let_def)

lemma isConditionTrue_set [simp]:
  "isConditionTrue (setCondition now t st r m s) t' = (if t = t' then st = ''True'' else isConditionTrue s t')"
  by (simp add: isConditionTrue_def setCondition_def)

lemma isConditionTrue_update [simp]:
  "isConditionTrue (s\<lparr>st_AgentID := i\<rparr>) t = isConditionTrue s t"
  "isConditionTrue (s\<lparr>st_RegistrationTxHash := h\<rparr>) t = isConditionTrue s t"
  "isConditionTrue (s\<lparr>st_AgentResolution := r\<rparr>) t = isConditionTrue s t"
  "isConditionTrue (s\<lparr>st_ObservedGeneration := g\<rparr>) t = isConditionTrue s t"
  "isConditionTrue (s\<lparr>st_Endpoint := e\<rparr>) t = isConditionTrue s t"
  by (simp_all add: isConditionTrue_def)

subsection \<open>What the operations leave alone\<close>

lemma keeps_get_object [keeps_intro]: "keeps f (get_object k ns n) env"
  unfolding get_object_def by (intro keeps_intro) simp

lemma keeps_apply_object [keeps_intro]: "(\<And>w xs. f (w\<lparr>ow_objects := xs\<rparr>) = f w) \<Longrightarrow> keeps f (applyObject k ns n obj) env"
  unfolding applyObject_def by (intro keeps_intro) simp

lemma keeps_delete_object [keeps_intro]: "(\<And>w xs. f (w\<lparr>ow_objects := xs\<rparr>) = f w) \<Longrightarrow> keeps f (delete_object k ns n) env"
  unfolding delete_object_def by (intro keeps_intro) simp

lemma keeps_delete_all [keeps_intro]: "(\<And>w xs. f (w\<lparr>ow_objects := xs\<rparr>) = f w) \<Longrightarrow> keeps f (delete_all ks) env"
  by (induction ks rule: delete_all.induct) (auto intro!: keeps_intro)

lemma keeps_children [keeps_intro]: "(\<And>w xs. f (w\<lparr>ow_objects := xs\<rparr>) = f w) \<Longrightarrow> keeps f (deleteRouteChildren o') env"
  unfolding deleteRouteChildren_def by (intro keeps_intro)

lemma keeps_middlewares [keeps_intro]: "(\<And>w xs. f (w\<lparr>ow_objects := xs\<rparr>) = f w) \<Longrightarrow> keeps f (apply_middlewares ns ms) env"
  by (induction ms) (auto intro!: keeps_intro)

lemma keeps_apply_route [keeps_intro]: "(\<And>w xs. f (w\<lparr>ow_objects := xs\<rparr>) = f w) \<Longrightarrow> keeps f (apply_route ns n obj) env"
  unfolding apply_route_def by (intro keeps_intro)

lemma keeps_delete_request [keeps_intro]:
  "(\<And>w xs. f (w\<lparr>ow_requests := xs\<rparr>) = f w) \<Longrightarrow> keeps f (deleteRegistrationRequest ns n) env"
  unfolding deleteRegistrationRequest_def Let_def by (intro keeps_intro) simp

lemma keeps_apply_request [keeps_intro]:
  "(\<And>w xs. f (w\<lparr>ow_requests := xs\<rparr>) = f w) \<Longrightarrow> keeps f (apply_request o' d) env"
  unfolding apply_request_def Let_def by (intro keeps_intro) simp

lemma keeps_get_request [keeps_intro]: "keeps f (get_request ns n) env"
  unfolding get_request_def by (intro keeps_intro) simp

lemma keeps_upstream [keeps_intro]: "keeps f (reconcileUpstream o' s) env"
  unfolding reconcileUpstream_def by (intro keeps_intro)

lemma keeps_gate [keeps_intro]: "(\<And>w xs. f (w\<lparr>ow_objects := xs\<rparr>) = f w) \<Longrightarrow> keeps f (reconcilePaymentGate o' s) env"
  unfolding reconcilePaymentGate_def Let_def by (intro keeps_intro)

lemma keeps_route [keeps_intro]: "(\<And>w xs. f (w\<lparr>ow_objects := xs\<rparr>) = f w) \<Longrightarrow> keeps f (reconcileRoute o' s) env"
  unfolding reconcileRoute_def Let_def by (intro keeps_intro)

lemma keeps_identity [keeps_intro]:
  "(\<And>w xs. f (w\<lparr>ow_identity := xs\<rparr>) = f w) \<Longrightarrow> keeps f ensureAgentIdentity env"
  unfolding ensureAgentIdentity_def Let_def set_identity_def by (intro keeps_intro) simp_all

lemma keeps_registration_status [keeps_intro]:
  assumes "\<And>w xs. f (w\<lparr>ow_identity := xs\<rparr>) = f w" "\<And>w xs. f (w\<lparr>ow_requests := xs\<rparr>) = f w"
  shows "keeps f (reconcileRegistrationStatus o' s) env"
  unfolding reconcileRegistrationStatus_def own_status_def shared_status_def Let_def by (intro keeps_intro assms)

lemma keeps_resolve [keeps_intro]: "keeps f (resolveAgentOffer o' s) env"
  unfolding resolveAgentOffer_def Let_def by (intro keeps_intro) simp

lemma keeps_after [keeps_intro]: "(\<And>w xs. f (w\<lparr>ow_offerQueue := xs\<rparr>) = f w) \<Longrightarrow> keeps f (reconcile_after o' d) env"
  by (intro keeps_intro) (simp add: add_offer_after_def)

lemma keeps_route_stage [keeps_intro]:
  assumes "\<And>w xs. f (w\<lparr>ow_objects := xs\<rparr>) = f w" "\<And>w xs. f (w\<lparr>ow_offerQueue := xs\<rparr>) = f w"
  shows "keeps f (route_stage o' healthy s) env"
  unfolding route_stage_def Let_def retried_def withheld_def drained_def draining_def published_if_healthy_def gate_and_route_def
  by (intro keeps_intro assms)

lemma keeps_status [keeps_intro]: "(\<And>w xs. f (w\<lparr>ow_offers := xs\<rparr>) = f w) \<Longrightarrow> keeps f (updateOfferStatus o' s) env"
  unfolding updateOfferStatus_def write_offer_def by (intro keeps_intro) (simp split: option.split)

lemma keeps_finalizers [keeps_intro]: "(\<And>w xs. f (w\<lparr>ow_offers := xs\<rparr>) = f w) \<Longrightarrow> keeps f (update_finalizers o' g) env"
  unfolding update_finalizers_def put_finalizers_def write_offer_def by (intro keeps_intro) (simp split: option.split)

lemma keeps_site [keeps_intro]: "(\<And>w xs. f (w\<lparr>ow_sites := xs\<rparr>) = f w) \<Longrightarrow> keeps f (reconcileStaticSite x) env"
  unfolding reconcileStaticSite_def by (intro keeps_intro) simp

subsection \<open>Deletions\<close>

definition absent :: "obj_key list \<Rightarrow> offer_world \<Rightarrow> bool" where
  "absent ks w \<longleftrightarrow> (\<forall>k \<in> set ks. map_of (ow_objects w) k = None)"

lemma delete_object_gone: "gives (delete_object k ns n) env w (\<lambda>_ w'. ow_objects w' = AList.delete (k, ns, n) (ow_objects w))"
  unfolding delete_object_def by (intro gives_intro) simp

lemma delete_all_gone: "gives (delete_all ks) env w (\<lambda>_ w'. absent ks w' \<and> (\<forall>k. map_of (ow_objects w) k = None \<longrightarrow> map_of (ow_objects w') k = None))"
proof (induction ks arbitrary: w rule: delete_all.induct)
  case 1
  show ?case by (auto intro!: gives_intro simp: absent_def)
next
  case (2 k ns n rest)
  have "gives (delete_all rest) env w1 (\<lambda>_ w'. absent ((k, ns, n) # rest) w' \<and>
      (\<forall>k. map_of (ow_objects w) k = None \<longrightarrow> map_of (ow_objects w') k = None))"
    if "ow_objects w1 = AList.delete (k, ns, n) (ow_objects w)" for w1
    by (rule gives_weaken [OF "2.IH" [of w1]]) (auto simp: that absent_def delete_conv')
  then show ?case by (simp only: delete_all.simps) (rule gives_seq [OF delete_object_gone])
qed

lemma children_gone: "gives (deleteRouteChildren o') env w (\<lambda>_. absent (route_children (oe_md5 env) o'))"
  unfolding deleteRouteChildren_def by (intro gives_intro) (rule gives_weaken [OF delete_all_gone], blast)

subsection \<open>Who may have a route\<close>

definition entitled :: "offer_env \<Rightarrow> service_offer \<Rightarrow> bool" where
  "entitled env o' \<longleftrightarrow> ReservedPathConflict (EffectivePath o') = [] \<and> snd (reservedRouteConflict o') = [] \<and>
     findHostnameConflict o' (oe_store env) = [] \<and> pickPathConflict o' (oe_store env) = [] \<and> \<not> DrainExpired o' (oe_now env)"

lemma withheld_result:
  "gives (withheld o' r m s) env w (\<lambda>s' w'. \<not> isConditionTrue s' ''RoutePublished'' \<and> absent (route_children (oe_md5 env) o') w')"
  unfolding withheld_def by (intro gives_intro gives_seq [OF children_gone]) simp

lemma drained_result:
  "gives (drained o' s) env w (\<lambda>s' w'. \<not> isConditionTrue s' ''RoutePublished'' \<and> absent (route_children (oe_md5 env) o') w')"
  unfolding drained_def drain_ended_def by (intro gives_intro gives_seq [OF children_gone]) simp

lemma retried_result:
  "gives m env w (\<lambda>s' w'. P s' \<and> absent ks w') \<Longrightarrow> gives (retried o' m) env w (\<lambda>s' w'. P s' \<and> absent ks w')"
  unfolding retried_def by (rule gives_seq, assumption) (intro gives_intro, simp add: absent_def add_offer_after_def)

lemma not_entitled_result:
  assumes "\<not> entitled env o'"
  shows "gives (route_stage o' healthy s) env w
    (\<lambda>s' w'. \<not> isConditionTrue s' ''RoutePublished'' \<and> absent (route_children (oe_md5 env) o') w')"
proof -
  have "IsDraining o'" if "DrainExpired o' (oe_now env)" using that by (simp add: DrainExpired_def)
  with assms show ?thesis unfolding route_stage_def Let_def entitled_def
    by (intro gives_intro) (auto intro: withheld_result retried_result drained_result)
qed

subsection \<open>What a ready offer stands for\<close>

definition deployment_of :: "offer_world \<Rightarrow> goany option" where
  "deployment_of w = map_of (ow_objects w) (Deployment, ''x402'', ''x402-verifier'')"

definition gate_up :: "offer_world \<Rightarrow> bool" where
  "gate_up w \<longleftrightarrow> (case deployment_of w of None \<Rightarrow> False
     | Some d \<Rightarrow> (case available_replicas d of None \<Rightarrow> False | Some n \<Rightarrow> n \<ge> 1))"

definition answers_health :: "offer_env \<Rightarrow> service_offer \<Rightarrow> bool" where
  "answers_health env o' \<longleftrightarrow> (case oe_health env (health_url o') of Inl e \<Rightarrow> False | Inr code \<Rightarrow> upstreamHealthStatusOK code)"

lemma deployment_apply: "k \<noteq> Deployment \<Longrightarrow> keeps deployment_of (applyObject k ns n obj) env"
  unfolding applyObject_def by (intro keeps_intro) (simp add: deployment_of_def update_conv')

lemma deployment_delete: "k \<noteq> Deployment \<Longrightarrow> keeps deployment_of (delete_object k ns n) env"
  unfolding delete_object_def by (intro keeps_intro) (simp add: deployment_of_def delete_conv')

lemma deployment_delete_all: "Deployment \<notin> fst ` set ks \<Longrightarrow> keeps deployment_of (delete_all ks) env"
  by (induction ks rule: delete_all.induct) (auto intro!: keeps_intro deployment_delete)

lemma deployment_middlewares: "keeps deployment_of (apply_middlewares ns ms) env"
  by (induction ms) (auto intro!: keeps_intro deployment_apply)

lemma stale_no_deployment: "Deployment \<notin> fst ` set (stale_children h o')"
  unfolding stale_children_def Let_def by auto

lemma deployment_route: "keeps deployment_of (reconcileRoute o' s) env"
  unfolding reconcileRoute_def Let_def apply_route_def
  by (intro keeps_basic keeps_get_object deployment_middlewares deployment_delete_all deployment_apply deployment_delete)
    (simp_all add: stale_no_deployment)

lemma gate_result:
  "gives (reconcilePaymentGate o' s) env w (\<lambda>s' w'. (isConditionTrue s' ''PaymentGateReady'' \<longrightarrow> gate_up w') \<and>
     (\<forall>t. t \<noteq> ''PaymentGateReady'' \<longrightarrow> isConditionTrue s' t = isConditionTrue s t))"
  unfolding reconcilePaymentGate_def Let_def get_object_def applyObject_def
  by (intro gives_intro) (auto intro!: gives_intro simp: gate_up_def deployment_of_def split: option.splits)

lemma route_conditions:
  "gives (reconcileRoute o' s) env w (\<lambda>s' w'. \<forall>t. t \<noteq> ''RoutePublished'' \<longrightarrow> isConditionTrue s' t = isConditionTrue s t)"
  unfolding reconcileRoute_def Let_def
  by (intro gives_status) auto

lemma gate_and_route_result:
  "gives (gate_and_route o' s) env w (\<lambda>s' w'. (isConditionTrue s' ''PaymentGateReady'' \<longrightarrow> gate_up w') \<and>
     (\<forall>t. t \<noteq> ''PaymentGateReady'' \<and> t \<noteq> ''RoutePublished'' \<longrightarrow> isConditionTrue s' t = isConditionTrue s t))"
  unfolding gate_and_route_def
proof (rule gives_seq [OF gate_result])
  fix s1 w1
  assume a: "(isConditionTrue s1 ''PaymentGateReady'' \<longrightarrow> gate_up w1) \<and>
     (\<forall>t. t \<noteq> ''PaymentGateReady'' \<longrightarrow> isConditionTrue s1 t = isConditionTrue s t)"
  show "gives (if isConditionTrue s1 ''PaymentGateReady'' then reconcileRoute o' s1 else done_with s1) env w1
     (\<lambda>s' w'. (isConditionTrue s' ''PaymentGateReady'' \<longrightarrow> gate_up w') \<and>
       (\<forall>t. t \<noteq> ''PaymentGateReady'' \<and> t \<noteq> ''RoutePublished'' \<longrightarrow> isConditionTrue s' t = isConditionTrue s t))"
    using a gives_conj [OF route_conditions keeps_gives [OF deployment_route], of o' s1 env w1]
    by (auto intro: gives_done elim!: gives_weaken simp: gate_up_def)
qed

lemma route_stage_result:
  "gives (route_stage o' healthy s) env w (\<lambda>s' w'. (isConditionTrue s' ''PaymentGateReady'' \<longrightarrow> gate_up w' \<and> healthy) \<and>
     (\<forall>t. t \<notin> {''PaymentGateReady'', ''RoutePublished'', ''Draining''} \<longrightarrow> isConditionTrue s' t = isConditionTrue s t))"
    (is "gives _ env w ?Q")
proof -
  have held: "gives (withheld o' r m s) env w ?Q" for r m
    unfolding withheld_def by (intro gives_status) simp
  have drop: "gives (drained o' s) env w ?Q"
    unfolding drained_def drain_ended_def by (intro gives_status) simp
  have again: "gives (retried o' m) env w ?Q" if "gives m env w ?Q" for m
    unfolding retried_def by (rule gives_seq [OF that]) (intro gives_intro, simp add: add_offer_after_def gate_up_def deployment_of_def)
  have go: "gives (published_if_healthy o' healthy s1) env w ?Q"
    if "\<And>t. t \<noteq> ''Draining'' \<Longrightarrow> isConditionTrue s1 t = isConditionTrue s t" for s1
    unfolding published_if_healthy_def
    by (intro gives_ask gives_if) (use that in \<open>auto intro!: gives_done gives_weaken [OF gate_and_route_result] simp: waiting_for_upstream_def\<close>)
  have drain: "gives (draining o' healthy s) env w ?Q"
    unfolding draining_def
    by (rule gives_ask, rule gives_seq, rule go, simp)
      (intro gives_then gives_world gives_done, simp add: add_offer_after_def gate_up_def deployment_of_def)
  show ?thesis unfolding route_stage_def Let_def
    by (intro gives_ask gives_if held drop again drain go) simp
qed

lemma route_stage_entitled:
  "gives (route_stage o' healthy s) env w (\<lambda>s' w'. \<not> entitled env o' \<longrightarrow>
     \<not> isConditionTrue s' ''RoutePublished'' \<and> absent (route_children (oe_md5 env) o') w')"
proof (cases "entitled env o'")
  case False
  then show ?thesis by (intro gives_weaken [OF not_entitled_result]) auto
qed simp

lemma upstream_result:
  "gives (reconcileUpstream o' s) env w (\<lambda>(h, s1) w'. (isConditionTrue s1 ''UpstreamHealthy'' \<longleftrightarrow> h) \<and> (h \<longrightarrow> answers_health env o') \<and>
     (\<forall>t. t \<noteq> ''UpstreamHealthy'' \<longrightarrow> isConditionTrue s1 t = isConditionTrue s t))"
  unfolding reconcileUpstream_def
  by (intro gives_status) (auto simp: health_verdict_def answers_health_def split: sum.splits option.splits)

lemma shared_status_conditions:
  "t \<noteq> ''Registered'' \<Longrightarrow> isConditionTrue (applySharedRegistrationStatus env o' owner i r s) t = isConditionTrue s t"
  by (auto simp: applySharedRegistrationStatus_def Let_def)

lemma registration_conditions:
  "gives (reconcileRegistrationStatus o' s) env w (\<lambda>s' w'. \<forall>t. t \<noteq> ''Registered'' \<longrightarrow> isConditionTrue s' t = isConditionTrue s t)"
  unfolding reconcileRegistrationStatus_def own_status_def shared_status_def Let_def
  by (intro gives_status) (auto simp: shared_status_conditions split: option.split sum.split)

definition stands_for :: "offer_env \<Rightarrow> service_offer \<Rightarrow> offer_status \<Rightarrow> offer_world \<Rightarrow> bool" where
  "stands_for env o' s w \<longleftrightarrow>
     (isConditionTrue s ''Ready'' \<longrightarrow> offer_ready s \<and> gate_up w \<and> answers_health env o') \<and>
     (\<not> entitled env o' \<longrightarrow> \<not> isConditionTrue s ''RoutePublished'' \<and> absent (route_children (oe_md5 env) o') w)"

lemma stands_for_objects: "ow_objects w' = ow_objects w \<Longrightarrow> stands_for env o' s w' = stands_for env o' s w"
  by (simp add: stands_for_def gate_up_def deployment_of_def absent_def)

lemma with_ready_conditions:
  "isConditionTrue (with_ready env s) t = (if t = ''Ready'' then offer_ready s else isConditionTrue s t)"
  by (simp add: with_ready_def)

lemma after_upstream:
  assumes up: "isConditionTrue s1 ''UpstreamHealthy'' \<longleftrightarrow> h" "h \<longrightarrow> answers_health env o'"
  shows "gives (and_then (route_stage o' h s1) (\<lambda>s2. and_then (reconcileRegistrationStatus o' s2) (\<lambda>s3. done_with (with_ready env s3))))
    env w1 (\<lambda>s'. stands_for env o' s')"
proof (rule gives_seq [OF gives_conj [OF route_stage_result route_stage_entitled]])
  fix s2 and w2 :: offer_world
  assume r: "((isConditionTrue s2 ''PaymentGateReady'' \<longrightarrow> gate_up w2 \<and> h) \<and>
     (\<forall>t. t \<notin> {''PaymentGateReady'', ''RoutePublished'', ''Draining''} \<longrightarrow> isConditionTrue s2 t = isConditionTrue s1 t)) \<and>
     (\<not> entitled env o' \<longrightarrow> \<not> isConditionTrue s2 ''RoutePublished'' \<and> absent (route_children (oe_md5 env) o') w2)"
  have k: "keeps ow_objects (reconcileRegistrationStatus o' s2) env" by (intro keeps_intro) simp_all
  show "gives (and_then (reconcileRegistrationStatus o' s2) (\<lambda>s3. done_with (with_ready env s3))) env w2 (\<lambda>s'. stands_for env o' s')"
  proof (rule gives_seq [OF gives_conj [OF registration_conditions keeps_gives [OF k]]], rule gives_done)
    fix s3 and w3 :: offer_world
    assume f: "(\<forall>t. t \<noteq> ''Registered'' \<longrightarrow> isConditionTrue s3 t = isConditionTrue s2 t) \<and> ow_objects w3 = ow_objects w2"
    have "stands_for env o' (with_ready env s3) w2"
      unfolding stands_for_def with_ready_conditions offer_ready_def using f r up by simp
    then show "stands_for env o' (with_ready env s3) w3" using f by (simp add: stands_for_objects [of w3 w2])
  qed
qed

lemma live_status_result: "gives (live_status o' s) env w (\<lambda>s'. stands_for env o' s')"
  unfolding live_status_def
  by (rule gives_ask, rule gives_seq [OF upstream_result]) (auto intro!: after_upstream split: prod.splits)

subsection \<open>A whole pass\<close>

abbreviation "offer_id o' \<equiv> (so_Namespace o', so_Name o')"

lemma status_written:
  assumes "map_of (ow_offers w) (offer_id o') = Some o'"
  shows "gives (updateOfferStatus o' s) env w (\<lambda>_ w'. map_of (ow_offers w') (offer_id o') = Some (o'\<lparr>so_status := s\<rparr>) \<and>
    ow_objects w' = ow_objects w)"
  using assms unfolding updateOfferStatus_def
  by (intro gives_if) (auto intro!: gives_intro simp: write_offer_def update_conv')

lemma entitled_resolved [simp]: "entitled env (resolved_by a o') = entitled env o'"
proof -
  have same: "same_offer other (resolved_by a o') = same_offer other o'"
    "claimPrecedes other (resolved_by a o') = claimPrecedes other o'" for other
    by (simp_all add: offer_key_def same_offer_def claimPrecedes_def resolved_by_def)
  have first: "first_precedent sh (resolved_by a o') os = first_precedent sh o' os" for sh os
    by (induction os) (simp_all only: first_precedent.simps same)
  have field: "os_Path (so_spec (resolved_by a o')) = os_Path (so_spec o')" "os_Routes (so_spec (resolved_by a o')) = os_Routes (so_spec o')"
    "os_Hostname (so_spec (resolved_by a o')) = os_Hostname (so_spec o')" "os_DrainAt (so_spec (resolved_by a o')) = os_DrainAt (so_spec o')"
    "os_DrainGracePeriod (so_spec (resolved_by a o')) = os_DrainGracePeriod (so_spec o')" "so_Name (resolved_by a o') = so_Name o'"
    by (simp_all add: resolved_by_def)
  show ?thesis
    unfolding entitled_def EffectivePath_def reservedRouteConflict_def EffectiveRoutes_def findHostnameConflict_def
      pickHostnameConflict_def pickPathConflict_def DrainExpired_def IsDraining_def DrainEndsAt_def first field ..
qed

text \<open>The offer as a pass sees it: its own, or with the upstream and model of its agent, which is ready in the same namespace.\<close>

definition sees :: "offer_world \<Rightarrow> service_offer \<Rightarrow> service_offer \<Rightarrow> bool" where
  "sees w o' o1 \<longleftrightarrow>
     (if IsAgent o' then (let ref = os_Agent (so_spec o') in gr_Namespace ref = so_Namespace o' \<and>
        (case map_of (ow_agents w) (gr_Namespace ref, gr_Name ref) of None \<Rightarrow> False
         | Some a \<Rightarrow> IsReady a \<and> an_Endpoint a \<noteq> [] \<and> o1 = resolved_by a o'))
      else o1 = o')"

definition pass_result :: "offer_env \<Rightarrow> offer_world \<Rightarrow> service_offer \<Rightarrow> offer_world \<Rightarrow> bool" where
  "pass_result env w o' w' \<longleftrightarrow> (\<exists>s. map_of (ow_offers w') (offer_id o') = Some (o'\<lparr>so_status := s\<rparr>) \<and>
     ((\<exists>o1. sees w o' o1 \<and> stands_for env o1 s w') \<or>
      IsAgent o' \<and> \<not> isConditionTrue s ''Ready'' \<and> \<not> isConditionTrue s ''RoutePublished'' \<and>
      (DrainExpired o' (oe_now env) \<longrightarrow> absent (route_children (oe_md5 env) o') w')))"

lemma keeps_keys [keeps_intro]:
  assumes "\<And>w xs. f (w\<lparr>ow_identityQueue := xs\<rparr>) = f w" "\<And>w xs. f (w\<lparr>ow_registrationQueue := xs\<rparr>) = f w"
  shows "keeps f (world_step (registration_keys env o')) env"
  using assms by (intro keeps_intro) (simp add: registration_keys_def enqueueAgentIdentityKey_def Let_def split: option.split)

lemma live_pass_result:
  assumes found: "map_of (ow_offers w) (offer_id raw) = Some raw" and "sees w0 raw o1"
  shows "gives (live_pass raw o1 s) env w (\<lambda>_. pass_result env w0 raw)"
  unfolding live_pass_def
proof (rule gives_ask, rule gives_seq)
  have k: "keeps ow_offers (live_status o1 s) env"
    unfolding live_status_def by (intro keeps_intro) simp_all
  show "gives (live_status o1 s) env w (\<lambda>s' w1. stands_for env o1 s' w1 \<and> map_of (ow_offers w1) (offer_id raw) = Some raw)"
    using gives_conj [OF live_status_result keeps_gives [OF k]] by (rule gives_weaken) (simp add: found)
next
  fix s' and w1 :: offer_world
  assume a: "stands_for env o1 s' w1 \<and> map_of (ow_offers w1) (offer_id raw) = Some raw"
  let ?rest = "and_then (world_step (registration_keys env o1))
    (\<lambda>_. and_then (if offer_ready s' then done_with () else reconcile_after o1 (5 * second)) (\<lambda>_. reconcileStaticSite None))"
  have k: "keeps (\<lambda>w. (ow_offers w, ow_objects w)) ?rest env" by (intro keeps_intro) simp_all
  show "gives (and_then (updateOfferStatus raw s') (\<lambda>_. ?rest)) env w1 (\<lambda>_. pass_result env w0 raw)"
  proof (rule gives_seq [OF status_written])
    show "map_of (ow_offers w1) (offer_id raw) = Some raw" using a by simp
  next
    fix x and w2 :: offer_world
    assume b: "map_of (ow_offers w2) (offer_id raw) = Some (raw\<lparr>so_status := s'\<rparr>) \<and> ow_objects w2 = ow_objects w1"
    have "gives ?rest env w2 (\<lambda>_ w3. ow_offers w3 = ow_offers w2 \<and> ow_objects w3 = ow_objects w1)"
      using keeps_gives [OF k, of w2] by (rule gives_weaken) (simp add: b)
    then show "gives ?rest env w2 (\<lambda>_. pass_result env w0 raw)"
    proof (rule gives_weaken)
      fix y and w3 :: offer_world
      assume "ow_offers w3 = ow_offers w2 \<and> ow_objects w3 = ow_objects w1"
      with a b assms(2) stands_for_objects [of w3 w1] show "pass_result env w0 raw w3" unfolding pass_result_def by auto
    qed
  qed
qed

lemma agent_pass_result:
  assumes found: "map_of (ow_offers w) (offer_id raw) = Some raw" and a: "IsAgent raw"
  shows "gives (agent_pass raw raw s) env w (\<lambda>_. pass_result env w0 raw)"
proof -
  have k: "keeps ow_offers (drained raw s1) env" for s1 unfolding drained_def by (intro keeps_intro) simp
  have d: "gives (drained raw s1) env w (\<lambda>s2 w1. (\<not> isConditionTrue s2 ''RoutePublished'' \<and>
      absent (route_children (oe_md5 env) raw) w1) \<and> ow_offers w1 = ow_offers w)" for s1
    by (rule gives_conj [OF drained_result keeps_gives [OF k]])
  have "gives (updateOfferStatus raw (waiting_for_agent env ''Ready'' s2)) env w1 (\<lambda>_. pass_result env w0 raw)"
    if "map_of (ow_offers w1) (offer_id raw) = Some raw" "\<not> isConditionTrue s2 ''RoutePublished''"
      "DrainExpired raw (oe_now env) \<longrightarrow> absent (route_children (oe_md5 env) raw) w1" for s2 and w1 :: offer_world
    by (rule gives_weaken [OF status_written [OF that(1)]], unfold pass_result_def)
      (use that a in \<open>auto simp: waiting_for_agent_def absent_def\<close>)
  then show ?thesis unfolding agent_pass_def Let_def
    by (intro gives_ask gives_then gives_if)
      (auto intro!: gives_weaken [OF d] gives_done simp: found waiting_for_agent_def)
qed

lemma resolve_result:
  assumes "IsAgent o'"
  shows "gives (resolveAgentOffer o' s) env w (\<lambda>(ready, o1, s1) w'. w' = w \<and> (if ready then sees w o' o1 else o1 = o'))"
  using assms unfolding resolveAgentOffer_def Let_def
  by (intro gives_intro gives_if) (auto intro!: gives_intro split: option.splits simp: sees_def)

lemma reconcile_live_result:
  assumes "map_of (ow_offers w) (offer_id o') = Some o'"
  shows "gives (reconcile_live o') env w (\<lambda>_. pass_result env w o')"
proof (cases "IsAgent o'")
  case True
  show ?thesis unfolding reconcile_live_def if_P [OF True]
    by (rule gives_seq [OF resolve_result [OF True]])
      (auto intro!: live_pass_result agent_pass_result simp: assms True split: prod.splits if_splits)
next
  case False
  then show ?thesis using assms by (simp add: reconcile_live_def live_pass_result sees_def)
qed

lemma split_queue_key:
  assumes "CHR ''/'' \<notin> set ns" "CHR ''/'' \<notin> set n"
  shows "split_key q (ns @ CHR ''/'' # n) = Inr (ns, n)"
proof -
  have one: "split_on CHR ''/'' n = [n]" using assms(2) by (induction n) auto
  have "split_on CHR ''/'' (ns @ CHR ''/'' # n) = [ns, n]" using assms(1) by (induction ns) (auto simp: one)
  then show ?thesis by (simp add: split_key_def)
qed

text \<open>An offer that the server holds, under names without slashes.\<close>

definition held_offer :: "offer_world \<Rightarrow> service_offer \<Rightarrow> bool" where
  "held_offer w o' \<longleftrightarrow> map_of (ow_offers w) (offer_id o') = Some o' \<and> CHR ''/'' \<notin> set (so_Namespace o') \<and> CHR ''/'' \<notin> set (so_Name o') \<and>
     serviceOfferFinalizer \<in> set (om_Finalizers (so_meta o'))"

lemma reconcile_held:
  assumes "held_offer w o'" "oe_fail env (GetOffer (so_Namespace o') (so_Name o')) = None"
  shows "reconcileOffer (offer_queue_key o') env w = reconcile_read o' env w"
  using assms by (simp add: reconcileOffer_def ask_def held_offer_def split_queue_key and_then_def api_def)

lemma reconcile_success:
  assumes h: "held_offer w o'" and r: "reconcileOffer (offer_queue_key o') env w = (Inr (), w')"
  shows "reconcile_read o' env w = (Inr (), w')"
proof -
  have "oe_fail env (GetOffer (so_Namespace o') (so_Name o')) = None"
    using r h by (auto simp: reconcileOffer_def ask_def held_offer_def split_queue_key and_then_def api_def split: option.splits)
  with reconcile_held [OF h] r show ?thesis by simp
qed

lemma live_offer_result:
  assumes "held_offer w o'" "\<not> so_Deleting o'" "reconcileOffer (offer_queue_key o') env w = (Inr (), w')"
  shows "pass_result env w o' w'"
proof -
  have "reconcile_live o' env w = (Inr (), w')"
    using reconcile_success [OF assms(1,3)] assms(1,2) by (simp add: reconcile_read_def held_offer_def)
  with assms(1) show ?thesis by (intro givesD [OF reconcile_live_result]) (auto simp: held_offer_def)
qed

subsection \<open>Offers that are deleted\<close>

lemma keeps_deleting [keeps_intro]:
  assumes "\<And>w xs. f (w\<lparr>ow_objects := xs\<rparr>) = f w" "\<And>w xs. f (w\<lparr>ow_requests := xs\<rparr>) = f w" "\<And>w xs. f (w\<lparr>ow_identityQueue := xs\<rparr>) = f w"
    "\<And>w xs. f (w\<lparr>ow_offerQueue := xs\<rparr>) = f w" "\<And>w xs. f (w\<lparr>ow_registrationQueue := xs\<rparr>) = f w"
  shows "keeps f (reconcileDeletingOffer o') env"
  unfolding reconcileDeletingOffer_def Let_def ensureRegistrationCleanup_def
  by (intro keeps_intro) (simp_all add: assms enqueueAgentIdentityKey_def add_offer_after_def)

lemma keeps_absent: "keeps ow_objects m env \<Longrightarrow> absent ks w \<Longrightarrow> gives m env w (\<lambda>_. absent ks)"
  by (erule gives_weaken [OF keeps_gives]) (simp add: absent_def)

lemma deleting_result: "gives (reconcileDeletingOffer o') env w (\<lambda>_. absent (route_children (oe_md5 env) o'))"
  unfolding reconcileDeletingOffer_def Let_def ensureRegistrationCleanup_def
  by (intro gives_ask gives_seq [OF children_gone] keeps_absent keeps_intro)
    (simp_all add: enqueueAgentIdentityKey_def add_offer_after_def)

lemma finalizer_result:
  "gives (removeFinalizer o' fin) env w (\<lambda>_ w'. ow_objects w' = ow_objects w \<and>
     (case map_of (ow_offers w') (offer_id o') of None \<Rightarrow> True | Some cur \<Rightarrow> fin \<notin> set (om_Finalizers (so_meta cur))))"
  unfolding removeFinalizer_def update_finalizers_def
  by (intro gives_intro) (auto simp: put_finalizers_def write_offer_def update_conv' delete_conv' split: option.split)

text \<open>A step that fails leaves a part of the world alone.\<close>

definition fails_clean :: "(offer_world \<Rightarrow> 'c) \<Rightarrow> 'a step \<Rightarrow> offer_env \<Rightarrow> bool" where
  "fails_clean f m env \<longleftrightarrow> (\<forall>w. case m env w of (Inl e, w') \<Rightarrow> f w' = f w | (Inr x, w') \<Rightarrow> True)"

lemma fails_cleanD: "fails_clean f m env \<Longrightarrow> m env w = (Inl e, w') \<Longrightarrow> f w' = f w"
  unfolding fails_clean_def by (drule spec [of _ w]) simp

lemma fails_cleanI: "(\<And>w e w'. m env w = (Inl e, w') \<Longrightarrow> f w' = f w) \<Longrightarrow> fails_clean f m env"
  by (auto simp: fails_clean_def split: prod.split sum.split)

lemma clean_keeps: "keeps f m env \<Longrightarrow> fails_clean f m env"
  by (rule fails_cleanI) (rule keepsD)

lemma and_then_fails:
  "and_then m g env w = (Inl e, w') \<longleftrightarrow> m env w = (Inl e, w') \<or> (\<exists>x w1. m env w = (Inr x, w1) \<and> g x env w1 = (Inl e, w'))"
  by (auto simp: and_then_def split: prod.split sum.split)

lemma clean_then:
  assumes "keeps f m env" "\<And>x. fails_clean f (g x) env"
  shows "fails_clean f (and_then m g) env"
  by (rule fails_cleanI) (auto simp: and_then_fails keepsD [OF assms(1)] fails_cleanD [OF assms(2)])

definition succeeds :: "'a step \<Rightarrow> offer_env \<Rightarrow> bool" where
  "succeeds m env \<longleftrightarrow> (\<forall>w. \<exists>x w'. m env w = (Inr x, w'))"

lemma succeeds_then: "succeeds m env \<Longrightarrow> (\<And>x. succeeds (g x) env) \<Longrightarrow> succeeds (and_then m g) env"
  unfolding succeeds_def and_then_def by (metis (mono_tags, lifting) case_prod_conv sum.case(2))

lemma succeedsD: "succeeds m env \<Longrightarrow> m env w \<noteq> (Inl e, w')"
  unfolding succeeds_def by (metis Inl_Inr_False prod.inject)

lemma clean_last:
  assumes "fails_clean f m env" "\<And>x. succeeds (g x) env"
  shows "fails_clean f (and_then m g) env"
  by (rule fails_cleanI) (auto simp: and_then_fails fails_cleanD [OF assms(1)] succeedsD [OF assms(2)])

lemma clean_ask: "fails_clean f (g env) env \<Longrightarrow> fails_clean f (ask g) env"
  by (simp add: fails_clean_def ask_def)

lemma clean_if: "(b \<Longrightarrow> fails_clean f m env) \<Longrightarrow> (\<not> b \<Longrightarrow> fails_clean f m' env) \<Longrightarrow> fails_clean f (if b then m else m') env"
  by simp

lemma clean_api: "fails_clean f (api c g) env"
  by (auto simp: fails_clean_def api_def split: option.splits prod.splits)

lemma clean_update_status: "fails_clean f (updateOfferStatus o' s) env"
  unfolding updateOfferStatus_def by (intro clean_if clean_keeps [OF keeps_done] clean_api)

lemma clean_finalizers: "fails_clean f (update_finalizers o' g) env"
  unfolding update_finalizers_def by (rule clean_api)

lemma clean_live_pass:
  assumes "oe_fail env RebuildSite = None"
  shows "fails_clean ow_offers (live_pass raw o' s) env"
proof -
  have site: "succeeds (reconcileStaticSite None) env"
    using assms by (simp add: succeeds_def reconcileStaticSite_def api_def)
  have world: "succeeds (world_step f) env" for f by (simp add: succeeds_def world_step_def)
  have skip: "succeeds (done_with x) env" for x by (simp add: succeeds_def done_with_def)
  show ?thesis unfolding live_pass_def live_status_def
    by (intro clean_ask clean_then clean_last clean_update_status keeps_intro succeeds_then world site)
      (simp_all add: world skip)
qed

lemma clean_reconcile:
  assumes "oe_fail env RebuildSite = None"
  shows "fails_clean ow_offers (reconcile_read o') env"
  unfolding reconcile_read_def reconcile_deleted_def reconcile_live_def agent_pass_def drained_def Let_def addFinalizer_def removeFinalizer_def
  by (intro clean_if clean_ask clean_then clean_finalizers clean_keeps [OF keeps_done] keeps_intro)
    (auto intro!: clean_live_pass [OF assms] clean_ask clean_then keeps_intro clean_update_status split: prod.splits)

end
