(* ===== verification/OfferSafety.thy ===== *)
theory OfferSafety imports OfferReconcileRules begin

text \<open>
  What the offer reconciler guarantees: a ready offer was checked, two offers are never published on one path, the routes
  of an offer lead only to the payment gate or to its own pages, a deleted offer leaves no route and a pass that fails
  leaves the offers alone.  One theorem shows a route that an offer deletes although it is not its own.
\<close>

subsection \<open>A sample world\<close>

definition accepted_route :: goany where
  "accepted_route = GMap [(''parents'', GArr [GMap [(''conditions'', GArr
     [GMap [(''type'', GStr ''Accepted''), (''status'', GStr ''True'')], GMap [(''type'', GStr ''ResolvedRefs''), (''status'', GStr ''True'')]])]])]"

fun accepting :: "goany option \<Rightarrow> goany \<Rightarrow> goany" where
  "accepting old (GMap m) = GMap (m @ [(''status'', accepted_route)])"
| "accepting old v = v"

definition market_env :: "service_offer list \<Rightarrow> (kube_call \<Rightarrow> string option) \<Rightarrow> offer_env" where
  "market_env store fails = \<lparr>oe_now = 100 * second, oe_fail = fails, oe_merge = accepting, oe_bad_url = (\<lambda>u. None), oe_health = (\<lambda>u. Inr 200),
     oe_type_error = (\<lambda>v. []), oe_quote = (\<lambda>s. s), oe_store = store, oe_md5 = (\<lambda>s. ''0123456789abcdef''), oe_requests = []\<rparr>"

definition gate_objects :: "(obj_key, goany) gomap" where
  "gate_objects = [((Service, ''n'', ''s''), GMap []), ((Service, ''x402'', ''x402-verifier''), GMap []),
     ((Deployment, ''x402'', ''x402-verifier''), GMap [(''status'', GMap [(''availableReplicas'', GInt64 1)])])]"

definition market :: "service_offer list \<Rightarrow> (obj_key, goany) gomap \<Rightarrow> offer_world" where
  "market offers objects = \<lparr>ow_offers = map (\<lambda>o'. (offer_id o', o')) offers, ow_objects = gate_objects @ objects, ow_requests = [], ow_agents = [],
     ow_identity = None, ow_offerQueue = [], ow_registrationQueue = [], ow_identityQueue = [], ow_sites = []\<rparr>"

definition stall :: "string \<Rightarrow> nsec \<Rightarrow> string \<Rightarrow> service_offer" where
  "stall name created path = (let o' = claim_offer name created path []
     in o'\<lparr>so_meta := so_meta o'\<lparr>om_Finalizers := [serviceOfferFinalizer]\<rparr>\<rparr>)"

definition closing :: "service_offer \<Rightarrow> service_offer" where
  "closing o' = o'\<lparr>so_meta := so_meta o'\<lparr>om_DeletionTimestamp := Some (99 * second)\<rparr>\<rparr>"

abbreviation "old_stall \<equiv> stall ''old'' 3 ''/x''"
abbreviation "new_stall \<equiv> stall ''new'' 9 ''/x/''"
abbreviation "both_stalls \<equiv> [new_stall, old_stall]"
abbreviation "calm \<equiv> market_env both_stalls (\<lambda>c. None)"

lemma stalls_held: "held_offer (market both_stalls objects) old_stall" "held_offer (market both_stalls objects) new_stall"
  by (simp_all add: held_offer_def market_def stall_def claim_offer_def Let_def)

subsection \<open>Published and ready\<close>

text \<open>What the controller creates to serve an offer: two routes, a grant and two limits.\<close>

definition own_children :: "(string \<Rightarrow> string) \<Rightarrow> service_offer \<Rightarrow> obj_key list" where
  "own_children h o' =
     [(Route, so_Namespace o', childName h (so_Name o')), (Route, so_Namespace o', hostChildName h (so_Name o')),
      (Grant, ''x402'', backendReferenceGrantName h (so_Namespace o') (so_Name o')),
      (Middleware, so_Namespace o', limitsInFlightMiddlewareName h (so_Name o')),
      (Middleware, so_Namespace o', limitsRPSMiddlewareName h (so_Name o'))]"

lemma absent_own: "absent (route_children h o') w \<Longrightarrow> absent (own_children h o') w"
  by (simp add: absent_def route_children_def own_children_def Let_def)

text \<open>C7: A ready offer was checked, in the pass that says so: its upstream answered its health path, the payment gate is
  up, its path and its routes are not the platform's, no older offer claims its path or hostname and it has not drained;
  the upstream of an agent's offer is that agent, ready and of the same namespace.  An offer whose path is refused or that
  has drained is not published; unless it is an agent's offer, its routes, grant and limits are gone.\<close>

theorem ready_offer_was_checked:
  assumes "held_offer w o'" and "\<not> so_Deleting o'" and "reconcileOffer (offer_queue_key o') env w = (Inr (), w')"
  shows "\<exists>s. map_of (ow_offers w') (offer_id o') = Some (o'\<lparr>so_status := s\<rparr>) \<and>
    (isConditionTrue s ''Ready'' \<longrightarrow> offer_ready s \<and> gate_up w' \<and> (\<exists>o1. sees w o' o1 \<and> answers_health env o1)) \<and>
    (isConditionTrue s ''RoutePublished'' \<longrightarrow> entitled env o') \<and>
    (\<not> entitled env o' \<and> \<not> IsAgent o' \<longrightarrow> absent (own_children (oe_md5 env) o') w')"
proof -
  obtain s where s: "map_of (ow_offers w') (offer_id o') = Some (o'\<lparr>so_status := s\<rparr>)"
    "(\<exists>o1. sees w o' o1 \<and> stands_for env o1 s w') \<or>
      IsAgent o' \<and> \<not> isConditionTrue s ''Ready'' \<and> \<not> isConditionTrue s ''RoutePublished''"
    using live_offer_result [OF assms] unfolding pass_result_def by blast
  show ?thesis
  proof (cases "\<exists>o1. sees w o' o1 \<and> stands_for env o1 s w'")
    case True
    then obtain o1 where o1: "sees w o' o1" "stands_for env o1 s w'" by blast
    then have "entitled env o1 = entitled env o'" "\<not> IsAgent o' \<Longrightarrow> o1 = o'"
      by (auto simp: sees_def Let_def split: if_splits option.splits)
    with o1 s(1) show ?thesis by (auto simp: stands_for_def absent_own)
  qed (use s in auto)
qed

definition condition_of :: "offer_world \<Rightarrow> string \<times> string \<Rightarrow> string \<Rightarrow> bool" where
  "condition_of w k t = (case map_of (ow_offers w) k of None \<Rightarrow> False | Some o' \<Rightarrow> isConditionTrue (so_status o') t)"

definition pass_over :: "service_offer \<Rightarrow> offer_env \<Rightarrow> offer_world \<Rightarrow> (string + unit) \<times> offer_world" where
  "pass_over o' env w = reconcileOffer (offer_queue_key o') env w"

lemma old_stall_opens:
  "case pass_over old_stall calm (market both_stalls []) of
     (r, w') \<Rightarrow> r = Inr () \<and> condition_of w' (''n'', ''old'') ''Ready'' \<and> condition_of w' (''n'', ''old'') ''RoutePublished''"
  by code_simp

lemma ran:
  assumes "case pass_over o' env w of (r, w') \<Rightarrow> r = Inr () \<and> P w'"
  shows "reconcileOffer (offer_queue_key o') env w = (Inr (), snd (pass_over o' env w))" "P (snd (pass_over o' env w))"
  using assms by (cases "pass_over o' env w"; simp add: pass_over_def)+

theorem ready_offer_was_checked_witness:
  "let w' = snd (pass_over old_stall calm (market both_stalls []))
   in condition_of w' (''n'', ''old'') ''Ready'' \<and> gate_up w' \<and> entitled calm old_stall"
proof -
  have k: "offer_id old_stall = (''n'', ''old'')" "\<not> so_Deleting old_stall" by (simp_all add: stall_def claim_offer_def Let_def)
  show ?thesis
    using ready_offer_was_checked [OF stalls_held(1) k(2) ran(1) [OF old_stall_opens]] ran(2) [OF old_stall_opens]
    unfolding k(1) Let_def condition_of_def by auto
qed

text \<open>C8: Two offers are never published on one path.  Take any two passes over offers of the informer's store, at any times
  and with any outcome of the calls: if both leave their offer published, the offers are the same or their paths differ
  (up to a trailing slash).\<close>

theorem published_offers_share_no_path:
  assumes "offer_store (oe_store env)" and "oe_store env2 = oe_store env" and "a \<in> set (oe_store env)" and "b \<in> set (oe_store env)"
    and a: "held_offer w a" "\<not> so_Deleting a" "reconcileOffer (offer_queue_key a) env w = (Inr (), w')"
    and b: "held_offer w2 b" "\<not> so_Deleting b" "reconcileOffer (offer_queue_key b) env2 w2 = (Inr (), w2')"
    and "condition_of w' (offer_id a) ''RoutePublished''" and "condition_of w2' (offer_id b) ''RoutePublished''"
    and "normalizeOfferPath (EffectivePath a) = normalizeOfferPath (EffectivePath b)"
  shows "a = b"
proof -
  have ent: "entitled e x" if "pass_result e v x v'" "condition_of v' (offer_id x) ''RoutePublished''" for e x v v'
    using that by (auto simp: pass_result_def condition_of_def stands_for_def sees_def Let_def split: if_splits option.splits)
  have "pickPathConflict a (oe_store env) = []" "pickPathConflict b (oe_store env) = []"
    using ent [OF live_offer_result [OF a]] ent [OF live_offer_result [OF b]] assms(2,11,12) by (simp_all add: entitled_def)
  with paths.one_owner [OF assms(1,3) a(2), of "normalizeOfferPath (EffectivePath a)"] assms(3,4,13) a(2) b(2)
  show ?thesis by (auto simp: offer_path_def)
qed

lemma new_stall_refused:
  "case pass_over new_stall calm (market both_stalls []) of
     (r, w') \<Rightarrow> r = Inr () \<and> \<not> condition_of w' (''n'', ''new'') ''RoutePublished'' \<and> ow_offerQueue w' = [(''n/new'', 30 * second), (''n/new'', 5 * second)]"
  by code_simp

theorem published_offers_share_no_path_witness:
  "let w1 = snd (pass_over old_stall calm (market both_stalls [])); w2 = snd (pass_over new_stall calm (market both_stalls []))
   in condition_of w1 (''n'', ''old'') ''RoutePublished'' \<and> \<not> condition_of w2 (''n'', ''new'') ''RoutePublished''"
proof -
  have k: "offer_id old_stall = (''n'', ''old'')" "offer_id new_stall = (''n'', ''new'')" "\<not> so_Deleting old_stall" "\<not> so_Deleting new_stall"
    "offer_store (oe_store calm)" "old_stall \<in> set (oe_store calm)" "new_stall \<in> set (oe_store calm)" "old_stall \<noteq> new_stall"
    by (simp_all add: stall_def claim_offer_def Let_def market_env_def offer_store_def same_offer_def)
  have p: "normalizeOfferPath (EffectivePath old_stall) = normalizeOfferPath (EffectivePath new_stall)" by code_simp
  show ?thesis
    using published_offers_share_no_path [OF k(5) refl k(6,7) stalls_held(1) k(3) ran(1) [OF old_stall_opens]
        stalls_held(2) k(4) ran(1) [OF new_stall_refused] _ _ p]
      ran(2) [OF old_stall_opens] k(8)
    unfolding k(1,2) Let_def by blast
qed

subsection \<open>Where routes lead\<close>

definition route_rules :: "goany \<Rightarrow> goany list" where
  "route_rules r = the_default [] (list_value (Option.bind (nested r ''spec'') (\<lambda>s. nested s ''rules'')))"

definition to_gate :: "goany \<Rightarrow> bool" where
  "to_gate rule \<longleftrightarrow> nested rule ''backendRefs'' = Some (backend_ref ''x402-verifier'' ''x402'')"

text \<open>A rule for one exact path, read only, that serves one file of the discovery site.\<close>

definition to_page :: "string list \<Rightarrow> goany \<Rightarrow> bool" where
  "to_page files rule \<longleftrightarrow> nested rule ''backendRefs'' = Some (backend_ref staticSiteConfigMapName staticSiteNamespace) \<and>
     list_ex (\<lambda>f. case list_value (nested rule ''filters'') of Some (x # xs) \<Rightarrow> x = rewrite_filter ''ReplaceFullPath'' ''replaceFullPath'' f | _ \<Rightarrow> False) files \<and>
     (case nested rule ''matches'' of
        Some (GArr [GMap [(k1, GMap [(k2, v), (k3, p)]), (k4, m)]]) \<Rightarrow>
          k1 = ''path'' \<and> k2 = ''type'' \<and> v = GStr ''Exact'' \<and> k4 = ''method'' \<and> m = GStr ''GET''
      | _ \<Rightarrow> False)"

definition own_pages :: "service_offer \<Rightarrow> string list" where
  "own_pages o' = map (\<lambda>f. ''/offers/'' @ so_Namespace o' @ ''/'' @ so_Name o' @ ''/'' @ f)
     [''index.html'', ''openapi.json'', ''x402.json'', ''agent-registration.json'', ''chat.html'']"

text \<open>C10: The routes of an offer never reach its upstream past the payment gate.  Every rule of its route on the shared origin
  and of its route on its own hostname has the payment verifier as its backend, or answers a \<open>GET\<close> of one exact path
  from the discovery site: with a page of the offer's own bundle or with the script that every chat page shares.\<close>

theorem offer_routes_lead_to_the_gate:
  "list_all to_gate (route_rules (buildHTTPRoute h o')) \<and>
   list_all (\<lambda>rule. to_gate rule \<or> to_page (''/chat-vendor.js'' # own_pages o') rule) (route_rules (buildHostHTTPRoute h o')) \<and>
   list_ex to_gate (route_rules (buildHostHTTPRoute h o'))"
proof -
  have rules: "route_rules (buildHTTPRoute h o') = [sharedOriginRule h o']" "route_rules (buildHostHTTPRoute h o') = hostRouteRules h o'"
    by (simp_all add: route_rules_def buildHTTPRoute_def buildHostHTTPRoute_def k8s_object_def nested_def the_default_def)
  have page: "to_page files (exact_get_rule p f extra c) \<longleftrightarrow> f \<in> set files" for files p f extra c
    by (auto simp: to_page_def exact_get_rule_def nested_def path_match_def rewrite_filter_def list_ex_iff)
  show ?thesis unfolding rules
    by (auto simp: to_gate_def sharedOriginRule_def hostRouteRules_def nested_def exactTo_def exactToShared_def page own_pages_def
        offerBundleDir_def)
qed

subsection \<open>Deleted offers and failed passes\<close>

text \<open>C13: A deleted offer goes only with its routes.  A pass over an offer that is being deleted either succeeds, and then no
  route, grant or limit of the offer is left and the offer no longer carries the finalizer that keeps it, or it fails, and
  then the offer is still there with its finalizer, to be tried again.\<close>

theorem deleted_offer_leaves_no_route:
  assumes h: "held_offer w o'" and d: "so_Deleting o'"
  shows "case reconcileOffer (offer_queue_key o') env w of
    (Inr _, w') \<Rightarrow> absent (own_children (oe_md5 env) o') w' \<and>
      (case map_of (ow_offers w') (offer_id o') of None \<Rightarrow> True | Some cur \<Rightarrow> serviceOfferFinalizer \<notin> set (om_Finalizers (so_meta cur)))
  | (Inl e, w') \<Rightarrow> map_of (ow_offers w') (offer_id o') = Some o'"
proof (cases "oe_fail env (GetOffer (so_Namespace o') (so_Name o'))")
  case (Some e)
  with h show ?thesis by (simp add: reconcileOffer_def ask_def held_offer_def split_queue_key and_then_def api_def)
next
  case None
  let ?m = "and_then (reconcileDeletingOffer o') (\<lambda>_. and_then (reconcileStaticSite (Some o')) (\<lambda>_. removeFinalizer o' serviceOfferFinalizer))"
  have r: "reconcileOffer (offer_queue_key o') env w = ?m env w"
    unfolding reconcile_held [OF h None] using h d by (simp add: reconcile_read_def reconcile_deleted_def held_offer_def)
  have k: "keeps ow_objects (reconcileStaticSite (Some o')) env" by (intro keeps_intro) simp
  have g: "gives ?m env w (\<lambda>_ w'. absent (route_children (oe_md5 env) o') w' \<and>
      (case map_of (ow_offers w') (offer_id o') of None \<Rightarrow> True | Some cur \<Rightarrow> serviceOfferFinalizer \<notin> set (om_Finalizers (so_meta cur))))"
    by (rule gives_seq [OF deleting_result], rule gives_seq [OF keeps_absent [OF k]], assumption, rule gives_weaken [OF finalizer_result])
      (simp add: absent_def)
  have "fails_clean ow_offers ?m env"
    unfolding removeFinalizer_def by (intro clean_then keeps_intro clean_finalizers) simp_all
  with g h show ?thesis unfolding r
    by (cases "?m env w") (auto simp: gives_def held_offer_def absent_own dest: fails_cleanD split: sum.splits)
qed

abbreviation "closed_stall \<equiv> closing old_stall"
abbreviation "stale_route \<equiv> (((Route, ''n'', ''so-old''), GMap []) :: obj_key \<times> goany)"

lemma closed_stall_goes:
  "case pass_over closed_stall calm (market [closed_stall] [stale_route]) of
     (r, w') \<Rightarrow> r = Inr () \<and> map_of (ow_offers w') (''n'', ''old'') = None \<and> length (ow_sites w') = 1"
  by code_simp

theorem deleted_offer_leaves_no_route_witness:
  "let w' = snd (pass_over closed_stall calm (market [closed_stall] [stale_route]))
   in map_of (ow_objects w') (Route, ''n'', ''so-old'') = None \<and> map_of (ow_offers w') (''n'', ''old'') = None"
proof -
  have h: "held_offer (market [closed_stall] [stale_route]) closed_stall" "so_Deleting closed_stall"
    by (simp_all add: held_offer_def market_def stall_def claim_offer_def closing_def Let_def)
  have c: "(Route, ''n'', ''so-old'') \<in> set (own_children (oe_md5 calm) closed_stall)" by code_simp
  show ?thesis
    using deleted_offer_leaves_no_route [OF h, of calm] ran [OF closed_stall_goes] c by (simp add: absent_def Let_def)
qed

text \<open>A pass that fails says nothing.  Whatever call of the API server fails, before the discovery site is rebuilt, every
  offer is left as it was: in particular the conditions that the reconciler sets when the apply of a grant, a limit or a
  route fails (reason \<open>ApplyFailed\<close>) never reach the offer's status, which keeps telling of the last pass that ended.\<close>

theorem failed_pass_writes_no_status:
  assumes "held_offer w o'" and "oe_fail env RebuildSite = None" and "reconcileOffer (offer_queue_key o') env w = (Inl e, w')"
  shows "ow_offers w' = ow_offers w"
proof (cases "oe_fail env (GetOffer (so_Namespace o') (so_Name o'))")
  case (Some e)
  with assms(1,3) show ?thesis
    by (auto simp: reconcileOffer_def ask_def held_offer_def split_queue_key and_then_def api_def)
next
  case None
  show ?thesis
    by (rule fails_cleanD [OF clean_reconcile [OF assms(2)]]) (rule assms(3) [unfolded reconcile_held [OF assms(1) None]])
qed

abbreviation "broken \<equiv> market_env both_stalls (\<lambda>c. case c of ApplyObj Route ns n \<Rightarrow> Some ''forbidden'' | _ \<Rightarrow> None)"

lemma old_stall_forbidden: "fst (pass_over old_stall broken (market both_stalls [])) = Inl ''forbidden''"
  by code_simp

theorem failed_pass_writes_no_status_witness:
  "ow_offers (snd (pass_over old_stall broken (market both_stalls []))) = ow_offers (market both_stalls [])"
proof -
  have r: "reconcileOffer (offer_queue_key old_stall) broken (market both_stalls []) =
    (Inl ''forbidden'', snd (pass_over old_stall broken (market both_stalls [])))"
    using old_stall_forbidden by (metis pass_over_def prod.collapse)
  have b: "oe_fail broken RebuildSite = None" by (simp add: market_env_def)
  show ?thesis by (rule failed_pass_writes_no_status [OF stalls_held(1) b r])
qed

subsection \<open>A route of another offer\<close>

lemma short_child: "length n \<le> 240 \<Longrightarrow> childName h (n @ ''-host'') = hostChildName h n"
  by (simp add: childName_def hostChildName_def safeName_def maxK8sNameLen_def Let_def)

text \<open>C27: An offer without a hostname deletes the route of its neighbour.  The name of an offer's host route is the name of the
  main route of the offer that is called the same with \<open>-host\<close> at the end; so whenever an offer without a hostname is
  published, the route of that neighbour in its namespace is gone, although the neighbour may be ready and paid for.\<close>

theorem publishing_deletes_the_neighbours_route:
  assumes "os_Hostname (so_spec o') = []" and "length (so_Name o') \<le> 240"
    and "reconcileRoute o' s env w = (Inr s', w')" and "isConditionTrue s' ''RoutePublished''"
  shows "map_of (ow_objects w') (Route, so_Namespace o', childName (oe_md5 env) (so_Name o' @ ''-host'')) = None"
proof -
  have "gives (reconcileRoute o' s) env w (\<lambda>s' w'. isConditionTrue s' ''RoutePublished'' \<longrightarrow>
      map_of (ow_objects w') (Route, so_Namespace o', hostChildName (oe_md5 env) (so_Name o')) = None)"
    unfolding reconcileRoute_def Let_def
    by (intro gives_ask gives_skip gives_if gives_done gives_seq [OF delete_object_gone]) (auto simp: assms(1) delete_conv')
  from givesD [OF this assms(3)] assms(4) show ?thesis by (simp add: short_child [OF assms(2)])
qed

abbreviation "shop \<equiv> stall ''shop'' 3 ''/shop''"
abbreviation "shop_host \<equiv> stall ''shop-host'' 5 ''/host''"
abbreviation "street \<equiv> market_env [shop, shop_host] (\<lambda>c. None)"
abbreviation "opened \<equiv> snd (pass_over shop_host street (market [shop, shop_host] []))"

lemma shop_host_opens:
  "condition_of opened (''n'', ''shop-host'') ''Ready''" "map_of (ow_objects opened) (Route, ''n'', ''so-shop-host'') \<noteq> None"
  by code_simp+

lemma shop_route:
  "case reconcileRoute shop (so_status shop) street opened of
     (r, w') \<Rightarrow> (case r of Inl e \<Rightarrow> False | Inr s' \<Rightarrow> isConditionTrue s' ''RoutePublished'') \<and> condition_of w' (''n'', ''shop-host'') ''Ready''"
  by code_simp

theorem publishing_deletes_the_neighbours_route_witness:
  "let w' = snd (reconcileRoute shop (so_status shop) street opened)
   in map_of (ow_objects opened) (Route, ''n'', ''so-shop-host'') \<noteq> None \<and> map_of (ow_objects w') (Route, ''n'', ''so-shop-host'') = None \<and>
      condition_of w' (''n'', ''shop-host'') ''Ready''"
proof -
  obtain s' w' where r: "reconcileRoute shop (so_status shop) street opened = (Inr s', w')" "isConditionTrue s' ''RoutePublished''"
    "condition_of w' (''n'', ''shop-host'') ''Ready''"
    using shop_route by (auto split: prod.splits sum.splits)
  have k: "os_Hostname (so_spec shop) = []" "length (so_Name shop) \<le> 240" "so_Namespace shop = ''n''"
    "childName (oe_md5 street) (so_Name shop @ ''-host'') = ''so-shop-host''"
    by (simp_all add: stall_def claim_offer_def Let_def childName_def safeName_def maxK8sNameLen_def)
  show ?thesis using publishing_deletes_the_neighbours_route [OF k(1,2) r(1,2)] shop_host_opens(2) r(1,3) unfolding k(3,4) by simp
qed

end
