(* ===== verification/RegistrationSafety.thy ===== *)
theory RegistrationSafety imports Registrations OfferSafety begin

text \<open>
  What registrations guarantee: the recorded identity of a chain changes only when the chain itself shows the agent, the
  published document tells of the offers that are served and of nothing else, and a request whose network was changed
  is stuck with the transaction of the old one.
\<close>

subsection \<open>Identities\<close>

definition id_key :: "string \<Rightarrow> string" where
  "id_key chain = to_lower (trim_space chain)"

lemma trim_trim: "trim_space (trim_space s) = trim_space s"
proof (cases "trim_space s = []")
  case False
  let ?d = "dropWhile is_space s"
  have d: "?d = trim_space s @ rev (takeWhile is_space (rev ?d))"
    unfolding trim_space_def by (simp flip: rev_append)
  with False have "hd ?d = hd (trim_space s)" by (metis hd_append2)
  moreover have "?d \<noteq> []" using d False by (metis append_is_Nil_conv)
  ultimately have ne: "hd ?d = hd (trim_space s)" "?d \<noteq> []" .
  then have "\<not> is_space (hd (trim_space s))" using hd_dropWhile [OF ne(2)] by simp
  then show ?thesis using False trim_space_last [of s] by (intro trim_space_id) auto
qed simp

lemma find_append: "find P (xs @ ys) = (case find P xs of None \<Rightarrow> find P ys | Some x \<Rightarrow> Some x)"
  by (induction xs) auto

text \<open>Two names of a chain are one when they agree up to case and surrounding space.\<close>

lemma AgentID_find:
  "AgentIdentityAgentIDForChain st c =
     (case find (\<lambda>r. id_key (ir_Chain r) = id_key c \<and> trim_space (ir_AgentID r) \<noteq> []) st of Some r \<Rightarrow> ir_AgentID r | None \<Rightarrow> [])"
  unfolding AgentIdentityAgentIDForChain_def same_chain_def equal_fold_def id_key_def ..

lemma upsert_loop_other:
  "id_key c \<noteq> id_key chain \<Longrightarrow> trim_space chain = chain \<Longrightarrow>
   find (\<lambda>r. id_key (ir_Chain r) = id_key c \<and> trim_space (ir_AgentID r) \<noteq> []) (fst (upsert_loop chain a u st)) =
   find (\<lambda>r. id_key (ir_Chain r) = id_key c \<and> trim_space (ir_AgentID r) \<noteq> []) st"
  by (induction st arbitrary: u) (auto simp: same_chain_def equal_fold_def id_key_def case_prod_beta)

lemma upsert_loop_same:
  assumes "trim_space chain = chain" "trim_space a = a" "a \<noteq> []"
  shows "snd (upsert_loop chain a u st) = (u \<or> list_ex (same_chain chain) st)"
    "find (\<lambda>r. id_key (ir_Chain r) = id_key chain \<and> trim_space (ir_AgentID r) \<noteq> []) (fst (upsert_loop chain a u st)) =
     (if \<not> u then map_option (\<lambda>r. r\<lparr>ir_Chain := chain, ir_AgentID := a\<rparr>) (find (same_chain chain) st) else None)"
  using assms by (induction st arbitrary: u) (auto simp: same_chain_def equal_fold_def id_key_def case_prod_beta)

lemma upsert_agent:
  "AgentIdentityAgentIDForChain (UpsertAgentIdentityRegistration st chain a) c =
     (if trim_space chain \<noteq> [] \<and> trim_space a \<noteq> [] \<and> id_key c = id_key chain then trim_space a else AgentIdentityAgentIDForChain st c)"
proof (cases "trim_space chain = [] \<or> trim_space a = []")
  case True
  then show ?thesis by (auto simp: UpsertAgentIdentityRegistration_def)
next
  case False
  let ?c = "trim_space chain" and ?a = "trim_space a"
  have up: "UpsertAgentIdentityRegistration st chain a =
      (if snd (upsert_loop ?c ?a False st) then fst (upsert_loop ?c ?a False st)
       else fst (upsert_loop ?c ?a False st) @ [\<lparr>ir_Chain = ?c, ir_AgentID = ?a\<rparr>])"
    using False by (simp add: UpsertAgentIdentityRegistration_def Let_def case_prod_beta)
  have k: "id_key ?c = id_key chain" by (simp add: id_key_def trim_trim)
  note same = upsert_loop_same [where chain = ?c and a = ?a and u = False and st = st, OF trim_trim trim_trim]
  show ?thesis
  proof (cases "id_key c = id_key chain")
    case True
    show ?thesis
    proof (cases "find (same_chain ?c) st")
      case None
      then have "\<not> list_ex (same_chain ?c) st" by (simp add: find_None_iff list_ex_iff)
      with None True False same show ?thesis unfolding up AgentID_find by (simp add: k trim_trim find_append)
    next
      case (Some r)
      then have "list_ex (same_chain ?c) st" by (auto simp: find_Some_iff list_ex_iff)
      with Some True False same show ?thesis unfolding up AgentID_find by (simp add: k)
    qed
  next
    case other: False
    with upsert_loop_other [of c ?c ?a False st] show ?thesis
      unfolding up AgentID_find by (auto simp: k trim_trim find_append split: option.splits)
  qed
qed

subsection \<open>What a step leaves\<close>

definition leaves :: "(offer_world \<Rightarrow> 'b) \<Rightarrow> 'a step \<Rightarrow> offer_env \<Rightarrow> offer_world \<Rightarrow> ('b \<Rightarrow> bool) \<Rightarrow> bool" where
  "leaves f m env w P \<longleftrightarrow> P (f (snd (m env w)))"

lemma leaves_keeps: "keeps f m env \<Longrightarrow> P (f w) \<Longrightarrow> leaves f m env w P"
  by (simp add: leaves_def keeps_def)

lemma leaves_then:
  assumes "keeps f m env" "P (f w)" "\<And>x w1. f w1 = f w \<Longrightarrow> leaves f (g x) env w1 P"
  shows "leaves f (and_then m g) env w P"
  using assms unfolding leaves_def keeps_def and_then_def
  by (cases "m env w"; cases "fst (m env w)") (auto, (metis snd_conv)+)

lemma leaves_ask: "leaves f (g env) env w P \<Longrightarrow> leaves f (ask g) env w P"
  by (simp add: leaves_def ask_def)

lemma leaves_first:
  assumes "leaves f m env w P" "\<And>x. keeps f (g x) env"
  shows "leaves f (and_then m g) env w P"
  using assms unfolding leaves_def keeps_def and_then_def
  by (cases "m env w"; cases "fst (m env w)") auto

lemma leaves_at: "m env w = (Inr x, w1) \<Longrightarrow> leaves f (g x) env w1 P \<Longrightarrow> leaves f (and_then m g) env w P"
  by (simp add: leaves_def and_then_def)

lemma leaves_if: "(b \<Longrightarrow> leaves f m env w P) \<Longrightarrow> (\<not> b \<Longrightarrow> leaves f m' env w P) \<Longrightarrow> leaves f (if b then m else m') env w P"
  by simp

lemma keeps_create [keeps_intro]: "(\<And>w xs. f (w\<lparr>ow_objects := xs\<rparr>) = f w) \<Longrightarrow> keeps f (applyIdentityChildObject k ns n obj) env"
  unfolding applyIdentityChildObject_def by (intro keeps_intro) simp_all

lemma keeps_publish [keeps_intro]: "(\<And>w xs. f (w\<lparr>ow_objects := xs\<rparr>) = f w) \<Longrightarrow> keeps f (publish_document re st os url) env"
  unfolding publish_document_def publishAgentIdentityRegistrationResources_def Let_def by (intro keeps_intro)

lemma keeps_resources [keeps_intro]: "(\<And>w xs. f (w\<lparr>ow_objects := xs\<rparr>) = f w) \<Longrightarrow> keeps f (deleteRegistrationResources r) env"
  unfolding deleteRegistrationResources_def Let_def by (intro keeps_intro)

lemma keeps_present [keeps_intro]: "(\<And>obj. keeps f (g obj) env) \<Longrightarrow> keeps f (present_or k ns n msg g) env"
  unfolding present_or_def by (intro keeps_intro)

lemma keeps_resources_ready [keeps_intro]: "keeps f (identityRegistrationResourcesReady re) env"
  unfolding identityRegistrationResourcesReady_def Let_def by (intro keeps_intro)

lemma keeps_request_status [keeps_intro]:
  "(\<And>w xs. f (w\<lparr>ow_requests := xs\<rparr>) = f w) \<Longrightarrow> keeps f (updateRegistrationStatus r s) env"
  unfolding updateRegistrationStatus_def Let_def by (intro keeps_intro) (simp split: option.split)

lemma identity_found: "ow_identity w = Some st \<Longrightarrow> attempt ensureAgentIdentity env w =
    (Inr (case oe_fail env GetIdentity of Some e \<Rightarrow> Inl e | None \<Rightarrow> Inr st), w)"
  by (simp add: attempt_def ensureAgentIdentity_def and_then_def api_def done_with_def split: option.split)

subsection \<open>Only the chain makes an identity\<close>

text \<open>
  What the registry of a network shows for a request: the id of the newest event of its owner with the published document
  whose agent the owner still holds; or, when the request has a transaction, the id that its receipt registers.
\<close>

definition chain_shows :: "chain_client \<Rightarrow> registration_request_status \<Rightarrow> string \<Rightarrow> string \<Rightarrow> bool" where
  "chain_shows c s url agent \<longleftrightarrow>
     (if trim_space (rs_RegistrationTxHash s) \<noteq> []
      then \<exists>i tx. FindRegistrationByTxHash c (trim_space (rs_RegistrationTxHash s)) = Inr (Some (i, tx)) \<and> agent = show_int i
      else \<exists>logs l reg. cc_filterLogs c (cc_hexToAddress c (rs_RegistrationOwner s)) (rs_RegistrationSearchFromBlock s) = Inr logs \<and>
        find (live_event c (cc_hexToAddress c (rs_RegistrationOwner s)) (trim_space url)) (rev logs) = Some l \<and>
        parseRegisteredLog c l = Inr reg \<and> agent = show_int (rd_AgentID reg))"

lemma recover_shows:
  assumes "recoverRegistration c s = Inr (Some (agent, tx))"
  shows "chain_shows c s (rs_RegistrationURI s) agent"
proof (cases "trim_space (rs_RegistrationTxHash s) = []")
  case False
  with assms show ?thesis
    by (auto simp: recoverRegistration_def chain_shows_def found_text_def split: sum.splits find_error.splits)
next
  case True
  with assms obtain i where "FindRegistrationByOwnerAndURI c (cc_hexToAddress c (rs_RegistrationOwner s)) (rs_RegistrationURI s)
      (rs_RegistrationSearchFromBlock s) = Inr (Some (i, tx))" "agent = show_int i"
    by (auto simp: recoverRegistration_def found_text_def split: sum.splits find_error.splits if_splits)
  with True show ?thesis
    by (auto simp: chain_shows_def FindRegistrationByOwnerAndURI_def split: sum.splits dest!: scan_first)
qed

lemma ask_shows:
  assumes "ask_chain re env o' chain s = Recovered agent tx"
  shows "\<exists>net c. ResolveNetwork (oe_quote env) chain = Inr net \<and> re_connect re net = Inr c \<and> search_current o' s \<and>
    chain_shows c s (rs_PublishedURL s) agent"
  using assms recover_shows
  by (auto simp: ask_chain_def recovered_or_def search_current_def split: sum.splits if_splits option.splits) metis+

lemma recorded_identity:
  assumes "ow_identity w = Some stored" "P (Some stored)" "P (Some (agentIdentityStatusFromRegistration identity chain agent))"
  shows "leaves ow_identity (record_agent r stored identity chain agent tx s) env w P"
  unfolding record_agent_def
proof (rule leaves_if)
  show "leaves ow_identity (updateRegistrationStatus r (recorded agent tx s)) env w P"
    using assms(1,2) by (intro leaves_keeps keeps_intro) simp_all
  let ?up = "updateAgentIdentityStatus stored (agentIdentityStatusFromRegistration identity chain agent)"
  have "leaves ow_identity ?up env w P"
    using assms by (auto simp: updateAgentIdentityStatus_def leaves_def done_with_def api_def set_identity_def split: option.split)
  then show "leaves ow_identity (and_then ?up (\<lambda>_. and_then (world_step enqueueAgentIdentityKey) (\<lambda>_. updateRegistrationStatus r (recorded agent tx s)))) env w P"
    by (rule leaves_first) (intro keeps_intro, simp_all add: enqueueAgentIdentityKey_def)
qed

text \<open>A pass over an active request ends in a status that keeps its search, in \<open>watch_chain\<close> or in \<open>record_agent\<close>.\<close>

definition same_search :: "registration_request_status \<Rightarrow> registration_request_status \<Rightarrow> bool" where
  "same_search s s' \<longleftrightarrow> rs_RegistrationTxHash s = rs_RegistrationTxHash s' \<and> rs_RegistrationURI s = rs_RegistrationURI s' \<and>
     rs_RegistrationOwner s = rs_RegistrationOwner s' \<and> rs_RegistrationSearchFromBlock s = rs_RegistrationSearchFromBlock s'"

lemma leaves_active:
  fixes f :: "offer_world \<Rightarrow> 'b" and r o' stored baseURL
  defines "chain \<equiv> firstNonEmpty [rq_Chain (rr_spec r), op_Network (os_Payment (so_spec o'))]"
  defines "agent \<equiv> AgentIdentityAgentIDForChain stored chain"
  defines "identity \<equiv> agentIdentityStatusFromRegistration stored chain agent"
  defines "s \<equiv> (rr_status r)\<lparr>rs_PublishedURL := published_url baseURL\<rparr>"
  assumes st: "ow_identity w = Some stored" and same: "P (f w)" and obj: "\<And>w xs. f (w\<lparr>ow_objects := xs\<rparr>) = f w"
    and status: "\<And>x w1. f w1 = f w \<Longrightarrow> same_search x (rr_status r) \<Longrightarrow> leaves f (updateRegistrationStatus r x) env w1 P"
    and watch: "\<And>w1. f w1 = f w \<Longrightarrow> agent = [] \<Longrightarrow> leaves f (watch_chain re r o' stored identity chain s) env w1 P"
    and recorded: "\<And>w1 tx. f w1 = f w \<Longrightarrow> agent \<noteq> [] \<Longrightarrow> leaves f (record_agent r stored identity chain agent tx s) env w1 P"
  shows "leaves f (reconcileRegistrationActive re r o' baseURL) env w P"
proof -
  have kept: "same_search (s\<lparr>rs_Phase := p, rs_Message := msg\<rparr>) (rr_status r)" for p msg by (simp add: same_search_def s_def)
  have tail: "leaves f (case waiting of Some msg \<Rightarrow> updateRegistrationStatus r (s\<lparr>rs_Phase := ''Publishing'', rs_Message := msg\<rparr>)
      | None \<Rightarrow> if agent = [] then watch_chain re r o' stored identity chain s else record_agent r stored identity chain agent tx s) env w1 P"
    if "f w1 = f w" for waiting tx w1
    by (cases waiting) (simp_all add: status that watch recorded kept)
  note publish = keeps_publish [where f = f, OF obj] and delete = keeps_resources [where f = f, OF obj]
  show ?thesis
    unfolding reconcileRegistrationActive_def
    apply (rule leaves_ask, rule leaves_at, rule identity_found [OF st], cases "oe_fail env GetIdentity")
     apply (simp only: option.case sum.case Let_def)
     apply (fold chain_def, fold agent_def, fold identity_def, fold s_def)
     apply (rule leaves_then [where P = P, OF publish], simp add: same)
     apply (rule leaves_then [where P = P, OF delete], simp add: same)
     apply (rule leaves_then [where P = P, OF keeps_resources_ready], simp add: same)
     apply (rule tail, simp)
    apply (simp only: option.case sum.case, rule status, simp, simp add: same_search_def awaiting_def)
    done
qed

text \<open>C11: A recorded agent changes only by what the chain shows.  A pass over an active registration request, whatever of it
  fails, leaves the identity's agent of every chain as it was (up to surrounding space), except one: the agent of the
  request's own chain, when none was recorded, becomes an id that the registry of that network shows, and only for a
  request whose search is for the offer's payee and the published document.  If the request has no transaction, that is the
  id in the newest event, of those that the node returns, that registers this document for this owner and whose agent the
  owner still holds.  If it has one, it is the id that the receipt of this transaction shows as registered: neither the
  owner nor the document nor the present holder is compared.\<close>

theorem identity_only_from_the_chain:
  assumes st: "ow_identity w = Some stored"
  shows "\<exists>now. ow_identity (snd (reconcileRegistrationActive re r o' baseURL env w)) = Some now \<and>
    (\<forall>c. trim_space (AgentIdentityAgentIDForChain now c) = trim_space (AgentIdentityAgentIDForChain stored c) \<or>
      (let chain = firstNonEmpty [rq_Chain (rr_spec r), op_Network (os_Payment (so_spec o'))]
       in id_key c = id_key chain \<and> AgentIdentityAgentIDForChain stored chain = [] \<and>
          search_current o' ((rr_status r)\<lparr>rs_PublishedURL := published_url baseURL\<rparr>) \<and>
          (\<exists>net client agent. ResolveNetwork (oe_quote env) chain = Inr net \<and> re_connect re net = Inr client \<and>
             chain_shows client (rr_status r) (published_url baseURL) agent \<and> AgentIdentityAgentIDForChain now c = trim_space agent)))"
    (is "\<exists>now. _ = Some now \<and> ?P now")
proof -
  let ?chain = "firstNonEmpty [rq_Chain (rr_spec r), op_Network (os_Payment (so_spec o'))]"
  let ?agent = "AgentIdentityAgentIDForChain stored ?chain"
  let ?identity = "agentIdentityStatusFromRegistration stored ?chain ?agent"
  let ?s = "(rr_status r)\<lparr>rs_PublishedURL := published_url baseURL\<rparr>"
  let ?Q = "\<lambda>i. \<exists>now. i = Some now \<and> ?P now"
  have same: "?Q (Some stored)" by blast
  have kept: "?Q (Some (agentIdentityStatusFromRegistration ?identity ?chain ?agent))"
    by (auto simp: agentIdentityStatusFromRegistration_def upsert_agent trim_trim AgentID_find [of stored] cong: conj_cong)
  have found: "leaves ow_identity (record_agent r stored ?identity ?chain agent tx ?s) env w1 ?Q"
    if w1: "ow_identity w1 = Some stored" and n: "?agent = []" and ask: "ask_chain re env o' ?chain ?s = Recovered agent tx" for w1 agent tx
  proof (rule recorded_identity [where P = ?Q, OF w1 same])
    have "chain_shows c ?s u agent = chain_shows c (rr_status r) u agent" for c u by (simp add: chain_shows_def)
    with ask_shows [OF ask] obtain net client where "ResolveNetwork (oe_quote env) ?chain = Inr net" "re_connect re net = Inr client"
      "chain_shows client (rr_status r) (published_url baseURL) agent" "search_current o' ?s" by auto
    then show "?Q (Some (agentIdentityStatusFromRegistration ?identity ?chain agent))"
      using n by (auto simp: agentIdentityStatusFromRegistration_def upsert_agent)
  qed
  have watch: "leaves ow_identity (watch_chain re r o' stored ?identity ?chain ?s) env w1 ?Q" if "ow_identity w1 = Some stored" "?agent = []" for w1
    unfolding watch_chain_def
    by (rule leaves_ask, cases "ask_chain re env o' ?chain ?s")
      (use that same found in \<open>auto intro!: leaves_keeps keeps_intro\<close>)
  have recorded: "leaves ow_identity (record_agent r stored ?identity ?chain ?agent tx ?s) env w1 ?Q" if "ow_identity w1 = Some stored" for w1 tx
    by (rule recorded_identity [where P = ?Q, OF that same kept])
  have "leaves ow_identity (reconcileRegistrationActive re r o' baseURL) env w ?Q"
  proof (rule leaves_active [where P = ?Q and f = ow_identity, OF st])
    show "leaves ow_identity (updateRegistrationStatus r x) env w1 ?Q" if "ow_identity w1 = ow_identity w" for x w1
      by (intro leaves_keeps keeps_intro) (use that st same in simp_all)
  qed (use st same watch recorded in simp_all)
  then show ?thesis unfolding leaves_def .
qed


text \<open>A sample chain: one registration of the document by the owner, whose receipt another chain would not know.\<close>

definition sample_event :: eth_log where
  "sample_event = \<lparr>el_Topics = [''Registered'', ''four'', ''0xaa''], el_Data = published_url ''u'', el_TxHash = ''0xt''\<rparr>"

definition sample_chain :: chain_client where
  "sample_chain = \<lparr>cc_eventID = ''Registered'', cc_unpack = Inr, cc_bigint = (\<lambda>s. int (length s)), cc_bytesToAddress = (\<lambda>s. s),
     cc_hexToAddress = (\<lambda>s. s), cc_addressHex = (\<lambda>s. s), cc_hexToHash = (\<lambda>s. s), cc_hashHex = (\<lambda>s. s),
     cc_filterLogs = (\<lambda>owner b. Inr [sample_event]), cc_receipt = (\<lambda>h. ReceiptMissing), cc_ownerOf = (\<lambda>i. Inr ''0xaa''),
     cc_blockNumber = Inr 5000\<rparr>"

definition sample_registrar :: reg_env where
  "sample_registrar = \<lparr>re_baseURLOverride = ''u'', re_defaultBaseURL = [], re_marshal = (\<lambda>d. ar_Name d), re_connect = (\<lambda>n. Inr sample_chain),
     re_identity = \<lparr>im_Name = ''default'', im_Namespace = ''x402'', im_UID = []\<rparr>\<rparr>"

definition sample_status :: "string \<Rightarrow> registration_request_status" where
  "sample_status tx = \<lparr>rs_Phase = ''AwaitingExternalRegistration'', rs_Message = [], rs_PublishedURL = [], rs_AgentID = [],
     rs_RegistrationTxHash = tx, rs_RegistrationOwner = ''0xaa'', rs_RegistrationURI = published_url ''u'',
     rs_RegistrationSearchFromBlock = 7, rs_MetadataSynced = False\<rparr>"

definition chain_request :: "string \<Rightarrow> registration_request" where
  "chain_request tx = \<lparr>rr_meta = (so_meta (stall ''old'' 3 ''/x''))\<lparr>om_Name := ''reg''\<rparr>,
     rr_spec = \<lparr>rq_ServiceOfferName = ''old'', rq_ServiceOfferNamespace = ''n'', rq_DesiredState = ''Active'', rq_Chain = ''base''\<rparr>,
     rr_status = sample_status tx\<rparr>"

definition chain_offer :: service_offer where
  "chain_offer = (let o' = stall ''old'' 3 ''/x'' in o'\<lparr>so_spec := so_spec o'\<lparr>os_Payment := (os_Payment (so_spec o'))\<lparr>op_PayTo := ''0xAA''\<rparr>\<rparr>\<rparr>)"

definition registry_objects :: "(obj_key, goany) gomap" where
  "registry_objects = [((Deployment, ''x402'', agentIdentityRegistrationName (\<lambda>s. ''0123456789abcdef'') (re_identity sample_registrar)),
     GMap [(''status'', GMap [(''availableReplicas'', GInt64 1)])])]"

fun upkeep :: "goany option \<Rightarrow> goany \<Rightarrow> goany" where
  "upkeep (Some (GMap m)) (GMap n) = GMap (n @ m)"
| "upkeep old v = accepting old v"

definition registry_env :: offer_env where
  "registry_env = (market_env [chain_offer] (\<lambda>c. None))\<lparr>oe_merge := upkeep\<rparr>"

definition registry_world :: "string \<Rightarrow> offer_world" where
  "registry_world tx = (market [chain_offer] registry_objects)\<lparr>ow_identity := Some [],
     ow_requests := [((''n'', ''reg''), chain_request tx)]\<rparr>"

lemma sample_recovery:
  "case reconcileRegistrationActive sample_registrar (chain_request []) chain_offer ''u'' registry_env (registry_world []) of
     (r, w') \<Rightarrow> r = Inr () \<and> ow_identity w' = Some [\<lparr>ir_Chain = ''base'', ir_AgentID = ''4''\<rparr>]"
  by code_simp

theorem identity_only_from_the_chain_witness:
  "AgentIdentityAgentIDForChain [\<lparr>ir_Chain = ''base'', ir_AgentID = ''4''\<rparr>] ''Base'' = ''4'' \<and>
   (\<exists>client agent. chain_shows client (sample_status []) (published_url ''u'') agent \<and> trim_space agent = ''4'')"
proof -
  have now: "ow_identity (snd (reconcileRegistrationActive sample_registrar (chain_request []) chain_offer ''u'' registry_env (registry_world [])))
      = Some [\<lparr>ir_Chain = ''base'', ir_AgentID = ''4''\<rparr>]"
    using sample_recovery by (auto split: prod.splits)
  have four: "AgentIdentityAgentIDForChain [\<lparr>ir_Chain = ''base'', ir_AgentID = ''4''\<rparr>] ''Base'' = ''4''" "trim_space ''4'' = ''4''"
    "AgentIdentityAgentIDForChain [] ''Base'' = []" by code_simp+
  have st: "ow_identity (registry_world []) = Some []" "rr_status (chain_request []) = sample_status []"
    by (simp_all add: registry_world_def chain_request_def)
  show ?thesis
    using identity_only_from_the_chain [OF st(1), of sample_registrar "chain_request []" chain_offer "''u''" registry_env] four
    unfolding now st(2) Let_def by (auto dest!: spec [of _ "''Base''"]) (metis)
qed


subsection \<open>A transaction of another chain\<close>

text \<open>
  An active request of a chain for which no agent is recorded, whose status still has a transaction that this chain does not
  know (the one that registered the agent on the network the offer had before), with owner and document unchanged.
\<close>

definition lost_transaction :: "reg_env \<Rightarrow> service_offer \<Rightarrow> string \<Rightarrow> string \<times> string \<Rightarrow> offer_world \<Rightarrow> bool" where
  "lost_transaction re o' baseURL k w \<longleftrightarrow>
     (\<exists>r stored. map_of (ow_requests w) k = Some r \<and> (om_Namespace (rr_meta r), om_Name (rr_meta r)) = k \<and> ow_identity w = Some stored \<and>
        (let chain = firstNonEmpty [rq_Chain (rr_spec r), op_Network (os_Payment (so_spec o'))]; s = rr_status r
         in AgentIdentityAgentIDForChain stored chain = [] \<and> trim_space (rs_RegistrationTxHash s) \<noteq> [] \<and>
            search_current o' (s\<lparr>rs_PublishedURL := published_url baseURL\<rparr>) \<and>
            (\<forall>net c. ResolveNetwork (\<lambda>x. x) chain = Inr net \<and> re_connect re net = Inr c \<longrightarrow>
               FindRegistrationByTxHash c (trim_space (rs_RegistrationTxHash s)) = Inr None)))"

text \<open>One pass over the request, as the store has it, and any number of passes with any outcome of their calls.\<close>

definition active_pass :: "reg_env \<Rightarrow> service_offer \<Rightarrow> string \<Rightarrow> string \<times> string \<Rightarrow> unit step" where
  "active_pass re o' baseURL k = and_then (get_request (fst k) (snd k))
     (\<lambda>found. case found of None \<Rightarrow> done_with () | Some r \<Rightarrow> reconcileRegistrationActive re r o' baseURL)"

definition active_passes :: "reg_env \<Rightarrow> service_offer \<Rightarrow> string \<Rightarrow> string \<times> string \<Rightarrow> offer_env list \<Rightarrow> offer_world \<Rightarrow> offer_world" where
  "active_passes re o' baseURL k = fold (\<lambda>env w. snd (active_pass re o' baseURL k env w))"

lemma resolve_quote: "ResolveNetwork quote chain = Inr net \<Longrightarrow> ResolveNetwork quote' chain = Inr net"
  by (auto simp: ResolveNetwork_def Let_def split: if_splits)

text \<open>What the steps see of the world, and what holds after every pass.\<close>

definition request_view :: "string \<times> string \<Rightarrow> offer_world \<Rightarrow> identity_status option \<times> registration_request option" where
  "request_view k w = (ow_identity w, map_of (ow_requests w) k)"

lemma request_written:
  assumes "map_of (ow_requests w) k = Some r" "(om_Namespace (rr_meta r), om_Name (rr_meta r)) = k" "ow_identity w = i" "P (i, Some r)"
    "P (i, Some (r\<lparr>rr_status := x\<rparr>))"
  shows "leaves (request_view k) (updateRegistrationStatus r x) env w P"
  using assms unfolding leaves_def updateRegistrationStatus_def request_view_def
  by (auto simp: done_with_def api_def Let_def update_conv' split: option.split)

lemma unknown_transaction:
  assumes "trim_space (rs_RegistrationTxHash s) \<noteq> []" "search_current o' s"
    and "\<And>net c. ResolveNetwork (\<lambda>x. x) chain = Inr net \<Longrightarrow> re_connect re net = Inr c \<Longrightarrow>
      FindRegistrationByTxHash c (trim_space (rs_RegistrationTxHash s)) = Inr None"
  shows "\<exists>msg. ask_chain re env o' chain s = StoreStatus (awaiting msg s)"
  using assms resolve_quote [of "oe_quote env" chain _ "\<lambda>x. x"]
  by (auto simp: ask_chain_def recovered_or_def recoverRegistration_def split: sum.splits)

lemma lost_pass:
  assumes "lost_transaction re o' baseURL k w"
  shows "lost_transaction re o' baseURL k (snd (active_pass re o' baseURL k env w))"
proof -
  let ?f = "request_view k"
  let ?P = "\<lambda>v. \<exists>w. v = ?f w \<and> lost_transaction re o' baseURL k w"
  obtain r stored where r: "map_of (ow_requests w) k = Some r" "(om_Namespace (rr_meta r), om_Name (rr_meta r)) = k" "ow_identity w = Some stored"
    and lost: "let chain = firstNonEmpty [rq_Chain (rr_spec r), op_Network (os_Payment (so_spec o'))]; s = rr_status r
         in AgentIdentityAgentIDForChain stored chain = [] \<and> trim_space (rs_RegistrationTxHash s) \<noteq> [] \<and>
            search_current o' (s\<lparr>rs_PublishedURL := published_url baseURL\<rparr>) \<and>
            (\<forall>net c. ResolveNetwork (\<lambda>x. x) chain = Inr net \<and> re_connect re net = Inr c \<longrightarrow>
               FindRegistrationByTxHash c (trim_space (rs_RegistrationTxHash s)) = Inr None)"
    using assms unfolding lost_transaction_def by blast
  let ?chain = "firstNonEmpty [rq_Chain (rr_spec r), op_Network (os_Payment (so_spec o'))]"
  have written: "leaves ?f (updateRegistrationStatus r x) env w1 ?P" if "?f w1 = ?f w" "same_search x (rr_status r)" for x w1
  proof (rule request_written)
    show "map_of (ow_requests w1) k = Some r" "(om_Namespace (rr_meta r), om_Name (rr_meta r)) = k" "ow_identity w1 = Some stored"
      using that r by (simp_all add: request_view_def)
    show "?P (Some stored, Some r)" by (rule exI [of _ w]) (use assms r in \<open>simp add: request_view_def\<close>)
    let ?w = "w\<lparr>ow_requests := AList.update k (r\<lparr>rr_status := x\<rparr>) (ow_requests w)\<rparr>"
    have "lost_transaction re o' baseURL k ?w"
      using r lost that(2) by (auto simp: lost_transaction_def same_search_def search_current_def Let_def update_conv' simp del: firstNonEmpty.simps)
    moreover have "(Some stored, Some (r\<lparr>rr_status := x\<rparr>)) = ?f ?w" using r by (simp add: request_view_def update_conv')
    ultimately show "?P (Some stored, Some (r\<lparr>rr_status := x\<rparr>))" by blast
  qed
  let ?s = "(rr_status r)\<lparr>rs_PublishedURL := published_url baseURL\<rparr>"
  have asked: "\<exists>msg. ask_chain re env o' ?chain ?s = StoreStatus (awaiting msg ?s)"
    by (rule unknown_transaction) (use lost in \<open>simp_all add: Let_def del: firstNonEmpty.simps\<close>)
  have "leaves ?f (reconcileRegistrationActive re r o' baseURL) env w ?P"
  proof (rule leaves_active [where P = ?P and f = ?f, OF r(3)])
    show "?P (?f w)" using assms by blast
    show "?f (v\<lparr>ow_objects := xs\<rparr>) = ?f v" for v xs by (simp add: request_view_def)
    show "leaves ?f (watch_chain re r o' stored i ?chain ?s) env w1 ?P" if "?f w1 = ?f w" for i w1
      using asked written [OF that] by (auto simp: watch_chain_def same_search_def awaiting_def intro!: leaves_ask)
  qed (use written lost in \<open>auto simp: Let_def simp del: firstNonEmpty.simps\<close>)
  then have "?P (?f (snd (active_pass re o' baseURL k env w)))"
    using assms r unfolding leaves_def active_pass_def get_request_def and_then_def api_def
    by (cases "oe_fail env (GetRequest (fst k) (snd k))") auto
  then obtain v where "?f v = ?f (snd (active_pass re o' baseURL k env w))" "lost_transaction re o' baseURL k v" by metis
  then show ?thesis by (simp add: lost_transaction_def request_view_def)
qed

text \<open>C30: A transaction of another chain is never given up.  Take a request of a chain for which no agent is recorded, whose
  status keeps a transaction that this chain does not know, while the owner and the document that it searches for are the
  offer's payee and the URL published under the base URL (the network of the offer was changed, its payee and address were
  not).  Then no number of passes with this base URL, whatever fails in them, records an agent for the chain, clears the
  transaction or changes what is searched for: the request is as stuck as before.\<close>

theorem network_switch_is_stuck:
  assumes "lost_transaction re o' baseURL k w"
  shows "lost_transaction re o' baseURL k (active_passes re o' baseURL k envs w)"
  using assms by (induction envs arbitrary: w) (simp_all add: active_passes_def lost_pass)

theorem network_switch_is_stuck_witness:
  "lost_transaction sample_registrar chain_offer ''u'' (''n'', ''reg'')
     (active_passes sample_registrar chain_offer ''u'' (''n'', ''reg'') [registry_env, registry_env] (registry_world ''0xold'')) \<and>
   FindRegistrationByOwnerAndURI sample_chain ''0xaa'' (published_url ''u'') 7 = Inr (Some (4, ''0xt''))"
proof
  have "AgentIdentityAgentIDForChain [] c = []" for c by (simp add: AgentID_find)
  moreover have "search_current chain_offer ((sample_status ''0xold'')\<lparr>rs_PublishedURL := published_url ''u''\<rparr>)" by code_simp
  moreover have "trim_space ''0xold'' = ''0xold''" by code_simp
  ultimately have "lost_transaction sample_registrar chain_offer ''u'' (''n'', ''reg'') (registry_world ''0xold'')"
    by (simp add: lost_transaction_def registry_world_def chain_request_def sample_registrar_def sample_chain_def Let_def
        FindRegistrationByTxHash_def stall_def claim_offer_def sample_status_def zero_hash_def)
  then show "lost_transaction sample_registrar chain_offer ''u'' (''n'', ''reg'')
     (active_passes sample_registrar chain_offer ''u'' (''n'', ''reg'') [registry_env, registry_env] (registry_world ''0xold''))"
    by (rule network_switch_is_stuck)
  show "FindRegistrationByOwnerAndURI sample_chain ''0xaa'' (published_url ''u'') 7 = Inr (Some (4, ''0xt''))" by code_simp
qed


subsection \<open>The published document\<close>

lemma resolved_regs_set:
  "set (resolved_regs rs) = {\<lparr>oc_AgentID = parseInt64 (ir_AgentID r), oc_AgentRegistry = CAIP10Registry net\<rparr> | r net.
     r \<in> set rs \<and> ResolveNetwork (\<lambda>s. s) (ir_Chain r) = Inr net}"
  by (induction rs) (auto split: sum.split)

lemma document_registrations:
  "set (ar_Registrations (BuildIdentityRegistrationDocument now im status offers url)) =
     {\<lparr>oc_AgentID = parseInt64 (ir_AgentID r), oc_AgentRegistry = CAIP10Registry net\<rparr> | r net.
       r \<in> set status \<and> trim_space (ir_AgentID r) \<noteq> [] \<and> ResolveNetwork (\<lambda>s. s) (ir_Chain r) = Inr net}"
proof -
  have "trim_space (ir_Chain r) \<noteq> []" if "ResolveNetwork (\<lambda>s. s) (ir_Chain r) = Inr net" for r net
    using that by (auto simp: ResolveNetwork_def)
  then show ?thesis
    by (auto simp: BuildIdentityRegistrationDocument_def buildIdentityOnChainRegistrations_def resolved_regs_set Let_def
        split: option.split prod.split)
qed

lemma no_owner: "selectRegistrationOwner os = None \<longleftrightarrow> os = []"
proof -
  have "sort_by offer_older os = [] \<longleftrightarrow> os = []" by (metis set_empty set_sort_by)
  then show ?thesis by (auto simp: selectRegistrationOwner_def split: list.split)
qed

lemma document_parts:
  fixes now offers url
  defines "p \<equiv> filterPublishedOffers now offers"
  shows "ar_Services (BuildIdentityRegistrationDocument now im status offers url) =
      buildIdentityRegistrationServices now p (trim_right_slashes url)"
    "ar_Active (BuildIdentityRegistrationDocument now im status offers url) = (p \<noteq> [])"
    "ar_X402Support (BuildIdentityRegistrationDocument now im status offers url) = (p \<noteq> [])"
proof -
  have none: "buildIdentityRegistrationServices now [] u = []" for u by (simp add: buildIdentityRegistrationServices_def)
  show "ar_Services (BuildIdentityRegistrationDocument now im status offers url) =
      buildIdentityRegistrationServices now p (trim_right_slashes url)"
    "ar_Active (BuildIdentityRegistrationDocument now im status offers url) = (p \<noteq> [])"
    "ar_X402Support (BuildIdentityRegistrationDocument now im status offers url) = (p \<noteq> [])"
    using no_owner [of p] none
    by (cases "selectRegistrationOwner p"; simp add: BuildIdentityRegistrationDocument_def Let_def case_prod_beta flip: p_def)+
qed

lemma trim_slashes_twice: "trim_right_slashes (trim_right_slashes url) = trim_right_slashes url"
  unfolding trim_right_slashes_def by (simp add: dropWhile_idem)

lemma published_set: "set (filterPublishedOffers now offers) = {o' \<in> set offers. offerPublishedForRegistration now o'}"
  by (simp add: filterPublishedOffers_def)

lemma published_none: "filterPublishedOffers now offers = [] \<longleftrightarrow> {o' \<in> set offers. offerPublishedForRegistration now o'} = {}"
  by (metis published_set set_empty)

lemma document_offers:
  "set (ar_Services (BuildIdentityRegistrationDocument now im status offers url)) =
     (\<Union>o' \<in> {o' \<in> set offers. offerPublishedForRegistration now o'}. set (offer_services now (trim_right_slashes url) o'))"
  "ar_Active (BuildIdentityRegistrationDocument now im status offers url) \<longleftrightarrow> {o' \<in> set offers. offerPublishedForRegistration now o'} \<noteq> {}"
  by (simp_all only: document_parts buildIdentityRegistrationServices_def set_concat set_map published_set trim_slashes_twice published_none
      image_image SUP_image comp_def not_not)

text \<open>The object that a write leaves.\<close>

lemma apply_child_result:
  "gives (applyIdentityChildObject k ns n obj) env w
     (\<lambda>_ w'. map_of (ow_objects w') (k, ns, n) = Some (oe_merge env (map_of (ow_objects w) (k, ns, n)) obj))"
  by (auto simp: applyIdentityChildObject_def applyObject_def get_object_def gives_def and_then_def api_def update_conv' split: option.split)

lemma apply_child_other:
  "(k, ns, n) \<noteq> key \<Longrightarrow> keeps (\<lambda>w. map_of (ow_objects w) key) (applyIdentityChildObject k ns n obj) env"
  unfolding applyIdentityChildObject_def applyObject_def by (intro keeps_intro) (simp_all add: update_conv')

lemma keeps_post: "keeps f m env \<Longrightarrow> P (f w) \<Longrightarrow> gives m env w (\<lambda>_ w'. P (f w'))"
  by (auto simp: keeps_def gives_def split: prod.split sum.split) (metis snd_conv)

text \<open>The document that the published ConfigMap of the identity has, merged by the API server into an older version.\<close>

definition published :: "reg_env \<Rightarrow> offer_env \<Rightarrow> agent_registration \<Rightarrow> offer_world \<Rightarrow> bool" where
  "published re env doc w \<longleftrightarrow>
     (\<exists>old. map_of (ow_objects w) (ConfigMap, im_Namespace (re_identity re), agentIdentityRegistrationName (oe_md5 env) (re_identity re)) =
       Some (oe_merge env old (buildAgentIdentityRegistrationConfigMap (oe_md5 env) (re_identity re) (re_marshal re doc))))"

lemma publish_result:
  "gives (publish_document re status offers url) env w
     (\<lambda>_. published re env (BuildIdentityRegistrationDocument (oe_now env) (re_identity re) status offers url))"
    (is "gives _ env w (\<lambda>_. ?Q)")
proof -
  let ?K = "(ConfigMap, im_Namespace (re_identity re), agentIdentityRegistrationName (oe_md5 env) (re_identity re))"
  have other: "gives (applyIdentityChildObject k ns n obj) env w1 (\<lambda>_. ?Q)" if "k \<noteq> ConfigMap" "?Q w1" for k ns n obj w1
    unfolding published_def using that
    by (intro keeps_post [where f = "\<lambda>w. map_of (ow_objects w) ?K"] apply_child_other) (auto simp: published_def)
  have "gives (applyIdentityChildObject ConfigMap (im_Namespace (re_identity re)) (agentIdentityRegistrationName (oe_md5 env) (re_identity re))
      (buildAgentIdentityRegistrationConfigMap (oe_md5 env) (re_identity re)
         (re_marshal re (BuildIdentityRegistrationDocument (oe_now env) (re_identity re) status offers url)))) env w (\<lambda>_. ?Q)"
    by (rule gives_weaken [OF apply_child_result]) (auto simp: published_def)
  then show ?thesis
    unfolding publish_document_def publishAgentIdentityRegistrationResources_def Let_def
    by (intro gives_ask) (erule gives_seq, (rule gives_seq [OF other], simp, assumption)+, rule other, simp, assumption)
qed

lemma publication_result:
  "gives (reconcileAgentIdentityPublication re status override) env w
     (\<lambda>_ w'. \<exists>url. published re env (BuildIdentityRegistrationDocument (oe_now env) (re_identity re) status
       (mergeOfferOverride (registrationOffersForIdentity (oe_store env)) override) url) w')"
  unfolding reconcileAgentIdentityPublication_def
proof (rule gives_ask, rule gives_skip, rule gives_seq [OF publish_result])
  fix url w1
  let ?P = "\<lambda>o'. \<exists>url old. o' = Some (oe_merge env old (buildAgentIdentityRegistrationConfigMap (oe_md5 env) (re_identity re)
      (re_marshal re (BuildIdentityRegistrationDocument (oe_now env) (re_identity re) status
        (mergeOfferOverride (registrationOffersForIdentity (oe_store env)) override) url))))"
  assume "published re env (BuildIdentityRegistrationDocument (oe_now env) (re_identity re) status
      (mergeOfferOverride (registrationOffersForIdentity (oe_store env)) override) url) w1"
  then show "gives (and_then (identityRegistrationResourcesReady re) (\<lambda>_. done_with ())) env w1
      (\<lambda>_ w'. \<exists>url. published re env (BuildIdentityRegistrationDocument (oe_now env) (re_identity re) status
         (mergeOfferOverride (registrationOffersForIdentity (oe_store env)) override) url) w')"
    unfolding published_def by (intro keeps_post [where P = ?P] keeps_intro) blast
qed

text \<open>An offer that a buyer can use: enabled for registration, not deleted, before the end of its drain if it has one,
  with a model, an upstream, a payment gate and a route.\<close>

definition in_service :: "nsec \<Rightarrow> service_offer \<Rightarrow> bool" where
  "in_service now o' \<longleftrightarrow> rg_Enabled (os_Registration (so_spec o')) \<and> \<not> so_Deleting o' \<and>
     (case os_DrainAt (so_spec o') of None \<Rightarrow> True
      | Some t \<Rightarrow> now < t + the_default DefaultDrainGracePeriod (os_DrainGracePeriod (so_spec o'))) \<and>
     list_all (isConditionTrue (so_status o')) [''ModelReady'', ''UpstreamHealthy'', ''PaymentGateReady'', ''RoutePublished'']"

text \<open>The entry of an offer: where it is, and when it goes away if it is draining.\<close>

definition announces :: "string \<Rightarrow> service_offer \<Rightarrow> service_def \<Rightarrow> bool" where
  "announces url o' d \<longleftrightarrow> sd_Name d = ''web'' \<and> sd_Endpoint d = trim_right_slashes url @ EffectivePath o' \<and>
     sd_DrainEndsAt d = (case os_DrainAt (so_spec o') of None \<Rightarrow> []
       | Some t \<Rightarrow> rfc3339 (t + the_default DefaultDrainGracePeriod (os_DrainGracePeriod (so_spec o'))))"

lemma in_service_published: "offerPublishedForRegistration now o' \<longleftrightarrow> in_service now o'"
  by (auto simp: in_service_def offerPublishedForRegistration_def DrainExpired_def IsDraining_def DrainEndsAt_def split: option.split)

lemma in_service_announced: "in_service now o' \<Longrightarrow> \<exists>d \<in> set (offer_services now (trim_right_slashes url) o'). announces url o' d"
  by (auto simp: in_service_def announces_def offer_services_def serviceDefWithDrain_def service_entry_def DrainExpired_def IsDraining_def
      DrainEndsAt_def Let_def split: option.splits)

text \<open>C12: The published document tells of the offers in service.  After a pass over the identity that succeeds, the
  document in its ConfigMap is active exactly when some offer of the informer's store is enabled for registration, not
  deleted, not past the end of its drain, and has the conditions ModelReady, UpstreamHealthy, PaymentGateReady and
  RoutePublished.  It has the services of these offers and of no other; each has an entry at its path under the base URL,
  with the end of its drain when one is set.  It lists the recorded agents of every known network, whether active or not.\<close>

theorem published_document_tells_the_served_offers:
  assumes "reconcileAgentIdentity re ''x402/default'' env w = (Inr (), w')" and "ow_identity w = Some status"
  shows "\<exists>doc url. published re env doc w' \<and>
    (let served = {o' \<in> set (oe_store env). in_service (oe_now env) o'}
     in (ar_Active doc \<longleftrightarrow> served \<noteq> {}) \<and> ar_X402Support doc = ar_Active doc \<and>
        set (ar_Services doc) = (\<Union>o' \<in> served. set (offer_services (oe_now env) (trim_right_slashes url) o')) \<and>
        (\<forall>o' \<in> served. \<exists>d \<in> set (ar_Services doc). announces url o' d)) \<and>
    set (ar_Registrations doc) = {\<lparr>oc_AgentID = parseInt64 (ir_AgentID r), oc_AgentRegistry = CAIP10Registry net\<rparr> | r net.
      r \<in> set status \<and> trim_space (ir_AgentID r) \<noteq> [] \<and> ResolveNetwork (\<lambda>s. s) (ir_Chain r) = Inr net}"
proof -
  have k: "split_key q ''x402/default'' = Inr (AgentIdentityDefaultNamespace, AgentIdentityDefaultName)" for q
    by (simp add: split_key_def AgentIdentityDefaultNamespace_def AgentIdentityDefaultName_def)
  have run: "reconcileAgentIdentityPublication re status None env w = (Inr (), w')"
    using assms by (auto simp: reconcileAgentIdentity_def ask_def k and_then_def api_def split: option.splits)
  have live: "{o' \<in> set (registrationOffersForIdentity (oe_store env)). offerPublishedForRegistration (oe_now env) o'} =
      {o' \<in> set (oe_store env). in_service (oe_now env) o'}"
    by (auto simp: registrationOffersForIdentity_def in_service_published in_service_def)
  from givesD [OF publication_result run] obtain url where url:
    "published re env (BuildIdentityRegistrationDocument (oe_now env) (re_identity re) status (registrationOffersForIdentity (oe_store env)) url) w'"
    by (auto simp: mergeOfferOverride_def)
  let ?doc = "BuildIdentityRegistrationDocument (oe_now env) (re_identity re) status (registrationOffersForIdentity (oe_store env)) url"
  note offers = document_offers [of "oe_now env" "re_identity re" status "registrationOffersForIdentity (oe_store env)" url, unfolded live]
  have "\<forall>o' \<in> {o' \<in> set (oe_store env). in_service (oe_now env) o'}. \<exists>d \<in> set (ar_Services ?doc). announces url o' d"
  proof
    fix o' assume s: "o' \<in> {o' \<in> set (oe_store env). in_service (oe_now env) o'}"
    then obtain d where "d \<in> set (offer_services (oe_now env) (trim_right_slashes url) o')" "announces url o' d"
      using in_service_announced [of "oe_now env" o' url] by (elim CollectE conjE) (drule (1) meta_mp, elim bexE)
    then show "\<exists>d \<in> set (ar_Services ?doc). announces url o' d"
      unfolding offers(1) using s by (intro bexI [of _ d] UN_I [of o'])
  qed
  moreover have "ar_X402Support ?doc = ar_Active ?doc" by (simp only: document_parts)
  ultimately show ?thesis
    using url offers document_registrations [of "oe_now env" "re_identity re" status "registrationOffersForIdentity (oe_store env)" url]
    unfolding Let_def by (intro exI conjI) assumption+
qed


definition served_offer :: service_offer where
  "served_offer = (let o' = chain_offer
     in o'\<lparr>so_spec := so_spec o'\<lparr>os_Registration := (os_Registration (so_spec o'))\<lparr>rg_Enabled := True\<rparr>\<rparr>,
           so_status := (so_status o')\<lparr>st_Conditions := map (\<lambda>c. \<lparr>cd_Type = c, cd_Status = ''True'', cd_Reason = [], cd_Message = [],
             cd_LastTransitionTime = 0\<rparr>) [''ModelReady'', ''UpstreamHealthy'', ''PaymentGateReady'', ''RoutePublished'']\<rparr>\<rparr>)"

abbreviation "served_env \<equiv> registry_env\<lparr>oe_store := [served_offer]\<rparr>"
abbreviation "named_world \<equiv> (registry_world [])\<lparr>ow_identity := Some [\<lparr>ir_Chain = ''base'', ir_AgentID = ''4''\<rparr>]\<rparr>"

lemma served_offer_listed: "in_service (oe_now served_env) served_offer"
  by code_simp

lemma sample_publication: "case reconcileAgentIdentity sample_registrar ''x402/default'' served_env named_world of (r, w') \<Rightarrow> r = Inr ()"
  by code_simp

theorem published_document_tells_the_served_offers_witness:
  "\<exists>doc w'. published sample_registrar served_env doc w' \<and> ar_Active doc \<and> \<lparr>oc_AgentID = 4, oc_AgentRegistry = CAIP10Registry Base\<rparr> \<in> set (ar_Registrations doc)"
proof -
  obtain w' where w': "reconcileAgentIdentity sample_registrar ''x402/default'' served_env named_world = (Inr (), w')"
    using sample_publication by (auto split: prod.splits)
  have agent: "parseInt64 ''4'' = 4" "trim_space ''4'' = ''4''" "ResolveNetwork (\<lambda>s. s) ''base'' = Inr Base" by code_simp+
  from published_document_tells_the_served_offers [OF w', of "[\<lparr>ir_Chain = ''base'', ir_AgentID = ''4''\<rparr>]"] served_offer_listed
  obtain doc where "published sample_registrar served_env doc w'" "ar_Active doc"
    "set (ar_Registrations doc) = {\<lparr>oc_AgentID = parseInt64 (ir_AgentID r), oc_AgentRegistry = CAIP10Registry net\<rparr> | r net.
      r \<in> set [\<lparr>ir_Chain = ''base'', ir_AgentID = ''4''\<rparr>] \<and> trim_space (ir_AgentID r) \<noteq> [] \<and> ResolveNetwork (\<lambda>s. s) (ir_Chain r) = Inr net}"
    by (auto simp: Let_def)
  with agent show ?thesis by auto
qed


subsection \<open>An orphaned request\<close>

lemma keeps_base_url [keeps_intro]: "keeps f (registrationBaseURL re) env"
  unfolding registrationBaseURL_def stackConfigURLs_def by (intro keeps_intro)

text \<open>An orphaned request makes an identity that no chain has shown.  When the last offer of the agent is gone and no agent
  is recorded for the chain of its request, a pass that succeeds records the id in the status of the request under that
  chain, whichever chain it came from and whoever holds it there.\<close>

theorem orphan_adopts_unverified_agent:
  assumes "reconcile_request re r env w = (Inr (), w')" and "ow_identity w = Some stored"
    and "map_of (ow_offers w) (rq_ServiceOfferNamespace (rr_spec r), rq_ServiceOfferName (rr_spec r)) = None"
    and "registrationOwnerForIdentity env = None"
    and chain: "trim_space (rq_Chain (rr_spec r)) \<noteq> []" "AgentIdentityAgentIDForChain stored (rq_Chain (rr_spec r)) = []"
    and agent: "trim_space (rs_AgentID (rr_status r)) \<noteq> []"
  shows "ow_identity w' = Some (UpsertAgentIdentityRegistration stored (rq_Chain (rr_spec r)) (rs_AgentID (rr_status r))) \<and>
    AgentIdentityAgentIDForChain (UpsertAgentIdentityRegistration stored (rq_Chain (rr_spec r)) (rs_AgentID (rr_status r)))
      (rq_Chain (rr_spec r)) = trim_space (rs_AgentID (rr_status r))"
proof
  let ?new = "UpsertAgentIdentityRegistration stored (rq_Chain (rr_spec r)) (rs_AgentID (rr_status r))"
  let ?agent = "trim_space (rs_AgentID (rr_status r))"
  have up: "UpsertAgentIdentityRegistration stored (rq_Chain (rr_spec r)) ?agent = ?new"
    by (simp add: UpsertAgentIdentityRegistration_def trim_trim)
  show found: "AgentIdentityAgentIDForChain ?new (rq_Chain (rr_spec r)) = ?agent"
    using chain agent by (simp add: upsert_agent)
  then have differs: "stored \<noteq> ?new" using chain agent by auto
  have ensured: "gives ensureAgentIdentity env w (\<lambda>i w1. i = stored \<and> w1 = w)"
    using assms(2) by (simp add: gives_def ensureAgentIdentity_def and_then_def api_def done_with_def split: option.split)
  have "gives (updateAgentIdentityStatus stored ?new) env w (\<lambda>_ w1. ow_identity w1 = Some ?new)"
    using differs by (simp add: gives_def updateAgentIdentityStatus_def api_def set_identity_def split: option.split)
  then have adopted: "gives (and_then (updateAgentIdentityStatus stored ?new) (\<lambda>_. and_then (api GetIdentity (\<lambda>env w. (ow_identity w, w))) f)) env w
      (\<lambda>i w1. ow_identity w1 = Some ?new)" if "\<And>i. keeps ow_identity (f i) env" for f :: "identity_status option \<Rightarrow> identity_status step"
    by (rule gives_seq, intro keeps_post [where f = ow_identity and P = "\<lambda>i. i = Some ?new"] keeps_intro that) simp_all
  have first: "firstNonEmpty [[], rs_AgentID (rr_status r)] = ?agent" "?agent \<noteq> []" using agent by simp_all
  have gone: "gives (last_offer_gone re r stored) env w (\<lambda>_ w1. ow_identity w1 = Some ?new)"
    unfolding last_offer_gone_def Let_def chain(2) first(1) agentIdentityStatusFromRegistration_def trim_trim up if_P [OF first(2)]
      if_P [OF conjI [OF first(2) refl]]
    by (rule gives_seq [OF adopted], intro keeps_intro, rule keeps_post [where f = ow_identity and P = "\<lambda>i. i = Some ?new"], intro keeps_intro) simp_all
  have "gives (orphan_request re r) env w (\<lambda>_ w1. ow_identity w1 = Some ?new)"
    unfolding orphan_request_def using assms(4) gone by (intro gives_ask gives_seq [OF ensured]) auto
  then have "gives (reconcile_request re r) env w (\<lambda>_ w1. ow_identity w1 = Some ?new)"
    using assms(3) by (auto simp: reconcile_request_def Let_def gives_def and_then_def api_def split: option.split)
  from givesD [OF this assms(1)] show "ow_identity w' = Some ?new" .
qed


definition orphan :: registration_request where
  "orphan = (let r = chain_request [] in r\<lparr>rr_status := (rr_status r)\<lparr>rs_AgentID := ''9''\<rparr>\<rparr>)"

abbreviation "empty_env \<equiv> registry_env\<lparr>oe_store := []\<rparr>"
abbreviation "empty_world \<equiv> (registry_world [])\<lparr>ow_offers := []\<rparr>"

lemma orphan_pass: "case reconcile_request sample_registrar orphan empty_env empty_world of (r, w') \<Rightarrow> r = Inr ()"
  by code_simp

theorem orphan_adopts_unverified_agent_witness:
  "\<exists>w'. reconcile_request sample_registrar orphan empty_env empty_world = (Inr (), w') \<and>
     ow_identity w' = Some [\<lparr>ir_Chain = ''base'', ir_AgentID = ''9''\<rparr>]"
proof -
  obtain w' where w': "reconcile_request sample_registrar orphan empty_env empty_world = (Inr (), w')"
    using orphan_pass by (auto split: prod.splits)
  have hyps: "ow_identity empty_world = Some []" "ow_offers empty_world = []" "registrationOwnerForIdentity empty_env = None"
    by (simp_all add: registry_world_def registrationOwnerForIdentity_def registrationOffersForIdentity_def no_owner)
  have spec: "trim_space (rq_Chain (rr_spec orphan)) \<noteq> []" "AgentIdentityAgentIDForChain [] (rq_Chain (rr_spec orphan)) = []"
    "trim_space (rs_AgentID (rr_status orphan)) \<noteq> []"
    "UpsertAgentIdentityRegistration [] (rq_Chain (rr_spec orphan)) (rs_AgentID (rr_status orphan)) = [\<lparr>ir_Chain = ''base'', ir_AgentID = ''9''\<rparr>]"
    by code_simp+
  show ?thesis
    using orphan_adopts_unverified_agent [OF w' hyps(1) _ hyps(3) spec(1,2,3)] w' unfolding hyps(2) spec(4) by auto
qed

end
