(* ===== verification/LiteLlm.thy ===== *)
theory LiteLlm imports Facilitator begin

text \<open>
  The part of the LiteLLM configuration that the program edits: the structs of \<open>internal/model/model.go\<close>, and the
  edits that the controller makes for the purchased models (\<open>serviceoffercontroller/purchase_helpers.go\<close>).
\<close>

subsection \<open>The configuration\<close>

record cache_control =
  cc_Location :: string
  cc_Role :: string
  cc_Index :: "int option"

record litellm_params =
  lp_Model :: string
  lp_APIBase :: string
  lp_APIKey :: string
  lp_ExtraBody :: "(string, goany) gomap"
  lp_CacheControl :: "cache_control list"

record model_entry =
  me_Name :: string
  me_Params :: litellm_params

record litellm_config =
  lc_ModelList :: "model_entry list"
  lc_GeneralSettings :: "(string, goany) gomap"
  lc_LiteLLMSettings :: "(string, goany) gomap"

definition anthropicCacheControlPoints :: "cache_control list" where
  "anthropicCacheControlPoints = [\<lparr>cc_Location = ''message'', cc_Role = ''system'', cc_Index = None\<rparr>]"

abbreviation "me_APIBase e \<equiv> lp_APIBase (me_Params e)"

definition with_base :: "string \<Rightarrow> model_entry \<Rightarrow> model_entry" where
  "with_base base e = e\<lparr>me_Params := (me_Params e)\<lparr>lp_APIBase := base\<rparr>\<rparr>"

subsection \<open>Edits of the model list\<close>

definition buyerAPIBase :: "string \<Rightarrow> string" where
  "buyerAPIBase ns = ''http://x402-buyer.'' @ ns @ ''.svc.cluster.local:8402/v1''"

definition legacyBuyerAPIBase :: string where
  "legacyBuyerAPIBase = ''http://127.0.0.1:8402/v1''"

definition paid_entry :: "string \<Rightarrow> string \<Rightarrow> model_entry" where
  "paid_entry ns modelName =
     \<lparr>me_Name = modelName,
      me_Params = \<lparr>lp_Model = ''openai/'' @ modelName, lp_APIBase = buyerAPIBase ns, lp_APIKey = ''unused'',
                   lp_ExtraBody = [], lp_CacheControl = []\<rparr>\<rparr>"

text \<open>
  The loop of \<open>addLiteLLMModelEntry\<close> stops at the first entry of the name: \<open>KeepEntry\<close> when it does not have the legacy
  address, else \<open>MoveEntry\<close> with the list and the entry after the move; \<open>NoEntry\<close> when there is none.
\<close>

datatype entry_edit = NoEntry | KeepEntry | MoveEntry "model_entry list" model_entry

fun first_entry :: "string \<Rightarrow> string \<Rightarrow> model_entry list \<Rightarrow> entry_edit" where
  "first_entry ns modelName [] = NoEntry"
| "first_entry ns modelName (e # es) =
     (if me_Name e \<noteq> modelName then
        (case first_entry ns modelName es of MoveEntry es' e' \<Rightarrow> MoveEntry (e # es') e' | d \<Rightarrow> d)
      else if me_APIBase e \<noteq> legacyBuyerAPIBase then KeepEntry
      else MoveEntry (with_base (buyerAPIBase ns) e # es) (with_base (buyerAPIBase ns) e))"

definition without_model :: "string \<Rightarrow> model_entry list \<Rightarrow> model_entry list" where
  "without_model modelName es = filter (\<lambda>e. me_Name e \<noteq> modelName) es"

text \<open>The loop of \<open>migrateLegacyBuyerAPIBases\<close>: the list and the entries that moved.\<close>

fun migrate_entries :: "string \<Rightarrow> model_entry list \<Rightarrow> model_entry list \<times> model_entry list" where
  "migrate_entries ns [] = ([], [])"
| "migrate_entries ns (e # es) =
     (case migrate_entries ns es of (es', moved) \<Rightarrow>
        if me_APIBase e \<noteq> legacyBuyerAPIBase then (e # es', moved)
        else (with_base (buyerAPIBase ns) e # es', with_base (buyerAPIBase ns) e # moved))"

subsection \<open>What the edits do\<close>

lemma buyer_base_not_legacy [simp]: "buyerAPIBase ns \<noteq> legacyBuyerAPIBase"
  by (simp add: buyerAPIBase_def legacyBuyerAPIBase_def)

lemma with_base_simps [simp]: "me_Name (with_base b e) = me_Name e" "me_APIBase (with_base b e) = b"
  by (simp_all add: with_base_def)

lemma first_entry_none: "first_entry ns m es = NoEntry \<longleftrightarrow> m \<notin> me_Name ` set es"
  by (induction es) (auto split: entry_edit.splits if_splits)

lemma first_entry_moved:
  "first_entry ns m es = MoveEntry es' e' \<Longrightarrow>
   map me_Name es' = map me_Name es \<and> e' \<in> set es' \<and> me_Name e' = m \<and> me_APIBase e' = buyerAPIBase ns"
  by (induction es arbitrary: es') (auto split: entry_edit.splits if_splits)

lemma migrate_entries_all:
  "fst (migrate_entries ns es) = map (\<lambda>e. if me_APIBase e = legacyBuyerAPIBase then with_base (buyerAPIBase ns) e else e) es"
  by (induction es) (auto split: prod.splits)

text \<open>After a migration nothing is left to migrate.\<close>

lemma migrate_entries_idem: "snd (migrate_entries ns (fst (migrate_entries ns es))) = []"
  by (induction es) (auto split: prod.splits)

end
