(* ===== verification/Purchases.thy ===== *)
theory Purchases imports MonetizeTypes LiteLlm GoTime BuyerConfig begin

text \<open>
  The reconciler of purchase requests: \<open>internal/serviceoffercontroller/purchase.go\<close> and \<open>purchase_helpers.go\<close>.

  The world of a reconcile is the API server's objects that it writes (the purchases and the config maps), the auths
  that wait in \<open>pendingAuths\<close>, the keys that were put back in the queue, and the HTTP calls that were sent to LiteLLM and
  to the buyer pods, in their order.  What other parties answer is the environment: the seller that is probed, the
  errors of the API server, the pods (the \<open>n\<close>-th listing of a reconcile), LiteLLM, and the YAML of its configuration.
  The informer's store is an argument: it may lag behind the API server.  Log lines are left out.
\<close>

type_synonym purchase = "goany purchase_request"

definition purchaseRequestFinalizer :: string where
  "purchaseRequestFinalizer = ''obol.org/purchase-finalizer''"

definition purchaseReasonBuyerUnavailable :: string where
  "purchaseReasonBuyerUnavailable = ''BuyerUnavailable''"

subsection \<open>Conditions\<close>

fun purchaseConditionReason :: "condition list \<Rightarrow> string \<Rightarrow> string" where
  "purchaseConditionReason [] t = []"
| "purchaseConditionReason (c # cs) t = (if cd_Type c = t then cd_Reason c else purchaseConditionReason cs t)"

fun purchaseConditionIsTrue :: "condition list \<Rightarrow> string \<Rightarrow> bool" where
  "purchaseConditionIsTrue [] t = False"
| "purchaseConditionIsTrue (c # cs) t = (if cd_Type c = t then cd_Status c = ''True'' else purchaseConditionIsTrue cs t)"

fun setPurchaseCondition :: "nsec \<Rightarrow> string \<Rightarrow> string \<Rightarrow> string \<Rightarrow> string \<Rightarrow> condition list \<Rightarrow> condition list" where
  "setPurchaseCondition now t st reason msg [] =
     [\<lparr>cd_Type = t, cd_Status = st, cd_Reason = reason, cd_Message = msg, cd_LastTransitionTime = now\<rparr>]"
| "setPurchaseCondition now t st reason msg (c # cs) =
     (if cd_Type c = t then
        c\<lparr>cd_Status := st, cd_Reason := reason, cd_Message := msg,
          cd_LastTransitionTime := if cd_Status c \<noteq> st then now else cd_LastTransitionTime c\<rparr> # cs
      else c # setPurchaseCondition now t st reason msg cs)"

subsection \<open>Small helpers\<close>

definition normalizeRecoverySignature :: "string \<Rightarrow> string" where
  "normalizeRecoverySignature sig =
     (if length sig \<noteq> 132 \<or> \<not> has_prefix ''0x'' sig then sig
      else case (hex_val (sig ! 130), hex_val (sig ! 131)) of
             (Some h, Some l) \<Rightarrow>
               (let lastByte = 16 * h + l
                in if lastByte \<le> 1 then take 130 sig @ [hex_digit ((lastByte + 27) div 16), hex_digit ((lastByte + 27) mod 16)]
                   else sig)
           | _ \<Rightarrow> sig)"

definition normalizePurchasedUpstreamURL :: "string \<Rightarrow> string" where
  "normalizePurchasedUpstreamURL endpoint =
     (let trimmed = rev (dropWhile (\<lambda>c. c = CHR ''/'') (rev (trim_space endpoint)))
      in if has_suffix ''/v1/chat/completions'' trimmed then trim_suffix ''/v1/chat/completions'' trimmed
         else if has_suffix ''/chat/completions'' trimmed then trim_suffix ''/chat/completions'' trimmed
         else trimmed)"

definition auth_map :: "goany signed_auth \<Rightarrow> goany" where
  "auth_map a =
     (if sa_Payment a \<noteq> [] then GMap [(''id'', GStr (sa_ID a)), (''payment'', GMap (sa_Payment a))]
      else GMap [(''signature'', GStr (normalizeRecoverySignature (sa_Signature a))), (''from'', GStr (sa_From a)),
                 (''to'', GStr (sa_To a)), (''value'', GStr (sa_Value a)), (''validAfter'', GStr (sa_ValidAfter a)),
                 (''validBefore'', GStr (sa_ValidBefore a)), (''nonce'', GStr (sa_Nonce a))])"

definition preSignedAuthMaps :: "purchase \<Rightarrow> goany list option" where
  "preSignedAuthMaps p =
     (if ps_PreSignedAuths (pr_spec p) = [] then None else Some (map auth_map (ps_PreSignedAuths (pr_spec p))))"

definition purchaseSignerAddress :: "goany signed_auth \<Rightarrow> string" where
  "purchaseSignerAddress a =
     (if sa_From a \<noteq> [] then sa_From a
      else if sa_Payment a = [] then []
      else case as_map (map_of (sa_Payment a) ''payload'') of
             None \<Rightarrow> []
           | Some payload \<Rightarrow>
               (let from_of = (\<lambda>k. case as_map (map_of payload k) of None \<Rightarrow> None | Some authz \<Rightarrow> as_string (map_of authz ''from''))
                in case from_of ''authorization'' of
                     Some from \<Rightarrow> from
                   | None \<Rightarrow> the_default [] (from_of ''permit2Authorization'')))"

text \<open>The first other purchase in the list that asks for the model.\<close>

definition otherActivePurchaseUsesModel :: "purchase list \<Rightarrow> string \<Rightarrow> string \<Rightarrow> string \<Rightarrow> purchase option" where
  "otherActivePurchaseUsesModel purchases ns name modelName =
     find (\<lambda>p. \<not> (pr_Namespace p = ns \<and> pr_Name p = name) \<and> ps_Model (pr_spec p) = modelName) purchases"

subsection \<open>The world\<close>

record api_call =
  ac_Method :: string
  ac_URL :: string
  ac_Auth :: string
  ac_Body :: string

record purchase_world =
  pw_purchases :: "(string \<times> string, purchase) gomap"
  pw_configMaps :: "(string \<times> string, (string, string) gomap) gomap"
  pw_pending :: "(string, goany list) gomap"
  pw_calls :: "api_call list"
  pw_queue :: "string list"

text \<open>A pod, with the body that it answers on \<open>/status\<close> (\<open>None\<close> when the request fails).\<close>

record buyer_pod =
  bp_Phase :: string
  bp_IP :: string
  bp_Deleting :: bool
  bp_Status :: "string option"

record purchase_env =
  pe_now :: nsec
  pe_probe :: "string \<Rightarrow> string \<Rightarrow> string + (int \<times> string)"
  pe_readable :: bool
  pe_getError :: "string \<Rightarrow> string \<Rightarrow> string option"
  pe_updateError :: "string \<Rightarrow> string \<Rightarrow> string option"
  pe_writeError :: "string option"
  pe_secret :: "string \<Rightarrow> (string, string) gomap option"
  pe_pods :: "nat \<Rightarrow> string \<Rightarrow> buyer_pod list option"
  pe_litellm :: "api_call \<Rightarrow> (int \<times> string) option"
  pe_yamlParse :: "string \<Rightarrow> litellm_config option"
  pe_yamlPrint :: "litellm_config \<Rightarrow> string option"
  pe_float :: "float64 \<Rightarrow> string"
  pe_escape :: "string \<Rightarrow> string"

definition send :: "api_call \<Rightarrow> purchase_world \<Rightarrow> purchase_world" where
  "send c w = w\<lparr>pw_calls := pw_calls w @ [c]\<rparr>"

definition add_after :: "string \<Rightarrow> purchase_world \<Rightarrow> purchase_world" where
  "add_after key w = w\<lparr>pw_queue := pw_queue w @ [key]\<rparr>"

definition get_cm :: "purchase_env \<Rightarrow> string \<Rightarrow> string \<Rightarrow> purchase_world \<Rightarrow> string + (string, string) gomap" where
  "get_cm env ns name w =
     (case pe_getError env ns name of
        Some e \<Rightarrow> Inl e
      | None \<Rightarrow> (case map_of (pw_configMaps w) (ns, name) of
                  None \<Rightarrow> Inl (''configmaps '' @ json_quote name @ '' not found'')
                | Some data \<Rightarrow> Inr data))"

definition update_cm ::
  "purchase_env \<Rightarrow> string \<Rightarrow> string \<Rightarrow> (string, string) gomap \<Rightarrow> purchase_world \<Rightarrow> string option \<times> purchase_world" where
  "update_cm env ns name data w =
     (case pe_updateError env ns name of
        Some e \<Rightarrow> (Some e, w)
      | None \<Rightarrow> (None, w\<lparr>pw_configMaps := AList.update (ns, name) data (pw_configMaps w)\<rparr>))"

subsection \<open>LiteLLM\<close>

definition litellmBaseURL :: "string \<Rightarrow> string" where
  "litellmBaseURL ns = ''http://litellm.'' @ ns @ ''.svc:4000''"

definition getLiteLLMMasterKey :: "purchase_env \<Rightarrow> string \<Rightarrow> string option" where
  "getLiteLLMMasterKey env ns =
     (case pe_secret env ns of None \<Rightarrow> None
      | Some data \<Rightarrow> (let key = the_default [] (map_of data ''LITELLM_MASTER_KEY'') in if key = [] then None else Some key))"

definition litellm_call :: "string \<Rightarrow> string \<Rightarrow> string \<Rightarrow> string \<Rightarrow> string \<Rightarrow> api_call" where
  "litellm_call meth ns path key body =
     \<lparr>ac_Method = meth, ac_URL = litellmBaseURL ns @ path, ac_Auth = ''Bearer '' @ key, ac_Body = body\<rparr>"

text \<open>Failures of the hot calls are only logged, so a call leaves nothing but the request that was sent.\<close>

definition hotAddLiteLLMModel :: "purchase_env \<Rightarrow> string \<Rightarrow> model_entry \<Rightarrow> purchase_world \<Rightarrow> purchase_world" where
  "hotAddLiteLLMModel env ns e w =
     (case getLiteLLMMasterKey env ns of
        None \<Rightarrow> w
      | Some key \<Rightarrow>
          send (litellm_call ''POST'' ns ''/model/new'' key
            (json_print (JObj [(''litellm_params'', JObj [(''api_base'', JStr (me_APIBase e)), (''api_key'', JStr (lp_APIKey (me_Params e))),
                                  (''model'', JStr (lp_Model (me_Params e)))]),
                               (''model_name'', JStr (me_Name e))]))) w)"

text \<open>One element of \<open>data\<close> in the answer of \<open>/model/info\<close>: its name and the id in \<open>model_info\<close>.\<close>

definition struct_members :: "json list \<Rightarrow> (string \<times> json) list option" where
  "struct_members vs =
     (if list_all (\<lambda>v. case v of JObj kvs \<Rightarrow> True | JNull \<Rightarrow> True | _ \<Rightarrow> False) vs
      then Some (concat (map (\<lambda>v. case v of JObj kvs \<Rightarrow> kvs | _ \<Rightarrow> []) vs)) else None)"

definition decode_model_info :: "json \<Rightarrow> (string \<times> string) option" where
  "decode_model_info v =
     (case struct_members [v] of None \<Rightarrow> None
      | Some kvs \<Rightarrow>
          (case struct_members (field_values ''model_info'' kvs) of None \<Rightarrow> None
           | Some infos \<Rightarrow>
               (let (name, e1) = str_field ''model_name'' kvs; (i, e2) = str_field ''id'' infos
                in if e1 \<or> e2 then None else Some (name, i))))"

fun last_array :: "json list \<Rightarrow> json list \<Rightarrow> json list option" where
  "last_array [] acc = Some acc"
| "last_array (JArr vs # rest) acc = last_array rest vs"
| "last_array (JNull # rest) acc = last_array rest []"
| "last_array (v # rest) acc = None"

definition decode_models :: "string \<Rightarrow> (string \<times> string) list option" where
  "decode_models body =
     (case jvalue (skip_ws body) of None \<Rightarrow> None
      | Some (v, rest) \<Rightarrow>
          (case struct_members [v] of None \<Rightarrow> None
           | Some kvs \<Rightarrow>
               (case last_array (field_values ''data'' kvs) [] of None \<Rightarrow> None
                | Some vs \<Rightarrow> decode_each decode_model_info vs)))"

definition litellmModelIDsByName :: "purchase_env \<Rightarrow> string \<Rightarrow> string \<Rightarrow> string \<Rightarrow> string list option" where
  "litellmModelIDsByName env ns key modelName =
     (case pe_litellm env (litellm_call ''GET'' ns ''/model/info'' key []) of
        None \<Rightarrow> None
      | Some (status, body) \<Rightarrow>
          if status \<ge> 300 then None
          else map_option (\<lambda>ms. map snd (filter (\<lambda>(name, i). name = modelName \<and> i \<noteq> []) ms)) (decode_models body))"

definition hotDeleteLiteLLMModel :: "purchase_env \<Rightarrow> string \<Rightarrow> string \<Rightarrow> purchase_world \<Rightarrow> purchase_world" where
  "hotDeleteLiteLLMModel env ns modelName w =
     (case getLiteLLMMasterKey env ns of
        None \<Rightarrow> w
      | Some key \<Rightarrow>
          (let w1 = send (litellm_call ''GET'' ns ''/model/info'' key []) w
           in case litellmModelIDsByName env ns key modelName of
                None \<Rightarrow> w1
              | Some ids \<Rightarrow>
                  foldl (\<lambda>w' i. send (litellm_call ''POST'' ns ''/model/delete'' key (json_print (JObj [(''id'', JStr i)]))) w') w1 ids))"

text \<open>The configuration in the config map \<open>litellm-config\<close>, and writing it back; \<open>None\<close> when it cannot be written.\<close>

definition read_litellm :: "purchase_env \<Rightarrow> string \<Rightarrow> purchase_world \<Rightarrow> ((string, string) gomap \<times> litellm_config) option" where
  "read_litellm env ns w =
     (case get_cm env ns ''litellm-config'' w of
        Inl e \<Rightarrow> None
      | Inr data \<Rightarrow> map_option (Pair data) (pe_yamlParse env (the_default [] (map_of data ''config.yaml''))))"

definition write_litellm ::
  "purchase_env \<Rightarrow> string \<Rightarrow> (string, string) gomap \<Rightarrow> litellm_config \<Rightarrow> purchase_world \<Rightarrow> purchase_world option" where
  "write_litellm env ns data cfg w =
     (case pe_yamlPrint env cfg of
        None \<Rightarrow> None
      | Some rendered \<Rightarrow>
          (case update_cm env ns ''litellm-config'' (AList.update ''config.yaml'' rendered data) w of
             (Some e, w') \<Rightarrow> None | (None, w') \<Rightarrow> Some w'))"

definition addLiteLLMModelEntry :: "purchase_env \<Rightarrow> string \<Rightarrow> string \<Rightarrow> purchase_world \<Rightarrow> purchase_world" where
  "addLiteLLMModelEntry env ns modelName w =
     (case read_litellm env ns w of
        None \<Rightarrow> w
      | Some (data, cfg) \<Rightarrow>
          (case first_entry ns modelName (lc_ModelList cfg) of
             KeepEntry \<Rightarrow> w
           | MoveEntry es e \<Rightarrow>
               (case write_litellm env ns data (cfg\<lparr>lc_ModelList := es\<rparr>) w of
                  None \<Rightarrow> w
                | Some w1 \<Rightarrow> hotAddLiteLLMModel env ns e (hotDeleteLiteLLMModel env ns modelName w1))
           | NoEntry \<Rightarrow>
               (let e = paid_entry ns modelName
                in case write_litellm env ns data (cfg\<lparr>lc_ModelList := lc_ModelList cfg @ [e]\<rparr>) w of
                     None \<Rightarrow> w
                   | Some w1 \<Rightarrow> hotAddLiteLLMModel env ns e w1)))"

definition removeLiteLLMModelEntry :: "purchase_env \<Rightarrow> string \<Rightarrow> string \<Rightarrow> purchase_world \<Rightarrow> purchase_world" where
  "removeLiteLLMModelEntry env ns modelName w =
     (case read_litellm env ns w of
        None \<Rightarrow> w
      | Some (data, cfg) \<Rightarrow>
          (let filtered = without_model modelName (lc_ModelList cfg)
           in if filtered \<noteq> lc_ModelList cfg then
                (case write_litellm env ns data (cfg\<lparr>lc_ModelList := filtered\<rparr>) w of
                   None \<Rightarrow> w | Some w1 \<Rightarrow> hotDeleteLiteLLMModel env ns modelName w1)
              else hotDeleteLiteLLMModel env ns modelName w))"

definition migrateLegacyBuyerAPIBases :: "purchase_env \<Rightarrow> string \<Rightarrow> purchase_world \<Rightarrow> purchase_world" where
  "migrateLegacyBuyerAPIBases env ns w =
     (case read_litellm env ns w of
        None \<Rightarrow> w
      | Some (data, cfg) \<Rightarrow>
          (case migrate_entries ns (lc_ModelList cfg) of (es, migrated) \<Rightarrow>
             if migrated = [] then w
             else case write_litellm env ns data (cfg\<lparr>lc_ModelList := es\<rparr>) w of
                    None \<Rightarrow> w
                  | Some w1 \<Rightarrow> foldl (\<lambda>w' e. hotAddLiteLLMModel env ns e (hotDeleteLiteLLMModel env ns (me_Name e) w')) w1 migrated))"

subsection \<open>The buyer's files and pods\<close>

definition mergeBuyerCM ::
  "purchase_env \<Rightarrow> string \<Rightarrow> string \<Rightarrow> string \<Rightarrow> string \<Rightarrow> goany \<Rightarrow> purchase_world \<Rightarrow> string option \<times> purchase_world" where
  "mergeBuyerCM env ns cmName legacyKey name payload w =
     (case get_cm env ns cmName w of
        Inl e \<Rightarrow> (Some (''get '' @ ns @ ''/'' @ cmName @ '': '' @ e), w)
      | Inr data \<Rightarrow>
          update_cm env ns cmName
            (AList.update (name @ ''.json'') (json_print (json_of_any (pe_float env) payload)) (AList.delete legacyKey data)) w)"

definition mergeBuyerConfig :: "purchase_env \<Rightarrow> string \<Rightarrow> string \<Rightarrow> goany \<Rightarrow> purchase_world \<Rightarrow> string option \<times> purchase_world" where
  "mergeBuyerConfig env ns name upstream w = mergeBuyerCM env ns ''x402-buyer-config'' ''config.json'' name upstream w"

definition mergeBuyerAuths :: "purchase_env \<Rightarrow> string \<Rightarrow> string \<Rightarrow> goany list \<Rightarrow> purchase_world \<Rightarrow> string option \<times> purchase_world" where
  "mergeBuyerAuths env ns name auths w = mergeBuyerCM env ns ''x402-buyer-auths'' ''auths.json'' name (GArr auths) w"

definition remove_file :: "purchase_env \<Rightarrow> string \<Rightarrow> string \<Rightarrow> string \<Rightarrow> string \<Rightarrow> purchase_world \<Rightarrow> purchase_world" where
  "remove_file env ns cmName legacyKey name w =
     (case get_cm env ns cmName w of
        Inl e \<Rightarrow> w
      | Inr data \<Rightarrow> snd (update_cm env ns cmName (AList.delete (name @ ''.json'') (AList.delete legacyKey data)) w))"

definition removeBuyerUpstream :: "purchase_env \<Rightarrow> string \<Rightarrow> string \<Rightarrow> purchase_world \<Rightarrow> purchase_world" where
  "removeBuyerUpstream env ns name w =
     remove_file env ns ''x402-buyer-auths'' ''auths.json'' name
       (remove_file env ns ''x402-buyer-config'' ''config.json'' name w)"

definition live_pod :: "buyer_pod \<Rightarrow> bool" where
  "live_pod p \<longleftrightarrow> bp_Phase p = ''Running'' \<and> bp_IP p \<noteq> [] \<and> \<not> bp_Deleting p"

text \<open>\<open>triggerBuyerReload\<close> and \<open>triggerBuyerRemove\<close>: one POST for each running pod; the answers are ignored.\<close>

definition post_pods :: "string \<Rightarrow> buyer_pod list option \<Rightarrow> purchase_world \<Rightarrow> purchase_world" where
  "post_pods path pods w =
     (case pods of None \<Rightarrow> w
      | Some ps \<Rightarrow>
          foldl (\<lambda>w' p. send \<lparr>ac_Method = ''POST'', ac_URL = ''http://'' @ bp_IP p @ '':8402'' @ path, ac_Auth = [], ac_Body = []\<rparr> w')
            w (filter live_pod ps))"

definition triggerBuyerReload :: "purchase_env \<Rightarrow> nat \<Rightarrow> string \<Rightarrow> purchase_world \<Rightarrow> purchase_world" where
  "triggerBuyerReload env n ns w = post_pods ''/admin/reload'' (pe_pods env n ns) w"

definition triggerBuyerRemove :: "purchase_env \<Rightarrow> nat \<Rightarrow> string \<Rightarrow> string \<Rightarrow> purchase_world \<Rightarrow> purchase_world" where
  "triggerBuyerRemove env n ns name w = post_pods (''/admin/remove?name='' @ pe_escape env name) (pe_pods env n ns) w"

definition decode_counts :: "json \<Rightarrow> (int \<times> int) option" where
  "decode_counts v =
     (case struct_members [v] of None \<Rightarrow> None
      | Some kvs \<Rightarrow>
          (let (r, e1) = int_field ''remaining'' kvs; (s, e2) = int_field ''spent'' kvs in if e1 \<or> e2 then None else Some (r, s)))"

definition pod_counts :: "string \<Rightarrow> buyer_pod \<Rightarrow> (int \<times> int) option" where
  "pod_counts name p =
     (if \<not> live_pod p then None
      else case bp_Status p of None \<Rightarrow> None
           | Some body \<Rightarrow>
               (case json_parse body of
                  Some (JObj kvs) \<Rightarrow> (case decode_map decode_counts kvs [] of None \<Rightarrow> None | Some m \<Rightarrow> map_of m name)
                | _ \<Rightarrow> None))"

text \<open>The two errors: no pods, or no live pod that lists the upstream.\<close>

datatype status_error = NoPods string | NotInStatus string

fun status_text :: "status_error \<Rightarrow> string" where
  "status_text (NoPods ns) = ''no x402-buyer pods in '' @ ns"
| "status_text (NotInStatus name) = ''upstream '' @ json_quote name @ '' not found in sidecar status''"

definition checkBuyerStatus :: "buyer_pod list option \<Rightarrow> string \<Rightarrow> string \<Rightarrow> status_error + (int \<times> int)" where
  "checkBuyerStatus pods ns name =
     (case pods of
        None \<Rightarrow> Inl (NoPods ns)
      | Some ps \<Rightarrow>
          if ps = [] then Inl (NoPods ns)
          else case List.map_filter (pod_counts name) ps of [] \<Rightarrow> Inl (NotInStatus name) | c # cs \<Rightarrow> Inr c)"

definition isSidecarUpstreamGone :: "status_error \<Rightarrow> bool" where
  "isSidecarUpstreamGone e = contains_sub ''not found in sidecar status'' (status_text e)"

subsection \<open>Stage 1: the probe\<close>

definition set_cond :: "purchase_env \<Rightarrow> string \<Rightarrow> string \<Rightarrow> string \<Rightarrow> string \<Rightarrow> purchase_status \<Rightarrow> purchase_status" where
  "set_cond env t st reason msg status =
     status\<lparr>pst_Conditions := setPurchaseCondition (pe_now env) t st reason msg (pst_Conditions status)\<rparr>"

abbreviation "cond_true status t \<equiv> purchaseConditionIsTrue (pst_Conditions status) t"

record probe_accept =
  qa_MaxAmountRequired :: string
  qa_Amount :: string
  qa_Network :: string
  qa_Asset :: string
  qa_Name :: string
  qa_Version :: string
  qa_TransferMethod :: string

definition decode_probe_accept :: "json \<Rightarrow> probe_accept option" where
  "decode_probe_accept v =
     (case struct_members [v] of None \<Rightarrow> None
      | Some kvs \<Rightarrow>
          (case struct_members (field_values ''extra'' kvs) of None \<Rightarrow> None
           | Some ex \<Rightarrow>
               (let fs = map (\<lambda>n. str_field n kvs) [''payTo'', ''maxAmountRequired'', ''amount'', ''network'', ''asset''];
                    xs = map (\<lambda>n. str_field n ex) [''name'', ''version'', ''assetTransferMethod'']
                in if list_ex snd fs \<or> list_ex snd xs then None
                   else Some \<lparr>qa_MaxAmountRequired = fst (fs ! 1), qa_Amount = fst (fs ! 2), qa_Network = fst (fs ! 3),
                              qa_Asset = fst (fs ! 4), qa_Name = fst (xs ! 0), qa_Version = fst (xs ! 1),
                              qa_TransferMethod = fst (xs ! 2)\<rparr>)))"

definition decode_pricing :: "string \<Rightarrow> probe_accept list option" where
  "decode_pricing body =
     (case json_parse body of None \<Rightarrow> None
      | Some v \<Rightarrow>
          (case struct_members [v] of None \<Rightarrow> None
           | Some kvs \<Rightarrow>
               (case last_array (field_values ''accepts'' kvs) [] of None \<Rightarrow> None
                | Some vs \<Rightarrow> decode_each decode_probe_accept vs)))"

definition probe_body :: string where
  "probe_body = json_print (JObj
     [(''model'', JStr ''probe''), (''messages'', JArr [JObj [(''role'', JStr ''user''), (''content'', JStr ''probe'')]]),
      (''max_tokens'', JNum ''1'')])"

definition probed_spec :: "probe_accept \<Rightarrow> purchase \<Rightarrow> purchase" where
  "probed_spec a p =
     p\<lparr>pr_spec := (pr_spec p)\<lparr>ps_Payment := (ps_Payment (pr_spec p))
        \<lparr>pu_Asset := qa_Asset a, pu_AssetTransferMethod := qa_TransferMethod a,
         pu_EIP712Name := qa_Name a, pu_EIP712Version := qa_Version a\<rparr>\<rparr>\<rparr>"

definition accept_price :: "probe_accept \<Rightarrow> string" where
  "accept_price a = (if qa_Amount a = [] then qa_MaxAmountRequired a else qa_Amount a)"

definition reconcilePurchaseProbe :: "purchase_env \<Rightarrow> purchase \<Rightarrow> purchase_status \<Rightarrow> purchase_status \<times> purchase" where
  "reconcilePurchaseProbe env p status =
     (case pe_probe env (ps_Endpoint (pr_spec p)) probe_body of
        Inl e \<Rightarrow> (set_cond env ''Probed'' ''False'' ''ProbeError'' e status, p)
      | Inr (code, body) \<Rightarrow>
          if code \<noteq> 402 then
            (set_cond env ''Probed'' ''False'' ''NotPaymentGated'' (''expected 402, got '' @ show_int code) status, p)
          else
            (case decode_pricing body of
               Some (a # as) \<Rightarrow>
                 (let price = accept_price a
                  in if price \<noteq> pu_Price (ps_Payment (pr_spec p)) then
                       (set_cond env ''Probed'' ''False'' ''PricingMismatch''
                          (''spec.price='' @ pu_Price (ps_Payment (pr_spec p)) @ '' but endpoint wants '' @ price) status, p)
                     else
                       (set_cond env ''Probed'' ''True'' ''Validated'' (''402: '' @ price @ '' on '' @ qa_Network a)
                          (status\<lparr>pst_ProbedAt := rfc3339 (pe_now env), pst_ProbedPrice := price\<rparr>), probed_spec a p))
             | _ \<Rightarrow> (set_cond env ''Probed'' ''False'' ''InvalidPricing'' ''402 body missing accepts'' status, p)))"

subsection \<open>Stage 2: the signed authorizations\<close>

abbreviation purchase_key :: "purchase \<Rightarrow> string" where
  "purchase_key p \<equiv> pr_Namespace p @ ''/'' @ pr_Name p"

definition reconcilePurchaseLoadAuths ::
  "purchase_env \<Rightarrow> purchase \<Rightarrow> purchase_status \<Rightarrow> purchase_world \<Rightarrow> purchase_status \<times> purchase_world" where
  "reconcilePurchaseLoadAuths env p status w =
     (case preSignedAuthMaps p of
        None \<Rightarrow> (set_cond env ''AuthsLoaded'' ''False'' ''NoAuths''
                   (''spec.preSignedAuths is empty '' @ [CHR 0xE2, CHR 0x80, CHR 0x94] @ '' buy.py should embed auths in the CR'') status, w)
      | Some auths \<Rightarrow>
          (let signer = purchaseSignerAddress (hd (ps_PreSignedAuths (pr_spec p)));
               status1 = (if signer \<noteq> [] then status\<lparr>pst_SignerAddress := signer\<rparr> else status)
           in (set_cond env ''AuthsLoaded'' ''True'' ''Loaded''
                 (''Loaded '' @ show_int (int (length auths)) @ '' pre-signed auths from spec'')
                 (status1\<lparr>pst_TotalSigned := int (length auths)\<rparr>),
               w\<lparr>pw_pending := AList.update (purchase_key p) auths (pw_pending w)\<rparr>)))"

subsection \<open>Stage 3: the buyer's configuration\<close>

definition purchase_upstream :: "purchase \<Rightarrow> goany" where
  "purchase_upstream p =
     (let pay = ps_Payment (pr_spec p) in
      GMap [(''url'', GStr (normalizePurchasedUpstreamURL (ps_Endpoint (pr_spec p)))),
            (''network'', GStr (pu_Network pay)), (''payTo'', GStr (pu_PayTo pay)), (''price'', GStr (pu_Price pay)),
            (''asset'', GStr (pu_Asset pay)), (''assetSymbol'', GStr (pu_AssetSymbol pay)),
            (''assetDecimals'', GInt (pu_AssetDecimals pay)), (''assetTransferMethod'', GStr (pu_AssetTransferMethod pay)),
            (''eip712Name'', GStr (pu_EIP712Name pay)), (''eip712Version'', GStr (pu_EIP712Version pay)),
            (''remoteModel'', GStr (ps_Model (pr_spec p)))])"

text \<open>The auths of the pending load, which is taken out, or of the spec after a restart.\<close>

definition take_auths :: "purchase \<Rightarrow> purchase_world \<Rightarrow> goany list option \<times> purchase_world" where
  "take_auths p w =
     (case map_of (pw_pending w) (purchase_key p) of
        Some auths \<Rightarrow> (Some auths, w\<lparr>pw_pending := AList.delete (purchase_key p) (pw_pending w)\<rparr>)
      | None \<Rightarrow> (preSignedAuthMaps p, w))"

definition reconcilePurchaseConfigure ::
  "purchase_env \<Rightarrow> purchase list \<Rightarrow> purchase \<Rightarrow> purchase_status \<Rightarrow> purchase_world \<Rightarrow> purchase_status \<times> purchase_world" where
  "reconcilePurchaseConfigure env store p status w =
     (case otherActivePurchaseUsesModel store (pr_Namespace p) (pr_Name p) (ps_Model (pr_spec p)) of
        Some other \<Rightarrow>
          (set_cond env ''Configured'' ''False'' ''DuplicateModel''
             (''model '' @ ps_Model (pr_spec p) @ '' is already owned by '' @ pr_Namespace other @ ''/'' @ pr_Name other) status, w)
      | None \<Rightarrow>
          (case take_auths p w of
             (None, w1) \<Rightarrow> (set_cond env ''Configured'' ''False'' ''NoAuths'' ''No auths available to write'' status, w1)
           | (Some auths, w1) \<Rightarrow>
               (let buyerNS = EffectiveBuyerNamespace p
                in case mergeBuyerConfig env buyerNS (pr_Name p) (purchase_upstream p) w1 of
                     (Some e, w2) \<Rightarrow> (set_cond env ''Configured'' ''False'' ''ConfigWriteError'' e status, w2)
                   | (None, w2) \<Rightarrow>
                       (case mergeBuyerAuths env buyerNS (pr_Name p) auths w2 of
                          (Some e, w3) \<Rightarrow> (set_cond env ''Configured'' ''False'' ''AuthsWriteError'' e status, w3)
                        | (None, w3) \<Rightarrow>
                            (let paidModel = ''paid/'' @ ps_Model (pr_spec p);
                                 w4 = addLiteLLMModelEntry env buyerNS paidModel (triggerBuyerReload env 0 buyerNS w3)
                             in (set_cond env ''Configured'' ''True'' ''Written''
                                   (''Wrote '' @ show_int (int (length auths)) @ '' auths to '' @ buyerNS @ ''/x402-buyer-auths'')
                                   (status\<lparr>pst_Remaining := int (length auths), pst_PublicModel := paidModel\<rparr>), w4))))))"

subsection \<open>Stage 4: ready\<close>

definition reconcilePurchaseReady :: "purchase_env \<Rightarrow> purchase \<Rightarrow> purchase_status \<Rightarrow> purchase_status" where
  "reconcilePurchaseReady env p status =
     (let buyerNS = EffectiveBuyerNamespace p;
          syncedBefore = (cond_true status ''Ready'' \<or>
            purchaseConditionReason (pst_Conditions status) ''Ready'' = purchaseReasonBuyerUnavailable)
      in case checkBuyerStatus (pe_pods env 1 buyerNS) buyerNS (pr_Name p) of
           Inl e \<Rightarrow>
             (if syncedBefore then
                set_cond env ''Ready'' ''False'' purchaseReasonBuyerUnavailable (''x402-buyer status check failed: '' @ status_text e) status
              else set_cond env ''Ready'' ''False'' ''SidecarNotReady'' (status_text e) status)
         | Inr (remaining, spent) \<Rightarrow>
             (let status1 = status\<lparr>pst_Remaining := remaining, pst_Spent := spent\<rparr>;
                  expectedRemaining = int (length (ps_PreSignedAuths (pr_spec p)))
              in if \<not> syncedBefore \<and> remaining \<noteq> expectedRemaining then
                   set_cond env ''Ready'' ''False'' ''RuntimeSyncing''
                     (''Sidecar: '' @ show_int remaining @ '' remaining, '' @ show_int spent @ '' spent (waiting for '' @
                      show_int expectedRemaining @ '' active auths)'') status1
                 else
                   set_cond env ''Ready'' ''True'' ''Reconciled''
                     (''Sidecar: '' @ show_int remaining @ '' remaining, '' @ show_int spent @ '' spent'') status1))"

subsection \<open>Status and deletion\<close>

definition updatePurchaseStatus :: "purchase_env \<Rightarrow> purchase \<Rightarrow> purchase_status \<Rightarrow> purchase_world \<Rightarrow> string option \<times> purchase_world" where
  "updatePurchaseStatus env raw status w =
     (if pr_status raw = status then (None, w)
      else case pe_writeError env of
             Some e \<Rightarrow> (Some e, w)
           | None \<Rightarrow> (None, w\<lparr>pw_purchases := AList.update (pr_Namespace raw, pr_Name raw) (raw\<lparr>pr_status := status\<rparr>) (pw_purchases w)\<rparr>))"

definition write_and_wait :: "purchase_env \<Rightarrow> purchase \<Rightarrow> purchase_status \<Rightarrow> purchase_world \<Rightarrow> string option \<times> purchase_world" where
  "write_and_wait env raw status w =
     (case updatePurchaseStatus env raw status w of
        (Some e, w1) \<Rightarrow> (Some e, w1) | (None, w1) \<Rightarrow> (None, add_after (purchase_key raw) w1))"

text \<open>Writing the finalizers; an object that is being deleted goes with its last finalizer.\<close>

definition write_finalizers :: "purchase_env \<Rightarrow> purchase \<Rightarrow> string list \<Rightarrow> purchase_world \<Rightarrow> string option \<times> purchase_world" where
  "write_finalizers env raw fins w =
     (case pe_writeError env of
        Some e \<Rightarrow> (Some e, w)
      | None \<Rightarrow>
          (None, w\<lparr>pw_purchases :=
             (if om_DeletionTimestamp (pr_meta raw) \<noteq> None \<and> fins = []
              then AList.delete (pr_Namespace raw, pr_Name raw) (pw_purchases w)
              else AList.update (pr_Namespace raw, pr_Name raw) (raw\<lparr>pr_meta := (pr_meta raw)\<lparr>om_Finalizers := fins\<rparr>\<rparr>) (pw_purchases w))\<rparr>))"

definition drained_status :: "purchase_env \<Rightarrow> purchase \<Rightarrow> purchase_status" where
  "drained_status env p =
     (let status = (pr_status p)\<lparr>pst_ObservedGeneration := om_Generation (pr_meta p)\<rparr>
      in case checkBuyerStatus (pe_pods env 0 (EffectiveBuyerNamespace p)) (EffectiveBuyerNamespace p) (pr_Name p) of
           Inr (remaining, spent) \<Rightarrow> status\<lparr>pst_Remaining := remaining, pst_Spent := spent\<rparr>
         | Inl e \<Rightarrow>
             (if isSidecarUpstreamGone e then status\<lparr>pst_Remaining := 0\<rparr>
              else if cond_true status ''Configured'' \<and> pst_Remaining status > 0 then status
              else status\<lparr>pst_Remaining := 0\<rparr>))"

text \<open>Taking the purchase out of LiteLLM, unless another one asks for its model, and out of the buyer.\<close>

definition clean_up :: "purchase_env \<Rightarrow> purchase list \<Rightarrow> purchase \<Rightarrow> purchase_world \<Rightarrow> purchase_world" where
  "clean_up env store p w =
     (let buyerNS = EffectiveBuyerNamespace p;
          w1 = (if otherActivePurchaseUsesModel store (pr_Namespace p) (pr_Name p) (ps_Model (pr_spec p)) = None
                then removeLiteLLMModelEntry env buyerNS (''paid/'' @ ps_Model (pr_spec p)) w else w)
      in triggerBuyerReload env 2 buyerNS (triggerBuyerRemove env 1 buyerNS (pr_Name p) (removeBuyerUpstream env buyerNS (pr_Name p) w1)))"

definition reconcileDeletingPurchase ::
  "purchase_env \<Rightarrow> purchase list \<Rightarrow> purchase \<Rightarrow> purchase_world \<Rightarrow> string option \<times> purchase_world" where
  "reconcileDeletingPurchase env store p w =
     (let buyerNS = EffectiveBuyerNamespace p; status = drained_status env p
      in if pst_Remaining status > 0 then
           write_and_wait env p
             (set_cond env ''Deleting'' ''True'' ''Draining''
                (''Delete requested; keeping paid/'' @ ps_Model (pr_spec p) @ '' active until '' @ show_int (pst_Remaining status) @
                 '' remaining auths are consumed'') status) w
         else
           (let w2 = clean_up env store p w
            in case checkBuyerStatus (pe_pods env 3 buyerNS) buyerNS (pr_Name p) of
                 Inr counts \<Rightarrow>
                   write_and_wait env p
                     (set_cond env ''Deleting'' ''True'' ''RuntimeCleanupPending''
                        (''Delete requested; waiting for x402-buyer to drop '' @ pr_Name p @ '' from live status'') status) w2
               | Inl e \<Rightarrow>
                   if \<not> isSidecarUpstreamGone e then
                     write_and_wait env p
                       (set_cond env ''Deleting'' ''True'' ''RuntimeCleanupPending''
                          (''Delete requested; waiting for x402-buyer cleanup: '' @ status_text e) status) w2
                   else write_finalizers env p (filter (\<lambda>f. f \<noteq> purchaseRequestFinalizer) (om_Finalizers (pr_meta p))) w2))"

subsection \<open>One reconcile\<close>

definition empty_purchase_status :: purchase_status where
  "empty_purchase_status =
     \<lparr>pst_ObservedGeneration = 0, pst_Conditions = [], pst_PublicModel = [], pst_Remaining = 0, pst_Spent = 0, pst_TotalSigned = 0,
      pst_TotalSpent = [], pst_ProbedAt = [], pst_ProbedPrice = [], pst_WalletBalance = [], pst_SignerAddress = []\<rparr>"

definition start_status :: "purchase \<Rightarrow> purchase_status" where
  "start_status p =
     (if pst_ObservedGeneration (pr_status p) \<noteq> om_Generation (pr_meta p) then empty_purchase_status else pr_status p)
       \<lparr>pst_ObservedGeneration := om_Generation (pr_meta p)\<rparr>"

definition purchase_stages ::
  "purchase_env \<Rightarrow> purchase list \<Rightarrow> purchase \<Rightarrow> purchase_world \<Rightarrow> purchase_status \<times> purchase_world" where
  "purchase_stages env store p0 w0 =
     (let status0 = start_status p0;
          (status1, p) = (if cond_true status0 ''Probed'' then (status0, p0) else reconcilePurchaseProbe env p0 status0);
          (status2, w2) = (if cond_true status1 ''Probed'' \<and> \<not> cond_true status1 ''AuthsLoaded''
                           then reconcilePurchaseLoadAuths env p status1 w0 else (status1, w0));
          (status3, w3) = (if cond_true status2 ''AuthsLoaded'' \<and> \<not> cond_true status2 ''Configured''
                           then reconcilePurchaseConfigure env store p status2 w2 else (status2, w2))
      in (if cond_true status3 ''Configured'' then reconcilePurchaseReady env p status3 else status3, w3))"

definition reconcilePurchase :: "purchase_env \<Rightarrow> purchase list \<Rightarrow> string \<Rightarrow> purchase_world \<Rightarrow> string option \<times> purchase_world" where
  "reconcilePurchase env store key w =
     (let (ns, name) = (case cut_at ''/'' key of Some (a, b) \<Rightarrow> (a, b) | None \<Rightarrow> (key, []))
      in case (if pe_readable env then map_of (pw_purchases w) (ns, name) else None) of
           None \<Rightarrow> (None, w)
         | Some p \<Rightarrow>
             if purchaseRequestFinalizer \<notin> set (om_Finalizers (pr_meta p)) then
               (case write_finalizers env p (om_Finalizers (pr_meta p) @ [purchaseRequestFinalizer]) w of
                  (Some e, w1) \<Rightarrow> (Some (''add finalizer: '' @ e), w1) | (None, w1) \<Rightarrow> (None, w1))
             else if om_DeletionTimestamp (pr_meta p) \<noteq> None then reconcileDeletingPurchase env store p w
             else
               (case purchase_stages env store p w of
                  (status, w1) \<Rightarrow>
                    (case updatePurchaseStatus env p status w1 of
                       (Some e, w2) \<Rightarrow> (Some e, w2)
                     | (None, w2) \<Rightarrow> (None, if cond_true status ''Configured'' then add_after key w2 else w2))))"

text \<open>The worker: a failed reconcile puts its key back.\<close>

definition processNextPurchase :: "purchase_env \<Rightarrow> purchase list \<Rightarrow> string \<Rightarrow> purchase_world \<Rightarrow> purchase_world" where
  "processNextPurchase env store key w =
     (case reconcilePurchase env store key w of (Some e, w') \<Rightarrow> add_after key w' | (None, w') \<Rightarrow> w')"

end
