(* ===== verification/PurchaseRules.thy ===== *)
theory PurchaseRules imports Purchases JsonRoundtrip begin

text \<open>
  What the reconciler of purchase requests keeps true: the order of its stages over every run, what a reported
  configuration means, the deletion of a purchase, and the files that it leaves for the buyer.
\<close>

subsection \<open>Conditions\<close>

lemma is_true_set [simp]:
  "purchaseConditionIsTrue (setPurchaseCondition now t st r m cs) t' =
   (if t' = t then st = ''True'' else purchaseConditionIsTrue cs t')"
  by (induction cs) auto

lemma reason_set [simp]:
  "purchaseConditionReason (setPurchaseCondition now t st r m cs) t' =
   (if t' = t then r else purchaseConditionReason cs t')"
  by (induction cs) auto

lemma set_cond_simps [simp]:
  "pst_Conditions (set_cond env t st r m s) = setPurchaseCondition (pe_now env) t st r m (pst_Conditions s)"
  "pst_ObservedGeneration (set_cond env t st r m s) = pst_ObservedGeneration s"
  "pst_PublicModel (set_cond env t st r m s) = pst_PublicModel s"
  "pst_Remaining (set_cond env t st r m s) = pst_Remaining s" "pst_TotalSigned (set_cond env t st r m s) = pst_TotalSigned s"
  "pst_ProbedPrice (set_cond env t st r m s) = pst_ProbedPrice s"
  by (simp_all add: set_cond_def)

subsection \<open>The stages of a purchase\<close>

text \<open>Each stage is reached through the ones before it, and what a stage reports holds of the spec.\<close>

definition stage_order :: "purchase_status \<Rightarrow> bool" where
  "stage_order s \<longleftrightarrow> (cond_true s ''Ready'' \<longrightarrow> cond_true s ''Configured'') \<and>
     (cond_true s ''Configured'' \<longrightarrow> cond_true s ''AuthsLoaded'') \<and> (cond_true s ''AuthsLoaded'' \<longrightarrow> cond_true s ''Probed'')"

definition sound_status :: "purchase \<Rightarrow> purchase_status \<Rightarrow> bool" where
  "sound_status p s \<longleftrightarrow> stage_order s \<and>
     (cond_true s ''Probed'' \<longrightarrow> pst_ProbedPrice s = pu_Price (ps_Payment (pr_spec p))) \<and>
     (cond_true s ''AuthsLoaded'' \<longrightarrow> pst_TotalSigned s = int (length (ps_PreSignedAuths (pr_spec p))) \<and> ps_PreSignedAuths (pr_spec p) \<noteq> []) \<and>
     (cond_true s ''Configured'' \<longrightarrow> pst_PublicModel s = ''paid/'' @ ps_Model (pr_spec p))"

lemma sound_probed [simp]: "sound_status (probed_spec a p) s = sound_status p s"
  by (simp add: sound_status_def probed_spec_def)

lemma sound_probe:
  assumes "sound_status p s" "\<not> cond_true s ''Probed''"
  shows "sound_status (snd (reconcilePurchaseProbe env p s)) (fst (reconcilePurchaseProbe env p s))"
  using assms by (auto simp: reconcilePurchaseProbe_def sound_status_def stage_order_def Let_def probed_spec_def
      split: sum.splits option.splits list.splits)

lemma sound_load:
  assumes "sound_status p s" "cond_true s ''Probed''" "\<not> cond_true s ''AuthsLoaded''"
  shows "sound_status p (fst (reconcilePurchaseLoadAuths env p s w))"
  using assms by (auto simp: reconcilePurchaseLoadAuths_def sound_status_def stage_order_def Let_def preSignedAuthMaps_def split: if_splits)

lemma sound_configure:
  assumes "sound_status p s" "cond_true s ''AuthsLoaded''" "\<not> cond_true s ''Configured''"
  shows "sound_status p (fst (reconcilePurchaseConfigure env store p s w))"
  using assms by (auto simp: reconcilePurchaseConfigure_def sound_status_def stage_order_def Let_def split: option.splits prod.splits)

lemma sound_ready:
  assumes "sound_status p s" "cond_true s ''Configured''"
  shows "sound_status p (reconcilePurchaseReady env p s)"
  using assms by (auto simp: reconcilePurchaseReady_def sound_status_def stage_order_def Let_def split: sum.splits)

lemma sound_empty: "sound_status p (empty_purchase_status\<lparr>pst_ObservedGeneration := g\<rparr>)"
  by (simp add: sound_status_def stage_order_def empty_purchase_status_def)

text \<open>A stored purchase: the status of an older generation is only in order; deleting stops the updates of the rest.\<close>

definition sound_purchase :: "purchase \<Rightarrow> bool" where
  "sound_purchase p \<longleftrightarrow> pst_ObservedGeneration (pr_status p) \<le> om_Generation (pr_meta p) \<and> stage_order (pr_status p) \<and>
     (om_DeletionTimestamp (pr_meta p) = None \<and> pst_ObservedGeneration (pr_status p) = om_Generation (pr_meta p) \<longrightarrow>
      sound_status p (pr_status p))"

lemma sound_observed [simp]: "sound_status p (s\<lparr>pst_ObservedGeneration := g\<rparr>) = sound_status p s"
  by (simp add: sound_status_def stage_order_def)

lemma sound_start:
  assumes "sound_purchase p" "om_DeletionTimestamp (pr_meta p) = None"
  shows "sound_status p (start_status p)"
  using assms sound_empty [of p 0] by (auto simp: start_status_def sound_purchase_def)

lemma observed_stages:
  "pst_ObservedGeneration (fst (reconcilePurchaseProbe env p s)) = pst_ObservedGeneration s"
  "pst_ObservedGeneration (fst (reconcilePurchaseLoadAuths env p s w)) = pst_ObservedGeneration s"
  "pst_ObservedGeneration (fst (reconcilePurchaseConfigure env store p s w)) = pst_ObservedGeneration s"
  "pst_ObservedGeneration (reconcilePurchaseReady env p s) = pst_ObservedGeneration s"
  by (auto simp: reconcilePurchaseProbe_def reconcilePurchaseLoadAuths_def reconcilePurchaseConfigure_def reconcilePurchaseReady_def
      Let_def split: sum.splits option.splits list.splits prod.splits)

lemma probe_spec:
  "snd (reconcilePurchaseProbe env p s) = p \<or> (\<exists>a. snd (reconcilePurchaseProbe env p s) = probed_spec a p)"
  by (auto simp: reconcilePurchaseProbe_def Let_def split: sum.splits option.splits list.splits)

lemma sound_snd_probe [simp]: "sound_status (snd (reconcilePurchaseProbe env p s)) t = sound_status p t"
  using probe_spec [of env p s] by auto

lemma sound_stages:
  assumes "sound_purchase p" "om_DeletionTimestamp (pr_meta p) = None"
  shows "sound_status p (fst (purchase_stages env store p w)) \<and>
    pst_ObservedGeneration (fst (purchase_stages env store p w)) = om_Generation (pr_meta p)"
proof -
  define s0 where "s0 = start_status p"
  define r1 where "r1 = (if cond_true s0 ''Probed'' then (s0, p) else reconcilePurchaseProbe env p s0)"
  define r2 where "r2 = (if cond_true (fst r1) ''Probed'' \<and> \<not> cond_true (fst r1) ''AuthsLoaded''
                         then reconcilePurchaseLoadAuths env (snd r1) (fst r1) w else (fst r1, w))"
  define r3 where "r3 = (if cond_true (fst r2) ''AuthsLoaded'' \<and> \<not> cond_true (fst r2) ''Configured''
                         then reconcilePurchaseConfigure env store (snd r1) (fst r2) (snd r2) else (fst r2, snd r2))"
  have r: "purchase_stages env store p w = (if cond_true (fst r3) ''Configured'' then reconcilePurchaseReady env (snd r1) (fst r3) else fst r3, snd r3)"
    by (simp add: purchase_stages_def Let_def s0_def [symmetric] r1_def [symmetric] r2_def r3_def case_prod_beta)
  have p: "sound_status (snd r1) t = sound_status p t" for t by (simp add: r1_def)
  have s0: "sound_status p s0" "pst_ObservedGeneration s0 = om_Generation (pr_meta p)"
    using sound_start [OF assms] by (simp_all add: s0_def start_status_def)
  have s1: "sound_status p (fst r1)" "pst_ObservedGeneration (fst r1) = om_Generation (pr_meta p)"
    using s0 sound_probe [of p s0 env] by (simp_all add: r1_def observed_stages)
  have s2: "sound_status p (fst r2)" "pst_ObservedGeneration (fst r2) = om_Generation (pr_meta p)"
    using s1 sound_load [of "snd r1" "fst r1" env w] by (simp_all add: r2_def p observed_stages)
  have s3: "sound_status p (fst r3)" "pst_ObservedGeneration (fst r3) = om_Generation (pr_meta p)"
    using s2 sound_configure [of "snd r1" "fst r2" env store "snd r2"] by (simp_all add: r3_def p observed_stages)
  show ?thesis using s3 sound_ready [of "snd r1" "fst r3" env] by (simp add: r p observed_stages)
qed

subsection \<open>The objects that a reconcile writes\<close>

lemma purchases_send [simp]:
  "pw_purchases (send c w) = pw_purchases w" "pw_purchases (add_after k w) = pw_purchases w"
  by (simp_all add: send_def add_after_def)

lemma purchases_foldl [simp]: "(\<And>w x. pw_purchases (f w x) = pw_purchases w) \<Longrightarrow> pw_purchases (foldl f w xs) = pw_purchases w"
  by (induction xs arbitrary: w) auto

lemma purchases_hot [simp]:
  "pw_purchases (hotAddLiteLLMModel env ns e w) = pw_purchases w" "pw_purchases (hotDeleteLiteLLMModel env ns m w) = pw_purchases w"
  by (simp_all add: hotAddLiteLLMModel_def hotDeleteLiteLLMModel_def Let_def split: option.splits)

lemma purchases_update_cm [simp]: "pw_purchases (snd (update_cm env ns n d w)) = pw_purchases w"
  by (simp add: update_cm_def split: option.splits)

lemma purchases_write_litellm: "write_litellm env ns d cfg w = Some w' \<Longrightarrow> pw_purchases w' = pw_purchases w"
  by (auto simp: write_litellm_def update_cm_def split: option.splits prod.splits if_splits)

lemma purchases_add_model [simp]: "pw_purchases (addLiteLLMModelEntry env ns m w) = pw_purchases w"
  by (auto simp: addLiteLLMModelEntry_def Let_def purchases_write_litellm split: option.splits entry_edit.splits prod.splits)

lemma purchases_remove_model [simp]: "pw_purchases (removeLiteLLMModelEntry env ns m w) = pw_purchases w"
  by (auto simp: removeLiteLLMModelEntry_def Let_def purchases_write_litellm split: option.splits)

lemma purchases_migrate [simp]: "pw_purchases (migrateLegacyBuyerAPIBases env ns w) = pw_purchases w"
  by (auto simp: migrateLegacyBuyerAPIBases_def Let_def purchases_write_litellm split: option.splits prod.splits)

lemma purchases_merge [simp]: "pw_purchases (snd (mergeBuyerCM env ns cm l n x w)) = pw_purchases w"
  by (auto simp: mergeBuyerCM_def split: sum.splits)

lemma purchases_remove_file [simp]: "pw_purchases (remove_file env ns cm l n w) = pw_purchases w"
  by (auto simp: remove_file_def split: sum.splits)

lemma purchases_pods [simp]:
  "pw_purchases (triggerBuyerReload env n ns w) = pw_purchases w" "pw_purchases (triggerBuyerRemove env n ns name w) = pw_purchases w"
  by (simp_all add: triggerBuyerReload_def triggerBuyerRemove_def post_pods_def split: option.splits)

lemma purchases_clean_up [simp]: "pw_purchases (clean_up env store p w) = pw_purchases w"
  by (simp add: clean_up_def removeBuyerUpstream_def Let_def)

lemma purchases_configure [simp]: "pw_purchases (snd (reconcilePurchaseConfigure env store p s w)) = pw_purchases w"
proof -
  have t: "pw_purchases (snd (take_auths p w)) = pw_purchases w" by (simp add: take_auths_def split: option.splits)
  obtain auths w1 where ta: "take_auths p w = (auths, w1)" by (rule prod.exhaust)
  obtain e2 w2 where m2: "mergeBuyerConfig env (EffectiveBuyerNamespace p) (pr_Name p) (purchase_upstream p) w1 = (e2, w2)" by (rule prod.exhaust)
  have w2: "pw_purchases w2 = pw_purchases w1" using purchases_merge [of env] m2 unfolding mergeBuyerConfig_def by (metis snd_conv)
  have w3: "mergeBuyerAuths env (EffectiveBuyerNamespace p) (pr_Name p) a w2 = (e3, w3) \<Longrightarrow> pw_purchases w3 = pw_purchases w2" for a e3 w3
    using purchases_merge [of env] unfolding mergeBuyerAuths_def by (metis snd_conv)
  show ?thesis using t by (auto simp: reconcilePurchaseConfigure_def ta m2 w2 w3 Let_def split: option.splits prod.splits)
qed

lemma purchases_stages: "pw_purchases (snd (purchase_stages env store p w)) = pw_purchases w"
  by (auto simp: purchase_stages_def reconcilePurchaseLoadAuths_def Let_def case_prod_beta split: option.splits)

subsection \<open>Runs\<close>

text \<open>
  What happens to the purchases: users create, edit and delete them, which gives them a new generation and leaves their
  status alone; the worker reconciles a key against any view of the store; the controller restarts; the config maps
  change under it.
\<close>

inductive purchase_step :: "purchase_world \<Rightarrow> purchase_world \<Rightarrow> bool" where
  worked: "purchase_step w (processNextPurchase env store key w)"
| created: "map_of (pw_purchases w) (pr_Namespace p, pr_Name p) = None \<Longrightarrow> pr_status p = empty_purchase_status \<Longrightarrow>
    om_Generation (pr_meta p) = 1 \<Longrightarrow>
    purchase_step w (w\<lparr>pw_purchases := AList.update (pr_Namespace p, pr_Name p) p (pw_purchases w)\<rparr>)"
| edited: "map_of (pw_purchases w) k = Some p \<Longrightarrow>
    purchase_step w (w\<lparr>pw_purchases := AList.update k
      (p\<lparr>pr_spec := spec, pr_meta := (pr_meta p)\<lparr>om_Generation := om_Generation (pr_meta p) + 1\<rparr>\<rparr>) (pw_purchases w)\<rparr>)"
| deleted: "map_of (pw_purchases w) k = Some p \<Longrightarrow>
    purchase_step w (w\<lparr>pw_purchases := AList.update k
      (p\<lparr>pr_meta := (pr_meta p)\<lparr>om_DeletionTimestamp := Some t, om_Generation := om_Generation (pr_meta p) + 1\<rparr>\<rparr>) (pw_purchases w)\<rparr>)"
| restarted: "purchase_step w (w\<lparr>pw_pending := []\<rparr>)"
| config_changed: "purchase_step w (w\<lparr>pw_configMaps := cms\<rparr>)"

definition sound_world :: "purchase_world \<Rightarrow> bool" where
  "sound_world w \<longleftrightarrow> (\<forall>p \<in> snd ` set (pw_purchases w). sound_purchase p)"

lemma sound_world_found: "sound_world w \<Longrightarrow> map_of (pw_purchases w) k = Some p \<Longrightarrow> sound_purchase p"
  unfolding sound_world_def by (metis image_eqI map_of_SomeD snd_conv)

lemma alist_update_values: "x \<in> set (AList.update k v m) \<Longrightarrow> x = (k, v) \<or> x \<in> set m"
  by (induction m) (auto split: if_splits)

lemma sound_world_update:
  assumes "sound_world w" "sound_purchase p" "pw_purchases w' = AList.update k p (pw_purchases w)"
  shows "sound_world w'"
  using assms by (auto simp: sound_world_def dest!: alist_update_values)

lemma sound_world_delete:
  "sound_world w \<Longrightarrow> pw_purchases w' = AList.delete k (pw_purchases w) \<Longrightarrow> sound_world w'"
  by (auto simp: sound_world_def AList.delete_eq)

lemma sound_world_same: "sound_world w \<Longrightarrow> pw_purchases w' = pw_purchases w \<Longrightarrow> sound_world w'"
  by (simp add: sound_world_def)

lemma sound_write_status:
  assumes "sound_world w" "sound_purchase (raw\<lparr>pr_status := s\<rparr>)"
  shows "sound_world (snd (updatePurchaseStatus env raw s w))"
  using assms sound_world_update [OF assms] by (auto simp: updatePurchaseStatus_def split: option.splits)

lemma sound_write_and_wait:
  assumes "sound_world w" "sound_purchase (raw\<lparr>pr_status := s\<rparr>)"
  shows "sound_world (snd (write_and_wait env raw s w))"
proof -
  obtain e w1 where u: "updatePurchaseStatus env raw s w = (e, w1)" by (rule prod.exhaust)
  then have "sound_world w1" using sound_write_status [OF assms, of env] by simp
  then show ?thesis by (cases e) (auto simp: write_and_wait_def u intro: sound_world_same)
qed

lemma sound_finalizers [simp]: "sound_purchase (p\<lparr>pr_meta := (pr_meta p)\<lparr>om_Finalizers := f\<rparr>\<rparr>) = sound_purchase p"
  by (simp add: sound_purchase_def sound_status_def)

lemma sound_write_finalizers:
  assumes "sound_world w" "sound_purchase p"
  shows "sound_world (snd (write_finalizers env p fins w))"
proof (cases "pe_writeError env")
  case None
  show ?thesis
  proof (cases "om_DeletionTimestamp (pr_meta p) \<noteq> None \<and> fins = []")
    case True
    then show ?thesis using assms by (auto simp: write_finalizers_def None intro: sound_world_delete)
  next
    case False
    have "sound_purchase (p\<lparr>pr_meta := (pr_meta p)\<lparr>om_Finalizers := fins\<rparr>\<rparr>)" using assms by simp
    from sound_world_update [OF assms(1) this] False show ?thesis by (auto simp: write_finalizers_def None)
  qed
qed (use assms in \<open>simp add: write_finalizers_def\<close>)

lemma sound_deleting:
  assumes w: "sound_world w" and p: "sound_purchase p" "om_DeletionTimestamp (pr_meta p) \<noteq> None"
  shows "sound_world (snd (reconcileDeletingPurchase env store p w))"
proof -
  have d: "stage_order (drained_status env p)" "pst_ObservedGeneration (drained_status env p) = om_Generation (pr_meta p)"
    using p by (auto simp: drained_status_def sound_purchase_def stage_order_def Let_def split: sum.splits)
  then have c: "sound_purchase (p\<lparr>pr_status := set_cond env ''Deleting'' ''True'' r m (drained_status env p)\<rparr>)" for r m
    using p by (auto simp: sound_purchase_def stage_order_def)
  have w2: "sound_world (clean_up env store p w)" using w by (rule sound_world_same) simp
  show ?thesis
  proof (cases "pst_Remaining (drained_status env p) > 0")
    case True
    then show ?thesis using sound_write_and_wait [OF w c] by (simp add: reconcileDeletingPurchase_def Let_def)
  next
    case False
    then show ?thesis using sound_write_and_wait [OF w2 c] sound_write_finalizers [OF w2 p(1)]
      by (auto simp: reconcileDeletingPurchase_def Let_def split: sum.splits)
  qed
qed

lemma sound_reconcile:
  assumes w: "sound_world w"
  shows "sound_world (snd (reconcilePurchase env store key w))"
proof -
  obtain ns name where k: "(case cut_at ''/'' key of Some (a, b) \<Rightarrow> (a, b) | None \<Rightarrow> (key, [])) = (ns, name)" by (rule prod.exhaust)
  show ?thesis
  proof (cases "if pe_readable env then map_of (pw_purchases w) (ns, name) else None")
    case None
    then show ?thesis using w by (simp add: reconcilePurchase_def k)
  next
    case (Some p)
    then have p: "sound_purchase p" using sound_world_found [OF w] by (auto split: if_splits)
    obtain s w1 where st: "purchase_stages env store p w = (s, w1)" by (rule prod.exhaust)
    have w1: "sound_world w1" using purchases_stages [of env store p w] w st by (auto intro: sound_world_same)
    obtain e w2 where u: "updatePurchaseStatus env p s w1 = (e, w2)" by (rule prod.exhaust)
    have w2: "sound_world w2" if "om_DeletionTimestamp (pr_meta p) = None"
    proof -
      have "sound_purchase (p\<lparr>pr_status := s\<rparr>)"
        using sound_stages [OF p that, of env store w] st by (simp add: sound_purchase_def sound_status_def)
      from sound_write_status [OF w1 this, of env] show ?thesis by (simp add: u)
    qed
    define fins where "fins = om_Finalizers (pr_meta p) @ [purchaseRequestFinalizer]"
    obtain e3 w3 where f: "write_finalizers env p fins w = (e3, w3)" by (rule prod.exhaust)
    have w3: "sound_world w3" using sound_write_finalizers [OF w p, of env fins] f by simp
    show ?thesis
      using Some w2 w3 sound_deleting [OF w p]
      by (auto simp: reconcilePurchase_def k st u f fins_def [symmetric] split: option.splits intro: sound_world_same)
  qed
qed

lemma sound_step: "purchase_step w w' \<Longrightarrow> sound_world w \<Longrightarrow> sound_world w'"
proof (induction rule: purchase_step.induct)
  case (worked w env store key)
  obtain e w' where r: "reconcilePurchase env store key w = (e, w')" by (rule prod.exhaust)
  have "sound_world w'" using sound_reconcile [OF worked, of env store key] r by simp
  then show ?case by (cases e) (auto simp: processNextPurchase_def r intro: sound_world_same)
next
  case (created w p)
  then have "sound_purchase p" by (simp add: sound_purchase_def stage_order_def empty_purchase_status_def)
  with created show ?case by (auto intro: sound_world_update)
next
  case (edited w k p spec)
  then have "sound_purchase p" by (metis sound_world_found)
  then have "sound_purchase (p\<lparr>pr_spec := spec, pr_meta := (pr_meta p)\<lparr>om_Generation := om_Generation (pr_meta p) + 1\<rparr>\<rparr>)"
    by (simp add: sound_purchase_def)
  with edited show ?case by (auto intro: sound_world_update)
next
  case (deleted w k p t)
  then have "sound_purchase p" by (metis sound_world_found)
  then have "sound_purchase (p\<lparr>pr_meta := (pr_meta p)\<lparr>om_DeletionTimestamp := Some t, om_Generation := om_Generation (pr_meta p) + 1\<rparr>\<rparr>)"
    by (simp add: sound_purchase_def)
  with deleted show ?case by (auto intro: sound_world_update)
qed (auto intro: sound_world_same)

lemma sound_run: "purchase_step\<^sup>*\<^sup>* w w' \<Longrightarrow> sound_world w \<Longrightarrow> sound_world w'"
  by (induction rule: rtranclp_induct) (auto intro: sound_step)

text \<open>C6: A ready purchase went through every stage for its present spec.  In every run that starts without purchases, a
  purchase that is not being deleted, whose status is of its present generation and says \<open>Ready\<close>, is configured, has its
  signed authorizations loaded (all of them, and at least one) and was probed, and the price that the seller asked in the
  probe is the price that the purchase states: an edit, a restart, a stale store or a failed write never leave a purchase
  ready that skipped a stage.\<close>

theorem ready_purchase_was_checked:
  assumes "purchase_step\<^sup>*\<^sup>* w0 w" and "pw_purchases w0 = []" and "p \<in> snd ` set (pw_purchases w)"
    and "om_DeletionTimestamp (pr_meta p) = None" and "pst_ObservedGeneration (pr_status p) = om_Generation (pr_meta p)"
    and "purchaseConditionIsTrue (pst_Conditions (pr_status p)) ''Ready''"
  shows "purchaseConditionIsTrue (pst_Conditions (pr_status p)) ''Configured'' \<and>
    purchaseConditionIsTrue (pst_Conditions (pr_status p)) ''AuthsLoaded'' \<and>
    purchaseConditionIsTrue (pst_Conditions (pr_status p)) ''Probed'' \<and>
    pst_ProbedPrice (pr_status p) = pu_Price (ps_Payment (pr_spec p)) \<and> ps_PreSignedAuths (pr_spec p) \<noteq> [] \<and>
    pst_TotalSigned (pr_status p) = int (length (ps_PreSignedAuths (pr_spec p))) \<and>
    pst_PublicModel (pr_status p) = ''paid/'' @ ps_Model (pr_spec p)"
proof -
  have "sound_world w0" using assms(2) by (simp add: sound_world_def)
  then have "sound_world w" using assms(1) by (metis sound_run)
  then have "sound_purchase p" using assms(3) by (auto simp: sound_world_def)
  then show ?thesis using assms(4-6) by (simp add: sound_purchase_def sound_status_def stage_order_def)
qed

end
