(* ===== verification/PurchaseSafety.thy ===== *)
theory PurchaseSafety imports PurchaseRules begin

text \<open>
  The end of a purchase, and the purchases that the worker lets go: when the object is removed, what an unreachable
  buyer does to a deletion, and when a failed purchase is tried again.  A sample run for the witnesses.
\<close>

subsection \<open>Deletion\<close>

lemma contains_sub_suffix: "has_suffix p s \<Longrightarrow> contains_sub p s"
proof -
  have "index_sub p (t @ p) \<noteq> None" for t
    by (induction t) (cases p; simp add: has_prefix_iff)+
  then show "has_suffix p s \<Longrightarrow> contains_sub p s" by (auto simp: has_suffix_iff contains_sub_def)
qed

text \<open>Objects are stored under their own namespace and name.\<close>

definition keyed_world :: "purchase_world \<Rightarrow> bool" where
  "keyed_world w \<longleftrightarrow> list_all (\<lambda>(k, p). k = (pr_Namespace p, pr_Name p)) (pw_purchases w)"

lemma keyed_found: "keyed_world w \<Longrightarrow> map_of (pw_purchases w) k = Some p \<Longrightarrow> k = (pr_Namespace p, pr_Name p)"
  by (auto simp: keyed_world_def list_all_iff dest!: map_of_SomeD)

lemma gone_iff: "checkBuyerStatus pods ''llm'' name = Inl e \<Longrightarrow> isSidecarUpstreamGone e \<longleftrightarrow> e = NotInStatus name"
proof -
  have n: "\<not> isSidecarUpstreamGone (NoPods ''llm'')" by code_simp
  have "isSidecarUpstreamGone (NotInStatus x)" for x
  proof -
    have "has_suffix ''not found in sidecar status'' (status_text (NotInStatus x))"
      unfolding status_text.simps has_suffix_iff by (rule exI [of _ "''upstream '' @ json_quote x @ '' ''"]) simp
    then show ?thesis unfolding isSidecarUpstreamGone_def by (rule contains_sub_suffix)
  qed
  moreover assume "checkBuyerStatus pods ''llm'' name = Inl e"
  ultimately show ?thesis using n by (auto simp: checkBuyerStatus_def split: option.splits list.splits if_splits)
qed

lemma map_of_delete_other: "k \<noteq> k' \<Longrightarrow> map_of (AList.delete k' m) k = map_of m k"
  by (simp add: delete_conv)

lemma status_write_keeps:
  "map_of (pw_purchases w) k = Some p \<Longrightarrow> map_of (pw_purchases (snd (updatePurchaseStatus env q s w))) k \<noteq> None"
  by (auto simp: updatePurchaseStatus_def update_conv' split: option.splits)

lemma wait_keeps:
  assumes "map_of (pw_purchases w) k = Some p"
  shows "map_of (pw_purchases (snd (write_and_wait env q s w))) k \<noteq> None"
proof -
  obtain e w1 where u: "updatePurchaseStatus env q s w = (e, w1)" by (rule prod.exhaust)
  then have "map_of (pw_purchases w1) k \<noteq> None" using status_write_keeps [OF assms, of env q s] by simp
  then show ?thesis by (cases e) (auto simp: write_and_wait_def u)
qed

text \<open>A live pod whose status can be read and lists the upstream.\<close>

definition lists_upstream :: "string \<Rightarrow> buyer_pod \<Rightarrow> bool" where
  "lists_upstream name b \<longleftrightarrow> live_pod b \<and>
     (\<exists>body kvs m. bp_Status b = Some body \<and> json_parse body = Some (JObj kvs) \<and> decode_map decode_counts kvs [] = Some m \<and>
        map_of m name \<noteq> None)"

lemma not_in_status:
  assumes "checkBuyerStatus pods ns name = Inl (NotInStatus name)"
  shows "\<exists>ps. pods = Some ps \<and> ps \<noteq> [] \<and> (\<forall>b \<in> set ps. \<not> lists_upstream name b)"
proof -
  obtain ps where ps: "pods = Some ps" "ps \<noteq> []" "List.map_filter (pod_counts name) ps = []"
    using assms by (auto simp: checkBuyerStatus_def split: option.splits if_splits list.splits)
  have "pod_counts name b = None" if "b \<in> set ps" for b
    using ps(3) that by (cases "pod_counts name b") (auto simp: List.map_filter_def filter_empty_conv)
  moreover have "lists_upstream name b \<Longrightarrow> pod_counts name b \<noteq> None" for b
    by (auto simp: lists_upstream_def pod_counts_def)
  ultimately show ?thesis using ps by blast
qed

text \<open>The upstream's file is out of a config map, unless the API server refused to show or to change the map.\<close>

definition file_gone :: "purchase_env \<Rightarrow> string \<Rightarrow> string \<Rightarrow> string \<Rightarrow> purchase_world \<Rightarrow> bool" where
  "file_gone env ns cm name w \<longleftrightarrow>
     pe_getError env ns cm \<noteq> None \<or> pe_updateError env ns cm \<noteq> None \<or>
     (case map_of (pw_configMaps w) (ns, cm) of None \<Rightarrow> True | Some data \<Rightarrow> map_of data (name @ ''.json'') = None)"

lemma remove_file_gone: "file_gone env ns cm name (remove_file env ns cm legacy name w)"
  by (auto simp: file_gone_def remove_file_def get_cm_def update_cm_def update_conv' delete_conv split: option.splits)

lemma remove_file_other:
  "cm \<noteq> cm' \<Longrightarrow> file_gone env ns cm' name w \<Longrightarrow> file_gone env ns cm' name (remove_file env ns cm legacy name w)"
  by (auto simp: file_gone_def remove_file_def get_cm_def update_cm_def update_conv' split: option.splits)

lemma post_pods_maps [simp]: "pw_configMaps (post_pods path pods w) = pw_configMaps w"
proof -
  have "pw_configMaps (foldl (\<lambda>w' p. send (f p) w') w ps) = pw_configMaps w" for f and ps :: "buyer_pod list"
    by (induction ps arbitrary: w) (simp_all add: send_def)
  then show ?thesis by (simp add: post_pods_def split: option.split)
qed

lemma clean_up_gone:
  "file_gone env (EffectiveBuyerNamespace p) ''x402-buyer-config'' (pr_Name p) (clean_up env store p w)"
  "file_gone env (EffectiveBuyerNamespace p) ''x402-buyer-auths'' (pr_Name p) (clean_up env store p w)"
proof -
  obtain w1 where "pw_configMaps (clean_up env store p w) = pw_configMaps (removeBuyerUpstream env (EffectiveBuyerNamespace p) (pr_Name p) w1)"
    by (simp add: clean_up_def Let_def triggerBuyerReload_def triggerBuyerRemove_def)
  then have same: "file_gone env ns cm n (clean_up env store p w) =
      file_gone env ns cm n (removeBuyerUpstream env (EffectiveBuyerNamespace p) (pr_Name p) w1)" for ns cm n
    by (simp add: file_gone_def)
  show "file_gone env (EffectiveBuyerNamespace p) ''x402-buyer-config'' (pr_Name p) (clean_up env store p w)"
    "file_gone env (EffectiveBuyerNamespace p) ''x402-buyer-auths'' (pr_Name p) (clean_up env store p w)"
    unfolding same removeBuyerUpstream_def by (rule remove_file_other [OF _ remove_file_gone], simp, rule remove_file_gone)
qed

text \<open>C21: A purchase leaves the API server only when it was to be deleted and the buyer let it go.  If a reconcile
  removes the object, its deletion had been requested, it carried the controller's finalizer, the upstream's files are out of
  both config maps of the buyer (but for a map that the API server refused to show or to change), and the pods of the
  buyer, listed after that, were some, and none of them is a live one whose status could be read and still listed the
  upstream.  A pod that does not answer is not asked again: it counts as one that does not list it.\<close>

theorem removed_only_when_gone:
  assumes "map_of (pw_purchases w) k = Some p" and "keyed_world w"
    and "map_of (pw_purchases (snd (reconcilePurchase env store key w))) k = None"
  shows "om_DeletionTimestamp (pr_meta p) \<noteq> None \<and> purchaseRequestFinalizer \<in> set (om_Finalizers (pr_meta p)) \<and>
    file_gone env (EffectiveBuyerNamespace p) ''x402-buyer-config'' (pr_Name p) (snd (reconcilePurchase env store key w)) \<and>
    file_gone env (EffectiveBuyerNamespace p) ''x402-buyer-auths'' (pr_Name p) (snd (reconcilePurchase env store key w)) \<and>
    (\<exists>pods. pe_pods env 3 (EffectiveBuyerNamespace p) = Some pods \<and> pods \<noteq> [] \<and> (\<forall>b \<in> set pods. \<not> lists_upstream (pr_Name p) b))"
proof -
  obtain ns name where ky: "(case cut_at ''/'' key of Some (a, b) \<Rightarrow> (a, b) | None \<Rightarrow> (key, [])) = (ns, name)" by (rule prod.exhaust)
  show ?thesis
  proof (cases "if pe_readable env then map_of (pw_purchases w) (ns, name) else None")
    case None
    then show ?thesis using assms(1,3) by (simp add: reconcilePurchase_def ky)
  next
    case (Some q)
    then have q: "map_of (pw_purchases w) (ns, name) = Some q" by (auto split: if_splits)
    then have nq: "(ns, name) = (pr_Namespace q, pr_Name q)" by (rule keyed_found [OF assms(2)])
    obtain s w1 where st: "purchase_stages env store q w = (s, w1)" by (rule prod.exhaust)
    have w1: "map_of (pw_purchases w1) k = Some p" using purchases_stages [of env store q w] st assms(1) by simp
    obtain e w2 where u: "updatePurchaseStatus env q s w1 = (e, w2)" by (rule prod.exhaust)
    have w2: "map_of (pw_purchases w2) k \<noteq> None" using status_write_keeps [OF w1, of env q s] by (simp add: u)
    have stages: "map_of (pw_purchases (snd (case e of Some e' \<Rightarrow> (Some e', w2)
        | None \<Rightarrow> (None, if cond_true s ''Configured'' then add_after key w2 else w2)))) k \<noteq> None"
      using w2 by (cases e) auto
    define fins where "fins = om_Finalizers (pr_meta q) @ [purchaseRequestFinalizer]"
    have ff: "map_of (pw_purchases (snd (write_finalizers env q fins w))) k \<noteq> None"
      using assms(1) by (auto simp: write_finalizers_def fins_def update_conv' split: option.splits)
    obtain e3 w3 where f: "write_finalizers env q fins w = (e3, w3)" by (rule prod.exhaust)
    have w3: "map_of (pw_purchases w3) k \<noteq> None" using ff by (simp add: f)
    have del: "purchaseRequestFinalizer \<in> set (om_Finalizers (pr_meta q)) \<and> om_DeletionTimestamp (pr_meta q) \<noteq> None"
      and gone: "map_of (pw_purchases (snd (reconcileDeletingPurchase env store q w))) k = None"
      using assms(3) Some w3 stages
      by (auto simp: reconcilePurchase_def ky st u f fins_def [symmetric] split: option.splits if_splits)
    have c: "map_of (pw_purchases (clean_up env store q w)) k = Some p" using assms(1) by simp
    have nw: "(map_of (pw_purchases (snd (write_and_wait env q s' w))) k = None) = False"
      "(map_of (pw_purchases (snd (write_and_wait env q s' (clean_up env store q w)))) k = None) = False" for s'
      using wait_keeps [OF assms(1)] wait_keeps [OF c] by auto
    have rem: "\<not> 0 < pst_Remaining (drained_status env q)"
      using gone by (auto simp: reconcileDeletingPurchase_def Let_def nw simp del: not_None_eq split: if_splits)
    obtain er where er: "checkBuyerStatus (pe_pods env 3 (EffectiveBuyerNamespace q)) (EffectiveBuyerNamespace q) (pr_Name q) = Inl er"
      "isSidecarUpstreamGone er"
      using gone rem by (auto simp: reconcileDeletingPurchase_def Let_def nw simp del: not_None_eq split: if_splits sum.splits)
    have fz: "map_of (pw_purchases (snd (write_finalizers env q (filter (\<lambda>f. f \<noteq> purchaseRequestFinalizer) (om_Finalizers (pr_meta q)))
        (clean_up env store q w)))) k = None"
      using gone rem er by (simp add: reconcileDeletingPurchase_def Let_def)
    have "k = (pr_Namespace q, pr_Name q)"
    proof (rule ccontr)
      assume "k \<noteq> (pr_Namespace q, pr_Name q)"
      then show False using fz c by (auto simp: write_finalizers_def update_conv' map_of_delete_other split: option.splits if_splits)
    qed
    then have pq: "p = q" using q assms(1) nq by simp
    have "reconcilePurchase env store key w = reconcileDeletingPurchase env store q w"
      using del Some by (simp add: reconcilePurchase_def ky)
    then have "pw_configMaps (snd (reconcilePurchase env store key w)) = pw_configMaps (clean_up env store q w)"
      using rem er by (simp add: reconcileDeletingPurchase_def Let_def write_finalizers_def split: option.split)
    then have files: "file_gone env ns' cm n (snd (reconcilePurchase env store key w)) = file_gone env ns' cm n (clean_up env store q w)" for ns' cm n
      by (simp add: file_gone_def)
    have "er = NotInStatus (pr_Name q)"
      using gone_iff [of "pe_pods env 3 ''llm''" "pr_Name q" er] er by (simp add: EffectiveBuyerNamespace_def)
    then show ?thesis using er del not_in_status [of "pe_pods env 3 (EffectiveBuyerNamespace q)" _ "pr_Name q"] clean_up_gone [of env q store w]
      unfolding pq files by metis
  qed
qed

lemma cut_key: "CHR ''/'' \<notin> set ns \<Longrightarrow> cut_at ''/'' (ns @ ''/'' @ name) = Some (ns, name)"
proof -
  have "CHR ''/'' \<notin> set ns \<Longrightarrow> index_sub ''/'' (ns @ CHR ''/'' # name) = Some (length ns)"
    by (induction ns) auto
  then show "CHR ''/'' \<notin> set ns \<Longrightarrow> ?thesis" by (simp add: cut_at_def)
qed

text \<open>An unreachable buyer counts as a drained one.  When every pod of the buyer fails to answer its status request,
  one reconcile of a purchase that is being deleted takes it out of the buyer's configuration and lets the object go,
  however many paid vouchers it still has: a pod that cannot be asked is treated like a pod that no longer lists the
  upstream, and \<open>Remaining\<close> is set to nought.\<close>

theorem unreachable_buyer_counts_as_drained:
  assumes "map_of (pw_purchases w) (ns, name) = Some p" and "ns = pr_Namespace p" and "name = pr_Name p" and "CHR ''/'' \<notin> set ns"
    and "om_DeletionTimestamp (pr_meta p) \<noteq> None" and "om_Finalizers (pr_meta p) = [purchaseRequestFinalizer]"
    and "pe_readable env" and "pe_writeError env = None"
    and "\<And>n. pe_pods env n ''llm'' = Some pods" and "pods \<noteq> []" and "list_all (\<lambda>b. bp_Status b = None) pods"
  shows "reconcilePurchase env store (ns @ ''/'' @ name) w =
    (None, (clean_up env store p w)\<lparr>pw_purchases := AList.delete (ns, name) (pw_purchases w)\<rparr>)"
proof -
  have none: "List.map_filter (pod_counts x) pods = []" for x
    using assms(11) by (induction pods) (simp_all add: map_filter_simps pod_counts_def)
  then have st: "checkBuyerStatus (pe_pods env n ''llm'') ''llm'' x = Inl (NotInStatus x)" for n x
    using assms(9,10) by (simp add: checkBuyerStatus_def)
  have gone: "isSidecarUpstreamGone (NotInStatus x)" for x
    using gone_iff [OF st [of 0 x]] by simp
  have "pst_Remaining (drained_status env p) = 0"
    by (simp add: drained_status_def Let_def EffectiveBuyerNamespace_def st gone)
  then have "reconcileDeletingPurchase env store p w = write_finalizers env p [] (clean_up env store p w)"
    using assms(6) by (simp add: reconcileDeletingPurchase_def Let_def EffectiveBuyerNamespace_def st gone)
  then show ?thesis
    using assms(1-8) cut_key [OF assms(4), of name] by (simp add: reconcilePurchase_def write_finalizers_def)
qed

subsection \<open>Retries\<close>

lemma set_twice [simp]:
  "setPurchaseCondition now' t st r m (setPurchaseCondition now t st r m cs) = setPurchaseCondition now t st r m cs"
  by (induction cs) auto

lemma set_cond_twice [simp]: "set_cond env' t st r m (set_cond env t st r m s) = set_cond env t st r m s"
  by (simp add: set_cond_def)

lemma failed_probe_again:
  assumes "\<not> cond_true (fst (reconcilePurchaseProbe env p s)) ''Probed''" and "pr_spec p' = pr_spec p"
    and "pe_probe env' (ps_Endpoint (pr_spec p)) probe_body = pe_probe env (ps_Endpoint (pr_spec p)) probe_body"
  shows "reconcilePurchaseProbe env' p' (fst (reconcilePurchaseProbe env p s)) = (fst (reconcilePurchaseProbe env p s), p')"
  using assms by (auto simp: reconcilePurchaseProbe_def Let_def split: sum.splits option.splits list.splits if_splits)

lemma failed_probe_keeps:
  "\<not> cond_true (fst (reconcilePurchaseProbe env p s)) ''Probed'' \<Longrightarrow> t \<noteq> ''Probed'' \<Longrightarrow>
   cond_true (fst (reconcilePurchaseProbe env p s)) t = cond_true s t"
  by (auto simp: reconcilePurchaseProbe_def Let_def split: sum.splits option.splits list.splits if_splits)

lemma stage_order_start: "stage_order (pr_status p) \<Longrightarrow> stage_order (start_status p)"
  by (auto simp: stage_order_def start_status_def empty_purchase_status_def)

lemma start_observed: "pst_ObservedGeneration (start_status p) = om_Generation (pr_meta p)"
  by (simp add: start_status_def)

lemma start_same: "pst_ObservedGeneration s = om_Generation (pr_meta p) \<Longrightarrow> start_status (p\<lparr>pr_status := s\<rparr>) = s"
  by (simp add: start_status_def)

lemma failed_stages:
  assumes "stage_order (start_status p)" "\<not> cond_true (start_status p) ''Probed''"
    and "\<not> cond_true (fst (reconcilePurchaseProbe env p (start_status p))) ''Probed''"
  shows "purchase_stages env store p w = (fst (reconcilePurchaseProbe env p (start_status p)), w)"
proof -
  have "\<not> cond_true (start_status p) ''AuthsLoaded''" "\<not> cond_true (start_status p) ''Configured''"
    using assms(1,2) by (auto simp: stage_order_def)
  then have "\<not> cond_true (fst (reconcilePurchaseProbe env p (start_status p))) ''AuthsLoaded''"
    "\<not> cond_true (fst (reconcilePurchaseProbe env p (start_status p))) ''Configured''"
    by (simp_all add: failed_probe_keeps [OF assms(3)])
  then show ?thesis using assms(2,3) by (simp add: purchase_stages_def Let_def case_prod_beta)
qed

text \<open>A probe that fails twice in the same way is the last one.  After a reconcile whose probe of the seller failed (an
  error of the connection, a status other than 402, a body without terms, another price), nothing has been put back in
  the queue; and a second reconcile that meets the same failure writes nothing and queues nothing, at whatever time it
  runs.  Only the write of the first failure causes the second try: afterwards the purchase stays as it is although the
  seller may be up again.\<close>

theorem failed_probe_not_retried:
  assumes "map_of (pw_purchases w) (ns, name) = Some p" and "ns = pr_Namespace p" and "name = pr_Name p" and "CHR ''/'' \<notin> set ns"
    and "om_DeletionTimestamp (pr_meta p) = None" and "purchaseRequestFinalizer \<in> set (om_Finalizers (pr_meta p))"
    and "stage_order (pr_status p)" and "\<not> purchaseConditionIsTrue (pst_Conditions (start_status p)) ''Probed''"
    and "\<not> purchaseConditionIsTrue (pst_Conditions (fst (reconcilePurchaseProbe env p (start_status p)))) ''Probed''"
    and "pe_readable env" and "pe_readable env'" and "pe_writeError env = None"
    and "pe_probe env' (ps_Endpoint (pr_spec p)) probe_body = pe_probe env (ps_Endpoint (pr_spec p)) probe_body"
  shows "pw_queue (processNextPurchase env store (ns @ ''/'' @ name) w) = pw_queue w \<and>
    processNextPurchase env' store' (ns @ ''/'' @ name) (processNextPurchase env store (ns @ ''/'' @ name) w) =
    processNextPurchase env store (ns @ ''/'' @ name) w"
proof -
  define s where "s = fst (reconcilePurchaseProbe env p (start_status p))"
  define p1 where "p1 = p\<lparr>pr_status := s\<rparr>"
  note cut = cut_key [OF assms(4), of name]
  have so: "stage_order (start_status p)" using assms(7) by (rule stage_order_start)
  have st: "purchase_stages env store p w' = (s, w')" for w'
    unfolding s_def using failed_stages [OF so assms(8,9)] by simp
  have nc: "\<not> cond_true s ''Configured''" and np: "\<not> cond_true s ''Probed''"
    using so assms(8,9) failed_probe_keeps [OF assms(9), of "''Configured''"] by (auto simp: s_def stage_order_def)
  have same: "start_status p1 = s" unfolding p1_def by (rule start_same) (simp add: s_def observed_stages start_observed)
  have again: "reconcilePurchaseProbe env' p1 s = (s, p1)"
    unfolding s_def by (rule failed_probe_again [OF assms(9) _ assms(13)]) (simp add: p1_def)
  have "cond_true s t = cond_true (start_status p) t" if "t \<noteq> ''Probed''" for t
    using failed_probe_keeps [OF assms(9) that] by (simp add: s_def)
  then have "stage_order s" using so assms(8) np by (auto simp: stage_order_def)
  then have st1: "purchase_stages env' store' p1 w' = (s, w')" for w'
    using failed_stages [of p1 env' store' w'] np by (simp add: same again)
  have u: "updatePurchaseStatus env p s w = (None, snd (updatePurchaseStatus env p s w))"
    using assms(12) by (simp add: updatePurchaseStatus_def)
  define w1 where "w1 = snd (updatePurchaseStatus env p s w)"
  have r1: "processNextPurchase env store (ns @ ''/'' @ name) w = w1"
    using assms(1,5,6,10) cut st u nc by (simp add: processNextPurchase_def reconcilePurchase_def w1_def [symmetric])
  have found: "map_of (pw_purchases w1) (ns, name) = Some p1"
  proof (cases "pr_status p = s")
    case True
    then have "p1 = p" by (simp add: p1_def)
    with True show ?thesis using assms(1) by (simp add: w1_def updatePurchaseStatus_def)
  qed (use assms(2,3,12) in \<open>simp add: w1_def updatePurchaseStatus_def p1_def update_conv'\<close>)
  have "pr_status p1 = s" "pr_meta p1 = pr_meta p" by (simp_all add: p1_def)
  then have "processNextPurchase env' store' (ns @ ''/'' @ name) w1 = w1"
    using found assms(5,6,11) cut st1 nc by (simp add: processNextPurchase_def reconcilePurchase_def updatePurchaseStatus_def)
  moreover have "pw_queue w1 = pw_queue w" using assms(12) by (simp add: w1_def updatePurchaseStatus_def)
  ultimately show ?thesis by (simp only: r1 simp_thms)
qed

subsection \<open>A sample run\<close>

definition sample_terms :: string where
  "sample_terms = json_print (JObj [(''accepts'', JArr [JObj [(''amount'', JStr ''1000''), (''network'', JStr ''base''), (''asset'', JStr ''0xA'')]])])"

definition sample_pod :: "string option \<Rightarrow> buyer_pod" where
  "sample_pod answer = \<lparr>bp_Phase = ''Running'', bp_IP = ''10.0.0.1'', bp_Deleting = False, bp_Status = answer\<rparr>"

definition sample_counts :: "string option" where
  "sample_counts = Some (json_print (JObj [(''p'', JObj [(''remaining'', JNum ''1''), (''spent'', JNum ''0'')])]))"

definition try_env :: "string + (int \<times> string) \<Rightarrow> string option \<Rightarrow> purchase_env" where
  "try_env probe answer =
     \<lparr>pe_now = 0, pe_probe = (\<lambda>u b. probe), pe_readable = True, pe_getError = (\<lambda>ns n. None), pe_updateError = (\<lambda>ns n. None),
      pe_writeError = None, pe_secret = (\<lambda>ns. None), pe_pods = (\<lambda>n ns. Some [sample_pod answer]), pe_litellm = (\<lambda>c. None),
      pe_yamlParse = (\<lambda>t. Some \<lparr>lc_ModelList = [], lc_GeneralSettings = [], lc_LiteLLMSettings = []\<rparr>), pe_yamlPrint = (\<lambda>c. Some []),
      pe_float = (\<lambda>f. []), pe_escape = (\<lambda>s. s)\<rparr>"

definition sample_auth :: "goany signed_auth" where
  "sample_auth = \<lparr>sa_ID = [], sa_Payment = [], sa_Signature = ''0x1'', sa_From = ''0xF'', sa_To = ''0xB'', sa_Value = ''1000'',
     sa_ValidAfter = ''0'', sa_ValidBefore = ''9'', sa_Nonce = ''0x7''\<rparr>"

definition sample_purchase :: "nsec option \<Rightarrow> string list \<Rightarrow> purchase_status \<Rightarrow> purchase" where
  "sample_purchase deleted fins st =
     \<lparr>pr_meta = \<lparr>om_Name = ''p'', om_Namespace = ''n'', om_UID = [], om_Generation = 1, om_CreationTimestamp = 0,
        om_DeletionTimestamp = deleted, om_Annotations = [], om_Finalizers = fins\<rparr>,
      pr_spec = \<lparr>ps_Endpoint = ''http://s/v1/chat/completions'', ps_Model = ''m'', ps_Count = 1, ps_PreSignedAuths = [sample_auth],
        ps_AutoRefill = \<lparr>af_Enabled = False, af_Threshold = 0, af_Count = 0, af_MaxTotal = 0, af_MaxSpendPerDay = []\<rparr>,
        ps_Payment = \<lparr>pu_Network = ''base'', pu_PayTo = ''0xB'', pu_Price = ''1000'', pu_Asset = ''0xA'', pu_AssetSymbol = ''USDC'',
          pu_AssetDecimals = 6, pu_AssetTransferMethod = [], pu_EIP712Name = [], pu_EIP712Version = []\<rparr>\<rparr>,
      pr_status = st\<rparr>"

definition sample_world :: "((string \<times> string) \<times> purchase) list \<Rightarrow> purchase_world" where
  "sample_world ps =
     \<lparr>pw_purchases = ps,
      pw_configMaps = [((''llm'', ''x402-buyer-config''), []), ((''llm'', ''x402-buyer-auths''), []), ((''llm'', ''litellm-config''), [])],
      pw_pending = [], pw_calls = [], pw_queue = []\<rparr>"

abbreviation "new_purchase \<equiv> sample_purchase None [] empty_purchase_status"

definition sample_run :: purchase_world where
  "sample_run = (let go = processNextPurchase (try_env (Inr (402, sample_terms)) sample_counts) [] ''n/p''
     in go (go (sample_world [((''n'', ''p''), new_purchase)])))"

definition sample_ready :: purchase where
  "sample_ready = (case map_of (pw_purchases sample_run) (''n'', ''p'') of Some p \<Rightarrow> p | None \<Rightarrow> new_purchase)"

lemma sample_steps: "purchase_step\<^sup>*\<^sup>* (sample_world []) sample_run"
proof -
  have c: "map_of (pw_purchases (sample_world [])) (pr_Namespace new_purchase, pr_Name new_purchase) = None"
    "pr_status new_purchase = empty_purchase_status" "om_Generation (pr_meta new_purchase) = 1"
    by (simp_all add: sample_world_def sample_purchase_def)
  have "purchase_step (sample_world []) (sample_world [((''n'', ''p''), new_purchase)])"
    using purchase_step.created [OF c] by (simp add: sample_world_def sample_purchase_def)
  then show ?thesis unfolding sample_run_def Let_def
    by (meson purchase_step.worked rtranclp.rtrancl_into_rtrancl r_into_rtranclp)
qed

lemma sample_run_ready:
  "pw_purchases sample_run = [((''n'', ''p''), sample_ready)]" "om_DeletionTimestamp (pr_meta sample_ready) = None"
  "pst_ObservedGeneration (pr_status sample_ready) = om_Generation (pr_meta sample_ready)"
  "purchaseConditionIsTrue (pst_Conditions (pr_status sample_ready)) ''Ready''"
  by code_simp+

theorem ready_purchase_was_checked_witness:
  "purchaseConditionIsTrue (pst_Conditions (pr_status sample_ready)) ''Configured'' \<and>
   pst_ProbedPrice (pr_status sample_ready) = pu_Price (ps_Payment (pr_spec sample_ready)) \<and> pst_TotalSigned (pr_status sample_ready) = 1"
proof -
  have e: "pw_purchases (sample_world []) = []" by (simp add: sample_world_def)
  have i: "sample_ready \<in> snd ` set (pw_purchases sample_run)" by (simp add: sample_run_ready)
  have l: "length (ps_PreSignedAuths (pr_spec sample_ready)) = 1" by code_simp
  show ?thesis using ready_purchase_was_checked [OF sample_steps e i sample_run_ready(2-4)] by (simp add: l)
qed

text \<open>A deletion that is let go, by a pod that answers without the upstream and by a pod that does not answer.\<close>

abbreviation "dying_purchase \<equiv> sample_purchase (Some 5) [purchaseRequestFinalizer] (empty_purchase_status\<lparr>pst_Remaining := 2\<rparr>)"
abbreviation "dying_world \<equiv> sample_world [((''n'', ''p''), dying_purchase)]"

theorem removed_only_when_gone_witness:
  "map_of (pw_purchases (snd (reconcilePurchase (try_env (Inl []) (Some ''{}'')) [] ''n/p'' dying_world))) (''n'', ''p'') = None \<and>
   \<not> lists_upstream ''p'' (sample_pod (Some ''{}''))"
proof -
  have f: "map_of (pw_purchases dying_world) (''n'', ''p'') = Some dying_purchase" by (simp add: sample_world_def)
  have k: "keyed_world dying_world" by (simp add: keyed_world_def sample_world_def sample_purchase_def)
  have g: "map_of (pw_purchases (snd (reconcilePurchase (try_env (Inl []) (Some ''{}'')) [] ''n/p'' dying_world))) (''n'', ''p'') = None"
    by code_simp
  show ?thesis using removed_only_when_gone [OF f k g] g
    by (simp add: try_env_def EffectiveBuyerNamespace_def sample_purchase_def)
qed

theorem unreachable_buyer_counts_as_drained_witness:
  "pst_Remaining (pr_status dying_purchase) = 2 \<and>
   pw_purchases (snd (reconcilePurchase (try_env (Inl []) None) [] ''n/p'' dying_world)) = []"
proof -
  let ?env = "try_env (Inl []) None"
  have h: "map_of (pw_purchases dying_world) (''n'', ''p'') = Some dying_purchase" "''n'' = pr_Namespace dying_purchase"
    "''p'' = pr_Name dying_purchase" "CHR ''/'' \<notin> set ''n''" "om_DeletionTimestamp (pr_meta dying_purchase) \<noteq> None"
    "om_Finalizers (pr_meta dying_purchase) = [purchaseRequestFinalizer]" "pe_readable ?env" "pe_writeError ?env = None"
    "\<And>n. pe_pods ?env n ''llm'' = Some [sample_pod None]" "[sample_pod None] \<noteq> []"
    "list_all (\<lambda>b. bp_Status b = None) [sample_pod None]"
    by (simp_all add: sample_world_def sample_purchase_def try_env_def sample_pod_def)
  show ?thesis using unreachable_buyer_counts_as_drained [OF h, of "[]"]
    by (simp add: sample_purchase_def sample_world_def)
qed

theorem failed_probe_not_retried_witness:
  "pw_queue (processNextPurchase (try_env (Inr (503, [])) None) [] ''n/p''
     (sample_world [((''n'', ''p''), sample_purchase None [purchaseRequestFinalizer] empty_purchase_status)])) = []"
proof -
  let ?p = "sample_purchase None [purchaseRequestFinalizer] empty_purchase_status"
  let ?env = "try_env (Inr (503, [])) None"
  let ?w = "sample_world [((''n'', ''p''), ?p)]"
  have h: "map_of (pw_purchases ?w) (''n'', ''p'') = Some ?p" "''n'' = pr_Namespace ?p" "''p'' = pr_Name ?p" "CHR ''/'' \<notin> set ''n''"
    "om_DeletionTimestamp (pr_meta ?p) = None" "purchaseRequestFinalizer \<in> set (om_Finalizers (pr_meta ?p))"
    by (simp_all add: sample_world_def sample_purchase_def)
  have o: "stage_order (pr_status ?p)" by (simp add: stage_order_def sample_purchase_def empty_purchase_status_def)
  have n: "\<not> purchaseConditionIsTrue (pst_Conditions (start_status ?p)) ''Probed''"
    "\<not> purchaseConditionIsTrue (pst_Conditions (fst (reconcilePurchaseProbe ?env ?p (start_status ?p)))) ''Probed''"
    by code_simp+
  have e: "pe_readable ?env" "pe_writeError ?env = None" by (simp_all add: try_env_def)
  show ?thesis using failed_probe_not_retried [OF h o n e(1) e(1) e(2) refl, of "[]" "[]"] by (simp add: sample_world_def)
qed

end
