(* ===== verification/PurchaseFiles.thy ===== *)
theory PurchaseFiles imports PurchaseSafety begin

text \<open>
  The files between the controller and the buyer: what the controller writes for a purchase is what the buyer loads from
  its mounted config maps.
\<close>

subsection \<open>Mounted config maps\<close>

text \<open>A mounted config map is a directory with one file for each key; a directory is listed by name.\<close>

definition mounted :: "(string, string) gomap \<Rightarrow> dir_entry list" where
  "mounted data = map (\<lambda>(k, v). \<lparr>de_name = k, de_isDir = False, de_content = Some v\<rparr>)
     (sort_by (\<lambda>a b. str_less (fst a) (fst b)) data)"

definition file_step :: "(json \<Rightarrow> 'a option) \<Rightarrow> (string, 'a) gomap \<Rightarrow> dir_entry \<Rightarrow> (string, 'a) gomap" where
  "file_step dec m e =
     (if de_isDir e \<or> \<not> has_suffix ''.json'' (de_name e) then m
      else (case de_content e of None \<Rightarrow> m
            | Some data \<Rightarrow>
                (case json_parse data of None \<Rightarrow> m
                 | Some v \<Rightarrow> (case dec v of None \<Rightarrow> m | Some x \<Rightarrow> AList.update (trim_suffix ''.json'' (de_name e)) x m))))"

lemma load_dir_steps: "load_dir dec es = foldl (file_step dec) [] es"
  by (simp add: load_dir_def file_step_def [abs_def])

lemma file_step_other: "de_name e \<noteq> name @ ''.json'' \<Longrightarrow> map_of (file_step dec m e) name = map_of m name"
  by (auto simp: file_step_def update_conv' has_suffix_iff trim_suffix_def split: option.splits)

lemma load_one:
  assumes "distinct (map de_name es)" "e \<in> set es" "de_name e = name @ ''.json''" "\<not> de_isDir e"
    and "de_content e = Some t" "json_parse t = Some v" "dec v = Some x"
  shows "map_of (foldl (file_step dec) m es) name = Some x"
  using assms(1,2)
proof (induction es arbitrary: m)
  case (Cons a es)
  have other: "map_of (foldl (file_step dec) m' es') name = map_of m' name"
    if "list_all (\<lambda>a. de_name a \<noteq> name @ ''.json'') es'" for m' es'
    using that by (induction es' arbitrary: m') (simp_all add: file_step_other)
  show ?case
  proof (cases "a = e")
    case True
    then have "list_all (\<lambda>a. de_name a \<noteq> name @ ''.json'') es" using Cons.prems(1) assms(3) by (auto simp: list_all_iff) (metis imageI)
    moreover have "file_step dec m e = AList.update name x m"
      using assms(3-7) by (simp add: file_step_def has_suffix_iff trim_suffix_def)
    ultimately show ?thesis using True by (simp add: other update_conv')
  next
    case False
    then show ?thesis using Cons by simp
  qed
qed simp

lemma load_mounted:
  assumes "gomap data" "map_of data (name @ ''.json'') = Some t" "json_parse t = Some v" "dec v = Some x"
  shows "map_of (load_dir dec (mounted data)) name = Some x"
  unfolding load_dir_steps
proof (rule load_one [where e = "\<lparr>de_name = name @ ''.json'', de_isDir = False, de_content = Some t\<rparr>" and v = v])
  have "mset (map fst (sort_by (\<lambda>a b. str_less (fst a) (fst b)) data)) = mset (map fst data)" by (metis mset_map mset_sort_by)
  then have "distinct (map fst (sort_by (\<lambda>a b. str_less (fst a) (fst b)) data))"
    using assms(1) unfolding gomap_def by (metis mset_eq_imp_distinct_iff)
  moreover have "map de_name (mounted data) = map fst (sort_by (\<lambda>a b. str_less (fst a) (fst b)) data)"
    by (simp add: mounted_def case_prod_beta)
  ultimately show "distinct (map de_name (mounted data))" by simp
  show "\<lparr>de_name = name @ ''.json'', de_isDir = False, de_content = Some t\<rparr> \<in> set (mounted data)"
    using map_of_SomeD [OF assms(2)] by (force simp: mounted_def)
qed (use assms(3,4) in simp_all)

text \<open>A field of an object whose keys match no other name by case folding.\<close>

lemma field_unique:
  assumes "list_all (\<lambda>k. equal_fold k n = (k = n)) (map fst kvs)" "distinct (map fst kvs)"
  shows "field_values n kvs = (case map_of kvs n of None \<Rightarrow> [] | Some v \<Rightarrow> [v])"
  using assms
proof (induction kvs)
  case (Cons kv kvs)
  obtain k v where kv: "kv = (k, v)" by (rule prod.exhaust)
  have "k = n \<Longrightarrow> map_of kvs n = None" using Cons.prems(2) kv by (simp add: map_of_eq_None_iff)
  then show ?case using Cons kv by (auto simp: field_values_def)
qed (simp add: field_values_def)

subsection \<open>The upstream\<close>

definition upstream_of :: "purchase \<Rightarrow> upstream_config" where
  "upstream_of p =
     (let pay = ps_Payment (pr_spec p) in
      \<lparr>uc_url = normalizePurchasedUpstreamURL (ps_Endpoint (pr_spec p)), uc_remoteModel = ps_Model (pr_spec p),
       uc_network = pu_Network pay, uc_payTo = pu_PayTo pay, uc_asset = pu_Asset pay, uc_assetSymbol = pu_AssetSymbol pay,
       uc_assetDecimals = pu_AssetDecimals pay, uc_assetTransferMethod = pu_AssetTransferMethod pay,
       uc_eip712Name = pu_EIP712Name pay, uc_eip712Version = pu_EIP712Version pay, uc_price = pu_Price pay\<rparr>)"

lemma sorted_upstream:
  "sort_by (\<lambda>a b. str_less (fst a) (fst b))
     [(''url'', x0 :: json), (''network'', x1), (''payTo'', x2), (''price'', x3), (''asset'', x4), (''assetSymbol'', x5), (''assetDecimals'', x6), (''assetTransferMethod'', x7), (''eip712Name'', x8), (''eip712Version'', x9), (''remoteModel'', x10)] =
   [(''asset'', x4), (''assetDecimals'', x6), (''assetSymbol'', x5), (''assetTransferMethod'', x7), (''eip712Name'', x8), (''eip712Version'', x9), (''network'', x1), (''payTo'', x2), (''price'', x3), (''remoteModel'', x10), (''url'', x0)]"
  by code_simp

lemma upstream_json:
  "json_of_any sf (purchase_upstream p) =
   (let pay = ps_Payment (pr_spec p) in
    JObj [(''asset'', JStr (pu_Asset pay)), (''assetDecimals'', JNum (show_int (pu_AssetDecimals pay))),
          (''assetSymbol'', JStr (pu_AssetSymbol pay)), (''assetTransferMethod'', JStr (pu_AssetTransferMethod pay)),
          (''eip712Name'', JStr (pu_EIP712Name pay)), (''eip712Version'', JStr (pu_EIP712Version pay)),
          (''network'', JStr (pu_Network pay)), (''payTo'', JStr (pu_PayTo pay)), (''price'', JStr (pu_Price pay)),
          (''remoteModel'', JStr (ps_Model (pr_spec p))), (''url'', JStr (normalizePurchasedUpstreamURL (ps_Endpoint (pr_spec p))))])"
  by (simp add: purchase_upstream_def Let_def sorted_upstream)

definition upstream_keys :: "string list" where
  "upstream_keys = [''asset'', ''assetDecimals'', ''assetSymbol'', ''assetTransferMethod'', ''eip712Name'', ''eip712Version'',
     ''network'', ''payTo'', ''price'', ''remoteModel'', ''url'']"

lemma upstream_keys_fold: "list_all (\<lambda>n. list_all (\<lambda>k. equal_fold k n = (k = n)) upstream_keys) upstream_keys" "distinct upstream_keys"
  by code_simp+

lemma decode_written_upstream:
  assumes "min_int64 \<le> pu_AssetDecimals (ps_Payment (pr_spec p))" "pu_AssetDecimals (ps_Payment (pr_spec p)) \<le> max_int64"
  shows "json_parse (json_print (json_of_any sf (purchase_upstream p))) = Some (json_of_any sf (purchase_upstream p)) \<and>
    decode_upstream_config (json_of_any sf (purchase_upstream p)) = Some (upstream_of p)"
proof
  show "json_parse (json_print (json_of_any sf (purchase_upstream p))) = Some (json_of_any sf (purchase_upstream p))"
    by (rule json_int_roundtrip) (auto simp: upstream_json Let_def)
  let ?pay = "ps_Payment (pr_spec p)"
  define kvs where "kvs = [(''asset'', JStr (pu_Asset ?pay)), (''assetDecimals'', JNum (show_int (pu_AssetDecimals ?pay))),
    (''assetSymbol'', JStr (pu_AssetSymbol ?pay)), (''assetTransferMethod'', JStr (pu_AssetTransferMethod ?pay)),
    (''eip712Name'', JStr (pu_EIP712Name ?pay)), (''eip712Version'', JStr (pu_EIP712Version ?pay)),
    (''network'', JStr (pu_Network ?pay)), (''payTo'', JStr (pu_PayTo ?pay)), (''price'', JStr (pu_Price ?pay)),
    (''remoteModel'', JStr (ps_Model (pr_spec p))), (''url'', JStr (normalizePurchasedUpstreamURL (ps_Endpoint (pr_spec p))))]"
  have j: "json_of_any sf (purchase_upstream p) = JObj kvs" by (simp add: upstream_json Let_def kvs_def)
  have k: "map fst kvs = upstream_keys" by (simp add: kvs_def upstream_keys_def)
  have "list_all (\<lambda>n. field_values n kvs = (case map_of kvs n of None \<Rightarrow> [] | Some v \<Rightarrow> [v])) upstream_keys"
    using field_unique [of _ kvs] upstream_keys_fold unfolding k by (auto simp: list_all_iff)
  note f = this [unfolded upstream_keys_def list.pred_inject]
  have fs: "str_field ''url'' kvs = (normalizePurchasedUpstreamURL (ps_Endpoint (pr_spec p)), False)"
    "str_field ''remoteModel'' kvs = (ps_Model (pr_spec p), False)" "str_field ''network'' kvs = (pu_Network ?pay, False)"
    "str_field ''payTo'' kvs = (pu_PayTo ?pay, False)" "str_field ''asset'' kvs = (pu_Asset ?pay, False)"
    "str_field ''assetSymbol'' kvs = (pu_AssetSymbol ?pay, False)" "str_field ''price'' kvs = (pu_Price ?pay, False)"
    "str_field ''assetTransferMethod'' kvs = (pu_AssetTransferMethod ?pay, False)"
    "str_field ''eip712Name'' kvs = (pu_EIP712Name ?pay, False)" "str_field ''eip712Version'' kvs = (pu_EIP712Version ?pay, False)"
    "int_field ''assetDecimals'' kvs = (pu_AssetDecimals ?pay, False)"
    using parse_show_int [OF assms] by (simp_all add: str_field_def int_field_def f) (simp_all add: kvs_def)
  show "decode_upstream_config (json_of_any sf (purchase_upstream p)) = Some (upstream_of p)"
    unfolding j by (simp add: decode_upstream_config_def fs Let_def upstream_of_def)
qed

subsection \<open>The authorizations\<close>

definition buyer_auth :: "(json \<Rightarrow> payment_payload option) \<Rightarrow> (float64 \<Rightarrow> string) \<Rightarrow> goany signed_auth \<Rightarrow> pre_signed_auth option" where
  "buyer_auth dp sf a =
     (if sa_Payment a \<noteq> [] then
        map_option (\<lambda>pay. \<lparr>pa_id = sa_ID a, pa_payment = Some pay, pa_signature = [], pa_from = [], pa_to = [], pa_value = [],
          pa_validAfter = [], pa_validBefore = [], pa_nonce = []\<rparr>) (dp (json_of_any sf (GMap (sa_Payment a))))
      else Some \<lparr>pa_id = [], pa_payment = None, pa_signature = normalizeRecoverySignature (sa_Signature a), pa_from = sa_From a,
          pa_to = sa_To a, pa_value = sa_Value a, pa_validAfter = sa_ValidAfter a, pa_validBefore = sa_ValidBefore a,
          pa_nonce = sa_Nonce a\<rparr>)"

lemma sorted_auth:
  "sort_by (\<lambda>a b. str_less (fst a) (fst b))
     [(''signature'', x0 :: json), (''from'', x1), (''to'', x2), (''value'', x3), (''validAfter'', x4), (''validBefore'', x5), (''nonce'', x6)] =
   [(''from'', x1), (''nonce'', x6), (''signature'', x0), (''to'', x2), (''validAfter'', x4), (''validBefore'', x5), (''value'', x3)]"
  "sort_by (\<lambda>a b. str_less (fst a) (fst b)) [(''id'', x0 :: json), (''payment'', x1)] = [(''id'', x0), (''payment'', x1)]"
  by code_simp+

definition auth_fields :: "string list" where
  "auth_fields = [''id'', ''signature'', ''from'', ''to'', ''value'', ''validAfter'', ''validBefore'', ''nonce'', ''payment'']"

definition auth_keys :: "string list" where
  "auth_keys = [''from'', ''nonce'', ''signature'', ''to'', ''validAfter'', ''validBefore'', ''value'']"

lemma auth_keys_fold:
  "list_all (\<lambda>n. list_all (\<lambda>k. equal_fold k n = (k = n)) auth_keys) auth_fields" "distinct auth_keys"
  "list_all (\<lambda>n. list_all (\<lambda>k. equal_fold k n = (k = n)) [''id'', ''payment'']) auth_fields"
  by code_simp+

lemma decode_legacy_auth:
  assumes "sa_Payment a = []"
  shows "decode_auth dp (json_of_any sf (auth_map a)) = map_option Some (buyer_auth dp sf a)"
proof -
  define kvs where "kvs = [(''from'', JStr (sa_From a)), (''nonce'', JStr (sa_Nonce a)),
    (''signature'', JStr (normalizeRecoverySignature (sa_Signature a))), (''to'', JStr (sa_To a)),
    (''validAfter'', JStr (sa_ValidAfter a)), (''validBefore'', JStr (sa_ValidBefore a)), (''value'', JStr (sa_Value a))]"
  have j: "json_of_any sf (auth_map a) = JObj kvs" using assms by (simp add: auth_map_def sorted_auth kvs_def)
  have k: "map fst kvs = auth_keys" by (simp add: kvs_def auth_keys_def)
  have "list_all (\<lambda>n. field_values n kvs = (case map_of kvs n of None \<Rightarrow> [] | Some v \<Rightarrow> [v])) auth_fields"
    using field_unique [of _ kvs] auth_keys_fold unfolding k by (auto simp: list_all_iff)
  note f = this [unfolded auth_fields_def list.pred_inject]
  have fs: "str_field ''id'' kvs = ([], False)" "str_field ''signature'' kvs = (normalizeRecoverySignature (sa_Signature a), False)"
    "str_field ''from'' kvs = (sa_From a, False)" "str_field ''to'' kvs = (sa_To a, False)" "str_field ''value'' kvs = (sa_Value a, False)"
    "str_field ''validAfter'' kvs = (sa_ValidAfter a, False)" "str_field ''validBefore'' kvs = (sa_ValidBefore a, False)"
    "str_field ''nonce'' kvs = (sa_Nonce a, False)" "field_values ''payment'' kvs = []"
    by (simp_all add: str_field_def f) (simp_all add: kvs_def)
  show ?thesis using assms unfolding j by (simp add: decode_auth_def fs Let_def buyer_auth_def)
qed

lemma decode_payment_auth:
  assumes "sa_Payment a \<noteq> []"
  shows "decode_auth dp (json_of_any sf (auth_map a)) = map_option Some (buyer_auth dp sf a)"
proof -
  obtain ms where ms: "json_of_any sf (GMap (sa_Payment a)) = JObj ms" by simp
  define kvs where "kvs = [(''id'', JStr (sa_ID a)), (''payment'', JObj ms)]"
  have j: "json_of_any sf (auth_map a) = JObj kvs"
    using assms ms by (simp add: auth_map_def sorted_auth kvs_def)
  have k: "map fst kvs = [''id'', ''payment'']" by (simp add: kvs_def)
  have "list_all (\<lambda>n. field_values n kvs = (case map_of kvs n of None \<Rightarrow> [] | Some v \<Rightarrow> [v])) auth_fields"
    using field_unique [of _ kvs] auth_keys_fold(3) unfolding k by (auto simp: list_all_iff)
  note f = this [unfolded auth_fields_def list.pred_inject]
  have fs: "str_field ''id'' kvs = (sa_ID a, False)" "str_field ''signature'' kvs = ([], False)"
    "str_field ''from'' kvs = ([], False)" "str_field ''to'' kvs = ([], False)" "str_field ''value'' kvs = ([], False)"
    "str_field ''validAfter'' kvs = ([], False)" "str_field ''validBefore'' kvs = ([], False)"
    "str_field ''nonce'' kvs = ([], False)" "field_values ''payment'' kvs = [JObj ms]"
    by (simp_all add: str_field_def f) (simp_all add: kvs_def)
  show ?thesis using assms unfolding j
    by (cases "dp (JObj ms)") (simp_all add: decode_auth_def fs Let_def buyer_auth_def ms del: json_of_any.simps)
qed

lemma decode_written_auth: "decode_auth dp (json_of_any sf (auth_map a)) = map_option Some (buyer_auth dp sf a)"
  using decode_legacy_auth decode_payment_auth by (cases "sa_Payment a = []") blast+

lemma decode_written_pool:
  assumes "list_all2 (\<lambda>a v. buyer_auth dp sf a = Some v) as vs"
  shows "decode_pool dp (json_of_any sf (GArr (map auth_map as))) = Some (map Some vs)"
  using assms by (induction as vs rule: list_all2_induct) (simp_all add: decode_pool_def decode_written_auth)

definition plain_numbers :: "(float64 \<Rightarrow> string) \<Rightarrow> goany signed_auth \<Rightarrow> bool" where
  "plain_numbers sf a \<longleftrightarrow> sa_Payment a = [] \<or> int_literals (json_of_any sf (GMap (sa_Payment a)))"

lemma written_auth_literals: "plain_numbers sf a \<Longrightarrow> int_literals (json_of_any sf (auth_map a))"
  by (auto simp: plain_numbers_def auth_map_def sorted_auth)

lemma parse_written_pool:
  assumes "list_all (plain_numbers sf) as"
  shows "json_parse (json_print (json_of_any sf (GArr (map auth_map as)))) = Some (json_of_any sf (GArr (map auth_map as)))"
  by (rule json_int_roundtrip) (use assms in \<open>auto simp: list_all_iff intro!: written_auth_literals simp del: json_of_any.simps(9)\<close>)

subsection \<open>From the purchase to the buyer\<close>

lemma merge_ok:
  assumes "mergeBuyerCM env ns cm l name x w = (None, w')"
  obtains d where "map_of (pw_configMaps w) (ns, cm) = Some d"
    and "pw_configMaps w' = AList.update (ns, cm)
      (AList.update (name @ ''.json'') (json_print (json_of_any (pe_float env) x)) (AList.delete l d)) (pw_configMaps w)"
  using assms by (auto simp: mergeBuyerCM_def get_cm_def update_cm_def split: option.splits sum.splits)

lemma cms_send [simp]: "pw_configMaps (send c w) = pw_configMaps w"
  by (simp add: send_def)

lemma cms_foldl [simp]: "(\<And>w x. pw_configMaps (f w x) = pw_configMaps w) \<Longrightarrow> pw_configMaps (foldl f w xs) = pw_configMaps w"
  by (induction xs arbitrary: w) auto

lemma cms_hot [simp]:
  "pw_configMaps (hotAddLiteLLMModel env ns e w) = pw_configMaps w" "pw_configMaps (hotDeleteLiteLLMModel env ns m w) = pw_configMaps w"
  by (simp_all add: hotAddLiteLLMModel_def hotDeleteLiteLLMModel_def Let_def split: option.splits)

lemma cms_reload [simp]: "pw_configMaps (triggerBuyerReload env n ns w) = pw_configMaps w"
  by (simp add: triggerBuyerReload_def post_pods_def split: option.splits)

lemma cms_write_litellm:
  "write_litellm env ns d cfg w = Some w' \<Longrightarrow> k \<noteq> (ns, ''litellm-config'') \<Longrightarrow> map_of (pw_configMaps w') k = map_of (pw_configMaps w) k"
  by (auto simp: write_litellm_def update_cm_def update_conv' split: option.splits prod.splits if_splits)

lemma cms_add_model:
  "k \<noteq> (ns, ''litellm-config'') \<Longrightarrow> map_of (pw_configMaps (addLiteLLMModelEntry env ns m w)) k = map_of (pw_configMaps w) k"
  by (auto simp: addLiteLLMModelEntry_def Let_def cms_write_litellm split: option.splits entry_edit.splits prod.splits)

definition cms_ok :: "purchase_world \<Rightarrow> bool" where
  "cms_ok w \<longleftrightarrow> list_all (\<lambda>(k, d). gomap d) (pw_configMaps w)"

lemma cms_ok_found: "cms_ok w \<Longrightarrow> map_of (pw_configMaps w) k = Some d \<Longrightarrow> gomap d"
  by (auto simp: cms_ok_def list_all_iff dest!: map_of_SomeD)

text \<open>C18: What a purchase configures is what the buyer loads.  When the third stage of a purchase succeeds, the config maps
  of the buyer, mounted as directories, load as an upstream under the name of the purchase with the seller's base URL, the
  model, the network, the receiver, the asset and the price of the purchase, and as a pool that holds its authorizations
  one for one and in order: each field as it was signed, the recovery byte of the signature normalised, or the complete
  payment.\<close>

theorem purchase_reaches_buyer:
  assumes "reconcilePurchaseConfigure env store p s w = (s', w')"
    and "\<not> purchaseConditionIsTrue (pst_Conditions s) ''Configured''" and "purchaseConditionIsTrue (pst_Conditions s') ''Configured''"
    and "map_of (pw_pending w) (pr_Namespace p @ ''/'' @ pr_Name p) \<in> {None, preSignedAuthMaps p}" and "cms_ok w"
    and "min_int64 \<le> pu_AssetDecimals (ps_Payment (pr_spec p))" and "pu_AssetDecimals (ps_Payment (pr_spec p)) \<le> max_int64"
    and "list_all (plain_numbers (pe_float env)) (ps_PreSignedAuths (pr_spec p))"
    and "list_all2 (\<lambda>a v. buyer_auth dp (pe_float env) a = Some v) (ps_PreSignedAuths (pr_spec p)) vs"
  shows "\<exists>cfgFiles authFiles cfg pools.
    map_of (pw_configMaps w') (''llm'', ''x402-buyer-config'') = Some cfgFiles \<and>
    map_of (pw_configMaps w') (''llm'', ''x402-buyer-auths'') = Some authFiles \<and>
    LoadConfigDir dir (Some (mounted cfgFiles)) = Inr cfg \<and> map_of (cfg_upstreams cfg) (pr_Name p) = Some (upstream_of p) \<and>
    LoadAuthsDir dp dir (Some (mounted authFiles)) = Inr pools \<and> map_of pools (pr_Name p) = Some (map Some vs)"
proof -
  define as where "as = ps_PreSignedAuths (pr_spec p)"
  obtain auths w1 where ta: "take_auths p w = (auths, w1)" by (rule prod.exhaust)
  obtain e2 w2 where m2: "mergeBuyerConfig env ''llm'' (pr_Name p) (purchase_upstream p) w1 = (e2, w2)" by (rule prod.exhaust)
  obtain a where a: "auths = Some a"
    using assms(1-3) by (cases auths) (auto simp: reconcilePurchaseConfigure_def ta split: option.splits)
  obtain e3 w3 where m3: "mergeBuyerAuths env ''llm'' (pr_Name p) a w2 = (e3, w3)" by (rule prod.exhaust)
  have r: "e2 = None \<and> e3 = None \<and>
      w' = addLiteLLMModelEntry env ''llm'' (''paid/'' @ ps_Model (pr_spec p)) (triggerBuyerReload env 0 ''llm'' w3)"
    using assms(1-3) by (cases e2; cases e3)
      (auto simp: reconcilePurchaseConfigure_def ta a m2 m3 EffectiveBuyerNamespace_def Let_def split: option.splits)
  have w1: "pw_configMaps w1 = pw_configMaps w" and au: "Some a = preSignedAuthMaps p"
    using ta assms(4) a by (auto simp: take_auths_def split: option.splits)
  then have au: "a = map auth_map as" by (auto simp: preSignedAuthMaps_def as_def split: if_splits)
  obtain d where d: "map_of (pw_configMaps w1) (''llm'', ''x402-buyer-config'') = Some d"
      "pw_configMaps w2 = AList.update (''llm'', ''x402-buyer-config'') (AList.update (pr_Name p @ ''.json'')
         (json_print (json_of_any (pe_float env) (purchase_upstream p))) (AList.delete ''config.json'' d)) (pw_configMaps w1)"
    using m2 r unfolding mergeBuyerConfig_def by (metis merge_ok)
  obtain d' where d': "map_of (pw_configMaps w2) (''llm'', ''x402-buyer-auths'') = Some d'"
      "pw_configMaps w3 = AList.update (''llm'', ''x402-buyer-auths'') (AList.update (pr_Name p @ ''.json'')
         (json_print (json_of_any (pe_float env) (GArr a))) (AList.delete ''auths.json'' d')) (pw_configMaps w2)"
    using m3 r unfolding mergeBuyerAuths_def by (metis merge_ok)
  have g: "gomap d" "gomap d'"
    using cms_ok_found [OF assms(5)] d(1) d'(1) by (auto simp: d(2) w1 update_conv')
  define cf where "cf = AList.update (pr_Name p @ ''.json'') (json_print (json_of_any (pe_float env) (purchase_upstream p))) (AList.delete ''config.json'' d)"
  define af where "af = AList.update (pr_Name p @ ''.json'') (json_print (json_of_any (pe_float env) (GArr (map auth_map as)))) (AList.delete ''auths.json'' d')"
  have maps: "map_of (pw_configMaps w') (''llm'', ''x402-buyer-config'') = Some cf" "map_of (pw_configMaps w') (''llm'', ''x402-buyer-auths'') = Some af"
    using r by (simp_all add: cms_add_model d'(2) d(2) au cf_def af_def update_conv')
  have gc: "gomap cf" "gomap af" using g by (simp_all add: cf_def af_def)
  have "map_of (load_dir decode_upstream_config (mounted cf)) (pr_Name p) = Some (upstream_of p)"
    using decode_written_upstream [OF assms(6,7), of "pe_float env"] by (intro load_mounted [OF gc(1)]) (auto simp: cf_def update_conv')
  moreover have "map_of (load_dir (decode_pool dp) (mounted af)) (pr_Name p) = Some (map Some vs)"
    using parse_written_pool [of "pe_float env" as] decode_written_pool [of dp "pe_float env" as vs] assms(8,9)
    by (intro load_mounted [OF gc(2)]) (auto simp: af_def as_def update_conv')
  ultimately show ?thesis using maps by (simp add: LoadConfigDir_def LoadAuthsDir_def)
qed

theorem purchase_reaches_buyer_witness:
  "\<exists>cfgFiles cfg. map_of (pw_configMaps (snd (reconcilePurchaseConfigure (try_env (Inl []) None) [] new_purchase empty_purchase_status
      (sample_world [])))) (''llm'', ''x402-buyer-config'') = Some cfgFiles \<and>
    LoadConfigDir [] (Some (mounted cfgFiles)) = Inr cfg \<and>
    map_option uc_url (map_of (cfg_upstreams cfg) ''p'') = Some ''http://s''"
proof -
  let ?env = "try_env (Inl []) None"
  define r where "r = reconcilePurchaseConfigure ?env [] new_purchase empty_purchase_status (sample_world [])"
  have r: "reconcilePurchaseConfigure ?env [] new_purchase empty_purchase_status (sample_world []) = (fst r, snd r)"
    by (simp add: r_def)
  have c: "\<not> purchaseConditionIsTrue (pst_Conditions empty_purchase_status) ''Configured''"
    "purchaseConditionIsTrue (pst_Conditions (fst r)) ''Configured''"
    unfolding r_def by code_simp+
  have h: "map_of (pw_pending (sample_world [])) (pr_Namespace new_purchase @ ''/'' @ pr_Name new_purchase) \<in> {None, preSignedAuthMaps new_purchase}"
    "cms_ok (sample_world [])" by (simp_all add: sample_world_def cms_ok_def gomap_def)
  have b: "min_int64 \<le> pu_AssetDecimals (ps_Payment (pr_spec new_purchase))" "pu_AssetDecimals (ps_Payment (pr_spec new_purchase)) \<le> max_int64"
    by (simp_all add: sample_purchase_def min_int64_def max_int64_def)
  have a: "ps_PreSignedAuths (pr_spec new_purchase) = [sample_auth]" "sa_Payment sample_auth = []"
    by (simp_all add: sample_purchase_def sample_auth_def)
  then obtain v where v: "buyer_auth (\<lambda>j. None) (pe_float ?env) sample_auth = Some v" by (auto simp: buyer_auth_def)
  have l: "list_all (plain_numbers (pe_float ?env)) (ps_PreSignedAuths (pr_spec new_purchase))"
    "list_all2 (\<lambda>a v. buyer_auth (\<lambda>j. None) (pe_float ?env) a = Some v) (ps_PreSignedAuths (pr_spec new_purchase)) [v]"
    using a v by (simp_all add: plain_numbers_def)
  have u: "uc_url (upstream_of new_purchase) = ''http://s''" by code_simp
  have n: "pr_Name new_purchase = ''p''" by (simp add: sample_purchase_def)
  show ?thesis using purchase_reaches_buyer [OF r c h b l, of "[]"] unfolding r_def [symmetric] n by (auto simp: u)
qed

end
