(* ===== verification/UnlockGate.thy ===== *)
theory UnlockGate imports VerifierEndpoints SignInSafety begin

text \<open>
  The paid unlock of an agent, \<open>authcapture.go\<close> and \<open>unlockgate.go\<close> in \<open>internal/x402\<close>: the configured
  auth-capture requirement, the check of the requirement that the buyer signed, and the handler that verifies, settles,
  mints a session and proxies.  \<open>unlock_funs\<close> holds what is not in the repository: go-ethereum's parsing of addresses,
  \<open>uint64(f)\<close> out of range, the SDK's decoding of a payment and printing of a requirement, \<open>%q\<close>, and the texts of errors of
  the HTTP client.
\<close>

record unlock_funs =
  uk_isHexAddress :: "string \<Rightarrow> bool"
  uk_toAddress :: "string \<Rightarrow> string"
  uk_wide_u64 :: "float64 \<Rightarrow> int"
  uk_to_payload :: "string \<Rightarrow> payment_payload option"
  uk_print_requirement :: "payment_requirements \<Rightarrow> json"
  uk_quote :: "string \<Rightarrow> string"
  uk_error_text :: "fac_error \<Rightarrow> string"

subsection \<open>Configuration\<close>

definition defaultCaptureDeadlineSecs :: int where "defaultCaptureDeadlineSecs = 900"
definition defaultRefundDeadlineSecs :: int where "defaultRefundDeadlineSecs = 1800"

datatype unlock_error =
    NoOfferPrefix | NoFeeRecipient | NoCaptureAuthorizer
  | FeesDiffer int int | FeesInverted int int | FeeTooHigh int
  | BadFeeRecipient | BadCaptureAuthorizer
  | CaptureTooShort int | RefundBeforeCapture int int
  | BadUnlockPrice price_error

definition zero_address :: string where
  "zero_address = replicate 20 CHR 0x00"

definition validNonZeroAddress :: "unlock_funs \<Rightarrow> string \<Rightarrow> bool" where
  "validNonZeroAddress uk address \<longleftrightarrow> uk_isHexAddress uk address \<and> uk_toAddress uk address \<noteq> zero_address"

definition with_deadlines :: "unlock_config \<Rightarrow> unlock_config" where
  "with_deadlines c =
     c\<lparr>uc_CaptureDeadlineSecs := (if uc_CaptureDeadlineSecs c = 0 then defaultCaptureDeadlineSecs else uc_CaptureDeadlineSecs c),
       uc_RefundDeadlineSecs := (if uc_RefundDeadlineSecs c = 0 then defaultRefundDeadlineSecs else uc_RefundDeadlineSecs c)\<rparr>"

definition enabled_error :: "unlock_config \<Rightarrow> unlock_error option" where
  "enabled_error c =
     (if \<not> uc_Enabled c then None
      else if uc_OfferPrefix c = [] then Some NoOfferPrefix
      else if uc_FeeRecipient c = [] then Some NoFeeRecipient
      else if uc_CaptureAuthorizer c = [] then Some NoCaptureAuthorizer
      else if uc_MinFeeBps c \<noteq> uc_MaxFeeBps c then Some (FeesDiffer (uc_MinFeeBps c) (uc_MaxFeeBps c))
      else None)"

text \<open>\<open>Validate\<close> with the configuration that it leaves behind.\<close>

definition Validate :: "unlock_funs \<Rightarrow> unlock_config \<Rightarrow> unlock_error + unlock_config" where
  "Validate uk c0 =
     (let c = with_deadlines c0 in
      case enabled_error c of
        Some e \<Rightarrow> Inl e
      | None \<Rightarrow>
          if uc_MinFeeBps c > uc_MaxFeeBps c then Inl (FeesInverted (uc_MinFeeBps c) (uc_MaxFeeBps c))
          else if uc_MaxFeeBps c > 10000 then Inl (FeeTooHigh (uc_MaxFeeBps c))
          else if uc_MaxFeeBps c > 0 \<and> \<not> validNonZeroAddress uk (uc_FeeRecipient c) then Inl BadFeeRecipient
          else if \<not> validNonZeroAddress uk (uc_CaptureAuthorizer c) then Inl BadCaptureAuthorizer
          else if uc_CaptureDeadlineSecs c \<le> 6 then Inl (CaptureTooShort (uc_CaptureDeadlineSecs c))
          else if uc_RefundDeadlineSecs c < uc_CaptureDeadlineSecs c
            then Inl (RefundBeforeCapture (uc_RefundDeadlineSecs c) (uc_CaptureDeadlineSecs c))
          else (case ValidatePrice (uc_Price c) of Some e \<Rightarrow> Inl (BadUnlockPrice e) | None \<Rightarrow> Inr c))"

text \<open>\<open>now.Unix() + int64(secs)\<close> for a \<open>uint64\<close> of seconds: both steps wrap.\<close>

definition deadline :: "nsec \<Rightarrow> int \<Rightarrow> int" where
  "deadline now secs = wrap64 (unix now + wrap64 secs)"

text \<open>The fees are \<open>uint16\<close>; as values of \<open>any\<close> they are integers that print in decimal.\<close>

definition unlock_extra :: "asset_info \<Rightarrow> unlock_config \<Rightarrow> nsec \<Rightarrow> (string, goany) gomap" where
  "unlock_extra asset c now =
     [(''name'', GStr (ai_EIP712Name asset)), (''version'', GStr (ai_EIP712Version asset)),
      (''captureAuthorizer'', GStr (uc_CaptureAuthorizer c)),
      (''captureDeadline'', GInt64 (deadline now (uc_CaptureDeadlineSecs c))),
      (''refundDeadline'', GInt64 (deadline now (uc_RefundDeadlineSecs c))),
      (''feeRecipient'', GStr (uc_FeeRecipient c)), (''minFeeBps'', GInt (uc_MinFeeBps c)), (''maxFeeBps'', GInt (uc_MaxFeeBps c)),
      (''autoCapture'', GBool True), (''assetTransferMethod'', GStr (ai_TransferMethod asset))]"

definition BuildAuthCaptureRequirement ::
  "unlock_funs \<Rightarrow> chain_info \<Rightarrow> asset_info \<Rightarrow> unlock_config \<Rightarrow> string \<Rightarrow> nsec \<Rightarrow> unlock_error + payment_requirements" where
  "BuildAuthCaptureRequirement uk chain asset c0 payTo now =
     (case Validate uk c0 of
        Inl e \<Rightarrow> Inl e
      | Inr c \<Rightarrow>
          (case decimalToAtomic (uc_Price c) (ai_Decimals asset) of
             Inl e \<Rightarrow> Inl (BadUnlockPrice e)
           | Inr amount \<Rightarrow>
               Inr \<lparr>pr_scheme = ''auth-capture'', pr_network = ci_CAIP2Network chain, pr_asset = ai_Address asset, pr_amount = amount,
                    pr_payTo = payTo, pr_maxTimeoutSeconds = ClampMaxTimeoutSeconds (wrap64 (uc_CaptureDeadlineSecs c)),
                    pr_extra = Some (unlock_extra asset c now)\<rparr>))"

subsection \<open>The signed requirement\<close>

definition exStr :: "(string, goany) gomap \<Rightarrow> string \<Rightarrow> string" where
  "exStr m k = the_default [] (as_string (map_of m k))"

text \<open>A \<open>json.Number\<close> does not occur in what \<open>encoding/json\<close> decodes into an \<open>any\<close>.\<close>

definition exF64 :: "(string, goany) gomap \<Rightarrow> string \<Rightarrow> float64" where
  "exF64 m k =
     (let of_int = (\<lambda>i. case nearest_float \<bar>i\<bar> 1 of (f, e) \<Rightarrow> (if i < 0 then - f else f, e)) in
      case map_of m k of
        Some (GFloat f) \<Rightarrow> f
      | Some (GNumber n) \<Rightarrow> the_default (0, 0) (float_of_literal n)
      | Some (GInt64 i) \<Rightarrow> of_int i
      | Some (GInt i) \<Rightarrow> of_int i
      | _ \<Rightarrow> (0, 0))"

definition exU64 :: "unlock_funs \<Rightarrow> (string, goany) gomap \<Rightarrow> string \<Rightarrow> int" where
  "exU64 uk m k =
     (let i = float_trunc (exF64 m k) in if 0 \<le> i \<and> i < 18446744073709551616 then i else uk_wide_u64 uk (exF64 m k))"

definition exI64 :: "(string, goany) gomap \<Rightarrow> string \<Rightarrow> int" where
  "exI64 m k = float_to_int64 (exF64 m k)"

definition exTrue :: "(string, goany) gomap \<Rightarrow> string \<Rightarrow> bool" where
  "exTrue m k = (case map_of m k of Some (GBool b) \<Rightarrow> b | _ \<Rightarrow> False)"

definition deadlineSkewSecs :: int where "deadlineSkewSecs = 60"

definition want :: "unlock_funs \<Rightarrow> string \<Rightarrow> string \<Rightarrow> string \<Rightarrow> string" where
  "want uk what got expected = what @ '' '' @ uk_quote uk got @ '', want '' @ uk_quote uk expected"

text \<open>The checks of the extra fields in their order; \<open>None\<close> when all pass.\<close>

definition extra_error :: "unlock_funs \<Rightarrow> (string, goany) gomap \<Rightarrow> unlock_config \<Rightarrow> asset_info \<Rightarrow> string option" where
  "extra_error uk ex uc asset =
     (if \<not> equal_fold (exStr ex ''captureAuthorizer'') (uc_CaptureAuthorizer uc) then Some ''captureAuthorizer mismatch''
      else if \<not> equal_fold (exStr ex ''feeRecipient'') (uc_FeeRecipient uc) then Some ''feeRecipient mismatch''
      else if exU64 uk ex ''minFeeBps'' \<noteq> uc_MinFeeBps uc
        then Some (''minFeeBps '' @ show_int (exU64 uk ex ''minFeeBps'') @ '', want '' @ show_int (uc_MinFeeBps uc))
      else if exU64 uk ex ''maxFeeBps'' \<noteq> uc_MaxFeeBps uc
        then Some (''maxFeeBps '' @ show_int (exU64 uk ex ''maxFeeBps'') @ '', want '' @ show_int (uc_MaxFeeBps uc))
      else if \<not> exTrue ex ''autoCapture'' then Some ''autoCapture not true''
      else if exStr ex ''assetTransferMethod'' \<noteq> ai_TransferMethod asset
        then Some (want uk ''assetTransferMethod'' (exStr ex ''assetTransferMethod'') (ai_TransferMethod asset))
      else if exStr ex ''name'' \<noteq> ai_EIP712Name asset \<or> exStr ex ''version'' \<noteq> ai_EIP712Version asset
        then Some (''EIP-712 domain '' @ uk_quote uk (exStr ex ''name'') @ ''/'' @ uk_quote uk (exStr ex ''version'') @ '', want '' @
          uk_quote uk (ai_EIP712Name asset) @ ''/'' @ uk_quote uk (ai_EIP712Version asset))
      else None)"

definition deadline_error :: "(string, goany) gomap \<Rightarrow> unlock_config \<Rightarrow> int \<Rightarrow> string option" where
  "deadline_error ex uc now =
     (let cd = exI64 ex ''captureDeadline''; rd = exI64 ex ''refundDeadline''; soon = wrap64 (now + 6);
          maxCD = wrap64 (wrap64 (now + wrap64 (uc_CaptureDeadlineSecs uc)) + deadlineSkewSecs);
          maxRD = wrap64 (wrap64 (now + wrap64 (uc_RefundDeadlineSecs uc)) + deadlineSkewSecs)
      in if cd \<le> soon then Some (''captureDeadline '' @ show_int cd @ '' not > now+6 ('' @ show_int soon @ '')'')
         else if cd > maxCD
           then Some (''captureDeadline '' @ show_int cd @ '' beyond now+'' @ show_int (uc_CaptureDeadlineSecs uc) @ ''s ('' @ show_int maxCD @ '')'')
         else if rd < cd then Some (''refundDeadline '' @ show_int rd @ '' < captureDeadline '' @ show_int cd)
         else if rd > maxRD
           then Some (''refundDeadline '' @ show_int rd @ '' beyond now+'' @ show_int (uc_RefundDeadlineSecs uc) @ ''s ('' @ show_int maxRD @ '')'')
         else None)"

definition validateSignedUnlockRequirement ::
  "unlock_funs \<Rightarrow> payment_requirements \<Rightarrow> payment_requirements \<Rightarrow> unlock_config \<Rightarrow> asset_info \<Rightarrow> int \<Rightarrow> string option" where
  "validateSignedUnlockRequirement uk signed expected uc asset now =
     (if pr_scheme signed \<noteq> ''auth-capture'' then Some (''scheme '' @ uk_quote uk (pr_scheme signed) @ '', want auth-capture'')
      else if pr_network signed \<noteq> pr_network expected then Some (want uk ''network'' (pr_network signed) (pr_network expected))
      else if \<not> equal_fold (pr_asset signed) (pr_asset expected) then Some (want uk ''asset'' (pr_asset signed) (pr_asset expected))
      else if \<not> equal_fold (pr_payTo signed) (pr_payTo expected) then Some (want uk ''payTo'' (pr_payTo signed) (pr_payTo expected))
      else if pr_amount signed \<noteq> pr_amount expected then Some (want uk ''amount'' (pr_amount signed) (pr_amount expected))
      else (case pr_extra signed of
              None \<Rightarrow> Some ''missing extra''
            | Some ex \<Rightarrow> (case extra_error uk ex uc asset of Some e \<Rightarrow> Some e | None \<Rightarrow> deadline_error ex uc now)))"

subsection \<open>The handler\<close>

definition facilitatorDetail :: "string \<Rightarrow> string \<Rightarrow> string" where
  "facilitatorDetail reason message =
     (let detail = trim_space (trim_space reason @ '' '' @ trim_space message)
      in if detail = [] then ''facilitator rejected the request'' else detail)"

definition writeUnlockJSON :: "int \<Rightarrow> (string \<times> json) list \<Rightarrow> resp_writer \<Rightarrow> resp_writer" where
  "writeUnlockJSON status body w = encode_members body (cw_WriteHeader status (set_header ''Content-Type'' ''application/json'' w))"

definition surfaceOnChainSettle :: "settle_response option \<Rightarrow> resp_writer \<Rightarrow> bool \<times> resp_writer" where
  "surfaceOnChainSettle resp w =
     (case resp of None \<Rightarrow> (False, w)
      | Some r \<Rightarrow> if sr_Transaction r = [] then (False, w) else (True, set_receipt r w))"

definition unlock_hint :: string where
  "unlock_hint = ''the settle tx in X-PAYMENT-RESPONSE may have landed on-chain'' @ em_dash @
     ''verify against the chain before retrying, or you may pay twice''"

definition unlock_settle_failed :: "settle_response option \<Rightarrow> string \<Rightarrow> resp_writer \<Rightarrow> resp_writer" where
  "unlock_settle_failed resp detail w =
     (case surfaceOnChainSettle resp w of
        (shown, w1) \<Rightarrow> writeUnlockJSON 502 ([(''error'', JStr ''settle_failed''), (''detail'', JStr detail)] @
          (if shown then [(''hint'', JStr unlock_hint)] else [])) w1)"

definition unlock_error_reply :: "int \<Rightarrow> string \<Rightarrow> resp_writer \<Rightarrow> resp_writer" where
  "unlock_error_reply status e = writeUnlockJSON status [(''error'', JStr e)]"

definition unlock_misconfigured :: "resp_writer \<Rightarrow> resp_writer" where
  "unlock_misconfigured = unlock_error_reply 500 ''unlock_misconfigured''"

text \<open>The struct of the 402 keeps the order of its fields.\<close>

definition unlock_challenge :: "unlock_funs \<Rightarrow> payment_requirements \<Rightarrow> resp_writer \<Rightarrow> resp_writer" where
  "unlock_challenge uk req w =
     snd (cw_Write (json_print (JObj [(''x402Version'', JNum ''2''), (''accepts'', JArr [uk_print_requirement uk req]),
         (''error'', JStr ''payment required to unlock this agent'')]) @ [CHR 0x0A])
       (cw_WriteHeader 402 (set_header ''Content-Type'' ''application/json'' w)))"

text \<open>\<open>RoutePayment{AssetAddress: a}\<close>\<close>

definition asset_payment :: "string \<Rightarrow> route_payment" where
  "asset_payment a = \<lparr>rp_Price = [], rp_PayTo = [], rp_Network = [], rp_AssetAddress = a, rp_AssetSymbol = [], rp_AssetDecimals = 0,
     rp_AssetTransferMethod = [], rp_EIP712Name = [], rp_EIP712Version = [], rp_PriceModel = [], rp_PerMTok = [],
     rp_ApproxTokensPerRequest = 0, rp_MaxTimeoutSeconds = 0\<rparr>"

text \<open>The validated configuration of the offer with its chain, asset and payee; \<open>None\<close> when it is misconfigured.\<close>

definition unlock_place :: "unlock_funs \<Rightarrow> verifier \<Rightarrow> (unlock_config \<times> chain_info \<times> asset_info \<times> string) option" where
  "unlock_place uk v =
     (case v_config v of None \<Rightarrow> None
      | Some cfg \<Rightarrow> (case pc_AuthCaptureUnlock cfg of None \<Rightarrow> None
        | Some uc0 \<Rightarrow>
            if \<not> uc_Enabled uc0 then None
            else (case Validate uk uc0 of Inl e \<Rightarrow> None
              | Inr uc \<Rightarrow> (case v_chains v of None \<Rightarrow> None
                 | Some cs \<Rightarrow> (case map_of cs (if uc_Network uc = [] then pc_Chain cfg else uc_Network uc) of None \<Rightarrow> None
                    | Some chain \<Rightarrow>
                        Some (uc, chain,
                          if uc_Asset uc = [] then DefaultAsset chain else ResolveAssetInfoForPayment chain (asset_payment (uc_Asset uc)),
                          if uc_PayTo uc = [] then pc_Wallet cfg else uc_PayTo uc))))))"

text \<open>What the offer asks: its configuration, the asset and the requirement.\<close>

definition unlock_terms :: "unlock_funs \<Rightarrow> nsec \<Rightarrow> verifier \<Rightarrow> (unlock_config \<times> asset_info \<times> payment_requirements) option" where
  "unlock_terms uk now v =
     (case unlock_place uk v of None \<Rightarrow> None
      | Some (uc, chain, asset, payTo) \<Rightarrow>
          (case BuildAuthCaptureRequirement uk chain asset uc payTo now of Inl e \<Rightarrow> None | Inr req \<Rightarrow> Some (uc, asset, req)))"

text \<open>The outcome: a reply, or the request for the upstream beside the header that the client gets.\<close>

datatype unlock_next = UReplied resp_writer | UForward http_request resp_writer

definition open_session :: "unlock_funs \<Rightarrow> verifier_env \<Rightarrow> route_rule \<Rightarrow> http_request \<Rightarrow> string \<Rightarrow> verifier \<Rightarrow> resp_writer \<Rightarrow> unlock_next" where
  "open_session uk env rule r wallet v w =
     (let w1 = add_header ''Set-Cookie'' (session_cookie (MintSession (st_siwx (ve_site env)) wallet (ve_now env) (v_siwx v))) w
      in case buildUpstreamProxy (ve_proxy env) (ve_secret env) rule of
           None \<Rightarrow> UReplied (unlock_error_reply 500 ''upstream_unavailable'' w1)
         | Some send \<Rightarrow> UForward (send (with_payer wallet (with_wallet wallet r))) w1)"

text \<open>
  The calls of the facilitator for a payment on the offer's terms.  A facilitator is what it answers to the bytes and the
  requirement of a call; it never answers without a response and an error.
\<close>

type_synonym fac_service = "string \<Rightarrow> payment_requirements \<Rightarrow> fac_http"

definition unlock_settle ::
  "unlock_funs \<Rightarrow> verifier_env \<Rightarrow> route_rule \<Rightarrow> http_request \<Rightarrow> string \<Rightarrow> payment_requirements \<Rightarrow> verify_response \<Rightarrow> fac_service \<Rightarrow>
   verifier \<Rightarrow> resp_writer \<Rightarrow> unlock_next" where
  "unlock_settle uk env rule r bytes signed vr fac_settle v w =
     (case facilitatorSettle bytes signed (fac_settle bytes signed) of
        (resp, Some e) \<Rightarrow> UReplied (unlock_settle_failed resp (uk_error_text uk e) w)
      | (None, None) \<Rightarrow> UReplied w
      | (Some sr, None) \<Rightarrow>
          if \<not> sr_Success sr then UReplied (unlock_settle_failed (Some sr) (facilitatorDetail (sr_ErrorReason sr) (sr_ErrorMessage sr)) w)
          else open_session uk env rule r (if sr_Payer sr = [] then vr_Payer vr else sr_Payer sr) v w)"

definition unlock_verify ::
  "unlock_funs \<Rightarrow> verifier_env \<Rightarrow> route_rule \<Rightarrow> http_request \<Rightarrow> string \<Rightarrow> payment_requirements \<Rightarrow> fac_service \<Rightarrow> fac_service \<Rightarrow>
   verifier \<Rightarrow> resp_writer \<Rightarrow> unlock_next" where
  "unlock_verify uk env rule r bytes signed fac_verify fac_settle v w =
     (case facilitatorVerify bytes signed (fac_verify bytes signed) of
        Inl e \<Rightarrow> UReplied (writeUnlockJSON 402 [(''error'', JStr ''payment_invalid''), (''detail'', JStr (uk_error_text uk e))] w)
      | Inr vr \<Rightarrow>
          if \<not> vr_IsValid vr then
            UReplied (writeUnlockJSON 402 [(''error'', JStr ''payment_invalid''),
              (''detail'', JStr (facilitatorDetail (vr_InvalidReason vr) (vr_InvalidMessage vr)))] w)
          else unlock_settle uk env rule r bytes signed vr fac_settle v w)"

definition handlePaidUnlock ::
  "unlock_funs \<Rightarrow> verifier_env \<Rightarrow> route_rule \<Rightarrow> http_request \<Rightarrow> fac_service \<Rightarrow> fac_service \<Rightarrow> verifier \<Rightarrow> resp_writer \<Rightarrow> unlock_next" where
  "handlePaidUnlock uk env rule r fac_verify fac_settle v w =
     (case unlock_terms uk (ve_now env) v of
        None \<Rightarrow> UReplied (unlock_misconfigured w)
      | Some (uc, asset, req) \<Rightarrow>
          if payment_header (rq_header r) = [] then UReplied (unlock_challenge uk req w)
          else (case base64_decode (payment_header (rq_header r)) of
                  None \<Rightarrow> UReplied (unlock_error_reply 400 ''invalid_payment_header'' w)
                | Some bytes \<Rightarrow> (case uk_to_payload uk bytes of
                    None \<Rightarrow> UReplied (unlock_error_reply 400 ''invalid_payment_header'' w)
                  | Some payload \<Rightarrow>
                      (case validateSignedUnlockRequirement uk (pp_accepted payload) req uc asset (unix (ve_now env)) of
                         Some e \<Rightarrow> UReplied (writeUnlockJSON 402 [(''error'', JStr ''payment_policy_mismatch''), (''detail'', JStr e)] w)
                       | None \<Rightarrow> unlock_verify uk env rule r bytes (pp_accepted payload) fac_verify fac_settle v w))))"

end
