(* ===== verification/UnlockSafety.thy ===== *)
theory UnlockSafety imports UnlockGate VerifierSafety begin

text \<open>
  What the paid unlock guarantees: a session is opened only for a payment on the configured terms that was verified and
  settled, the signed deadlines stay within the configured windows, the advertised requirement can be paid, and a settlement
  that names no payer opens a session that is refused.
\<close>

subsection \<open>A session costs a settled payment\<close>

fun reply_writer :: "unlock_next \<Rightarrow> resp_writer" where
  "reply_writer (UReplied w) = w"
| "reply_writer (UForward r w) = w"

definition cookies :: "resp_writer \<Rightarrow> string list option" where
  "cookies w = map_of (cw_header w) ''set-cookie''"

lemma cookies_set: "to_lower k \<noteq> ''set-cookie'' \<Longrightarrow> cookies (set_header k v w) = cookies w"
  by (simp add: cookies_def set_header_def hset_def update_conv')

lemma cookies_status [simp]: "cookies (cw_WriteHeader code w) = cookies w"
  by (simp add: cookies_def cw_WriteHeader_def)

lemma cookies_write [simp]: "cookies (snd (cw_Write b w)) = cookies w"
  by (auto simp: cw_Write_def Let_def cookies_def cw_WriteHeader_def split: list.split option.split)

lemma cookies_add: "cookies (add_header ''Set-Cookie'' c w) = Some (the_default [] (cookies w) @ [c])"
proof -
  have "to_lower ''Set-Cookie'' = ''set-cookie''" by code_simp
  then show ?thesis by (simp add: cookies_def add_header_def update_conv')
qed

lemma content_type_lower: "to_lower ''Content-Type'' = ''content-type''" "to_lower ''X-PAYMENT-RESPONSE'' = ''x-payment-response''"
  "to_lower ''PAYMENT-RESPONSE'' = ''payment-response''" "to_lower ''Set-Cookie'' = ''set-cookie''"
  by code_simp+

lemma cookies_json [simp]: "cookies (writeUnlockJSON status body w) = cookies w"
  by (simp add: writeUnlockJSON_def encode_members_def cookies_set content_type_lower)

lemma cookies_settle_failed [simp]: "cookies (unlock_settle_failed resp detail w) = cookies w"
  by (auto simp: unlock_settle_failed_def surfaceOnChainSettle_def set_receipt_def Let_def cookies_set content_type_lower split: option.split prod.split)

lemma cookies_replies [simp]: "cookies (unlock_error_reply status e w) = cookies w" "cookies (unlock_misconfigured w) = cookies w"
  "cookies (unlock_challenge uk req w) = cookies w"
  by (simp_all add: unlock_error_reply_def unlock_misconfigured_def unlock_challenge_def cookies_set content_type_lower)

lemma verified_body: "facilitatorVerify bytes s http = Inr vr \<Longrightarrow> \<exists>body. http = FacAnswer 200 body \<and> decode_verify body = Some vr"
  by (auto simp: facilitatorVerify_def split: if_splits fac_http.splits option.splits)

lemma settled_body: "facilitatorSettle bytes s http = (Some sr, None) \<Longrightarrow> \<exists>body. http = FacAnswer 200 body \<and> decode_settle body = Some sr"
  by (auto simp: facilitatorSettle_def split: if_splits fac_http.splits option.splits)

text \<open>A payment whose signed requirement is one the offer asks for, up to the deadlines.\<close>

definition on_terms :: "unlock_funs \<Rightarrow> payment_requirements \<Rightarrow> unlock_config \<Rightarrow> asset_info \<Rightarrow> payment_requirements \<Rightarrow> bool" where
  "on_terms uk req uc asset s \<longleftrightarrow>
     pr_scheme s = ''auth-capture'' \<and> pr_network s = pr_network req \<and> equal_fold (pr_asset s) (pr_asset req) \<and>
     equal_fold (pr_payTo s) (pr_payTo req) \<and> pr_amount s = pr_amount req \<and>
     (\<exists>ex. pr_extra s = Some ex \<and> equal_fold (exStr ex ''captureAuthorizer'') (uc_CaptureAuthorizer uc) \<and>
        equal_fold (exStr ex ''feeRecipient'') (uc_FeeRecipient uc) \<and> exU64 uk ex ''minFeeBps'' = uc_MinFeeBps uc \<and>
        exU64 uk ex ''maxFeeBps'' = uc_MaxFeeBps uc \<and> exTrue ex ''autoCapture'' \<and>
        exStr ex ''assetTransferMethod'' = ai_TransferMethod asset \<and> exStr ex ''name'' = ai_EIP712Name asset \<and>
        exStr ex ''version'' = ai_EIP712Version asset)"

lemma validated_terms:
  assumes "validateSignedUnlockRequirement uk s req uc asset now = None"
  shows "on_terms uk req uc asset s"
  using assms by (auto simp: validateSignedUnlockRequirement_def on_terms_def extra_error_def split: if_splits option.splits)

lemma validate_again: "Validate uk c = Inr c1 \<Longrightarrow> Validate uk c1 = Inr c1"
proof -
  assume a: "Validate uk c = Inr c1"
  then have c1: "c1 = with_deadlines c" by (auto simp: Validate_def Let_def split: option.splits if_splits)
  moreover have "with_deadlines (with_deadlines c) = with_deadlines c"
    by (simp add: with_deadlines_def defaultCaptureDeadlineSecs_def defaultRefundDeadlineSecs_def)
  ultimately show "Validate uk c1 = Inr c1" using a by (simp add: Validate_def Let_def)
qed

lemma place_valid: "unlock_place uk v = Some (uc, chain, asset, payTo) \<Longrightarrow> Validate uk uc = Inr uc"
  by (auto simp: unlock_place_def dest: validate_again split: option.splits if_splits sum.splits)

lemma terms_parts:
  assumes "unlock_terms uk now v = Some (uc, asset, req)"
  obtains chain payTo amount where "unlock_place uk v = Some (uc, chain, asset, payTo)" "Validate uk uc = Inr uc"
    "decimalToAtomic (uc_Price uc) (ai_Decimals asset) = Inr amount"
    "req = \<lparr>pr_scheme = ''auth-capture'', pr_network = ci_CAIP2Network chain, pr_asset = ai_Address asset, pr_amount = amount,
       pr_payTo = payTo, pr_maxTimeoutSeconds = ClampMaxTimeoutSeconds (wrap64 (uc_CaptureDeadlineSecs uc)),
       pr_extra = Some (unlock_extra asset uc now)\<rparr>"
proof -
  obtain chain payTo where p: "unlock_place uk v = Some (uc, chain, asset, payTo)"
    and b: "BuildAuthCaptureRequirement uk chain asset uc payTo now = Inr req"
    using assms by (auto simp: unlock_terms_def split: option.splits sum.splits)
  note v = place_valid [OF p]
  show thesis using b v p that by (auto simp: BuildAuthCaptureRequirement_def split: sum.splits)
qed

lemma terms_requirement:
  assumes "unlock_terms uk now v = Some (uc, asset, req)"
  shows "pr_scheme req = ''auth-capture'' \<and> decimalToAtomic (uc_Price uc) (ai_Decimals asset) = Inr (pr_amount req)"
  using assms by (rule terms_parts) simp

text \<open>The only way to a session.\<close>

lemma session_opened:
  assumes "cookies (reply_writer (handlePaidUnlock uk env rule r fac_verify fac_settle v w)) \<noteq> cookies w"
  obtains uc asset req bytes payload vr sr where
    "unlock_terms uk (ve_now env) v = Some (uc, asset, req)" "base64_decode (payment_header (rq_header r)) = Some bytes"
    "uk_to_payload uk bytes = Some payload"
    "validateSignedUnlockRequirement uk (pp_accepted payload) req uc asset (unix (ve_now env)) = None"
    "facilitatorVerify bytes (pp_accepted payload) (fac_verify bytes (pp_accepted payload)) = Inr vr" "vr_IsValid vr"
    "facilitatorSettle bytes (pp_accepted payload) (fac_settle bytes (pp_accepted payload)) = (Some sr, None)" "sr_Success sr"
    "handlePaidUnlock uk env rule r fac_verify fac_settle v w =
      open_session uk env rule r (if sr_Payer sr = [] then vr_Payer vr else sr_Payer sr) v w"
  using assms unfolding handlePaidUnlock_def unlock_verify_def unlock_settle_def
  by (auto split: option.splits prod.splits sum.splits if_splits)

lemma open_session_cookies:
  "\<exists>cs. cookies (reply_writer (open_session uk env rule r wallet v w)) =
     Some (cs @ [session_cookie (MintSession (st_siwx (ve_site env)) wallet (ve_now env) (v_siwx v))])"
  by (auto simp: open_session_def Let_def unlock_error_reply_def cookies_add split: option.split)

text \<open>C5: A session costs a settled payment.  If the answer of the unlock handler sets a cookie, the header carried a payment
  whose signed requirement names the configured network, asset, payee, exact price, fee and authorizer; the facilitator was
  asked to verify and then to settle the bytes of that header against the requirement that the buyer signed (not the one
  that the handler rebuilds for this request), and answered 200 and valid, then 200 and settled; the cookie is a session
  of the wallet that the settlement names; and whatever goes upstream carries that wallet.\<close>

theorem session_costs_a_settled_payment:
  assumes "cookies (reply_writer (handlePaidUnlock uk env rule r fac_verify fac_settle v w)) \<noteq> cookies w"
  shows "\<exists>uc asset req bytes payload vbody sbody vr sr wallet. unlock_terms uk (ve_now env) v = Some (uc, asset, req) \<and>
    decimalToAtomic (uc_Price uc) (ai_Decimals asset) = Inr (pr_amount req) \<and>
    base64_decode (payment_header (rq_header r)) = Some bytes \<and> uk_to_payload uk bytes = Some payload \<and>
    on_terms uk req uc asset (pp_accepted payload) \<and>
    facilitator_request bytes (pp_accepted payload) = Some (bytes, pp_accepted payload) \<and>
    fac_verify bytes (pp_accepted payload) = FacAnswer 200 vbody \<and> decode_verify vbody = Some vr \<and> vr_IsValid vr \<and>
    fac_settle bytes (pp_accepted payload) = FacAnswer 200 sbody \<and> decode_settle sbody = Some sr \<and> sr_Success sr \<and>
    wallet = (if sr_Payer sr = [] then vr_Payer vr else sr_Payer sr) \<and>
    (\<exists>cs. cookies (reply_writer (handlePaidUnlock uk env rule r fac_verify fac_settle v w)) =
      Some (cs @ [session_cookie (MintSession (st_siwx (ve_site env)) wallet (ve_now env) (v_siwx v))])) \<and>
    (case handlePaidUnlock uk env rule r fac_verify fac_settle v w of UReplied w' \<Rightarrow> True
     | UForward sent w' \<Rightarrow> (\<exists>send. buildUpstreamProxy (ve_proxy env) (ve_secret env) rule = Some send \<and>
         sent = send (with_payer wallet (with_wallet wallet r))))"
proof -
  obtain uc asset req bytes payload vr sr where o:
    "unlock_terms uk (ve_now env) v = Some (uc, asset, req)" "base64_decode (payment_header (rq_header r)) = Some bytes"
    "uk_to_payload uk bytes = Some payload"
    "validateSignedUnlockRequirement uk (pp_accepted payload) req uc asset (unix (ve_now env)) = None"
    "facilitatorVerify bytes (pp_accepted payload) (fac_verify bytes (pp_accepted payload)) = Inr vr" "vr_IsValid vr"
    "facilitatorSettle bytes (pp_accepted payload) (fac_settle bytes (pp_accepted payload)) = (Some sr, None)" "sr_Success sr"
    "handlePaidUnlock uk env rule r fac_verify fac_settle v w =
      open_session uk env rule r (if sr_Payer sr = [] then vr_Payer vr else sr_Payer sr) v w"
    using session_opened [OF assms] .
  obtain vbody sbody where b: "fac_verify bytes (pp_accepted payload) = FacAnswer 200 vbody" "decode_verify vbody = Some vr"
    "fac_settle bytes (pp_accepted payload) = FacAnswer 200 sbody" "decode_settle sbody = Some sr"
    using verified_body [OF o(5)] settled_body [OF o(7)] by blast
  have call: "facilitator_request bytes (pp_accepted payload) = Some (bytes, pp_accepted payload)"
    using o(5) by (auto simp: facilitatorVerify_def facilitator_request_def split: if_splits)
  let ?wallet = "if sr_Payer sr = [] then vr_Payer vr else sr_Payer sr"
  have sent: "case open_session uk env rule r ?wallet v w of UReplied w' \<Rightarrow> True
     | UForward sent w' \<Rightarrow> (\<exists>send. buildUpstreamProxy (ve_proxy env) (ve_secret env) rule = Some send \<and>
         sent = send (with_payer ?wallet (with_wallet ?wallet r)))"
    by (simp add: open_session_def Let_def split: option.split)
  show ?thesis
    unfolding o(9)
    using o(1,2,3,6,8) call b validated_terms [OF o(4)] terms_requirement [OF o(1)] open_session_cookies [of uk env rule r ?wallet v w] sent
    by (intro exI [of _ uc] exI [of _ asset] exI [of _ req] exI [of _ bytes] exI [of _ payload] exI [of _ vbody] exI [of _ sbody]
        exI [of _ vr] exI [of _ sr] exI [of _ ?wallet] conjI; (assumption | rule refl | blast)?)
qed

subsection \<open>Deadlines\<close>

lemma wrap64_id: "min_int64 \<le> i \<Longrightarrow> i \<le> max_int64 \<Longrightarrow> wrap64 i = i"
  unfolding wrap64_def min_int64_def max_int64_def by simp

text \<open>C23: The signed deadlines stay within the configured windows.  With windows for which the sums do not wrap, a payment
  that the policy check lets through is captured more than 6 seconds and at most the capture window and a minute from now,
  and refunded no earlier than that and at most the refund window and a minute from now.\<close>

theorem signed_deadlines_bounded:
  assumes "validateSignedUnlockRequirement uk s req uc asset now = None"
    and "0 \<le> now" "0 \<le> uc_CaptureDeadlineSecs uc" "0 \<le> uc_RefundDeadlineSecs uc"
    and "now + uc_CaptureDeadlineSecs uc + 60 \<le> max_int64" "now + uc_RefundDeadlineSecs uc + 60 \<le> max_int64"
  shows "\<exists>ex. pr_extra s = Some ex \<and>
    now + 6 < exI64 ex ''captureDeadline'' \<and> exI64 ex ''captureDeadline'' \<le> now + uc_CaptureDeadlineSecs uc + 60 \<and>
    exI64 ex ''captureDeadline'' \<le> exI64 ex ''refundDeadline'' \<and> exI64 ex ''refundDeadline'' \<le> now + uc_RefundDeadlineSecs uc + 60"
proof -
  obtain ex where ex: "pr_extra s = Some ex" "deadline_error ex uc now = None"
    using assms(1) by (auto simp: validateSignedUnlockRequirement_def split: if_splits option.splits)
  have w: "wrap64 (now + 6) = now + 6" "wrap64 (uc_CaptureDeadlineSecs uc) = uc_CaptureDeadlineSecs uc"
    "wrap64 (uc_RefundDeadlineSecs uc) = uc_RefundDeadlineSecs uc" "wrap64 (now + uc_CaptureDeadlineSecs uc) = now + uc_CaptureDeadlineSecs uc"
    "wrap64 (now + uc_RefundDeadlineSecs uc) = now + uc_RefundDeadlineSecs uc"
    "wrap64 (now + uc_CaptureDeadlineSecs uc + 60) = now + uc_CaptureDeadlineSecs uc + 60"
    "wrap64 (now + uc_RefundDeadlineSecs uc + 60) = now + uc_RefundDeadlineSecs uc + 60"
    using assms(2-) by (intro wrap64_id; simp add: min_int64_def)+
  show ?thesis using ex unfolding deadline_error_def deadlineSkewSecs_def w Let_def by (auto split: if_splits)
qed


subsection \<open>The advertised requirement can be paid\<close>

lemma bitlen_bounds: "0 < n \<Longrightarrow> 0 < bitlen n \<and> 2 ^ nat (bitlen n - 1) \<le> n \<and> n < 2 ^ nat (bitlen n)"
proof (induction n rule: bitlen.induct)
  case (1 n)
  show ?case
  proof (cases "n = 1")
    case False
    with 1 have d: "0 < n div 2" and ih: "0 < bitlen (n div 2)" "2 ^ nat (bitlen (n div 2) - 1) \<le> n div 2" "n div 2 < 2 ^ nat (bitlen (n div 2))"
      by auto
    have b: "bitlen n = 1 + bitlen (n div 2)" using 1(2) by (subst bitlen.simps) simp
    obtain k where k: "bitlen (n div 2) = int (Suc k)" using ih(1) by (metis zero_less_imp_eq_int Suc_pred')
    have "nat (bitlen n - 1) = Suc k" "nat (bitlen n) = Suc (Suc k)" "nat (bitlen (n div 2) - 1) = k" "nat (bitlen (n div 2)) = Suc k"
      unfolding b k by simp_all
    then show ?thesis using ih b by (simp only: power_Suc) linarith
  qed (simp add: bitlen.simps)
qed

lemma bitlen_small: "0 < n \<Longrightarrow> n < 2 ^ k \<Longrightarrow> bitlen n \<le> int k"
proof -
  assume n: "0 < n" "n < 2 ^ k"
  have "(2::int) ^ nat (bitlen n - 1) < 2 ^ k" using bitlen_bounds [OF n(1)] n(2) by linarith
  then have "nat (bitlen n - 1) < k" by simp
  then show ?thesis by linarith
qed

text \<open>An integer of at most 53 bits is a \<open>float64\<close>.\<close>

lemma float_exact:
  assumes "0 \<le> n" "n < 2 ^ 53"
  shows "float_trunc (nearest_float n 1) = n \<and> snd (nearest_float n 1) \<le> 0 \<and> (snd (nearest_float n 1) = 0 \<longrightarrow> fst (nearest_float n 1) = n)"
proof (cases "n = 0")
  case False
  with assms have pos: "0 < n" by simp
  have le: "bitlen n \<le> 53" using bitlen_small [OF pos, of 53] assms(2) by simp
  note b = bitlen_bounds [OF pos]
  have one: "bitlen 1 = 1" by (simp add: bitlen.simps)
  have e0: "bitlen n - bitlen 1 - 53 < 0" using le one by simp
  have "(2::int) ^ 53 = 2 ^ nat (bitlen n - 1) * 2 ^ nat (- (bitlen n - bitlen 1 - 53))"
    unfolding one power_add [symmetric] using b le by (intro arg_cong [where f = "\<lambda>k. 2 ^ k"]) linarith
  also have "\<dots> \<le> n * 2 ^ nat (- (bitlen n - bitlen 1 - 53))" using b by (intro mult_right_mono) auto
  finally have big: "n * pow2 (- (bitlen n - bitlen 1 - 53)) \<ge> 1 * pow2 53" by (simp add: pow2_def)
  have f: "nearest_float n 1 = (scaled n 1 (bitlen n - 53), bitlen n - 53)"
    unfolding nearest_float_def Let_def using False e0 big one le b by simp
  have s: "scaled n 1 (bitlen n - 53) = n * 2 ^ nat (53 - bitlen n)"
    using le by (auto simp: scaled_def pow2_def round_half_even_def Let_def)
  show ?thesis
  proof (cases "bitlen n = 53")
    case True
    then show ?thesis unfolding f s by (simp add: float_trunc_def)
  next
    case lt: False
    with le have "\<not> 0 \<le> bitlen n - 53" by simp
    moreover have "sgn (n * 2 ^ k) = (1::int)" "\<bar>n * 2 ^ k\<bar> div 2 ^ k = n" for k :: nat using pos by (simp_all add: sgn_mult abs_mult)
    ultimately show ?thesis unfolding f s float_trunc_def by simp
  qed
qed (simp add: nearest_float_def float_trunc_def)

lemma show_int_literal:
  assumes "0 \<le> n" "n < 2 ^ 53"
  shows "\<exists>f. float_of_literal (show_int n) = Some f \<and> float_trunc f = n"
proof -
  have d: "list_all is_digit (show_dec n)" "digits_val 0 (show_dec n) = Some n"
    using show_dec_digits [OF assms(1)] digits_val_show_dec [OF assms(1)] by simp_all
  obtain c cs where c: "show_dec n = c # cs" "is_digit c" using show_dec_head [OF assms(1)] by blast
  have all: "takeWhile is_digit (show_dec n) = show_dec n" "dropWhile is_digit (show_dec n) = []"
    using d(1) by (simp_all add: takeWhile_eq_all_conv list_all_iff)
  have sign: "has_prefix ''-'' (show_dec n) = False" "trim_prefix ''-'' (show_dec n) = show_dec n"
    using c minus_not_digit by (auto simp: trim_prefix_def)
  obtain m e where me: "nearest_float n 1 = (m, e)" by (cases "nearest_float n 1")
  have x: "float_trunc (m, e) = n" "e \<le> 0" "e = 0 \<Longrightarrow> m = n" using float_exact [OF assms] unfolding me by auto
  have "bitlen n \<le> 53" using bitlen_small [of n 53] assms by (cases "n = 0") (auto simp: bitlen.simps)
  then have "\<not> (e \<ge> 0 \<and> bitlen m + e > 1024)" using x by auto
  then show ?thesis
    using assms(1) x(1) unfolding show_int_def float_of_literal_def Let_def
    by (simp add: sign all d(2) me the_default_def)
qed


text \<open>A requirement that a client copies: its extra values after printing and parsing as JSON.\<close>

definition echoed :: "(float64 \<Rightarrow> string) \<Rightarrow> payment_requirements \<Rightarrow> payment_requirements" where
  "echoed sf q = q\<lparr>pr_extra := map_option (map (\<lambda>(k, v). (k, the_default GNil (any_of_json (json_of_any sf v))))) (pr_extra q)\<rparr>"

lemma echoed_int: "0 \<le> i \<Longrightarrow> i < 2 ^ 53 \<Longrightarrow> \<exists>f. any_of_json (JNum (show_int i)) = Some (GFloat f) \<and> float_trunc f = i"
  using show_int_literal [of i] by auto

lemma terms_at:
  assumes "unlock_terms uk t0 v = Some (uc, asset, offered)"
  shows "unlock_terms uk now v = Some (uc, asset, offered\<lparr>pr_extra := Some (unlock_extra asset uc now)\<rparr>) \<and>
    pr_extra offered = Some (unlock_extra asset uc t0) \<and> pr_scheme offered = ''auth-capture'' \<and> Validate uk uc = Inr uc"
  using assms
proof (rule terms_parts)
  fix chain payTo amount
  assume p: "unlock_place uk v = Some (uc, chain, asset, payTo)" "Validate uk uc = Inr uc"
    "decimalToAtomic (uc_Price uc) (ai_Decimals asset) = Inr amount"
    "offered = \<lparr>pr_scheme = ''auth-capture'', pr_network = ci_CAIP2Network chain, pr_asset = ai_Address asset, pr_amount = amount,
       pr_payTo = payTo, pr_maxTimeoutSeconds = ClampMaxTimeoutSeconds (wrap64 (uc_CaptureDeadlineSecs uc)),
       pr_extra = Some (unlock_extra asset uc t0)\<rparr>"
  then show ?thesis by (simp add: unlock_terms_def BuildAuthCaptureRequirement_def)
qed

lemma validated_config:
  assumes "Validate uk uc = Inr uc"
  shows "uc_MinFeeBps uc \<le> uc_MaxFeeBps uc \<and> uc_MaxFeeBps uc \<le> 10000 \<and> 6 < uc_CaptureDeadlineSecs uc \<and>
    uc_CaptureDeadlineSecs uc \<le> uc_RefundDeadlineSecs uc"
proof -
  have "uc = with_deadlines uc" using assms by (auto simp: Validate_def Let_def split: option.splits if_splits)
  then show ?thesis using assms by (auto simp: Validate_def Let_def split: option.splits if_splits)
qed

text \<open>C24: The advertised requirement can be paid.  A client that signs the requirement of a 402 unchanged passes the policy
  check for as long as its capture deadline is more than 6 seconds away, although every answer carries fresh deadlines and
  the signed ones have been through JSON's floating-point numbers.\<close>

theorem advertised_unlock_is_payable:
  assumes "unlock_terms uk t0 v = Some (uc, asset, offered)" and "0 \<le> uc_MinFeeBps uc"
    and "0 \<le> unix t0" "unix t0 \<le> unix now" "unix now + 6 < unix t0 + uc_CaptureDeadlineSecs uc"
    and "unix now + uc_RefundDeadlineSecs uc + 60 < 2 ^ 53"
  shows "\<exists>req. unlock_terms uk now v = Some (uc, asset, req) \<and>
    validateSignedUnlockRequirement uk (echoed sf offered) req uc asset (unix now) = None"
proof -
  note t = terms_at [OF assms(1)]
  have c: "uc_MinFeeBps uc \<le> uc_MaxFeeBps uc" "uc_MaxFeeBps uc \<le> 10000" "6 < uc_CaptureDeadlineSecs uc"
    "uc_CaptureDeadlineSecs uc \<le> uc_RefundDeadlineSecs uc" using validated_config t by blast+
  have w: "wrap64 i = i" if "0 \<le> i" "i < 2 ^ 53" for i :: int using that by (intro wrap64_id) (simp_all add: min_int64_def max_int64_def)
  let ?cd = "unix t0 + uc_CaptureDeadlineSecs uc" and ?rd = "unix t0 + uc_RefundDeadlineSecs uc"
  have d: "deadline t0 (uc_CaptureDeadlineSecs uc) = ?cd" "deadline t0 (uc_RefundDeadlineSecs uc) = ?rd"
    unfolding deadline_def using assms(3-6) c by (simp_all add: w)
  obtain fc fr fmin fmax where f: "any_of_json (JNum (show_int ?cd)) = Some (GFloat fc)" "float_trunc fc = ?cd"
    "any_of_json (JNum (show_int ?rd)) = Some (GFloat fr)" "float_trunc fr = ?rd"
    "any_of_json (JNum (show_int (uc_MinFeeBps uc))) = Some (GFloat fmin)" "float_trunc fmin = uc_MinFeeBps uc"
    "any_of_json (JNum (show_int (uc_MaxFeeBps uc))) = Some (GFloat fmax)" "float_trunc fmax = uc_MaxFeeBps uc"
    using echoed_int [of ?cd] echoed_int [of ?rd] echoed_int [of "uc_MinFeeBps uc"] echoed_int [of "uc_MaxFeeBps uc"] assms(2-6) c by auto
  obtain ex where ex: "pr_extra (echoed sf offered) = Some ex" "ex =
     [(''name'', GStr (ai_EIP712Name asset)), (''version'', GStr (ai_EIP712Version asset)),
      (''captureAuthorizer'', GStr (uc_CaptureAuthorizer uc)), (''captureDeadline'', GFloat fc), (''refundDeadline'', GFloat fr),
      (''feeRecipient'', GStr (uc_FeeRecipient uc)), (''minFeeBps'', GFloat fmin), (''maxFeeBps'', GFloat fmax),
      (''autoCapture'', GBool True), (''assetTransferMethod'', GStr (ai_TransferMethod asset))]"
    using t f by (simp add: echoed_def unlock_extra_def d the_default_def del: any_of_json.simps(3))
  have fees: "uc_MinFeeBps uc < 18446744073709551616" "uc_MaxFeeBps uc < 18446744073709551616" "0 \<le> uc_MaxFeeBps uc" using c assms(2) by auto
  have e1: "extra_error uk ex uc asset = None"
    unfolding ex(2) using f fees assms(2)
    by (simp add: extra_error_def exStr_def exU64_def exF64_def exTrue_def the_default_def equal_fold_refl)
  have range: "min_int64 \<le> ?cd" "?cd \<le> max_int64" "min_int64 \<le> ?rd" "?rd \<le> max_int64"
    using assms(3-6) c by (simp_all add: min_int64_def max_int64_def)
  have i: "exI64 ex ''captureDeadline'' = ?cd" "exI64 ex ''refundDeadline'' = ?rd"
    unfolding ex(2) exI64_def exF64_def float_to_int64_def using f range by (simp_all add: Let_def)
  have sums: "wrap64 (unix now + 6) = unix now + 6" "wrap64 (uc_CaptureDeadlineSecs uc) = uc_CaptureDeadlineSecs uc"
    "wrap64 (uc_RefundDeadlineSecs uc) = uc_RefundDeadlineSecs uc" "wrap64 (unix now + uc_CaptureDeadlineSecs uc) = unix now + uc_CaptureDeadlineSecs uc"
    "wrap64 (unix now + uc_RefundDeadlineSecs uc) = unix now + uc_RefundDeadlineSecs uc"
    "wrap64 (unix now + uc_CaptureDeadlineSecs uc + 60) = unix now + uc_CaptureDeadlineSecs uc + 60"
    "wrap64 (unix now + uc_RefundDeadlineSecs uc + 60) = unix now + uc_RefundDeadlineSecs uc + 60"
    using assms(3-6) c by (intro w; simp)+
  have e2: "deadline_error ex uc (unix now) = None"
    using assms(3-6) c unfolding deadline_error_def Let_def i deadlineSkewSecs_def sums by simp
  show ?thesis
    using t e1 e2 ex(1) by (auto simp: validateSignedUnlockRequirement_def echoed_def equal_fold_refl)
qed


subsection \<open>A settlement without a payer\<close>

text \<open>A settlement that names no payer opens no door.  When neither answer of the facilitator names a payer, the buyer is
  charged and gets a session cookie, but the token in it is refused at every later time and after every restart.\<close>

theorem nameless_payer_locked_out:
  assumes "cookies (reply_writer (handlePaidUnlock uk env rule r (\<lambda>b s. FacAnswer 200 vbody) (\<lambda>b s. FacAnswer 200 sbody) v w)) \<noteq> cookies w"
    and "map_option vr_Payer (decode_verify vbody) = Some []" and "map_option sr_Payer (decode_settle sbody) = Some []"
  shows "\<exists>token cs. cookies (reply_writer (handlePaidUnlock uk env rule r (\<lambda>b s. FacAnswer 200 vbody) (\<lambda>b s. FacAnswer 200 sbody) v w)) =
      Some (cs @ [session_cookie token]) \<and>
    (\<forall>later A. VerifySession (st_siwx (ve_site env)) token later A \<in> {Inl SessionMismatch, Inl MalformedClaims})"
proof -
  have "\<exists>bytes s vr sr. facilitatorVerify bytes s (FacAnswer 200 vbody) = Inr vr \<and> facilitatorSettle bytes s (FacAnswer 200 sbody) = (Some sr, None) \<and>
      handlePaidUnlock uk env rule r (\<lambda>b s. FacAnswer 200 vbody) (\<lambda>b s. FacAnswer 200 sbody) v w =
        open_session uk env rule r (if sr_Payer sr = [] then vr_Payer vr else sr_Payer sr) v w"
    by (rule session_opened [OF assms(1)]) (intro exI conjI; assumption)
  then obtain bytes s vr sr where o: "facilitatorVerify bytes s (FacAnswer 200 vbody) = Inr vr"
    "facilitatorSettle bytes s (FacAnswer 200 sbody) = (Some sr, None)"
    "handlePaidUnlock uk env rule r (\<lambda>b s. FacAnswer 200 vbody) (\<lambda>b s. FacAnswer 200 sbody) v w =
      open_session uk env rule r (if sr_Payer sr = [] then vr_Payer vr else sr_Payer sr) v w" by (elim exE conjE) (rule that)
  have "decode_verify vbody = Some vr" using verified_body [OF o(1)] by simp
  moreover have "decode_settle sbody = Some sr" using settled_body [OF o(2)] by simp
  ultimately have wallet: "(if sr_Payer sr = [] then vr_Payer vr else sr_Payer sr) = []" using assms(2,3) by simp
  let ?sf = "st_siwx (ve_site env)" and ?A = "v_siwx v"
  let ?claims = "json_print (JObj [(''wallet'', JStr (to_lower [])), (''exp'', JNum (show_int (unix (ve_now env + au_sessionTTL ?A))))])"
  let ?token = "MintSession ?sf [] (ve_now env) ?A"
  have cut: "cut_at ''.'' ?token = Some (rawurl_encode ?claims, signSession ?sf (rawurl_encode ?claims) ?A)"
    using cut_dot_free [OF rawurl_no_dot] by (simp add: MintSession_def Let_def del: json_print.simps)
  have claims: "decode_claims ?claims = None \<or> (\<exists>x. decode_claims ?claims = Some ([], x))"
  proof -
    have "int_literals (JObj [(''wallet'', JStr (to_lower [])), (''exp'', JNum (show_int (unix (ve_now env + au_sessionTTL ?A))))])" by auto
    then have p: "json_parse ?claims = Some (JObj [(''wallet'', JStr (to_lower [])), (''exp'', JNum (show_int (unix (ve_now env + au_sessionTTL ?A))))])"
      by (rule json_int_roundtrip)
    have names: "equal_fold ''exp'' ''wallet'' = False" "equal_fold ''wallet'' ''wallet'' = True" by code_simp+
    show ?thesis unfolding decode_claims_def p by (simp add: str_field_def field_values_def names to_lower_def split: prod.split)
  qed
  have "VerifySession ?sf ?token later A \<in> {Inl SessionMismatch, Inl MalformedClaims}" for later A
    using claims by (auto simp: VerifySession_def cut rawurl_roundtrip)
  then show ?thesis
    unfolding o(3) wallet using open_session_cookies [of uk env rule r "[]" v w] by blast
qed

subsection \<open>A sample unlock\<close>

definition sample_unlock :: unlock_config where
  "sample_unlock = \<lparr>uc_Enabled = True, uc_OfferPrefix = ''/services/p'', uc_Price = ''0.5'', uc_Network = [], uc_PayTo = ''0xB'', uc_Asset = [],
     uc_FeeRecipient = ''0xF'', uc_MinFeeBps = 100, uc_MaxFeeBps = 100, uc_CaptureAuthorizer = ''0xC'', uc_CaptureDeadlineSecs = 0,
     uc_RefundDeadlineSecs = 0\<rparr>"

abbreviation "unlock_verifier \<equiv> sample_verifier\<lparr>v_config := Some (sample_config\<lparr>pc_AuthCaptureUnlock := Some sample_unlock\<rparr>)\<rparr>"

definition unlock_funs_for :: "payment_requirements \<Rightarrow> unlock_funs" where
  "unlock_funs_for accepted = \<lparr>uk_isHexAddress = (\<lambda>a. True), uk_toAddress = (\<lambda>a. a), uk_wide_u64 = (\<lambda>f. 0),
     uk_to_payload = (\<lambda>b. Some (sample_payload\<lparr>pp_accepted := accepted\<rparr>)), uk_print_requirement = (\<lambda>q. JNull), uk_quote = (\<lambda>s. s),
     uk_error_text = (\<lambda>e. [])\<rparr>"

definition offered_unlock :: payment_requirements where
  "offered_unlock = (case unlock_terms (unlock_funs_for empty_requirements) 0 unlock_verifier of Some (uc, asset, req) \<Rightarrow> req)"

abbreviation "paying_client \<equiv> unlock_funs_for (echoed (\<lambda>f. []) offered_unlock)"

definition settle_answer :: "string \<Rightarrow> string" where
  "settle_answer payer = json_print (JObj [(''success'', JBool True), (''payer'', JStr payer)])"

definition verify_answer :: "string \<Rightarrow> string" where
  "verify_answer payer = json_print (JObj [(''isValid'', JBool True), (''payer'', JStr payer)])"

abbreviation "unlocking payer \<equiv> handlePaidUnlock paying_client sample_env sample_paid (sample_request ''/services/p/x'' True)
  (\<lambda>b s. FacAnswer 200 (verify_answer payer)) (\<lambda>b s. FacAnswer 200 (settle_answer payer)) unlock_verifier sample_writer"

lemma unlocked: "cookies (reply_writer (unlocking ''0xD'')) \<noteq> cookies sample_writer" "cookies (reply_writer (unlocking [])) \<noteq> cookies sample_writer"
  by code_simp+


lemma answers_decode:
  "case decode_verify (verify_answer ''0xD'') of None \<Rightarrow> False | Some vr \<Rightarrow> vr_IsValid vr \<and> vr_Payer vr = ''0xD''"
  "map_option vr_Payer (decode_verify (verify_answer [])) = Some []" "map_option sr_Payer (decode_settle (settle_answer [])) = Some []"
  by code_simp+

lemma sample_terms: "case unlock_terms paying_client 0 unlock_verifier of None \<Rightarrow> False
    | Some (uc, asset, req) \<Rightarrow> pr_amount req = ''500000'' \<and> uc_CaptureDeadlineSecs uc = 900 \<and> uc_RefundDeadlineSecs uc = 1800 \<and> uc_MinFeeBps uc = 100"
  by code_simp

theorem session_costs_a_settled_payment_witness:
  "\<exists>uc asset req (payload :: payment_payload). unlock_terms paying_client 0 unlock_verifier = Some (uc, asset, req) \<and> pr_amount req = ''500000'' \<and>
     on_terms paying_client req uc asset (pp_accepted payload)"
proof -
  have now: "ve_now sample_env = 0" by (simp add: sample_env_def)
  have "\<exists>uc asset req (payload :: payment_payload). unlock_terms paying_client 0 unlock_verifier = Some (uc, asset, req) \<and>
      on_terms paying_client req uc asset (pp_accepted payload)"
    using session_costs_a_settled_payment [OF unlocked(1), unfolded now] by (elim exE conjE) (intro exI conjI; assumption)
  with sample_terms show ?thesis by auto
qed

theorem signed_deadlines_bounded_witness:
  "\<exists>ex. pr_extra (echoed (\<lambda>f. []) offered_unlock) = Some ex \<and> 6 < exI64 ex ''captureDeadline'' \<and> exI64 ex ''captureDeadline'' \<le> 960"
proof -
  obtain uc asset req where t: "unlock_terms paying_client 0 unlock_verifier = Some (uc, asset, req)" "uc_CaptureDeadlineSecs uc = 900"
    "uc_RefundDeadlineSecs uc = 1800"
    using sample_terms by (auto split: option.splits prod.splits)
  have "case unlock_terms paying_client 0 unlock_verifier of None \<Rightarrow> False
      | Some (uc, asset, req) \<Rightarrow> validateSignedUnlockRequirement paying_client (echoed (\<lambda>f. []) offered_unlock) req uc asset 0 = None"
    by code_simp
  then have "validateSignedUnlockRequirement paying_client (echoed (\<lambda>f. []) offered_unlock) req uc asset 0 = None" using t(1) by simp
  from signed_deadlines_bounded [OF this] t(2,3) show ?thesis by (auto simp: max_int64_def)
qed

theorem advertised_unlock_is_payable_witness:
  "\<exists>uc asset req fresh. unlock_terms paying_client 0 unlock_verifier = Some (uc, asset, req) \<and>
     validateSignedUnlockRequirement paying_client (echoed (\<lambda>f. []) req) fresh uc asset 800 = None"
proof -
  obtain uc asset req where t: "unlock_terms paying_client 0 unlock_verifier = Some (uc, asset, req)" "uc_CaptureDeadlineSecs uc = 900"
    "uc_RefundDeadlineSecs uc = 1800" "uc_MinFeeBps uc = 100"
    using sample_terms by (auto split: option.splits prod.splits)
  have u: "unix 0 = 0" "unix (800 * second) = 800" by (simp_all add: unix_def)
  obtain fresh where "validateSignedUnlockRequirement paying_client (echoed (\<lambda>f. []) req) fresh uc asset 800 = None"
    using advertised_unlock_is_payable [OF t(1), of "800 * second" "\<lambda>f. []", unfolded u t(2-)] by auto
  with t(1) show ?thesis by (intro exI conjI)
qed

theorem nameless_payer_locked_out_witness:
  "\<exists>token cs. cookies (reply_writer (unlocking [])) = Some (cs @ [session_cookie token]) \<and>
     VerifySession (st_siwx sample_site) token 0 (v_siwx sample_verifier) \<in> {Inl SessionMismatch, Inl MalformedClaims}"
proof -
  have "ve_site sample_env = sample_site" by (simp add: sample_env_def)
  with nameless_payer_locked_out [OF unlocked(2) answers_decode(2,3)] show ?thesis by auto
qed

end
