(* ===== verification/UnixFiles.thy ===== *)
theory UnixFiles imports Matcher "HOL-Library.Sublist" begin

text \<open>
  The host's file system as the Go library shows it to the programs that keep files: a tree of directories, files and
  symbolic links, path resolution that follows links, and the calls of \<open>os\<close>, \<open>os.Root\<close> and \<open>path/filepath\<close> that the
  archive and the defaults tree use.  A path is a list of names from the root; the host may refuse any call and may run
  out of space in any write.  Owners, hard links and concurrent writers are left out.
\<close>

subsection \<open>Nodes and paths\<close>

datatype fs_node = FDir int | FFile int string | FLink string

type_synonym fs_path = "string list"
type_synonym fs = "(fs_path, fs_node) gomap"

datatype errno = ENOENT | ENOTDIR | EEXIST | EISDIR | ENOTEMPTY | ELOOP | EINVAL | EESCAPES | EHOST string

datatype fs_call =
    CallRead fs_path | CallReadDir fs_path | CallMkdir fs_path | CallRemove fs_path | CallSymlink fs_path
  | CallOpen fs_path | CallChmod fs_path | CallRename fs_path fs_path

record host =
  ho_deny :: "fs_call \<Rightarrow> string option"
  ho_room :: "fs_path \<Rightarrow> nat option"

definition node_at :: "fs \<Rightarrow> fs_path \<Rightarrow> fs_node option" where
  "node_at s p = (if p = [] then Some (FDir 0x1ED) else map_of s p)"

definition path_parts :: "string \<Rightarrow> string list" where
  "path_parts s = filter (\<lambda>c. c \<noteq> []) (split_on (CHR ''/'') s)"

definition rel_path :: "string list \<Rightarrow> string" where "rel_path xs = join_with ''/'' xs"
definition abs_path :: "string list \<Rightarrow> string" where "abs_path xs = ''/'' @ rel_path xs"

definition file_IsAbs :: "string \<Rightarrow> bool" where
  "file_IsAbs s = has_prefix ''/'' s"

fun file_Join :: "string list \<Rightarrow> string" where
  "file_Join [] = []"
| "file_Join (e # es) = (if e \<noteq> [] then path_Clean (join_with ''/'' (e # es)) else file_Join es)"

declare file_Join.simps [simp del]

definition file_Dir :: "string \<Rightarrow> string" where
  "file_Dir p = path_Clean (rev (dropWhile (\<lambda>c. c \<noteq> CHR ''/'') (rev p)))"

text \<open>
  Resolution of the names \<open>cs\<close> from directory \<open>cur\<close>, following at most \<open>n\<close> links, the last name's too.  The last name
  need not exist.  Under an \<open>os.Root\<close> (\<open>jail\<close>) no step leaves the root's directory.
\<close>

function locate :: "fs \<Rightarrow> fs_path option \<Rightarrow> nat \<Rightarrow> fs_path \<Rightarrow> string list \<Rightarrow> errno + fs_path" where
  "locate s jail n cur [] = Inr cur"
| "locate s jail n cur (c # cs) =
     (if c = [] \<or> c = ''.'' then locate s jail n cur cs
      else if c = ''..'' then (if jail = Some cur then Inl EESCAPES else locate s jail n (butlast cur) cs)
      else (case node_at s (cur @ [c]) of
         None \<Rightarrow> if cs = [] then Inr (cur @ [c]) else Inl ENOENT
       | Some (FDir m) \<Rightarrow> locate s jail n (cur @ [c]) cs
       | Some (FFile m b) \<Rightarrow> if cs = [] then Inr (cur @ [c]) else Inl ENOTDIR
       | Some (FLink t) \<Rightarrow>
           (case n of
              0 \<Rightarrow> Inl ELOOP
            | Suc k \<Rightarrow>
                if \<not> file_IsAbs t then locate s jail k cur (split_on (CHR ''/'') t @ cs)
                else if jail = None then locate s jail k [] (split_on (CHR ''/'') t @ cs) else Inl EESCAPES)))"
  by pat_completeness auto
termination
  by (relation "measures [\<lambda>(s, jail, n, cur, cs). n, \<lambda>(s, jail, n, cur, cs). length cs]") auto

text \<open>Where a call starts: the whole tree, or a directory opened by \<open>os.OpenRoot\<close>.\<close>

type_synonym at_dir = "fs_path option \<times> fs_path"

definition whole_tree :: at_dir where "whole_tree = (None, [])"
definition within :: "fs_path \<Rightarrow> at_dir" where "within p = (Some p, p)"

definition locate_at :: "fs \<Rightarrow> at_dir \<Rightarrow> string list \<Rightarrow> errno + fs_path" where
  "locate_at s at parts = locate s (fst at) 40 (snd at) parts"

text \<open>The place of the last name itself, which is not followed.\<close>

definition place_at :: "fs \<Rightarrow> at_dir \<Rightarrow> string list \<Rightarrow> errno + fs_path" where
  "place_at s at parts =
     (if parts = [] then Inl EINVAL
      else (case locate_at s at (butlast parts) of
         Inl e \<Rightarrow> Inl e
       | Inr d \<Rightarrow> (case node_at s d of Some (FDir m) \<Rightarrow> Inr (d @ [last parts]) | Some x \<Rightarrow> Inl ENOTDIR | None \<Rightarrow> Inl ENOENT)))"

subsection \<open>Operations\<close>

type_synonym ('e, 'a) disk_op = "host \<Rightarrow> fs \<Rightarrow> ('e + 'a) \<times> fs"

definition op_ret :: "'a \<Rightarrow> ('e, 'a) disk_op" where "op_ret a = (\<lambda>h s. (Inr a, s))"
definition op_fail :: "'e \<Rightarrow> ('e, 'a) disk_op" where "op_fail e = (\<lambda>h s. (Inl e, s))"

definition op_bind :: "('e, 'a) disk_op \<Rightarrow> ('a \<Rightarrow> ('e, 'b) disk_op) \<Rightarrow> ('e, 'b) disk_op" where
  "op_bind m f = (\<lambda>h s. case m h s of (Inl e, s') \<Rightarrow> (Inl e, s') | (Inr a, s') \<Rightarrow> f a h s')"

definition op_try :: "('e, 'a) disk_op \<Rightarrow> ('d, 'e + 'a) disk_op" where
  "op_try m = (\<lambda>h s. case m h s of (r, s') \<Rightarrow> (Inr r, s'))"

definition op_wrap :: "('e \<Rightarrow> 'd) \<Rightarrow> ('e, 'a) disk_op \<Rightarrow> ('d, 'a) disk_op" where
  "op_wrap f m = (\<lambda>h s. case m h s of (Inl e, s') \<Rightarrow> (Inl (f e), s') | (Inr a, s') \<Rightarrow> (Inr a, s'))"

definition op_look :: "(host \<Rightarrow> fs \<Rightarrow> ('e, 'a) disk_op) \<Rightarrow> ('e, 'a) disk_op" where
  "op_look f = (\<lambda>h s. f h s h s)"

definition op_of :: "'e + 'a \<Rightarrow> ('e, 'a) disk_op" where
  "op_of r = (case r of Inl e \<Rightarrow> op_fail e | Inr a \<Rightarrow> op_ret a)"

text \<open>A change of the tree by a call that the host may refuse.\<close>

definition op_call :: "fs_call \<Rightarrow> (fs \<Rightarrow> fs) \<Rightarrow> (errno, unit) disk_op" where
  "op_call c f = (\<lambda>h s. case ho_deny h c of Some e \<Rightarrow> (Inl (EHOST e), s) | None \<Rightarrow> (Inr (), f s))"

definition put_node :: "fs_path \<Rightarrow> fs_node \<Rightarrow> fs \<Rightarrow> fs" where "put_node p nd s = AList.update p nd s"
definition drop_node :: "fs_path \<Rightarrow> fs \<Rightarrow> fs" where "drop_node p s = AList.delete p s"

definition has_children :: "fs \<Rightarrow> fs_path \<Rightarrow> bool" where
  "has_children s p \<longleftrightarrow> list_ex (\<lambda>(q, nd). q \<noteq> [] \<and> butlast q = p) s"

definition os_Stat :: "at_dir \<Rightarrow> string list \<Rightarrow> (errno, fs_node) disk_op" where
  "os_Stat at parts = op_look (\<lambda>h s.
     op_bind (op_of (locate_at s at parts)) (\<lambda>p. case node_at s p of None \<Rightarrow> op_fail ENOENT | Some nd \<Rightarrow> op_ret nd))"

definition os_ReadFile :: "at_dir \<Rightarrow> string list \<Rightarrow> (errno, string) disk_op" where
  "os_ReadFile at parts = op_look (\<lambda>h s.
     op_bind (op_of (locate_at s at parts))
       (\<lambda>p. case node_at s p of
          Some (FFile m b) \<Rightarrow> op_bind (op_call (CallRead p) (\<lambda>s. s)) (\<lambda>_. op_ret b)
        | None \<Rightarrow> op_fail ENOENT
        | Some x \<Rightarrow> op_fail EISDIR))"

definition os_Mkdir :: "at_dir \<Rightarrow> int \<Rightarrow> string list \<Rightarrow> (errno, unit) disk_op" where
  "os_Mkdir at perm parts = op_look (\<lambda>h s.
     op_bind (op_of (place_at s at parts))
       (\<lambda>p. if node_at s p \<noteq> None then op_fail EEXIST else op_call (CallMkdir p) (put_node p (FDir perm))))"

text \<open>\<open>os.MkdirAll\<close> of a path whose names come last first; the second look of the library for a concurrent creation is left out.\<close>

fun mkdir_all :: "at_dir \<Rightarrow> int \<Rightarrow> string list \<Rightarrow> (errno, unit) disk_op" where
  "mkdir_all at perm [] = op_ret ()"
| "mkdir_all at perm (c # up) =
     op_bind (op_try (os_Stat at (rev (c # up))))
       (\<lambda>r. case r of
          Inr (FDir m) \<Rightarrow> op_ret ()
        | Inr x \<Rightarrow> op_fail ENOTDIR
        | Inl e \<Rightarrow> op_bind (mkdir_all at perm up) (\<lambda>_. os_Mkdir at perm (rev (c # up))))"

definition os_MkdirAll :: "at_dir \<Rightarrow> int \<Rightarrow> string list \<Rightarrow> (errno, unit) disk_op" where
  "os_MkdirAll at perm parts = mkdir_all at perm (rev parts)"

definition os_Remove :: "at_dir \<Rightarrow> string list \<Rightarrow> (errno, unit) disk_op" where
  "os_Remove at parts = op_look (\<lambda>h s.
     op_bind (op_of (place_at s at parts))
       (\<lambda>p. case node_at s p of
          None \<Rightarrow> op_fail ENOENT
        | Some (FDir m) \<Rightarrow> if has_children s p then op_fail ENOTEMPTY else op_call (CallRemove p) (drop_node p)
        | Some x \<Rightarrow> op_call (CallRemove p) (drop_node p)))"

definition os_Symlink :: "at_dir \<Rightarrow> string \<Rightarrow> string list \<Rightarrow> (errno, unit) disk_op" where
  "os_Symlink at target parts = op_look (\<lambda>h s.
     if target = [] then op_fail ENOENT
     else op_bind (op_of (place_at s at parts))
       (\<lambda>p. if node_at s p \<noteq> None then op_fail EEXIST else op_call (CallSymlink p) (put_node p (FLink target))))"

text \<open>\<open>os.OpenFile\<close> with \<open>O_CREATE|O_WRONLY|O_TRUNC\<close>: the place of the file, now empty.  The umask is left out.\<close>

definition os_OpenFile :: "at_dir \<Rightarrow> int \<Rightarrow> string list \<Rightarrow> (errno, fs_path) disk_op" where
  "os_OpenFile at perm parts = op_look (\<lambda>h s.
     op_bind (op_of (locate_at s at parts))
       (\<lambda>p. case node_at s p of
          None \<Rightarrow> op_bind (op_call (CallOpen p) (put_node p (FFile perm []))) (\<lambda>_. op_ret p)
        | Some (FFile m b) \<Rightarrow> op_bind (op_call (CallOpen p) (put_node p (FFile m []))) (\<lambda>_. op_ret p)
        | Some x \<Rightarrow> op_fail EISDIR))"

definition file_Chmod :: "int \<Rightarrow> fs_path \<Rightarrow> (errno, unit) disk_op" where
  "file_Chmod perm p = op_look (\<lambda>h s.
     op_call (CallChmod p) (\<lambda>s. case node_at s p of Some (FFile m b) \<Rightarrow> put_node p (FFile perm b) s | nd \<Rightarrow> s))"

text \<open>Writing \<open>data\<close> into an open, empty file: as much as there is room for.\<close>

definition file_Write :: "string \<Rightarrow> fs_path \<Rightarrow> (errno, unit) disk_op" where
  "file_Write data p = (\<lambda>h s.
     let fits = (case ho_room h p of None \<Rightarrow> data | Some k \<Rightarrow> take k data);
         s' = (case node_at s p of Some (FFile m b) \<Rightarrow> put_node p (FFile m fits) s | nd \<Rightarrow> s)
     in (if fits = data then Inr () else Inl (EHOST ''no space left on device''), s'))"

definition os_WriteFile :: "at_dir \<Rightarrow> int \<Rightarrow> string \<Rightarrow> string list \<Rightarrow> (errno, unit) disk_op" where
  "os_WriteFile at perm data parts = op_bind (os_OpenFile at perm parts) (file_Write data)"

text \<open>\<open>os.OpenRoot\<close>: the directory itself may be reached through links.\<close>

definition os_OpenRoot :: "string list \<Rightarrow> (errno, at_dir) disk_op" where
  "os_OpenRoot parts = op_look (\<lambda>h s.
     op_bind (op_of (locate_at s whole_tree parts))
       (\<lambda>p. case node_at s p of Some (FDir m) \<Rightarrow> op_ret (within p) | Some x \<Rightarrow> op_fail ENOTDIR | None \<Rightarrow> op_fail ENOENT))"

text \<open>\<open>os.RemoveAll\<close>: everything goes but what the host refuses and the directories above that.\<close>

definition removal_refused :: "host \<Rightarrow> fs \<Rightarrow> fs_path \<Rightarrow> fs_path list" where
  "removal_refused h s p = filter (\<lambda>q. prefix p q \<and> ho_deny h (CallRemove q) \<noteq> None) (map fst s)"

definition os_RemoveAll :: "at_dir \<Rightarrow> string list \<Rightarrow> (errno, unit) disk_op" where
  "os_RemoveAll at parts = (\<lambda>h s.
     case place_at s at parts of
       Inl e \<Rightarrow> (if e = ENOENT then Inr () else Inl e, s)
     | Inr p \<Rightarrow>
         (let kept = removal_refused h s p
          in (if kept = [] then Inr () else Inl (EHOST ''operation not permitted''),
              filter (\<lambda>(q, nd). \<not> prefix p q \<or> list_ex (prefix q) kept) s)))"

definition moved :: "fs_path \<Rightarrow> fs_path \<Rightarrow> fs_path \<Rightarrow> fs_path" where
  "moved p q r = (if prefix p r then q @ drop (length p) r else r)"

text \<open>\<open>os.Rename\<close>: a file may take the place of a file, a directory that of an empty one.\<close>

definition may_replace :: "fs \<Rightarrow> fs_path \<Rightarrow> fs_path \<Rightarrow> bool" where
  "may_replace s p q =
     (case node_at s q of
        None \<Rightarrow> True
      | Some (FDir m) \<Rightarrow> (case node_at s p of Some (FDir m') \<Rightarrow> \<not> has_children s q | nd \<Rightarrow> False)
      | Some x \<Rightarrow> (case node_at s p of Some (FDir m') \<Rightarrow> False | nd \<Rightarrow> True))"

definition os_Rename :: "at_dir \<Rightarrow> string list \<Rightarrow> string list \<Rightarrow> (errno, unit) disk_op" where
  "os_Rename at old new = op_look (\<lambda>h s.
     op_bind (op_of (place_at s at old)) (\<lambda>p. op_bind (op_of (place_at s at new)) (\<lambda>q.
       if node_at s p = None then op_fail ENOENT
       else if prefix p q then op_fail EINVAL
       else if \<not> may_replace s p q then op_fail EEXIST
       else op_call (CallRename p q) (\<lambda>s. map (\<lambda>(r, nd). (moved p q r, nd)) (drop_node q s)))))"

subsection \<open>Walking a tree\<close>

fun path_less :: "fs_path \<Rightarrow> fs_path \<Rightarrow> bool" where
  "path_less p [] = False"
| "path_less [] (d # ds) = True"
| "path_less (c # cs) (d # ds) = (str_less c d \<or> (c = d \<and> path_less cs ds))"

text \<open>The entries below a directory in the order of \<open>filepath.WalkDir\<close>, which does not follow links.\<close>

definition below :: "fs \<Rightarrow> fs_path \<Rightarrow> fs_path list" where
  "below s p = sort_by path_less (filter (strict_prefix p) (map fst s))"

text \<open>The visits of a walk, and whether they report that a directory cannot be read; entries below such a directory are not visited.\<close>

definition walk_enters :: "host \<Rightarrow> fs_path \<Rightarrow> fs_path \<Rightarrow> bool" where
  "walk_enters h p q = list_all (\<lambda>a. prefix p a \<longrightarrow> ho_deny h (CallReadDir a) = None) (butlast (prefixes q))"

definition visits :: "host \<Rightarrow> fs \<Rightarrow> fs_path \<Rightarrow> (fs_path \<times> string option) list" where
  "visits h s q =
     (q, None) # (case node_at s q of
        Some (FDir m) \<Rightarrow> (case ho_deny h (CallReadDir q) of Some e \<Rightarrow> [(q, Some e)] | None \<Rightarrow> [])
      | nd \<Rightarrow> [])"

definition walk_dir :: "host \<Rightarrow> fs \<Rightarrow> fs_path \<Rightarrow> (fs_path \<times> string option) list" where
  "walk_dir h s p = concat (map (visits h s) (p # filter (walk_enters h p) (below s p)))"

end
