(* ===== verification/UnixRules.thy ===== *)
theory UnixRules imports UnixFiles begin

text \<open>
  Rules for paths and for operations on the host's files.  Cleaned paths are lists of proper names; on a tree without
  links a path resolves to itself; \<open>confined\<close> operations change nothing outside some directories.
\<close>

subsection \<open>Names and cleaned paths\<close>

definition proper :: "string \<Rightarrow> bool" where
  "proper c \<longleftrightarrow> c \<noteq> [] \<and> c \<noteq> ''.'' \<and> c \<noteq> ''..'' \<and> CHR ''/'' \<notin> set c"

lemma split_no_slash: "sep \<notin> set w \<Longrightarrow> split_on sep w = [w]"
  by (induction w) auto

lemma split_on_append: "sep \<notin> set w \<Longrightarrow> split_on sep (w @ sep # rest) = w # split_on sep rest"
  by (induction w) auto

lemma split_join: "xs \<noteq> [] \<Longrightarrow> list_all (\<lambda>w. sep \<notin> set w) xs \<Longrightarrow> split_on sep (join_with [sep] xs) = xs"
proof (induction xs)
  case (Cons w ws)
  then show ?case by (cases ws) (simp_all add: split_no_slash split_on_append)
qed simp

lemma proper_no_slash: "list_all proper xs \<Longrightarrow> list_all (\<lambda>w. CHR ''/'' \<notin> set w) xs"
  by (auto simp: list_all_iff proper_def)

lemma split_rel: "list_all proper xs \<Longrightarrow> xs \<noteq> [] \<Longrightarrow> split_on (CHR ''/'') (rel_path xs) = xs"
  unfolding rel_path_def by (intro split_join proper_no_slash)

lemma split_abs: "list_all proper xs \<Longrightarrow> xs \<noteq> [] \<Longrightarrow> split_on (CHR ''/'') (abs_path xs) = [] # xs"
  by (simp add: abs_path_def split_rel)

lemma filter_proper: "list_all proper xs \<Longrightarrow> filter (\<lambda>c. c \<noteq> []) xs = xs"
  by (induction xs) (auto simp: proper_def)

lemma parts_abs [simp]: "list_all proper xs \<Longrightarrow> path_parts (abs_path xs) = xs"
proof (cases "xs = []")
  case False
  assume "list_all proper xs"
  then show ?thesis using False by (simp add: path_parts_def split_abs filter_proper)
qed (simp add: path_parts_def abs_path_def rel_path_def)

lemma proper_head: "proper w \<Longrightarrow> w \<noteq> [] \<and> hd w \<noteq> CHR ''/''"
  by (cases w) (auto simp: proper_def)

lemma rel_path_Cons: "rel_path (w # ws) = (if ws = [] then w else w @ ''/'' @ rel_path ws)"
  by (cases ws) (simp_all add: rel_path_def)

lemma rel_path_Nil [simp]: "rel_path [] = []"
  by (simp add: rel_path_def)

lemma rel_path_head: "list_all proper xs \<Longrightarrow> xs \<noteq> [] \<Longrightarrow> rel_path xs \<noteq> [] \<and> hd (rel_path xs) \<noteq> CHR ''/''"
  by (cases xs) (auto simp: rel_path_Cons dest: proper_head)

lemma clean_proper: "list_all proper xs \<Longrightarrow> clean_segments r xs out = rev out @ xs"
  by (induction xs arbitrary: out) (auto simp: proper_def)

lemma clean_skip: "clean_segments r ([] # xs) out = clean_segments r xs out"
  by simp

text \<open>Cleaning leaves proper names, after some \<open>..\<close> when the path is relative.\<close>

definition clean_list :: "bool \<Rightarrow> string list \<Rightarrow> bool" where
  "clean_list rooted out \<longleftrightarrow> (\<exists>k xs. out = replicate k ''..'' @ xs \<and> list_all proper xs \<and> (rooted \<longrightarrow> k = 0))"

lemma clean_list_snoc:
  assumes "clean_list r out" and "proper c"
  shows "clean_list r (out @ [c])"
proof -
  obtain k xs where "out = replicate k ''..'' @ xs" "list_all proper xs" "r \<longrightarrow> k = 0" using assms(1) by (auto simp: clean_list_def)
  then show ?thesis unfolding clean_list_def using assms(2) by (intro exI [of _ k] exI [of _ "xs @ [c]"]) simp
qed

lemma clean_list_up:
  assumes "clean_list r (rev (prev # rest))" and "prev \<noteq> ''..''"
  shows "clean_list r (rev rest)"
proof -
  obtain k xs where o: "rev rest @ [prev] = replicate k ''..'' @ xs" "list_all proper xs" "r \<longrightarrow> k = 0"
    using assms(1) by (auto simp: clean_list_def)
  show ?thesis
  proof (cases xs rule: rev_cases)
    case Nil
    then have "prev \<in> set (replicate k ''..'')" using o(1) by (metis append_Nil2 in_set_conv_decomp)
    then show ?thesis using assms(2) by simp
  next
    case (snoc ys y)
    then have "rev rest = replicate k ''..'' @ ys" using o(1) by auto
    then show ?thesis using o snoc unfolding clean_list_def by auto
  qed
qed

lemma clean_list_dots: "\<not> r \<Longrightarrow> clean_list r (rev out) \<Longrightarrow> (case out of [] \<Rightarrow> True | p # ps \<Rightarrow> p = ''..'') \<Longrightarrow> clean_list r (rev out @ [''..''])"
proof -
  assume r: "\<not> r" and c: "clean_list r (rev out)" and d: "case out of [] \<Rightarrow> True | p # ps \<Rightarrow> p = ''..''"
  obtain k xs where o: "rev out = replicate k ''..'' @ xs" "list_all proper xs" using c by (auto simp: clean_list_def)
  have "xs = []"
  proof (cases xs rule: rev_cases)
    case (snoc ys y)
    then have "out = y # rev (replicate k ''..'' @ ys)" using o(1) by (metis append_assoc rev_rev_ident rev_append rev.simps(2) append_Nil rev_singleton_conv append_Cons)
    then show ?thesis using d o snoc by (auto simp: proper_def)
  qed simp
  then have "rev out @ [''..''] = replicate (Suc k) ''..'' @ []" using o by (simp add: replicate_append_same)
  then show ?thesis using r unfolding clean_list_def by (metis list.pred_inject(1))
qed

lemma clean_segments_list:
  "list_all (\<lambda>w. CHR ''/'' \<notin> set w) segs \<Longrightarrow> clean_list r (rev out) \<Longrightarrow> clean_list r (clean_segments r segs out)"
proof (induction r segs out rule: clean_segments.induct)
  case (2 r seg segs out)
  have ns: "CHR ''/'' \<notin> set seg" using 2 by simp
  show ?case
  proof (cases "seg = [] \<or> seg = ''.''")
    case True
    then show ?thesis using 2 by auto
  next
    case seg: False
    show ?thesis
    proof (cases "seg = ''..''")
      case False
      then have "clean_list r (rev (seg # out))" using seg ns 2(6) clean_list_snoc by (simp add: proper_def)
      then show ?thesis using 2 seg False by simp
    next
      case True
      show ?thesis
      proof (cases out)
        case Nil
        have "clean_list r (rev (if r then [] else [''..'']))" using clean_list_dots [of r "[]"] 2(6) Nil by auto
        then show ?thesis using 2 seg True Nil by simp
      next
        case (Cons prev rest)
        have "clean_list r (rev (if prev = ''..'' then ''..'' # out else rest))"
        proof (cases "prev = ''..''")
          case True
          have "\<not> r"
          proof
            assume r
            then obtain xs where "rev out = xs" "list_all proper xs" using 2(6) by (auto simp: clean_list_def)
            then have "proper prev" using Cons by (metis in_set_conv_decomp list.set_intros(1) list_all_iff set_rev)
            then show False using True by (simp add: proper_def)
          qed
          then show ?thesis using clean_list_dots [of r out] 2(6) Cons True by simp
        next
          case False
          then show ?thesis using clean_list_up [of r prev rest] 2(6) Cons by simp
        qed
        then have "clean_list r (clean_segments r segs (if prev = ''..'' then ''..'' # out else rest))"
          using "2.IH"(3) [OF _ True Cons] seg 2(5) by simp
        then show ?thesis using seg True Cons by (cases "prev = ''..''") simp_all
      qed
    qed
  qed
qed simp

lemma split_parts_no_slash: "list_all (\<lambda>w. sep \<notin> set w) (split_on sep s)"
  by (induction s) (auto split: list.splits)

lemma rooted_clean:
  assumes "s \<noteq> []" and "hd s = CHR ''/''"
  shows "\<exists>xs. list_all proper xs \<and> path_Clean s = abs_path xs"
proof -
  have "clean_list True (clean_segments True (split_on (CHR ''/'') s) [])"
    by (rule clean_segments_list [OF split_parts_no_slash]) (auto simp: clean_list_def)
  then obtain xs where "clean_segments True (split_on (CHR ''/'') s) [] = xs" "list_all proper xs" by (auto simp: clean_list_def)
  then show ?thesis using assms by (intro exI [of _ xs]) (simp add: path_Clean_def abs_path_def rel_path_def)
qed

lemma clean_abs [simp]: "list_all proper xs \<Longrightarrow> path_Clean (abs_path xs) = abs_path xs"
proof (cases "xs = []")
  case False
  assume "list_all proper xs"
  then show ?thesis using False clean_proper [of xs True "[]"] split_abs [of xs]
    by (simp add: path_Clean_def abs_path_def rel_path_def clean_skip del: clean_segments.simps)
qed (simp add: path_Clean_def abs_path_def rel_path_def)

lemma rel_path_append: "xs \<noteq> [] \<Longrightarrow> ys \<noteq> [] \<Longrightarrow> rel_path (xs @ ys) = rel_path xs @ ''/'' @ rel_path ys"
  by (induction xs) (auto simp: rel_path_Cons)

text \<open>A sanitized entry name is a dot or a list of proper names.\<close>

lemma relative_clean:
  assumes "\<not> file_IsAbs (path_Clean s)" and "path_Clean s \<noteq> ''..''" and "\<not> has_prefix ''../'' (path_Clean s)"
  shows "path_Clean s = ''.'' \<or> (\<exists>xs. xs \<noteq> [] \<and> list_all proper xs \<and> path_Clean s = rel_path xs)"
proof (cases "s = [] \<or> hd s = CHR ''/''")
  case True
  then show ?thesis
  proof (cases "s = []")
    case False
    then obtain xs where "path_Clean s = abs_path xs" using True rooted_clean by blast
    then show ?thesis using assms(1) by (simp add: file_IsAbs_def abs_path_def)
  qed (simp add: path_Clean_def)
next
  case False
  let ?segs = "clean_segments False (split_on (CHR ''/'') s) []"
  have "clean_list False ?segs" by (rule clean_segments_list [OF split_parts_no_slash]) (auto simp: clean_list_def)
  then obtain k xs where o: "?segs = replicate k ''..'' @ xs" "list_all proper xs" by (auto simp: clean_list_def)
  have c: "path_Clean s = (if rel_path ?segs = [] then ''.'' else rel_path ?segs)"
    using False by (simp add: path_Clean_def rel_path_def)
  show ?thesis
  proof (cases k)
    case 0
    then show ?thesis using o c rel_path_head [of xs] by (cases "xs = []") auto
  next
    case (Suc j)
    then have "rel_path ?segs = ''..'' \<or> (\<exists>t. rel_path ?segs = ''../'' @ t)"
      using o rel_path_Cons [of "''..''" "replicate j ''..'' @ xs"] by auto
    then show ?thesis using c assms(2,3) by auto
  qed
qed

lemma join_abs_rel:
  assumes "list_all proper r" and "list_all proper xs" and "xs \<noteq> []"
  shows "file_Join [abs_path r, rel_path xs] = abs_path (r @ xs)"
proof -
  have ne: "abs_path r \<noteq> []" "rel_path xs \<noteq> []" using assms rel_path_head by (auto simp: abs_path_def)
  have sp: "split_on (CHR ''/'') (abs_path r @ ''/'' @ rel_path xs) = (if r = [] then [[], []] else [] # r) @ xs"
  proof (cases "r = []")
    case False
    have "split_on (CHR ''/'') (abs_path r @ ''/'' @ rel_path xs) = split_on (CHR ''/'') (abs_path (r @ xs))"
      using False assms rel_path_append [of r xs] by (simp add: abs_path_def)
    then show ?thesis using False assms split_abs [of "r @ xs"] by simp
  qed (simp add: abs_path_def split_rel assms)
  have "clean_segments True (split_on (CHR ''/'') (abs_path r @ ''/'' @ rel_path xs)) [] = r @ xs"
    unfolding sp using clean_proper [of "r @ xs" True "[]"] assms by (cases "r = []") simp_all
  moreover have "abs_path r @ ''/'' @ rel_path xs \<noteq> []" "hd (abs_path r @ ''/'' @ rel_path xs) = CHR ''/''"
    by (simp_all add: abs_path_def)
  ultimately show ?thesis using ne by (simp add: file_Join.simps path_Clean_def abs_path_def rel_path_def)
qed

lemma join_abs_dot: "list_all proper r \<Longrightarrow> file_Join [abs_path r, ''.''] = abs_path r"
proof -
  assume r: "list_all proper r"
  have sp: "split_on (CHR ''/'') (abs_path r @ ''/'' @ ''.'') = (if r = [] then [[], []] else [] # r) @ [''.'']"
  proof (cases "r = []")
    case False
    then show ?thesis using r split_abs [of "r @ [''x'']"] proper_no_slash [OF r] split_join [of "r @ [''.'']" "CHR ''/''"]
        rel_path_append [of r "[''.'']"] by (simp add: abs_path_def rel_path_def)
  qed (simp add: abs_path_def)
  have cd: "clean_segments True (xs @ [''.'']) out = rev out @ xs" if "list_all proper xs" for xs out
    using that by (induction xs arbitrary: out) (auto simp: proper_def)
  have "clean_segments True (split_on (CHR ''/'') (abs_path r @ ''/'' @ ''.'')) [] = r"
    unfolding sp using cd [OF r, of "[]"] by simp
  then show ?thesis by (simp add: file_Join.simps path_Clean_def abs_path_def rel_path_def)
qed

lemma dropWhile_until: "c \<notin> set w \<Longrightarrow> dropWhile (\<lambda>x. x \<noteq> c) (rev w @ c # rest) = c # rest"
  by (induction w arbitrary: rest rule: rev_induct) auto

lemma dir_abs: "list_all proper xs \<Longrightarrow> proper x \<Longrightarrow> file_Dir (abs_path (xs @ [x])) = abs_path xs"
proof -
  assume a: "list_all proper xs" "proper x"
  have "abs_path (xs @ [x]) = (if xs = [] then [] else abs_path xs) @ ''/'' @ x"
    using rel_path_append [of xs "[x]"] by (simp add: abs_path_def rel_path_Cons)
  then have "rev (dropWhile (\<lambda>c. c \<noteq> CHR ''/'') (rev (abs_path (xs @ [x])))) = (if xs = [] then [] else abs_path xs) @ ''/''"
    using a(2) dropWhile_until [of "CHR ''/''" x] by (simp add: proper_def)
  moreover have "path_Clean ((if xs = [] then [] else abs_path xs) @ ''/'') = abs_path xs"
  proof (cases "xs = []")
    case False
    have "split_on (CHR ''/'') (abs_path xs @ ''/'') = [] # xs @ [[]]"
      using split_join [of "[] # xs @ [[]]" "CHR ''/''"] proper_no_slash [OF a(1)] rel_path_append [OF False, of "[[]]"] False
      by (simp add: abs_path_def rel_path_def flip: append_assoc) (cases xs; simp)
    moreover have "clean_segments True (xs @ [[]]) out = rev out @ xs" for out
      using a(1) by (induction xs arbitrary: out) (auto simp: proper_def)
    ultimately show ?thesis using False by (simp add: path_Clean_def abs_path_def rel_path_def)
  qed (simp add: path_Clean_def abs_path_def)
  ultimately show ?thesis by (simp add: file_Dir_def)
qed

subsection \<open>Trees without links\<close>

definition is_link :: "fs_node option \<Rightarrow> bool" where
  "is_link x \<longleftrightarrow> (case x of Some (FLink t) \<Rightarrow> True | nd \<Rightarrow> False)"

definition is_dir :: "fs_node option \<Rightarrow> bool" where
  "is_dir x \<longleftrightarrow> (case x of Some (FDir m) \<Rightarrow> True | nd \<Rightarrow> False)"

lemma is_link_simps [simp]: "\<not> is_link None" "\<not> is_link (Some (FDir m))" "\<not> is_link (Some (FFile m b))" "is_link (Some (FLink t))"
  by (simp_all add: is_link_def)

lemma is_dir_simps [simp]: "\<not> is_dir None" "is_dir (Some (FDir m))" "\<not> is_dir (Some (FFile m b))" "\<not> is_dir (Some (FLink t))"
  by (simp_all add: is_dir_def)

lemma is_dirE: "is_dir x \<Longrightarrow> (\<And>m. x = Some (FDir m) \<Longrightarrow> P) \<Longrightarrow> P"
  by (auto simp: is_dir_def split: option.splits fs_node.splits)

lemma not_dirE: "\<not> is_dir x \<Longrightarrow> (x = None \<Longrightarrow> P) \<Longrightarrow> (\<And>m b. x = Some (FFile m b) \<Longrightarrow> P) \<Longrightarrow> (\<And>t. x = Some (FLink t) \<Longrightarrow> P) \<Longrightarrow> P"
  by (auto simp: is_dir_def split: option.splits fs_node.splits)

lemma node_put [simp]: "p \<noteq> [] \<Longrightarrow> node_at (put_node p nd s) q = (if q = p then Some nd else node_at s q)"
  by (simp add: node_at_def put_node_def)

lemma node_drop [simp]: "p \<noteq> [] \<Longrightarrow> node_at (drop_node p s) q = (if q = p then None else node_at s q)"
  by (simp add: node_at_def drop_node_def)

lemma node_root [simp]: "node_at s [] = Some (FDir 0x1ED)"
  by (simp add: node_at_def)

lemma plain_locate:
  assumes "locate s j n cur cs = Inr p" and "list_all proper cs" and "\<forall>q. prefix q (cur @ cs) \<longrightarrow> \<not> is_link (node_at s q)"
  shows "p = cur @ cs"
  using assms
proof (induction s j n cur cs rule: locate.induct)
  case (2 s j n cur c cs)
  have c: "proper c" "c \<noteq> []" "c \<noteq> ''.''" "c \<noteq> ''..''" using "2.prems"(2) by (auto simp: proper_def)
  have nl: "node_at s (cur @ [c]) \<noteq> Some (FLink t)" for t
    using "2.prems"(3) by (metis append_Cons append_Nil append_assoc prefixI is_link_simps(4))
  then show ?case using "2.prems" c nl "2.IH"(3) by (auto split: option.splits fs_node.splits if_splits)
qed simp

text \<open>A path all of whose directories are there resolves to itself.\<close>

definition real_dir :: "fs \<Rightarrow> fs_path \<Rightarrow> bool" where
  "real_dir s p \<longleftrightarrow> list_all proper p \<and> (\<forall>q. prefix q p \<longrightarrow> is_dir (node_at s q))"

lemma locate_dirs:
  "list_all proper ds \<Longrightarrow> (\<forall>q. prefix q (cur @ ds) \<longrightarrow> is_dir (node_at s q)) \<Longrightarrow> locate s j n cur (ds @ cs) = locate s j n (cur @ ds) cs"
proof (induction ds arbitrary: cur)
  case (Cons d ds)
  have "is_dir (node_at s (cur @ [d]))" using Cons.prems(2) by (metis append_Cons append_Nil append_assoc prefixI)
  then obtain m where "node_at s (cur @ [d]) = Some (FDir m)" by (rule is_dirE)
  then show ?case using Cons.prems Cons.IH [of "cur @ [d]"] by (simp add: proper_def)
qed simp

lemma locate_real_dir: "real_dir s d \<Longrightarrow> locate s j n [] (d @ cs) = locate s j n d cs"
  using locate_dirs [of d "[]" s j n cs] by (simp add: real_dir_def)

lemma locate_real_dir_self: "real_dir s d \<Longrightarrow> locate s j n [] d = Inr d"
  using locate_real_dir [of s d j n "[]"] by simp

lemma locate_last: "proper c \<Longrightarrow> \<not> is_link (node_at s (d @ [c])) \<Longrightarrow> locate s j n d [c] = Inr (d @ [c])"
  by (auto simp: proper_def is_link_def split: option.splits fs_node.splits)

lemma real_dir_prefix: "real_dir s p \<Longrightarrow> prefix q p \<Longrightarrow> real_dir s q"
  unfolding real_dir_def by (meson prefix_order.trans list_all_iff set_mono_prefix subsetD)

lemma real_dir_Nil [simp]: "real_dir s []"
  by (simp add: real_dir_def)

lemma real_dir_snoc: "real_dir s p \<Longrightarrow> proper c \<Longrightarrow> is_dir (node_at s (p @ [c])) \<Longrightarrow> real_dir s (p @ [c])"
  by (auto simp: real_dir_def prefix_snoc)

subsection \<open>Hoare rules\<close>

text \<open>\<open>runs m h s Q E\<close>: from \<open>s\<close>, operation \<open>m\<close> ends with a result and files in \<open>Q\<close>, or with an error and files in \<open>E\<close>.\<close>

definition runs :: "('e, 'a) disk_op \<Rightarrow> host \<Rightarrow> fs \<Rightarrow> ('a \<Rightarrow> fs \<Rightarrow> bool) \<Rightarrow> ('e \<Rightarrow> fs \<Rightarrow> bool) \<Rightarrow> bool" where
  "runs m h s Q E \<longleftrightarrow> (case m h s of (Inl e, s') \<Rightarrow> E e s' | (Inr a, s') \<Rightarrow> Q a s')"

named_theorems runs_intro \<open>rules that compute what an operation ends with\<close>

lemma runsD: "runs m h s Q E \<Longrightarrow> m h s = (Inr a, s') \<Longrightarrow> Q a s'"
  by (simp add: runs_def)

lemma runs_errorD: "runs m h s Q E \<Longrightarrow> m h s = (Inl e, s') \<Longrightarrow> E e s'"
  by (simp add: runs_def)

lemma runs_weaken:
  "runs m h s Q E \<Longrightarrow> (\<And>a s'. Q a s' \<Longrightarrow> Q' a s') \<Longrightarrow> (\<And>e s'. E e s' \<Longrightarrow> E' e s') \<Longrightarrow> runs m h s Q' E'"
  by (auto simp: runs_def split: prod.splits sum.splits)

lemma runs_ret [runs_intro]: "Q a s \<Longrightarrow> runs (op_ret a) h s Q E"
  by (simp add: runs_def op_ret_def)

lemma runs_fail [runs_intro]: "E e s \<Longrightarrow> runs (op_fail e) h s Q E"
  by (simp add: runs_def op_fail_def)

lemma runs_of [runs_intro]: "(\<And>e. r = Inl e \<Longrightarrow> E e s) \<Longrightarrow> (\<And>a. r = Inr a \<Longrightarrow> Q a s) \<Longrightarrow> runs (op_of r) h s Q E"
  by (cases r) (auto simp: op_of_def intro: runs_ret runs_fail)

lemma runs_bind [runs_intro]: "runs m h s (\<lambda>a s'. runs (f a) h s' Q E) E \<Longrightarrow> runs (op_bind m f) h s Q E"
  by (auto simp: runs_def op_bind_def split: prod.splits sum.splits)

lemma runs_seq: "runs m h s P E \<Longrightarrow> (\<And>a s'. P a s' \<Longrightarrow> runs (f a) h s' Q E) \<Longrightarrow> runs (op_bind m f) h s Q E"
  by (rule runs_bind) (erule runs_weaken)

lemma runs_try [runs_intro]: "runs m h s (\<lambda>a. Q (Inr a)) (\<lambda>e. Q (Inl e)) \<Longrightarrow> runs (op_try m) h s Q E"
  by (auto simp: runs_def op_try_def split: prod.splits sum.splits)

lemma runs_wrap [runs_intro]: "runs m h s Q (\<lambda>e. E (f e)) \<Longrightarrow> runs (op_wrap f m) h s Q E"
  by (auto simp: runs_def op_wrap_def split: prod.splits sum.splits)

lemma runs_look [runs_intro]: "runs (f h s) h s Q E \<Longrightarrow> runs (op_look f) h s Q E"
  by (simp add: runs_def op_look_def)

lemma runs_if [runs_intro]: "(b \<Longrightarrow> runs m h s Q E) \<Longrightarrow> (\<not> b \<Longrightarrow> runs m' h s Q E) \<Longrightarrow> runs (if b then m else m') h s Q E"
  by simp

lemma runs_call [runs_intro]: "(\<And>e. E (EHOST e) s) \<Longrightarrow> Q () (f s) \<Longrightarrow> runs (op_call c f) h s Q E"
  by (auto simp: runs_def op_call_def split: option.splits)

text \<open>An invariant that an operation keeps whether it succeeds or fails.\<close>

definition holds :: "(fs \<Rightarrow> bool) \<Rightarrow> ('e, 'a) disk_op \<Rightarrow> bool" where
  "holds P m \<longleftrightarrow> (\<forall>h s. P s \<longrightarrow> P (snd (m h s)))"

named_theorems holds_intro \<open>rules for invariants of operations\<close>

lemma holdsD: "holds P m \<Longrightarrow> P s \<Longrightarrow> P (snd (m h s))"
  by (simp add: holds_def)

lemma holds_runs: "holds P m \<longleftrightarrow> (\<forall>h s. P s \<longrightarrow> runs m h s (\<lambda>a. P) (\<lambda>e. P))"
  unfolding holds_def runs_def by (auto split: prod.splits sum.splits) (metis snd_conv sum.exhaust surj_pair)+

lemma holds_ret [holds_intro]: "holds P (op_ret a)" by (simp add: holds_def op_ret_def)
lemma holds_fail [holds_intro]: "holds P (op_fail e)" by (simp add: holds_def op_fail_def)
lemma holds_of [holds_intro]: "holds P (op_of r)" by (cases r) (simp_all add: op_of_def holds_intro)

lemma holds_bind [holds_intro]: "holds P m \<Longrightarrow> (\<And>a. holds P (f a)) \<Longrightarrow> holds P (op_bind m f)"
  unfolding holds_def op_bind_def by (auto split: prod.splits sum.splits) (metis snd_conv)+

lemma holds_try [holds_intro]: "holds P m \<Longrightarrow> holds P (op_try m)"
  unfolding holds_def op_try_def by (auto split: prod.splits) (metis snd_conv)

lemma holds_wrap [holds_intro]: "holds P m \<Longrightarrow> holds P (op_wrap f m)"
  unfolding holds_def op_wrap_def by (auto split: prod.splits sum.splits) (metis snd_conv)+

lemma holds_if [holds_intro]: "(b \<Longrightarrow> holds P m) \<Longrightarrow> (\<not> b \<Longrightarrow> holds P m') \<Longrightarrow> holds P (if b then m else m')"
  by simp

lemma holds_look [holds_intro]: "(\<And>h s. holds P (f h s)) \<Longrightarrow> holds P (op_look f)"
  by (simp add: holds_def op_look_def)

lemma holds_call: "(\<And>s. P s \<Longrightarrow> P (f s)) \<Longrightarrow> holds P (op_call c f)"
  by (auto simp: holds_def op_call_def split: option.splits)

subsection \<open>What the calls change\<close>

lemma stat_same: "snd (os_Stat at parts h s) = s"
  by (auto simp: os_Stat_def op_look_def op_bind_def op_of_def op_fail_def op_ret_def split: sum.splits option.splits)

lemma read_same: "snd (os_ReadFile at parts h s) = s"
  by (auto simp: os_ReadFile_def op_look_def op_bind_def op_of_def op_fail_def op_ret_def op_call_def
      split: sum.splits option.splits fs_node.splits)

lemma runs_snd: "runs m h s (\<lambda>a. P) (\<lambda>e. P) \<longleftrightarrow> P (snd (m h s))"
  by (auto simp: runs_def split: prod.splits sum.splits)

lemma stat_runs: "(\<And>nd. Q nd s) \<Longrightarrow> (\<And>e. E e s) \<Longrightarrow> runs (os_Stat at parts) h s Q E"
  using stat_same [of at parts h s] by (auto simp: runs_def split: prod.splits sum.splits)

lemma holds_stat [holds_intro]: "holds P (os_Stat at parts)" by (simp add: holds_def stat_same)
lemma holds_read [holds_intro]: "holds P (os_ReadFile at parts)" by (simp add: holds_def read_same)

text \<open>The invariant of a call that makes, changes or removes one node.\<close>

lemma mkdir_inv:
  assumes "P s" and "\<And>p. place_at s at parts = Inr p \<Longrightarrow> node_at s p = None \<Longrightarrow> P (put_node p (FDir perm) s)"
  shows "P (snd (os_Mkdir at perm parts h s))"
  using assms by (auto simp: os_Mkdir_def op_look_def op_bind_def op_of_def op_fail_def op_ret_def op_call_def
      split: sum.splits option.splits)

lemma mkdir_all_inv:
  assumes "P s"
    and "\<And>s p ds. P s \<Longrightarrow> suffix ds up \<Longrightarrow> ds \<noteq> [] \<Longrightarrow> place_at s at (rev ds) = Inr p \<Longrightarrow> node_at s p = None \<Longrightarrow> P (put_node p (FDir perm) s)"
  shows "P (snd (mkdir_all at perm up h s))"
  using assms
proof (induction up arbitrary: s)
  case (Cons c up)
  have up: "P (snd (mkdir_all at perm up h s))"
  proof (rule Cons.IH [OF Cons.prems(1)])
    fix s p ds
    assume "P s" "suffix ds up" "ds \<noteq> []" "place_at s at (rev ds) = Inr p" "node_at s p = None"
    then show "P (put_node p (FDir perm) s)" by (intro Cons.prems(2) [of s ds p] suffix_ConsI)
  qed
  have mk: "P (snd (os_Mkdir at perm (rev (c # up)) h s'))" if "P s'" for s'
    using that by (rule mkdir_inv) (rule Cons.prems(2) [OF that, of "c # up"]; simp)
  have "runs (mkdir_all at perm (c # up)) h s (\<lambda>a. P) (\<lambda>e. P)"
    unfolding mkdir_all.simps
  proof (rule runs_seq [where P = "\<lambda>r s'. s' = s"])
    show "runs (op_try (os_Stat at (rev (c # up)))) h s (\<lambda>r s'. s' = s) (\<lambda>e. P)"
      by (rule runs_try, rule stat_runs) simp_all
    fix r :: "errno + fs_node" and s' assume s': "s' = s"
    show "runs (case r of Inr (FDir m) \<Rightarrow> op_ret () | Inr x \<Rightarrow> op_fail ENOTDIR
        | Inl e \<Rightarrow> op_bind (mkdir_all at perm up) (\<lambda>_. os_Mkdir at perm (rev (c # up)))) h s' (\<lambda>a. P) (\<lambda>e. P)"
    proof (cases r)
      case (Inl e)
      have "runs (op_bind (mkdir_all at perm up) (\<lambda>_. os_Mkdir at perm (rev (c # up)))) h s (\<lambda>a. P) (\<lambda>e. P)"
        by (rule runs_seq [where P = "\<lambda>a. P"]) (simp_all add: runs_snd up mk del: rev.simps)
      then show ?thesis using Inl s' by simp
    next
      case (Inr nd)
      then show ?thesis using s' Cons.prems(1) by (cases nd) (simp_all add: runs_intro)
    qed
  qed
  then show ?case by (simp only: runs_snd)
qed (simp add: op_ret_def)

lemma remove_inv:
  assumes "P s" and "\<And>p. place_at s at parts = Inr p \<Longrightarrow> node_at s p \<noteq> None \<Longrightarrow> P (drop_node p s)"
  shows "P (snd (os_Remove at parts h s))"
  using assms by (auto simp: os_Remove_def op_look_def op_bind_def op_of_def op_fail_def op_ret_def op_call_def
      split: sum.splits option.splits fs_node.splits)

lemma symlink_inv:
  assumes "P s" and "\<And>p. place_at s at parts = Inr p \<Longrightarrow> node_at s p = None \<Longrightarrow> P (put_node p (FLink t) s)"
  shows "P (snd (os_Symlink at t parts h s))"
  using assms by (auto simp: os_Symlink_def op_look_def op_bind_def op_of_def op_fail_def op_ret_def op_call_def
      split: sum.splits option.splits)

lemma open_runs:
  assumes "\<And>e. E e s"
    and "\<And>p. locate_at s at parts = Inr p \<Longrightarrow> node_at s p = None \<Longrightarrow> Q p (put_node p (FFile perm []) s)"
    and "\<And>p m b. locate_at s at parts = Inr p \<Longrightarrow> node_at s p = Some (FFile m b) \<Longrightarrow> Q p (put_node p (FFile m []) s)"
  shows "runs (os_OpenFile at perm parts) h s Q E"
  using assms by (auto simp: runs_def os_OpenFile_def op_look_def op_bind_def op_of_def op_fail_def op_ret_def op_call_def
      split: sum.splits option.splits fs_node.splits)

lemma chmod_runs:
  assumes "node_at s p = Some (FFile m b)" and "\<And>e. E e s" and "Q () (put_node p (FFile perm b) s)"
  shows "runs (file_Chmod perm p) h s Q E"
  using assms by (auto simp: runs_def file_Chmod_def op_look_def op_call_def split: option.splits)

lemma write_runs:
  assumes "node_at s p = Some (FFile m b)" and "\<And>e k. E e (put_node p (FFile m (take k data)) s)" and "Q () (put_node p (FFile m data) s)"
  shows "runs (file_Write data p) h s Q E"
  using assms by (auto simp: runs_def file_Write_def Let_def split: option.splits)

end
