(* ===== verification/DefaultsTree.thy ===== *)
theory DefaultsTree imports UnixFiles BuyerConfig begin

text \<open>
  The tree of infrastructure defaults below the configuration directory (\<open>internal/defaults/preserve.go\<close>): a refresh
  that takes new defaults and keeps hand-edited files, the pending copies of new defaults, and the making way for a tree
  that a backup restores.  The rendered defaults, the stamp, SHA-256 and \<open>json.MarshalIndent\<close> are parameters; so is the
  time in the name of a backup directory.
\<close>

subsection \<open>Names, options and results\<close>

definition manifestFile :: string where "manifestFile = ''.obol-defaults-manifest.json''"
definition pendingDirName :: string where "pendingDirName = ''defaults.obol-new''"
definition backupDirPrefix :: string where "backupDirPrefix = ''defaults.bak.''"
definition stampFile :: string where "stampFile = ''.obol-defaults-stamp''"

record defaults_env =
  dx_sha256Hex :: "string \<Rightarrow> string"
  dx_marshal :: "(string, string) gomap \<Rightarrow> string"
  dx_now :: string
  dx_stamp :: "string + string"
  dx_render :: "string + (string, string) gomap"

record refresh_options =
  ro_Force :: bool
  ro_Reset :: bool

record refresh_result =
  rf_Refreshed :: bool
  rf_Pending :: "(string \<times> string) list"
  rf_KeptEdited :: "string list"
  rf_KeptRemoved :: "string list"
  rf_BackedUp :: "(string \<times> string) list"
  rf_Migrated :: bool

definition empty_result :: refresh_result where
  "empty_result = \<lparr>rf_Refreshed = False, rf_Pending = [], rf_KeptEdited = [], rf_KeptRemoved = [], rf_BackedUp = [], rf_Migrated = False\<rparr>"

text \<open>An error with what it says before the cause.\<close>

datatype defaults_error = Failed string errno | RenderFailed string

definition defaults_dir :: "string \<Rightarrow> string" where "defaults_dir cfg = file_Join [cfg, ''defaults'']"
definition pending_dir :: "string \<Rightarrow> string" where "pending_dir cfg = file_Join [cfg, pendingDirName]"
definition backup_dir :: "defaults_env \<Rightarrow> string \<Rightarrow> string" where "backup_dir dx cfg = file_Join [cfg, backupDirPrefix @ dx_now dx]"

subsection \<open>The manifest\<close>

fun hash_value :: "json \<Rightarrow> string option" where
  "hash_value (JStr v) = Some v"
| "hash_value JNull = Some []"
| "hash_value v = None"

definition files_value :: "(string, string) gomap option option \<Rightarrow> json \<Rightarrow> (string, string) gomap option option" where
  "files_value acc v =
     (case acc of
        None \<Rightarrow> None
      | Some m \<Rightarrow> (case v of
          JNull \<Rightarrow> Some None
        | JObj kvs \<Rightarrow> map_option Some (decode_map hash_value kvs (case m of None \<Rightarrow> [] | Some x \<Rightarrow> x))
        | w \<Rightarrow> None))"

text \<open>The files of a manifest; none when it does not parse or has no files.\<close>

definition decode_manifest :: "string \<Rightarrow> (string, string) gomap option" where
  "decode_manifest data =
     (case json_parse data of
        Some (JObj kvs) \<Rightarrow>
          (if snd (int_field ''version'' kvs) then None
           else (case foldl files_value (Some None) (field_values ''files'' kvs) of Some m \<Rightarrow> m | None \<Rightarrow> None))
      | r \<Rightarrow> None)"

definition readManifest :: "string \<Rightarrow> ('e, (string, string) gomap option) disk_op" where
  "readManifest defaultsDir =
     op_bind (op_try (os_ReadFile whole_tree (path_parts (file_Join [defaultsDir, manifestFile]))))
       (\<lambda>r. op_ret (case r of Inl e \<Rightarrow> None | Inr data \<Rightarrow> decode_manifest data))"

definition writeManifest :: "defaults_env \<Rightarrow> string \<Rightarrow> (string, string) gomap \<Rightarrow> (errno, unit) disk_op" where
  "writeManifest dx defaultsDir files =
     os_WriteFile whole_tree 0x180 (dx_marshal dx files @ [CHR 0x0A]) (path_parts (file_Join [defaultsDir, manifestFile]))"

text \<open>\<open>writeFileMkdir\<close> writes within \<open>base\<close>.\<close>

definition writeFileMkdir :: "string \<Rightarrow> string \<Rightarrow> string \<Rightarrow> (errno, unit) disk_op" where
  "writeFileMkdir base rel data =
     op_bind (os_MkdirAll whole_tree 0x1ED (path_parts base)) (\<lambda>_.
     op_bind (os_OpenRoot (path_parts base)) (\<lambda>root.
       if file_IsAbs rel then op_fail EESCAPES
       else op_bind (if file_Dir rel = ''.'' then op_ret () else os_MkdirAll root 0x1ED (path_parts (file_Dir rel)))
         (\<lambda>_. os_WriteFile root 0x180 data (path_parts rel))))"

subsection \<open>One file of a refresh\<close>

record refresh_acc =
  ra_result :: refresh_result
  ra_keep :: "string list"

text \<open>\<open>backup\<close>: the file's copy below the backup directory.\<close>

definition backup_file :: "defaults_env \<Rightarrow> string \<Rightarrow> string \<Rightarrow> string \<Rightarrow> refresh_acc \<Rightarrow> (defaults_error, refresh_acc) disk_op" where
  "backup_file dx cfg rel data acc =
     op_bind (op_wrap (Failed (''back up '' @ rel)) (writeFileMkdir (backup_dir dx cfg) rel data))
       (\<lambda>_. op_ret (acc\<lparr>ra_result := (ra_result acc)\<lparr>rf_BackedUp := rf_BackedUp (ra_result acc) @
          [(file_Join [defaults_dir cfg, rel], file_Join [backup_dir dx cfg, rel])]\<rparr>\<rparr>))"

definition write_default :: "string \<Rightarrow> string \<Rightarrow> string \<Rightarrow> refresh_acc \<Rightarrow> (defaults_error, refresh_acc) disk_op" where
  "write_default cfg rel data acc = op_bind (op_wrap (Failed []) (writeFileMkdir (defaults_dir cfg) rel data)) (\<lambda>_. op_ret acc)"

definition hand_edit :: "(string, string) gomap option \<Rightarrow> string \<Rightarrow> string \<Rightarrow> bool" where
  "hand_edit old rel diskHash \<longleftrightarrow>
     (case old of None \<Rightarrow> True | Some m \<Rightarrow> (case map_of m rel of None \<Rightarrow> True | Some oldHash \<Rightarrow> diskHash \<noteq> oldHash))"

definition keep_edit :: "string \<Rightarrow> string \<Rightarrow> string \<Rightarrow> bool \<Rightarrow> refresh_acc \<Rightarrow> (defaults_error, refresh_acc) disk_op" where
  "keep_edit cfg rel newData changed acc =
     (let target = file_Join [defaults_dir cfg, rel]; pendingPath = file_Join [pending_dir cfg, rel]
      in op_bind (op_try (os_Stat whole_tree (path_parts pendingPath)))
           (\<lambda>r. if changed \<or> is_ok r
              then op_bind (op_wrap (Failed (''write new default for '' @ rel)) (writeFileMkdir (pending_dir cfg) rel newData))
                (\<lambda>_. op_ret (acc\<lparr>ra_result := (ra_result acc)\<lparr>rf_Pending := rf_Pending (ra_result acc) @ [(target, pendingPath)]\<rparr>,
                               ra_keep := rel # ra_keep acc\<rparr>))
              else op_ret (acc\<lparr>ra_result := (ra_result acc)\<lparr>rf_KeptEdited := rf_KeptEdited (ra_result acc) @ [target]\<rparr>\<rparr>)))"

definition refresh_file :: "defaults_env \<Rightarrow> string \<Rightarrow> bool \<Rightarrow> (string, string) gomap option \<Rightarrow> string \<times> string \<Rightarrow> refresh_acc \<Rightarrow>
    (defaults_error, refresh_acc) disk_op" where
  "refresh_file dx cfg reset old f acc =
     (let (rel, newData) = f; target = file_Join [defaults_dir cfg, rel]; newHash = dx_sha256Hex dx newData
      in op_bind (op_try (os_ReadFile whole_tree (path_parts target)))
        (\<lambda>r. case r of
           Inl e \<Rightarrow> if e \<noteq> ENOENT then op_fail (Failed (''read '' @ target) e) else write_default cfg rel newData acc
         | Inr disk \<Rightarrow>
             (let diskHash = dx_sha256Hex dx disk
              in if diskHash = newHash then op_ret acc
                 else if \<not> hand_edit old rel diskHash then write_default cfg rel newData acc
                 else if reset then op_bind (backup_file dx cfg rel disk acc) (write_default cfg rel newData)
                 else (case old of
                   None \<Rightarrow> op_bind (backup_file dx cfg rel disk (acc\<lparr>ra_result := (ra_result acc)\<lparr>rf_Migrated := True\<rparr>\<rparr>))
                     (write_default cfg rel newData)
                 | Some m \<Rightarrow> keep_edit cfg rel newData (newHash \<noteq> (case map_of m rel of None \<Rightarrow> [] | Some oldHash \<Rightarrow> oldHash)) acc))))"

fun op_each :: "('x \<Rightarrow> 'acc \<Rightarrow> ('e, 'acc) disk_op) \<Rightarrow> 'x list \<Rightarrow> 'acc \<Rightarrow> ('e, 'acc) disk_op" where
  "op_each f [] acc = op_ret acc"
| "op_each f (x # xs) acc = op_bind (f x acc) (op_each f xs)"

text \<open>A file that was shipped before and no longer is.\<close>

definition drop_default :: "defaults_env \<Rightarrow> string \<Rightarrow> bool \<Rightarrow> string \<times> string \<Rightarrow> refresh_acc \<Rightarrow> (defaults_error, refresh_acc) disk_op" where
  "drop_default dx cfg reset f acc =
     (let (rel, oldHash) = f; target = file_Join [defaults_dir cfg, rel];
          gone = (\<lambda>acc. op_bind (op_wrap (Failed (''remove '' @ target)) (os_Remove whole_tree (path_parts target))) (\<lambda>_. op_ret acc))
      in op_bind (op_try (os_ReadFile whole_tree (path_parts target)))
        (\<lambda>r. case r of
           Inl e \<Rightarrow> op_ret acc
         | Inr disk \<Rightarrow>
             if dx_sha256Hex dx disk = oldHash then gone acc
             else if reset then op_bind (backup_file dx cfg rel disk acc) gone
             else op_ret (acc\<lparr>ra_result := (ra_result acc)\<lparr>rf_KeptRemoved := rf_KeptRemoved (ra_result acc) @ [target]\<rparr>\<rparr>)))"

subsection \<open>Walks below the configuration\<close>

definition prune_visit :: "at_dir \<Rightarrow> fs_path \<Rightarrow> string list \<Rightarrow> fs_path \<times> string option \<Rightarrow> string list list \<Rightarrow> (errno, string list list) disk_op" where
  "prune_visit root p keep v dirs = op_look (\<lambda>h s.
     let rel = drop (length p) (fst v)
     in case snd v of
          Some e \<Rightarrow> op_fail (EHOST e)
        | None \<Rightarrow> (case node_at s (fst v) of
            Some (FDir m) \<Rightarrow> op_ret (if rel = [] then dirs else rel # dirs)
          | nd \<Rightarrow> if rel_path rel \<in> set keep then op_ret dirs else op_bind (os_Remove root rel) (\<lambda>_. op_ret dirs)))"

definition prunePending :: "string \<Rightarrow> string list \<Rightarrow> (defaults_error, unit) disk_op" where
  "prunePending pendingDir keep =
     op_bind (op_try (os_OpenRoot (path_parts pendingDir)))
       (\<lambda>r. case r of
          Inl e \<Rightarrow> op_ret ()
        | Inr root \<Rightarrow> op_look (\<lambda>h s.
            op_bind (op_wrap (Failed (''prune '' @ pendingDir)) (op_each (prune_visit root (snd root) keep) (walk_dir h s (snd root)) []))
              (\<lambda>dirs. op_bind (op_each (\<lambda>d u. op_bind (op_try (os_Remove root d)) (\<lambda>_. op_ret ())) dirs ())
                (\<lambda>_. op_bind (op_try (os_Remove whole_tree (path_parts pendingDir))) (\<lambda>_. op_ret ())))))"

definition read_visit :: "at_dir \<Rightarrow> fs_path \<Rightarrow> fs_path \<times> string option \<Rightarrow> (string, string) gomap \<Rightarrow> (errno, (string, string) gomap) disk_op" where
  "read_visit root p v files = op_look (\<lambda>h s.
     let rel = drop (length p) (fst v)
     in case snd v of
          Some e \<Rightarrow> op_fail (EHOST e)
        | None \<Rightarrow> (case node_at s (fst v) of
            Some (FDir m) \<Rightarrow> op_ret files
          | nd \<Rightarrow> op_bind (os_ReadFile root rel) (\<lambda>data. op_ret (AList.update (rel_path rel) data files))))"

definition readTree :: "string \<Rightarrow> (errno, (string, string) gomap) disk_op" where
  "readTree dir = op_bind (os_OpenRoot (path_parts dir))
     (\<lambda>root. op_look (\<lambda>h s. op_each (read_visit root (snd root)) (walk_dir h s (snd root)) []))"

subsection \<open>The refresh\<close>

definition up_to_date :: "defaults_env \<Rightarrow> string \<Rightarrow> string \<Rightarrow> ('e, bool) disk_op" where
  "up_to_date dx cfg stamp =
     op_bind (op_try (os_ReadFile whole_tree (path_parts (file_Join [defaults_dir cfg, stampFile]))))
       (\<lambda>current. op_bind (op_try (os_Stat whole_tree (path_parts (file_Join [defaults_dir cfg, ''helmfile.yaml'']))))
          (\<lambda>helmfile. op_ret ((case current of Inl e \<Rightarrow> [] | Inr d \<Rightarrow> d) = stamp \<and> is_ok helmfile)))"

definition by_rel :: "string \<times> string \<Rightarrow> string \<times> string \<Rightarrow> bool" where "by_rel a b = str_less (fst a) (fst b)"

definition new_manifest :: "defaults_env \<Rightarrow> (string, string) gomap \<Rightarrow> (string, string) gomap" where
  "new_manifest dx files = map (\<lambda>(rel, d). (rel, dx_sha256Hex dx d)) files"

definition gone_files :: "(string, string) gomap option \<Rightarrow> (string, string) gomap \<Rightarrow> (string \<times> string) list" where
  "gone_files old files =
     (case old of None \<Rightarrow> [] | Some m \<Rightarrow> sort_by by_rel (filter (\<lambda>(rel, oldHash). map_of files rel = None) m))"

text \<open>The last writes of a refresh: pending copies nobody waits for go, the manifest and the stamp are stored.\<close>

definition finish_refresh :: "defaults_env \<Rightarrow> string \<Rightarrow> string \<Rightarrow> (string, string) gomap \<Rightarrow> refresh_acc \<Rightarrow> (defaults_error, refresh_result) disk_op" where
  "finish_refresh dx cfg stamp files acc =
     op_bind (prunePending (pending_dir cfg) (ra_keep acc)) (\<lambda>_.
     op_bind (op_wrap (Failed ''write defaults manifest'') (writeManifest dx (defaults_dir cfg) (new_manifest dx files))) (\<lambda>_.
     op_bind (op_wrap (Failed []) (os_WriteFile whole_tree 0x180 stamp (path_parts (file_Join [defaults_dir cfg, stampFile]))))
       (\<lambda>_. op_ret ((ra_result acc)\<lparr>rf_Refreshed := True\<rparr>))))"

text \<open>A refresh with the files that were rendered into the staging directory, which is gone afterwards.\<close>

definition apply_defaults :: "defaults_env \<Rightarrow> string \<Rightarrow> bool \<Rightarrow> string \<Rightarrow> (string, string) gomap \<Rightarrow> (defaults_error, refresh_result) disk_op" where
  "apply_defaults dx cfg reset stamp files =
     op_bind (readManifest (defaults_dir cfg)) (\<lambda>old.
     op_bind (op_each (refresh_file dx cfg reset old) (sort_by by_rel files) \<lparr>ra_result = empty_result, ra_keep = []\<rparr>) (\<lambda>acc.
     op_bind (op_each (drop_default dx cfg reset) (gone_files old files) acc)
       (finish_refresh dx cfg stamp files)))"

definition RefreshInfrastructure :: "defaults_env \<Rightarrow> string \<Rightarrow> refresh_options \<Rightarrow> (defaults_error, refresh_result) disk_op" where
  "RefreshInfrastructure dx cfg opts =
     (case dx_stamp dx of
        Inl e \<Rightarrow> op_fail (RenderFailed e)
      | Inr stamp \<Rightarrow>
          op_bind (if ro_Force opts \<or> ro_Reset opts then op_ret False else up_to_date dx cfg stamp)
            (\<lambda>current. if current then op_ret empty_result
               else op_bind (op_wrap (Failed []) (os_MkdirAll whole_tree 0x1ED (path_parts cfg)))
                 (\<lambda>_. case dx_render dx of
                    Inl e \<Rightarrow> op_fail (RenderFailed e)
                  | Inr files \<Rightarrow> apply_defaults dx cfg (ro_Reset opts) stamp files)))"

subsection \<open>Pending defaults and rewrites\<close>

definition pending_entry :: "string \<Rightarrow> string \<times> string \<Rightarrow> (string \<times> string) list \<times> string list \<Rightarrow>
    ('e, (string \<times> string) list \<times> string list) disk_op" where
  "pending_entry cfg f acc =
     (let (rel, newData) = f; target = file_Join [defaults_dir cfg, rel]
      in op_bind (op_try (os_ReadFile whole_tree (path_parts target)))
           (\<lambda>r. op_ret (if r = Inr newData then acc
                         else (fst acc @ [(target, file_Join [pending_dir cfg, rel])], rel # snd acc))))"

definition PendingDefaults :: "string \<Rightarrow> ('e, (string \<times> string) list) disk_op" where
  "PendingDefaults cfg =
     op_bind (op_try (readTree (pending_dir cfg)))
       (\<lambda>r. case r of
          Inl e \<Rightarrow> op_ret []
        | Inr pending \<Rightarrow> op_bind (op_each (pending_entry cfg) (sort_by by_rel pending) ([], []))
            (\<lambda>acc. op_bind (op_try (prunePending (pending_dir cfg) (snd acc))) (\<lambda>_. op_ret (fst acc))))"

text \<open>\<open>filepath.Rel\<close> is none when it fails or leaves the directory.\<close>

definition rel_below :: "string \<Rightarrow> string \<Rightarrow> string option" where
  "rel_below dir path =
     (let d = path_parts dir; p = path_parts (path_Clean path); rel = rel_path (drop (length d) p)
      in if strict_prefix d p \<and> \<not> has_prefix ''..'' rel then Some rel else None)"

definition RecordRewrite :: "defaults_env \<Rightarrow> string \<Rightarrow> string \<Rightarrow> string \<Rightarrow> string \<Rightarrow> ('e, unit) disk_op" where
  "RecordRewrite dx cfg path before after =
     (case rel_below (defaults_dir cfg) path of
        None \<Rightarrow> op_ret ()
      | Some rel \<Rightarrow> op_bind (readManifest (defaults_dir cfg))
          (\<lambda>old. case old of
             None \<Rightarrow> op_ret ()
           | Some files \<Rightarrow>
               if (case map_of files rel of None \<Rightarrow> [] | Some v \<Rightarrow> v) \<noteq> dx_sha256Hex dx before then op_ret ()
               else op_bind (op_try (writeManifest dx (defaults_dir cfg) (AList.update rel (dx_sha256Hex dx after) files))) (\<lambda>_. op_ret ())))"

subsection \<open>Making way for a restored tree\<close>

definition IsDefaultsPath :: "string \<Rightarrow> bool" where
  "IsDefaultsPath rel \<longleftrightarrow> list_ex (\<lambda>root. rel = root \<or> has_prefix (root @ ''/'') rel) [''defaults'', pendingDirName]"

definition edited_visit :: "defaults_env \<Rightarrow> (string, string) gomap option \<Rightarrow> at_dir \<Rightarrow> fs_path \<Rightarrow> fs_path \<times> string option \<Rightarrow>
    string list \<Rightarrow> (errno, string list) disk_op" where
  "edited_visit dx old root p v edited = op_look (\<lambda>h s.
     let rel = drop (length p) (fst v); name = rel_path rel
     in case snd v of
          Some e \<Rightarrow> op_fail (EHOST e)
        | None \<Rightarrow> (case node_at s (fst v) of
            Some (FDir m) \<Rightarrow> op_ret edited
          | nd \<Rightarrow>
              if name = manifestFile \<or> name = stampFile then op_ret edited
              else (case nd of
                Some (FLink t) \<Rightarrow> op_ret (edited @ [name])
              | x \<Rightarrow> op_bind (os_ReadFile root rel)
                  (\<lambda>data. op_ret (case old of
                     None \<Rightarrow> edited @ [name]
                   | Some files \<Rightarrow> if (case map_of files name of None \<Rightarrow> [] | Some v \<Rightarrow> v) \<noteq> dx_sha256Hex dx data
                                   then edited @ [name] else edited)))))"

definition handEdited :: "defaults_env \<Rightarrow> string \<Rightarrow> (errno, string list) disk_op" where
  "handEdited dx defaultsDir =
     op_bind (readManifest defaultsDir) (\<lambda>old.
     op_bind (os_OpenRoot (path_parts defaultsDir))
       (\<lambda>root. op_look (\<lambda>h s. op_each (edited_visit dx old root (snd root)) (walk_dir h s (snd root)) [])))"

definition set_aside :: "defaults_env \<Rightarrow> string \<Rightarrow> (defaults_error, string) disk_op" where
  "set_aside dx cfg =
     op_bind (op_try (os_Stat whole_tree (path_parts (backup_dir dx cfg))))
       (\<lambda>r. let to = (if is_ok r then backup_dir dx cfg @ ''-pre-import'' else backup_dir dx cfg)
             in op_bind (op_wrap (Failed (''set aside '' @ defaults_dir cfg))
                  (os_Rename whole_tree (path_parts (defaults_dir cfg)) (path_parts to))) (\<lambda>_. op_ret to))"

definition ClearForRestore :: "defaults_env \<Rightarrow> string \<Rightarrow> (defaults_error, string) disk_op" where
  "ClearForRestore dx cfg =
     op_bind (op_wrap (Failed []) (os_RemoveAll whole_tree (path_parts (pending_dir cfg)))) (\<lambda>_.
     op_bind (op_try (os_Stat whole_tree (path_parts (defaults_dir cfg))))
       (\<lambda>r. if r = Inl ENOENT then op_ret []
         else op_bind (op_wrap (Failed (''inspect '' @ defaults_dir cfg)) (handEdited dx (defaults_dir cfg)))
           (\<lambda>edited. if edited = []
              then op_bind (op_wrap (Failed []) (os_RemoveAll whole_tree (path_parts (defaults_dir cfg)))) (\<lambda>_. op_ret [])
              else set_aside dx cfg)))"

end
