(* ===== verification/StackArchive.thy ===== *)
theory StackArchive imports DefaultsTree begin

unbundle bit_operations_syntax

text \<open>
  The archive of a stack (\<open>internal/stackbackup\<close>): what an export writes into the tar stream and what an import writes
  to disk from one (\<open>tar.go\<close>, the extraction of \<open>import.go\<close>).  A stream is the list of its entries and how it ends;
  gzip and the tar format are left out, so a broken stream is one that ends, between entries or inside one, with an
  error.  The guard against decompression bombs is modelled on its own.
\<close>

subsection \<open>Streams\<close>

datatype tar_type = TypeDir | TypeSymlink | TypeReg | TypeOther

record tar_entry =
  te_Name :: string
  te_Typeflag :: tar_type
  te_Linkname :: string
  te_Mode :: int
  te_Body :: string
  te_Cut :: "string option"

record tar_stream =
  ts_entries :: "tar_entry list"
  ts_end :: "string option"

datatype archive_error =
    EntryEscapes string
  | LinkEscapes string string
  | DiskError errno
  | BrokenStream string
  | Extracting string archive_error
  | DefaultsInTheWay defaults_error

definition ManifestFileName :: string where "ManifestFileName = ''manifest.json''"

subsection \<open>Extraction\<close>

definition sanitizeEntryName :: "string \<Rightarrow> archive_error + string" where
  "sanitizeEntryName name =
     (let clean = path_Clean name
      in if file_IsAbs clean \<or> clean = ''..'' \<or> has_prefix ''../'' clean then Inl (EntryEscapes name) else Inr clean)"

definition symlinkEscapesRoot :: "string \<Rightarrow> string \<Rightarrow> string \<Rightarrow> bool" where
  "symlinkEscapesRoot destRoot linkPath target \<longleftrightarrow>
     (let resolved = (if file_IsAbs target then path_Clean target else path_Clean (file_Join [file_Dir linkPath, target]));
          root = path_Clean destRoot
      in resolved \<noteq> root \<and> \<not> has_prefix (root @ ''/'') resolved)"

definition extractDirMode :: int where "extractDirMode = 0x1C0"
definition extractFileMode :: int where "extractFileMode = 0x180"

definition extractedFileMode :: "int \<Rightarrow> int" where
  "extractedFileMode declared = (if declared AND 0x49 \<noteq> 0 then extractFileMode OR 0x40 else extractFileMode)"

text \<open>The copy of a body into an open file; the stream may break off in the middle.\<close>

definition copy_body :: "tar_entry \<Rightarrow> fs_path \<Rightarrow> (archive_error, unit) disk_op" where
  "copy_body e p = op_bind (op_wrap DiskError (file_Write (te_Body e) p))
     (\<lambda>_. case te_Cut e of None \<Rightarrow> op_ret () | Some err \<Rightarrow> op_fail (BrokenStream err))"

definition extractEntry :: "tar_entry \<Rightarrow> string \<Rightarrow> string \<Rightarrow> (archive_error, unit) disk_op" where
  "extractEntry e destRoot relName =
     (let dest = file_Join [destRoot, relName]
      in case te_Typeflag e of
           TypeDir \<Rightarrow> op_wrap DiskError (os_MkdirAll whole_tree extractDirMode (path_parts dest))
         | TypeSymlink \<Rightarrow>
             if symlinkEscapesRoot destRoot dest (te_Linkname e) then op_fail (LinkEscapes relName (te_Linkname e))
             else op_wrap DiskError
               (op_bind (os_MkdirAll whole_tree 0x1C0 (path_parts (file_Dir dest))) (\<lambda>_.
                op_bind (op_try (os_Remove whole_tree (path_parts dest)))
                  (\<lambda>_. os_Symlink whole_tree (te_Linkname e) (path_parts dest))))
         | TypeReg \<Rightarrow>
             (let mode = extractedFileMode (te_Mode e)
              in op_bind (op_wrap DiskError (os_MkdirAll whole_tree extractDirMode (path_parts (file_Dir dest)))) (\<lambda>_.
                 op_bind (op_wrap DiskError (os_OpenFile whole_tree mode (path_parts dest)))
                   (\<lambda>p. op_bind (op_wrap DiskError (file_Chmod mode p)) (\<lambda>_. copy_body e p))))
         | TypeOther \<Rightarrow> op_ret ())"

fun walk_entries :: "(tar_entry \<Rightarrow> string \<Rightarrow> 'st \<Rightarrow> (archive_error, 'st) disk_op) \<Rightarrow> tar_entry list \<Rightarrow> string option \<Rightarrow> 'st \<Rightarrow>
    (archive_error, 'st) disk_op" where
  "walk_entries fn [] end st = (case end of None \<Rightarrow> op_ret st | Some e \<Rightarrow> op_fail (BrokenStream e))"
| "walk_entries fn (e # es) end st =
     op_bind (op_of (sanitizeEntryName (te_Name e))) (\<lambda>clean.
     op_bind (op_wrap (Extracting (te_Name e)) (fn e clean st)) (walk_entries fn es end))"

definition walkArchive :: "(tar_entry \<Rightarrow> string \<Rightarrow> 'st \<Rightarrow> (archive_error, 'st) disk_op) \<Rightarrow> tar_stream \<Rightarrow> 'st \<Rightarrow> (archive_error, 'st) disk_op" where
  "walkArchive fn a st = walk_entries fn (ts_entries a) (ts_end a) st"

record stack_dirs =
  sd_ConfigDir :: string
  sd_DataDir :: string
  sd_scratch :: string

text \<open>One entry of a full import; the state says whether the defaults tree has been cleared.\<close>

definition config_entry :: "defaults_env \<Rightarrow> stack_dirs \<Rightarrow> tar_entry \<Rightarrow> string \<Rightarrow> bool \<Rightarrow> (archive_error, bool) disk_op" where
  "config_entry dx dirs e rel cleared =
     (if \<not> cleared \<and> IsDefaultsPath rel
      then op_bind (op_wrap DefaultsInTheWay (ClearForRestore dx (sd_ConfigDir dirs)))
        (\<lambda>_. op_bind (extractEntry e (sd_ConfigDir dirs) rel) (\<lambda>_. op_ret True))
      else op_bind (extractEntry e (sd_ConfigDir dirs) rel) (\<lambda>_. op_ret cleared))"

definition host_entry :: "defaults_env \<Rightarrow> stack_dirs \<Rightarrow> tar_entry \<Rightarrow> string \<Rightarrow> bool \<Rightarrow> (archive_error, bool) disk_op" where
  "host_entry dx dirs e clean cleared =
     (if clean = ManifestFileName then op_ret cleared
      else if has_prefix ''config/'' clean then config_entry dx dirs e (trim_prefix ''config/'' clean) cleared
      else if has_prefix ''data/'' clean
      then op_bind (extractEntry e (sd_DataDir dirs) (trim_prefix ''data/'' clean)) (\<lambda>_. op_ret cleared)
      else op_bind (extractEntry e (sd_scratch dirs) clean) (\<lambda>_. op_ret cleared))"

definition extractHostState :: "defaults_env \<Rightarrow> stack_dirs \<Rightarrow> tar_stream \<Rightarrow> (archive_error, bool) disk_op" where
  "extractHostState dx dirs a = walkArchive (host_entry dx dirs) a False"

definition scratch_entry :: "string \<Rightarrow> tar_entry \<Rightarrow> string \<Rightarrow> unit \<Rightarrow> (archive_error, unit) disk_op" where
  "scratch_entry scratch e clean u =
     (if has_prefix ''config/'' clean \<or> has_prefix ''data/'' clean then op_ret () else extractEntry e scratch clean)"

definition extractScratchOnly :: "string \<Rightarrow> tar_stream \<Rightarrow> (archive_error, unit) disk_op" where
  "extractScratchOnly scratch a = walkArchive (scratch_entry scratch) a ()"

subsection \<open>Export\<close>

definition skipConfigEntry :: "string \<Rightarrow> bool" where
  "skipConfigEntry rel \<longleftrightarrow> has_prefix ''kubeconfig.yaml'' rel \<or> has_prefix ''.defaults-render-'' rel"

definition dir_entry_of :: "string \<Rightarrow> int \<Rightarrow> tar_entry" where
  "dir_entry_of name m = \<lparr>te_Name = name @ ''/'', te_Typeflag = TypeDir, te_Linkname = [], te_Mode = m, te_Body = [], te_Cut = None\<rparr>"

definition link_entry_of :: "string \<Rightarrow> string \<Rightarrow> tar_entry" where
  "link_entry_of name t = \<lparr>te_Name = name, te_Typeflag = TypeSymlink, te_Linkname = t, te_Mode = 0x1FF, te_Body = [], te_Cut = None\<rparr>"

definition file_entry_of :: "string \<Rightarrow> int \<Rightarrow> string \<Rightarrow> tar_entry" where
  "file_entry_of name m b = \<lparr>te_Name = name, te_Typeflag = TypeReg, te_Linkname = [], te_Mode = m, te_Body = b, te_Cut = None\<rparr>"

text \<open>What \<open>addTree\<close> does at one visit of its walk: entries for the archive and skipped paths.\<close>

definition add_visit :: "host \<Rightarrow> fs \<Rightarrow> fs_path \<Rightarrow> string \<Rightarrow> fs_path \<times> string option \<Rightarrow> tar_entry list \<times> (fs_path \<times> string) list" where
  "add_visit h s src pre v =
     (let q = fst v; name = pre @ ''/'' @ rel_path (drop (length src) q)
      in case snd v of
           Some e \<Rightarrow> ([], [(q, e)])
         | None \<Rightarrow>
             if q = src then ([], [])
             else (case node_at s q of
               Some (FDir m) \<Rightarrow> ([dir_entry_of name m], [])
             | Some (FLink t) \<Rightarrow> ([link_entry_of name t], [])
             | Some (FFile m b) \<Rightarrow> (case ho_deny h (CallRead q) of None \<Rightarrow> ([file_entry_of name m b], []) | Some e \<Rightarrow> ([], [(q, e)]))
             | None \<Rightarrow> ([], [])))"

text \<open>A filtered directory is left out with everything below it.\<close>

definition filtered_out :: "(string \<Rightarrow> bool) \<Rightarrow> fs_path \<Rightarrow> fs_path \<Rightarrow> bool" where
  "filtered_out skip src q = list_ex (\<lambda>a. a \<noteq> [] \<and> skip (rel_path a)) (prefixes (drop (length src) q))"

text \<open>The walk starts at the path itself: a link there is not followed.\<close>

definition addTree :: "host \<Rightarrow> fs \<Rightarrow> string \<Rightarrow> string \<Rightarrow> (string \<Rightarrow> bool) \<Rightarrow> tar_entry list \<times> (fs_path \<times> string) list" where
  "addTree h s srcDir pre skip =
     (case place_at s whole_tree (path_parts srcDir) of
        Inl e \<Rightarrow> ([], [(path_parts srcDir, ''lstat'')])
      | Inr src \<Rightarrow>
          (case node_at s src of
             None \<Rightarrow> ([], [(src, ''lstat'')])
           | Some nd \<Rightarrow>
               (let r = map (add_visit h s src pre) (filter (\<lambda>v. \<not> filtered_out skip src (fst v)) (walk_dir h s src))
                in (concat (map fst r), concat (map snd r)))))"

subsection \<open>Decompression bombs\<close>

definition bombFloorBytes :: int where "bombFloorBytes = 67108864"
definition maxCompressionRatio :: int where "maxCompressionRatio = 100"

text \<open>
  One read of \<open>ratioGuard\<close> that gets \<open>n\<close> bytes when \<open>c\<close> compressed bytes have been read in all: the bytes passed on so
  far and whether the guard trips.
\<close>

definition guard_read :: "int \<Rightarrow> int \<times> int \<Rightarrow> int \<times> bool" where
  "guard_read uncompressed r =
     (let u = uncompressed + fst r
      in (u, u > bombFloorBytes \<and> snd r > 0 \<and> u div snd r > maxCompressionRatio))"

fun guard_reads :: "int \<Rightarrow> (int \<times> int) list \<Rightarrow> int \<times> bool" where
  "guard_reads u [] = (u, False)"
| "guard_reads u (r # rs) = (case guard_read u r of (u', tripped) \<Rightarrow> if tripped then (u', True) else guard_reads u' rs)"

end
