(* ===== verification/ArchiveSafety.thy ===== *)
theory ArchiveSafety imports UnixRules StackArchive begin

text \<open>
  What an import may touch: an archive without links stays below the directories it is extracted into and leaves only
  private modes; one with links can leave them.  And what an export followed by an import brings back.
\<close>

subsection \<open>Directories without links\<close>

definition inside :: "fs_path list \<Rightarrow> fs_path \<Rightarrow> bool" where
  "inside roots p \<longleftrightarrow> list_ex (\<lambda>r. prefix r p) roots"

text \<open>The roots are real directories and nothing below them is a link.\<close>

definition plain_tree :: "fs_path list \<Rightarrow> fs \<Rightarrow> bool" where
  "plain_tree roots s \<longleftrightarrow> (\<forall>r \<in> set roots. real_dir s r) \<and> (\<forall>p. inside roots p \<longrightarrow> \<not> is_link (node_at s p))"

definition private_modes :: "int set" where "private_modes = {0x180, 0x1C0}"

text \<open>What stands at a path inside may have stood there before, or, in the backup of the defaults of \<open>C\<close>, among these defaults.\<close>

definition comes_from :: "fs_path option \<Rightarrow> fs_path \<Rightarrow> fs_path \<Rightarrow> bool" where
  "comes_from co x y \<longleftrightarrow>
     x = y \<or> (\<exists>C n zs. co = Some C \<and> x = C @ n # zs \<and> y = C @ ''defaults'' # zs \<and> has_prefix backupDirPrefix n)"

text \<open>A node that the import may leave: a directory or file of its own, with a private mode, or an old one, untouched or emptied.\<close>

definition left_by :: "fs_path option \<Rightarrow> fs \<Rightarrow> fs_path \<Rightarrow> fs_node \<Rightarrow> bool" where
  "left_by co s0 x nd \<longleftrightarrow> nd = FDir 0x1C0 \<or> (\<exists>m b. nd = FFile m b \<and> m \<in> private_modes) \<or>
     (\<exists>y. comes_from co x y \<and> (node_at s0 y = Some nd \<or> (\<exists>m b. node_at s0 y = Some (FFile m b) \<and> nd = FFile m [])))"

text \<open>From \<open>s0\<close> to \<open>s\<close>, nothing outside the roots has changed and every node inside is one that an import may leave.\<close>

definition spared :: "fs_path option \<Rightarrow> fs_path list \<Rightarrow> fs \<Rightarrow> fs \<Rightarrow> bool" where
  "spared co roots s0 s \<longleftrightarrow> plain_tree roots s \<and> (\<forall>p. \<not> inside roots p \<longrightarrow> node_at s p = node_at s0 p) \<and>
     (\<forall>p nd. inside roots p \<longrightarrow> node_at s p = Some nd \<longrightarrow> left_by co s0 p nd)"

lemma spared_refl: "plain_tree roots s \<Longrightarrow> spared co roots s s"
  by (auto simp: spared_def left_by_def comes_from_def)

lemma left_by_new [simp]: "left_by co s0 p (FDir 0x1C0)" "m \<in> private_modes \<Longrightarrow> left_by co s0 p (FFile m b)"
  by (simp_all add: left_by_def)

lemma left_by_emptied: "left_by co s0 p (FFile m b) \<Longrightarrow> left_by co s0 p (FFile m [])"
  unfolding left_by_def by (auto; metis)

lemma plain_prefix:
  assumes "plain_tree roots s" and "r \<in> set roots" and "prefix q (r @ xs)"
  shows "\<not> is_link (node_at s q)"
proof (cases "prefix q r")
  case True
  then show ?thesis using assms by (auto simp: plain_tree_def real_dir_def elim!: is_dirE dest!: bspec)
next
  case False
  then have "prefix r q" using assms(3) prefix_same_cases by (metis prefixI)
  then show ?thesis using assms by (auto simp: plain_tree_def inside_def list_ex_iff)
qed

lemma plain_locate_at:
  assumes "plain_tree roots s" and "r \<in> set roots" and "list_all proper xs" and "locate_at s whole_tree (r @ xs) = Inr p"
  shows "p = r @ xs"
proof -
  have "list_all proper (r @ xs)" using assms by (simp add: plain_tree_def real_dir_def)
  then show ?thesis using plain_locate [of s None 40 "[]" "r @ xs" p] plain_prefix [OF assms(1,2)] assms(4)
    by (simp add: locate_at_def whole_tree_def)
qed

lemma plain_place_prefix:
  assumes pl: "plain_tree roots s" and "r \<in> set roots" and "list_all proper xs" and ds: "prefix ds (r @ xs)"
    and "place_at s whole_tree ds = Inr p"
  shows "p = ds \<and> ds \<noteq> []"
proof -
  have ne: "ds \<noteq> []" using assms(5) by (auto simp: place_at_def)
  have "list_all proper (r @ xs)" using assms by (simp add: plain_tree_def real_dir_def)
  then have pr: "list_all proper (butlast ds)" using ds ne
    by (metis append_butlast_last_id list_all_append prefix_def)
  have "prefix (butlast ds) (r @ xs)" using ds by (meson prefix_order.trans prefixeq_butlast)
  then have nl: "\<forall>q. prefix q (butlast ds) \<longrightarrow> \<not> is_link (node_at s q)"
    using plain_prefix [OF pl assms(2)] by (meson prefix_order.trans)
  obtain d where d: "locate s None 40 [] (butlast ds) = Inr d" "p = d @ [last ds]"
    using assms(5) ne by (auto simp: place_at_def locate_at_def whole_tree_def split: sum.splits option.splits fs_node.splits)
  then have "d = butlast ds" using plain_locate [OF d(1) pr] nl by simp
  then show ?thesis using d ne by simp
qed

lemma real_dir_put: "real_dir s r \<Longrightarrow> \<not> is_dir (node_at s p) \<Longrightarrow> real_dir (put_node p nd s) r"
  unfolding real_dir_def by (metis is_dir_simps(2) node_put node_root)

lemma spared_put:
  assumes sp: "spared co roots s0 s" and i: "inside roots p" and d: "\<not> is_dir (node_at s p)"
    and nd: "left_by co s0 p nd" "\<not> is_link (Some nd)"
  shows "spared co roots s0 (put_node p nd s)"
proof -
  have ne: "p \<noteq> []" using d by auto
  have "plain_tree roots (put_node p nd s)"
    using sp d nd ne real_dir_put unfolding spared_def plain_tree_def by (auto split: if_splits)
  then show ?thesis using sp i ne nd unfolding spared_def by (auto split: if_splits)
qed

lemma mkdir_all_spared:
  assumes "spared co roots s0 s" and "r \<in> set roots" and "list_all proper xs" and dir: "prefix dir (r @ xs)"
  shows "spared co roots s0 (snd (os_MkdirAll whole_tree 0x1C0 dir h s))"
  unfolding os_MkdirAll_def
proof (rule mkdir_all_inv [where P = "spared co roots s0", OF assms(1)])
  fix s p ds
  assume sp: "spared co roots s0 s" and ds: "suffix ds (rev dir)" "ds \<noteq> []" and p: "place_at s whole_tree (rev ds) = Inr p"
    and n: "node_at s p = None"
  have pl: "plain_tree roots s" using sp by (simp add: spared_def)
  have pre: "prefix (rev ds) (r @ xs)" using ds dir by (metis prefix_order.trans rev_rev_ident suffix_to_prefix)
  have "p = rev ds" using plain_place_prefix [OF pl assms(2,3) pre p] by simp
  moreover have "\<not> prefix p r" using n pl assms(2) by (auto simp: plain_tree_def real_dir_def dest!: bspec)
  ultimately have "prefix r p" using pre by (metis prefixI prefix_same_cases)
  then have "inside roots p" using assms(2) by (auto simp: inside_def list_ex_iff)
  then show "spared co roots s0 (put_node p (FDir 0x1C0) s)" using sp n by (intro spared_put) simp_all
qed

text \<open>Opening a file, setting its mode and writing into it.\<close>

lemma write_file_spared:
  assumes sp: "spared co roots s0 s" and r: "r \<in> set roots" "list_all proper xs" and m: "mode \<in> private_modes"
  shows "runs (op_bind (op_wrap DiskError (os_OpenFile whole_tree mode (r @ xs)))
      (\<lambda>p. op_bind (op_wrap DiskError (file_Chmod mode p)) (\<lambda>_. copy_body e p))) h s (\<lambda>a. spared co roots s0) (\<lambda>e. spared co roots s0)"
proof (rule runs_seq [where P = "\<lambda>p s'. spared co roots s0 s' \<and> p = r @ xs \<and> (\<exists>m b. node_at s' p = Some (FFile m b))"])
  have pl: "plain_tree roots s" using sp by (simp add: spared_def)
  have i: "inside roots (r @ xs)" using r(1) by (auto simp: inside_def list_ex_iff intro!: bexI [of _ r])
  show "runs (op_wrap DiskError (os_OpenFile whole_tree mode (r @ xs))) h s
      (\<lambda>p s'. spared co roots s0 s' \<and> p = r @ xs \<and> (\<exists>m b. node_at s' p = Some (FFile m b))) (\<lambda>e. spared co roots s0)"
  proof (rule runs_wrap, rule open_runs)
    show "spared co roots s0 s" by (rule sp)
    fix p assume l: "locate_at s whole_tree (r @ xs) = Inr p"
    have p: "p = r @ xs" by (rule plain_locate_at [OF pl r l])
    { assume n: "node_at s p = None"
      then have "p \<noteq> []" by auto
      then show "spared co roots s0 (put_node p (FFile mode []) s) \<and> p = r @ xs \<and> (\<exists>m b. node_at (put_node p (FFile mode []) s) p = Some (FFile m b))"
        using spared_put [OF sp, of p "FFile mode []"] i p n m by auto }
    { fix k b assume n: "node_at s p = Some (FFile k b)"
      then have "left_by co s0 p (FFile k [])" using sp i p left_by_emptied unfolding spared_def by metis
      moreover have "p \<noteq> []" using n by auto
      ultimately show "spared co roots s0 (put_node p (FFile k []) s) \<and> p = r @ xs \<and> (\<exists>m b. node_at (put_node p (FFile k []) s) p = Some (FFile m b))"
        using spared_put [OF sp, of p "FFile k []"] i p n by auto }
  qed
  fix p s' assume a: "spared co roots s0 s' \<and> p = r @ xs \<and> (\<exists>m b. node_at s' p = Some (FFile m b))"
  then obtain k b where n: "node_at s' p = Some (FFile k b)" by blast
  have ne: "p \<noteq> []" using n by auto
  have put: "spared co roots s0 (put_node p (FFile mode c) s')" for c
    using a i n m by (intro spared_put) auto
  have put2: "spared co roots s0 (put_node p (FFile mode c) (put_node p (FFile mode b) s'))" for c
    using put [of b] i a ne m by (intro spared_put) auto
  show "runs (op_bind (op_wrap DiskError (file_Chmod mode p)) (\<lambda>_. copy_body e p)) h s' (\<lambda>a. spared co roots s0) (\<lambda>e. spared co roots s0)"
    unfolding copy_body_def
    by (intro runs_bind runs_wrap chmod_runs [OF n] write_runs [where m = mode and b = b])
      (use a put put2 ne in \<open>auto split: option.splits intro!: runs_ret runs_fail\<close>)
qed

lemma extracted_private: "extractedFileMode m \<in> private_modes"
  by (simp add: extractedFileMode_def extractFileMode_def private_modes_def)

text \<open>One entry that is not a link.\<close>

definition relative_name :: "string \<Rightarrow> bool" where
  "relative_name rel \<longleftrightarrow> rel = ''.'' \<or> (\<exists>xs. xs \<noteq> [] \<and> list_all proper xs \<and> rel = rel_path xs)"

lemma parts_dir: "list_all proper ys \<Longrightarrow> path_parts (file_Dir (abs_path ys)) = butlast ys"
proof (cases ys rule: rev_cases)
  case Nil
  have "path_parts (file_Dir (abs_path [])) = []" by code_simp
  then show ?thesis using Nil by simp
next
  case (snoc zs z)
  assume "list_all proper ys"
  then show ?thesis using snoc dir_abs [of zs z] by simp
qed

lemma relative_join:
  assumes "relative_name rel" and "list_all proper r"
  shows "\<exists>xs. list_all proper xs \<and> file_Join [abs_path r, rel] = abs_path (r @ xs)"
  using assms join_abs_dot [of r] join_abs_rel [of r] unfolding relative_name_def
  by (elim disjE exE conjE) (auto intro: exI [of _ "[]"])

lemma extract_spared:
  assumes sp: "spared co roots s0 s" and r: "r \<in> set roots" and rel: "relative_name rel" and t: "te_Typeflag e \<noteq> TypeSymlink"
  shows "spared co roots s0 (snd (extractEntry e (abs_path r) rel h s))"
proof -
  have pr: "list_all proper r" using sp r by (simp add: spared_def plain_tree_def real_dir_def)
  obtain xs where xs: "list_all proper xs" "file_Join [abs_path r, rel] = abs_path (r @ xs)"
    using relative_join [OF rel pr] by blast
  have parts: "path_parts (abs_path (r @ xs)) = r @ xs" "path_parts (file_Dir (abs_path (r @ xs))) = butlast (r @ xs)"
    using pr xs(1) by (simp_all add: parts_dir del: butlast_append)
  have pre: "prefix (butlast (r @ xs)) (r @ xs)" by (rule prefixeq_butlast)
  have mk: "runs (os_MkdirAll whole_tree 0x1C0 d) h s (\<lambda>a. spared co roots s0) (\<lambda>e. spared co roots s0)" if "prefix d (r @ xs)" for d
    using mkdir_all_spared [OF sp r xs(1) that] by (simp add: runs_snd)
  have "runs (extractEntry e (abs_path r) rel) h s (\<lambda>a. spared co roots s0) (\<lambda>e. spared co roots s0)"
  proof (cases "te_Typeflag e")
    case TypeDir
    show ?thesis
      unfolding extractEntry_def Let_def xs(2) parts TypeDir tar_type.case extractDirMode_def
      by (intro runs_wrap mk) simp
  next
    case TypeReg
    show ?thesis
      unfolding extractEntry_def Let_def xs(2) parts TypeReg tar_type.case extractDirMode_def
      by (rule runs_seq [where P = "\<lambda>a. spared co roots s0"], rule runs_wrap, rule mk [OF pre])
        (rule write_file_spared [OF _ r xs(1) extracted_private])
  next
    case TypeOther
    then show ?thesis using sp by (simp add: extractEntry_def runs_ret)
  qed (use t in simp)
  then show ?thesis by (simp add: runs_snd)
qed

subsection \<open>Making way for the defaults\<close>

lemma holds_each [holds_intro]: "(\<And>x acc. x \<in> set xs \<Longrightarrow> holds P (f x acc)) \<Longrightarrow> holds P (op_each f xs acc)"
  by (induction xs arbitrary: acc) (auto intro!: holds_intro)

lemma map_of_filter_fst: "map_of (filter (\<lambda>(q, nd). Q q) s) x = (if Q x then map_of s x else None)"
  by (induction s) auto

lemma below_not_root:
  assumes "\<forall>r \<in> set roots. \<not> strict_prefix C r" and "r \<in> set roots" and "prefix x r"
  shows "\<not> prefix (C @ [n]) x"
proof
  assume "prefix (C @ [n]) x"
  then have "prefix (C @ [n]) r" using assms(3) by (rule prefix_order.trans)
  then have "strict_prefix C r" by (auto simp: prefix_def strict_prefix_def)
  then show False using assms by blast
qed

lemma plain_treeI:
  assumes "plain_tree roots s" and "\<And>r q. r \<in> set roots \<Longrightarrow> prefix q r \<Longrightarrow> node_at s' q = node_at s q"
    and "\<And>p. inside roots p \<Longrightarrow> \<not> is_link (node_at s' p)"
  shows "plain_tree roots s'"
  using assms unfolding plain_tree_def real_dir_def by auto

lemma spared_remove:
  assumes sp: "spared co roots s0 s" and C: "C \<in> set roots" "\<forall>r \<in> set roots. \<not> strict_prefix C r" and p: "prefix (C @ [n]) p"
    and shrink: "\<And>q. node_at s' q = node_at s q \<or> (prefix p q \<and> node_at s' q = None)"
  shows "spared co roots s0 s'"
proof -
  have out: "node_at s' q = node_at s q" if "r \<in> set roots" "prefix q r" for q r
    using below_not_root [OF C(2) that, of n] p shrink [of q] by (meson prefix_order.trans)
  have ins: "inside roots q" if "prefix p q" for q
    using that p C(1) by (auto simp: inside_def list_ex_iff intro!: bexI [of _ C]) (meson append_prefixD prefix_order.trans)
  have nl: "\<not> is_link (node_at s' q)" if "inside roots q" for q
    using that sp shrink [of q] unfolding spared_def plain_tree_def by auto
  have pl: "plain_tree roots s" using sp by (simp add: spared_def)
  have "plain_tree roots s'" by (rule plain_treeI [OF pl out nl])
  moreover have "node_at s' q = node_at s0 q" if "\<not> inside roots q" for q
    using that ins shrink sp unfolding spared_def by metis
  moreover have "left_by co s0 q nd" if "inside roots q" "node_at s' q = Some nd" for q nd
    using that sp shrink [of q] unfolding spared_def by auto
  ultimately show ?thesis using pl unfolding spared_def by blast
qed

lemma place_below:
  assumes "spared co roots s0 s" and "C \<in> set roots" and "proper n" and "place_at s whole_tree (C @ [n]) = Inr p"
  shows "p = C @ [n]"
  using plain_place_prefix [of roots s C "[n]" "C @ [n]" p] assms by (simp add: spared_def)

lemma removeall_spared:
  assumes C: "C \<in> set roots" "\<forall>r \<in> set roots. \<not> strict_prefix C r" and n: "proper n"
  shows "holds (spared co roots s0) (os_RemoveAll whole_tree (C @ [n]))"
  unfolding holds_def
proof (intro allI impI)
  fix h s assume sp: "spared co roots s0 s"
  show "spared co roots s0 (snd (os_RemoveAll whole_tree (C @ [n]) h s))"
  proof (cases "place_at s whole_tree (C @ [n])")
    case (Inr p)
    have p: "p = C @ [n]" by (rule place_below [OF sp C(1) n Inr])
    show ?thesis
      by (rule spared_remove [OF sp C, of n p])
        (auto simp: p os_RemoveAll_def Inr [unfolded p] Let_def node_at_def map_of_filter_fst)
  qed (simp add: os_RemoveAll_def sp)
qed

lemma moved_origin:
  "map_of (map (\<lambda>(r, nd). (moved p q r, nd)) s) x = Some nd \<Longrightarrow> \<exists>y. moved p q y = x \<and> map_of s y = Some nd"
proof (induction s)
  case (Cons e s)
  obtain y n where e: "e = (y, n)" by (cases e)
  show ?case
  proof (cases "moved p q y = x")
    case True
    then show ?thesis using Cons.prems e by (intro exI [of _ y]) simp
  next
    case False
    then obtain z where "moved p q z = x" "map_of s z = Some nd" using Cons e by auto
    then show ?thesis using False e by (intro exI [of _ z]) auto
  qed
qed simp

lemma moved_elsewhere:
  "\<not> prefix p x \<Longrightarrow> \<not> prefix q x \<Longrightarrow> map_of (map (\<lambda>(r, nd). (moved p q r, nd)) s) x = map_of s x"
  by (induction s) (auto simp: moved_def)

text \<open>A node that came with the defaults is among the backup what it was among the defaults.\<close>

lemma left_by_aside:
  assumes "left_by (Some C) s0 (C @ ''defaults'' # zs) nd" and "has_prefix backupDirPrefix b"
  shows "left_by (Some C) s0 (C @ b # zs) nd"
proof -
  have "\<not> has_prefix backupDirPrefix ''defaults''" by code_simp
  then have "y = C @ ''defaults'' # zs" if "comes_from (Some C) (C @ ''defaults'' # zs) y" for y
    using that by (auto simp: comes_from_def)
  moreover have "comes_from (Some C) (C @ b # zs) (C @ ''defaults'' # zs)" using assms(2) by (auto simp: comes_from_def)
  ultimately show ?thesis using assms(1) unfolding left_by_def by metis
qed

lemma renamed_origin:
  assumes "node_at (map (\<lambda>(r, nd). (moved (C @ [a]) (C @ [b]) r, nd)) (drop_node (C @ [b]) s)) x = Some nd" and "a \<noteq> b"
  shows "(\<exists>zs. x = C @ b # zs \<and> node_at s (C @ a # zs) = Some nd) \<or> node_at s x = Some nd"
proof (cases "x = []")
  case False
  then have nd: "map_of (map (\<lambda>(r, nd). (moved (C @ [a]) (C @ [b]) r, nd)) (drop_node (C @ [b]) s)) x = Some nd"
    using assms(1) by (simp add: node_at_def)
  obtain y where y: "moved (C @ [a]) (C @ [b]) y = x" "map_of (drop_node (C @ [b]) s) y = Some nd"
    using moved_origin [OF nd] by (elim exE conjE)
  have n: "node_at s y = Some nd" if "y \<noteq> []" using y(2) that by (auto simp: node_at_def drop_node_def split: if_splits)
  show ?thesis
  proof (cases "prefix (C @ [a]) y")
    case True
    then obtain zs where "y = C @ a # zs" by (auto simp: prefix_def)
    then show ?thesis using y(1) n by (auto simp: moved_def)
  next
    case no: False
    then have "y = x" using y(1) by (simp add: moved_def)
    then show ?thesis using n False by simp
  qed
qed (use assms(1) in \<open>simp add: node_at_def\<close>)

lemma spared_rename:
  assumes sp: "spared (Some C) roots s0 s" and C: "C \<in> set roots" "\<forall>r \<in> set roots. \<not> strict_prefix C r" and b: "has_prefix backupDirPrefix b"
  shows "spared (Some C) roots s0 (map (\<lambda>(r, nd). (moved (C @ [''defaults'']) (C @ [b]) r, nd)) (drop_node (C @ [b]) s))"
    (is "spared _ roots s0 ?s")
proof -
  let ?a = "''defaults''"
  have "\<not> has_prefix backupDirPrefix ?a" by code_simp
  then have ab: "?a \<noteq> b" using b by auto
  have same: "node_at ?s x = node_at s x" if "\<not> prefix (C @ [?a]) x" "\<not> prefix (C @ [b]) x" for x
    using that by (auto simp: node_at_def moved_elsewhere drop_node_def)
  have ins: "inside roots x" if "prefix C x" for x using that C(1) by (auto simp: inside_def list_ex_iff)
  have left: "left_by (Some C) s0 x nd \<and> \<not> is_link (Some nd)" if x: "inside roots x" "node_at ?s x = Some nd" for x nd
    using renamed_origin [OF x(2) ab]
  proof (elim disjE exE conjE)
    fix zs assume z: "x = C @ b # zs" "node_at s (C @ ?a # zs) = Some nd"
    then have i: "inside roots (C @ ?a # zs)" using ins by simp
    then have "left_by (Some C) s0 (C @ ?a # zs) nd" "\<not> is_link (Some nd)"
      using sp z(2) unfolding spared_def plain_tree_def by metis+
    then show ?thesis using left_by_aside [OF _ b] z(1) by simp
  next
    assume "node_at s x = Some nd"
    then show ?thesis using sp x(1) unfolding spared_def plain_tree_def by metis
  qed
  have nl: "\<not> is_link (node_at ?s x)" if "inside roots x" for x
    using left [OF that] by (cases "node_at ?s x") simp_all
  have pl: "plain_tree roots s" using sp by (simp add: spared_def)
  have keep: "node_at ?s q = node_at s q" if "r \<in> set roots" "prefix q r" for r q
    by (rule same; rule below_not_root [OF C(2) that])
  have "plain_tree roots ?s" by (rule plain_treeI [OF pl keep nl])
  moreover have "node_at ?s x = node_at s0 x" if "\<not> inside roots x" for x
    using that sp same ins unfolding spared_def by (metis append_prefixD)
  ultimately show ?thesis using left unfolding spared_def by blast
qed

lemma rename_spared:
  assumes C: "C \<in> set roots" "\<forall>r \<in> set roots. \<not> strict_prefix C r" and n: "proper b" "has_prefix backupDirPrefix b"
  shows "holds (spared (Some C) roots s0) (os_Rename whole_tree (C @ [''defaults'']) (C @ [b]))"
  unfolding holds_def
proof (intro allI impI)
  fix h s assume sp: "spared (Some C) roots s0 s"
  have "proper ''defaults''" by code_simp
  then show "spared (Some C) roots s0 (snd (os_Rename whole_tree (C @ [''defaults'']) (C @ [b]) h s))"
    using sp place_below [OF sp C(1)] n spared_rename [OF sp C n(2)]
    by (auto simp: os_Rename_def op_look_def op_bind_def op_of_def op_fail_def op_ret_def op_call_def split: sum.splits option.splits)
qed

lemma join_name: "list_all proper C \<Longrightarrow> proper n \<Longrightarrow> file_Join [abs_path C, n] = abs_path (C @ [n])"
  using join_abs_rel [of C "[n]"] by (simp add: rel_path_Cons)

lemma proper_names: "proper ''defaults''" "proper pendingDirName" "proper (backupDirPrefix @ t) \<Longrightarrow> proper (backupDirPrefix @ t @ ''-pre-import'')"
  by (auto simp: proper_def pendingDirName_def backupDirPrefix_def)

lemma abs_path_suffix: "abs_path (xs @ [n]) @ t = abs_path (xs @ [n @ t])"
  by (cases "xs = []") (simp_all add: abs_path_def rel_path_append rel_path_Cons)

lemma set_aside_name:
  assumes "list_all proper C" and "proper (backupDirPrefix @ dx_now dx)"
  shows "path_parts (backup_dir dx (abs_path C) @ ''-pre-import'') = C @ [backupDirPrefix @ dx_now dx @ ''-pre-import'']"
proof -
  have "backup_dir dx (abs_path C) @ ''-pre-import'' = abs_path (C @ [backupDirPrefix @ dx_now dx @ ''-pre-import''])"
    using abs_path_suffix [of C "backupDirPrefix @ dx_now dx" "''-pre-import''"] assms by (simp add: backup_dir_def join_name)
  then show ?thesis using assms proper_names(3) [OF assms(2)] by simp
qed

lemma clear_spared:
  assumes C: "C \<in> set roots" "\<forall>r \<in> set roots. \<not> strict_prefix C r" and pr: "list_all proper C" and t: "proper (backupDirPrefix @ dx_now dx)"
  shows "holds (spared (Some C) roots s0) (ClearForRestore dx (abs_path C))"
proof -
  note dirs = pending_dir_def defaults_dir_def backup_dir_def join_name pr proper_names t
  have parts: "path_parts (pending_dir (abs_path C)) = C @ [pendingDirName]" "path_parts (defaults_dir (abs_path C)) = C @ [''defaults'']"
    "path_parts (backup_dir dx (abs_path C)) = C @ [backupDirPrefix @ dx_now dx]"
    by (simp_all add: dirs)
  note rm = removeall_spared [OF C] and mv = rename_spared [OF C]
  have aside: "holds (spared (Some C) roots s0) (set_aside dx (abs_path C))"
    unfolding set_aside_def Let_def parts
    by (intro holds_intro) (use mv t proper_names(3) [OF t] set_aside_name [OF pr t] parts in \<open>auto simp: has_prefix_iff intro!: holds_intro\<close>)
  have edits: "holds (spared (Some C) roots s0) (handEdited dx d)" for d
    unfolding handEdited_def readManifest_def os_OpenRoot_def edited_visit_def Let_def
    by (intro holds_intro) (auto split: option.splits fs_node.splits intro!: holds_intro)
  show ?thesis
    unfolding ClearForRestore_def parts
    by (intro holds_intro rm proper_names aside edits)
qed

subsection \<open>A whole import\<close>

lemma clean_relative: "sanitizeEntryName n = Inr clean \<Longrightarrow> relative_name clean"
  using relative_clean [of n] by (auto simp: sanitizeEntryName_def Let_def relative_name_def split: if_splits)

lemma trim_relative:
  assumes "relative_name clean" and "has_prefix (d @ ''/'') clean" and "proper d"
  shows "relative_name (trim_prefix (d @ ''/'') clean)"
proof -
  obtain rest where rest: "clean = d @ ''/'' @ rest" using assms(2) by (auto simp: has_prefix_iff)
  obtain xs where xs: "xs \<noteq> []" "list_all proper xs" "clean = rel_path xs"
    using assms(1,3) rest by (cases d) (auto simp: relative_name_def proper_def)
  have "xs = d # split_on (CHR ''/'') rest"
    using split_rel [OF xs(2,1)] xs(3) rest split_on_append [of "CHR ''/''" d rest] assms(3) by (simp add: proper_def)
  then have "list_all proper (split_on (CHR ''/'') rest)" "rel_path (split_on (CHR ''/'') rest) = rest"
    using xs(2) join_split_on [of "CHR ''/''" rest] by (simp_all add: rel_path_def)
  moreover have "trim_prefix (d @ ''/'') clean = rest" by (simp add: rest trim_prefix_def has_prefix_iff)
  ultimately show ?thesis unfolding relative_name_def by (metis split_on_not_Nil)
qed

definition no_symlinks :: "tar_stream \<Rightarrow> bool" where
  "no_symlinks a \<longleftrightarrow> list_all (\<lambda>e. te_Typeflag e \<noteq> TypeSymlink) (ts_entries a)"

lemma walk_holds:
  assumes "\<And>e clean st. e \<in> set es \<Longrightarrow> relative_name clean \<Longrightarrow> holds P (fn e clean st)"
  shows "holds P (walk_entries fn es end st)"
  using assms
proof (induction es arbitrary: st)
  case (Cons e es)
  have "holds P (op_bind (op_of (sanitizeEntryName (te_Name e))) (\<lambda>clean. op_bind (op_wrap (Extracting (te_Name e)) (fn e clean st)) (walk_entries fn es end)))"
  proof (cases "sanitizeEntryName (te_Name e)")
    case (Inl err)
    then show ?thesis by (simp add: op_of_def op_bind_def op_fail_def holds_def)
  next
    case (Inr clean)
    have "holds P (op_bind (op_wrap (Extracting (te_Name e)) (fn e clean st)) (walk_entries fn es end))"
      by (intro holds_intro) (use Cons clean_relative [OF Inr] in auto)
    then show ?thesis using Inr by (simp add: op_of_def op_bind_def op_ret_def holds_def)
  qed
  then show ?case by simp
qed (auto split: option.splits intro: holds_intro)

lemma extract_holds:
  "r \<in> set roots \<Longrightarrow> relative_name rel \<Longrightarrow> te_Typeflag e \<noteq> TypeSymlink \<Longrightarrow> holds (spared co roots s0) (extractEntry e (abs_path r) rel)"
  by (simp add: holds_def extract_spared)

text \<open>C9: An import of an archive without links stays inside.  Let the config, data and scratch directories be real
  directories (no part of their paths is a link) that hold no link, the others not below the config directory.  Whatever the
  names and contents of the archive are, wherever its stream breaks off and whatever the host refuses, a full import
  changes nothing outside the three directories and a cluster-only import nothing outside the scratch directory.  Inside,
  what stands at a path afterwards is a directory of mode 0700, a file of mode 0600 or 0700, or what stood there before
  (in the backup of the defaults: among the defaults), untouched, or emptied when the host refused to set its mode.\<close>

theorem link_free_import_stays_inside:
  assumes "no_symlinks a" and "plain_tree [C, D, S] s" and "\<not> strict_prefix C D" "\<not> strict_prefix C S"
    and "proper (backupDirPrefix @ dx_now dx)"
    and dirs: "dirs = \<lparr>sd_ConfigDir = abs_path C, sd_DataDir = abs_path D, sd_scratch = abs_path S\<rparr>"
  shows "spared (Some C) [C, D, S] s (snd (extractHostState dx dirs a h s)) \<and>
    spared None [S] s (snd (extractScratchOnly (abs_path S) a h s))"
proof -
  let ?R = "[C, D, S]"
  have pr: "list_all proper C" using assms(2) by (simp add: plain_tree_def real_dir_def)
  have C: "C \<in> set ?R" "\<forall>r \<in> set ?R. \<not> strict_prefix C r" using assms by auto
  have t: "te_Typeflag e \<noteq> TypeSymlink" if "e \<in> set (ts_entries a)" for e
    using assms(1) that by (simp add: no_symlinks_def list_all_iff)
  have config: "holds (spared (Some C) ?R s) (config_entry dx dirs e rel cleared)"
    if "e \<in> set (ts_entries a)" "relative_name rel" for e rel cleared
    unfolding config_entry_def using that t
    by (intro holds_intro) (auto simp: dirs intro!: clear_spared [OF C pr assms(5)] extract_holds holds_ret)
  have entry: "holds (spared (Some C) ?R s) (host_entry dx dirs e clean cleared)"
    if "e \<in> set (ts_entries a)" "relative_name clean" for e clean cleared
    unfolding host_entry_def using that t config trim_relative [of clean "''config''"] trim_relative [of clean "''data''"]
    by (intro holds_intro) (auto simp: dirs proper_def intro!: extract_holds holds_ret)
  have host: "holds (spared (Some C) ?R s) (extractHostState dx dirs a)"
    unfolding extractHostState_def walkArchive_def by (rule walk_holds) (rule entry)
  have "plain_tree [S] s" using assms(2) by (auto simp: plain_tree_def inside_def)
  moreover have "holds (spared None [S] s) (extractScratchOnly (abs_path S) a)"
    unfolding extractScratchOnly_def walkArchive_def scratch_entry_def
    by (rule walk_holds) (use t in \<open>auto intro!: holds_if holds_ret extract_holds\<close>)
  ultimately show ?thesis
    using holdsD [OF host spared_refl [OF assms(2)]] by (simp add: holdsD spared_refl)
qed

subsection \<open>An archive with links\<close>

lemma clean_rel: "list_all proper xs \<Longrightarrow> xs \<noteq> [] \<Longrightarrow> path_Clean (rel_path xs) = rel_path xs"
  using rel_path_head [of xs] clean_proper [of xs False "[]"] by (simp add: path_Clean_def split_rel) (simp add: rel_path_def)

lemma sanitize_rel: "list_all proper xs \<Longrightarrow> xs \<noteq> [] \<Longrightarrow> sanitizeEntryName (rel_path xs) = Inr (rel_path xs)"
proof -
  assume a: "list_all proper xs" "xs \<noteq> []"
  have "\<not> file_IsAbs (rel_path xs)" using rel_path_head [OF a] by (cases "rel_path xs") (auto simp: file_IsAbs_def)
  moreover have "rel_path xs \<noteq> ''..'' \<and> \<not> has_prefix ''../'' (rel_path xs)"
  proof -
    have "hd xs \<noteq> ''..''" using a by (cases xs) (auto simp: proper_def)
    moreover have "hd (split_on (CHR ''/'') (rel_path xs)) = hd xs" using split_rel [OF a] by simp
    moreover have "hd (split_on (CHR ''/'') ''..'') = ''..''" by simp
    moreover have "hd (split_on (CHR ''/'') (''../'' @ t)) = ''..''" for t by simp
    ultimately show ?thesis by (metis has_prefix_iff)
  qed
  ultimately show ?thesis using a by (simp add: sanitizeEntryName_def clean_rel)
qed

lemma clean_proper_append: "list_all proper xs \<Longrightarrow> clean_segments r (xs @ ys) out = clean_segments r ys (rev xs @ out)"
  by (induction xs arbitrary: out) (auto simp: proper_def)

lemma up_stays:
  assumes "list_all proper (R @ [a, b])"
  shows "file_Join [abs_path (R @ [a, b]), ''../..''] = abs_path R"
proof -
  have ns: "list_all (\<lambda>w. CHR ''/'' \<notin> set w) (R @ [a, b, ''..'', ''..''])" using assms proper_no_slash [OF assms] by simp
  have "abs_path (R @ [a, b]) @ ''/'' @ ''../..'' = abs_path ((R @ [a, b]) @ [''..'', ''..''])"
    using rel_path_append [of "R @ [a, b]" "[''..'', ''..'']"] by (simp add: abs_path_def rel_path_Cons)
  then have "split_on (CHR ''/'') (abs_path (R @ [a, b]) @ ''/'' @ ''../..'') = [] # R @ [a, b, ''..'', ''..'']"
    using split_join [OF _ ns] by (simp add: abs_path_def rel_path_def)
  moreover have "clean_segments True (R @ [a, b, ''..'', ''..'']) [] = R"
    using clean_proper_append [of "R @ [a, b]" True "[''..'', ''..'']" "[]"] assms by (simp add: proper_def)
  ultimately show ?thesis by (simp add: file_Join.simps path_Clean_def abs_path_def rel_path_def)
qed

lemma below_root: "R \<noteq> [] \<Longrightarrow> xs \<noteq> [] \<Longrightarrow> has_prefix (abs_path R @ ''/'') (abs_path (R @ xs))"
  by (simp add: abs_path_def rel_path_append has_prefix_iff)

definition link_at :: "string list \<Rightarrow> string \<Rightarrow> tar_entry" where "link_at xs t = link_entry_of (rel_path (''config'' # xs)) t"
definition file_in :: "string list \<Rightarrow> string \<Rightarrow> tar_entry" where "file_in xs body = file_entry_of (rel_path (''config'' # xs)) 0x1A4 body"

text \<open>Two links, each inside as written, and a file behind them.\<close>

definition chained_links :: "string \<Rightarrow> string \<Rightarrow> tar_stream" where
  "chained_links f body = \<lparr>ts_entries = [link_at [''a'', ''b''] ''.'', link_at [''a'', ''b'', ''x''] ''../..'', file_in [''a'', ''x'', f] body],
     ts_end = None\<rparr>"

definition permissive :: "host \<Rightarrow> bool" where
  "permissive h \<longleftrightarrow> ho_deny h = (\<lambda>c. None) \<and> ho_room h = (\<lambda>p. None)"

lemma permissive_call: "permissive h \<Longrightarrow> op_call c f h s = (Inr (), f s)"
  by (simp add: op_call_def permissive_def)

lemmas op_simps = op_bind_def op_try_def op_wrap_def op_look_def op_of_def op_ret_def op_fail_def

text \<open>Single calls where resolution is known.\<close>

lemma stat_located: "locate_at s at parts = Inr p \<Longrightarrow> os_Stat at parts h s = (case node_at s p of None \<Rightarrow> (Inl ENOENT, s) | Some nd \<Rightarrow> (Inr nd, s))"
  by (simp add: os_Stat_def op_simps split: option.splits)

lemma mkdir_there: "locate_at s whole_tree parts = Inr p \<Longrightarrow> node_at s p = Some (FDir m) \<Longrightarrow> os_MkdirAll whole_tree k parts h s = (Inr (), s)"
  by (cases "rev parts") (auto simp: os_MkdirAll_def stat_located op_simps)

lemma mkdir_new:
  assumes "permissive h" and "locate_at s whole_tree (up @ [c]) = Inr p" and "node_at s p = None"
    and "locate_at s whole_tree up = Inr d" and "node_at s d = Some (FDir m)" and "p = d @ [c]"
  shows "os_MkdirAll whole_tree k (up @ [c]) h s = (Inr (), put_node p (FDir k) s)"
proof -
  have "mkdir_all whole_tree k (rev up) h s = (Inr (), s)" using mkdir_there [OF assms(4,5)] by (simp add: os_MkdirAll_def)
  moreover have "os_Mkdir whole_tree k (up @ [c]) h s = (Inr (), put_node p (FDir k) s)"
    using assms by (simp add: os_Mkdir_def place_at_def op_simps permissive_call)
  ultimately show ?thesis using assms(3) by (simp add: os_MkdirAll_def stat_located [OF assms(2)] op_simps)
qed

lemma link_new:
  assumes "permissive h" and "locate_at s whole_tree up = Inr d" and "node_at s d = Some (FDir m)" and "node_at s (d @ [c]) = None" and "t \<noteq> []"
  shows "os_Remove whole_tree (up @ [c]) h s = (Inl ENOENT, s)" "os_Symlink whole_tree t (up @ [c]) h s = (Inr (), put_node (d @ [c]) (FLink t) s)"
  using assms by (simp_all add: os_Remove_def os_Symlink_def place_at_def op_simps permissive_call)

lemma file_written:
  assumes "permissive h" and "locate_at s whole_tree parts = Inr p" and "\<not> is_dir (node_at s p)" "\<not> is_link (node_at s p)" and "p \<noteq> []"
  shows "\<exists>s'. op_bind (op_wrap DiskError (os_OpenFile whole_tree k parts)) (\<lambda>p. op_bind (op_wrap DiskError (file_Chmod k p)) (\<lambda>_. copy_body e p)) h s =
      (case te_Cut e of None \<Rightarrow> Inr () | Some err \<Rightarrow> Inl (BrokenStream err), s') \<and>
    (\<forall>q. node_at s' q = (if q = p then Some (FFile k (te_Body e)) else node_at s q))"
proof -
  obtain k' b where o: "os_OpenFile whole_tree k parts h s = (Inr p, put_node p (FFile k' []) s)"
    using assms by (elim not_dirE) (auto simp: os_OpenFile_def op_simps permissive_call)
  show ?thesis using assms(1,5) o
    by (auto simp: op_simps file_Chmod_def permissive_call copy_body_def file_Write_def permissive_def Let_def split: option.splits)
qed

text \<open>Each of the three entries, with the tree it finds.\<close>

lemma locate_under: "real_dir s R \<Longrightarrow> locate_at s whole_tree (R @ cs) = locate s None 40 R cs"
  by (simp add: locate_at_def whole_tree_def locate_real_dir)

lemma escape_first:
  assumes "permissive h" and "real_dir s R" and "R \<noteq> []" and "node_at s (R @ [''a'']) = None" "node_at s (R @ [''a'', ''b'']) = None"
  shows "extractEntry (link_at [''a'', ''b''] ''.'') (abs_path R) ''a/b'' h s =
    (Inr (), put_node (R @ [''a'', ''b'']) (FLink ''.'') (put_node (R @ [''a'']) (FDir 0x1C0) s))"
proof -
  let ?s = "put_node (R @ [''a'']) (FDir 0x1C0) s"
  have pr: "list_all proper R" using assms(2) by (simp add: real_dir_def)
  have dest: "file_Join [abs_path R, ''a/b''] = abs_path (R @ [''a'', ''b''])"
    using join_abs_rel [OF pr, of "[''a'', ''b'']"] by (simp add: rel_path_Cons proper_def)
  have parts: "path_parts (abs_path (R @ [''a'', ''b''])) = R @ [''a'', ''b'']"
    "path_parts (file_Dir (abs_path (R @ [''a'', ''b'']))) = R @ [''a'']"
    using pr parts_dir [of "R @ [''a'', ''b'']"] by (simp_all add: proper_def butlast_append)
  have dirs: "file_Dir (abs_path (R @ [''a'', ''b''])) = abs_path (R @ [''a''])"
    using dir_abs [of "R @ [''a'']" "''b''"] pr by (simp add: proper_def)
  have safe: "\<not> symlinkEscapesRoot (abs_path R) (abs_path (R @ [''a'', ''b''])) ''.''"
    using pr below_root [OF assms(3), of "[''a'']"] join_abs_dot [of "R @ [''a'']"]
    by (simp add: symlinkEscapesRoot_def file_IsAbs_def dirs proper_def)
  obtain m where R: "node_at s R = Some (FDir m)" using assms(2) by (auto simp: real_dir_def elim: is_dirE)
  have "locate_at s whole_tree R = Inr R" using locate_under [OF assms(2), of "[]"] by simp
  moreover have "locate_at s whole_tree (R @ [''a'']) = Inr (R @ [''a''])" using locate_under [OF assms(2)] assms(4) by simp
  ultimately have mk: "os_MkdirAll whole_tree 0x1C0 (R @ [''a'']) h s = (Inr (), ?s)"
    using mkdir_new [OF assms(1), of s R "''a''" "R @ [''a'']" R m] R assms(4) by simp
  have "real_dir ?s R" using assms(2,4) by (intro real_dir_put) simp_all
  then have l: "locate_at ?s whole_tree (R @ [''a'']) = Inr (R @ [''a''])" using locate_under by simp
  have "node_at ?s (R @ [''a'', ''b'']) = None" using assms(5) by simp
  then show ?thesis
    using link_new [OF assms(1) l, of 448 "''b''" "''.''"] safe mk
    by (simp add: extractEntry_def link_at_def link_entry_of_def dest parts op_simps)
qed

lemma escape_second:
  assumes "permissive h" and "real_dir s R" and "R \<noteq> []" and "node_at s (R @ [''a'']) = Some (FDir m)"
    and "node_at s (R @ [''a'', ''b'']) = Some (FLink ''.'')" "node_at s (R @ [''a'', ''x'']) = None"
  shows "extractEntry (link_at [''a'', ''b'', ''x''] ''../..'') (abs_path R) ''a/b/x'' h s =
    (Inr (), put_node (R @ [''a'', ''x'']) (FLink ''../..'') s)"
proof -
  have pr: "list_all proper R" using assms(2) by (simp add: real_dir_def)
  have dest: "file_Join [abs_path R, ''a/b/x''] = abs_path (R @ [''a'', ''b'', ''x''])"
    using join_abs_rel [OF pr, of "[''a'', ''b'', ''x'']"] by (simp add: rel_path_Cons proper_def)
  have dirs: "file_Dir (abs_path (R @ [''a'', ''b'', ''x''])) = abs_path (R @ [''a'', ''b''])"
    using dir_abs [of "R @ [''a'', ''b'']" "''x''"] pr by (simp add: proper_def)
  have parts: "path_parts (abs_path (R @ [''a'', ''b'', ''x''])) = R @ [''a'', ''b'', ''x'']"
    "path_parts (abs_path (R @ [''a'', ''b''])) = R @ [''a'', ''b'']"
    using pr by (simp_all add: proper_def)
  have safe: "\<not> symlinkEscapesRoot (abs_path R) (abs_path (R @ [''a'', ''b'', ''x''])) ''../..''"
    using pr up_stays [of R "''a''" "''b''"] by (simp add: symlinkEscapesRoot_def file_IsAbs_def dirs proper_def)
  have l: "locate_at s whole_tree (R @ [''a'', ''b'']) = Inr (R @ [''a''])"
    using locate_under [OF assms(2), of "[''a'', ''b'']"] assms(4,5) by (simp add: file_IsAbs_def eval_nat_numeral)
  have mk: "os_MkdirAll whole_tree 0x1C0 (R @ [''a'', ''b'']) h s = (Inr (), s)" by (rule mkdir_there [OF l assms(4)])
  show ?thesis
    using link_new [OF assms(1) l assms(4), of "''x''" "''../..''"] safe mk assms(6)
    by (simp add: extractEntry_def link_at_def link_entry_of_def dest parts dirs op_simps)
qed

lemma escape_third:
  assumes "permissive h" and "real_dir s (up @ [c])" and "node_at s (up @ [c, ''a'']) = Some (FDir m)"
    and "node_at s (up @ [c, ''a'', ''x'']) = Some (FLink ''../..'')" and "proper f"
    and "\<not> is_dir (node_at s (up @ [f]))" "\<not> is_link (node_at s (up @ [f]))"
  shows "\<exists>s'. extractEntry (file_in [''a'', ''x'', f] body) (abs_path (up @ [c])) (rel_path [''a'', ''x'', f]) h s = (Inr (), s') \<and>
    node_at s' (up @ [f]) = Some (FFile 0x180 body)"
proof -
  let ?R = "up @ [c]"
  have pr: "list_all proper ?R" using assms(2) by (simp add: real_dir_def)
  have pf: "list_all proper [''a'', ''x'', f]" using assms(5) by (simp add: proper_def)
  have dest: "file_Join [abs_path ?R, rel_path [''a'', ''x'', f]] = abs_path (?R @ [''a'', ''x'', f])"
    by (rule join_abs_rel [OF pr pf]) simp
  have parts: "path_parts (abs_path (?R @ [''a'', ''x'', f])) = ?R @ [''a'', ''x'', f]"
    "path_parts (file_Dir (abs_path (?R @ [''a'', ''x'', f]))) = ?R @ [''a'', ''x'']"
    using pr pf parts_dir [of "?R @ [''a'', ''x'', f]"] by (simp_all add: butlast_append)
  have up: "real_dir s up" by (rule real_dir_prefix [OF assms(2)]) simp
  obtain k where k: "node_at s up = Some (FDir k)" using up by (auto simp: real_dir_def elim: is_dirE)
  have walk: "locate s None 40 ?R (''a'' # ''x'' # cs) = locate s None 39 up cs" for cs
    using assms(3,4) by (simp add: file_IsAbs_def eval_nat_numeral butlast_append)
  have l: "locate_at s whole_tree (?R @ [''a'', ''x'']) = Inr up" using locate_under [OF assms(2)] walk [of "[]"] by simp
  have lf: "locate_at s whole_tree (?R @ [''a'', ''x'', f]) = Inr (up @ [f])"
    using locate_under [OF assms(2)] walk [of "[f]"] locate_last [OF assms(5,7)] by simp
  obtain s' where "op_bind (op_wrap DiskError (os_OpenFile whole_tree 0x180 (?R @ [''a'', ''x'', f])))
        (\<lambda>p. op_bind (op_wrap DiskError (file_Chmod 0x180 p)) (\<lambda>_. copy_body (file_in [''a'', ''x'', f] body) p)) h s = (Inr (), s')"
      "node_at s' (up @ [f]) = Some (FFile 0x180 body)"
    using file_written [OF assms(1) lf assms(6,7), of 384 "file_in [''a'', ''x'', f] body"] by (auto simp: file_in_def file_entry_of_def)
  moreover have "os_MkdirAll whole_tree 0x1C0 (?R @ [''a'', ''x'']) h s = (Inr (), s)" by (rule mkdir_there [OF l k])
  moreover have "extractedFileMode 0x1A4 = 0x180" by code_simp
  ultimately show ?thesis
    unfolding extractEntry_def Let_def dest parts
    by (intro exI [of _ s']) (simp add: file_in_def file_entry_of_def extractDirMode_def op_wrap_def op_bind_def)
qed

text \<open>C26: Links can be chained out of the import.  Whatever the configuration directory is, there is an archive of two links
  and a file, each of which passes the check of its name and of its target as written, and whose import succeeds and
  writes the file, with any content, next to the configuration directory instead of into it.\<close>

theorem chained_links_escape:
  assumes "permissive h" and "real_dir s (up @ [c])" and "proper f"
    and "node_at s (up @ [c, ''a'']) = None" "node_at s (up @ [c, ''a'', ''b'']) = None" "node_at s (up @ [c, ''a'', ''x'']) = None"
    and "\<not> is_dir (node_at s (up @ [f]))" "\<not> is_link (node_at s (up @ [f]))" and "sd_ConfigDir dirs = abs_path (up @ [c])"
  shows "\<exists>s'. extractHostState dx dirs (chained_links f body) h s = (Inr False, s') \<and> node_at s' (up @ [f]) = Some (FFile 0x180 body)"
proof -
  let ?R = "up @ [c]"
  let ?s1 = "put_node (?R @ [''a'', ''b'']) (FLink ''.'') (put_node (?R @ [''a'']) (FDir 0x1C0) s)"
  let ?s2 = "put_node (?R @ [''a'', ''x'']) (FLink ''../..'') ?s1"
  have r1: "real_dir ?s1 ?R" using assms(2,4,5) by (intro real_dir_put) simp_all
  have r2: "real_dir ?s2 ?R" by (rule real_dir_put [OF r1]) (use assms(6) in simp)
  have first: "extractEntry (link_at [''a'', ''b''] ''.'') (abs_path ?R) ''a/b'' h s = (Inr (), ?s1)"
    using escape_first [OF assms(1,2)] assms(4,5) by simp
  have second: "extractEntry (link_at [''a'', ''b'', ''x''] ''../..'') (abs_path ?R) ''a/b/x'' h ?s1 = (Inr (), ?s2)"
    using escape_second [OF assms(1) r1, of 448] assms(6) by simp
  have f: "f \<noteq> c" using assms(2,7) by (auto simp: real_dir_def)
  obtain s' where third: "extractEntry (file_in [''a'', ''x'', f] body) (abs_path ?R) (rel_path [''a'', ''x'', f]) h ?s2 = (Inr (), s')"
      "node_at s' (up @ [f]) = Some (FFile 0x180 body)"
    using escape_third [OF assms(1) r2, of 448 f body] assms(3,7,8) f by auto
  have names: "sanitizeEntryName (rel_path (''config'' # xs)) = Inr (''config/'' @ rel_path xs)" if "list_all proper xs" "xs \<noteq> []" for xs
    using sanitize_rel [of "''config'' # xs"] that by (simp add: rel_path_Cons proper_def)
  have entry: "host_entry dx dirs e (''config/'' @ rel) False = op_bind (extractEntry e (abs_path ?R) rel) (\<lambda>_. op_ret False)"
    if "\<not> IsDefaultsPath rel" for e rel
    using that assms(9) by (simp add: host_entry_def config_entry_def ManifestFileName_def trim_prefix_def has_prefix_iff)
  have plain: "\<not> IsDefaultsPath (CHR ''a'' # t)" for t by (simp add: IsDefaultsPath_def pendingDirName_def)
  show ?thesis
    using first second third names [of "[''a'', ''b'']"] names [of "[''a'', ''b'', ''x'']"] names [of "[''a'', ''x'', f]"] entry plain assms(3)
    by (simp add: extractHostState_def walkArchive_def chained_links_def link_at_def file_in_def link_entry_of_def file_entry_of_def
        rel_path_Cons proper_def op_simps)
qed

end
