(* ===== verification/ArchiveRoundtrip.thy ===== *)
theory ArchiveRoundtrip imports ArchiveSafety begin

text \<open>
  An export followed by an import: the walk visits every parent before its children, so each entry finds the directory
  it goes into, and the imported tree is the exported one with private modes.
\<close>

subsection \<open>The order of a walk\<close>

lemma path_less_prefix: "strict_prefix a q \<Longrightarrow> path_less a q"
proof (induction a q rule: path_less.induct)
  case (3 c cs d ds)
  then show ?case by (auto simp: strict_prefix_def)
qed (auto simp: strict_prefix_def)

lemma path_less_asym: "path_less a b \<Longrightarrow> \<not> path_less b a"
proof (induction a b rule: path_less.induct)
  case (3 c cs d ds)
  then show ?case by (auto dest: str_less_trans)
qed simp_all

lemma path_less_trans: "path_less a b \<Longrightarrow> path_less b c \<Longrightarrow> path_less a c"
proof (induction a b arbitrary: c rule: path_less.induct)
  case (2 d ds)
  then show ?case by (cases c) auto
next
  case (3 x xs y ys)
  then show ?case by (cases c) (auto dest: str_less_trans)
qed simp

lemma path_less_total: "a \<noteq> b \<Longrightarrow> path_less a b \<or> path_less b a"
proof (induction a b rule: path_less.induct)
  case (1 p)
  then show ?case by (cases p) auto
next
  case (3 x xs y ys)
  then show ?case using str_less_total by auto
qed simp

lemma strict_weak_path_less: "strict_weak path_less"
  unfolding strict_weak_def using path_less_asym path_less_total path_less_trans by metis

text \<open>In a list of paths every path comes after the strictly shorter ones of the list that lead to it.\<close>

definition parents_first :: "fs_path list \<Rightarrow> bool" where
  "parents_first L \<longleftrightarrow> (\<forall>L1 q L2 a. L = L1 @ q # L2 \<longrightarrow> a \<in> set L \<longrightarrow> strict_prefix a q \<longrightarrow> a \<in> set L1)"

lemma sorted_parents_first:
  assumes "sorted_wrt (\<lambda>a b. \<not> path_less b a) L"
  shows "parents_first L"
  unfolding parents_first_def
proof (intro allI impI)
  fix L1 q L2 a assume L: "L = L1 @ q # L2" and a: "a \<in> set L" "strict_prefix a q"
  have "a \<noteq> q" using a(2) by simp
  moreover have "a \<notin> set L2" using assms path_less_prefix [OF a(2)] L by (auto simp: sorted_wrt_append)
  ultimately show "a \<in> set L1" using a(1) L by simp
qed

lemma sorted_filter: "sorted_wrt R L \<Longrightarrow> sorted_wrt R (filter P L)"
  by (induction L) auto

lemma below_filtered: "parents_first (filter P (below s p))"
  unfolding below_def by (intro sorted_parents_first sorted_filter sorted_sort_by strict_weak_path_less)

lemma distinct_below: "gomap s \<Longrightarrow> distinct (below s p)"
proof -
  assume "gomap s"
  then have "distinct (filter (strict_prefix p) (map fst s))" by (simp add: gomap_def)
  then show ?thesis unfolding below_def by (metis mset_eq_imp_distinct_iff mset_sort_by)
qed

subsection \<open>What an export holds\<close>

definition restored :: "fs_node \<Rightarrow> fs_node" where
  "restored nd = (case nd of FDir m \<Rightarrow> FDir 0x1C0 | FFile m b \<Rightarrow> FFile (extractedFileMode m) b | FLink t \<Rightarrow> FLink t)"

definition entry_of :: "string \<Rightarrow> fs_node \<Rightarrow> tar_entry" where
  "entry_of name nd = (case nd of FDir m \<Rightarrow> dir_entry_of name m | FFile m b \<Rightarrow> file_entry_of name m b | FLink t \<Rightarrow> link_entry_of name t)"

text \<open>Below \<open>C\<close>, every node has a proper name and a directory above it.\<close>

definition sound_below :: "fs \<Rightarrow> fs_path \<Rightarrow> bool" where
  "sound_below s C \<longleftrightarrow> gomap s \<and> real_dir s C \<and>
     (\<forall>xs. xs \<noteq> [] \<longrightarrow> node_at s (C @ xs) \<noteq> None \<longrightarrow> list_all proper xs \<and> is_dir (node_at s (C @ butlast xs)))"

definition exported :: "fs \<Rightarrow> fs_path \<Rightarrow> (string \<Rightarrow> bool) \<Rightarrow> fs_path list" where
  "exported s C skip = filter (\<lambda>q. \<not> filtered_out skip C q) (below s C)"

lemma node_below: "q \<in> set (below s C) \<Longrightarrow> \<exists>xs nd. xs \<noteq> [] \<and> q = C @ xs \<and> node_at s q = Some nd"
proof -
  assume "q \<in> set (below s C)"
  then have q: "strict_prefix C q" "q \<in> fst ` set s" by (auto simp: below_def)
  then obtain xs where "q = C @ xs" "xs \<noteq> []" by (auto simp: strict_prefix_def prefix_def)
  moreover obtain nd where "map_of s q = Some nd" using q(2) by (metis map_of_eq_None_iff not_Some_eq)
  ultimately show ?thesis by (auto simp: node_at_def)
qed

lemma below_iff: "xs \<noteq> [] \<Longrightarrow> C @ xs \<in> set (below s C) \<longleftrightarrow> node_at s (C @ xs) \<noteq> None"
proof
  assume "xs \<noteq> []" and "node_at s (C @ xs) \<noteq> None"
  then have "C @ xs \<in> fst ` set s" by (auto simp: node_at_def dest!: map_of_SomeD intro: rev_image_eqI)
  then show "C @ xs \<in> set (below s C)" using \<open>xs \<noteq> []\<close> by (auto simp: below_def strict_prefix_def)
qed (use node_below in force)

lemma export_entries:
  assumes "permissive h" and "C \<noteq> []" and "sound_below s C"
  shows "fst (addTree h s (abs_path C) pre skip) =
    map (\<lambda>q. entry_of (pre @ ''/'' @ rel_path (drop (length C) q)) (the (node_at s q))) (exported s C skip)"
proof -
  have C: "real_dir s C" "list_all proper C" using assms(3) by (simp_all add: sound_below_def real_dir_def)
  have up: "real_dir s (butlast C)" using C(1) prefixeq_butlast by (rule real_dir_prefix)
  obtain m where m: "node_at s (butlast C) = Some (FDir m)" using up by (auto simp: real_dir_def elim: is_dirE)
  obtain m' where m': "node_at s C = Some (FDir m')" using C(1) by (auto simp: real_dir_def elim: is_dirE)
  have place: "place_at s whole_tree C = Inr C"
    using assms(2) m locate_real_dir_self [OF up] by (simp add: place_at_def locate_at_def whole_tree_def)
  have ok: "ho_deny h c = None" for c using assms(1) by (simp add: permissive_def)
  have vis: "visits h s q = [(q, None)]" for q by (auto simp: visits_def ok split: option.splits fs_node.splits)
  have "concat (map (visits h s) L) = map (\<lambda>q. (q, None)) L" for L by (induction L) (simp_all add: vis)
  with vis have w: "walk_dir h s C = map (\<lambda>q. (q, None)) (C # below s C)"
    by (auto simp: walk_dir_def walk_enters_def ok list_all_iff comp_def filter_id_conv)
  have one: "add_visit h s C pre (q, None) = ([entry_of (pre @ ''/'' @ rel_path (drop (length C) q)) (the (node_at s q))], [])"
    if "q \<in> set (below s C)" for q
    using node_below [OF that] by (auto simp: add_visit_def entry_of_def ok split: fs_node.splits)
  have "concat (map fst (map (add_visit h s C pre) (filter (\<lambda>v. \<not> filtered_out skip C (fst v)) (map (\<lambda>q. (q, None)) L)))) =
      map (\<lambda>q. entry_of (pre @ ''/'' @ rel_path (drop (length C) q)) (the (node_at s q))) (filter (\<lambda>q. \<not> filtered_out skip C q) L)"
    if "set L \<subseteq> set (below s C)" for L
    using that by (induction L) (auto simp: one)
  from this [of "below s C"] have "concat (map fst (map (add_visit h s C pre) (filter (\<lambda>v. \<not> filtered_out skip C (fst v)) (walk_dir h s C)))) =
      map (\<lambda>q. entry_of (pre @ ''/'' @ rel_path (drop (length C) q)) (the (node_at s q))) (exported s C skip)"
    unfolding w exported_def by (auto simp: add_visit_def)
  then show ?thesis unfolding addTree_def using place m' C(2) by (simp add: Let_def)
qed

subsection \<open>Restoring entry by entry\<close>

text \<open>The tree after the entries of \<open>done_with'\<close> have been extracted below \<open>R\<close>.\<close>

definition restored_to :: "fs \<Rightarrow> fs_path \<Rightarrow> fs \<Rightarrow> fs_path \<Rightarrow> fs_path set \<Rightarrow> fs \<Rightarrow> bool" where
  "restored_to s C t R past t' \<longleftrightarrow> real_dir t' R \<and> (\<forall>p. \<not> prefix R p \<longrightarrow> node_at t' p = node_at t p) \<and>
     (\<forall>xs. xs \<noteq> [] \<longrightarrow> node_at t' (R @ xs) = (if C @ xs \<in> past then map_option restored (node_at s (C @ xs)) else None))"

lemma restored_put:
  assumes "restored_to s C t R past t'" and "xs \<noteq> []" and "C @ xs \<notin> past" and "node_at s (C @ xs) = Some nd"
    and "\<And>q. node_at t'' q = (if q = R @ xs then Some (restored nd) else node_at t' q)"
  shows "restored_to s C t R (insert (C @ xs) past) t''"
proof -
  have "node_at t' (R @ xs) = None" using assms(1-3) by (simp add: restored_to_def)
  then have "real_dir t'' R" using assms(1,2,5) by (auto simp: restored_to_def real_dir_def prefix_def)
  then show ?thesis using assms by (auto simp: restored_to_def)
qed

lemma parent_restored:
  assumes sb: "sound_below s C" and r: "restored_to s C t R past t'" and xs: "node_at s (C @ xs) \<noteq> None" "xs \<noteq> []"
    and past: "\<And>ys. ys \<noteq> [] \<Longrightarrow> strict_prefix ys xs \<Longrightarrow> C @ ys \<in> past"
  shows "real_dir t' (R @ butlast xs)"
proof -
  have dirs: "is_dir (node_at s (C @ ys))" if "ys \<noteq> []" "strict_prefix ys xs" for ys
    using that xs(1)
  proof (induction xs arbitrary: ys rule: rev_induct)
    case (snoc x xs)
    then have p: "is_dir (node_at s (C @ xs))" using sb unfolding sound_below_def by (metis butlast_snoc snoc_eq_iff_butlast)
    show ?case
    proof (cases "ys = xs")
      case False
      then have "strict_prefix ys xs" using snoc.prems(2) by (auto simp: strict_prefix_def prefix_snoc)
      then show ?thesis using snoc.IH [OF snoc.prems(1)] p by (auto elim: is_dirE)
    qed (use p in simp)
  qed simp
  have pr: "list_all proper xs" using sb xs by (auto simp: sound_below_def)
  have "is_dir (node_at t' (R @ ys))" if ys: "prefix ys (butlast xs)" for ys
  proof (cases "ys = []")
    case True
    then show ?thesis using r by (auto simp: restored_to_def real_dir_def)
  next
    case False
    have st: "strict_prefix ys xs" using ys xs(2) by (metis prefix_order.le_less_trans prefixeq_butlast strict_prefix_def append_butlast_last_id append_self_conv not_Cons_self2)
    show ?thesis using r dirs [OF False st] past [OF False st] False by (auto simp: restored_to_def restored_def elim: is_dirE)
  qed
  moreover have "list_all proper (R @ butlast xs)"
    using pr r xs(2) unfolding restored_to_def real_dir_def by (metis append_butlast_last_id list_all_append)
  moreover have "is_dir (node_at t' q)" if "prefix q R" for q using that r by (auto simp: restored_to_def real_dir_def)
  ultimately show ?thesis unfolding real_dir_def by (metis prefix_append)
qed

text \<open>A link may be restored below \<open>R\<close> when its target as written stays below it.\<close>

definition links_stay :: "fs \<Rightarrow> fs_path \<Rightarrow> fs_path \<Rightarrow> bool" where
  "links_stay s C R \<longleftrightarrow> (\<forall>xs t. node_at s (C @ xs) = Some (FLink t) \<longrightarrow> t \<noteq> [] \<and> \<not> symlinkEscapesRoot (abs_path R) (abs_path (R @ xs)) t)"

lemma extract_restores:
  assumes h: "permissive h" and sb: "sound_below s C" and ls: "links_stay s C R" and r: "restored_to s C t R past t'"
    and xs: "node_at s (C @ xs) = Some nd" "xs \<noteq> []" and new: "C @ xs \<notin> past"
    and past: "\<And>ys. ys \<noteq> [] \<Longrightarrow> strict_prefix ys xs \<Longrightarrow> C @ ys \<in> past"
  shows "\<exists>t''. extractEntry (entry_of name nd) (abs_path R) (rel_path xs) h t' = (Inr (), t'') \<and> restored_to s C t R (insert (C @ xs) past) t''"
proof -
  have up: "real_dir t' (R @ butlast xs)" using parent_restored [OF sb r _ xs(2) past] xs(1) by simp
  obtain ys y where y: "xs = ys @ [y]" using xs(2) by (metis rev_exhaust)
  have pr: "list_all proper xs" using sb xs by (auto simp: sound_below_def)
  have R: "list_all proper R" using r by (simp add: restored_to_def real_dir_def)
  have dest: "file_Join [abs_path R, rel_path xs] = abs_path (R @ ys @ [y])" using join_abs_rel [OF R pr xs(2)] y by simp
  have parts: "path_parts (abs_path (R @ ys @ [y])) = (R @ ys) @ [y]" "path_parts (file_Dir (abs_path (R @ ys @ [y]))) = R @ ys"
    using R pr y parts_dir [of "R @ ys @ [y]"] by (simp_all add: butlast_append)
  have lu: "locate_at t' whole_tree (R @ ys) = Inr (R @ ys)" using up y by (simp add: locate_at_def whole_tree_def locate_real_dir_self)
  obtain m where m: "node_at t' (R @ ys) = Some (FDir m)" using up y by (auto simp: real_dir_def elim: is_dirE)
  have free: "node_at t' ((R @ ys) @ [y]) = None" using r new xs(2) y by (simp add: restored_to_def)
  have l: "locate_at t' whole_tree ((R @ ys) @ [y]) = Inr ((R @ ys) @ [y])"
    using locate_under [of t' "R @ ys" "[y]"] up y pr free by (simp add: proper_def)
  have ne: "(R @ ys) @ [y] \<noteq> []" by simp
  have done_put: "restored_to s C t R (insert (C @ xs) past) (put_node ((R @ ys) @ [y]) (restored nd) t')"
    by (rule restored_put [OF r xs(2) new xs(1)]) (use y in simp)
  show ?thesis
  proof (cases nd)
    case (FDir k)
    have "os_MkdirAll whole_tree 0x1C0 ((R @ ys) @ [y]) h t' = (Inr (), put_node ((R @ ys) @ [y]) (FDir 0x1C0) t')"
      by (rule mkdir_new [OF h l free lu m]) simp
    then show ?thesis using done_put FDir unfolding extractEntry_def Let_def dest parts
      by (simp add: entry_of_def dir_entry_of_def extractDirMode_def op_wrap_def restored_def)
  next
    case (FLink t0)
    have t0: "t0 \<noteq> []" "\<not> symlinkEscapesRoot (abs_path R) (abs_path (R @ ys @ [y])) t0" using ls xs(1) FLink y by (auto simp: links_stay_def)
    have mk: "os_MkdirAll whole_tree 0x1C0 (R @ ys) h t' = (Inr (), t')" by (rule mkdir_there [OF lu m])
    show ?thesis using done_put FLink t0(2) mk link_new [OF h lu m free t0(1)] unfolding extractEntry_def Let_def dest parts
      by (simp add: entry_of_def link_entry_of_def restored_def op_simps)
  next
    case (FFile k b)
    have mk: "os_MkdirAll whole_tree 0x1C0 (R @ ys) h t' = (Inr (), t')" by (rule mkdir_there [OF lu m])
    obtain t'' where w: "op_bind (op_wrap DiskError (os_OpenFile whole_tree (extractedFileMode k) ((R @ ys) @ [y])))
          (\<lambda>p. op_bind (op_wrap DiskError (file_Chmod (extractedFileMode k) p)) (\<lambda>_. copy_body (entry_of name nd) p)) h t' = (Inr (), t'')"
        and n: "\<And>q. node_at t'' q = (if q = (R @ ys) @ [y] then Some (FFile (extractedFileMode k) b) else node_at t' q)"
      using file_written [OF h l, of "extractedFileMode k" "entry_of name nd"] free FFile by (auto simp: entry_of_def file_entry_of_def)
    have "restored_to s C t R (insert (C @ xs) past) t''"
      by (rule restored_put [OF r xs(2) new xs(1)]) (use n y FFile in \<open>simp add: restored_def\<close>)
    moreover have "extractEntry (entry_of name nd) (abs_path R) (rel_path xs) h t' = (Inr (), t'')"
      using w mk FFile unfolding extractEntry_def Let_def dest parts
      by (simp add: entry_of_def file_entry_of_def extractDirMode_def op_wrap_def op_bind_def)
    ultimately show ?thesis by blast
  qed
qed

subsection \<open>The whole tree\<close>

lemma entry_names: "te_Name (entry_of name nd) = name @ (case nd of FDir m \<Rightarrow> ''/'' | x \<Rightarrow> [])"
  by (cases nd) (simp_all add: entry_of_def dir_entry_of_def link_entry_of_def file_entry_of_def)

lemma sanitize_slash:
  assumes "list_all proper xs" and "xs \<noteq> []"
  shows "sanitizeEntryName (rel_path xs @ ''/'') = Inr (rel_path xs)"
proof -
  have "rel_path xs @ ''/'' = rel_path (xs @ [[]])" using rel_path_append [OF assms(2), of "[[]]"] by (simp add: rel_path_Cons)
  then have sp: "split_on (CHR ''/'') (rel_path xs @ ''/'') = xs @ [[]]"
    using split_join [of "xs @ [[]]" "CHR ''/''"] proper_no_slash [OF assms(1)] by (simp add: rel_path_def)
  have "path_Clean (rel_path xs @ ''/'') = rel_path xs"
    using rel_path_head [OF assms] clean_proper_append [OF assms(1), of False "[[]]" "[]"] sp
    by (simp add: path_Clean_def) (simp add: rel_path_def)
  moreover have "path_Clean (rel_path xs) = rel_path xs" by (rule clean_rel [OF assms])
  ultimately show ?thesis using sanitize_rel [OF assms] by (simp add: sanitizeEntryName_def Let_def split: if_splits)
qed

lemma clear_nothing:
  assumes h: "permissive h" and r: "restored_to s C t R past t'" and t: "proper (backupDirPrefix @ dx_now dx)"
    and free: "\<And>n ys. n \<in> {''defaults'', pendingDirName} \<Longrightarrow> C @ n # ys \<notin> past"
  shows "\<exists>t''. ClearForRestore dx (abs_path R) h t' = (Inr [], t'') \<and> restored_to s C t R past t''"
proof -
  have R: "real_dir t' R" "list_all proper R" using r by (simp_all add: restored_to_def real_dir_def)
  obtain m where m: "node_at t' R = Some (FDir m)" using R(1) by (auto simp: real_dir_def elim: is_dirE)
  have none: "node_at t' (R @ n # ys) = None" if "n \<in> {''defaults'', pendingDirName}" for n ys
    using r free [OF that] by (simp add: restored_to_def)
  note dirs = pending_dir_def defaults_dir_def join_name R proper_names
  have l: "locate_at t' whole_tree R = Inr R" using locate_real_dir_self [OF R(1)] by (simp add: locate_at_def whole_tree_def)
  have place: "place_at t' whole_tree (R @ [pendingDirName]) = Inr (R @ [pendingDirName])" using l m by (simp add: place_at_def)
  let ?t = "filter (\<lambda>(q, nd). \<not> prefix (R @ [pendingDirName]) q) t'"
  have rm: "os_RemoveAll whole_tree (R @ [pendingDirName]) h t' = (Inr (), ?t)"
    using h by (simp add: os_RemoveAll_def place removal_refused_def permissive_def Let_def case_prod_unfold)
  have same: "node_at ?t q = node_at t' q" for q
  proof (cases "prefix (R @ [pendingDirName]) q")
    case True
    then obtain ys where "q = R @ pendingDirName # ys" by (auto simp: prefix_def)
    then show ?thesis using none [of pendingDirName ys] by (simp add: node_at_def map_of_filter_fst)
  qed (simp add: node_at_def map_of_filter_fst)
  have r': "restored_to s C t R past ?t" using r same by (simp add: restored_to_def real_dir_def)
  have "locate_at ?t whole_tree (R @ [''defaults'']) = Inr (R @ [''defaults''])"
    using locate_under [of ?t R "[''defaults'']"] r' none [of "''defaults''" "[]"] same by (simp add: restored_to_def)
  then have "os_Stat whole_tree (R @ [''defaults'']) h ?t = (Inl ENOENT, ?t)"
    using none [of "''defaults''" "[]"] same by (simp add: stat_located)
  then have "ClearForRestore dx (abs_path R) h t' = (Inr [], ?t)"
    using rm by (simp add: ClearForRestore_def dirs op_simps)
  then show ?thesis using r' by blast
qed

lemma defaults_first_name:
  assumes "list_all proper xs" and "xs \<noteq> []"
  shows "IsDefaultsPath (rel_path xs) \<longleftrightarrow> hd xs \<in> {''defaults'', pendingDirName}"
proof -
  have one: "rel_path xs = root \<or> has_prefix (root @ ''/'') (rel_path xs) \<longleftrightarrow> hd xs = root" if "proper root" for root
  proof
    assume "rel_path xs = root \<or> has_prefix (root @ ''/'') (rel_path xs)"
    then have "hd (split_on (CHR ''/'') (rel_path xs)) = root"
      using that split_no_slash [of "CHR ''/''" root] split_on_append [of "CHR ''/''" root] by (auto simp: has_prefix_iff proper_def)
    then show "hd xs = root" by (simp add: split_rel [OF assms])
  next
    assume "hd xs = root"
    then show "rel_path xs = root \<or> has_prefix (root @ ''/'') (rel_path xs)"
      using assms(2) by (cases xs) (auto simp: rel_path_Cons has_prefix_iff)
  qed
  show ?thesis using one [OF proper_names(1)] one [OF proper_names(2)] by (simp add: IsDefaultsPath_def)
qed

lemma config_restores:
  assumes "permissive h" "sound_below s C" "links_stay s C R" "restored_to s C t R past t'"
    and xs: "node_at s (C @ xs) = Some nd" "xs \<noteq> []" "C @ xs \<notin> past"
    and past: "\<And>ys. ys \<noteq> [] \<Longrightarrow> strict_prefix ys xs \<Longrightarrow> C @ ys \<in> past"
    and cleared: "\<not> cleared \<Longrightarrow> (\<And>n ys. n \<in> {''defaults'', pendingDirName} \<Longrightarrow> C @ n # ys \<notin> past)"
    and "proper (backupDirPrefix @ dx_now dx)" and dirs: "sd_ConfigDir dirs = abs_path R"
  shows "\<exists>t'' cleared'. config_entry dx dirs (entry_of name nd) (rel_path xs) cleared h t' = (Inr cleared', t'') \<and>
    restored_to s C t R (insert (C @ xs) past) t'' \<and>
    (\<not> cleared' \<longrightarrow> (\<forall>n ys. n \<in> {''defaults'', pendingDirName} \<longrightarrow> C @ n # ys \<notin> insert (C @ xs) past))"
proof -
  have pr: "list_all proper xs" using assms(2) xs by (auto simp: sound_below_def)
  show ?thesis
  proof (cases "\<not> cleared \<and> IsDefaultsPath (rel_path xs)")
    case True
    obtain t1 where t1: "ClearForRestore dx (abs_path R) h t' = (Inr [], t1)" "restored_to s C t R past t1"
      using clear_nothing [OF assms(1,4,10)] cleared True by blast
    obtain t2 where "extractEntry (entry_of name nd) (abs_path R) (rel_path xs) h t1 = (Inr (), t2)"
        "restored_to s C t R (insert (C @ xs) past) t2"
      using extract_restores [OF assms(1-3) t1(2) xs past] by blast
    then show ?thesis using True t1(1) by (intro exI [of _ t2] exI [of _ True]) (simp add: config_entry_def dirs op_simps)
  next
    case False
    obtain t2 where t2: "extractEntry (entry_of name nd) (abs_path R) (rel_path xs) h t' = (Inr (), t2)"
        "restored_to s C t R (insert (C @ xs) past) t2"
      using extract_restores [OF assms(1-4) xs past] by blast
    then have "config_entry dx dirs (entry_of name nd) (rel_path xs) cleared h t' = (Inr cleared, t2)"
      using False by (cases cleared) (simp_all add: config_entry_def dirs op_simps)
    moreover have "C @ n # ys \<notin> insert (C @ xs) past" if "\<not> cleared" "n \<in> {''defaults'', pendingDirName}" for n ys
      using that cleared False defaults_first_name [OF pr xs(2)] by auto
    ultimately show ?thesis using t2(2) by blast
  qed
qed

lemma exported_set:
  "xs \<noteq> [] \<Longrightarrow> C @ xs \<in> set (exported s C skip) \<longleftrightarrow> node_at s (C @ xs) \<noteq> None \<and> \<not> filtered_out skip C (C @ xs)"
  using below_iff [of xs C s] by (auto simp: exported_def)

text \<open>A directory that leads to an exported node is exported.\<close>

lemma exported_parents:
  assumes sb: "sound_below s C" and "C @ xs \<in> set (exported s C skip)" and "ys \<noteq> []" "strict_prefix ys xs"
  shows "C @ ys \<in> set (exported s C skip)"
proof -
  have ne: "xs \<noteq> []" using assms(4) by auto
  have xs: "node_at s (C @ xs) \<noteq> None" "\<not> filtered_out skip C (C @ xs)" using assms(2) exported_set [OF ne, of C s skip] by simp_all
  have "node_at s (C @ ys) \<noteq> None"
    using xs(1) assms(3,4)
  proof (induction xs rule: rev_induct)
    case (snoc x xs)
    then have "is_dir (node_at s (C @ xs))" using sb unfolding sound_below_def by (metis butlast_snoc snoc_eq_iff_butlast)
    then have n: "node_at s (C @ xs) \<noteq> None" by (metis is_dir_simps(1))
    show ?case using snoc n by (cases "ys = xs") (auto simp: strict_prefix_def prefix_snoc)
  qed simp
  moreover have "\<not> filtered_out skip C (C @ ys)"
    using xs(2) assms(4) by (auto simp: filtered_out_def list_ex_iff in_set_prefixes)
  ultimately show ?thesis using exported_set [OF assms(3)] by blast
qed

lemma restore_all:
  assumes h: "permissive h" and sb: "sound_below s C" and ls: "links_stay s C R" and t: "proper (backupDirPrefix @ dx_now dx)"
    and dirs: "sd_ConfigDir dirs = abs_path R" and L: "exported s C skip = L1 @ L2"
    and r: "restored_to s C t R (set L1) t'"
    and cl: "\<not> cleared \<Longrightarrow> (\<And>n ys. n \<in> {''defaults'', pendingDirName} \<Longrightarrow> C @ n # ys \<notin> set L1)"
  shows "\<exists>t'' cleared'. walk_entries (host_entry dx dirs)
      (map (\<lambda>q. entry_of (''config'' @ ''/'' @ rel_path (drop (length C) q)) (the (node_at s q))) L2) None cleared h t' = (Inr cleared', t'') \<and>
    restored_to s C t R (set (exported s C skip)) t''"
  using L r cl
proof (induction L2 arbitrary: L1 t' cleared)
  case Nil
  then show ?case by (simp add: op_ret_def)
next
  case (Cons q L2)
  have q: "q \<in> set (exported s C skip)" using Cons.prems(1) by simp
  then have "q \<in> set (below s C)" by (simp add: exported_def)
  then obtain xs nd where xs: "xs \<noteq> []" "q = C @ xs" "node_at s q = Some nd" using node_below by blast
  have new: "C @ xs \<notin> set L1"
    using Cons.prems(1) distinct_below [of s C] sb xs(2) distinct_filter [of "below s C"]
    by (metis exported_def distinct_append disjoint_iff list.set_intros(1) sound_below_def)
  have past: "C @ ys \<in> set L1" if ys: "ys \<noteq> []" "strict_prefix ys xs" for ys
  proof -
    have "C @ ys \<in> set (exported s C skip)" using exported_parents [OF sb _ ys] q xs(2) by blast
    moreover have "strict_prefix (C @ ys) q" using ys xs(2) by (auto simp: strict_prefix_def)
    ultimately show ?thesis using below_filtered [of "\<lambda>q. \<not> filtered_out skip C q" s C] Cons.prems(1)
      unfolding parents_first_def exported_def by metis
  qed
  obtain t2 cleared2 where e: "config_entry dx dirs (entry_of (''config'' @ ''/'' @ rel_path xs) nd) (rel_path xs) cleared h t' = (Inr cleared2, t2)"
      and r2: "restored_to s C t R (insert (C @ xs) (set L1)) t2"
      and c2: "\<not> cleared2 \<longrightarrow> (\<forall>n ys. n \<in> {''defaults'', pendingDirName} \<longrightarrow> C @ n # ys \<notin> insert (C @ xs) (set L1))"
    using config_restores [OF h sb ls Cons.prems(2) _ xs(1) new past Cons.prems(3) t dirs] xs(2,3) by blast
  have pr: "list_all proper xs" using sb xs by (auto simp: sound_below_def)
  have name: "''config'' @ ''/'' @ rel_path xs = rel_path (''config'' # xs)" using xs(1) by (simp add: rel_path_Cons)
  have clean: "sanitizeEntryName (te_Name (entry_of (''config'' @ ''/'' @ rel_path xs) nd)) = Inr (''config/'' @ rel_path xs)"
    using sanitize_slash [of "''config'' # xs"] sanitize_rel [of "''config'' # xs"] pr xs(1) unfolding entry_names name
    by (cases nd) (simp_all add: rel_path_Cons proper_def)
  have host: "host_entry dx dirs e (''config/'' @ rel_path xs) cleared = config_entry dx dirs e (rel_path xs) cleared" for e
    by (simp add: host_entry_def ManifestFileName_def trim_prefix_def has_prefix_iff)
  have "exported s C skip = (L1 @ [q]) @ L2" using Cons.prems(1) by simp
  moreover have "restored_to s C t R (set (L1 @ [q])) t2" using r2 xs(2) by (simp add: insert_commute)
  moreover have "\<not> cleared2 \<Longrightarrow> n \<in> {''defaults'', pendingDirName} \<Longrightarrow> C @ n # ys \<notin> set (L1 @ [q])" for n ys
    using c2 xs(2) by auto
  ultimately obtain t3 cleared3 where "walk_entries (host_entry dx dirs)
        (map (\<lambda>q. entry_of (''config'' @ ''/'' @ rel_path (drop (length C) q)) (the (node_at s q))) L2) None cleared2 h t2 = (Inr cleared3, t3)"
      "restored_to s C t R (set (exported s C skip)) t3"
    using Cons.IH [of "L1 @ [q]" t2 cleared2] by blast
  then show ?case using e clean host xs(2,3) by (simp add: op_simps)
qed

text \<open>C17: What is exported is restored.  Let the configuration directory be a real directory of a sound tree, whose links all stay
  inside the new directory as written (a link that leaves it, such as an absolute one, stops the import at its entry).
  The entries that an export of it writes on a host that refuses nothing, imported into an empty real directory on such a host,
  bring back exactly the exported tree: every directory, every file with its content and an owner-only mode, every link
  with its target, and nothing of what the export filters out.\<close>

theorem exported_tree_restored:
  assumes "permissive h" "permissive h'" and "C \<noteq> []" "sound_below s C" and "links_stay s C R"
    and "real_dir t R" "\<forall>xs. xs \<noteq> [] \<longrightarrow> node_at t (R @ xs) = None"
    and "proper (backupDirPrefix @ dx_now dx)" and "sd_ConfigDir dirs = abs_path R"
  shows "\<exists>cleared t'. extractHostState dx dirs \<lparr>ts_entries = fst (addTree h s (abs_path C) ''config'' skip), ts_end = None\<rparr> h' t = (Inr cleared, t') \<and>
    (\<forall>p. \<not> prefix R p \<longrightarrow> node_at t' p = node_at t p) \<and>
    (\<forall>xs. xs \<noteq> [] \<longrightarrow> node_at t' (R @ xs) =
       (if filtered_out skip C (C @ xs) then None else map_option restored (node_at s (C @ xs))))"
proof -
  have start: "restored_to s C t R (set []) t" using assms(6,7) by (simp add: restored_to_def)
  obtain t' cleared where t': "walk_entries (host_entry dx dirs)
        (map (\<lambda>q. entry_of (''config'' @ ''/'' @ rel_path (drop (length C) q)) (the (node_at s q))) (exported s C skip)) None False h' t = (Inr cleared, t')"
      "restored_to s C t R (set (exported s C skip)) t'"
    using restore_all [OF assms(2,4,5,8,9) _ start, of skip "exported s C skip" False] by auto
  have "node_at t' (R @ xs) = (if filtered_out skip C (C @ xs) then None else map_option restored (node_at s (C @ xs)))" if "xs \<noteq> []" for xs
    using t'(2) that exported_set [OF that, of C s skip] by (auto simp: restored_to_def)
  moreover have "\<forall>p. \<not> prefix R p \<longrightarrow> node_at t' p = node_at t p" using t'(2) by (simp add: restored_to_def)
  ultimately show ?thesis using t'(1) export_entries [OF assms(1,3,4), of "''config''" skip]
    by (simp add: extractHostState_def walkArchive_def)
qed

subsection \<open>Sample trees\<close>

definition sample_tree :: fs where
  "sample_tree = [([''r''], FDir 0x1ED), ([''r'', ''c''], FDir 0x1C0), ([''r'', ''c'', ''k''], FDir 0x1ED),
     ([''r'', ''c'', ''k'', ''run''], FFile 0x1ED ''#!''), ([''r'', ''c'', ''now''], FLink ''k/run'')]"

definition empty_roots :: fs where
  "empty_roots = [([''r''], FDir 0x1ED), ([''r'', ''c''], FDir 0x1C0), ([''r'', ''d''], FDir 0x1C0), ([''r'', ''s''], FDir 0x1C0)]"

definition open_host :: host where "open_host = \<lparr>ho_deny = (\<lambda>c. None), ho_room = (\<lambda>p. None)\<rparr>"

definition sample_dirs :: stack_dirs where
  "sample_dirs = \<lparr>sd_ConfigDir = ''/r/c'', sd_DataDir = ''/r/d'', sd_scratch = ''/r/s''\<rparr>"

definition sample_defaults :: defaults_env where
  "sample_defaults = \<lparr>dx_sha256Hex = (\<lambda>d. d), dx_marshal = (\<lambda>m. ''{}''), dx_now = ''20260101T000000Z'', dx_stamp = Inr ''s'', dx_render = Inr []\<rparr>"

definition link_free_sample :: tar_stream where
  "link_free_sample = \<lparr>ts_entries = [file_entry_of ''config/a/../x'' 0x1FF ''v'', file_entry_of ''data/y'' 0x1B6 ''w''], ts_end = Some ''unexpected EOF''\<rparr>"

lemma real_dir_iff: "real_dir s p \<longleftrightarrow> list_all proper p \<and> list_all (\<lambda>q. is_dir (node_at s q)) (prefixes p)"
  by (auto simp: real_dir_def list_all_iff in_set_prefixes)

lemma no_link_nodes: "list_all (\<lambda>(q, nd). \<not> is_link (Some nd)) s \<Longrightarrow> \<not> is_link (node_at s p)"
  by (cases "node_at s p") (auto simp: node_at_def list_all_iff dest!: map_of_SomeD split: if_splits)

lemma sample_paths: "abs_path [''r'', ''c''] = ''/r/c''" "abs_path [''r'', ''d''] = ''/r/d''" "abs_path [''r'', ''s''] = ''/r/s''"
  by (code_simp, code_simp, code_simp)

lemma open_permissive: "permissive open_host"
  by (simp add: permissive_def open_host_def)

lemma empty_roots_plain: "plain_tree [[''r'', ''c''], [''r'', ''d''], [''r'', ''s'']] empty_roots"
proof -
  have "list_all (real_dir empty_roots) [[''r'', ''c''], [''r'', ''d''], [''r'', ''s'']]" unfolding real_dir_iff by code_simp
  moreover have "list_all (\<lambda>(q, nd). \<not> is_link (Some nd)) empty_roots" by code_simp
  ultimately show ?thesis using no_link_nodes by (simp add: plain_tree_def)
qed

lemma sample_time: "proper (backupDirPrefix @ dx_now sample_defaults)"
  by code_simp

theorem link_free_import_stays_inside_witness:
  "spared (Some [''r'', ''c'']) [[''r'', ''c''], [''r'', ''d''], [''r'', ''s'']] empty_roots (snd (extractHostState sample_defaults sample_dirs link_free_sample open_host empty_roots)) \<and>
   node_at (snd (extractHostState sample_defaults sample_dirs link_free_sample open_host empty_roots)) [''r'', ''c'', ''x''] = Some (FFile 0x1C0 ''v'')"
proof
  have "no_symlinks link_free_sample" by code_simp
  then show "spared (Some [''r'', ''c'']) [[''r'', ''c''], [''r'', ''d''], [''r'', ''s'']] empty_roots (snd (extractHostState sample_defaults sample_dirs link_free_sample open_host empty_roots))"
    using link_free_import_stays_inside [OF _ empty_roots_plain _ _ sample_time, of link_free_sample sample_dirs open_host]
    by (simp add: sample_dirs_def sample_paths)
  show "node_at (snd (extractHostState sample_defaults sample_dirs link_free_sample open_host empty_roots)) [''r'', ''c'', ''x''] = Some (FFile 0x1C0 ''v'')"
    by code_simp
qed

theorem chained_links_escape_witness:
  "\<exists>s'. extractHostState sample_defaults sample_dirs (chained_links ''evil'' ''#!'') open_host empty_roots = (Inr False, s') \<and>
    node_at s' [''r'', ''evil''] = Some (FFile 0x180 ''#!'')"
proof -
  have "real_dir empty_roots ([''r''] @ [''c''])" unfolding real_dir_iff by code_simp
  moreover have "proper ''evil''" by code_simp
  ultimately show ?thesis
    using chained_links_escape [OF open_permissive, of empty_roots "[''r'']" "''c''" "''evil''" sample_dirs sample_defaults "''#!''"]
    by (simp add: empty_roots_def node_at_def sample_dirs_def sample_paths)
qed

lemma sample_sound: "sound_below sample_tree [''r'', ''c'']"
proof -
  have "real_dir sample_tree [''r'', ''c'']" "gomap sample_tree" unfolding real_dir_iff by (code_simp, simp add: gomap_def sample_tree_def)
  moreover have "proper ''k''" "proper ''run''" "proper ''now''" by (code_simp, code_simp, code_simp)
  ultimately show ?thesis by (auto simp: sound_below_def node_at_def sample_tree_def split: if_splits)
qed

lemma sample_links: "links_stay sample_tree [''r'', ''c''] [''r'', ''s'']"
proof -
  have "\<not> symlinkEscapesRoot (abs_path [''r'', ''s'']) (abs_path [''r'', ''s'', ''now'']) ''k/run''" by code_simp
  then show ?thesis by (auto simp: links_stay_def node_at_def sample_tree_def split: if_splits)
qed

theorem exported_tree_restored_witness:
  "\<exists>cleared t'. extractHostState sample_defaults (sample_dirs\<lparr>sd_ConfigDir := ''/r/s''\<rparr>)
      \<lparr>ts_entries = fst (addTree open_host sample_tree ''/r/c'' ''config'' skipConfigEntry), ts_end = None\<rparr> open_host empty_roots = (Inr cleared, t') \<and>
    node_at t' [''r'', ''s'', ''k'', ''run''] = Some (FFile 0x1C0 ''#!'')"
proof -
  have "real_dir empty_roots [''r'', ''s'']" unfolding real_dir_iff by code_simp
  moreover have "\<forall>xs. xs \<noteq> [] \<longrightarrow> node_at empty_roots ([''r'', ''s''] @ xs) = None" by (simp add: empty_roots_def node_at_def)
  moreover have "sd_ConfigDir (sample_dirs\<lparr>sd_ConfigDir := ''/r/s''\<rparr>) = abs_path [''r'', ''s'']" by (simp add: sample_paths)
  ultimately obtain cleared t' where t': "extractHostState sample_defaults (sample_dirs\<lparr>sd_ConfigDir := ''/r/s''\<rparr>)
      \<lparr>ts_entries = fst (addTree open_host sample_tree (abs_path [''r'', ''c'']) ''config'' skipConfigEntry), ts_end = None\<rparr> open_host empty_roots = (Inr cleared, t')"
    "\<forall>xs. xs \<noteq> [] \<longrightarrow> node_at t' ([''r'', ''s''] @ xs) = (if filtered_out skipConfigEntry [''r'', ''c''] ([''r'', ''c''] @ xs) then None
        else map_option restored (node_at sample_tree ([''r'', ''c''] @ xs)))"
    using exported_tree_restored [OF open_permissive open_permissive _ sample_sound sample_links _ _ sample_time,
        of empty_roots "sample_dirs\<lparr>sd_ConfigDir := ''/r/s''\<rparr>" skipConfigEntry] by (elim meta_impE) auto
  have "(if filtered_out skipConfigEntry [''r'', ''c''] ([''r'', ''c''] @ [''k'', ''run'']) then None
        else map_option restored (node_at sample_tree ([''r'', ''c''] @ [''k'', ''run'']))) = Some (FFile 0x1C0 ''#!'')" by code_simp
  then show ?thesis using t'(1) t'(2) [rule_format, of "[''k'', ''run'']"] by (intro exI conjI) (simp_all add: sample_paths)
qed

end
