(* ===== verification/Spec2Isabelle.thy ===== *)
theory Spec2Isabelle imports BuyerSafety Matcher ForwardAuth Challenge JsonRoundtrip JobProperties SignInSafety PinnedModel VerifierReload
  OfferRules RegistrationSafety PurchaseFiles UnlockSafety ArchiveRoundtrip begin

text \<open>
  Verification of the payment path of obol-stack: how a seller gates a service with x402 payments and
  how a buyer's agent pays for it.

  \<^bold>\<open>The program.\<close>  A seller publishes services behind the verifier (\<open>internal/x402\<close>).  A request is matched
  to a route rule; a paid route answers 402 with the accepted payment options.  A request with a
  payment header goes through the payment middleware (\<open>forwardauth.go\<close>): decode, match an option, verify
  with the facilitator (a third-party service), claim the payment in a registry of payments in use
  (\<open>payment_inuse.go\<close>), run the upstream behind an interceptor that decides when to settle
  (\<open>settlementInterceptor\<close>, with the delivery judgement of \<open>delivery.go\<close>), release the claim.  The buyer
  (\<open>internal/x402/buyer\<close>) is a proxy beside an agent: it sends a request, and on a 402 repeats it with a
  pre-signed voucher from a bounded pool, records what was spent in a file, and routes model names to
  sellers.

  \<^bold>\<open>Foundations.\<close>  \<open>Prelude\<close> (Go maps as association lists, results as sums, time), \<open>GoStrings\<close> and \<open>GoJson\<close>
  (the part of \<open>strings\<close>, \<open>strconv\<close>, \<open>sort\<close>, \<open>encoding/json\<close>, \<open>encoding/base64\<close> and float64 rounding that the code
  uses), \<open>Http\<close> (headers, requests, responses), \<open>X402Types\<close> (records of the SDK's wire types),
  \<open>JsonRoundtrip\<close> (parsing inverts printing).

  \<^bold>\<open>Buyer.\<close>  \<open>BuyerConfig\<close> (\<open>config.go\<close>), \<open>BuyerState\<close> (\<open>state.go\<close>, with the interface \<open>consumed_ledger\<close>),
  \<open>BuyerSigner\<close> (\<open>signer.go\<close>, \<open>types.go\<close>, with the interface \<open>voucher_pool\<close>), \<open>BuyerTransport\<close> (the paying
  \<open>RoundTrip\<close> of \<open>proxy.go\<close>, cut at its network calls, and \<open>encoding.go\<close>), \<open>BuyerProxy\<close> (reload, admin and
  status endpoints, model routing), \<open>BuyerRuns\<close> (interleavings of concurrent paid requests),
  \<open>BuyerSafety\<close> (the properties: vouchers are conserved, spent ones stay spent, at most one voucher per
  request, durability of the consumed file, consistency of the proxy's tables).

  \<^bold>\<open>Seller.\<close>  \<open>Amount\<close> (\<open>internal/schemas/amount.go\<close>: exact decimal prices), \<open>Routes\<close> (\<open>config.go\<close>), \<open>Chains\<close>
  (\<open>chains.go\<close>, \<open>tokens.go\<close>: networks, tokens, construction of requirements), \<open>Matcher\<close> (\<open>matcher.go\<close>,
  \<open>upstream_paths.go\<close>, \<open>quota.go\<close> and the path rewriting of \<open>verifier.go\<close>), \<open>PaymentInUse\<close> (\<open>payment_inuse.go\<close>,
  with the interface \<open>claim_registry\<close>), \<open>Delivery\<close> (\<open>delivery.go\<close>), \<open>Facilitator\<close> (calls of the facilitator
  and their errors), \<open>Settlement\<close> (the interceptor's state and methods, one definition per method),
  \<open>SettlementRuns\<close> (all sequences of operations a handler can perform on the interceptor, with the
  invariant \<open>phase_ok\<close>), \<open>ForwardAuth\<close> (\<open>admit\<close>, \<open>serve\<close> and \<open>finish\<close> of one request and the step relation
  \<open>gate_step\<close> of many), \<open>Challenge\<close> (the 402 response), \<open>SignIn\<close> and \<open>SignInSafety\<close> (\<open>siwx.go\<close>: wallet
  sign-in, nonces and session tokens).  This theory holds the properties of buyer and seller together.

  \<^bold>\<open>The verifier around the gate\<close> (\<open>verifier.go\<close> and the files it calls).  \<open>PublicUrls\<close> (host, scheme and path as
  the client sees them), \<open>RawJson\<close>, \<open>RawText\<close>, \<open>BodyPolicy\<close> and \<open>PinnedModel\<close> (\<open>body_policy.go\<close>: rewriting of JSON
  bodies, with the bytes of the values it keeps), \<open>AuthGate\<close> and \<open>AuthPages\<close> (\<open>authgate.go\<close>: identity headers, the
  401 challenge, the sign-in endpoints), \<open>VerifierState\<close> (\<open>config.go\<close>, \<open>source.go\<close>, \<open>watcher.go\<close>, \<open>load\<close> and
  readiness), \<open>Bazaar\<close> (\<open>bazaar.go\<close>: the discovery extension), \<open>PaymentPage\<close> (\<open>paymentrequired.go\<close>: the values on
  the 402 page), \<open>UpstreamProxy\<close> (the request that is sent upstream), \<open>VerifierEndpoints\<close> (\<open>HandleVerify\<close> and
  \<open>HandleProxy\<close>, the second cut where the middleware or the reverse proxy takes over), \<open>VerifierSafety\<close> (what
  reaches an upstream and with which identity, and that the 402 page shows the price that is charged), \<open>VerifyCheck\<close> (when the ForwardAuth check answers 200),
  \<open>VerifierReload\<close> (guarded prefixes and failed loads).  \<open>UnlockGate\<close> (\<open>authcapture.go\<close>, \<open>unlockgate.go\<close>: the session
  that a payment buys) and \<open>UnlockSafety\<close> (what a session costs, which deadlines a buyer may sign).

  \<^bold>\<open>Job broker\<close> (\<open>internal/jobbroker\<close>).  Paid requests whose answer takes long: the verifier forwards a paid
  submit, the broker stores it, replays it to the upstream and keeps the answer for the holder of the
  job token or the paying wallet.  \<open>JobStore\<close> (\<open>store.go\<close>: the table and its statements, with the interface
  \<open>row_store\<close>), \<open>JobServer\<close> (\<open>server.go\<close>: endpoints and the run of a job, cut where other requests can
  interleave), \<open>JobRuns\<close> (every interleaving of submits, runs, faults, sweeps and restarts),
  \<open>JobProperties\<close> (confidentiality, life cycle, round trip, what a restart leaves behind).  \<open>GoTime\<close> holds
  durations and RFC 3339 times.

  \<^bold>\<open>Offers and purchases\<close> (\<open>internal/monetizeapi\<close>, \<open>internal/serviceoffercontroller\<close>).  The objects in Kubernetes that
  both sides are driven by: \<open>MonetizeTypes\<close> (\<open>types.go\<close>), \<open>OfferSource\<close> (\<open>serviceoffer_source.go\<close>: from the stored offers
  and secrets to the verifier's rules), \<open>OfferRules\<close> (the rules against the routes of the offer, and jobs from the offer
  through the gateway to the broker), \<open>OfferConflicts\<close> (\<open>pathconflict.go\<close>: who owns a path or a hostname, with the
  interface \<open>claimed_resource\<close>), \<open>LiteLlm\<close> (the edits of LiteLLM's model list), \<open>Purchases\<close> (\<open>purchase.go\<close>,
  \<open>purchase_helpers.go\<close>: one reconcile of a purchase), \<open>PurchaseRules\<close> (all runs of users, worker and restarts),
  \<open>PurchaseSafety\<close> (deletion and retries), \<open>PurchaseFiles\<close> (what the controller writes is what the buyer loads).
  \<open>OfferManifests\<close> (\<open>render.go\<close>: the names and objects of an offer), \<open>OfferReconcile\<close> (\<open>controller.go\<close>,
  \<open>agent_resolver.go\<close>, \<open>identity_controller.go\<close>: one reconcile of an offer, as steps over the API server's objects that may fail
  at every call), \<open>OfferReconcileRules\<close> (the calculus for such steps: \<open>gives\<close> for what a success establishes, \<open>keeps\<close> for
  what a step leaves alone, \<open>fails_clean\<close> for what a failure leaves alone) and \<open>OfferSafety\<close> (readiness, publication,
  where routes lead, deletion, failures).  \<open>Erc8004\<close> (\<open>internal/erc8004\<close>: networks, the registration document, the search
  for a registration on a chain), \<open>Registrations\<close> (the other half of \<open>controller.go\<close> with \<open>identity_render.go\<close>: registration
  requests, the agent identity and its published document) and \<open>RegistrationSafety\<close> (where a recorded agent comes from,
  what the document tells, which requests are stuck).

  \<^bold>\<open>Stack backups and defaults\<close> (\<open>internal/stackbackup\<close>, \<open>internal/defaults\<close>).  The files of a stack: \<open>UnixFiles\<close> (directories,
  files and symbolic links, path resolution that follows at most 40 links as Linux does, and the calls of \<open>os\<close>,
  \<open>os.Root\<close> and \<open>path/filepath\<close> that the code makes; each may be refused by the host and a write may stop in the middle),
  \<open>UnixRules\<close> (cleaned paths, Hoare rules \<open>runs\<close> and invariants \<open>holds\<close> of operations), \<open>DefaultsTree\<close> (\<open>preserve.go\<close>: the
  refresh of the infrastructure defaults that keeps hand-edited files, pending copies, the way for a restored tree),
  \<open>StackArchive\<close> (\<open>tar.go\<close> and the extraction of \<open>import.go\<close>: what an export writes into the archive and what an import
  writes to disk), \<open>ArchiveSafety\<close> (where an import can write) and \<open>ArchiveRoundtrip\<close> (an exported tree is restored).

  \<^bold>\<open>How the lemmas are organised.\<close>  Each component has its operations, an invariant with one preservation
  lemma per operation, and where another component relies on it a locale with the laws it promises,
  interpreted on the code's definitions: the consumed file for the reload of the proxy, the voucher
  pool for concurrent requests, the claim registry for the gate.  The gate refines the registry:
  \<open>registry_view\<close> maps a run of requests to a run of the registry and \<open>gate_refines_registry\<close> shows that
  every step is one, so exclusion is proved once.

  \<^bold>\<open>Conventions.\<close>  Mutexes make a method atomic, so a method is a function from state to state; what runs
  between two methods is left to the environment (step relations).  Loops of the source are
  structural recursion or recursion with a length measure, so every function here is total and no
  fuel is needed but for the 40 links of a path.  A request's outcome that depends on the network (answers of the facilitator and of
  the upstream, failing writes to the client or the disk, the clock) is an argument, and the theorems
  hold for all of its values.

  \<^bold>\<open>Limits of the properties.\<close>  A payment is followed by its bytes: \<open>paid_by\<close> ties what the facilitator is sent to the
  header of the request.  One payment at a time is proved for EIP-3009 authorizations (\<open>same_authorization\<close>); other payments
  are told apart by the registry's key only, and a Permit2 payment can have several.  The exclusion of a settled payment ends with
  its deadline or with the registry's cap, whichever is sooner.  A buyer's pod that does not answer counts as one without the
  upstream.  An agent that comes from a recorded transaction is what its receipt says, without a look at owner or document.
  The safety of an import is for archives without links and directories without links; with links there is an
  archive that escapes.  The restoration of an export is for links that stay inside.

  \<^bold>\<open>Parameters.\<close>  Code that is not in the repository: the SDK's printing and parsing of payments, the
  facilitator, SHA-256, gzip, and of the Go library \<open>url.Parse\<close>, the shortest printing of floats and
  \<open>strconv.Quote\<close>.  Strings are bytes; case folding and white space are those of ASCII.

  \<^bold>\<open>Not modelled.\<close>  Log lines and metric labels where nothing else depends on them, HTML pages and the discovery
  site's catalog, YAML decoding, Kubernetes informers, process start-up.  The command line with the packages that it drives
  (\<open>cmd/obol\<close>, \<open>internal/stack\<close>, \<open>internal/tunnel\<close>, \<open>internal/hermes\<close>, \<open>internal/app\<close>, \<open>internal/network\<close>, \<open>internal/agent*\<close>)
  is left out: it renders templates and starts helm, kubectl, k3d, cloudflared and docker, so its results are those of
  programs that are not in the repository.  Of a stack backup the gzip and tar formats, the wallets, the cluster's part and
  the rewriting of restored paths are left out; of the defaults their rendering, which is a parameter.
\<close>

section \<open>Buyer and seller together\<close>

subsection \<open>Network names\<close>

lemma normalize_agree: "NormalizeNetworkID n = normalizeNetworkID n"
  by (simp add: NormalizeNetworkID_def normalizeNetworkID_def Let_def ChainBaseMainnet_def ChainBaseSepolia_def
      ChainEthereumMainnet_def ChainPolygonMainnet_def ChainPolygonAmoy_def ChainAvalancheMainnet_def
      ChainAvalancheFuji_def ChainArbitrumOne_def ChainArbitrumSepolia_def)

text \<open>Every name that the seller resolves.\<close>

definition chain_names :: "string list" where
  "chain_names = [''base'', ''base-mainnet'', ''base-sepolia'', ''ethereum'', ''ethereum-mainnet'', ''mainnet'', ''polygon'',
     ''polygon-mainnet'', ''polygon-amoy'', ''avalanche'', ''avalanche-mainnet'', ''avalanche-fuji'', ''arbitrum-one'',
     ''arbitrum'', ''arbitrum-sepolia''] @ map ci_CAIP2Network allChains"

lemma names_normalize:
  "list_all (\<lambda>n. case ResolveChainInfo n of Some c \<Rightarrow> normalizeNetworkID n = ci_CAIP2Network c | None \<Rightarrow> False) chain_names"
  by code_simp

lemma Resolve_names: "ResolveChainInfo n = Some c \<Longrightarrow> n \<in> set chain_names"
  by (auto simp: ResolveChainInfo_def chain_names_def allChains_def split: if_splits)

lemma Resolve_normalize: "ResolveChainInfo n = Some c \<Longrightarrow> normalizeNetworkID n = ci_CAIP2Network c"
  using names_normalize Resolve_names [of n c] by (fastforce simp: list_all_iff)

subsection \<open>Requirements of a seller\<close>













lemma base64_encode_Nil [simp]: "base64_encode s = [] \<longleftrightarrow> s = []"
  by (cases s rule: base64_encode.cases) simp_all


subsection \<open>Sample data\<close>












subsection \<open>Properties\<close>



text \<open>The receipt that the seller writes into the response headers is what the buyer reads: decoding
  gives back every field, without an error, whatever bytes the fields hold.\<close>

theorem receipt_roundtrip:
  "DecodeSettlement (base64_encode (marshal_settle r)) =
     (\<lparr>se_success = sr_Success r, se_errorReason = sr_ErrorReason r, se_transaction = sr_Transaction r,
       se_network = sr_Network r, se_payer = sr_Payer r\<rparr>, False)"
proof -
  define kvs where "kvs = [(''success'', JBool (sr_Success r))] @
      (if sr_ErrorReason r = [] then [] else [(''errorReason'', JStr (sr_ErrorReason r))]) @
      (if sr_ErrorMessage r = [] then [] else [(''errorMessage'', JStr (sr_ErrorMessage r))]) @
      [(''transaction'', JStr (sr_Transaction r)), (''network'', JStr (sr_Network r))] @
      (if sr_Payer r = [] then [] else [(''payer'', JStr (sr_Payer r))])"
  have "number_free (JObj kvs)" by (simp add: kvs_def)
  then have p: "json_parse (marshal_settle r) = Some (JObj kvs)"
    unfolding marshal_settle_def kvs_def by (rule json_roundtrip)
  have f: "bool_field ''success'' kvs = (sr_Success r, False)" "str_field ''errorReason'' kvs = (sr_ErrorReason r, False)"
      "str_field ''transaction'' kvs = (sr_Transaction r, False)" "str_field ''network'' kvs = (sr_Network r, False)"
      "str_field ''payer'' kvs = (sr_Payer r, False)"
    by (simp_all add: kvs_def bool_field_def str_field_def field_values_def equal_fold_def to_lower_def)
  show ?thesis by (simp add: DecodeSettlement_def base64_roundtrip p f)
qed

text \<open>Buyer and seller agree on networks: both normalise every name in the same way, and to the CAIP-2
  identifier of the chain that the seller resolves it to.\<close>

theorem networks_agree:
  "NormalizeNetworkID n = normalizeNetworkID n \<and> (ResolveChainInfo n = Some c \<longrightarrow> normalizeNetworkID n = ci_CAIP2Network c)"
  using normalize_agree Resolve_normalize by blast

end
